(* ===== verification/Prelude.thy ===== *)
theory Prelude
  imports Main "HOL-Library.Word" "HOL-Library.List_Lexorder" "HOL-Library.Char_ord"
begin

text \<open>
  Shared vocabulary of the development: the theorem collections the component proofs use, the
  machine integer types, results as sums, and the two ordered containers of the Rust standard
  library that the mission engine is built on. \<open>BTreeMap\<close> is an association list with
  strictly increasing keys and \<open>BTreeSet\<close> a strictly increasing list, so that iteration order,
  and with it every digest computed by iterating, is the order of the source.
  The contract the clients rely on is the locale \<open>ordered_map\<close>.
\<close>

section \<open>Theorem collections\<close>

named_theorems bmap_simps \<open>lookup, key and order laws of the ordered map\<close>
named_theorems bset_simps \<open>membership and order laws of the ordered set\<close>
named_theorems digest_simps \<open>the bytes a canonical digest has absorbed\<close>
named_theorems step_inv \<open>preservation of the component invariants\<close>

section \<open>Machine integers\<close>

type_synonym u8 = "8 word"
type_synonym u16 = "16 word"
type_synonym u32 = "32 word"
type_synonym u64 = "64 word"

definition u64_saturating_sub :: "u64 \<Rightarrow> u64 \<Rightarrow> u64" where
  "u64_saturating_sub a b = (if a < b then 0 else a - b)"

definition u32_saturating_add1 :: "u32 \<Rightarrow> u32" where
  "u32_saturating_add1 a = (if a = - 1 then - 1 else a + 1)"

definition u32_checked_add1 :: "u32 \<Rightarrow> u32 option" where
  "u32_checked_add1 a = (if a = - 1 then None else Some (a + 1))"

definition u64_checked_add1 :: "u64 \<Rightarrow> u64 option" where
  "u64_checked_add1 a = (if a = - 1 then None else Some (a + 1))"

lemma word_plus1_greater:
  fixes a :: "'a::len word"
  assumes "a \<noteq> - 1"
  shows "a < a + 1"
proof -
  from assms have "1 + a \<noteq> 0"
    by (metis add.commute add_eq_0_iff)
  then have "unat (1 + a) = Suc (unat a)"
    by (rule unatSuc)
  then show ?thesis
    by (simp add: word_less_nat_alt add.commute)
qed

lemma u64_checked_add1_Some:
  "u64_checked_add1 a = Some b \<Longrightarrow> unat b = Suc (unat a) \<and> a < b"
proof -
  assume "u64_checked_add1 a = Some b"
  then have b: "b = a + 1" and "a \<noteq> - 1"
    by (auto simp: u64_checked_add1_def split: if_splits)
  then have "1 + a \<noteq> 0"
    by (metis add.commute add_eq_0_iff)
  then show ?thesis
    using b \<open>a \<noteq> - 1\<close> word_plus1_greater [of a] unatSuc [of a] by (simp add: add.commute)
qed

lemma u32_checked_add1_Some:
  "u32_checked_add1 a = Some b \<Longrightarrow> unat b = Suc (unat a) \<and> a < b"
proof -
  assume "u32_checked_add1 a = Some b"
  then have b: "b = a + 1" and "a \<noteq> - 1"
    by (auto simp: u32_checked_add1_def split: if_splits)
  then have "1 + a \<noteq> 0"
    by (metis add.commute add_eq_0_iff)
  then show ?thesis
    using b \<open>a \<noteq> - 1\<close> word_plus1_greater [of a] unatSuc [of a] by (simp add: add.commute)
qed

lemma u64_saturating_sub_le: "u64_saturating_sub a b \<le> a"
  by (auto simp: u64_saturating_sub_def word_le_nat_alt unat_sub not_less)

lemmas word_eval = word_le_nat_alt word_less_nat_alt

section \<open>Results\<close>

text \<open>
  \<open>Result<T, E>\<close> is the sum \<open>'e + 'a\<close>, \<open>Inl\<close> the error; \<open>?\<close> is \<open>rbind\<close>.
\<close>

fun rbind :: "'e + 'a \<Rightarrow> ('a \<Rightarrow> 'e + 'b) \<Rightarrow> 'e + 'b" where
  "rbind (Inl e) f = Inl e"
| "rbind (Inr a) f = f a"

fun ok_or :: "'e \<Rightarrow> 'a option \<Rightarrow> 'e + 'a" where
  "ok_or e None = Inl e"
| "ok_or e (Some a) = Inr a"

fun map_err :: "('e \<Rightarrow> 'f) \<Rightarrow> 'e + 'a \<Rightarrow> 'f + 'a" where
  "map_err f (Inl e) = Inl (f e)"
| "map_err f (Inr a) = Inr a"

lemma rbind_Inr_iff: "rbind m f = Inr b \<longleftrightarrow> (\<exists>a. m = Inr a \<and> f a = Inr b)"
  by (cases m) auto

lemma ok_or_Inr_iff: "ok_or e m = Inr a \<longleftrightarrow> m = Some a"
  by (cases m) auto

lemma map_err_Inr_iff: "map_err f m = Inr a \<longleftrightarrow> m = Inr a"
  by (cases m) auto

lemmas result_iffs = rbind_Inr_iff ok_or_Inr_iff map_err_Inr_iff

text \<open>A loop that stops at the first error: \<open>for x in xs { f(x)?; }\<close>.\<close>

fun check_all :: "('a \<Rightarrow> 'e + unit) \<Rightarrow> 'a list \<Rightarrow> 'e + unit" where
  "check_all f [] = Inr ()"
| "check_all f (x # xs) = rbind (f x) (\<lambda>_. check_all f xs)"

lemma check_all_ok_iff: "check_all f xs = Inr () \<longleftrightarrow> (\<forall>x\<in>set xs. f x = Inr ())"
  by (induction xs) (auto simp: rbind_Inr_iff)

section \<open>Ordered maps\<close>

type_synonym ('k, 'v) bmap = "('k \<times> 'v) list"

definition bm_ok :: "('k::linorder, 'v) bmap \<Rightarrow> bool" where
  "bm_ok m \<longleftrightarrow> sorted_wrt (<) (map fst m)"

definition bm_get :: "('k, 'v) bmap \<Rightarrow> 'k \<Rightarrow> 'v option" where
  "bm_get m k = map_of m k"

fun bm_insert :: "'k::linorder \<Rightarrow> 'v \<Rightarrow> ('k, 'v) bmap \<Rightarrow> ('k, 'v) bmap" where
  "bm_insert k v [] = [(k, v)]"
| "bm_insert k v ((k', v') # m) =
     (if k < k' then (k, v) # (k', v') # m
      else if k = k' then (k, v) # m
      else (k', v') # bm_insert k v m)"

definition bm_remove :: "'k \<Rightarrow> ('k, 'v) bmap \<Rightarrow> ('k, 'v) bmap" where
  "bm_remove k m = filter (\<lambda>e. fst e \<noteq> k) m"

definition bm_values :: "('k, 'v) bmap \<Rightarrow> 'v list" where
  "bm_values m = map snd m"

definition bm_keys :: "('k, 'v) bmap \<Rightarrow> 'k list" where
  "bm_keys m = map fst m"

text \<open>\<open>if let Some(v) = m.get_mut(k) { *v = f(v) }\<close> and \<open>for v in m.values_mut() { .. }\<close>.\<close>

definition bm_adjust :: "'k \<Rightarrow> ('v \<Rightarrow> 'v) \<Rightarrow> ('k, 'v) bmap \<Rightarrow> ('k, 'v) bmap" where
  "bm_adjust k f m = map (\<lambda>(k', v). (k', if k' = k then f v else v)) m"

definition bm_map_values :: "('v \<Rightarrow> 'w) \<Rightarrow> ('k, 'v) bmap \<Rightarrow> ('k, 'w) bmap" where
  "bm_map_values f m = map (\<lambda>(k, v). (k, f v)) m"

definition bm_collect :: "('k::linorder \<times> 'v) list \<Rightarrow> ('k, 'v) bmap" where
  "bm_collect kvs = fold (\<lambda>(k, v). bm_insert k v) kvs []"

lemma bm_get_Nil [simp]: "bm_get [] k = None"
  by (simp add: bm_get_def)

lemma bm_ok_Nil [simp]: "bm_ok []"
  by (simp add: bm_ok_def)

lemma bm_get_insert [simp, bmap_simps]:
  "bm_get (bm_insert k v m) k' = (if k' = k then Some v else bm_get m k')"
  by (induction m) (auto simp: bm_get_def)

lemma set_keys_insert [simp]: "fst ` set (bm_insert k v m) = insert k (fst ` set m)"
  by (induction k v m rule: bm_insert.induct) auto

lemma bm_ok_insert [simp, bmap_simps]: "bm_ok m \<Longrightarrow> bm_ok (bm_insert k v m)"
proof (induction m)
  case Nil
  then show ?case by (simp add: bm_ok_def)
next
  case (Cons e m)
  obtain k' v' where e: "e = (k', v')" by (cases e)
  have rest: "bm_ok m" and above: "\<forall>x \<in> fst ` set m. k' < x"
    using Cons.prems by (auto simp: bm_ok_def e)
  show ?case
    using Cons.IH [OF rest] rest above set_keys_insert [of k v m]
    by (fastforce simp: bm_ok_def e)
qed

lemma bm_get_remove [simp, bmap_simps]:
  "bm_get (bm_remove k m) k' = (if k' = k then None else bm_get m k')"
  by (induction m) (auto simp: bm_get_def bm_remove_def)

lemma bm_ok_remove [simp, bmap_simps]: "bm_ok m \<Longrightarrow> bm_ok (bm_remove k m)"
  by (induction m) (auto simp: bm_ok_def bm_remove_def)

lemma bm_get_adjust [simp, bmap_simps]:
  "bm_get (bm_adjust k f m) k' = (if k' = k then map_option f (bm_get m k') else bm_get m k')"
  by (induction m) (auto simp: bm_get_def bm_adjust_def)

lemma keys_adjust [simp]: "map fst (bm_adjust k f m) = map fst m"
  by (simp add: bm_adjust_def comp_def case_prod_beta)

lemma bm_ok_adjust [simp, bmap_simps]: "bm_ok (bm_adjust k f m) = bm_ok m"
  by (simp add: bm_ok_def)

lemma bm_get_map_values [simp, bmap_simps]:
  "bm_get (bm_map_values f m) k = map_option f (bm_get m k)"
  by (induction m) (auto simp: bm_get_def bm_map_values_def)

lemma keys_map_values [simp]: "map fst (bm_map_values f m) = map fst m"
  by (simp add: bm_map_values_def comp_def case_prod_beta)

lemma bm_ok_map_values [simp, bmap_simps]: "bm_ok (bm_map_values f m) = bm_ok m"
  by (simp add: bm_ok_def)

lemma bm_ok_Cons:
  "bm_ok ((k, v) # m) \<longleftrightarrow> (\<forall>k' \<in> fst ` set m. k < k') \<and> bm_ok m"
  by (auto simp: bm_ok_def)

lemma bm_ok_distinct: "bm_ok m \<Longrightarrow> distinct (map fst m)"
  by (auto simp: bm_ok_def strict_sorted_iff)

lemma bm_get_iff_entry: "bm_ok m \<Longrightarrow> bm_get m k = Some v \<longleftrightarrow> (k, v) \<in> set m"
  by (simp add: bm_get_def bm_ok_distinct)

lemma bm_get_SomeD: "bm_get m k = Some v \<Longrightarrow> (k, v) \<in> set m"
  by (simp add: bm_get_def map_of_SomeD)

lemma bm_values_iff: "bm_ok m \<Longrightarrow> v \<in> set (bm_values m) \<longleftrightarrow> (\<exists>k. bm_get m k = Some v)"
  by (force simp: bm_get_iff_entry bm_values_def)

lemma bm_get_in_values: "bm_get m k = Some v \<Longrightarrow> v \<in> set (bm_values m)"
  by (force simp: bm_values_def dest: bm_get_SomeD)

lemma bm_ok_collect: "bm_ok (bm_collect kvs)"
proof -
  have "bm_ok m \<Longrightarrow> bm_ok (fold (\<lambda>(k, v). bm_insert k v) kvs m)" for m :: "('a \<times> 'b) list"
    by (induction kvs arbitrary: m) auto
  then show ?thesis by (simp add: bm_collect_def)
qed

text \<open>Two ordered maps with the same lookups are the same list: \<open>==\<close> on maps is extensional.\<close>

lemma bm_ext:
  assumes "bm_ok m" and "bm_ok m'" and "\<And>k. bm_get m k = bm_get m' k"
  shows "m = m'"
proof -
  have order: "sorted (map fst m)" "distinct (map fst m)"
    "sorted (map fst m')" "distinct (map fst m')"
    using assms(1,2) by (auto simp: bm_ok_def strict_sorted_iff)
  have "map_of m = map_of m'"
    using assms(3) by (auto simp: bm_get_def)
  then have same: "set m = set m'"
    using order by (simp add: map_of_inject_set)
  then have "inj_on fst (set m \<union> set m')"
    using order by (simp add: distinct_map)
  then show ?thesis
    using order same by (intro map_sorted_distinct_set_unique) auto
qed

lemma bm_get_fold_insert:
  "bm_get (fold (\<lambda>(k, v). bm_insert k v) kvs m) k
     = (case map_of (rev kvs) k of None \<Rightarrow> bm_get m k | Some v \<Rightarrow> Some v)"
  by (induction kvs arbitrary: m) (auto simp: map_add_def split: option.splits)

lemma bm_get_collect: "bm_get (bm_collect kvs) k = map_of (rev kvs) k"
  by (simp add: bm_collect_def bm_get_fold_insert split: option.splits)

lemma bm_collect_sorted: "bm_ok kvs \<Longrightarrow> bm_collect kvs = kvs"
proof (rule bm_ext)
  assume ok: "bm_ok kvs"
  then have "map_of (rev kvs) = map_of kvs"
    using bm_ok_distinct [OF ok] map_of_inject_set [of "rev kvs" kvs] by (simp add: rev_map [symmetric])
  then show "bm_get (bm_collect kvs) k = bm_get kvs k" for k
    by (simp only: bm_get_collect) (simp add: bm_get_def)
qed (simp_all add: bm_ok_collect)

text \<open>
  The contract a client of an ordered map relies on, and what follows from it: overwriting,
  independence of the insertion order, and removal undoing an insertion.
\<close>

locale ordered_map =
  fixes empty :: "'m"
    and get :: "'m \<Rightarrow> 'k \<Rightarrow> 'v option"
    and put :: "'k \<Rightarrow> 'v \<Rightarrow> 'm \<Rightarrow> 'm"
    and del :: "'k \<Rightarrow> 'm \<Rightarrow> 'm"
    and ok :: "'m \<Rightarrow> bool"
  assumes get_empty: "get empty k = None"
    and get_put: "get (put k v m) k' = (if k' = k then Some v else get m k')"
    and get_del: "get (del k m) k' = (if k' = k then None else get m k')"
    and ok_empty: "ok empty"
    and ok_put: "ok m \<Longrightarrow> ok (put k v m)"
    and ok_del: "ok m \<Longrightarrow> ok (del k m)"
    and ok_ext: "ok m \<Longrightarrow> ok m' \<Longrightarrow> (\<And>k. get m k = get m' k) \<Longrightarrow> m = m'"
begin

lemma put_overwrites: "ok m \<Longrightarrow> put k v (put k w m) = put k v m"
  by (rule ok_ext) (auto simp: ok_put get_put)

lemma put_commutes: "ok m \<Longrightarrow> k \<noteq> l \<Longrightarrow> put k v (put l w m) = put l w (put k v m)"
  by (rule ok_ext) (auto simp: ok_put get_put)

lemma put_present: "ok m \<Longrightarrow> get m k = Some v \<Longrightarrow> put k v m = m"
  by (rule ok_ext) (auto simp: ok_put get_put)

lemma del_undoes_put: "ok m \<Longrightarrow> get m k = None \<Longrightarrow> del k (put k v m) = m"
  by (rule ok_ext) (auto simp: ok_put ok_del get_put get_del)

lemma del_absent: "ok m \<Longrightarrow> get m k = None \<Longrightarrow> del k m = m"
  by (rule ok_ext) (auto simp: ok_del get_del)

end

interpretation btree: ordered_map "[]" bm_get bm_insert bm_remove bm_ok
  by unfold_locales (auto intro: bm_ext)

section \<open>Ordered sets\<close>

type_synonym 'a bset = "'a list"

definition bs_ok :: "'a::linorder bset \<Rightarrow> bool" where
  "bs_ok s \<longleftrightarrow> sorted_wrt (<) s"

fun bs_insert :: "'a::linorder \<Rightarrow> 'a bset \<Rightarrow> 'a bset" where
  "bs_insert x [] = [x]"
| "bs_insert x (y # ys) =
     (if x < y then x # y # ys else if x = y then y # ys else y # bs_insert x ys)"

definition bs_extend :: "'a::linorder bset \<Rightarrow> 'a list \<Rightarrow> 'a bset" where
  "bs_extend s xs = fold bs_insert xs s"

definition bs_collect :: "'a::linorder list \<Rightarrow> 'a bset" where
  "bs_collect xs = bs_extend [] xs"

definition bs_difference :: "'a bset \<Rightarrow> 'a bset \<Rightarrow> 'a bset" where
  "bs_difference s t = filter (\<lambda>x. x \<notin> set t) s"

lemma bs_ok_Nil [simp]: "bs_ok []"
  by (simp add: bs_ok_def)

lemma set_bs_insert [simp, bset_simps]: "set (bs_insert x s) = insert x (set s)"
  by (induction s) auto

lemma bs_ok_insert [simp, bset_simps]: "bs_ok s \<Longrightarrow> bs_ok (bs_insert x s)"
  by (induction s) (auto simp: bs_ok_def)

lemma set_bs_extend [simp, bset_simps]: "set (bs_extend s xs) = set s \<union> set xs"
  by (induction xs arbitrary: s) (auto simp: bs_extend_def)

lemma bs_ok_extend [simp, bset_simps]: "bs_ok s \<Longrightarrow> bs_ok (bs_extend s xs)"
  by (induction xs arbitrary: s) (auto simp: bs_extend_def)

lemma set_bs_collect [simp, bset_simps]: "set (bs_collect xs) = set xs"
  by (simp add: bs_collect_def)

lemma bs_ok_collect [simp, bset_simps]: "bs_ok (bs_collect xs)"
  by (simp add: bs_collect_def)

lemma set_bs_difference [simp, bset_simps]: "set (bs_difference s t) = set s - set t"
  by (auto simp: bs_difference_def)

lemma bs_ext: "bs_ok s \<Longrightarrow> bs_ok t \<Longrightarrow> set s = set t \<Longrightarrow> s = t"
  by (metis bs_ok_def strict_sorted_equal)

lemma bm_keys_ok: "bm_ok m \<Longrightarrow> bs_ok (bm_keys m)"
  by (simp add: bm_ok_def bs_ok_def bm_keys_def)

section \<open>Machines: runs of fallible steps\<close>

text \<open>
  A stateful component processes a sequence of inputs; the first refused input stops the run.
  \<open>step_machine\<close> is the interface of a component whose steps keep an invariant, and
  \<open>monotone_machine\<close> of one whose steps also never go backwards in some order.
\<close>

fun run_all :: "('e \<Rightarrow> 's \<Rightarrow> 'err + 's) \<Rightarrow> 'e list \<Rightarrow> 's \<Rightarrow> 'err + 's" where
  "run_all step [] s = Inr s"
| "run_all step (e # es) s = rbind (step e s) (run_all step es)"

lemma run_all_append:
  "run_all step (xs @ ys) s = rbind (run_all step xs s) (run_all step ys)"
proof (induction xs arbitrary: s)
  case Nil
  then show ?case by simp
next
  case (Cons x xs)
  then show ?case by (cases "step x s") auto
qed

lemma run_all_snoc:
  "run_all step (xs @ [x]) s = rbind (run_all step xs s) (step x)"
proof -
  have "rbind (step x t) Inr = step x t" for t
    by (cases "step x t") auto
  moreover have "run_all step [x] = (\<lambda>t. rbind (step x t) Inr)"
  proof
    fix t
    show "run_all step [x] t = rbind (step x t) Inr"
      by (cases "step x t") auto
  qed
  ultimately have "run_all step [x] = step x" by simp
  then show ?thesis by (simp add: run_all_append)
qed

lemma run_all_total: "run_all (\<lambda>e s. Inr (step e s)) es s = Inr (fold step es s)"
  by (induction es arbitrary: s) auto

locale step_machine =
  fixes step :: "'e \<Rightarrow> 's \<Rightarrow> 'err + 's"
    and inv :: "'s \<Rightarrow> bool"
  assumes step_keeps: "inv s \<Longrightarrow> step e s = Inr s' \<Longrightarrow> inv s'"
begin

lemma run_keeps: "inv s \<Longrightarrow> run_all step es s = Inr s' \<Longrightarrow> inv s'"
proof (induction es arbitrary: s)
  case Nil
  then show ?case by simp
next
  case (Cons e es)
  then obtain t where "step e s = Inr t" and "run_all step es t = Inr s'"
    by (auto simp: rbind_Inr_iff)
  then show ?case
    using Cons.IH Cons.prems(1) step_keeps by blast
qed

end

locale monotone_machine = step_machine step inv
  for step :: "'e \<Rightarrow> 's \<Rightarrow> 'err + 's" and inv :: "'s \<Rightarrow> bool" +
  fixes le :: "'s \<Rightarrow> 's \<Rightarrow> bool"
  assumes le_refl: "inv s \<Longrightarrow> le s s"
    and le_trans: "le s t \<Longrightarrow> le t u \<Longrightarrow> le s u"
    and step_le: "inv s \<Longrightarrow> step e s = Inr s' \<Longrightarrow> le s s'"
begin

lemma run_le: "inv s \<Longrightarrow> run_all step es s = Inr s' \<Longrightarrow> le s s'"
proof (induction es arbitrary: s)
  case Nil
  then show ?case by (simp add: le_refl)
next
  case (Cons e es)
  then obtain t where "step e s = Inr t" and "run_all step es t = Inr s'"
    by (auto simp: rbind_Inr_iff)
  then show ?case
    using Cons.IH Cons.prems(1) step_keeps step_le le_trans by blast
qed

end

end
