(* ===== verification/Rust_Std.thy ===== *)
theory Rust_Std
  imports Prelude
begin

unbundle bit_operations_syntax

text \<open>
  What the sources use of the Rust language and its standard library on text and bytes.
  A \<open>String\<close> is the list of its UTF-8 bytes (\<open>string\<close>, one \<open>char\<close> per byte), so
  \<open>len()\<close> is the length of the list; \<open>chars()\<close> decodes it to code points, on which
  \<open>is_whitespace\<close>, \<open>is_control\<close> and \<open>trim\<close> are defined.
  Integers are written big-endian as \<open>to_be_bytes\<close> does.
\<close>

section \<open>Characters\<close>

definition ascii_code :: "char \<Rightarrow> nat" where
  "ascii_code c = of_char c"

lemma ascii_code_less: "ascii_code c < 256"
  unfolding ascii_code_def by (metis of_char_mod_256 mod_less_divisor zero_less_numeral)

definition is_ascii_digit :: "char \<Rightarrow> bool" where
  "is_ascii_digit c \<longleftrightarrow> 48 \<le> ascii_code c \<and> ascii_code c \<le> 57"

definition is_ascii_alphanumeric :: "char \<Rightarrow> bool" where
  "is_ascii_alphanumeric c \<longleftrightarrow> is_ascii_digit c
     \<or> 65 \<le> ascii_code c \<and> ascii_code c \<le> 90 \<or> 97 \<le> ascii_code c \<and> ascii_code c \<le> 122"

definition is_ascii_hexdigit :: "char \<Rightarrow> bool" where
  "is_ascii_hexdigit c \<longleftrightarrow> is_ascii_digit c
     \<or> 65 \<le> ascii_code c \<and> ascii_code c \<le> 70 \<or> 97 \<le> ascii_code c \<and> ascii_code c \<le> 102"

definition is_ascii :: "string \<Rightarrow> bool" where
  "is_ascii s \<longleftrightarrow> (\<forall>c \<in> set s. ascii_code c < 128)"

section \<open>UTF-8\<close>

definition utf8_width :: "nat \<Rightarrow> nat" where
  "utf8_width b = (if b < 128 then 1 else if b < 224 then 2 else if b < 240 then 3 else 4)"

definition utf8_lead :: "nat \<Rightarrow> nat" where
  "utf8_lead b = (if b < 128 then b else if b < 224 then b mod 32
     else if b < 240 then b mod 16 else b mod 8)"

definition utf8_code :: "char \<Rightarrow> string \<Rightarrow> nat" where
  "utf8_code c cont =
     foldl (\<lambda>acc d. acc * 64 + ascii_code d mod 64) (utf8_lead (ascii_code c)) cont"

fun utf8_chars :: "string \<Rightarrow> nat list" where
  "utf8_chars [] = []"
| "utf8_chars (c # s) =
     (let n = utf8_width (ascii_code c) - 1
      in utf8_code c (take n s) # utf8_chars (drop n s))"

definition len_utf8 :: "nat \<Rightarrow> nat" where
  "len_utf8 cp = (if cp < 128 then 1 else if cp < 2048 then 2 else if cp < 65536 then 3 else 4)"

definition is_whitespace :: "nat \<Rightarrow> bool" where
  "is_whitespace cp \<longleftrightarrow> 9 \<le> cp \<and> cp \<le> 13 \<or> cp = 32 \<or> cp = 133 \<or> cp = 160 \<or> cp = 5760
     \<or> 8192 \<le> cp \<and> cp \<le> 8202 \<or> cp = 8232 \<or> cp = 8233 \<or> cp = 8239 \<or> cp = 8287 \<or> cp = 12288"

definition is_control :: "nat \<Rightarrow> bool" where
  "is_control cp \<longleftrightarrow> cp < 32 \<or> 127 \<le> cp \<and> cp \<le> 159"

text \<open>\<open>trim\<close>, as the code points that are left, and the byte length of the trimmed slice.\<close>

definition trim_chars :: "string \<Rightarrow> nat list" where
  "trim_chars s = rev (dropWhile is_whitespace (rev (dropWhile is_whitespace (utf8_chars s))))"

definition trim_len :: "string \<Rightarrow> nat" where
  "trim_len s = sum_list (map len_utf8 (trim_chars s))"

definition is_blank :: "string \<Rightarrow> bool" where
  "is_blank s \<longleftrightarrow> trim_chars s = []"

text \<open>The shared test of texts that may span lines: control characters other than \<open>\n \r \t\<close>.\<close>

definition has_unsupported_control :: "string \<Rightarrow> bool" where
  "has_unsupported_control s \<longleftrightarrow>
     (\<exists>cp \<in> set (utf8_chars s). is_control cp \<and> cp \<notin> {10, 13, 9})"

lemma is_blank_iff: "is_blank s \<longleftrightarrow> (\<forall>cp \<in> set (utf8_chars s). is_whitespace cp)"
proof
  assume "is_blank s"
  then have "dropWhile is_whitespace (rev (dropWhile is_whitespace (utf8_chars s))) = []"
    by (simp add: is_blank_def trim_chars_def)
  then have "\<forall>cp \<in> set (dropWhile is_whitespace (utf8_chars s)). is_whitespace cp"
    by (simp add: dropWhile_eq_Nil_conv)
  then have "dropWhile is_whitespace (utf8_chars s) = []"
    by (metis hd_dropWhile list.set_sel(1))
  then show "\<forall>cp \<in> set (utf8_chars s). is_whitespace cp"
    by (simp add: dropWhile_eq_Nil_conv)
next
  assume "\<forall>cp \<in> set (utf8_chars s). is_whitespace cp"
  then have "dropWhile is_whitespace (utf8_chars s) = []"
    using dropWhile_eq_Nil_conv by blast
  then show "is_blank s"
    unfolding is_blank_def trim_chars_def by (simp del: dropWhile_eq_Nil_conv)
qed

lemma is_blank_Nil [simp]: "is_blank []"
  by (simp add: is_blank_iff)

lemma trim_len_0_iff: "trim_len s < 1 \<longleftrightarrow> is_blank s"
proof -
  have "0 < len_utf8 cp" for cp
    by (simp add: len_utf8_def)
  then show ?thesis
    by (cases "trim_chars s") (auto simp: trim_len_def is_blank_def)
qed

section \<open>Paths\<close>

text \<open>\<open>Path::is_absolute\<close> on the Unix platforms the mission runtime supports.\<close>

definition path_is_absolute :: "string \<Rightarrow> bool" where
  "path_is_absolute p \<longleftrightarrow> take 1 p = ''/''"

text \<open>\<open>split\<close> of a string or a slice: the empty string splits into one empty piece.\<close>

fun split_on :: "'a \<Rightarrow> 'a list \<Rightarrow> 'a list list" where
  "split_on d [] = [[]]"
| "split_on d (c # s) =
     (if c = d then [] # split_on d s
      else (case split_on d s of [] \<Rightarrow> [[c]] | w # ws \<Rightarrow> (c # w) # ws))"

fun join_with :: "'a \<Rightarrow> 'a list list \<Rightarrow> 'a list" where
  "join_with d [] = []"
| "join_with d [w] = w"
| "join_with d (w # ws) = w @ d # join_with d ws"

lemma split_on_not_Nil [simp]: "split_on d s \<noteq> []"
  by (induction s) (auto split: list.splits)

lemma split_on_append_sep:
  "d \<notin> set w \<Longrightarrow> split_on d (w @ d # s) = w # split_on d s"
  by (induction w) auto

lemma split_on_no_sep: "d \<notin> set w \<Longrightarrow> split_on d w = [w]"
  by (induction w) auto

lemma split_on_parts_no_sep: "w \<in> set (split_on d s) \<Longrightarrow> d \<notin> set w"
proof (induction s arbitrary: w)
  case Nil
  then show ?case by simp
next
  case (Cons c s)
  then show ?case
    by (cases "split_on d s") (auto split: if_splits)
qed

lemma split_join:
  "ws \<noteq> [] \<Longrightarrow> (\<And>w. w \<in> set ws \<Longrightarrow> d \<notin> set w) \<Longrightarrow> split_on d (join_with d ws) = ws"
  by (induction d ws rule: join_with.induct) (auto simp: split_on_append_sep split_on_no_sep)

section \<open>Bytes\<close>

definition bytes_of :: "string \<Rightarrow> u8 list" where
  "bytes_of s = map of_char s"

lemma unat_of_char: "unat (of_char c :: u8) = of_char c"
proof -
  have "unat (of_nat (of_char c) :: u8) = of_char c mod 256"
    by (simp add: unat_of_nat del: of_char_mod_256)
  then show ?thesis
    by (simp add: of_nat_of_char)
qed

lemma inj_of_char_u8: "inj (of_char :: char \<Rightarrow> u8)"
  by (rule injI) (metis of_char_eq_iff unat_of_char)

lemma bytes_of_inject [simp]: "bytes_of s = bytes_of t \<longleftrightarrow> s = t"
  by (simp add: bytes_of_def inj_of_char_u8 inj_map_eq_map)

lemma length_bytes_of [simp]: "length (bytes_of s) = length s"
  by (simp add: bytes_of_def)

text \<open>\<open>to_be_bytes\<close> of an \<open>n\<close>-byte unsigned integer and its inverse.\<close>

fun be_bytes :: "nat \<Rightarrow> nat \<Rightarrow> u8 list" where
  "be_bytes 0 x = []"
| "be_bytes (Suc n) x = be_bytes n (x div 256) @ [of_nat (x mod 256)]"

definition from_be :: "u8 list \<Rightarrow> nat" where
  "from_be bs = foldl (\<lambda>acc b. acc * 256 + unat b) 0 bs"

lemma length_be_bytes [simp]: "length (be_bytes n x) = n"
  by (induction n arbitrary: x) auto

lemma from_be_be_bytes: "x < 256 ^ n \<Longrightarrow> from_be (be_bytes n x) = x"
proof (induction n arbitrary: x)
  case 0
  then show ?case by (simp add: from_be_def)
next
  case (Suc n)
  then have "x div 256 < 256 ^ n"
    by (simp add: less_mult_imp_div_less mult.commute)
  then have "from_be (be_bytes n (x div 256)) = x div 256"
    by (rule Suc.IH)
  moreover have "unat (of_nat (x mod 256) :: u8) = x mod 256"
    by (simp add: unat_of_nat)
  ultimately show ?case
    by (simp add: from_be_def)
qed

lemma be_bytes_inject:
  "x < 256 ^ n \<Longrightarrow> y < 256 ^ n \<Longrightarrow> be_bytes n x = be_bytes n y \<longleftrightarrow> x = y"
  by (metis from_be_be_bytes)

lemma from_be_snoc: "from_be (bs @ [b]) = from_be bs * 256 + unat b"
  by (simp add: from_be_def)

lemma be_bytes_from_be: "be_bytes (length bs) (from_be bs) = bs"
proof (induction bs rule: rev_induct)
  case Nil
  then show ?case by simp
next
  case (snoc b bs)
  have "unat b < 256"
    using unsigned_less [of b, where ?'a = nat] by simp
  then have "(from_be bs * 256 + unat b) div 256 = from_be bs"
    and "(from_be bs * 256 + unat b) mod 256 = unat b"
    by simp_all
  then show ?case
    using snoc by (simp add: from_be_snoc)
qed

lemma be_bytes_u64_inject: "be_bytes 8 (unat a) = be_bytes 8 (unat b) \<longleftrightarrow> a = (b :: u64)"
proof -
  have "unat w < 256 ^ 8" for w :: u64
    using unsigned_less [of w, where ?'a = nat] by simp
  then show ?thesis
    by (metis be_bytes_inject word_unat_eq_iff)
qed

section \<open>Hexadecimal\<close>

definition hex_digit :: "nat \<Rightarrow> char" where
  "hex_digit n = ''0123456789abcdef'' ! n"

definition hex_byte :: "u8 \<Rightarrow> string" where
  "hex_byte b = [hex_digit (unat (drop_bit 4 b)), hex_digit (unat (b AND 15))]"

definition hex_encode :: "u8 list \<Rightarrow> string" where
  "hex_encode bs = concat (map hex_byte bs)"

lemma hex_nibbles: "unat (drop_bit 4 b) = unat b div 16" "unat (b AND 15) = unat b mod 16"
  for b :: u8
proof -
  show "unat (drop_bit 4 b) = unat b div 16"
    by (simp add: drop_bit_eq_div unat_div)
  have "b AND 15 = take_bit 4 b"
    by (simp add: take_bit_eq_mask mask_eq_exp_minus_1)
  then show "unat (b AND 15) = unat b mod 16"
    by (simp add: unsigned_take_bit_eq take_bit_eq_mod unat_mod)
qed

lemma hex_digit_inject: "m < 16 \<Longrightarrow> n < 16 \<Longrightarrow> hex_digit m = hex_digit n \<longleftrightarrow> m = n"
proof -
  have "distinct ''0123456789abcdef''" by simp
  then show "m < 16 \<Longrightarrow> n < 16 \<Longrightarrow> ?thesis"
    by (simp add: hex_digit_def nth_eq_iff_index_eq)
qed

lemma hex_digit_is_hexdigit: "n < 16 \<Longrightarrow> is_ascii_hexdigit (hex_digit n)"
proof -
  have "\<forall>c \<in> set ''0123456789abcdef''. is_ascii_hexdigit c"
    by (simp add: is_ascii_hexdigit_def is_ascii_digit_def ascii_code_def)
  moreover have "length ''0123456789abcdef'' = 16" by simp
  ultimately show "n < 16 \<Longrightarrow> ?thesis"
    unfolding hex_digit_def by (metis nth_mem)
qed

lemma unat_u8_less: "unat (b :: u8) < 256"
  using unsigned_less [of b, where ?'a = nat] by simp

lemma hex_byte_inject: "hex_byte a = hex_byte b \<longleftrightarrow> a = b"
proof
  assume "hex_byte a = hex_byte b"
  then have "unat a div 16 = unat b div 16" "unat a mod 16 = unat b mod 16"
    using unat_u8_less [of a] unat_u8_less [of b]
    by (auto simp: hex_byte_def hex_nibbles hex_digit_inject less_mult_imp_div_less)
  then show "a = b"
    by (metis div_mult_mod_eq word_unat_eq_iff)
qed simp

lemma length_hex_encode [simp]: "length (hex_encode bs) = 2 * length bs"
  by (induction bs) (auto simp: hex_encode_def hex_byte_def)

lemma hex_encode_inject: "hex_encode as = hex_encode bs \<longleftrightarrow> as = bs"
proof
  show "hex_encode as = hex_encode bs \<Longrightarrow> as = bs"
  proof (induction as arbitrary: bs)
    case Nil
    then show ?case by (cases bs) (auto simp: hex_encode_def hex_byte_def)
  next
    case (Cons a as)
    then obtain b bs' where bs: "bs = b # bs'"
      by (cases bs) (auto simp: hex_encode_def hex_byte_def)
    have "hex_byte a @ hex_encode as = hex_byte b @ hex_encode bs'"
      using Cons.prems by (simp add: bs hex_encode_def)
    then have "hex_byte a = hex_byte b" "hex_encode as = hex_encode bs'"
      by (auto simp: hex_byte_def)
    then show ?case
      using Cons.IH by (simp add: bs hex_byte_inject)
  qed
qed simp

lemma hex_encode_hexdigits: "\<forall>c \<in> set (hex_encode bs). is_ascii_hexdigit c"
  using unat_u8_less
  by (auto simp: hex_encode_def hex_byte_def hex_nibbles less_mult_imp_div_less
      intro!: hex_digit_is_hexdigit)

end
