(* ===== verification/Digest.thy ===== *)
theory Digest
  imports Rust_Std
begin

text \<open>
  \<open>src/mission/digest.rs\<close>: the length-delimited, domain-separated input of every SHA-256
  digest of the mission engine. SHA-256 itself (crate \<open>sha2\<close>) is the parameter \<open>sha\<close>;
  the streaming hasher is the bytes it has absorbed. The theory shows that the encoding is
  injective on field sequences and on domains, so two different subjects never feed the hash
  the same bytes: a digest can only be confused by a collision of the hash itself.
\<close>

type_synonym sha256 = "u8 list \<Rightarrow> u8 list"

definition hash32 :: "sha256 \<Rightarrow> bool" where
  "hash32 sha \<longleftrightarrow> (\<forall>bs. length (sha bs) = 32)"

record canonical_digest =
  hasher :: "u8 list"

definition cd_bytes :: "u8 list \<Rightarrow> canonical_digest \<Rightarrow> canonical_digest" where
  "cd_bytes value d = d\<lparr>hasher := (hasher d @ be_bytes 8 (length value)) @ value\<rparr>"

definition cd_new :: "string \<Rightarrow> canonical_digest" where
  "cd_new domain =
     cd_bytes (bytes_of domain)
       (cd_bytes (bytes_of ''mission-authority-canonical-v1'') \<lparr>hasher = []\<rparr>)"

definition cd_string :: "string \<Rightarrow> canonical_digest \<Rightarrow> canonical_digest" where
  "cd_string value d = cd_bytes (bytes_of value) d"

definition cd_bool :: "bool \<Rightarrow> canonical_digest \<Rightarrow> canonical_digest" where
  "cd_bool value d = cd_bytes [if value then 1 else 0] d"

definition cd_u8 :: "u8 \<Rightarrow> canonical_digest \<Rightarrow> canonical_digest" where
  "cd_u8 value d = cd_bytes [value] d"

definition cd_u64 :: "u64 \<Rightarrow> canonical_digest \<Rightarrow> canonical_digest" where
  "cd_u64 value d = cd_bytes (be_bytes 8 (unat value)) d"

definition cd_i32 :: "32 word \<Rightarrow> canonical_digest \<Rightarrow> canonical_digest" where
  "cd_i32 value d = cd_bytes (be_bytes 4 (unat value)) d"

text \<open>\<open>xs.len() as u64\<close>, and a loop that absorbs every element of a list.\<close>

definition cd_len :: "'a list \<Rightarrow> canonical_digest \<Rightarrow> canonical_digest" where
  "cd_len xs d = cd_u64 (of_nat (length xs)) d"

definition cd_strings :: "string list \<Rightarrow> canonical_digest \<Rightarrow> canonical_digest" where
  "cd_strings xs d = fold cd_string xs d"

definition cd_finish :: "sha256 \<Rightarrow> canonical_digest \<Rightarrow> string" where
  "cd_finish sha d = hex_encode (sha (hasher d))"

section \<open>The absorbed bytes\<close>

definition frame :: "u8 list \<Rightarrow> u8 list" where
  "frame v = be_bytes 8 (length v) @ v"

definition frames :: "u8 list list \<Rightarrow> u8 list" where
  "frames vs = concat (map frame vs)"

definition addressable :: "u8 list list \<Rightarrow> bool" where
  "addressable vs \<longleftrightarrow> (\<forall>v \<in> set vs. length v < 2 ^ 64)"

lemma hasher_cd_bytes [digest_simps]: "hasher (cd_bytes v d) = hasher d @ frame v"
  by (simp add: cd_bytes_def frame_def)

lemma hasher_cd_string [digest_simps]: "hasher (cd_string s d) = hasher d @ frame (bytes_of s)"
  by (simp add: cd_string_def hasher_cd_bytes)

lemma hasher_cd_bool [digest_simps]:
  "hasher (cd_bool b d) = hasher d @ frame [if b then 1 else 0]"
  by (simp add: cd_bool_def hasher_cd_bytes)

lemma hasher_cd_u8 [digest_simps]: "hasher (cd_u8 b d) = hasher d @ frame [b]"
  by (simp add: cd_u8_def hasher_cd_bytes)

lemma hasher_cd_u64 [digest_simps]:
  "hasher (cd_u64 w d) = hasher d @ frame (be_bytes 8 (unat w))"
  by (simp add: cd_u64_def hasher_cd_bytes)

lemma hasher_cd_i32 [digest_simps]:
  "hasher (cd_i32 w d) = hasher d @ frame (be_bytes 4 (unat w))"
  by (simp add: cd_i32_def hasher_cd_bytes)

lemma hasher_cd_len [digest_simps]:
  "hasher (cd_len xs d) = hasher d @ frame (be_bytes 8 (unat (of_nat (length xs) :: u64)))"
  by (simp add: cd_len_def hasher_cd_u64)

lemma hasher_cd_strings [digest_simps]:
  "hasher (cd_strings xs d) = hasher d @ frames (map bytes_of xs)"
  by (induction xs arbitrary: d) (auto simp: cd_strings_def frames_def hasher_cd_string)

lemma frames_simps [digest_simps]:
  "frames [] = []"
  "frames (v # vs) = frame v @ frames vs"
  by (simp_all add: frames_def)

lemma frames_append: "frames (vs @ ws) = frames vs @ frames ws"
  by (simp add: frames_def)

lemma frame_append_inject:
  assumes "length v < 2 ^ 64" and "length w < 2 ^ 64" and "frame v @ xs = frame w @ ys"
  shows "v = w" and "xs = ys"
proof -
  have "be_bytes 8 (length v) = be_bytes 8 (length w)" and rest: "v @ xs = w @ ys"
    using assms(3) by (auto simp: frame_def append_eq_append_conv)
  then have "length v = length w"
    using assms(1,2) be_bytes_inject [of "length v" 8 "length w"] by simp
  then show "v = w" and "xs = ys"
    using rest by auto
qed

lemma frame_not_Nil: "frame v \<noteq> []"
  by (metis frame_def length_0_conv length_append length_be_bytes add_is_0 zero_neq_numeral)

lemma frames_inject:
  "addressable vs \<Longrightarrow> addressable ws \<Longrightarrow> frames vs = frames ws \<Longrightarrow> vs = ws"
proof (induction vs arbitrary: ws)
  case Nil
  then show ?case by (cases ws) (auto simp: frames_simps frame_not_Nil)
next
  case (Cons v vs)
  then obtain w ws' where ws: "ws = w # ws'"
    by (cases ws) (auto simp: frames_simps frame_not_Nil)
  have eq: "frame v @ frames vs = frame w @ frames ws'"
    using Cons.prems(3) by (simp add: ws frames_simps)
  have lens: "length v < 2 ^ 64" "length w < 2 ^ 64"
    using Cons.prems(1,2) by (auto simp: ws addressable_def)
  have "v = w" "frames vs = frames ws'"
    using frame_append_inject [OF lens eq] by auto
  moreover have "addressable vs" "addressable ws'"
    using Cons.prems(1,2) by (auto simp: ws addressable_def)
  ultimately have "v = w" "vs = ws'"
    using Cons.IH [of ws'] by blast+
  then show ?case by (simp add: ws)
qed

definition canonical_prefix :: "string \<Rightarrow> u8 list list" where
  "canonical_prefix domain = [bytes_of ''mission-authority-canonical-v1'', bytes_of domain]"

lemma hasher_cd_new [digest_simps]: "hasher (cd_new domain) = frames (canonical_prefix domain)"
  by (simp add: cd_new_def hasher_cd_bytes frames_def canonical_prefix_def)

text \<open>
  A subject hashed under a domain: the interface every digest of the engine implements. The
  law is that the field list determines the subject; what follows is that equal digests mean equal
  subjects, unless the hash itself collides on the two inputs.
\<close>

definition subject_input :: "string \<Rightarrow> u8 list list \<Rightarrow> u8 list" where
  "subject_input domain parts = frames (canonical_prefix domain @ parts)"

definition subject_digest_of :: "sha256 \<Rightarrow> string \<Rightarrow> u8 list list \<Rightarrow> string" where
  "subject_digest_of sha domain parts = hex_encode (sha (subject_input domain parts))"

lemma subject_input_inject:
  assumes "addressable (bytes_of a # xs)" and "addressable (bytes_of b # ys)"
    and "subject_input a xs = subject_input b ys"
  shows "a = b \<and> xs = ys"
proof -
  have "addressable (canonical_prefix a @ xs)" "addressable (canonical_prefix b @ ys)"
    using assms(1,2) by (auto simp: addressable_def canonical_prefix_def)
  then have "canonical_prefix a @ xs = canonical_prefix b @ ys"
    using assms(3) frames_inject by (simp add: subject_input_def)
  then show ?thesis by (simp add: canonical_prefix_def)
qed

locale canonical_subject =
  fixes domain :: string
    and parts :: "'a \<Rightarrow> u8 list list"
    and valid :: "'a \<Rightarrow> bool"
  assumes domain_short: "length domain < 2 ^ 64"
    and parts_addressable: "valid x \<Longrightarrow> addressable (parts x)"
    and parts_determine: "valid x \<Longrightarrow> valid y \<Longrightarrow> parts x = parts y \<Longrightarrow> x = y"
begin

lemma distinct_inputs:
  assumes "valid x" and "valid y" and "x \<noteq> y"
  shows "subject_input domain (parts x) \<noteq> subject_input domain (parts y)"
proof
  assume "subject_input domain (parts x) = subject_input domain (parts y)"
  moreover have "addressable (bytes_of domain # parts x)" "addressable (bytes_of domain # parts y)"
    using assms domain_short parts_addressable by (auto simp: addressable_def)
  ultimately have "parts x = parts y"
    using subject_input_inject by blast
  then show False
    using assms parts_determine by blast
qed

lemma digest_determines:
  assumes "valid x" and "valid y"
    and "inj_on sha {subject_input domain (parts x), subject_input domain (parts y)}"
    and "subject_digest_of sha domain (parts x) = subject_digest_of sha domain (parts y)"
  shows "x = y"
proof (rule ccontr)
  assume "x \<noteq> y"
  then have "subject_input domain (parts x) \<noteq> subject_input domain (parts y)"
    using distinct_inputs assms(1,2) by blast
  moreover have "sha (subject_input domain (parts x)) = sha (subject_input domain (parts y))"
    using assms(4) by (simp add: subject_digest_of_def hex_encode_inject)
  ultimately show False
    using assms(3) by (auto simp: inj_on_def)
qed

end

end
