(* ===== verification/Proof_Identity.thy ===== *)
theory Proof_Identity
  imports Digest
begin

text \<open>
  The identity a closure proof is bound to and the errors of \<open>src/mission/proof.rs\<close>. Evidence
  records carry the digest of this identity, so it comes before \<open>Evidence\<close>.
\<close>

datatype proof_error =
    EmptyIdentity | InvalidBaseRevision | ReportNotVerified | InvalidClosurePlan
  | InvalidAuthoritySequence | AuthorityBindingMismatch

record proof_identity =
  pi_mission_id :: string
  pi_run_id :: string
  pi_repository_identity :: string
  pi_worktree_identity :: string
  pi_base_revision :: string

text \<open>The test of a full Git object id, 40 or 64 hexadecimal digits.\<close>

definition valid_revision :: "string \<Rightarrow> bool" where
  "valid_revision revision \<longleftrightarrow>
     length revision \<in> {40, 64} \<and> list_all is_ascii_hexdigit revision"

definition proof_identity_new ::
  "string \<Rightarrow> string \<Rightarrow> string \<Rightarrow> string \<Rightarrow> string \<Rightarrow> proof_error + proof_identity" where
  "proof_identity_new mission_id run_id repository worktree base_revision =
     (if list_ex is_blank [mission_id, run_id, repository, worktree] then Inl EmptyIdentity
      else if \<not> valid_revision base_revision then Inl InvalidBaseRevision
      else Inr \<lparr>pi_mission_id = mission_id, pi_run_id = run_id,
                 pi_repository_identity = repository, pi_worktree_identity = worktree,
                 pi_base_revision = base_revision\<rparr>)"

definition identity_digest :: "sha256 \<Rightarrow> proof_identity \<Rightarrow> string" where
  "identity_digest sha identity =
     cd_finish sha
       (cd_string (pi_base_revision identity)
       (cd_string (pi_worktree_identity identity)
       (cd_string (pi_repository_identity identity)
       (cd_string (pi_run_id identity)
       (cd_string (pi_mission_id identity)
       (cd_new ''mission-proof-identity-v1''))))))"

definition identity_parts :: "proof_identity \<Rightarrow> u8 list list" where
  "identity_parts identity = map bytes_of
     [pi_mission_id identity, pi_run_id identity, pi_repository_identity identity,
      pi_worktree_identity identity, pi_base_revision identity]"

definition identity_small :: "proof_identity \<Rightarrow> bool" where
  "identity_small identity \<longleftrightarrow> addressable (identity_parts identity)"

lemma identity_digest_eq:
  "identity_digest sha identity
     = subject_digest_of sha ''mission-proof-identity-v1'' (identity_parts identity)"
  by (simp add: identity_digest_def subject_digest_of_def subject_input_def cd_finish_def
      identity_parts_def frames_append digest_simps)

interpretation proof_id: canonical_subject "''mission-proof-identity-v1''" identity_parts
  identity_small
  by unfold_locales
     (auto simp: identity_parts_def identity_small_def intro: proof_identity.equality)

end
