(* ===== verification/Evidence.thy ===== *)
theory Evidence
  imports Proof_Identity
begin

text \<open>
  \<open>src/mission/evidence.rs\<close>: the checks a mission declares, the workspace snapshots and the
  evidence records that are assessed against them. Paths are normalised lexically; a check is
  bound to its evidence by the digest of its declaration and of the proof identity.
\<close>

section \<open>Path contracts\<close>

text \<open>The loop over \<open>value.split('/')\<close>: empty and \<open>.\<close> components are dropped, \<open>..\<close> is refused.\<close>

fun collect_components :: "string list \<Rightarrow> string list option" where
  "collect_components [] = Some []"
| "collect_components (c # cs) =
     (if c = [] \<or> c = ''.'' then collect_components cs
      else if c = ''..'' then None
      else map_option ((#) c) (collect_components cs))"

definition path_chars_ok :: "string \<Rightarrow> bool" where
  "path_chars_ok value \<longleftrightarrow>
     list_all (\<lambda>c. ascii_code c \<noteq> 0 \<and> ascii_code c \<noteq> 92 \<and> c \<noteq> CHR '':'') value"

definition normalize_contract_path :: "string \<Rightarrow> bool \<Rightarrow> string option" where
  "normalize_contract_path value allow_root =
     (if value = [] \<or> length value > 4 * 1024 \<or> \<not> path_chars_ok value
         \<or> take 1 value = ''/'' then None
      else case collect_components (split_on CHR ''/'' value) of
        None \<Rightarrow> None
      | Some [] \<Rightarrow> if allow_root then Some ''.'' else None
      | Some components \<Rightarrow> Some (join_with CHR ''/'' components))"

definition valid_relative_contract_path :: "string \<Rightarrow> bool \<Rightarrow> bool" where
  "valid_relative_contract_path value allow_root \<longleftrightarrow>
     normalize_contract_path value allow_root = Some value"

definition unwrap_or :: "'a \<Rightarrow> 'a option \<Rightarrow> 'a" where
  "unwrap_or d r = (case r of None \<Rightarrow> d | Some a \<Rightarrow> a)"

definition valid_contract_id :: "string \<Rightarrow> bool" where
  "valid_contract_id value \<longleftrightarrow> value \<noteq> [] \<and> length value \<le> 128
     \<and> list_all (\<lambda>c. is_ascii_alphanumeric c \<or> c \<in> set ''_.:-'') value"

definition valid_sha256 :: "string \<Rightarrow> bool" where
  "valid_sha256 value \<longleftrightarrow> length value = 64 \<and> list_all is_ascii_hexdigit value"

section \<open>Checks\<close>

record command_spec =
  cs_program :: string
  cs_args :: "string list"
  cs_cwd :: string

definition command_spec_new :: "string \<Rightarrow> string list \<Rightarrow> string \<Rightarrow> command_spec" where
  "command_spec_new program args cwd =
     \<lparr>cs_program = program, cs_args = args,
      cs_cwd = unwrap_or cwd (normalize_contract_path cwd True)\<rparr>"

definition command_update_digest :: "command_spec \<Rightarrow> canonical_digest \<Rightarrow> canonical_digest" where
  "command_update_digest command d =
     cd_string (cs_cwd command)
       (cd_strings (cs_args command)
       (cd_len (cs_args command)
       (cd_string (cs_program command) d)))"

datatype path_rule = All | Exact string | Prefix string

definition rule_exact :: "string \<Rightarrow> path_rule" where
  "rule_exact path = Exact (unwrap_or path (normalize_contract_path path False))"

definition rule_prefix :: "string \<Rightarrow> path_rule" where
  "rule_prefix prefix =
     (case normalize_contract_path prefix True of
        Some p \<Rightarrow> if p = ''.'' then All else Prefix p
      | None \<Rightarrow> Prefix prefix)"

text \<open>\<open>trim_end_matches('/')\<close> and \<open>strip_prefix\<close>.\<close>

definition trim_end_slashes :: "string \<Rightarrow> string" where
  "trim_end_slashes s = rev (dropWhile (\<lambda>c. c = CHR ''/'') (rev s))"

definition strip_prefix :: "string \<Rightarrow> string \<Rightarrow> string option" where
  "strip_prefix p s = (if take (length p) s = p then Some (drop (length p) s) else None)"

fun rule_matches :: "path_rule \<Rightarrow> string \<Rightarrow> bool" where
  "rule_matches All path = True"
| "rule_matches (Exact expected) path = (path = expected)"
| "rule_matches (Prefix prefix) path =
     (let prefix = trim_end_slashes prefix
      in prefix \<noteq> [] \<and> (path = prefix
           \<or> (case strip_prefix prefix path of None \<Rightarrow> False
              | Some suffix \<Rightarrow> take 1 suffix = ''/'')))"

fun rule_update :: "path_rule \<Rightarrow> canonical_digest \<Rightarrow> canonical_digest" where
  "rule_update All d = cd_u8 0 d"
| "rule_update (Exact path) d = cd_string path (cd_u8 1 d)"
| "rule_update (Prefix prefix) d = cd_string prefix (cd_u8 2 d)"

definition rule_digest :: "sha256 \<Rightarrow> path_rule \<Rightarrow> string" where
  "rule_digest sha rule = cd_finish sha (rule_update rule (cd_new ''mission-path-rule-v1''))"

record artifact_requirement =
  ar_path :: string

definition artifact_requirement_new :: "string \<Rightarrow> artifact_requirement" where
  "artifact_requirement_new path =
     \<lparr>ar_path = unwrap_or path (normalize_contract_path path False)\<rparr>"

datatype check_kind = CheckCommand command_spec | CheckManual

record check_declaration =
  ck_id :: string
  ck_kind :: check_kind
  ck_relevant_paths :: "path_rule list"
  ck_required_artifacts :: "artifact_requirement list"
  ck_include_ignored :: bool
  ck_required :: bool
  ck_covered_criteria :: "string bset"
  ck_allowed_reviewers :: "string bset"
  ck_allow_manual_override :: bool

definition check_command ::
  "string \<Rightarrow> command_spec \<Rightarrow> path_rule list \<Rightarrow> artifact_requirement list \<Rightarrow> check_declaration" where
  "check_command check_id command relevant_paths required_artifacts =
     \<lparr>ck_id = check_id, ck_kind = CheckCommand command, ck_relevant_paths = relevant_paths,
      ck_required_artifacts = required_artifacts, ck_include_ignored = False,
      ck_required = True, ck_covered_criteria = [], ck_allowed_reviewers = [],
      ck_allow_manual_override = False\<rparr>"

definition check_manual :: "string \<Rightarrow> check_declaration" where
  "check_manual check_id =
     \<lparr>ck_id = check_id, ck_kind = CheckManual, ck_relevant_paths = [],
      ck_required_artifacts = [], ck_include_ignored = False, ck_required = True,
      ck_covered_criteria = [], ck_allowed_reviewers = [], ck_allow_manual_override = False\<rparr>"

definition check_include_ignored :: "bool \<Rightarrow> check_declaration \<Rightarrow> check_declaration" where
  "check_include_ignored b c = c\<lparr>ck_include_ignored := b\<rparr>"

definition check_optional :: "check_declaration \<Rightarrow> check_declaration" where
  "check_optional c = c\<lparr>ck_required := False\<rparr>"

definition check_covers :: "string list \<Rightarrow> check_declaration \<Rightarrow> check_declaration" where
  "check_covers ids c = c\<lparr>ck_covered_criteria := bs_extend (ck_covered_criteria c) ids\<rparr>"

definition check_reviewed_by :: "string list \<Rightarrow> check_declaration \<Rightarrow> check_declaration" where
  "check_reviewed_by reviewers c =
     c\<lparr>ck_allowed_reviewers := bs_extend (ck_allowed_reviewers c) reviewers\<rparr>"

definition check_allow_manual_override :: "check_declaration \<Rightarrow> check_declaration" where
  "check_allow_manual_override c = c\<lparr>ck_allow_manual_override := True\<rparr>"

definition check_command_spec :: "check_declaration \<Rightarrow> command_spec option" where
  "check_command_spec c =
     (case ck_kind c of CheckCommand command \<Rightarrow> Some command | CheckManual \<Rightarrow> None)"

definition is_manual :: "check_declaration \<Rightarrow> bool" where
  "is_manual c \<longleftrightarrow> check_command_spec c = None"

definition required_artifact_paths :: "check_declaration \<Rightarrow> string list" where
  "required_artifact_paths c = map ar_path (ck_required_artifacts c)"

text \<open>The digests of the path rules are sorted, so their order in the declaration is irrelevant.\<close>

definition sorted_rule_digests :: "sha256 \<Rightarrow> path_rule list \<Rightarrow> string list" where
  "sorted_rule_digests sha rules = sort (map (rule_digest sha) rules)"

definition check_kind_update :: "check_kind \<Rightarrow> canonical_digest \<Rightarrow> canonical_digest" where
  "check_kind_update kind d =
     (case kind of
        CheckCommand command \<Rightarrow> command_update_digest command (cd_u8 0 d)
      | CheckManual \<Rightarrow> cd_u8 1 d)"

definition cd_counted :: "string list \<Rightarrow> canonical_digest \<Rightarrow> canonical_digest" where
  "cd_counted xs d = cd_strings xs (cd_len xs d)"

definition check_digest :: "sha256 \<Rightarrow> check_declaration \<Rightarrow> string" where
  "check_digest sha c =
     cd_finish sha
       (cd_bool (ck_allow_manual_override c)
       (cd_counted (ck_allowed_reviewers c)
       (cd_counted (ck_covered_criteria c)
       (cd_bool (ck_required c)
       (cd_bool (ck_include_ignored c)
       (cd_counted (sort (required_artifact_paths c))
       (cd_counted (sorted_rule_digests sha (ck_relevant_paths c))
       (check_kind_update (ck_kind c)
       (cd_string (ck_id c)
       (cd_new ''mission-check-declaration-v1''))))))))))"

datatype evidence_error =
    InvalidCheckDeclaration | ManualCheckCannotHaveCommandEvidence | InvalidDuration
  | ArtifactNotInWorkspace string | EmptyReviewer | EmptyManualReason | ReviewerNotAllowed

fun rule_is_canonical :: "path_rule \<Rightarrow> bool" where
  "rule_is_canonical All = True"
| "rule_is_canonical (Exact path) = valid_relative_contract_path path False"
| "rule_is_canonical (Prefix prefix) =
     (prefix \<noteq> ''.'' \<and> valid_relative_contract_path prefix False)"

definition has_canonical_path_contracts :: "check_declaration \<Rightarrow> bool" where
  "has_canonical_path_contracts c \<longleftrightarrow>
     list_all rule_is_canonical (ck_relevant_paths c)
     \<and> list_all (\<lambda>a. valid_relative_contract_path (ar_path a) False) (ck_required_artifacts c)
     \<and> (case check_command_spec c of None \<Rightarrow> True
        | Some command \<Rightarrow> valid_relative_contract_path (cs_cwd command) True)"

definition has_nul :: "string \<Rightarrow> bool" where
  "has_nul s \<longleftrightarrow> list_ex (\<lambda>c. ascii_code c = 0) s"

definition validate_kind :: "check_declaration \<Rightarrow> bool" where
  "validate_kind c =
     (case ck_kind c of
        CheckCommand command \<Rightarrow>
          \<not> (is_blank (cs_program command) \<or> length (cs_program command) > 1024
             \<or> has_nul (cs_program command) \<or> length (cs_args command) > 128
             \<or> list_ex (\<lambda>arg. length arg > 4 * 1024 \<or> has_nul arg) (cs_args command)
             \<or> \<not> valid_relative_contract_path (cs_cwd command) True
             \<or> ck_allowed_reviewers c \<noteq> [] \<or> ck_allow_manual_override c)
      | CheckManual \<Rightarrow>
          \<not> (ck_relevant_paths c \<noteq> [] \<or> ck_required_artifacts c \<noteq> []
             \<or> ck_include_ignored c \<or> ck_allowed_reviewers c = []))"

definition validate_persisted :: "check_declaration \<Rightarrow> evidence_error + unit" where
  "validate_persisted c =
     (if \<not> valid_contract_id (ck_id c) \<or> length (ck_covered_criteria c) > 32
      then Inl InvalidCheckDeclaration
      else if length (ck_relevant_paths c) > 64 \<or> length (ck_required_artifacts c) > 32
        \<or> length (ck_allowed_reviewers c) > 32
      then Inl InvalidCheckDeclaration
      else if \<not> has_canonical_path_contracts c then Inl InvalidCheckDeclaration
      else if list_ex (\<lambda>x. \<not> valid_sha256 x) (ck_covered_criteria c)
        \<or> list_ex (\<lambda>x. \<not> valid_contract_id x) (ck_allowed_reviewers c)
      then Inl InvalidCheckDeclaration
      else if \<not> validate_kind c then Inl InvalidCheckDeclaration
      else Inr ())"

definition reviewer_is_allowed :: "check_declaration \<Rightarrow> string \<Rightarrow> bool \<Rightarrow> bool" where
  "reviewer_is_allowed c reviewer is_override \<longleftrightarrow>
     is_manual c \<and> reviewer \<in> set (ck_allowed_reviewers c)
     \<and> (\<not> is_override \<or> ck_allow_manual_override c)"

section \<open>Workspace snapshots\<close>

datatype file_disposition = Tracked | Staged | Unstaged | Untracked | Ignored

record file_fingerprint =
  ff_path :: string
  ff_content_hash :: string
  ff_disposition :: file_disposition

record workspace_snapshot =
  ws_tree_hash :: string
  ws_diff_hash :: string
  ws_files :: "(string, file_fingerprint) bmap"
  ws_artifacts :: "(string, string) bmap"

definition workspace_new ::
  "string \<Rightarrow> string \<Rightarrow> file_fingerprint list \<Rightarrow> workspace_snapshot" where
  "workspace_new tree_hash diff_hash files =
     \<lparr>ws_tree_hash = tree_hash, ws_diff_hash = diff_hash,
      ws_files = bm_collect (map (\<lambda>file. (ff_path file, file)) files), ws_artifacts = []\<rparr>"

definition with_artifacts :: "(string \<times> string) list \<Rightarrow> workspace_snapshot \<Rightarrow> workspace_snapshot" where
  "with_artifacts artifacts ws = ws\<lparr>ws_artifacts := bm_collect artifacts\<rparr>"

definition file_is_relevant :: "path_rule list \<Rightarrow> bool \<Rightarrow> file_fingerprint \<Rightarrow> bool" where
  "file_is_relevant rules include_ignored file \<longleftrightarrow>
     (include_ignored \<or> ff_disposition file \<noteq> Ignored)
     \<and> (rules = [] \<or> list_ex (\<lambda>rule. rule_matches rule (ff_path file)) rules)"

definition relevant_files ::
  "path_rule list \<Rightarrow> bool \<Rightarrow> workspace_snapshot
     \<Rightarrow> (string, string \<times> file_disposition) bmap" where
  "relevant_files rules include_ignored ws =
     bm_collect (map (\<lambda>file. (ff_path file, (ff_content_hash file, ff_disposition file)))
       (filter (file_is_relevant rules include_ignored) (bm_values (ws_files ws))))"

definition artifact_hash :: "workspace_snapshot \<Rightarrow> string \<Rightarrow> string option" where
  "artifact_hash ws path = bm_get (ws_artifacts ws) path"

fun disposition_code :: "file_disposition \<Rightarrow> u8" where
  "disposition_code Tracked = 0"
| "disposition_code Staged = 1"
| "disposition_code Unstaged = 2"
| "disposition_code Untracked = 3"
| "disposition_code Ignored = 4"

definition workspace_digest :: "sha256 \<Rightarrow> workspace_snapshot \<Rightarrow> string" where
  "workspace_digest sha ws =
     cd_finish sha
       (fold (\<lambda>(path, hash) d. cd_string hash (cd_string path d)) (ws_artifacts ws)
       (cd_len (ws_artifacts ws)
       (fold (\<lambda>(path, file) d. cd_u8 (disposition_code (ff_disposition file))
                (cd_string (ff_content_hash file) (cd_string path d))) (ws_files ws)
       (cd_len (ws_files ws)
       (cd_string (ws_diff_hash ws)
       (cd_string (ws_tree_hash ws)
       (cd_new ''mission-workspace-snapshot-v1'')))))))"

end
