(* ===== verification/Evidence_Record.thy ===== *)
theory Evidence_Record
  imports Evidence
begin

text \<open>
  \<open>src/mission/evidence.rs\<close>, second half: command evidence, manual evidence and provider claims,
  how they are recorded and how they are assessed against the current workspace.
\<close>

section \<open>Records\<close>

record artifact_evidence =
  av_path :: string
  av_content_hash :: string
  av_media_type :: string

datatype evidence_status = EvPassed | EvFailed | EvStale

record command_evidence =
  ce_check_id :: string
  ce_declaration_digest :: string
  ce_proof_identity_digest :: string
  ce_command :: command_spec
  ce_base_tree_hash :: string
  ce_result_tree_hash :: string
  ce_diff_hash :: string
  ce_exit_code :: "32 word"
  ce_started_at_millis :: u64
  ce_finished_at_millis :: u64
  ce_artifacts :: "artifact_evidence list"
  ce_verified_workspace :: workspace_snapshot
  ce_relevant_paths :: "path_rule list"
  ce_include_ignored :: bool
  ce_required_artifacts :: "artifact_requirement list"

definition check_required_artifact ::
  "artifact_evidence list \<Rightarrow> workspace_snapshot \<Rightarrow> artifact_requirement \<Rightarrow> evidence_error + unit" where
  "check_required_artifact artifacts after required =
     (case List.find (\<lambda>artifact. av_path artifact = ar_path required) artifacts of
        None \<Rightarrow> Inl (ArtifactNotInWorkspace (ar_path required))
      | Some recorded \<Rightarrow>
          if artifact_hash after (ar_path required) \<noteq> Some (av_content_hash recorded)
          then Inl (ArtifactNotInWorkspace (ar_path required)) else Inr ())"

definition command_evidence_new ::
  "sha256 \<Rightarrow> check_declaration \<Rightarrow> proof_identity \<Rightarrow> workspace_snapshot \<Rightarrow> workspace_snapshot
     \<Rightarrow> 32 word \<Rightarrow> u64 \<Rightarrow> u64 \<Rightarrow> artifact_evidence list \<Rightarrow> evidence_error + command_evidence" where
  "command_evidence_new sha c identity before after exit_code started finished artifacts =
     (if \<not> has_canonical_path_contracts c then Inl InvalidCheckDeclaration
      else rbind (ok_or ManualCheckCannotHaveCommandEvidence (check_command_spec c)) (\<lambda>command.
        if finished < started then Inl InvalidDuration
        else rbind (check_all (check_required_artifact artifacts after) (ck_required_artifacts c))
          (\<lambda>_. Inr \<lparr>ce_check_id = ck_id c, ce_declaration_digest = check_digest sha c,
            ce_proof_identity_digest = identity_digest sha identity, ce_command = command,
            ce_base_tree_hash = ws_tree_hash before, ce_result_tree_hash = ws_tree_hash after,
            ce_diff_hash = ws_diff_hash after, ce_exit_code = exit_code,
            ce_started_at_millis = started, ce_finished_at_millis = finished,
            ce_artifacts = artifacts, ce_verified_workspace = after,
            ce_relevant_paths = ck_relevant_paths c, ce_include_ignored = ck_include_ignored c,
            ce_required_artifacts = ck_required_artifacts c\<rparr>)))"

definition artifact_present ::
  "command_evidence \<Rightarrow> workspace_snapshot \<Rightarrow> artifact_requirement \<Rightarrow> bool" where
  "artifact_present ev current required \<longleftrightarrow>
     list_ex (\<lambda>artifact. av_path artifact = ar_path required
       \<and> artifact_hash current (ar_path required) = Some (av_content_hash artifact))
       (ce_artifacts ev)"

definition status_against :: "command_evidence \<Rightarrow> workspace_snapshot \<Rightarrow> evidence_status" where
  "status_against ev current =
     (if relevant_files (ce_relevant_paths ev) (ce_include_ignored ev) (ce_verified_workspace ev)
         \<noteq> relevant_files (ce_relevant_paths ev) (ce_include_ignored ev) current
      then EvStale
      else if ce_exit_code ev = 0
        \<and> list_all (artifact_present ev current) (ce_required_artifacts ev)
      then EvPassed else EvFailed)"

definition duration_millis :: "command_evidence \<Rightarrow> u64" where
  "duration_millis ev = ce_finished_at_millis ev - ce_started_at_millis ev"

datatype evidence_assessment =
    AsPassed | AsFailed | AsStale | AsDeclarationMismatch | AsIdentityMismatch
  | AsArtifactMissingOrChanged | AsManualNotAuthorized | AsProviderClaimOnly

definition command_assess ::
  "sha256 \<Rightarrow> command_evidence \<Rightarrow> check_declaration \<Rightarrow> proof_identity \<Rightarrow> workspace_snapshot
     \<Rightarrow> evidence_assessment" where
  "command_assess sha ev c identity current =
     (if ce_check_id ev \<noteq> ck_id c \<or> ce_declaration_digest ev \<noteq> check_digest sha c
      then AsDeclarationMismatch
      else if ce_proof_identity_digest ev \<noteq> identity_digest sha identity
      then AsIdentityMismatch
      else case status_against ev current of
        EvPassed \<Rightarrow> AsPassed
      | EvFailed \<Rightarrow>
          (if list_ex (\<lambda>required. list_all (\<lambda>artifact. av_path artifact \<noteq> ar_path required
                \<or> artifact_hash current (ar_path required) \<noteq> Some (av_content_hash artifact))
                (ce_artifacts ev)) (ce_required_artifacts ev)
           then AsArtifactMissingOrChanged else AsFailed)
      | EvStale \<Rightarrow> AsStale)"

record manual_evidence =
  me_check_id :: string
  me_declaration_digest :: string
  me_proof_identity_digest :: string
  me_workspace_digest :: string
  me_author :: string
  me_recorded_at_millis :: u64
  me_reason :: string
  me_is_override :: bool

definition manual_evidence_new ::
  "sha256 \<Rightarrow> check_declaration \<Rightarrow> proof_identity \<Rightarrow> workspace_snapshot \<Rightarrow> string \<Rightarrow> u64 \<Rightarrow> string
     \<Rightarrow> bool \<Rightarrow> evidence_error + manual_evidence" where
  "manual_evidence_new sha c identity workspace author recorded_at reason is_override =
     (if is_blank author then Inl EmptyReviewer
      else if is_blank reason then Inl EmptyManualReason
      else if \<not> reviewer_is_allowed c author is_override then Inl ReviewerNotAllowed
      else Inr \<lparr>me_check_id = ck_id c, me_declaration_digest = check_digest sha c,
        me_proof_identity_digest = identity_digest sha identity,
        me_workspace_digest = workspace_digest sha workspace, me_author = author,
        me_recorded_at_millis = recorded_at, me_reason = reason, me_is_override = is_override\<rparr>)"

definition manual_assess ::
  "sha256 \<Rightarrow> manual_evidence \<Rightarrow> check_declaration \<Rightarrow> proof_identity \<Rightarrow> workspace_snapshot
     \<Rightarrow> evidence_assessment" where
  "manual_assess sha ev c identity current =
     (if me_check_id ev \<noteq> ck_id c \<or> me_declaration_digest ev \<noteq> check_digest sha c
      then AsDeclarationMismatch
      else if me_proof_identity_digest ev \<noteq> identity_digest sha identity
      then AsIdentityMismatch
      else if me_workspace_digest ev \<noteq> workspace_digest sha current then AsStale
      else if \<not> reviewer_is_allowed c (me_author ev) (me_is_override ev)
      then AsManualNotAuthorized
      else AsPassed)"

record provider_claim =
  pc_check_id :: string
  pc_claim :: string
  pc_source :: string
  pc_recorded_at_millis :: u64

datatype evidence_record =
    RecCommand command_evidence | RecManual manual_evidence | RecProviderClaim provider_claim

fun record_check_id :: "evidence_record \<Rightarrow> string" where
  "record_check_id (RecCommand ev) = ce_check_id ev"
| "record_check_id (RecManual ev) = me_check_id ev"
| "record_check_id (RecProviderClaim claim) = pc_check_id claim"

definition record_assess ::
  "sha256 \<Rightarrow> evidence_record \<Rightarrow> check_declaration \<Rightarrow> proof_identity \<Rightarrow> workspace_snapshot
     \<Rightarrow> evidence_assessment" where
  "record_assess sha r c identity current =
     (case r of
        RecCommand ev \<Rightarrow>
          (if \<not> is_manual c then command_assess sha ev c identity current
           else AsDeclarationMismatch)
      | RecManual ev \<Rightarrow>
          (if is_manual c then manual_assess sha ev c identity current
           else AsDeclarationMismatch)
      | RecProviderClaim _ \<Rightarrow> AsProviderClaimOnly)"

definition artifact_evidence_digest :: "sha256 \<Rightarrow> artifact_evidence \<Rightarrow> string" where
  "artifact_evidence_digest sha a =
     cd_finish sha (cd_string (av_media_type a) (cd_string (av_content_hash a)
       (cd_string (av_path a) (cd_new ''mission-artifact-evidence-v1''))))"

definition command_evidence_update ::
  "sha256 \<Rightarrow> command_evidence \<Rightarrow> canonical_digest \<Rightarrow> canonical_digest" where
  "command_evidence_update sha ev d =
     cd_counted (sort (map ar_path (ce_required_artifacts ev)))
       (cd_bool (ce_include_ignored ev)
       (cd_counted (sorted_rule_digests sha (ce_relevant_paths ev))
       (cd_string (workspace_digest sha (ce_verified_workspace ev))
       (cd_counted (sort (map (artifact_evidence_digest sha) (ce_artifacts ev)))
       (cd_u64 (ce_finished_at_millis ev)
       (cd_u64 (ce_started_at_millis ev)
       (cd_i32 (ce_exit_code ev)
       (cd_string (ce_diff_hash ev)
       (cd_string (ce_result_tree_hash ev)
       (cd_string (ce_base_tree_hash ev)
       (command_update_digest (ce_command ev)
       (cd_string (ce_proof_identity_digest ev)
       (cd_string (ce_declaration_digest ev)
       (cd_string (ce_check_id ev)
       (cd_u8 0 d)))))))))))))))"

definition manual_evidence_update ::
  "manual_evidence \<Rightarrow> canonical_digest \<Rightarrow> canonical_digest" where
  "manual_evidence_update ev d =
     cd_bool (me_is_override ev)
       (cd_string (me_reason ev)
       (cd_u64 (me_recorded_at_millis ev)
       (cd_string (me_author ev)
       (cd_string (me_workspace_digest ev)
       (cd_string (me_proof_identity_digest ev)
       (cd_string (me_declaration_digest ev)
       (cd_string (me_check_id ev)
       (cd_u8 1 d))))))))"

definition provider_claim_update ::
  "provider_claim \<Rightarrow> canonical_digest \<Rightarrow> canonical_digest" where
  "provider_claim_update claim d =
     cd_u64 (pc_recorded_at_millis claim)
       (cd_string (pc_source claim)
       (cd_string (pc_claim claim)
       (cd_string (pc_check_id claim)
       (cd_u8 2 d))))"

definition record_digest :: "sha256 \<Rightarrow> evidence_record \<Rightarrow> string" where
  "record_digest sha r =
     cd_finish sha
       (case r of
          RecCommand ev \<Rightarrow> command_evidence_update sha ev (cd_new ''mission-evidence-record-v1'')
        | RecManual ev \<Rightarrow> manual_evidence_update ev (cd_new ''mission-evidence-record-v1'')
        | RecProviderClaim claim \<Rightarrow>
            provider_claim_update claim (cd_new ''mission-evidence-record-v1''))"

datatype mission_readiness = ReadinessReviewRequired | ReadinessVerified

section \<open>Normalised paths\<close>

definition component_ok :: "string \<Rightarrow> bool" where
  "component_ok c \<longleftrightarrow> c \<notin> {[], ''.'', ''..''} \<and> CHR ''/'' \<notin> set c"

lemma collect_components_Some:
  "collect_components cs = Some ds \<Longrightarrow> ds = filter (\<lambda>c. c \<noteq> [] \<and> c \<noteq> ''.'') cs \<and> ''..'' \<notin> set cs"
  by (induction cs arbitrary: ds) (auto split: if_splits)

lemma collect_components_clean:
  "list_all component_ok cs \<Longrightarrow> collect_components cs = Some cs"
  by (induction cs) (auto simp: component_ok_def)

lemma length_join_with:
  "ws \<noteq> [] \<Longrightarrow> Suc (length (join_with d ws)) = sum_list (map (\<lambda>w. Suc (length w)) ws)"
  by (induction d ws rule: join_with.induct) auto

lemma length_split_on:
  "sum_list (map (\<lambda>w. Suc (length w)) (split_on d s)) = Suc (length s)"
proof (induction s)
  case Nil
  then show ?case by simp
next
  case (Cons c s)
  then show ?case by (cases "split_on d s") auto
qed

lemma set_split_on: "w \<in> set (split_on d s) \<Longrightarrow> set w \<subseteq> set s"
proof (induction s arbitrary: w)
  case Nil
  then show ?case by simp
next
  case (Cons c s)
  then show ?case by (cases "split_on d s") (fastforce split: if_splits)+
qed

lemma sum_list_filter_le:
  "sum_list (map f (filter P xs)) \<le> sum_list (map f xs)" for f :: "'a \<Rightarrow> nat"
  by (induction xs) auto

lemma set_join_with: "set (join_with d ws) \<subseteq> insert d (\<Union>(set ` set ws))"
  by (induction d ws rule: join_with.induct) auto

text \<open>A normalised path other than the root is the join of clean components.\<close>

lemma normalize_cases:
  assumes "normalize_contract_path v r = Some p"
  obtains "p = ''.''" and "r"
  | cs where "cs \<noteq> []" and "list_all component_ok cs" and "p = join_with CHR ''/'' cs"
    and "length p \<le> 4096" and "path_chars_ok p"
proof -
  have len: "length v \<le> 4096" and chars: "path_chars_ok v"
    using assms by (auto simp: normalize_contract_path_def split: if_splits)
  obtain cs where cs: "collect_components (split_on CHR ''/'' v) = Some cs"
    using assms by (auto simp: normalize_contract_path_def split: if_splits option.splits)
  have cs_eq: "cs = filter (\<lambda>c. c \<noteq> [] \<and> c \<noteq> ''.'') (split_on CHR ''/'' v)"
    and nodots: "''..'' \<notin> set (split_on CHR ''/'' v)"
    using collect_components_Some [OF cs] by auto
  show ?thesis
  proof (cases cs)
    case Nil
    then show ?thesis
      using assms cs that(1) by (auto simp: normalize_contract_path_def split: if_splits)
  next
    case (Cons c cs')
    have p: "p = join_with CHR ''/'' cs"
      using assms cs Cons by (auto simp: normalize_contract_path_def split: if_splits)
    have "list_all component_ok cs"
      using nodots split_on_parts_no_sep [of _ "CHR ''/''" v]
      by (auto simp: cs_eq list_all_iff component_ok_def)
    moreover have "length p \<le> 4096"
    proof -
      have "Suc (length p) = sum_list (map (\<lambda>w. Suc (length w)) cs)"
        using length_join_with [of cs "CHR ''/''"] Cons by (simp add: p)
      also have "\<dots> \<le> sum_list (map (\<lambda>w. Suc (length w)) (split_on CHR ''/'' v))"
        unfolding cs_eq by (rule sum_list_filter_le)
      also have "\<dots> = Suc (length v)"
        by (rule length_split_on)
      finally show ?thesis using len by simp
    qed
    moreover have "path_chars_ok p"
    proof -
      have slash: "ascii_code CHR ''/'' \<noteq> 0 \<and> ascii_code CHR ''/'' \<noteq> 92 \<and> CHR ''/'' \<noteq> CHR '':''"
        by (simp add: ascii_code_def)
      have "set p \<subseteq> insert CHR ''/'' (set v)"
      proof -
        have "set w \<subseteq> set v" if "w \<in> set cs" for w
          using that set_split_on [of w "CHR ''/''" v] by (simp add: cs_eq)
        then have "\<Union>(set ` set cs) \<subseteq> set v" by blast
        then show ?thesis
          using set_join_with [of "CHR ''/''" cs] unfolding p by blast
      qed
      then show ?thesis
        using chars slash unfolding path_chars_ok_def list_all_iff by blast
    qed
    ultimately show ?thesis
      using that(2) [of cs] p Cons by simp
  qed
qed

lemma join_clean_head:
  assumes "cs \<noteq> []" and "list_all component_ok cs"
  shows "\<exists>x xs. join_with d cs = x # xs \<and> x \<noteq> CHR ''/''"
proof -
  obtain c cs' where cs: "cs = c # cs'" using assms(1) by (cases cs) auto
  then obtain x c' where c: "c = x # c'" and "x \<noteq> CHR ''/''"
    using assms(2) by (cases c) (auto simp: component_ok_def)
  then show ?thesis by (cases cs') (auto simp: cs)
qed

lemma normalize_join:
  assumes "cs \<noteq> []" and "list_all component_ok cs" and "length (join_with CHR ''/'' cs) \<le> 4096"
    and "path_chars_ok (join_with CHR ''/'' cs)"
  shows "normalize_contract_path (join_with CHR ''/'' cs) r = Some (join_with CHR ''/'' cs)"
proof -
  have parts: "split_on CHR ''/'' (join_with CHR ''/'' cs) = cs"
    using assms(1,2) by (intro split_join) (auto simp: list_all_iff component_ok_def)
  obtain x xs where "join_with CHR ''/'' cs = x # xs" and "x \<noteq> CHR ''/''"
    using join_clean_head [OF assms(1,2)] by blast
  then have "take 1 (join_with CHR ''/'' cs) \<noteq> ''/''" and "join_with CHR ''/'' cs \<noteq> []"
    by simp_all
  then show ?thesis
    using assms collect_components_clean [OF assms(2)] parts
    by (simp add: normalize_contract_path_def neq_Nil_conv split: list.split)
qed

lemma root_normal: "normalize_contract_path ''.'' True = Some ''.''"
  by (simp add: normalize_contract_path_def path_chars_ok_def ascii_code_def)

text \<open>
  Normalising a contract path is idempotent and safe: the result is either the root, when
  that is allowed, or a relative path whose components are never empty, \<open>.\<close> or \<open>..\<close>; it is a
  valid contract path itself.
\<close>

theorem normalize_contract_path_safe:
  assumes "normalize_contract_path v r = Some p"
  shows "valid_relative_contract_path p r
    \<and> (p = ''.'' \<and> r \<or> list_all component_ok (split_on CHR ''/'' p))"
  using assms
proof (cases rule: normalize_cases)
  case 1
  then show ?thesis by (simp add: valid_relative_contract_path_def root_normal)
next
  case (2 cs)
  then have "split_on CHR ''/'' p = cs"
    by (auto simp: list_all_iff component_ok_def intro!: split_join)
  then show ?thesis
    using 2 normalize_join [of cs r] by (simp add: valid_relative_contract_path_def)
qed

theorem normalize_contract_path_safe_witness:
  "normalize_contract_path ''src/./a//b'' False = Some ''src/a/b''
   \<and> valid_relative_contract_path ''src/a/b'' False"
  using normalize_contract_path_safe [of "''src/./a//b''" False "''src/a/b''"]
  by (simp add: normalize_contract_path_def path_chars_ok_def ascii_code_def)

lemma valid_path_components:
  assumes "valid_relative_contract_path p False"
  shows "list_all component_ok (split_on CHR ''/'' p)"
  using assms unfolding valid_relative_contract_path_def
proof (cases rule: normalize_cases)
  case (2 cs)
  then show ?thesis
    using split_join [of cs "CHR ''/''"] by (auto simp: list_all_iff component_ok_def)
qed simp

lemma join_split: "join_with d (split_on d s) = s"
proof (induction s)
  case Nil
  then show ?case by simp
next
  case (Cons c s)
  obtain w ws where split: "split_on d s = w # ws"
    using split_on_not_Nil [of d s] by (cases "split_on d s") auto
  show ?case
    using Cons by (cases ws) (auto simp: split)
qed

lemma valid_path_no_trailing_slash:
  assumes "valid_relative_contract_path p False"
  shows "trim_end_slashes p = p \<and> p \<noteq> []"
proof -
  let ?cs = "split_on CHR ''/'' p"
  have ok: "component_ok (last ?cs)"
    using valid_path_components [OF assms] by (simp add: list_all_iff)
  have "\<exists>w. join_with d cs = w @ last cs" if "cs \<noteq> []" for d cs
    using that
  proof (induction d cs rule: join_with.induct)
    case (3 d w v ws)
    then obtain u where "join_with d (v # ws) = u @ last (v # ws)" by auto
    then show ?case by auto
  qed auto
  then obtain w where p: "p = w @ last ?cs"
    by (metis join_split split_on_not_Nil)
  obtain l c where "last ?cs = l @ [c]" and "c \<noteq> CHR ''/''"
    using ok by (cases "last ?cs" rule: rev_cases) (auto simp: component_ok_def)
  then have "p = (w @ l) @ [c]" and "c \<noteq> CHR ''/''"
    using p by simp_all
  then show ?thesis by (simp add: trim_end_slashes_def)
qed

lemma split_on_slash_append:
  "split_on d (p @ d # q) = split_on d p @ split_on d q"
proof (induction p)
  case Nil
  then show ?case by simp
next
  case (Cons c p)
  then show ?case by (cases "split_on d p") auto
qed

lemma join_with_append:
  "as \<noteq> [] \<Longrightarrow> bs \<noteq> [] \<Longrightarrow> join_with d (as @ bs) = join_with d as @ d # join_with d bs"
proof (induction d as rule: join_with.induct)
  case (2 d w)
  then show ?case by (cases bs) auto
qed auto

text \<open>
  A prefix rule with a canonical prefix matches exactly the paths whose component list starts
  with the components of the prefix, so \<open>src\<close> matches \<open>src\<close> and \<open>src/a\<close> but never \<open>src-old\<close>.
\<close>

theorem prefix_rule_matches_components:
  assumes "valid_relative_contract_path prefix False"
  shows "rule_matches (Prefix prefix) path \<longleftrightarrow>
    (\<exists>rest. split_on CHR ''/'' path = split_on CHR ''/'' prefix @ rest)"
proof -
  have canonical: "trim_end_slashes prefix = prefix" "prefix \<noteq> []"
    using valid_path_no_trailing_slash [OF assms] by auto
  have "rule_matches (Prefix prefix) path \<longleftrightarrow>
      path = prefix \<or> (\<exists>q. path = prefix @ CHR ''/'' # q)"
  proof -
    have "take 1 s = ''/'' \<longleftrightarrow> (\<exists>q. s = CHR ''/'' # q)" for s :: string
      by (cases s) auto
    then show ?thesis
      by (auto simp: canonical strip_prefix_def Let_def split: option.splits)
         (metis append_take_drop_id)+
  qed
  moreover have "(\<exists>rest. split_on CHR ''/'' path = split_on CHR ''/'' prefix @ rest) \<longleftrightarrow>
      path = prefix \<or> (\<exists>q. path = prefix @ CHR ''/'' # q)"
  proof
    assume "\<exists>rest. split_on CHR ''/'' path = split_on CHR ''/'' prefix @ rest"
    then obtain rest where split: "split_on CHR ''/'' path = split_on CHR ''/'' prefix @ rest" by blast
    show "path = prefix \<or> (\<exists>q. path = prefix @ CHR ''/'' # q)"
    proof (cases "rest = []")
      case True
      then show ?thesis using split by (metis append_Nil2 join_split)
    next
      case False
      have "path = join_with CHR ''/'' (split_on CHR ''/'' prefix @ rest)"
        using split by (metis join_split)
      also have "\<dots> = prefix @ CHR ''/'' # join_with CHR ''/'' rest"
        using join_with_append [OF split_on_not_Nil False] by (simp add: join_split)
      finally show ?thesis by blast
    qed
  qed (auto simp: split_on_slash_append intro: exI [of _ "[]"])
  ultimately show ?thesis by simp
qed

theorem prefix_rule_matches_components_witness:
  "valid_relative_contract_path ''src'' False
   \<and> (rule_matches (Prefix ''src'') ''src-old/a'' \<longleftrightarrow>
        (\<exists>rest. split_on CHR ''/'' ''src-old/a'' = split_on CHR ''/'' ''src'' @ rest))
   \<and> rule_matches (Prefix ''src'') ''src/a''"
proof -
  have valid: "valid_relative_contract_path ''src'' False"
    by (simp add: valid_relative_contract_path_def normalize_contract_path_def path_chars_ok_def
        ascii_code_def)
  show ?thesis
    using prefix_rule_matches_components [OF valid] valid by simp
qed

section \<open>Freshness\<close>

definition workspace_ok :: "workspace_snapshot \<Rightarrow> bool" where
  "workspace_ok ws \<longleftrightarrow> bm_ok (ws_files ws) \<and> bm_ok (ws_artifacts ws)
     \<and> list_all (\<lambda>(path, file). ff_path file = path) (ws_files ws)"

lemma workspace_new_ok: "workspace_ok (workspace_new t d files)"
proof -
  have "list_all (\<lambda>(path, file). ff_path file = path) (bm_insert (ff_path x) x m)"
    if "list_all (\<lambda>(path, file). ff_path file = path) m" for x m
    using that by (induction "ff_path x" x m rule: bm_insert.induct) auto
  then have "list_all (\<lambda>(path, file). ff_path file = path)
      (fold (\<lambda>(k, v). bm_insert k v) (map (\<lambda>file. (ff_path file, file)) files) m)"
    if "list_all (\<lambda>(path, file). ff_path file = path) m" for m
    using that by (induction files arbitrary: m) auto
  then show ?thesis
    by (simp add: workspace_ok_def workspace_new_def bm_ok_collect) (simp add: bm_collect_def)
qed

lemma with_artifacts_ok: "workspace_ok ws \<Longrightarrow> workspace_ok (with_artifacts arts ws)"
  by (simp add: workspace_ok_def with_artifacts_def bm_ok_collect)

definition relevant_file ::
  "path_rule list \<Rightarrow> bool \<Rightarrow> workspace_snapshot \<Rightarrow> string \<Rightarrow> (string \<times> file_disposition) option" where
  "relevant_file rules include_ignored ws path =
     (case bm_get (ws_files ws) path of
        None \<Rightarrow> None
      | Some file \<Rightarrow>
          if file_is_relevant rules include_ignored file
          then Some (ff_content_hash file, ff_disposition file) else None)"

lemma bm_ok_filter_map:
  "bm_ok m \<Longrightarrow> bm_ok (map (\<lambda>(k, v). (k, g v)) (filter (\<lambda>(k, v). P v) m))"
  by (induction m) (auto simp: bm_ok_def)

lemma relevant_files_eq:
  assumes "workspace_ok ws"
  shows "relevant_files rules ig ws =
    map (\<lambda>(k, v). (k, (ff_content_hash v, ff_disposition v)))
      (filter (\<lambda>(k, v). file_is_relevant rules ig v) (ws_files ws))"
proof -
  have "map (\<lambda>file. (ff_path file, (ff_content_hash file, ff_disposition file)))
          (filter (file_is_relevant rules ig) (bm_values m))
      = map (\<lambda>(k, v). (k, (ff_content_hash v, ff_disposition v)))
          (filter (\<lambda>(k, v). file_is_relevant rules ig v) m)"
    if "list_all (\<lambda>(path, file). ff_path file = path) m" for m
    using that by (induction m) (auto simp: bm_values_def)
  then show ?thesis
    using assms by (simp add: relevant_files_def workspace_ok_def
        bm_collect_sorted [OF bm_ok_filter_map])
qed

lemma bm_get_filter_map:
  "bm_ok m \<Longrightarrow> bm_get (map (\<lambda>(k, v). (k, g v)) (filter (\<lambda>(k, v). P v) m)) path =
     (case bm_get m path of None \<Rightarrow> None | Some v \<Rightarrow> if P v then Some (g v) else None)"
proof (induction m)
  case Nil
  then show ?case by simp
next
  case (Cons e m)
  obtain k v where e: "e = (k, v)" by (cases e)
  have ok: "bm_ok m" and "k \<notin> fst ` set m"
    using Cons.prems by (auto simp: e bm_ok_Cons)
  then have "map_of m k = None"
    by (simp add: map_of_eq_None_iff)
  then show ?case
    using Cons.IH [OF ok] by (cases "k = path") (simp_all add: e bm_get_def)
qed

lemma bm_get_relevant_files:
  "workspace_ok ws \<Longrightarrow> bm_get (relevant_files rules ig ws) path = relevant_file rules ig ws path"
  by (simp add: relevant_files_eq relevant_file_def bm_get_filter_map workspace_ok_def)

lemma relevant_files_ok: "workspace_ok ws \<Longrightarrow> bm_ok (relevant_files rules ig ws)"
  by (simp add: relevant_files_def bm_ok_collect)

text \<open>
  Command evidence is stale exactly when some file that its rules cover differs between the
  workspace it was recorded in and the current one; every other change leaves it alone.
\<close>

theorem stale_iff_relevant_change:
  assumes "workspace_ok (ce_verified_workspace ev)" and "workspace_ok current"
  shows "status_against ev current = EvStale \<longleftrightarrow>
    (\<exists>path. relevant_file (ce_relevant_paths ev) (ce_include_ignored ev)
               (ce_verified_workspace ev) path
          \<noteq> relevant_file (ce_relevant_paths ev) (ce_include_ignored ev) current path)"
proof -
  let ?r = "\<lambda>ws. relevant_files (ce_relevant_paths ev) (ce_include_ignored ev) ws"
  have "?r (ce_verified_workspace ev) = ?r current \<longleftrightarrow>
      (\<forall>path. bm_get (?r (ce_verified_workspace ev)) path = bm_get (?r current) path)"
    using assms by (auto intro!: bm_ext relevant_files_ok)
  then show ?thesis
    using assms by (simp add: status_against_def bm_get_relevant_files)
qed

definition sample_workspace :: "string \<Rightarrow> workspace_snapshot" where
  "sample_workspace h = workspace_new ''t'' ''d''
     [\<lparr>ff_path = ''src/a'', ff_content_hash = h, ff_disposition = Tracked\<rparr>,
      \<lparr>ff_path = ''doc'', ff_content_hash = ''0'', ff_disposition = Tracked\<rparr>]"

definition sample_check :: check_declaration where
  "sample_check = check_covers [''c1''] (check_command ''unit''
     \<lparr>cs_program = ''cargo'', cs_args = [''test''], cs_cwd = ''.''\<rparr> [Prefix ''src''] [])"

definition sample_identity :: proof_identity where
  "sample_identity = \<lparr>pi_mission_id = ''m'', pi_run_id = ''r'', pi_repository_identity = ''repo'',
     pi_worktree_identity = ''tree'', pi_base_revision = replicate 40 CHR ''a''\<rparr>"

lemma sample_check_canonical: "has_canonical_path_contracts sample_check"
  by (simp add: sample_check_def check_covers_def check_command_def has_canonical_path_contracts_def
      valid_relative_contract_path_def normalize_contract_path_def path_chars_ok_def
      ascii_code_def check_command_spec_def)

definition sample_evidence :: "32 word \<Rightarrow> command_evidence" where
  "sample_evidence code = \<lparr>ce_check_id = ''unit'',
     ce_declaration_digest = check_digest (\<lambda>bs. bs) sample_check,
     ce_proof_identity_digest = identity_digest (\<lambda>bs. bs) sample_identity,
     ce_command = \<lparr>cs_program = ''cargo'', cs_args = [''test''], cs_cwd = ''.''\<rparr>,
     ce_base_tree_hash = ''t'', ce_result_tree_hash = ''t'', ce_diff_hash = ''d'',
     ce_exit_code = code, ce_started_at_millis = 1, ce_finished_at_millis = 2,
     ce_artifacts = [], ce_verified_workspace = sample_workspace ''1'',
     ce_relevant_paths = [Prefix ''src''], ce_include_ignored = False,
     ce_required_artifacts = []\<rparr>"

lemma sample_evidence_recorded:
  "command_evidence_new (\<lambda>bs. bs) sample_check sample_identity (sample_workspace ''0'')
     (sample_workspace ''1'') code 1 2 [] = Inr (sample_evidence code)"
  using sample_check_canonical
  by (simp add: command_evidence_new_def sample_evidence_def sample_check_def check_covers_def
      check_command_def check_command_spec_def sample_workspace_def workspace_new_def word_eval)

lemmas relevant_eval = relevant_file_def sample_evidence_def sample_workspace_def workspace_new_def
  bm_collect_def bm_get_def file_is_relevant_def trim_end_slashes_def strip_prefix_def

theorem stale_iff_relevant_change_witness:
  "status_against (sample_evidence 0) (sample_workspace ''2'') = EvStale
   \<and> workspace_ok (sample_workspace ''2'')"
proof -
  have ok: "workspace_ok (ce_verified_workspace (sample_evidence 0))"
    "workspace_ok (sample_workspace ''2'')"
    by (simp_all add: sample_evidence_def sample_workspace_def workspace_new_ok)
  have "relevant_file (ce_relevant_paths (sample_evidence 0)) (ce_include_ignored (sample_evidence 0))
      (ce_verified_workspace (sample_evidence 0)) ''src/a''
    \<noteq> relevant_file (ce_relevant_paths (sample_evidence 0))
      (ce_include_ignored (sample_evidence 0)) (sample_workspace ''2'') ''src/a''"
    by (simp add: relevant_eval)
  then show ?thesis
    using stale_iff_relevant_change [OF ok] ok by blast
qed

lemma required_artifact_recorded:
  assumes "check_all (check_required_artifact arts after) reqs = Inr ()" and "r \<in> set reqs"
  shows "list_ex (\<lambda>a. av_path a = ar_path r
    \<and> artifact_hash after (ar_path r) = Some (av_content_hash a)) arts"
  using assms
  by (auto simp: check_all_ok_iff check_required_artifact_def list_ex_iff find_Some_iff
      split: option.splits if_splits) (metis nth_mem)

text \<open>
  Evidence recorded for a command check and assessed at once, against the workspace it was
  recorded in, passes exactly when the command exited with zero; otherwise it failed. It is
  never stale, mismatched or missing an artifact.
\<close>

theorem fresh_command_evidence:
  assumes "command_evidence_new sha c identity before after code started finished arts = Inr ev"
  shows "record_assess sha (RecCommand ev) c identity after = (if code = 0 then AsPassed else AsFailed)"
proof -
  obtain command where spec: "check_command_spec c = Some command"
    and arts: "check_all (check_required_artifact arts after) (ck_required_artifacts c) = Inr ()"
    and ev: "ce_check_id ev = ck_id c" "ce_declaration_digest ev = check_digest sha c"
      "ce_proof_identity_digest ev = identity_digest sha identity" "ce_exit_code ev = code"
      "ce_artifacts ev = arts" "ce_verified_workspace ev = after"
      "ce_required_artifacts ev = ck_required_artifacts c"
    using assms by (auto simp: command_evidence_new_def result_iffs split: if_splits)
  have present: "list_all (artifact_present ev after) (ce_required_artifacts ev)"
    using required_artifact_recorded [OF arts] by (simp add: list_all_iff artifact_present_def ev)
  then have "\<not> list_ex (\<lambda>required. list_all (\<lambda>artifact. av_path artifact \<noteq> ar_path required
        \<or> artifact_hash after (ar_path required) \<noteq> Some (av_content_hash artifact))
        (ce_artifacts ev)) (ce_required_artifacts ev)"
    by (auto simp: list_all_iff list_ex_iff artifact_present_def)
  then show ?thesis
    using present spec by (simp add: record_assess_def is_manual_def command_assess_def
        status_against_def ev)
qed

theorem fresh_command_evidence_witness:
  "record_assess (\<lambda>bs. bs) (RecCommand (sample_evidence 0)) sample_check sample_identity
     (sample_workspace ''1'') = AsPassed
   \<and> record_assess (\<lambda>bs. bs) (RecCommand (sample_evidence 1)) sample_check sample_identity
     (sample_workspace ''1'') = AsFailed"
  using fresh_command_evidence [OF sample_evidence_recorded [of 0]]
    fresh_command_evidence [OF sample_evidence_recorded [of 1]]
  by simp

text \<open>What a passed assessment establishes, used by the proof evaluator.\<close>

definition evidence_supports ::
  "sha256 \<Rightarrow> evidence_record \<Rightarrow> check_declaration \<Rightarrow> proof_identity \<Rightarrow> workspace_snapshot \<Rightarrow> bool" where
  "evidence_supports sha r c identity current =
     (case r of
        RecCommand ev \<Rightarrow> \<not> is_manual c \<and> ce_check_id ev = ck_id c
          \<and> ce_declaration_digest ev = check_digest sha c
          \<and> ce_proof_identity_digest ev = identity_digest sha identity \<and> ce_exit_code ev = 0
          \<and> relevant_files (ce_relevant_paths ev) (ce_include_ignored ev) (ce_verified_workspace ev)
              = relevant_files (ce_relevant_paths ev) (ce_include_ignored ev) current
          \<and> list_all (artifact_present ev current) (ce_required_artifacts ev)
      | RecManual ev \<Rightarrow> is_manual c \<and> me_check_id ev = ck_id c
          \<and> me_declaration_digest ev = check_digest sha c
          \<and> me_proof_identity_digest ev = identity_digest sha identity
          \<and> me_workspace_digest ev = workspace_digest sha current
          \<and> me_author ev \<in> set (ck_allowed_reviewers c)
          \<and> (me_is_override ev \<longrightarrow> ck_allow_manual_override c)
      | RecProviderClaim _ \<Rightarrow> False)"

lemma passed_iff_supports:
  "record_assess sha r c identity current = AsPassed \<longleftrightarrow> evidence_supports sha r c identity current"
  by (cases r)
     (auto simp: record_assess_def evidence_supports_def command_assess_def manual_assess_def
       status_against_def reviewer_is_allowed_def split: if_splits evidence_status.splits)

end
