(* ===== verification/Proof_Eval.thy ===== *)
theory Proof_Eval
  imports Evidence_Record
begin

text \<open>
  \<open>src/mission/proof.rs\<close>: closure plans, the evaluation of a mission's evidence against its plan
  and the verified proof that seals a mission. \<open>authority_snapshot\<close> is the record of
  \<open>src/mission/runtime.rs\<close> that binds a proof to the durable authority at one moment.
\<close>

section \<open>Closure plans\<close>

record closure_plan =
  cp_criteria :: "string bset"
  cp_criteria_digest :: string
  cp_checkset_digest :: string

definition digest_checkset :: "sha256 \<Rightarrow> check_declaration list \<Rightarrow> string" where
  "digest_checkset sha declarations =
     cd_finish sha (cd_counted (sort (map (check_digest sha) declarations))
       (cd_new ''mission-checkset-v1''))"

definition digest_criteria :: "sha256 \<Rightarrow> string bset \<Rightarrow> string" where
  "digest_criteria sha criteria =
     cd_finish sha (cd_counted criteria (cd_new ''mission-criteria-v1''))"

definition digest_attention :: "sha256 \<Rightarrow> string bset \<Rightarrow> string" where
  "digest_attention sha ids =
     cd_finish sha (cd_counted ids (cd_new ''mission-unresolved-attention-v1''))"

definition digest_evidence :: "sha256 \<Rightarrow> (string, evidence_record) bmap \<Rightarrow> string" where
  "digest_evidence sha records =
     cd_finish sha
       (fold (\<lambda>(check_id, r) d. cd_string (record_digest sha r) (cd_string check_id d)) records
       (cd_len records (cd_new ''mission-evidence-set-v1'')))"

text \<open>The loop of \<open>ClosurePlan::new\<close>; its state is the seen ids, the covered criteria and the count.\<close>

fun plan_loop ::
  "string bset \<Rightarrow> check_declaration list \<Rightarrow> string bset \<Rightarrow> string bset \<Rightarrow> nat
     \<Rightarrow> proof_error + (string bset \<times> nat)" where
  "plan_loop criteria [] seen covered n = Inr (covered, n)"
| "plan_loop criteria (c # cs) seen covered n =
     (if ck_id c \<in> set seen then Inl InvalidClosurePlan
      else if \<not> list_all (\<lambda>x. x \<in> set criteria) (ck_covered_criteria c)
      then Inl InvalidClosurePlan
      else if ck_required c
      then plan_loop criteria cs (bs_insert (ck_id c) seen)
             (bs_extend covered (ck_covered_criteria c)) (n + 1)
      else plan_loop criteria cs (bs_insert (ck_id c) seen) covered n)"

definition closure_plan_new ::
  "sha256 \<Rightarrow> string list \<Rightarrow> check_declaration list \<Rightarrow> proof_error + closure_plan" where
  "closure_plan_new sha criterion_ids declarations =
     (let criteria = bs_collect criterion_ids
      in if criteria = [] then Inl InvalidClosurePlan
         else rbind (plan_loop criteria declarations [] [] 0) (\<lambda>(covered, required_count).
           if required_count = 0 \<or> covered \<noteq> criteria then Inl InvalidClosurePlan
           else Inr \<lparr>cp_criteria = criteria, cp_criteria_digest = digest_criteria sha criteria,
                      cp_checkset_digest = digest_checkset sha declarations\<rparr>))"

section \<open>Reports and verified proofs\<close>

datatype check_proof_status =
    CpPassed | CpFailed | CpStale | CpMissing | CpManualMissing | CpProviderClaimOnly
  | CpDeclarationMismatch | CpIdentityMismatch | CpArtifactMissingOrChanged | CpManualNotAuthorized

fun status_from_assessment :: "evidence_assessment \<Rightarrow> check_proof_status" where
  "status_from_assessment AsPassed = CpPassed"
| "status_from_assessment AsFailed = CpFailed"
| "status_from_assessment AsStale = CpStale"
| "status_from_assessment AsDeclarationMismatch = CpDeclarationMismatch"
| "status_from_assessment AsIdentityMismatch = CpIdentityMismatch"
| "status_from_assessment AsArtifactMissingOrChanged = CpArtifactMissingOrChanged"
| "status_from_assessment AsManualNotAuthorized = CpManualNotAuthorized"
| "status_from_assessment AsProviderClaimOnly = CpProviderClaimOnly"

record verified_proof =
  vp_identity_digest :: string
  vp_workspace_digest :: string
  vp_checkset_digest :: string
  vp_criteria_digest :: string
  vp_attention_digest :: string
  vp_evidence_digest :: string
  vp_authority_head_digest :: string
  vp_lease_digest :: string
  vp_authority_sequence :: u64
  vp_verified_at_millis :: u64

record proof_report =
  rp_readiness :: mission_readiness
  rp_check_statuses :: "(string, check_proof_status) bmap"
  rp_uncovered_criteria :: "string bset"
  rp_duplicate_check_ids :: "string bset"
  rp_verified :: "verified_proof option"

definition into_verified :: "proof_report \<Rightarrow> proof_error + verified_proof" where
  "into_verified report = ok_or ReportNotVerified (rp_verified report)"

record authority_snapshot =
  au_identity_digest :: string
  au_workspace_digest :: string
  au_attention_digest :: string
  au_evidence_digest :: string
  au_head_digest :: string
  au_lease_digest :: string
  au_sequence :: u64
  au_captured_at_millis :: u64

definition plan_matches :: "closure_plan \<Rightarrow> verified_proof \<Rightarrow> bool" where
  "plan_matches plan proof \<longleftrightarrow> cp_criteria_digest plan = vp_criteria_digest proof
     \<and> cp_checkset_digest plan = vp_checkset_digest proof"

definition matches_declarations :: "sha256 \<Rightarrow> closure_plan \<Rightarrow> check_declaration list \<Rightarrow> bool" where
  "matches_declarations sha plan declarations \<longleftrightarrow>
     cp_checkset_digest plan = digest_checkset sha declarations"

definition matches_identity :: "sha256 \<Rightarrow> verified_proof \<Rightarrow> proof_identity \<Rightarrow> bool" where
  "matches_identity sha proof identity \<longleftrightarrow>
     vp_identity_digest proof = identity_digest sha identity"

definition matches_closure_plan :: "verified_proof \<Rightarrow> closure_plan \<Rightarrow> bool" where
  "matches_closure_plan proof plan \<longleftrightarrow> plan_matches plan proof"

definition seal_digest_from_parts ::
  "sha256 \<Rightarrow> string \<Rightarrow> string \<Rightarrow> string \<Rightarrow> string \<Rightarrow> string \<Rightarrow> string \<Rightarrow> string \<Rightarrow> string \<Rightarrow> u64 \<Rightarrow> u64
     \<Rightarrow> string" where
  "seal_digest_from_parts sha identity workspace checkset criteria attention evidence head lease
     authority_sequence verified_at_millis =
     cd_finish sha
       (cd_u64 verified_at_millis (cd_u64 authority_sequence
       (cd_string lease (cd_string head (cd_string evidence (cd_string attention
       (cd_string criteria (cd_string checkset (cd_string workspace (cd_string identity
       (cd_new ''mission-verified-proof-seal-v1'')))))))))))"

definition subject_digest_from_parts ::
  "sha256 \<Rightarrow> string \<Rightarrow> string \<Rightarrow> string \<Rightarrow> string \<Rightarrow> string" where
  "subject_digest_from_parts sha identity workspace checkset criteria =
     cd_finish sha
       (cd_string criteria (cd_string checkset (cd_string workspace (cd_string identity
       (cd_new ''mission-verified-proof-subject-v1'')))))"

definition seal_digest :: "sha256 \<Rightarrow> verified_proof \<Rightarrow> string" where
  "seal_digest sha p =
     seal_digest_from_parts sha (vp_identity_digest p) (vp_workspace_digest p)
       (vp_checkset_digest p) (vp_criteria_digest p) (vp_attention_digest p)
       (vp_evidence_digest p) (vp_authority_head_digest p) (vp_lease_digest p)
       (vp_authority_sequence p) (vp_verified_at_millis p)"

definition subject_digest :: "sha256 \<Rightarrow> verified_proof \<Rightarrow> string" where
  "subject_digest sha p =
     subject_digest_from_parts sha (vp_identity_digest p) (vp_workspace_digest p)
       (vp_checkset_digest p) (vp_criteria_digest p)"

definition proof_subject_digest ::
  "sha256 \<Rightarrow> proof_identity \<Rightarrow> workspace_snapshot \<Rightarrow> closure_plan \<Rightarrow> string" where
  "proof_subject_digest sha identity workspace plan =
     subject_digest_from_parts sha (identity_digest sha identity) (workspace_digest sha workspace)
       (cp_checkset_digest plan) (cp_criteria_digest plan)"

definition proof_seal_digest ::
  "sha256 \<Rightarrow> proof_identity \<Rightarrow> workspace_snapshot \<Rightarrow> closure_plan \<Rightarrow> string \<Rightarrow> string \<Rightarrow> string \<Rightarrow> string
     \<Rightarrow> u64 \<Rightarrow> u64 \<Rightarrow> string" where
  "proof_seal_digest sha identity workspace plan attention evidence head lease
     authority_sequence verified_at_millis =
     seal_digest_from_parts sha (identity_digest sha identity) (workspace_digest sha workspace)
       (cp_checkset_digest plan) (cp_criteria_digest plan) attention evidence head lease
       authority_sequence verified_at_millis"

section \<open>The evaluator\<close>

record eval_state =
  es_covered :: "string bset"
  es_statuses :: "(string, check_proof_status) bmap"
  es_seen :: "string bset"
  es_duplicates :: "string bset"
  es_required :: nat

definition check_status_of ::
  "sha256 \<Rightarrow> proof_identity \<Rightarrow> (string, evidence_record) bmap \<Rightarrow> workspace_snapshot
     \<Rightarrow> check_declaration \<Rightarrow> check_proof_status" where
  "check_status_of sha identity records current c =
     (case bm_get records (ck_id c) of
        Some r \<Rightarrow> status_from_assessment (record_assess sha r c identity current)
      | None \<Rightarrow> if is_manual c then CpManualMissing else CpMissing)"

text \<open>One iteration over the declarations.\<close>

definition eval_step ::
  "sha256 \<Rightarrow> proof_identity \<Rightarrow> (string, evidence_record) bmap \<Rightarrow> workspace_snapshot
     \<Rightarrow> check_declaration \<Rightarrow> eval_state \<Rightarrow> eval_state" where
  "eval_step sha identity records current c s =
     (if ck_id c \<in> set (es_seen s)
      then s\<lparr>es_duplicates := bs_insert (ck_id c) (es_duplicates s)\<rparr>
      else
        let s1 = s\<lparr>es_seen := bs_insert (ck_id c) (es_seen s)\<rparr>;
            s2 = (if ck_required c
                  then s1\<lparr>es_required := es_required s1 + 1,
                          es_covered := bs_extend (es_covered s1) (ck_covered_criteria c)\<rparr>
                  else s1)
        in s2\<lparr>es_statuses := bm_insert (ck_id c) (check_status_of sha identity records current c)
                              (es_statuses s2)\<rparr>)"

definition eval_loop ::
  "sha256 \<Rightarrow> proof_identity \<Rightarrow> (string, evidence_record) bmap \<Rightarrow> workspace_snapshot
     \<Rightarrow> check_declaration list \<Rightarrow> eval_state" where
  "eval_loop sha identity records current declarations =
     fold (eval_step sha identity records current) declarations
       \<lparr>es_covered = [], es_statuses = [], es_seen = [], es_duplicates = [], es_required = 0\<rparr>"

definition authority_bound ::
  "sha256 \<Rightarrow> proof_identity \<Rightarrow> (string, evidence_record) bmap \<Rightarrow> workspace_snapshot \<Rightarrow> string bset
     \<Rightarrow> authority_snapshot \<Rightarrow> bool" where
  "authority_bound sha identity records current unresolved authority \<longleftrightarrow>
     au_identity_digest authority = identity_digest sha identity
     \<and> au_workspace_digest authority = workspace_digest sha current
     \<and> au_attention_digest authority = digest_attention sha unresolved
     \<and> au_evidence_digest authority = digest_evidence sha records"

definition evaluate ::
  "sha256 \<Rightarrow> proof_identity \<Rightarrow> closure_plan \<Rightarrow> check_declaration list
     \<Rightarrow> (string, evidence_record) bmap \<Rightarrow> workspace_snapshot \<Rightarrow> string bset \<Rightarrow> authority_snapshot
     \<Rightarrow> proof_error + proof_report" where
  "evaluate sha identity plan declarations records current unresolved authority =
     (if au_sequence authority = 0 then Inl InvalidAuthoritySequence
      else if \<not> authority_bound sha identity records current unresolved authority
      then Inl AuthorityBindingMismatch
      else
        let s = eval_loop sha identity records current declarations;
            uncovered = bs_difference (cp_criteria plan) (es_covered s);
            all_required_pass =
              list_all (\<lambda>c. bm_get (es_statuses s) (ck_id c) = Some CpPassed)
                (filter ck_required declarations);
            configuration_valid =
              es_required s > 0 \<and> cp_criteria plan \<noteq> [] \<and> uncovered = []
              \<and> es_duplicates s = [] \<and> matches_declarations sha plan declarations;
            is_verified = (configuration_valid \<and> all_required_pass \<and> unresolved = [])
        in Inr
          \<lparr>rp_readiness = (if is_verified then ReadinessVerified else ReadinessReviewRequired),
           rp_check_statuses = es_statuses s, rp_uncovered_criteria = uncovered,
           rp_duplicate_check_ids = es_duplicates s,
           rp_verified = (if is_verified then Some
             \<lparr>vp_identity_digest = identity_digest sha identity,
              vp_workspace_digest = workspace_digest sha current,
              vp_checkset_digest = cp_checkset_digest plan,
              vp_criteria_digest = cp_criteria_digest plan,
              vp_attention_digest = digest_attention sha unresolved,
              vp_evidence_digest = digest_evidence sha records,
              vp_authority_head_digest = au_head_digest authority,
              vp_lease_digest = au_lease_digest authority,
              vp_authority_sequence = au_sequence authority,
              vp_verified_at_millis = au_captured_at_millis authority\<rparr> else None)\<rparr>)"

section \<open>What the loops compute\<close>

lemma plan_loop_ok_iff:
  "plan_loop criteria cs seen covered n = Inr (covered', n') \<longleftrightarrow>
     distinct (map ck_id cs) \<and> set (map ck_id cs) \<inter> set seen = {}
     \<and> (\<forall>c \<in> set cs. set (ck_covered_criteria c) \<subseteq> set criteria)
     \<and> covered' = fold (\<lambda>c s. bs_extend s (ck_covered_criteria c)) (filter ck_required cs) covered
     \<and> n' = n + length (filter ck_required cs)"
  by (induction criteria cs seen covered n rule: plan_loop.induct)
     (auto simp: list_all_iff subset_iff)

lemma fold_extend_set:
  "set (fold (\<lambda>c s. bs_extend s (ck_covered_criteria c)) cs s)
     = set s \<union> (\<Union>c \<in> set cs. set (ck_covered_criteria c))"
  by (induction cs arbitrary: s) auto

lemma fold_extend_ok:
  "bs_ok s \<Longrightarrow> bs_ok (fold (\<lambda>c s. bs_extend s (ck_covered_criteria c)) cs s)"
  by (induction cs arbitrary: s) auto

definition plan_sound :: "string list \<Rightarrow> check_declaration list \<Rightarrow> bool" where
  "plan_sound criterion_ids declarations \<longleftrightarrow> criterion_ids \<noteq> []
     \<and> distinct (map ck_id declarations) \<and> list_ex ck_required declarations
     \<and> (\<forall>c \<in> set declarations. set (ck_covered_criteria c) \<subseteq> set criterion_ids)
     \<and> set criterion_ids
         \<subseteq> (\<Union>c \<in> set (filter ck_required declarations). set (ck_covered_criteria c))"

lemma bs_collect_Nil_iff: "bs_collect xs = [] \<longleftrightarrow> xs = []"
  by (metis set_bs_collect set_empty)

lemma closure_plan_new_eq:
  "closure_plan_new sha criterion_ids declarations =
     (if plan_sound criterion_ids declarations
      then Inr \<lparr>cp_criteria = bs_collect criterion_ids,
                 cp_criteria_digest = digest_criteria sha (bs_collect criterion_ids),
                 cp_checkset_digest = digest_checkset sha declarations\<rparr>
      else Inl InvalidClosurePlan)"
proof -
  let ?crit = "bs_collect criterion_ids"
  let ?loop = "plan_loop ?crit declarations [] [] 0"
  let ?covered = "fold (\<lambda>c s. bs_extend s (ck_covered_criteria c)) (filter ck_required declarations) []"
  have errors: "?loop = Inl e \<Longrightarrow> e = InvalidClosurePlan" for e
  proof -
    have "plan_loop criteria cs seen covered n = Inl e \<Longrightarrow> e = InvalidClosurePlan"
      for criteria cs seen covered n
      by (induction criteria cs seen covered n rule: plan_loop.induct) (auto split: if_splits)
    then show "?loop = Inl e \<Longrightarrow> e = InvalidClosurePlan" .
  qed
  have covers: "?covered = ?crit \<longleftrightarrow>
      (\<Union>c \<in> set (filter ck_required declarations). set (ck_covered_criteria c)) = set criterion_ids"
    using fold_extend_set [of "filter ck_required declarations" "[]"]
      fold_extend_ok [of "[]" "filter ck_required declarations"]
    by (metis (no_types, lifting) bs_ext bs_ok_Nil bs_ok_collect empty_set set_bs_collect sup_bot_left)
  have some: "list_ex ck_required declarations \<longleftrightarrow> filter ck_required declarations \<noteq> []"
    by (auto simp: list_ex_iff filter_empty_conv)
  show ?thesis
  proof (cases "distinct (map ck_id declarations)
      \<and> (\<forall>c \<in> set declarations. set (ck_covered_criteria c) \<subseteq> set criterion_ids)")
    case True
    then have "?loop = Inr (?covered, length (filter ck_required declarations))"
      by (simp add: plan_loop_ok_iff)
    moreover have "(\<Union>c \<in> set (filter ck_required declarations). set (ck_covered_criteria c))
        \<subseteq> set criterion_ids"
      using True by auto
    ultimately show ?thesis
      using True covers some
      by (auto simp: closure_plan_new_def plan_sound_def bs_collect_Nil_iff Let_def)
  next
    case False
    have "\<exists>e. ?loop = Inl e"
    proof (cases ?loop)
      case (Inr r)
      then show ?thesis
        using False by (cases r) (auto simp: plan_loop_ok_iff)
    qed simp
    then show ?thesis
      using False errors by (auto simp: closure_plan_new_def plan_sound_def Let_def)
  qed
qed

text \<open>
  A closure plan is accepted exactly when there is at least one criterion, the check ids are
  distinct, some check is required, checks cover only criteria of the mission, and the required
  checks together cover every criterion.
\<close>

theorem closure_plan_accepted_iff:
  "closure_plan_new sha criterion_ids declarations =
     (if plan_sound criterion_ids declarations
      then Inr \<lparr>cp_criteria = bs_collect criterion_ids,
                 cp_criteria_digest = digest_criteria sha (bs_collect criterion_ids),
                 cp_checkset_digest = digest_checkset sha declarations\<rparr>
      else Inl InvalidClosurePlan)"
  by (rule closure_plan_new_eq)

section \<open>What a verified report means\<close>

lemma eval_fold:
  assumes "distinct (map ck_id cs)" and "set (map ck_id cs) \<inter> set (es_seen s) = {}"
  shows "es_duplicates (fold (eval_step sha identity records current) cs s) = es_duplicates s
    \<and> es_required (fold (eval_step sha identity records current) cs s)
        = es_required s + length (filter ck_required cs)
    \<and> set (es_covered (fold (eval_step sha identity records current) cs s))
        = set (es_covered s) \<union> (\<Union>c \<in> set (filter ck_required cs). set (ck_covered_criteria c))
    \<and> (\<forall>k. bm_get (es_statuses (fold (eval_step sha identity records current) cs s)) k
        = (case List.find (\<lambda>c. ck_id c = k) cs of
             Some c \<Rightarrow> Some (check_status_of sha identity records current c)
           | None \<Rightarrow> bm_get (es_statuses s) k))"
  using assms
proof (induction cs arbitrary: s)
  case Nil
  then show ?case by simp
next
  case (Cons c cs)
  let ?s = "eval_step sha identity records current c s"
  have seen: "set (es_seen ?s) = insert (ck_id c) (set (es_seen s))"
    and new: "es_duplicates ?s = es_duplicates s"
      "es_required ?s = es_required s + (if ck_required c then 1 else 0)"
      "set (es_covered ?s) = set (es_covered s)
         \<union> (if ck_required c then set (ck_covered_criteria c) else {})"
      "bm_get (es_statuses ?s) k = (if k = ck_id c
         then Some (check_status_of sha identity records current c) else bm_get (es_statuses s) k)"
    for k
    using Cons.prems by (auto simp: eval_step_def Let_def)
  have "List.find (\<lambda>d. ck_id d = ck_id c) cs = None"
    using Cons.prems(1) by (auto simp: find_None_iff image_iff dest: sym)
  moreover have "distinct (map ck_id cs)" "set (map ck_id cs) \<inter> set (es_seen ?s) = {}"
    using Cons.prems by (auto simp: seen)
  ultimately show ?case
    using Cons.IH [of ?s] new by (auto split: option.splits)
qed

lemma eval_duplicates_grow:
  "es_duplicates s \<noteq> [] \<Longrightarrow> es_duplicates (fold (eval_step sha identity records current) cs s) \<noteq> []"
proof (induction cs arbitrary: s)
  case (Cons c cs)
  have "bs_insert x ys \<noteq> []" for x :: string and ys
    by (cases ys) auto
  then have "es_duplicates (eval_step sha identity records current c s) \<noteq> []"
    using Cons.prems by (simp add: eval_step_def Let_def)
  then show ?case using Cons.IH by simp
qed simp

lemma eval_duplicates_iff:
  "es_duplicates s = [] \<Longrightarrow>
     es_duplicates (fold (eval_step sha identity records current) cs s) = [] \<longleftrightarrow>
     distinct (map ck_id cs) \<and> set (map ck_id cs) \<inter> set (es_seen s) = {}"
proof (induction cs arbitrary: s)
  case (Cons c cs)
  let ?s = "eval_step sha identity records current c s"
  show ?case
  proof (cases "ck_id c \<in> set (es_seen s)")
    case True
    then have "es_duplicates ?s \<noteq> []"
      using Cons.prems by (simp add: eval_step_def)
    then show ?thesis
      using True eval_duplicates_grow [of ?s] by simp
  next
    case False
    then have "es_duplicates ?s = []" "set (es_seen ?s) = insert (ck_id c) (set (es_seen s))"
      using Cons.prems by (auto simp: eval_step_def Let_def)
    then show ?thesis
      using Cons.IH [of ?s] False by auto
  qed
qed simp

lemma find_by_id:
  "distinct (map ck_id cs) \<Longrightarrow> c \<in> set cs \<Longrightarrow> List.find (\<lambda>d. ck_id d = ck_id c) cs = Some c"
  by (induction cs) (auto simp: image_iff)

lemma status_passed_iff:
  "check_status_of sha identity records current c = CpPassed \<longleftrightarrow>
     (\<exists>r. bm_get records (ck_id c) = Some r \<and> evidence_supports sha r c identity current)"
proof -
  have "status_from_assessment a = CpPassed \<longleftrightarrow> a = AsPassed" for a
    by (cases a) simp_all
  then show ?thesis
    by (auto simp: check_status_of_def passed_iff_supports split: option.splits)
qed

text \<open>The promise of a verified report, stated without reference to the evaluator's loops.\<close>

definition closure_established ::
  "sha256 \<Rightarrow> proof_identity \<Rightarrow> closure_plan \<Rightarrow> check_declaration list
     \<Rightarrow> (string, evidence_record) bmap \<Rightarrow> workspace_snapshot \<Rightarrow> string bset \<Rightarrow> bool" where
  "closure_established sha identity plan declarations records current unresolved \<longleftrightarrow>
     cp_criteria plan \<noteq> [] \<and> distinct (map ck_id declarations)
     \<and> digest_checkset sha declarations = cp_checkset_digest plan
     \<and> (\<exists>c \<in> set declarations. ck_required c)
     \<and> (\<forall>x \<in> set (cp_criteria plan). \<exists>c \<in> set declarations. ck_required c
           \<and> x \<in> set (ck_covered_criteria c))
     \<and> (\<forall>c \<in> set declarations. ck_required c \<longrightarrow>
           (\<exists>r. bm_get records (ck_id c) = Some r \<and> evidence_supports sha r c identity current))
     \<and> unresolved = []"

lemma evaluate_verified_iff:
  assumes "evaluate sha identity plan declarations records current unresolved authority = Inr report"
  shows "rp_verified report \<noteq> None \<longleftrightarrow>
    closure_established sha identity plan declarations records current unresolved"
proof -
  let ?s = "eval_loop sha identity records current declarations"
  let ?statuses_ok = "list_all (\<lambda>c. bm_get (es_statuses ?s) (ck_id c) = Some CpPassed)
        (filter ck_required declarations)"
  have "rp_verified report \<noteq> None \<longleftrightarrow>
      es_required ?s > 0 \<and> cp_criteria plan \<noteq> []
      \<and> bs_difference (cp_criteria plan) (es_covered ?s) = [] \<and> es_duplicates ?s = []
      \<and> matches_declarations sha plan declarations \<and> ?statuses_ok \<and> unresolved = []"
    using assms by (auto simp: evaluate_def Let_def split: if_splits)
  also have "\<dots> \<longleftrightarrow> closure_established sha identity plan declarations records current unresolved"
  proof (cases "distinct (map ck_id declarations)")
    case True
    note loop = eval_fold [OF True, of "\<lparr>es_covered = [], es_statuses = [], es_seen = [],
      es_duplicates = [], es_required = 0\<rparr>" sha identity records current, folded eval_loop_def]
    have "?statuses_ok \<longleftrightarrow> (\<forall>c \<in> set declarations. ck_required c \<longrightarrow>
        check_status_of sha identity records current c = CpPassed)"
      using loop find_by_id [OF True] by (auto simp: list_all_iff)
    moreover have "bs_difference (cp_criteria plan) (es_covered ?s) = [] \<longleftrightarrow>
        (\<forall>x \<in> set (cp_criteria plan). \<exists>c \<in> set declarations. ck_required c
           \<and> x \<in> set (ck_covered_criteria c))"
      using loop by (auto simp: bs_difference_def filter_empty_conv)
    moreover have "es_required ?s > 0 \<longleftrightarrow> (\<exists>c \<in> set declarations. ck_required c)"
      using loop by (auto simp: filter_empty_conv)
    moreover have "es_duplicates ?s = []"
      using loop by simp
    ultimately show ?thesis
      using True by (auto simp: closure_established_def matches_declarations_def status_passed_iff)
  next
    case False
    then have "es_duplicates ?s \<noteq> []"
      by (simp add: eval_loop_def eval_duplicates_iff)
    then show ?thesis
      using False by (simp add: closure_established_def)
  qed
  finally show ?thesis .
qed

text \<open>
  C1: the evaluator declares a mission verified exactly when its declarations are the ones of the
  plan, with distinct ids and some required check, every criterion is covered by a required
  check, every required check has a record that supports it against the current workspace and
  the proof identity, and no attention item is unresolved. A provider's own claim never counts.
\<close>

theorem verified_iff_established:
  assumes "evaluate sha identity plan declarations records current unresolved authority = Inr report"
  shows "(rp_readiness report = ReadinessVerified \<longleftrightarrow>
      closure_established sha identity plan declarations records current unresolved)
    \<and> (rp_readiness report = ReadinessVerified \<longleftrightarrow> rp_verified report \<noteq> None)"
  using evaluate_verified_iff [OF assms] assms
  by (auto simp: evaluate_def Let_def split: if_splits)

text \<open>
  A verified proof is bound to what was evaluated: it matches the identity and the plan, its
  subject and seal digests are the ones recomputed from the inputs, and it carries the head,
  lease, sequence and time of the authority snapshot, whose sequence is not zero.
\<close>

theorem verified_proof_bindings:
  assumes "rbind (evaluate sha identity plan declarations records current unresolved authority)
      into_verified = Inr p"
  shows "matches_identity sha p identity \<and> matches_closure_plan p plan
    \<and> subject_digest sha p = proof_subject_digest sha identity current plan
    \<and> seal_digest sha p = proof_seal_digest sha identity current plan (digest_attention sha [])
         (digest_evidence sha records) (au_head_digest authority) (au_lease_digest authority)
         (au_sequence authority) (au_captured_at_millis authority)
    \<and> au_sequence authority \<noteq> 0
    \<and> authority_bound sha identity records current [] authority"
proof -
  obtain report where report: "evaluate sha identity plan declarations records current unresolved
      authority = Inr report" and p: "rp_verified report = Some p"
    using assms by (auto simp: result_iffs into_verified_def)
  have "unresolved = []"
    using evaluate_verified_iff [OF report] p by (simp add: closure_established_def)
  then show ?thesis
    using report p
    by (auto simp: evaluate_def Let_def matches_identity_def matches_closure_plan_def
        plan_matches_def subject_digest_def proof_subject_digest_def seal_digest_def
        proof_seal_digest_def split: if_splits)
qed

definition sample_plan :: closure_plan where
  "sample_plan = \<lparr>cp_criteria = [''c1''], cp_criteria_digest = digest_criteria (\<lambda>bs. bs) [''c1''],
     cp_checkset_digest = digest_checkset (\<lambda>bs. bs) [sample_check]\<rparr>"

definition sample_records :: "(string, evidence_record) bmap" where
  "sample_records = [(''unit'', RecCommand (sample_evidence 0))]"

definition sample_authority :: authority_snapshot where
  "sample_authority =
     \<lparr>au_identity_digest = identity_digest (\<lambda>bs. bs) sample_identity,
      au_workspace_digest = workspace_digest (\<lambda>bs. bs) (sample_workspace ''1''),
      au_attention_digest = digest_attention (\<lambda>bs. bs) [],
      au_evidence_digest = digest_evidence (\<lambda>bs. bs) sample_records, au_head_digest = ''h'',
      au_lease_digest = ''l'', au_sequence = 4, au_captured_at_millis = 9\<rparr>"

lemma sample_check_fields:
  "ck_id sample_check = ''unit''" "ck_required sample_check"
  "ck_covered_criteria sample_check = [''c1'']" "\<not> is_manual sample_check"
  by (simp_all add: sample_check_def check_covers_def check_command_def bs_extend_def is_manual_def
      check_command_spec_def)

lemma sample_established:
  "closure_established (\<lambda>bs. bs) sample_identity sample_plan [sample_check] sample_records
     (sample_workspace ''1'') []"
  by (simp add: closure_established_def sample_plan_def sample_check_fields sample_records_def
      bm_get_def evidence_supports_def) (simp add: sample_evidence_def)

lemma sample_evaluates:
  obtains report where "evaluate (\<lambda>bs. bs) sample_identity sample_plan [sample_check]
     sample_records (sample_workspace ''1'') [] sample_authority = Inr report"
  by (simp add: evaluate_def sample_authority_def authority_bound_def Let_def)

theorem verified_iff_established_witness:
  "\<exists>report. evaluate (\<lambda>bs. bs) sample_identity sample_plan [sample_check] sample_records
     (sample_workspace ''1'') [] sample_authority = Inr report
   \<and> rp_readiness report = ReadinessVerified"
proof -
  obtain report where run: "evaluate (\<lambda>bs. bs) sample_identity sample_plan [sample_check]
     sample_records (sample_workspace ''1'') [] sample_authority = Inr report"
    by (rule sample_evaluates)
  then show ?thesis
    using verified_iff_established [OF run] sample_established by blast
qed

theorem verified_proof_bindings_witness:
  "\<exists>p. rbind (evaluate (\<lambda>bs. bs) sample_identity sample_plan [sample_check] sample_records
     (sample_workspace ''1'') [] sample_authority) into_verified = Inr p
   \<and> matches_identity (\<lambda>bs. bs) p sample_identity"
proof -
  obtain report where run: "evaluate (\<lambda>bs. bs) sample_identity sample_plan [sample_check]
     sample_records (sample_workspace ''1'') [] sample_authority = Inr report"
    by (rule sample_evaluates)
  then obtain p where "rp_verified report = Some p"
    using evaluate_verified_iff [OF run] sample_established by auto
  then have p: "rbind (evaluate (\<lambda>bs. bs) sample_identity sample_plan [sample_check] sample_records
     (sample_workspace ''1'') [] sample_authority) into_verified = Inr p"
    by (simp add: run into_verified_def)
  then show ?thesis
    using verified_proof_bindings [OF p] by blast
qed

end
