(* ===== verification/Mission_Status.thy ===== *)
theory Mission_Status
  imports Rust_Std
begin

text \<open>
  The enumerations of \<open>src/mission/model.rs\<close> that the other components share: providers,
  provider modes and the mission status with the transitions the durable store may record.
\<close>

datatype provider_kind = Codex | ClaudeCode | OpenCode | Acp

datatype provider_mode = Managed | Passthrough

datatype mission_status =
    Draft | Preparing | Active | ReviewRequired | ReadyToClose | MissionBlocked | MissionFailed
  | Archived

fun status_as_str :: "mission_status \<Rightarrow> string" where
  "status_as_str Draft = ''draft''"
| "status_as_str Preparing = ''preparing''"
| "status_as_str Active = ''active''"
| "status_as_str ReviewRequired = ''review_required''"
| "status_as_str ReadyToClose = ''ready_to_close''"
| "status_as_str MissionBlocked = ''blocked''"
| "status_as_str MissionFailed = ''failed''"
| "status_as_str Archived = ''archived''"

definition can_persist_from :: "mission_status \<Rightarrow> mission_status \<Rightarrow> bool" where
  "can_persist_from to from \<longleftrightarrow>
     (from, to) \<in> {(Draft, Preparing),
       (Preparing, Active), (Preparing, MissionBlocked), (Preparing, MissionFailed),
       (Active, ReviewRequired), (Active, MissionBlocked), (Active, MissionFailed),
       (MissionBlocked, Preparing), (MissionBlocked, Active), (MissionBlocked, MissionFailed),
       (ReviewRequired, Active), (ReviewRequired, MissionBlocked), (ReviewRequired, MissionFailed),
       (ReadyToClose, Active), (ReadyToClose, MissionBlocked)}"

text \<open>The provider enumeration is ordered as declared (\<open>derive(Ord)\<close>).\<close>

fun provider_rank :: "provider_kind \<Rightarrow> u8" where
  "provider_rank Codex = 0"
| "provider_rank ClaudeCode = 1"
| "provider_rank OpenCode = 2"
| "provider_rank Acp = 3"

lemma provider_rank_inject: "provider_rank p = provider_rank q \<longleftrightarrow> p = q"
  by (cases p; cases q) simp_all

instantiation provider_kind :: linorder
begin

definition less_eq_provider_kind :: "provider_kind \<Rightarrow> provider_kind \<Rightarrow> bool" where
  "less_eq_provider_kind p q \<longleftrightarrow> provider_rank p \<le> provider_rank q"

definition less_provider_kind :: "provider_kind \<Rightarrow> provider_kind \<Rightarrow> bool" where
  "less_provider_kind p q \<longleftrightarrow> provider_rank p < provider_rank q"

instance
  by standard
     (auto simp: less_eq_provider_kind_def less_provider_kind_def provider_rank_inject
       dest: order.antisym)

end

lemma archived_is_final: "\<not> can_persist_from to Archived"
  by (simp add: can_persist_from_def)

lemma sealed_never_persisted_directly:
  "\<not> can_persist_from ReadyToClose from" "\<not> can_persist_from Archived from"
  by (simp_all add: can_persist_from_def)

end
