(* ===== verification/Mission_Model.thy ===== *)
theory Mission_Model
  imports Proof_Eval Mission_Status
begin

text \<open>
  \<open>src/mission/model.rs\<close>: the mission definition, the run target and the lifecycle with its two
  sealed transitions. A lifecycle is a record with its audit history; every operation either
  returns the new lifecycle or an error and then changes nothing.
\<close>

section \<open>Definitions and targets\<close>

datatype mission_error =
    EmptyMissionId | EmptyTitle | RepositoryPathNotAbsolute | EmptyObjective
  | MissingAcceptanceCriteria | EmptyRunId | EmptyBaseRevision | WorktreePathNotAbsolute
  | InvalidTransition mission_status mission_status | RunTargetCannotBeChanged mission_status
  | SealedTransitionRequired mission_status | ProofScopeMismatch | ProofFromFuture
  | ReadyReceiptMissing | ProofBasisChanged | FreshArchiveProofRequired | InvalidProofIdentity
  | InvalidProofEvaluation | ModelInvalidClosurePlan | ClosurePlanMissing
  | ProofContractMismatch | EmptyTransitionActor | EmptyTransitionReason
  | TransitionTimeWentBackwards | MissionHasNoRunTarget

record mission_definition =
  md_id :: string
  md_title :: string
  md_repository_path :: string
  md_objective :: string
  md_acceptance_criteria :: "string list"

definition mission_definition_new ::
  "string \<Rightarrow> string \<Rightarrow> string \<Rightarrow> string \<Rightarrow> string list \<Rightarrow> mission_error + mission_definition" where
  "mission_definition_new mission_id title repository_path objective acceptance_criteria =
     (let criteria = filter (\<lambda>c. \<not> is_blank c) acceptance_criteria
      in if is_blank mission_id then Inl EmptyMissionId
         else if is_blank title then Inl EmptyTitle
         else if \<not> path_is_absolute repository_path then Inl RepositoryPathNotAbsolute
         else if is_blank objective then Inl EmptyObjective
         else if criteria = [] then Inl MissingAcceptanceCriteria
         else Inr \<lparr>md_id = mission_id, md_title = title, md_repository_path = repository_path,
                    md_objective = objective, md_acceptance_criteria = criteria\<rparr>)"

definition criterion_id :: "sha256 \<Rightarrow> nat \<Rightarrow> string \<Rightarrow> string" where
  "criterion_id sha index criterion =
     cd_finish sha (cd_string criterion (cd_u64 (of_nat index) (cd_new ''mission-criterion-v1'')))"

definition criterion_ids :: "sha256 \<Rightarrow> string list \<Rightarrow> string list" where
  "criterion_ids sha criteria = map (\<lambda>(i, c). criterion_id sha i c) (enumerate 0 criteria)"

definition acceptance_criterion_ids :: "sha256 \<Rightarrow> mission_definition \<Rightarrow> string list" where
  "acceptance_criterion_ids sha d = criterion_ids sha (md_acceptance_criteria d)"

record run_target =
  rt_run_id :: string
  rt_provider :: provider_kind
  rt_mode :: provider_mode
  rt_base_revision :: string
  rt_worktree_path :: string

definition run_target_new ::
  "string \<Rightarrow> provider_kind \<Rightarrow> provider_mode \<Rightarrow> string \<Rightarrow> string \<Rightarrow> mission_error + run_target" where
  "run_target_new run_id provider mode base_revision worktree_path =
     (if is_blank run_id then Inl EmptyRunId
      else if is_blank base_revision then Inl EmptyBaseRevision
      else if \<not> path_is_absolute worktree_path then Inl WorktreePathNotAbsolute
      else Inr \<lparr>rt_run_id = run_id, rt_provider = provider, rt_mode = mode,
                 rt_base_revision = base_revision, rt_worktree_path = worktree_path\<rparr>)"

section \<open>Receipts\<close>

record mission_transition =
  tr_from :: "mission_status option"
  tr_to :: mission_status
  tr_actor :: string
  tr_reason :: string
  tr_at_millis :: u64

record proof_receipt =
  pr_subject_digest :: string
  pr_seal_digest :: string
  pr_authority_head_digest :: string
  pr_lease_digest :: string
  pr_authority_sequence :: u64
  pr_verified_at_millis :: u64

definition receipt_from_verified :: "sha256 \<Rightarrow> verified_proof \<Rightarrow> proof_receipt" where
  "receipt_from_verified sha proof =
     \<lparr>pr_subject_digest = subject_digest sha proof, pr_seal_digest = seal_digest sha proof,
      pr_authority_head_digest = vp_authority_head_digest proof,
      pr_lease_digest = vp_lease_digest proof,
      pr_authority_sequence = vp_authority_sequence proof,
      pr_verified_at_millis = vp_verified_at_millis proof\<rparr>"

record ready_proof =
  rdy_mission_id :: string
  rdy_verified :: verified_proof

definition ready_into_receipt :: "sha256 \<Rightarrow> ready_proof \<Rightarrow> string \<times> proof_receipt" where
  "ready_into_receipt sha proof =
     (rdy_mission_id proof, receipt_from_verified sha (rdy_verified proof))"

record archive_proof =
  arc_mission_id :: string
  arc_verified :: verified_proof
  arc_ready_seal_digest :: string

definition archive_into_receipt :: "sha256 \<Rightarrow> archive_proof \<Rightarrow> string \<times> string \<times> proof_receipt" where
  "archive_into_receipt sha proof =
     (arc_mission_id proof, arc_ready_seal_digest proof,
      receipt_from_verified sha (arc_verified proof))"

section \<open>The lifecycle\<close>

record mission_lifecycle =
  lc_definition :: mission_definition
  lc_status :: mission_status
  lc_run_target :: "run_target option"
  lc_closure_plan :: "closure_plan option"
  lc_history :: "mission_transition list"
  lc_ready_receipt :: "proof_receipt option"
  lc_archive_receipt :: "proof_receipt option"

definition lifecycle_draft :: "mission_definition \<Rightarrow> u64 \<Rightarrow> mission_lifecycle" where
  "lifecycle_draft d at_millis =
     \<lparr>lc_definition = d, lc_status = Draft, lc_run_target = None, lc_closure_plan = None,
      lc_history = [\<lparr>tr_from = None, tr_to = Draft, tr_actor = ''system'',
                      tr_reason = ''mission created'', tr_at_millis = at_millis\<rparr>],
      lc_ready_receipt = None, lc_archive_receipt = None\<rparr>"

definition record_transition ::
  "mission_status \<Rightarrow> string \<Rightarrow> string \<Rightarrow> u64 \<Rightarrow> mission_lifecycle
     \<Rightarrow> mission_error + mission_lifecycle" where
  "record_transition next_status actor reason at_millis lc =
     (if is_blank actor then Inl EmptyTransitionActor
      else if is_blank reason then Inl EmptyTransitionReason
      else if lc_history lc \<noteq> [] \<and> at_millis < tr_at_millis (last (lc_history lc))
      then Inl TransitionTimeWentBackwards
      else Inr (lc\<lparr>lc_status := next_status,
                   lc_history := lc_history lc @
                     [\<lparr>tr_from = Some (lc_status lc), tr_to = next_status, tr_actor = actor,
                       tr_reason = reason, tr_at_millis = at_millis\<rparr>]\<rparr>))"

definition with_run_target ::
  "sha256 \<Rightarrow> run_target \<Rightarrow> check_declaration list \<Rightarrow> string \<Rightarrow> u64 \<Rightarrow> mission_lifecycle
     \<Rightarrow> mission_error + mission_lifecycle" where
  "with_run_target sha target closure_checks actor at_millis lc =
     (if lc_status lc \<notin> {Draft, MissionFailed} then Inl (RunTargetCannotBeChanged (lc_status lc))
      else rbind (map_err (\<lambda>_. ModelInvalidClosurePlan)
             (closure_plan_new sha (acceptance_criterion_ids sha (lc_definition lc)) closure_checks))
        (\<lambda>plan. record_transition Preparing actor ''run target configured'' at_millis
           (lc\<lparr>lc_run_target := Some target, lc_closure_plan := Some plan\<rparr>)))"

definition can_transition :: "mission_status \<Rightarrow> mission_status \<Rightarrow> bool" where
  "can_transition from to \<longleftrightarrow>
     (from, to) \<in> {(Preparing, Active), (Preparing, MissionBlocked), (Preparing, MissionFailed),
       (Active, ReviewRequired), (Active, MissionBlocked), (Active, MissionFailed),
       (MissionBlocked, Preparing), (MissionBlocked, Active), (MissionBlocked, MissionFailed),
       (ReviewRequired, Active), (ReviewRequired, MissionBlocked), (ReviewRequired, MissionFailed),
       (ReadyToClose, Active), (ReadyToClose, MissionBlocked)}"

definition lifecycle_transition ::
  "mission_status \<Rightarrow> string \<Rightarrow> string \<Rightarrow> u64 \<Rightarrow> mission_lifecycle
     \<Rightarrow> mission_error + mission_lifecycle" where
  "lifecycle_transition next_status actor reason at_millis lc =
     (if next_status \<in> {ReadyToClose, Archived} then Inl (SealedTransitionRequired next_status)
      else if \<not> can_transition (lc_status lc) next_status
      then Inl (InvalidTransition (lc_status lc) next_status)
      else record_transition next_status actor reason at_millis
             (if lc_status lc = ReadyToClose then lc\<lparr>lc_ready_receipt := None\<rparr> else lc))"

definition lifecycle_proof_identity :: "mission_lifecycle \<Rightarrow> mission_error + proof_identity" where
  "lifecycle_proof_identity lc =
     rbind (ok_or MissionHasNoRunTarget (lc_run_target lc)) (\<lambda>target.
       map_err (\<lambda>_. InvalidProofIdentity)
         (proof_identity_new (md_id (lc_definition lc)) (rt_run_id target)
            (md_repository_path (lc_definition lc)) (rt_worktree_path target)
            (rt_base_revision target)))"

definition mark_ready_to_close ::
  "sha256 \<Rightarrow> ready_proof \<Rightarrow> string \<Rightarrow> string \<Rightarrow> u64 \<Rightarrow> mission_lifecycle
     \<Rightarrow> mission_error + mission_lifecycle" where
  "mark_ready_to_close sha ready actor reason at_millis lc =
     (if lc_status lc \<noteq> ReviewRequired then Inl (InvalidTransition (lc_status lc) ReadyToClose)
      else
        let proof = rdy_verified ready
        in rbind (lifecycle_proof_identity lc) (\<lambda>identity.
          if \<not> matches_identity sha proof identity then Inl ProofScopeMismatch
          else rbind (ok_or ClosurePlanMissing (lc_closure_plan lc)) (\<lambda>plan.
            if \<not> matches_closure_plan proof plan then Inl ProofContractMismatch
            else if at_millis < vp_verified_at_millis proof then Inl ProofFromFuture
            else record_transition ReadyToClose actor reason at_millis
                   (lc\<lparr>lc_ready_receipt := Some (receipt_from_verified sha proof)\<rparr>))))"

definition archive_with_fresh_proof ::
  "sha256 \<Rightarrow> archive_proof \<Rightarrow> string \<Rightarrow> string \<Rightarrow> u64 \<Rightarrow> mission_lifecycle
     \<Rightarrow> mission_error + mission_lifecycle" where
  "archive_with_fresh_proof sha archive actor reason at_millis lc =
     (if lc_status lc \<noteq> ReadyToClose then Inl (InvalidTransition (lc_status lc) Archived)
      else rbind (ok_or ReadyReceiptMissing (lc_ready_receipt lc)) (\<lambda>ready.
        if arc_ready_seal_digest archive \<noteq> pr_seal_digest ready then Inl ProofBasisChanged
        else
          let proof = arc_verified archive
          in rbind (lifecycle_proof_identity lc) (\<lambda>identity.
            if \<not> matches_identity sha proof identity then Inl ProofScopeMismatch
            else rbind (ok_or ClosurePlanMissing (lc_closure_plan lc)) (\<lambda>plan.
              if \<not> matches_closure_plan proof plan then Inl ProofContractMismatch
              else if subject_digest sha proof \<noteq> pr_subject_digest ready
              then Inl ProofBasisChanged
              else if vp_authority_sequence proof \<le> pr_authority_sequence ready
                \<or> vp_verified_at_millis proof < pr_verified_at_millis ready
                \<or> at_millis < vp_verified_at_millis proof
              then Inl FreshArchiveProofRequired
              else record_transition Archived actor reason at_millis
                     (lc\<lparr>lc_archive_receipt := Some (receipt_from_verified sha proof)\<rparr>)))))"

definition evaluate_proof ::
  "sha256 \<Rightarrow> check_declaration list \<Rightarrow> (string, evidence_record) bmap \<Rightarrow> workspace_snapshot
     \<Rightarrow> string bset \<Rightarrow> authority_snapshot \<Rightarrow> mission_lifecycle \<Rightarrow> mission_error + proof_report" where
  "evaluate_proof sha declarations records current unresolved authority lc =
     rbind (lifecycle_proof_identity lc) (\<lambda>identity.
       rbind (ok_or ClosurePlanMissing (lc_closure_plan lc)) (\<lambda>plan.
         map_err (\<lambda>_. InvalidProofEvaluation)
           (evaluate sha identity plan declarations records current unresolved authority)))"

definition evaluate_ready_proof ::
  "sha256 \<Rightarrow> check_declaration list \<Rightarrow> (string, evidence_record) bmap \<Rightarrow> workspace_snapshot
     \<Rightarrow> string bset \<Rightarrow> authority_snapshot \<Rightarrow> mission_lifecycle \<Rightarrow> mission_error + ready_proof" where
  "evaluate_ready_proof sha declarations records current unresolved authority lc =
     (if lc_status lc \<noteq> ReviewRequired then Inl (InvalidTransition (lc_status lc) ReadyToClose)
      else rbind (evaluate_proof sha declarations records current unresolved authority lc)
        (\<lambda>report. rbind (map_err (\<lambda>_. InvalidProofEvaluation) (into_verified report))
          (\<lambda>verified. Inr \<lparr>rdy_mission_id = md_id (lc_definition lc), rdy_verified = verified\<rparr>)))"

definition evaluate_archive_proof ::
  "sha256 \<Rightarrow> check_declaration list \<Rightarrow> (string, evidence_record) bmap \<Rightarrow> workspace_snapshot
     \<Rightarrow> string bset \<Rightarrow> authority_snapshot \<Rightarrow> mission_lifecycle \<Rightarrow> mission_error + archive_proof" where
  "evaluate_archive_proof sha declarations records current unresolved authority lc =
     (if lc_status lc \<noteq> ReadyToClose then Inl (InvalidTransition (lc_status lc) Archived)
      else rbind (ok_or ReadyReceiptMissing (lc_ready_receipt lc)) (\<lambda>ready.
        rbind (evaluate_proof sha declarations records current unresolved authority lc)
        (\<lambda>report. rbind (map_err (\<lambda>_. InvalidProofEvaluation) (into_verified report))
          (\<lambda>verified.
            if subject_digest sha verified \<noteq> pr_subject_digest ready
              \<or> vp_authority_sequence verified \<le> pr_authority_sequence ready
              \<or> vp_verified_at_millis verified < pr_verified_at_millis ready
            then Inl FreshArchiveProofRequired
            else Inr \<lparr>arc_mission_id = md_id (lc_definition lc), arc_verified = verified,
                       arc_ready_seal_digest = pr_seal_digest ready\<rparr>))))"

section \<open>The lifecycle as a machine\<close>

datatype lifecycle_op =
    LcRunTarget run_target "check_declaration list" string u64
  | LcTransition mission_status string string u64
  | LcReady ready_proof string string u64
  | LcArchive archive_proof string string u64

fun lifecycle_step ::
  "sha256 \<Rightarrow> lifecycle_op \<Rightarrow> mission_lifecycle \<Rightarrow> mission_error + mission_lifecycle" where
  "lifecycle_step sha (LcRunTarget target checks actor t) lc =
     with_run_target sha target checks actor t lc"
| "lifecycle_step sha (LcTransition st actor reason t) lc = lifecycle_transition st actor reason t lc"
| "lifecycle_step sha (LcReady pf actor reason t) lc = mark_ready_to_close sha pf actor reason t lc"
| "lifecycle_step sha (LcArchive pf actor reason t) lc =
     archive_with_fresh_proof sha pf actor reason t lc"

text \<open>The audit history is a chain from the draft to the current status with rising times.\<close>

definition history_step :: "mission_transition \<Rightarrow> mission_transition \<Rightarrow> bool" where
  "history_step a b \<longleftrightarrow> tr_from b = Some (tr_to a) \<and> tr_at_millis a \<le> tr_at_millis b"

definition history_ok :: "mission_transition list \<Rightarrow> mission_status \<Rightarrow> bool" where
  "history_ok hist st \<longleftrightarrow> hist \<noteq> [] \<and> tr_from (hd hist) = None \<and> tr_to (hd hist) = Draft
     \<and> successively history_step hist \<and> tr_to (last hist) = st"

text \<open>
  The receipts and the run target fit the status: a ready receipt exists exactly while the mission
  is ready to close or archived, an archived mission also has a later receipt of the same
  subject, and a draft is a mission without target and plan.
\<close>

definition fresher_receipt :: "proof_receipt \<Rightarrow> proof_receipt \<Rightarrow> bool" where
  "fresher_receipt r a \<longleftrightarrow> pr_subject_digest a = pr_subject_digest r
     \<and> pr_authority_sequence r < pr_authority_sequence a
     \<and> pr_verified_at_millis r \<le> pr_verified_at_millis a"

fun receipts_fit :: "mission_status \<Rightarrow> proof_receipt option \<Rightarrow> proof_receipt option \<Rightarrow> bool" where
  "receipts_fit ReadyToClose ready archive = (ready \<noteq> None \<and> archive = None)"
| "receipts_fit Archived (Some r) (Some a) = fresher_receipt r a"
| "receipts_fit Archived _ _ = False"
| "receipts_fit _ ready archive = (ready = None \<and> archive = None)"

fun target_fits :: "mission_status \<Rightarrow> run_target option \<Rightarrow> closure_plan option \<Rightarrow> bool" where
  "target_fits Draft target plan = (target = None \<and> plan = None)"
| "target_fits _ target plan = (target \<noteq> None \<and> plan \<noteq> None)"

definition lifecycle_ok :: "mission_lifecycle \<Rightarrow> bool" where
  "lifecycle_ok lc \<longleftrightarrow> history_ok (lc_history lc) (lc_status lc)
     \<and> receipts_fit (lc_status lc) (lc_ready_receipt lc) (lc_archive_receipt lc)
     \<and> target_fits (lc_status lc) (lc_run_target lc) (lc_closure_plan lc)"

lemma lifecycle_draft_ok: "lifecycle_ok (lifecycle_draft d t)"
  by (simp add: lifecycle_ok_def lifecycle_draft_def history_ok_def)

lemma record_transition_facts:
  assumes "record_transition st actor reason t lc = Inr lc'"
  shows "lc_status lc' = st \<and> lc_definition lc' = lc_definition lc
    \<and> lc_run_target lc' = lc_run_target lc \<and> lc_closure_plan lc' = lc_closure_plan lc
    \<and> lc_ready_receipt lc' = lc_ready_receipt lc \<and> lc_archive_receipt lc' = lc_archive_receipt lc
    \<and> (\<exists>e. lc_history lc' = lc_history lc @ [e])
    \<and> (history_ok (lc_history lc) (lc_status lc) \<longrightarrow> history_ok (lc_history lc') st)"
  using assms
  by (auto simp: record_transition_def history_ok_def successively_append_iff history_step_def
      not_less split: if_splits)

lemma recorded_ok:
  assumes "record_transition st actor reason t lc = Inr lc'"
    and "history_ok (lc_history lc) (lc_status lc)"
    and "receipts_fit st (lc_ready_receipt lc) (lc_archive_receipt lc)"
    and "target_fits st (lc_run_target lc) (lc_closure_plan lc)"
  shows "lifecycle_ok lc' \<and> (\<exists>e. lc_history lc' = lc_history lc @ [e])"
proof -
  note facts = record_transition_facts [OF assms(1)]
  have "lc_status lc' = st" "lc_ready_receipt lc' = lc_ready_receipt lc"
    "lc_archive_receipt lc' = lc_archive_receipt lc" "lc_run_target lc' = lc_run_target lc"
    "lc_closure_plan lc' = lc_closure_plan lc" "history_ok (lc_history lc') st"
    using facts assms(2) by blast+
  then have "lifecycle_ok lc'"
    using assms(3,4) unfolding lifecycle_ok_def by metis
  then show ?thesis using facts by blast
qed

lemma can_transition_fits:
  assumes "can_transition from to" and "receipts_fit from ready archive" and "target_fits from target plan"
  shows "receipts_fit to (if from = ReadyToClose then None else ready) archive
    \<and> target_fits to target plan"
  using assms by (cases "from"; cases to) (simp_all add: can_transition_def)

lemma with_run_target_ok:
  assumes "lifecycle_ok lc" and "with_run_target sha target checks actor t lc = Inr lc'"
  shows "lifecycle_ok lc' \<and> (\<exists>e. lc_history lc' = lc_history lc @ [e])"
proof -
  obtain plan where status: "lc_status lc = Draft \<or> lc_status lc = MissionFailed"
    and rec: "record_transition Preparing actor ''run target configured'' t
      (lc\<lparr>lc_run_target := Some target, lc_closure_plan := Some plan\<rparr>) = Inr lc'"
    using assms(2) by (auto simp: with_run_target_def result_iffs split: if_splits)
  have "history_ok (lc_history lc) (lc_status lc)"
    "receipts_fit Preparing (lc_ready_receipt lc) (lc_archive_receipt lc)"
    using assms(1) status unfolding lifecycle_ok_def by auto
  then show ?thesis
    using recorded_ok [OF rec] by simp
qed

lemma lifecycle_transition_ok:
  assumes "lifecycle_ok lc" and "lifecycle_transition st actor reason t lc = Inr lc'"
  shows "lifecycle_ok lc' \<and> (\<exists>e. lc_history lc' = lc_history lc @ [e])"
proof -
  let ?lc = "if lc_status lc = ReadyToClose then lc\<lparr>lc_ready_receipt := None\<rparr> else lc"
  have move: "can_transition (lc_status lc) st"
    and rec: "record_transition st actor reason t ?lc = Inr lc'"
    using assms(2) by (simp_all add: lifecycle_transition_def split: if_split_asm)
  have same: "lc_history ?lc = lc_history lc" "lc_status ?lc = lc_status lc"
    "lc_archive_receipt ?lc = lc_archive_receipt lc" "lc_run_target ?lc = lc_run_target lc"
    "lc_closure_plan ?lc = lc_closure_plan lc"
    "lc_ready_receipt ?lc = (if lc_status lc = ReadyToClose then None else lc_ready_receipt lc)"
    by simp_all
  have "receipts_fit st (lc_ready_receipt ?lc) (lc_archive_receipt ?lc)"
    "target_fits st (lc_run_target ?lc) (lc_closure_plan ?lc)"
    "history_ok (lc_history ?lc) (lc_status ?lc)"
    using can_transition_fits [OF move] assms(1) unfolding same lifecycle_ok_def by blast+
  then show ?thesis
    using recorded_ok [OF rec] unfolding same by blast
qed

lemma mark_ready_ok:
  assumes "lifecycle_ok lc" and "mark_ready_to_close sha pf actor reason t lc = Inr lc'"
  shows "lifecycle_ok lc' \<and> (\<exists>e. lc_history lc' = lc_history lc @ [e])"
proof -
  have status: "lc_status lc = ReviewRequired"
    and rec: "record_transition ReadyToClose actor reason t
      (lc\<lparr>lc_ready_receipt := Some (receipt_from_verified sha (rdy_verified pf))\<rparr>) = Inr lc'"
    using assms(2) by (auto simp: mark_ready_to_close_def result_iffs Let_def split: if_splits)
  have "history_ok (lc_history lc) ReviewRequired" "lc_archive_receipt lc = None"
    "target_fits ReadyToClose (lc_run_target lc) (lc_closure_plan lc)"
    using assms(1) status unfolding lifecycle_ok_def by auto
  then show ?thesis
    using recorded_ok [OF rec] status by simp
qed

lemma archive_ok:
  assumes "lifecycle_ok lc" and "archive_with_fresh_proof sha pf actor reason t lc = Inr lc'"
  shows "lifecycle_ok lc' \<and> (\<exists>e. lc_history lc' = lc_history lc @ [e])"
proof -
  obtain ready where status: "lc_status lc = ReadyToClose"
    and ready: "lc_ready_receipt lc = Some ready"
      "fresher_receipt ready (receipt_from_verified sha (arc_verified pf))"
    and rec: "record_transition Archived actor reason t
      (lc\<lparr>lc_archive_receipt := Some (receipt_from_verified sha (arc_verified pf))\<rparr>) = Inr lc'"
    using assms(2)
    by (auto simp: archive_with_fresh_proof_def result_iffs Let_def not_le not_less
        fresher_receipt_def receipt_from_verified_def split: if_splits)
  have "history_ok (lc_history lc) ReadyToClose"
    "target_fits Archived (lc_run_target lc) (lc_closure_plan lc)"
    using assms(1) status unfolding lifecycle_ok_def by auto
  then show ?thesis
    using recorded_ok [OF rec] status ready by simp
qed

lemma lifecycle_step_ok:
  assumes "lifecycle_ok lc" and "lifecycle_step sha oper lc = Inr lc'"
  shows "lifecycle_ok lc' \<and> (\<exists>e. lc_history lc' = lc_history lc @ [e])"
  using assms
  by (cases oper) (auto dest: with_run_target_ok lifecycle_transition_ok mark_ready_ok archive_ok)

definition history_extends :: "mission_lifecycle \<Rightarrow> mission_lifecycle \<Rightarrow> bool" where
  "history_extends lc lc' \<longleftrightarrow> (\<exists>es. lc_history lc' = lc_history lc @ es)"

interpretation lifecycle: monotone_machine "lifecycle_step sha" lifecycle_ok history_extends
  for sha
proof unfold_locales
  show "lifecycle_ok lc'" if "lifecycle_ok lc" "lifecycle_step sha e lc = Inr lc'" for lc e lc'
    using lifecycle_step_ok [OF that] by simp
  show "history_extends lc lc'" if "lifecycle_ok lc" "lifecycle_step sha e lc = Inr lc'" for lc e lc'
    using lifecycle_step_ok [OF that] by (auto simp: history_extends_def)
qed (auto simp: history_extends_def)

section \<open>Properties\<close>

text \<open>
  C7: every run of the lifecycle from a draft keeps an unbroken, time-ordered and append-only
  audit history, has a target and a plan exactly when it is no longer a draft, and can only be
  archived with two receipts of the same subject, the second from a strictly later authority
  sequence.
\<close>

theorem lifecycle_run_invariant:
  assumes "run_all (lifecycle_step sha) ops (lifecycle_draft d t) = Inr lc"
  shows "history_ok (lc_history lc) (lc_status lc)
    \<and> history_extends (lifecycle_draft d t) lc
    \<and> target_fits (lc_status lc) (lc_run_target lc) (lc_closure_plan lc)
    \<and> (lc_status lc = Archived \<longrightarrow> (\<exists>r a. lc_ready_receipt lc = Some r
         \<and> lc_archive_receipt lc = Some a \<and> fresher_receipt r a))"
proof -
  have ok: "lifecycle_ok lc"
    using lifecycle.run_keeps [OF lifecycle_draft_ok assms] .
  have "\<exists>r a. ready = Some r \<and> archive = Some a \<and> fresher_receipt r a"
    if "receipts_fit Archived ready archive" for ready archive
    using that by (cases ready; cases archive) simp_all
  then show ?thesis
    using ok lifecycle.run_le [OF lifecycle_draft_ok assms] by (auto simp: lifecycle_ok_def)
qed

definition sample_definition :: mission_definition where
  "sample_definition = \<lparr>md_id = ''m'', md_title = ''t'', md_repository_path = ''repo'',
     md_objective = ''o'', md_acceptance_criteria = [''done'']\<rparr>"

definition sample_target :: run_target where
  "sample_target = \<lparr>rt_run_id = ''r'', rt_provider = Codex, rt_mode = Managed,
     rt_base_revision = replicate 40 CHR ''a'', rt_worktree_path = ''tree''\<rparr>"

lemma not_blank_texts: "\<not> is_blank ''ada''" "\<not> is_blank ''run target configured''"
  "\<not> is_blank ''m''" "\<not> is_blank ''r''" "\<not> is_blank ''repo''" "\<not> is_blank ''tree''"
  by (simp_all add: is_blank_iff utf8_width_def utf8_code_def utf8_lead_def ascii_code_def
      is_whitespace_def Let_def)

definition covering_check :: check_declaration where
  "covering_check = check_covers [criterion_id (\<lambda>bs. bs) 0 ''done''] (check_manual ''look'')"

lemma covering_plan_sound:
  "plan_sound (acceptance_criterion_ids (\<lambda>bs. bs) sample_definition) [covering_check]"
  by (simp add: plan_sound_def acceptance_criterion_ids_def criterion_ids_def sample_definition_def
      covering_check_def check_covers_def check_manual_def)

theorem lifecycle_run_invariant_witness:
  "\<exists>lc. run_all (lifecycle_step (\<lambda>bs. bs))
       [LcRunTarget sample_target [covering_check] ''ada'' 6, LcTransition Active ''ada'' ''ada'' 7]
       (lifecycle_draft sample_definition 5) = Inr lc
     \<and> lc_status lc = Active \<and> history_ok (lc_history lc) Active"
proof -
  obtain lc where run: "run_all (lifecycle_step (\<lambda>bs. bs))
       [LcRunTarget sample_target [covering_check] ''ada'' 6, LcTransition Active ''ada'' ''ada'' 7]
       (lifecycle_draft sample_definition 5) = Inr lc" and "lc_status lc = Active"
    using covering_plan_sound
    by (simp add: with_run_target_def closure_plan_new_eq lifecycle_draft_def
        record_transition_def lifecycle_transition_def can_transition_def not_blank_texts word_eval)
  then show ?thesis
    using lifecycle_run_invariant [OF run] by metis
qed

text \<open>An archived mission refuses every further operation.\<close>

theorem archived_lifecycle_is_final:
  assumes "lc_status lc = Archived"
  shows "\<exists>e. lifecycle_step sha oper lc = Inl e"
  using assms
  by (cases oper) (auto simp: with_run_target_def lifecycle_transition_def mark_ready_to_close_def
      archive_with_fresh_proof_def can_transition_def)

theorem archived_lifecycle_is_final_witness:
  "\<exists>e. lifecycle_step (\<lambda>bs. bs) (LcTransition Active ''ada'' ''ada'' 9)
     ((lifecycle_draft sample_definition 5)\<lparr>lc_status := Archived\<rparr>) = Inl e"
  using archived_lifecycle_is_final
    [of "(lifecycle_draft sample_definition 5)\<lparr>lc_status := Archived\<rparr>" "\<lambda>bs. bs"
      "LcTransition Active ''ada'' ''ada'' 9"]
  by simp

text \<open>
  The transitions the durable store may record are the ones of the lifecycle, and the start
  of a run; neither table ever leads into the two sealed states.
\<close>

theorem persistable_transitions:
  "can_persist_from to from \<longleftrightarrow> can_transition from to \<or> from = Draft \<and> to = Preparing"
  by (cases "from"; cases to) (simp_all add: can_persist_from_def can_transition_def)

lemma evaluated_proof:
  assumes "rbind (evaluate_proof sha decls recs current unresolved authority lc)
      (\<lambda>report. map_err (\<lambda>_. InvalidProofEvaluation) (into_verified report)) = Inr p"
  obtains identity plan where "lifecycle_proof_identity lc = Inr identity"
    and "lc_closure_plan lc = Some plan"
    and "closure_established sha identity plan decls recs current unresolved"
    and "matches_identity sha p identity" and "matches_closure_plan p plan"
    and "vp_verified_at_millis p = au_captured_at_millis authority"
proof -
  obtain identity plan report where ids: "lifecycle_proof_identity lc = Inr identity"
    "lc_closure_plan lc = Some plan"
    and report: "evaluate sha identity plan decls recs current unresolved authority = Inr report"
    and p: "rp_verified report = Some p"
    using assms by (auto simp: evaluate_proof_def result_iffs into_verified_def)
  have "closure_established sha identity plan decls recs current unresolved"
    using evaluate_verified_iff [OF report] p by simp
  moreover have "matches_identity sha p identity" "matches_closure_plan p plan"
    "vp_verified_at_millis p = au_captured_at_millis authority"
    using report p by (auto simp: evaluate_def Let_def matches_identity_def
        matches_closure_plan_def plan_matches_def split: if_splits)
  ultimately show ?thesis
    using that ids by blast
qed

text \<open>
  An archive proof that the lifecycle itself evaluated is accepted by it, at any time not
  before the capture and the last transition, and then the mission's closure is established for
  its own identity and plan on the evaluated workspace.
\<close>

theorem evaluated_archive_proof_accepted:
  assumes "evaluate_archive_proof sha decls recs current unresolved authority lc = Inr pf"
    and "\<not> is_blank actor" and "\<not> is_blank reason"
    and "au_captured_at_millis authority \<le> t"
    and "lc_history lc \<noteq> [] \<longrightarrow> tr_at_millis (last (lc_history lc)) \<le> t"
  shows "\<exists>lc' identity plan. archive_with_fresh_proof sha pf actor reason t lc = Inr lc'
    \<and> lc_status lc' = Archived
    \<and> lc_archive_receipt lc' = Some (receipt_from_verified sha (arc_verified pf))
    \<and> lifecycle_proof_identity lc = Inr identity \<and> lc_closure_plan lc = Some plan
    \<and> closure_established sha identity plan decls recs current unresolved"
proof -
  obtain ready p where status: "lc_status lc = ReadyToClose"
    and ready: "lc_ready_receipt lc = Some ready" "arc_ready_seal_digest pf = pr_seal_digest ready"
    and p: "arc_verified pf = p" "subject_digest sha p = pr_subject_digest ready"
      "\<not> vp_authority_sequence p \<le> pr_authority_sequence ready"
      "\<not> vp_verified_at_millis p < pr_verified_at_millis ready"
    and evaluated: "rbind (evaluate_proof sha decls recs current unresolved authority lc)
      (\<lambda>report. map_err (\<lambda>_. InvalidProofEvaluation) (into_verified report)) = Inr p"
    using assms(1) by (auto simp: evaluate_archive_proof_def result_iffs split: if_splits)
  obtain identity plan where ids: "lifecycle_proof_identity lc = Inr identity"
      "lc_closure_plan lc = Some plan" "matches_identity sha p identity" "matches_closure_plan p plan"
      "vp_verified_at_millis p = au_captured_at_millis authority"
    and closed: "closure_established sha identity plan decls recs current unresolved"
    using evaluated by (rule evaluated_proof)
  have time: "\<not> t < au_captured_at_millis authority"
    "\<not> (lc_history lc \<noteq> [] \<and> t < tr_at_millis (last (lc_history lc)))"
    using assms(4,5) by auto
  have "\<exists>lc'. archive_with_fresh_proof sha pf actor reason t lc = Inr lc'
      \<and> lc_status lc' = Archived
      \<and> lc_archive_receipt lc' = Some (receipt_from_verified sha p)"
    using status ready p ids time assms(2,3)
    by (simp add: archive_with_fresh_proof_def record_transition_def)
  then show ?thesis
    using ids closed p(1) by blast
qed

definition sample_receipt :: proof_receipt where
  "sample_receipt = \<lparr>pr_subject_digest =
       proof_subject_digest (\<lambda>bs. bs) sample_identity (sample_workspace ''1'') sample_plan,
     pr_seal_digest = ''seal'', pr_authority_head_digest = ''h'', pr_lease_digest = ''l'',
     pr_authority_sequence = 3, pr_verified_at_millis = 8\<rparr>"

definition sample_ready_lifecycle :: mission_lifecycle where
  "sample_ready_lifecycle = (lifecycle_draft sample_definition 5)
     \<lparr>lc_status := ReadyToClose, lc_run_target := Some sample_target,
      lc_closure_plan := Some sample_plan, lc_ready_receipt := Some sample_receipt\<rparr>"

lemma sample_identity_of_lifecycle:
  "lifecycle_proof_identity sample_ready_lifecycle = Inr sample_identity"
  by (simp add: lifecycle_proof_identity_def sample_ready_lifecycle_def lifecycle_draft_def
      sample_target_def sample_definition_def proof_identity_new_def valid_revision_def
      not_blank_texts sample_identity_def list_all_iff is_ascii_hexdigit_def ascii_code_def)

lemma sample_archive_evaluates:
  obtains pf where "evaluate_archive_proof (\<lambda>bs. bs) [sample_check] sample_records
    (sample_workspace ''1'') [] sample_authority sample_ready_lifecycle = Inr pf"
proof -
  obtain report where run: "evaluate (\<lambda>bs. bs) sample_identity sample_plan [sample_check]
     sample_records (sample_workspace ''1'') [] sample_authority = Inr report"
    by (rule sample_evaluates)
  obtain p where p: "rp_verified report = Some p"
    using evaluate_verified_iff [OF run] sample_established by auto
  have bound: "subject_digest (\<lambda>bs. bs) p = pr_subject_digest sample_receipt"
    "vp_authority_sequence p = 4" "vp_verified_at_millis p = 9"
    using run p
    by (auto simp: evaluate_def Let_def subject_digest_def sample_receipt_def
        proof_subject_digest_def sample_authority_def split: if_splits)
  have parts: "lc_status sample_ready_lifecycle = ReadyToClose"
    "lc_ready_receipt sample_ready_lifecycle = Some sample_receipt"
    "lc_closure_plan sample_ready_lifecycle = Some sample_plan"
    by (simp_all add: sample_ready_lifecycle_def lifecycle_draft_def)
  have "\<not> (4 :: u64) \<le> pr_authority_sequence sample_receipt"
    "\<not> (9 :: u64) < pr_verified_at_millis sample_receipt"
    by (simp_all add: sample_receipt_def word_eval)
  then show ?thesis
    using that
    by (simp add: evaluate_archive_proof_def evaluate_proof_def parts sample_identity_of_lifecycle
        run p into_verified_def bound)
qed

theorem evaluated_archive_proof_accepted_witness:
  "\<exists>pf lc'. evaluate_archive_proof (\<lambda>bs. bs) [sample_check] sample_records
      (sample_workspace ''1'') [] sample_authority sample_ready_lifecycle = Inr pf
    \<and> archive_with_fresh_proof (\<lambda>bs. bs) pf ''ada'' ''ada'' 10 sample_ready_lifecycle = Inr lc'
    \<and> lc_status lc' = Archived"
proof -
  obtain pf where pf: "evaluate_archive_proof (\<lambda>bs. bs) [sample_check] sample_records
    (sample_workspace ''1'') [] sample_authority sample_ready_lifecycle = Inr pf"
    by (rule sample_archive_evaluates)
  have times: "au_captured_at_millis sample_authority \<le> 10"
    "lc_history sample_ready_lifecycle \<noteq> [] \<longrightarrow>
       tr_at_millis (last (lc_history sample_ready_lifecycle)) \<le> 10"
    by (simp_all add: sample_authority_def sample_ready_lifecycle_def lifecycle_draft_def word_eval)
  show ?thesis
    using evaluated_archive_proof_accepted
      [OF pf not_blank_texts(1) not_blank_texts(1) times] pf by blast
qed

end
