(* ===== verification/Run_State.thy ===== *)
theory Run_State
  imports Rust_Std
begin

text \<open>
  \<open>src/mission/run_state.rs\<close>: observations of a provider session and the snapshot they are
  folded into. Observations arrive from hooks, the provider's API, the process table and
  terminal heuristics, out of order and more than once; the snapshot accepts or ignores each.
  Shown here: redelivery is harmless, sequence numbers only grow, heuristics never complete a
  turn, a completed turn only changes for the worse, and weaker sources never override
  stronger ones except to report a dead session.
\<close>

section \<open>Data\<close>

datatype session_status =
    Starting | Ready | Working | NeedsApproval | NeedsAnswer | Blocked | Failed | Disconnected
  | Unknown

datatype observation_source = StructuredHook | ProviderApi | Process | TerminalHeuristic

datatype confidence = Exact | Strong | Inferred

definition requires_attention :: "session_status \<Rightarrow> bool" where
  "requires_attention st \<longleftrightarrow> st \<in> {NeedsApproval, NeedsAnswer, Blocked}"

definition is_safety_worsening :: "session_status \<Rightarrow> bool" where
  "is_safety_worsening st \<longleftrightarrow> requires_attention st \<or> st \<in> {Failed, Disconnected}"

fun source_confidence :: "observation_source \<Rightarrow> confidence" where
  "source_confidence StructuredHook = Exact"
| "source_confidence ProviderApi = Exact"
| "source_confidence Process = Strong"
| "source_confidence TerminalHeuristic = Inferred"

fun source_priority :: "observation_source \<Rightarrow> u8" where
  "source_priority StructuredHook = 3"
| "source_priority ProviderApi = 3"
| "source_priority Process = 2"
| "source_priority TerminalHeuristic = 1"

record session_observation =
  so_event_id :: string
  so_status :: session_status
  so_source :: observation_source
  so_provider_sequence :: "u64 option"
  so_received_sequence :: u64
  so_turn_id :: "string option"
  so_observed_at_millis :: u64
  so_expires_at_millis :: "u64 option"
  so_turn_completed :: bool

definition session_observation_new ::
  "string \<Rightarrow> session_status \<Rightarrow> observation_source \<Rightarrow> u64 option \<Rightarrow> u64 \<Rightarrow> string option \<Rightarrow> u64
     \<Rightarrow> session_observation" where
  "session_observation_new event_id status source provider_sequence received_sequence turn_id
     observed_at_millis =
     \<lparr>so_event_id = event_id, so_status = status, so_source = source,
      so_provider_sequence = provider_sequence, so_received_sequence = received_sequence,
      so_turn_id = turn_id, so_observed_at_millis = observed_at_millis,
      so_expires_at_millis = None, so_turn_completed = False\<rparr>"

definition observation_expires_at :: "u64 \<Rightarrow> session_observation \<Rightarrow> session_observation" where
  "observation_expires_at at ob = ob\<lparr>so_expires_at_millis := Some at\<rparr>"

definition with_turn_completed :: "session_observation \<Rightarrow> session_observation" where
  "with_turn_completed ob = ob\<lparr>so_turn_completed := True\<rparr>"

definition normalize_heuristic :: "session_observation \<Rightarrow> session_observation" where
  "normalize_heuristic ob =
     (case so_source ob of
        StructuredHook \<Rightarrow> ob
      | ProviderApi \<Rightarrow> ob
      | Process \<Rightarrow> ob\<lparr>so_provider_sequence := None, so_turn_id := None, so_turn_completed := False\<rparr>
      | TerminalHeuristic \<Rightarrow>
          (let claimed_completion = so_turn_completed ob;
               ob' = ob\<lparr>so_provider_sequence := None, so_turn_id := None,
                       so_turn_completed := False\<rparr>
           in if claimed_completion \<or> so_status ob' \<notin> {Ready, Unknown}
              then ob'\<lparr>so_status := Unknown\<rparr> else ob'))"

record session_snapshot =
  ss_status :: session_status
  ss_source :: observation_source
  ss_confidence :: confidence
  ss_provider_sequence :: "u64 option"
  ss_received_sequence :: u64
  ss_current_turn_id :: "string option"
  ss_current_turn_completed :: bool
  ss_observed_at_millis :: u64
  ss_expires_at_millis :: "u64 option"
  ss_applied_event_ids :: "string bset"

definition snapshot_starting :: "u64 \<Rightarrow> session_snapshot" where
  "snapshot_starting observed_at_millis =
     \<lparr>ss_status = Starting, ss_source = Process, ss_confidence = Strong,
      ss_provider_sequence = None, ss_received_sequence = 0, ss_current_turn_id = None,
      ss_current_turn_completed = False, ss_observed_at_millis = observed_at_millis,
      ss_expires_at_millis = None, ss_applied_event_ids = []\<rparr>"

section \<open>Operations\<close>

definition should_accept :: "session_snapshot \<Rightarrow> session_observation \<Rightarrow> bool" where
  "should_accept s ob =
     (let same_turn = so_turn_id ob = ss_current_turn_id s;
          unscoped = so_turn_id ob = None
      in if so_received_sequence ob \<le> ss_received_sequence s then False
         else if same_turn
           \<and> (case (so_provider_sequence ob, ss_provider_sequence s) of
                (Some incoming, Some current) \<Rightarrow> incoming \<le> current | _ \<Rightarrow> False)
         then False
         else if (same_turn \<or> unscoped) \<and> ss_current_turn_completed s
           \<and> \<not> is_safety_worsening (so_status ob)
         then False
         else if source_priority (so_source ob) < source_priority (ss_source s)
           \<and> so_status ob \<notin> {Failed, Disconnected}
           \<and> \<not> (ss_status s = Starting \<and> ss_applied_event_ids s = [])
         then False
         else True)"

definition is_new_turn :: "session_snapshot \<Rightarrow> session_observation \<Rightarrow> bool" where
  "is_new_turn s ob =
     (case (so_turn_id ob, ss_current_turn_id s) of
        (Some incoming, Some current) \<Rightarrow> incoming \<noteq> current
      | (Some _, None) \<Rightarrow> True
      | _ \<Rightarrow> False)"

definition snapshot_apply :: "session_snapshot \<Rightarrow> session_observation \<Rightarrow> session_snapshot" where
  "snapshot_apply s ob0 =
     (let ob = normalize_heuristic ob0
      in if so_event_id ob \<in> set (ss_applied_event_ids s) \<or> \<not> should_accept s ob then s
         else s\<lparr>
           ss_status := so_status ob,
           ss_source := so_source ob,
           ss_confidence := source_confidence (so_source ob),
           ss_provider_sequence :=
             (if so_provider_sequence ob \<noteq> None then so_provider_sequence ob
              else ss_provider_sequence s),
           ss_received_sequence := so_received_sequence ob,
           ss_current_turn_id :=
             (if so_turn_id ob \<noteq> None then so_turn_id ob else ss_current_turn_id s),
           ss_current_turn_completed :=
             (if so_turn_id ob \<noteq> None
              then (if is_new_turn s ob then so_turn_completed ob
                    else ss_current_turn_completed s \<or> so_turn_completed ob)
              else ss_current_turn_completed s),
           ss_observed_at_millis := so_observed_at_millis ob,
           ss_expires_at_millis := so_expires_at_millis ob,
           ss_applied_event_ids := bs_insert (so_event_id ob) (ss_applied_event_ids s)\<rparr>)"

record visible_session_state =
  vs_status :: session_status
  vs_source :: observation_source
  vs_confidence :: confidence
  vs_age_millis :: u64

definition visible_at :: "session_snapshot \<Rightarrow> u64 \<Rightarrow> visible_session_state" where
  "visible_at s now_millis =
     (let expired = (case ss_expires_at_millis s of None \<Rightarrow> False | Some e \<Rightarrow> e \<le> now_millis)
      in \<lparr>vs_status = (if expired then Unknown else ss_status s),
          vs_source = ss_source s,
          vs_confidence = ss_confidence s,
          vs_age_millis = u64_saturating_sub now_millis (ss_observed_at_millis s)\<rparr>)"

section \<open>Facts about one observation\<close>

lemma normalize_event_id [simp]: "so_event_id (normalize_heuristic ob) = so_event_id ob"
  by (simp add: normalize_heuristic_def Let_def split: observation_source.split)

lemma normalize_source [simp]: "so_source (normalize_heuristic ob) = so_source ob"
  by (simp add: normalize_heuristic_def Let_def split: observation_source.split)

lemma normalize_received [simp]:
  "so_received_sequence (normalize_heuristic ob) = so_received_sequence ob"
  by (simp add: normalize_heuristic_def Let_def split: observation_source.split)

lemma normalize_unstructured:
  "so_source ob \<in> {Process, TerminalHeuristic} \<Longrightarrow>
     so_turn_id (normalize_heuristic ob) = None
     \<and> so_provider_sequence (normalize_heuristic ob) = None
     \<and> \<not> so_turn_completed (normalize_heuristic ob)"
  by (auto simp: normalize_heuristic_def Let_def split: if_splits)

lemma normalize_terminal_status:
  "so_source ob = TerminalHeuristic \<Longrightarrow> so_status (normalize_heuristic ob) \<in> {Ready, Unknown}"
  by (simp add: normalize_heuristic_def Let_def)

lemma should_accept_received:
  "should_accept s ob \<Longrightarrow> ss_received_sequence s < so_received_sequence ob"
  by (auto simp: should_accept_def Let_def not_le split: if_splits)

text \<open>What an accepted observation leaves behind; everything else is the unchanged snapshot.\<close>

lemma snapshot_apply_cases:
  obtains (ignored) "snapshot_apply s ob = s"
  | (accepted) "so_event_id ob \<notin> set (ss_applied_event_ids s)"
      "should_accept s (normalize_heuristic ob)"
      "ss_received_sequence (snapshot_apply s ob) = so_received_sequence ob"
      "ss_applied_event_ids (snapshot_apply s ob)
         = bs_insert (so_event_id ob) (ss_applied_event_ids s)"
      "ss_status (snapshot_apply s ob) = so_status (normalize_heuristic ob)"
      "ss_source (snapshot_apply s ob) = so_source ob"
      "ss_confidence (snapshot_apply s ob) = source_confidence (so_source ob)"
  by (cases "so_event_id ob \<in> set (ss_applied_event_ids s)
        \<or> \<not> should_accept s (normalize_heuristic ob)")
     (auto simp: snapshot_apply_def Let_def)

lemma snapshot_apply_received_mono:
  "ss_received_sequence s \<le> ss_received_sequence (snapshot_apply s ob)"
  by (cases rule: snapshot_apply_cases [where s = s and ob = ob])
     (auto dest: should_accept_received simp: less_imp_le)

lemma snapshot_apply_ids_mono:
  "set (ss_applied_event_ids s) \<subseteq> set (ss_applied_event_ids (snapshot_apply s ob))"
  by (cases rule: snapshot_apply_cases [where s = s and ob = ob]) auto

section \<open>The snapshot invariant\<close>

definition snapshot_ok :: "session_snapshot \<Rightarrow> bool" where
  "snapshot_ok s \<longleftrightarrow>
     ss_confidence s = source_confidence (ss_source s)
     \<and> bs_ok (ss_applied_event_ids s)
     \<and> (ss_current_turn_completed s \<longrightarrow> ss_current_turn_id s \<noteq> None)
     \<and> (ss_source s = TerminalHeuristic \<longrightarrow> ss_status s \<in> {Ready, Unknown})
     \<and> (ss_received_sequence s = 0 \<longleftrightarrow> ss_applied_event_ids s = [])"

lemma bs_insert_not_Nil [simp]: "bs_insert x s \<noteq> []"
  by (cases s) auto

lemma snapshot_apply_turn:
  "ss_current_turn_completed (snapshot_apply s ob) \<Longrightarrow>
     (ss_current_turn_completed s \<longrightarrow> ss_current_turn_id s \<noteq> None) \<Longrightarrow>
     ss_current_turn_id (snapshot_apply s ob) \<noteq> None"
  by (auto simp: snapshot_apply_def Let_def split: if_splits)

lemma snapshot_apply_ok [step_inv]:
  assumes "snapshot_ok s"
  shows "snapshot_ok (snapshot_apply s ob)"
proof (cases rule: snapshot_apply_cases [where s = s and ob = ob])
  case ignored
  then show ?thesis using assms by simp
next
  case accepted
  have "ss_received_sequence s < so_received_sequence ob"
    using should_accept_received [OF accepted(2)] by simp
  then have "so_received_sequence ob \<noteq> 0"
    by auto
  moreover have "ss_current_turn_completed (snapshot_apply s ob) \<longrightarrow>
      ss_current_turn_id (snapshot_apply s ob) \<noteq> None"
    using snapshot_apply_turn assms by (auto simp: snapshot_ok_def)
  moreover have "so_source ob = TerminalHeuristic \<longrightarrow>
      so_status (normalize_heuristic ob) \<in> {Ready, Unknown}"
    using normalize_terminal_status by blast
  ultimately show ?thesis
    using assms accepted(3-7) unfolding snapshot_ok_def by simp
qed

text \<open>
  The session as a machine: every observation is consumed, the invariant is kept, and the
  received sequence and the set of applied events only grow.
\<close>

definition observe :: "session_observation \<Rightarrow> session_snapshot \<Rightarrow> unit + session_snapshot" where
  "observe ob s = Inr (snapshot_apply s ob)"

definition snapshot_le :: "session_snapshot \<Rightarrow> session_snapshot \<Rightarrow> bool" where
  "snapshot_le s t \<longleftrightarrow> ss_received_sequence s \<le> ss_received_sequence t
     \<and> set (ss_applied_event_ids s) \<subseteq> set (ss_applied_event_ids t)"

interpretation session: monotone_machine observe snapshot_ok snapshot_le
proof unfold_locales
  show "snapshot_ok s \<Longrightarrow> observe e s = Inr s' \<Longrightarrow> snapshot_ok s'" for s s' e
    by (auto simp: observe_def snapshot_apply_ok)
  show "snapshot_ok s \<Longrightarrow> snapshot_le s s" for s
    by (simp add: snapshot_le_def)
  show "snapshot_le s t \<Longrightarrow> snapshot_le t u \<Longrightarrow> snapshot_le s u" for s t u
    by (auto simp: snapshot_le_def)
  show "snapshot_ok s \<Longrightarrow> observe e s = Inr s' \<Longrightarrow> snapshot_le s s'" for s s' e
    using snapshot_apply_received_mono [of s e] snapshot_apply_ids_mono [of s e]
    by (auto simp: observe_def snapshot_le_def)
qed

lemma snapshot_starting_ok: "snapshot_ok (snapshot_starting at)"
  by (simp add: snapshot_ok_def snapshot_starting_def)

lemma run_all_observe: "run_all observe obs s = Inr (foldl snapshot_apply s obs)"
  by (induction obs arbitrary: s) (auto simp: observe_def)

section \<open>Properties\<close>

text \<open>
  Redelivering an observation changes nothing: applying the same observation twice gives
  the snapshot that applying it once gives, whether it was accepted or ignored.
\<close>

theorem snapshot_apply_idempotent:
  "snapshot_apply (snapshot_apply s ob) ob = snapshot_apply s ob"
proof (cases rule: snapshot_apply_cases [where s = s and ob = ob])
  case ignored
  then show ?thesis by simp
next
  case accepted
  then have "so_event_id ob \<in> set (ss_applied_event_ids (snapshot_apply s ob))"
    by simp
  then show ?thesis
    by (simp add: snapshot_apply_def [of "snapshot_apply s ob"])
qed

text \<open>
  After any sequence of observations the snapshot is well formed (its confidence is the one
  of its source, a completed turn has an identity, a terminal heuristic never claims more than
  ready or unknown) and neither the received sequence nor the applied events ever go back.
\<close>

theorem session_run_invariant:
  "snapshot_ok (foldl snapshot_apply (snapshot_starting at) obs)
   \<and> snapshot_le (foldl snapshot_apply (snapshot_starting at) pre)
       (foldl snapshot_apply (snapshot_starting at) (pre @ obs))"
proof -
  have ok: "snapshot_ok (foldl snapshot_apply (snapshot_starting at) xs)" for xs
    using session.run_keeps [OF snapshot_starting_ok run_all_observe] .
  then show ?thesis
    using session.run_le [OF ok run_all_observe, of pre obs] by simp
qed

text \<open>
  An observation inferred from the process table or from terminal output never names,
  starts or completes a turn and never moves the provider sequence.
\<close>

theorem unstructured_never_completes_turn:
  assumes "so_source ob \<in> {Process, TerminalHeuristic}"
  shows "ss_current_turn_id (snapshot_apply s ob) = ss_current_turn_id s
     \<and> ss_current_turn_completed (snapshot_apply s ob) = ss_current_turn_completed s
     \<and> ss_provider_sequence (snapshot_apply s ob) = ss_provider_sequence s"
  using normalize_unstructured [OF assms] by (simp add: snapshot_apply_def Let_def)

theorem unstructured_never_completes_turn_witness:
  "let s = snapshot_apply (snapshot_starting 5)
         (session_observation_new ''e1'' Working ProviderApi (Some 1) 1 (Some ''t1'') 6);
       ob = with_turn_completed
         (session_observation_new ''e2'' Failed Process (Some 9) 2 (Some ''t2'') 7)
   in so_source ob \<in> {Process, TerminalHeuristic}
      \<and> ss_current_turn_id (snapshot_apply s ob) = Some ''t1''
      \<and> ss_status (snapshot_apply s ob) = Failed
      \<and> \<not> ss_current_turn_completed (snapshot_apply s ob)"
  using unstructured_never_completes_turn
    [of "with_turn_completed (session_observation_new ''e2'' Failed Process (Some 9) 2 (Some ''t2'') 7)"
        "snapshot_apply (snapshot_starting 5)
           (session_observation_new ''e1'' Working ProviderApi (Some 1) 1 (Some ''t1'') 6)"]
  by (simp add: snapshot_apply_def snapshot_starting_def session_observation_new_def
      with_turn_completed_def normalize_heuristic_def should_accept_def is_new_turn_def
      is_safety_worsening_def requires_attention_def Let_def word_eval)

text \<open>
  Once the current turn is completed, an observation of that turn or of no turn is either
  ignored or moves the session to a state that needs attention, has failed or is disconnected;
  the turn stays completed.
\<close>

theorem completed_turn_only_worsens:
  assumes "ss_current_turn_completed s"
    and "so_turn_id (normalize_heuristic ob) \<in> {None, ss_current_turn_id s}"
  shows "snapshot_apply s ob = s
     \<or> is_safety_worsening (ss_status (snapshot_apply s ob))
       \<and> ss_current_turn_completed (snapshot_apply s ob)
       \<and> ss_current_turn_id (snapshot_apply s ob) = ss_current_turn_id s"
proof (cases rule: snapshot_apply_cases [where s = s and ob = ob])
  case ignored
  then show ?thesis by simp
next
  case accepted
  have "is_safety_worsening (so_status (normalize_heuristic ob))"
    using accepted(2) assms by (auto simp: should_accept_def Let_def split: if_splits)
  then show ?thesis
    using accepted assms
    by (auto simp: snapshot_apply_def Let_def is_new_turn_def split: option.splits)
qed

theorem completed_turn_only_worsens_witness:
  "let s = snapshot_apply (snapshot_starting 5) (with_turn_completed
         (session_observation_new ''e1'' Ready ProviderApi (Some 1) 1 (Some ''t1'') 6));
       ob = session_observation_new ''e2'' NeedsApproval ProviderApi (Some 2) 2 (Some ''t1'') 7
   in ss_current_turn_completed s
      \<and> is_safety_worsening (ss_status (snapshot_apply s ob))
      \<and> ss_current_turn_id (snapshot_apply s ob) = Some ''t1''"
  using completed_turn_only_worsens
    [of "snapshot_apply (snapshot_starting 5) (with_turn_completed
           (session_observation_new ''e1'' Ready ProviderApi (Some 1) 1 (Some ''t1'') 6))"
        "session_observation_new ''e2'' NeedsApproval ProviderApi (Some 2) 2 (Some ''t1'') 7"]
  by (simp add: snapshot_apply_def snapshot_starting_def session_observation_new_def
      with_turn_completed_def normalize_heuristic_def should_accept_def is_new_turn_def
      is_safety_worsening_def requires_attention_def Let_def word_eval)

text \<open>
  A source of lower priority than the one the snapshot rests on is ignored unless it reports
  that the session failed or disconnected, or nothing has been observed yet.
\<close>

theorem weaker_source_is_ignored:
  assumes "source_priority (so_source ob) < source_priority (ss_source s)"
    and "so_status (normalize_heuristic ob) \<notin> {Failed, Disconnected}"
    and "\<not> (ss_status s = Starting \<and> ss_applied_event_ids s = [])"
  shows "snapshot_apply s ob = s"
  using assms by (simp add: snapshot_apply_def should_accept_def Let_def)

theorem weaker_source_is_ignored_witness:
  "let s = snapshot_apply (snapshot_starting 5)
         (session_observation_new ''e1'' Working ProviderApi (Some 1) 1 (Some ''t1'') 6);
       ob = session_observation_new ''e2'' Ready TerminalHeuristic None 2 None 7
   in source_priority (so_source ob) < source_priority (ss_source s)
      \<and> snapshot_apply s ob = s \<and> ss_status s = Working"
  using weaker_source_is_ignored
    [of "session_observation_new ''e2'' Ready TerminalHeuristic None 2 None 7"
        "snapshot_apply (snapshot_starting 5)
           (session_observation_new ''e1'' Working ProviderApi (Some 1) 1 (Some ''t1'') 6)"]
  by (simp add: snapshot_apply_def snapshot_starting_def session_observation_new_def
      normalize_heuristic_def should_accept_def is_new_turn_def Let_def word_eval)

end
