(* ===== verification/Attention.thy ===== *)
theory Attention
  imports Run_State Mission_Status Digest
begin

text \<open>
  \<open>src/mission/attention.rs\<close>: the attention inbox. Provider requests, questions and warnings
  become items; a person decides or answers, the decision becomes a response attempt sent to
  the provider, and the provider's acknowledgement or failure closes or reopens the item.
  The state is the record \<open>attention_inbox\<close>; every public operation is one definition, with
  each early return a branch. The invariant \<open>inbox_ok\<close> (in \<open>Attention_Inv\<close>) says that
  the two indexes agree with the items and that an earlier response attempt is always known
  not to have been applied.
\<close>

section \<open>Data\<close>

record pane_target =
  pt_workspace :: string
  pt_pane :: string

datatype attention_kind =
    PermissionRequest | ProviderQuestion | CommandFailed | WorktreeConflict | TurnComplete
  | KindDisconnected | SecurityWarning | ManualVerification

datatype attention_risk = Low | Medium | High | Critical

datatype attention_decision = ApproveOnce | ApproveForSession | AllowForMission | Deny | Answer

datatype response_capability = Reliable | OpenPaneOnly

datatype response_failure_disposition = DispDefinitelyNotApplied | DispDeliveryUnknown

datatype response_failure_code = Rejected | DisconnectedBeforeWrite | Timeout | TransportClosed

record attention_event =
  ae_event_id :: string
  ae_mission_id :: string
  ae_mission_run_id :: string
  ae_session_id :: string
  ae_pane_target :: pane_target
  ae_kind :: attention_kind
  ae_requested_action :: string
  ae_scope :: string
  ae_risk :: attention_risk
  ae_provider :: provider_kind
  ae_source :: observation_source
  ae_response_capability :: response_capability
  ae_request_generation :: u64
  ae_created_at_millis :: u64
  ae_expires_at_millis :: "u64 option"
  ae_provider_request_id :: "string option"

definition attention_event_new ::
  "string \<Rightarrow> string \<Rightarrow> string \<Rightarrow> string \<Rightarrow> pane_target \<Rightarrow> attention_kind \<Rightarrow> string \<Rightarrow> string
     \<Rightarrow> attention_risk \<Rightarrow> provider_kind \<Rightarrow> observation_source \<Rightarrow> u64 \<Rightarrow> attention_event" where
  "attention_event_new event_id mission_id mission_run_id session_id target kind
     requested_action scope risk provider source created_at_millis =
     \<lparr>ae_event_id = event_id, ae_mission_id = mission_id, ae_mission_run_id = mission_run_id,
      ae_session_id = session_id, ae_pane_target = target, ae_kind = kind,
      ae_requested_action = requested_action, ae_scope = scope, ae_risk = risk,
      ae_provider = provider, ae_source = source, ae_response_capability = OpenPaneOnly,
      ae_request_generation = 1, ae_created_at_millis = created_at_millis,
      ae_expires_at_millis = None, ae_provider_request_id = None\<rparr>"

definition with_provider_request_id :: "string \<Rightarrow> attention_event \<Rightarrow> attention_event" where
  "with_provider_request_id request_id ev = ev\<lparr>ae_provider_request_id := Some request_id\<rparr>"

definition with_response_capability ::
  "response_capability \<Rightarrow> attention_event \<Rightarrow> attention_event" where
  "with_response_capability capability ev = ev\<lparr>ae_response_capability := capability\<rparr>"

definition with_request_generation :: "u64 \<Rightarrow> attention_event \<Rightarrow> attention_event" where
  "with_request_generation generation ev = ev\<lparr>ae_request_generation := generation\<rparr>"

definition event_expires_at :: "u64 \<Rightarrow> attention_event \<Rightarrow> attention_event" where
  "event_expires_at at ev = ev\<lparr>ae_expires_at_millis := Some at\<rparr>"

datatype attention_status =
    Open
  | PendingResponse attention_decision string u64
  | Resolved attention_decision string u64
  | ReconciliationRequired attention_decision string response_failure_code u64
  | Dismissed string string u64
  | Expired u64

definition is_open_or_pending :: "attention_status \<Rightarrow> bool" where
  "is_open_or_pending st =
     (case st of Open \<Rightarrow> True | PendingResponse _ _ _ \<Rightarrow> True | _ \<Rightarrow> False)"

definition is_expired :: "attention_status \<Rightarrow> bool" where
  "is_expired st = (case st of Expired _ \<Rightarrow> True | _ \<Rightarrow> False)"

datatype provider_response_attempt_status =
    Pending
  | Acknowledged u64
  | DefinitelyNotApplied u64 response_failure_code
  | DeliveryUnknown u64 response_failure_code

record provider_response_token =
  tk_item_id :: string
  tk_request_generation :: u64
  tk_attempt :: u32

record provider_response_attempt =
  pa_token :: provider_response_token
  pa_decision :: attention_decision
  pa_actor :: string
  pa_requested_at_millis :: u64
  pa_status :: provider_response_attempt_status

fun failure_disposition ::
  "provider_response_attempt_status \<Rightarrow> response_failure_disposition option" where
  "failure_disposition (DefinitelyNotApplied _ _) = Some DispDefinitelyNotApplied"
| "failure_disposition (DeliveryUnknown _ _) = Some DispDeliveryUnknown"
| "failure_disposition Pending = None"
| "failure_disposition (Acknowledged _) = None"

fun failure_code :: "provider_response_attempt_status \<Rightarrow> response_failure_code option" where
  "failure_code (DefinitelyNotApplied _ code) = Some code"
| "failure_code (DeliveryUnknown _ code) = Some code"
| "failure_code Pending = None"
| "failure_code (Acknowledged _) = None"

record attention_item =
  ai_id :: string
  ai_mission_id :: string
  ai_mission_run_id :: string
  ai_session_id :: string
  ai_pane_target :: pane_target
  ai_kind :: attention_kind
  ai_requested_action :: string
  ai_scope :: string
  ai_risk :: attention_risk
  ai_provider :: provider_kind
  ai_source :: observation_source
  ai_response_capability :: response_capability
  ai_request_generation :: u64
  ai_created_at_millis :: u64
  ai_expires_at_millis :: "u64 option"
  ai_provider_request_id :: "string option"
  ai_occurrence_count :: u32
  ai_unread :: bool
  ai_status :: attention_status
  ai_response_attempts :: "provider_response_attempt list"

definition item_from_event :: "attention_event \<Rightarrow> attention_item" where
  "item_from_event ev =
     \<lparr>ai_id = ae_event_id ev, ai_mission_id = ae_mission_id ev,
      ai_mission_run_id = ae_mission_run_id ev, ai_session_id = ae_session_id ev,
      ai_pane_target = ae_pane_target ev, ai_kind = ae_kind ev,
      ai_requested_action = ae_requested_action ev, ai_scope = ae_scope ev,
      ai_risk = ae_risk ev, ai_provider = ae_provider ev, ai_source = ae_source ev,
      ai_response_capability = ae_response_capability ev,
      ai_request_generation = ae_request_generation ev,
      ai_created_at_millis = ae_created_at_millis ev,
      ai_expires_at_millis = ae_expires_at_millis ev,
      ai_provider_request_id = ae_provider_request_id ev, ai_occurrence_count = 1,
      ai_unread = True, ai_status = Open, ai_response_attempts = []\<rparr>"

definition has_same_payload_as :: "attention_event \<Rightarrow> attention_item \<Rightarrow> bool" where
  "has_same_payload_as ev item \<longleftrightarrow>
     ae_mission_id ev = ai_mission_id item
     \<and> ae_mission_run_id ev = ai_mission_run_id item
     \<and> ae_session_id ev = ai_session_id item
     \<and> ae_kind ev = ai_kind item
     \<and> ae_requested_action ev = ai_requested_action item
     \<and> ae_scope ev = ai_scope item
     \<and> ae_risk ev = ai_risk item
     \<and> ae_provider ev = ai_provider item
     \<and> ae_pane_target ev = ai_pane_target item
     \<and> ae_provider_request_id ev = ai_provider_request_id item
     \<and> ae_source ev = ai_source item
     \<and> ae_response_capability ev = ai_response_capability item
     \<and> ae_request_generation ev = ai_request_generation item
     \<and> ae_created_at_millis ev = ai_created_at_millis item
     \<and> ae_expires_at_millis ev = ai_expires_at_millis item"

definition has_same_semantics_as :: "attention_event \<Rightarrow> attention_item \<Rightarrow> bool" where
  "has_same_semantics_as ev item \<longleftrightarrow>
     has_same_payload_as ev item \<and> is_open_or_pending (ai_status item)"

record provider_request_key =
  rk_provider :: provider_kind
  rk_mission_id :: string
  rk_mission_run_id :: string
  rk_session_id :: string
  rk_provider_request_id :: string
  rk_request_generation :: u64

definition event_request_key :: "attention_event \<Rightarrow> provider_request_key option" where
  "event_request_key ev =
     map_option (\<lambda>request_id.
       \<lparr>rk_provider = ae_provider ev, rk_mission_id = ae_mission_id ev,
        rk_mission_run_id = ae_mission_run_id ev, rk_session_id = ae_session_id ev,
        rk_provider_request_id = request_id,
        rk_request_generation = ae_request_generation ev\<rparr>) (ae_provider_request_id ev)"

definition request_key_digest :: "sha256 \<Rightarrow> provider_request_key \<Rightarrow> string" where
  "request_key_digest sha key =
     cd_finish sha
       (cd_u64 (rk_request_generation key)
       (cd_string (rk_provider_request_id key)
       (cd_string (rk_session_id key)
       (cd_string (rk_mission_run_id key)
       (cd_string (rk_mission_id key)
       (cd_u8 (provider_rank (rk_provider key))
       (cd_new ''provider-request-identity-v1'')))))))"

record provider_request_index_entry =
  ri_key :: provider_request_key
  ri_item_id :: string

record provider_response_route =
  rr_provider :: provider_kind
  rr_mission_id :: string
  rr_mission_run_id :: string
  rr_session_id :: string
  rr_pane_target :: pane_target
  rr_provider_request_id :: string
  rr_request_generation :: u64
  rr_scope :: string

datatype provider_response_intent =
    Respond provider_response_route attention_decision "string option" provider_response_token
  | OpenPane pane_target

datatype attention_error =
    NotFound | AttentionExpired | AlreadyClosed | MissingProviderRequestId | DecisionNotAllowed
  | EmptyActor | EmptyAnswer | InvalidAnswer | DecisionTimeWentBackwards
  | TooManyResponseAttempts | NoResponsePending | StaleResponseToken
  | ResponseTimeWentBackwards | EventIdConflict | ProviderRequestConflict | CorruptIndex
  | SafetyItemCannotBeDismissed | EmptyDismissReason

definition ephemeral_answer_new :: "string \<Rightarrow> attention_error + string" where
  "ephemeral_answer_new value =
     (if is_blank value then Inl EmptyAnswer
      else if length value > 16 * 1024 \<or> has_unsupported_control value then Inl InvalidAnswer
      else Inr value)"

record attention_inbox =
  items :: "(string, attention_item) bmap"
  seen_event_ids :: "(string, string) bmap"
  provider_requests :: "(string, provider_request_index_entry) bmap"

definition inbox_new :: attention_inbox where
  "inbox_new = \<lparr>items = [], seen_event_ids = [], provider_requests = []\<rparr>"

section \<open>Operations\<close>

text \<open>Writing back through the \<open>&mut\<close> reference of \<open>items.get_mut(item_id)\<close>.\<close>

definition put_item :: "string \<Rightarrow> attention_item \<Rightarrow> attention_inbox \<Rightarrow> attention_inbox" where
  "put_item item_id item ib = ib\<lparr>items := bm_adjust item_id (\<lambda>_. item) (items ib)\<rparr>"

definition mark_seen :: "string \<Rightarrow> string \<Rightarrow> attention_inbox \<Rightarrow> attention_inbox" where
  "mark_seen event_id item_id ib =
     ib\<lparr>seen_event_ids := bm_insert event_id item_id (seen_event_ids ib)\<rparr>"

definition ingest_indexed ::
  "attention_event \<Rightarrow> provider_request_key \<Rightarrow> provider_request_index_entry \<Rightarrow> attention_inbox
     \<Rightarrow> attention_error + attention_inbox" where
  "ingest_indexed ev key entry ib =
     (if key \<noteq> ri_key entry then Inl CorruptIndex
      else case bm_get (items ib) (ri_item_id entry) of
        None \<Rightarrow> Inl CorruptIndex
      | Some item \<Rightarrow>
          (if \<not> has_same_payload_as ev item then Inl ProviderRequestConflict
           else
             let item' = item\<lparr>ai_occurrence_count := u32_saturating_add1 (ai_occurrence_count item)\<rparr>;
                 item'' = (if is_open_or_pending (ai_status item') then item'\<lparr>ai_unread := True\<rparr>
                           else item')
             in Inr (mark_seen (ae_event_id ev) (ri_item_id entry)
                      (put_item (ri_item_id entry) item'' ib))))"

definition insert_new_item ::
  "sha256 \<Rightarrow> attention_event \<Rightarrow> attention_inbox \<Rightarrow> attention_inbox" where
  "insert_new_item sha ev ib =
     (let ib1 = ib\<lparr>items := bm_insert (ae_event_id ev) (item_from_event ev) (items ib)\<rparr>;
          ib2 = mark_seen (ae_event_id ev) (ae_event_id ev) ib1
      in case event_request_key ev of
           None \<Rightarrow> ib2
         | Some key \<Rightarrow>
             ib2\<lparr>provider_requests :=
               bm_insert (request_key_digest sha key)
                 \<lparr>ri_key = key, ri_item_id = ae_event_id ev\<rparr> (provider_requests ib2)\<rparr>)"

definition ingest_unindexed ::
  "sha256 \<Rightarrow> attention_event \<Rightarrow> attention_inbox \<Rightarrow> attention_error + attention_inbox" where
  "ingest_unindexed sha ev ib =
     (case List.find (\<lambda>e. has_same_semantics_as ev (snd e)) (items ib) of
        Some (k, item) \<Rightarrow>
          Inr (mark_seen (ae_event_id ev) (ai_id item)
            (put_item k (item\<lparr>ai_occurrence_count := u32_saturating_add1 (ai_occurrence_count item),
                               ai_unread := True\<rparr>) ib))
      | None \<Rightarrow> Inr (insert_new_item sha ev ib))"

definition ingest ::
  "sha256 \<Rightarrow> attention_event \<Rightarrow> attention_inbox \<Rightarrow> attention_error + attention_inbox" where
  "ingest sha ev ib =
     (case bm_get (seen_event_ids ib) (ae_event_id ev) of
        Some item_id \<Rightarrow>
          (case bm_get (items ib) item_id of
             None \<Rightarrow> Inl CorruptIndex
           | Some item \<Rightarrow> if has_same_payload_as ev item then Inr ib else Inl EventIdConflict)
      | None \<Rightarrow>
          (case event_request_key ev of
             None \<Rightarrow> ingest_unindexed sha ev ib
           | Some key \<Rightarrow>
               (case bm_get (provider_requests ib) (request_key_digest sha key) of
                  None \<Rightarrow> ingest_unindexed sha ev ib
                | Some entry \<Rightarrow> ingest_indexed ev key entry ib)))"

fun set_last_status ::
  "provider_response_attempt_status \<Rightarrow> provider_response_attempt list
     \<Rightarrow> provider_response_attempt list" where
  "set_last_status st [] = []"
| "set_last_status st [a] = [a\<lparr>pa_status := st\<rparr>]"
| "set_last_status st (a # b # as) = a # set_last_status st (b # as)"

definition fail_latest_attempt ::
  "response_failure_disposition \<Rightarrow> response_failure_code \<Rightarrow> u64 \<Rightarrow> attention_item
     \<Rightarrow> attention_item" where
  "fail_latest_attempt disposition code at_millis item =
     (if ai_response_attempts item \<noteq> []
         \<and> pa_status (last (ai_response_attempts item)) = Pending
      then item\<lparr>ai_response_attempts := set_last_status
             (case disposition of
                DispDefinitelyNotApplied \<Rightarrow> DefinitelyNotApplied at_millis code
              | DispDeliveryUnknown \<Rightarrow> DeliveryUnknown at_millis code)
             (ai_response_attempts item)\<rparr>
      else item)"

definition past_expiry :: "attention_item \<Rightarrow> u64 \<Rightarrow> bool" where
  "past_expiry item now =
     (case ai_expires_at_millis item of None \<Rightarrow> False | Some expires_at \<Rightarrow> expires_at \<le> now)"

definition refresh_item :: "u64 \<Rightarrow> attention_item \<Rightarrow> attention_item" where
  "refresh_item now item =
     (if is_open_or_pending (ai_status item) \<and> past_expiry item now
      then (case ai_status item of
              Open \<Rightarrow> item\<lparr>ai_status := Expired now\<rparr>
            | PendingResponse decision actor _ \<Rightarrow>
                (fail_latest_attempt DispDeliveryUnknown Timeout now item)
                  \<lparr>ai_status := ReconciliationRequired decision actor Timeout now\<rparr>
            | _ \<Rightarrow> item)
      else item)"

definition refresh :: "u64 \<Rightarrow> attention_inbox \<Rightarrow> attention_inbox" where
  "refresh now ib = ib\<lparr>items := bm_map_values (refresh_item now) (items ib)\<rparr>"

definition source_is_reliable :: "observation_source \<Rightarrow> bool" where
  "source_is_reliable source \<longleftrightarrow> source \<in> {StructuredHook, ProviderApi}"

fun decision_allowed :: "attention_kind \<Rightarrow> attention_decision \<Rightarrow> attention_risk \<Rightarrow> bool" where
  "decision_allowed PermissionRequest ApproveOnce _ = True"
| "decision_allowed PermissionRequest Deny _ = True"
| "decision_allowed PermissionRequest ApproveForSession risk = (risk \<in> {Low, Medium})"
| "decision_allowed PermissionRequest AllowForMission risk = (risk \<in> {Low, Medium})"
| "decision_allowed _ _ _ = False"

definition next_attempt :: "nat \<Rightarrow> u32 option" where
  "next_attempt n = (if n < 2 ^ 32 then u32_checked_add1 (of_nat n) else None)"

text \<open>The shared tail of \<open>decide\<close> and \<open>answer\<close>: a new attempt and the intent to send it.\<close>

definition begin_response ::
  "string \<Rightarrow> attention_item \<Rightarrow> attention_decision \<Rightarrow> string option \<Rightarrow> string \<Rightarrow> u64
     \<Rightarrow> attention_error + (attention_item \<times> provider_response_intent)" where
  "begin_response item_id item decision answer_text actor at_millis =
     (case ai_provider_request_id item of
        None \<Rightarrow> Inl MissingProviderRequestId
      | Some provider_request_id \<Rightarrow>
          (case next_attempt (length (ai_response_attempts item)) of
             None \<Rightarrow> Inl TooManyResponseAttempts
           | Some attempt \<Rightarrow>
               (let token = \<lparr>tk_item_id = item_id,
                             tk_request_generation = ai_request_generation item,
                             tk_attempt = attempt\<rparr>;
                    route = \<lparr>rr_provider = ai_provider item,
                             rr_mission_id = ai_mission_id item,
                             rr_mission_run_id = ai_mission_run_id item,
                             rr_session_id = ai_session_id item,
                             rr_pane_target = ai_pane_target item,
                             rr_provider_request_id = provider_request_id,
                             rr_request_generation = ai_request_generation item,
                             rr_scope = ai_scope item\<rparr>
                in Inr (item\<lparr>ai_unread := False,
                             ai_status := PendingResponse decision actor at_millis,
                             ai_response_attempts := ai_response_attempts item @
                               [\<lparr>pa_token = token, pa_decision = decision, pa_actor = actor,
                                 pa_requested_at_millis = at_millis, pa_status = Pending\<rparr>]\<rparr>,
                        Respond route decision answer_text token))))"

definition finish_response ::
  "string \<Rightarrow> attention_inbox \<Rightarrow> attention_error + (attention_item \<times> provider_response_intent)
     \<Rightarrow> attention_inbox \<times> (attention_error + provider_response_intent option)" where
  "finish_response item_id ib r =
     (case r of Inl e \<Rightarrow> (ib, Inl e)
      | Inr (item, response) \<Rightarrow> (put_item item_id item ib, Inr (Some response)))"

definition decide ::
  "string \<Rightarrow> attention_decision \<Rightarrow> string \<Rightarrow> u64 \<Rightarrow> attention_inbox
     \<Rightarrow> attention_inbox \<times> (attention_error + provider_response_intent option)" where
  "decide item_id decision actor at_millis ib =
     (case bm_get (items ib) item_id of
        None \<Rightarrow> (ib, Inl NotFound)
      | Some item \<Rightarrow>
          if at_millis < ai_created_at_millis item then (ib, Inl DecisionTimeWentBackwards)
          else if is_expired (ai_status item) then (ib, Inl AttentionExpired)
          else if past_expiry item at_millis then
            (put_item item_id (item\<lparr>ai_status := Expired at_millis\<rparr>) ib, Inl AttentionExpired)
          else if ai_status item \<noteq> Open then (ib, Inl AlreadyClosed)
          else if ai_response_capability item = OpenPaneOnly
            \<or> \<not> source_is_reliable (ai_source item)
            \<or> ai_risk item = Critical \<and> decision \<noteq> Deny
          then (ib, Inr (Some (OpenPane (ai_pane_target item))))
          else if is_blank actor then (ib, Inl EmptyActor)
          else if \<not> decision_allowed (ai_kind item) decision (ai_risk item)
          then (ib, Inl DecisionNotAllowed)
          else finish_response item_id ib
                 (begin_response item_id item decision None actor at_millis))"

definition answer ::
  "string \<Rightarrow> string \<Rightarrow> string \<Rightarrow> u64 \<Rightarrow> attention_inbox
     \<Rightarrow> attention_inbox \<times> (attention_error + provider_response_intent option)" where
  "answer item_id answer_text actor at_millis ib =
     (case bm_get (items ib) item_id of
        None \<Rightarrow> (ib, Inl NotFound)
      | Some item \<Rightarrow>
          if at_millis < ai_created_at_millis item then (ib, Inl DecisionTimeWentBackwards)
          else if is_expired (ai_status item) then (ib, Inl AttentionExpired)
          else if past_expiry item at_millis then
            (put_item item_id (item\<lparr>ai_status := Expired at_millis\<rparr>) ib, Inl AttentionExpired)
          else if ai_status item \<noteq> Open then (ib, Inl AlreadyClosed)
          else if ai_kind item \<noteq> ProviderQuestion then (ib, Inl DecisionNotAllowed)
          else if ai_response_capability item = OpenPaneOnly
            \<or> \<not> source_is_reliable (ai_source item)
          then (ib, Inr (Some (OpenPane (ai_pane_target item))))
          else if is_blank actor then (ib, Inl EmptyActor)
          else case ephemeral_answer_new answer_text of
                 Inl e \<Rightarrow> (ib, Inl e)
               | Inr value \<Rightarrow> finish_response item_id ib
                   (begin_response item_id item Answer (Some value) actor at_millis))"

definition confirm_response ::
  "provider_response_token \<Rightarrow> u64 \<Rightarrow> attention_inbox
     \<Rightarrow> attention_inbox \<times> (attention_error + unit)" where
  "confirm_response token at_millis ib =
     (case bm_get (items ib) (tk_item_id token) of
        None \<Rightarrow> (ib, Inl NotFound)
      | Some item \<Rightarrow>
          if at_millis < ai_created_at_millis item then (ib, Inl ResponseTimeWentBackwards)
          else if ai_response_attempts item = [] then (ib, Inl NoResponsePending)
          else let attempt = last (ai_response_attempts item) in
            if pa_token attempt \<noteq> token then (ib, Inl StaleResponseToken)
            else case pa_status attempt of
              Acknowledged _ \<Rightarrow> (ib, Inr ())
            | DefinitelyNotApplied _ _ \<Rightarrow> (ib, Inl StaleResponseToken)
            | _ \<Rightarrow>
                (case (case ai_status item of
                         PendingResponse decision actor requested_at \<Rightarrow>
                           Some (decision, actor, requested_at)
                       | ReconciliationRequired decision actor _ since \<Rightarrow>
                           Some (decision, actor, since)
                       | _ \<Rightarrow> None) of
                   None \<Rightarrow> (ib, Inl NoResponsePending)
                 | Some (decision, actor, requested_at_millis) \<Rightarrow>
                     if at_millis < requested_at_millis then (ib, Inl ResponseTimeWentBackwards)
                     else (put_item (tk_item_id token)
                             (item\<lparr>ai_response_attempts :=
                                     set_last_status (Acknowledged at_millis)
                                       (ai_response_attempts item),
                                   ai_status := Resolved decision actor at_millis\<rparr>) ib,
                           Inr ())))"

definition fail_response ::
  "provider_response_token \<Rightarrow> response_failure_disposition \<Rightarrow> response_failure_code \<Rightarrow> u64
     \<Rightarrow> attention_inbox \<Rightarrow> attention_inbox \<times> (attention_error + unit)" where
  "fail_response token disposition code at_millis ib =
     (case bm_get (items ib) (tk_item_id token) of
        None \<Rightarrow> (ib, Inl NotFound)
      | Some item \<Rightarrow>
          if at_millis < ai_created_at_millis item then (ib, Inl ResponseTimeWentBackwards)
          else if ai_response_attempts item = [] then (ib, Inl NoResponsePending)
          else let attempt = last (ai_response_attempts item) in
            if pa_token attempt \<noteq> token \<or> pa_status attempt \<noteq> Pending
            then (ib, Inl StaleResponseToken)
            else case ai_status item of
              PendingResponse decision actor requested_at_millis \<Rightarrow>
                (if at_millis < requested_at_millis then (ib, Inl ResponseTimeWentBackwards)
                 else
                   let item' = fail_latest_attempt disposition code at_millis item;
                       status = (case disposition of
                         DispDefinitelyNotApplied \<Rightarrow>
                           (if past_expiry item at_millis then Expired at_millis else Open)
                       | DispDeliveryUnknown \<Rightarrow>
                           ReconciliationRequired decision actor code at_millis)
                   in (put_item (tk_item_id token)
                         (item'\<lparr>ai_status := status, ai_unread := True\<rparr>) ib, Inr ()))
            | _ \<Rightarrow> (ib, Inl NoResponsePending))"

definition dismiss ::
  "string \<Rightarrow> string \<Rightarrow> string \<Rightarrow> u64 \<Rightarrow> attention_inbox \<Rightarrow> attention_error + attention_inbox" where
  "dismiss item_id actor reason at_millis ib =
     (case bm_get (items ib) item_id of
        None \<Rightarrow> Inl NotFound
      | Some item \<Rightarrow>
          if ai_status item \<noteq> Open then Inl AlreadyClosed
          else if ai_kind item \<noteq> TurnComplete then Inl SafetyItemCannotBeDismissed
          else if is_blank actor then Inl EmptyActor
          else if is_blank reason then Inl EmptyDismissReason
          else if at_millis < ai_created_at_millis item then Inl DecisionTimeWentBackwards
          else Inr (put_item item_id
                 (item\<lparr>ai_unread := False, ai_status := Dismissed actor reason at_millis\<rparr>) ib))"

definition mark_read :: "string \<Rightarrow> attention_inbox \<Rightarrow> attention_error + attention_inbox" where
  "mark_read item_id ib =
     (case bm_get (items ib) item_id of
        None \<Rightarrow> Inl NotFound
      | Some item \<Rightarrow> Inr (put_item item_id (item\<lparr>ai_unread := False\<rparr>) ib))"

definition is_unresolved :: "attention_status \<Rightarrow> bool" where
  "is_unresolved st =
     (case st of Open \<Rightarrow> True | PendingResponse _ _ _ \<Rightarrow> True
      | ReconciliationRequired _ _ _ _ \<Rightarrow> True | _ \<Rightarrow> False)"

fun raise_status :: "session_status \<Rightarrow> attention_kind \<Rightarrow> session_status" where
  "raise_status effective PermissionRequest = NeedsApproval"
| "raise_status effective ProviderQuestion =
     (if effective = NeedsApproval then effective else NeedsAnswer)"
| "raise_status effective _ =
     (if effective \<in> {NeedsApproval, NeedsAnswer} then effective else Blocked)"

definition run_items ::
  "string \<Rightarrow> string \<Rightarrow> provider_kind \<Rightarrow> string \<Rightarrow> attention_inbox \<Rightarrow> attention_item list" where
  "run_items mission_id mission_run_id provider session_id ib =
     filter (\<lambda>item. ai_mission_id item = mission_id \<and> ai_mission_run_id item = mission_run_id
       \<and> ai_provider item = provider \<and> ai_session_id item = session_id
       \<and> is_unresolved (ai_status item)) (bm_values (items ib))"

definition effective_run_status ::
  "string \<Rightarrow> string \<Rightarrow> provider_kind \<Rightarrow> string \<Rightarrow> session_status \<Rightarrow> attention_inbox
     \<Rightarrow> session_status" where
  "effective_run_status mission_id mission_run_id provider session_id fallback ib =
     foldl (\<lambda>effective item. raise_status effective (ai_kind item)) fallback
       (run_items mission_id mission_run_id provider session_id ib)"

definition unread_count :: "attention_inbox \<Rightarrow> nat" where
  "unread_count ib =
     length (filter (\<lambda>item. ai_unread item \<and> ai_status item = Open) (bm_values (items ib)))"

end
