(* ===== verification/Journal.thy ===== *)
theory Journal
  imports Digest
begin

text \<open>
  \<open>src/mission/journal.rs\<close>: the framed, hash-chained append-only journal. The file is the list of
  its bytes. Reading never fails and sees the bytes of the file; writing takes an argument that
  says how many bytes of a frame reach the file when the write fails, so that a torn write is a
  state of the model. SHA-256 is the parameter \<open>sha\<close>.
\<close>

section \<open>Data\<close>

definition frame_magic :: "u8 list" where
  "frame_magic = bytes_of ''MSNJRN03''"

definition frame_version :: nat where "frame_version = 2"

definition frame_prefix_len :: nat where "frame_prefix_len = 8 + 2 + 4 + 32 + 32"

definition frame_header_len :: nat where "frame_header_len = frame_prefix_len + 32"

definition record_hash_len :: nat where "record_hash_len = 32"

definition max_payload_bytes :: nat where "max_payload_bytes = 64 * 1024"

definition max_journal_bytes :: nat where "max_journal_bytes = 512 * 1024 * 1024"

definition max_journal_frames :: nat where "max_journal_frames = 250000"

lemmas journal_consts = frame_version_def frame_prefix_len_def frame_header_len_def
  record_hash_len_def max_payload_bytes_def max_journal_bytes_def max_journal_frames_def

type_synonym record_hash = "u8 list"
type_synonym state_hash = "u8 list"

definition hash_zero :: record_hash where
  "hash_zero = replicate 32 0"

record verified_frame =
  fr_payload :: "u8 list"
  fr_hash :: record_hash
  fr_previous_hash :: record_hash
  fr_state_hash :: state_hash
  fr_sequence :: nat
  fr_end_offset :: nat

record replay_checkpoint =
  rc_sequence :: nat
  rc_end_offset :: nat
  rc_record_hash :: record_hash
  rc_state_hash :: state_hash

definition checkpoint_zero :: replay_checkpoint where
  "checkpoint_zero = \<lparr>rc_sequence = 0, rc_end_offset = 0, rc_record_hash = hash_zero,
     rc_state_hash = replicate 32 0\<rparr>"

record replay_limits =
  max_frames :: nat
  max_bytes :: nat

definition production_limits :: replay_limits where
  "production_limits = \<lparr>max_frames = max_journal_frames, max_bytes = max_journal_bytes\<rparr>"

record replay_summary =
  sm_frame_count :: nat
  sm_final_sequence :: nat
  sm_bytes_consumed :: nat
  sm_last_hash :: record_hash

record scan_summary =
  sc_frame_count :: nat
  sc_bytes_consumed :: nat
  sc_last_hash :: record_hash
  sc_checkpoints :: "replay_checkpoint option \<times> replay_checkpoint option"

datatype journal_error =
    JournalIo | InvalidMagic nat | UnsupportedFrameVersion nat | PayloadTooLarge nat
  | HeaderHashMismatch nat | RecordHashMismatch nat | PartialTail nat | JournalTooLarge nat nat
  | FrameLimitExceeded nat | BrokenRecordChain nat | InvalidReplayOffset nat

datatype 'e replay_error = ReplayJournal journal_error | ReplayVisitor 'e

datatype replay_mode = Inspect | RepairFinalPartial

section \<open>Frames\<close>

definition hash_header :: "sha256 \<Rightarrow> u8 list \<Rightarrow> record_hash" where
  "hash_header sha prefix = sha (bytes_of ''mission-journal-header-v1'' @ [0] @ prefix)"

definition hash_record :: "sha256 \<Rightarrow> u8 list \<Rightarrow> u8 list \<Rightarrow> record_hash" where
  "hash_record sha header payload =
     sha (bytes_of ''mission-journal-record-v1'' @ [0] @ header @ payload)"

definition frame_prefix :: "nat \<Rightarrow> record_hash \<Rightarrow> state_hash \<Rightarrow> u8 list" where
  "frame_prefix payload_length previous_hash state_hash =
     frame_magic @ be_bytes 2 frame_version @ be_bytes 4 payload_length @ previous_hash @ state_hash"

definition frame_header :: "sha256 \<Rightarrow> nat \<Rightarrow> record_hash \<Rightarrow> state_hash \<Rightarrow> u8 list" where
  "frame_header sha payload_length previous_hash state_hash =
     frame_prefix payload_length previous_hash state_hash
     @ hash_header sha (frame_prefix payload_length previous_hash state_hash)"

definition frame_hash :: "sha256 \<Rightarrow> record_hash \<Rightarrow> u8 list \<times> state_hash \<Rightarrow> record_hash" where
  "frame_hash sha previous_hash e =
     hash_record sha (frame_header sha (length (fst e)) previous_hash (snd e)) (fst e)"

definition frame_bytes :: "sha256 \<Rightarrow> record_hash \<Rightarrow> u8 list \<times> state_hash \<Rightarrow> u8 list" where
  "frame_bytes sha previous_hash e =
     frame_header sha (length (fst e)) previous_hash (snd e) @ fst e @ frame_hash sha previous_hash e"

text \<open>
  \<open>append\<close>: the file after the call and the result; \<open>torn = Some n\<close> is a write that fails after
  \<open>n\<close> bytes of the frame.
\<close>

definition journal_append ::
  "sha256 \<Rightarrow> nat option \<Rightarrow> u8 list \<Rightarrow> record_hash \<Rightarrow> state_hash \<Rightarrow> u8 list
     \<Rightarrow> u8 list \<times> (journal_error + record_hash)" where
  "journal_append sha torn payload previous_hash state_hash file =
     (if length payload > max_payload_bytes then (file, Inl (PayloadTooLarge (length payload)))
      else if length payload \<ge> 2 ^ 32 then (file, Inl (PayloadTooLarge (length payload)))
      else
        let next_length = length file + frame_header_len + length payload + record_hash_len
        in if next_length \<ge> 2 ^ 64
           then (file, Inl (JournalTooLarge (2 ^ 64 - 1) max_journal_bytes))
           else if next_length > max_journal_bytes
           then (file, Inl (JournalTooLarge next_length max_journal_bytes))
           else case torn of
             Some n \<Rightarrow> (file @ take n (frame_bytes sha previous_hash (payload, state_hash)),
                        Inl JournalIo)
           | None \<Rightarrow> (file @ frame_bytes sha previous_hash (payload, state_hash),
                      Inr (frame_hash sha previous_hash (payload, state_hash))))"

section \<open>Reading one frame\<close>

text \<open>
  What the loop body finds at a frame start: the end of the file, an incomplete frame, an invalid
  one, or a frame whose hashes are right, with the bytes after it.
\<close>

record raw_frame =
  rw_payload :: "u8 list"
  rw_previous_hash :: record_hash
  rw_state_hash :: state_hash
  rw_hash :: record_hash
  rw_size :: nat

datatype frame_result = AtEnd | Partial | Invalid journal_error | Complete raw_frame

text \<open>The checks of a complete header: magic, version, payload length and header hash.\<close>

definition header_payload_length :: "u8 list \<Rightarrow> nat" where
  "header_payload_length header = from_be (take 4 (drop 10 header))"

definition header_error :: "sha256 \<Rightarrow> nat \<Rightarrow> u8 list \<Rightarrow> journal_error option" where
  "header_error sha frame_start header =
     (if take 8 header \<noteq> frame_magic then Some (InvalidMagic frame_start)
      else if from_be (take 2 (drop 8 header)) \<noteq> frame_version
      then Some (UnsupportedFrameVersion (from_be (take 2 (drop 8 header))))
      else if header_payload_length header > max_payload_bytes
      then Some (PayloadTooLarge (header_payload_length header))
      else if drop frame_prefix_len header \<noteq> hash_header sha (take frame_prefix_len header)
      then Some (HeaderHashMismatch frame_start)
      else None)"

text \<open>The payload and the record hash that follow a header.\<close>

definition read_body :: "sha256 \<Rightarrow> nat \<Rightarrow> u8 list \<Rightarrow> u8 list \<Rightarrow> frame_result" where
  "read_body sha frame_start header body =
     (let payload_length = header_payload_length header;
          payload = take payload_length body;
          stored_hash = take record_hash_len (drop payload_length body)
      in if length payload < payload_length then Partial
         else if length stored_hash < record_hash_len then Partial
         else if stored_hash \<noteq> hash_record sha header payload
         then Invalid (RecordHashMismatch frame_start)
         else Complete \<lparr>rw_payload = payload, rw_previous_hash = take 32 (drop 14 header),
                rw_state_hash = take 32 (drop 46 header), rw_hash = hash_record sha header payload,
                rw_size = frame_header_len + payload_length + record_hash_len\<rparr>)"

definition read_frame :: "sha256 \<Rightarrow> nat \<Rightarrow> u8 list \<Rightarrow> frame_result" where
  "read_frame sha frame_start rest =
     (let header = take frame_header_len rest
      in if header = [] then AtEnd
         else if length header < frame_header_len then
           (if take (length (take 8 header)) frame_magic = take 8 header then Partial
            else Invalid (InvalidMagic frame_start))
         else case header_error sha frame_start header of
           Some e \<Rightarrow> Invalid e
         | None \<Rightarrow> read_body sha frame_start header (drop frame_header_len rest))"

lemma read_frame_Complete:
  assumes "read_frame sha off rest = Complete raw"
  shows "frame_header_len \<le> length rest"
    and "header_error sha off (take frame_header_len rest) = None"
    and "read_body sha off (take frame_header_len rest) (drop frame_header_len rest) = Complete raw"
  using assms by (simp_all add: read_frame_def Let_def split: if_split_asm option.split_asm)

lemma read_body_Complete:
  assumes "read_body sha off header body = Complete raw"
  shows "rw_payload raw = take (header_payload_length header) body"
    and "rw_previous_hash raw = take 32 (drop 14 header)"
    and "rw_state_hash raw = take 32 (drop 46 header)"
    and "rw_hash raw = hash_record sha header (rw_payload raw)"
    and "rw_size raw = frame_header_len + header_payload_length header + record_hash_len"
    and "header_payload_length header + record_hash_len \<le> length body"
    and "take record_hash_len (drop (header_payload_length header) body) = rw_hash raw"
  using assms by (simp_all add: read_body_def Let_def split: if_split_asm) auto

lemma read_frame_size:
  "read_frame sha off rest = Complete raw \<Longrightarrow> 0 < rw_size raw \<and> rw_size raw \<le> length rest"
  using read_frame_Complete [of sha off rest raw]
    read_body_Complete [of sha off "take frame_header_len rest" "drop frame_header_len rest" raw]
  by (simp add: record_hash_len_def)

section \<open>Replay\<close>

text \<open>The counters, the frame limit and the hash chain, checked for a frame that was read.\<close>

definition accept_frame ::
  "replay_limits \<Rightarrow> nat \<Rightarrow> nat \<Rightarrow> nat \<Rightarrow> record_hash \<Rightarrow> raw_frame \<Rightarrow> journal_error + verified_frame" where
  "accept_frame limits position frame_count sequence last_hash raw =
     (if frame_count + 1 \<ge> 2 ^ 64 then Inl (FrameLimitExceeded (max_frames limits))
      else if sequence + 1 \<ge> 2 ^ 64 then Inl (FrameLimitExceeded (max_frames limits))
      else if sequence + 1 > max_frames limits then Inl (FrameLimitExceeded (max_frames limits))
      else if rw_previous_hash raw \<noteq> last_hash then Inl (BrokenRecordChain (sequence + 1))
      else Inr \<lparr>fr_payload = rw_payload raw, fr_hash = rw_hash raw,
             fr_previous_hash = rw_previous_hash raw, fr_state_hash = rw_state_hash raw,
             fr_sequence = sequence + 1, fr_end_offset = position + rw_size raw\<rparr>)"

text \<open>
  The loop of \<open>replay_range\<close>. Its result is the file (cut at the frame start when a partial tail
  is repaired) and either an error or the visitor's state with the loop's counters.
\<close>

function replay_loop ::
  "sha256 \<Rightarrow> replay_mode \<Rightarrow> replay_limits \<Rightarrow> (verified_frame \<Rightarrow> 'v \<Rightarrow> 'e + 'v) \<Rightarrow> u8 list
     \<Rightarrow> nat \<Rightarrow> nat \<Rightarrow> nat \<Rightarrow> record_hash \<Rightarrow> 'v
     \<Rightarrow> u8 list \<times> ('e replay_error + 'v \<times> nat \<times> nat \<times> record_hash)" where
  "replay_loop sha mode limits visitor file position frame_count sequence last_hash v =
     (case read_frame sha position (drop position file) of
        AtEnd \<Rightarrow> (file, Inr (v, frame_count, sequence, last_hash))
      | Partial \<Rightarrow>
          (case mode of
             Inspect \<Rightarrow> (file, Inl (ReplayJournal (PartialTail position)))
           | RepairFinalPartial \<Rightarrow>
               (take position file, Inr (v, frame_count, sequence, last_hash)))
      | Invalid e \<Rightarrow> (file, Inl (ReplayJournal e))
      | Complete raw \<Rightarrow>
          (case accept_frame limits position frame_count sequence last_hash raw of
             Inl e \<Rightarrow> (file, Inl (ReplayJournal e))
           | Inr fr \<Rightarrow>
               (case visitor fr v of
                  Inl e \<Rightarrow> (file, Inl (ReplayVisitor e))
                | Inr v' \<Rightarrow> replay_loop sha mode limits visitor file (position + rw_size raw)
                             (frame_count + 1) (sequence + 1) (rw_hash raw) v')))"
  by pat_completeness auto
termination
  by (relation "measure (\<lambda>(sha, mode, limits, visitor, file, position, rest). length file - position)")
     (auto dest!: read_frame_size)

declare replay_loop.simps [simp del]

definition replay_range ::
  "sha256 \<Rightarrow> replay_mode \<Rightarrow> replay_limits \<Rightarrow> replay_checkpoint \<Rightarrow> (verified_frame \<Rightarrow> 'v \<Rightarrow> 'e + 'v)
     \<Rightarrow> 'v \<Rightarrow> u8 list \<Rightarrow> u8 list \<times> ('e replay_error + 'v \<times> replay_summary)" where
  "replay_range sha mode limits start visitor v file =
     (if length file > max_bytes limits
      then (file, Inl (ReplayJournal (JournalTooLarge (length file) (max_bytes limits))))
      else if rc_end_offset start > length file
      then (file, Inl (ReplayJournal (InvalidReplayOffset (rc_end_offset start))))
      else case replay_loop sha mode limits visitor file (rc_end_offset start) 0
             (rc_sequence start) (rc_record_hash start) v of
        (file', Inl e) \<Rightarrow> (file', Inl e)
      | (file', Inr (v', frame_count, sequence, last_hash)) \<Rightarrow>
          (file', Inr (v', \<lparr>sm_frame_count = frame_count, sm_final_sequence = sequence,
             sm_bytes_consumed = length file', sm_last_hash = last_hash\<rparr>)))"

definition replay_from ::
  "sha256 \<Rightarrow> replay_checkpoint \<Rightarrow> (verified_frame \<Rightarrow> 'v \<Rightarrow> 'e + 'v) \<Rightarrow> 'v \<Rightarrow> u8 list
     \<Rightarrow> u8 list \<times> ('e replay_error + 'v \<times> replay_summary)" where
  "replay_from sha start = replay_range sha Inspect production_limits start"

definition replay_with_limits ::
  "sha256 \<Rightarrow> replay_mode \<Rightarrow> replay_limits \<Rightarrow> (verified_frame \<Rightarrow> 'v \<Rightarrow> 'e + 'v) \<Rightarrow> 'v \<Rightarrow> u8 list
     \<Rightarrow> u8 list \<times> ('e replay_error + 'v \<times> replay_summary)" where
  "replay_with_limits sha mode limits = replay_range sha mode limits checkpoint_zero"

definition replay_with ::
  "sha256 \<Rightarrow> replay_mode \<Rightarrow> (verified_frame \<Rightarrow> 'v \<Rightarrow> 'e + 'v) \<Rightarrow> 'v \<Rightarrow> u8 list
     \<Rightarrow> u8 list \<times> ('e replay_error + 'v \<times> replay_summary)" where
  "replay_with sha mode = replay_with_limits sha mode production_limits"

text \<open>\<open>scan\<close> records the checkpoints of up to two target sequences.\<close>

definition frame_checkpoint :: "verified_frame \<Rightarrow> replay_checkpoint" where
  "frame_checkpoint fr = \<lparr>rc_sequence = fr_sequence fr, rc_end_offset = fr_end_offset fr,
     rc_record_hash = fr_hash fr, rc_state_hash = fr_state_hash fr\<rparr>"

definition scan_visit ::
  "nat option \<times> nat option \<Rightarrow> verified_frame
     \<Rightarrow> replay_checkpoint option \<times> replay_checkpoint option
     \<Rightarrow> unit + replay_checkpoint option \<times> replay_checkpoint option" where
  "scan_visit targets fr cps =
     Inr (if fst targets = Some (fr_sequence fr) then Some (frame_checkpoint fr) else fst cps,
          if snd targets = Some (fr_sequence fr) then Some (frame_checkpoint fr) else snd cps)"

definition initial_checkpoint :: "nat option \<Rightarrow> replay_checkpoint option" where
  "initial_checkpoint target = (if target = Some 0 then Some checkpoint_zero else None)"

definition scan ::
  "sha256 \<Rightarrow> replay_mode \<Rightarrow> nat option \<times> nat option \<Rightarrow> u8 list
     \<Rightarrow> u8 list \<times> (journal_error + scan_summary)" where
  "scan sha mode targets file =
     (case replay_range sha mode production_limits checkpoint_zero (scan_visit targets)
             (initial_checkpoint (fst targets), initial_checkpoint (snd targets)) file of
        (file', Inl (ReplayJournal e)) \<Rightarrow> (file', Inl e)
      | (file', Inl (ReplayVisitor _)) \<Rightarrow> (file', Inl JournalIo)
      | (file', Inr (cps, s)) \<Rightarrow>
          (file', Inr \<lparr>sc_frame_count = sm_final_sequence s, sc_bytes_consumed = sm_bytes_consumed s,
             sc_last_hash = sm_last_hash s, sc_checkpoints = cps\<rparr>))"

end
