(* ===== verification/Store_Events.thy ===== *)
theory Store_Events
  imports Mission_Model Attention Journal
begin

text \<open>
  \<open>src/mission/store.rs\<close>, the first part: the errors of the store, the validators of persisted
  fields, response keys and routes, the allowlisted events with their \<open>validate\<close>, and the
  constructors that build an event only when it validates. Paths and the foreign error values
  (\<open>io::Error\<close>, \<open>serde_json::Error\<close>) carried by error variants are dropped; sequence numbers are
  natural numbers with the bounds of \<open>u64\<close> written out where the code checks them.
\<close>

section \<open>Errors\<close>

text \<open>
  The variants of \<open>MissionStoreError\<close>, grouped by the part of the store that returns them: one
  datatype of sixty-seven constructors would be the same data, but slow to check.
\<close>

datatype store_file_error =
    SeIo | SeJson | WriterAlreadyActive | WriterPoisoned | NotRegularFile | InvalidStorePath
  | SnapshotTooLarge nat nat | HeadTooLarge nat nat | SymlinkNotAllowed | WrongOwner
  | InsecurePermissions | UnsupportedPlatform

datatype store_field_error =
    InvalidIdentifier string | InvalidHash string | InvalidText string
  | SeRepositoryPathNotAbsolute | SeWorktreePathNotAbsolute | InvalidRevision
  | RepositoryHashMismatch | InvalidAcceptanceCriteria | InvalidRelativePath
  | InvalidProofReceipt

datatype store_replay_error =
    UnsupportedVersion u32 | CorruptJournalPayload nat | BrokenHashChain nat
  | JournalProjectionMismatch nat | NonContiguousSequence nat nat
  | DuplicateJournalEventId string | EventIdConflict string | EventIndexCorrupt | SequenceOverflow
  | SnapshotAheadOfJournal nat nat | SnapshotProjectionMismatch | SnapshotHeadMismatch
  | SnapshotOffsetMismatch | SnapshotEventIndexMismatch | JournalChangedDuringReplay

datatype store_head_error =
    HeadAheadOfJournal nat nat | HeadHashMismatch | HandoffObservationUnstable
  | HandoffHeadChanged | UnsupportedHandoffFence

datatype store_mission_error =
    MissionAlreadyExists string | MissionNotFound string | RunAlreadyStarted | RunAlreadyExists
  | SeInvalidClosurePlan | ClosureMissing | ClosureAlreadyConfigured | ClosureCannotBeChanged
  | RunMissing | RunMismatch | HandoffSameProvider | HandoffAttentionUnresolved
  | InvalidStatusTransition mission_status mission_status

datatype store_sealed_error =
    AttentionNotFound string | InvalidResponseAttempt | ResponseAttemptAlreadyExists
  | ResponseAttemptNotFound | InvalidResponseState | ResponseRouteMismatch
  | SealedAttentionState | SealedStatusRequiresProof | ProofMissionMismatch
  | StaleProofAuthority | SeProofFromFuture | SeReadyReceiptMissing | SeProofBasisChanged
  | SeFreshArchiveProofRequired

datatype mission_store_error =
    SeJournal journal_error | SeFile store_file_error | SeField store_field_error
  | SeReplay store_replay_error | SeHead store_head_error | SeMission store_mission_error
  | SeSealed store_sealed_error

section \<open>Validators\<close>

definition is_id_byte :: "char \<Rightarrow> bool" where
  "is_id_byte c \<longleftrightarrow> is_ascii_alphanumeric c \<or> c \<in> set ''-_.:''"

definition validate_id :: "string \<Rightarrow> string \<Rightarrow> mission_store_error + unit" where
  "validate_id label value =
     (if value = [] \<or> length value > 128 \<or> \<not> list_all is_id_byte value
      then Inl (SeField (InvalidIdentifier label)) else Inr ())"

definition validate_mission_id :: "string \<Rightarrow> mission_store_error + unit" where
  "validate_mission_id value = validate_id ''mission id'' value"

definition validate_hash :: "string \<Rightarrow> string \<Rightarrow> mission_store_error + unit" where
  "validate_hash label value =
     (if length value \<noteq> 64 \<or> \<not> list_all is_ascii_hexdigit value
      then Inl (SeField (InvalidHash label)) else Inr ())"

definition validate_revision :: "string \<Rightarrow> mission_store_error + unit" where
  "validate_revision value =
     (if \<not> (40 \<le> length value \<and> length value \<le> 64) \<or> \<not> list_all is_ascii_hexdigit value
      then Inl (SeField InvalidRevision) else Inr ())"

definition repository_path_hash :: "sha256 \<Rightarrow> string \<Rightarrow> string" where
  "repository_path_hash sha repository_path =
     cd_finish sha (cd_string repository_path (cd_new ''mission-repository-path-v1''))"

definition validate_text :: "string \<Rightarrow> string \<Rightarrow> nat \<Rightarrow> nat \<Rightarrow> mission_store_error + unit" where
  "validate_text label value minimum_bytes maximum_bytes =
     (if trim_len value < minimum_bytes \<or> length value > maximum_bytes
        \<or> has_unsupported_control value
      then Inl (SeField (InvalidText label)) else Inr ())"

definition validate_proof_receipt :: "proof_receipt \<Rightarrow> mission_store_error + unit" where
  "validate_proof_receipt receipt =
     rbind (validate_hash ''proof subject'' (pr_subject_digest receipt)) (\<lambda>_.
     rbind (validate_hash ''proof seal'' (pr_seal_digest receipt)) (\<lambda>_.
     rbind (validate_hash ''proof authority head'' (pr_authority_head_digest receipt)) (\<lambda>_.
     rbind (validate_hash ''proof worktree lease'' (pr_lease_digest receipt)) (\<lambda>_.
       if pr_authority_sequence receipt = 0 then Inl (SeField InvalidProofReceipt) else Inr ()))))"

definition validate_opaque_id :: "string \<Rightarrow> string \<Rightarrow> mission_store_error + unit" where
  "validate_opaque_id label value =
     (if value = [] \<or> length value > 256 \<or> list_ex is_control (utf8_chars value)
        \<or> \<not> is_ascii value
      then Inl (SeField (InvalidIdentifier label)) else Inr ())"

text \<open>On Unix a relative path has no prefix or root component; \<open>..\<close> is the only one refused.\<close>

definition validate_relative_path :: "string \<Rightarrow> mission_store_error + unit" where
  "validate_relative_path value =
     (if value = [] \<or> path_is_absolute value \<or> ''..'' \<in> set (split_on (CHR ''/'') value)
      then Inl (SeField InvalidRelativePath) else Inr ())"

section \<open>Response keys and routes\<close>

record response_attempt_key =
  rak_attention_id :: string
  rak_request_generation :: u64
  rak_attempt :: u32

definition key_validate :: "response_attempt_key \<Rightarrow> mission_store_error + unit" where
  "key_validate key =
     rbind (validate_id ''attention id'' (rak_attention_id key)) (\<lambda>_.
       if rak_request_generation key = 0 \<or> rak_attempt key = 0 then Inl (SeSealed InvalidResponseAttempt)
       else Inr ())"

definition response_attempt_key_new ::
  "string \<Rightarrow> u64 \<Rightarrow> u32 \<Rightarrow> mission_store_error + response_attempt_key" where
  "response_attempt_key_new attention_id request_generation attempt =
     (let key = \<lparr>rak_attention_id = attention_id, rak_request_generation = request_generation,
                 rak_attempt = attempt\<rparr>
      in rbind (key_validate key) (\<lambda>_. Inr key))"

definition key_digest :: "sha256 \<Rightarrow> response_attempt_key \<Rightarrow> string" where
  "key_digest sha key =
     cd_finish sha (cd_u64 (ucast (rak_attempt key)) (cd_u64 (rak_request_generation key)
       (cd_string (rak_attention_id key) (cd_new ''persisted-response-attempt-v1''))))"

record persisted_response_route =
  ro_provider :: provider_kind
  ro_mission_run_id :: string
  ro_session_id :: string
  ro_pane_target :: "pane_target option"
  ro_provider_request_id :: string

definition route_new ::
  "provider_kind \<Rightarrow> string \<Rightarrow> string \<Rightarrow> pane_target \<Rightarrow> string \<Rightarrow> persisted_response_route" where
  "route_new provider mission_run_id session_id pane_target provider_request_id =
     \<lparr>ro_provider = provider, ro_mission_run_id = mission_run_id, ro_session_id = session_id,
      ro_pane_target = Some pane_target, ro_provider_request_id = provider_request_id\<rparr>"

definition route_managed ::
  "provider_kind \<Rightarrow> string \<Rightarrow> string \<Rightarrow> string \<Rightarrow> persisted_response_route" where
  "route_managed provider mission_run_id session_id provider_request_id =
     \<lparr>ro_provider = provider, ro_mission_run_id = mission_run_id, ro_session_id = session_id,
      ro_pane_target = None, ro_provider_request_id = provider_request_id\<rparr>"

definition route_validate :: "persisted_response_route \<Rightarrow> mission_store_error + unit" where
  "route_validate route =
     rbind (validate_id ''mission run id'' (ro_mission_run_id route)) (\<lambda>_.
     rbind (validate_opaque_id ''provider session id'' (ro_session_id route)) (\<lambda>_.
     rbind (case ro_pane_target route of
              None \<Rightarrow> Inr ()
            | Some pane \<Rightarrow>
                rbind (validate_id ''workspace id'' (pt_workspace pane)) (\<lambda>_.
                  validate_id ''pane id'' (pt_pane pane))) (\<lambda>_.
       validate_opaque_id ''provider request id'' (ro_provider_request_id route))))"

datatype persisted_attention_state =
    PasOpen | PasPendingResponse | PasReconciliationRequired | PasResolved | PasDismissed
  | PasExpired

fun attention_state_from :: "attention_status \<Rightarrow> persisted_attention_state" where
  "attention_state_from Open = PasOpen"
| "attention_state_from (PendingResponse _ _ _) = PasPendingResponse"
| "attention_state_from (ReconciliationRequired _ _ _ _) = PasReconciliationRequired"
| "attention_state_from (Resolved _ _ _) = PasResolved"
| "attention_state_from (Dismissed _ _ _) = PasDismissed"
| "attention_state_from (Expired _) = PasExpired"

section \<open>Events\<close>

text \<open>The fields of every variant are in the order of the source.\<close>

datatype persistable_mission_event =
    MissionCreated string string string string string "string list" u64
  | ClosureConfigured string "check_declaration list" u64
  | RunStarted string string provider_kind provider_mode string string bool bool u64
  | RunContinued string string string provider_kind provider_mode string string bool bool string u64
  | ProviderSessionBound string string string u64
  | StatusChanged string mission_status u64
  | MissionReady string proof_receipt string string u64
  | MissionArchived string proof_receipt string string string u64
  | WorktreeClaimed string string u64
  | AttentionChanged string string persisted_attention_state attention_risk u64
  | EvidenceChanged string string evidence_status string u64
  | EvidencePackRecorded string string string string u64
  | ResponseRequested string response_attempt_key persisted_response_route attention_decision
      string u64
  | ResponseAcknowledged string response_attempt_key "string option" u64
  | ResponseFailed string response_attempt_key response_failure_disposition
      response_failure_code u64

fun proof_lease_digest :: "persistable_mission_event \<Rightarrow> string option" where
  "proof_lease_digest (MissionReady _ receipt _ _ _) = Some (pr_lease_digest receipt)"
| "proof_lease_digest (MissionArchived _ receipt _ _ _ _) = Some (pr_lease_digest receipt)"
| "proof_lease_digest _ = None"

fun event_mission_id :: "persistable_mission_event \<Rightarrow> string" where
  "event_mission_id (MissionCreated i _ _ _ _ _ _) = i"
| "event_mission_id (ClosureConfigured i _ _) = i"
| "event_mission_id (RunStarted i _ _ _ _ _ _ _ _) = i"
| "event_mission_id (RunContinued i _ _ _ _ _ _ _ _ _ _) = i"
| "event_mission_id (ProviderSessionBound i _ _ _) = i"
| "event_mission_id (StatusChanged i _ _) = i"
| "event_mission_id (MissionReady i _ _ _ _) = i"
| "event_mission_id (MissionArchived i _ _ _ _ _) = i"
| "event_mission_id (WorktreeClaimed i _ _) = i"
| "event_mission_id (AttentionChanged i _ _ _ _) = i"
| "event_mission_id (EvidenceChanged i _ _ _ _) = i"
| "event_mission_id (EvidencePackRecorded i _ _ _ _) = i"
| "event_mission_id (ResponseRequested i _ _ _ _ _) = i"
| "event_mission_id (ResponseAcknowledged i _ _ _) = i"
| "event_mission_id (ResponseFailed i _ _ _ _) = i"

text \<open>The common tail of the two run events: worktree path and base revision.\<close>

definition validate_run_location :: "string \<Rightarrow> string \<Rightarrow> mission_store_error + unit" where
  "validate_run_location worktree_path base_revision =
     rbind (validate_text ''mission worktree path'' worktree_path 1 (4 * 1024)) (\<lambda>_.
       if \<not> path_is_absolute worktree_path then Inl (SeField SeWorktreePathNotAbsolute)
       else validate_revision base_revision)"

fun validate_fields :: "sha256 \<Rightarrow> persistable_mission_event \<Rightarrow> mission_store_error + unit" where
  "validate_fields sha (MissionCreated _ title repository_path repository_hash objective
       acceptance_criteria _) =
     rbind (validate_text ''mission title'' title 1 256) (\<lambda>_.
     rbind (validate_text ''mission repository path'' repository_path 1 (4 * 1024)) (\<lambda>_.
       if \<not> path_is_absolute repository_path then Inl (SeField SeRepositoryPathNotAbsolute)
       else if repository_hash \<noteq> repository_path_hash sha repository_path
       then Inl (SeField RepositoryHashMismatch)
       else rbind (validate_text ''mission objective'' objective 1 (8 * 1024)) (\<lambda>_.
         if acceptance_criteria = [] \<or> length acceptance_criteria > 16
         then Inl (SeField InvalidAcceptanceCriteria)
         else check_all (\<lambda>criterion. validate_text ''acceptance criterion'' criterion 1 1024)
                acceptance_criteria)))"
| "validate_fields sha (RunStarted _ run_id _ _ worktree_path base_revision _ _ _) =
     rbind (validate_id ''mission run id'' run_id) (\<lambda>_.
       validate_run_location worktree_path base_revision)"
| "validate_fields sha (RunContinued _ source_run_id run_id _ _ worktree_path base_revision _ _
       handoff_artifact_sha256 _) =
     rbind (validate_id ''source mission run id'' source_run_id) (\<lambda>_.
     rbind (validate_id ''mission run id'' run_id) (\<lambda>_.
     rbind (validate_run_location worktree_path base_revision) (\<lambda>_.
       validate_hash ''handoff artifact sha256'' handoff_artifact_sha256)))"
| "validate_fields sha (ClosureConfigured _ declarations _) =
     (if declarations = [] \<or> length declarations > 32 then Inl (SeMission SeInvalidClosurePlan)
      else check_all (\<lambda>d. map_err (\<lambda>_. SeMission SeInvalidClosurePlan) (validate_persisted d)) declarations)"
| "validate_fields sha (ProviderSessionBound _ run_id provider_session_id _) =
     rbind (validate_id ''mission run id'' run_id) (\<lambda>_.
       validate_opaque_id ''provider session id'' provider_session_id)"
| "validate_fields sha (WorktreeClaimed _ relative_path _) = validate_relative_path relative_path"
| "validate_fields sha (AttentionChanged _ attention_id _ _ _) =
     validate_id ''attention id'' attention_id"
| "validate_fields sha (EvidenceChanged _ check_id _ workspace_hash _) =
     rbind (validate_id ''check id'' check_id) (\<lambda>_.
       validate_hash ''workspace hash'' workspace_hash)"
| "validate_fields sha (EvidencePackRecorded _ run_id pack_digest workspace_hash _) =
     rbind (validate_id ''mission run id'' run_id) (\<lambda>_.
     rbind (validate_hash ''evidence pack digest'' pack_digest) (\<lambda>_.
       validate_hash ''workspace hash'' workspace_hash))"
| "validate_fields sha (StatusChanged _ _ _) = Inr ()"
| "validate_fields sha (MissionReady _ receipt actor_id reason_hash _) =
     rbind (validate_proof_receipt receipt) (\<lambda>_.
     rbind (validate_id ''proof actor id'' actor_id) (\<lambda>_.
       validate_hash ''proof reason hash'' reason_hash))"
| "validate_fields sha (MissionArchived _ receipt ready_seal_digest actor_id reason_hash _) =
     rbind (validate_proof_receipt receipt) (\<lambda>_.
     rbind (validate_hash ''ready proof seal'' ready_seal_digest) (\<lambda>_.
     rbind (validate_id ''proof actor id'' actor_id) (\<lambda>_.
       validate_hash ''proof reason hash'' reason_hash)))"
| "validate_fields sha (ResponseRequested _ key route _ actor_id _) =
     rbind (key_validate key) (\<lambda>_.
     rbind (route_validate route) (\<lambda>_.
       validate_id ''response actor id'' actor_id))"
| "validate_fields sha (ResponseAcknowledged _ key acknowledgement_hash _) =
     rbind (key_validate key) (\<lambda>_.
       case acknowledgement_hash of
         None \<Rightarrow> Inr ()
       | Some hash \<Rightarrow> validate_hash ''provider acknowledgement hash'' hash)"
| "validate_fields sha (ResponseFailed _ key _ _ _) = key_validate key"

definition event_validate :: "sha256 \<Rightarrow> persistable_mission_event \<Rightarrow> mission_store_error + unit" where
  "event_validate sha ev =
     rbind (validate_id ''mission id'' (event_mission_id ev)) (\<lambda>_. validate_fields sha ev)"

section \<open>Event constructors\<close>

definition validated ::
  "sha256 \<Rightarrow> persistable_mission_event \<Rightarrow> mission_store_error + persistable_mission_event" where
  "validated sha ev = rbind (event_validate sha ev) (\<lambda>_. Inr ev)"

definition event_mission_created ::
  "sha256 \<Rightarrow> string \<Rightarrow> string \<Rightarrow> string \<Rightarrow> string \<Rightarrow> string list \<Rightarrow> u64
     \<Rightarrow> mission_store_error + persistable_mission_event" where
  "event_mission_created sha mission_id title repository_path objective criteria at_millis =
     validated sha (MissionCreated mission_id title repository_path
       (repository_path_hash sha repository_path) objective criteria at_millis)"

definition run_started_with_check_execution ::
  "sha256 \<Rightarrow> string \<Rightarrow> string \<Rightarrow> provider_kind \<Rightarrow> provider_mode \<Rightarrow> string \<Rightarrow> string \<Rightarrow> bool \<Rightarrow> bool \<Rightarrow> u64
     \<Rightarrow> mission_store_error + persistable_mission_event" where
  "run_started_with_check_execution sha mission_id run_id provider mode worktree_path base_revision
     execute_declared_checks execute_project_recipe at_millis =
     validated sha (RunStarted mission_id run_id provider mode worktree_path base_revision
       execute_declared_checks execute_project_recipe at_millis)"

definition event_run_continued ::
  "sha256 \<Rightarrow> string \<Rightarrow> string \<Rightarrow> string \<Rightarrow> provider_kind \<Rightarrow> provider_mode \<Rightarrow> string \<Rightarrow> string \<Rightarrow> bool \<Rightarrow> bool
     \<Rightarrow> string \<Rightarrow> u64 \<Rightarrow> mission_store_error + persistable_mission_event" where
  "event_run_continued sha mission_id source_run_id run_id provider mode worktree_path base_revision
     execute_declared_checks execute_project_recipe handoff_artifact_sha256 at_millis =
     validated sha (RunContinued mission_id source_run_id run_id provider mode worktree_path
       base_revision execute_declared_checks execute_project_recipe handoff_artifact_sha256 at_millis)"

definition event_closure_configured ::
  "sha256 \<Rightarrow> string \<Rightarrow> check_declaration list \<Rightarrow> u64
     \<Rightarrow> mission_store_error + persistable_mission_event" where
  "event_closure_configured sha mission_id declarations at_millis =
     validated sha (ClosureConfigured mission_id declarations at_millis)"

definition event_provider_session_bound ::
  "sha256 \<Rightarrow> string \<Rightarrow> string \<Rightarrow> string \<Rightarrow> u64 \<Rightarrow> mission_store_error + persistable_mission_event" where
  "event_provider_session_bound sha mission_id run_id provider_session_id at_millis =
     validated sha (ProviderSessionBound mission_id run_id provider_session_id at_millis)"

definition event_mission_ready ::
  "sha256 \<Rightarrow> string \<Rightarrow> ready_proof \<Rightarrow> string \<Rightarrow> string \<Rightarrow> u64
     \<Rightarrow> mission_store_error + persistable_mission_event" where
  "event_mission_ready sha mission_id proof actor_id reason_hash at_millis =
     (let (proof_mission_id, receipt) = ready_into_receipt sha proof
      in if proof_mission_id \<noteq> mission_id then Inl (SeSealed ProofMissionMismatch)
         else validated sha (MissionReady mission_id receipt actor_id reason_hash at_millis))"

definition event_mission_archived ::
  "sha256 \<Rightarrow> string \<Rightarrow> archive_proof \<Rightarrow> string \<Rightarrow> string \<Rightarrow> u64
     \<Rightarrow> mission_store_error + persistable_mission_event" where
  "event_mission_archived sha mission_id proof actor_id reason_hash at_millis =
     (let (proof_mission_id, ready_seal_digest, receipt) = archive_into_receipt sha proof
      in if proof_mission_id \<noteq> mission_id then Inl (SeSealed ProofMissionMismatch)
         else validated sha
           (MissionArchived mission_id receipt ready_seal_digest actor_id reason_hash at_millis))"

section \<open>What validation gives\<close>

lemma validated_iff: "validated sha ev = Inr ev' \<longleftrightarrow> event_validate sha ev = Inr () \<and> ev' = ev"
  by (auto simp: validated_def rbind_Inr_iff)

lemma validate_id_ok_iff:
  "validate_id label value = Inr () \<longleftrightarrow>
     value \<noteq> [] \<and> length value \<le> 128 \<and> list_all is_id_byte value"
  by (auto simp: validate_id_def)

lemma validate_hash_ok_iff:
  "validate_hash label value = Inr () \<longleftrightarrow> length value = 64 \<and> list_all is_ascii_hexdigit value"
  by (auto simp: validate_hash_def)

text \<open>A SHA-256 digest, as the code prints it, always passes the hash validator.\<close>

lemma finished_digest_is_valid_hash:
  assumes "length (sha (hasher d)) = 32"
  shows "validate_hash label (cd_finish sha d) = Inr ()"
  using assms hex_encode_hexdigits [of "sha (hasher d)"]
  by (simp add: validate_hash_ok_iff cd_finish_def list_all_iff)

end
