(* ===== verification/Store_Projection.thy ===== *)
theory Store_Projection
  imports Store_Events "HOL-Library.Product_Lexorder"
begin

text \<open>
  \<open>src/mission/store.rs\<close>, the projection: the durable state of every mission and the arms of
  \<open>MissionProjection::apply\<close>, one definition per event. An arm works on one mission and the
  logical time of the event (the event's time, but never before the mission's last update); an
  error discards whatever the arm had changed, since the callers apply events to a copy or give
  up the replay. The queries and the views of the projection follow.
\<close>

section \<open>Data\<close>

record persisted_attention =
  pat_state :: persisted_attention_state
  pat_risk :: attention_risk
  pat_updated_at_millis :: u64

record persisted_evidence =
  pev_status :: evidence_status
  pev_workspace_hash :: string
  pev_updated_at_millis :: u64

record persisted_evidence_pack =
  pek_run_id :: string
  pek_pack_digest :: string
  pek_workspace_hash :: string
  pek_recorded_at_millis :: u64

datatype persisted_response_state =
    PrsRequested | PrsAcknowledged "string option" | PrsFailed response_failure_code
  | PrsReconciliationRequired response_failure_code

record persisted_response_attempt =
  pra_key :: response_attempt_key
  pra_route :: persisted_response_route
  pra_decision :: attention_decision
  pra_actor_id :: string
  pra_state :: persisted_response_state
  pra_updated_at_millis :: u64

record persisted_run =
  prn_run_id :: string
  prn_provider :: provider_kind
  prn_mode :: provider_mode
  prn_worktree_path :: string
  prn_base_revision :: string
  prn_execute_declared_checks :: bool
  prn_execute_project_recipe :: bool
  prn_handoff_from_run_id :: "string option"
  prn_handoff_artifact_sha256 :: "string option"
  prn_provider_session_id :: "string option"

record persisted_mission =
  pm_title :: string
  pm_repository_path :: string
  pm_repository_hash :: string
  pm_objective :: string
  pm_acceptance_criteria :: "string list"
  pm_check_declarations :: "check_declaration list"
  pm_status :: mission_status
  pm_run :: "persisted_run option"
  pm_run_history :: "persisted_run list"
  pm_worktree_relative_path :: "string option"
  pm_attention :: "(string, persisted_attention) bmap"
  pm_evidence :: "(string, persisted_evidence) bmap"
  pm_latest_evidence_pack :: "persisted_evidence_pack option"
  pm_responses :: "(string, persisted_response_attempt) bmap"
  pm_ready_receipt :: "proof_receipt option"
  pm_archive_receipt :: "proof_receipt option"
  pm_updated_at_millis :: u64

record mission_projection =
  missions :: "(string, persisted_mission) bmap"

definition projection_default :: mission_projection where
  "projection_default = \<lparr>missions = []\<rparr>"

section \<open>Events on one mission\<close>

type_synonym mission_arm = "u64 \<Rightarrow> persisted_mission \<Rightarrow> mission_store_error + persisted_mission"

definition new_mission ::
  "string \<Rightarrow> string \<Rightarrow> string \<Rightarrow> string \<Rightarrow> string list \<Rightarrow> u64 \<Rightarrow> persisted_mission" where
  "new_mission title repository_path repository_hash objective acceptance_criteria at_millis =
     \<lparr>pm_title = title, pm_repository_path = repository_path,
      pm_repository_hash = repository_hash, pm_objective = objective,
      pm_acceptance_criteria = acceptance_criteria, pm_check_declarations = [],
      pm_status = Draft, pm_run = None, pm_run_history = [], pm_worktree_relative_path = None,
      pm_attention = [], pm_evidence = [], pm_latest_evidence_pack = None, pm_responses = [],
      pm_ready_receipt = None, pm_archive_receipt = None, pm_updated_at_millis = at_millis\<rparr>"

definition closure_configured :: "sha256 \<Rightarrow> string \<Rightarrow> check_declaration list \<Rightarrow> mission_arm" where
  "closure_configured sha mission_id declarations t m =
     (if pm_status m \<noteq> Draft \<or> pm_run m \<noteq> None then Inl (SeMission ClosureCannotBeChanged)
      else if pm_check_declarations m \<noteq> [] then Inl (SeMission ClosureAlreadyConfigured)
      else
        rbind (map_err (\<lambda>_. SeMission SeInvalidClosurePlan)
          (mission_definition_new mission_id (pm_title m) (pm_repository_path m) (pm_objective m)
             (pm_acceptance_criteria m))) (\<lambda>d.
        rbind (map_err (\<lambda>_. SeMission SeInvalidClosurePlan)
          (closure_plan_new sha (acceptance_criterion_ids sha d) declarations)) (\<lambda>_.
        Inr (m\<lparr>pm_check_declarations := declarations, pm_updated_at_millis := t\<rparr>))))"

definition run_started ::
  "string \<Rightarrow> provider_kind \<Rightarrow> provider_mode \<Rightarrow> string \<Rightarrow> string \<Rightarrow> bool \<Rightarrow> bool \<Rightarrow> mission_arm" where
  "run_started run_id provider mode worktree_path base_revision declared recipe t m =
     (if pm_status m \<noteq> Draft \<or> pm_run m \<noteq> None then Inl (SeMission RunAlreadyStarted)
      else if pm_check_declarations m = [] then Inl (SeMission ClosureMissing)
      else Inr (m\<lparr>
        pm_run := Some \<lparr>prn_run_id = run_id, prn_provider = provider, prn_mode = mode,
          prn_worktree_path = worktree_path, prn_base_revision = base_revision,
          prn_execute_declared_checks = declared, prn_execute_project_recipe = recipe,
          prn_handoff_from_run_id = None, prn_handoff_artifact_sha256 = None,
          prn_provider_session_id = None\<rparr>,
        pm_status := Preparing, pm_updated_at_millis := t\<rparr>))"

definition persisted_unresolved :: "persisted_attention \<Rightarrow> bool" where
  "persisted_unresolved a \<longleftrightarrow>
     pat_state a \<in> {PasOpen, PasPendingResponse, PasReconciliationRequired}"

definition stale_evidence :: "u64 \<Rightarrow> persisted_evidence \<Rightarrow> persisted_evidence" where
  "stale_evidence t e = e\<lparr>pev_status := EvStale, pev_updated_at_millis := t\<rparr>"

definition run_continued ::
  "string \<Rightarrow> string \<Rightarrow> provider_kind \<Rightarrow> provider_mode \<Rightarrow> string \<Rightarrow> string \<Rightarrow> bool \<Rightarrow> bool \<Rightarrow> string
     \<Rightarrow> mission_arm" where
  "run_continued source_run_id run_id provider mode worktree_path base_revision declared recipe
     artifact t m =
     (if pm_status m \<notin> {MissionBlocked, MissionFailed, ReviewRequired, ReadyToClose}
      then Inl (SeMission (InvalidStatusTransition (pm_status m) Preparing))
      else if list_ex persisted_unresolved (bm_values (pm_attention m))
      then Inl (SeMission HandoffAttentionUnresolved)
      else rbind (ok_or (SeMission RunMissing) (pm_run m)) (\<lambda>source.
        if prn_run_id source \<noteq> source_run_id \<or> prn_worktree_path source \<noteq> worktree_path
          \<or> prn_base_revision source \<noteq> base_revision
          \<or> prn_execute_declared_checks source \<noteq> declared
          \<or> prn_execute_project_recipe source \<noteq> recipe
        then Inl (SeMission RunMismatch)
        else if prn_provider source = provider then Inl (SeMission HandoffSameProvider)
        else if prn_run_id source = run_id
          \<or> list_ex (\<lambda>previous. prn_run_id previous = run_id) (pm_run_history m)
        then Inl (SeMission RunAlreadyExists)
        else Inr (m\<lparr>
          pm_run_history := pm_run_history m @ [source],
          pm_run := Some \<lparr>prn_run_id = run_id, prn_provider = provider, prn_mode = mode,
            prn_worktree_path = worktree_path, prn_base_revision = base_revision,
            prn_execute_declared_checks = declared, prn_execute_project_recipe = recipe,
            prn_handoff_from_run_id = Some source_run_id,
            prn_handoff_artifact_sha256 = Some artifact, prn_provider_session_id = None\<rparr>,
          pm_evidence := bm_map_values (stale_evidence t) (pm_evidence m),
          pm_latest_evidence_pack := None, pm_ready_receipt := None, pm_archive_receipt := None,
          pm_status := Preparing, pm_updated_at_millis := t\<rparr>)))"

definition provider_session_bound :: "string \<Rightarrow> string \<Rightarrow> mission_arm" where
  "provider_session_bound run_id provider_session_id t m =
     (if pm_status m \<noteq> Preparing
      then Inl (SeMission (InvalidStatusTransition (pm_status m) Active))
      else rbind (ok_or (SeMission RunMissing) (pm_run m)) (\<lambda>run.
        if prn_run_id run \<noteq> run_id then Inl (SeMission RunMismatch)
        else Inr (m\<lparr>
          pm_run := Some (run\<lparr>prn_provider_session_id := Some provider_session_id\<rparr>),
          pm_status := Active, pm_updated_at_millis := t\<rparr>)))"

definition status_changed :: "mission_status \<Rightarrow> mission_arm" where
  "status_changed status t m =
     (if status \<in> {ReadyToClose, Archived} then Inl (SeSealed SealedStatusRequiresProof)
      else if \<not> can_persist_from status (pm_status m)
      then Inl (SeMission (InvalidStatusTransition (pm_status m) status))
      else Inr (m\<lparr>pm_status := status, pm_updated_at_millis := t\<rparr>))"

definition mission_ready :: "proof_receipt \<Rightarrow> mission_arm" where
  "mission_ready receipt t m =
     (if pm_status m \<noteq> ReviewRequired
      then Inl (SeMission (InvalidStatusTransition (pm_status m) ReadyToClose))
      else if pr_verified_at_millis receipt > t then Inl (SeSealed SeProofFromFuture)
      else Inr (m\<lparr>pm_status := ReadyToClose, pm_ready_receipt := Some receipt,
                  pm_archive_receipt := None, pm_updated_at_millis := t\<rparr>))"

definition mission_archived :: "proof_receipt \<Rightarrow> string \<Rightarrow> mission_arm" where
  "mission_archived receipt ready_seal_digest t m =
     (if pm_status m \<noteq> ReadyToClose
      then Inl (SeMission (InvalidStatusTransition (pm_status m) Archived))
      else rbind (ok_or (SeSealed SeReadyReceiptMissing) (pm_ready_receipt m)) (\<lambda>ready.
        if pr_seal_digest ready \<noteq> ready_seal_digest
          \<or> pr_subject_digest ready \<noteq> pr_subject_digest receipt
        then Inl (SeSealed SeProofBasisChanged)
        else if pr_authority_sequence receipt \<le> pr_authority_sequence ready
          \<or> pr_verified_at_millis receipt < pr_verified_at_millis ready
          \<or> pr_verified_at_millis receipt > t
        then Inl (SeSealed SeFreshArchiveProofRequired)
        else Inr (m\<lparr>pm_status := Archived, pm_archive_receipt := Some receipt,
                    pm_updated_at_millis := t\<rparr>)))"

definition worktree_claimed :: "string \<Rightarrow> mission_arm" where
  "worktree_claimed relative_path t m =
     Inr (m\<lparr>pm_worktree_relative_path := Some relative_path, pm_updated_at_millis := t\<rparr>)"

definition attention_changed ::
  "string \<Rightarrow> persisted_attention_state \<Rightarrow> attention_risk \<Rightarrow> mission_arm" where
  "attention_changed attention_id state risk t m =
     (case bm_get (pm_attention m) attention_id of
        None \<Rightarrow>
          (if state = PasOpen
           then Inr (m\<lparr>pm_attention := bm_insert attention_id
                         \<lparr>pat_state = state, pat_risk = risk, pat_updated_at_millis = t\<rparr>
                         (pm_attention m),
                       pm_updated_at_millis := t\<rparr>)
           else Inl (SeSealed SealedAttentionState))
      | Some attention \<Rightarrow>
          (if state = PasExpired \<and> pat_state attention = PasOpen \<and> pat_risk attention = risk
           then Inr (m\<lparr>pm_attention := bm_insert attention_id
                         (attention\<lparr>pat_state := PasExpired, pat_updated_at_millis := t\<rparr>)
                         (pm_attention m),
                       pm_updated_at_millis := t\<rparr>)
           else Inl (SeSealed SealedAttentionState)))"

definition evidence_changed :: "string \<Rightarrow> evidence_status \<Rightarrow> string \<Rightarrow> mission_arm" where
  "evidence_changed check_id status workspace_hash t m =
     Inr (m\<lparr>pm_evidence := bm_insert check_id
              \<lparr>pev_status = status, pev_workspace_hash = workspace_hash,
               pev_updated_at_millis = t\<rparr> (pm_evidence m),
            pm_updated_at_millis := t\<rparr>)"

definition evidence_pack_recorded :: "string \<Rightarrow> string \<Rightarrow> string \<Rightarrow> mission_arm" where
  "evidence_pack_recorded run_id pack_digest workspace_hash t m =
     rbind (ok_or (SeMission RunMissing) (pm_run m)) (\<lambda>run.
       if prn_run_id run \<noteq> run_id then Inl (SeMission RunMismatch)
       else if pm_status m \<notin> {ReviewRequired, ReadyToClose}
       then Inl (SeMission (InvalidStatusTransition (pm_status m) ReviewRequired))
       else Inr (m\<lparr>
         pm_latest_evidence_pack := Some \<lparr>pek_run_id = run_id, pek_pack_digest = pack_digest,
           pek_workspace_hash = workspace_hash, pek_recorded_at_millis = t\<rparr>,
         pm_updated_at_millis := t\<rparr>))"

section \<open>Responses\<close>

definition validate_for_run ::
  "persisted_response_route \<Rightarrow> persisted_run \<Rightarrow> mission_store_error + unit" where
  "validate_for_run route run =
     (let mode_matches_route =
            (case prn_mode run of Managed \<Rightarrow> ro_pane_target route = None
             | Passthrough \<Rightarrow> ro_pane_target route \<noteq> None)
      in if ro_provider route \<noteq> prn_provider run \<or> ro_mission_run_id route \<noteq> prn_run_id run
           \<or> prn_provider_session_id run \<noteq> Some (ro_session_id route) \<or> \<not> mode_matches_route
         then Inl (SeSealed ResponseRouteMismatch) else Inr ())"

definition attempts_of :: "string \<Rightarrow> u64 \<Rightarrow> persisted_mission \<Rightarrow> u32 list" where
  "attempts_of attention_id generation m =
     map (\<lambda>r. rak_attempt (pra_key r))
       (filter (\<lambda>r. rak_attention_id (pra_key r) = attention_id
                    \<and> rak_request_generation (pra_key r) = generation)
         (bm_values (pm_responses m)))"

definition following_attempt ::
  "string \<Rightarrow> u64 \<Rightarrow> persisted_mission \<Rightarrow> mission_store_error + u32" where
  "following_attempt attention_id generation m =
     ok_or (SeSealed InvalidResponseAttempt)
       (u32_checked_add1 (fold max (attempts_of attention_id generation m) 0))"

definition response_requested ::
  "sha256 \<Rightarrow> response_attempt_key \<Rightarrow> persisted_response_route \<Rightarrow> attention_decision \<Rightarrow> string
     \<Rightarrow> mission_arm" where
  "response_requested sha key route decision actor_id t m =
     rbind (ok_or (SeMission RunMissing) (pm_run m)) (\<lambda>run.
     rbind (validate_for_run route run) (\<lambda>_.
     rbind (ok_or (SeSealed (AttentionNotFound (rak_attention_id key)))
             (bm_get (pm_attention m) (rak_attention_id key))) (\<lambda>attention.
       if pat_state attention \<noteq> PasOpen then Inl (SeSealed InvalidResponseState)
       else if bm_get (pm_responses m) (key_digest sha key) \<noteq> None
       then Inl (SeSealed ResponseAttemptAlreadyExists)
       else rbind (following_attempt (rak_attention_id key) (rak_request_generation key) m)
         (\<lambda>expected_attempt.
           if rak_attempt key \<noteq> expected_attempt then Inl (SeSealed InvalidResponseAttempt)
           else Inr (m\<lparr>
             pm_attention := bm_insert (rak_attention_id key)
               (attention\<lparr>pat_state := PasPendingResponse, pat_updated_at_millis := t\<rparr>)
               (pm_attention m),
             pm_responses := bm_insert (key_digest sha key)
               \<lparr>pra_key = key, pra_route = route, pra_decision = decision,
                pra_actor_id = actor_id, pra_state = PrsRequested,
                pra_updated_at_millis = t\<rparr> (pm_responses m),
             pm_updated_at_millis := t\<rparr>)))))"

definition find_response ::
  "sha256 \<Rightarrow> response_attempt_key \<Rightarrow> persisted_mission
     \<Rightarrow> mission_store_error + persisted_response_attempt" where
  "find_response sha key m =
     (case bm_get (pm_responses m) (key_digest sha key) of
        Some response \<Rightarrow>
          (if pra_key response = key then Inr response
           else Inl (SeSealed ResponseAttemptNotFound))
      | None \<Rightarrow> Inl (SeSealed ResponseAttemptNotFound))"

text \<open>The common end of both outcomes: the response's and the attention's new states.\<close>

definition settle_response ::
  "sha256 \<Rightarrow> response_attempt_key \<Rightarrow> persisted_response_attempt \<Rightarrow> persisted_response_state
     \<Rightarrow> persisted_attention_state \<Rightarrow> mission_arm" where
  "settle_response sha key response response_state attention_state t m =
     rbind (ok_or (SeSealed (AttentionNotFound (rak_attention_id key)))
             (bm_get (pm_attention m) (rak_attention_id key))) (\<lambda>attention.
       Inr (m\<lparr>
         pm_responses := bm_insert (key_digest sha key)
           (response\<lparr>pra_state := response_state, pra_updated_at_millis := t\<rparr>) (pm_responses m),
         pm_attention := bm_insert (rak_attention_id key)
           (attention\<lparr>pat_state := attention_state, pat_updated_at_millis := t\<rparr>) (pm_attention m),
         pm_updated_at_millis := t\<rparr>))"

fun may_acknowledge :: "persisted_response_state \<Rightarrow> bool" where
  "may_acknowledge PrsRequested = True"
| "may_acknowledge (PrsReconciliationRequired _) = True"
| "may_acknowledge _ = False"

definition response_acknowledged ::
  "sha256 \<Rightarrow> response_attempt_key \<Rightarrow> string option \<Rightarrow> mission_arm" where
  "response_acknowledged sha key acknowledgement_hash t m =
     rbind (find_response sha key m) (\<lambda>response.
       if \<not> may_acknowledge (pra_state response) then Inl (SeSealed InvalidResponseState)
       else settle_response sha key response (PrsAcknowledged acknowledgement_hash) PasResolved t m)"

fun failure_states ::
  "response_failure_disposition \<Rightarrow> response_failure_code
     \<Rightarrow> persisted_response_state \<times> persisted_attention_state" where
  "failure_states DispDefinitelyNotApplied code = (PrsFailed code, PasOpen)"
| "failure_states DispDeliveryUnknown code =
     (PrsReconciliationRequired code, PasReconciliationRequired)"

definition response_failed ::
  "sha256 \<Rightarrow> response_attempt_key \<Rightarrow> response_failure_disposition \<Rightarrow> response_failure_code
     \<Rightarrow> mission_arm" where
  "response_failed sha key disposition code t m =
     rbind (find_response sha key m) (\<lambda>response.
       if pra_state response \<noteq> PrsRequested then Inl (SeSealed InvalidResponseState)
       else case failure_states disposition code of
              (response_state, attention_state) \<Rightarrow>
                settle_response sha key response response_state attention_state t m)"

section \<open>Applying an event\<close>

definition mission_mut :: "mission_projection \<Rightarrow> string \<Rightarrow> mission_store_error + persisted_mission" where
  "mission_mut p mission_id =
     ok_or (SeMission (MissionNotFound mission_id)) (bm_get (missions p) mission_id)"

definition on_mission ::
  "string \<Rightarrow> u64 \<Rightarrow> mission_arm \<Rightarrow> mission_projection \<Rightarrow> mission_store_error + mission_projection" where
  "on_mission mission_id at_millis arm p =
     rbind (mission_mut p mission_id) (\<lambda>m.
     rbind (arm (max at_millis (pm_updated_at_millis m)) m) (\<lambda>m'.
       Inr (p\<lparr>missions := bm_insert mission_id m' (missions p)\<rparr>)))"

definition mission_created ::
  "string \<Rightarrow> persisted_mission \<Rightarrow> mission_projection \<Rightarrow> mission_store_error + mission_projection" where
  "mission_created mission_id m p =
     (if bm_get (missions p) mission_id \<noteq> None
      then Inl (SeMission (MissionAlreadyExists mission_id))
      else Inr (p\<lparr>missions := bm_insert mission_id m (missions p)\<rparr>))"

fun projection_apply ::
  "sha256 \<Rightarrow> persistable_mission_event \<Rightarrow> mission_projection
     \<Rightarrow> mission_store_error + mission_projection" where
  "projection_apply sha (MissionCreated i title path hash objective criteria at) p =
     mission_created i (new_mission title path hash objective criteria at) p"
| "projection_apply sha (ClosureConfigured i declarations at) p =
     on_mission i at (closure_configured sha i declarations) p"
| "projection_apply sha (RunStarted i run_id provider mode path base declared recipe at) p =
     on_mission i at (run_started run_id provider mode path base declared recipe) p"
| "projection_apply sha
     (RunContinued i source run_id provider mode path base declared recipe artifact at) p =
     on_mission i at
       (run_continued source run_id provider mode path base declared recipe artifact) p"
| "projection_apply sha (ProviderSessionBound i run_id session at) p =
     on_mission i at (provider_session_bound run_id session) p"
| "projection_apply sha (StatusChanged i status at) p = on_mission i at (status_changed status) p"
| "projection_apply sha (MissionReady i receipt _ _ at) p =
     on_mission i at (mission_ready receipt) p"
| "projection_apply sha (MissionArchived i receipt ready_seal _ _ at) p =
     on_mission i at (mission_archived receipt ready_seal) p"
| "projection_apply sha (WorktreeClaimed i path at) p = on_mission i at (worktree_claimed path) p"
| "projection_apply sha (AttentionChanged i attention_id state risk at) p =
     on_mission i at (attention_changed attention_id state risk) p"
| "projection_apply sha (EvidenceChanged i check_id status hash at) p =
     on_mission i at (evidence_changed check_id status hash) p"
| "projection_apply sha (EvidencePackRecorded i run_id pack hash at) p =
     on_mission i at (evidence_pack_recorded run_id pack hash) p"
| "projection_apply sha (ResponseRequested i key route decision actor_id at) p =
     on_mission i at (response_requested sha key route decision actor_id) p"
| "projection_apply sha (ResponseAcknowledged i key hash at) p =
     on_mission i at (response_acknowledged sha key hash) p"
| "projection_apply sha (ResponseFailed i key disposition code at) p =
     on_mission i at (response_failed sha key disposition code) p"

section \<open>Queries\<close>

definition projection_mission_status :: "mission_projection \<Rightarrow> string \<Rightarrow> mission_status option" where
  "projection_mission_status p mission_id = map_option pm_status (bm_get (missions p) mission_id)"

definition response_state ::
  "sha256 \<Rightarrow> mission_projection \<Rightarrow> string \<Rightarrow> response_attempt_key \<Rightarrow> persisted_response_state option" where
  "response_state sha p mission_id key =
     (case bm_get (missions p) mission_id of
        None \<Rightarrow> None
      | Some m \<Rightarrow>
          (case bm_get (pm_responses m) (key_digest sha key) of
             None \<Rightarrow> None
           | Some r \<Rightarrow> if pra_key r = key then Some (pra_state r) else None))"

definition next_response_attempt ::
  "mission_projection \<Rightarrow> string \<Rightarrow> string \<Rightarrow> u64 \<Rightarrow> mission_store_error + u32" where
  "next_response_attempt p mission_id attention_id request_generation =
     rbind (mission_mut p mission_id) (\<lambda>m.
     rbind (ok_or (SeSealed (AttentionNotFound attention_id)) (bm_get (pm_attention m) attention_id))
       (\<lambda>attention.
         if pat_state attention \<noteq> PasOpen \<or> request_generation = 0
         then Inl (SeSealed InvalidResponseState)
         else following_attempt attention_id request_generation m))"

definition attention_state ::
  "mission_projection \<Rightarrow> string \<Rightarrow> string \<Rightarrow> persisted_attention_state option" where
  "attention_state p mission_id attention_id =
     (case bm_get (missions p) mission_id of
        None \<Rightarrow> None
      | Some m \<Rightarrow> map_option pat_state (bm_get (pm_attention m) attention_id))"

definition unresolved_attention_ids ::
  "mission_projection \<Rightarrow> string \<Rightarrow> mission_store_error + string bset" where
  "unresolved_attention_ids p mission_id =
     rbind (mission_mut p mission_id) (\<lambda>m.
       Inr (bs_collect (map fst (filter (\<lambda>(_, a). persisted_unresolved a) (pm_attention m)))))"

section \<open>Views\<close>

record mission_run_view =
  rv_run_id :: string
  rv_provider :: provider_kind
  rv_mode :: provider_mode
  rv_worktree_path :: string
  rv_base_revision :: string
  rv_provider_session_id :: "string option"
  rv_execute_declared_checks :: bool
  rv_execute_project_recipe :: bool
  rv_handoff_from_run_id :: "string option"
  rv_handoff_artifact_sha256 :: "string option"

definition run_view_of :: "persisted_run \<Rightarrow> mission_run_view" where
  "run_view_of run =
     \<lparr>rv_run_id = prn_run_id run, rv_provider = prn_provider run, rv_mode = prn_mode run,
      rv_worktree_path = prn_worktree_path run, rv_base_revision = prn_base_revision run,
      rv_provider_session_id = prn_provider_session_id run,
      rv_execute_declared_checks = prn_execute_declared_checks run,
      rv_execute_project_recipe = prn_execute_project_recipe run,
      rv_handoff_from_run_id = prn_handoff_from_run_id run,
      rv_handoff_artifact_sha256 = prn_handoff_artifact_sha256 run\<rparr>"

record mission_evidence_view =
  vw_check_id :: string
  vw_status :: evidence_status
  vw_workspace_hash :: string
  vw_updated_at_millis :: u64

definition evidence_view_of :: "string \<times> persisted_evidence \<Rightarrow> mission_evidence_view" where
  "evidence_view_of e =
     \<lparr>vw_check_id = fst e, vw_status = pev_status (snd e),
      vw_workspace_hash = pev_workspace_hash (snd e),
      vw_updated_at_millis = pev_updated_at_millis (snd e)\<rparr>"

record mission_view =
  mv_mission_id :: string
  mv_title :: string
  mv_repository_path :: string
  mv_repository_hash :: string
  mv_objective :: string
  mv_acceptance_criteria :: "string list"
  mv_check_declarations :: "check_declaration list"
  mv_status :: mission_status
  mv_run :: "mission_run_view option"
  mv_run_history :: "mission_run_view list"
  mv_unresolved_attention_count :: nat
  mv_latest_evidence_pack_digest :: "string option"
  mv_ready_receipt :: "proof_receipt option"
  mv_archive_receipt :: "proof_receipt option"
  mv_evidence :: "mission_evidence_view list"
  mv_updated_at_millis :: u64

definition view_from_persisted :: "string \<Rightarrow> persisted_mission \<Rightarrow> mission_view" where
  "view_from_persisted mission_id m =
     \<lparr>mv_mission_id = mission_id, mv_title = pm_title m,
      mv_repository_path = pm_repository_path m, mv_repository_hash = pm_repository_hash m,
      mv_objective = pm_objective m, mv_acceptance_criteria = pm_acceptance_criteria m,
      mv_check_declarations = pm_check_declarations m, mv_status = pm_status m,
      mv_run = map_option run_view_of (pm_run m),
      mv_run_history = map run_view_of (pm_run_history m),
      mv_unresolved_attention_count = length (filter persisted_unresolved (bm_values (pm_attention m))),
      mv_latest_evidence_pack_digest = map_option pek_pack_digest (pm_latest_evidence_pack m),
      mv_ready_receipt = pm_ready_receipt m, mv_archive_receipt = pm_archive_receipt m,
      mv_evidence = map evidence_view_of (pm_evidence m),
      mv_updated_at_millis = pm_updated_at_millis m\<rparr>"

definition mission_view_of :: "mission_projection \<Rightarrow> string \<Rightarrow> mission_view option" where
  "mission_view_of p mission_id =
     map_option (view_from_persisted mission_id) (bm_get (missions p) mission_id)"

definition mission_views :: "mission_projection \<Rightarrow> mission_view list" where
  "mission_views p = map (\<lambda>(mission_id, m). view_from_persisted mission_id m) (missions p)"

record durable_response_view =
  dr_decision :: attention_decision
  dr_actor_id :: string
  dr_state :: persisted_response_state
  dr_updated_at_millis :: u64
  dr_attempt :: u32

definition response_view_of :: "persisted_response_attempt \<Rightarrow> durable_response_view" where
  "response_view_of r =
     \<lparr>dr_decision = pra_decision r, dr_actor_id = pra_actor_id r, dr_state = pra_state r,
      dr_updated_at_millis = pra_updated_at_millis r, dr_attempt = rak_attempt (pra_key r)\<rparr>"

record durable_attention_view =
  da_mission_id :: string
  da_attention_id :: string
  da_state :: persisted_attention_state
  da_risk :: attention_risk
  da_updated_at_millis :: u64
  da_response :: "durable_response_view option"

text \<open>\<open>max_by_key\<close> returns the last of the greatest elements.\<close>

definition max_by_key :: "('a \<Rightarrow> 'k::linorder) \<Rightarrow> 'a list \<Rightarrow> 'a option" where
  "max_by_key key xs =
     fold (\<lambda>x best. case best of None \<Rightarrow> Some x
       | Some b \<Rightarrow> if key b \<le> key x then Some x else Some b) xs None"

definition attention_view_of ::
  "string \<Rightarrow> persisted_mission \<Rightarrow> string \<times> persisted_attention \<Rightarrow> durable_attention_view" where
  "attention_view_of mission_id m e =
     \<lparr>da_mission_id = mission_id, da_attention_id = fst e, da_state = pat_state (snd e),
      da_risk = pat_risk (snd e), da_updated_at_millis = pat_updated_at_millis (snd e),
      da_response = map_option response_view_of
        (max_by_key (\<lambda>r. rak_attempt (pra_key r))
          (filter (\<lambda>r. rak_attention_id (pra_key r) = fst e) (bm_values (pm_responses m))))\<rparr>"

definition attention_views :: "mission_projection \<Rightarrow> durable_attention_view list" where
  "attention_views p =
     sort_key (\<lambda>v. (da_mission_id v, da_attention_id v))
       (concat (map (\<lambda>(mission_id, m). map (attention_view_of mission_id m) (pm_attention m))
         (missions p)))"

end
