(* ===== verification/Store_Inv.thy ===== *)
theory Store_Inv
  imports Store_Projection "HOL-Library.Sublist"
begin

text \<open>
  The invariant of a durable mission and the order in which its history grows. The invariant has
  four independent parts (seals, runs, responses, times); every arm of \<open>apply\<close> keeps them, and
  every arm extends the mission in the order \<open>mission_le\<close>, which says what is append-only. The
  projection is a machine of the kind of the prelude, so both facts hold of every event sequence.
\<close>

named_theorems arm_keeps \<open>the arms of apply that keep the mission invariant\<close>

section \<open>The invariant\<close>

text \<open>Seals: which receipts a status has, and that an archive receipt is fresher than its ready one.\<close>

definition archive_follows :: "proof_receipt \<Rightarrow> proof_receipt \<Rightarrow> bool" where
  "archive_follows ready arch \<longleftrightarrow>
     pr_subject_digest arch = pr_subject_digest ready
     \<and> pr_authority_sequence ready < pr_authority_sequence arch
     \<and> pr_verified_at_millis ready \<le> pr_verified_at_millis arch"

fun seal_fits :: "mission_status \<Rightarrow> proof_receipt option \<Rightarrow> proof_receipt option \<Rightarrow> bool" where
  "seal_fits Draft ready arch \<longleftrightarrow> ready = None \<and> arch = None"
| "seal_fits ReadyToClose ready arch \<longleftrightarrow> ready \<noteq> None \<and> arch = None"
| "seal_fits Archived (Some ready) (Some arch) \<longleftrightarrow> archive_follows ready arch"
| "seal_fits Archived _ _ \<longleftrightarrow> False"
| "seal_fits _ ready arch \<longleftrightarrow> arch = None"

definition seals_ok :: "persisted_mission \<Rightarrow> bool" where
  "seals_ok m \<longleftrightarrow> seal_fits (pm_status m) (pm_ready_receipt m) (pm_archive_receipt m)"

text \<open>Runs: the history followed by the current run is a chain of handoffs under fresh ids.\<close>

definition all_runs :: "persisted_mission \<Rightarrow> persisted_run list" where
  "all_runs m = pm_run_history m @ (case pm_run m of None \<Rightarrow> [] | Some run \<Rightarrow> [run])"

definition handed_over :: "persisted_run \<Rightarrow> persisted_run \<Rightarrow> bool" where
  "handed_over a b \<longleftrightarrow>
     prn_handoff_from_run_id b = Some (prn_run_id a) \<and> prn_handoff_artifact_sha256 b \<noteq> None
     \<and> prn_provider b \<noteq> prn_provider a \<and> prn_worktree_path b = prn_worktree_path a
     \<and> prn_base_revision b = prn_base_revision a
     \<and> prn_execute_declared_checks b = prn_execute_declared_checks a
     \<and> prn_execute_project_recipe b = prn_execute_project_recipe a"

definition runs_ok :: "persisted_mission \<Rightarrow> bool" where
  "runs_ok m \<longleftrightarrow>
     distinct (map prn_run_id (all_runs m)) \<and> successively handed_over (all_runs m)
     \<and> (all_runs m \<noteq> [] \<longrightarrow> prn_handoff_from_run_id (hd (all_runs m)) = None)
     \<and> (pm_run m = None \<longrightarrow> pm_run_history m = [])
     \<and> (pm_run m \<noteq> None \<longrightarrow> pm_status m \<noteq> Draft \<and> pm_check_declarations m \<noteq> [])"

text \<open>Responses: the state of a response fits its attention, which has at most one live response.\<close>

fun response_fits :: "persisted_response_state \<Rightarrow> persisted_attention_state \<Rightarrow> bool" where
  "response_fits PrsRequested s \<longleftrightarrow> s = PasPendingResponse"
| "response_fits (PrsAcknowledged _) s \<longleftrightarrow> s = PasResolved"
| "response_fits (PrsReconciliationRequired _) s \<longleftrightarrow> s = PasReconciliationRequired"
| "response_fits (PrsFailed _) s \<longleftrightarrow> True"

fun is_live :: "persisted_response_state \<Rightarrow> bool" where
  "is_live (PrsFailed _) \<longleftrightarrow> False"
| "is_live _ \<longleftrightarrow> True"

fun awaiting :: "persisted_attention_state \<Rightarrow> bool" where
  "awaiting PasPendingResponse \<longleftrightarrow> True"
| "awaiting PasResolved \<longleftrightarrow> True"
| "awaiting PasReconciliationRequired \<longleftrightarrow> True"
| "awaiting _ \<longleftrightarrow> False"

definition filed :: "sha256 \<Rightarrow> persisted_mission \<Rightarrow> bool" where
  "filed sha m \<longleftrightarrow>
     (\<forall>d r. bm_get (pm_responses m) d = Some r \<longrightarrow> d = key_digest sha (pra_key r)
        \<and> (\<exists>a. bm_get (pm_attention m) (rak_attention_id (pra_key r)) = Some a
             \<and> response_fits (pra_state r) (pat_state a)))"

definition single_live :: "persisted_mission \<Rightarrow> bool" where
  "single_live m \<longleftrightarrow>
     (\<forall>d r d' r'. bm_get (pm_responses m) d = Some r \<longrightarrow> bm_get (pm_responses m) d' = Some r'
        \<longrightarrow> is_live (pra_state r) \<longrightarrow> is_live (pra_state r')
        \<longrightarrow> rak_attention_id (pra_key r) = rak_attention_id (pra_key r') \<longrightarrow> d = d')"

definition answered :: "persisted_mission \<Rightarrow> bool" where
  "answered m \<longleftrightarrow>
     (\<forall>i a. bm_get (pm_attention m) i = Some a \<longrightarrow> awaiting (pat_state a)
        \<longrightarrow> (\<exists>d r. bm_get (pm_responses m) d = Some r \<and> rak_attention_id (pra_key r) = i
                 \<and> is_live (pra_state r)))"

definition maps_ok :: "persisted_mission \<Rightarrow> bool" where
  "maps_ok m \<longleftrightarrow> bm_ok (pm_attention m) \<and> bm_ok (pm_evidence m) \<and> bm_ok (pm_responses m)"

text \<open>Times: nothing in the mission is later than its last update.\<close>

definition touched_before :: "u64 \<Rightarrow> persisted_mission \<Rightarrow> bool" where
  "touched_before t m \<longleftrightarrow>
     (\<forall>k a. bm_get (pm_attention m) k = Some a \<longrightarrow> pat_updated_at_millis a \<le> t)
     \<and> (\<forall>k e. bm_get (pm_evidence m) k = Some e \<longrightarrow> pev_updated_at_millis e \<le> t)
     \<and> (\<forall>k r. bm_get (pm_responses m) k = Some r \<longrightarrow> pra_updated_at_millis r \<le> t)
     \<and> (\<forall>p. pm_latest_evidence_pack m = Some p \<longrightarrow> pek_recorded_at_millis p \<le> t)
     \<and> (\<forall>r. pm_ready_receipt m = Some r \<longrightarrow> pr_verified_at_millis r \<le> t)
     \<and> (\<forall>r. pm_archive_receipt m = Some r \<longrightarrow> pr_verified_at_millis r \<le> t)"

definition threads_ok :: "sha256 \<Rightarrow> persisted_mission \<Rightarrow> bool" where
  "threads_ok sha m \<longleftrightarrow> filed sha m \<and> single_live m \<and> answered m"

definition mission_ok :: "sha256 \<Rightarrow> persisted_mission \<Rightarrow> bool" where
  "mission_ok sha m \<longleftrightarrow> seals_ok m \<and> runs_ok m \<and> threads_ok sha m \<and> maps_ok m
     \<and> touched_before (pm_updated_at_millis m) m"

lemma touched_before_mono:
  "touched_before t m \<Longrightarrow> t \<le> t' \<Longrightarrow> touched_before t' m"
  unfolding touched_before_def by (meson order.trans)

section \<open>What only grows\<close>

definition attention_le :: "persisted_attention \<Rightarrow> persisted_attention \<Rightarrow> bool" where
  "attention_le a b \<longleftrightarrow> pat_risk b = pat_risk a
     \<and> (pat_state a \<in> {PasResolved, PasExpired, PasDismissed} \<longrightarrow> pat_state b = pat_state a)"

fun settled :: "persisted_response_state \<Rightarrow> bool" where
  "settled (PrsAcknowledged _) \<longleftrightarrow> True"
| "settled (PrsFailed _) \<longleftrightarrow> True"
| "settled _ \<longleftrightarrow> False"

definition response_le :: "persisted_response_attempt \<Rightarrow> persisted_response_attempt \<Rightarrow> bool" where
  "response_le r s \<longleftrightarrow> pra_key s = pra_key r \<and> pra_route s = pra_route r
     \<and> pra_decision s = pra_decision r \<and> pra_actor_id s = pra_actor_id r
     \<and> (settled (pra_state r) \<longrightarrow> pra_state s = pra_state r)"

definition map_le_by :: "('v \<Rightarrow> 'v \<Rightarrow> bool) \<Rightarrow> ('k, 'v) bmap \<Rightarrow> ('k, 'v) bmap \<Rightarrow> bool" where
  "map_le_by le m m' \<longleftrightarrow>
     (\<forall>k v. bm_get m k = Some v \<longrightarrow> (\<exists>v'. bm_get m' k = Some v' \<and> le v v'))"

definition mission_le :: "persisted_mission \<Rightarrow> persisted_mission \<Rightarrow> bool" where
  "mission_le m m' \<longleftrightarrow>
     (pm_title m', pm_repository_path m', pm_repository_hash m', pm_objective m',
      pm_acceptance_criteria m')
       = (pm_title m, pm_repository_path m, pm_repository_hash m, pm_objective m,
          pm_acceptance_criteria m)
     \<and> (pm_check_declarations m \<noteq> [] \<longrightarrow> pm_check_declarations m' = pm_check_declarations m)
     \<and> pm_updated_at_millis m \<le> pm_updated_at_millis m'
     \<and> prefix (map prn_run_id (all_runs m)) (map prn_run_id (all_runs m'))
     \<and> map_le_by attention_le (pm_attention m) (pm_attention m')
     \<and> map_le_by response_le (pm_responses m) (pm_responses m')
     \<and> (pm_status m = Archived \<longrightarrow> pm_status m' = Archived
          \<and> pm_ready_receipt m' = pm_ready_receipt m
          \<and> pm_archive_receipt m' = pm_archive_receipt m)"

lemma map_le_by_refl: "(\<And>v. le v v) \<Longrightarrow> map_le_by le m m"
  by (auto simp: map_le_by_def)

lemma map_le_by_trans:
  assumes "map_le_by le a b" and "map_le_by le b c"
    and "\<And>x y z. le x y \<Longrightarrow> le y z \<Longrightarrow> le x z"
  shows "map_le_by le a c"
  unfolding map_le_by_def
proof (intro allI impI)
  fix k v
  assume "bm_get a k = Some v"
  then obtain v' where "bm_get b k = Some v'" "le v v'"
    using assms(1) by (auto simp: map_le_by_def)
  moreover then obtain v'' where "bm_get c k = Some v''" "le v' v''"
    using assms(2) by (auto simp: map_le_by_def)
  ultimately show "\<exists>v'. bm_get c k = Some v' \<and> le v v'"
    using assms(3) by blast
qed

lemma map_le_by_insert:
  "(\<And>v. le v v) \<Longrightarrow> (\<And>v. bm_get m k = Some v \<Longrightarrow> le v v') \<Longrightarrow> map_le_by le m (bm_insert k v' m)"
  by (auto simp: map_le_by_def)

lemma attention_le_refl [simp]: "attention_le a a"
  by (simp add: attention_le_def)

lemma response_le_refl [simp]: "response_le r r"
  by (simp add: response_le_def)

lemma attention_le_trans: "attention_le a b \<Longrightarrow> attention_le b c \<Longrightarrow> attention_le a c"
  by (auto simp: attention_le_def)

lemma response_le_trans: "response_le a b \<Longrightarrow> response_le b c \<Longrightarrow> response_le a c"
  by (auto simp: response_le_def)

lemma mission_le_refl: "mission_le m m"
  by (simp add: mission_le_def map_le_by_refl)

lemma mission_le_trans:
  assumes "mission_le a b" and "mission_le b c"
  shows "mission_le a c"
proof -
  have "map_le_by attention_le (pm_attention a) (pm_attention b)"
    "map_le_by attention_le (pm_attention b) (pm_attention c)"
    "map_le_by response_le (pm_responses a) (pm_responses b)"
    "map_le_by response_le (pm_responses b) (pm_responses c)"
    using assms by (simp_all only: mission_le_def)
  then have "map_le_by attention_le (pm_attention a) (pm_attention c)"
    "map_le_by response_le (pm_responses a) (pm_responses c)"
    by (auto elim: map_le_by_trans intro: attention_le_trans response_le_trans)
  moreover have "prefix (map prn_run_id (all_runs a)) (map prn_run_id (all_runs c))"
    "pm_updated_at_millis a \<le> pm_updated_at_millis c"
    using assms prefix_order.order_trans order.trans unfolding mission_le_def by blast+
  ultimately show ?thesis
    using assms unfolding mission_le_def by simp
qed

section \<open>Arms that keep the invariant\<close>

definition keeps :: "sha256 \<Rightarrow> mission_arm \<Rightarrow> bool" where
  "keeps sha arm \<longleftrightarrow>
     (\<forall>t m m'. mission_ok sha m \<longrightarrow> pm_updated_at_millis m \<le> t \<longrightarrow> arm t m = Inr m'
        \<longrightarrow> mission_ok sha m' \<and> mission_le m m')"

lemma keepsI:
  assumes "\<And>t m m'. seals_ok m \<Longrightarrow> runs_ok m \<Longrightarrow> threads_ok sha m \<Longrightarrow> maps_ok m \<Longrightarrow>
      touched_before t m \<Longrightarrow> pm_updated_at_millis m \<le> t \<Longrightarrow> arm t m = Inr m' \<Longrightarrow>
      seals_ok m' \<and> runs_ok m' \<and> threads_ok sha m' \<and> maps_ok m' \<and> touched_before t m'
      \<and> pm_updated_at_millis m' = t \<and> mission_le m m'"
  shows "keeps sha arm"
  unfolding keeps_def mission_ok_def using assms touched_before_mono by metis

lemmas part_defs = seals_ok_def runs_ok_def threads_ok_def filed_def single_live_def answered_def
  maps_ok_def touched_before_def all_runs_def

text \<open>An update of a field that a part does not read leaves the part alone.\<close>

lemma all_runs_frame [simp]:
  "all_runs (m\<lparr>pm_check_declarations := x_check\<rparr>) = all_runs m"
  "all_runs (m\<lparr>pm_updated_at_millis := x_upd\<rparr>) = all_runs m"
  "all_runs (m\<lparr>pm_evidence := x_ev\<rparr>) = all_runs m"
  "all_runs (m\<lparr>pm_latest_evidence_pack := x_pack\<rparr>) = all_runs m"
  "all_runs (m\<lparr>pm_worktree_relative_path := x_wt\<rparr>) = all_runs m"
  "all_runs (m\<lparr>pm_attention := x_att\<rparr>) = all_runs m"
  "all_runs (m\<lparr>pm_responses := x_resp\<rparr>) = all_runs m"
  "all_runs (m\<lparr>pm_ready_receipt := x_ready\<rparr>) = all_runs m"
  "all_runs (m\<lparr>pm_archive_receipt := x_arch\<rparr>) = all_runs m"
  "all_runs (m\<lparr>pm_status := x_st\<rparr>) = all_runs m"
  by (simp_all add: part_defs)

lemma seals_frame [simp]:
  "seals_ok (m\<lparr>pm_check_declarations := x_check\<rparr>) = seals_ok m"
  "seals_ok (m\<lparr>pm_updated_at_millis := x_upd\<rparr>) = seals_ok m"
  "seals_ok (m\<lparr>pm_evidence := x_ev\<rparr>) = seals_ok m"
  "seals_ok (m\<lparr>pm_latest_evidence_pack := x_pack\<rparr>) = seals_ok m"
  "seals_ok (m\<lparr>pm_worktree_relative_path := x_wt\<rparr>) = seals_ok m"
  "seals_ok (m\<lparr>pm_run := x_run\<rparr>) = seals_ok m"
  "seals_ok (m\<lparr>pm_run_history := x_hist\<rparr>) = seals_ok m"
  "seals_ok (m\<lparr>pm_attention := x_att\<rparr>) = seals_ok m"
  "seals_ok (m\<lparr>pm_responses := x_resp\<rparr>) = seals_ok m"
  by (simp_all add: part_defs)

lemma runs_frame [simp]:
  "runs_ok (m\<lparr>pm_updated_at_millis := x_upd\<rparr>) = runs_ok m"
  "runs_ok (m\<lparr>pm_evidence := x_ev\<rparr>) = runs_ok m"
  "runs_ok (m\<lparr>pm_latest_evidence_pack := x_pack\<rparr>) = runs_ok m"
  "runs_ok (m\<lparr>pm_worktree_relative_path := x_wt\<rparr>) = runs_ok m"
  "runs_ok (m\<lparr>pm_attention := x_att\<rparr>) = runs_ok m"
  "runs_ok (m\<lparr>pm_responses := x_resp\<rparr>) = runs_ok m"
  "runs_ok (m\<lparr>pm_ready_receipt := x_ready\<rparr>) = runs_ok m"
  "runs_ok (m\<lparr>pm_archive_receipt := x_arch\<rparr>) = runs_ok m"
  by (simp_all add: part_defs)

lemma threads_frame [simp]:
  "threads_ok sha (m\<lparr>pm_check_declarations := x_check\<rparr>) = threads_ok sha m"
  "threads_ok sha (m\<lparr>pm_updated_at_millis := x_upd\<rparr>) = threads_ok sha m"
  "threads_ok sha (m\<lparr>pm_evidence := x_ev\<rparr>) = threads_ok sha m"
  "threads_ok sha (m\<lparr>pm_latest_evidence_pack := x_pack\<rparr>) = threads_ok sha m"
  "threads_ok sha (m\<lparr>pm_worktree_relative_path := x_wt\<rparr>) = threads_ok sha m"
  "threads_ok sha (m\<lparr>pm_run := x_run\<rparr>) = threads_ok sha m"
  "threads_ok sha (m\<lparr>pm_run_history := x_hist\<rparr>) = threads_ok sha m"
  "threads_ok sha (m\<lparr>pm_ready_receipt := x_ready\<rparr>) = threads_ok sha m"
  "threads_ok sha (m\<lparr>pm_archive_receipt := x_arch\<rparr>) = threads_ok sha m"
  "threads_ok sha (m\<lparr>pm_status := x_st\<rparr>) = threads_ok sha m"
  by (simp_all add: part_defs)

lemma maps_frame [simp]:
  "maps_ok (m\<lparr>pm_check_declarations := x_check\<rparr>) = maps_ok m"
  "maps_ok (m\<lparr>pm_updated_at_millis := x_upd\<rparr>) = maps_ok m"
  "maps_ok (m\<lparr>pm_latest_evidence_pack := x_pack\<rparr>) = maps_ok m"
  "maps_ok (m\<lparr>pm_worktree_relative_path := x_wt\<rparr>) = maps_ok m"
  "maps_ok (m\<lparr>pm_run := x_run\<rparr>) = maps_ok m"
  "maps_ok (m\<lparr>pm_run_history := x_hist\<rparr>) = maps_ok m"
  "maps_ok (m\<lparr>pm_ready_receipt := x_ready\<rparr>) = maps_ok m"
  "maps_ok (m\<lparr>pm_archive_receipt := x_arch\<rparr>) = maps_ok m"
  "maps_ok (m\<lparr>pm_status := x_st\<rparr>) = maps_ok m"
  by (simp_all add: part_defs)

lemma touched_frame [simp]:
  "touched_before t (m\<lparr>pm_check_declarations := x_check\<rparr>) = touched_before t m"
  "touched_before t (m\<lparr>pm_updated_at_millis := x_upd\<rparr>) = touched_before t m"
  "touched_before t (m\<lparr>pm_worktree_relative_path := x_wt\<rparr>) = touched_before t m"
  "touched_before t (m\<lparr>pm_run := x_run\<rparr>) = touched_before t m"
  "touched_before t (m\<lparr>pm_run_history := x_hist\<rparr>) = touched_before t m"
  "touched_before t (m\<lparr>pm_status := x_st\<rparr>) = touched_before t m"
  by (simp_all add: part_defs)

lemma mission_le_simple:
  "pm_updated_at_millis m \<le> pm_updated_at_millis m' \<Longrightarrow>
   m' = m\<lparr>pm_status := st, pm_updated_at_millis := u, pm_evidence := ev,
          pm_latest_evidence_pack := pack, pm_worktree_relative_path := path\<rparr> \<Longrightarrow>
   (pm_status m = Archived \<longrightarrow> st = Archived) \<Longrightarrow> mission_le m m'"
  by (simp add: mission_le_def map_le_by_refl)

lemma new_mission_ok: "mission_ok sha (new_mission title path hash objective criteria at)"
  by (simp add: mission_ok_def part_defs new_mission_def)

lemma runs_check_frame [simp]:
  "pm_run m = None \<Longrightarrow> runs_ok (m\<lparr>pm_check_declarations := ds\<rparr>) = runs_ok m"
  by (simp add: runs_ok_def all_runs_def)

lemma maps_ok_insert [simp]:
  "maps_ok m \<Longrightarrow> maps_ok (m\<lparr>pm_evidence := bm_insert k e (pm_evidence m)\<rparr>)"
  "maps_ok m \<Longrightarrow> maps_ok (m\<lparr>pm_attention := bm_insert k a (pm_attention m)\<rparr>)"
  "maps_ok m \<Longrightarrow> maps_ok (m\<lparr>pm_responses := bm_insert k r (pm_responses m)\<rparr>)"
  "maps_ok m \<Longrightarrow> maps_ok (m\<lparr>pm_evidence := bm_map_values f (pm_evidence m)\<rparr>)"
  by (simp_all add: maps_ok_def)

lemma touched_insert [simp]:
  "touched_before t m \<Longrightarrow> pev_updated_at_millis e \<le> t \<Longrightarrow>
     touched_before t (m\<lparr>pm_evidence := bm_insert k e (pm_evidence m)\<rparr>)"
  "touched_before t m \<Longrightarrow> pat_updated_at_millis a \<le> t \<Longrightarrow>
     touched_before t (m\<lparr>pm_attention := bm_insert k a (pm_attention m)\<rparr>)"
  "touched_before t m \<Longrightarrow> pra_updated_at_millis r \<le> t \<Longrightarrow>
     touched_before t (m\<lparr>pm_responses := bm_insert k r (pm_responses m)\<rparr>)"
  "touched_before t m \<Longrightarrow> pek_recorded_at_millis p \<le> t \<Longrightarrow>
     touched_before t (m\<lparr>pm_latest_evidence_pack := Some p\<rparr>)"
  by (simp_all add: touched_before_def)

lemma touched_receipts [simp]:
  "touched_before t m \<Longrightarrow> touched_before t (m\<lparr>pm_latest_evidence_pack := None\<rparr>)"
  "touched_before t m \<Longrightarrow> touched_before t (m\<lparr>pm_ready_receipt := None\<rparr>)"
  "touched_before t m \<Longrightarrow> touched_before t (m\<lparr>pm_archive_receipt := None\<rparr>)"
  "touched_before t m \<Longrightarrow> pr_verified_at_millis r \<le> t \<Longrightarrow>
     touched_before t (m\<lparr>pm_ready_receipt := Some r\<rparr>)"
  "touched_before t m \<Longrightarrow> pr_verified_at_millis r \<le> t \<Longrightarrow>
     touched_before t (m\<lparr>pm_archive_receipt := Some r\<rparr>)"
  "touched_before t m \<Longrightarrow>
     touched_before t (m\<lparr>pm_evidence := bm_map_values (stale_evidence t) (pm_evidence m)\<rparr>)"
  by (auto simp: touched_before_def stale_evidence_def)

lemma runs_status [simp]:
  "runs_ok m \<Longrightarrow> st \<noteq> Draft \<Longrightarrow> runs_ok (m\<lparr>pm_status := st\<rparr>)"
  by (simp add: runs_ok_def all_runs_def)

lemma closure_configured_keeps [arm_keeps]: "keeps sha (closure_configured sha i declarations)"
  by (rule keepsI)
     (auto simp: closure_configured_def result_iffs mission_le_def map_le_by_refl
       split: if_split_asm)

lemma worktree_claimed_keeps [arm_keeps]: "keeps sha (worktree_claimed path)"
  by (rule keepsI) (auto simp: worktree_claimed_def mission_le_def map_le_by_refl)

lemma evidence_changed_keeps [arm_keeps]: "keeps sha (evidence_changed check_id status hash)"
  by (rule keepsI) (auto simp: evidence_changed_def mission_le_def map_le_by_refl)

lemma evidence_pack_recorded_keeps [arm_keeps]:
  "keeps sha (evidence_pack_recorded run_id pack hash)"
  by (rule keepsI)
     (auto simp: evidence_pack_recorded_def result_iffs mission_le_def map_le_by_refl
       split: if_split_asm)

lemma seal_fits_plain:
  "st \<notin> {Draft, ReadyToClose, Archived} \<Longrightarrow> seal_fits st ready arch \<longleftrightarrow> arch = None"
  by (cases st) auto

lemma seal_fits_no_archive:
  "seal_fits st ready arch \<Longrightarrow> st \<noteq> Archived \<Longrightarrow> arch = None"
  by (cases st) auto

lemma status_changed_keeps [arm_keeps]: "keeps sha (status_changed status)"
proof (rule keepsI)
  fix t m m'
  assume parts: "seals_ok m" "runs_ok m" "threads_ok sha m" "maps_ok m" "touched_before t m"
    "pm_updated_at_millis m \<le> t" and step: "status_changed status t m = Inr m'"
  then have m': "m' = m\<lparr>pm_status := status, pm_updated_at_millis := t\<rparr>"
    and target: "status \<notin> {ReadyToClose, Archived}" and moves: "can_persist_from status (pm_status m)"
    by (auto simp: status_changed_def split: if_split_asm)
  have open_status: "status \<noteq> Draft" "pm_status m \<noteq> Archived"
    using moves by (auto simp: can_persist_from_def)
  then have "seals_ok m'"
    using parts(1) target seal_fits_no_archive seal_fits_plain by (auto simp: seals_ok_def m')
  then show "seals_ok m' \<and> runs_ok m' \<and> threads_ok sha m' \<and> maps_ok m' \<and> touched_before t m'
      \<and> pm_updated_at_millis m' = t \<and> mission_le m m'"
    using parts open_status by (simp add: m' mission_le_def map_le_by_refl)
qed

lemma mission_ready_keeps [arm_keeps]: "keeps sha (mission_ready receipt)"
  by (rule keepsI)
     (auto simp: mission_ready_def seals_ok_def mission_le_def map_le_by_refl not_less
       split: if_split_asm)

lemma mission_archived_keeps [arm_keeps]: "keeps sha (mission_archived receipt seal)"
  by (rule keepsI)
     (auto simp: mission_archived_def result_iffs seals_ok_def archive_follows_def mission_le_def
       map_le_by_refl not_less not_le split: if_split_asm)

section \<open>Runs\<close>

lemma run_started_keeps [arm_keeps]:
  "keeps sha (run_started run_id provider mode path base declared recipe)"
  by (rule keepsI)
     (auto simp: run_started_def seals_ok_def runs_ok_def all_runs_def mission_le_def map_le_by_refl
       split: if_split_asm)

lemma provider_session_bound_keeps [arm_keeps]: "keeps sha (provider_session_bound run_id session)"
proof (rule keepsI)
  fix t m m'
  assume parts: "seals_ok m" "runs_ok m" "threads_ok sha m" "maps_ok m" "touched_before t m"
    "pm_updated_at_millis m \<le> t" and step: "provider_session_bound run_id session t m = Inr m'"
  then obtain run where run: "pm_run m = Some run" and prep: "pm_status m = Preparing"
    and m': "m' = m\<lparr>pm_run := Some (run\<lparr>prn_provider_session_id := Some session\<rparr>),
                   pm_status := Active, pm_updated_at_millis := t\<rparr>"
    by (auto simp: provider_session_bound_def result_iffs split: if_split_asm)
  have runs: "runs_ok m'"
    using parts(2) run by (auto simp: m' runs_ok_def all_runs_def successively_append_iff
        handed_over_def hd_append)
  have "seals_ok m'" "map prn_run_id (all_runs m') = map prn_run_id (all_runs m)"
    using parts(1) prep run by (simp_all add: m' seals_ok_def all_runs_def)
  then show "seals_ok m' \<and> runs_ok m' \<and> threads_ok sha m' \<and> maps_ok m' \<and> touched_before t m'
      \<and> pm_updated_at_millis m' = t \<and> mission_le m m'"
    using parts runs prep by (simp add: m' mission_le_def map_le_by_refl)
qed

lemma run_continued_keeps [arm_keeps]:
  "keeps sha (run_continued source_id run_id provider mode path base declared recipe artifact)"
proof (rule keepsI)
  fix t m m'
  assume parts: "seals_ok m" "runs_ok m" "threads_ok sha m" "maps_ok m" "touched_before t m"
    "pm_updated_at_millis m \<le> t"
    and step: "run_continued source_id run_id provider mode path base declared recipe artifact t m
      = Inr m'"
  let ?new = "\<lparr>prn_run_id = run_id, prn_provider = provider, prn_mode = mode,
      prn_worktree_path = path, prn_base_revision = base, prn_execute_declared_checks = declared,
      prn_execute_project_recipe = recipe, prn_handoff_from_run_id = Some source_id,
      prn_handoff_artifact_sha256 = Some artifact, prn_provider_session_id = None\<rparr>"
  from step obtain run where run: "pm_run m = Some run" and status: "pm_status m \<noteq> Archived"
    and linked: "handed_over run ?new"
    and fresh: "\<forall>x \<in> set (all_runs m). prn_run_id x \<noteq> run_id"
    and m': "m' = m\<lparr>pm_run_history := pm_run_history m @ [run], pm_run := Some ?new,
        pm_evidence := bm_map_values (stale_evidence t) (pm_evidence m),
        pm_latest_evidence_pack := None, pm_ready_receipt := None, pm_archive_receipt := None,
        pm_status := Preparing, pm_updated_at_millis := t\<rparr>"
    by (auto simp: run_continued_def result_iffs handed_over_def all_runs_def list_ex_iff
        split: if_split_asm)
  have all: "all_runs m' = all_runs m @ [?new]" "all_runs m = pm_run_history m @ [run]"
    by (simp_all add: m' all_runs_def run)
  then have "runs_ok m'"
    using parts(2) fresh linked run
    by (auto simp: runs_ok_def m' successively_append_iff hd_append)
  moreover have "maps_ok m'" "touched_before t m'"
    using parts(4,5) by (auto simp: m' maps_ok_def touched_before_def stale_evidence_def)
  moreover have "seals_ok m'"
    by (simp add: m' seals_ok_def)
  ultimately show "seals_ok m' \<and> runs_ok m' \<and> threads_ok sha m' \<and> maps_ok m' \<and> touched_before t m'
      \<and> pm_updated_at_millis m' = t \<and> mission_le m m'"
    using parts status all by (simp add: m' mission_le_def map_le_by_refl)
qed

section \<open>Attention and responses\<close>

text \<open>An attention without a live response may be put into any state that does not await one.\<close>

lemma threads_put_attention:
  assumes "threads_ok sha m" and "\<not> awaiting (pat_state a)"
    and "\<And>d r. bm_get (pm_responses m) d = Some r \<Longrightarrow> rak_attention_id (pra_key r) = i
      \<Longrightarrow> \<not> is_live (pra_state r)"
  shows "threads_ok sha (m\<lparr>pm_attention := bm_insert i a (pm_attention m)\<rparr>)"
proof -
  have dead: "\<not> is_live st \<Longrightarrow> response_fits st s" for st s
    by (cases st) auto
  have "filed sha (m\<lparr>pm_attention := bm_insert i a (pm_attention m)\<rparr>)"
    using assms(1,3) dead unfolding threads_ok_def filed_def by (auto split: if_splits)
  moreover have "answered (m\<lparr>pm_attention := bm_insert i a (pm_attention m)\<rparr>)"
    using assms(1,2) unfolding threads_ok_def answered_def by (auto split: if_splits)
  moreover have "single_live (m\<lparr>pm_attention := bm_insert i a (pm_attention m)\<rparr>)"
    using assms(1) by (simp add: threads_ok_def single_live_def)
  ultimately show ?thesis by (simp add: threads_ok_def)
qed

lemma live_fits_awaiting: "is_live st \<Longrightarrow> response_fits st s \<Longrightarrow> awaiting s"
  by (cases st) auto

lemma no_live_response:
  assumes "threads_ok sha m" and "\<And>a. bm_get (pm_attention m) i = Some a \<Longrightarrow> \<not> awaiting (pat_state a)"
    and "bm_get (pm_responses m) d = Some r" and "rak_attention_id (pra_key r) = i"
  shows "\<not> is_live (pra_state r)"
proof
  assume "is_live (pra_state r)"
  moreover obtain a where "bm_get (pm_attention m) i = Some a" "response_fits (pra_state r) (pat_state a)"
    using assms(1,3,4) by (auto simp: threads_ok_def filed_def)
  ultimately show False
    using assms(2) live_fits_awaiting by blast
qed

lemma attention_changed_keeps [arm_keeps]: "keeps sha (attention_changed attention_id state risk)"
proof (rule keepsI)
  fix t m m'
  assume parts: "seals_ok m" "runs_ok m" "threads_ok sha m" "maps_ok m" "touched_before t m"
    "pm_updated_at_millis m \<le> t" and step: "attention_changed attention_id state risk t m = Inr m'"
  then obtain a where m': "m' = m\<lparr>pm_attention := bm_insert attention_id a (pm_attention m),
        pm_updated_at_millis := t\<rparr>"
    and a: "\<not> awaiting (pat_state a)" "pat_updated_at_millis a = t"
    and before: "\<And>b. bm_get (pm_attention m) attention_id = Some b \<Longrightarrow>
       pat_state b = PasOpen \<and> attention_le b a"
    by (auto simp: attention_changed_def attention_le_def split: option.split_asm if_split_asm)
  have quiet: "\<not> is_live (pra_state r)"
    if "bm_get (pm_responses m) d = Some r" "rak_attention_id (pra_key r) = attention_id" for d r
    using no_live_response [OF parts(3) _ that] before by fastforce
  have "threads_ok sha m'"
    using threads_put_attention [OF parts(3) a(1) quiet] by (simp add: m')
  moreover have "map_le_by attention_le (pm_attention m) (pm_attention m')"
    using before by (simp add: m' map_le_by_insert)
  ultimately show "seals_ok m' \<and> runs_ok m' \<and> threads_ok sha m' \<and> maps_ok m' \<and> touched_before t m'
      \<and> pm_updated_at_millis m' = t \<and> mission_le m m'"
    using parts a by (simp add: m' mission_le_def map_le_by_refl)
qed

text \<open>
  A response that is filed or changed together with its attention, when no other response to that
  attention is live.
\<close>

lemma threads_put_response:
  assumes "threads_ok sha m" and "response_fits (pra_state r) (pat_state a)"
    and "awaiting (pat_state a) \<longleftrightarrow> is_live (pra_state r)"
    and "\<And>d' r'. bm_get (pm_responses m) d' = Some r' \<Longrightarrow> d' \<noteq> key_digest sha (pra_key r) \<Longrightarrow>
       rak_attention_id (pra_key r') = rak_attention_id (pra_key r) \<Longrightarrow> \<not> is_live (pra_state r')"
    and "\<And>r'. bm_get (pm_responses m) (key_digest sha (pra_key r)) = Some r' \<Longrightarrow>
       rak_attention_id (pra_key r') = rak_attention_id (pra_key r)"
  shows "threads_ok sha (m\<lparr>pm_attention := bm_insert (rak_attention_id (pra_key r)) a (pm_attention m),
    pm_responses := bm_insert (key_digest sha (pra_key r)) r (pm_responses m)\<rparr>)" (is "threads_ok sha ?m")
proof -
  let ?k = "key_digest sha (pra_key r)"
  have dead: "\<not> is_live st \<Longrightarrow> response_fits st s" for st s
    by (cases st) auto
  have "filed sha ?m"
    using assms(1,2,4) dead unfolding threads_ok_def filed_def by (auto split: if_splits)
  moreover have "single_live ?m"
    unfolding single_live_def
  proof (intro allI impI)
    fix d s d' s'
    assume s: "bm_get (pm_responses ?m) d = Some s" "bm_get (pm_responses ?m) d' = Some s'"
      "is_live (pra_state s)" "is_live (pra_state s')"
      "rak_attention_id (pra_key s) = rak_attention_id (pra_key s')"
    show "d = d'"
    proof (cases "d = ?k \<or> d' = ?k")
      case True
      then show ?thesis using s assms(4) by (auto split: if_splits)
    next
      case False
      then have "bm_get (pm_responses m) d = Some s" "bm_get (pm_responses m) d' = Some s'"
        using s by simp_all
      moreover have "single_live m" using assms(1) by (simp add: threads_ok_def)
      ultimately show ?thesis using s(3-5) unfolding single_live_def by blast
    qed
  qed
  moreover have "answered ?m"
    unfolding answered_def
  proof (intro allI impI)
    fix i b
    assume b: "bm_get (pm_attention ?m) i = Some b" "awaiting (pat_state b)"
    show "\<exists>d s. bm_get (pm_responses ?m) d = Some s \<and> rak_attention_id (pra_key s) = i
        \<and> is_live (pra_state s)"
    proof (cases "i = rak_attention_id (pra_key r)")
      case True
      then show ?thesis using b assms(3) by (intro exI [of _ ?k] exI [of _ r]) auto
    next
      case False
      then have "bm_get (pm_attention m) i = Some b" using b by simp
      then obtain d s where "bm_get (pm_responses m) d = Some s" "rak_attention_id (pra_key s) = i"
        "is_live (pra_state s)"
        using b(2) assms(1) unfolding threads_ok_def answered_def by blast
      moreover then have "d \<noteq> ?k" using assms(5) False by auto
      ultimately show ?thesis by auto
    qed
  qed
  ultimately show ?thesis by (simp add: threads_ok_def)
qed

lemma response_requested_keeps [arm_keeps]:
  "keeps sha (response_requested sha key route decision actor_id)"
proof (rule keepsI)
  fix t m m'
  assume parts: "seals_ok m" "runs_ok m" "threads_ok sha m" "maps_ok m" "touched_before t m"
    "pm_updated_at_millis m \<le> t"
    and step: "response_requested sha key route decision actor_id t m = Inr m'"
  let ?r = "\<lparr>pra_key = key, pra_route = route, pra_decision = decision, pra_actor_id = actor_id,
      pra_state = PrsRequested, pra_updated_at_millis = t\<rparr>"
  from step obtain b where b: "bm_get (pm_attention m) (rak_attention_id key) = Some b"
      "pat_state b = PasOpen"
    and fresh: "bm_get (pm_responses m) (key_digest sha key) = None"
    and m': "m' = m\<lparr>pm_attention := bm_insert (rak_attention_id key)
          (b\<lparr>pat_state := PasPendingResponse, pat_updated_at_millis := t\<rparr>) (pm_attention m),
        pm_responses := bm_insert (key_digest sha key) ?r (pm_responses m),
        pm_updated_at_millis := t\<rparr>"
    by (auto simp: response_requested_def result_iffs split: if_split_asm)
  let ?b = "b\<lparr>pat_state := PasPendingResponse, pat_updated_at_millis := t\<rparr>"
  have quiet: "\<not> is_live (pra_state r')"
    if "bm_get (pm_responses m) d' = Some r'" "rak_attention_id (pra_key r') = rak_attention_id key"
    for d' r'
    using no_live_response [OF parts(3) _ that] b by simp
  have "threads_ok sha m'"
    using threads_put_response [OF parts(3), of ?r ?b] quiet fresh by (simp add: m')
  moreover have "map_le_by attention_le (pm_attention m) (pm_attention m')"
    "map_le_by response_le (pm_responses m) (pm_responses m')"
    using b fresh by (auto simp: m' attention_le_def intro!: map_le_by_insert)
  moreover have "maps_ok m'" "touched_before t m'"
    using parts(4,5) by (simp_all add: m' maps_ok_def touched_before_def)
  ultimately show "seals_ok m' \<and> runs_ok m' \<and> threads_ok sha m' \<and> maps_ok m' \<and> touched_before t m'
      \<and> pm_updated_at_millis m' = t \<and> mission_le m m'"
    using parts by (simp add: m' mission_le_def)
qed

lemma find_response_SomeD:
  "find_response sha key m = Inr r \<Longrightarrow>
     bm_get (pm_responses m) (key_digest sha key) = Some r \<and> pra_key r = key"
  by (auto simp: find_response_def split: option.split_asm if_split_asm)

lemma response_fits_attention:
  assumes "threads_ok sha m" and "bm_get (pm_responses m) d = Some r"
    and "bm_get (pm_attention m) (rak_attention_id (pra_key r)) = Some a"
  shows "response_fits (pra_state r) (pat_state a)"
proof -
  obtain a' where "bm_get (pm_attention m) (rak_attention_id (pra_key r)) = Some a'"
    "response_fits (pra_state r) (pat_state a')"
    using assms(1,2) unfolding threads_ok_def filed_def by blast
  then show ?thesis using assms(3) by simp
qed

lemma unsettled_live: "\<not> settled st \<Longrightarrow> is_live st"
  by (cases st) auto

text \<open>Settling an unsettled response into a state that fits the new state of its attention.\<close>

lemma settle_response_keeps:
  assumes parts: "seals_ok m" "runs_ok m" "threads_ok sha m" "maps_ok m" "touched_before t m"
      "pm_updated_at_millis m \<le> t"
    and found: "find_response sha key m = Inr r" and unsettled: "\<not> settled (pra_state r)"
    and fits: "response_fits rs as" "awaiting as \<longleftrightarrow> is_live rs"
    and step: "settle_response sha key r rs as t m = Inr m'"
  shows "seals_ok m' \<and> runs_ok m' \<and> threads_ok sha m' \<and> maps_ok m' \<and> touched_before t m'
      \<and> pm_updated_at_millis m' = t \<and> mission_le m m'"
proof -
  have r: "bm_get (pm_responses m) (key_digest sha key) = Some r" "pra_key r = key"
    using find_response_SomeD [OF found] by auto
  from step obtain b where b: "bm_get (pm_attention m) (rak_attention_id key) = Some b"
    and m': "m' = m\<lparr>pm_attention := bm_insert (rak_attention_id key)
          (b\<lparr>pat_state := as, pat_updated_at_millis := t\<rparr>) (pm_attention m),
        pm_responses := bm_insert (key_digest sha key)
          (r\<lparr>pra_state := rs, pra_updated_at_millis := t\<rparr>) (pm_responses m),
        pm_updated_at_millis := t\<rparr>"
    by (auto simp: settle_response_def result_iffs)
  let ?r = "r\<lparr>pra_state := rs, pra_updated_at_millis := t\<rparr>"
  let ?b = "b\<lparr>pat_state := as, pat_updated_at_millis := t\<rparr>"
  have live: "is_live (pra_state r)"
    using unsettled by (rule unsettled_live)
  have "single_live m" using parts(3) by (simp add: threads_ok_def)
  then have quiet: "\<not> is_live (pra_state r')"
    if "bm_get (pm_responses m) d' = Some r'" "d' \<noteq> key_digest sha key"
      "rak_attention_id (pra_key r') = rak_attention_id key" for d' r'
    using that r live unfolding single_live_def by metis
  have "threads_ok sha m'"
    using threads_put_response [OF parts(3), of ?r ?b] quiet r fits by (simp add: m')
  moreover have "response_fits (pra_state r) (pat_state b)"
    using response_fits_attention [OF parts(3) r(1)] b r(2) by simp
  then have "pat_state b \<notin> {PasResolved, PasExpired, PasDismissed}"
    using unsettled by (cases "pra_state r") auto
  then have "map_le_by attention_le (pm_attention m) (pm_attention m')"
    "map_le_by response_le (pm_responses m) (pm_responses m')"
    using b r unsettled
    by (auto simp: m' attention_le_def response_le_def intro!: map_le_by_insert)
  moreover have "maps_ok m'" "touched_before t m'"
    using parts(4,5) by (simp_all add: m' maps_ok_def touched_before_def)
  ultimately show ?thesis
    using parts by (simp add: m' mission_le_def)
qed

lemma response_acknowledged_keeps [arm_keeps]: "keeps sha (response_acknowledged sha key hash)"
proof (rule keepsI)
  fix t m m'
  assume parts: "seals_ok m" "runs_ok m" "threads_ok sha m" "maps_ok m" "touched_before t m"
    "pm_updated_at_millis m \<le> t" and step: "response_acknowledged sha key hash t m = Inr m'"
  have "may_acknowledge st \<Longrightarrow> \<not> settled st" for st by (cases st) auto
  then obtain r where r: "find_response sha key m = Inr r" "\<not> settled (pra_state r)"
    and settle: "settle_response sha key r (PrsAcknowledged hash) PasResolved t m = Inr m'"
    using step by (auto simp: response_acknowledged_def rbind_Inr_iff split: if_split_asm)
  then show "seals_ok m' \<and> runs_ok m' \<and> threads_ok sha m' \<and> maps_ok m' \<and> touched_before t m'
      \<and> pm_updated_at_millis m' = t \<and> mission_le m m'"
    using settle_response_keeps [OF parts r _ _ settle] by simp
qed

lemma response_failed_keeps [arm_keeps]: "keeps sha (response_failed sha key disposition code)"
proof (rule keepsI)
  fix t m m'
  assume parts: "seals_ok m" "runs_ok m" "threads_ok sha m" "maps_ok m" "touched_before t m"
    "pm_updated_at_millis m \<le> t" and step: "response_failed sha key disposition code t m = Inr m'"
  then obtain r rs as where r: "find_response sha key m = Inr r" "\<not> settled (pra_state r)"
    and states: "failure_states disposition code = (rs, as)"
    and settle: "settle_response sha key r rs as t m = Inr m'"
    by (auto simp: response_failed_def rbind_Inr_iff split: if_split_asm prod.split_asm)
  have "response_fits rs as" "awaiting as \<longleftrightarrow> is_live rs"
    using states by (cases disposition; auto)+
  then show "seals_ok m' \<and> runs_ok m' \<and> threads_ok sha m' \<and> maps_ok m' \<and> touched_before t m'
      \<and> pm_updated_at_millis m' = t \<and> mission_le m m'"
    using settle_response_keeps [OF parts r _ _ settle] by simp
qed

section \<open>The projection\<close>

definition projection_ok :: "sha256 \<Rightarrow> mission_projection \<Rightarrow> bool" where
  "projection_ok sha p \<longleftrightarrow> bm_ok (missions p)
     \<and> (\<forall>i m. bm_get (missions p) i = Some m \<longrightarrow> mission_ok sha m)"

definition projection_le :: "mission_projection \<Rightarrow> mission_projection \<Rightarrow> bool" where
  "projection_le p p' \<longleftrightarrow> map_le_by mission_le (missions p) (missions p')"

lemma projection_default_ok: "projection_ok sha projection_default"
  by (simp add: projection_ok_def projection_default_def)

lemma on_mission_keeps:
  assumes "keeps sha arm" and "projection_ok sha p" and "on_mission i at arm p = Inr p'"
  shows "projection_ok sha p' \<and> projection_le p p'"
proof -
  obtain m m' where m: "bm_get (missions p) i = Some m"
    and arm: "arm (max at (pm_updated_at_millis m)) m = Inr m'"
    and p': "p' = p\<lparr>missions := bm_insert i m' (missions p)\<rparr>"
    using assms(3) by (auto simp: on_mission_def mission_mut_def result_iffs)
  have "mission_ok sha m' \<and> mission_le m m'"
    using assms(1,2) m arm unfolding keeps_def projection_ok_def by (metis max.cobounded2)
  then show ?thesis
    using assms(2) m
    by (auto simp: p' projection_ok_def projection_le_def mission_le_refl intro!: map_le_by_insert)
qed

lemma mission_created_keeps:
  assumes "mission_ok sha m" and "projection_ok sha p" and "mission_created i m p = Inr p'"
  shows "projection_ok sha p' \<and> projection_le p p'"
  using assms
  by (auto simp: mission_created_def projection_ok_def projection_le_def mission_le_refl
      intro!: map_le_by_insert split: if_split_asm)

lemmas arm_steps = arm_keeps [THEN on_mission_keeps]

lemma projection_apply_keeps:
  assumes "projection_ok sha p" and "projection_apply sha ev p = Inr p'"
  shows "projection_ok sha p' \<and> projection_le p p'"
  using assms
  by (cases ev) (simp_all, (erule (1) arm_steps mission_created_keeps [OF new_mission_ok])+)

lemma projection_le_trans: "projection_le a b \<Longrightarrow> projection_le b c \<Longrightarrow> projection_le a c"
  unfolding projection_le_def by (erule map_le_by_trans, assumption) (rule mission_le_trans)

interpretation durable: monotone_machine "projection_apply sha" "projection_ok sha" projection_le
  for sha
proof unfold_locales
  show "projection_ok sha p'" if "projection_ok sha p" "projection_apply sha ev p = Inr p'" for ev p p'
    using projection_apply_keeps [OF that] by simp
  show "projection_le p p'" if "projection_ok sha p" "projection_apply sha ev p = Inr p'" for ev p p'
    using projection_apply_keeps [OF that] by simp
  show "projection_le p p" for p
    by (simp add: projection_le_def map_le_by_refl mission_le_refl)
  show "projection_le a b \<Longrightarrow> projection_le b c \<Longrightarrow> projection_le a c" for a b c
    by (rule projection_le_trans)
qed

end
