(* ===== verification/Journal_Props.thy ===== *)
theory Journal_Props
  imports Journal
begin

text \<open>
  What the journal guarantees: what was appended is what is replayed, a torn final write is cut off
  without losing an earlier frame, replay accepts nothing but a chain of appended frames, and
  the last hash fixes the whole file.
\<close>

section \<open>Journals as lists of entries\<close>

type_synonym entry = "u8 list \<times> state_hash"

definition entry_ok :: "entry \<Rightarrow> bool" where
  "entry_ok e \<longleftrightarrow> length (fst e) \<le> max_payload_bytes \<and> length (snd e) = 32"

fun chain_hash :: "sha256 \<Rightarrow> record_hash \<Rightarrow> entry list \<Rightarrow> record_hash" where
  "chain_hash sha h [] = h"
| "chain_hash sha h (e # es) = chain_hash sha (frame_hash sha h e) es"

fun journal_bytes :: "sha256 \<Rightarrow> record_hash \<Rightarrow> entry list \<Rightarrow> u8 list" where
  "journal_bytes sha h [] = []"
| "journal_bytes sha h (e # es) = frame_bytes sha h e @ journal_bytes sha (frame_hash sha h e) es"

fun journal_frames :: "sha256 \<Rightarrow> record_hash \<Rightarrow> nat \<Rightarrow> nat \<Rightarrow> entry list \<Rightarrow> verified_frame list" where
  "journal_frames sha h sequence position [] = []"
| "journal_frames sha h sequence position (e # es) =
     \<lparr>fr_payload = fst e, fr_hash = frame_hash sha h e, fr_previous_hash = h,
      fr_state_hash = snd e, fr_sequence = sequence + 1,
      fr_end_offset = position + length (frame_bytes sha h e)\<rparr>
     # journal_frames sha (frame_hash sha h e) (sequence + 1)
         (position + length (frame_bytes sha h e)) es"

lemma journal_bytes_snoc:
  "journal_bytes sha h (es @ [e]) = journal_bytes sha h es @ frame_bytes sha (chain_hash sha h es) e"
  by (induction es arbitrary: h) auto

lemma chain_hash_snoc: "chain_hash sha h (es @ [e]) = frame_hash sha (chain_hash sha h es) e"
  by (induction es arbitrary: h) auto

section \<open>Frame layout\<close>

lemma length_magic [simp]: "length frame_magic = 8"
  by (simp add: frame_magic_def)

lemma hash_lengths:
  assumes "hash32 sha"
  shows "length (hash_header sha p) = 32" "length (hash_record sha hdr pl) = 32"
    "length (frame_hash sha h e) = 32"
  using assms by (simp_all add: hash32_def hash_header_def hash_record_def frame_hash_def)

lemma length_frame_prefix:
  "length h = 32 \<Longrightarrow> length st = 32 \<Longrightarrow> length (frame_prefix n h st) = frame_prefix_len"
  by (simp add: frame_prefix_def frame_prefix_len_def)

lemma length_frame_header:
  "hash32 sha \<Longrightarrow> length h = 32 \<Longrightarrow> length st = 32 \<Longrightarrow>
     length (frame_header sha n h st) = frame_header_len"
  by (simp add: frame_header_def length_frame_prefix hash_lengths frame_header_len_def)

lemma length_frame_bytes:
  "hash32 sha \<Longrightarrow> length h = 32 \<Longrightarrow> entry_ok e \<Longrightarrow>
     length (frame_bytes sha h e) = frame_header_len + length (fst e) + record_hash_len"
  by (simp add: frame_bytes_def length_frame_header hash_lengths entry_ok_def record_hash_len_def)

lemma header_fields:
  assumes "length h = 32" and "length st = 32" and "n < 2 ^ 32"
  shows "take 8 (frame_header sha n h st) = frame_magic"
    and "from_be (take 2 (drop 8 (frame_header sha n h st))) = frame_version"
    and "header_payload_length (frame_header sha n h st) = n"
    and "take 32 (drop 14 (frame_header sha n h st)) = h"
    and "take 32 (drop 46 (frame_header sha n h st)) = st"
    and "take frame_prefix_len (frame_header sha n h st) = frame_prefix n h st"
    and "drop frame_prefix_len (frame_header sha n h st) = hash_header sha (frame_prefix n h st)"
proof -
  show "take 8 (frame_header sha n h st) = frame_magic"
    by (simp add: frame_header_def frame_prefix_def)
  show "from_be (take 2 (drop 8 (frame_header sha n h st))) = frame_version"
    using from_be_be_bytes [of frame_version 2]
    by (simp add: frame_header_def frame_prefix_def frame_version_def)
  show "header_payload_length (frame_header sha n h st) = n"
    using from_be_be_bytes [of n 4] assms(3)
    by (simp add: frame_header_def frame_prefix_def header_payload_length_def)
  show "take 32 (drop 14 (frame_header sha n h st)) = h"
    using assms by (simp add: frame_header_def frame_prefix_def)
  show "take 32 (drop 46 (frame_header sha n h st)) = st"
    using assms by (simp add: frame_header_def frame_prefix_def)
  show "take frame_prefix_len (frame_header sha n h st) = frame_prefix n h st"
    "drop frame_prefix_len (frame_header sha n h st) = hash_header sha (frame_prefix n h st)"
    using length_frame_prefix [OF assms(1,2)] by (simp_all add: frame_header_def)
qed

lemma payload_fits: "entry_ok e \<Longrightarrow> length (fst e) < 2 ^ 32"
  by (simp add: entry_ok_def max_payload_bytes_def)

lemma header_error_frame:
  assumes "length h = 32" and "entry_ok e"
  shows "header_error sha off (frame_header sha (length (fst e)) h (snd e)) = None"
proof -
  have st: "length (snd e) = 32" and small: "length (fst e) \<le> max_payload_bytes"
    using assms(2) by (simp_all add: entry_ok_def)
  show ?thesis
    using header_fields [OF assms(1) st payload_fits [OF assms(2)]] small
    by (simp add: header_error_def)
qed

lemma read_frame_bytes:
  assumes "hash32 sha" and "length h = 32" and "entry_ok e"
  shows "read_frame sha off (frame_bytes sha h e @ rest) =
    Complete \<lparr>rw_payload = fst e, rw_previous_hash = h, rw_state_hash = snd e,
      rw_hash = frame_hash sha h e, rw_size = length (frame_bytes sha h e)\<rparr>"
proof -
  let ?h = "frame_header sha (length (fst e)) h (snd e)"
  have st: "length (snd e) = 32" using assms(3) by (simp add: entry_ok_def)
  have len: "length ?h = frame_header_len"
    using length_frame_header [OF assms(1,2) st] .
  have parts: "take frame_header_len (frame_bytes sha h e @ rest) = ?h"
    "drop frame_header_len (frame_bytes sha h e @ rest) = fst e @ frame_hash sha h e @ rest"
    by (simp_all add: frame_bytes_def flip: len)
  have body: "read_body sha off ?h (fst e @ frame_hash sha h e @ rest)
     = Complete \<lparr>rw_payload = fst e, rw_previous_hash = h, rw_state_hash = snd e,
      rw_hash = frame_hash sha h e, rw_size = length (frame_bytes sha h e)\<rparr>"
    using header_fields [OF assms(2) st payload_fits [OF assms(3)], of sha] hash_lengths [OF assms(1)]
    by (simp add: read_body_def Let_def record_hash_len_def frame_hash_def
        length_frame_bytes [OF assms, unfolded record_hash_len_def])
  have "?h \<noteq> []"
    using len by (auto simp: journal_consts)
  then show ?thesis
    using header_error_frame [OF assms(2,3), of sha off] len
    by (simp add: read_frame_def Let_def parts body del: take_append drop_append append_assoc)
qed

lemma read_body_short:
  assumes "length body < header_payload_length header + record_hash_len"
  shows "read_body sha off header body = Partial"
proof (cases "length body < header_payload_length header")
  case True
  then show ?thesis by (simp add: read_body_def Let_def)
next
  case False
  then have "length (take record_hash_len (drop (header_payload_length header) body)) < record_hash_len"
    using assms by simp
  then show ?thesis
    unfolding read_body_def Let_def by (simp only: if_True) (simp only: if_cancel)
qed

text \<open>A frame cut short is recognised as incomplete at every length.\<close>

lemma read_frame_cut:
  assumes "hash32 sha" and "length h = 32" and "entry_ok e"
    and "0 < k" and "k < length (frame_bytes sha h e)"
  shows "read_frame sha off (take k (frame_bytes sha h e)) = Partial"
proof -
  let ?h = "frame_header sha (length (fst e)) h (snd e)"
  let ?cut = "take k (frame_bytes sha h e)"
  have st: "length (snd e) = 32" using assms(3) by (simp add: entry_ok_def)
  have len: "length ?h = frame_header_len"
    using length_frame_header [OF assms(1,2) st] .
  have fields: "take 8 ?h = frame_magic" "header_payload_length ?h = length (fst e)"
    using header_fields [OF assms(2) st payload_fits [OF assms(3)], of sha] by simp_all
  show ?thesis
  proof (cases "k < frame_header_len")
    case True
    have cut: "take frame_header_len ?cut = take k ?h"
      using True by (simp add: frame_bytes_def min_def len)
    have "take (min k 8) frame_magic = take (min k 8) ?h"
      unfolding fields(1) [symmetric] by (simp add: min.assoc)
    then have "take (length (take 8 (take k ?h))) frame_magic = take 8 (take k ?h)"
      using True len fields(1) by (cases "k \<le> 8") (simp_all add: min_def journal_consts)
    moreover have "take k ?h \<noteq> []"
      using assms(4) True len by (auto simp: journal_consts)
    ultimately show ?thesis
      unfolding read_frame_def Let_def cut using True len by simp
  next
    case False
    have cut: "take frame_header_len ?cut = ?h"
      "drop frame_header_len ?cut = take (k - frame_header_len) (fst e @ frame_hash sha h e)"
      using False by (simp_all add: frame_bytes_def min_def len drop_take)
    have short: "k - frame_header_len < length (fst e) + record_hash_len"
      using assms(5) False length_frame_bytes [OF assms(1-3)] by simp
    have "read_body sha off ?h (take (k - frame_header_len) (fst e @ frame_hash sha h e)) = Partial"
      using short hash_lengths(3) [OF assms(1), of h e] fields(2)
      by (intro read_body_short) (simp add: record_hash_len_def)
    moreover have "?h \<noteq> []"
      using len by (auto simp: journal_consts)
    ultimately show ?thesis
      unfolding read_frame_def Let_def cut using header_error_frame [OF assms(2,3), of sha off] len
      by simp
  qed
qed

section \<open>Replaying appended frames\<close>

lemma replay_loop_frames:
  assumes "hash32 sha" and "length h = 32" and "list_all entry_ok es"
    and "sequence + length es \<le> max_frames limits" and "max_frames limits < 2 ^ 64"
    and "frame_count \<le> sequence"
    and "drop position file = journal_bytes sha h es @ rest"
    and "position \<le> length file"
  shows "replay_loop sha mode limits visitor file position frame_count sequence h v =
    (case run_all visitor (journal_frames sha h sequence position es) v of
       Inl e \<Rightarrow> (file, Inl (ReplayVisitor e))
     | Inr v' \<Rightarrow> replay_loop sha mode limits visitor file (position + length (journal_bytes sha h es))
                  (frame_count + length es) (sequence + length es) (chain_hash sha h es) v')"
  using assms(2-)
proof (induction es arbitrary: h position frame_count sequence v)
  case Nil
  then show ?case by simp
next
  case (Cons e es)
  let ?raw = "\<lparr>rw_payload = fst e, rw_previous_hash = h, rw_state_hash = snd e,
      rw_hash = frame_hash sha h e, rw_size = length (frame_bytes sha h e)\<rparr>"
  let ?fr = "\<lparr>fr_payload = fst e, fr_hash = frame_hash sha h e, fr_previous_hash = h,
      fr_state_hash = snd e, fr_sequence = sequence + 1,
      fr_end_offset = position + length (frame_bytes sha h e)\<rparr>"
  have ok: "entry_ok e" "list_all entry_ok es" using Cons.prems(2) by simp_all
  have bytes: "drop position file = frame_bytes sha h e @ journal_bytes sha (frame_hash sha h e) es @ rest"
    using Cons.prems(6) by simp
  have read: "read_frame sha position (drop position file) = Complete ?raw"
    unfolding bytes by (rule read_frame_bytes [OF assms(1) Cons.prems(1) ok(1)])
  have accepted: "accept_frame limits position frame_count sequence h ?raw = Inr ?fr"
    using Cons.prems(3,4,5) by (simp add: accept_frame_def)
  have rest: "drop (position + length (frame_bytes sha h e)) file
      = journal_bytes sha (frame_hash sha h e) es @ rest"
    using bytes by (simp add: drop_drop [symmetric] add.commute [of position] del: drop_drop)
  have fits: "position + length (frame_bytes sha h e) \<le> length file"
    using bytes Cons.prems(7) by (metis drop_eq_Nil2 le_add_diff_inverse length_append length_drop
        le_add1 nat_add_left_cancel_le)
  have step: "replay_loop sha mode limits visitor file position frame_count sequence h v =
      (case visitor ?fr v of
         Inl e \<Rightarrow> (file, Inl (ReplayVisitor e))
       | Inr v' \<Rightarrow> replay_loop sha mode limits visitor file
            (position + length (frame_bytes sha h e)) (frame_count + 1) (sequence + 1)
            (frame_hash sha h e) v')"
    by (subst replay_loop.simps) (simp add: read accepted split: sum.split)
  show ?case
  proof (cases "visitor ?fr v")
    case (Inl err)
    then show ?thesis by (simp add: step)
  next
    case (Inr v')
    let ?pos = "position + length (frame_bytes sha h e)"
    have ih: "replay_loop sha mode limits visitor file ?pos (frame_count + 1) (sequence + 1)
        (frame_hash sha h e) v' =
      (case run_all visitor (journal_frames sha (frame_hash sha h e) (sequence + 1) ?pos es) v' of
         Inl e \<Rightarrow> (file, Inl (ReplayVisitor e))
       | Inr v'' \<Rightarrow> replay_loop sha mode limits visitor file
            (?pos + length (journal_bytes sha (frame_hash sha h e) es)) (frame_count + 1 + length es)
            (sequence + 1 + length es) (chain_hash sha (frame_hash sha h e) es) v'')"
      using ok rest fits Cons.prems(3-5) hash_lengths(3) [OF assms(1)] by (intro Cons.IH) simp_all
    have runs: "run_all visitor (journal_frames sha h sequence position (e # es)) v
        = run_all visitor (journal_frames sha (frame_hash sha h e) (sequence + 1) ?pos es) v'"
      unfolding journal_frames.simps run_all.simps Inr by simp
    show ?thesis
      unfolding step Inr runs sum.case ih by (simp add: add.assoc split: sum.split)
  qed
qed

section \<open>Appending\<close>

fun append_all ::
  "sha256 \<Rightarrow> entry list \<Rightarrow> u8 list \<Rightarrow> record_hash \<Rightarrow> journal_error + u8 list \<times> record_hash" where
  "append_all sha [] file h = Inr (file, h)"
| "append_all sha (e # es) file h =
     (case journal_append sha None (fst e) h (snd e) file of
        (file', Inl err) \<Rightarrow> Inl err
      | (file', Inr h') \<Rightarrow> append_all sha es file' h')"

lemma journal_append_ok:
  assumes "journal_append sha None p h st file = (file', Inr h')"
  shows "length p \<le> max_payload_bytes \<and> file' = file @ frame_bytes sha h (p, st)
    \<and> h' = frame_hash sha h (p, st)
    \<and> length file + frame_header_len + length p + record_hash_len \<le> max_journal_bytes"
  using assms by (auto simp: journal_append_def Let_def split: if_splits)

lemma append_all_bytes:
  assumes "hash32 sha" and "length h = 32" and "list_all (\<lambda>e. length (snd e) = 32) es"
    and "append_all sha es bs h = Inr (bs', h')" and "length bs \<le> max_journal_bytes"
  shows "list_all entry_ok es \<and> bs' = bs @ journal_bytes sha h es
    \<and> h' = chain_hash sha h es \<and> length bs' \<le> max_journal_bytes"
  using assms(2-)
proof (induction es arbitrary: bs h)
  case Nil
  then show ?case by simp
next
  case (Cons e es)
  obtain bs1 h1 where app: "journal_append sha None (fst e) h (snd e) bs = (bs1, Inr h1)"
    and rest: "append_all sha es bs1 h1 = Inr (bs', h')"
    using Cons.prems(3) by (auto split: prod.splits sum.splits)
  note new = journal_append_ok [OF app]
  have ok: "entry_ok e"
    using new Cons.prems(2) by (simp add: entry_ok_def)
  have len: "length bs1 \<le> max_journal_bytes"
    using new length_frame_bytes [OF assms(1) Cons.prems(1) ok] by simp
  have "length h1 = 32"
    using new hash_lengths(3) [OF assms(1)] by simp
  then show ?case
    using Cons.IH [OF _ _ rest len] Cons.prems(2) new ok by auto
qed

lemma replay_at_end:
  "replay_loop sha mode limits visitor file (length file) fc sq h v = (file, Inr (v, fc, sq, h))"
  by (subst replay_loop.simps) (simp add: read_frame_def)

lemma length_hash_zero: "length hash_zero = 32"
  by (simp add: hash_zero_def)

definition replay_outcome ::
  "sha256 \<Rightarrow> (verified_frame \<Rightarrow> 'v \<Rightarrow> 'e + 'v) \<Rightarrow> 'v \<Rightarrow> entry list
     \<Rightarrow> 'e replay_error + 'v \<times> replay_summary" where
  "replay_outcome sha visitor v es =
     (case run_all visitor (journal_frames sha hash_zero 0 0 es) v of
        Inl e \<Rightarrow> Inl (ReplayVisitor e)
      | Inr v' \<Rightarrow> Inr (v', \<lparr>sm_frame_count = length es, sm_final_sequence = length es,
           sm_bytes_consumed = length (journal_bytes sha hash_zero es),
           sm_last_hash = chain_hash sha hash_zero es\<rparr>))"

lemmas replay_defs = replay_with_def replay_with_limits_def replay_range_def checkpoint_zero_def
  production_limits_def

lemma replay_journal:
  assumes "hash32 sha" and "list_all entry_ok es" and "length es \<le> max_journal_frames"
    and "length (journal_bytes sha hash_zero es) \<le> max_journal_bytes"
  shows "replay_with sha mode visitor v (journal_bytes sha hash_zero es)
    = (journal_bytes sha hash_zero es, replay_outcome sha visitor v es)"
proof -
  let ?file = "journal_bytes sha hash_zero es"
  have "replay_loop sha mode production_limits visitor ?file 0 0 0 hash_zero v =
    (case run_all visitor (journal_frames sha hash_zero 0 0 es) v of
       Inl e \<Rightarrow> (?file, Inl (ReplayVisitor e))
     | Inr v' \<Rightarrow> (?file, Inr (v', length es, length es, chain_hash sha hash_zero es)))"
    using replay_loop_frames [OF assms(1) length_hash_zero assms(2), of 0 production_limits 0 0 ?file
        "[]" mode visitor v] assms(3)
    by (simp add: production_limits_def max_journal_frames_def replay_at_end cong: sum.case_cong)
  then show ?thesis
    using assms(4) by (simp add: replay_defs replay_outcome_def split: sum.split)
qed

text \<open>
  C11: what was appended is what is replayed: after any sequence of successful appends to an empty
  journal, within the frame limit, replay hands the visitor exactly the appended payloads and
  state hashes, in order, numbered from one and chained, and leaves the file alone.
\<close>

theorem append_replay_roundtrip:
  assumes "hash32 sha" and "list_all (\<lambda>e. length (snd e) = 32) es"
    and "length es \<le> max_journal_frames"
    and "append_all sha es [] hash_zero = Inr (file, h)"
  shows "replay_with sha mode visitor v file = (file, replay_outcome sha visitor v es)
    \<and> h = chain_hash sha hash_zero es"
proof -
  have "list_all entry_ok es" "file = journal_bytes sha hash_zero es"
    "h = chain_hash sha hash_zero es" "length file \<le> max_journal_bytes"
    using append_all_bytes [OF assms(1) length_hash_zero assms(2,4)] by auto
  then show ?thesis
    using replay_journal [OF assms(1) _ assms(3), of mode visitor v] by blast
qed

text \<open>A concrete hash for the witnesses: 32 bytes, with a checksum of the input in the first.\<close>

definition toy_hash :: sha256 where
  "toy_hash bs = sum_list bs # replicate 31 1"

lemma toy_hash32: "hash32 toy_hash"
  by (simp add: hash32_def toy_hash_def)

definition sample_entries :: "entry list" where
  "sample_entries = [([1, 2, 3], replicate 32 7), ([4], replicate 32 8)]"

lemma sample_entries_states: "list_all (\<lambda>e. length (snd e) = 32) sample_entries"
  by (simp add: sample_entries_def)

lemma journal_append_small:
  assumes "hash32 sha" and "length h = 32" and "entry_ok e"
    and "length bs + length (frame_bytes sha h e) \<le> max_journal_bytes"
  shows "journal_append sha None (fst e) h (snd e) bs
    = (bs @ frame_bytes sha h e, Inr (frame_hash sha h e))"
proof -
  have "length bs + frame_header_len + length (fst e) + record_hash_len \<le> max_journal_bytes"
    using assms(4) length_frame_bytes [OF assms(1-3)] by simp
  moreover have "max_journal_bytes < 2 ^ 64"
    by (simp add: max_journal_bytes_def)
  ultimately show ?thesis
    using payload_fits [OF assms(3)] assms(3) by (simp add: journal_append_def entry_ok_def Let_def)
qed

lemma sample_append:
  "append_all toy_hash sample_entries [] hash_zero
     = Inr (journal_bytes toy_hash hash_zero sample_entries,
            chain_hash toy_hash hash_zero sample_entries)"
proof -
  let ?e = "([1, 2, 3], replicate 32 7) :: entry"
  let ?f = "([4], replicate 32 8) :: entry"
  let ?h = "frame_hash toy_hash hash_zero ?e"
  have ok: "entry_ok ?e" "entry_ok ?f"
    by (simp_all add: entry_ok_def max_payload_bytes_def)
  have h: "length ?h = 32"
    using hash_lengths(3) [OF toy_hash32] .
  have lens: "length (frame_bytes toy_hash hash_zero ?e) = 145"
    "length (frame_bytes toy_hash ?h ?f) = 143"
    using length_frame_bytes [OF toy_hash32 length_hash_zero ok(1)]
      length_frame_bytes [OF toy_hash32 h ok(2)]
    by (simp_all add: journal_consts)
  show ?thesis
    using journal_append_small [OF toy_hash32 length_hash_zero ok(1), of "[]"]
      journal_append_small [OF toy_hash32 h ok(2), of "frame_bytes toy_hash hash_zero ?e"] lens
    by (simp add: sample_entries_def max_journal_bytes_def)
qed

definition collect_payload :: "verified_frame \<Rightarrow> u8 list list \<Rightarrow> unit + u8 list list" where
  "collect_payload fr v = Inr (v @ [fr_payload fr])"

theorem append_replay_roundtrip_witness:
  "\<exists>s. replay_with toy_hash Inspect collect_payload []
        (journal_bytes toy_hash hash_zero sample_entries)
      = (journal_bytes toy_hash hash_zero sample_entries, Inr ([[1, 2, 3], [4]], s))
    \<and> sm_frame_count s = 2"
proof -
  have "length sample_entries \<le> max_journal_frames"
    by (simp add: sample_entries_def max_journal_frames_def)
  then show ?thesis
    using append_replay_roundtrip [OF toy_hash32 sample_entries_states _ sample_append,
        of Inspect collect_payload "[]"]
    by (simp add: replay_outcome_def sample_entries_def collect_payload_def)
qed

lemma length_chain_hash:
  "hash32 sha \<Longrightarrow> length h = 32 \<Longrightarrow> length (chain_hash sha h es) = 32"
  by (induction es arbitrary: h) (auto simp: hash_lengths)

lemma replay_torn:
  assumes "hash32 sha" and "list_all entry_ok es" and "length es \<le> max_journal_frames"
    and "entry_ok e" and "0 < k" and "k < length (frame_bytes sha (chain_hash sha hash_zero es) e)"
    and "length (journal_bytes sha hash_zero es) + k \<le> max_journal_bytes"
  shows "replay_with sha mode visitor v (journal_bytes sha hash_zero es
      @ take k (frame_bytes sha (chain_hash sha hash_zero es) e)) =
    (case replay_outcome sha visitor v es of
       Inl err \<Rightarrow> (journal_bytes sha hash_zero es
          @ take k (frame_bytes sha (chain_hash sha hash_zero es) e), Inl err)
     | Inr r \<Rightarrow>
         (case mode of
            Inspect \<Rightarrow> (journal_bytes sha hash_zero es
              @ take k (frame_bytes sha (chain_hash sha hash_zero es) e),
              Inl (ReplayJournal (PartialTail (length (journal_bytes sha hash_zero es)))))
          | RepairFinalPartial \<Rightarrow> (journal_bytes sha hash_zero es, Inr r)))"
proof -
  let ?j = "journal_bytes sha hash_zero es"
  let ?h = "chain_hash sha hash_zero es"
  let ?file = "?j @ take k (frame_bytes sha ?h e)"
  have cut: "read_frame sha (length ?j) (take k (frame_bytes sha ?h e)) = Partial"
    using read_frame_cut [OF assms(1) length_chain_hash [OF assms(1) length_hash_zero] assms(4-6)] .
  have last: "replay_loop sha mode production_limits visitor ?file (length ?j) fc sq ?h v' =
    (case mode of
       Inspect \<Rightarrow> (?file, Inl (ReplayJournal (PartialTail (length ?j))))
     | RepairFinalPartial \<Rightarrow> (?j, Inr (v', fc, sq, ?h)))" for fc sq v'
    by (subst replay_loop.simps) (simp add: cut split: replay_mode.split)
  have loop: "replay_loop sha mode production_limits visitor ?file 0 0 0 hash_zero v =
    (case run_all visitor (journal_frames sha hash_zero 0 0 es) v of
       Inl e \<Rightarrow> (?file, Inl (ReplayVisitor e))
     | Inr v' \<Rightarrow> (case mode of
         Inspect \<Rightarrow> (?file, Inl (ReplayJournal (PartialTail (length ?j))))
       | RepairFinalPartial \<Rightarrow> (?j, Inr (v', length es, length es, ?h))))"
    using replay_loop_frames [OF assms(1) length_hash_zero assms(2), of 0 production_limits 0 0 ?file
        "take k (frame_bytes sha ?h e)" mode visitor v] assms(3)
    by (simp add: production_limits_def max_journal_frames_def
        last [unfolded production_limits_def max_journal_frames_def] cong: sum.case_cong)
  have "length ?file \<le> max_journal_bytes"
    using assms(6,7) by simp
  then show ?thesis
    using loop by (simp add: replay_defs replay_outcome_def split: sum.split replay_mode.split)
qed

text \<open>
  C12: a torn append loses nothing: when the write of one more frame stops after some of its bytes,
  replaying with repair cuts the file back to the frames before it and gives exactly what
  replaying those gives, while plain inspection reports the offset of the partial tail.
\<close>

theorem torn_append_is_repaired:
  assumes "hash32 sha" and "list_all (\<lambda>e. length (snd e) = 32) es"
    and "length es \<le> max_journal_frames"
    and "append_all sha es [] hash_zero = Inr (file, h)"
    and "journal_append sha (Some k) p h st file = (file', Inl JournalIo)"
    and "length st = 32" and "0 < k" and "k < length (frame_bytes sha h (p, st))"
    and "run_all visitor (journal_frames sha hash_zero 0 0 es) v = Inr v'"
  shows "replay_with sha RepairFinalPartial visitor v file'
        = replay_with sha RepairFinalPartial visitor v file
    \<and> replay_with sha Inspect visitor v file'
        = (file', Inl (ReplayJournal (PartialTail (length file))))"
proof -
  have es: "list_all entry_ok es" and fl: "file = journal_bytes sha hash_zero es"
    and h: "h = chain_hash sha hash_zero es" and small: "length file \<le> max_journal_bytes"
    using append_all_bytes [OF assms(1) length_hash_zero assms(2,4)] by auto
  have p: "length p \<le> max_payload_bytes" and file': "file' = file @ take k (frame_bytes sha h (p, st))"
    and room: "length file + frame_header_len + length p + record_hash_len \<le> max_journal_bytes"
    using assms(5) by (auto simp: journal_append_def Let_def split: if_splits)
  have e: "entry_ok (p, st)"
    using p assms(6) by (simp add: entry_ok_def)
  have "length h = 32"
    using length_chain_hash [OF assms(1) length_hash_zero] h by simp
  then have fits: "length (journal_bytes sha hash_zero es) + k \<le> max_journal_bytes"
    using room assms(8) length_frame_bytes [OF assms(1) _ e, of h] by (simp add: fl)
  have outcome: "\<exists>r. replay_outcome sha visitor v es = Inr r"
    using assms(9) by (simp add: replay_outcome_def)
  note torn = replay_torn [OF assms(1) es assms(3) e assms(7) assms(8) [unfolded h] fits]
  show ?thesis
    using torn [of RepairFinalPartial visitor v] torn [of Inspect visitor v] outcome
      replay_journal [OF assms(1) es assms(3) small [unfolded fl], of RepairFinalPartial visitor v]
    by (auto simp: file' fl h)
qed

lemma sample_torn:
  "journal_append toy_hash (Some 9) [5] (chain_hash toy_hash hash_zero sample_entries)
     (replicate 32 9) (journal_bytes toy_hash hash_zero sample_entries)
   = (journal_bytes toy_hash hash_zero sample_entries
       @ take 9 (frame_bytes toy_hash (chain_hash toy_hash hash_zero sample_entries)
           ([5], replicate 32 9)), Inl JournalIo)"
proof -
  let ?e = "([1, 2, 3], replicate 32 7) :: entry"
  let ?f = "([4], replicate 32 8) :: entry"
  have ok: "entry_ok ?e" "entry_ok ?f"
    by (simp_all add: entry_ok_def max_payload_bytes_def)
  have "length (journal_bytes toy_hash hash_zero sample_entries) = 288"
    using length_frame_bytes [OF toy_hash32 length_hash_zero ok(1)]
      length_frame_bytes [OF toy_hash32 hash_lengths(3) [OF toy_hash32] ok(2)]
    by (simp add: sample_entries_def journal_consts)
  then show ?thesis
    by (simp add: journal_append_def journal_consts)
qed

theorem torn_append_is_repaired_witness:
  "let j = journal_bytes toy_hash hash_zero sample_entries;
       torn = j @ take 9 (frame_bytes toy_hash (chain_hash toy_hash hash_zero sample_entries)
           ([5], replicate 32 9))
   in replay_with toy_hash RepairFinalPartial collect_payload [] torn
        = replay_with toy_hash RepairFinalPartial collect_payload [] j
      \<and> fst (replay_with toy_hash Inspect collect_payload [] torn) = torn"
proof -
  have "length (chain_hash toy_hash hash_zero sample_entries) = 32"
    using length_chain_hash [OF toy_hash32 length_hash_zero] .
  moreover have "entry_ok ([5], replicate 32 9)"
    by (simp add: entry_ok_def max_payload_bytes_def)
  ultimately have "length (frame_bytes toy_hash (chain_hash toy_hash hash_zero sample_entries)
      ([5], replicate 32 9)) = 143"
    using length_frame_bytes [OF toy_hash32] by (simp add: journal_consts)
  then have k: "9 < length (frame_bytes toy_hash (chain_hash toy_hash hash_zero sample_entries)
      ([5], replicate 32 9))" by simp
  have frames: "length sample_entries \<le> max_journal_frames"
    by (simp add: sample_entries_def max_journal_frames_def)
  have runs: "run_all collect_payload (journal_frames toy_hash hash_zero 0 0 sample_entries) []
      = Inr [[1, 2, 3], [4]]"
    by (simp add: sample_entries_def collect_payload_def)
  show ?thesis
    using torn_append_is_repaired [OF toy_hash32 sample_entries_states frames sample_append
        sample_torn _ _ k runs] by (simp add: Let_def)
qed

section \<open>Replay accepts nothing else\<close>

lemma header_error_None:
  assumes "header_error sha off hdr = None" and "length hdr = frame_header_len"
  shows "hdr = frame_header sha (header_payload_length hdr) (take 32 (drop 14 hdr)) (take 32 (drop 46 hdr))
    \<and> header_payload_length hdr \<le> max_payload_bytes"
proof -
  have magic: "take 8 hdr = frame_magic"
    and version: "from_be (take 2 (drop 8 hdr)) = frame_version"
    and size: "header_payload_length hdr \<le> max_payload_bytes"
    and hash: "drop frame_prefix_len hdr = hash_header sha (take frame_prefix_len hdr)"
    using assms(1) by (simp_all add: header_error_def split: if_split_asm)
  have len: "length hdr = 110" using assms(2) by (simp add: journal_consts)
  have "be_bytes 2 frame_version = take 2 (drop 8 hdr)"
    using be_bytes_from_be [of "take 2 (drop 8 hdr)"] version len by simp
  moreover have "be_bytes 4 (header_payload_length hdr) = take 4 (drop 10 hdr)"
    using be_bytes_from_be [of "take 4 (drop 10 hdr)"] len by (simp add: header_payload_length_def)
  moreover have "take 8 hdr @ take 2 (drop 8 hdr) @ take 4 (drop 10 hdr) @ take 32 (drop 14 hdr)
      @ take 32 (drop 46 hdr) = take 78 hdr"
    by (simp add: take_add [of 8 70, simplified] take_add [of 2 68, simplified]
        take_add [of 4 64, simplified] take_add [of 32 32, simplified])
  ultimately have "take frame_prefix_len hdr = frame_prefix (header_payload_length hdr)
      (take 32 (drop 14 hdr)) (take 32 (drop 46 hdr))"
    using magic by (simp add: frame_prefix_def frame_prefix_len_def)
  then show ?thesis
    using hash size append_take_drop_id [of frame_prefix_len hdr] by (simp add: frame_header_def)
qed

lemma read_frame_sound:
  assumes "hash32 sha" and "read_frame sha off rest = Complete raw"
  shows "\<exists>rest'. rest = frame_bytes sha (rw_previous_hash raw) (rw_payload raw, rw_state_hash raw) @ rest'
    \<and> rw_hash raw = frame_hash sha (rw_previous_hash raw) (rw_payload raw, rw_state_hash raw)
    \<and> rw_size raw = length (frame_bytes sha (rw_previous_hash raw) (rw_payload raw, rw_state_hash raw))
    \<and> entry_ok (rw_payload raw, rw_state_hash raw) \<and> length (rw_previous_hash raw) = 32"
proof -
  let ?hdr = "take frame_header_len rest"
  let ?body = "drop frame_header_len rest"
  note complete = read_frame_Complete [OF assms(2)]
  note body = read_body_Complete [OF complete(3)]
  have len: "length ?hdr = frame_header_len" using complete(1) by simp
  have hdr: "?hdr = frame_header sha (header_payload_length ?hdr) (rw_previous_hash raw) (rw_state_hash raw)"
    and size: "header_payload_length ?hdr \<le> max_payload_bytes"
    using header_error_None [OF complete(2) len] body(2,3) by simp_all
  have payload: "length (rw_payload raw) = header_payload_length ?hdr"
    using body(1,6) by simp
  have h: "length (rw_previous_hash raw) = 32" "length (rw_state_hash raw) = 32"
    using body(2,3) len by (simp_all add: journal_consts)
  have entry: "entry_ok (rw_payload raw, rw_state_hash raw)"
    using payload size h(2) by (simp add: entry_ok_def)
  have hash: "rw_hash raw = frame_hash sha (rw_previous_hash raw) (rw_payload raw, rw_state_hash raw)"
    using body(4) hdr payload by (simp add: frame_hash_def)
  have "rest = ?hdr @ take (header_payload_length ?hdr) ?body
      @ take record_hash_len (drop (header_payload_length ?hdr) ?body)
      @ drop record_hash_len (drop (header_payload_length ?hdr) ?body)"
    by (metis append_take_drop_id)
  then have "rest = frame_bytes sha (rw_previous_hash raw) (rw_payload raw, rw_state_hash raw)
      @ drop record_hash_len (drop (header_payload_length ?hdr) ?body)"
    using hdr payload body(1,7) hash unfolding frame_bytes_def by (metis append_assoc fst_conv snd_conv)
  moreover have "rw_size raw
      = length (frame_bytes sha (rw_previous_hash raw) (rw_payload raw, rw_state_hash raw))"
    using length_frame_bytes [OF assms(1) h(1) entry] body(5) payload by simp
  ultimately show ?thesis
    using hash entry h(1) by blast
qed

lemma accept_frame_ok:
  "accept_frame limits pos fc sq h raw = Inr fr \<Longrightarrow> rw_previous_hash raw = h
     \<and> fr = \<lparr>fr_payload = rw_payload raw, fr_hash = rw_hash raw, fr_previous_hash = h,
         fr_state_hash = rw_state_hash raw, fr_sequence = sq + 1,
         fr_end_offset = pos + rw_size raw\<rparr>"
  by (simp add: accept_frame_def split: if_split_asm)

lemma replay_loop_sound:
  assumes "hash32 sha"
    and "replay_loop sha Inspect limits visitor file pos fc sq h v = (file', Inr (v', fc', sq', h'))"
  shows "file' = file \<and> (\<exists>es. list_all entry_ok es \<and> drop pos file = journal_bytes sha h es
    \<and> fc' = fc + length es \<and> sq' = sq + length es \<and> h' = chain_hash sha h es
    \<and> run_all visitor (journal_frames sha h sq pos es) v = Inr v')"
  using assms(2)
proof (induction "length file - pos" arbitrary: pos fc sq h v rule: less_induct)
  case less
  note unfolded = less.prems [unfolded replay_loop.simps [of sha Inspect limits visitor "file" pos fc sq h v]]
  show ?case
  proof (cases "read_frame sha pos (drop pos file)")
    case AtEnd
    then have "drop pos file = []"
      by (auto simp: read_frame_def read_body_def Let_def frame_header_len_def frame_prefix_len_def
          split: if_splits option.splits)
    then show ?thesis
      using unfolded AtEnd by (auto intro!: exI [of _ "[]"])
  next
    case (Complete raw)
    obtain fr v1 where acc: "accept_frame limits pos fc sq h raw = Inr fr"
      and vis: "visitor fr v = Inr v1"
      and next_run: "replay_loop sha Inspect limits visitor file (pos + rw_size raw) (fc + 1) (sq + 1)
        (rw_hash raw) v1 = (file', Inr (v', fc', sq', h'))"
      using unfolded Complete by (auto split: sum.splits)
    let ?e = "(rw_payload raw, rw_state_hash raw)"
    note chained = accept_frame_ok [OF acc]
    obtain rest where bytes: "drop pos file = frame_bytes sha h ?e @ rest"
      and raw: "rw_hash raw = frame_hash sha h ?e" "rw_size raw = length (frame_bytes sha h ?e)"
        "entry_ok ?e"
      using read_frame_sound [OF assms(1) Complete] chained by auto
    have shorter: "length file - (pos + rw_size raw) < length file - pos"
      using read_frame_size [OF Complete] by (auto simp: diff_less_mono2)
    obtain es where es: "file' = file" "list_all entry_ok es"
        "drop (pos + rw_size raw) file = journal_bytes sha (rw_hash raw) es"
        "fc' = fc + 1 + length es" "sq' = sq + 1 + length es" "h' = chain_hash sha (rw_hash raw) es"
        "run_all visitor (journal_frames sha (rw_hash raw) (sq + 1) (pos + rw_size raw) es) v1 = Inr v'"
      using less.hyps [OF shorter next_run] by blast
    have "drop (pos + rw_size raw) file = drop (rw_size raw) (drop pos file)"
      by (simp add: add.commute)
    then have "rest = journal_bytes sha (frame_hash sha h ?e) es"
      using es(3) raw(1,2) bytes by simp
    then have "drop pos file = journal_bytes sha h (?e # es)"
      using bytes by simp
    moreover have "run_all visitor (journal_frames sha h sq pos (?e # es)) v = Inr v'"
      using es(7) vis chained raw(1,2) by simp
    moreover have "h' = chain_hash sha h (?e # es)" "fc' = fc + length (?e # es)"
      "sq' = sq + length (?e # es)" "list_all entry_ok (?e # es)"
      using es raw by simp_all
    ultimately show ?thesis
      using es(1) by blast
  qed (use unfolded in auto)
qed

text \<open>
  C14: replay accepts nothing but what the journal's own appends produce: when inspection of a file
  succeeds, the file is exactly the chain of frames of some entries, the reported count and last
  hash are theirs, and the visitor has seen precisely those frames.
\<close>

theorem replay_accepts_only_chains:
  assumes "hash32 sha"
    and "replay_with sha Inspect visitor v file = (file', Inr (v', s))"
  shows "file' = file \<and> (\<exists>es. list_all entry_ok es \<and> file = journal_bytes sha hash_zero es
    \<and> sm_frame_count s = length es \<and> sm_final_sequence s = length es
    \<and> sm_bytes_consumed s = length file \<and> sm_last_hash s = chain_hash sha hash_zero es
    \<and> run_all visitor (journal_frames sha hash_zero 0 0 es) v = Inr v')"
proof -
  obtain fc sq h where loop: "replay_loop sha Inspect production_limits visitor file 0 0 0 hash_zero v
      = (file', Inr (v', fc, sq, h))"
    and s: "s = \<lparr>sm_frame_count = fc, sm_final_sequence = sq, sm_bytes_consumed = length file',
      sm_last_hash = h\<rparr>"
    using assms(2)
    by (auto simp: replay_defs split: if_splits prod.splits sum.splits)
  show ?thesis
    using replay_loop_sound [OF assms(1) loop] s by simp
qed

theorem replay_accepts_only_chains_witness:
  "\<exists>v' s. replay_with toy_hash Inspect collect_payload []
      (journal_bytes toy_hash hash_zero sample_entries)
     = (journal_bytes toy_hash hash_zero sample_entries, Inr (v', s))
   \<and> (\<exists>es. journal_bytes toy_hash hash_zero sample_entries = journal_bytes toy_hash hash_zero es
        \<and> sm_frame_count s = length es)"
proof -
  have ok: "list_all entry_ok sample_entries"
    "length (journal_bytes toy_hash hash_zero sample_entries) \<le> max_journal_bytes"
    using append_all_bytes [OF toy_hash32 length_hash_zero sample_entries_states sample_append] by auto
  have "length sample_entries \<le> max_journal_frames"
    by (simp add: sample_entries_def max_journal_frames_def)
  then obtain v' s where run: "replay_with toy_hash Inspect collect_payload []
      (journal_bytes toy_hash hash_zero sample_entries)
     = (journal_bytes toy_hash hash_zero sample_entries, Inr (v', s))"
    using replay_journal [OF toy_hash32 ok(1) _ ok(2), of Inspect collect_payload "[]"]
    by (simp add: replay_outcome_def sample_entries_def collect_payload_def)
  then show ?thesis
    using replay_accepts_only_chains [OF toy_hash32 run] by blast
qed

section \<open>The last hash fixes the file\<close>

text \<open>The preimages of the record hashes of a journal.\<close>

definition record_input :: "sha256 \<Rightarrow> record_hash \<Rightarrow> entry \<Rightarrow> u8 list" where
  "record_input sha h e = bytes_of ''mission-journal-record-v1'' @ [0]
     @ frame_header sha (length (fst e)) h (snd e) @ fst e"

fun record_inputs :: "sha256 \<Rightarrow> record_hash \<Rightarrow> entry list \<Rightarrow> u8 list set" where
  "record_inputs sha h [] = {}"
| "record_inputs sha h (e # es) = insert (record_input sha h e) (record_inputs sha (frame_hash sha h e) es)"

lemma record_inputs_snoc:
  "record_inputs sha h (es @ [e]) = insert (record_input sha (chain_hash sha h es) e) (record_inputs sha h es)"
  by (induction es arbitrary: h) auto

lemma frame_hash_input: "frame_hash sha h e = sha (record_input sha h e)"
  by (simp add: frame_hash_def hash_record_def record_input_def)

lemma record_input_inject:
  assumes "hash32 sha" and "length h = 32" and "length h' = 32" and "entry_ok e" and "entry_ok e'"
    and "record_input sha h e = record_input sha h' e'"
  shows "h = h' \<and> e = e'"
proof -
  have st: "length (snd e) = 32" "length (snd e') = 32"
    using assms(4,5) by (simp_all add: entry_ok_def)
  have eq: "frame_header sha (length (fst e)) h (snd e) @ fst e
      = frame_header sha (length (fst e')) h' (snd e') @ fst e'"
    using assms(6) by (simp add: record_input_def)
  then have "frame_header sha (length (fst e)) h (snd e) = frame_header sha (length (fst e')) h' (snd e')"
    and payload: "fst e = fst e'"
    using length_frame_header [OF assms(1,2) st(1), of "length (fst e)"]
      length_frame_header [OF assms(1,3) st(2), of "length (fst e')"]
    by auto
  then have "h = h'" and "snd e = snd e'"
    using header_fields(4,5) [OF assms(2) st(1) payload_fits [OF assms(4)], of sha]
      header_fields(4,5) [OF assms(3) st(2) payload_fits [OF assms(5)], of sha] by simp_all
  then show ?thesis
    using payload by (simp add: prod_eq_iff)
qed

lemma chain_hash_determines:
  assumes "hash32 sha" and "length h = 32"
    and "list_all entry_ok es" and "list_all entry_ok es'" and "length es = length es'"
    and "inj_on sha (record_inputs sha h es \<union> record_inputs sha h es')"
    and "chain_hash sha h es = chain_hash sha h es'"
  shows "es = es'"
  using assms(3-)
proof (induction es arbitrary: es' rule: rev_induct)
  case Nil
  then show ?case by simp
next
  case (snoc e es)
  obtain d e' where es': "es' = d @ [e']"
    using snoc.prems(3) by (cases es' rule: rev_cases) auto
  let ?x = "record_input sha (chain_hash sha h es) e"
  let ?y = "record_input sha (chain_hash sha h d) e'"
  have "sha ?x = sha ?y"
    using snoc.prems(5) unfolding es' chain_hash_snoc frame_hash_input .
  moreover have "?x \<in> record_inputs sha h (es @ [e]) \<union> record_inputs sha h es'"
    "?y \<in> record_inputs sha h (es @ [e]) \<union> record_inputs sha h es'"
    unfolding es' record_inputs_snoc by blast+
  ultimately have "?x = ?y"
    using snoc.prems(4) inj_onD by metis
  moreover have "entry_ok e" "entry_ok e'"
    using snoc.prems(1,2) by (simp_all add: es')
  ultimately have same: "chain_hash sha h es = chain_hash sha h d" "e = e'"
    using record_input_inject [OF assms(1) length_chain_hash [OF assms(1,2)]
        length_chain_hash [OF assms(1,2)]] by blast+
  have "inj_on sha (record_inputs sha h es \<union> record_inputs sha h d)"
    using snoc.prems(4) by (rule inj_on_subset) (auto simp: es' record_inputs_snoc)
  then have "es = d"
    using snoc.IH snoc.prems(1-3) same(1) by (simp add: es')
  then show ?case using same(2) by (simp add: es')
qed

text \<open>
  Tampering is evident: two journals with the same number of entries and the same last record
  hash are the same bytes, unless SHA-256 collides on the record preimages of the two.
\<close>

theorem last_hash_fixes_journal:
  assumes "hash32 sha" and "list_all entry_ok es" and "list_all entry_ok es'"
    and "length es = length es'"
    and "inj_on sha (record_inputs sha hash_zero es \<union> record_inputs sha hash_zero es')"
    and "chain_hash sha hash_zero es = chain_hash sha hash_zero es'"
  shows "journal_bytes sha hash_zero es = journal_bytes sha hash_zero es'"
  using chain_hash_determines [OF assms(1) length_hash_zero assms(2-)] by simp

theorem last_hash_fixes_journal_witness:
  "entry_ok ([1], replicate 32 7)
   \<and> inj_on toy_hash (record_inputs toy_hash hash_zero [([1], replicate 32 7)])
   \<and> journal_bytes toy_hash hash_zero [([1], replicate 32 7)]
       = journal_bytes toy_hash hash_zero [([1], replicate 32 7)]"
  using last_hash_fixes_journal
    [OF toy_hash32, of "[([1], replicate 32 7)]" "[([1], replicate 32 7)]"]
  by (simp add: entry_ok_def max_payload_bytes_def)

end
