(* ===== verification/Store_Commit.thy ===== *)
theory Store_Commit
  imports Store_Inv Journal_Props
begin

text \<open>
  \<open>src/mission/store.rs\<close>, the store itself: the commit path, the journal head, the snapshot
  cache, opening with tail repair and head reconciliation, and the handoff of the writer. The disk
  is a record of the bytes of the four files and the writer lock. Two things are parameters:
  the JSON encoding (crate \<open>serde_json\<close>), a record of encoders and decoders, and what the
  operating system does during a call (checks of paths, torn and failed writes).
\<close>

section \<open>Data\<close>

definition store_version :: u32 where "store_version = 2"

definition max_head_bytes :: nat where "max_head_bytes = 64 * 1024"

definition max_snapshot_bytes :: nat where "max_snapshot_bytes = 16 * 1024 * 1024"

record sequenced_mission_event =
  sq_version :: u32
  sq_sequence :: nat
  sq_event_id :: string
  sq_previous_hash :: record_hash
  sq_projection_digest_after :: state_hash
  sq_event :: persistable_mission_event

record event_index_entry =
  ix_sequence :: nat
  ix_event_fingerprint :: string

type_synonym event_index = "(string, event_index_entry) bmap"

record journal_head =
  jh_version :: u32
  jh_sequence :: nat
  jh_record_hash :: record_hash

definition head_empty :: journal_head where
  "head_empty = \<lparr>jh_version = store_version, jh_sequence = 0, jh_record_hash = hash_zero\<rparr>"

record commit_outcome =
  co_sequence :: nat
  co_was_duplicate :: bool

record mission_snapshot =
  sn_version :: u32
  sn_last_sequence :: nat
  sn_last_record_hash :: record_hash
  sn_journal_offset :: nat
  sn_projection :: mission_projection
  sn_event_index :: event_index
  sn_state_digest :: state_hash

record snapshot_anchor =
  sa_version :: u32
  sa_last_sequence :: nat
  sa_last_record_hash :: record_hash
  sa_journal_offset :: nat
  sa_state_digest :: state_hash

text \<open>The JSON encoding of every type the store writes; an encoder may refuse a value.\<close>

record store_codec =
  enc_event :: "persistable_mission_event \<Rightarrow> u8 list option"
  enc_record :: "sequenced_mission_event \<Rightarrow> u8 list option"
  dec_record :: "u8 list \<Rightarrow> sequenced_mission_event option"
  enc_state :: "mission_projection \<times> event_index \<Rightarrow> u8 list option"
  enc_head :: "journal_head \<Rightarrow> u8 list option"
  dec_head :: "u8 list \<Rightarrow> journal_head option"
  enc_snapshot :: "mission_snapshot \<Rightarrow> u8 list option"
  dec_snapshot :: "u8 list \<Rightarrow> mission_snapshot option"
  dec_anchor :: "u8 list \<Rightarrow> snapshot_anchor option"

text \<open>
  The operating system during one call: the checks of a path (symbolic link, file type, owner,
  permissions, opening), the number of bytes of a frame that reach the journal when its write
  fails, and the fate of an atomic replacement of a file: done, failed before the rename, or
  renamed with a directory sync that failed.
\<close>

datatype write_outcome = Written | NotWritten store_file_error | WrittenUnsynced store_file_error

datatype store_path = PathDirectory | PathJournal | PathLock | PathHead | PathSnapshot | PathQuarantine

record store_io =
  io_check :: "store_path \<Rightarrow> store_file_error option"
  io_torn :: "nat option"
  io_write :: "store_path \<Rightarrow> write_outcome"

record store_disk =
  dk_journal :: "u8 list"
  dk_head :: "u8 list option"
  dk_snapshot :: "u8 list option"
  dk_quarantine :: "u8 list option"
  dk_locked :: bool

record mission_store =
  ms_journal_head :: journal_head
  ms_event_index :: event_index
  ms_projection :: mission_projection
  ms_poisoned :: bool

section \<open>Digests and atomic writes\<close>

definition event_fingerprint ::
  "sha256 \<Rightarrow> store_codec \<Rightarrow> persistable_mission_event \<Rightarrow> mission_store_error + string" where
  "event_fingerprint sha codec ev =
     rbind (ok_or (SeFile SeJson) (enc_event codec ev)) (\<lambda>payload.
       Inr (cd_finish sha (cd_bytes payload (cd_new ''mission-event-idempotence-v1''))))"

definition store_state_digest ::
  "sha256 \<Rightarrow> store_codec \<Rightarrow> mission_projection \<Rightarrow> event_index \<Rightarrow> mission_store_error + state_hash" where
  "store_state_digest sha codec p index =
     rbind (ok_or (SeFile SeJson) (enc_state codec (p, index))) (\<lambda>bytes.
       if length bytes > max_snapshot_bytes
       then Inl (SeFile (SnapshotTooLarge (max_snapshot_bytes + 1) max_snapshot_bytes))
       else Inr (sha (bytes_of ''mission-projection-state-v1'' @ [0] @ bytes)))"

text \<open>The new contents of the file, and the result.\<close>

definition atomic_write_json_limited ::
  "store_io \<Rightarrow> store_path \<Rightarrow> u8 list option \<Rightarrow> nat \<Rightarrow> (nat \<Rightarrow> nat \<Rightarrow> store_file_error) \<Rightarrow> u8 list option
     \<Rightarrow> u8 list option \<times> (mission_store_error + unit)" where
  "atomic_write_json_limited io path encoded limit kind contents =
     (case io_check io path of
        Some e \<Rightarrow> (contents, Inl (SeFile e))
      | None \<Rightarrow>
          (case encoded of
             None \<Rightarrow> (contents, Inl (SeFile SeJson))
           | Some bs \<Rightarrow>
               (let bytes = bs @ [10]
                in if length bytes > limit then (contents, Inl (SeFile (kind (length bytes) limit)))
                   else case io_write io path of
                     Written \<Rightarrow> (Some bytes, Inr ())
                   | NotWritten e \<Rightarrow> (contents, Inl (SeFile e))
                   | WrittenUnsynced e \<Rightarrow> (Some bytes, Inl (SeFile e)))))"

definition write_head ::
  "store_codec \<Rightarrow> store_io \<Rightarrow> journal_head \<Rightarrow> store_disk \<Rightarrow> store_disk \<times> (mission_store_error + unit)" where
  "write_head codec io head disk =
     (case atomic_write_json_limited io PathHead (enc_head codec head) max_head_bytes HeadTooLarge
             (dk_head disk) of
        (contents, r) \<Rightarrow> (disk\<lparr>dk_head := contents\<rparr>, r))"

section \<open>Handoff fences\<close>

record handoff_fence =
  hf_journal_format :: nat
  hf_store_version :: u32
  hf_sequence :: nat
  hf_record_hash :: record_hash

definition fence_from_head :: "journal_head \<Rightarrow> handoff_fence" where
  "fence_from_head head =
     \<lparr>hf_journal_format = frame_version, hf_store_version = store_version,
      hf_sequence = jh_sequence head, hf_record_hash = jh_record_hash head\<rparr>"

definition fence_authority_digest :: "sha256 \<Rightarrow> handoff_fence \<Rightarrow> string" where
  "fence_authority_digest sha fence =
     cd_finish sha (cd_bytes (hf_record_hash fence) (cd_u64 (of_nat (hf_sequence fence))
       (cd_u64 (ucast (hf_store_version fence)) (cd_u64 (of_nat (hf_journal_format fence))
         (cd_new ''mission-journal-authority-head-v1'')))))"

definition validate_fence_format :: "handoff_fence \<Rightarrow> mission_store_error + unit" where
  "validate_fence_format fence =
     (if hf_journal_format fence \<noteq> frame_version \<or> hf_store_version fence \<noteq> store_version
      then Inl (SeHead UnsupportedHandoffFence) else Inr ())"

definition store_fence :: "mission_store \<Rightarrow> handoff_fence" where
  "store_fence st = fence_from_head (ms_journal_head st)"

section \<open>Committing\<close>

definition duplicate_outcome ::
  "event_index \<Rightarrow> string \<Rightarrow> string \<Rightarrow> mission_store_error + commit_outcome option" where
  "duplicate_outcome index event_id fingerprint =
     (case bm_get index event_id of
        None \<Rightarrow> Inr None
      | Some existing \<Rightarrow>
          if ix_event_fingerprint existing \<noteq> fingerprint
          then Inl (SeReplay (EventIdConflict event_id))
          else Inr (Some \<lparr>co_sequence = ix_sequence existing, co_was_duplicate = True\<rparr>))"

definition preflight_duplicate ::
  "sha256 \<Rightarrow> store_codec \<Rightarrow> mission_store \<Rightarrow> string \<Rightarrow> persistable_mission_event
     \<Rightarrow> mission_store_error + commit_outcome option" where
  "preflight_duplicate sha codec st event_id ev =
     rbind (validate_id ''event id'' event_id) (\<lambda>_.
     rbind (event_validate sha ev) (\<lambda>_.
     rbind (event_fingerprint sha codec ev) (\<lambda>fingerprint.
       duplicate_outcome (ms_event_index st) event_id fingerprint)))"

fun sealing_receipt :: "persistable_mission_event \<Rightarrow> proof_receipt option" where
  "sealing_receipt (MissionReady _ receipt _ _ _) = Some receipt"
| "sealing_receipt (MissionArchived _ receipt _ _ _ _) = Some receipt"
| "sealing_receipt _ = None"

definition validate_current_proof_authority ::
  "sha256 \<Rightarrow> mission_store \<Rightarrow> persistable_mission_event \<Rightarrow> mission_store_error + unit" where
  "validate_current_proof_authority sha st ev =
     (case sealing_receipt ev of
        None \<Rightarrow> Inr ()
      | Some receipt \<Rightarrow>
          if unat (pr_authority_sequence receipt) \<noteq> jh_sequence (ms_journal_head st)
            \<or> pr_authority_head_digest receipt \<noteq> fence_authority_digest sha (store_fence st)
          then Inl (SeSealed StaleProofAuthority) else Inr ())"

text \<open>
  \<open>commit\<close> up to the append: either an outcome that is already known, or the record to append with
  its payload and the state it leads to.
\<close>

record prepared_commit =
  pc_payload :: "u8 list"
  pc_state_digest :: state_hash
  pc_sequence :: nat
  pc_projection :: mission_projection
  pc_index :: event_index

definition index_put :: "string \<Rightarrow> nat \<Rightarrow> string \<Rightarrow> event_index \<Rightarrow> event_index" where
  "index_put event_id sequence fingerprint index =
     bm_insert event_id \<lparr>ix_sequence = sequence, ix_event_fingerprint = fingerprint\<rparr> index"

definition prepare_commit ::
  "sha256 \<Rightarrow> store_codec \<Rightarrow> string \<Rightarrow> persistable_mission_event \<Rightarrow> mission_store
     \<Rightarrow> mission_store_error + (commit_outcome + prepared_commit)" where
  "prepare_commit sha codec event_id ev st =
     (if ms_poisoned st then Inl (SeFile WriterPoisoned)
      else
        rbind (validate_id ''event id'' event_id) (\<lambda>_.
        rbind (event_validate sha ev) (\<lambda>_.
        rbind (event_fingerprint sha codec ev) (\<lambda>fingerprint.
        rbind (duplicate_outcome (ms_event_index st) event_id fingerprint) (\<lambda>duplicate.
        case duplicate of
          Some outcome \<Rightarrow> Inr (Inl outcome)
        | None \<Rightarrow>
            rbind (validate_current_proof_authority sha st ev) (\<lambda>_.
            rbind (projection_apply sha ev (ms_projection st)) (\<lambda>next_projection.
            let sequence = jh_sequence (ms_journal_head st) + 1
            in if sequence \<ge> 2 ^ 64 then Inl (SeReplay SequenceOverflow)
               else if sequence > max_journal_frames
               then Inl (SeJournal (FrameLimitExceeded max_journal_frames))
               else
                 let index = index_put event_id sequence fingerprint (ms_event_index st)
                 in rbind (store_state_digest sha codec next_projection index) (\<lambda>digest.
                    rbind (ok_or (SeFile SeJson) (enc_record codec
                      \<lparr>sq_version = store_version, sq_sequence = sequence, sq_event_id = event_id,
                       sq_previous_hash = jh_record_hash (ms_journal_head st),
                       sq_projection_digest_after = digest, sq_event = ev\<rparr>)) (\<lambda>payload.
                    if length payload > max_payload_bytes
                    then Inl (SeJournal (PayloadTooLarge (length payload)))
                    else Inr (Inr \<lparr>pc_payload = payload, pc_state_digest = digest,
                      pc_sequence = sequence, pc_projection = next_projection,
                      pc_index = index\<rparr>))))))))))"

text \<open>The rest of \<open>commit\<close>: append, replace the head, and only then the state in memory.\<close>

definition write_commit ::
  "sha256 \<Rightarrow> store_codec \<Rightarrow> store_io \<Rightarrow> prepared_commit \<Rightarrow> mission_store \<Rightarrow> store_disk
     \<Rightarrow> mission_store \<times> store_disk \<times> (mission_store_error + commit_outcome)" where
  "write_commit sha codec io pc st disk =
     (case journal_append sha (io_torn io) (pc_payload pc) (jh_record_hash (ms_journal_head st))
             (pc_state_digest pc) (dk_journal disk) of
        (file, Inl e) \<Rightarrow> (st\<lparr>ms_poisoned := True\<rparr>, disk\<lparr>dk_journal := file\<rparr>, Inl (SeJournal e))
      | (file, Inr record_hash) \<Rightarrow>
          (let next_head = \<lparr>jh_version = store_version, jh_sequence = pc_sequence pc,
                            jh_record_hash = record_hash\<rparr>
           in case write_head codec io next_head (disk\<lparr>dk_journal := file\<rparr>) of
                (disk', Inl e) \<Rightarrow> (st\<lparr>ms_poisoned := True\<rparr>, disk', Inl e)
              | (disk', Inr _) \<Rightarrow>
                  (st\<lparr>ms_journal_head := next_head, ms_event_index := pc_index pc,
                      ms_projection := pc_projection pc\<rparr>, disk',
                   Inr \<lparr>co_sequence = pc_sequence pc, co_was_duplicate = False\<rparr>)))"

definition commit ::
  "sha256 \<Rightarrow> store_codec \<Rightarrow> store_io \<Rightarrow> string \<Rightarrow> persistable_mission_event \<Rightarrow> mission_store
     \<Rightarrow> store_disk \<Rightarrow> mission_store \<times> store_disk \<times> (mission_store_error + commit_outcome)" where
  "commit sha codec io event_id ev st disk =
     (case prepare_commit sha codec event_id ev st of
        Inl e \<Rightarrow> (st, disk, Inl e)
      | Inr (Inl outcome) \<Rightarrow> (st, disk, Inr outcome)
      | Inr (Inr pc) \<Rightarrow> write_commit sha codec io pc st disk)"

section \<open>Snapshots\<close>

definition checkpoint ::
  "sha256 \<Rightarrow> store_codec \<Rightarrow> store_io \<Rightarrow> mission_store \<Rightarrow> store_disk
     \<Rightarrow> store_disk \<times> (mission_store_error + unit)" where
  "checkpoint sha codec io st disk =
     (case store_state_digest sha codec (ms_projection st) (ms_event_index st) of
        Inl e \<Rightarrow> (disk, Inl e)
      | Inr digest \<Rightarrow>
          (case atomic_write_json_limited io PathSnapshot
                  (enc_snapshot codec
                    \<lparr>sn_version = store_version,
                     sn_last_sequence = jh_sequence (ms_journal_head st),
                     sn_last_record_hash = jh_record_hash (ms_journal_head st),
                     sn_journal_offset = length (dk_journal disk),
                     sn_projection = ms_projection st, sn_event_index = ms_event_index st,
                     sn_state_digest = digest\<rparr>)
                  max_snapshot_bytes SnapshotTooLarge (dk_snapshot disk) of
             (contents, r) \<Rightarrow> (disk\<lparr>dk_snapshot := contents\<rparr>, r)))"

definition quarantine_and_rebuild_snapshot ::
  "sha256 \<Rightarrow> store_codec \<Rightarrow> store_io \<Rightarrow> mission_store \<Rightarrow> store_disk
     \<Rightarrow> store_disk \<times> (mission_store_error + unit)" where
  "quarantine_and_rebuild_snapshot sha codec io st disk =
     (case io_check io PathSnapshot of
        Some e \<Rightarrow> (disk, Inl (SeFile e))
      | None \<Rightarrow>
          (case io_check io PathQuarantine of
             Some e \<Rightarrow> (disk, Inl (SeFile e))
           | None \<Rightarrow>
               (case io_write io PathQuarantine of
                  NotWritten e \<Rightarrow> (disk, Inl (SeFile e))
                | WrittenUnsynced e \<Rightarrow>
                    (disk\<lparr>dk_quarantine := dk_snapshot disk, dk_snapshot := None\<rparr>, Inl (SeFile e))
                | Written \<Rightarrow> checkpoint sha codec io st
                    (disk\<lparr>dk_quarantine := dk_snapshot disk, dk_snapshot := None\<rparr>))))"

datatype snapshot_load = SnapshotMissing | SnapshotCorrupt | SnapshotUntrusted snapshot_anchor "u8 list"

fun load_sequence :: "snapshot_load \<Rightarrow> nat option" where
  "load_sequence (SnapshotUntrusted anchor _) = Some (sa_last_sequence anchor)"
| "load_sequence _ = None"

definition read_limited ::
  "nat \<Rightarrow> (nat \<Rightarrow> nat \<Rightarrow> store_file_error) \<Rightarrow> u8 list \<Rightarrow> mission_store_error + u8 list" where
  "read_limited limit kind bytes =
     (if length bytes > limit then Inl (SeFile (kind (length bytes) limit)) else Inr bytes)"

definition load_untrusted_snapshot ::
  "store_codec \<Rightarrow> store_io \<Rightarrow> store_disk \<Rightarrow> mission_store_error + snapshot_load" where
  "load_untrusted_snapshot codec io disk =
     (case io_check io PathSnapshot of
        Some e \<Rightarrow> Inl (SeFile e)
      | None \<Rightarrow>
          (case dk_snapshot disk of
             None \<Rightarrow> Inr SnapshotMissing
           | Some contents \<Rightarrow>
               rbind (read_limited max_snapshot_bytes SnapshotTooLarge contents) (\<lambda>bytes.
                 case dec_anchor codec bytes of
                   None \<Rightarrow> Inr SnapshotCorrupt
                 | Some anchor \<Rightarrow>
                     if sa_version anchor \<noteq> store_version then Inr SnapshotCorrupt
                     else Inr (SnapshotUntrusted anchor bytes))))"

record verified_snapshot =
  vs_checkpoint :: replay_checkpoint
  vs_projection :: mission_projection
  vs_event_index :: event_index

text \<open>The loop over the index; its state is the set of sequence numbers seen.\<close>

fun check_index ::
  "nat \<Rightarrow> (string \<times> event_index_entry) list \<Rightarrow> nat bset \<Rightarrow> mission_store_error + unit" where
  "check_index last_sequence [] seen = Inr ()"
| "check_index last_sequence ((event_id, entry) # rest) seen =
     rbind (validate_id ''event id'' event_id) (\<lambda>_.
     rbind (validate_hash ''event fingerprint'' (ix_event_fingerprint entry)) (\<lambda>_.
       if ix_sequence entry = 0 \<or> ix_sequence entry > last_sequence
         \<or> ix_sequence entry \<in> set seen
       then Inl (SeReplay SnapshotEventIndexMismatch)
       else check_index last_sequence rest (bs_insert (ix_sequence entry) seen)))"

definition validate_snapshot_index :: "mission_snapshot \<Rightarrow> mission_store_error + unit" where
  "validate_snapshot_index snapshot =
     (if length (sn_event_index snapshot) \<noteq> sn_last_sequence snapshot
      then Inl (SeReplay SnapshotEventIndexMismatch)
      else check_index (sn_last_sequence snapshot) (sn_event_index snapshot) [])"

text \<open>The journal position an anchor claims, checked against the scan.\<close>

definition anchor_checkpoint ::
  "snapshot_anchor \<Rightarrow> scan_summary \<Rightarrow> mission_store_error + replay_checkpoint" where
  "anchor_checkpoint anchor sc =
     (if sa_last_sequence anchor = 0 then
        (if sa_last_record_hash anchor \<noteq> hash_zero \<or> sa_journal_offset anchor \<noteq> 0
         then Inl (SeReplay SnapshotHeadMismatch)
         else Inr \<lparr>rc_sequence = 0, rc_end_offset = 0, rc_record_hash = hash_zero,
                    rc_state_hash = sa_state_digest anchor\<rparr>)
      else
        rbind (ok_or (SeReplay SnapshotHeadMismatch) (snd (sc_checkpoints sc))) (\<lambda>cp.
          if rc_record_hash cp \<noteq> sa_last_record_hash anchor
          then Inl (SeReplay SnapshotHeadMismatch)
          else if rc_end_offset cp \<noteq> sa_journal_offset anchor
          then Inl (SeReplay SnapshotOffsetMismatch)
          else if rc_state_hash cp \<noteq> sa_state_digest anchor
          then Inl (SeReplay SnapshotProjectionMismatch)
          else Inr cp))"

definition anchored :: "mission_snapshot \<Rightarrow> snapshot_anchor \<Rightarrow> bool" where
  "anchored snapshot anchor \<longleftrightarrow>
     sn_version snapshot = sa_version anchor
     \<and> sn_last_sequence snapshot = sa_last_sequence anchor
     \<and> sn_last_record_hash snapshot = sa_last_record_hash anchor
     \<and> sn_journal_offset snapshot = sa_journal_offset anchor
     \<and> sn_state_digest snapshot = sa_state_digest anchor"

definition authenticate_snapshot ::
  "sha256 \<Rightarrow> store_codec \<Rightarrow> snapshot_anchor \<Rightarrow> u8 list \<Rightarrow> scan_summary
     \<Rightarrow> mission_store_error + verified_snapshot" where
  "authenticate_snapshot sha codec anchor bytes sc =
     (if sa_last_sequence anchor > sc_frame_count sc
      then Inl (SeReplay (SnapshotAheadOfJournal (sa_last_sequence anchor) (sc_frame_count sc)))
      else
        rbind (anchor_checkpoint anchor sc) (\<lambda>cp.
        rbind (ok_or (SeFile SeJson) (dec_snapshot codec bytes)) (\<lambda>snapshot.
          if \<not> anchored snapshot anchor then Inl (SeReplay SnapshotHeadMismatch)
          else
            rbind (validate_snapshot_index snapshot) (\<lambda>_.
            rbind (store_state_digest sha codec (sn_projection snapshot) (sn_event_index snapshot))
              (\<lambda>digest.
                if digest \<noteq> sn_state_digest snapshot
                then Inl (SeReplay SnapshotProjectionMismatch)
                else if sn_last_sequence snapshot = 0
                  \<and> (sn_projection snapshot \<noteq> projection_default \<or> sn_event_index snapshot \<noteq> [])
                then Inl (SeReplay SnapshotProjectionMismatch)
                else Inr \<lparr>vs_checkpoint = cp, vs_projection = sn_projection snapshot,
                           vs_event_index = sn_event_index snapshot\<rparr>)))))"

fun is_snapshot_content_corruption :: "mission_store_error \<Rightarrow> bool" where
  "is_snapshot_content_corruption (SeFile SeJson) = True"
| "is_snapshot_content_corruption (SeReplay (UnsupportedVersion _)) = True"
| "is_snapshot_content_corruption (SeField (InvalidIdentifier _)) = True"
| "is_snapshot_content_corruption (SeField (InvalidHash _)) = True"
| "is_snapshot_content_corruption (SeReplay (SnapshotAheadOfJournal _ _)) = True"
| "is_snapshot_content_corruption (SeReplay SnapshotProjectionMismatch) = True"
| "is_snapshot_content_corruption (SeReplay SnapshotHeadMismatch) = True"
| "is_snapshot_content_corruption (SeReplay SnapshotOffsetMismatch) = True"
| "is_snapshot_content_corruption (SeReplay SnapshotEventIndexMismatch) = True"
| "is_snapshot_content_corruption _ = False"

fun resolve_snapshot_cache ::
  "sha256 \<Rightarrow> store_codec \<Rightarrow> snapshot_load \<Rightarrow> scan_summary
     \<Rightarrow> mission_store_error + verified_snapshot option \<times> bool" where
  "resolve_snapshot_cache sha codec SnapshotMissing sc = Inr (None, False)"
| "resolve_snapshot_cache sha codec SnapshotCorrupt sc = Inr (None, True)"
| "resolve_snapshot_cache sha codec (SnapshotUntrusted anchor bytes) sc =
     (case authenticate_snapshot sha codec anchor bytes sc of
        Inr snapshot \<Rightarrow> Inr (Some snapshot, False)
      | Inl e \<Rightarrow> if is_snapshot_content_corruption e then Inr (None, True) else Inl e)"

end
