(* ===== verification/Store_Open.thy ===== *)
theory Store_Open
  imports Store_Commit
begin

text \<open>
  \<open>src/mission/store.rs\<close>, opening: the replay of the journal tail, the reconciliation of the head
  file, \<open>MissionStore::open\<close>, the read-only view of a store and the handoff of its writer from
  one process to another. A store value exists only while the writer lock is held; dropping it,
  which an early error return does too, releases the lock.
\<close>

section \<open>Replaying the tail\<close>

definition tail_visit ::
  "sha256 \<Rightarrow> store_codec \<Rightarrow> verified_frame \<Rightarrow> mission_projection \<times> event_index
     \<Rightarrow> mission_store_error + mission_projection \<times> event_index" where
  "tail_visit sha codec fr s =
     (case dec_record codec (fr_payload fr) of
        None \<Rightarrow> Inl (SeReplay (CorruptJournalPayload (fr_sequence fr)))
      | Some r \<Rightarrow>
          if sq_version r \<noteq> store_version then Inl (SeReplay (UnsupportedVersion (sq_version r)))
          else if sq_sequence r \<noteq> fr_sequence fr
          then Inl (SeReplay (NonContiguousSequence (fr_sequence fr) (sq_sequence r)))
          else if sq_previous_hash r \<noteq> fr_previous_hash fr
          then Inl (SeReplay (BrokenHashChain (sq_sequence r)))
          else if sq_projection_digest_after r \<noteq> fr_state_hash fr
          then Inl (SeReplay (JournalProjectionMismatch (sq_sequence r)))
          else
            rbind (validate_id ''event id'' (sq_event_id r)) (\<lambda>_.
            rbind (event_validate sha (sq_event r)) (\<lambda>_.
            rbind (event_fingerprint sha codec (sq_event r)) (\<lambda>fingerprint.
              if bm_get (snd s) (sq_event_id r) \<noteq> None
              then Inl (SeReplay (DuplicateJournalEventId (sq_event_id r)))
              else
                rbind (projection_apply sha (sq_event r) (fst s)) (\<lambda>p.
                let index = index_put (sq_event_id r) (sq_sequence r) fingerprint (snd s)
                in rbind (store_state_digest sha codec p index) (\<lambda>digest.
                     if digest \<noteq> fr_state_hash fr
                     then Inl (SeReplay (JournalProjectionMismatch (sq_sequence r)))
                     else Inr (p, index)))))))"

record replay_state =
  rs_actual_head :: journal_head
  rs_persisted_head_hash :: "record_hash option"
  rs_event_index :: event_index
  rs_projection :: mission_projection

definition tail_start ::
  "verified_snapshot option \<Rightarrow> replay_checkpoint \<times> mission_projection \<times> event_index" where
  "tail_start snapshot =
     (case snapshot of
        None \<Rightarrow> (checkpoint_zero, projection_default, [])
      | Some s \<Rightarrow> (vs_checkpoint s, vs_projection s, vs_event_index s))"

definition load_journal_tail ::
  "sha256 \<Rightarrow> store_codec \<Rightarrow> u8 list \<Rightarrow> scan_summary \<Rightarrow> verified_snapshot option
     \<Rightarrow> mission_store_error + replay_state" where
  "load_journal_tail sha codec file sc snapshot =
     (case tail_start snapshot of (start, s) \<Rightarrow>
       (case snd (replay_from sha start (tail_visit sha codec) s file) of
          Inl (ReplayJournal e) \<Rightarrow> Inl (SeJournal e)
        | Inl (ReplayVisitor e) \<Rightarrow> Inl e
        | Inr ((p, index), summary) \<Rightarrow>
            if sm_final_sequence summary \<noteq> sc_frame_count sc
              \<or> sm_bytes_consumed summary \<noteq> sc_bytes_consumed sc
              \<or> sm_last_hash summary \<noteq> sc_last_hash sc
            then Inl (SeReplay JournalChangedDuringReplay)
            else Inr \<lparr>rs_actual_head = \<lparr>jh_version = store_version,
                         jh_sequence = sc_frame_count sc, jh_record_hash = sc_last_hash sc\<rparr>,
                       rs_persisted_head_hash =
                         map_option rc_record_hash (fst (sc_checkpoints sc)),
                       rs_event_index = index, rs_projection = p\<rparr>))"

section \<open>The head\<close>

definition load_head ::
  "store_codec \<Rightarrow> store_io \<Rightarrow> store_disk \<Rightarrow> mission_store_error + journal_head option" where
  "load_head codec io disk =
     (case io_check io PathHead of
        Some e \<Rightarrow> Inl (SeFile e)
      | None \<Rightarrow>
          (case dk_head disk of
             None \<Rightarrow> Inr None
           | Some contents \<Rightarrow>
               rbind (read_limited max_head_bytes HeadTooLarge contents) (\<lambda>bytes.
               rbind (ok_or (SeFile SeJson) (dec_head codec bytes)) (\<lambda>head.
                 if jh_version head \<noteq> store_version
                 then Inl (SeReplay (UnsupportedVersion (jh_version head)))
                 else Inr (Some head)))))"

definition validate_persisted_head ::
  "journal_head \<Rightarrow> replay_state \<Rightarrow> mission_store_error + unit" where
  "validate_persisted_head persisted replay =
     (if jh_sequence persisted > jh_sequence (rs_actual_head replay)
      then Inl (SeHead (HeadAheadOfJournal (jh_sequence persisted)
             (jh_sequence (rs_actual_head replay))))
      else
        rbind (ok_or (SeReplay EventIndexCorrupt) (rs_persisted_head_hash replay)) (\<lambda>hash.
          if jh_record_hash persisted \<noteq> hash then Inl (SeHead HeadHashMismatch) else Inr ()))"

definition reconcile_head ::
  "store_codec \<Rightarrow> store_io \<Rightarrow> journal_head \<Rightarrow> replay_state \<Rightarrow> store_disk
     \<Rightarrow> store_disk \<times> (mission_store_error + journal_head)" where
  "reconcile_head codec io persisted replay disk =
     (case validate_persisted_head persisted replay of
        Inl e \<Rightarrow> (disk, Inl e)
      | Inr _ \<Rightarrow>
          if persisted \<noteq> rs_actual_head replay then
            (case write_head codec io (rs_actual_head replay) disk of
               (disk', Inl e) \<Rightarrow> (disk', Inl e)
             | (disk', Inr _) \<Rightarrow> (disk', Inr (rs_actual_head replay)))
          else (disk, Inr (rs_actual_head replay)))"

section \<open>Opening\<close>

definition first_failed_check :: "store_io \<Rightarrow> store_path list \<Rightarrow> mission_store_error + unit" where
  "first_failed_check io paths =
     check_all (\<lambda>path. case io_check io path of Some e \<Rightarrow> Inl (SeFile e) | None \<Rightarrow> Inr ()) paths"

text \<open>What the two ways of opening read: head, snapshot anchor, scan, snapshot and tail.\<close>

record opened_journal =
  oj_persisted :: journal_head
  oj_replay :: replay_state
  oj_snapshot_corrupt :: bool

definition read_store ::
  "sha256 \<Rightarrow> store_codec \<Rightarrow> store_io \<Rightarrow> replay_mode \<Rightarrow> store_disk
     \<Rightarrow> store_disk \<times> (mission_store_error + opened_journal)" where
  "read_store sha codec io mode disk =
     (case load_head codec io disk of
        Inl e \<Rightarrow> (disk, Inl e)
      | Inr loaded \<Rightarrow>
          (let persisted = (case loaded of None \<Rightarrow> head_empty | Some head \<Rightarrow> head)
           in case load_untrusted_snapshot codec io disk of
                Inl e \<Rightarrow> (disk, Inl e)
              | Inr load \<Rightarrow>
                  (case scan sha mode (Some (jh_sequence persisted), load_sequence load)
                          (dk_journal disk) of
                     (file, Inl e) \<Rightarrow> (disk\<lparr>dk_journal := file\<rparr>, Inl (SeJournal e))
                   | (file, Inr sc) \<Rightarrow>
                       (disk\<lparr>dk_journal := file\<rparr>,
                        rbind (resolve_snapshot_cache sha codec load sc) (\<lambda>(snapshot, corrupt).
                        rbind (load_journal_tail sha codec file sc snapshot) (\<lambda>replay.
                          Inr \<lparr>oj_persisted = persisted, oj_replay = replay,
                               oj_snapshot_corrupt = corrupt\<rparr>))))))"

definition store_open ::
  "sha256 \<Rightarrow> store_codec \<Rightarrow> store_io \<Rightarrow> store_disk \<Rightarrow> store_disk \<times> (mission_store_error + mission_store)" where
  "store_open sha codec io disk =
     (case first_failed_check io [PathDirectory, PathJournal, PathLock] of
        Inl e \<Rightarrow> (disk, Inl e)
      | Inr _ \<Rightarrow>
          if dk_locked disk then (disk, Inl (SeFile WriterAlreadyActive))
          else case read_store sha codec io RepairFinalPartial disk of
            (disk1, Inl e) \<Rightarrow> (disk1, Inl e)
          | (disk1, Inr oj) \<Rightarrow>
              (case reconcile_head codec io (oj_persisted oj) (oj_replay oj) disk1 of
                 (disk2, Inl e) \<Rightarrow> (disk2, Inl e)
               | (disk2, Inr head) \<Rightarrow>
                   (let st = \<lparr>ms_journal_head = head,
                              ms_event_index = rs_event_index (oj_replay oj),
                              ms_projection = rs_projection (oj_replay oj), ms_poisoned = False\<rparr>
                    in if oj_snapshot_corrupt oj then
                         (case quarantine_and_rebuild_snapshot sha codec io st disk2 of
                            (disk3, Inl e) \<Rightarrow> (disk3, Inl e)
                          | (disk3, Inr _) \<Rightarrow> (disk3\<lparr>dk_locked := True\<rparr>, Inr st))
                       else (disk2\<lparr>dk_locked := True\<rparr>, Inr st))))"

definition store_drop :: "store_disk \<Rightarrow> store_disk" where
  "store_drop disk = disk\<lparr>dk_locked := False\<rparr>"

section \<open>Handing the writer over\<close>

definition reader_open_existing ::
  "sha256 \<Rightarrow> store_codec \<Rightarrow> store_io \<Rightarrow> store_disk \<Rightarrow> mission_store_error + handoff_fence" where
  "reader_open_existing sha codec io disk =
     rbind (first_failed_check io [PathDirectory, PathJournal]) (\<lambda>_.
     rbind (snd (read_store sha codec io Inspect disk)) (\<lambda>oj.
     rbind (validate_persisted_head (oj_persisted oj) (oj_replay oj)) (\<lambda>_.
       if oj_persisted oj \<noteq> rs_actual_head (oj_replay oj)
       then Inl (SeHead HandoffObservationUnstable)
       else Inr (fence_from_head (rs_actual_head (oj_replay oj))))))"

text \<open>\<open>acquire_writer\<close> and \<open>reacquire\<close> open the store and drop it again when the fence moved.\<close>

definition open_at_fence ::
  "sha256 \<Rightarrow> store_codec \<Rightarrow> store_io \<Rightarrow> handoff_fence \<Rightarrow> store_disk
     \<Rightarrow> store_disk \<times> (mission_store_error + mission_store)" where
  "open_at_fence sha codec io expected disk =
     (case store_open sha codec io disk of
        (disk', Inl e) \<Rightarrow> (disk', Inl e)
      | (disk', Inr st) \<Rightarrow>
          if store_fence st \<noteq> expected then (store_drop disk', Inl (SeHead HandoffHeadChanged))
          else (disk', Inr st))"

definition acquire_writer ::
  "sha256 \<Rightarrow> store_codec \<Rightarrow> store_io \<Rightarrow> handoff_fence \<Rightarrow> store_disk
     \<Rightarrow> store_disk \<times> (mission_store_error + mission_store)" where
  "acquire_writer sha codec io expected disk =
     (case validate_fence_format expected of
        Inl e \<Rightarrow> (disk, Inl e)
      | Inr _ \<Rightarrow> open_at_fence sha codec io expected disk)"

definition reacquire ::
  "sha256 \<Rightarrow> store_codec \<Rightarrow> store_io \<Rightarrow> handoff_fence \<Rightarrow> store_disk
     \<Rightarrow> store_disk \<times> (mission_store_error + mission_store)" where
  "reacquire sha codec io fence disk = open_at_fence sha codec io fence disk"

definition prepare_handoff ::
  "sha256 \<Rightarrow> store_codec \<Rightarrow> store_io \<Rightarrow> mission_store \<Rightarrow> store_disk
     \<Rightarrow> store_disk \<times> (mission_store_error + handoff_fence)" where
  "prepare_handoff sha codec io st disk =
     (case checkpoint sha codec io st disk of
        (disk', Inl e) \<Rightarrow> (disk', Inl e)
      | (disk', Inr _) \<Rightarrow> (disk', Inr (store_fence st)))"

definition relinquish :: "handoff_fence \<Rightarrow> store_disk \<Rightarrow> store_disk \<times> handoff_fence" where
  "relinquish fence disk = (store_drop disk, fence)"

end
