(* ===== verification/Store_Recovery.thy ===== *)
theory Store_Recovery
  imports Store_Open "HOL-Library.Multiset"
begin

text \<open>
  What a commit writes, opening reads back. A ledger is a list of journal entries that replays to
  a projection and an event index; the store in memory always stands at the end of such a ledger.
\<close>

section \<open>Journal prefixes\<close>

lemma journal_bytes_append:
  "journal_bytes sha h (xs @ ys) = journal_bytes sha h xs @ journal_bytes sha (chain_hash sha h xs) ys"
  by (induction xs arbitrary: h) auto

lemma chain_hash_append:
  "chain_hash sha h (xs @ ys) = chain_hash sha (chain_hash sha h xs) ys"
  by (induction xs arbitrary: h) auto

lemma journal_frames_append:
  "journal_frames sha h n pos (xs @ ys) = journal_frames sha h n pos xs
     @ journal_frames sha (chain_hash sha h xs) (n + length xs)
         (pos + length (journal_bytes sha h xs)) ys"
  by (induction xs arbitrary: h n pos) (auto simp: add.assoc)

abbreviation zero_bytes :: "sha256 \<Rightarrow> entry list \<Rightarrow> u8 list" where
  "zero_bytes sha es \<equiv> journal_bytes sha hash_zero es"

abbreviation zero_hash :: "sha256 \<Rightarrow> entry list \<Rightarrow> record_hash" where
  "zero_hash sha es \<equiv> chain_hash sha hash_zero es"

text \<open>The frame of an entry appended to a journal, and the position of the journal after \<open>n\<close> frames.\<close>

definition next_frame :: "sha256 \<Rightarrow> entry list \<Rightarrow> entry \<Rightarrow> verified_frame" where
  "next_frame sha es e =
     \<lparr>fr_payload = fst e, fr_hash = frame_hash sha (zero_hash sha es) e,
      fr_previous_hash = zero_hash sha es, fr_state_hash = snd e, fr_sequence = length es + 1,
      fr_end_offset = length (zero_bytes sha es)
        + length (frame_bytes sha (zero_hash sha es) e)\<rparr>"

lemma journal_frames_snoc:
  "journal_frames sha hash_zero 0 0 (es @ [e])
     = journal_frames sha hash_zero 0 0 es @ [next_frame sha es e]"
  by (simp add: journal_frames_append next_frame_def)

definition position_at :: "sha256 \<Rightarrow> entry list \<Rightarrow> nat \<Rightarrow> replay_checkpoint" where
  "position_at sha es n =
     \<lparr>rc_sequence = n, rc_end_offset = length (zero_bytes sha (take n es)),
      rc_record_hash = zero_hash sha (take n es),
      rc_state_hash = (if n = 0 then replicate 32 0 else snd (es ! (n - 1)))\<rparr>"

definition known_position :: "sha256 \<Rightarrow> entry list \<Rightarrow> nat option \<Rightarrow> replay_checkpoint option" where
  "known_position sha es target =
     (case target of None \<Rightarrow> None
      | Some n \<Rightarrow> if n \<le> length es then Some (position_at sha es n) else None)"

lemma position_at_snoc: "n \<le> length es \<Longrightarrow> position_at sha (es @ [e]) n = position_at sha es n"
  by (cases n) (auto simp: position_at_def nth_append)

lemma position_at_last:
  "position_at sha (es @ [e]) (length es + 1) = frame_checkpoint (next_frame sha es e)"
  by (simp add: frame_checkpoint_def next_frame_def position_at_def chain_hash_snoc
      journal_bytes_snoc)

lemma known_position_snoc:
  "known_position sha (es @ [e]) target =
     (if target = Some (length es + 1) then Some (frame_checkpoint (next_frame sha es e))
      else known_position sha es target)"
  using position_at_last [of sha es e]
  by (cases target) (auto simp: known_position_def position_at_snoc le_Suc_eq)

text \<open>A scan of a journal knows exactly the positions of its frames.\<close>

lemma scan_visits:
  "run_all (scan_visit targets) (journal_frames sha hash_zero 0 0 es)
     (initial_checkpoint (fst targets), initial_checkpoint (snd targets))
   = Inr (known_position sha es (fst targets), known_position sha es (snd targets))"
proof (induction es rule: rev_induct)
  case Nil
  show ?case
    by (auto simp: initial_checkpoint_def known_position_def position_at_def checkpoint_zero_def
        split: option.split)
next
  case (snoc e es)
  have "fr_sequence (next_frame sha es e) = length es + 1"
    by (simp add: next_frame_def)
  then have "scan_visit targets (next_frame sha es e)
      (known_position sha es (fst targets), known_position sha es (snd targets))
    = Inr (known_position sha (es @ [e]) (fst targets), known_position sha (es @ [e]) (snd targets))"
    by (simp add: scan_visit_def known_position_snoc)
  then show ?case
    unfolding journal_frames_snoc run_all_snoc snoc by simp
qed

section \<open>A file that ends in a torn frame\<close>

definition torn_tail :: "sha256 \<Rightarrow> entry list \<Rightarrow> u8 list \<Rightarrow> bool" where
  "torn_tail sha es torn \<longleftrightarrow> torn = []
     \<or> (\<exists>e k. entry_ok e \<and> 0 < k \<and> k < length (frame_bytes sha (zero_hash sha es) e)
           \<and> torn = take k (frame_bytes sha (zero_hash sha es) e))"

definition journal_ok :: "sha256 \<Rightarrow> entry list \<Rightarrow> u8 list \<Rightarrow> bool" where
  "journal_ok sha es file \<longleftrightarrow> list_all entry_ok es \<and> length es \<le> max_journal_frames
     \<and> length file \<le> max_journal_bytes
     \<and> (\<exists>torn. file = zero_bytes sha es @ torn \<and> torn_tail sha es torn)"

lemma journal_ok_repaired: "journal_ok sha es file \<Longrightarrow> journal_ok sha es (zero_bytes sha es)"
  by (auto simp: journal_ok_def torn_tail_def)

lemma replay_repairs:
  assumes "hash32 sha" and "journal_ok sha es file"
  shows "replay_with sha RepairFinalPartial visitor v file =
    (case replay_outcome sha visitor v es of
       Inl err \<Rightarrow> (file, Inl err) | Inr r \<Rightarrow> (zero_bytes sha es, Inr r))"
proof -
  obtain torn where fl: "file = zero_bytes sha es @ torn" and torn: "torn_tail sha es torn"
    and es: "list_all entry_ok es" "length es \<le> max_journal_frames"
    and small: "length file \<le> max_journal_bytes"
    using assms(2) by (auto simp: journal_ok_def)
  show ?thesis
  proof (cases "torn = []")
    case True
    then show ?thesis
      using replay_journal [OF assms(1) es, of RepairFinalPartial visitor v] small
      by (simp add: fl split: sum.split)
  next
    case False
    then obtain e k where cut: "entry_ok e" "0 < k" "k < length (frame_bytes sha (zero_hash sha es) e)"
      and t: "torn = take k (frame_bytes sha (zero_hash sha es) e)"
      using torn by (auto simp: torn_tail_def)
    have "length (zero_bytes sha es) + k \<le> max_journal_bytes"
      using small cut(3) by (simp add: fl t)
    then show ?thesis
      using replay_torn [OF assms(1) es cut, of RepairFinalPartial visitor v]
      by (simp add: fl t split: sum.split)
  qed
qed

lemma scan_repairs:
  assumes "hash32 sha" and "journal_ok sha es file"
  shows "scan sha RepairFinalPartial targets file = (zero_bytes sha es,
    Inr \<lparr>sc_frame_count = length es, sc_bytes_consumed = length (zero_bytes sha es),
         sc_last_hash = zero_hash sha es,
         sc_checkpoints = (known_position sha es (fst targets), known_position sha es (snd targets))\<rparr>)"
proof -
  have "replay_with sha RepairFinalPartial (scan_visit targets)
      (initial_checkpoint (fst targets), initial_checkpoint (snd targets)) file
    = (zero_bytes sha es, Inr ((known_position sha es (fst targets), known_position sha es (snd targets)),
        \<lparr>sm_frame_count = length es, sm_final_sequence = length es,
         sm_bytes_consumed = length (zero_bytes sha es), sm_last_hash = zero_hash sha es\<rparr>))"
    using replay_repairs [OF assms, of "scan_visit targets"
        "(initial_checkpoint (fst targets), initial_checkpoint (snd targets))"]
      scan_visits [of targets sha es]
    by (simp add: replay_outcome_def)
  then show ?thesis
    by (simp add: scan_def replay_with_def replay_with_limits_def)
qed

text \<open>Replaying from a position inside the journal runs the visitor over the remaining frames.\<close>

lemma replay_from_position:
  assumes "hash32 sha" and "journal_ok sha es (zero_bytes sha es)" and "n \<le> length es"
    and "rc_sequence start = n" and "rc_end_offset start = length (zero_bytes sha (take n es))"
    and "rc_record_hash start = zero_hash sha (take n es)"
  shows "snd (replay_from sha start visitor v (zero_bytes sha es)) =
    (case run_all visitor (journal_frames sha (zero_hash sha (take n es)) n
            (length (zero_bytes sha (take n es))) (drop n es)) v of
       Inl e \<Rightarrow> Inl (ReplayVisitor e)
     | Inr v' \<Rightarrow> Inr (v', \<lparr>sm_frame_count = length es - n, sm_final_sequence = length es,
         sm_bytes_consumed = length (zero_bytes sha es), sm_last_hash = zero_hash sha es\<rparr>))"
proof -
  let ?file = "zero_bytes sha es"
  let ?pos = "length (zero_bytes sha (take n es))"
  let ?h = "zero_hash sha (take n es)"
  have split: "?file = zero_bytes sha (take n es) @ journal_bytes sha ?h (drop n es)"
    using journal_bytes_append [of sha hash_zero "take n es" "drop n es"] by simp
  have last: "chain_hash sha ?h (drop n es) = zero_hash sha es"
    using chain_hash_append [of sha hash_zero "take n es" "drop n es"] by simp
  have ok: "list_all entry_ok (drop n es)" "length es \<le> max_journal_frames"
    "length ?file \<le> max_journal_bytes"
    using assms(2) by (auto simp: journal_ok_def list_all_iff dest: in_set_dropD)
  have h: "length ?h = 32"
    using length_chain_hash [OF assms(1) length_hash_zero] .
  have stop: "replay_loop sha Inspect production_limits visitor ?file
      (?pos + length (journal_bytes sha ?h (drop n es))) a b c d = (?file, Inr (d, a, b, c))" for a b c d
    using replay_at_end [of sha Inspect production_limits visitor ?file] split
    by (metis length_append)
  have "replay_loop sha Inspect production_limits visitor ?file ?pos 0 n ?h v =
    (case run_all visitor (journal_frames sha ?h n ?pos (drop n es)) v of
       Inl e \<Rightarrow> (?file, Inl (ReplayVisitor e))
     | Inr v' \<Rightarrow> (?file, Inr (v', length es - n, length es, zero_hash sha es)))"
  proof -
    have "max_frames production_limits < 2 ^ 64" "n + length (drop n es) \<le> max_frames production_limits"
      "drop ?pos ?file = journal_bytes sha ?h (drop n es) @ []" "?pos \<le> length ?file"
      using ok(2) assms(3) split
      by (simp_all add: production_limits_def max_journal_frames_def)
    then show ?thesis
      using replay_loop_frames [OF assms(1) h ok(1), of n production_limits 0 ?pos ?file "[]" Inspect
          visitor v] assms(3)
      by (simp add: stop last cong: sum.case_cong)
  qed
  moreover have "?pos \<le> length ?file" using split by simp
  ultimately show ?thesis
    using ok(3) assms(4-6)
    by (simp add: replay_from_def replay_range_def production_limits_def split: sum.split)
qed

section \<open>Ledgers\<close>

definition ledger ::
  "sha256 \<Rightarrow> store_codec \<Rightarrow> entry list \<Rightarrow> mission_projection \<times> event_index \<Rightarrow> bool" where
  "ledger sha codec es s \<longleftrightarrow>
     run_all (tail_visit sha codec) (journal_frames sha hash_zero 0 0 es) (projection_default, []) = Inr s"

lemma ledger_Nil: "ledger sha codec [] s \<longleftrightarrow> s = (projection_default, [])"
  by (auto simp: ledger_def)

lemma ledger_snoc:
  "ledger sha codec (es @ [e]) s \<longleftrightarrow>
     (\<exists>s0. ledger sha codec es s0 \<and> tail_visit sha codec (next_frame sha es e) s0 = Inr s)"
  unfolding ledger_def journal_frames_snoc run_all_snoc by (simp add: rbind_Inr_iff)

lemma ledger_unique: "ledger sha codec es s \<Longrightarrow> ledger sha codec es s' \<Longrightarrow> s = s'"
  by (simp add: ledger_def)

lemma ledger_prefix: "ledger sha codec (xs @ ys) s \<Longrightarrow> \<exists>s0. ledger sha codec xs s0"
proof (induction ys arbitrary: s rule: rev_induct)
  case Nil
  then show ?case by (metis append_Nil2)
next
  case (snoc y ys)
  then obtain s1 where "ledger sha codec (xs @ ys) s1"
    using ledger_snoc [of sha codec "xs @ ys" y s] by auto
  then show ?case by (rule snoc.IH)
qed

text \<open>The rest of a ledger, run from the state of a prefix, leads to the same end.\<close>

lemma ledger_tail:
  assumes "ledger sha codec es s" and "ledger sha codec (take n es) s0" and "n \<le> length es"
  shows "run_all (tail_visit sha codec) (journal_frames sha (zero_hash sha (take n es)) n
      (length (zero_bytes sha (take n es))) (drop n es)) s0 = Inr s"
proof -
  have "journal_frames sha hash_zero 0 0 es = journal_frames sha hash_zero 0 0 (take n es)
     @ journal_frames sha (zero_hash sha (take n es)) n
         (length (zero_bytes sha (take n es))) (drop n es)"
    using journal_frames_append [of sha hash_zero 0 0 "take n es" "drop n es"] assms(3) by simp
  then show ?thesis
    using assms(1,2) by (simp add: ledger_def run_all_append)
qed

text \<open>One accepted frame: what \<open>tail_visit\<close> has checked.\<close>

lemma tail_visit_ok:
  assumes "tail_visit sha codec fr s = Inr s'"
  obtains r fingerprint where "dec_record codec (fr_payload fr) = Some r"
    and "sq_sequence r = fr_sequence fr" and "sq_previous_hash r = fr_previous_hash fr"
    and "validate_id ''event id'' (sq_event_id r) = Inr ()"
    and "event_validate sha (sq_event r) = Inr ()"
    and "event_fingerprint sha codec (sq_event r) = Inr fingerprint"
    and "bm_get (snd s) (sq_event_id r) = None"
    and "projection_apply sha (sq_event r) (fst s) = Inr (fst s')"
    and "snd s' = index_put (sq_event_id r) (sq_sequence r) fingerprint (snd s)"
    and "store_state_digest sha codec (fst s') (snd s') = Inr (fr_state_hash fr)"
  using assms
  by (auto simp: tail_visit_def rbind_Inr_iff Let_def split: option.split_asm if_split_asm)

lemma ledger_last_digest:
  assumes "ledger sha codec es s" and "0 < n" and "n \<le> length es"
    and "ledger sha codec (take n es) s0"
  shows "store_state_digest sha codec (fst s0) (snd s0) = Inr (snd (es ! (n - 1)))"
proof -
  obtain k where n: "n = Suc k" using assms(2) by (cases n) auto
  then have "take n es = take k es @ [es ! k]"
    using assms(3) by (simp add: take_Suc_conv_app_nth)
  then obtain s1 where "tail_visit sha codec (next_frame sha (take k es) (es ! k)) s1 = Inr s0"
    using assms(4) by (auto simp: ledger_snoc)
  then show ?thesis
    by (rule tail_visit_ok) (simp add: next_frame_def n)
qed

text \<open>A ledger is a run of the durable projection, so its missions satisfy the durable invariant.\<close>

lemma ledger_events:
  assumes "ledger sha codec es s"
  shows "\<exists>evs. length evs = length es
    \<and> run_all (projection_apply sha) evs projection_default = Inr (fst s)"
  using assms
proof (induction es arbitrary: s rule: rev_induct)
  case Nil
  then show ?case by (simp add: ledger_Nil)
next
  case (snoc e es)
  then obtain s0 where s0: "ledger sha codec es s0"
    and visit: "tail_visit sha codec (next_frame sha es e) s0 = Inr s"
    by (auto simp: ledger_snoc)
  obtain ev where "projection_apply sha ev (fst s0) = Inr (fst s)"
    using visit by (rule tail_visit_ok)
  moreover obtain evs where "length evs = length es"
    "run_all (projection_apply sha) evs projection_default = Inr (fst s0)"
    using snoc.IH [OF s0] by auto
  ultimately have "length (evs @ [ev]) = length (es @ [e])
    \<and> run_all (projection_apply sha) (evs @ [ev]) projection_default = Inr (fst s)"
    by (simp add: run_all_append)
  then show ?case by blast
qed

section \<open>Preparing a commit\<close>

text \<open>
  The laws of the encoding that the store relies on: what was encoded decodes to the same value
  (a file ends with a newline, which the decoder skips), and a journal head always fits its file.
\<close>

definition codec_ok :: "store_codec \<Rightarrow> bool" where
  "codec_ok codec \<longleftrightarrow>
     (\<forall>r bs. enc_record codec r = Some bs \<longrightarrow> dec_record codec bs = Some r)
     \<and> (\<forall>h bs. enc_head codec h = Some bs \<longrightarrow> dec_head codec (bs @ [10]) = Some h)
     \<and> (\<forall>n h. n < 2 ^ 64 \<longrightarrow> length h = 32 \<longrightarrow>
          (\<exists>bs. enc_head codec \<lparr>jh_version = store_version, jh_sequence = n, jh_record_hash = h\<rparr>
             = Some bs \<and> length bs < max_head_bytes))"

definition head_at :: "sha256 \<Rightarrow> entry list \<Rightarrow> journal_head" where
  "head_at sha es = \<lparr>jh_version = store_version, jh_sequence = length es,
     jh_record_hash = zero_hash sha es\<rparr>"

definition stands_at :: "sha256 \<Rightarrow> store_codec \<Rightarrow> entry list \<Rightarrow> mission_store \<Rightarrow> bool" where
  "stands_at sha codec es st \<longleftrightarrow> ms_journal_head st = head_at sha es
     \<and> ledger sha codec es (ms_projection st, ms_event_index st)"

lemma store_state_digest_length:
  "hash32 sha \<Longrightarrow> store_state_digest sha codec p index = Inr d \<Longrightarrow> length d = 32"
  by (auto simp: store_state_digest_def rbind_Inr_iff hash32_def split: if_split_asm)

lemma duplicate_outcome_iff:
  "duplicate_outcome index event_id fingerprint = Inr None \<longleftrightarrow> bm_get index event_id = None"
  by (auto simp: duplicate_outcome_def split: option.split)

text \<open>What a commit is about to append, replay will accept, and it leads to the prepared state.\<close>

lemma prepared_extends:
  assumes "hash32 sha" and "codec_ok codec" and "stands_at sha codec es st"
    and "prepare_commit sha codec event_id ev st = Inr (Inr pc)"
  shows "ledger sha codec (es @ [(pc_payload pc, pc_state_digest pc)])
      (pc_projection pc, pc_index pc)"
    and "pc_sequence pc = length es + 1" and "length es < max_journal_frames"
    and "entry_ok (pc_payload pc, pc_state_digest pc)"
    and "projection_apply sha ev (ms_projection st) = Inr (pc_projection pc)"
    and "bm_get (pc_index pc) event_id \<noteq> None" and "\<not> ms_poisoned st"
proof -
  let ?e = "(pc_payload pc, pc_state_digest pc)"
  let ?r = "\<lparr>sq_version = store_version, sq_sequence = length es + 1, sq_event_id = event_id,
      sq_previous_hash = zero_hash sha es, sq_projection_digest_after = pc_state_digest pc,
      sq_event = ev\<rparr>"
  have head: "jh_sequence (ms_journal_head st) = length es"
    "jh_record_hash (ms_journal_head st) = zero_hash sha es"
    using assms(3) by (simp_all add: stands_at_def head_at_def)
  from assms(4) obtain fingerprint where checks:
      "validate_id ''event id'' event_id = Inr ()" "event_validate sha ev = Inr ()"
      "event_fingerprint sha codec ev = Inr fingerprint"
      "bm_get (ms_event_index st) event_id = None"
      "projection_apply sha ev (ms_projection st) = Inr (pc_projection pc)"
    and pc: "pc_sequence pc = length es + 1" "length es < max_journal_frames"
      "pc_index pc = index_put event_id (length es + 1) fingerprint (ms_event_index st)"
      "store_state_digest sha codec (pc_projection pc) (pc_index pc) = Inr (pc_state_digest pc)"
      "enc_record codec ?r = Some (pc_payload pc)" "length (pc_payload pc) \<le> max_payload_bytes"
    and live: "\<not> ms_poisoned st"
    by (auto simp: prepare_commit_def head result_iffs Let_def duplicate_outcome_iff
        split: if_split_asm option.split_asm)
  have "dec_record codec (pc_payload pc) = Some ?r"
    using assms(2) pc(5) by (simp add: codec_ok_def)
  then have "tail_visit sha codec (next_frame sha es ?e) (ms_projection st, ms_event_index st)
      = Inr (pc_projection pc, pc_index pc)"
    using checks pc by (simp add: tail_visit_def next_frame_def)
  then show "ledger sha codec (es @ [?e]) (pc_projection pc, pc_index pc)"
    using assms(3) by (auto simp: ledger_snoc stands_at_def)
  show "entry_ok ?e"
    using pc(6) store_state_digest_length [OF assms(1) pc(4)] by (simp add: entry_ok_def)
  show "bm_get (pc_index pc) event_id \<noteq> None"
    by (simp add: pc(3) index_put_def)
  show "pc_sequence pc = length es + 1" "length es < max_journal_frames" "\<not> ms_poisoned st"
    "projection_apply sha ev (ms_projection st) = Inr (pc_projection pc)"
    by (fact pc(1) pc(2) live checks(5))+
qed

section \<open>Opening reads the ledger\<close>

text \<open>
  A snapshot is trusted only through its digest. Two states with one digest are one state when the
  encoding of states is injective and the hash does not collide on them.
\<close>

definition state_input :: "u8 list \<Rightarrow> u8 list" where
  "state_input bytes = bytes_of ''mission-projection-state-v1'' @ [0] @ bytes"

definition digest_faithful :: "sha256 \<Rightarrow> store_codec \<Rightarrow> bool" where
  "digest_faithful sha codec \<longleftrightarrow>
     (\<forall>s s' bs. enc_state codec s = Some bs \<longrightarrow> enc_state codec s' = Some bs \<longrightarrow> s = s')
     \<and> (\<forall>s s' bs bs'. enc_state codec s = Some bs \<longrightarrow> enc_state codec s' = Some bs'
          \<longrightarrow> sha (state_input bs) = sha (state_input bs') \<longrightarrow> bs = bs')"

lemma digest_determines_state:
  assumes "digest_faithful sha codec" and "store_state_digest sha codec p i = Inr d"
    and "store_state_digest sha codec p' i' = Inr d"
  shows "p = p' \<and> i = i'"
proof -
  obtain bs bs' where "enc_state codec (p, i) = Some bs" "enc_state codec (p', i') = Some bs'"
    "sha (state_input bs) = d" "sha (state_input bs') = d"
    using assms(2,3) by (auto simp: store_state_digest_def state_input_def result_iffs split: if_split_asm)
  then show ?thesis
    using assms(1) unfolding digest_faithful_def by blast
qed

definition scanned :: "sha256 \<Rightarrow> entry list \<Rightarrow> nat option \<Rightarrow> nat option \<Rightarrow> scan_summary" where
  "scanned sha es t1 t2 =
     \<lparr>sc_frame_count = length es, sc_bytes_consumed = length (zero_bytes sha es),
      sc_last_hash = zero_hash sha es,
      sc_checkpoints = (known_position sha es t1, known_position sha es t2)\<rparr>"

text \<open>Whatever the bytes of the snapshot are, one that authenticates is the state of a prefix.\<close>

definition at_prefix ::
  "sha256 \<Rightarrow> store_codec \<Rightarrow> entry list \<Rightarrow> verified_snapshot option \<Rightarrow> bool" where
  "at_prefix sha codec es snapshot \<longleftrightarrow>
     (case tail_start snapshot of (start, s) \<Rightarrow>
        (\<exists>n \<le> length es. rc_sequence start = n
           \<and> rc_end_offset start = length (zero_bytes sha (take n es))
           \<and> rc_record_hash start = zero_hash sha (take n es) \<and> ledger sha codec (take n es) s))"

lemma authenticated_at_prefix:
  assumes "digest_faithful sha codec" and "ledger sha codec es s"
    and "authenticate_snapshot sha codec anchor bytes
      (scanned sha es t1 (Some (sa_last_sequence anchor))) = Inr snapshot"
  shows "at_prefix sha codec es (Some snapshot)"
proof -
  let ?n = "sa_last_sequence anchor"
  obtain cp sn digest where cp: "anchor_checkpoint anchor
        (scanned sha es t1 (Some ?n)) = Inr cp"
    and sn: "anchored sn anchor"
      "store_state_digest sha codec (sn_projection sn) (sn_event_index sn) = Inr (sn_state_digest sn)"
    and zero: "?n = 0 \<Longrightarrow> sn_projection sn = projection_default \<and> sn_event_index sn = []"
    and n: "?n \<le> length es"
    and snapshot: "snapshot = \<lparr>vs_checkpoint = cp, vs_projection = sn_projection sn,
        vs_event_index = sn_event_index sn\<rparr>"
    using assms(3)
    by (auto simp: authenticate_snapshot_def result_iffs scanned_def anchored_def
        split: if_split_asm)
  obtain s0 where s0: "ledger sha codec (take ?n es) s0"
    using ledger_prefix [of sha codec "take ?n es" "drop ?n es" s] assms(2) by auto
  show ?thesis
  proof (cases "?n = 0")
    case True
    then have "rc_sequence cp = 0" "rc_end_offset cp = 0" "rc_record_hash cp = hash_zero"
      using cp by (auto simp: anchor_checkpoint_def split: if_split_asm)
    then show ?thesis
      using True zero by (auto simp: at_prefix_def tail_start_def snapshot ledger_Nil)
  next
    case False
    then have pos: "cp = position_at sha es ?n" "rc_state_hash cp = sa_state_digest anchor"
      using cp n
      by (auto simp: anchor_checkpoint_def result_iffs scanned_def known_position_def
          split: if_split_asm)
    then have "sn_state_digest sn = snd (es ! (?n - 1))"
      using sn(1) False by (simp add: anchored_def position_at_def)
    then have "s0 = (sn_projection sn, sn_event_index sn)"
      using digest_determines_state [OF assms(1) sn(2), of "fst s0" "snd s0"]
        ledger_last_digest [OF assms(2) _ n s0] False by (simp add: prod_eq_iff)
    then show ?thesis
      using s0 n by (auto simp: at_prefix_def tail_start_def snapshot pos(1) position_at_def)
  qed
qed

lemma missing_at_prefix: "at_prefix sha codec es None"
  by (auto simp: at_prefix_def tail_start_def checkpoint_zero_def ledger_Nil intro!: exI [of _ 0])

lemma resolved_at_prefix:
  assumes "digest_faithful sha codec" and "ledger sha codec es s"
    and "resolve_snapshot_cache sha codec load (scanned sha es t1 (load_sequence load))
      = Inr (snapshot, corrupt)"
  shows "at_prefix sha codec es snapshot"
  using assms(3)
proof (cases load)
  case (SnapshotUntrusted anchor bytes)
  then show ?thesis
    using assms(3) authenticated_at_prefix [OF assms(1,2)]
    by (auto simp: missing_at_prefix split: sum.split_asm if_split_asm)
qed (auto simp: missing_at_prefix)

lemma tail_loads:
  assumes "hash32 sha" and "journal_ok sha es (zero_bytes sha es)" and "ledger sha codec es s"
    and "at_prefix sha codec es snapshot"
  shows "load_journal_tail sha codec (zero_bytes sha es) (scanned sha es t1 t2) snapshot
    = Inr \<lparr>rs_actual_head = head_at sha es,
           rs_persisted_head_hash = map_option rc_record_hash (known_position sha es t1),
           rs_event_index = snd s, rs_projection = fst s\<rparr>"
proof -
  obtain start s0 where start: "tail_start snapshot = (start, s0)" by (cases "tail_start snapshot")
  then obtain n where n: "n \<le> length es" "rc_sequence start = n"
      "rc_end_offset start = length (zero_bytes sha (take n es))"
      "rc_record_hash start = zero_hash sha (take n es)" and s0: "ledger sha codec (take n es) s0"
    using assms(4) by (auto simp: at_prefix_def)
  obtain p i where s: "s = (p, i)" by (cases s)
  show ?thesis
    using replay_from_position [OF assms(1,2) n, of "tail_visit sha codec" s0]
      ledger_tail [OF assms(3) s0 n(1)]
    by (simp add: load_journal_tail_def start s scanned_def head_at_def)
qed

lemma read_store_sound:
  assumes "hash32 sha" and "digest_faithful sha codec" and "journal_ok sha es (dk_journal disk)"
    and "ledger sha codec es s"
    and "read_store sha codec io RepairFinalPartial disk = (disk1, Inr oj)"
  shows "disk1 = disk\<lparr>dk_journal := zero_bytes sha es\<rparr>"
    and "rs_actual_head (oj_replay oj) = head_at sha es"
    and "rs_projection (oj_replay oj) = fst s" and "rs_event_index (oj_replay oj) = snd s"
proof -
  obtain persisted load where scan: "(case scan sha RepairFinalPartial
        (Some (jh_sequence persisted), load_sequence load) (dk_journal disk) of
       (file, Inl e) \<Rightarrow> (disk\<lparr>dk_journal := file\<rparr>, Inl (SeJournal e))
     | (file, Inr sc) \<Rightarrow>
         (disk\<lparr>dk_journal := file\<rparr>,
          rbind (resolve_snapshot_cache sha codec load sc) (\<lambda>(snapshot, corrupt).
          rbind (load_journal_tail sha codec file sc snapshot) (\<lambda>replay.
            Inr \<lparr>oj_persisted = persisted, oj_replay = replay,
                 oj_snapshot_corrupt = corrupt\<rparr>)))) = (disk1, Inr oj)"
    using assms(5) by (auto simp: read_store_def Let_def split: sum.split_asm option.split_asm)
  let ?sc = "scanned sha es (Some (jh_sequence persisted)) (load_sequence load)"
  have read: "disk1 = disk\<lparr>dk_journal := zero_bytes sha es\<rparr>"
    "rbind (resolve_snapshot_cache sha codec load ?sc) (\<lambda>(snapshot, corrupt).
       rbind (load_journal_tail sha codec (zero_bytes sha es) ?sc snapshot) (\<lambda>replay.
         Inr \<lparr>oj_persisted = persisted, oj_replay = replay, oj_snapshot_corrupt = corrupt\<rparr>)) = Inr oj"
    using scan scan_repairs [OF assms(1,3), of "(Some (jh_sequence persisted), load_sequence load)"]
    by (simp_all add: scanned_def)
  then obtain snapshot corrupt where resolved:
      "resolve_snapshot_cache sha codec load ?sc = Inr (snapshot, corrupt)"
    and oj: "rbind (load_journal_tail sha codec (zero_bytes sha es) ?sc snapshot) (\<lambda>replay.
         Inr \<lparr>oj_persisted = persisted, oj_replay = replay, oj_snapshot_corrupt = corrupt\<rparr>) = Inr oj"
    by (auto simp: rbind_Inr_iff)
  note tail = tail_loads [OF assms(1) journal_ok_repaired [OF assms(3)] assms(4)
      resolved_at_prefix [OF assms(2,4) resolved], of "Some (jh_sequence persisted)" "load_sequence load"]
  show "disk1 = disk\<lparr>dk_journal := zero_bytes sha es\<rparr>"
    "rs_actual_head (oj_replay oj) = head_at sha es"
    "rs_projection (oj_replay oj) = fst s" "rs_event_index (oj_replay oj) = snd s"
    using read(1) oj tail by auto
qed

lemma write_head_frame:
  "write_head codec io head disk = (disk', r) \<Longrightarrow>
     dk_journal disk' = dk_journal disk \<and> dk_snapshot disk' = dk_snapshot disk
     \<and> dk_locked disk' = dk_locked disk"
  by (auto simp: write_head_def split: prod.split_asm)

lemma reconcile_frame:
  assumes "reconcile_head codec io persisted replay disk = (disk', Inr head)"
  shows "head = rs_actual_head replay \<and> dk_journal disk' = dk_journal disk"
  using assms write_head_frame
  by (auto simp: reconcile_head_def split: sum.split_asm if_split_asm prod.split_asm)

lemma checkpoint_frame:
  "checkpoint sha codec io st disk = (disk', r) \<Longrightarrow>
     dk_journal disk' = dk_journal disk \<and> dk_head disk' = dk_head disk
     \<and> dk_locked disk' = dk_locked disk"
  by (auto simp: checkpoint_def split: sum.split_asm prod.split_asm)

lemma quarantine_frame:
  assumes "quarantine_and_rebuild_snapshot sha codec io st disk = (disk', r)"
  shows "dk_journal disk' = dk_journal disk \<and> dk_head disk' = dk_head disk
     \<and> dk_locked disk' = dk_locked disk"
  using assms
  by (auto simp: quarantine_and_rebuild_snapshot_def dest: checkpoint_frame
      split: option.split_asm write_outcome.split_asm)

lemma store_open_sound:
  assumes "hash32 sha" and "digest_faithful sha codec" and "journal_ok sha es (dk_journal disk)"
    and "ledger sha codec es s" and "store_open sha codec io disk = (disk', Inr st)"
  shows "st = \<lparr>ms_journal_head = head_at sha es, ms_event_index = snd s, ms_projection = fst s,
      ms_poisoned = False\<rparr>"
    and "dk_journal disk' = zero_bytes sha es" and "dk_locked disk'"
proof -
  obtain disk1 oj where read: "read_store sha codec io RepairFinalPartial disk = (disk1, Inr oj)"
    using assms(5) by (auto simp: store_open_def split: sum.split_asm if_split_asm prod.split_asm)
  note sound = read_store_sound [OF assms(1-4) read]
  obtain disk2 head where head: "reconcile_head codec io (oj_persisted oj) (oj_replay oj) disk1
      = (disk2, Inr head)"
    using assms(5) read by (auto simp: store_open_def split: sum.split_asm if_split_asm prod.split_asm)
  note hd = reconcile_frame [OF head]
  have disk2: "dk_journal disk2 = zero_bytes sha es"
    using hd sound(1) by simp
  let ?st = "\<lparr>ms_journal_head = head_at sha es, ms_event_index = snd s, ms_projection = fst s,
      ms_poisoned = False\<rparr>"
  have rest: "(if oj_snapshot_corrupt oj then
       (case quarantine_and_rebuild_snapshot sha codec io ?st disk2 of
          (disk3, Inl e) \<Rightarrow> (disk3, Inl e)
        | (disk3, Inr _) \<Rightarrow> (disk3\<lparr>dk_locked := True\<rparr>, Inr ?st))
     else (disk2\<lparr>dk_locked := True\<rparr>, Inr ?st)) = (disk', Inr st)"
    using assms(5) read head hd sound
    by (simp add: store_open_def Let_def split: sum.split_asm if_split_asm)
  then show "st = ?st" "dk_locked disk'"
    by (auto split: if_split_asm prod.split_asm sum.split_asm)
  show "dk_journal disk' = zero_bytes sha es"
  proof (cases "oj_snapshot_corrupt oj")
    case True
    then obtain disk3 u where q: "quarantine_and_rebuild_snapshot sha codec io ?st disk2 = (disk3, u)"
      and "disk' = disk3\<lparr>dk_locked := True\<rparr>"
      using rest by (auto split: prod.split_asm sum.split_asm)
    moreover have "dk_journal disk3 = dk_journal disk2"
      using quarantine_frame [OF q] by simp
    ultimately show ?thesis using disk2 by simp
  next
    case False
    then show ?thesis using rest disk2 by auto
  qed
qed

end
