(* ===== verification/Store_Crash.thy ===== *)
theory Store_Crash
  imports Store_Recovery
begin

text \<open>
  The store as a whole: a commit under any failure of the operating system, followed by a crash and
  a reopening, leaves the state before the commit or the state after it, and the one after it when
  the commit reported success. Reopening without failures succeeds.
\<close>

section \<open>The disk of a store\<close>

definition head_ok :: "sha256 \<Rightarrow> store_codec \<Rightarrow> entry list \<Rightarrow> store_disk \<Rightarrow> bool" where
  "head_ok sha codec es disk \<longleftrightarrow>
     (case dk_head disk of None \<Rightarrow> True
      | Some contents \<Rightarrow> (\<exists>n bs. n \<le> length es \<and> enc_head codec (head_at sha (take n es)) = Some bs
          \<and> contents = bs @ [10] \<and> length contents \<le> max_head_bytes))"

text \<open>A live store and its disk, which stand at the end of the same ledger.\<close>

definition store_repr ::
  "sha256 \<Rightarrow> store_codec \<Rightarrow> entry list \<Rightarrow> mission_store \<Rightarrow> store_disk \<Rightarrow> bool" where
  "store_repr sha codec es st disk \<longleftrightarrow> stands_at sha codec es st \<and> \<not> ms_poisoned st
     \<and> dk_journal disk = zero_bytes sha es \<and> journal_ok sha es (zero_bytes sha es)
     \<and> head_ok sha codec es disk"

definition calm :: "store_io \<Rightarrow> bool" where
  "calm io \<longleftrightarrow> io_torn io = None \<and> (\<forall>path. io_check io path = None)
     \<and> (\<forall>path. io_write io path = Written)"

lemma head_ok_snoc: "head_ok sha codec es disk \<Longrightarrow> head_ok sha codec (es @ [e]) disk"
proof (cases "dk_head disk")
  case (Some contents)
  moreover assume "head_ok sha codec es disk"
  ultimately obtain n bs where "n \<le> length es" "enc_head codec (head_at sha (take n es)) = Some bs"
    "contents = bs @ [10]" "length contents \<le> max_head_bytes"
    by (auto simp: head_ok_def)
  then show "head_ok sha codec (es @ [e]) disk"
    using Some by (auto simp: head_ok_def intro!: exI [of _ n])
qed (simp add: head_ok_def)

lemma head_ok_frame: "dk_head disk' = dk_head disk \<Longrightarrow> head_ok sha codec es disk' = head_ok sha codec es disk"
  by (simp add: head_ok_def)

lemma length_zero_hash: "hash32 sha \<Longrightarrow> length (zero_hash sha es) = 32"
  by (rule length_chain_hash [OF _ length_hash_zero])

lemma head_at_encodes:
  assumes "hash32 sha" and "codec_ok codec" and "length es \<le> max_journal_frames"
  obtains bs where "enc_head codec (head_at sha es) = Some bs" and "length bs < max_head_bytes"
proof -
  have "length es < 2 ^ 64"
    using assms(3) by (simp add: max_journal_frames_def)
  then show ?thesis
    using assms(2) length_zero_hash [OF assms(1), of es] that
    unfolding codec_ok_def head_at_def by blast
qed

lemma write_head_keeps:
  assumes "write_head codec io (head_at sha es) disk = (disk', r)" and "head_ok sha codec es disk"
  shows "head_ok sha codec es disk'"
proof -
  have new: "head_ok sha codec es (disk\<lparr>dk_head := Some (bs @ [10])\<rparr>)"
    if "enc_head codec (head_at sha es) = Some bs" "length (bs @ [10]) \<le> max_head_bytes" for bs
    using that by (auto simp: head_ok_def intro!: exI [of _ "length es"])
  have old: "head_ok sha codec es (disk\<lparr>dk_head := dk_head disk\<rparr>)"
    using assms(2) by (simp add: head_ok_def)
  show ?thesis
    using assms(1) new old
    by (auto simp: write_head_def atomic_write_json_limited_def Let_def
        split: option.split_asm if_split_asm write_outcome.split_asm)
qed

section \<open>Committing under failures\<close>

lemma journal_ok_extend:
  assumes "hash32 sha" and "journal_ok sha es (zero_bytes sha es)" and "entry_ok e"
    and "length es < max_journal_frames"
    and "length (zero_bytes sha es) + length (frame_bytes sha (zero_hash sha es) e) \<le> max_journal_bytes"
  shows "journal_ok sha (es @ [e]) (zero_bytes sha (es @ [e]))"
  using assms by (auto simp: journal_ok_def torn_tail_def journal_bytes_snoc)

text \<open>The three things an append can leave behind: nothing, a torn frame, a whole frame.\<close>

lemma append_leaves:
  assumes "hash32 sha" and "journal_ok sha es (zero_bytes sha es)" and "entry_ok e"
    and "length es < max_journal_frames"
    and "journal_append sha torn (fst e) (zero_hash sha es) (snd e) (zero_bytes sha es) = (file, r)"
  shows "journal_ok sha es file \<and> (\<exists>err. r = Inl err)
    \<or> journal_ok sha (es @ [e]) file \<and> file = zero_bytes sha (es @ [e])
      \<and> (r = Inr (zero_hash sha (es @ [e])) \<or> (\<exists>err. r = Inl err))"
proof -
  let ?f = "frame_bytes sha (zero_hash sha es) e"
  have len: "length ?f = frame_header_len + length (fst e) + record_hash_len"
    using length_frame_bytes [OF assms(1) length_zero_hash [OF assms(1)] assms(3)] .
  show ?thesis
  proof (cases "length (zero_bytes sha es) + length ?f \<le> max_journal_bytes")
    case False
    then have "file = zero_bytes sha es" "\<exists>err. r = Inl err"
      using assms(5) len by (auto simp: journal_append_def Let_def split: if_split_asm)
    then show ?thesis using assms(2) by simp
  next
    case True
    note whole = journal_ok_extend [OF assms(1-4) True]
    have room: "length (zero_bytes sha es) + frame_header_len + length (fst e) + record_hash_len
        \<le> max_journal_bytes" and small: "max_journal_bytes < 2 ^ 64"
      using True len by (simp_all add: max_journal_bytes_def)
    have p: "length (fst e) \<le> max_payload_bytes" "length (fst e) < 2 ^ 32"
      using assms(3) payload_fits [OF assms(3)] by (simp_all add: entry_ok_def)
    show ?thesis
    proof (cases torn)
      case None
      then have "file = zero_bytes sha (es @ [e])" "r = Inr (zero_hash sha (es @ [e]))"
        using assms(5) room small p
        by (auto simp: journal_append_def Let_def journal_bytes_snoc chain_hash_snoc)
      then show ?thesis using whole by simp
    next
      case (Some k)
      then have fl: "file = zero_bytes sha es @ take k ?f" and r: "r = Inl JournalIo"
        using assms(5) room small p by (auto simp: journal_append_def Let_def)
      consider "k = 0" | "0 < k" "k < length ?f" | "length ?f \<le> k" by linarith
      then show ?thesis
      proof cases
        case 1
        then show ?thesis using fl r assms(2) by simp
      next
        case 2
        then have "torn_tail sha es (take k ?f)"
          using assms(3) unfolding torn_tail_def by blast
        moreover have "length file \<le> max_journal_bytes"
          using fl True 2(2) by simp
        ultimately have "journal_ok sha es file"
          using assms(2) fl by (auto simp: journal_ok_def)
        then show ?thesis using r by simp
      next
        case 3
        then show ?thesis using fl r whole by (simp add: journal_bytes_snoc)
      qed
    qed
  qed
qed

definition outcome_at ::
  "sha256 \<Rightarrow> store_codec \<Rightarrow> entry list \<Rightarrow> mission_projection \<times> event_index \<Rightarrow> store_disk \<Rightarrow> bool" where
  "outcome_at sha codec es s disk \<longleftrightarrow>
     ledger sha codec es s \<and> journal_ok sha es (dk_journal disk) \<and> head_ok sha codec es disk"

text \<open>
  Every way a commit can end: the old ledger, or the new one with the prepared state; success only
  with the new one, and then the store stands at it.
\<close>

lemma write_commit_leaves:
  assumes "hash32 sha" and "codec_ok codec" and "store_repr sha codec es st disk"
    and "prepare_commit sha codec event_id ev st = Inr (Inr pc)"
    and "write_commit sha codec io pc st disk = (st', disk', r)"
  shows "(outcome_at sha codec es (ms_projection st, ms_event_index st) disk' \<and> (\<exists>e. r = Inl e))
    \<or> (outcome_at sha codec (es @ [(pc_payload pc, pc_state_digest pc)])
          (pc_projection pc, pc_index pc) disk'
        \<and> ((\<exists>e. r = Inl e)
           \<or> r = Inr \<lparr>co_sequence = length es + 1, co_was_duplicate = False\<rparr>
             \<and> store_repr sha codec (es @ [(pc_payload pc, pc_state_digest pc)]) st' disk'
             \<and> ms_projection st' = pc_projection pc \<and> ms_event_index st' = pc_index pc))"
proof -
  let ?e = "(pc_payload pc, pc_state_digest pc)"
  let ?es = "es @ [?e]"
  have stands: "stands_at sha codec es st" and live: "\<not> ms_poisoned st"
    and j: "dk_journal disk = zero_bytes sha es" "journal_ok sha es (zero_bytes sha es)"
    and head: "head_ok sha codec es disk"
    using assms(3) by (auto simp: store_repr_def)
  note prep = prepared_extends [OF assms(1,2) stands assms(4)]
  have hash: "jh_record_hash (ms_journal_head st) = zero_hash sha es"
    and old: "ledger sha codec es (ms_projection st, ms_event_index st)"
    using stands by (auto simp: stands_at_def head_at_def)
  obtain "file" a where app: "journal_append sha (io_torn io) (pc_payload pc) (zero_hash sha es)
      (pc_state_digest pc) (zero_bytes sha es) = (file, a)" by fastforce
  note leaves = append_leaves [OF assms(1) j(2) prep(4,3), of "io_torn io" "file" a, simplified, OF app]
  show ?thesis
  proof (cases a)
    case (Inl err)
    then have "disk' = disk\<lparr>dk_journal := file\<rparr>" "r = Inl (SeJournal err)"
      using assms(5) app by (simp_all add: write_commit_def hash j)
    then show ?thesis
      using leaves Inl old prep(1) head head_ok_snoc [OF head, of ?e]
      by (auto simp: outcome_at_def head_ok_def)
  next
    case (Inr h)
    have whole: "journal_ok sha ?es file" "file = zero_bytes sha ?es" "h = zero_hash sha ?es"
      using leaves Inr by auto
    have next_head: "\<lparr>jh_version = store_version, jh_sequence = pc_sequence pc, jh_record_hash = h\<rparr>
        = head_at sha ?es"
      by (simp add: head_at_def whole(3) prep(2))
    obtain disk2 u where wr: "write_head codec io (head_at sha ?es) (disk\<lparr>dk_journal := file\<rparr>)
        = (disk2, u)" by fastforce
    have "head_ok sha codec ?es (disk\<lparr>dk_journal := file\<rparr>)"
      using head_ok_snoc [OF head, of ?e] by (simp add: head_ok_def)
    then have at: "outcome_at sha codec ?es (pc_projection pc, pc_index pc) disk2"
      using prep(1) whole(1) write_head_frame [OF wr] write_head_keeps [OF wr]
      by (simp add: outcome_at_def)
    have result: "(st', disk', r) = (case u of
        Inl e \<Rightarrow> (st\<lparr>ms_poisoned := True\<rparr>, disk2, Inl e)
      | Inr _ \<Rightarrow> (st\<lparr>ms_journal_head := head_at sha ?es, ms_event_index := pc_index pc,
            ms_projection := pc_projection pc\<rparr>, disk2,
          Inr \<lparr>co_sequence = pc_sequence pc, co_was_duplicate = False\<rparr>))"
      using assms(5) app wr Inr next_head by (simp add: write_commit_def hash j Let_def split: sum.split)
    show ?thesis
    proof (cases u)
      case (Inl e)
      then show ?thesis using result at by auto
    next
      case (Inr v)
      then have "store_repr sha codec ?es st' disk'"
        using result at live write_head_frame [OF wr] whole(2)
        by (auto simp: store_repr_def stands_at_def outcome_at_def)
      then show ?thesis using result at Inr prep(2) by auto
    qed
  qed
qed

section \<open>Reopening succeeds\<close>

lemma head_loads:
  assumes "codec_ok codec" and "calm io" and "head_ok sha codec es disk"
  obtains loaded n where "load_head codec io disk = Inr loaded" and "n \<le> length es"
    and "(case loaded of None \<Rightarrow> head_empty | Some h \<Rightarrow> h) = head_at sha (take n es)"
proof (cases "dk_head disk")
  case None
  then have "load_head codec io disk = Inr None"
    using assms(2) by (simp add: load_head_def calm_def)
  then show ?thesis
    using that [of None 0] by (simp add: head_at_def head_empty_def)
next
  case (Some contents)
  then obtain n bs where n: "n \<le> length es" "enc_head codec (head_at sha (take n es)) = Some bs"
    "contents = bs @ [10]" "length contents \<le> max_head_bytes"
    using assms(3) by (auto simp: head_ok_def)
  then have "dec_head codec contents = Some (head_at sha (take n es))"
    using assms(1) by (simp add: codec_ok_def)
  then have "load_head codec io disk = Inr (Some (head_at sha (take n es)))"
    using assms(2) Some n by (simp add: load_head_def calm_def read_limited_def head_at_def)
  then show ?thesis
    using that n(1) by simp
qed

lemma store_open_succeeds:
  assumes "hash32 sha" and "codec_ok codec" and "outcome_at sha codec es s disk"
    and "calm io" and "dk_snapshot disk = None" and "\<not> dk_locked disk"
  shows "\<exists>disk' st. store_open sha codec io disk = (disk', Inr st)"
proof -
  have led: "ledger sha codec es s" and j: "journal_ok sha es (dk_journal disk)"
    and head: "head_ok sha codec es disk"
    using assms(3) by (auto simp: outcome_at_def)
  obtain loaded n where load: "load_head codec io disk = Inr loaded" and n: "n \<le> length es"
    and persisted: "(case loaded of None \<Rightarrow> head_empty | Some h \<Rightarrow> h) = head_at sha (take n es)"
    using head_loads [OF assms(2,4) head] .
  have snap: "load_untrusted_snapshot codec io disk = Inr SnapshotMissing"
    using assms(4,5) by (simp add: load_untrusted_snapshot_def calm_def)
  have seq: "jh_sequence (head_at sha (take n es)) = n"
    using n by (simp add: head_at_def)
  let ?replay = "\<lparr>rs_actual_head = head_at sha es,
      rs_persisted_head_hash = Some (zero_hash sha (take n es)), rs_event_index = snd s,
      rs_projection = fst s\<rparr>"
  have "load_journal_tail sha codec (zero_bytes sha es) (scanned sha es (Some n) None) None
      = Inr ?replay"
    using tail_loads [OF assms(1) journal_ok_repaired [OF j] led missing_at_prefix, of "Some n" None]
      n by (simp add: known_position_def position_at_def)
  then have read: "read_store sha codec io RepairFinalPartial disk
      = (disk\<lparr>dk_journal := zero_bytes sha es\<rparr>, Inr \<lparr>oj_persisted = head_at sha (take n es),
          oj_replay = ?replay, oj_snapshot_corrupt = False\<rparr>)"
    using scan_repairs [OF assms(1) j, of "(Some n, None)"]
    by (simp add: read_store_def load snap persisted seq scanned_def)
  have valid: "validate_persisted_head (head_at sha (take n es)) ?replay = Inr ()"
    using n by (simp add: validate_persisted_head_def head_at_def)
  obtain bs where bs: "enc_head codec (head_at sha es) = Some bs" "length bs < max_head_bytes"
    using head_at_encodes [OF assms(1,2)] j by (auto simp: journal_ok_def)
  have "\<exists>disk2. reconcile_head codec io (head_at sha (take n es)) ?replay
      (disk\<lparr>dk_journal := zero_bytes sha es\<rparr>) = (disk2, Inr (head_at sha es))"
    using bs valid assms(4)
    by (auto simp: reconcile_head_def write_head_def atomic_write_json_limited_def calm_def Let_def)
  then show ?thesis
    using read assms(4,6)
    by (auto simp: store_open_def first_failed_check_def calm_def Let_def)
qed

end
