(* ===== verification/Store_Crash_Props.thy ===== *)
theory Store_Crash_Props
  imports Store_Crash
begin

text \<open>
  The promises of the mission store, stated for any behaviour of the operating system, with a
  small encoding on which the hypotheses hold.
\<close>

section \<open>A small encoding\<close>

text \<open>It can write one event, the records of that event, every journal head, and two states.\<close>

definition toy_event :: persistable_mission_event where
  "toy_event = MissionCreated ''m'' ''t'' ''/r'' (repository_path_hash toy_hash ''/r'') ''o'' [''d''] 5"

definition toy_mission :: persisted_mission where
  "toy_mission = new_mission ''t'' ''/r'' (repository_path_hash toy_hash ''/r'') ''o'' [''d''] 5"

definition toy_fingerprint :: string where
  "toy_fingerprint = cd_finish toy_hash (cd_bytes [7] (cd_new ''mission-event-idempotence-v1''))"

definition toy_state :: "mission_projection \<times> event_index" where
  "toy_state = (\<lparr>missions = [(''m'', toy_mission)]\<rparr>,
     [(''e'', \<lparr>ix_sequence = 1, ix_event_fingerprint = toy_fingerprint\<rparr>)])"

definition toy_codec :: store_codec where
  "toy_codec =
     \<lparr>enc_event = (\<lambda>_. Some [7]),
      enc_record = (\<lambda>r. if sq_version r = store_version \<and> sq_sequence r < 256
          \<and> sq_event_id r = ''e'' \<and> length (sq_previous_hash r) = 32
          \<and> length (sq_projection_digest_after r) = 32 \<and> sq_event r = toy_event
        then Some (of_nat (sq_sequence r) # sq_previous_hash r @ sq_projection_digest_after r)
        else None),
      dec_record = (\<lambda>bs. if length bs = 65
        then Some \<lparr>sq_version = store_version, sq_sequence = unat (hd bs), sq_event_id = ''e'',
          sq_previous_hash = take 32 (tl bs), sq_projection_digest_after = drop 32 (tl bs),
          sq_event = toy_event\<rparr>
        else None),
      enc_state = (\<lambda>s. if s = toy_state then Some [1]
        else if s = (projection_default, []) then Some [0] else None),
      enc_head = (\<lambda>h. if jh_version h = store_version \<and> jh_sequence h < 2 ^ 64
          \<and> length (jh_record_hash h) = 32
        then Some (be_bytes 8 (jh_sequence h) @ jh_record_hash h) else None),
      dec_head = (\<lambda>bs. if length bs = 41
        then Some \<lparr>jh_version = store_version, jh_sequence = from_be (take 8 bs),
          jh_record_hash = take 32 (drop 8 bs)\<rparr>
        else None),
      enc_snapshot = (\<lambda>_. Some [3]), dec_snapshot = (\<lambda>_. None), dec_anchor = (\<lambda>_. None)\<rparr>"

lemma toy_codec_ok: "codec_ok toy_codec"
proof -
  have "n < 256 \<Longrightarrow> unat (of_nat n :: u8) = n" for n
    by (simp add: unat_of_nat)
  moreover have "n < 2 ^ 64 \<Longrightarrow> from_be (be_bytes 8 n) = n" for n
    using from_be_be_bytes [of n 8] by simp
  ultimately show ?thesis
    by (auto simp: codec_ok_def toy_codec_def max_head_bytes_def
        intro!: sequenced_mission_event.equality journal_head.equality split: if_split_asm)
qed

lemma toy_digest_faithful: "digest_faithful toy_hash toy_codec"
proof -
  have differ: "toy_state \<noteq> (projection_default, [])"
    by (simp add: toy_state_def)
  have enc: "enc_state toy_codec s = Some bs \<longleftrightarrow>
      s = toy_state \<and> bs = [1] \<or> s = (projection_default, []) \<and> bs = [0]" for s bs
    using differ by (auto simp: toy_codec_def)
  have "toy_hash (state_input [0]) \<noteq> toy_hash (state_input [1])"
    by (simp add: toy_hash_def state_input_def)
  then show ?thesis
    unfolding digest_faithful_def enc by (intro conjI allI impI; elim disjE conjE; simp)
qed

definition calm_io :: store_io where
  "calm_io = \<lparr>io_check = (\<lambda>_. None), io_torn = None, io_write = (\<lambda>_. Written)\<rparr>"

definition empty_store :: mission_store where
  "empty_store = \<lparr>ms_journal_head = head_empty, ms_event_index = [],
     ms_projection = projection_default, ms_poisoned = False\<rparr>"

definition empty_disk :: store_disk where
  "empty_disk = \<lparr>dk_journal = [], dk_head = None, dk_snapshot = None, dk_quarantine = None,
     dk_locked = False\<rparr>"

lemma calm_calm_io: "calm calm_io"
  by (simp add: calm_def calm_io_def)

lemma empty_store_repr: "store_repr sha codec [] empty_store empty_disk"
  by (simp add: store_repr_def stands_at_def empty_store_def empty_disk_def head_at_def
      head_empty_def ledger_Nil journal_ok_def torn_tail_def head_ok_def)

lemma toy_texts: "validate_text l ''t'' (Suc 0) 256 = Inr ()"
  "validate_text l ''/r'' (Suc 0) 4096 = Inr ()" "validate_text l ''o'' (Suc 0) 8192 = Inr ()"
  "validate_text l ''d'' (Suc 0) 1024 = Inr ()"
  "validate_id l ''m'' = Inr ()" "validate_id l ''e'' = Inr ()"
  by (simp_all add: validate_text_def trim_len_def trim_chars_def len_utf8_def has_unsupported_control_def
      utf8_width_def utf8_code_def utf8_lead_def ascii_code_def is_whitespace_def is_control_def
      Let_def validate_id_def is_id_byte_def is_ascii_alphanumeric_def is_ascii_digit_def)

lemma toy_event_valid: "event_validate toy_hash toy_event = Inr ()"
  by (simp add: event_validate_def toy_event_def toy_texts path_is_absolute_def)

definition toy_digest :: state_hash where
  "toy_digest = toy_hash (bytes_of ''mission-projection-state-v1'' @ [0] @ [1])"

definition toy_prepared :: prepared_commit where
  "toy_prepared = \<lparr>pc_payload = 1 # hash_zero @ toy_digest, pc_state_digest = toy_digest,
     pc_sequence = 1, pc_projection = fst toy_state, pc_index = snd toy_state\<rparr>"

lemma toy_prepare:
  "prepare_commit toy_hash toy_codec ''e'' toy_event empty_store = Inr (Inr toy_prepared)"
proof -
  have "event_fingerprint toy_hash toy_codec toy_event = Inr toy_fingerprint"
    by (simp add: event_fingerprint_def toy_codec_def toy_fingerprint_def)
  moreover have "projection_apply toy_hash toy_event projection_default = Inr (fst toy_state)"
    by (simp add: toy_event_def toy_state_def toy_mission_def mission_created_def
        projection_default_def)
  moreover have "store_state_digest toy_hash toy_codec (fst toy_state) (snd toy_state) = Inr toy_digest"
    by (simp add: store_state_digest_def toy_codec_def toy_digest_def max_snapshot_bytes_def)
  moreover have "length toy_digest = 32" "length hash_zero = 32"
    by (simp_all add: toy_digest_def toy_hash_def hash_zero_def)
  moreover have "sealing_receipt toy_event = None"
    by (simp add: toy_event_def)
  moreover have "index_put ''e'' (Suc 0) toy_fingerprint [] = snd toy_state"
    by (simp add: index_put_def toy_state_def)
  ultimately show ?thesis
    using toy_event_valid
    by (simp add: prepare_commit_def empty_store_def toy_texts duplicate_outcome_def
        validate_current_proof_authority_def head_empty_def Let_def toy_prepared_def
        max_journal_frames_def max_payload_bytes_def toy_codec_def)
qed

section \<open>Properties\<close>



lemma commit_keeps_snapshot:
  "commit sha codec io event_id ev st disk = (st', disk', r) \<Longrightarrow> dk_snapshot disk' = dk_snapshot disk"
  by (auto simp: commit_def write_commit_def Let_def dest: write_head_frame
      split: sum.split_asm prod.split_asm)

text \<open>Every end of a commit, in the form the next two properties use.\<close>

lemma commit_leaves:
  assumes "hash32 sha" and "codec_ok codec" and "store_repr sha codec es st disk"
    and "commit sha codec io event_id ev st disk = (st', disk', r)"
  obtains (old) "outcome_at sha codec es (ms_projection st, ms_event_index st) disk'"
      and "\<And>out. r = Inr out \<Longrightarrow> st' = st \<and> disk' = disk"
    | (new) es' p index where "outcome_at sha codec es' (p, index) disk'"
      and "projection_apply sha ev (ms_projection st) = Inr p"
      and "bm_get index event_id \<noteq> None"
      and "\<And>out. r = Inr out \<Longrightarrow> store_repr sha codec es' st' disk'
        \<and> ms_projection st' = p \<and> ms_event_index st' = index"
proof -
  have here: "outcome_at sha codec es (ms_projection st, ms_event_index st) disk"
    using assms(3) by (auto simp: store_repr_def outcome_at_def stands_at_def)
  show thesis
  proof (cases "prepare_commit sha codec event_id ev st")
    case (Inl e)
    then show ?thesis using assms(4) here that(1) by (simp add: commit_def)
  next
    case (Inr x)
    show ?thesis
    proof (cases x)
      case (Inl out)
      then show ?thesis using assms(4) here that(1) Inr by (simp add: commit_def)
    next
      case prep: (Inr pc)
      have stands: "stands_at sha codec es st"
        using assms(3) by (simp add: store_repr_def)
      have pc: "prepare_commit sha codec event_id ev st = Inr (Inr pc)"
        using Inr prep by simp
      note ext = prepared_extends [OF assms(1,2) stands pc]
      have "write_commit sha codec io pc st disk = (st', disk', r)"
        using assms(4) pc by (simp add: commit_def)
      from write_commit_leaves [OF assms(1-3) pc this] show ?thesis
      proof (elim disjE conjE)
        assume "outcome_at sha codec es (ms_projection st, ms_event_index st) disk'" "\<exists>e. r = Inl e"
        then show ?thesis using that(1) by fastforce
      next
        assume "outcome_at sha codec (es @ [(pc_payload pc, pc_state_digest pc)])
          (pc_projection pc, pc_index pc) disk'" "\<exists>e. r = Inl e"
        then show ?thesis using that(2) ext(5,6) by fastforce
      next
        assume "outcome_at sha codec (es @ [(pc_payload pc, pc_state_digest pc)])
          (pc_projection pc, pc_index pc) disk'"
          "store_repr sha codec (es @ [(pc_payload pc, pc_state_digest pc)]) st' disk'"
          "ms_projection st' = pc_projection pc" "ms_event_index st' = pc_index pc"
        then show ?thesis using that(2) ext(5,6) by fastforce
      qed
    qed
  qed
qed

lemma store_repr_eq:
  "store_repr sha codec es st disk \<Longrightarrow> st = \<lparr>ms_journal_head = head_at sha es,
     ms_event_index = ms_event_index st, ms_projection = ms_projection st, ms_poisoned = False\<rparr>"
  by (simp add: store_repr_def stands_at_def)



text \<open>A committed event is in the index, under its sequence and fingerprint.\<close>

lemma commit_indexed:
  assumes "commit sha codec io event_id ev st disk = (st', disk', Inr out)"
  shows "\<not> ms_poisoned st' \<and> validate_id ''event id'' event_id = Inr () \<and> event_validate sha ev = Inr ()
    \<and> (\<exists>fingerprint. event_fingerprint sha codec ev = Inr fingerprint
      \<and> bm_get (ms_event_index st') event_id
          = Some \<lparr>ix_sequence = co_sequence out, ix_event_fingerprint = fingerprint\<rparr>)"
proof (cases "prepare_commit sha codec event_id ev st")
  case (Inl e)
  then show ?thesis using assms by (simp add: commit_def)
next
  case (Inr x)
  show ?thesis
  proof (cases x)
    case dup: (Inl out')
    then obtain f where "\<not> ms_poisoned st" "validate_id ''event id'' event_id = Inr ()"
      "event_validate sha ev = Inr ()" "event_fingerprint sha codec ev = Inr f"
      and known: "duplicate_outcome (ms_event_index st) event_id f = Inr (Some out')"
      using Inr
      by (auto simp: prepare_commit_def rbind_Inr_iff Let_def split: if_split_asm option.split_asm)
    moreover obtain entry where "bm_get (ms_event_index st) event_id = Some entry"
      "ix_event_fingerprint entry = f"
      "out' = \<lparr>co_sequence = ix_sequence entry, co_was_duplicate = True\<rparr>"
      using known by (auto simp: duplicate_outcome_def split: option.split_asm if_split_asm)
    moreover have "st' = st" "out = out'" using assms Inr dup by (simp_all add: commit_def)
    ultimately show ?thesis by auto
  next
    case new: (Inr pc)
    then obtain f where "\<not> ms_poisoned st" "validate_id ''event id'' event_id = Inr ()"
      "event_validate sha ev = Inr ()" "event_fingerprint sha codec ev = Inr f"
      "pc_index pc = index_put event_id (pc_sequence pc) f (ms_event_index st)"
      using Inr
      by (auto simp: prepare_commit_def rbind_Inr_iff Let_def split: if_split_asm option.split_asm)
    moreover have "ms_event_index st' = pc_index pc" "co_sequence out = pc_sequence pc"
      "ms_poisoned st' = ms_poisoned st"
      using assms Inr new
      by (auto simp: commit_def write_commit_def Let_def split: prod.split_asm sum.split_asm)
    ultimately show ?thesis by (simp add: index_put_def)
  qed
qed

text \<open>
  Committing is idempotent: repeating a committed event under its id returns the sequence of
  the first commit, marked as a duplicate, and changes neither memory nor disk; another event
  under that id is refused as a conflict and changes nothing.
\<close>

theorem commit_retry_is_idempotent:
  assumes "commit sha codec io event_id ev st disk = (st', disk', Inr out)"
  shows "commit sha codec io' event_id ev st' disk'
      = (st', disk', Inr \<lparr>co_sequence = co_sequence out, co_was_duplicate = True\<rparr>)
    \<and> (event_validate sha other = Inr ()
        \<and> (\<exists>f f'. event_fingerprint sha codec ev = Inr f
             \<and> event_fingerprint sha codec other = Inr f' \<and> f \<noteq> f')
      \<longrightarrow> commit sha codec io' event_id other st' disk'
            = (st', disk', Inl (SeReplay (EventIdConflict event_id))))"
proof -
  obtain f where facts: "\<not> ms_poisoned st'" "validate_id ''event id'' event_id = Inr ()"
      "event_validate sha ev = Inr ()" "event_fingerprint sha codec ev = Inr f"
      "bm_get (ms_event_index st') event_id
         = Some \<lparr>ix_sequence = co_sequence out, ix_event_fingerprint = f\<rparr>"
    using commit_indexed [OF assms] by auto
  then show ?thesis
    by (auto simp: commit_def prepare_commit_def duplicate_outcome_def)
qed

lemma toy_commit:
  "commit toy_hash toy_codec calm_io ''e'' toy_event empty_store empty_disk
     = (\<lparr>ms_journal_head = head_at toy_hash [(pc_payload toy_prepared, toy_digest)],
         ms_event_index = snd toy_state, ms_projection = fst toy_state, ms_poisoned = False\<rparr>,
        empty_disk\<lparr>dk_journal := zero_bytes toy_hash [(pc_payload toy_prepared, toy_digest)],
          dk_head := Some (be_bytes 8 1
            @ zero_hash toy_hash [(pc_payload toy_prepared, toy_digest)] @ [10])\<rparr>,
        Inr \<lparr>co_sequence = 1, co_was_duplicate = False\<rparr>)"
proof -
  let ?e = "(pc_payload toy_prepared, toy_digest)"
  have e: "entry_ok ?e"
    by (simp add: entry_ok_def toy_prepared_def toy_digest_def toy_hash_def hash_zero_def
        max_payload_bytes_def)
  have len: "length (frame_bytes toy_hash hash_zero ?e) \<le> max_journal_bytes"
    using length_frame_bytes [OF toy_hash32 length_hash_zero e] e
    by (simp add: entry_ok_def journal_consts)
  have app: "journal_append toy_hash None (pc_payload toy_prepared) hash_zero toy_digest []
      = (zero_bytes toy_hash [?e], Inr (zero_hash toy_hash [?e]))"
    using journal_append_small [OF toy_hash32 length_hash_zero e, of "[]"] len by simp
  have hash: "length (zero_hash toy_hash [?e]) = 32"
    by (rule length_zero_hash [OF toy_hash32])
  then show ?thesis
    using toy_prepare app
    by (simp add: commit_def write_commit_def calm_io_def empty_store_def empty_disk_def
        head_empty_def toy_prepared_def write_head_def atomic_write_json_limited_def toy_codec_def
        max_head_bytes_def head_at_def Let_def)
qed

theorem commit_retry_is_idempotent_witness:
  "\<exists>st' disk'. commit toy_hash toy_codec calm_io ''e'' toy_event empty_store empty_disk
       = (st', disk', Inr \<lparr>co_sequence = 1, co_was_duplicate = False\<rparr>)
     \<and> commit toy_hash toy_codec calm_io ''e'' toy_event st' disk'
       = (st', disk', Inr \<lparr>co_sequence = 1, co_was_duplicate = True\<rparr>)"
  using commit_retry_is_idempotent [OF toy_commit, of calm_io] toy_commit by simp

text \<open>
  A failed commit stops the writer or leaves no trace: either neither memory nor disk changed,
  or the projection and the index in memory are untouched and the store is poisoned, after which
  every further commit is refused without changing anything.
\<close>

theorem failed_commit_is_fail_stop:
  assumes "commit sha codec io event_id ev st disk = (st', disk', Inl e)"
  shows "(st' = st \<and> disk' = disk)
    \<or> (ms_projection st' = ms_projection st \<and> ms_event_index st' = ms_event_index st
       \<and> ms_journal_head st' = ms_journal_head st \<and> ms_poisoned st'
       \<and> commit sha codec io' other_id other st' disk' = (st', disk', Inl (SeFile WriterPoisoned)))"
proof (cases "prepare_commit sha codec event_id ev st")
  case (Inl err)
  then show ?thesis using assms by (simp add: commit_def)
next
  case (Inr x)
  then show ?thesis
    using assms
    by (cases x) (auto simp: commit_def write_commit_def Let_def prepare_commit_def
        split: prod.split_asm sum.split_asm)
qed

definition full_disk_io :: store_io where
  "full_disk_io = calm_io\<lparr>io_torn := Some 9\<rparr>"

theorem failed_commit_is_fail_stop_witness:
  "\<exists>st' disk' e. commit toy_hash toy_codec full_disk_io ''e'' toy_event empty_store empty_disk
       = (st', disk', Inl e) \<and> ms_poisoned st'
     \<and> commit toy_hash toy_codec calm_io ''e'' toy_event st' disk'
       = (st', disk', Inl (SeFile WriterPoisoned))"
proof -
  have small: "length (pc_payload toy_prepared) = 65"
    by (simp add: toy_prepared_def toy_digest_def toy_hash_def hash_zero_def)
  obtain disk' where c: "commit toy_hash toy_codec full_disk_io ''e'' toy_event empty_store empty_disk
      = (empty_store\<lparr>ms_poisoned := True\<rparr>, disk', Inl (SeJournal JournalIo))"
    using toy_prepare small
    by (simp add: commit_def write_commit_def full_disk_io_def calm_io_def empty_disk_def
        journal_append_def journal_consts)
  have "empty_store\<lparr>ms_poisoned := True\<rparr> \<noteq> empty_store"
    by (simp add: empty_store_def)
  then show ?thesis
    using failed_commit_is_fail_stop [OF c, of calm_io "''e''" toy_event] c by auto
qed



end
