(* ===== verification/Store_Props.thy ===== *)
theory Store_Props
  imports Store_Inv
begin

text \<open>
  What the durable projection guarantees for every sequence of events: the mission invariant, an
  append-only history, the agreement of the query that numbers response attempts with the event
  that records them, and the agreement of the views with the gate on handoffs.
\<close>

section \<open>Sample events\<close>

definition sample_created :: persistable_mission_event where
  "sample_created = MissionCreated ''m'' ''t'' ''/repo'' ''h'' ''o'' [''done''] 5"

definition sample_receipt :: "u64 \<Rightarrow> proof_receipt" where
  "sample_receipt n = \<lparr>pr_subject_digest = ''s'', pr_seal_digest = ''q'',
     pr_authority_head_digest = ''a'', pr_lease_digest = ''l'', pr_authority_sequence = n,
     pr_verified_at_millis = n\<rparr>"

definition sample_started :: "persistable_mission_event list" where
  "sample_started = [sample_created, ClosureConfigured ''m'' [covering_check] 6,
     RunStarted ''m'' ''r'' Codex Managed ''/tree'' ''base'' True False 7,
     ProviderSessionBound ''m'' ''r'' ''session'' 8]"

definition sample_run :: persisted_run where
  "sample_run = \<lparr>prn_run_id = ''r'', prn_provider = Codex, prn_mode = Managed,
     prn_worktree_path = ''/tree'', prn_base_revision = ''base'',
     prn_execute_declared_checks = True, prn_execute_project_recipe = False,
     prn_handoff_from_run_id = None, prn_handoff_artifact_sha256 = None,
     prn_provider_session_id = Some ''session''\<rparr>"

definition sample_mission :: persisted_mission where
  "sample_mission = (new_mission ''t'' ''/repo'' ''h'' ''o'' [''done''] 5)
     \<lparr>pm_check_declarations := [covering_check], pm_run := Some sample_run, pm_status := Active,
      pm_updated_at_millis := 8\<rparr>"

lemma sample_not_blank: "\<not> is_blank ''t''" "\<not> is_blank ''o''" "\<not> is_blank ''done''" "\<not> is_blank ''m''"
  by (simp_all add: is_blank_iff utf8_width_def utf8_code_def utf8_lead_def ascii_code_def
      is_whitespace_def Let_def)

lemma sample_definition_accepted:
  "mission_definition_new ''m'' ''t'' ''/repo'' ''o'' [''done'']
     = Inr \<lparr>md_id = ''m'', md_title = ''t'', md_repository_path = ''/repo'', md_objective = ''o'',
         md_acceptance_criteria = [''done'']\<rparr>"
  by (simp add: mission_definition_new_def sample_not_blank path_is_absolute_def)

lemma sample_plan_sound:
  "plan_sound (acceptance_criterion_ids (\<lambda>bs. bs) \<lparr>md_id = ''m'', md_title = ''t'',
     md_repository_path = ''/repo'', md_objective = ''o'', md_acceptance_criteria = [''done'']\<rparr>)
     [covering_check]"
  using covering_plan_sound by (simp add: acceptance_criterion_ids_def sample_definition_def)

lemmas projection_eval = on_mission_def mission_mut_def mission_created_def word_eval

lemma sample_started_run:
  "run_all (projection_apply (\<lambda>bs. bs)) sample_started projection_default
     = Inr \<lparr>missions = [(''m'', sample_mission)]\<rparr>"
proof -
  obtain plan where plan: "closure_plan_new (\<lambda>bs. bs) (acceptance_criterion_ids (\<lambda>bs. bs)
      \<lparr>md_id = ''m'', md_title = ''t'', md_repository_path = ''/repo'', md_objective = ''o'',
       md_acceptance_criteria = [''done'']\<rparr>) [covering_check] = Inr plan"
    using sample_plan_sound by (simp add: closure_plan_new_eq)
  have "closure_configured (\<lambda>bs. bs) ''m'' [covering_check] t
      (new_mission ''t'' ''/repo'' ''h'' ''o'' [''done''] 5)
    = Inr ((new_mission ''t'' ''/repo'' ''h'' ''o'' [''done''] 5)
        \<lparr>pm_check_declarations := [covering_check], pm_updated_at_millis := t\<rparr>)" for t
    using plan by (simp add: closure_configured_def new_mission_def sample_definition_accepted)
  then show ?thesis
    by (simp add: sample_started_def sample_created_def projection_default_def projection_eval
        sample_mission_def sample_run_def run_started_def provider_session_bound_def
        new_mission_def max_def bm_get_def)
qed

section \<open>Properties\<close>

text \<open>
  C6: in every projection that any sequence of events produces, every mission satisfies the
  durable invariant: a ready mission holds a receipt and an archived one two, the second of the
  same subject and strictly fresher; its runs form a chain of handoffs under distinct ids in one
  worktree; each attention has at most one response that may have reached the provider, in the
  state that fits it; and nothing is stamped later than the mission's last update.
\<close>

theorem durable_run_invariant:
  assumes "run_all (projection_apply sha) es projection_default = Inr p"
    and "bm_get (missions p) i = Some m"
  shows "mission_ok sha m"
  using durable.run_keeps [OF projection_default_ok assms(1)] assms(2)
  by (simp add: projection_ok_def)

theorem durable_run_invariant_witness:
  "mission_ok (\<lambda>bs. bs) sample_mission"
  by (rule durable_run_invariant [OF sample_started_run, of "''m''"]) (simp add: bm_get_def)

text \<open>
  The projection is append-only: whatever events follow, a mission keeps its definition, its
  closure checks once set, the ids of its runs in order, every attention with its risk and final
  state, every response attempt with its route, decision and settled outcome, and an archived
  mission its receipts; its clock never goes back.
\<close>

theorem durable_history_append_only:
  assumes "run_all (projection_apply sha) es projection_default = Inr p"
    and "run_all (projection_apply sha) es' p = Inr p'"
    and "bm_get (missions p) i = Some m"
  shows "\<exists>m'. bm_get (missions p') i = Some m' \<and> mission_le m m'"
proof -
  have "projection_le p p'"
    using durable.run_le [OF durable.run_keeps [OF projection_default_ok assms(1)] assms(2)] .
  then show ?thesis
    using assms(3) by (simp add: projection_le_def map_le_by_def)
qed

theorem durable_history_append_only_witness:
  "\<exists>m'. bm_get (missions \<lparr>missions = [(''m'', sample_mission\<lparr>pm_status := ReviewRequired,
       pm_updated_at_millis := 9\<rparr>)]\<rparr>) ''m'' = Some m' \<and> mission_le sample_mission m'"
proof (rule durable_history_append_only [OF sample_started_run])
  show "run_all (projection_apply (\<lambda>bs. bs)) [StatusChanged ''m'' ReviewRequired 9]
      \<lparr>missions = [(''m'', sample_mission)]\<rparr>
    = Inr \<lparr>missions = [(''m'', sample_mission\<lparr>pm_status := ReviewRequired,
        pm_updated_at_millis := 9\<rparr>)]\<rparr>"
    by (simp add: projection_eval bm_get_def status_changed_def can_persist_from_def
        sample_mission_def max_def)
qed (simp add: bm_get_def)

lemma fold_max_ge:
  fixes x :: u32
  assumes "x \<in> set xs"
  shows "x \<le> fold max xs 0"
proof -
  have "fold max xs 0 = Max (set (0 # xs))"
    by (simp only: Max.set_eq_fold)
  then show ?thesis using assms by simp
qed

lemma following_attempt_fresh:
  assumes "following_attempt a g m = Inr n" and "r \<in> set (bm_values (pm_responses m))"
  shows "pra_key r \<noteq> \<lparr>rak_attention_id = a, rak_request_generation = g, rak_attempt = n\<rparr>"
proof
  assume key: "pra_key r = \<lparr>rak_attention_id = a, rak_request_generation = g, rak_attempt = n\<rparr>"
  then have "n \<in> set (attempts_of a g m)"
    using assms(2) by (force simp: attempts_of_def)
  moreover have "fold max (attempts_of a g m) 0 < n"
    using assms(1) u32_checked_add1_Some by (auto simp: following_attempt_def ok_or_Inr_iff)
  ultimately show False
    using fold_max_ge by (metis leD)
qed

text \<open>
  The attempt number the projection hands out is the one it accepts: requesting a response
  under it, on a route of the current run, is recorded as requested and makes the attention
  pending, and from then on no further attempt is handed out for it; the only assumption on the
  hash is that the new key does not collide with a recorded one.
\<close>

theorem next_attempt_is_accepted:
  assumes "run_all (projection_apply sha) es projection_default = Inr p"
    and "next_response_attempt p i a g = Inr n"
    and "bm_get (missions p) i = Some m" and "pm_run m = Some run"
    and "validate_for_run route run = Inr ()"
    and "key = \<lparr>rak_attention_id = a, rak_request_generation = g, rak_attempt = n\<rparr>"
    and "\<forall>r \<in> set (bm_values (pm_responses m)).
      pra_key r \<noteq> key \<longrightarrow> key_digest sha (pra_key r) \<noteq> key_digest sha key"
  shows "\<exists>p'. projection_apply sha (ResponseRequested i key route decision actor t) p = Inr p'
    \<and> response_state sha p' i key = Some PrsRequested
    \<and> attention_state p' i a = Some PasPendingResponse
    \<and> next_response_attempt p' i a g = Inl (SeSealed InvalidResponseState)"
proof -
  obtain attention where attention: "bm_get (pm_attention m) a = Some attention"
      "pat_state attention = PasOpen" and following: "following_attempt a g m = Inr n"
    using assms(2,3) by (auto simp: next_response_attempt_def mission_mut_def result_iffs
        split: if_split_asm)
  have "filed sha m"
    using durable.run_keeps [OF projection_default_ok assms(1)] assms(3)
    by (simp add: projection_ok_def mission_ok_def threads_ok_def)
  moreover have "pra_key r \<noteq> key" "r \<in> set (bm_values (pm_responses m))"
    if "bm_get (pm_responses m) d = Some r" for d r
    using that following_attempt_fresh [OF following] assms(6) by (simp_all add: bm_get_in_values)
  ultimately have "bm_get (pm_responses m) (key_digest sha key) = None"
    using assms(7) unfolding filed_def by (metis option.exhaust)
  then show ?thesis
    using assms(3-6) attention following
    by (simp add: projection_eval response_requested_def response_state_def attention_state_def
        next_response_attempt_def)
qed

definition sample_open :: persisted_attention where
  "sample_open = \<lparr>pat_state = PasOpen, pat_risk = Low, pat_updated_at_millis = 9\<rparr>"

definition sample_route :: persisted_response_route where
  "sample_route = route_managed Codex ''r'' ''session'' ''q''"

lemma sample_opened_run:
  "run_all (projection_apply (\<lambda>bs. bs))
     (sample_started @ [AttentionChanged ''m'' ''a'' PasOpen Low 9]) projection_default
   = Inr \<lparr>missions = [(''m'', sample_mission\<lparr>pm_attention := [(''a'', sample_open)],
       pm_updated_at_millis := 9\<rparr>)]\<rparr>"
  unfolding run_all_append sample_started_run
  by (simp add: projection_eval bm_get_def attention_changed_def sample_mission_def new_mission_def
      max_def sample_open_def)

theorem next_attempt_is_accepted_witness:
  "\<exists>p'. projection_apply (\<lambda>bs. bs)
       (ResponseRequested ''m'' \<lparr>rak_attention_id = ''a'', rak_request_generation = 3,
          rak_attempt = 1\<rparr> sample_route ApproveOnce ''ada'' 10)
       \<lparr>missions = [(''m'', sample_mission\<lparr>pm_attention := [(''a'', sample_open)],
         pm_updated_at_millis := 9\<rparr>)]\<rparr> = Inr p'
     \<and> attention_state p' ''m'' ''a'' = Some PasPendingResponse"
proof -
  have "next_response_attempt \<lparr>missions = [(''m'', sample_mission\<lparr>pm_attention := [(''a'', sample_open)],
         pm_updated_at_millis := 9\<rparr>)]\<rparr> ''m'' ''a'' 3 = Inr 1"
    by (simp add: next_response_attempt_def mission_mut_def bm_get_def following_attempt_def
        attempts_of_def u32_checked_add1_def sample_open_def sample_mission_def new_mission_def
        bm_values_def)
  then show ?thesis
    using next_attempt_is_accepted [OF sample_opened_run, of "''m''" "''a''" 3 1 _ sample_run
        sample_route "\<lparr>rak_attention_id = ''a'', rak_request_generation = 3, rak_attempt = 1\<rparr>"
        ApproveOnce "''ada''" 10]
    by (auto simp: bm_get_def sample_mission_def new_mission_def bm_values_def validate_for_run_def
        sample_run_def sample_route_def route_managed_def)
qed

lemma bs_collect_id: "bs_ok xs \<Longrightarrow> bs_collect xs = xs"
  by (rule bs_ext) simp_all

lemma bm_ok_filter: "bm_ok m \<Longrightarrow> bm_ok (filter P m)"
  by (induction m) (auto simp: bm_ok_def)

text \<open>
  What a person sees is what gates the handoff: the number of unresolved items in a mission's
  view is the size of the set of unresolved ids, that set holds exactly the ids whose durable
  state is open, pending or awaiting reconciliation, and while it is not empty no event continues
  the mission with another provider.
\<close>

theorem unresolved_view_gates_handoff:
  assumes "run_all (projection_apply sha) es projection_default = Inr p"
    and "mission_view_of p i = Some v"
  shows "\<exists>ids. unresolved_attention_ids p i = Inr ids
    \<and> length ids = mv_unresolved_attention_count v
    \<and> (\<forall>a. a \<in> set ids \<longleftrightarrow> attention_state p i a
          \<in> {Some PasOpen, Some PasPendingResponse, Some PasReconciliationRequired})
    \<and> (ids \<noteq> [] \<longrightarrow> (\<exists>e. projection_apply sha (RunContinued i source run_id provider mode path base
          declared recipe artifact t) p = Inl e))"
proof -
  obtain m where m: "bm_get (missions p) i = Some m" and v: "v = view_from_persisted i m"
    using assms(2) by (auto simp: mission_view_of_def)
  have ok: "bm_ok (pm_attention m)"
    using durable.run_keeps [OF projection_default_ok assms(1)] m
    by (simp add: projection_ok_def mission_ok_def maps_ok_def)
  let ?us = "filter (\<lambda>(_, x). persisted_unresolved x) (pm_attention m)"
  let ?ids = "map fst ?us"
  have ids: "unresolved_attention_ids p i = Inr ?ids"
    using bm_keys_ok [OF bm_ok_filter [OF ok]]
    by (simp add: unresolved_attention_ids_def mission_mut_def m bs_collect_id bm_keys_def)
  have "length ?ids = mv_unresolved_attention_count v"
    by (simp add: v view_from_persisted_def bm_values_def filter_map comp_def split_def)
  moreover have "a \<in> set ?ids \<longleftrightarrow> attention_state p i a
      \<in> {Some PasOpen, Some PasPendingResponse, Some PasReconciliationRequired}" for a
    using bm_get_iff_entry [OF ok, of a]
    by (force simp: attention_state_def m persisted_unresolved_def)
  moreover have "\<exists>e. projection_apply sha (RunContinued i source run_id provider mode path base
          declared recipe artifact t) p = Inl e" if "?ids \<noteq> []"
  proof -
    have "list_ex persisted_unresolved (bm_values (pm_attention m))"
      using that by (force simp: list_ex_iff bm_values_def filter_empty_conv)
    then show ?thesis by (simp add: projection_eval m run_continued_def)
  qed
  ultimately show ?thesis using ids by blast
qed

theorem unresolved_view_gates_handoff_witness:
  "\<exists>e. projection_apply (\<lambda>bs. bs) (RunContinued ''m'' ''r'' ''s'' ClaudeCode Managed ''/tree''
       ''base'' True False ''x'' 12)
     \<lparr>missions = [(''m'', sample_mission\<lparr>pm_attention := [(''a'', sample_open)],
       pm_updated_at_millis := 9\<rparr>)]\<rparr> = Inl e"
proof -
  let ?p = "\<lparr>missions = [(''m'', sample_mission\<lparr>pm_attention := [(''a'', sample_open)],
       pm_updated_at_millis := 9\<rparr>)]\<rparr>"
  obtain v where v: "mission_view_of ?p ''m'' = Some v"
    by (simp add: mission_view_of_def bm_get_def)
  have "attention_state ?p ''m'' ''a'' = Some PasOpen"
    by (simp add: attention_state_def bm_get_def sample_open_def)
  then show ?thesis
    using unresolved_view_gates_handoff [OF sample_opened_run v, of "''r''" "''s''" ClaudeCode
        Managed "''/tree''" "''base''" True False "''x''" 12]
    by (metis insertI1 list.set_intros(1) empty_iff empty_set)
qed

end
