(* ===== verification/Attention_Inv.thy ===== *)
theory Attention_Inv
  imports Attention
begin

text \<open>
  Invariants and properties of the attention inbox: the indexes agree with the items, response
  attempts are numbered consecutively, and every attempt before the last is known not to have
  been applied, so a decision never reaches a provider twice.
\<close>

section \<open>The request index\<close>

text \<open>The key's digest is a canonical digest, so distinct keys feed the hash distinct bytes.\<close>

definition request_key_parts :: "provider_request_key \<Rightarrow> u8 list list" where
  "request_key_parts key =
     [[provider_rank (rk_provider key)], bytes_of (rk_mission_id key),
      bytes_of (rk_mission_run_id key), bytes_of (rk_session_id key),
      bytes_of (rk_provider_request_id key), be_bytes 8 (unat (rk_request_generation key))]"

definition request_key_small :: "provider_request_key \<Rightarrow> bool" where
  "request_key_small key \<longleftrightarrow> length (rk_mission_id key) < 2 ^ 64
     \<and> length (rk_mission_run_id key) < 2 ^ 64 \<and> length (rk_session_id key) < 2 ^ 64
     \<and> length (rk_provider_request_id key) < 2 ^ 64"

lemma request_key_digest_eq:
  "request_key_digest sha key
     = subject_digest_of sha ''provider-request-identity-v1'' (request_key_parts key)"
  by (simp add: request_key_digest_def subject_digest_of_def subject_input_def cd_finish_def
      request_key_parts_def frames_append digest_simps)

interpretation request_key: canonical_subject "''provider-request-identity-v1''"
  request_key_parts request_key_small
proof unfold_locales
  show "length ''provider-request-identity-v1'' < 2 ^ 64"
    by simp
  show "addressable (request_key_parts x)" if "request_key_small x" for x
    using that by (auto simp: request_key_parts_def request_key_small_def addressable_def)
  show "x = y" if "request_key_parts x = request_key_parts y" for x y
    using that
    by (auto simp: request_key_parts_def be_bytes_u64_inject provider_rank_inject
        intro: provider_request_key.equality)
qed

section \<open>Items\<close>

definition item_request_key :: "attention_item \<Rightarrow> provider_request_key option" where
  "item_request_key item =
     map_option (\<lambda>request_id.
       \<lparr>rk_provider = ai_provider item, rk_mission_id = ai_mission_id item,
        rk_mission_run_id = ai_mission_run_id item, rk_session_id = ai_session_id item,
        rk_provider_request_id = request_id,
        rk_request_generation = ai_request_generation item\<rparr>) (ai_provider_request_id item)"

definition not_applied :: "provider_response_attempt \<Rightarrow> bool" where
  "not_applied a =
     (case pa_status a of DefinitelyNotApplied _ _ \<Rightarrow> True | _ \<Rightarrow> False)"

text \<open>
  An item is well formed when its attempts are numbered from one, all but the last are known
  not to have been applied, an open item has no attempt that could have been applied, and a
  pending item waits for exactly its last attempt.
\<close>

definition item_ok :: "attention_item \<Rightarrow> bool" where
  "item_ok item \<longleftrightarrow>
     (\<forall>i < length (ai_response_attempts item).
        pa_token (ai_response_attempts item ! i) =
          \<lparr>tk_item_id = ai_id item, tk_request_generation = ai_request_generation item,
           tk_attempt = of_nat (Suc i)\<rparr>)
     \<and> list_all not_applied (butlast (ai_response_attempts item))
     \<and> (ai_status item = Open \<longrightarrow> list_all not_applied (ai_response_attempts item))
     \<and> (\<forall>d actor t. ai_status item = PendingResponse d actor t \<longrightarrow>
          ai_response_attempts item \<noteq> []
          \<and> pa_status (last (ai_response_attempts item)) = Pending
          \<and> pa_decision (last (ai_response_attempts item)) = d
          \<and> pa_actor (last (ai_response_attempts item)) = actor
          \<and> pa_requested_at_millis (last (ai_response_attempts item)) = t)"

lemma item_from_event_ok: "item_ok (item_from_event ev)"
  by (simp add: item_ok_def item_from_event_def)

lemma item_request_key_from_event: "item_request_key (item_from_event ev) = event_request_key ev"
  by (simp add: item_request_key_def event_request_key_def item_from_event_def)

lemma same_payload_key:
  "has_same_payload_as ev item \<Longrightarrow> item_request_key item = event_request_key ev"
  by (simp add: item_request_key_def event_request_key_def has_same_payload_as_def)

lemma same_payload_from_event: "has_same_payload_as ev (item_from_event ev)"
  by (simp add: has_same_payload_as_def item_from_event_def)

text \<open>
  What an operation may do to an item: its identity and payload never change, and it stays
  well formed. \<open>item_step\<close> is the relation every operation of the inbox respects.
\<close>

definition same_identity :: "attention_item \<Rightarrow> attention_item \<Rightarrow> bool" where
  "same_identity item item' \<longleftrightarrow>
     ai_id item' = ai_id item \<and> (\<forall>ev. has_same_payload_as ev item' = has_same_payload_as ev item)
     \<and> item_request_key item' = item_request_key item"

definition item_step :: "attention_item \<Rightarrow> attention_item \<Rightarrow> bool" where
  "item_step item item' \<longleftrightarrow> same_identity item item' \<and> (item_ok item \<longrightarrow> item_ok item')"

lemma same_identity_refl [simp]: "same_identity item item"
  by (simp add: same_identity_def)

lemma item_step_refl [simp]: "item_step item item"
  by (simp add: item_step_def)

lemma same_identity_updates [simp]:
  "same_identity item (item\<lparr>ai_status := st\<rparr>)"
  "same_identity item (item\<lparr>ai_unread := u\<rparr>)"
  "same_identity item (item\<lparr>ai_occurrence_count := n\<rparr>)"
  "same_identity item (item\<lparr>ai_response_attempts := as\<rparr>)"
  "same_identity item (item\<lparr>ai_unread := u, ai_status := st\<rparr>)"
  "same_identity item (item\<lparr>ai_occurrence_count := n, ai_unread := u\<rparr>)"
  "same_identity item (item\<lparr>ai_response_attempts := as, ai_status := st\<rparr>)"
  "same_identity item (item\<lparr>ai_unread := u, ai_status := st, ai_response_attempts := as\<rparr>)"
  by (simp_all add: same_identity_def has_same_payload_as_def item_request_key_def)

lemma item_ok_unread [simp]: "item_ok (item\<lparr>ai_unread := u\<rparr>) = item_ok item"
  by (simp add: item_ok_def)

lemma item_ok_count [simp]: "item_ok (item\<lparr>ai_occurrence_count := n\<rparr>) = item_ok item"
  by (simp add: item_ok_def)

lemma item_ok_closed:
  "item_ok item \<Longrightarrow> st \<noteq> Open \<Longrightarrow> (\<And>d a t. st \<noteq> PendingResponse d a t) \<Longrightarrow>
     item_ok (item\<lparr>ai_status := st\<rparr>)"
  by (simp add: item_ok_def)

section \<open>Attempt lists\<close>

lemma length_set_last_status [simp]: "length (set_last_status st as) = length as"
  by (induction st as rule: set_last_status.induct) auto

lemma set_last_status_append: "set_last_status st (as @ [a]) = as @ [a\<lparr>pa_status := st\<rparr>]"
  by (induction st as rule: set_last_status.induct) auto

lemma set_last_status_conv:
  "as \<noteq> [] \<Longrightarrow> set_last_status st as = butlast as @ [(last as)\<lparr>pa_status := st\<rparr>]"
  by (metis append_butlast_last_id set_last_status_append)

lemma token_set_last_status [simp]:
  "i < length as \<Longrightarrow> pa_token (set_last_status st as ! i) = pa_token (as ! i)"
  by (cases as rule: rev_cases) (auto simp: set_last_status_append nth_append)

lemma butlast_set_last_status [simp]: "butlast (set_last_status st as) = butlast as"
  by (cases as rule: rev_cases) (auto simp: set_last_status_append)

lemma all_not_applied_set_last:
  "as \<noteq> [] \<Longrightarrow> list_all not_applied (butlast as) \<Longrightarrow>
     list_all not_applied (set_last_status (DefinitelyNotApplied t c) as)"
  by (cases as rule: rev_cases) (auto simp: set_last_status_append not_applied_def)

lemma next_attempt_Some: "next_attempt n = Some a \<Longrightarrow> a = of_nat (Suc n)"
  by (auto simp: next_attempt_def u32_checked_add1_def split: if_splits)

lemma item_ok_set_last:
  assumes "item_ok item" and "ai_response_attempts item \<noteq> []"
    and "st = Open \<Longrightarrow> \<exists>t c. ast = DefinitelyNotApplied t c"
    and "\<And>d a t. st \<noteq> PendingResponse d a t"
  shows "item_ok (item\<lparr>ai_response_attempts := set_last_status ast (ai_response_attempts item),
                      ai_status := st\<rparr>)"
proof -
  have "list_all not_applied (set_last_status ast (ai_response_attempts item))" if "st = Open"
    using assms(1,2) assms(3) [OF that] all_not_applied_set_last by (auto simp: item_ok_def)
  then show ?thesis
    using assms(1,4) by (simp add: item_ok_def)
qed

lemma begin_response_ok:
  assumes "item_ok item" and "ai_status item = Open" and "ai_id item = item_id"
    and "begin_response item_id item d ans actor at = Inr (item', intent)"
  shows "item_ok item' \<and> same_identity item item'"
proof -
  obtain request_id attempt
    where attempt: "next_attempt (length (ai_response_attempts item)) = Some attempt"
      and item': "item' = item\<lparr>ai_unread := False, ai_status := PendingResponse d actor at,
        ai_response_attempts := ai_response_attempts item @
          [\<lparr>pa_token = \<lparr>tk_item_id = item_id,
              tk_request_generation = ai_request_generation item, tk_attempt = attempt\<rparr>,
            pa_decision = d, pa_actor = actor, pa_requested_at_millis = at,
            pa_status = Pending\<rparr>]\<rparr>"
    using assms(4) by (auto simp: begin_response_def Let_def split: option.splits)
  then show ?thesis
    using assms(1-3) next_attempt_Some [OF attempt]
    by (auto simp: item_ok_def nth_append less_Suc_eq)
qed

lemma fail_latest_attempt_conv:
  "item_ok item \<Longrightarrow> ai_status item = PendingResponse d a t \<Longrightarrow>
     fail_latest_attempt disp code at item = item\<lparr>ai_response_attempts := set_last_status
       (case disp of DispDefinitelyNotApplied \<Rightarrow> DefinitelyNotApplied at code
        | DispDeliveryUnknown \<Rightarrow> DeliveryUnknown at code) (ai_response_attempts item)\<rparr>"
  by (simp add: fail_latest_attempt_def item_ok_def)

lemma refresh_item_step: "item_step item (refresh_item now item)"
proof (cases "\<exists>d a t. ai_status item = PendingResponse d a t \<and> past_expiry item now")
  case True
  then obtain d a t where pending: "ai_status item = PendingResponse d a t"
    and past: "past_expiry item now" by blast
  have "item_ok item \<Longrightarrow> item_ok (refresh_item now item)"
    using item_ok_set_last
      [of item "ReconciliationRequired d a Timeout now" "DeliveryUnknown now Timeout"]
    by (simp add: refresh_item_def pending past is_open_or_pending_def fail_latest_attempt_conv)
       (simp add: item_ok_def pending)
  moreover have "same_identity item (refresh_item now item)"
    by (simp add: refresh_item_def pending past is_open_or_pending_def fail_latest_attempt_def)
  ultimately show ?thesis by (simp add: item_step_def)
next
  case False
  then show ?thesis
    by (auto simp: item_step_def refresh_item_def is_open_or_pending_def item_ok_closed
        split: attention_status.split)
qed

section \<open>The inbox invariant\<close>

definition items_ok :: "attention_inbox \<Rightarrow> bool" where
  "items_ok ib \<longleftrightarrow> bm_ok (items ib) \<and> bm_ok (seen_event_ids ib) \<and> bm_ok (provider_requests ib)
     \<and> (\<forall>k item. bm_get (items ib) k = Some item \<longrightarrow>
          ai_id item = k \<and> item_ok item \<and> bm_get (seen_event_ids ib) k = Some k)"

definition seen_ok :: "attention_inbox \<Rightarrow> bool" where
  "seen_ok ib \<longleftrightarrow>
     (\<forall>e k. bm_get (seen_event_ids ib) e = Some k \<longrightarrow> bm_get (items ib) k \<noteq> None)"

definition requests_ok :: "sha256 \<Rightarrow> attention_inbox \<Rightarrow> bool" where
  "requests_ok sha ib \<longleftrightarrow>
     (\<forall>d en. bm_get (provider_requests ib) d = Some en \<longrightarrow>
        d = request_key_digest sha (ri_key en)
        \<and> (\<exists>item. bm_get (items ib) (ri_item_id en) = Some item
             \<and> item_request_key item = Some (ri_key en)))
     \<and> (\<forall>k item key. bm_get (items ib) k = Some item \<longrightarrow> item_request_key item = Some key \<longrightarrow>
          bm_get (provider_requests ib) (request_key_digest sha key)
            = Some \<lparr>ri_key = key, ri_item_id = k\<rparr>)"

definition inbox_ok :: "sha256 \<Rightarrow> attention_inbox \<Rightarrow> bool" where
  "inbox_ok sha ib \<longleftrightarrow> items_ok ib \<and> seen_ok ib \<and> requests_ok sha ib"

lemma inbox_new_ok: "inbox_ok sha inbox_new"
  by (simp add: inbox_ok_def items_ok_def seen_ok_def requests_ok_def inbox_new_def)

lemma items_ok_item: "items_ok ib \<Longrightarrow> bm_get (items ib) k = Some item \<Longrightarrow> ai_id item = k \<and> item_ok item"
  by (simp add: items_ok_def)

lemma items_put_item [simp]:
  "items (put_item k item ib) = bm_adjust k (\<lambda>_. item) (items ib)"
  "seen_event_ids (put_item k item ib) = seen_event_ids ib"
  "provider_requests (put_item k item ib) = provider_requests ib"
  by (simp_all add: put_item_def)

lemma put_item_ok [step_inv]:
  assumes "inbox_ok sha ib" and "bm_get (items ib) k = Some item" and "item_step item item'"
  shows "inbox_ok sha (put_item k item' ib)"
proof -
  have same: "ai_id item' = ai_id item" "item_request_key item' = item_request_key item"
    and ok': "item_ok item'"
    using assms by (auto simp: item_step_def same_identity_def inbox_ok_def items_ok_def)
  have "items_ok (put_item k item' ib)"
    using assms(1,2) same ok' by (auto simp: items_ok_def inbox_ok_def)
  moreover have "seen_ok (put_item k item' ib)"
    using assms(1) by (auto simp: seen_ok_def inbox_ok_def)
  moreover have "requests_ok sha (put_item k item' ib)"
    using assms(1,2) same unfolding requests_ok_def inbox_ok_def by (fastforce split: if_splits)
  ultimately show ?thesis by (simp add: inbox_ok_def)
qed

lemma mark_seen_ok [step_inv]:
  assumes "inbox_ok sha ib" and "bm_get (items ib) k \<noteq> None"
    and "bm_get (items ib) e = None \<or> k = e"
  shows "inbox_ok sha (mark_seen e k ib)"
  using assms
  by (auto simp: inbox_ok_def items_ok_def seen_ok_def requests_ok_def mark_seen_def)

lemma unseen_not_item:
  "inbox_ok sha ib \<Longrightarrow> bm_get (seen_event_ids ib) e = None \<Longrightarrow> bm_get (items ib) e = None"
  by (cases "bm_get (items ib) e") (auto simp: inbox_ok_def items_ok_def)

lemma insert_new_item_ok:
  assumes "inbox_ok sha ib" and "bm_get (seen_event_ids ib) (ae_event_id ev) = None"
    and "\<And>key. event_request_key ev = Some key \<Longrightarrow>
           bm_get (provider_requests ib) (request_key_digest sha key) = None"
  shows "inbox_ok sha (insert_new_item sha ev ib)"
proof -
  let ?id = "ae_event_id ev"
  have fresh: "bm_get (items ib) ?id = None"
    using unseen_not_item [OF assms(1,2)] .
  then have other: "ri_item_id en \<noteq> ?id" if "bm_get (provider_requests ib) d = Some en" for d en
    using assms(1) that by (fastforce simp: requests_ok_def inbox_ok_def)
  have "items_ok (insert_new_item sha ev ib)"
    using assms(1) by (auto simp: insert_new_item_def mark_seen_def items_ok_def inbox_ok_def
        Let_def item_from_event_ok split: option.splits) (simp_all add: item_from_event_def)
  moreover have "seen_ok (insert_new_item sha ev ib)"
    using assms(1) by (auto simp: insert_new_item_def mark_seen_def seen_ok_def inbox_ok_def
        Let_def split: option.splits)
  moreover have "requests_ok sha (insert_new_item sha ev ib)"
  proof (cases "event_request_key ev")
    case None
    then show ?thesis
      using assms(1) fresh other
      by (auto simp: insert_new_item_def mark_seen_def requests_ok_def inbox_ok_def
          item_request_key_from_event)
  next
    case (Some key)
    have absent: "item_request_key item \<noteq> Some key'"
      if "bm_get (items ib) k = Some item" "request_key_digest sha key' = request_key_digest sha key"
      for k item key'
    proof
      assume "item_request_key item = Some key'"
      then have "bm_get (provider_requests ib) (request_key_digest sha key')
          = Some \<lparr>ri_key = key', ri_item_id = k\<rparr>"
        using assms(1) that(1) unfolding inbox_ok_def requests_ok_def by blast
      then show False
        using assms(3) [OF Some] that(2) by simp
    qed
    show ?thesis
      using assms(1) fresh other absent
      by (auto simp: insert_new_item_def mark_seen_def requests_ok_def inbox_ok_def Some
          item_request_key_from_event Let_def)
  qed
  ultimately show ?thesis by (simp add: inbox_ok_def)
qed

lemma find_item_SomeD:
  "List.find P (items ib) = Some (k, item) \<Longrightarrow> items_ok ib \<Longrightarrow>
     bm_get (items ib) k = Some item \<and> P (k, item)"
  by (auto simp: find_Some_iff items_ok_def bm_get_iff_entry in_set_conv_nth)

lemma ingest_indexed_ok:
  assumes "inbox_ok sha ib" and "bm_get (seen_event_ids ib) (ae_event_id ev) = None"
    and "ingest_indexed ev key entry ib = Inr ib'"
  shows "inbox_ok sha ib'"
proof -
  obtain item where item: "bm_get (items ib) (ri_item_id entry) = Some item"
    using assms(3) by (auto simp: ingest_indexed_def split: if_splits option.splits)
  define item1 where
    "item1 = item\<lparr>ai_occurrence_count := u32_saturating_add1 (ai_occurrence_count item)\<rparr>"
  define item' where
    "item' = (if is_open_or_pending (ai_status item1) then item1\<lparr>ai_unread := True\<rparr> else item1)"
  have step: "item_step item item'"
    by (simp add: item_step_def item'_def item1_def)
  have ib': "ib' = mark_seen (ae_event_id ev) (ri_item_id entry)
                (put_item (ri_item_id entry) item' ib)"
    using assms(3) item
    by (simp add: ingest_indexed_def item'_def item1_def Let_def split: if_splits)
  show ?thesis
    unfolding ib'
    using put_item_ok [OF assms(1) item step] unseen_not_item [OF assms(1,2)] item
    by (intro mark_seen_ok) auto
qed

lemma ingest_unindexed_ok:
  assumes "inbox_ok sha ib" and "bm_get (seen_event_ids ib) (ae_event_id ev) = None"
    and "\<And>key. event_request_key ev = Some key \<Longrightarrow>
           bm_get (provider_requests ib) (request_key_digest sha key) = None"
    and "ingest_unindexed sha ev ib = Inr ib'"
  shows "inbox_ok sha ib'"
proof (cases "List.find (\<lambda>e. has_same_semantics_as ev (snd e)) (items ib)")
  case None
  then show ?thesis
    using insert_new_item_ok [OF assms(1-3)] assms(4) by (simp add: ingest_unindexed_def)
next
  case (Some e)
  obtain k item where e: "e = (k, item)" by (cases e)
  have item: "bm_get (items ib) k = Some item" "ai_id item = k"
    using find_item_SomeD [OF Some [unfolded e]] assms(1) by (auto simp: inbox_ok_def items_ok_def)
  let ?item' = "item\<lparr>ai_occurrence_count := u32_saturating_add1 (ai_occurrence_count item),
                     ai_unread := True\<rparr>"
  have step: "item_step item ?item'"
    by (simp add: item_step_def)
  have "ib' = mark_seen (ae_event_id ev) k (put_item k ?item' ib)"
    using assms(4) Some item by (simp add: e ingest_unindexed_def)
  then show ?thesis
    using put_item_ok [OF assms(1) item(1) step] unseen_not_item [OF assms(1,2)] item
    by (auto intro!: mark_seen_ok)
qed

lemma ingest_ok [step_inv]:
  assumes "inbox_ok sha ib" and "ingest sha ev ib = Inr ib'"
  shows "inbox_ok sha ib'"
proof (cases "bm_get (seen_event_ids ib) (ae_event_id ev)")
  case (Some k)
  then show ?thesis
    using assms by (auto simp: ingest_def split: option.splits if_splits)
next
  case None
  then show ?thesis
    using assms(2) ingest_indexed_ok [OF assms(1) None] ingest_unindexed_ok [OF assms(1) None]
    by (fastforce simp: ingest_def split: option.splits)
qed

lemma refresh_ok [step_inv]:
  assumes "inbox_ok sha ib"
  shows "inbox_ok sha (refresh now ib)"
proof -
  have same: "ai_id (refresh_item now item) = ai_id item"
    "item_request_key (refresh_item now item) = item_request_key item"
    "item_ok item \<Longrightarrow> item_ok (refresh_item now item)" for item
    using refresh_item_step [of item now] by (auto simp: item_step_def same_identity_def)
  have "items_ok (refresh now ib)"
    using assms same by (auto simp: items_ok_def inbox_ok_def refresh_def)
  moreover have "seen_ok (refresh now ib)"
    using assms by (auto simp: seen_ok_def inbox_ok_def refresh_def)
  moreover have "requests_ok sha (refresh now ib)"
    using assms same unfolding requests_ok_def inbox_ok_def refresh_def
    by (auto simp: map_option_case split: option.splits) fastforce+
  ultimately show ?thesis by (simp add: inbox_ok_def)
qed

lemma finish_response_ok:
  assumes "inbox_ok sha ib" and "bm_get (items ib) item_id = Some item"
    and "ai_status item = Open"
    and "finish_response item_id ib (begin_response item_id item d ans actor at) = (ib', r)"
  shows "inbox_ok sha ib'"
proof (cases "begin_response item_id item d ans actor at")
  case (Inl e)
  then show ?thesis using assms by (simp add: finish_response_def)
next
  case (Inr b)
  obtain item' intent where b: "b = (item', intent)" by (cases b)
  have "item_step item item'"
    using begin_response_ok [of item item_id d ans actor at item' intent] assms(1-3) Inr b
    by (auto simp: item_step_def inbox_ok_def items_ok_def)
  then show ?thesis
    using put_item_ok [OF assms(1,2)] assms(4) by (auto simp: finish_response_def Inr b)
qed

lemma expire_step:
  "item_step item (item\<lparr>ai_status := Expired t\<rparr>)"
  by (simp add: item_step_def item_ok_closed)

lemma decide_ok [step_inv]:
  assumes "inbox_ok sha ib" and "decide item_id d actor at ib = (ib', r)"
  shows "inbox_ok sha ib'"
proof (cases "bm_get (items ib) item_id")
  case None
  then show ?thesis using assms by (simp add: decide_def)
next
  case (Some item)
  then show ?thesis
    using assms put_item_ok [OF assms(1) Some expire_step]
      finish_response_ok [OF assms(1) Some, of d None actor at ib' r]
    by (auto simp: decide_def split: if_splits)
qed

lemma answer_ok [step_inv]:
  assumes "inbox_ok sha ib" and "answer item_id txt actor at ib = (ib', r)"
  shows "inbox_ok sha ib'"
proof (cases "bm_get (items ib) item_id")
  case None
  then show ?thesis using assms by (simp add: answer_def)
next
  case (Some item)
  then show ?thesis
    using assms put_item_ok [OF assms(1) Some expire_step]
      finish_response_ok [OF assms(1) Some, of Answer "Some txt" actor at ib' r]
    by (auto simp: answer_def ephemeral_answer_new_def split: if_splits)
qed

lemma confirm_response_ok [step_inv]:
  assumes "inbox_ok sha ib" and "confirm_response token at ib = (ib', r)"
  shows "inbox_ok sha ib'"
proof (cases "ib' = ib")
  case True
  then show ?thesis using assms(1) by simp
next
  case False
  then obtain item d a where item: "bm_get (items ib) (tk_item_id token) = Some item"
    and nonempty: "ai_response_attempts item \<noteq> []"
    and ib': "ib' = put_item (tk_item_id token)
       (item\<lparr>ai_response_attempts := set_last_status (Acknowledged at) (ai_response_attempts item),
             ai_status := Resolved d a at\<rparr>) ib"
    using assms(2)
    by (auto simp: confirm_response_def Let_def
        split: option.splits if_splits provider_response_attempt_status.splits
          attention_status.splits)
  have "item_step item (item\<lparr>ai_response_attempts :=
          set_last_status (Acknowledged at) (ai_response_attempts item),
          ai_status := Resolved d a at\<rparr>)"
    using item_ok_set_last [of item "Resolved d a at" "Acknowledged at"] nonempty
    by (simp add: item_step_def)
  then show ?thesis
    using put_item_ok [OF assms(1) item] ib' by simp
qed

definition failed_status ::
  "response_failure_disposition \<Rightarrow> response_failure_code \<Rightarrow> u64 \<Rightarrow> provider_response_attempt_status"
  where
  "failed_status disp code at =
     (case disp of DispDefinitelyNotApplied \<Rightarrow> DefinitelyNotApplied at code
      | DispDeliveryUnknown \<Rightarrow> DeliveryUnknown at code)"

text \<open>A failure that is recorded replaces the status of the last attempt and nothing before it.\<close>

lemma fail_response_change:
  assumes "fail_response token disp code at ib = (ib', r)" and "ib' \<noteq> ib"
  obtains item st where "bm_get (items ib) (tk_item_id token) = Some item"
    and "ai_response_attempts item \<noteq> []"
    and "\<exists>d a t. ai_status item = PendingResponse d a t"
    and "st = Open \<Longrightarrow> disp = DispDefinitelyNotApplied"
    and "\<And>d a t. st \<noteq> PendingResponse d a t"
    and "ib' = put_item (tk_item_id token)
       (item\<lparr>ai_response_attempts :=
               set_last_status (failed_status disp code at) (ai_response_attempts item),
             ai_status := st, ai_unread := True\<rparr>) ib"
proof -
  obtain item where item: "bm_get (items ib) (tk_item_id token) = Some item"
    using assms by (auto simp: fail_response_def split: option.splits)
  have live: "ai_response_attempts item \<noteq> []" "pa_status (last (ai_response_attempts item)) = Pending"
    "\<exists>d a t. ai_status item = PendingResponse d a t"
    using assms item
    by (auto simp: fail_response_def Let_def split: if_splits attention_status.splits)
  then obtain d a t where pending: "ai_status item = PendingResponse d a t" by blast
  define st where "st = (case disp of
      DispDefinitelyNotApplied \<Rightarrow> (if past_expiry item at then Expired at else Open)
    | DispDeliveryUnknown \<Rightarrow> ReconciliationRequired d a code at)"
  have "ib' = put_item (tk_item_id token)
       (item\<lparr>ai_response_attempts :=
               set_last_status (failed_status disp code at) (ai_response_attempts item),
             ai_status := st, ai_unread := True\<rparr>) ib"
    using assms item live pending
    by (auto simp: fail_response_def Let_def fail_latest_attempt_def failed_status_def st_def
        split: if_splits)
  then show ?thesis
    using item live
    by (intro that) (auto simp: st_def split: response_failure_disposition.splits if_splits)
qed

lemma fail_response_ok [step_inv]:
  assumes "inbox_ok sha ib" and "fail_response token disp code at ib = (ib', r)"
  shows "inbox_ok sha ib'"
proof (cases "ib' = ib")
  case True
  then show ?thesis using assms(1) by simp
next
  case False
  then obtain item st where change: "bm_get (items ib) (tk_item_id token) = Some item"
    "ai_response_attempts item \<noteq> []" "st = Open \<Longrightarrow> disp = DispDefinitelyNotApplied"
    "\<And>d a t. st \<noteq> PendingResponse d a t"
    "ib' = put_item (tk_item_id token)
       (item\<lparr>ai_response_attempts :=
               set_last_status (failed_status disp code at) (ai_response_attempts item),
             ai_status := st, ai_unread := True\<rparr>) ib"
    using assms(2) by (elim fail_response_change) auto
  let ?item1 = "item\<lparr>ai_response_attempts :=
      set_last_status (failed_status disp code at) (ai_response_attempts item), ai_status := st\<rparr>"
  have "item_ok item \<Longrightarrow> item_ok ?item1"
    using change(3,4) by (intro item_ok_set_last change(2)) (auto simp: failed_status_def)
  then have "item_step item (?item1\<lparr>ai_unread := True\<rparr>)"
    by (simp add: item_step_def same_identity_def has_same_payload_as_def item_request_key_def)
  then show ?thesis
    using put_item_ok [OF assms(1) change(1)] change(5) by simp
qed

lemma dismiss_ok [step_inv]:
  assumes "inbox_ok sha ib" and "dismiss item_id actor reason at ib = Inr ib'"
  shows "inbox_ok sha ib'"
proof -
  obtain item where item: "bm_get (items ib) item_id = Some item"
    and ib': "ib' = put_item item_id
       (item\<lparr>ai_unread := False, ai_status := Dismissed actor reason at\<rparr>) ib"
    using assms(2) by (auto simp: dismiss_def split: option.splits if_splits)
  have "item_step item (item\<lparr>ai_unread := False, ai_status := Dismissed actor reason at\<rparr>)"
    using item_ok_closed [of "item\<lparr>ai_unread := False\<rparr>"] by (simp add: item_step_def)
  then show ?thesis
    using put_item_ok [OF assms(1) item] ib' by simp
qed

lemma mark_read_ok [step_inv]:
  assumes "inbox_ok sha ib" and "mark_read item_id ib = Inr ib'"
  shows "inbox_ok sha ib'"
proof -
  obtain item where item: "bm_get (items ib) item_id = Some item"
    and ib': "ib' = put_item item_id (item\<lparr>ai_unread := False\<rparr>) ib"
    using assms(2) by (auto simp: mark_read_def split: option.splits)
  then show ?thesis
    using put_item_ok [OF assms(1) item, of "item\<lparr>ai_unread := False\<rparr>"] by (simp add: item_step_def)
qed

end
