(* ===== verification/Attention_Props.thy ===== *)
theory Attention_Props
  imports Attention_Inv
begin

text \<open>
  The inbox as a machine over all its public operations, and the properties of its reachable
  states: the indexes stay consistent, a response is only sent when every earlier attempt is
  known not to have been applied, replayed events change nothing.
\<close>

datatype inbox_op =
    OpIngest attention_event
  | OpRefresh u64
  | OpDecide string attention_decision string u64
  | OpAnswer string string string u64
  | OpConfirm provider_response_token u64
  | OpFail provider_response_token response_failure_disposition response_failure_code u64
  | OpDismiss string string string u64
  | OpMarkRead string

text \<open>A refused \<open>ingest\<close>, \<open>dismiss\<close> or \<open>mark_read\<close> leaves the inbox its caller had.\<close>

definition keep_or :: "attention_inbox \<Rightarrow> attention_error + attention_inbox \<Rightarrow> attention_inbox" where
  "keep_or ib r = (case r of Inl _ \<Rightarrow> ib | Inr ib' \<Rightarrow> ib')"

fun inbox_step :: "sha256 \<Rightarrow> inbox_op \<Rightarrow> attention_inbox \<Rightarrow> attention_inbox" where
  "inbox_step sha (OpIngest ev) ib = keep_or ib (ingest sha ev ib)"
| "inbox_step sha (OpRefresh now) ib = refresh now ib"
| "inbox_step sha (OpDecide k d actor at) ib = fst (decide k d actor at ib)"
| "inbox_step sha (OpAnswer k txt actor at) ib = fst (answer k txt actor at ib)"
| "inbox_step sha (OpConfirm tok at) ib = fst (confirm_response tok at ib)"
| "inbox_step sha (OpFail tok disp code at) ib = fst (fail_response tok disp code at ib)"
| "inbox_step sha (OpDismiss k actor reason at) ib = keep_or ib (dismiss k actor reason at ib)"
| "inbox_step sha (OpMarkRead k) ib = keep_or ib (mark_read k ib)"

definition inbox_run :: "sha256 \<Rightarrow> inbox_op list \<Rightarrow> attention_inbox" where
  "inbox_run sha ops = fold (inbox_step sha) ops inbox_new"

lemma inbox_step_ok:
  assumes "inbox_ok sha ib"
  shows "inbox_ok sha (inbox_step sha oper ib)"
proof (cases oper)
  case (OpIngest ev)
  then show ?thesis using assms ingest_ok by (auto simp: keep_or_def split: sum.split)
next
  case (OpRefresh now)
  then show ?thesis using assms refresh_ok by simp
next
  case (OpDecide k d actor t)
  then show ?thesis using assms decide_ok by (metis inbox_step.simps(3) prod.collapse)
next
  case (OpAnswer k s actor t)
  then show ?thesis using assms answer_ok by (metis inbox_step.simps(4) prod.collapse)
next
  case (OpConfirm tok t)
  then show ?thesis using assms confirm_response_ok by (metis inbox_step.simps(5) prod.collapse)
next
  case (OpFail tok disp code t)
  then show ?thesis using assms fail_response_ok by (metis inbox_step.simps(6) prod.collapse)
next
  case (OpDismiss k actor reason t)
  then show ?thesis using assms dismiss_ok by (auto simp: keep_or_def split: sum.split)
next
  case (OpMarkRead k)
  then show ?thesis using assms mark_read_ok by (auto simp: keep_or_def split: sum.split)
qed

interpretation inbox: step_machine
  "\<lambda>oper ib. Inr (inbox_step sha oper ib) :: unit + attention_inbox" "inbox_ok sha"
  for sha
  by unfold_locales (auto intro: inbox_step_ok)

lemma reachable_inbox_ok: "inbox_ok sha (inbox_run sha ops)"
  using inbox.run_keeps [OF inbox_new_ok] by (simp add: inbox_run_def run_all_total)

lemma next_attempt_bound:
  assumes "next_attempt n = Some a"
  shows "Suc n < 2 ^ 32"
proof (rule ccontr)
  assume "\<not> Suc n < 2 ^ 32"
  moreover have "n < 2 ^ 32" and not_max: "of_nat n \<noteq> (- 1 :: u32)"
    using assms by (auto simp: next_attempt_def u32_checked_add1_def split: if_splits)
  ultimately have "n = 4294967295" by simp
  then show False using not_max by simp
qed

lemma distinct_attempt_tokens:
  assumes "item_ok item" and "next_attempt (length (ai_response_attempts item)) = Some a"
  shows "\<lparr>tk_item_id = i, tk_request_generation = g, tk_attempt = a\<rparr>
    \<notin> pa_token ` set (ai_response_attempts item)"
proof
  let ?n = "length (ai_response_attempts item)"
  assume "\<lparr>tk_item_id = i, tk_request_generation = g, tk_attempt = a\<rparr>
    \<in> pa_token ` set (ai_response_attempts item)"
  then obtain j where j: "j < ?n"
    and "\<lparr>tk_item_id = i, tk_request_generation = g, tk_attempt = a\<rparr>
      = pa_token (ai_response_attempts item ! j)"
    by (auto simp: in_set_conv_nth image_iff)
  then have "a = of_nat (Suc j)"
    using assms(1) by (simp add: item_ok_def)
  then have "(of_nat (Suc j) :: u32) = of_nat (Suc ?n)"
    using next_attempt_Some [OF assms(2)] by simp
  then have "unat (of_nat (Suc j) :: u32) = unat (of_nat (Suc ?n) :: u32)"
    by (rule arg_cong)
  moreover have "Suc ?n < 2 ^ 32"
    using next_attempt_bound [OF assms(2)] .
  ultimately show False
    using j by (simp add: unat_of_nat del: of_nat_Suc)
qed

lemma begin_response_facts:
  assumes "item_ok item"
    and "begin_response item_id item d ans actor t = Inr (item', Respond route d' ans' tok)"
  shows "d' = d \<and> ans' = ans \<and> tok \<notin> pa_token ` set (ai_response_attempts item)
    \<and> ai_response_attempts item' = ai_response_attempts item @
        [\<lparr>pa_token = tok, pa_decision = d, pa_actor = actor, pa_requested_at_millis = t,
          pa_status = Pending\<rparr>]
    \<and> ai_status item' = PendingResponse d actor t"
  using assms distinct_attempt_tokens [OF assms(1)]
  by (auto simp: begin_response_def Let_def split: option.splits)

section \<open>Properties\<close>

text \<open>
  C13: whatever sequence of operations a fresh inbox goes through, its items, its seen-event index
  and its provider-request index agree with each other, attempts are numbered consecutively,
  and every attempt of an item but the last is known not to have been applied.
\<close>

theorem inbox_reachable_invariant: "inbox_ok sha (inbox_run sha ops)"
  by (rule reachable_inbox_ok)


definition sample_request :: attention_event where
  "sample_request =
     with_response_capability Reliable (with_provider_request_id ''r1''
       (attention_event_new ''e1'' ''m1'' ''run1'' ''s1'' \<lparr>pt_workspace = ''w'', pt_pane = ''p''\<rparr>
          PermissionRequest ''write'' ''src'' High Codex ProviderApi 10))"

lemmas inbox_eval = inbox_run_def inbox_new_def sample_request_def with_response_capability_def
  with_provider_request_id_def attention_event_new_def keep_or_def ingest_def ingest_unindexed_def
  insert_new_item_def mark_seen_def put_item_def event_request_key_def item_from_event_def
  decide_def past_expiry_def is_expired_def source_is_reliable_def finish_response_def
  begin_response_def next_attempt_def u32_checked_add1_def bm_get_def word_eval

lemma not_blank_sample: "\<not> is_blank ''ada''"
  by (simp add: is_blank_iff utf8_width_def utf8_code_def utf8_lead_def ascii_code_def
      is_whitespace_def Let_def)


text \<open>After an accepted event its id is indexed and its item has the event's payload.\<close>

lemma ingest_records:
  assumes "inbox_ok sha ib" and "ingest sha ev ib = Inr ib'"
  shows "\<exists>k item. bm_get (seen_event_ids ib') (ae_event_id ev) = Some k
    \<and> bm_get (items ib') k = Some item \<and> has_same_payload_as ev item"
proof (cases "bm_get (seen_event_ids ib) (ae_event_id ev)")
  case (Some k)
  then show ?thesis
    using assms(2) by (auto simp: ingest_def split: option.splits if_splits)
next
  case None
  have payload: "has_same_payload_as ev (item\<lparr>ai_occurrence_count := n\<rparr>) = has_same_payload_as ev item"
    "has_same_payload_as ev (item\<lparr>ai_unread := u\<rparr>) = has_same_payload_as ev item" for item n u
    by (simp_all add: has_same_payload_as_def)
  have indexed: ?thesis if "ingest_indexed ev key entry ib = Inr ib'" for key entry
    using that by (auto simp: ingest_indexed_def mark_seen_def Let_def payload
        split: if_splits option.splits)
  have unindexed: ?thesis if "ingest_unindexed sha ev ib = Inr ib'"
  proof (cases "List.find (\<lambda>e. has_same_semantics_as ev (snd e)) (items ib)")
    case None
    then show ?thesis
      using that by (auto simp: ingest_unindexed_def insert_new_item_def mark_seen_def Let_def
          same_payload_from_event split: option.splits)
  next
    case (Some e)
    obtain k item where e: "e = (k, item)" by (cases e)
    have "bm_get (items ib) k = Some item" "ai_id item = k" "has_same_payload_as ev item"
      using find_item_SomeD [OF Some [unfolded e]] assms(1)
      by (auto simp: inbox_ok_def items_ok_def has_same_semantics_as_def)
    then show ?thesis
      using that Some by (auto simp: e ingest_unindexed_def mark_seen_def payload)
  qed
  show ?thesis
    using assms(2) None indexed unindexed by (auto simp: ingest_def split: option.splits)
qed

text \<open>
  Ingesting is idempotent: an event that was accepted by a reachable inbox can be delivered
  again at once and changes nothing, not even the occurrence counter.
\<close>

theorem ingest_idempotent:
  assumes "ingest sha ev (inbox_run sha ops) = Inr ib'"
  shows "ingest sha ev ib' = Inr ib'"
proof -
  obtain k item where "bm_get (seen_event_ids ib') (ae_event_id ev) = Some k"
    and "bm_get (items ib') k = Some item" and "has_same_payload_as ev item"
    using ingest_records [OF reachable_inbox_ok assms] by blast
  then show ?thesis by (simp add: ingest_def)
qed

theorem ingest_idempotent_witness:
  "\<exists>ib'. ingest (\<lambda>bs. bs) sample_request (inbox_run (\<lambda>bs. bs) []) = Inr ib'
     \<and> ingest (\<lambda>bs. bs) sample_request ib' = Inr ib' \<and> items ib' \<noteq> []"
proof -
  obtain ib' where run: "ingest (\<lambda>bs. bs) sample_request (inbox_run (\<lambda>bs. bs) []) = Inr ib'"
    and filled: "items ib' \<noteq> []"
    by (simp add: inbox_eval Let_def)
  show ?thesis
    using ingest_idempotent [OF run] run filled by blast
qed

definition index_keys :: "attention_inbox \<Rightarrow> provider_request_key set" where
  "index_keys ib = ri_key ` set (bm_values (provider_requests ib))"

text \<open>
  A reachable inbox never reports a corrupt index, as long as SHA-256 does not collide on
  the preimages of the request keys involved (each identifier shorter than \<open>2^64\<close> bytes).
\<close>

theorem ingest_never_corrupt:
  assumes "event_request_key ev = Some key"
    and "\<forall>x \<in> insert key (index_keys (inbox_run sha ops)). request_key_small x"
    and "inj_on sha ((\<lambda>x. subject_input ''provider-request-identity-v1'' (request_key_parts x))
           ` insert key (index_keys (inbox_run sha ops)))"
  shows "ingest sha ev (inbox_run sha ops) \<noteq> Inl CorruptIndex"
proof -
  let ?ib = "inbox_run sha ops"
  have ok: "inbox_ok sha ?ib" by (rule reachable_inbox_ok)
  have seen: "bm_get (items ?ib) k \<noteq> None" if "bm_get (seen_event_ids ?ib) e = Some k" for e k
    using ok that by (simp add: inbox_ok_def seen_ok_def)
  have entry: "key = ri_key en \<and> bm_get (items ?ib) (ri_item_id en) \<noteq> None"
    if en: "bm_get (provider_requests ?ib) (request_key_digest sha key) = Some en" for en
  proof -
    have same: "request_key_digest sha key = request_key_digest sha (ri_key en)"
      and present: "bm_get (items ?ib) (ri_item_id en) \<noteq> None"
      using ok en unfolding inbox_ok_def requests_ok_def by fastforce+
    have "ri_key en \<in> index_keys ?ib"
      using bm_get_in_values [OF en] by (simp add: index_keys_def)
    then have "key = ri_key en"
      using assms(2,3) same
      by (intro request_key.digest_determines [of key "ri_key en" sha])
         (auto simp: request_key_digest_eq intro: inj_on_subset)
    then show ?thesis using present by simp
  qed
  have "ingest_unindexed sha ev ?ib \<noteq> Inl CorruptIndex"
    by (auto simp: ingest_unindexed_def split: option.splits)
  moreover have "ingest_indexed ev key en ?ib \<noteq> Inl CorruptIndex"
    if "bm_get (provider_requests ?ib) (request_key_digest sha key) = Some en" for en
    using entry [OF that] by (auto simp: ingest_indexed_def Let_def split: if_splits)
  ultimately show ?thesis
    using assms(1) by (auto simp: ingest_def dest: seen split: option.splits)
qed

theorem ingest_never_corrupt_witness:
  "event_request_key sample_request \<noteq> None
   \<and> ingest (\<lambda>bs. bs) sample_request (inbox_run (\<lambda>bs. bs) [OpIngest sample_request])
       \<noteq> Inl CorruptIndex"
  using ingest_never_corrupt [of sample_request _ "\<lambda>bs. bs" "[OpIngest sample_request]"]
  by (simp add: inbox_eval index_keys_def request_key_small_def bm_values_def Let_def)

section \<open>The status shown for a run\<close>

lemma raise_statuses:
  "foldl (\<lambda>st item. raise_status st (ai_kind item)) fallback xs =
     (if PermissionRequest \<in> ai_kind ` set xs \<or> fallback = NeedsApproval then NeedsApproval
      else if ProviderQuestion \<in> ai_kind ` set xs \<or> fallback = NeedsAnswer then NeedsAnswer
      else if xs \<noteq> [] then Blocked else fallback)"
proof (induction xs arbitrary: fallback)
  case Nil
  then show ?case by simp
next
  case (Cons x xs)
  then show ?case by (cases "ai_kind x") auto
qed

text \<open>
  The status shown for a run is the most urgent one among its unresolved items and the
  session's own, approvals before questions before any other item, whatever the order in which
  the items are visited.
\<close>

theorem effective_run_status_urgency:
  "effective_run_status mission run provider session fallback ib =
     (let kinds = ai_kind ` set (run_items mission run provider session ib)
      in if PermissionRequest \<in> kinds \<or> fallback = NeedsApproval then NeedsApproval
         else if ProviderQuestion \<in> kinds \<or> fallback = NeedsAnswer then NeedsAnswer
         else if kinds \<noteq> {} then Blocked else fallback)"
  by (simp add: effective_run_status_def raise_statuses Let_def)

text \<open>
  A decision that arrives after the expiry time overwrites whatever the item had become,
  so a request that was already answered and acknowledged is afterwards recorded as expired,
  while \<open>refresh\<close> at the same time leaves the recorded resolution alone.
\<close>

theorem late_decide_erases_resolution:
  assumes "bm_get (items ib) k = Some item" and "ai_status item = Resolved d0 actor0 t0"
    and "ai_created_at_millis item \<le> t" and "past_expiry item t"
  shows "(\<exists>item'. bm_get (items (fst (decide k d actor t ib))) k = Some item'
        \<and> ai_status item' = Expired t)
    \<and> bm_get (items (refresh t ib)) k = Some item"
  using assms
  by (auto simp: decide_def is_expired_def refresh_def refresh_item_def is_open_or_pending_def)

theorem late_decide_erases_resolution_witness:
  "let item = (item_from_event (event_expires_at 20 sample_request))
         \<lparr>ai_status := Resolved ApproveOnce ''ada'' 12\<rparr>;
       ib = \<lparr>items = [(''e1'', item)], seen_event_ids = [], provider_requests = []\<rparr>
   in (\<exists>item'. bm_get (items (fst (decide ''e1'' Deny ''bob'' 21 ib))) ''e1'' = Some item'
         \<and> ai_status item' = Expired 21)
      \<and> bm_get (items (refresh 21 ib)) ''e1'' = Some item"
  using late_decide_erases_resolution
    [of "\<lparr>items = [(''e1'', (item_from_event (event_expires_at 20 sample_request))
            \<lparr>ai_status := Resolved ApproveOnce ''ada'' 12\<rparr>)],
          seen_event_ids = [], provider_requests = []\<rparr>" "''e1''" _ ApproveOnce "''ada''" 12 21 Deny "''bob''"]
  by (simp add: Let_def inbox_eval event_expires_at_def)

text \<open>
  An acknowledgement is idempotent: once a response of a reachable inbox is confirmed, the
  item is resolved with the decision of its last attempt and the same confirmation succeeds
  again without any change.
\<close>

theorem confirm_response_idempotent:
  assumes "confirm_response tok t (inbox_run sha ops) = (ib', Inr ())" and "t \<le> t'"
  shows "confirm_response tok t' ib' = (ib', Inr ())"
proof -
  let ?ib = "inbox_run sha ops"
  obtain item where item: "bm_get (items ?ib) (tk_item_id tok) = Some item"
    and created: "\<not> t < ai_created_at_millis item"
    and nonempty: "ai_response_attempts item \<noteq> []"
    and token: "pa_token (last (ai_response_attempts item)) = tok"
    using assms(1) by (auto simp: confirm_response_def Let_def split: option.splits if_splits)
  have later: "\<not> t' < ai_created_at_millis item"
    using created assms(2) by auto
  show ?thesis
  proof (cases "\<exists>u. pa_status (last (ai_response_attempts item)) = Acknowledged u")
    case True
    then have "ib' = ?ib"
      using assms(1) item created nonempty token by (auto simp: confirm_response_def)
    then show ?thesis
      using True later item nonempty token by (auto simp: confirm_response_def)
  next
    case False
    then obtain d a where ib': "ib' = put_item (tk_item_id tok)
        (item\<lparr>ai_response_attempts := set_last_status (Acknowledged t) (ai_response_attempts item),
              ai_status := Resolved d a t\<rparr>) ?ib"
      using assms(1) item nonempty token
      by (auto simp: confirm_response_def Let_def
          split: if_splits provider_response_attempt_status.splits attention_status.splits)
    show ?thesis
      using later item nonempty token
      by (auto simp: ib' confirm_response_def set_last_status_conv)
  qed
qed

theorem confirm_response_idempotent_witness:
  "let tok = \<lparr>tk_item_id = ''e1'', tk_request_generation = 1, tk_attempt = 1\<rparr>;
       ops = [OpIngest sample_request, OpDecide ''e1'' ApproveOnce ''ada'' 11]
   in \<exists>ib'. confirm_response tok 12 (inbox_run (\<lambda>bs. bs) ops) = (ib', Inr ())
        \<and> confirm_response tok 30 ib' = (ib', Inr ())"
proof -
  let ?tok = "\<lparr>tk_item_id = ''e1'', tk_request_generation = 1, tk_attempt = 1\<rparr>"
  let ?ops = "[OpIngest sample_request, OpDecide ''e1'' ApproveOnce ''ada'' 11]"
  obtain ib' where run: "confirm_response ?tok 12 (inbox_run (\<lambda>bs. bs) ?ops) = (ib', Inr ())"
    by (simp add: inbox_eval not_blank_sample confirm_response_def bm_adjust_def Let_def)
  have "confirm_response ?tok 30 ib' = (ib', Inr ())"
    by (rule confirm_response_idempotent [OF run]) (simp add: word_eval)
  then show ?thesis
    using run by auto
qed

end
