(* ===== verification/Rust_Text.thy ===== *)
theory Rust_Text
  imports Rust_Std "HOL-Library.List_Lexorder" "HOL-Library.Char_ord"
begin

text \<open>
  More of the Rust standard library on text and paths, as the verifier, the executor and the
  runtime use it: well-formed UTF-8 and the lossy conversion, \<open>trim\<close> as a string, decimal
  formatting, ASCII case, and \<open>Path\<close>: components, joining, prefixes and extensions on Unix.
\<close>

section \<open>UTF-8 validity\<close>

definition utf8_cont :: "char \<Rightarrow> bool" where
  "utf8_cont c \<longleftrightarrow> 128 \<le> ascii_code c \<and> ascii_code c < 192"

text \<open>The length a lead byte announces (0: not a lead byte), and the range of the second byte.\<close>

definition utf8_seq_width :: "char \<Rightarrow> nat" where
  "utf8_seq_width c =
     (let b = ascii_code c
      in if b < 128 then 1 else if b < 194 then 0 else if b < 224 then 2 else if b < 240 then 3
         else if b < 245 then 4 else 0)"

definition utf8_second_ok :: "char \<Rightarrow> char \<Rightarrow> bool" where
  "utf8_second_ok c d =
     (let b = ascii_code c; b1 = ascii_code d
      in utf8_cont d \<and> (b = 224 \<longrightarrow> 160 \<le> b1) \<and> (b = 237 \<longrightarrow> b1 < 160)
         \<and> (b = 240 \<longrightarrow> 144 \<le> b1) \<and> (b = 244 \<longrightarrow> b1 < 144))"

text \<open>How many bytes the next step consumes, and whether they are a well-formed character.\<close>

fun utf8_head :: "char \<Rightarrow> string \<Rightarrow> nat \<times> bool" where
  "utf8_head c s =
     (let w = utf8_seq_width c
      in if w = 0 then (1, False) else if w = 1 then (1, True)
         else case s of
           [] \<Rightarrow> (1, False)
         | d # s2 \<Rightarrow>
             if \<not> utf8_second_ok c d then (1, False) else if w = 2 then (2, True)
             else case s2 of
               [] \<Rightarrow> (2, False)
             | e # s3 \<Rightarrow>
                 if \<not> utf8_cont e then (2, False) else if w = 3 then (3, True)
                 else case s3 of
                   [] \<Rightarrow> (3, False)
                 | f # s4 \<Rightarrow> if utf8_cont f then (4, True) else (3, False))"

declare utf8_head.simps [simp del]

text \<open>The steps of a decoder: every maximal well-formed character or ill-formed subpart.\<close>

fun utf8_steps :: "string \<Rightarrow> (string \<times> bool) list" where
  "utf8_steps [] = []"
| "utf8_steps (c # s) =
     (case utf8_head c s of (n, ok) \<Rightarrow> (take n (c # s), ok) # utf8_steps (drop (n - 1) s))"

definition utf8_valid :: "string \<Rightarrow> bool" where
  "utf8_valid s \<longleftrightarrow> list_all snd (utf8_steps s)"

definition replacement_character :: string where
  "replacement_character = [char_of (239 :: nat), char_of (191 :: nat), char_of (189 :: nat)]"

definition from_utf8_lossy :: "string \<Rightarrow> string" where
  "from_utf8_lossy s =
     concat (map (\<lambda>(piece, ok). if ok then piece else replacement_character) (utf8_steps s))"

definition from_utf8 :: "u8 list \<Rightarrow> string option" where
  "from_utf8 bs =
     (let s = map (\<lambda>b. char_of (unat b)) bs in if utf8_valid s then Some s else None)"

lemma concat_utf8_steps: "concat (map fst (utf8_steps s)) = s"
proof (induction s rule: utf8_steps.induct)
  case (2 c s)
  obtain n ok where step: "utf8_head c s = (n, ok)"
    by fastforce
  then have "n \<noteq> 0"
    by (auto simp: utf8_head.simps Let_def split: if_splits list.splits)
  then show ?case
    using 2 step by (cases n) auto
qed simp

lemma lossy_valid: "utf8_valid s \<Longrightarrow> from_utf8_lossy s = s"
proof -
  assume "utf8_valid s"
  then have "map (\<lambda>(piece, ok). if ok then piece else replacement_character) (utf8_steps s)
      = map fst (utf8_steps s)"
    by (auto simp: utf8_valid_def list_all_iff split: prod.splits if_splits)
  then show ?thesis
    by (simp only: from_utf8_lossy_def concat_utf8_steps)
qed

lemma ascii_utf8_steps: "is_ascii s \<Longrightarrow> utf8_steps s = map (\<lambda>c. ([c], True)) s"
  by (induction s) (auto simp: is_ascii_def utf8_head.simps utf8_seq_width_def)

lemma ascii_utf8_valid: "is_ascii s \<Longrightarrow> utf8_valid s"
  by (simp add: utf8_valid_def ascii_utf8_steps list_all_iff)

lemma u8_of_char_of: "of_char (char_of (unat b)) = (b :: u8)"
proof -
  have "unat (of_char (char_of (unat b)) :: u8) = unat b"
    using unat_u8_less [of b] by (simp only: unat_of_char of_char_of) simp
  then show ?thesis by (simp only: word_unat_eq_iff)
qed

lemma from_utf8_Some: "from_utf8 bs = Some s \<Longrightarrow> bytes_of s = bs"
  by (auto simp: from_utf8_def Let_def bytes_of_def u8_of_char_of o_def split: if_splits)

lemma from_utf8_bytes_of: "utf8_valid s \<Longrightarrow> from_utf8 (bytes_of s) = Some s"
  by (simp add: from_utf8_def bytes_of_def comp_def unat_of_char)

section \<open>Text\<close>

definition utf8_split :: "string \<Rightarrow> string list" where
  "utf8_split s = map fst (utf8_steps s)"

definition whitespace_piece :: "string \<Rightarrow> bool" where
  "whitespace_piece piece \<longleftrightarrow> list_all is_whitespace (utf8_chars piece)"

text \<open>\<open>str::trim\<close> of a well-formed string.\<close>

definition str_trim :: "string \<Rightarrow> string" where
  "str_trim s =
     concat (rev (dropWhile whitespace_piece (rev (dropWhile whitespace_piece (utf8_split s)))))"

lemma str_trim_ascii:
  assumes "is_ascii s"
  shows "str_trim s = rev (dropWhile (\<lambda>c. is_whitespace (ascii_code c))
    (rev (dropWhile (\<lambda>c. is_whitespace (ascii_code c)) s)))"
proof -
  have piece: "whitespace_piece [c] \<longleftrightarrow> is_whitespace (ascii_code c)" if "c \<in> set s" for c
    using that assms
    by (simp add: whitespace_piece_def is_ascii_def utf8_width_def utf8_code_def utf8_lead_def)
  have drop: "dropWhile whitespace_piece (map (\<lambda>c. [c]) xs)
      = map (\<lambda>c. [c]) (dropWhile (\<lambda>c. is_whitespace (ascii_code c)) xs)" if "set xs \<subseteq> set s" for xs
    using that by (induction xs) (auto simp: piece)
  have sub: "set (rev (dropWhile Q s)) \<subseteq> set s" for Q
    using set_dropWhileD by fastforce
  have "concat (map (\<lambda>c. [c]) xs) = xs" for xs :: string
    by (induction xs) auto
  then show ?thesis
    by (simp add: str_trim_def utf8_split_def ascii_utf8_steps [OF assms] comp_def drop
        drop [OF sub] rev_map)
qed

fun decimal :: "nat \<Rightarrow> string" where
  "decimal n =
     (if n < 10 then [''0123456789'' ! n] else decimal (n div 10) @ [''0123456789'' ! (n mod 10)])"

declare decimal.simps [simp del]

definition ascii_lower :: "char \<Rightarrow> char" where
  "ascii_lower c =
     (if 65 \<le> ascii_code c \<and> ascii_code c \<le> 90 then char_of (ascii_code c + 32) else c)"

definition to_ascii_lowercase :: "string \<Rightarrow> string" where
  "to_ascii_lowercase s = map ascii_lower s"

definition is_ascii_lowercase :: "char \<Rightarrow> bool" where
  "is_ascii_lowercase c \<longleftrightarrow> 97 \<le> ascii_code c \<and> ascii_code c \<le> 122"

section \<open>Paths\<close>

text \<open>
  A canonical path is the list of its components; every other path is the string the program has.
\<close>

type_synonym path = "string list"

definition path_string :: "path \<Rightarrow> string" where
  "path_string p = (if p = [] then ''/'' else concat (map ((#) CHR ''/'') p))"

definition to_string_lossy :: "path \<Rightarrow> string" where
  "to_string_lossy p = from_utf8_lossy (path_string p)"

datatype path_component = RootDir | CurDir | ParentDir | Normal string

definition plain_component :: "string \<Rightarrow> path_component" where
  "plain_component w = (if w = ''..'' then ParentDir else Normal w)"

text \<open>\<open>Path::components\<close>: empty pieces and inner dots vanish; a leading dot is kept.\<close>

definition components :: "string \<Rightarrow> path_component list" where
  "components s =
     (if path_is_absolute s then [RootDir]
      else if hd (split_on (CHR ''/'') s) = ''.'' then [CurDir] else [])
     @ map plain_component (filter (\<lambda>w. w \<noteq> [] \<and> w \<noteq> ''.'') (split_on (CHR ''/'') s))"

definition path_join :: "string \<Rightarrow> string \<Rightarrow> string" where
  "path_join base s =
     (if path_is_absolute s then s
      else if base = [] \<or> last base = CHR ''/'' then base @ s else base @ ''/'' @ s)"

text \<open>\<open>starts_with\<close> and \<open>strip_prefix\<close> of a canonical path.\<close>

definition path_strip_prefix :: "path \<Rightarrow> path \<Rightarrow> path option" where
  "path_strip_prefix base p =
     (if take (length base) p = base then Some (drop (length base) p) else None)"

definition path_starts_with :: "path \<Rightarrow> path \<Rightarrow> bool" where
  "path_starts_with base p \<longleftrightarrow> path_strip_prefix base p \<noteq> None"

lemma path_strip_prefix_Some: "path_strip_prefix base p = Some r \<longleftrightarrow> p = base @ r"
  by (auto simp: path_strip_prefix_def) (metis append_take_drop_id)

lemma path_starts_with_iff: "path_starts_with base p \<longleftrightarrow> (\<exists>r. p = base @ r)"
  by (auto simp: path_starts_with_def path_strip_prefix_Some)

text \<open>
  The test that the verifier makes of a relative path: not empty, not absolute, no prefix, root
  or parent component.
\<close>

definition leaves_directory :: "string \<Rightarrow> bool" where
  "leaves_directory s \<longleftrightarrow> s = [] \<or> path_is_absolute s
     \<or> list_ex (\<lambda>c. c \<in> {RootDir, ParentDir}) (components s)"

lemma leaves_directory_iff:
  "leaves_directory s \<longleftrightarrow> s = [] \<or> path_is_absolute s \<or> ''..'' \<in> set (split_on (CHR ''/'') s)"
  by (auto simp: leaves_directory_def components_def plain_component_def list_ex_iff
      split: if_splits)

text \<open>\<open>Path::file_name\<close> and \<open>Path::extension\<close>: a name that only starts with a dot has none.\<close>

definition file_name :: "string \<Rightarrow> string option" where
  "file_name s =
     (if components s = [] then None
      else case last (components s) of Normal w \<Rightarrow> Some w | _ \<Rightarrow> None)"

definition extension :: "string \<Rightarrow> string option" where
  "extension s =
     (case file_name s of
        None \<Rightarrow> None
      | Some w \<Rightarrow>
          let parts = split_on (CHR ''.'') w
          in if length parts = 1 \<or> length parts = 2 \<and> hd parts = [] then None
             else Some (last parts))"

end
