(* ===== verification/Trusted_Git.thy ===== *)
theory Trusted_Git
  imports Evidence Rust_Text
begin

text \<open>
  \<open>src/mission/verifier.rs\<close>, the part that reads a Git worktree: running Git with a closed
  environment and bounded output, the manifest, the checks of index and flags, the hashing of
  every path and the workspace snapshot. The child processes, the clock and the file system are
  parameters: what a process writes and when it ends, what the calls on a path return.
\<close>

section \<open>Errors\<close>

datatype verification_error =
    GitUnavailable | WorktreeUnavailable | NotGitWorktree | WorktreeMustBeRoot | GitCommandFailed
  | GitTimeout | GitOutputLimitExceeded | InvalidGitOutput | VeInvalidRevision | NonUtf8Path
  | UnsafePath | PathLimitExceeded | FileLimitExceeded | HashLimitExceeded
  | WorkspaceChangedDuringScan | SubmoduleUnsupported | IntentToAddUnsupported
  | ConflictUnsupported | AssumeUnchangedUnsupported | SkipWorktreeUnsupported
  | SpecialFileUnsupported | ReaderFailed | VeIo

definition max_git_output_bytes :: nat where "max_git_output_bytes = 256 * 1024 * 1024"

definition max_git_stderr_bytes :: nat where "max_git_stderr_bytes = 1024 * 1024"

definition max_paths :: nat where "max_paths = 200000"

definition max_file_bytes :: u64 where "max_file_bytes = 512 * 1024 * 1024"

definition max_total_hashed_bytes :: u64 where
  "max_total_hashed_bytes = 2 * 1024 * 1024 * 1024"

section \<open>Draining a pipe\<close>

text \<open>
  The results of the calls of \<open>read\<close> on one pipe: bytes, no bytes at the end, or an error. The
  loop returns the overflow flag it leaves with what it returns.
\<close>

type_synonym reads = "(unit + u8 list) list"

fun drain_loop :: "nat \<Rightarrow> u8 list \<Rightarrow> bool \<Rightarrow> reads \<Rightarrow> bool \<times> (unit + u8 list)" where
  "drain_loop limit retained overflowed [] = (overflowed, Inr retained)"
| "drain_loop limit retained overflowed (Inl e # rs) = (overflowed, Inl e)"
| "drain_loop limit retained overflowed (Inr chunk # rs) =
     (if chunk = [] then (overflowed, Inr retained)
      else
        let remaining = limit - length retained
        in drain_loop limit (retained @ take remaining chunk)
             (overflowed \<or> length chunk > remaining) rs)"

definition drain_bounded :: "nat \<Rightarrow> reads \<Rightarrow> bool \<times> (unit + u8 list)" where
  "drain_bounded limit rs = drain_loop limit [] False rs"

section \<open>Running Git\<close>

text \<open>
  One poll of the waiting loop: the overflow flag it sees, what \<open>try_wait\<close> returns (a status is
  whether it is a success) and what \<open>wait\<close> returns after a kill. The polls of a child are those up
  to the one that finds the deadline passed.
\<close>

record git_poll =
  gp_overflowed :: bool
  gp_try_wait :: "unit + bool option"
  gp_killed :: "unit + bool"

record git_child =
  gc_spawned :: bool
  gc_pipes :: bool
  gc_polls :: "git_poll list"
  gc_stdout :: reads
  gc_stderr :: reads
  gc_reader_panicked :: bool

record git_command =
  gm_executable :: path
  gm_env :: "(string \<times> string) list"
  gm_args :: "string list"

fun git_wait :: "git_poll list \<Rightarrow> verification_error + bool" where
  "git_wait [] = Inl GitTimeout"
| "git_wait (p # ps) =
     (if gp_overflowed p then map_err (\<lambda>_. VeIo) (gp_killed p)
      else case gp_try_wait p of
        Inl _ \<Rightarrow> Inl VeIo
      | Inr (Some status) \<Rightarrow> Inr status
      | Inr None \<Rightarrow> git_wait ps)"

record bounded_output =
  bo_success :: bool
  bo_stdout :: "u8 list"
  bo_overflowed :: bool

definition run_bounded :: "git_child \<Rightarrow> verification_error + bounded_output" where
  "run_bounded child =
     (if \<not> gc_spawned child then Inl VeIo
      else if \<not> gc_pipes child then Inl GitUnavailable
      else
        rbind (git_wait (gc_polls child)) (\<lambda>status.
        let (stdout_overflowed, stdout) = drain_bounded max_git_output_bytes (gc_stdout child);
            (stderr_overflowed, stderr) = drain_bounded max_git_stderr_bytes (gc_stderr child)
        in if gc_reader_panicked child then Inl ReaderFailed
           else
             rbind (map_err (\<lambda>_. VeIo) stdout) (\<lambda>out.
             rbind (map_err (\<lambda>_. VeIo) stderr) (\<lambda>_.
               Inr \<lparr>bo_success = status, bo_stdout = out,
                    bo_overflowed = stdout_overflowed \<or> stderr_overflowed\<rparr>))))"

definition git_command_for :: "path \<Rightarrow> path \<Rightarrow> string list \<Rightarrow> git_command" where
  "git_command_for executable worktree args =
     \<lparr>gm_executable = executable,
      gm_env = [(''LC_ALL'', ''C''), (''LANG'', ''C''), (''GIT_CONFIG_NOSYSTEM'', ''1'')],
      gm_args = [''--no-pager'', ''--literal-pathspecs'', ''--no-optional-locks'',
        ''-c'', ''core.fsmonitor=false'', ''-c'', ''core.untrackedCache=false'',
        ''-c'', ''submodule.recurse=false'', ''-C'', path_string worktree] @ args\<rparr>"

definition git_run ::
  "(git_command \<Rightarrow> git_child) \<Rightarrow> path \<Rightarrow> path \<Rightarrow> string list \<Rightarrow> verification_error + u8 list" where
  "git_run spawn executable worktree args =
     rbind (run_bounded (spawn (git_command_for executable worktree args))) (\<lambda>output.
       if bo_overflowed output then Inl GitOutputLimitExceeded
       else if \<not> bo_success output then Inl GitCommandFailed
       else Inr (bo_stdout output))"

section \<open>The environment\<close>

text \<open>What the calls on one path of the worktree return while it is hashed.\<close>

datatype file_kind = KindSymlink | KindFile | KindOther

record metadata =
  md_kind :: file_kind
  md_dev :: u64
  md_ino :: u64
  md_len :: u64
  md_mtime :: int
  md_mtime_nsec :: int
  md_mode :: u32

datatype stat_result = StatNotFound | StatError | StatOk metadata

record node_io =
  ni_stat :: stat_result
  ni_link :: "u8 list option"
  ni_opened :: "metadata option"
  ni_open_ok :: bool
  ni_reads :: reads
  ni_after :: "metadata option"

text \<open>
  \<open>gv_first\<close>, \<open>gv_second\<close> and \<open>gv_later\<close> are the Git processes of the first manifest of a scan,
  of its second manifest, and of the commands a summary runs after its scan.
\<close>

record git_env =
  gv_canonicalize :: "string \<Rightarrow> path option"
  gv_worktree_info :: "path \<Rightarrow> (string \<times> string) option"
  gv_is_file :: "string \<Rightarrow> bool"
  gv_path :: "string list option"
  gv_first :: "git_command \<Rightarrow> git_child"
  gv_second :: "git_command \<Rightarrow> git_child"
  gv_later :: "git_command \<Rightarrow> git_child"
  gv_node :: "string \<Rightarrow> node_io"

section \<open>Discovery and the checkout root\<close>

definition git_candidates :: "git_env \<Rightarrow> string list" where
  "git_candidates env =
     [''/usr/bin/git'', ''/opt/homebrew/bin/git'']
     @ (case gv_path env of None \<Rightarrow> [] | Some dirs \<Rightarrow> map (\<lambda>dir. path_join dir ''git'') dirs)"

definition discover :: "git_env \<Rightarrow> verification_error + path" where
  "discover env =
     (case List.find (gv_is_file env) (git_candidates env) of
        None \<Rightarrow> Inl GitUnavailable
      | Some candidate \<Rightarrow> ok_or GitUnavailable (gv_canonicalize env candidate))"

text \<open>The first lines of \<open>head_revision\<close>, \<open>scan\<close> and \<open>handoff_summary\<close>.\<close>

definition trusted_root :: "git_env \<Rightarrow> string \<Rightarrow> verification_error + path" where
  "trusted_root env requested =
     rbind (ok_or WorktreeUnavailable (gv_canonicalize env requested)) (\<lambda>worktree.
     rbind (ok_or NotGitWorktree (gv_worktree_info env worktree)) (\<lambda>info.
     rbind (ok_or WorktreeUnavailable (gv_canonicalize env (fst info))) (\<lambda>root.
       if worktree \<noteq> root then Inl WorktreeMustBeRoot else Inr worktree)))"

definition parse_head_revision :: "u8 list \<Rightarrow> verification_error + string" where
  "parse_head_revision bytes =
     rbind (ok_or InvalidGitOutput (from_utf8 bytes)) (\<lambda>text.
       let revision = str_trim text
       in if \<not> (40 \<le> length revision \<and> length revision \<le> 64)
            \<or> \<not> list_all is_ascii_hexdigit revision
          then Inl InvalidGitOutput else Inr revision)"

definition head_revision :: "git_env \<Rightarrow> path \<Rightarrow> string \<Rightarrow> verification_error + string" where
  "head_revision env executable requested =
     rbind (trusted_root env requested) (\<lambda>worktree.
     rbind (git_run (gv_first env) executable worktree
              [''rev-parse'', ''--verify'', ''HEAD^{commit}'']) parse_head_revision)"

section \<open>The manifest\<close>

record git_manifest =
  mf_head :: "u8 list"
  mf_index :: "u8 list"
  mf_flags :: "u8 list"
  mf_status :: "u8 list"
  mf_staged_paths :: "u8 list"
  mf_unstaged_paths :: "u8 list"
  mf_paths :: "u8 list"
  mf_ignored_paths :: "u8 list"

definition manifest ::
  "(git_command \<Rightarrow> git_child) \<Rightarrow> path \<Rightarrow> path \<Rightarrow> bool \<Rightarrow> verification_error + git_manifest" where
  "manifest spawn executable worktree include_ignored =
     (let run = git_run spawn executable worktree
      in rbind (run [''rev-parse'', ''--verify'', ''HEAD^{commit}'']) (\<lambda>head.
         rbind (run [''ls-files'', ''--stage'', ''-z'']) (\<lambda>index.
         rbind (run [''ls-files'', ''-v'', ''-z'']) (\<lambda>flags.
         rbind (run [''status'', ''--porcelain=v2'', ''-z'', ''--untracked-files=all'',
                     ''--ignore-submodules=none'']) (\<lambda>status.
         rbind (run [''diff'', ''--cached'', ''--name-only'', ''-z'', ''--ignore-submodules=none''])
           (\<lambda>staged.
         rbind (run [''diff'', ''--name-only'', ''-z'', ''--ignore-submodules=none'']) (\<lambda>unstaged.
         rbind (run [''ls-files'', ''-z'', ''--cached'', ''--others'', ''--exclude-standard''])
           (\<lambda>paths.
         rbind (if include_ignored
                then run [''ls-files'', ''-z'', ''--others'', ''--ignored'', ''--exclude-standard'']
                else Inr []) (\<lambda>ignored.
           Inr \<lparr>mf_head = head, mf_index = index, mf_flags = flags, mf_status = status,
                mf_staged_paths = staged, mf_unstaged_paths = unstaged, mf_paths = paths,
                mf_ignored_paths = ignored\<rparr>)))))))))"

definition nul_records :: "u8 list \<Rightarrow> u8 list list" where
  "nul_records bytes = filter (\<lambda>r. r \<noteq> []) (split_on 0 bytes)"

fun split_once :: "u8 list \<Rightarrow> u8 \<Rightarrow> (u8 list \<times> u8 list) option" where
  "split_once [] delimiter = None"
| "split_once (b # bs) delimiter =
     (if b = delimiter then Some ([], bs)
      else map_option (\<lambda>(before, after). (b # before, after)) (split_once bs delimiter))"

definition index_record_check :: "u8 list \<Rightarrow> verification_error + unit" where
  "index_record_check r =
     (case split_once r 9 of
        None \<Rightarrow> Inl InvalidGitOutput
      | Some (meta, _) \<Rightarrow>
          let fields = filter (\<lambda>f. f \<noteq> []) (split_on 32 meta)
          in if length fields \<noteq> 3 then Inl InvalidGitOutput
             else if fields ! 0 = bytes_of ''160000'' then Inl SubmoduleUnsupported
             else if fields ! 0 = bytes_of ''000000'' then Inl IntentToAddUnsupported
             else if fields ! 2 \<noteq> bytes_of ''0'' then Inl ConflictUnsupported
             else Inr ())"

definition validate_index :: "u8 list \<Rightarrow> verification_error + unit" where
  "validate_index bytes = check_all index_record_check (nul_records bytes)"

definition flag_record_check :: "u8 list \<Rightarrow> verification_error + unit" where
  "flag_record_check r =
     (case r of
        [] \<Rightarrow> Inl InvalidGitOutput
      | flag # _ \<Rightarrow>
          if 97 \<le> flag \<and> flag \<le> 122 then Inl AssumeUnchangedUnsupported
          else if flag = 83 then Inl SkipWorktreeUnsupported
          else Inr ())"

definition validate_flags :: "u8 list \<Rightarrow> verification_error + unit" where
  "validate_flags bytes = check_all flag_record_check (nul_records bytes)"

text \<open>A fallible \<open>map\<close> collected into a \<open>Result\<close>: the first error wins.\<close>

fun collect_results :: "('a \<Rightarrow> 'e + 'b) \<Rightarrow> 'a list \<Rightarrow> 'e + 'b list" where
  "collect_results f [] = Inr []"
| "collect_results f (x # xs) = rbind (f x) (\<lambda>y. rbind (collect_results f xs) (\<lambda>ys. Inr (y # ys)))"

definition utf8_record :: "u8 list \<Rightarrow> verification_error + string" where
  "utf8_record r = ok_or NonUtf8Path (from_utf8 r)"

definition repo_path_set :: "u8 list \<Rightarrow> verification_error + string bset" where
  "repo_path_set bytes =
     rbind (collect_results utf8_record (nul_records bytes)) (\<lambda>paths. Inr (bs_collect paths))"

definition index_paths :: "u8 list \<Rightarrow> verification_error + string bset" where
  "index_paths bytes =
     rbind (collect_results
       (\<lambda>r. rbind (ok_or InvalidGitOutput (split_once r 9)) (\<lambda>(_, p). utf8_record p))
       (nul_records bytes)) (\<lambda>paths. Inr (bs_collect paths))"

definition manifest_paths :: "git_manifest \<Rightarrow> bool \<Rightarrow> verification_error + string bset" where
  "manifest_paths m include_ignored =
     rbind (collect_results utf8_record
       (nul_records (mf_paths m)
        @ (if include_ignored then nul_records (mf_ignored_paths m) else [])))
       (\<lambda>paths. Inr (bs_collect paths))"

definition validate_repo_path :: "string \<Rightarrow> verification_error + unit" where
  "validate_repo_path p =
     (if leaves_directory p \<or> take 1 (components p) = [Normal ''.git'']
      then Inl UnsafePath else Inr ())"

section \<open>Hashing the worktree\<close>

datatype worktree_node = NodeMissing | NodeRegular string bool u64 | NodeSymlink string

definition same_file_identity :: "metadata \<Rightarrow> metadata \<Rightarrow> bool" where
  "same_file_identity l r \<longleftrightarrow> md_dev l = md_dev r \<and> md_ino l = md_ino r \<and> md_len l = md_len r
     \<and> md_mtime l = md_mtime r \<and> md_mtime_nsec l = md_mtime_nsec r \<and> md_mode l = md_mode r"

definition is_executable :: "metadata \<Rightarrow> bool" where
  "is_executable md \<longleftrightarrow> md_mode md AND 73 \<noteq> 0"

definition u64_checked_add :: "u64 \<Rightarrow> u64 \<Rightarrow> u64 option" where
  "u64_checked_add a b = (if unat a + unat b < 2 ^ 64 then Some (a + b) else None)"

text \<open>The read loop: the bytes up to the first empty read, or an error.\<close>

fun read_to_end :: "reads \<Rightarrow> verification_error + u8 list" where
  "read_to_end [] = Inr []"
| "read_to_end (Inl e # rs) = Inl VeIo"
| "read_to_end (Inr chunk # rs) =
     (if chunk = [] then Inr [] else rbind (read_to_end rs) (\<lambda>rest. Inr (chunk @ rest)))"

text \<open>\<open>total_hashed\<close> is passed and returned; an error leaves the scan, so its value is not needed.\<close>

definition hash_worktree_node ::
  "sha256 \<Rightarrow> git_env \<Rightarrow> path \<Rightarrow> string \<Rightarrow> u64 \<Rightarrow> verification_error + worktree_node \<times> u64" where
  "hash_worktree_node sha env root relative total_hashed =
     (let io = gv_node env (path_join (path_string root) relative)
      in case ni_stat io of
        StatNotFound \<Rightarrow> Inr (NodeMissing, total_hashed)
      | StatError \<Rightarrow> Inl VeIo
      | StatOk md \<Rightarrow>
          if md_kind md = KindSymlink then
            rbind (ok_or VeIo (ni_link io)) (\<lambda>target.
              Inr (NodeSymlink (hex_encode (sha target)), total_hashed))
          else if md_kind md \<noteq> KindFile then Inl SpecialFileUnsupported
          else if md_len md > max_file_bytes then Inl FileLimitExceeded
          else
            rbind (ok_or HashLimitExceeded (u64_checked_add total_hashed (md_len md))) (\<lambda>total.
            if total > max_total_hashed_bytes then Inl HashLimitExceeded
            else if \<not> ni_open_ok io then Inl VeIo
            else
              rbind (ok_or VeIo (ni_opened io)) (\<lambda>opened.
              if md_kind opened \<noteq> KindFile \<or> \<not> same_file_identity md opened
              then Inl WorkspaceChangedDuringScan
              else
                rbind (read_to_end (ni_reads io)) (\<lambda>content.
                rbind (ok_or VeIo (ni_after io)) (\<lambda>after.
                if \<not> same_file_identity opened after then Inl WorkspaceChangedDuringScan
                else Inr (NodeRegular (hex_encode (sha content)) (is_executable opened)
                            (md_len opened), total))))))"

fun hash_nodes ::
  "sha256 \<Rightarrow> git_env \<Rightarrow> path \<Rightarrow> string list \<Rightarrow> u64 \<Rightarrow> (string, worktree_node) bmap
     \<Rightarrow> verification_error + (string, worktree_node) bmap" where
  "hash_nodes sha env root [] total_hashed nodes = Inr nodes"
| "hash_nodes sha env root (p # ps) total_hashed nodes =
     rbind (validate_repo_path p) (\<lambda>_.
     rbind (hash_worktree_node sha env root p total_hashed) (\<lambda>(node, total').
       hash_nodes sha env root ps total' (bm_insert p node nodes)))"

fun node_update :: "worktree_node \<Rightarrow> canonical_digest \<Rightarrow> canonical_digest" where
  "node_update NodeMissing d = cd_u8 0 d"
| "node_update (NodeRegular h x len) d = cd_u64 len (cd_bool x (cd_string h (cd_u8 1 d)))"
| "node_update (NodeSymlink h) d = cd_string h (cd_u8 2 d)"

definition node_fingerprint :: "sha256 \<Rightarrow> worktree_node \<Rightarrow> string" where
  "node_fingerprint sha node =
     cd_finish sha (node_update node (cd_new ''trusted-git-worktree-node-v1''))"

fun node_artifact_hash :: "worktree_node \<Rightarrow> string option" where
  "node_artifact_hash (NodeRegular h _ _) = Some h"
| "node_artifact_hash (NodeSymlink h) = Some h"
| "node_artifact_hash NodeMissing = None"

section \<open>Scanning\<close>

record git_workspace_snapshot =
  gs_head_revision :: string
  gs_digest :: string
  gs_path_count :: nat
  gs_evidence_snapshot :: workspace_snapshot

definition scan_digest ::
  "sha256 \<Rightarrow> bool \<Rightarrow> git_manifest \<Rightarrow> (string, worktree_node) bmap \<Rightarrow> string" where
  "scan_digest sha include_ignored m nodes =
     cd_finish sha
       (fold (\<lambda>(p, node) d. node_update node (cd_string p d)) nodes
       (cd_len nodes
       (cd_bytes (mf_ignored_paths m)
       (cd_bytes (mf_paths m)
       (cd_bytes (mf_unstaged_paths m)
       (cd_bytes (mf_staged_paths m)
       (cd_bytes (mf_status m)
       (cd_bytes (mf_flags m)
       (cd_bytes (mf_index m)
       (cd_bytes (mf_head m)
       (cd_bool include_ignored
       (cd_new ''trusted-git-workspace-v1''))))))))))))"

definition disposition_of ::
  "string bset \<Rightarrow> string bset \<Rightarrow> string bset \<Rightarrow> string bset \<Rightarrow> string \<Rightarrow> file_disposition" where
  "disposition_of ignored tracked unstaged staged p =
     (if p \<in> set ignored then Ignored
      else if p \<notin> set tracked then Untracked
      else if p \<in> set unstaged then Unstaged
      else if p \<in> set staged then Staged
      else Tracked)"

definition fingerprint_of ::
  "sha256 \<Rightarrow> (string \<Rightarrow> file_disposition) \<Rightarrow> string \<times> worktree_node \<Rightarrow> file_fingerprint" where
  "fingerprint_of sha disposition = (\<lambda>(p, node).
     \<lparr>ff_path = p, ff_content_hash = node_fingerprint sha node, ff_disposition = disposition p\<rparr>)"

definition node_artifacts :: "(string, worktree_node) bmap \<Rightarrow> (string \<times> string) list" where
  "node_artifacts nodes =
     List.map_filter (\<lambda>(p, node). map_option (Pair p) (node_artifact_hash node)) nodes"

text \<open>\<open>scan\<close> from the first manifest and the hashed nodes on.\<close>

definition snapshot_of ::
  "sha256 \<Rightarrow> bool \<Rightarrow> git_manifest \<Rightarrow> (string, worktree_node) bmap
     \<Rightarrow> verification_error + git_workspace_snapshot" where
  "snapshot_of sha include_ignored m nodes =
     rbind (parse_head_revision (mf_head m)) (\<lambda>head.
     rbind (index_paths (mf_index m)) (\<lambda>tracked.
     rbind (repo_path_set (mf_staged_paths m)) (\<lambda>staged.
     rbind (repo_path_set (mf_unstaged_paths m)) (\<lambda>unstaged.
     rbind (repo_path_set (mf_ignored_paths m)) (\<lambda>ignored.
       let digest = scan_digest sha include_ignored m nodes;
           files = map (fingerprint_of sha (disposition_of ignored tracked unstaged staged)) nodes
       in Inr \<lparr>gs_head_revision = head, gs_digest = digest, gs_path_count = length nodes,
               gs_evidence_snapshot =
                 with_artifacts (node_artifacts nodes) (workspace_new head digest files)\<rparr>)))))"

definition git_scan ::
  "sha256 \<Rightarrow> git_env \<Rightarrow> path \<Rightarrow> string \<Rightarrow> bool \<Rightarrow> verification_error + git_workspace_snapshot" where
  "git_scan sha env executable requested include_ignored =
     rbind (trusted_root env requested) (\<lambda>worktree.
     rbind (manifest (gv_first env) executable worktree include_ignored) (\<lambda>before.
     rbind (validate_index (mf_index before)) (\<lambda>_.
     rbind (validate_flags (mf_flags before)) (\<lambda>_.
     rbind (manifest_paths before include_ignored) (\<lambda>paths.
     if length paths > max_paths then Inl PathLimitExceeded
     else
       rbind (hash_nodes sha env worktree paths 0 []) (\<lambda>nodes.
       rbind (manifest (gv_second env) executable worktree include_ignored) (\<lambda>after.
       if before \<noteq> after then Inl WorkspaceChangedDuringScan
       else snapshot_of sha include_ignored before nodes)))))))"

section \<open>The summary for a handoff\<close>

record git_handoff_summary =
  hs_head_revision :: string
  hs_workspace_digest :: string
  hs_changed_paths :: "string list"
  hs_diff_stat :: string

definition handoff_summary ::
  "sha256 \<Rightarrow> git_env \<Rightarrow> path \<Rightarrow> string \<Rightarrow> string \<Rightarrow> verification_error + git_handoff_summary" where
  "handoff_summary sha env executable requested base_revision =
     (if length base_revision \<notin> {40, 64} \<or> \<not> list_all is_ascii_hexdigit base_revision
      then Inl VeInvalidRevision
      else
        rbind (trusted_root env requested) (\<lambda>worktree.
        rbind (git_scan sha env executable (path_string worktree) False) (\<lambda>snapshot.
        let run = git_run (gv_later env) executable worktree
        in rbind (run [''diff'', ''--name-only'', ''-z'', ''--ignore-submodules=none'',
                       base_revision, ''--'']) (\<lambda>changed.
           rbind (run [''ls-files'', ''--others'', ''--exclude-standard'', ''-z'']) (\<lambda>untracked.
           rbind (repo_path_set changed) (\<lambda>changed_set.
           rbind (repo_path_set untracked) (\<lambda>untracked_set.
           let changed_paths = bs_extend changed_set untracked_set
           in if length changed_paths > max_paths then Inl PathLimitExceeded
              else
                rbind (run [''diff'', ''--stat'', ''--no-ext-diff'', ''--no-color'',
                            ''--ignore-submodules=none'', base_revision, ''--'']) (\<lambda>stat.
                let text = str_trim (from_utf8_lossy (map (\<lambda>b. char_of (unat b)) stat));
                    count = length untracked_set;
                    text' = (if count > 0
                             then (if text \<noteq> [] then text @ [CHR 0x0A] else text)
                               @ decimal count @ '' untracked path(s)''
                             else text)
                in Inr \<lparr>hs_head_revision = gs_head_revision snapshot,
                        hs_workspace_digest = gs_digest snapshot,
                        hs_changed_paths = changed_paths, hs_diff_stat = text'\<rparr>)))))))) "

end
