(* ===== verification/Trusted_Git_Props.thy ===== *)
theory Trusted_Git_Props
  imports Trusted_Git
begin

text \<open>
  What a scan of a worktree guarantees: output is bounded, an accepted scan saw the same Git state
  before and after hashing, covers exactly the paths Git lists, refuses every path that leaves the
  worktree and stays within its limits; and its digest determines the snapshot.
\<close>

section \<open>Bounded output\<close>

text \<open>What the reads deliver before the end or the first error, and whether they end in an error.\<close>

fun delivered :: "reads \<Rightarrow> u8 list" where
  "delivered [] = []"
| "delivered (Inl e # rs) = []"
| "delivered (Inr chunk # rs) = (if chunk = [] then [] else chunk @ delivered rs)"

fun read_failed :: "reads \<Rightarrow> bool" where
  "read_failed [] = False"
| "read_failed (Inl e # rs) = True"
| "read_failed (Inr chunk # rs) = (chunk \<noteq> [] \<and> read_failed rs)"

lemma drain_loop_eq:
  "length retained \<le> limit \<Longrightarrow>
   drain_loop limit retained overflowed rs =
     (overflowed \<or> limit < length retained + length (delivered rs),
      if read_failed rs then Inl () else Inr (retained @ take (limit - length retained) (delivered rs)))"
proof (induction limit retained overflowed rs rule: drain_loop.induct)
  case (3 limit retained overflowed chunk rs)
  show ?case
  proof (cases "chunk = []")
    case False
    have kept: "length (retained @ take (limit - length retained) chunk) \<le> limit"
      using "3.prems" by simp
    show ?thesis
      using "3.IH" [OF False refl kept] False "3.prems"
      by (auto simp: Let_def min_def split: if_splits)
  qed (use 3 in simp)
qed auto

text \<open>
  A pipe is drained completely but retained only up to the limit: the result is the first
  \<open>limit\<close> bytes of what the process wrote, and the overflow flag is raised exactly when there was
  more.
\<close>

theorem drain_bounded_exact:
  "drain_bounded limit rs =
     (limit < length (delivered rs),
      if read_failed rs then Inl () else Inr (take limit (delivered rs)))"
  by (simp add: drain_bounded_def drain_loop_eq)

section \<open>Hashing\<close>

fun node_size :: "worktree_node \<Rightarrow> nat" where
  "node_size (NodeRegular _ _ len) = unat len"
| "node_size _ = 0"

definition regular_bytes :: "(string, worktree_node) bmap \<Rightarrow> nat" where
  "regular_bytes nodes = sum_list (map node_size (bm_values nodes))"

lemma regular_bytes_insert:
  "k \<notin> fst ` set m \<Longrightarrow> regular_bytes (bm_insert k v m) = node_size v + regular_bytes m"
  by (induction m) (auto simp: regular_bytes_def bm_values_def)

lemma u64_checked_add_Some:
  "u64_checked_add a b = Some c \<Longrightarrow> unat c = unat a + unat b"
  by (auto simp: u64_checked_add_def unat_word_ariths split: if_splits)

lemma hash_worktree_node_total:
  assumes "hash_worktree_node sha env root p t = Inr (node, t')"
    and "unat t \<le> unat max_total_hashed_bytes"
  shows "unat t' = unat t + node_size node" and "unat t' \<le> unat max_total_hashed_bytes"
    and "node_size node \<le> unat max_file_bytes"
  using assms
  by (auto simp: hash_worktree_node_def Let_def result_iffs same_file_identity_def not_less
      word_le_nat_alt split: stat_result.splits if_splits dest!: u64_checked_add_Some)

definition nodes_cover ::
  "(string, worktree_node) bmap \<Rightarrow> string list \<Rightarrow> (string, worktree_node) bmap \<Rightarrow> bool" where
  "nodes_cover nodes ps nodes' \<longleftrightarrow> bm_ok nodes' \<and> fst ` set nodes' = fst ` set nodes \<union> set ps
     \<and> (\<forall>p \<in> set ps. validate_repo_path p = Inr ())
     \<and> regular_bytes nodes' \<le> unat max_total_hashed_bytes"

lemma hash_nodes_cover:
  assumes "hash_nodes sha env root ps t nodes = Inr nodes'"
    and "unat t = regular_bytes nodes" and "unat t \<le> unat max_total_hashed_bytes"
    and "distinct ps" and "set ps \<inter> fst ` set nodes = {}" and "bm_ok nodes"
  shows "nodes_cover nodes ps nodes'"
  using assms
proof (induction ps arbitrary: t nodes)
  case Nil
  then show ?case by (simp add: nodes_cover_def)
next
  case (Cons p ps)
  obtain node t' where step: "validate_repo_path p = Inr ()"
    "hash_worktree_node sha env root p t = Inr (node, t')"
    "hash_nodes sha env root ps t' (bm_insert p node nodes) = Inr nodes'"
    using Cons.prems(1) by (auto simp: result_iffs)
  note total = hash_worktree_node_total [OF step(2) Cons.prems(3)]
  have "unat t' = regular_bytes (bm_insert p node nodes)"
    using Cons.prems total(1) by (simp add: regular_bytes_insert)
  then have "nodes_cover (bm_insert p node nodes) ps nodes'"
    using Cons.IH [OF step(3) _ total(2)] Cons.prems by auto
  then show ?case
    using step(1) by (auto simp: nodes_cover_def)
qed

section \<open>Scans\<close>

lemma collect_results_set:
  "collect_results f xs = Inr ys \<Longrightarrow> set ys = {y. \<exists>x \<in> set xs. f x = Inr y}"
  by (induction xs arbitrary: ys) (auto simp: result_iffs)

text \<open>The paths Git lists, and the requirements on index and flags.\<close>

definition listed_paths :: "git_manifest \<Rightarrow> bool \<Rightarrow> string set" where
  "listed_paths m include_ignored =
     {p. \<exists>r \<in> set (nul_records (mf_paths m))
           \<union> (if include_ignored then set (nul_records (mf_ignored_paths m)) else {}).
         from_utf8 r = Some p}"

definition clean_index :: "git_manifest \<Rightarrow> bool" where
  "clean_index m \<longleftrightarrow> (\<forall>r \<in> set (nul_records (mf_index m)). index_record_check r = Inr ())
     \<and> (\<forall>r \<in> set (nul_records (mf_flags m)). flag_record_check r = Inr ())"

lemma manifest_paths_set:
  assumes "manifest_paths m include_ignored = Inr paths"
  shows "set paths = listed_paths m include_ignored" and "distinct paths"
proof -
  obtain xs where xs: "collect_results utf8_record (nul_records (mf_paths m)
        @ (if include_ignored then nul_records (mf_ignored_paths m) else [])) = Inr xs"
    and paths: "paths = bs_collect xs"
    using assms by (auto simp: manifest_paths_def result_iffs)
  show "set paths = listed_paths m include_ignored"
    using collect_results_set [OF xs]
    by (auto simp: paths listed_paths_def utf8_record_def ok_or_Inr_iff split: if_splits)
  show "distinct paths"
    using bs_ok_collect [of xs] by (auto simp: paths bs_ok_def strict_sorted_iff)
qed

lemma fingerprint_of_path: "ff_path (fingerprint_of sha d e) = fst e"
  by (simp add: fingerprint_of_def split: prod.splits)

lemma workspace_new_files:
  assumes "bm_ok nodes"
  shows "ws_files (workspace_new head digest (map (fingerprint_of sha d) nodes))
    = map (\<lambda>e. (fst e, fingerprint_of sha d e)) nodes"
proof -
  have "bm_ok (map (\<lambda>e. (fst e, fingerprint_of sha d e)) nodes)"
    using assms by (simp add: bm_ok_def comp_def)
  then show ?thesis
    by (simp add: workspace_new_def comp_def fingerprint_of_path bm_collect_sorted)
qed

lemma workspace_new_hashes:
  "bm_ok nodes \<Longrightarrow>
   map (\<lambda>(p, f). (p, ff_content_hash f))
     (ws_files (workspace_new head digest (map (fingerprint_of sha d) nodes)))
   = map (\<lambda>(p, node). (p, node_fingerprint sha node)) nodes"
  unfolding workspace_new_files by (simp add: fingerprint_of_def comp_def case_prod_beta)

lemma snapshot_of_ok:
  assumes "snapshot_of sha include_ignored m nodes = Inr s" and "bm_ok nodes"
  shows "gs_digest s = scan_digest sha include_ignored m nodes" and "gs_path_count s = length nodes"
    and "map (\<lambda>(p, f). (p, ff_content_hash f)) (ws_files (gs_evidence_snapshot s))
           = map (\<lambda>(p, node). (p, node_fingerprint sha node)) nodes"
  using assms
  by (auto simp: snapshot_of_def result_iffs Let_def with_artifacts_def workspace_new_hashes)

lemma git_scan_cases:
  assumes "git_scan sha env executable requested include_ignored = Inr s"
  obtains root m paths nodes where "trusted_root env requested = Inr root"
    and "manifest (gv_first env) executable root include_ignored = Inr m"
    and "manifest (gv_second env) executable root include_ignored = Inr m"
    and "clean_index m" and "manifest_paths m include_ignored = Inr paths"
    and "length paths \<le> max_paths" and "hash_nodes sha env root paths 0 [] = Inr nodes"
    and "snapshot_of sha include_ignored m nodes = Inr s"
  using assms
  by (auto simp: git_scan_def result_iffs validate_index_def validate_flags_def check_all_ok_iff
      clean_index_def not_less split: if_splits)


text \<open>A repository with one committed file, as a Git that prints fixed answers shows it.\<close>

definition toy_git_output :: "string list \<Rightarrow> string" where
  "toy_git_output args =
     (if take 1 args = [''rev-parse''] then replicate 40 CHR ''a'' @ [CHR 0x0A]
      else if args = [''ls-files'', ''--stage'', ''-z'']
      then ''100644 e69de29 0'' @ [CHR 0x09] @ ''f'' @ [CHR 0x00]
      else if args = [''ls-files'', ''-v'', ''-z''] then ''H f'' @ [CHR 0x00]
      else if take 3 args = [''ls-files'', ''-z'', ''--cached''] then ''f'' @ [CHR 0x00]
      else [])"

definition toy_git_child :: "git_command \<Rightarrow> git_child" where
  "toy_git_child command =
     \<lparr>gc_spawned = True, gc_pipes = True,
      gc_polls = [\<lparr>gp_overflowed = False, gp_try_wait = Inr (Some True), gp_killed = Inr False\<rparr>],
      gc_stdout = [Inr (bytes_of (toy_git_output (drop 11 (gm_args command))))],
      gc_stderr = [], gc_reader_panicked = False\<rparr>"

definition toy_metadata :: metadata where
  "toy_metadata = \<lparr>md_kind = KindFile, md_dev = 1, md_ino = 2, md_len = 1, md_mtime = 0,
     md_mtime_nsec = 0, md_mode = 420\<rparr>"

definition toy_git_env :: git_env where
  "toy_git_env =
     \<lparr>gv_canonicalize = (\<lambda>p. Some [p]), gv_worktree_info = (\<lambda>p. Some (concat p, ''git'')),
      gv_is_file = (\<lambda>p. p = ''/usr/bin/git''), gv_path = None,
      gv_first = toy_git_child, gv_second = toy_git_child, gv_later = toy_git_child,
      gv_node = (\<lambda>_. \<lparr>ni_stat = StatOk toy_metadata, ni_link = None,
        ni_opened = Some toy_metadata, ni_open_ok = True, ni_reads = [Inr [65]],
        ni_after = Some toy_metadata\<rparr>)\<rparr>"

definition toy_scan :: "verification_error + git_workspace_snapshot" where
  "toy_scan = git_scan (\<lambda>bs. bs) toy_git_env [''git''] ''repo'' False"

lemma toy_git_run:
  "git_run toy_git_child executable worktree args = Inr (bytes_of (toy_git_output args))"
  by (simp add: git_run_def run_bounded_def toy_git_child_def git_command_for_def
      drain_bounded_def drain_loop_eq max_git_output_bytes_def toy_git_output_def)

lemma toy_revision: "parse_head_revision (bytes_of (replicate 40 CHR ''a'' @ [CHR 0x0A]))
    = Inr (replicate 40 CHR ''a'')"
proof -
  have ascii: "is_ascii (replicate 40 CHR ''a'' @ [CHR 0x0A])"
    by (simp add: is_ascii_def ascii_code_def)
  have "str_trim (replicate 40 CHR ''a'' @ [CHR 0x0A]) = replicate 40 CHR ''a''"
    unfolding str_trim_ascii [OF ascii]
    by (simp add: is_whitespace_def ascii_code_def eval_nat_numeral)
  then show ?thesis
    using ascii
    by (simp add: parse_head_revision_def from_utf8_bytes_of ascii_utf8_valid Let_def list_all_iff
        is_ascii_hexdigit_def is_ascii_digit_def ascii_code_def)
qed

definition toy_manifest :: git_manifest where
  "toy_manifest =
     \<lparr>mf_head = bytes_of (replicate 40 CHR ''a'' @ [CHR 0x0A]),
      mf_index = bytes_of (''100644 e69de29 0'' @ [CHR 0x09] @ ''f'' @ [CHR 0x00]),
      mf_flags = bytes_of (''H f'' @ [CHR 0x00]), mf_status = [], mf_staged_paths = [],
      mf_unstaged_paths = [], mf_paths = bytes_of (''f'' @ [CHR 0x00]), mf_ignored_paths = []\<rparr>"

lemma toy_manifest_read: "manifest toy_git_child executable root False = Inr toy_manifest"
  by (simp add: manifest_def toy_git_run toy_manifest_def)
     (simp add: toy_git_output_def bytes_of_def)

lemma char_of_f: "char_of (102 :: nat) = CHR ''f''"
  by (simp add: char_of_eq_iff)

lemma toy_index: "validate_index (mf_index toy_manifest) = Inr ()"
  "index_paths (mf_index toy_manifest) = Inr [''f'']"
  by (simp_all add: toy_manifest_def bytes_of_def validate_index_def index_paths_def nul_records_def
      index_record_check_def utf8_record_def from_utf8_def utf8_valid_def utf8_head.simps
      utf8_seq_width_def ascii_code_def bs_collect_def bs_extend_def char_of_f)

lemma toy_flags: "validate_flags (mf_flags toy_manifest) = Inr ()"
  by (simp add: toy_manifest_def bytes_of_def validate_flags_def nul_records_def
      flag_record_check_def word_eval)

lemma toy_paths: "manifest_paths toy_manifest False = Inr [''f'']" "repo_path_set [] = Inr []"
  by (simp_all add: toy_manifest_def bytes_of_def manifest_paths_def nul_records_def
      repo_path_set_def utf8_record_def from_utf8_def utf8_valid_def utf8_head.simps
      utf8_seq_width_def ascii_code_def bs_collect_def bs_extend_def char_of_f)

lemma toy_snapshot: "\<not> isl (snapshot_of sha False toy_manifest nodes)"
  using toy_index(2)
  by (simp add: snapshot_of_def toy_manifest_def toy_revision toy_paths(2) Let_def)

lemma toy_nodes: "hash_nodes sha toy_git_env root [''f''] 0 []
    = Inr [(''f'', NodeRegular (hex_encode (sha [65])) False 1)]"
  by (simp add: toy_git_env_def hash_worktree_node_def toy_metadata_def validate_repo_path_def
      leaves_directory_def components_def plain_component_def path_is_absolute_def Let_def
      max_file_bytes_def max_total_hashed_bytes_def u64_checked_add_def same_file_identity_def
      is_executable_def word_eval)

lemma toy_scan_any: "\<not> isl (git_scan sha toy_git_env executable requested False)"
proof -
  have "trusted_root toy_git_env requested = Inr [requested]"
    by (simp add: trusted_root_def toy_git_env_def)
  moreover have "gv_first toy_git_env = toy_git_child" "gv_second toy_git_env = toy_git_child"
    by (simp_all add: toy_git_env_def)
  ultimately show ?thesis
    by (simp add: git_scan_def toy_manifest_read toy_index toy_flags toy_paths
        toy_nodes toy_snapshot max_paths_def del: hash_nodes.simps)
qed

lemma toy_scan_accepted: "\<not> isl toy_scan"
  unfolding toy_scan_def by (rule toy_scan_any)


section \<open>The digest of a scan\<close>

fun node_parts :: "worktree_node \<Rightarrow> u8 list list" where
  "node_parts NodeMissing = [[0]]"
| "node_parts (NodeRegular h x len) =
     [[1], bytes_of h, [if x then 1 else 0], be_bytes 8 (unat len)]"
| "node_parts (NodeSymlink h) = [[2], bytes_of h]"

definition entry_parts :: "string \<times> worktree_node \<Rightarrow> u8 list list" where
  "entry_parts e = bytes_of (fst e) # node_parts (snd e)"

type_synonym scan_subject = "bool \<times> git_manifest \<times> (string, worktree_node) bmap"

definition scan_parts :: "scan_subject \<Rightarrow> u8 list list" where
  "scan_parts = (\<lambda>(include_ignored, m, nodes).
     [[if include_ignored then 1 else 0], mf_head m, mf_index m, mf_flags m, mf_status m,
      mf_staged_paths m, mf_unstaged_paths m, mf_paths m, mf_ignored_paths m,
      be_bytes 8 (unat (of_nat (length nodes) :: u64))] @ concat (map entry_parts nodes))"

definition scan_small :: "scan_subject \<Rightarrow> bool" where
  "scan_small x \<longleftrightarrow> addressable (scan_parts x)"

lemma hasher_node_update [digest_simps]:
  "hasher (node_update node d) = hasher d @ frames (node_parts node)"
  by (cases node) (simp_all add: digest_simps)

lemma hasher_entries [digest_simps]:
  "hasher (fold (\<lambda>(p, node) d. node_update node (cd_string p d)) nodes d)
     = hasher d @ frames (concat (map entry_parts nodes))"
  by (induction nodes arbitrary: d)
     (auto simp: digest_simps frames_append entry_parts_def)

lemma scan_digest_eq:
  "scan_digest sha include_ignored m nodes
     = subject_digest_of sha ''trusted-git-workspace-v1'' (scan_parts (include_ignored, m, nodes))"
  by (simp add: scan_digest_def subject_digest_of_def subject_input_def cd_finish_def
      scan_parts_def frames_append digest_simps)

lemma node_parts_inject:
  "node_parts a @ xs = node_parts b @ ys \<longleftrightarrow> a = b \<and> xs = ys"
  by (cases a; cases b) (auto simp: be_bytes_u64_inject)

lemma entries_inject:
  "concat (map entry_parts xs) = concat (map entry_parts ys) \<Longrightarrow> xs = ys"
proof (induction xs arbitrary: ys)
  case Nil
  then show ?case by (cases ys) (auto simp: entry_parts_def)
next
  case (Cons x xs)
  then show ?case
    by (cases ys) (auto simp: entry_parts_def node_parts_inject prod_eq_iff)
qed

interpretation scan_subjects: canonical_subject "''trusted-git-workspace-v1''" scan_parts scan_small
  by unfold_locales
     (auto simp: scan_small_def scan_parts_def intro: git_manifest.equality
       split: if_splits dest!: entries_inject)

text \<open>
  The workspace digest binds the whole snapshot: unless SHA-256 collides on the two hashed
  inputs, scans with the same digest read the same manifest and the same nodes and give the same
  snapshot.
\<close>

theorem scan_digest_binds_snapshot:
  assumes "snapshot_of sha i m nodes = Inr s" and "snapshot_of sha i' m' nodes' = Inr s'"
    and "bm_ok nodes" and "bm_ok nodes'"
    and "scan_small (i, m, nodes)" and "scan_small (i', m', nodes')"
    and "inj_on sha {subject_input ''trusted-git-workspace-v1'' (scan_parts (i, m, nodes)),
                     subject_input ''trusted-git-workspace-v1'' (scan_parts (i', m', nodes'))}"
    and "gs_digest s = gs_digest s'"
  shows "m = m' \<and> nodes = nodes' \<and> s = s'"
proof -
  have "(i, m, nodes) = (i', m', nodes')"
    using assms snapshot_of_ok(1) [OF assms(1,3)] snapshot_of_ok(1) [OF assms(2,4)]
    by (intro scan_subjects.digest_determines [where sha = sha]) (simp_all add: scan_digest_eq)
  then show ?thesis
    using assms(1,2) by simp
qed

theorem scan_digest_binds_snapshot_witness:
  "let s = projr (snapshot_of (\<lambda>bs. bs) False toy_manifest [(''f'', NodeSymlink ''t'')])
   in snapshot_of (\<lambda>bs. bs) False toy_manifest [(''f'', NodeSymlink ''t'')] = Inr s
      \<and> (\<forall>nodes s'. snapshot_of (\<lambda>bs. bs) False toy_manifest nodes = Inr s' \<longrightarrow> bm_ok nodes
           \<longrightarrow> scan_small (False, toy_manifest, nodes) \<longrightarrow> gs_digest s' = gs_digest s
           \<longrightarrow> nodes = [(''f'', NodeSymlink ''t'')])"
proof -
  let ?nodes = "[(''f'', NodeSymlink ''t'')]"
  let ?s = "projr (snapshot_of (\<lambda>bs. bs) False toy_manifest ?nodes)"
  have run: "snapshot_of (\<lambda>bs. bs) False toy_manifest ?nodes = Inr ?s"
    using toy_snapshot by simp
  have small: "scan_small (False, toy_manifest, ?nodes)"
    by (simp add: scan_small_def addressable_def scan_parts_def toy_manifest_def entry_parts_def)
  have ok: "bm_ok ?nodes"
    by (simp add: bm_ok_def)
  have "nodes = ?nodes" if "snapshot_of (\<lambda>bs. bs) False toy_manifest nodes = Inr s'"
    and "bm_ok nodes" and "scan_small (False, toy_manifest, nodes)" and "gs_digest s' = gs_digest ?s"
    for nodes s'
    using scan_digest_binds_snapshot [OF that(1) run that(2) ok that(3) small _ that(4)] by simp
  then show ?thesis
    using run unfolding Let_def by blast
qed

end
