(* ===== verification/Trusted_Check.thy ===== *)
theory Trusted_Check
  imports Trusted_Git
begin

text \<open>
  \<open>src/mission/verifier.rs\<close>, the runner of declared checks: where a check may run, which program
  it names, the command that is started (literal arguments, a closed environment, its own process
  group) and how it ends. The file system, the environment variables, the clock and the process
  are parameters.
\<close>

section \<open>Data\<close>

datatype trusted_check_error =
    CkWorktreeUnavailable | CkNotGitWorktree | CkWorktreeMustBeRoot | InvalidCwd | CwdUnavailable
  | CwdEscapesWorktree | InvalidProgram | ProgramUnavailable | ProgramNotExecutable | SpawnFailed
  | PipeUnavailable | WaitFailed | CkReaderFailed | TimedOut | StdoutLimitExceeded
  | StderrLimitExceeded | OutputLimitExceeded | CkCancelled

definition default_check_timeout :: u64 where "default_check_timeout = 10 * 60 * 1000"

definition default_check_stdout_bytes :: nat where "default_check_stdout_bytes = 16 * 1024 * 1024"

definition default_check_stderr_bytes :: nat where "default_check_stderr_bytes = 8 * 1024 * 1024"

text \<open>The timeout is in milliseconds.\<close>

record trusted_check_runner =
  cr_timeout :: u64
  cr_stdout_limit :: nat
  cr_stderr_limit :: nat

definition runner_new :: trusted_check_runner where
  "runner_new = \<lparr>cr_timeout = default_check_timeout, cr_stdout_limit = default_check_stdout_bytes,
     cr_stderr_limit = default_check_stderr_bytes\<rparr>"

record trusted_check_result =
  tr_exit_code :: "32 word option"
  tr_started_at_unix_millis :: u64
  tr_finished_at_unix_millis :: u64
  tr_duration_millis :: u64
  tr_stdout :: "u8 list"
  tr_stderr :: "u8 list"

text \<open>The command given to the operating system: the directory is that of the open handle.\<close>

record check_command_line =
  cl_executable :: path
  cl_args :: "string list"
  cl_env :: "(string, string) bmap"
  cl_cwd :: path

text \<open>
  One poll of the waiting loop: the overflow flags and the cancellation it sees, what \<open>try_wait\<close>
  returns (the exit code of an ended process, none when a signal ended it), and whether the timeout
  has elapsed.
\<close>

record check_poll =
  kp_stdout_overflowed :: bool
  kp_stderr_overflowed :: bool
  kp_cancelled :: bool
  kp_try_wait :: "unit + 32 word option option"
  kp_elapsed_millis :: u64

record check_child =
  kc_spawned :: bool
  kc_pipes :: bool
  kc_started_at_unix_millis :: u64
  kc_polls :: "check_poll list"
  kc_wait_error :: bool
  kc_stdout :: reads
  kc_stderr :: reads
  kc_reader_panicked :: bool
  kc_duration_millis :: nat

record check_env =
  ke_canonicalize :: "string \<Rightarrow> path option"
  ke_worktree_info :: "path \<Rightarrow> (string \<times> string) option"
  ke_is_dir :: "path \<Rightarrow> bool"
  ke_open_dir :: "path \<Rightarrow> bool"
  ke_metadata :: "path \<Rightarrow> metadata option"
  ke_path_dirs :: "string list option"
  ke_var :: "string \<Rightarrow> string option"
  ke_child :: "check_command_line \<Rightarrow> check_child"

section \<open>Where a check runs\<close>

definition canonical_worktree :: "check_env \<Rightarrow> string \<Rightarrow> trusted_check_error + path" where
  "canonical_worktree env requested =
     rbind (ok_or CkWorktreeUnavailable (ke_canonicalize env requested)) (\<lambda>worktree.
     if \<not> ke_is_dir env worktree then Inl CkWorktreeUnavailable
     else
       rbind (ok_or CkNotGitWorktree (ke_worktree_info env worktree)) (\<lambda>info.
       rbind (ok_or CkWorktreeUnavailable (ke_canonicalize env (fst info))) (\<lambda>root.
         if root \<noteq> worktree then Inl CkWorktreeMustBeRoot else Inr worktree)))"

text \<open>
  Opening the directory one component at a time, each without following a symbolic link: the
  handle stands for the directory reached.
\<close>

fun openat_chain :: "check_env \<Rightarrow> path \<Rightarrow> string list \<Rightarrow> trusted_check_error + path" where
  "openat_chain env current [] = Inr current"
| "openat_chain env current (name # names) =
     (if has_nul name then Inl InvalidCwd
      else if \<not> ke_open_dir env (current @ [name]) then Inl CwdUnavailable
      else openat_chain env (current @ [name]) names)"

definition open_canonical_directory_beneath ::
  "check_env \<Rightarrow> path \<Rightarrow> path \<Rightarrow> trusted_check_error + path" where
  "open_canonical_directory_beneath env worktree cwd =
     rbind (ok_or CwdEscapesWorktree (path_strip_prefix worktree cwd)) (\<lambda>relative.
       if \<not> ke_open_dir env worktree then Inl CwdUnavailable
       else openat_chain env worktree relative)"

text \<open>The canonical directory with its handle.\<close>

definition canonical_check_cwd ::
  "check_env \<Rightarrow> path \<Rightarrow> string \<Rightarrow> trusted_check_error + path \<times> path" where
  "canonical_check_cwd env worktree relative =
     (if leaves_directory relative then Inl InvalidCwd
      else
        rbind (ok_or CwdUnavailable
          (ke_canonicalize env (path_join (path_string worktree) relative))) (\<lambda>cwd.
        if \<not> path_starts_with worktree cwd then Inl CwdEscapesWorktree
        else if \<not> ke_is_dir env cwd then Inl CwdUnavailable
        else
          rbind (open_canonical_directory_beneath env worktree cwd) (\<lambda>handle. Inr (cwd, handle))))"

section \<open>Which program runs\<close>

definition canonical_executable :: "check_env \<Rightarrow> string \<Rightarrow> trusted_check_error + path" where
  "canonical_executable env candidate =
     rbind (ok_or ProgramUnavailable (ke_canonicalize env candidate)) (\<lambda>executable.
     rbind (ok_or ProgramUnavailable (ke_metadata env executable)) (\<lambda>md.
       if md_kind md \<noteq> KindFile \<or> \<not> is_executable md then Inl ProgramNotExecutable
       else Inr executable))"

text \<open>The loop over the search path; it keeps whether a candidate was there but not executable.\<close>

fun search_path ::
  "check_env \<Rightarrow> path \<Rightarrow> string \<Rightarrow> string list \<Rightarrow> bool \<Rightarrow> trusted_check_error + path" where
  "search_path env cwd program [] non_executable_found =
     Inl (if non_executable_found then ProgramNotExecutable else ProgramUnavailable)"
| "search_path env cwd program (directory # rest) non_executable_found =
     (let dir = (if directory = [] then path_string cwd
                 else if path_is_absolute directory then directory
                 else path_join (path_string cwd) directory)
      in case canonical_executable env (path_join dir program) of
           Inr executable \<Rightarrow> Inr executable
         | Inl ProgramNotExecutable \<Rightarrow> search_path env cwd program rest True
         | Inl ProgramUnavailable \<Rightarrow> search_path env cwd program rest non_executable_found
         | Inl e \<Rightarrow> Inl e)"

definition resolve_check_program ::
  "check_env \<Rightarrow> string \<Rightarrow> path \<Rightarrow> trusted_check_error + path" where
  "resolve_check_program env program cwd =
     (if is_blank program \<or> has_nul program then Inl InvalidProgram
      else if path_is_absolute program \<or> length (components program) > 1
      then canonical_executable env
             (if path_is_absolute program then program else path_join (path_string cwd) program)
      else
        rbind (ok_or ProgramUnavailable (ke_path_dirs env)) (\<lambda>dirs.
          search_path env cwd program dirs False))"

section \<open>The command\<close>

definition allowed_variables :: "string list" where
  "allowed_variables =
     [''PATH'', ''HOME'', ''USER'', ''LOGNAME'', ''SHELL'', ''TMPDIR'', ''TEMP'', ''TMP'', ''TERM'',
      ''COLORTERM'', ''LANG'', ''LC_ALL'', ''CARGO_HOME'', ''RUSTUP_HOME'', ''BUN_INSTALL'',
      ''NVM_DIR'', ''GOPATH'', ''GOROOT'', ''SYSTEMROOT'', ''WINDIR'', ''PATHEXT'']"

definition copy_trusted_check_environment ::
  "check_env \<Rightarrow> (string, string) bmap \<Rightarrow> (string, string) bmap" where
  "copy_trusted_check_environment env vars =
     (let copied = fold (\<lambda>key m. case ke_var env key of
                            None \<Rightarrow> m | Some v \<Rightarrow> bm_insert key v m) allowed_variables vars
      in if ke_var env ''LANG'' = None \<and> ke_var env ''LC_ALL'' = None
         then bm_insert ''LC_ALL'' ''C'' copied else copied)"

definition check_command_line ::
  "check_env \<Rightarrow> path \<Rightarrow> string list \<Rightarrow> path \<times> path \<Rightarrow> check_command_line" where
  "check_command_line env executable args cwd =
     \<lparr>cl_executable = executable, cl_args = args,
      cl_env = copy_trusted_check_environment env [(''PWD'', path_string (fst cwd))],
      cl_cwd = snd cwd\<rparr>"

section \<open>How a check ends\<close>

datatype stop_reason =
  StopExited "32 word option" | StopTimedOut | StopOutputLimit | StopCancelled | StopWaitFailed

text \<open>The polls of a child end with the first that finds the timeout elapsed.\<close>

fun wait_check :: "u64 \<Rightarrow> check_poll list \<Rightarrow> stop_reason" where
  "wait_check timeout [] = StopTimedOut"
| "wait_check timeout (p # ps) =
     (if kp_stdout_overflowed p \<or> kp_stderr_overflowed p then StopOutputLimit
      else if kp_cancelled p then StopCancelled
      else case kp_try_wait p of
        Inr (Some status) \<Rightarrow> StopExited status
      | Inl _ \<Rightarrow> StopWaitFailed
      | Inr None \<Rightarrow>
          if kp_elapsed_millis p \<ge> timeout then StopTimedOut else wait_check timeout ps)"

definition u64_saturating_add :: "u64 \<Rightarrow> u64 \<Rightarrow> u64" where
  "u64_saturating_add a b = (if unat a + unat b < 2 ^ 64 then a + b else - 1)"

definition millis_to_u64 :: "nat \<Rightarrow> u64" where
  "millis_to_u64 n = (if n < 2 ^ 64 then of_nat n else - 1)"

definition run_check_command ::
  "trusted_check_runner \<Rightarrow> check_child \<Rightarrow> trusted_check_error + trusted_check_result" where
  "run_check_command runner child =
     (if \<not> kc_spawned child then Inl SpawnFailed
      else if \<not> kc_pipes child then Inl PipeUnavailable
      else
        let reason = wait_check (cr_timeout runner) (kc_polls child);
            (status, wait_failed) = (case reason of
               StopExited status \<Rightarrow> (status, False) | _ \<Rightarrow> (None, kc_wait_error child));
            (stdout_overflowed, stdout) = drain_bounded (cr_stdout_limit runner) (kc_stdout child);
            (stderr_overflowed, stderr) = drain_bounded (cr_stderr_limit runner) (kc_stderr child)
        in if kc_reader_panicked child then Inl CkReaderFailed
           else
             rbind (map_err (\<lambda>_. CkReaderFailed) stdout) (\<lambda>out.
             rbind (map_err (\<lambda>_. CkReaderFailed) stderr) (\<lambda>err.
             if stdout_overflowed then Inl StdoutLimitExceeded
             else if stderr_overflowed then Inl StderrLimitExceeded
             else if wait_failed \<or> reason = StopWaitFailed then Inl WaitFailed
             else case reason of
               StopTimedOut \<Rightarrow> Inl TimedOut
             | StopOutputLimit \<Rightarrow> Inl OutputLimitExceeded
             | StopCancelled \<Rightarrow> Inl CkCancelled
             | _ \<Rightarrow>
                 let duration = millis_to_u64 (kc_duration_millis child)
                 in Inr \<lparr>tr_exit_code = status,
                      tr_started_at_unix_millis = kc_started_at_unix_millis child,
                      tr_finished_at_unix_millis =
                        u64_saturating_add (kc_started_at_unix_millis child) duration,
                      tr_duration_millis = duration, tr_stdout = out, tr_stderr = err\<rparr>)))"

definition run_with_cancel ::
  "trusted_check_runner \<Rightarrow> check_env \<Rightarrow> string \<Rightarrow> command_spec
     \<Rightarrow> trusted_check_error + trusted_check_result" where
  "run_with_cancel runner env requested spec =
     rbind (canonical_worktree env requested) (\<lambda>worktree.
     rbind (canonical_check_cwd env worktree (cs_cwd spec)) (\<lambda>cwd.
     rbind (resolve_check_program env (cs_program spec) (fst cwd)) (\<lambda>executable.
       run_check_command runner
         (ke_child env (check_command_line env executable (cs_args spec) cwd)))))"

end
