(* ===== verification/Trusted_Check_Props.thy ===== *)
theory Trusted_Check_Props
  imports Trusted_Check Trusted_Git_Props
begin

text \<open>
  What a check that ran guarantees: it ran inside the worktree, with the declared arguments and a
  closed environment, it ended by itself, and its whole output was kept.
\<close>

lemma openat_chain_reaches: "openat_chain env current names = Inr h \<Longrightarrow> h = current @ names"
  by (induction names arbitrary: current) (fastforce split: if_splits)+

lemma canonical_check_cwd_beneath:
  assumes "canonical_check_cwd env worktree relative = Inr (cwd, handle)"
  shows "handle = cwd" and "path_starts_with worktree cwd" and "ke_is_dir env cwd"
  using assms
  by (auto simp: canonical_check_cwd_def open_canonical_directory_beneath_def result_iffs
      path_strip_prefix_Some split: if_splits dest!: openat_chain_reaches)

definition runnable :: "check_env \<Rightarrow> path \<Rightarrow> bool" where
  "runnable env executable \<longleftrightarrow> (\<exists>md. ke_metadata env executable = Some md \<and> md_kind md = KindFile
     \<and> is_executable md)"

lemma canonical_executable_runnable:
  "canonical_executable env candidate = Inr executable \<Longrightarrow> runnable env executable"
  by (auto simp: canonical_executable_def runnable_def result_iffs split: if_splits)

lemma search_path_runnable:
  "search_path env cwd program dirs found = Inr executable \<Longrightarrow> runnable env executable"
  by (induction dirs arbitrary: found)
     (auto simp: Let_def canonical_executable_runnable
       split: sum.splits trusted_check_error.splits if_splits)

lemma resolve_check_program_runnable:
  "resolve_check_program env program cwd = Inr executable \<Longrightarrow> runnable env executable"
  by (auto simp: resolve_check_program_def result_iffs
      intro: canonical_executable_runnable search_path_runnable split: if_splits)

lemma copied_variables:
  "bm_get (fold (\<lambda>key m. case ke_var env key of None \<Rightarrow> m | Some v \<Rightarrow> bm_insert key v m) keys m) k
     = (if k \<in> set keys \<and> ke_var env k \<noteq> None then ke_var env k else bm_get m k)"
  by (induction keys arbitrary: m) (auto split: option.splits)

text \<open>The variables a check sees.\<close>

definition closed_environment :: "check_env \<Rightarrow> path \<Rightarrow> string \<Rightarrow> string option" where
  "closed_environment env cwd key =
     (if key = ''PWD'' then Some (path_string cwd)
      else if key \<notin> set allowed_variables then None
      else if key = ''LC_ALL'' \<and> ke_var env ''LANG'' = None \<and> ke_var env ''LC_ALL'' = None
      then Some ''C''
      else ke_var env key)"

lemma check_environment_closed:
  "bm_get (cl_env (check_command_line env executable args (cwd, handle)))
     = closed_environment env cwd"
proof
  fix key
  have "''PWD'' \<notin> set allowed_variables" "''LC_ALL'' \<in> set allowed_variables"
    by (simp_all add: allowed_variables_def)
  then show "bm_get (cl_env (check_command_line env executable args (cwd, handle))) key
      = closed_environment env cwd key"
    by (auto simp: check_command_line_def copy_trusted_check_environment_def closed_environment_def
        copied_variables bm_get_def [of "[_]"] Let_def)
qed

lemma u64_saturating_add_ge: "a \<le> u64_saturating_add a b"
proof (cases "unat a + unat b < 2 ^ 64")
  case True
  then show ?thesis by (simp add: u64_saturating_add_def word_le_nat_alt unat_word_ariths)
qed (simp add: u64_saturating_add_def)

text \<open>A drained pipe that did not overflow was kept whole.\<close>

lemma drained_whole:
  assumes "drain_bounded limit rs = (False, Inr bytes)"
  shows "bytes = delivered rs \<and> length bytes \<le> limit \<and> \<not> read_failed rs"
  using assms drain_loop_eq [of "[]" limit False rs]
  by (auto simp: drain_bounded_def split: if_splits)

lemma run_check_command_ok:
  assumes "run_check_command runner child = Inr r"
  shows "tr_stdout r = delivered (kc_stdout child)" "tr_stderr r = delivered (kc_stderr child)"
    and "length (tr_stdout r) \<le> cr_stdout_limit runner"
    and "length (tr_stderr r) \<le> cr_stderr_limit runner"
    and "wait_check (cr_timeout runner) (kc_polls child) = StopExited (tr_exit_code r)"
    and "tr_started_at_unix_millis r \<le> tr_finished_at_unix_millis r"
proof -
  obtain ov out ov' err where drained:
    "drain_bounded (cr_stdout_limit runner) (kc_stdout child) = (ov, out)"
    "drain_bounded (cr_stderr_limit runner) (kc_stderr child) = (ov', err)"
    by (metis surj_pair)
  have reason: "wait_check (cr_timeout runner) (kc_polls child) = StopExited (tr_exit_code r)"
    and whole: "out = Inr (tr_stdout r)" "err = Inr (tr_stderr r)" "\<not> ov" "\<not> ov'"
    and clock: "tr_started_at_unix_millis r \<le> tr_finished_at_unix_millis r"
    using assms
    by (auto simp: run_check_command_def drained result_iffs Let_def u64_saturating_add_ge
        split: if_splits stop_reason.splits)
  then have "tr_stdout r = delivered (kc_stdout child) \<and> length (tr_stdout r) \<le> cr_stdout_limit runner"
    "tr_stderr r = delivered (kc_stderr child) \<and> length (tr_stderr r) \<le> cr_stderr_limit runner"
    using drained drained_whole [of "cr_stdout_limit runner"]
      drained_whole [of "cr_stderr_limit runner"] by auto
  then show "tr_stdout r = delivered (kc_stdout child)" "tr_stderr r = delivered (kc_stderr child)"
    "length (tr_stdout r) \<le> cr_stdout_limit runner" "length (tr_stderr r) \<le> cr_stderr_limit runner"
    "wait_check (cr_timeout runner) (kc_polls child) = StopExited (tr_exit_code r)"
    "tr_started_at_unix_millis r \<le> tr_finished_at_unix_millis r"
    using reason clock by auto
qed


text \<open>A worktree with one script, whose process prints two bytes and exits with code 7.\<close>

definition toy_check_env :: check_env where
  "toy_check_env =
     \<lparr>ke_canonicalize = (\<lambda>p. if p = ''/repo'' \<or> p = ''/repo/.'' then Some [''repo'']
        else if p = ''/repo/./probe'' \<or> p = ''/repo/probe'' then Some [''repo'', ''probe''] else None),
      ke_worktree_info = (\<lambda>_. Some (''/repo'', ''/repo/.git'')), ke_is_dir = (\<lambda>p. p = [''repo'']),
      ke_open_dir = (\<lambda>_. True),
      ke_metadata = (\<lambda>p. Some (toy_metadata\<lparr>md_mode := 493\<rparr>)), ke_path_dirs = None,
      ke_var = (\<lambda>key. if key = ''HOME'' \<or> key = ''GITHUB_TOKEN'' then Some ''x'' else None),
      ke_child = (\<lambda>_. \<lparr>kc_spawned = True, kc_pipes = True, kc_started_at_unix_millis = 5,
        kc_polls = [\<lparr>kp_stdout_overflowed = False, kp_stderr_overflowed = False,
          kp_cancelled = False, kp_try_wait = Inr (Some (Some 7)), kp_elapsed_millis = 1\<rparr>],
        kc_wait_error = False, kc_stdout = [Inr [1, 2]], kc_stderr = [],
        kc_reader_panicked = False, kc_duration_millis = 1\<rparr>)\<rparr>"

definition toy_check_result :: trusted_check_result where
  "toy_check_result = \<lparr>tr_exit_code = Some 7, tr_started_at_unix_millis = 5,
     tr_finished_at_unix_millis = 6, tr_duration_millis = 1, tr_stdout = [1, 2], tr_stderr = []\<rparr>"

lemma toy_check_runs:
  "run_with_cancel runner_new toy_check_env ''/repo'' \<lparr>cs_program = ''./probe'', cs_args = [''a b''],
     cs_cwd = ''.''\<rparr> = Inr toy_check_result"
proof -
  have root: "canonical_worktree toy_check_env ''/repo'' = Inr [''repo'']"
    by (simp add: canonical_worktree_def toy_check_env_def)
  have cwd: "canonical_check_cwd toy_check_env [''repo''] ''.'' = Inr ([''repo''], [''repo''])"
    by (simp add: canonical_check_cwd_def toy_check_env_def leaves_directory_def components_def
        path_is_absolute_def path_join_def path_string_def path_starts_with_def
        path_strip_prefix_def open_canonical_directory_beneath_def)
  have exe: "resolve_check_program toy_check_env ''./probe'' [''repo''] = Inr [''repo'', ''probe'']"
    by (simp add: resolve_check_program_def toy_check_env_def is_blank_iff has_nul_def
        ascii_code_def utf8_width_def utf8_code_def utf8_lead_def is_whitespace_def
        path_is_absolute_def components_def plain_component_def path_join_def path_string_def
        canonical_executable_def toy_metadata_def is_executable_def)
  have "run_check_command runner_new (ke_child toy_check_env line) = Inr toy_check_result" for line
    by (simp add: run_check_command_def toy_check_env_def toy_check_result_def runner_new_def
        drain_bounded_def drain_loop_eq default_check_stdout_bytes_def millis_to_u64_def
        u64_saturating_add_def)
  then show ?thesis
    by (simp add: run_with_cancel_def root cwd exe)
qed


section \<open>The waiting loop ends\<close>

text \<open>
  The loop as the code has it, over an unbounded sequence of polls; \<open>wait_check\<close> is the same loop
  over the polls that happened.
\<close>

partial_function (option) wait_loop :: "u64 \<Rightarrow> (nat \<Rightarrow> check_poll) \<Rightarrow> nat \<Rightarrow> stop_reason option" where
  "wait_loop timeout poll n =
     (if kp_stdout_overflowed (poll n) \<or> kp_stderr_overflowed (poll n) then Some StopOutputLimit
      else if kp_cancelled (poll n) then Some StopCancelled
      else case kp_try_wait (poll n) of
        Inr (Some status) \<Rightarrow> Some (StopExited status)
      | Inl _ \<Rightarrow> Some StopWaitFailed
      | Inr None \<Rightarrow>
          if kp_elapsed_millis (poll n) \<ge> timeout then Some StopTimedOut
          else wait_loop timeout poll (Suc n))"

lemma wait_check_overdue:
  assumes "timeout \<le> kp_elapsed_millis p"
  shows "wait_check timeout (ps @ p # qs) = wait_check timeout (ps @ [p])"
  using assms by (induction ps) (auto split: sum.split option.split)

text \<open>Only the outcome of the wait matters to what follows it.\<close>

lemma run_check_polls:
  assumes "wait_check (cr_timeout runner) ps = wait_check (cr_timeout runner) qs"
  shows "run_check_command runner (child\<lparr>kc_polls := ps\<rparr>) = run_check_command runner (child\<lparr>kc_polls := qs\<rparr>)"
proof -
  have "kc_spawned (child\<lparr>kc_polls := xs\<rparr>) = kc_spawned child" "kc_pipes (child\<lparr>kc_polls := xs\<rparr>) = kc_pipes child"
    "kc_wait_error (child\<lparr>kc_polls := xs\<rparr>) = kc_wait_error child"
    "kc_started_at_unix_millis (child\<lparr>kc_polls := xs\<rparr>) = kc_started_at_unix_millis child"
    "kc_duration_millis (child\<lparr>kc_polls := xs\<rparr>) = kc_duration_millis child"
    "kc_stdout (child\<lparr>kc_polls := xs\<rparr>) = kc_stdout child" "kc_stderr (child\<lparr>kc_polls := xs\<rparr>) = kc_stderr child"
    "kc_reader_panicked (child\<lparr>kc_polls := xs\<rparr>) = kc_reader_panicked child"
    "kc_polls (child\<lparr>kc_polls := xs\<rparr>) = xs" for xs
    by simp_all
  then show ?thesis
    unfolding run_check_command_def by (simp only: assms)
qed

lemma wait_loop_overdue:
  assumes "timeout \<le> kp_elapsed_millis (poll (n + d))"
  shows "wait_loop timeout poll n = Some (wait_check timeout (map poll [n..<n + Suc d]))"
  using assms
proof (induction d arbitrary: n)
  case 0
  then show ?case
    by (simp add: wait_loop.simps [of timeout poll n] split: sum.split option.split)
next
  case (Suc d)
  have "[n..<n + Suc (Suc d)] = n # [Suc n..<Suc n + Suc d]"
    by (simp add: upt_conv_Cons del: upt_Suc)
  then show ?case
    using Suc.IH [of "Suc n"] Suc.prems
    by (simp add: wait_loop.simps [of timeout poll n] del: upt_Suc split: sum.split option.split)
qed

text \<open>
  C38: waiting for a check always ends: as the loop sleeps five milliseconds between two polls, it
  returns after at most a fifth of the timeout in milliseconds, rounded up, further polls, and what
  it returns is what \<open>wait_check\<close> computes from the polls up to there, however many more there are.
\<close>

theorem check_wait_ends:
  assumes "\<And>n. n \<le> (unat (cr_timeout runner) + 4) div 5 \<Longrightarrow> 5 * n \<le> unat (kp_elapsed_millis (poll n))"
  shows "\<exists>k \<le> (unat (cr_timeout runner) + 4) div 5. \<exists>reason.
    wait_loop (cr_timeout runner) poll 0 = Some reason
    \<and> (\<forall>m > k. wait_check (cr_timeout runner) (map poll [0..<m]) = reason
         \<and> run_check_command runner (child\<lparr>kc_polls := map poll [0..<m]\<rparr>)
             = run_check_command runner (child\<lparr>kc_polls := map poll [0..<Suc k]\<rparr>))"
proof -
  let ?t = "cr_timeout runner" and ?k = "(unat (cr_timeout runner) + 4) div 5"
  have "unat ?t \<le> 5 * ?k" by simp
  also have "\<dots> \<le> unat (kp_elapsed_millis (poll ?k))"
    by (rule assms) simp
  finally have overdue: "?t \<le> kp_elapsed_millis (poll ?k)"
    by (simp add: word_le_nat_alt)
  have same: "wait_check ?t (map poll [0..<m]) = wait_check ?t (map poll [0..<Suc ?k])" if "?k < m" for m
  proof -
    have "[0..<m] = [0..<?k] @ ?k # [Suc ?k..<m]"
      using that upt_add_eq_append [of 0 ?k "m - ?k"] by (simp add: upt_conv_Cons)
    then show ?thesis
      using wait_check_overdue [OF overdue, of "map poll [0..<?k]" "map poll [Suc ?k..<m]"] by simp
  qed
  moreover have "run_check_command runner (child\<lparr>kc_polls := map poll [0..<m]\<rparr>)
      = run_check_command runner (child\<lparr>kc_polls := map poll [0..<Suc ?k]\<rparr>)" if "?k < m" for m
    by (rule run_check_polls [OF same [OF that]])
  moreover have "wait_loop ?t poll 0 = Some (wait_check ?t (map poll [0..<Suc ?k]))"
    using wait_loop_overdue [of ?t poll 0 ?k] overdue by simp
  ultimately show ?thesis by blast
qed

text \<open>A process that never ends, polled every five milliseconds for a timeout of twelve.\<close>

definition endless_poll :: "nat \<Rightarrow> check_poll" where
  "endless_poll n = \<lparr>kp_stdout_overflowed = False, kp_stderr_overflowed = False,
     kp_cancelled = False, kp_try_wait = Inr None, kp_elapsed_millis = of_nat (5 * n)\<rparr>"

theorem check_wait_ends_witness: "wait_loop 12 endless_poll 0 = Some StopTimedOut"
proof -
  let ?runner = "runner_new\<lparr>cr_timeout := 12\<rparr>"
  have "5 * n \<le> unat (kp_elapsed_millis (endless_poll n))" if "n \<le> (unat (cr_timeout ?runner) + 4) div 5" for n
  proof -
    have "n = 0 \<or> n = 1 \<or> n = 2 \<or> n = 3" using that by auto
    then show ?thesis by (auto simp: endless_poll_def)
  qed
  from check_wait_ends [of ?runner endless_poll, OF this, of "ke_child toy_check_env undefined"]
  obtain k reason where k: "k \<le> (unat (cr_timeout ?runner) + 4) div 5"
    and returned: "wait_loop (cr_timeout ?runner) endless_poll 0 = Some reason"
    and polls: "\<And>m. k < m \<Longrightarrow> wait_check (cr_timeout ?runner) (map endless_poll [0..<m]) = reason"
    by blast
  have "reason = wait_check 12 (map endless_poll [0..<4])"
    using polls [of 4] k by simp
  also have "\<dots> = StopTimedOut"
    by (simp add: upt_conv_Cons word_le_nat_alt endless_poll_def)
  finally show ?thesis
    using returned by simp
qed

end
