(* ===== verification/Evidence_Pack.thy ===== *)
theory Evidence_Pack
  imports Evidence_Record Trusted_Check
begin

text \<open>
  \<open>src/mission/evidence_pack.rs\<close>: the bundle of evidence one closure execution produced, and the
  content-addressed directory that keeps it beside the journal. The JSON encoding and Base64 are
  parameters; the directory is a map from file names to what is there.
\<close>

section \<open>Packs\<close>

datatype evidence_pack_error =
    InvalidPack | InvalidDigest | DigestMismatch | DigestCollision | PackTooLarge | PkUnsafePath
  | PkIo | PkJson

definition pack_version :: u32 where "pack_version = 1"

definition max_pack_bytes :: nat where "max_pack_bytes = 64 * 1024 * 1024"

datatype check_execution_log =
    LogCompleted "32 word option" u64 u64 string string "string option"
  | LogRejected string

record evidence_pack =
  ep_version :: u32
  ep_mission_id :: string
  ep_run_id :: string
  ep_identity :: proof_identity
  ep_current_workspace :: workspace_snapshot
  ep_records :: "(string, evidence_record) bmap"
  ep_summaries :: "(string, evidence_status) bmap"
  ep_execution_logs :: "(string, check_execution_log) bmap"
  ep_created_at_millis :: u64

text \<open>\<open>b64_ok\<close> is whether the decoder accepts a text.\<close>

record pack_codec =
  enc_pack :: "evidence_pack \<Rightarrow> u8 list option"
  dec_pack :: "u8 list \<Rightarrow> evidence_pack option"
  b64_encode :: "u8 list \<Rightarrow> string"
  b64_ok :: "string \<Rightarrow> bool"

definition log_completed ::
  "pack_codec \<Rightarrow> trusted_check_result \<Rightarrow> string option \<Rightarrow> check_execution_log" where
  "log_completed codec r evidence_error =
     LogCompleted (tr_exit_code r) (tr_started_at_unix_millis r) (tr_finished_at_unix_millis r)
       (b64_encode codec (tr_stdout r)) (b64_encode codec (tr_stderr r)) evidence_error"

definition pack_valid_id :: "string \<Rightarrow> bool" where
  "pack_valid_id v \<longleftrightarrow> v \<noteq> [] \<and> length v \<le> 128
     \<and> list_all (\<lambda>c. is_ascii_alphanumeric c \<or> c \<in> set ''_.:-'') v"

definition valid_log_error :: "string \<Rightarrow> bool" where
  "valid_log_error e \<longleftrightarrow> e \<noteq> [] \<and> length e \<le> 8 * 1024"

fun valid_log :: "pack_codec \<Rightarrow> check_execution_log \<Rightarrow> bool" where
  "valid_log codec (LogCompleted _ started finished stdout stderr evidence_error) \<longleftrightarrow>
     finished \<ge> started \<and> b64_ok codec stdout \<and> b64_ok codec stderr
     \<and> (case evidence_error of None \<Rightarrow> True | Some e \<Rightarrow> valid_log_error e)"
| "valid_log codec (LogRejected e) \<longleftrightarrow> valid_log_error e"

definition pack_validate :: "pack_codec \<Rightarrow> evidence_pack \<Rightarrow> evidence_pack_error + unit" where
  "pack_validate codec pack =
     (if ep_version pack \<noteq> pack_version
        \<or> \<not> pack_valid_id (ep_mission_id pack) \<or> \<not> pack_valid_id (ep_run_id pack)
        \<or> pi_mission_id (ep_identity pack) \<noteq> ep_mission_id pack
        \<or> pi_run_id (ep_identity pack) \<noteq> ep_run_id pack
        \<or> length (ep_records pack) > 32 \<or> length (ep_summaries pack) > 32
        \<or> length (ep_execution_logs pack) > 32
      then Inl InvalidPack
      else if list_ex (\<lambda>(check_id, r). \<not> pack_valid_id check_id \<or> record_check_id r \<noteq> check_id)
                (ep_records pack)
        \<or> list_ex (\<lambda>check_id. \<not> pack_valid_id check_id) (bm_keys (ep_summaries pack))
        \<or> list_ex (\<lambda>(check_id, log). \<not> pack_valid_id check_id \<or> \<not> valid_log codec log)
                (ep_execution_logs pack)
      then Inl InvalidPack
      else Inr ())"

definition evidence_pack_new ::
  "pack_codec \<Rightarrow> string \<Rightarrow> string \<Rightarrow> proof_identity \<Rightarrow> workspace_snapshot
     \<Rightarrow> (string, evidence_record) bmap \<Rightarrow> (string, evidence_status) bmap
     \<Rightarrow> (string, check_execution_log) bmap \<Rightarrow> u64 \<Rightarrow> evidence_pack_error + evidence_pack" where
  "evidence_pack_new codec mission_id run_id identity current_workspace records summaries
     execution_logs created_at_millis =
     (let pack = \<lparr>ep_version = pack_version, ep_mission_id = mission_id, ep_run_id = run_id,
                  ep_identity = identity, ep_current_workspace = current_workspace,
                  ep_records = records, ep_summaries = summaries,
                  ep_execution_logs = execution_logs,
                  ep_created_at_millis = created_at_millis\<rparr>
      in rbind (pack_validate codec pack) (\<lambda>_. Inr pack))"

section \<open>The directory\<close>

text \<open>
  \<open>PackUnsafe\<close> is anything but a regular file; its flag is whether \<open>exists\<close>, which follows
  symbolic links, sees something there.
\<close>

datatype pack_node = PackFile "u8 list" | PackUnsafe bool

record pack_dir =
  pd_files :: "string \<Rightarrow> pack_node option"
  pd_temp_sequence :: u64

text \<open>
  The operating system during one call: reading a file, creating the temporary file, and the write
  up to the directory sync: done, failed before the rename (with what is left of the temporary
  file when its removal fails too), or renamed with a sync that failed.
\<close>

datatype pack_write = PackWritten | PackNotWritten "u8 list option" | PackUnsynced

record pack_io =
  pk_read :: bool
  pk_create :: bool
  pk_write :: pack_write

datatype dir_stat = DirAbsent | DirPresent | DirUnsafe

record pack_dir_io =
  pk_stat :: dir_stat
  pk_create_dir_all :: bool
  pk_set_permissions :: bool

definition ensure_private_directory :: "pack_dir_io \<Rightarrow> evidence_pack_error + unit" where
  "ensure_private_directory io =
     (if pk_stat io = DirUnsafe then Inl PkUnsafePath
      else if pk_stat io = DirAbsent \<and> \<not> pk_create_dir_all io then Inl PkIo
      else if \<not> pk_set_permissions io then Inl PkIo
      else Inr ())"

definition pack_store_open :: "pack_dir_io \<Rightarrow> evidence_pack_error + unit" where
  "pack_store_open io = ensure_private_directory io"

definition read_regular_limited ::
  "pack_io \<Rightarrow> string \<Rightarrow> pack_dir \<Rightarrow> evidence_pack_error + u8 list" where
  "read_regular_limited io name d =
     (case pd_files d name of
        None \<Rightarrow> Inl PkIo
      | Some (PackUnsafe _) \<Rightarrow> Inl PkUnsafePath
      | Some (PackFile bytes) \<Rightarrow>
          if length bytes > max_pack_bytes then Inl PackTooLarge
          else if \<not> pk_read io then Inl PkIo
          else Inr bytes)"

fun node_exists :: "pack_node option \<Rightarrow> bool" where
  "node_exists None \<longleftrightarrow> False"
| "node_exists (Some (PackFile _)) \<longleftrightarrow> True"
| "node_exists (Some (PackUnsafe e)) \<longleftrightarrow> e"

definition pack_file_name :: "string \<Rightarrow> string" where
  "pack_file_name digest = digest @ ''.json''"

definition temporary_name :: "nat \<Rightarrow> u64 \<Rightarrow> string" where
  "temporary_name pid sequence =
     ''.evidence-'' @ decimal pid @ ''-'' @ decimal (unat sequence) @ ''.tmp''"

definition persist ::
  "sha256 \<Rightarrow> pack_codec \<Rightarrow> pack_io \<Rightarrow> nat \<Rightarrow> evidence_pack \<Rightarrow> pack_dir
     \<Rightarrow> pack_dir \<times> (evidence_pack_error + string)" where
  "persist sha codec io pid pack d =
     (case pack_validate codec pack of
        Inl e \<Rightarrow> (d, Inl e)
      | Inr _ \<Rightarrow>
     (case enc_pack codec pack of
        None \<Rightarrow> (d, Inl PkJson)
      | Some payload \<Rightarrow>
          if length payload > max_pack_bytes then (d, Inl PackTooLarge)
          else
            let digest = hex_encode (sha payload); target = pack_file_name digest
            in if node_exists (pd_files d target) then
                 (d, rbind (read_regular_limited io target d) (\<lambda>existing.
                       if existing = payload then Inr digest else Inl DigestCollision))
               else
                 let temporary = temporary_name pid (pd_temp_sequence d);
                     d1 = d\<lparr>pd_temp_sequence := pd_temp_sequence d + 1\<rparr>;
                     placed = d1\<lparr>pd_files := (pd_files d)(temporary := None,
                                                        target := Some (PackFile payload))\<rparr>
                 in if \<not> pk_create io \<or> pd_files d temporary \<noteq> None then (d1, Inl PkIo)
                    else case pk_write io of
                      PackWritten \<Rightarrow> (placed, Inr digest)
                    | PackUnsynced \<Rightarrow> (placed, Inl PkIo)
                    | PackNotWritten left \<Rightarrow>
                        (d1\<lparr>pd_files := (pd_files d)(temporary := map_option PackFile left)\<rparr>,
                         Inl PkIo)))"

definition load ::
  "sha256 \<Rightarrow> pack_codec \<Rightarrow> pack_io \<Rightarrow> string \<Rightarrow> pack_dir \<Rightarrow> evidence_pack_error + evidence_pack" where
  "load sha codec io digest d =
     (if length digest \<noteq> 64 \<or> \<not> list_all is_ascii_hexdigit digest then Inl InvalidDigest
      else
        rbind (read_regular_limited io (pack_file_name digest) d) (\<lambda>payload.
        if hex_encode (sha payload) \<noteq> to_ascii_lowercase digest then Inl DigestMismatch
        else
          rbind (ok_or PkJson (dec_pack codec payload)) (\<lambda>pack.
          rbind (pack_validate codec pack) (\<lambda>_. Inr pack))))"

section \<open>What is stored stays\<close>

lemma hexdigit_not_dot: "is_ascii_hexdigit c \<Longrightarrow> c \<noteq> CHR ''.''"
  by (auto simp: is_ascii_hexdigit_def is_ascii_digit_def ascii_code_def)

lemma pack_file_name_not_temporary:
  assumes "digest \<noteq> []" and "list_all is_ascii_hexdigit digest"
  shows "pack_file_name digest \<noteq> temporary_name pid n"
  using assms hexdigit_not_dot by (cases digest) (auto simp: pack_file_name_def temporary_name_def)

lemma hex_encode_nonempty: "length (sha bs) = 32 \<Longrightarrow> hex_encode (sha bs) \<noteq> []"
  by (metis length_hex_encode length_0_conv mult_eq_0_iff zero_neq_numeral)

text \<open>A regular file that is not a temporary file is never touched.\<close>

lemma persist_keeps_files:
  assumes "pd_files d name = Some (PackFile bytes)" and "\<And>n. name \<noteq> temporary_name pid n"
  shows "pd_files (fst (persist sha codec io pid pack d)) name = Some (PackFile bytes)"
  using assms
  by (auto simp: persist_def Let_def split: sum.splits option.splits pack_write.splits)

lemma lower_hex_digit: "n < 16 \<Longrightarrow> ascii_lower (hex_digit n) = hex_digit n"
proof -
  assume "n < 16"
  then have "hex_digit n \<in> set ''0123456789abcdef''"
    unfolding hex_digit_def by (intro nth_mem) simp
  moreover have "\<forall>c \<in> set ''0123456789abcdef''. ascii_lower c = c"
    by (simp add: ascii_lower_def ascii_code_def)
  ultimately show ?thesis by blast
qed

lemma lower_hex_encode: "to_ascii_lowercase (hex_encode bs) = hex_encode bs"
  using unat_u8_less
  by (induction bs)
     (auto simp: hex_encode_def hex_byte_def to_ascii_lowercase_def hex_nibbles
       less_mult_imp_div_less lower_hex_digit)

lemma hex_list_all: "list_all is_ascii_hexdigit (hex_encode bs)"
  using hex_encode_hexdigits by (simp add: list_all_iff)

lemma persist_stores:
  assumes "persist sha codec io pid pack d = (d', Inr digest)"
  shows "\<exists>payload. enc_pack codec pack = Some payload \<and> length payload \<le> max_pack_bytes
    \<and> digest = hex_encode (sha payload) \<and> pack_validate codec pack = Inr ()
    \<and> pd_files d' (pack_file_name digest) = Some (PackFile payload)"
  using assms
  by (auto simp: persist_def Let_def result_iffs read_regular_limited_def not_less
      split: sum.splits option.splits pack_write.splits pack_node.splits if_splits)

lemma stored_pack_loads:
  assumes "hash32 sha" and "pack_validate codec pack = Inr ()"
    and "length payload \<le> max_pack_bytes" and "dec_pack codec payload = Some pack"
    and "pd_files d (pack_file_name (hex_encode (sha payload))) = Some (PackFile payload)"
    and "pk_read io"
  shows "load sha codec io (hex_encode (sha payload)) d = Inr pack"
  using assms
  by (simp add: load_def hash32_def hex_list_all read_regular_limited_def lower_hex_encode)

text \<open>A sequence of calls of \<open>persist\<close>, from any process and with any outcome.\<close>

type_synonym pack_call = "pack_io \<times> nat \<times> evidence_pack"

definition pack_step :: "sha256 \<Rightarrow> pack_codec \<Rightarrow> pack_call \<Rightarrow> pack_dir \<Rightarrow> pack_dir" where
  "pack_step sha codec = (\<lambda>(io, pid, pack) d. fst (persist sha codec io pid pack d))"

definition keeps_pack :: "sha256 \<Rightarrow> u8 list \<Rightarrow> pack_dir \<Rightarrow> bool" where
  "keeps_pack sha payload d \<longleftrightarrow>
     pd_files d (pack_file_name (hex_encode (sha payload))) = Some (PackFile payload)"

lemma pack_step_keeps:
  assumes "hash32 sha" and "keeps_pack sha payload d"
  shows "keeps_pack sha payload (pack_step sha codec call d)"
proof -
  have "pack_file_name (hex_encode (sha payload)) \<noteq> temporary_name pid n" for pid n
    using assms(1) hex_encode_nonempty [of sha payload]
    by (intro pack_file_name_not_temporary) (simp_all add: hash32_def hex_list_all)
  then show ?thesis
    using assms(2) persist_keeps_files
    by (cases call) (auto simp: keeps_pack_def pack_step_def)
qed

interpretation pack_files: step_machine
  "\<lambda>call d. Inr (pack_step sha codec call d) :: unit + pack_dir"
  "\<lambda>d. hash32 sha \<and> keeps_pack sha payload d"
  for sha codec payload
  by unfold_locales (auto intro: pack_step_keeps)

lemma pack_survives:
  "hash32 sha \<Longrightarrow> keeps_pack sha payload d \<Longrightarrow>
   keeps_pack sha payload (fold (pack_step sha codec) calls d)"
  using pack_files.run_keeps [of sha payload d codec calls] by (simp add: run_all_total)

text \<open>
  A persisted evidence pack is durable and immutable: whatever packs any process persists
  afterwards, with whatever failures, loading the returned digest gives back exactly that pack, and
  persisting it again returns the same digest and changes nothing.
\<close>

theorem persisted_pack_survives:
  assumes "hash32 sha" and "persist sha codec io pid pack d = (d', Inr digest)"
    and "\<And>payload. enc_pack codec pack = Some payload \<Longrightarrow> dec_pack codec payload = Some pack"
    and "pk_read io'"
  shows "let d'' = fold (pack_step sha codec) calls d'
         in load sha codec io' digest d'' = Inr pack
            \<and> persist sha codec io' pid' pack d'' = (d'', Inr digest)"
proof -
  obtain payload where stored: "enc_pack codec pack = Some payload"
    "length payload \<le> max_pack_bytes" "digest = hex_encode (sha payload)"
    "pack_validate codec pack = Inr ()" "keeps_pack sha payload d'"
    using persist_stores [OF assms(2)] by (auto simp: keeps_pack_def)
  let ?d = "fold (pack_step sha codec) calls d'"
  have kept: "keeps_pack sha payload ?d"
    using pack_survives assms(1) stored(5) by blast
  then have "load sha codec io' digest ?d = Inr pack"
    using stored_pack_loads assms stored by (simp add: keeps_pack_def)
  moreover have "persist sha codec io' pid' pack ?d = (?d, Inr digest)"
    using kept stored assms(4)
    by (simp add: persist_def keeps_pack_def read_regular_limited_def Let_def)
  ultimately show ?thesis by (simp add: Let_def)
qed

text \<open>
  Nothing enters through the directory that was not addressed by its content: a pack that loads
  is a valid pack decoded from a regular file within the size limit whose SHA-256 is the digest
  asked for.
\<close>

theorem loaded_pack_is_authentic:
  assumes "load sha codec io digest d = Inr pack"
  shows "pack_validate codec pack = Inr ()
    \<and> (\<exists>payload. pd_files d (pack_file_name digest) = Some (PackFile payload)
         \<and> length payload \<le> max_pack_bytes
         \<and> hex_encode (sha payload) = to_ascii_lowercase digest
         \<and> dec_pack codec payload = Some pack)"
  using assms
  by (auto simp: load_def result_iffs read_regular_limited_def not_less
      split: if_splits option.splits pack_node.splits)

section \<open>A concrete pack\<close>

definition toy_pack :: evidence_pack where
  "toy_pack = \<lparr>ep_version = 1, ep_mission_id = ''m'', ep_run_id = ''r'',
     ep_identity = \<lparr>pi_mission_id = ''m'', pi_run_id = ''r'', pi_repository_identity = ''/r'',
       pi_worktree_identity = ''/r'', pi_base_revision = replicate 40 CHR ''a''\<rparr>,
     ep_current_workspace = workspace_new ''t'' ''d'' [], ep_records = [], ep_summaries = [],
     ep_execution_logs = [], ep_created_at_millis = 42\<rparr>"

definition toy_pack_codec :: pack_codec where
  "toy_pack_codec = \<lparr>enc_pack = (\<lambda>p. if p = toy_pack then Some [1, 2, 3] else None),
     dec_pack = (\<lambda>bs. if bs = [1, 2, 3] then Some toy_pack else None),
     b64_encode = (\<lambda>_. []), b64_ok = (\<lambda>_. True)\<rparr>"

definition toy_pack_dir :: pack_dir where
  "toy_pack_dir = \<lparr>pd_files = (\<lambda>_. None), pd_temp_sequence = 1\<rparr>"

definition calm_pack_io :: pack_io where
  "calm_pack_io = \<lparr>pk_read = True, pk_create = True, pk_write = PackWritten\<rparr>"

definition toy_sha :: sha256 where
  "toy_sha bs = take 32 (bs @ replicate 32 0)"

lemma toy_sha_hash32: "hash32 toy_sha"
  by (auto simp: hash32_def toy_sha_def min_def)

lemma toy_pack_valid: "pack_validate codec toy_pack = Inr ()"
  by (simp add: pack_validate_def toy_pack_def pack_version_def pack_valid_id_def
      is_ascii_alphanumeric_def is_ascii_digit_def ascii_code_def bm_keys_def)

lemma toy_pack_persisted:
  "snd (persist toy_sha toy_pack_codec calm_pack_io 7 toy_pack toy_pack_dir)
     = Inr (hex_encode (toy_sha [1, 2, 3]))"
  by (simp add: persist_def toy_pack_valid toy_pack_codec_def max_pack_bytes_def toy_pack_dir_def
      calm_pack_io_def Let_def)

theorem persisted_pack_survives_witness:
  "let d' = fst (persist toy_sha toy_pack_codec calm_pack_io 7 toy_pack toy_pack_dir);
       d'' = fold (pack_step toy_sha toy_pack_codec) [(calm_pack_io, 8, toy_pack)] d'
   in load toy_sha toy_pack_codec calm_pack_io (hex_encode (toy_sha [1, 2, 3])) d'' = Inr toy_pack"
proof -
  obtain d' where run: "persist toy_sha toy_pack_codec calm_pack_io 7 toy_pack toy_pack_dir
      = (d', Inr (hex_encode (toy_sha [1, 2, 3])))"
    using toy_pack_persisted by (metis prod.collapse)
  have "dec_pack toy_pack_codec payload = Some toy_pack"
    if "enc_pack toy_pack_codec toy_pack = Some payload" for payload
    using that by (auto simp: toy_pack_codec_def)
  moreover have "pk_read calm_pack_io"
    by (simp add: calm_pack_io_def)
  ultimately show ?thesis
    using persisted_pack_survives [OF toy_sha_hash32 run, of calm_pack_io
        "[(calm_pack_io, 8, toy_pack)]"]
    unfolding Let_def run fst_conv by blast
qed

theorem loaded_pack_is_authentic_witness:
  "load toy_sha toy_pack_codec calm_pack_io (hex_encode (toy_sha [1, 2, 3]))
     (toy_pack_dir\<lparr>pd_files := [pack_file_name (hex_encode (toy_sha [1, 2, 3]))
        \<mapsto> PackFile [1, 2, 3]]\<rparr>) = Inr toy_pack
   \<and> pack_validate toy_pack_codec toy_pack = Inr ()"
proof -
  have "load toy_sha toy_pack_codec calm_pack_io (hex_encode (toy_sha [1, 2, 3]))
     (toy_pack_dir\<lparr>pd_files := [pack_file_name (hex_encode (toy_sha [1, 2, 3]))
        \<mapsto> PackFile [1, 2, 3]]\<rparr>) = Inr toy_pack"
    by (rule stored_pack_loads [OF toy_sha_hash32])
       (simp_all add: toy_pack_valid max_pack_bytes_def toy_pack_codec_def calm_pack_io_def)
  then show ?thesis
    using loaded_pack_is_authentic by blast
qed

end
