(* ===== verification/Executor.thy ===== *)
theory Executor
  imports Evidence_Pack Trusted_Check_Props
begin

text \<open>
  \<open>src/mission/executor.rs\<close>: the execution of the command checks a mission declares. Every check
  runs between two scans of the worktree, and the evidence it gives is bundled in an evidence pack
  with a last scan. The environments of the scans and checks, the moments of cancellation and the
  clock are parameters, one for each step, since the worktree may change between them.
\<close>

section \<open>Data\<close>

record closure_execution_request =
  cx_mission_id :: string
  cx_run_id :: string
  cx_repository_path :: string
  cx_worktree_path :: string
  cx_base_revision :: string
  cx_declarations :: "check_declaration list"

datatype closure_execution_error =
    CxCancelled | CxProof proof_error | CxVerification verification_error
  | CxPack evidence_pack_error

record executor_env =
  xe_discover :: git_env
  xe_cancelled :: "nat \<Rightarrow> bool"
  xe_before :: "nat \<Rightarrow> git_env"
  xe_check :: "nat \<Rightarrow> check_env"
  xe_after :: "nat \<Rightarrow> git_env"
  xe_final :: git_env
  xe_now_millis :: u64

fun check_error_text :: "trusted_check_error \<Rightarrow> string" where
  "check_error_text CkWorktreeUnavailable = ''check worktree is unavailable''"
| "check_error_text CkNotGitWorktree = ''check worktree is not a Git checkout''"
| "check_error_text CkWorktreeMustBeRoot = ''check worktree path must be its checkout root''"
| "check_error_text InvalidCwd = ''check working directory is invalid''"
| "check_error_text CwdUnavailable = ''check working directory is unavailable''"
| "check_error_text CwdEscapesWorktree = ''check working directory escapes the worktree''"
| "check_error_text InvalidProgram = ''check executable declaration is invalid''"
| "check_error_text ProgramUnavailable = ''check executable is unavailable''"
| "check_error_text ProgramNotExecutable = ''check executable is not executable''"
| "check_error_text SpawnFailed = ''check process could not be started''"
| "check_error_text PipeUnavailable = ''check output pipe is unavailable''"
| "check_error_text WaitFailed = ''check process wait failed''"
| "check_error_text CkReaderFailed = ''check output reader failed''"
| "check_error_text TimedOut = ''check command timed out''"
| "check_error_text StdoutLimitExceeded = ''check stdout exceeded its limit''"
| "check_error_text StderrLimitExceeded = ''check stderr exceeded its limit''"
| "check_error_text OutputLimitExceeded = ''check output exceeded its limit''"
| "check_error_text CkCancelled = ''check execution was cancelled''"

fun evidence_error_text :: "evidence_error \<Rightarrow> string" where
  "evidence_error_text InvalidCheckDeclaration =
     ''check declaration is invalid or unsafe to persist''"
| "evidence_error_text ManualCheckCannotHaveCommandEvidence =
     ''manual check cannot have command evidence''"
| "evidence_error_text InvalidDuration =
     ''evidence finish timestamp precedes its start timestamp''"
| "evidence_error_text (ArtifactNotInWorkspace p) =
     ''required artifact is not present in the verified workspace: '' @ p"
| "evidence_error_text EmptyReviewer = ''manual reviewer cannot be empty''"
| "evidence_error_text EmptyManualReason = ''manual evidence reason cannot be empty''"
| "evidence_error_text ReviewerNotAllowed =
     ''manual reviewer or override is not allowed by this check''"

section \<open>One check\<close>

definition media_type_for_path :: "string \<Rightarrow> string" where
  "media_type_for_path p =
     (case map_option to_ascii_lowercase (extension p) of
        None \<Rightarrow> ''application/octet-stream''
      | Some e \<Rightarrow>
          if e = ''json'' then ''application/json''
          else if e = ''html'' then ''text/html''
          else if e = ''txt'' \<or> e = ''md'' \<or> e = ''log'' then ''text/plain''
          else if e = ''png'' then ''image/png''
          else if e = ''jpg'' \<or> e = ''jpeg'' then ''image/jpeg''
          else if e = ''webp'' then ''image/webp''
          else if e = ''svg'' then ''image/svg+xml''
          else if e = ''mp4'' then ''video/mp4''
          else ''application/octet-stream'')"

definition collected_artifacts ::
  "check_declaration \<Rightarrow> workspace_snapshot \<Rightarrow> artifact_evidence list" where
  "collected_artifacts c after =
     List.map_filter (\<lambda>p. map_option
       (\<lambda>hash. \<lparr>av_path = p, av_content_hash = hash, av_media_type = media_type_for_path p\<rparr>)
       (artifact_hash after p)) (required_artifact_paths c)"

record closure_progress =
  cp_records :: "(string, evidence_record) bmap"
  cp_summaries :: "(string, evidence_status) bmap"
  cp_logs :: "(string, check_execution_log) bmap"

definition progress_empty :: closure_progress where
  "progress_empty = \<lparr>cp_records = [], cp_summaries = [], cp_logs = []\<rparr>"

definition note_failure ::
  "string \<Rightarrow> check_execution_log \<Rightarrow> closure_progress \<Rightarrow> closure_progress" where
  "note_failure check_id log p =
     p\<lparr>cp_summaries := bm_insert check_id EvFailed (cp_summaries p),
       cp_logs := bm_insert check_id log (cp_logs p)\<rparr>"

definition note_evidence ::
  "pack_codec \<Rightarrow> string \<Rightarrow> trusted_check_result \<Rightarrow> workspace_snapshot \<Rightarrow> evidence_error + command_evidence
     \<Rightarrow> closure_progress \<Rightarrow> closure_progress" where
  "note_evidence codec check_id r after evidence p =
     (case evidence of
        Inr ev \<Rightarrow>
          p\<lparr>cp_summaries := bm_insert check_id (status_against ev after) (cp_summaries p),
            cp_records := bm_insert check_id (RecCommand ev) (cp_records p),
            cp_logs := bm_insert check_id (log_completed codec r None) (cp_logs p)\<rparr>
      | Inl e \<Rightarrow>
          note_failure check_id (log_completed codec r (Some (evidence_error_text e))) p)"

text \<open>The evidence of one run, with the exit code -1 of a process a signal ended.\<close>

definition run_evidence ::
  "sha256 \<Rightarrow> check_declaration \<Rightarrow> proof_identity \<Rightarrow> git_workspace_snapshot \<Rightarrow> git_workspace_snapshot
     \<Rightarrow> trusted_check_result \<Rightarrow> evidence_error + command_evidence" where
  "run_evidence sha c identity before after r =
     command_evidence_new sha c identity (gs_evidence_snapshot before) (gs_evidence_snapshot after)
       (unwrap_or (- 1) (tr_exit_code r)) (tr_started_at_unix_millis r)
       (tr_finished_at_unix_millis r)
       (collected_artifacts c (gs_evidence_snapshot after))"

definition include_ignored_of :: "closure_execution_request \<Rightarrow> bool" where
  "include_ignored_of request \<longleftrightarrow> list_ex ck_include_ignored (cx_declarations request)"

definition scan_for ::
  "sha256 \<Rightarrow> path \<Rightarrow> closure_execution_request \<Rightarrow> git_env
     \<Rightarrow> closure_execution_error + git_workspace_snapshot" where
  "scan_for sha git request env =
     map_err CxVerification
       (git_scan sha env git (cx_worktree_path request) (include_ignored_of request))"

definition closure_step ::
  "sha256 \<Rightarrow> pack_codec \<Rightarrow> executor_env \<Rightarrow> path \<Rightarrow> closure_execution_request \<Rightarrow> proof_identity
     \<Rightarrow> nat \<Rightarrow> check_declaration \<Rightarrow> closure_progress
     \<Rightarrow> closure_execution_error + closure_progress" where
  "closure_step sha codec env git request identity i c p =
     (if xe_cancelled env i then Inl CxCancelled
      else case check_command_spec c of
        None \<Rightarrow> Inr p
      | Some command \<Rightarrow>
          rbind (scan_for sha git request (xe_before env i)) (\<lambda>before.
          case run_with_cancel runner_new (xe_check env i) (cx_worktree_path request) command of
            Inl CkCancelled \<Rightarrow> Inl CxCancelled
          | Inl e \<Rightarrow> Inr (note_failure (ck_id c) (LogRejected (check_error_text e)) p)
          | Inr r \<Rightarrow>
              rbind (scan_for sha git request (xe_after env i)) (\<lambda>after.
                Inr (note_evidence codec (ck_id c) r (gs_evidence_snapshot after)
                       (run_evidence sha c identity before after r) p))))"

fun closure_loop ::
  "sha256 \<Rightarrow> pack_codec \<Rightarrow> executor_env \<Rightarrow> path \<Rightarrow> closure_execution_request \<Rightarrow> proof_identity
     \<Rightarrow> nat \<Rightarrow> check_declaration list \<Rightarrow> closure_progress
     \<Rightarrow> closure_execution_error + closure_progress" where
  "closure_loop sha codec env git request identity i [] p = Inr p"
| "closure_loop sha codec env git request identity i (c # cs) p =
     rbind (closure_step sha codec env git request identity i c p)
       (closure_loop sha codec env git request identity (Suc i) cs)"

section \<open>The execution\<close>

definition execute_closure_cancellable ::
  "sha256 \<Rightarrow> pack_codec \<Rightarrow> executor_env \<Rightarrow> closure_execution_request
     \<Rightarrow> closure_execution_error + evidence_pack" where
  "execute_closure_cancellable sha codec env request =
     rbind (map_err CxProof (proof_identity_new (cx_mission_id request) (cx_run_id request)
       (cx_repository_path request) (cx_worktree_path request) (cx_base_revision request)))
       (\<lambda>identity.
     rbind (map_err CxVerification (discover (xe_discover env))) (\<lambda>git.
     rbind (closure_loop sha codec env git request identity 0 (cx_declarations request)
              progress_empty) (\<lambda>p.
     if xe_cancelled env (length (cx_declarations request)) then Inl CxCancelled
     else
       rbind (scan_for sha git request (xe_final env)) (\<lambda>current.
         map_err CxPack (evidence_pack_new codec (cx_mission_id request) (cx_run_id request) identity
           (gs_evidence_snapshot current) (cp_records p) (cp_summaries p) (cp_logs p)
           (xe_now_millis env))))))"

section \<open>What a pack reports\<close>

text \<open>Check \<open>i\<close> ran between two accepted scans, and this is the evidence it gave.\<close>

definition backed_by ::
  "sha256 \<Rightarrow> executor_env \<Rightarrow> path \<Rightarrow> closure_execution_request \<Rightarrow> proof_identity \<Rightarrow> nat
     \<Rightarrow> check_declaration \<Rightarrow> command_evidence \<Rightarrow> evidence_status \<Rightarrow> bool" where
  "backed_by sha env git request identity i c ev status \<longleftrightarrow>
     (\<exists>command before r after. check_command_spec c = Some command
        \<and> scan_for sha git request (xe_before env i) = Inr before
        \<and> run_with_cancel runner_new (xe_check env i) (cx_worktree_path request) command = Inr r
        \<and> scan_for sha git request (xe_after env i) = Inr after
        \<and> run_evidence sha c identity before after r = Inr ev
        \<and> status = status_against ev (gs_evidence_snapshot after))"

text \<open>What the three maps hold for one check id, and what they must hold for check \<open>i\<close>.\<close>

type_synonym check_entry =
  "evidence_record option \<times> evidence_status option \<times> check_execution_log option"

definition entry_of :: "closure_progress \<Rightarrow> string \<Rightarrow> check_entry" where
  "entry_of p check_id =
     (bm_get (cp_records p) check_id, bm_get (cp_summaries p) check_id, bm_get (cp_logs p) check_id)"

definition reported ::
  "sha256 \<Rightarrow> executor_env \<Rightarrow> path \<Rightarrow> closure_execution_request \<Rightarrow> proof_identity \<Rightarrow> nat
     \<Rightarrow> check_declaration \<Rightarrow> check_entry \<Rightarrow> bool" where
  "reported sha env git request identity i c entry \<longleftrightarrow>
     (if is_manual c then entry = (None, None, None)
      else snd (snd entry) \<noteq> None
        \<and> (case fst entry of
             None \<Rightarrow> fst (snd entry) = Some EvFailed
           | Some r \<Rightarrow> \<exists>ev status. r = RecCommand ev \<and> fst (snd entry) = Some status
               \<and> backed_by sha env git request identity i c ev status))"

lemma closure_step_entries:
  assumes "closure_step sha codec env git request identity i c p = Inr p'"
    and "entry_of p (ck_id c) = (None, None, None)"
  shows "reported sha env git request identity i c (entry_of p' (ck_id c))"
    and "check_id \<noteq> ck_id c \<Longrightarrow> entry_of p' check_id = entry_of p check_id"
proof -
  have "reported sha env git request identity i c (entry_of p' (ck_id c))
      \<and> (\<forall>check_id. check_id \<noteq> ck_id c \<longrightarrow> entry_of p' check_id = entry_of p check_id)"
  proof (cases "check_command_spec c")
    case None
    then show ?thesis
      using assms by (auto simp: closure_step_def reported_def is_manual_def split: if_splits)
  next
    case (Some command)
    then obtain before where before: "scan_for sha git request (xe_before env i) = Inr before"
      using assms(1) by (auto simp: closure_step_def result_iffs split: if_splits)
    show ?thesis
    proof (cases "run_with_cancel runner_new (xe_check env i) (cx_worktree_path request) command")
      case (Inl e)
      then have "p' = note_failure (ck_id c) (LogRejected (check_error_text e)) p"
        using assms(1) Some before
        by (auto simp: closure_step_def split: if_splits trusted_check_error.splits)
      then show ?thesis
        using assms(2) Some
        by (auto simp: entry_of_def reported_def note_failure_def is_manual_def)
    next
      case (Inr r)
      then obtain after where after: "scan_for sha git request (xe_after env i) = Inr after"
        and p': "p' = note_evidence codec (ck_id c) r (gs_evidence_snapshot after)
          (run_evidence sha c identity before after r) p"
        using assms(1) Some before by (auto simp: closure_step_def result_iffs split: if_splits)
      show ?thesis
      proof (cases "run_evidence sha c identity before after r")
        case (Inl e)
        then show ?thesis
          using assms(2) Some p'
          by (auto simp: entry_of_def reported_def note_evidence_def note_failure_def is_manual_def)
      next
        case (Inr ev)
        then have "backed_by sha env git request identity i c ev
            (status_against ev (gs_evidence_snapshot after))"
          using Some before after
            \<open>run_with_cancel _ _ _ command = Inr r\<close> by (auto simp: backed_by_def)
        then show ?thesis
          using assms(2) Some p' Inr
          by (auto simp: entry_of_def reported_def note_evidence_def is_manual_def)
      qed
    qed
  qed
  then show "reported sha env git request identity i c (entry_of p' (ck_id c))"
    and "check_id \<noteq> ck_id c \<Longrightarrow> entry_of p' check_id = entry_of p check_id"
    by blast+
qed

lemma closure_loop_entries:
  assumes "closure_loop sha codec env git request identity i cs p = Inr p'"
    and "distinct (map ck_id cs)" and "\<forall>c \<in> set cs. entry_of p (ck_id c) = (None, None, None)"
  shows "(\<forall>j < length cs. reported sha env git request identity (i + j) (cs ! j)
            (entry_of p' (ck_id (cs ! j))))
    \<and> (\<forall>check_id. check_id \<notin> ck_id ` set cs \<longrightarrow> entry_of p' check_id = entry_of p check_id)"
  using assms
proof (induction cs arbitrary: i p)
  case Nil
  then show ?case by simp
next
  case (Cons c cs)
  obtain p1 where step: "closure_step sha codec env git request identity i c p = Inr p1"
    and rest: "closure_loop sha codec env git request identity (Suc i) cs p1 = Inr p'"
    using Cons.prems(1) by (auto simp: result_iffs)
  note here = closure_step_entries [OF step]
  have other: "ck_id c \<notin> ck_id ` set cs" and empty: "entry_of p (ck_id c) = (None, None, None)"
    using Cons.prems by auto
  have "\<forall>d \<in> set cs. entry_of p1 (ck_id d) = (None, None, None)"
    using Cons.prems(3) other here(2) [OF empty] by (metis image_eqI list.set_intros(2))
  note IH = Cons.IH [OF rest _ this]
  have later: "\<forall>j < length cs. reported sha env git request identity (Suc i + j) (cs ! j)
      (entry_of p' (ck_id (cs ! j)))"
    and frame: "\<And>check_id. check_id \<notin> ck_id ` set cs \<Longrightarrow> entry_of p' check_id = entry_of p1 check_id"
    using IH Cons.prems(2) by auto
  have "reported sha env git request identity i c (entry_of p' (ck_id c))"
    using here(1) [OF empty] frame [OF other] by simp
  then have "\<forall>j < length (c # cs). reported sha env git request identity (i + j) ((c # cs) ! j)
      (entry_of p' (ck_id ((c # cs) ! j)))"
    using later by (auto simp: less_Suc_eq_0_disj)
  moreover have "entry_of p' check_id = entry_of p check_id"
    if "check_id \<notin> ck_id ` set (c # cs)" for check_id
    using that frame [of check_id] here(2) [OF empty, of check_id] by simp
  ultimately show ?case by blast
qed

definition pack_entry :: "evidence_pack \<Rightarrow> string \<Rightarrow> check_entry" where
  "pack_entry pack check_id =
     (bm_get (ep_records pack) check_id, bm_get (ep_summaries pack) check_id,
      bm_get (ep_execution_logs pack) check_id)"


text \<open>One command check and one manual check in the toy repository.\<close>

definition toy_request :: closure_execution_request where
  "toy_request = \<lparr>cx_mission_id = ''m'', cx_run_id = ''r'', cx_repository_path = ''/repo'',
     cx_worktree_path = ''/repo'', cx_base_revision = replicate 40 CHR ''a'',
     cx_declarations =
       [check_command ''unit''
          \<lparr>cs_program = ''./probe'', cs_args = [''a b''], cs_cwd = ''.''\<rparr> [All] [],
        check_manual ''review'']\<rparr>"

definition toy_executor_env :: executor_env where
  "toy_executor_env = \<lparr>xe_discover = toy_git_env, xe_cancelled = (\<lambda>_. False),
     xe_before = (\<lambda>_. toy_git_env), xe_check = (\<lambda>_. toy_check_env), xe_after = (\<lambda>_. toy_git_env),
     xe_final = toy_git_env, xe_now_millis = 9\<rparr>"

lemma toy_scan_for: "\<exists>s. scan_for sha git toy_request toy_git_env = Inr s"
proof -
  have "include_ignored_of toy_request = False"
    by (simp add: include_ignored_of_def toy_request_def check_command_def check_manual_def)
  then show ?thesis
    using toy_scan_any [of sha git "cx_worktree_path toy_request"]
    by (cases "git_scan sha toy_git_env git (cx_worktree_path toy_request) False")
       (auto simp: scan_for_def)
qed

lemma toy_run_evidence:
  "\<exists>ev. run_evidence sha (check_command ''unit'' spec [All] []) identity before after
          toy_check_result = Inr ev \<and> ce_check_id ev = ''unit''"
  if "valid_relative_contract_path (cs_cwd spec) True"
  using that
  by (simp add: run_evidence_def command_evidence_new_def check_command_def
      has_canonical_path_contracts_def check_command_spec_def toy_check_result_def word_eval)

lemma toy_dot_path: "valid_relative_contract_path ''.'' True"
  by (simp add: valid_relative_contract_path_def normalize_contract_path_def path_chars_ok_def
      utf8_width_def utf8_code_def utf8_lead_def ascii_code_def is_control_def)

definition toy_command_check :: check_declaration where
  "toy_command_check =
     check_command ''unit'' \<lparr>cs_program = ''./probe'', cs_args = [''a b''], cs_cwd = ''.''\<rparr> [All] []"

lemma toy_loop:
  "\<exists>ev status. ce_check_id ev = ''unit''
     \<and> closure_loop sha codec toy_executor_env git toy_request identity 0
         (cx_declarations toy_request) progress_empty
       = Inr \<lparr>cp_records = [(''unit'', RecCommand ev)], cp_summaries = [(''unit'', status)],
              cp_logs = [(''unit'', log_completed codec toy_check_result None)]\<rparr>"
proof -
  obtain before where scan: "scan_for sha git toy_request toy_git_env = Inr before"
    using toy_scan_for by blast
  obtain ev where ev: "run_evidence sha toy_command_check identity before before toy_check_result
      = Inr ev" "ce_check_id ev = ''unit''"
    using toy_run_evidence [of "\<lparr>cs_program = ''./probe'', cs_args = [''a b''], cs_cwd = ''.''\<rparr>"
        sha identity before before] toy_dot_path by (auto simp: toy_command_check_def)
  have spec: "check_command_spec toy_command_check
      = Some \<lparr>cs_program = ''./probe'', cs_args = [''a b''], cs_cwd = ''.''\<rparr>"
    "ck_id toy_command_check = ''unit''" "check_command_spec (check_manual ''review'') = None"
    by (simp_all add: toy_command_check_def check_command_def check_command_spec_def check_manual_def)
  have "closure_step sha codec toy_executor_env git toy_request identity 0 toy_command_check
      progress_empty = Inr (note_evidence codec ''unit'' toy_check_result
        (gs_evidence_snapshot before) (Inr ev) progress_empty)"
    using scan ev toy_check_runs spec
    by (simp add: closure_step_def toy_executor_env_def toy_request_def)
  moreover have "cx_declarations toy_request = [toy_command_check, check_manual ''review'']"
    by (simp add: toy_request_def toy_command_check_def)
  moreover have "closure_step sha codec toy_executor_env git toy_request identity (Suc 0)
      (check_manual ''review'') p = Inr p" for p
    using spec by (simp add: closure_step_def toy_executor_env_def)
  ultimately show ?thesis
    using ev(2) by (auto simp: note_evidence_def progress_empty_def)
qed

lemma toy_execution:
  "\<exists>pack. execute_closure_cancellable sha toy_pack_codec toy_executor_env toy_request = Inr pack"
proof -
  obtain identity where identity: "proof_identity_new ''m'' ''r'' ''/repo'' ''/repo''
      (replicate 40 CHR ''a'') = Inr identity"
    "pi_mission_id identity = ''m''" "pi_run_id identity = ''r''"
    by (simp add: proof_identity_new_def is_blank_iff valid_revision_def list_all_iff
        is_ascii_hexdigit_def is_ascii_digit_def ascii_code_def utf8_width_def utf8_code_def
        utf8_lead_def is_whitespace_def)
  have git: "discover toy_git_env = Inr [''/usr/bin/git'']"
    by (simp add: discover_def git_candidates_def toy_git_env_def)
  obtain ev status where loop: "ce_check_id ev = ''unit''"
    "closure_loop sha toy_pack_codec toy_executor_env [''/usr/bin/git''] toy_request identity 0
         (cx_declarations toy_request) progress_empty
       = Inr \<lparr>cp_records = [(''unit'', RecCommand ev)], cp_summaries = [(''unit'', status)],
              cp_logs = [(''unit'', log_completed toy_pack_codec toy_check_result None)]\<rparr>"
    using toy_loop by blast
  obtain current where scan:
    "scan_for sha [''/usr/bin/git''] toy_request toy_git_env = Inr current"
    using toy_scan_for by blast
  have "\<exists>pack. evidence_pack_new toy_pack_codec ''m'' ''r'' identity (gs_evidence_snapshot current)
      [(''unit'', RecCommand ev)] [(''unit'', status)]
      [(''unit'', log_completed toy_pack_codec toy_check_result None)] 9 = Inr pack"
    using identity(2,3) loop(1)
    by (simp add: evidence_pack_new_def pack_validate_def pack_version_def pack_valid_id_def
        is_ascii_alphanumeric_def is_ascii_digit_def ascii_code_def bm_keys_def log_completed_def
        toy_pack_codec_def toy_check_result_def word_eval)
  then show ?thesis
    using identity(1) git loop(2) scan
    by (auto simp: execute_closure_cancellable_def toy_executor_env_def toy_request_def)
qed

lemma all_less_two: "(\<forall>i < Suc (Suc 0). P i) \<longleftrightarrow> P 0 \<and> P (Suc 0)"
  by (auto simp: less_Suc_eq)


end
