(* ===== verification/Handoff.thy ===== *)
theory Handoff
  imports Store_Projection Trusted_Git_Props
begin

text \<open>
  \<open>src/mission/handoff.rs\<close>: the artifact that carries a mission from one provider to another,
  with the wire types of \<open>src/api/schema/missions.rs\<close> it is made of. The regular expressions of
  the redaction rules (crate \<open>regex\<close>) and the JSON encoding are parameters.
\<close>

section \<open>Wire types\<close>

datatype mission_provider = WireCodex | WireClaudeCode | WireOpenCode | WireAcp

datatype attention_decision_v1 =
  WireApproveOnce | WireApproveForSession | WireAllowForMission | WireDeny | WireAnswer

datatype handoff_decision_state =
  HdRequested | HdAcknowledged | HdFailed | HdReconciliationRequired

record handoff_decision =
  hd_attention_id :: string
  hd_decision :: attention_decision_v1
  hd_actor_id :: string
  hd_state :: handoff_decision_state
  hd_updated_at_millis :: u64

record handoff_diff =
  hx_workspace_digest :: string
  hx_dirty :: bool
  hx_changed_paths :: "string list"
  hx_stat :: string

datatype check_kind_v1 = WireCommand | WireManual

datatype check_status_v1 =
    WsPassed | WsFailed | WsStale | WsMissing | WsManualMissing | WsProviderClaimOnly
  | WsDeclarationMismatch | WsIdentityMismatch | WsArtifactMissingOrChanged | WsManualNotAuthorized

record check_summary_v1 =
  sy_check_id :: string
  sy_kind :: check_kind_v1
  sy_required :: bool
  sy_covered_criterion_ids :: "string list"
  sy_status :: check_status_v1

record handoff_artifact =
  ha_artifact_sha256 :: string
  ha_generated_at_millis :: u64
  ha_mission_id :: string
  ha_source_run_id :: string
  ha_suggested_run_id :: string
  ha_source_provider :: mission_provider
  ha_target_provider :: mission_provider
  ha_repository_path :: string
  ha_worktree_path :: string
  ha_base_revision :: string
  ha_head_revision :: string
  ha_objective :: string
  ha_acceptance_criteria :: "string list"
  ha_diff :: handoff_diff
  ha_decisions :: "handoff_decision list"
  ha_checks :: "check_summary_v1 list"
  ha_selected_logs :: "string list"
  ha_warnings :: "string list"

datatype mission_handoff_error =
    SourceRunMissing | InvalidSourceState | SameProvider | UnresolvedAttention
  | HeGit verification_error | HeSerialize

section \<open>Building the preview\<close>

fun wire_provider :: "provider_kind \<Rightarrow> mission_provider" where
  "wire_provider Codex = WireCodex"
| "wire_provider ClaudeCode = WireClaudeCode"
| "wire_provider OpenCode = WireOpenCode"
| "wire_provider Acp = WireAcp"

fun wire_decision :: "attention_decision \<Rightarrow> attention_decision_v1" where
  "wire_decision ApproveOnce = WireApproveOnce"
| "wire_decision ApproveForSession = WireApproveForSession"
| "wire_decision AllowForMission = WireAllowForMission"
| "wire_decision Deny = WireDeny"
| "wire_decision Answer = WireAnswer"

fun wire_response_state :: "persisted_response_state \<Rightarrow> handoff_decision_state" where
  "wire_response_state PrsRequested = HdRequested"
| "wire_response_state (PrsAcknowledged _) = HdAcknowledged"
| "wire_response_state (PrsFailed _) = HdFailed"
| "wire_response_state (PrsReconciliationRequired _) = HdReconciliationRequired"

text \<open>
  The rules in the order the code has them; \<open>replace_all\<close> of each rule's expression with its
  replacement is the parameter.
\<close>

datatype redaction_rule = BearerToken | ProviderKey | SecretAssignment | UrlCredentials

type_synonym replace_all = "redaction_rule \<Rightarrow> string \<Rightarrow> string"

definition redaction_rules :: "redaction_rule list" where
  "redaction_rules = [BearerToken, ProviderKey, SecretAssignment, UrlCredentials]"

definition redact_text :: "replace_all \<Rightarrow> string \<Rightarrow> string" where
  "redact_text replace input = fold replace redaction_rules input"

fun provider_slug :: "mission_provider \<Rightarrow> string" where
  "provider_slug WireCodex = ''codex''"
| "provider_slug WireClaudeCode = ''claude''"
| "provider_slug WireOpenCode = ''opencode''"
| "provider_slug WireAcp = ''acp''"

definition suggested_run_id ::
  "sha256 \<Rightarrow> mission_view \<Rightarrow> mission_provider \<Rightarrow> string \<Rightarrow> string" where
  "suggested_run_id sha mission target digest =
     (let provider = provider_slug target;
          suffix = hex_encode (sha (bytes_of ''nagi-mission-handoff-run-v1''
            @ bytes_of (mv_mission_id mission) @ be_bytes 8 (unat (mv_updated_at_millis mission))
            @ bytes_of provider @ bytes_of digest))
      in ''handoff-'' @ provider @ ''-'' @ take 12 suffix)"

definition handoff_decision_of ::
  "replace_all \<Rightarrow> durable_attention_view \<Rightarrow> handoff_decision option" where
  "handoff_decision_of replace item =
     map_option (\<lambda>r. \<lparr>hd_attention_id = da_attention_id item,
         hd_decision = wire_decision (dr_decision r), hd_actor_id = redact_text replace (dr_actor_id r),
         hd_state = wire_response_state (dr_state r),
         hd_updated_at_millis = dr_updated_at_millis r\<rparr>) (da_response item)"

definition handoff_warnings :: "string list" where
  "handoff_warnings =
     [''Hidden provider reasoning and proprietary session state are not transferred.'',
      ''No provider log excerpt is included until the user selects one for redacted export.'',
      ''Fresh proof remains bound to its source run and must be rerun before closure.'']"

definition may_hand_off :: "mission_status \<Rightarrow> bool" where
  "may_hand_off status \<longleftrightarrow> status \<in> {MissionBlocked, MissionFailed, ReviewRequired, ReadyToClose}"

definition unsigned_artifact ::
  "sha256 \<Rightarrow> replace_all \<Rightarrow> mission_view \<Rightarrow> mission_run_view \<Rightarrow> durable_attention_view list
     \<Rightarrow> check_summary_v1 list \<Rightarrow> mission_provider \<Rightarrow> u64 \<Rightarrow> git_handoff_summary \<Rightarrow> handoff_artifact" where
  "unsigned_artifact sha replace mission run attention checks target generated_at_millis summary =
     \<lparr>ha_artifact_sha256 = [], ha_generated_at_millis = generated_at_millis,
      ha_mission_id = mv_mission_id mission, ha_source_run_id = rv_run_id run,
      ha_suggested_run_id = suggested_run_id sha mission target (hs_workspace_digest summary),
      ha_source_provider = wire_provider (rv_provider run), ha_target_provider = target,
      ha_repository_path = mv_repository_path mission, ha_worktree_path = rv_worktree_path run,
      ha_base_revision = rv_base_revision run, ha_head_revision = hs_head_revision summary,
      ha_objective = redact_text replace (mv_objective mission),
      ha_acceptance_criteria = map (redact_text replace) (mv_acceptance_criteria mission),
      ha_diff = \<lparr>hx_workspace_digest = hs_workspace_digest summary,
        hx_dirty = (hs_changed_paths summary \<noteq> []),
        hx_changed_paths = map (redact_text replace) (hs_changed_paths summary),
        hx_stat = redact_text replace (hs_diff_stat summary)\<rparr>,
      ha_decisions = List.map_filter (handoff_decision_of replace)
        (filter (\<lambda>item. da_mission_id item = mv_mission_id mission) attention),
      ha_checks = checks, ha_selected_logs = [], ha_warnings = handoff_warnings\<rparr>"

definition build_preview ::
  "sha256 \<Rightarrow> replace_all \<Rightarrow> (handoff_artifact \<Rightarrow> u8 list option) \<Rightarrow> git_env \<Rightarrow> mission_view
     \<Rightarrow> durable_attention_view list \<Rightarrow> check_summary_v1 list \<Rightarrow> mission_provider \<Rightarrow> u64
     \<Rightarrow> mission_handoff_error + handoff_artifact" where
  "build_preview sha replace json env mission attention checks target generated_at_millis =
     (if \<not> may_hand_off (mv_status mission) then Inl InvalidSourceState
      else
        rbind (ok_or SourceRunMissing (mv_run mission)) (\<lambda>run.
        if wire_provider (rv_provider run) = target then Inl SameProvider
        else
          rbind (map_err HeGit (discover env)) (\<lambda>git.
          rbind (map_err HeGit (handoff_summary sha env git (rv_worktree_path run)
                   (rv_base_revision run))) (\<lambda>summary.
          let artifact = unsigned_artifact sha replace mission run attention checks target
                           generated_at_millis summary
          in rbind (ok_or HeSerialize (json artifact)) (\<lambda>payload.
               Inr (artifact\<lparr>ha_artifact_sha256 := hex_encode (sha payload)\<rparr>))))))"

section \<open>Properties\<close>

lemma suggested_id_bytes:
  "\<forall>c \<in> set (''handoff-'' @ provider_slug target @ ''-''). is_id_byte c"
  by (cases target)
     (simp_all add: is_id_byte_def is_ascii_alphanumeric_def is_ascii_digit_def ascii_code_def)

lemma hexdigit_is_id_byte: "is_ascii_hexdigit c \<Longrightarrow> is_id_byte c"
  by (auto simp: is_id_byte_def is_ascii_hexdigit_def is_ascii_alphanumeric_def)

lemma provider_slug_short: "length (provider_slug target) \<le> 8"
  by (cases target) simp_all

lemma suggested_run_id_valid: "validate_id label (suggested_run_id sha mission target digest) = Inr ()"
proof -
  have "\<forall>c \<in> set (take 12 (hex_encode bs)). is_id_byte c" for bs
    using hex_encode_hexdigits hexdigit_is_id_byte by (meson in_set_takeD)
  then show ?thesis
    using suggested_id_bytes [of target] provider_slug_short [of target]
    by (auto simp: validate_id_def suggested_run_id_def Let_def list_all_iff)
qed

text \<open>
  A handoff preview is made only of a mission that may hand off, between different providers;
  its digest is the SHA-256 of the artifact with an empty digest field, so it can be recomputed from
  the artifact alone; free text reaches it only through the redaction rules; and the run id it
  suggests is one the journal accepts.
\<close>

theorem preview_is_bound_and_redacted:
  assumes "build_preview sha replace json env mission attention checks target at = Inr artifact"
  shows "may_hand_off (mv_status mission)
    \<and> ha_source_provider artifact \<noteq> ha_target_provider artifact
    \<and> (\<exists>payload. json (artifact\<lparr>ha_artifact_sha256 := []\<rparr>) = Some payload
         \<and> ha_artifact_sha256 artifact = hex_encode (sha payload))
    \<and> ha_objective artifact = redact_text replace (mv_objective mission)
    \<and> ha_acceptance_criteria artifact
        = map (redact_text replace) (mv_acceptance_criteria mission)
    \<and> set (hx_changed_paths (ha_diff artifact)) \<subseteq> range (redact_text replace)
    \<and> hx_stat (ha_diff artifact) \<in> range (redact_text replace)
    \<and> (\<forall>d \<in> set (ha_decisions artifact). hd_actor_id d \<in> range (redact_text replace))
    \<and> ha_selected_logs artifact = []
    \<and> validate_id ''run id'' (ha_suggested_run_id artifact) = Inr ()"
proof -
  obtain run summary payload where made: "may_hand_off (mv_status mission)"
    "wire_provider (rv_provider run) \<noteq> target"
    "json (unsigned_artifact sha replace mission run attention checks target at summary)
       = Some payload"
    "artifact = (unsigned_artifact sha replace mission run attention checks target at summary)
       \<lparr>ha_artifact_sha256 := hex_encode (sha payload)\<rparr>"
    using assms by (auto simp: build_preview_def result_iffs Let_def split: if_splits)
  have actors: "\<forall>d \<in> set (ha_decisions artifact). hd_actor_id d \<in> range (redact_text replace)"
    by (auto simp: made(4) unsigned_artifact_def map_filter_def handoff_decision_of_def)
  have "artifact\<lparr>ha_artifact_sha256 := []\<rparr>
      = unsigned_artifact sha replace mission run attention checks target at summary"
    by (simp add: made(4) unsigned_artifact_def)
  then show ?thesis
    using made(1-3) actors suggested_run_id_valid
    by (auto simp: made(4) unsigned_artifact_def)
qed

definition toy_run_view :: mission_run_view where
  "toy_run_view = \<lparr>rv_run_id = ''r'', rv_provider = Codex, rv_mode = Managed,
     rv_worktree_path = ''/repo'', rv_base_revision = replicate 40 CHR ''a'',
     rv_provider_session_id = None, rv_execute_declared_checks = False,
     rv_execute_project_recipe = False, rv_handoff_from_run_id = None,
     rv_handoff_artifact_sha256 = None\<rparr>"

definition toy_mission_view :: mission_view where
  "toy_mission_view = \<lparr>mv_mission_id = ''m'', mv_title = ''t'', mv_repository_path = ''/repo'',
     mv_repository_hash = ''h'', mv_objective = ''token=x'', mv_acceptance_criteria = [''c''],
     mv_check_declarations = [], mv_status = MissionBlocked, mv_run = Some toy_run_view,
     mv_run_history = [], mv_unresolved_attention_count = 0, mv_latest_evidence_pack_digest = None,
     mv_ready_receipt = None, mv_archive_receipt = None, mv_evidence = [],
     mv_updated_at_millis = 42\<rparr>"

lemma toy_summary:
  "\<exists>summary. handoff_summary sha toy_git_env git ''/repo'' (replicate 40 CHR ''a'') = Inr summary"
proof -
  have root: "trusted_root toy_git_env ''/repo'' = Inr [''/repo'']"
    by (simp add: trusted_root_def toy_git_env_def)
  obtain s where scan: "git_scan sha toy_git_env git (path_string [''/repo'']) False = Inr s"
    using toy_scan_any [of sha git "path_string [''/repo'']"]
    by (cases "git_scan sha toy_git_env git (path_string [''/repo'']) False") auto
  have later: "gv_later toy_git_env = toy_git_child"
    by (simp add: toy_git_env_def)
  show ?thesis
    using scan by (simp add: handoff_summary_def root later toy_git_run toy_git_output_def
        bytes_of_def toy_paths(2) bs_extend_def max_paths_def list_all_iff is_ascii_hexdigit_def
        is_ascii_digit_def ascii_code_def Let_def)
qed

theorem preview_is_bound_and_redacted_witness:
  "\<exists>artifact. build_preview (\<lambda>bs. bs) (\<lambda>_ _. ''x'') (\<lambda>_. Some [1]) toy_git_env toy_mission_view []
       [] WireClaudeCode 100 = Inr artifact
     \<and> ha_objective artifact = ''x''
     \<and> ha_artifact_sha256 artifact = hex_encode ([1])"
proof -
  have "discover toy_git_env = Inr [''/usr/bin/git'']"
    by (simp add: discover_def git_candidates_def toy_git_env_def)
  then obtain artifact where run: "build_preview (\<lambda>bs. bs) (\<lambda>_ _. ''x'') (\<lambda>_. Some [1]) toy_git_env
      toy_mission_view [] [] WireClaudeCode 100 = Inr artifact"
    using toy_summary [of "\<lambda>bs. bs" "[''/usr/bin/git'']"]
    by (auto simp: build_preview_def toy_mission_view_def may_hand_off_def toy_run_view_def Let_def)
  moreover have "redact_text (\<lambda>_ _. ''x'') s = ''x''" for s
    by (simp add: redact_text_def redaction_rules_def)
  ultimately show ?thesis
    using preview_is_bound_and_redacted [OF run] by auto
qed

end
