(* ===== verification/Claims.thy ===== *)
theory Claims
  imports Digest Rust_Text
begin

text \<open>
  \<open>src/mission/claims.rs\<close>: leases on worktrees. Each process keeps a registry of its leases; an
  advisory file lock per worktree excludes other processes. A canonical path is the list of its
  components, whose lexicographic order is the order of \<open>PathBuf\<close>. The file system, Git
  metadata and the random generator are the record \<open>claim_env\<close>, an argument of the operations
  that use them; the locks of all processes are part of the state \<open>claim_world\<close>.
\<close>

section \<open>Data\<close>

definition path_bytes :: "path \<Rightarrow> u8 list" where
  "path_bytes p = bytes_of (path_string p)"

datatype worktree_key = WorktreeKey (key_common_dir: path) (key_checkout_root: path)

instantiation worktree_key :: linorder
begin

definition less_eq_worktree_key :: "worktree_key \<Rightarrow> worktree_key \<Rightarrow> bool" where
  "less_eq_worktree_key a b \<longleftrightarrow> key_common_dir a < key_common_dir b
     \<or> key_common_dir a = key_common_dir b \<and> key_checkout_root a \<le> key_checkout_root b"

definition less_worktree_key :: "worktree_key \<Rightarrow> worktree_key \<Rightarrow> bool" where
  "less_worktree_key a b \<longleftrightarrow> key_common_dir a < key_common_dir b
     \<or> key_common_dir a = key_common_dir b \<and> key_checkout_root a < key_checkout_root b"

instance
  by standard
     (auto simp: less_eq_worktree_key_def less_worktree_key_def worktree_key.expand)

end

datatype claim_error =
    ClaimIo | EmptyOwner | InvalidRequestId | RegistryPoisoned | AlreadyOwned string string
  | OwnedByAnotherProcess | NonceUnavailable | StaleLease | RepositoryUnavailable
  | CheckoutUnavailable | RepositoryNotGit | CheckoutNotGit | RepositoryMustBeRoot
  | CheckoutMustBeRoot | DifferentRepository | SymlinkNotAllowed | LockPathNotRegular

record lease_owner =
  lo_mission_id :: string
  lo_mission_run_id :: string

definition lease_owner_new :: "string \<Rightarrow> string \<Rightarrow> claim_error + lease_owner" where
  "lease_owner_new mission_id mission_run_id =
     (if is_blank mission_id \<or> is_blank mission_run_id then Inl EmptyOwner
      else Inr \<lparr>lo_mission_id = mission_id, lo_mission_run_id = mission_run_id\<rparr>)"

datatype claim_request_id = ClaimRequestId string

definition claim_request_id_new :: "string \<Rightarrow> claim_error + claim_request_id" where
  "claim_request_id_new v =
     (if is_blank v \<or> length v > 128 then Inl InvalidRequestId else Inr (ClaimRequestId v))"

record worktree_lease =
  wl_key :: worktree_key
  wl_owner :: lease_owner
  wl_request_id :: claim_request_id
  wl_nonce :: "u8 list"

definition matches_scope :: "worktree_lease \<Rightarrow> string \<Rightarrow> string \<Rightarrow> path \<Rightarrow> bool" where
  "matches_scope lease mission_id mission_run_id checkout_root \<longleftrightarrow>
     lo_mission_id (wl_owner lease) = mission_id
     \<and> lo_mission_run_id (wl_owner lease) = mission_run_id
     \<and> key_checkout_root (wl_key lease) = checkout_root"

definition lease_authority_digest :: "sha256 \<Rightarrow> worktree_lease \<Rightarrow> string" where
  "lease_authority_digest sha lease =
     hex_encode (sha (bytes_of ''mission-worktree-lease-authority-v1'' @ [0]
       @ path_bytes (key_common_dir (wl_key lease)) @ [0]
       @ path_bytes (key_checkout_root (wl_key lease)) @ [0]
       @ bytes_of (lo_mission_id (wl_owner lease)) @ [0]
       @ bytes_of (lo_mission_run_id (wl_owner lease)) @ [0] @ wl_nonce lease))"

definition lock_filename :: "sha256 \<Rightarrow> worktree_key \<Rightarrow> string" where
  "lock_filename sha key =
     hex_encode (sha (bytes_of ''mission-worktree-lock-v1'' @ [0]
       @ path_bytes (key_common_dir key) @ [0] @ path_bytes (key_checkout_root key))) @ ''.lock''"

section \<open>The environment\<close>

text \<open>
  \<open>canonicalize\<close>, \<open>git_worktree_info\<close> (root and common Git directory), the checks
  \<open>open_private_lock_file\<close> makes of the lock file, \<open>getrandom::fill\<close> and the state of the mutex.
\<close>

record claim_env =
  en_canonicalize :: "string \<Rightarrow> path option"
  en_git_worktree_info :: "path \<Rightarrow> (string \<times> string) option"
  en_lock_file_error :: "string \<Rightarrow> claim_error option"
  en_nonce :: "u8 list option"
  en_poisoned :: bool

type_synonym registry = "(worktree_key, worktree_lease) bmap"

record claim_world =
  cw_registry :: "nat \<Rightarrow> registry"
  cw_locks :: "string \<Rightarrow> nat option"

definition claim_world_new :: claim_world where
  "claim_world_new = \<lparr>cw_registry = (\<lambda>_. []), cw_locks = (\<lambda>_. None)\<rparr>"

section \<open>Operations\<close>

definition resolve_worktree_key ::
  "claim_env \<Rightarrow> string \<Rightarrow> string \<Rightarrow> claim_error + worktree_key" where
  "resolve_worktree_key env mission_repository requested_checkout =
     rbind (ok_or RepositoryUnavailable (en_canonicalize env mission_repository)) (\<lambda>repository.
     rbind (ok_or CheckoutUnavailable (en_canonicalize env requested_checkout)) (\<lambda>checkout.
     rbind (ok_or RepositoryNotGit (en_git_worktree_info env repository)) (\<lambda>repository_info.
     rbind (ok_or CheckoutNotGit (en_git_worktree_info env checkout)) (\<lambda>checkout_info.
     rbind (ok_or RepositoryUnavailable (en_canonicalize env (fst repository_info)))
       (\<lambda>repository_root.
     rbind (ok_or CheckoutUnavailable (en_canonicalize env (fst checkout_info)))
       (\<lambda>checkout_root.
     rbind (ok_or RepositoryUnavailable (en_canonicalize env (snd repository_info)))
       (\<lambda>repository_common_dir.
     rbind (ok_or CheckoutUnavailable (en_canonicalize env (snd checkout_info)))
       (\<lambda>checkout_common_dir.
     if repository \<noteq> repository_root then Inl RepositoryMustBeRoot
     else if checkout \<noteq> checkout_root then Inl CheckoutMustBeRoot
     else if repository_common_dir \<noteq> checkout_common_dir then Inl DifferentRepository
     else Inr (WorktreeKey repository_common_dir checkout_root)))))))))"

definition claim ::
  "sha256 \<Rightarrow> claim_env \<Rightarrow> nat \<Rightarrow> lease_owner \<Rightarrow> string \<Rightarrow> string \<Rightarrow> claim_request_id \<Rightarrow> claim_world
     \<Rightarrow> claim_world \<times> (claim_error + worktree_lease)" where
  "claim sha env pid owner mission_repository requested_checkout request_id w =
     (case resolve_worktree_key env mission_repository requested_checkout of
        Inl e \<Rightarrow> (w, Inl e)
      | Inr key \<Rightarrow>
          if en_poisoned env then (w, Inl RegistryPoisoned)
          else case bm_get (cw_registry w pid) key of
            Some existing \<Rightarrow>
              (if wl_owner existing = owner \<and> wl_request_id existing = request_id
               then (w, Inr existing)
               else (w, Inl (AlreadyOwned (lo_mission_id (wl_owner existing))
                       (lo_mission_run_id (wl_owner existing)))))
          | None \<Rightarrow>
              let file = lock_filename sha key
              in case en_lock_file_error env file of
                   Some e \<Rightarrow> (w, Inl e)
                 | None \<Rightarrow>
                     if cw_locks w file \<noteq> None then (w, Inl OwnedByAnotherProcess)
                     else case en_nonce env of
                       None \<Rightarrow> (w, Inl NonceUnavailable)
                     | Some nonce \<Rightarrow>
                         let lease = \<lparr>wl_key = key, wl_owner = owner,
                                      wl_request_id = request_id, wl_nonce = nonce\<rparr>
                         in (w\<lparr>cw_registry := (cw_registry w)
                                 (pid := bm_insert key lease (cw_registry w pid)),
                               cw_locks := (cw_locks w)(file := Some pid)\<rparr>, Inr lease))"

datatype release_outcome = LeaseReleased | AlreadyReleased

text \<open>Removing a record drops its lock file handle, which releases the advisory lock.\<close>

definition release ::
  "sha256 \<Rightarrow> claim_env \<Rightarrow> nat \<Rightarrow> worktree_lease \<Rightarrow> claim_world
     \<Rightarrow> claim_world \<times> (claim_error + release_outcome)" where
  "release sha env pid lease w =
     (if en_poisoned env then (w, Inl RegistryPoisoned)
      else case bm_get (cw_registry w pid) (wl_key lease) of
        Some current \<Rightarrow>
          (if current = lease
           then (w\<lparr>cw_registry := (cw_registry w)
                     (pid := bm_remove (wl_key lease) (cw_registry w pid)),
                   cw_locks := (cw_locks w)(lock_filename sha (wl_key lease) := None)\<rparr>,
                 Inr LeaseReleased)
           else (w, Inl StaleLease))
      | None \<Rightarrow> (w, Inr AlreadyReleased))"

definition is_current :: "claim_env \<Rightarrow> nat \<Rightarrow> worktree_lease \<Rightarrow> claim_world \<Rightarrow> claim_error + bool" where
  "is_current env pid lease w =
     (if en_poisoned env then Inl RegistryPoisoned
      else Inr (bm_get (cw_registry w pid) (wl_key lease) = Some lease))"

definition has_current_authority_digest ::
  "sha256 \<Rightarrow> claim_env \<Rightarrow> nat \<Rightarrow> string \<Rightarrow> claim_world \<Rightarrow> claim_error + bool" where
  "has_current_authority_digest sha env pid digest w =
     (if en_poisoned env then Inl RegistryPoisoned
      else Inr (list_ex (\<lambda>lease. lease_authority_digest sha lease = digest)
                  (bm_values (cw_registry w pid))))"

definition lease_owner_of ::
  "claim_env \<Rightarrow> nat \<Rightarrow> string \<Rightarrow> claim_world \<Rightarrow> lease_owner option" where
  "lease_owner_of env pid checkout_root w =
     (case en_canonicalize env checkout_root of
        None \<Rightarrow> None
      | Some root \<Rightarrow>
          if en_poisoned env then None
          else map_option wl_owner
                 (List.find (\<lambda>lease. key_checkout_root (wl_key lease) = root)
                    (bm_values (cw_registry w pid))))"

section \<open>Processes sharing the worktrees\<close>

text \<open>The end of a process closes its lock files; nothing else in the world changes.\<close>

definition process_exit :: "nat \<Rightarrow> claim_world \<Rightarrow> claim_world" where
  "process_exit pid w =
     w\<lparr>cw_registry := (cw_registry w)(pid := []),
       cw_locks := (\<lambda>f. if cw_locks w f = Some pid then None else cw_locks w f)\<rparr>"

datatype world_op =
    WClaim claim_env nat lease_owner string string claim_request_id
  | WRelease claim_env nat worktree_lease
  | WExit nat

fun world_step :: "sha256 \<Rightarrow> world_op \<Rightarrow> claim_world \<Rightarrow> claim_world" where
  "world_step sha (WClaim env pid owner repo checkout req) w =
     fst (claim sha env pid owner repo checkout req w)"
| "world_step sha (WRelease env pid lease) w = fst (release sha env pid lease w)"
| "world_step sha (WExit pid) w = process_exit pid w"

definition world_run :: "sha256 \<Rightarrow> world_op list \<Rightarrow> claim_world" where
  "world_run sha ops = fold (world_step sha) ops claim_world_new"

text \<open>
  Every lease is filed under its own key and backed by the lock of its process, two leases of one
  process never share a lock file, and every held lock backs a lease.
\<close>

definition holds :: "claim_world \<Rightarrow> nat \<Rightarrow> worktree_key \<Rightarrow> worktree_lease \<Rightarrow> bool" where
  "holds w pid key lease \<longleftrightarrow> bm_get (cw_registry w pid) key = Some lease"

definition leases_backed :: "sha256 \<Rightarrow> claim_world \<Rightarrow> bool" where
  "leases_backed sha w \<longleftrightarrow> (\<forall>pid key lease. holds w pid key lease \<longrightarrow>
     wl_key lease = key \<and> cw_locks w (lock_filename sha key) = Some pid)"

definition locks_distinct :: "sha256 \<Rightarrow> claim_world \<Rightarrow> bool" where
  "locks_distinct sha w \<longleftrightarrow> (\<forall>pid key key' l l'. holds w pid key l \<longrightarrow> holds w pid key' l' \<longrightarrow>
     lock_filename sha key = lock_filename sha key' \<longrightarrow> key = key')"

definition locks_used :: "sha256 \<Rightarrow> claim_world \<Rightarrow> bool" where
  "locks_used sha w \<longleftrightarrow> (\<forall>f pid. cw_locks w f = Some pid \<longrightarrow>
     (\<exists>key lease. f = lock_filename sha key \<and> holds w pid key lease))"

definition world_ok :: "sha256 \<Rightarrow> claim_world \<Rightarrow> bool" where
  "world_ok sha w \<longleftrightarrow> (\<forall>pid. bm_ok (cw_registry w pid))
     \<and> leases_backed sha w \<and> locks_distinct sha w \<and> locks_used sha w"

lemmas world_ok_defs = world_ok_def leases_backed_def locks_distinct_def locks_used_def

lemma world_new_ok: "world_ok sha claim_world_new"
  by (simp add: world_ok_defs claim_world_new_def holds_def)

definition world_put ::
  "sha256 \<Rightarrow> nat \<Rightarrow> worktree_lease \<Rightarrow> claim_world \<Rightarrow> claim_world" where
  "world_put sha pid lease w =
     w\<lparr>cw_registry := (cw_registry w)(pid := bm_insert (wl_key lease) lease (cw_registry w pid)),
       cw_locks := (cw_locks w)(lock_filename sha (wl_key lease) := Some pid)\<rparr>"

definition world_del ::
  "sha256 \<Rightarrow> nat \<Rightarrow> worktree_lease \<Rightarrow> claim_world \<Rightarrow> claim_world" where
  "world_del sha pid lease w =
     w\<lparr>cw_registry := (cw_registry w)(pid := bm_remove (wl_key lease) (cw_registry w pid)),
       cw_locks := (cw_locks w)(lock_filename sha (wl_key lease) := None)\<rparr>"

lemma holds_put:
  "holds (world_put sha pid lease w) p k l \<longleftrightarrow>
     (if p = pid \<and> k = wl_key lease then l = lease else holds w p k l)"
  by (auto simp: holds_def world_put_def)

lemma holds_del:
  "holds (world_del sha pid lease w) p k l \<longleftrightarrow> holds w p k l \<and> \<not> (p = pid \<and> k = wl_key lease)"
  by (auto simp: holds_def world_del_def)

lemma locks_put:
  "cw_locks (world_put sha pid lease w)
     = (cw_locks w)(lock_filename sha (wl_key lease) := Some pid)"
  "cw_locks (world_del sha pid lease w) = (cw_locks w)(lock_filename sha (wl_key lease) := None)"
  by (simp_all add: world_put_def world_del_def)

lemma bm_ok_put:
  "\<forall>p. bm_ok (cw_registry w p) \<Longrightarrow> bm_ok (cw_registry (world_put sha pid lease w) p)"
  "\<forall>p. bm_ok (cw_registry w p) \<Longrightarrow> bm_ok (cw_registry (world_del sha pid lease w) p)"
  by (simp_all add: world_put_def world_del_def)

lemma world_put_ok:
  assumes ok: "world_ok sha w" and free: "cw_locks w (lock_filename sha (wl_key lease)) = None"
  shows "world_ok sha (world_put sha pid lease w)"
proof -
  let ?w = "world_put sha pid lease w"
  have other: "lock_filename sha k \<noteq> lock_filename sha (wl_key lease)" if "holds w p k l" for p k l
    using ok that free unfolding world_ok_def leases_backed_def by (metis option.distinct(1))
  have "leases_backed sha ?w"
    using ok other unfolding leases_backed_def world_ok_def holds_put locks_put by auto
  moreover have "locks_distinct sha ?w"
    using ok other unfolding locks_distinct_def world_ok_def holds_put by metis
  moreover have "locks_used sha ?w"
    unfolding locks_used_def
  proof (intro allI impI)
    fix f p
    assume lock: "cw_locks ?w f = Some p"
    show "\<exists>key l. f = lock_filename sha key \<and> holds ?w p key l"
    proof (cases "f = lock_filename sha (wl_key lease)")
      case True
      then show ?thesis using lock by (auto simp: locks_put holds_put)
    next
      case False
      then obtain key l where "f = lock_filename sha key" "holds w p key l"
        using lock ok unfolding world_ok_def locks_used_def locks_put by fastforce
      then show ?thesis
        using False unfolding holds_put by auto
    qed
  qed
  ultimately show ?thesis
    using ok bm_ok_put unfolding world_ok_def by blast
qed

lemma world_del_ok:
  assumes ok: "world_ok sha w" and held: "holds w pid (wl_key lease) lease"
  shows "world_ok sha (world_del sha pid lease w)"
proof -
  let ?w = "world_del sha pid lease w"
  have other: "lock_filename sha k \<noteq> lock_filename sha (wl_key lease)"
    if "holds w p k l" "\<not> (p = pid \<and> k = wl_key lease)" for p k l
    using ok that held unfolding world_ok_def leases_backed_def locks_distinct_def
    by (metis option.inject)
  have "leases_backed sha ?w"
    using ok other unfolding leases_backed_def world_ok_def holds_del locks_put by auto
  moreover have "locks_distinct sha ?w"
    using ok unfolding locks_distinct_def world_ok_def holds_del by metis
  moreover have "locks_used sha ?w"
    unfolding locks_used_def
  proof (intro allI impI)
    fix f p
    assume "cw_locks ?w f = Some p"
    then have "f \<noteq> lock_filename sha (wl_key lease)" "cw_locks w f = Some p"
      by (auto simp: locks_put split: if_splits)
    moreover from this obtain key l where "f = lock_filename sha key" "holds w p key l"
      using ok unfolding world_ok_def locks_used_def by blast
    ultimately show "\<exists>key l. f = lock_filename sha key \<and> holds ?w p key l"
      unfolding holds_del by blast
  qed
  ultimately show ?thesis
    using ok bm_ok_put unfolding world_ok_def by blast
qed

lemma claim_cases:
  assumes "claim sha env pid owner repo checkout req w = (w', r)" and "w' \<noteq> w"
  obtains lease where "resolve_worktree_key env repo checkout = Inr (wl_key lease)"
    and "bm_get (cw_registry w pid) (wl_key lease) = None"
    and "cw_locks w (lock_filename sha (wl_key lease)) = None"
    and "wl_owner lease = owner" and "wl_request_id lease = req"
    and "r = Inr lease" and "w' = world_put sha pid lease w"
proof -
  obtain key nonce where new: "resolve_worktree_key env repo checkout = Inr key"
    "bm_get (cw_registry w pid) key = None" "cw_locks w (lock_filename sha key) = None"
    "r = Inr \<lparr>wl_key = key, wl_owner = owner, wl_request_id = req, wl_nonce = nonce\<rparr>"
    "w' = world_put sha pid
       \<lparr>wl_key = key, wl_owner = owner, wl_request_id = req, wl_nonce = nonce\<rparr> w"
    using assms
    by (auto simp: claim_def Let_def world_put_def split: sum.splits if_splits option.splits)
  then show ?thesis
    using that [of "\<lparr>wl_key = key, wl_owner = owner, wl_request_id = req, wl_nonce = nonce\<rparr>"]
    by simp
qed

lemma claim_world_ok:
  assumes "world_ok sha w"
  shows "world_ok sha (fst (claim sha env pid owner repo checkout req w))"
proof -
  obtain w' r where run: "claim sha env pid owner repo checkout req w = (w', r)"
    by fastforce
  then show ?thesis
  proof (cases "w' = w")
    case False
    then show ?thesis
      using claim_cases [OF run False] world_put_ok [OF assms] run by (metis fst_conv)
  qed (use assms in simp)
qed

lemma release_world_ok:
  "world_ok sha w \<Longrightarrow> world_ok sha (fst (release sha env pid lease w))"
  using world_del_ok [of sha w pid lease]
  by (auto simp: release_def world_del_def holds_def split: option.splits)

lemma process_exit_ok:
  assumes "world_ok sha w"
  shows "world_ok sha (process_exit pid w)"
proof -
  have held: "holds (process_exit pid w) p k l \<longleftrightarrow> p \<noteq> pid \<and> holds w p k l" for p k l
    by (simp add: holds_def process_exit_def)
  have locks: "cw_locks (process_exit pid w) f = Some p \<longleftrightarrow> p \<noteq> pid \<and> cw_locks w f = Some p" for f p
    by (auto simp: process_exit_def)
  have "\<forall>p. bm_ok (cw_registry (process_exit pid w) p)"
    using assms by (simp add: world_ok_def process_exit_def)
  moreover have "leases_backed sha (process_exit pid w)"
    using assms unfolding world_ok_def leases_backed_def held locks by blast
  moreover have "locks_distinct sha (process_exit pid w)"
    using assms unfolding world_ok_def locks_distinct_def held by blast
  moreover have "locks_used sha (process_exit pid w)"
    using assms unfolding world_ok_def locks_used_def held locks by blast
  ultimately show ?thesis
    by (simp add: world_ok_def)
qed

lemma world_step_ok: "world_ok sha w \<Longrightarrow> world_ok sha (world_step sha oper w)"
  by (cases oper) (simp_all add: claim_world_ok release_world_ok process_exit_ok)

interpretation worktrees: step_machine
  "\<lambda>oper w. Inr (world_step sha oper w) :: unit + claim_world" "world_ok sha"
  for sha
  by unfold_locales (auto intro: world_step_ok)

lemma reachable_world_ok: "world_ok sha (world_run sha ops)"
  using worktrees.run_keeps [OF world_new_ok] by (simp add: world_run_def run_all_total)

section \<open>Properties\<close>

text \<open>
  C4: mutual exclusion: however claims, releases and process exits interleave, at any moment a
  worktree is leased to at most one process and under one lease, and that lease is filed under
  its own key.
\<close>

theorem worktree_mutual_exclusion:
  assumes "bm_get (cw_registry (world_run sha ops) p) key = Some l"
    and "bm_get (cw_registry (world_run sha ops) q) key = Some l'"
  shows "p = q \<and> l = l' \<and> wl_key l = key"
proof -
  have "cw_locks (world_run sha ops) (lock_filename sha key) = Some p" "wl_key l = key"
    "cw_locks (world_run sha ops) (lock_filename sha key) = Some q"
    using assms reachable_world_ok [of sha ops]
    unfolding world_ok_def leases_backed_def holds_def by blast+
  then show ?thesis using assms by simp
qed

definition sample_env :: claim_env where
  "sample_env = \<lparr>en_canonicalize = (\<lambda>p. Some [p]),
     en_git_worktree_info = (\<lambda>p. Some (concat p, ''git'')), en_lock_file_error = (\<lambda>_. None),
     en_nonce = Some (replicate 16 7), en_poisoned = False\<rparr>"

definition sample_owner :: lease_owner where
  "sample_owner = \<lparr>lo_mission_id = ''m'', lo_mission_run_id = ''r''\<rparr>"

definition sample_lease :: worktree_lease where
  "sample_lease = \<lparr>wl_key = WorktreeKey [''git''] [''tree''], wl_owner = sample_owner,
     wl_request_id = ClaimRequestId ''q'', wl_nonce = replicate 16 7\<rparr>"

lemma sample_resolve:
  "resolve_worktree_key sample_env ''repo'' ''tree'' = Inr (WorktreeKey [''git''] [''tree''])"
  by (simp add: resolve_worktree_key_def sample_env_def)

lemma sample_claim:
  "claim sha sample_env 2 sample_owner ''repo'' ''tree'' (ClaimRequestId ''q'') claim_world_new
     = (world_put sha 2 sample_lease claim_world_new, Inr sample_lease)"
  by (simp add: claim_def sample_resolve Let_def)
     (simp add: claim_world_new_def sample_env_def sample_lease_def world_put_def Let_def)

theorem worktree_mutual_exclusion_witness:
  "let w = world_run (\<lambda>bs. bs)
         [WClaim sample_env 2 sample_owner ''repo'' ''tree'' (ClaimRequestId ''q'')]
   in bm_get (cw_registry w 2) (WorktreeKey [''git''] [''tree'']) = Some sample_lease
      \<and> wl_key sample_lease = WorktreeKey [''git''] [''tree'']"
proof -
  let ?w = "world_run (\<lambda>bs. bs)
         [WClaim sample_env 2 sample_owner ''repo'' ''tree'' (ClaimRequestId ''q'')]"
  have held: "bm_get (cw_registry ?w 2) (WorktreeKey [''git''] [''tree'']) = Some sample_lease"
    by (simp add: world_run_def sample_claim)
       (simp add: world_put_def sample_lease_def)
  then show ?thesis
    using worktree_mutual_exclusion [OF held held] by simp
qed

text \<open>
  A claim can be retried: repeating a successful claim with the same owner and request returns
  the same lease and changes nothing.
\<close>

theorem claim_retry_returns_same_lease:
  assumes "claim sha env pid owner repo checkout req w = (w', Inr lease)"
  shows "claim sha env pid owner repo checkout req w' = (w', Inr lease)"
proof (cases "w' = w")
  case True
  then show ?thesis using assms by simp
next
  case False
  obtain key where key: "resolve_worktree_key env repo checkout = Inr key"
    and alive: "\<not> en_poisoned env"
    using assms by (auto simp: claim_def split: sum.splits if_splits)
  have "wl_key lease = key" "wl_owner lease = owner" "wl_request_id lease = req"
    "w' = world_put sha pid lease w"
    using claim_cases [OF assms False] key by auto
  then have "bm_get (cw_registry w' pid) key = Some lease"
    by (auto simp: world_put_def)
  then show ?thesis
    using key alive \<open>wl_owner lease = owner\<close> \<open>wl_request_id lease = req\<close> by (simp add: claim_def)
qed

theorem claim_retry_returns_same_lease_witness:
  "claim (\<lambda>bs. bs) sample_env 2 sample_owner ''repo'' ''tree'' (ClaimRequestId ''q'')
      (world_put (\<lambda>bs. bs) 2 sample_lease claim_world_new)
    = (world_put (\<lambda>bs. bs) 2 sample_lease claim_world_new, Inr sample_lease)"
  by (rule claim_retry_returns_same_lease [OF sample_claim])

text \<open>
  Releasing undoes a claim: when a claim took a new lease in a reachable world, releasing it
  restores exactly the world before the claim, registry and file locks included.
\<close>

theorem release_undoes_claim:
  assumes "claim sha env pid owner repo checkout req (world_run sha ops) = (w', Inr lease)"
    and "w' \<noteq> world_run sha ops"
  shows "release sha env pid lease w' = (world_run sha ops, Inr LeaseReleased)"
proof -
  let ?w = "world_run sha ops"
  have free: "bm_get (cw_registry ?w pid) (wl_key lease) = None"
      "cw_locks ?w (lock_filename sha (wl_key lease)) = None"
    and w': "w' = world_put sha pid lease ?w" and alive: "\<not> en_poisoned env"
    using claim_cases [OF assms] assms(1)
    by (auto simp: claim_def split: sum.splits if_splits)
  have "bm_remove (wl_key lease) (bm_insert (wl_key lease) lease (cw_registry ?w pid))
      = cw_registry ?w pid"
    using free(1) reachable_world_ok [of sha ops] by (simp add: world_ok_def btree.del_undoes_put)
  then have "world_del sha pid lease w' = ?w"
    using free(2) by (simp add: w' world_put_def world_del_def fun_upd_idem)
  moreover have "bm_get (cw_registry w' pid) (wl_key lease) = Some lease"
    by (simp add: w' world_put_def)
  ultimately show ?thesis
    using alive by (simp add: release_def world_del_def)
qed

theorem release_undoes_claim_witness:
  "release (\<lambda>bs. bs) sample_env 2 sample_lease
      (world_put (\<lambda>bs. bs) 2 sample_lease claim_world_new) = (claim_world_new, Inr LeaseReleased)"
proof -
  have new: "claim (\<lambda>bs. bs) sample_env 2 sample_owner ''repo'' ''tree'' (ClaimRequestId ''q'')
      (world_run (\<lambda>bs. bs) []) = (world_put (\<lambda>bs. bs) 2 sample_lease claim_world_new, Inr sample_lease)"
    by (simp add: world_run_def sample_claim)
  have "cw_registry (world_put (\<lambda>bs. bs) 2 sample_lease claim_world_new) 2
      \<noteq> cw_registry claim_world_new 2"
    by (simp add: world_put_def claim_world_new_def)
  then have "world_put (\<lambda>bs. bs) 2 sample_lease claim_world_new \<noteq> world_run (\<lambda>bs. bs) []"
    by (auto simp: world_run_def)
  then show ?thesis
    using release_undoes_claim [OF new] by (simp add: world_run_def)
qed

end
