(* ===== verification/Runtime.thy ===== *)
theory Runtime
  imports Store_Open Claims Evidence_Pack Handoff
begin

text \<open>
  \<open>src/mission/runtime.rs\<close>: the authority a server process holds over the durable journal. It owns
  the writer (or watches it, or is handing it over), keeps the worktree leases of its process and
  the evidence packs, and turns requests into journal events. The state is the runtime with the
  world it shares with other processes: the disk of the journal, the leases of all processes and
  the pack directory.
\<close>

section \<open>Fallible state passing\<close>

type_synonym ('s, 'e, 'a) fallible = "'s \<Rightarrow> 's \<times> ('e + 'a)"

definition sbind ::
  "('s, 'e, 'a) fallible \<Rightarrow> ('a \<Rightarrow> ('s, 'e, 'b) fallible) \<Rightarrow> ('s, 'e, 'b) fallible" where
  "sbind m f s = (case m s of (s', Inl e) \<Rightarrow> (s', Inl e) | (s', Inr a) \<Rightarrow> f a s')"

definition slift :: "('s \<Rightarrow> 'e + 'a) \<Rightarrow> ('s, 'e, 'a) fallible" where
  "slift f s = (s, f s)"

definition sreturn :: "'a \<Rightarrow> ('s, 'e, 'a) fallible" where
  "sreturn a s = (s, Inr a)"

definition sfail :: "'e \<Rightarrow> ('s, 'e, 'a) fallible" where
  "sfail e s = (s, Inl e)"

fun seach :: "('b \<Rightarrow> ('s, 'e, 'a) fallible) \<Rightarrow> 'b list \<Rightarrow> ('s, 'e, unit) fallible" where
  "seach f [] = sreturn ()"
| "seach f (x # xs) = sbind (f x) (\<lambda>_. seach f xs)"

definition guard :: "bool \<Rightarrow> 'e \<Rightarrow> 'e + unit" where
  "guard c e = (if c then Inr () else Inl e)"

lemma sbind_Inr_iff:
  "sbind m f s = (t, Inr b) \<longleftrightarrow> (\<exists>s' a. m s = (s', Inr a) \<and> f a s' = (t, Inr b))"
  by (auto simp: sbind_def split: prod.splits sum.splits)

lemma slift_iff: "slift f s = (t, r) \<longleftrightarrow> t = s \<and> f s = r"
  by (auto simp: slift_def)

lemma sreturn_iff: "sreturn a s = (t, r) \<longleftrightarrow> t = s \<and> r = Inr a"
  by (auto simp: sreturn_def)

lemma sfail_iff: "sfail e s = (t, r) \<longleftrightarrow> t = s \<and> r = Inl e"
  by (auto simp: sfail_def)

lemma guard_iff: "guard c e = Inr u \<longleftrightarrow> c"
  by (simp add: guard_def)

lemmas fallible_iffs = sbind_Inr_iff slift_iff sreturn_iff sfail_iff guard_iff

section \<open>Data\<close>

datatype mission_runtime_error =
    MrFeatureUnavailable | MrStore mission_store_error | MrClaim claim_error
  | MrPack evidence_pack_error | MrProof proof_error | MrHandoff mission_handoff_error
  | FenceMismatch | InvalidOwnership | LeaseNotCurrent | LeaseScopeMismatch | EmptyAuthority
  | EvidenceScopeMismatch | EvidenceNotReviewable | MissionMissing | MissionConflict
  | ClosureConflict | MrInvalidClosurePlan | MrClosureMissing | MrRepositoryUnavailable
  | MrRepositoryNotGit | MrRepositoryMustBeRoot | MrRunAlreadyStarted | RevisionUnavailable
  | RecoveryNotSafe | ProofUnavailable | ProofBindingMismatch

text \<open>
  A prepared store still holds the writer and its state; a released store and a reader only know a
  fence.
\<close>

datatype ownership =
    Owned mission_store | Prepared mission_store handoff_fence | Released handoff_fence
  | Observing handoff_fence | Disabled | Vacant

record mission_runtime =
  ru_ownership :: ownership
  ru_claims :: bool
  ru_evidence_packs :: bool

record runtime_world =
  wo_disk :: store_disk
  wo_claims :: claim_world
  wo_packs :: pack_dir

type_synonym runtime_state = "mission_runtime \<times> runtime_world"

type_synonym 'a runtime_op = "(runtime_state, mission_runtime_error, 'a) fallible"

text \<open>The hash, the encodings and the process a runtime lives in.\<close>

record runtime_context =
  ct_sha :: sha256
  ct_codec :: store_codec
  ct_pack_codec :: pack_codec
  ct_pid :: nat

text \<open>
  What the operating system does during one request. The store's input and output may differ for
  every event of the request, and has a field of its own for a handoff; leases may be released in other circumstances than they were claimed.
\<close>

record runtime_env =
  re_claim :: claim_env
  re_release :: claim_env
  re_git :: git_env
  re_io :: "string \<Rightarrow> store_io"
  re_pack_io :: pack_io
  re_handoff_io :: store_io

definition canonicalize :: "runtime_env \<Rightarrow> mission_runtime_error \<Rightarrow> string
    \<Rightarrow> mission_runtime_error + path" where
  "canonicalize env e p = ok_or e (en_canonicalize (re_claim env) p)"

section \<open>Access to the parts\<close>

definition is_available :: "mission_runtime \<Rightarrow> bool" where
  "is_available ru \<longleftrightarrow> ru_ownership ru \<noteq> Disabled"

definition ensure_available :: "mission_runtime \<Rightarrow> mission_runtime_error + unit" where
  "ensure_available ru = guard (is_available ru) MrFeatureUnavailable"

definition claims_of :: "mission_runtime \<Rightarrow> mission_runtime_error + unit" where
  "claims_of ru = guard (ru_claims ru) MrFeatureUnavailable"

definition runtime_disabled :: mission_runtime where
  "runtime_disabled = \<lparr>ru_ownership = Disabled, ru_claims = False, ru_evidence_packs = False\<rparr>"

definition runtime_mission :: "mission_runtime \<Rightarrow> string \<Rightarrow> mission_view option" where
  "runtime_mission ru mission_id =
     (case ru_ownership ru of
        Owned st \<Rightarrow> mission_view_of (ms_projection st) mission_id
      | _ \<Rightarrow> None)"

definition runtime_missions :: "mission_runtime \<Rightarrow> mission_view list" where
  "runtime_missions ru =
     (case ru_ownership ru of Owned st \<Rightarrow> mission_views (ms_projection st) | _ \<Rightarrow> [])"

definition runtime_attention_items :: "mission_runtime \<Rightarrow> durable_attention_view list" where
  "runtime_attention_items ru =
     (case ru_ownership ru of Owned st \<Rightarrow> attention_views (ms_projection st) | _ \<Rightarrow> [])"

definition runtime_unresolved_attention_ids ::
  "mission_runtime \<Rightarrow> string \<Rightarrow> mission_runtime_error + string bset" where
  "runtime_unresolved_attention_ids ru mission_id =
     (case ru_ownership ru of
        Owned st \<Rightarrow> map_err MrStore (unresolved_attention_ids (ms_projection st) mission_id)
      | _ \<Rightarrow> Inl InvalidOwnership)"

definition runtime_next_response_attempt ::
  "mission_runtime \<Rightarrow> string \<Rightarrow> string \<Rightarrow> u64 \<Rightarrow> mission_runtime_error + u32" where
  "runtime_next_response_attempt ru mission_id attention_id request_generation =
     (case ru_ownership ru of
        Owned st \<Rightarrow> map_err MrStore
          (next_response_attempt (ms_projection st) mission_id attention_id request_generation)
      | _ \<Rightarrow> Inl InvalidOwnership)"

text \<open>\<open>self.mission(id).ok_or(MissionMissing)\<close>.\<close>

definition mission_or_missing :: "string \<Rightarrow> mission_view runtime_op" where
  "mission_or_missing mission_id =
     slift (\<lambda>(ru, w). ok_or MissionMissing (runtime_mission ru mission_id))"

definition load_evidence_pack ::
  "runtime_context \<Rightarrow> runtime_env \<Rightarrow> string \<Rightarrow> runtime_state \<Rightarrow> mission_runtime_error + evidence_pack" where
  "load_evidence_pack cx env digest = (\<lambda>(ru, w).
     rbind (guard (ru_evidence_packs ru) MrFeatureUnavailable) (\<lambda>_.
       map_err MrPack
         (load (ct_sha cx) (ct_pack_codec cx) (re_pack_io env) digest (wo_packs w))))"

section \<open>Leases\<close>

definition claim_worktree ::
  "runtime_context \<Rightarrow> runtime_env \<Rightarrow> lease_owner \<Rightarrow> string \<Rightarrow> string \<Rightarrow> claim_request_id
     \<Rightarrow> worktree_lease runtime_op" where
  "claim_worktree cx env owner repository checkout request_id = (\<lambda>(ru, w).
     case claims_of ru of
       Inl e \<Rightarrow> ((ru, w), Inl e)
     | Inr _ \<Rightarrow>
         (case claim (ct_sha cx) (re_claim env) (ct_pid cx) owner repository checkout request_id
                 (wo_claims w) of
            (cw, r) \<Rightarrow> ((ru, w\<lparr>wo_claims := cw\<rparr>), map_err MrClaim r)))"

definition release_worktree ::
  "runtime_context \<Rightarrow> runtime_env \<Rightarrow> worktree_lease \<Rightarrow> release_outcome runtime_op" where
  "release_worktree cx env lease = (\<lambda>(ru, w).
     case claims_of ru of
       Inl e \<Rightarrow> ((ru, w), Inl e)
     | Inr _ \<Rightarrow>
         (case release (ct_sha cx) (re_release env) (ct_pid cx) lease (wo_claims w) of
            (cw, r) \<Rightarrow> ((ru, w\<lparr>wo_claims := cw\<rparr>), map_err MrClaim r)))"

text \<open>\<open>let _ = self.release_worktree(&lease); return Err(error)\<close> when a step fails.\<close>

definition or_release ::
  "runtime_context \<Rightarrow> runtime_env \<Rightarrow> worktree_lease \<Rightarrow> 'a runtime_op \<Rightarrow> 'a runtime_op" where
  "or_release cx env lease m s =
     (case m s of
        (s', Inl e) \<Rightarrow> (fst (release_worktree cx env lease s'), Inl e)
      | (s', Inr a) \<Rightarrow> (s', Inr a))"

definition lease_current ::
  "runtime_context \<Rightarrow> runtime_env \<Rightarrow> worktree_lease \<Rightarrow> runtime_state \<Rightarrow> mission_runtime_error + unit" where
  "lease_current cx env lease = (\<lambda>(ru, w).
     rbind (claims_of ru) (\<lambda>_.
     rbind (map_err MrClaim (is_current (re_claim env) (ct_pid cx) lease (wo_claims w)))
       (\<lambda>current. guard current LeaseNotCurrent)))"

section \<open>Committing\<close>

definition lease_check ::
  "runtime_context \<Rightarrow> runtime_env \<Rightarrow> persistable_mission_event \<Rightarrow> runtime_state
     \<Rightarrow> mission_runtime_error + unit" where
  "lease_check cx env ev = (\<lambda>(ru, w).
     rbind (ensure_available ru) (\<lambda>_.
       case proof_lease_digest ev of
         None \<Rightarrow> Inr ()
       | Some digest \<Rightarrow>
           rbind (claims_of ru) (\<lambda>_.
           rbind (map_err MrClaim (has_current_authority_digest (ct_sha cx) (re_claim env)
                    (ct_pid cx) digest (wo_claims w))) (\<lambda>current.
             guard current LeaseNotCurrent))))"

definition owned_commit ::
  "runtime_context \<Rightarrow> runtime_env \<Rightarrow> string \<Rightarrow> persistable_mission_event \<Rightarrow> commit_outcome runtime_op" where
  "owned_commit cx env event_id ev = (\<lambda>(ru, w).
     case ru_ownership ru of
       Owned st \<Rightarrow>
         (case commit (ct_sha cx) (ct_codec cx) (re_io env event_id) event_id ev st (wo_disk w) of
            (st', disk, r) \<Rightarrow>
              ((ru\<lparr>ru_ownership := Owned st'\<rparr>, w\<lparr>wo_disk := disk\<rparr>), map_err MrStore r))
     | _ \<Rightarrow> ((ru, w), Inl InvalidOwnership))"

definition runtime_commit ::
  "runtime_context \<Rightarrow> runtime_env \<Rightarrow> string \<Rightarrow> persistable_mission_event \<Rightarrow> commit_outcome runtime_op" where
  "runtime_commit cx env event_id ev =
     sbind (slift (lease_check cx env ev)) (\<lambda>_. owned_commit cx env event_id ev)"

text \<open>The ids of the events: a prefix and the digest of what makes the event unique.\<close>

definition event_id_of :: "sha256 \<Rightarrow> string \<Rightarrow> string \<Rightarrow> string list \<Rightarrow> string" where
  "event_id_of sha label domain parts = label @ cd_finish sha (cd_strings parts (cd_new domain))"

section \<open>Creating and configuring missions\<close>

record create_mission_request =
  cq_mission_id :: string
  cq_title :: string
  cq_repository_path :: string
  cq_objective :: string
  cq_acceptance_criteria :: "string list"
  cq_at_millis :: u64

definition repository_root :: "runtime_env \<Rightarrow> string \<Rightarrow> mission_runtime_error + path" where
  "repository_root env p =
     rbind (canonicalize env MrRepositoryUnavailable p) (\<lambda>repository.
     rbind (ok_or MrRepositoryNotGit (en_git_worktree_info (re_claim env) repository)) (\<lambda>info.
     rbind (canonicalize env MrRepositoryUnavailable (fst info)) (\<lambda>root.
       rbind (guard (repository = root) MrRepositoryMustBeRoot) (\<lambda>_. Inr repository))))"

definition create_mission ::
  "runtime_context \<Rightarrow> runtime_env \<Rightarrow> create_mission_request \<Rightarrow> (mission_view \<times> bool) runtime_op" where
  "create_mission cx env q =
     sbind (slift (\<lambda>_. repository_root env (cq_repository_path q))) (\<lambda>repository.
     sbind (slift (\<lambda>(ru, w). Inr (runtime_mission ru (cq_mission_id q)))) (\<lambda>existing.
     case existing of
       Some m \<Rightarrow>
         (if mv_title m = cq_title q \<and> mv_repository_path m = to_string_lossy repository
            \<and> mv_objective m = cq_objective q
            \<and> mv_acceptance_criteria m = cq_acceptance_criteria q
          then sreturn (m, False) else sfail MissionConflict)
     | None \<Rightarrow>
         sbind (slift (\<lambda>_. map_err MrStore (event_mission_created (ct_sha cx) (cq_mission_id q)
                  (cq_title q) (to_string_lossy repository) (cq_objective q)
                  (cq_acceptance_criteria q) (cq_at_millis q)))) (\<lambda>ev.
         sbind (runtime_commit cx env (event_id_of (ct_sha cx) ''mission-create:''
                  ''mission-create-event-id-v1'' [cq_mission_id q]) ev) (\<lambda>_.
         sbind (mission_or_missing (cq_mission_id q)) (\<lambda>m. sreturn (m, True))))))"

definition declaration_set_digest :: "sha256 \<Rightarrow> check_declaration list \<Rightarrow> string" where
  "declaration_set_digest sha declarations =
     (let digests = sort (map (check_digest sha) declarations)
      in cd_finish sha (cd_strings digests (cd_len digests
           (cd_new ''mission-check-declaration-set-v1''))))"

text \<open>The closure plan of a mission as the journal shows it, shared with the finalization.\<close>

definition view_closure_plan ::
  "sha256 \<Rightarrow> mission_view \<Rightarrow> check_declaration list \<Rightarrow> mission_runtime_error + closure_plan" where
  "view_closure_plan sha m declarations =
     rbind (map_err (\<lambda>_. MrInvalidClosurePlan) (mission_definition_new (mv_mission_id m)
       (mv_title m) (mv_repository_path m) (mv_objective m) (mv_acceptance_criteria m)))
       (\<lambda>definition.
       map_err (\<lambda>_. MrInvalidClosurePlan)
         (closure_plan_new sha (acceptance_criterion_ids sha definition) declarations))"

definition configure_mission ::
  "runtime_context \<Rightarrow> runtime_env \<Rightarrow> string \<Rightarrow> check_declaration list \<Rightarrow> u64
     \<Rightarrow> (mission_view \<times> bool) runtime_op" where
  "configure_mission cx env mission_id declarations at_millis =
     sbind (mission_or_missing mission_id) (\<lambda>m.
     let digest = declaration_set_digest (ct_sha cx) declarations
     in if mv_check_declarations m \<noteq> [] then
          (if declaration_set_digest (ct_sha cx) (mv_check_declarations m) = digest
           then sreturn (m, False) else sfail ClosureConflict)
        else
          sbind (slift (\<lambda>_. view_closure_plan (ct_sha cx) m declarations)) (\<lambda>_.
          sbind (slift (\<lambda>_. map_err MrStore
                   (event_closure_configured (ct_sha cx) mission_id declarations at_millis))) (\<lambda>ev.
          sbind (runtime_commit cx env (event_id_of (ct_sha cx) ''closure-config:''
                   ''mission-closure-config-event-id-v1'' [mission_id, digest]) ev) (\<lambda>_.
          sbind (mission_or_missing mission_id) (\<lambda>m'. sreturn (m', True))))))"

end
