(* ===== verification/Runtime_Ops.thy ===== *)
theory Runtime_Ops
  imports Runtime
begin

text \<open>
  \<open>src/mission/runtime.rs\<close>, continued: starting, continuing, recovering and moving runs, the
  finalization of an evidence pack, which is where a mission becomes ready to close or archived,
  and the handoff of the writer between two server processes.
\<close>

section \<open>Runs\<close>

record start_run_request =
  sr_mission_id :: string
  sr_run_id :: string
  sr_provider :: provider_kind
  sr_mode :: provider_mode
  sr_worktree_path :: string
  sr_request_id :: claim_request_id
  sr_execute_declared_checks :: bool
  sr_execute_project_recipe :: bool
  sr_at_millis :: u64

record continue_run_request =
  cn_mission_id :: string
  cn_source_run_id :: string
  cn_run_id :: string
  cn_provider :: provider_kind
  cn_mode :: provider_mode
  cn_request_id :: claim_request_id
  cn_handoff_artifact_sha256 :: string
  cn_at_millis :: u64

definition git_head_revision ::
  "runtime_env \<Rightarrow> path \<Rightarrow> mission_runtime_error + string" where
  "git_head_revision env worktree =
     map_err (\<lambda>_. RevisionUnavailable)
       (rbind (discover (re_git env)) (\<lambda>git. head_revision (re_git env) git (path_string worktree)))"

definition start_run ::
  "runtime_context \<Rightarrow> runtime_env \<Rightarrow> start_run_request \<Rightarrow> (mission_view \<times> worktree_lease) runtime_op" where
  "start_run cx env q =
     sbind (mission_or_missing (sr_mission_id q)) (\<lambda>m.
     sbind (slift (\<lambda>_. guard (mv_status m = Draft \<and> mv_run m = None) MrRunAlreadyStarted)) (\<lambda>_.
     sbind (slift (\<lambda>_. guard (mv_check_declarations m \<noteq> []) MrClosureMissing)) (\<lambda>_.
     sbind (slift (\<lambda>_. canonicalize env MrRepositoryUnavailable (mv_repository_path m)))
       (\<lambda>repository.
     sbind (slift (\<lambda>_. canonicalize env MrRepositoryUnavailable (sr_worktree_path q))) (\<lambda>worktree.
     sbind (slift (\<lambda>_. map_err MrClaim (lease_owner_new (sr_mission_id q) (sr_run_id q)))) (\<lambda>owner.
     sbind (claim_worktree cx env owner (path_string repository) (path_string worktree)
              (sr_request_id q)) (\<lambda>lease.
     sbind (or_release cx env lease
       (sbind (slift (\<lambda>_. git_head_revision env worktree)) (\<lambda>base_revision.
        sbind (slift (\<lambda>_. map_err MrStore (run_started_with_check_execution (ct_sha cx)
                 (sr_mission_id q) (sr_run_id q) (sr_provider q) (sr_mode q)
                 (to_string_lossy worktree) base_revision (sr_execute_declared_checks q)
                 (sr_execute_project_recipe q) (sr_at_millis q)))) (\<lambda>ev.
        runtime_commit cx env (event_id_of (ct_sha cx) ''run-start:''
          ''mission-run-start-event-id-v1'' [sr_mission_id q, sr_run_id q]) ev)))) (\<lambda>_.
     sbind (mission_or_missing (sr_mission_id q)) (\<lambda>m'. sreturn (m', lease))))))))))"

definition continue_run ::
  "runtime_context \<Rightarrow> runtime_env \<Rightarrow> continue_run_request
     \<Rightarrow> (mission_view \<times> worktree_lease) runtime_op" where
  "continue_run cx env q =
     sbind (mission_or_missing (cn_mission_id q)) (\<lambda>m.
     sbind (slift (\<lambda>_. guard (may_hand_off (mv_status m)) (MrHandoff InvalidSourceState))) (\<lambda>_.
     sbind (slift (\<lambda>_. guard (mv_unresolved_attention_count m = 0) (MrHandoff UnresolvedAttention)))
       (\<lambda>_.
     sbind (slift (\<lambda>_. ok_or (MrHandoff SourceRunMissing) (mv_run m))) (\<lambda>source.
     sbind (slift (\<lambda>_. guard (rv_run_id source = cn_source_run_id q)
              (MrStore (SeMission RunMismatch)))) (\<lambda>_.
     sbind (slift (\<lambda>_. guard (rv_provider source \<noteq> cn_provider q) (MrHandoff SameProvider))) (\<lambda>_.
     sbind (slift (\<lambda>_. canonicalize env MrRepositoryUnavailable (mv_repository_path m)))
       (\<lambda>repository.
     sbind (slift (\<lambda>_. canonicalize env MrRepositoryUnavailable (rv_worktree_path source)))
       (\<lambda>worktree.
     sbind (slift (\<lambda>_. map_err MrClaim (lease_owner_new (cn_mission_id q) (cn_run_id q)))) (\<lambda>owner.
     sbind (claim_worktree cx env owner (path_string repository) (path_string worktree)
              (cn_request_id q)) (\<lambda>lease.
     sbind (or_release cx env lease
       (sbind (slift (\<lambda>_. map_err MrStore (event_run_continued (ct_sha cx) (cn_mission_id q)
                 (cn_source_run_id q) (cn_run_id q) (cn_provider q) (cn_mode q)
                 (to_string_lossy worktree) (rv_base_revision source)
                 (rv_execute_declared_checks source) (rv_execute_project_recipe source)
                 (cn_handoff_artifact_sha256 q) (cn_at_millis q)))) (\<lambda>ev.
        runtime_commit cx env (event_id_of (ct_sha cx) ''run-continue:''
          ''mission-run-continue-event-id-v1''
          [cn_mission_id q, cn_source_run_id q, cn_run_id q, cn_handoff_artifact_sha256 q]) ev)))
       (\<lambda>_.
     sbind (mission_or_missing (cn_mission_id q)) (\<lambda>m'. sreturn (m', lease)))))))))))))"

definition recover_managed_run ::
  "runtime_context \<Rightarrow> runtime_env \<Rightarrow> string \<Rightarrow> claim_request_id
     \<Rightarrow> (mission_view \<times> worktree_lease) runtime_op" where
  "recover_managed_run cx env mission_id request_id =
     sbind (mission_or_missing mission_id) (\<lambda>m.
     sbind (slift (\<lambda>_. ok_or RecoveryNotSafe (mv_run m))) (\<lambda>run.
     sbind (slift (\<lambda>_. guard (mv_status m = Active \<and> mv_unresolved_attention_count m = 0
              \<and> rv_mode run = Managed \<and> rv_provider_session_id run \<noteq> None) RecoveryNotSafe)) (\<lambda>_.
     sbind (slift (\<lambda>_. canonicalize env MrRepositoryUnavailable (mv_repository_path m)))
       (\<lambda>repository.
     sbind (slift (\<lambda>_. canonicalize env MrRepositoryUnavailable (rv_worktree_path run)))
       (\<lambda>worktree.
     sbind (slift (\<lambda>_. map_err MrClaim (lease_owner_new mission_id (rv_run_id run)))) (\<lambda>owner.
     sbind (claim_worktree cx env owner (path_string repository) (path_string worktree) request_id)
       (\<lambda>lease. sreturn (m, lease))))))))"

definition bind_provider_session ::
  "runtime_context \<Rightarrow> runtime_env \<Rightarrow> string \<Rightarrow> string \<Rightarrow> string \<Rightarrow> u64 \<Rightarrow> mission_view runtime_op" where
  "bind_provider_session cx env mission_id run_id session at_millis =
     sbind (slift (\<lambda>_. map_err MrStore
              (event_provider_session_bound (ct_sha cx) mission_id run_id session at_millis))) (\<lambda>ev.
     sbind (runtime_commit cx env (event_id_of (ct_sha cx) ''provider-session:''
              ''mission-provider-session-event-id-v1'' [mission_id, run_id, session]) ev) (\<lambda>_.
       mission_or_missing mission_id))"

definition transition_event_id :: "sha256 \<Rightarrow> string \<Rightarrow> mission_status \<Rightarrow> u64 \<Rightarrow> string" where
  "transition_event_id sha mission_id status at_millis =
     ''run-status:'' @ cd_finish sha (cd_u64 at_millis
       (cd_strings [mission_id, status_as_str status] (cd_new ''mission-run-status-event-id-v1'')))"

definition transition_run ::
  "runtime_context \<Rightarrow> runtime_env \<Rightarrow> string \<Rightarrow> mission_status \<Rightarrow> u64 \<Rightarrow> mission_view runtime_op" where
  "transition_run cx env mission_id status at_millis =
     sbind (runtime_commit cx env (transition_event_id (ct_sha cx) mission_id status at_millis)
              (StatusChanged mission_id status at_millis)) (\<lambda>_. mission_or_missing mission_id)"

section \<open>The authority snapshot\<close>

definition scope_check ::
  "runtime_env \<Rightarrow> worktree_lease \<Rightarrow> string \<Rightarrow> string \<Rightarrow> string \<Rightarrow> mission_runtime_error + unit" where
  "scope_check env lease mission_id run_id worktree =
     rbind (canonicalize env LeaseScopeMismatch worktree) (\<lambda>root.
       guard (matches_scope lease mission_id run_id root) LeaseScopeMismatch)"

definition capture_authority ::
  "runtime_context \<Rightarrow> runtime_env \<Rightarrow> worktree_lease \<Rightarrow> proof_identity \<Rightarrow> workspace_snapshot
     \<Rightarrow> (string, evidence_record) bmap \<Rightarrow> string bset \<Rightarrow> u64 \<Rightarrow> runtime_state
     \<Rightarrow> mission_runtime_error + authority_snapshot" where
  "capture_authority cx env lease identity current records unresolved captured_at_millis = (\<lambda>(ru, w).
     case ru_ownership ru of
       Owned st \<Rightarrow>
         rbind (lease_current cx env lease (ru, w)) (\<lambda>_.
         rbind (scope_check env lease (pi_mission_id identity) (pi_run_id identity)
                  (pi_worktree_identity identity)) (\<lambda>_.
         rbind (guard (jh_sequence (ms_journal_head st) \<noteq> 0) EmptyAuthority) (\<lambda>_.
           Inr \<lparr>au_identity_digest = identity_digest (ct_sha cx) identity,
                au_workspace_digest = workspace_digest (ct_sha cx) current,
                au_attention_digest = digest_attention (ct_sha cx) unresolved,
                au_evidence_digest = digest_evidence (ct_sha cx) records,
                au_head_digest = fence_authority_digest (ct_sha cx) (store_fence st),
                au_lease_digest = lease_authority_digest (ct_sha cx) lease,
                au_sequence = of_nat (jh_sequence (ms_journal_head st)),
                au_captured_at_millis = captured_at_millis\<rparr>)))
     | _ \<Rightarrow> Inl InvalidOwnership)"

section \<open>Finalizing an evidence pack\<close>

text \<open>The checks before anything is written: state, scope and lease.\<close>

definition finalize_checks ::
  "runtime_context \<Rightarrow> runtime_env \<Rightarrow> evidence_pack \<Rightarrow> worktree_lease \<Rightarrow> u64 \<Rightarrow> runtime_state
     \<Rightarrow> mission_runtime_error + mission_view \<times> mission_run_view \<times> proof_identity" where
  "finalize_checks cx env pack lease at_millis = (\<lambda>(ru, w).
     rbind (ensure_available ru) (\<lambda>_.
     rbind (ok_or MissionMissing (runtime_mission ru (ep_mission_id pack))) (\<lambda>m.
     rbind (guard (mv_status m \<in> {ReviewRequired, ReadyToClose}) EvidenceNotReviewable) (\<lambda>_.
     rbind (ok_or EvidenceScopeMismatch (mv_run m)) (\<lambda>run.
     rbind (map_err (\<lambda>_. EvidenceScopeMismatch) (proof_identity_new (mv_mission_id m)
              (rv_run_id run) (mv_repository_path m) (rv_worktree_path run) (rv_base_revision run)))
       (\<lambda>identity.
     rbind (guard (ep_run_id pack = rv_run_id run \<and> ep_identity pack = identity
              \<and> ep_created_at_millis pack \<le> at_millis) EvidenceScopeMismatch) (\<lambda>_.
     rbind (lease_current cx env lease (ru, w)) (\<lambda>_.
     rbind (scope_check env lease (mv_mission_id m) (rv_run_id run) (rv_worktree_path run)) (\<lambda>_.
       Inr (m, run, identity))))))))))"

definition persist_pack ::
  "runtime_context \<Rightarrow> runtime_env \<Rightarrow> evidence_pack \<Rightarrow> string runtime_op" where
  "persist_pack cx env pack = (\<lambda>(ru, w).
     if \<not> ru_evidence_packs ru then ((ru, w), Inl MrFeatureUnavailable)
     else case persist (ct_sha cx) (ct_pack_codec cx) (re_pack_io env) (ct_pid cx) pack
                 (wo_packs w) of
            (packs, r) \<Rightarrow> ((ru, w\<lparr>wo_packs := packs\<rparr>), map_err MrPack r))"

definition record_pack ::
  "runtime_context \<Rightarrow> runtime_env \<Rightarrow> string \<Rightarrow> string \<Rightarrow> evidence_pack \<Rightarrow> string \<Rightarrow> u64 \<Rightarrow> unit runtime_op" where
  "record_pack cx env mission_id run_id pack digest at_millis =
     (let workspace_hash = workspace_digest (ct_sha cx) (ep_current_workspace pack)
      in sbind (runtime_commit cx env (event_id_of (ct_sha cx) ''evidence-pack:''
                  ''mission-evidence-pack-event-id-v1'' [mission_id, run_id, digest])
                (EvidencePackRecorded mission_id run_id digest workspace_hash at_millis)) (\<lambda>_.
         seach (\<lambda>(check_id, status). runtime_commit cx env
                  (event_id_of (ct_sha cx) ''evidence-summary:''
                     ''mission-evidence-summary-event-id-v1'' [mission_id, digest, check_id])
                  (EvidenceChanged mission_id check_id status workspace_hash at_millis))
           (ep_summaries pack)))"

definition finalize_report ::
  "runtime_context \<Rightarrow> runtime_env \<Rightarrow> evidence_pack \<Rightarrow> worktree_lease \<Rightarrow> u64 \<Rightarrow> mission_view
     \<Rightarrow> proof_identity \<Rightarrow> runtime_state \<Rightarrow> mission_runtime_error + proof_report" where
  "finalize_report cx env pack lease at_millis m identity = (\<lambda>(ru, w).
     rbind (view_closure_plan (ct_sha cx) m (mv_check_declarations m)) (\<lambda>plan.
     rbind (runtime_unresolved_attention_ids ru (mv_mission_id m)) (\<lambda>unresolved.
     rbind (capture_authority cx env lease identity (ep_current_workspace pack) (ep_records pack)
              unresolved at_millis (ru, w)) (\<lambda>authority.
       map_err MrProof (evaluate (ct_sha cx) identity plan (mv_check_declarations m)
         (ep_records pack) (ep_current_workspace pack) unresolved authority)))))"

definition reason_hash :: "sha256 \<Rightarrow> string \<Rightarrow> string \<Rightarrow> string" where
  "reason_hash sha domain digest = cd_finish sha (cd_string digest (cd_new domain))"

text \<open>The seal of a verified report on a mission that is ready to close, or under review.\<close>

definition seal_archive ::
  "runtime_context \<Rightarrow> runtime_env \<Rightarrow> mission_view \<Rightarrow> verified_proof \<Rightarrow> string \<Rightarrow> u64 \<Rightarrow> unit runtime_op" where
  "seal_archive cx env m verified digest at_millis =
     sbind (slift (\<lambda>_. ok_or ProofUnavailable (mv_ready_receipt m))) (\<lambda>ready.
     if subject_digest (ct_sha cx) verified \<noteq> pr_subject_digest ready
       \<or> vp_authority_sequence verified \<le> pr_authority_sequence ready
       \<or> vp_verified_at_millis verified < pr_verified_at_millis ready
     then sbind (transition_run cx env (mv_mission_id m) MissionBlocked at_millis)
            (\<lambda>_. sfail ProofBindingMismatch)
     else
       sbind (slift (\<lambda>_. map_err MrStore (event_mission_archived (ct_sha cx) (mv_mission_id m)
                \<lparr>arc_mission_id = mv_mission_id m, arc_verified = verified,
                 arc_ready_seal_digest = pr_seal_digest ready\<rparr>
                ''nagi-verifier'' (reason_hash (ct_sha cx) ''mission-archive-reason-v1'' digest)
                at_millis))) (\<lambda>ev.
       sbind (runtime_commit cx env (event_id_of (ct_sha cx) ''mission-archive:''
                ''mission-archive-event-id-v1'' [mv_mission_id m, digest]) ev) (\<lambda>_. sreturn ())))"

definition seal_ready ::
  "runtime_context \<Rightarrow> runtime_env \<Rightarrow> mission_view \<Rightarrow> verified_proof \<Rightarrow> string \<Rightarrow> u64 \<Rightarrow> unit runtime_op" where
  "seal_ready cx env m verified digest at_millis =
     sbind (slift (\<lambda>_. map_err MrStore (event_mission_ready (ct_sha cx) (mv_mission_id m)
              \<lparr>rdy_mission_id = mv_mission_id m, rdy_verified = verified\<rparr>
              ''nagi-verifier'' (reason_hash (ct_sha cx) ''mission-ready-reason-v1'' digest)
              at_millis))) (\<lambda>ev.
     sbind (runtime_commit cx env (event_id_of (ct_sha cx) ''mission-ready:''
              ''mission-ready-event-id-v1'' [mv_mission_id m, digest]) ev) (\<lambda>_. sreturn ()))"

definition settle_report ::
  "runtime_context \<Rightarrow> runtime_env \<Rightarrow> mission_view \<Rightarrow> proof_report \<Rightarrow> string \<Rightarrow> u64 \<Rightarrow> unit runtime_op" where
  "settle_report cx env m report digest at_millis =
     (let archive_requested = (mv_status m = ReadyToClose)
      in case into_verified report of
           Inr verified \<Rightarrow>
             (if archive_requested then seal_archive cx env m verified digest at_millis
              else seal_ready cx env m verified digest at_millis)
         | Inl ReportNotVerified \<Rightarrow>
             (if archive_requested
              then sbind (transition_run cx env (mv_mission_id m) MissionBlocked at_millis)
                     (\<lambda>_. sreturn ())
              else sreturn ())
         | Inl e \<Rightarrow> sfail (MrProof e))"

record finalize_outcome =
  fo_mission :: mission_view
  fo_pack_digest :: string
  fo_verified :: bool

definition finalize_evidence_pack ::
  "runtime_context \<Rightarrow> runtime_env \<Rightarrow> evidence_pack \<Rightarrow> worktree_lease \<Rightarrow> u64
     \<Rightarrow> finalize_outcome runtime_op" where
  "finalize_evidence_pack cx env pack lease at_millis =
     sbind (slift (finalize_checks cx env pack lease at_millis)) (\<lambda>(m, run, identity).
     sbind (persist_pack cx env pack) (\<lambda>digest.
     sbind (record_pack cx env (mv_mission_id m) (rv_run_id run) pack digest at_millis) (\<lambda>_.
     sbind (slift (finalize_report cx env pack lease at_millis m identity)) (\<lambda>report.
     sbind (settle_report cx env m report digest at_millis) (\<lambda>_.
     sbind (mission_or_missing (mv_mission_id m)) (\<lambda>m'.
       sreturn \<lparr>fo_mission = m', fo_pack_digest = digest,
         fo_verified = (if mv_status m = ReadyToClose then mv_status m' = Archived
                        else mv_status m' = ReadyToClose)\<rparr>))))))"

section \<open>The handoff of the writer\<close>

definition with_owner :: "ownership \<Rightarrow> runtime_state \<Rightarrow> runtime_state" where
  "with_owner ow = (\<lambda>(ru, w). (ru\<lparr>ru_ownership := ow\<rparr>, w))"

definition with_disk :: "store_disk \<Rightarrow> runtime_state \<Rightarrow> runtime_state" where
  "with_disk disk = (\<lambda>(ru, w). (ru, w\<lparr>wo_disk := disk\<rparr>))"

definition runtime_prepare_handoff ::
  "runtime_context \<Rightarrow> runtime_env \<Rightarrow> handoff_fence runtime_op" where
  "runtime_prepare_handoff cx env s =
     (case ru_ownership (fst s) of
        Owned st \<Rightarrow>
          (case prepare_handoff (ct_sha cx) (ct_codec cx) (re_handoff_io env) st
                  (wo_disk (snd s)) of
             (disk, Inl e) \<Rightarrow> (with_disk disk s, Inl (MrStore e))
           | (disk, Inr fence) \<Rightarrow> (with_owner (Prepared st fence) (with_disk disk s), Inr fence))
      | Prepared st fence \<Rightarrow> (s, Inr fence)
      | _ \<Rightarrow> (s, Inl InvalidOwnership))"

definition relinquish_handoff :: "unit runtime_op" where
  "relinquish_handoff s =
     (case ru_ownership (fst s) of
        Prepared st fence \<Rightarrow>
          (case relinquish fence (wo_disk (snd s)) of
             (disk, released) \<Rightarrow> (with_owner (Released released) (with_disk disk s), Inr ()))
      | _ \<Rightarrow> (s, Inl InvalidOwnership))"

text \<open>The ownership is taken out first, so a failed opening leaves the runtime vacant.\<close>

definition acquire_handoff ::
  "runtime_context \<Rightarrow> runtime_env \<Rightarrow> handoff_fence \<Rightarrow> unit runtime_op" where
  "acquire_handoff cx env expected s =
     (case ru_ownership (fst s) of
        Observing fence \<Rightarrow>
          (case acquire_writer (ct_sha cx) (ct_codec cx) (re_handoff_io env) expected
                  (wo_disk (snd s)) of
             (disk, Inl e) \<Rightarrow> (with_owner Vacant (with_disk disk s), Inl (MrStore e))
           | (disk, Inr st) \<Rightarrow> (with_owner (Owned st) (with_disk disk s), Inr ()))
      | _ \<Rightarrow> (s, Inl InvalidOwnership))"

definition abort_handoff :: "runtime_context \<Rightarrow> runtime_env \<Rightarrow> unit runtime_op" where
  "abort_handoff cx env s =
     (case ru_ownership (fst s) of
        Owned st \<Rightarrow> (s, Inr ())
      | Prepared st fence \<Rightarrow> (with_owner (Owned st) s, Inr ())
      | Released fence \<Rightarrow>
          (case reacquire (ct_sha cx) (ct_codec cx) (re_handoff_io env) fence
                  (wo_disk (snd s)) of
             (disk, Inl e) \<Rightarrow> (with_owner Vacant (with_disk disk s), Inl (MrStore e))
           | (disk, Inr st) \<Rightarrow> (with_owner (Owned st) (with_disk disk s), Inr ()))
      | _ \<Rightarrow> (s, Inl InvalidOwnership))"

section \<open>Opening and dropping a runtime\<close>

text \<open>The pack directory and the directory of the lease locks may be refused.\<close>

record open_env =
  oe_io :: store_io
  oe_packs :: pack_dir_io
  oe_claims :: "claim_error option"

definition open_owned ::
  "runtime_context \<Rightarrow> open_env \<Rightarrow> runtime_world
     \<Rightarrow> runtime_world \<times> (mission_runtime_error + mission_runtime)" where
  "open_owned cx env w =
     (case store_open (ct_sha cx) (ct_codec cx) (oe_io env) (wo_disk w) of
        (disk, Inl e) \<Rightarrow> (w\<lparr>wo_disk := disk\<rparr>, Inl (MrStore e))
      | (disk, Inr st) \<Rightarrow>
          (case pack_store_open (oe_packs env) of
             Inl e \<Rightarrow> (w\<lparr>wo_disk := store_drop disk\<rparr>, Inl (MrPack e))
           | Inr _ \<Rightarrow>
               (case oe_claims env of
                  Some e \<Rightarrow> (w\<lparr>wo_disk := store_drop disk\<rparr>, Inl (MrClaim e))
                | None \<Rightarrow> (w\<lparr>wo_disk := disk\<rparr>,
                    Inr \<lparr>ru_ownership = Owned st, ru_claims = True, ru_evidence_packs = True\<rparr>))))"

definition observe_handoff ::
  "runtime_context \<Rightarrow> open_env \<Rightarrow> handoff_fence \<Rightarrow> runtime_world
     \<Rightarrow> mission_runtime_error + mission_runtime" where
  "observe_handoff cx env expected w =
     rbind (map_err MrStore
       (reader_open_existing (ct_sha cx) (ct_codec cx) (oe_io env) (wo_disk w))) (\<lambda>fence.
     rbind (guard (fence = expected) FenceMismatch) (\<lambda>_.
     case oe_claims env of
       Some e \<Rightarrow> Inl (MrClaim e)
     | None \<Rightarrow>
         rbind (map_err MrPack (pack_store_open (oe_packs env))) (\<lambda>_.
           Inr \<lparr>ru_ownership = Observing fence, ru_claims = True, ru_evidence_packs = True\<rparr>)))"

text \<open>The end of the process: the store and the lock files of the leases are closed.\<close>

fun holds_writer :: "ownership \<Rightarrow> bool" where
  "holds_writer (Owned _) = True"
| "holds_writer (Prepared _ _) = True"
| "holds_writer _ = False"

definition runtime_exit :: "runtime_context \<Rightarrow> mission_runtime \<Rightarrow> runtime_world \<Rightarrow> runtime_world" where
  "runtime_exit cx ru w =
     w\<lparr>wo_disk := (if holds_writer (ru_ownership ru) then store_drop (wo_disk w) else wo_disk w),
       wo_claims := process_exit (ct_pid cx) (wo_claims w)\<rparr>"

end
