(* ===== verification/Runtime_Frame.thy ===== *)
theory Runtime_Frame
  imports Runtime_Ops Store_Crash_Props "HOL-Library.Sublist"
begin

text \<open>
  Relations between the state before and after a request that every request respects: shown once
  for any relation that the three primitive effects (a commit, a change of the leases, a change of
  the pack directory) respect, and then used for two of them: the role of the runtime and the lock
  of the writer do not change, and the journal only grows while the store in memory stays at its
  end.
\<close>

section \<open>Requests as compositions\<close>

definition keeps :: "('s \<Rightarrow> 's \<Rightarrow> bool) \<Rightarrow> ('s, 'e, 'a) fallible \<Rightarrow> bool" where
  "keeps R m \<longleftrightarrow> (\<forall>s. R s (fst (m s)))"

locale frame =
  fixes R :: "'s \<Rightarrow> 's \<Rightarrow> bool"
  assumes refl: "R s s"
    and trans: "R s t \<Longrightarrow> R t u \<Longrightarrow> R s u"
begin

lemma keeps_slift: "keeps R (slift f)"
  by (simp add: keeps_def slift_def refl)

lemma keeps_sreturn: "keeps R (sreturn a)"
  by (simp add: keeps_def sreturn_def refl)

lemma keeps_sfail: "keeps R (sfail e)"
  by (simp add: keeps_def sfail_def refl)

lemma keeps_sbind: "keeps R m \<Longrightarrow> (\<And>a. keeps R (f a)) \<Longrightarrow> keeps R (sbind m f)"
  unfolding keeps_def sbind_def
  by (auto split: prod.splits sum.splits) (metis fst_conv trans)+

lemma keeps_seach: "(\<And>x. keeps R (f x)) \<Longrightarrow> keeps R (seach f xs)"
  by (induction xs) (auto intro: keeps_sbind keeps_sreturn)

lemmas keeps_rules = keeps_sbind keeps_seach keeps_slift keeps_sreturn keeps_sfail

end

locale request_frame = frame R
  for R :: "runtime_state \<Rightarrow> runtime_state \<Rightarrow> bool" +
  fixes cx :: runtime_context
  assumes commit_respects: "R s (fst (owned_commit cx env event_id ev s))"
    and claims_respect: "R (ru, w) (ru, w\<lparr>wo_claims := cw\<rparr>)"
    and packs_respect: "R (ru, w) (ru, w\<lparr>wo_packs := packs\<rparr>)"
begin

lemma keeps_owned_commit: "keeps R (owned_commit cx env event_id ev)"
  by (simp add: keeps_def commit_respects)

lemma keeps_runtime_commit: "keeps R (runtime_commit cx env event_id ev)"
  unfolding runtime_commit_def by (intro keeps_rules keeps_owned_commit)

lemma keeps_mission_or_missing: "keeps R (mission_or_missing mission_id)"
  unfolding mission_or_missing_def by (rule keeps_slift)

lemma keeps_claim_worktree: "keeps R (claim_worktree cx env owner repo checkout req)"
  by (auto simp: keeps_def claim_worktree_def claims_respect refl split: sum.splits prod.splits)

lemma keeps_release_worktree: "keeps R (release_worktree cx env lease)"
  by (auto simp: keeps_def release_worktree_def claims_respect refl split: sum.splits prod.splits)

lemma keeps_persist_pack: "keeps R (persist_pack cx env pack)"
  by (auto simp: keeps_def persist_pack_def packs_respect refl split: prod.splits)

lemma keeps_or_release: "keeps R m \<Longrightarrow> keeps R (or_release cx env lease m)"
  using keeps_release_worktree [of env lease] unfolding keeps_def or_release_def
  by (auto split: prod.splits sum.splits) (metis fst_conv trans)+

lemmas keeps_steps = keeps_rules keeps_runtime_commit keeps_mission_or_missing keeps_claim_worktree
  keeps_release_worktree keeps_persist_pack keeps_or_release

lemma keeps_create_mission: "keeps R (create_mission cx env q)"
  unfolding create_mission_def
  by (intro keeps_steps) (auto split: option.splits intro!: keeps_steps)

lemma keeps_configure_mission: "keeps R (configure_mission cx env i declarations at)"
  unfolding configure_mission_def Let_def
  by (intro keeps_steps) (auto intro!: keeps_steps)

lemma keeps_start_run: "keeps R (start_run cx env q)"
  unfolding start_run_def by (intro keeps_steps)

lemma keeps_continue_run: "keeps R (continue_run cx env q)"
  unfolding continue_run_def by (intro keeps_steps)

lemma keeps_recover_managed_run: "keeps R (recover_managed_run cx env i req)"
  unfolding recover_managed_run_def by (intro keeps_steps)

lemma keeps_bind_provider_session: "keeps R (bind_provider_session cx env i run session at)"
  unfolding bind_provider_session_def by (intro keeps_steps)

lemma keeps_transition_run: "keeps R (transition_run cx env i status at)"
  unfolding transition_run_def by (intro keeps_steps)

lemma keeps_record_pack: "keeps R (record_pack cx env i run pack digest at)"
  unfolding record_pack_def Let_def
  by (intro keeps_steps) (auto split: prod.splits intro!: keeps_steps)

lemma keeps_seal_archive: "keeps R (seal_archive cx env m verified digest at)"
  unfolding seal_archive_def
  by (intro keeps_steps) (auto intro!: keeps_steps keeps_transition_run)

lemma keeps_seal_ready: "keeps R (seal_ready cx env m verified digest at)"
  unfolding seal_ready_def by (intro keeps_steps)

lemma keeps_settle_report: "keeps R (settle_report cx env m report digest at)"
  unfolding settle_report_def Let_def
  by (auto split: sum.splits proof_error.splits
      intro!: keeps_steps keeps_transition_run keeps_seal_archive keeps_seal_ready)

lemma keeps_finalize_evidence_pack: "keeps R (finalize_evidence_pack cx env pack lease at)"
  unfolding finalize_evidence_pack_def
  by (intro keeps_steps) (auto split: prod.splits
      intro!: keeps_steps keeps_record_pack keeps_settle_report)

end

section \<open>The role of a runtime\<close>

fun role :: "ownership \<Rightarrow> nat" where
  "role (Owned _) = 0"
| "role (Prepared _ _) = 1"
| "role (Released _) = 2"
| "role (Observing _) = 3"
| "role Disabled = 4"
| "role Vacant = 5"

definition same_role :: "runtime_state \<Rightarrow> runtime_state \<Rightarrow> bool" where
  "same_role s t \<longleftrightarrow> role (ru_ownership (fst t)) = role (ru_ownership (fst s))
     \<and> dk_locked (wo_disk (snd t)) = dk_locked (wo_disk (snd s))"

lemma write_head_locked:
  "write_head codec io head disk = (disk', r) \<Longrightarrow> dk_locked disk' = dk_locked disk"
  by (auto simp: write_head_def split: prod.splits)

lemma commit_locked:
  "commit sha codec io event_id ev st disk = (st', disk', r) \<Longrightarrow> dk_locked disk' = dk_locked disk"
  by (auto simp: commit_def write_commit_def Let_def dest: write_head_locked
      split: sum.split_asm prod.split_asm)

lemma owned_commit_same_role: "same_role s (fst (owned_commit cx env event_id ev s))"
  by (auto simp: same_role_def owned_commit_def dest: commit_locked
      split: ownership.splits prod.splits)

interpretation role_frame: request_frame same_role cx
  for cx
  by unfold_locales (auto simp: same_role_def owned_commit_same_role [unfolded same_role_def])

lemma role_writer: "role a = role b \<Longrightarrow> holds_writer a = holds_writer b"
  by (cases a; cases b) simp_all

end
