(* ===== verification/Runtime_Cluster.thy ===== *)
theory Runtime_Cluster
  imports Runtime_Frame
begin

text \<open>
  Several server processes on one session: they open the journal or observe it, serve requests,
  hand the writer over and end, in any order and with any failures. At every moment at most one of
  them holds the writer, the advisory lock is held exactly then, the journal only grows, and the
  store of the process that holds the writer, unless a failed write poisoned it, is the state the
  journal on disk replays to.
\<close>

section \<open>Authority over the journal\<close>

fun writer_store :: "ownership \<Rightarrow> mission_store option" where
  "writer_store (Owned st) = Some st"
| "writer_store (Prepared st _) = Some st"
| "writer_store _ = None"

lemma writer_store_None: "writer_store ow = None \<longleftrightarrow> \<not> holds_writer ow"
  by (cases ow) simp_all

definition store_in_step :: "sha256 \<Rightarrow> store_codec \<Rightarrow> entry list \<Rightarrow> store_disk \<Rightarrow> mission_store \<Rightarrow> bool" where
  "store_in_step sha codec es disk st \<longleftrightarrow>
     ms_poisoned st \<or> stands_at sha codec es st \<and> dk_journal disk = zero_bytes sha es"

definition journal_at :: "sha256 \<Rightarrow> store_codec \<Rightarrow> entry list \<Rightarrow> store_disk \<Rightarrow> bool" where
  "journal_at sha codec es disk \<longleftrightarrow>
     (\<exists>s. ledger sha codec es s) \<and> journal_ok sha es (dk_journal disk)"

definition authority_at ::
  "sha256 \<Rightarrow> store_codec \<Rightarrow> entry list \<Rightarrow> ownership \<Rightarrow> store_disk \<Rightarrow> bool" where
  "authority_at sha codec es ow disk \<longleftrightarrow> journal_at sha codec es disk
     \<and> (\<forall>st. writer_store ow = Some st \<longrightarrow> store_in_step sha codec es disk st)"

definition history_grows ::
  "sha256 \<Rightarrow> store_codec \<Rightarrow> runtime_state \<Rightarrow> runtime_state \<Rightarrow> bool" where
  "history_grows sha codec s t \<longleftrightarrow>
     (\<forall>es. authority_at sha codec es (ru_ownership (fst s)) (wo_disk (snd s)) \<longrightarrow>
        (\<exists>es'. prefix es es' \<and> authority_at sha codec es' (ru_ownership (fst t)) (wo_disk (snd t))))"

lemma write_commit_head_irrelevant:
  assumes "write_commit sha codec io pc st disk = (st', disk', r)"
  shows "\<exists>disk2. write_commit sha codec io pc st (disk\<lparr>dk_head := None\<rparr>) = (st', disk2, r)
    \<and> dk_journal disk2 = dk_journal disk'"
  using assms
  by (auto simp: write_commit_def write_head_def atomic_write_json_limited_def Let_def
      split: sum.split_asm prod.split_asm option.splits write_outcome.splits if_splits)

lemma write_commit_poisons:
  "write_commit sha codec io pc st disk = (st', disk', Inl e) \<Longrightarrow> ms_poisoned st'"
  by (auto simp: write_commit_def Let_def split: sum.split_asm prod.split_asm)

lemma commit_history:
  assumes "hash32 sha" and "codec_ok codec" and "journal_at sha codec es disk"
    and "store_in_step sha codec es disk st"
    and "commit sha codec io event_id ev st disk = (st', disk', r)"
  shows "\<exists>es'. prefix es es' \<and> journal_at sha codec es' disk' \<and> store_in_step sha codec es' disk' st'"
proof (cases "\<exists>pc. prepare_commit sha codec event_id ev st = Inr (Inr pc)")
  case False
  then have "st' = st" "disk' = disk"
    using assms(5) by (auto simp: commit_def split: sum.split_asm)
  then show ?thesis using assms(3,4) by blast
next
  case True
  then obtain pc where pc: "prepare_commit sha codec event_id ev st = Inr (Inr pc)" by blast
  then have "\<not> ms_poisoned st"
    by (auto simp: prepare_commit_def split: if_splits)
  then have repr: "store_repr sha codec es st (disk\<lparr>dk_head := None\<rparr>)"
    using assms(3,4) by (auto simp: store_repr_def store_in_step_def journal_at_def head_ok_def
        intro: journal_ok_repaired)
  have "write_commit sha codec io pc st disk = (st', disk', r)"
    using assms(5) pc by (simp add: commit_def)
  then obtain disk2 where run: "write_commit sha codec io pc st (disk\<lparr>dk_head := None\<rparr>)
      = (st', disk2, r)" and same: "dk_journal disk2 = dk_journal disk'"
    using write_commit_head_irrelevant by blast
  have poisoned: "\<exists>e. r = Inl e \<Longrightarrow> ms_poisoned st'"
    using write_commit_poisons run by blast
  let ?es = "es @ [(pc_payload pc, pc_state_digest pc)]"
  have "journal_at sha codec es disk' \<and> store_in_step sha codec es disk' st'
      \<or> journal_at sha codec ?es disk' \<and> store_in_step sha codec ?es disk' st'"
    using write_commit_leaves [OF assms(1,2) repr pc run] same poisoned
    by (auto simp: outcome_at_def journal_at_def store_in_step_def store_repr_def)
  moreover have "prefix es es" "prefix es ?es"
    by simp_all
  ultimately show ?thesis by blast
qed

lemma owned_commit_history:
  assumes "hash32 (ct_sha cx)" and "codec_ok (ct_codec cx)"
  shows "history_grows (ct_sha cx) (ct_codec cx) s (fst (owned_commit cx env event_id ev s))"
proof (cases "ru_ownership (fst s)")
  case (Owned st)
  obtain st' disk' r where run: "commit (ct_sha cx) (ct_codec cx) (re_io env event_id) event_id ev st
      (wo_disk (snd s)) = (st', disk', r)" by (metis prod_cases3)
  then show ?thesis
    using commit_history [OF assms _ _ run] Owned
    by (auto simp: owned_commit_def history_grows_def authority_at_def split: prod.splits)
qed (auto simp: owned_commit_def history_grows_def split: prod.splits)

interpretation history_frame: frame "history_grows sha codec"
  for sha codec
proof unfold_locales
  show "history_grows sha codec s s" for s
    unfolding history_grows_def by blast
  show "history_grows sha codec s u"
    if "history_grows sha codec s t" "history_grows sha codec t u" for s t u
    using that unfolding history_grows_def by (meson prefix_order.trans)
qed

text \<open>Under the laws of the encoding every request lets the history grow.\<close>

definition lawful :: "runtime_context \<Rightarrow> bool" where
  "lawful cx \<longleftrightarrow> hash32 (ct_sha cx) \<and> codec_ok (ct_codec cx)
     \<and> digest_faithful (ct_sha cx) (ct_codec cx)"

definition lawful_history :: "runtime_context \<Rightarrow> runtime_state \<Rightarrow> runtime_state \<Rightarrow> bool" where
  "lawful_history cx s t \<longleftrightarrow> (lawful cx \<longrightarrow> history_grows (ct_sha cx) (ct_codec cx) s t)"

interpretation request_history: request_frame "lawful_history cx" cx
  for cx
proof unfold_locales
  fix s t u :: runtime_state
  show "lawful_history cx s s"
    using history_frame.refl by (simp add: lawful_history_def)
  show "lawful_history cx s t \<Longrightarrow> lawful_history cx t u \<Longrightarrow> lawful_history cx s u"
    using history_frame.trans [of "ct_sha cx" "ct_codec cx" s t u] by (auto simp: lawful_history_def)
next
  fix s :: runtime_state and env event_id ev
  show "lawful_history cx s (fst (owned_commit cx env event_id ev s))"
    using owned_commit_history by (simp add: lawful_history_def lawful_def)
qed (auto simp: lawful_history_def history_grows_def)

section \<open>Opening and handing over\<close>

lemma read_store_locked:
  "read_store sha codec io mode disk = (disk', r) \<Longrightarrow> dk_locked disk' = dk_locked disk"
  by (auto simp: read_store_def Let_def split: sum.split_asm prod.split_asm)

lemma reconcile_locked:
  "reconcile_head codec io persisted replay disk = (disk', r) \<Longrightarrow>
     dk_locked disk' = dk_locked disk \<and> dk_journal disk' = dk_journal disk"
  by (auto simp: reconcile_head_def dest: write_head_frame
      split: sum.split_asm if_split_asm prod.split_asm)

text \<open>What an attempt to open leaves: the lock only on success, the same history always.\<close>

definition opens_to ::
  "sha256 \<Rightarrow> store_codec \<Rightarrow> store_disk \<Rightarrow> store_disk \<Rightarrow> mission_store option \<Rightarrow> bool" where
  "opens_to sha codec disk disk' result \<longleftrightarrow>
     (case result of None \<Rightarrow> dk_locked disk' = dk_locked disk
      | Some st \<Rightarrow> \<not> dk_locked disk \<and> dk_locked disk')
     \<and> (hash32 sha \<longrightarrow> digest_faithful sha codec \<longrightarrow>
          (\<forall>es. journal_at sha codec es disk \<longrightarrow> journal_at sha codec es disk'
             \<and> (\<forall>st. result = Some st \<longrightarrow> store_in_step sha codec es disk' st)))"

lemma read_store_journal:
  assumes "hash32 sha" and "journal_ok sha es (dk_journal disk)"
    and "read_store sha codec io RepairFinalPartial disk = (disk', r)"
  shows "journal_ok sha es (dk_journal disk')"
proof -
  have "dk_journal disk' \<in> {dk_journal disk, zero_bytes sha es}"
    using assms(3) scan_repairs [OF assms(1,2)]
    by (auto simp: read_store_def Let_def split: sum.split_asm prod.split_asm)
  then show ?thesis
    using assms(2) journal_ok_repaired by auto
qed

lemma store_open_outcome:
  assumes "store_open sha codec io disk = (disk', r)"
  shows "opens_to sha codec disk disk' (case r of Inl _ \<Rightarrow> None | Inr st \<Rightarrow> Some st)"
proof (cases r)
  case (Inr st)
  have "\<not> dk_locked disk"
    using assms Inr by (auto simp: store_open_def split: sum.split_asm if_split_asm)
  moreover have "dk_locked disk'"
    using assms Inr
    by (auto simp: store_open_def Let_def split: sum.split_asm if_split_asm prod.split_asm)
  moreover have "journal_at sha codec es disk' \<and> store_in_step sha codec es disk' st"
    if "hash32 sha" "digest_faithful sha codec" "journal_at sha codec es disk" for es
  proof -
    note laws = that
    obtain s where s: "ledger sha codec es s" "journal_ok sha es (dk_journal disk)"
      using laws(3) by (auto simp: journal_at_def)
    note sound = store_open_sound [OF laws(1,2) s(2,1) assms [unfolded Inr]]
    have "journal_at sha codec es disk'"
      using sound(2) s journal_ok_repaired by (simp only: journal_at_def) blast
    moreover have "store_in_step sha codec es disk' st"
      using sound s by (simp add: store_in_step_def stands_at_def)
    ultimately show ?thesis ..
  qed
  ultimately show ?thesis
    by (simp add: opens_to_def Inr)
next
  case (Inl e)
  have "dk_locked disk' = dk_locked disk"
    using assms Inl
    by (auto simp: store_open_def Let_def
        dest!: read_store_locked reconcile_locked quarantine_frame
        split: sum.split_asm if_split_asm prod.split_asm)
  moreover have "journal_at sha codec es disk'"
    if "hash32 sha" "journal_at sha codec es disk" for es
  proof -
    have ok: "journal_ok sha es (dk_journal disk)"
      using that(2) by (simp add: journal_at_def)
    have "journal_ok sha es (dk_journal disk')"
      using assms Inl ok read_store_journal [OF that(1) ok]
      by (auto simp: store_open_def Let_def dest!: reconcile_locked quarantine_frame
          split: sum.split_asm if_split_asm prod.split_asm)
    then show ?thesis
      using that(2) by (simp add: journal_at_def)
  qed
  ultimately show ?thesis
    by (simp add: opens_to_def Inl)
qed

lemma open_at_fence_outcome:
  assumes "open_at_fence sha codec io expected disk = (disk', r)"
  shows "opens_to sha codec disk disk' (case r of Inl _ \<Rightarrow> None | Inr st \<Rightarrow> Some st)"
proof -
  obtain disk1 r1 where open1: "store_open sha codec io disk = (disk1, r1)"
    by fastforce
  note out = store_open_outcome [OF open1]
  show ?thesis
  proof (cases "\<exists>st. r1 = Inr st \<and> store_fence st \<noteq> expected")
    case True
    then obtain st where moved: "r1 = Inr st" "disk' = store_drop disk1"
      "r = Inl (SeHead HandoffHeadChanged)"
      using assms open1 by (auto simp: open_at_fence_def)
    have "journal_at sha codec es (store_drop disk1) = journal_at sha codec es disk1" for es
      by (simp add: journal_at_def store_drop_def)
    then show ?thesis
      using out moved unfolding opens_to_def by (simp add: store_drop_def)
  next
    case False
    then have "disk' = disk1" "r = r1"
      using assms open1 by (auto simp: open_at_fence_def split: sum.splits if_splits)
    then show ?thesis using out by simp
  qed
qed

lemma acquire_writer_outcome:
  assumes "acquire_writer sha codec io expected disk = (disk', r)"
  shows "opens_to sha codec disk disk' (case r of Inl _ \<Rightarrow> None | Inr st \<Rightarrow> Some st)"
proof (cases "validate_fence_format expected")
  case (Inl e)
  then show ?thesis
    using assms by (auto simp: acquire_writer_def opens_to_def)
next
  case (Inr u)
  then show ?thesis
    using assms by (intro open_at_fence_outcome [of _ _ io expected]) (simp add: acquire_writer_def)
qed

section \<open>Requests\<close>

datatype request =
    RqCommit string persistable_mission_event | RqCreate create_mission_request
  | RqConfigure string "check_declaration list" u64 | RqStart start_run_request
  | RqContinue continue_run_request | RqRecover string claim_request_id
  | RqBind string string string u64 | RqTransition string mission_status u64
  | RqFinalize evidence_pack worktree_lease u64 | RqRelease worktree_lease
  | RqPrepare | RqRelinquish | RqAcquire handoff_fence | RqAbort

fun serve :: "runtime_context \<Rightarrow> runtime_env \<Rightarrow> request \<Rightarrow> runtime_state \<Rightarrow> runtime_state" where
  "serve cx env (RqCommit event_id ev) s = fst (runtime_commit cx env event_id ev s)"
| "serve cx env (RqCreate q) s = fst (create_mission cx env q s)"
| "serve cx env (RqConfigure i declarations at) s =
     fst (configure_mission cx env i declarations at s)"
| "serve cx env (RqStart q) s = fst (start_run cx env q s)"
| "serve cx env (RqContinue q) s = fst (continue_run cx env q s)"
| "serve cx env (RqRecover i req) s = fst (recover_managed_run cx env i req s)"
| "serve cx env (RqBind i run session at) s = fst (bind_provider_session cx env i run session at s)"
| "serve cx env (RqTransition i status at) s = fst (transition_run cx env i status at s)"
| "serve cx env (RqFinalize pack lease at) s = fst (finalize_evidence_pack cx env pack lease at s)"
| "serve cx env (RqRelease lease) s = fst (release_worktree cx env lease s)"
| "serve cx env RqPrepare s = fst (runtime_prepare_handoff cx env s)"
| "serve cx env RqRelinquish s = fst (relinquish_handoff s)"
| "serve cx env (RqAcquire fence) s = fst (acquire_handoff cx env fence s)"
| "serve cx env RqAbort s = fst (abort_handoff cx env s)"

definition is_handoff :: "request \<Rightarrow> bool" where
  "is_handoff rq \<longleftrightarrow> rq \<in> {RqPrepare, RqRelinquish, RqAbort} \<union> range RqAcquire"

text \<open>Every other request is one of the operations that respect a request frame.\<close>

context request_frame
begin

lemmas request_respects = keeps_runtime_commit [unfolded keeps_def, rule_format]
  keeps_create_mission [unfolded keeps_def, rule_format]
  keeps_configure_mission [unfolded keeps_def, rule_format]
  keeps_start_run [unfolded keeps_def, rule_format]
  keeps_continue_run [unfolded keeps_def, rule_format]
  keeps_recover_managed_run [unfolded keeps_def, rule_format]
  keeps_bind_provider_session [unfolded keeps_def, rule_format]
  keeps_transition_run [unfolded keeps_def, rule_format]
  keeps_finalize_evidence_pack [unfolded keeps_def, rule_format]
  keeps_release_worktree [unfolded keeps_def, rule_format]

lemma serve_respects: "\<not> is_handoff rq \<Longrightarrow> R s (serve cx env rq s)"
  by (cases rq) (simp_all add: is_handoff_def request_respects)

end

text \<open>A process without the writer does not touch the journal while another holds it.\<close>

definition bystander :: "runtime_state \<Rightarrow> runtime_state \<Rightarrow> bool" where
  "bystander s t \<longleftrightarrow> (\<not> holds_writer (ru_ownership (fst s)) \<longrightarrow>
     wo_disk (snd t) = wo_disk (snd s) \<and> \<not> holds_writer (ru_ownership (fst t)))"

interpretation bystander_frame: request_frame bystander cx
  for cx
  by unfold_locales
     (auto simp: bystander_def owned_commit_def split: ownership.splits prod.splits)

definition writer_move :: "runtime_state \<Rightarrow> runtime_state \<Rightarrow> bool" where
  "writer_move s t \<longleftrightarrow>
     (let before = holds_writer (ru_ownership (fst s)); after = holds_writer (ru_ownership (fst t));
          locked = dk_locked (wo_disk (snd s)); locked' = dk_locked (wo_disk (snd t))
      in before = after \<and> locked' = locked \<or> before \<and> \<not> after \<and> \<not> locked'
         \<or> \<not> before \<and> \<not> locked \<and> after \<and> locked')"

lemma open_at_fence_locked:
  assumes "dk_locked disk" shows "fst (open_at_fence sha codec io fence disk) = disk"
proof -
  have "\<exists>e. store_open sha codec io disk = (disk, Inl e)"
    using assms by (simp add: store_open_def split: sum.split)
  then show ?thesis by (auto simp: open_at_fence_def)
qed

lemma acquire_writer_locked:
  assumes "dk_locked disk" shows "fst (acquire_writer sha codec io fence disk) = disk"
  using assms open_at_fence_locked by (auto simp: acquire_writer_def split: sum.split)

text \<open>The four requests of a handoff.\<close>

lemma handoff_moves:
  assumes "is_handoff rq"
  shows "writer_move s (serve cx env rq s)"
    and "lawful_history cx s (serve cx env rq s)"
    and "dk_locked (wo_disk (snd s)) \<Longrightarrow> \<not> holds_writer (ru_ownership (fst s)) \<Longrightarrow>
      wo_disk (snd (serve cx env rq s)) = wo_disk (snd s)"
proof -
  let ?sha = "ct_sha cx" and ?codec = "ct_codec cx" and ?io = "re_handoff_io env"
  let ?ow = "ru_ownership (fst s)" and ?disk = "wo_disk (snd s)"
  have history: "lawful_history cx s (with_owner ow (with_disk disk s))"
    if "lawful cx \<Longrightarrow> \<forall>es. authority_at ?sha ?codec es ?ow ?disk \<longrightarrow>
      authority_at ?sha ?codec es ow disk" for ow disk
    using that unfolding lawful_history_def history_grows_def
    by (auto simp: with_owner_def with_disk_def split: prod.splits)
  have owner: "fst (with_owner ow (with_disk disk s)) = (fst s)\<lparr>ru_ownership := ow\<rparr>"
    "wo_disk (snd (with_owner ow (with_disk disk s))) = disk" for ow disk
    by (simp_all add: with_owner_def with_disk_def split: prod.splits)
  have idle: "writer_move s s" "lawful_history cx s s"
    using request_history.refl by (simp_all add: writer_move_def)
  have opened: "writer_move s t \<and> lawful_history cx s t
      \<and> (dk_locked ?disk \<longrightarrow> wo_disk (snd t) = ?disk)"
    if t: "t = with_owner (case r of Inl _ \<Rightarrow> Vacant | Inr st \<Rightarrow> Owned st) (with_disk disk s)"
      and out: "opens_to ?sha ?codec ?disk disk (case r of Inl _ \<Rightarrow> None | Inr st \<Rightarrow> Some st)"
      and idle: "\<not> holds_writer ?ow" and same: "dk_locked ?disk \<Longrightarrow> disk = ?disk"
    for t and r :: "mission_store_error + mission_store" and disk
  proof -
    have "lawful_history cx s t"
      unfolding t using out
      by (intro history) (auto simp: opens_to_def authority_at_def lawful_def split: sum.splits)
    then show ?thesis
      using out idle same unfolding t
      by (auto simp: writer_move_def opens_to_def owner Let_def split: sum.splits)
  qed
  have dropped: "authority_at ?sha ?codec es (Released fence) (store_drop ?disk)"
    if "authority_at ?sha ?codec es ?ow ?disk" for es fence
    using that by (simp add: authority_at_def journal_at_def store_drop_def)
  have kept: "writer_move s t \<and> lawful_history cx s t"
    if t: "t = with_owner ow (with_disk disk s)" and store: "writer_store ow = writer_store ?ow"
      and same: "dk_journal disk = dk_journal ?disk" "dk_locked disk = dk_locked ?disk"
    for t ow disk
  proof -
    have "holds_writer ow = holds_writer ?ow"
      using store by (metis writer_store_None)
    moreover have "lawful_history cx s t"
      unfolding t using store same(1)
      by (intro history) (simp add: authority_at_def journal_at_def store_in_step_def)
    ultimately show ?thesis
      using same(2) unfolding t by (simp add: writer_move_def owner)
  qed
  have here: "with_disk disk s = with_owner ?ow (with_disk disk s)" for disk
    by (simp add: with_owner_def with_disk_def split: prod.splits)
  consider "rq = RqPrepare" | "rq = RqRelinquish" | "rq = RqAbort" | fence where "rq = RqAcquire fence"
    using assms by (auto simp: is_handoff_def)
  then have "writer_move s (serve cx env rq s) \<and> lawful_history cx s (serve cx env rq s)
    \<and> (dk_locked ?disk \<longrightarrow> \<not> holds_writer ?ow \<longrightarrow> wo_disk (snd (serve cx env rq s)) = ?disk)"
  proof cases
    case 1
    show ?thesis
    proof (cases ?ow)
      case (Owned st)
      obtain disk r where run: "prepare_handoff ?sha ?codec ?io st ?disk = (disk, r)"
        by fastforce
      then have "dk_journal disk = dk_journal ?disk" "dk_locked disk = dk_locked ?disk"
        by (auto simp: prepare_handoff_def dest: checkpoint_frame
            split: sum.split_asm prod.split_asm)
      moreover have "serve cx env rq s = with_owner
          (case r of Inl _ \<Rightarrow> ?ow | Inr fence \<Rightarrow> Prepared st fence) (with_disk disk s)"
        using 1 Owned run here by (auto simp: runtime_prepare_handoff_def split: sum.splits)
      ultimately have "writer_move s (serve cx env rq s) \<and> lawful_history cx s (serve cx env rq s)"
        by (rule kept [rotated 2]) (auto simp: Owned split: sum.splits)
      then show ?thesis using Owned by simp
    qed (use 1 idle in \<open>simp_all add: runtime_prepare_handoff_def\<close>)
  next
    case 2
    show ?thesis
    proof (cases ?ow)
      case (Prepared st fence)
      then have out: "serve cx env rq s = with_owner (Released fence) (with_disk (store_drop ?disk) s)"
        using 2 by (simp add: relinquish_handoff_def relinquish_def)
      have "lawful_history cx s (serve cx env rq s)"
        unfolding out using dropped by (intro history) blast
      then show ?thesis
        using Prepared by (simp add: writer_move_def out owner store_drop_def)
    qed (use 2 idle in \<open>simp_all add: relinquish_handoff_def\<close>)
  next
    case 3
    show ?thesis
    proof (cases ?ow)
      case (Prepared st fence)
      have "with_disk ?disk s = s"
        by (simp add: with_disk_def split: prod.splits)
      then have "serve cx env rq s = with_owner (Owned st) (with_disk ?disk s)"
        using 3 Prepared by (simp add: abort_handoff_def)
      then have "writer_move s (serve cx env rq s) \<and> lawful_history cx s (serve cx env rq s)"
        by (rule kept) (simp_all add: Prepared)
      then show ?thesis using Prepared by simp
    next
      case (Released fence)
      obtain disk r where run: "open_at_fence ?sha ?codec ?io fence ?disk = (disk, r)"
        by fastforce
      have "serve cx env rq s
          = with_owner (case r of Inl _ \<Rightarrow> Vacant | Inr st \<Rightarrow> Owned st) (with_disk disk s)"
        using 3 Released run by (auto simp: abort_handoff_def reacquire_def split: sum.splits)
      then show ?thesis
        using opened [OF _ open_at_fence_outcome [OF run]] Released
          open_at_fence_locked [of ?disk ?sha ?codec ?io fence] run by auto
    qed (use 3 idle in \<open>simp_all add: abort_handoff_def\<close>)
  next
    case 4
    show ?thesis
    proof (cases ?ow)
      case (Observing seen)
      obtain disk r where run: "acquire_writer ?sha ?codec ?io fence ?disk = (disk, r)"
        by fastforce
      have "serve cx env rq s
          = with_owner (case r of Inl _ \<Rightarrow> Vacant | Inr st \<Rightarrow> Owned st) (with_disk disk s)"
        using 4 Observing run by (auto simp: acquire_handoff_def split: sum.splits)
      then show ?thesis
        using opened [OF _ acquire_writer_outcome [OF run]] Observing
          acquire_writer_locked [of ?disk ?sha ?codec ?io fence] run by auto
    qed (use 4 idle in \<open>simp_all add: acquire_handoff_def\<close>)
  qed
  then show "writer_move s (serve cx env rq s)" "lawful_history cx s (serve cx env rq s)"
    and "dk_locked ?disk \<Longrightarrow> \<not> holds_writer ?ow \<Longrightarrow>
      wo_disk (snd (serve cx env rq s)) = ?disk"
    by blast+
qed

text \<open>Any request at all.\<close>

lemma serve_moves:
  shows "writer_move s (serve cx env rq s)"
    and "lawful_history cx s (serve cx env rq s)"
    and "dk_locked (wo_disk (snd s)) \<Longrightarrow> \<not> holds_writer (ru_ownership (fst s)) \<Longrightarrow>
      wo_disk (snd (serve cx env rq s)) = wo_disk (snd s)"
proof -
  have "writer_move s (serve cx env rq s) \<and> lawful_history cx s (serve cx env rq s)
    \<and> (dk_locked (wo_disk (snd s)) \<longrightarrow> \<not> holds_writer (ru_ownership (fst s)) \<longrightarrow>
      wo_disk (snd (serve cx env rq s)) = wo_disk (snd s))"
  proof (cases "is_handoff rq")
    case True
    then show ?thesis using handoff_moves by blast
  next
    case False
    have "same_role s (serve cx env rq s)"
      by (rule role_frame.serve_respects [OF False])
    then have "writer_move s (serve cx env rq s)"
      by (auto simp: same_role_def writer_move_def dest!: role_writer)
    moreover have "lawful_history cx s (serve cx env rq s)"
      by (rule request_history.serve_respects [OF False])
    moreover have "bystander s (serve cx env rq s)"
      by (rule bystander_frame.serve_respects [OF False])
    ultimately show ?thesis by (simp add: bystander_def)
  qed
  then show "writer_move s (serve cx env rq s)" "lawful_history cx s (serve cx env rq s)"
    and "dk_locked (wo_disk (snd s)) \<Longrightarrow> \<not> holds_writer (ru_ownership (fst s)) \<Longrightarrow>
      wo_disk (snd (serve cx env rq s)) = wo_disk (snd s)"
    by blast+
qed

section \<open>Server processes\<close>

record cluster =
  cu_runtimes :: "nat \<Rightarrow> mission_runtime option"
  cu_world :: runtime_world

datatype cluster_op =
    ClOpen nat open_env | ClObserve nat open_env handoff_fence | ClServe nat runtime_env request
  | ClExit nat

definition for_pid :: "runtime_context \<Rightarrow> nat \<Rightarrow> runtime_context" where
  "for_pid cx pid = cx\<lparr>ct_pid := pid\<rparr>"

text \<open>A process that has no runtime yet may open or observe the session.\<close>

fun cluster_step :: "runtime_context \<Rightarrow> cluster_op \<Rightarrow> cluster \<Rightarrow> cluster" where
  "cluster_step cx (ClOpen p env) c =
     (if cu_runtimes c p \<noteq> None then c
      else case open_owned (for_pid cx p) env (cu_world c) of
        (w, Inl e) \<Rightarrow> c\<lparr>cu_world := w\<rparr>
      | (w, Inr ru) \<Rightarrow> c\<lparr>cu_runtimes := (cu_runtimes c)(p := Some ru), cu_world := w\<rparr>)"
| "cluster_step cx (ClObserve p env fence) c =
     (if cu_runtimes c p \<noteq> None then c
      else case observe_handoff (for_pid cx p) env fence (cu_world c) of
        Inl e \<Rightarrow> c
      | Inr ru \<Rightarrow> c\<lparr>cu_runtimes := (cu_runtimes c)(p := Some ru)\<rparr>)"
| "cluster_step cx (ClServe p env rq) c =
     (case cu_runtimes c p of
        None \<Rightarrow> c
      | Some ru \<Rightarrow>
          (case serve (for_pid cx p) env rq (ru, cu_world c) of
             (ru', w) \<Rightarrow> c\<lparr>cu_runtimes := (cu_runtimes c)(p := Some ru'), cu_world := w\<rparr>))"
| "cluster_step cx (ClExit p) c =
     (case cu_runtimes c p of
        None \<Rightarrow> c
      | Some ru \<Rightarrow> c\<lparr>cu_runtimes := (cu_runtimes c)(p := None),
          cu_world := runtime_exit (for_pid cx p) ru (cu_world c)\<rparr>)"

definition cluster_run :: "runtime_context \<Rightarrow> cluster_op list \<Rightarrow> cluster \<Rightarrow> cluster" where
  "cluster_run cx ops c = fold (cluster_step cx) ops c"

definition owner_of :: "cluster \<Rightarrow> nat \<Rightarrow> ownership" where
  "owner_of c p = (case cu_runtimes c p of None \<Rightarrow> Vacant | Some ru \<Rightarrow> ru_ownership ru)"

definition one_writer :: "cluster \<Rightarrow> bool" where
  "one_writer c \<longleftrightarrow>
     (\<forall>p q. holds_writer (owner_of c p) \<longrightarrow> holds_writer (owner_of c q) \<longrightarrow> p = q)
     \<and> (dk_locked (wo_disk (cu_world c)) \<longleftrightarrow> (\<exists>p. holds_writer (owner_of c p)))"

definition cluster_at :: "sha256 \<Rightarrow> store_codec \<Rightarrow> entry list \<Rightarrow> cluster \<Rightarrow> bool" where
  "cluster_at sha codec es c \<longleftrightarrow> one_writer c
     \<and> (\<forall>p. authority_at sha codec es (owner_of c p) (wo_disk (cu_world c)))"

lemma owner_of_update:
  "owner_of (c\<lparr>cu_runtimes := (cu_runtimes c)(p := r), cu_world := w\<rparr>) q
     = (if q = p then (case r of None \<Rightarrow> Vacant | Some ru \<Rightarrow> ru_ownership ru) else owner_of c q)"
  by (simp add: owner_of_def)

text \<open>
  One process moves from one ownership to another with the disk. It is enough that the writer
  moves correctly, that its own authority is kept, and that a process without the writer leaves
  the disk of another alone.
\<close>

lemma cluster_moves:
  assumes at: "cluster_at sha codec es c"
    and c': "\<And>q. owner_of c' q = (if q = p then ow' else owner_of c q)"
    and disk: "wo_disk (cu_world c') = disk'"
    and move: "let before = holds_writer (owner_of c p); after = holds_writer ow';
        locked = dk_locked (wo_disk (cu_world c)); locked' = dk_locked disk'
      in before = after \<and> locked' = locked \<or> before \<and> \<not> after \<and> \<not> locked'
         \<or> \<not> before \<and> \<not> locked \<and> after \<and> locked'"
    and grows: "authority_at sha codec es (owner_of c p) (wo_disk (cu_world c)) \<Longrightarrow>
      \<exists>es'. prefix es es' \<and> authority_at sha codec es' ow' disk'"
    and still: "dk_locked (wo_disk (cu_world c)) \<Longrightarrow> \<not> holds_writer (owner_of c p) \<Longrightarrow>
      disk' = wo_disk (cu_world c)"
  shows "\<exists>es'. prefix es es' \<and> cluster_at sha codec es' c'"
proof -
  have one: "one_writer c"
    and auth: "authority_at sha codec es (owner_of c q) (wo_disk (cu_world c))" for q
    using at by (auto simp: cluster_at_def)
  have one': "one_writer c'"
    using one move unfolding one_writer_def c' disk Let_def by metis
  show ?thesis
  proof (cases "\<exists>q. q \<noteq> p \<and> holds_writer (owner_of c q)")
    case True
    then have idle: "\<not> holds_writer (owner_of c p)" "dk_locked (wo_disk (cu_world c))"
      using one unfolding one_writer_def by blast+
    then have same: "disk' = wo_disk (cu_world c)" and "\<not> holds_writer ow'"
      using still move by (auto simp: Let_def)
    then have "authority_at sha codec es ow' disk'"
      using auth [of p] by (auto simp: authority_at_def simp flip: writer_store_None)
    then have "cluster_at sha codec es c'"
      using one' auth same by (simp add: cluster_at_def c' disk)
    then show ?thesis by blast
  next
    case False
    obtain es' where es': "prefix es es'" "authority_at sha codec es' ow' disk'"
      using grows auth by blast
    have "authority_at sha codec es' (owner_of c q) disk'" if "q \<noteq> p" for q
      using es'(2) False that by (auto simp: authority_at_def simp flip: writer_store_None)
    then have "cluster_at sha codec es' c'"
      using one' es'(2) by (simp add: cluster_at_def c' disk)
    then show ?thesis using es'(1) by blast
  qed
qed

lemma lawful_for_pid: "lawful (for_pid cx p) = lawful cx" "ct_sha (for_pid cx p) = ct_sha cx"
  "ct_codec (for_pid cx p) = ct_codec cx"
  by (simp_all add: lawful_def for_pid_def)

lemma open_owned_outcome:
  assumes "open_owned cx env w = (w', r)"
  shows "(\<exists>ru st. r = Inr ru \<and> ru_ownership ru = Owned st
      \<and> opens_to (ct_sha cx) (ct_codec cx) (wo_disk w) (wo_disk w') (Some st))
    \<or> (\<exists>e. r = Inl e) \<and> opens_to (ct_sha cx) (ct_codec cx) (wo_disk w) (wo_disk w') None"
proof -
  obtain disk r1 where run: "store_open (ct_sha cx) (ct_codec cx) (oe_io env) (wo_disk w) = (disk, r1)"
    by fastforce
  note out = store_open_outcome [OF run]
  have drop: "opens_to sha codec d (store_drop disk) None" if "opens_to sha codec d disk (Some st)"
    for sha codec d st
    using that by (simp add: opens_to_def store_drop_def journal_at_def)
  show ?thesis
  proof (cases r1)
    case (Inl e)
    then show ?thesis using assms run out by (auto simp: open_owned_def)
  next
    case (Inr st)
    have opened: "opens_to (ct_sha cx) (ct_codec cx) (wo_disk w) disk (Some st)"
      using out Inr by simp
    show ?thesis
      using assms run Inr opened drop [OF opened]
      by (auto simp: open_owned_def split: sum.splits option.splits)
  qed
qed

lemma open_owned_locked:
  assumes "dk_locked (wo_disk w)"
  shows "wo_disk (fst (open_owned cx env w)) = wo_disk w"
proof -
  have "\<exists>e. store_open (ct_sha cx) (ct_codec cx) (oe_io env) (wo_disk w) = (wo_disk w, Inl e)"
    using assms by (simp add: store_open_def split: sum.split)
  then show ?thesis by (auto simp: open_owned_def)
qed

lemma cluster_step_at:
  assumes lawful: "lawful cx" and at: "cluster_at (ct_sha cx) (ct_codec cx) es c"
  shows "\<exists>es'. prefix es es' \<and> cluster_at (ct_sha cx) (ct_codec cx) es' (cluster_step cx oper c)"
proof -
  have stay: "\<exists>es'. prefix es es' \<and> cluster_at (ct_sha cx) (ct_codec cx) es' c"
    using at by blast
  have laws: "hash32 (ct_sha cx)" "digest_faithful (ct_sha cx) (ct_codec cx)"
    using lawful by (simp_all add: lawful_def)
  show ?thesis
  proof (cases oper)
    case (ClOpen p env)
    show ?thesis
    proof (cases "cu_runtimes c p")
      case None
      obtain w r where run: "open_owned (for_pid cx p) env (cu_world c) = (w, r)"
        by fastforce
      let ?ow = "case r of Inl _ \<Rightarrow> Vacant | Inr ru \<Rightarrow> ru_ownership ru"
      have vacant: "owner_of c p = Vacant"
        by (simp add: owner_of_def None)
      note out = open_owned_outcome [OF run, unfolded lawful_for_pid]
      have locked: "dk_locked (wo_disk (cu_world c)) \<Longrightarrow> wo_disk w = wo_disk (cu_world c)"
        using open_owned_locked [of "cu_world c" "for_pid cx p" env] run by simp
      have owner: "owner_of (cluster_step cx oper c) q = (if q = p then ?ow else owner_of c q)" for q
        using run None by (auto simp: ClOpen owner_of_def split: sum.splits)
      have world: "wo_disk (cu_world (cluster_step cx oper c)) = wo_disk w"
        using run None by (simp add: ClOpen split: sum.splits)
      show ?thesis
        by (rule cluster_moves [OF at owner world])
          (use out locked laws in \<open>auto simp: vacant opens_to_def authority_at_def Let_def\<close>)
    qed (use stay in \<open>simp add: ClOpen\<close>)
  next
    case (ClObserve p env fence)
    show ?thesis
    proof (cases "cu_runtimes c p = None \<and> \<not> isl (observe_handoff (for_pid cx p) env fence (cu_world c))")
      case True
      then obtain ru where run: "observe_handoff (for_pid cx p) env fence (cu_world c) = Inr ru"
        by (metis isl_def sum.exhaust)
      then obtain seen where seen: "ru_ownership ru = Observing seen"
        by (auto simp: observe_handoff_def result_iffs guard_iff split: option.splits)
      have vacant: "owner_of c p = Vacant"
        by (simp add: owner_of_def True)
      have owner: "owner_of (cluster_step cx oper c) q
          = (if q = p then Observing seen else owner_of c q)" for q
        using run True seen by (simp add: ClObserve owner_of_def)
      have world: "wo_disk (cu_world (cluster_step cx oper c)) = wo_disk (cu_world c)"
        using run True by (simp add: ClObserve)
      show ?thesis
        by (rule cluster_moves [OF at owner world])
          (auto simp: vacant authority_at_def Let_def)
    qed (use stay in \<open>auto simp: ClObserve isl_def\<close>)
  next
    case (ClServe p env rq)
    show ?thesis
    proof (cases "cu_runtimes c p")
      case (Some ru)
      obtain ru' w where run: "serve (for_pid cx p) env rq (ru, cu_world c) = (ru', w)"
        by fastforce
      have mine: "owner_of c p = ru_ownership ru"
        by (simp add: owner_of_def Some)
      have owner: "owner_of (cluster_step cx oper c) q
          = (if q = p then ru_ownership ru' else owner_of c q)" for q
        using run Some by (simp add: ClServe owner_of_def)
      have world: "wo_disk (cu_world (cluster_step cx oper c)) = wo_disk w"
        using run Some by (simp add: ClServe)
      show ?thesis
        using serve_moves [where s = "(ru, cu_world c)" and cx = "for_pid cx p" and env = env and rq = rq] lawful
        by (intro cluster_moves [OF at owner world])
           (auto simp: run mine writer_move_def lawful_history_def lawful_for_pid history_grows_def)
    qed (use stay in \<open>simp add: ClServe\<close>)
  next
    case (ClExit p)
    show ?thesis
    proof (cases "cu_runtimes c p")
      case (Some ru)
      have mine: "owner_of c p = ru_ownership ru"
        by (simp add: owner_of_def Some)
      let ?disk = "if holds_writer (ru_ownership ru) then store_drop (wo_disk (cu_world c))
        else wo_disk (cu_world c)"
      have owner: "owner_of (cluster_step cx oper c) q = (if q = p then Vacant else owner_of c q)" for q
        using Some by (simp add: ClExit owner_of_def)
      have world: "wo_disk (cu_world (cluster_step cx oper c)) = ?disk"
        using Some by (simp add: ClExit runtime_exit_def)
      show ?thesis
        by (rule cluster_moves [OF at owner world])
          (auto simp: mine authority_at_def journal_at_def store_drop_def Let_def)
    qed (use stay in \<open>simp add: ClExit\<close>)
  qed
qed

interpretation cluster_machine: step_machine
  "\<lambda>oper c. Inr (cluster_step cx oper c) :: unit + cluster"
  "\<lambda>c. lawful cx \<and> (\<exists>es. prefix es0 es \<and> cluster_at (ct_sha cx) (ct_codec cx) es c)"
  for cx es0
proof unfold_locales
  fix c c' oper
  assume inv: "lawful cx \<and> (\<exists>es. prefix es0 es \<and> cluster_at (ct_sha cx) (ct_codec cx) es c)"
    and step: "Inr (cluster_step cx oper c) = (Inr c' :: unit + cluster)"
  then obtain es es' where "prefix es0 es" "prefix es es'"
    "cluster_at (ct_sha cx) (ct_codec cx) es' c'"
    using cluster_step_at by (metis sum.inject(2))
  then show "lawful cx \<and> (\<exists>es. prefix es0 es \<and> cluster_at (ct_sha cx) (ct_codec cx) es c')"
    using inv by (meson prefix_order.trans)
qed

lemma cluster_run_at:
  assumes "lawful cx" and "cluster_at (ct_sha cx) (ct_codec cx) es c"
  shows "\<exists>es'. prefix es es' \<and> cluster_at (ct_sha cx) (ct_codec cx) es' (cluster_run cx ops c)"
  using cluster_machine.run_keeps [of cx es c ops] assms by (auto simp: cluster_run_def run_all_total)

section \<open>Properties\<close>


definition toy_context :: runtime_context where
  "toy_context = \<lparr>ct_sha = toy_hash, ct_codec = toy_codec, ct_pack_codec = toy_pack_codec,
     ct_pid = 0\<rparr>"

definition toy_world :: runtime_world where
  "toy_world = \<lparr>wo_disk = empty_disk, wo_claims = claim_world_new, wo_packs = toy_pack_dir\<rparr>"

definition toy_open_env :: open_env where
  "toy_open_env = \<lparr>oe_io = calm_io, oe_packs = \<lparr>pk_stat = DirPresent, pk_create_dir_all = True,
     pk_set_permissions = True\<rparr>, oe_claims = None\<rparr>"

lemma toy_lawful: "lawful toy_context"
  by (simp add: lawful_def toy_context_def toy_hash32 toy_codec_ok toy_digest_faithful)

lemma toy_cluster_at:
  "cluster_at toy_hash toy_codec [] \<lparr>cu_runtimes = (\<lambda>_. None), cu_world = toy_world\<rparr>"
  by (simp add: cluster_at_def one_writer_def owner_of_def toy_world_def empty_disk_def
      authority_at_def journal_at_def ledger_Nil journal_ok_def torn_tail_def)


end
