(* ===== verification/Runtime_Props.thy ===== *)
theory Runtime_Props
  imports Runtime_Frame
begin

text \<open>
  What the runtime's operations promise about missions: it reports a mission verified only when the
  closure promise holds for the pack it has stored, a failed start or continuation of a run leaves
  no lease behind, and creating or configuring a mission can be retried.
\<close>

section \<open>Commits and the missions they leave alone\<close>

lemma commit_projection:
  assumes "commit sha codec io event_id ev st disk = (st', disk', r)"
  shows "ms_projection st' = ms_projection st
    \<or> projection_apply sha ev (ms_projection st) = Inr (ms_projection st')"
  using assms
  by (auto simp: commit_def prepare_commit_def write_commit_def result_iffs Let_def
      split: sum.split_asm prod.split_asm if_split_asm option.split_asm)

text \<open>One field of every mission the runtime shows, the same before and after.\<close>

definition missions_shown :: "(persisted_mission \<Rightarrow> 'a) \<Rightarrow> runtime_state \<Rightarrow> string \<Rightarrow> 'a option" where
  "missions_shown field s i =
     (case ru_ownership (fst s) of
        Owned st \<Rightarrow> map_option field (bm_get (missions (ms_projection st)) i)
      | _ \<Rightarrow> None)"

definition same_shown :: "(persisted_mission \<Rightarrow> 'a) \<Rightarrow> runtime_state \<Rightarrow> runtime_state \<Rightarrow> bool" where
  "same_shown field s t \<longleftrightarrow> missions_shown field t = missions_shown field s
     \<and> wo_packs (snd t) = wo_packs (snd s)
     \<and> ru_evidence_packs (fst t) = ru_evidence_packs (fst s)"

interpretation shown_frame: frame "same_shown field"
  for field
  by unfold_locales (simp_all add: same_shown_def)

definition leaves_field :: "(persisted_mission \<Rightarrow> 'a) \<Rightarrow> sha256 \<Rightarrow> persistable_mission_event \<Rightarrow> bool" where
  "leaves_field field sha ev \<longleftrightarrow> (\<forall>p p' i. projection_apply sha ev p = Inr p' \<longrightarrow>
     map_option field (bm_get (missions p') i) = map_option field (bm_get (missions p) i))"

lemma on_mission_leaves:
  assumes "on_mission mission_id at arm p = Inr p'"
    and "\<And>t m m'. arm t m = Inr m' \<Longrightarrow> field m' = field m"
  shows "map_option field (bm_get (missions p') i) = map_option field (bm_get (missions p) i)"
  using assms by (auto simp: on_mission_def mission_mut_def result_iffs bm_get_insert)

lemma leaves_status:
  "leaves_field pm_status sha (EvidencePackRecorded i run digest hash at)"
  "leaves_field pm_status sha (EvidenceChanged i check_id status hash at)"
  by (auto simp: leaves_field_def evidence_pack_recorded_def evidence_changed_def result_iffs
      split: if_splits intro!: on_mission_leaves)

lemma leaves_attention:
  "leaves_field pm_attention sha (EvidencePackRecorded i run digest hash at)"
  "leaves_field pm_attention sha (EvidenceChanged i check_id status hash at)"
  "leaves_field pm_attention sha (StatusChanged i status' at)"
  "leaves_field pm_attention sha (MissionReady i receipt actor reason at)"
  "leaves_field pm_attention sha (MissionArchived i receipt seal actor reason at)"
  by (auto simp: leaves_field_def evidence_pack_recorded_def evidence_changed_def
      status_changed_def mission_ready_def mission_archived_def result_iffs
      split: if_splits intro!: on_mission_leaves)

lemma owned_commit_keeps:
  assumes "leaves_field field (ct_sha cx) ev"
  shows "keeps (same_shown field) (owned_commit cx env event_id ev)"
  using assms
  by (auto simp: keeps_def same_shown_def missions_shown_def owned_commit_def leaves_field_def fun_eq_iff
      dest!: commit_projection split: ownership.splits prod.splits)

lemma runtime_commit_keeps:
  assumes "leaves_field field (ct_sha cx) ev"
  shows "keeps (same_shown field) (runtime_commit cx env event_id ev)"
  unfolding runtime_commit_def
  by (intro shown_frame.keeps_rules owned_commit_keeps assms)

section \<open>Finalizing\<close>

lemma record_pack_keeps:
  assumes "\<And>run digest hash. leaves_field field (ct_sha cx) (EvidencePackRecorded i run digest hash at)"
    and "\<And>check_id status hash. leaves_field field (ct_sha cx) (EvidenceChanged i check_id status hash at)"
  shows "keeps (same_shown field) (record_pack cx env i run pack digest at)"
  unfolding record_pack_def Let_def
  by (auto intro!: shown_frame.keeps_rules runtime_commit_keeps assms split: prod.splits)

lemma mission_or_missing_keeps: "keeps (same_shown field) (mission_or_missing i)"
  unfolding mission_or_missing_def by (rule shown_frame.keeps_slift)

lemma transition_run_keeps:
  assumes "leaves_field field (ct_sha cx) (StatusChanged i status at)"
  shows "keeps (same_shown field) (transition_run cx env i status at)"
  unfolding transition_run_def
  by (intro shown_frame.keeps_rules runtime_commit_keeps mission_or_missing_keeps assms)

text \<open>A field that neither a seal nor a change of the status touches.\<close>

definition leaves_seals :: "(persisted_mission \<Rightarrow> 'a) \<Rightarrow> sha256 \<Rightarrow> bool" where
  "leaves_seals field sha \<longleftrightarrow>
     (\<forall>i status at. leaves_field field sha (StatusChanged i status at))
     \<and> (\<forall>i receipt actor reason at. leaves_field field sha (MissionReady i receipt actor reason at))
     \<and> (\<forall>i receipt seal actor reason at.
          leaves_field field sha (MissionArchived i receipt seal actor reason at))"

lemma sealing_leaves:
  assumes "leaves_seals field sha"
  shows "event_mission_ready sha i proof actor reason at = Inr ev \<Longrightarrow> leaves_field field sha ev"
    and "event_mission_archived sha i proof' actor reason at = Inr ev \<Longrightarrow> leaves_field field sha ev"
  using assms
  by (auto simp: event_mission_ready_def event_mission_archived_def validated_iff leaves_seals_def
      split: prod.split_asm if_split_asm)

lemma keeps_sbind_slift:
  assumes "\<And>s a. f s = Inr a \<Longrightarrow> keeps (same_shown field) (g a)"
  shows "keeps (same_shown field) (sbind (slift f) g)"
  using assms shown_frame.refl
  by (fastforce simp: keeps_def sbind_def slift_def split: sum.splits)

lemma settle_report_keeps:
  assumes seals: "leaves_seals field (ct_sha cx)"
  shows "keeps (same_shown field) (settle_report cx env m report digest at)"
proof -
  note leaves = sealing_leaves [OF seals]
  have blocked: "leaves_field field (ct_sha cx) (StatusChanged i status at)" for i status
    using seals by (simp add: leaves_seals_def)
  have "keeps (same_shown field) (seal_ready cx env m verified digest at)" for verified
    unfolding seal_ready_def
    by (auto intro!: keeps_sbind_slift shown_frame.keeps_rules runtime_commit_keeps
        dest: leaves(1) simp: result_iffs)
  moreover have "keeps (same_shown field) (seal_archive cx env m verified digest at)" for verified
    unfolding seal_archive_def
    by (auto intro!: keeps_sbind_slift shown_frame.keeps_rules runtime_commit_keeps
        transition_run_keeps blocked leaves(2) simp: result_iffs)
  ultimately show ?thesis
    unfolding settle_report_def Let_def
    by (auto intro!: shown_frame.keeps_rules transition_run_keeps blocked
        split: sum.splits proof_error.splits)
qed

lemma attention_leaves_seals: "leaves_seals pm_attention sha"
  by (simp add: leaves_seals_def leaves_attention)

lemma status_event_outcome:
  assumes "projection_apply sha (StatusChanged i status at) p = Inr p'"
  shows "map_option pm_status (bm_get (missions p') i) = Some status"
  using assms
  by (auto simp: on_mission_def mission_mut_def status_changed_def result_iffs bm_get_insert
      split: if_split_asm)

lemma transition_outcome:
  assumes "transition_run cx env i status at s = (t, r)"
  shows "missions_shown pm_status t i \<in> {missions_shown pm_status s i, Some status}"
proof -
  obtain u r1 where run: "owned_commit cx env (transition_event_id (ct_sha cx) i status at)
      (StatusChanged i status at) s = (u, r1)" by fastforce
  have "t = s \<or> t = u"
    using assms run
    by (auto simp: transition_run_def runtime_commit_def sbind_def slift_def mission_or_missing_def
        split: sum.split_asm)
  moreover have "missions_shown pm_status u i \<in> {missions_shown pm_status s i, Some status}"
    using run status_event_outcome
    by (fastforce simp: owned_commit_def missions_shown_def dest!: commit_projection
        split: prod.split_asm ownership.split_asm)
  ultimately show ?thesis by auto
qed

lemma mission_shown:
  assumes "runtime_mission (fst s) i = Some m"
  shows "missions_shown pm_status s i = Some (mv_status m)" and "mv_mission_id m = i"
  using assms
  by (auto simp: runtime_mission_def missions_shown_def mission_view_of_def view_from_persisted_def
      split: ownership.split_asm)

lemma unresolved_shown:
  assumes "same_shown pm_attention s t"
    and "runtime_unresolved_attention_ids (fst s) i = Inr ids"
    and "runtime_mission (fst t) i = Some m"
  shows "runtime_unresolved_attention_ids (fst t) i = Inr ids"
proof -
  have "missions_shown pm_attention t i = missions_shown pm_attention s i"
    using assms(1) by (simp add: same_shown_def)
  then show ?thesis
    using assms(2,3)
    by (auto simp: missions_shown_def runtime_unresolved_attention_ids_def
        unresolved_attention_ids_def mission_mut_def runtime_mission_def mission_view_of_def
        result_iffs split: ownership.split_asm)
qed

text \<open>
  What the checks before the first write establish: the pack is about the current run of a mission
  under review or ready to close, and the caller holds the lease of its worktree.
\<close>

definition reviewable ::
  "runtime_context \<Rightarrow> runtime_env \<Rightarrow> evidence_pack \<Rightarrow> worktree_lease \<Rightarrow> u64 \<Rightarrow> runtime_state
     \<Rightarrow> mission_view \<Rightarrow> bool" where
  "reviewable cx env pack lease at s m \<longleftrightarrow>
     runtime_mission (fst s) (ep_mission_id pack) = Some m
     \<and> mv_status m \<in> {ReviewRequired, ReadyToClose} \<and> ep_created_at_millis pack \<le> at
     \<and> is_current (re_claim env) (ct_pid cx) lease (wo_claims (snd s)) = Inr True
     \<and> (\<exists>run root. mv_run m = Some run \<and> ep_run_id pack = rv_run_id run
          \<and> proof_identity_new (mv_mission_id m) (rv_run_id run) (mv_repository_path m)
              (rv_worktree_path run) (rv_base_revision run) = Inr (ep_identity pack)
          \<and> en_canonicalize (re_claim env) (rv_worktree_path run) = Some root
          \<and> matches_scope lease (mv_mission_id m) (rv_run_id run) root)"

lemma finalize_checks_reviewable:
  assumes "finalize_checks cx env pack lease at s = Inr (m, run, identity)"
  shows "reviewable cx env pack lease at s m \<and> mv_run m = Some run \<and> identity = ep_identity pack
    \<and> mv_mission_id m = ep_mission_id pack"
  using assms mission_shown(2) [of s "ep_mission_id pack" m]
  by (auto simp: finalize_checks_def reviewable_def lease_current_def scope_check_def canonicalize_def
      fallible_iffs result_iffs split: prod.split_asm)

lemma persist_pack_stores:
  assumes "persist_pack cx env pack s = (t, Inr digest)"
  shows "fst t = fst s \<and> ru_evidence_packs (fst s)
    \<and> (\<exists>payload. enc_pack (ct_pack_codec cx) pack = Some payload \<and> length payload \<le> max_pack_bytes
    \<and> digest = hex_encode (ct_sha cx payload) \<and> pack_validate (ct_pack_codec cx) pack = Inr ()
    \<and> pd_files (wo_packs (snd t)) (pack_file_name digest) = Some (PackFile payload))"
  using assms persist_stores
  by (fastforce simp: persist_pack_def result_iffs split: prod.split_asm if_split_asm)

text \<open>What the report says decides what the settled mission can be.\<close>

lemma unverified_settles:
  assumes "settle_report cx env m report digest at s = (t, Inr u)" and "rp_verified report = None"
  shows "missions_shown pm_status t (mv_mission_id m)
    \<in> {missions_shown pm_status s (mv_mission_id m)}
        \<union> (if mv_status m = ReadyToClose then {Some MissionBlocked} else {})"
  using assms
  by (auto simp: settle_report_def into_verified_def fallible_iffs Let_def
      dest!: transition_outcome split: if_split_asm)

text \<open>The steps of a finalization that reports the mission verified.\<close>

lemma verified_finalization:
  assumes "finalize_evidence_pack cx env pack lease at s = (t, Inr out)" and "fo_verified out"
  obtains m run s1 s2 report plan authority verified where
    "reviewable cx env pack lease at s m" "mv_run m = Some run" "mv_mission_id m = ep_mission_id pack"
    "persist_pack cx env pack s = (s1, Inr (fo_pack_digest out))"
    "record_pack cx env (mv_mission_id m) (rv_run_id run) pack (fo_pack_digest out) at s1 = (s2, Inr ())"
    "view_closure_plan (ct_sha cx) m (mv_check_declarations m) = Inr plan"
    "runtime_unresolved_attention_ids (fst s2) (mv_mission_id m) = Inr []"
    "evaluate (ct_sha cx) (ep_identity pack) plan (mv_check_declarations m) (ep_records pack)
      (ep_current_workspace pack) [] authority = Inr report"
    "rp_verified report = Some verified"
    "settle_report cx env m report (fo_pack_digest out) at s2 = (t, Inr ())"
    "runtime_mission (fst t) (mv_mission_id m) = Some (fo_mission out)"
    "mv_status (fo_mission out) = (if mv_status m = ReadyToClose then Archived else ReadyToClose)"
    "missions_shown pm_status s2 (mv_mission_id m) = Some (mv_status m)"
proof -
  obtain m run identity s1 digest s2 report m' where
    checks: "finalize_checks cx env pack lease at s = Inr (m, run, identity)"
    and persisted: "persist_pack cx env pack s = (s1, Inr digest)"
    and recorded: "record_pack cx env (mv_mission_id m) (rv_run_id run) pack digest at s1 = (s2, Inr ())"
    and report: "finalize_report cx env pack lease at m identity s2 = Inr report"
    and settled: "settle_report cx env m report digest at s2 = (t, Inr ())"
    and shown: "runtime_mission (fst t) (mv_mission_id m) = Some m'"
    and out: "out = \<lparr>fo_mission = m', fo_pack_digest = digest,
      fo_verified = (if mv_status m = ReadyToClose then mv_status m' = Archived
        else mv_status m' = ReadyToClose)\<rparr>"
    using assms(1)
    by (auto simp: finalize_evidence_pack_def fallible_iffs mission_or_missing_def result_iffs
        split: prod.split_asm)
  have review: "reviewable cx env pack lease at s m" "mv_run m = Some run" "identity = ep_identity pack"
    and same: "mv_mission_id m = ep_mission_id pack"
    using finalize_checks_reviewable [OF checks] by simp_all
  have stored: "fst s1 = fst s"
    using persist_pack_stores [OF persisted] by blast
  have "same_shown pm_status s1 s2"
    using record_pack_keeps [where field = pm_status, OF leaves_status] recorded
    unfolding keeps_def by (metis fst_conv)
  then have before: "missions_shown pm_status s2 (mv_mission_id m) = Some (mv_status m)"
    using mission_shown(1) [of s "ep_mission_id pack" m] review(1) stored
    by (simp add: reviewable_def same_shown_def missions_shown_def same)
  obtain plan ids authority where plan: "view_closure_plan (ct_sha cx) m (mv_check_declarations m) = Inr plan"
    and ids: "runtime_unresolved_attention_ids (fst s2) (mv_mission_id m) = Inr ids"
    and run: "evaluate (ct_sha cx) identity plan (mv_check_declarations m) (ep_records pack)
      (ep_current_workspace pack) ids authority = Inr report"
    using report by (auto simp: finalize_report_def result_iffs split: prod.split_asm)
  have "rp_verified report \<noteq> None"
  proof
    assume "rp_verified report = None"
    from unverified_settles [OF settled this] before mission_shown(1) [OF shown]
    have "mv_status m' = mv_status m \<or> mv_status m = ReadyToClose \<and> mv_status m' = MissionBlocked"
      by (auto split: if_split_asm)
    then show False
      using assms(2) out by (auto split: if_split_asm)
  qed
  then obtain verified where verified: "rp_verified report = Some verified" by blast
  then have "ids = []"
    using evaluate_verified_iff [OF run] by (simp add: closure_established_def)
  then show thesis
    using that [of m run s1 s2 plan authority report verified] review same persisted recorded plan ids run
      verified settled shown out before assms(2)
    by (auto split: if_split_asm)
qed

text \<open>
  C3: whatever mission the runtime reports verified, the closure promise holds for the pack that
  was handed in: it is about the mission's current run and identity, every required check is
  supported by its evidence in its workspace and no attention of the mission is unresolved, then
  and still afterwards; the caller held the lease of the run's worktree; and the bytes of the pack
  are stored under the digest that is returned.
\<close>

theorem finalize_verifies_closure:
  assumes "finalize_evidence_pack cx env pack lease at s = (t, Inr out)" and "fo_verified out"
  shows "\<exists>m plan payload. reviewable cx env pack lease at s m
    \<and> view_closure_plan (ct_sha cx) m (mv_check_declarations m) = Inr plan
    \<and> closure_established (ct_sha cx) (ep_identity pack) plan (mv_check_declarations m)
        (ep_records pack) (ep_current_workspace pack) []
    \<and> runtime_unresolved_attention_ids (fst t) (ep_mission_id pack) = Inr []
    \<and> runtime_mission (fst t) (ep_mission_id pack) = Some (fo_mission out)
    \<and> mv_status (fo_mission out) = (if mv_status m = ReadyToClose then Archived else ReadyToClose)
    \<and> enc_pack (ct_pack_codec cx) pack = Some payload
    \<and> fo_pack_digest out = hex_encode (ct_sha cx payload)
    \<and> pd_files (wo_packs (snd t)) (pack_file_name (fo_pack_digest out)) = Some (PackFile payload)"
proof -
  obtain m run s1 s2 report plan authority verified where
    facts: "reviewable cx env pack lease at s m" "mv_run m = Some run" "mv_mission_id m = ep_mission_id pack"
    and persisted: "persist_pack cx env pack s = (s1, Inr (fo_pack_digest out))"
    and recorded: "record_pack cx env (mv_mission_id m) (rv_run_id run) pack (fo_pack_digest out) at s1
      = (s2, Inr ())"
    and plan: "view_closure_plan (ct_sha cx) m (mv_check_declarations m) = Inr plan"
    and none: "runtime_unresolved_attention_ids (fst s2) (mv_mission_id m) = Inr []"
    and run: "evaluate (ct_sha cx) (ep_identity pack) plan (mv_check_declarations m) (ep_records pack)
      (ep_current_workspace pack) [] authority = Inr report" "rp_verified report = Some verified"
    and settled: "settle_report cx env m report (fo_pack_digest out) at s2 = (t, Inr ())"
    and shown: "runtime_mission (fst t) (mv_mission_id m) = Some (fo_mission out)"
    and status: "mv_status (fo_mission out) = (if mv_status m = ReadyToClose then Archived else ReadyToClose)"
    and "missions_shown pm_status s2 (mv_mission_id m) = Some (mv_status m)"
    by (rule verified_finalization [OF assms])
  obtain payload where payload: "enc_pack (ct_pack_codec cx) pack = Some payload"
    "fo_pack_digest out = hex_encode (ct_sha cx payload)"
    and stored: "pd_files (wo_packs (snd s1)) (pack_file_name (fo_pack_digest out)) = Some (PackFile payload)"
    using persist_pack_stores [OF persisted] by blast
  have kept: "same_shown pm_status s1 s2" "same_shown pm_attention s2 t"
    using record_pack_keeps [where field = pm_status, OF leaves_status] recorded
      settle_report_keeps [OF attention_leaves_seals] settled
    unfolding keeps_def by (metis fst_conv)+
  then have "pd_files (wo_packs (snd t)) (pack_file_name (fo_pack_digest out)) = Some (PackFile payload)"
    using stored by (simp add: same_shown_def)
  moreover have "runtime_unresolved_attention_ids (fst t) (mv_mission_id m) = Inr []"
    using unresolved_shown [OF kept(2) none shown] .
  moreover have "closure_established (ct_sha cx) (ep_identity pack) plan (mv_check_declarations m)
      (ep_records pack) (ep_current_workspace pack) []"
    using evaluate_verified_iff [OF run(1)] run(2) by simp
  ultimately show ?thesis
    using facts payload plan shown status by (intro exI [of _ m] exI [of _ plan] exI [of _ payload]) auto
qed

section \<open>A finalized mission\<close>

text \<open>A hash of constant value makes every digest the same, so bindings hold by computation.\<close>

definition flat_sha :: sha256 where
  "flat_sha bs = replicate 32 0"

definition zeros :: string where
  "zeros = replicate 64 CHR ''0''"

lemma flat_hex [simp]: "hex_encode (flat_sha bs) = zeros"
  by (simp add: flat_sha_def zeros_def hex_encode_def hex_byte_def hex_digit_def numeral_eq_Suc)

lemma flat_digest [simp]: "cd_finish flat_sha d = zeros"
  by (simp add: cd_finish_def)

lemma flat_hash32: "hash32 flat_sha"
  by (simp add: hash32_def flat_sha_def)

lemma zeros_valid: "validate_hash label zeros = Inr ()"
  using finished_digest_is_valid_hash [of flat_sha] flat_hash32 by (simp add: hash32_def)

lemma flat_ids:
  "validate_id label ''m'' = Inr ()" "validate_id label ''r'' = Inr ()"
  "validate_id label ''nagi-verifier'' = Inr ()" "validate_id label ''unit'' = Inr ()"
  by (simp_all add: validate_id_ok_iff is_id_byte_def is_ascii_alphanumeric_def
      is_ascii_digit_def ascii_code_def)

lemma zeros_event_id:
  "validate_id label (''evidence-pack:'' @ zeros) = Inr ()"
  "validate_id label (''evidence-summary:'' @ zeros) = Inr ()"
  "validate_id label (''mission-ready:'' @ zeros) = Inr ()"
  by (simp_all add: validate_id_ok_iff zeros_def list_all_iff is_id_byte_def
      is_ascii_alphanumeric_def is_ascii_digit_def ascii_code_def)

definition flat_codec :: store_codec where
  "flat_codec = \<lparr>enc_event = (\<lambda>_. Some []), enc_record = (\<lambda>_. Some []), dec_record = (\<lambda>_. None),
     enc_state = (\<lambda>_. Some []), enc_head = (\<lambda>_. Some []), dec_head = (\<lambda>_. None),
     enc_snapshot = (\<lambda>_. Some []), dec_snapshot = (\<lambda>_. None), dec_anchor = (\<lambda>_. None)\<rparr>"

definition young_store :: "nat \<Rightarrow> mission_store \<Rightarrow> store_disk \<Rightarrow> bool" where
  "young_store n st disk \<longleftrightarrow> \<not> ms_poisoned st \<and> jh_sequence (ms_journal_head st) = n
     \<and> length (jh_record_hash (ms_journal_head st)) = 32 \<and> length (dk_journal disk) \<le> 1000 * n"

lemma flat_commit:
  assumes young: "young_store n st disk" and n: "0 < n" "n < 10"
    and event_id: "validate_id ''event id'' event_id = Inr ()" and event: "event_validate flat_sha ev = Inr ()"
    and fresh: "bm_get (ms_event_index st) event_id = None"
    and proof_ok: "validate_current_proof_authority flat_sha st ev = Inr ()"
    and applied: "projection_apply flat_sha ev (ms_projection st) = Inr p"
  obtains st' disk' where
    "commit flat_sha flat_codec calm_io event_id ev st disk
       = (st', disk', Inr \<lparr>co_sequence = n + 1, co_was_duplicate = False\<rparr>)"
    "young_store (n + 1) st' disk'" "ms_projection st' = p"
    "ms_event_index st' = index_put event_id (n + 1) zeros (ms_event_index st)"
proof -
  let ?e = "([], flat_sha []) :: entry" and ?h = "jh_record_hash (ms_journal_head st)"
  have e: "entry_ok ?e" and h: "length ?h = 32"
    using young by (simp_all add: entry_ok_def flat_sha_def young_store_def)
  note len = length_frame_bytes [OF flat_hash32 h e]
  have "length (dk_journal disk) + length (frame_bytes flat_sha ?h ?e) \<le> max_journal_bytes"
    using len young n by (simp add: young_store_def journal_consts)
  from journal_append_small [OF flat_hash32 h e this]
  have app: "journal_append flat_sha None [] ?h (replicate 32 0) (dk_journal disk)
      = (dk_journal disk @ frame_bytes flat_sha ?h ?e, Inr (frame_hash flat_sha ?h ?e))"
    by (simp add: flat_sha_def)
  have "prepare_commit flat_sha flat_codec event_id ev st = Inr (Inr \<lparr>pc_payload = [],
      pc_state_digest = replicate 32 0, pc_sequence = n + 1, pc_projection = p,
      pc_index = index_put event_id (n + 1) zeros (ms_event_index st)\<rparr>)"
    using young n event_id event fresh proof_ok applied
    by (simp add: prepare_commit_def young_store_def event_fingerprint_def flat_codec_def
        duplicate_outcome_def max_journal_frames_def store_state_digest_def max_snapshot_bytes_def
        max_payload_bytes_def Let_def) (simp add: flat_sha_def)
  then have "commit flat_sha flat_codec calm_io event_id ev st disk =
      (st\<lparr>ms_journal_head := \<lparr>jh_version = store_version, jh_sequence = n + 1,
            jh_record_hash = frame_hash flat_sha ?h ?e\<rparr>,
          ms_event_index := index_put event_id (n + 1) zeros (ms_event_index st),
          ms_projection := p\<rparr>,
       disk\<lparr>dk_journal := dk_journal disk @ frame_bytes flat_sha ?h ?e, dk_head := Some [10]\<rparr>,
       Inr \<lparr>co_sequence = n + 1, co_was_duplicate = False\<rparr>)"
    using app by (simp add: commit_def write_commit_def calm_io_def write_head_def
        atomic_write_json_limited_def flat_codec_def max_head_bytes_def)
  moreover have "length (frame_hash flat_sha ?h ?e) = 32"
    by (simp add: frame_hash_def hash_record_def flat_sha_def)
  ultimately show thesis
    using that young len by (simp add: young_store_def journal_consts)
qed

definition flat_check :: check_declaration where
  "flat_check = check_covers [zeros] (check_command ''unit''
     \<lparr>cs_program = ''cargo'', cs_args = [''test''], cs_cwd = ''.''\<rparr> [Prefix ''src''] [])"

definition flat_identity :: proof_identity where
  "flat_identity = \<lparr>pi_mission_id = ''m'', pi_run_id = ''r'', pi_repository_identity = ''/r'',
     pi_worktree_identity = ''/r'', pi_base_revision = replicate 40 CHR ''a''\<rparr>"

definition flat_records :: "(string, evidence_record) bmap" where
  "flat_records = [(''unit'', RecCommand (sample_evidence 0
     \<lparr>ce_declaration_digest := zeros, ce_proof_identity_digest := zeros\<rparr>))]"

definition flat_pack :: evidence_pack where
  "flat_pack = \<lparr>ep_version = 1, ep_mission_id = ''m'', ep_run_id = ''r'', ep_identity = flat_identity,
     ep_current_workspace = sample_workspace ''1'', ep_records = flat_records,
     ep_summaries = [(''unit'', EvPassed)],
     ep_execution_logs = [], ep_created_at_millis = 42\<rparr>"

definition flat_run :: persisted_run where
  "flat_run = \<lparr>prn_run_id = ''r'', prn_provider = Codex, prn_mode = Managed, prn_worktree_path = ''/r'',
     prn_base_revision = replicate 40 CHR ''a'', prn_execute_declared_checks = True,
     prn_execute_project_recipe = False, prn_handoff_from_run_id = None,
     prn_handoff_artifact_sha256 = None, prn_provider_session_id = None\<rparr>"

definition flat_mission :: persisted_mission where
  "flat_mission = new_mission ''t'' ''/r'' zeros ''o'' [''d''] 5
     \<lparr>pm_check_declarations := [flat_check], pm_status := ReviewRequired, pm_run := Some flat_run\<rparr>"

definition flat_lease :: worktree_lease where
  "flat_lease = \<lparr>wl_key = WorktreeKey [''g''] [''r''],
     wl_owner = \<lparr>lo_mission_id = ''m'', lo_mission_run_id = ''r''\<rparr>,
     wl_request_id = ClaimRequestId ''q'', wl_nonce = []\<rparr>"

definition flat_store :: mission_store where
  "flat_store = \<lparr>ms_journal_head = \<lparr>jh_version = store_version, jh_sequence = 1,
       jh_record_hash = replicate 32 0\<rparr>,
     ms_event_index = [], ms_projection = \<lparr>missions = [(''m'', flat_mission)]\<rparr>, ms_poisoned = False\<rparr>"

definition flat_state :: runtime_state where
  "flat_state =
     (\<lparr>ru_ownership = Owned flat_store, ru_claims = True, ru_evidence_packs = True\<rparr>,
      \<lparr>wo_disk = empty_disk, wo_claims = \<lparr>cw_registry = (\<lambda>_. [(wl_key flat_lease, flat_lease)]),
         cw_locks = (\<lambda>_. None)\<rparr>, wo_packs = toy_pack_dir\<rparr>)"

definition flat_context :: runtime_context where
  "flat_context = \<lparr>ct_sha = flat_sha, ct_codec = flat_codec, ct_pack_codec =
       \<lparr>enc_pack = (\<lambda>_. Some [1]), dec_pack = (\<lambda>_. Some flat_pack), b64_encode = (\<lambda>_. []), b64_ok = (\<lambda>_. True)\<rparr>,
     ct_pid = 7\<rparr>"

definition flat_claim_env :: claim_env where
  "flat_claim_env = \<lparr>en_canonicalize = (\<lambda>_. Some [''r'']), en_git_worktree_info = (\<lambda>_. None),
     en_lock_file_error = (\<lambda>_. None), en_nonce = None, en_poisoned = False\<rparr>"

definition flat_env :: runtime_env where
  "flat_env = \<lparr>re_claim = flat_claim_env, re_release = flat_claim_env, re_git = toy_git_env,
     re_io = (\<lambda>_. calm_io), re_pack_io = calm_pack_io, re_handoff_io = calm_io\<rparr>"

lemmas flat_defs = flat_context_def flat_env_def flat_claim_env_def flat_lease_def

abbreviation flat_view :: mission_view where
  "flat_view \<equiv> view_from_persisted ''m'' flat_mission"

lemma flat_texts:
  "\<not> is_blank ''m''" "\<not> is_blank ''r''" "\<not> is_blank ''/r''" "\<not> is_blank ''t''" "\<not> is_blank ''o''"
  "\<not> is_blank ''d''" "list_all is_ascii_hexdigit (replicate 40 CHR ''a'')"
  by (simp_all add: is_blank_iff utf8_width_def utf8_code_def utf8_lead_def is_whitespace_def Let_def
      list_all_iff is_ascii_hexdigit_def is_ascii_digit_def ascii_code_def)

lemma flat_checks:
  "finalize_checks flat_context flat_env flat_pack flat_lease 50 flat_state
     = Inr (flat_view, run_view_of flat_run, flat_identity)"
  by (simp add: finalize_checks_def flat_state_def flat_store_def ensure_available_def is_available_def
      guard_def runtime_mission_def mission_view_of_def flat_pack_def flat_defs view_from_persisted_def
      flat_mission_def flat_run_def run_view_of_def new_mission_def proof_identity_new_def
      valid_revision_def flat_identity_def lease_current_def claims_of_def is_current_def scope_check_def
      canonicalize_def matches_scope_def bm_get_def flat_texts word_eval)

lemma flat_check_fields:
  "ck_id flat_check = ''unit''" "ck_required flat_check" "ck_covered_criteria flat_check = [zeros]"
  "\<not> is_manual flat_check"
  by (simp_all add: flat_check_def check_covers_def check_command_def bs_extend_def is_manual_def
      check_command_spec_def)

lemma flat_persist:
  "\<exists>packs. persist_pack flat_context flat_env flat_pack flat_state
     = ((fst flat_state, (snd flat_state)\<lparr>wo_packs := packs\<rparr>), Inr zeros)"
proof -
  have "pack_validate codec flat_pack = Inr ()" for codec
    by (simp add: pack_validate_def flat_pack_def pack_version_def pack_valid_id_def flat_identity_def
        flat_records_def sample_evidence_def is_ascii_alphanumeric_def
        is_ascii_digit_def ascii_code_def bm_keys_def)
  then show ?thesis
    by (simp add: persist_pack_def flat_state_def persist_def flat_defs max_pack_bytes_def
        toy_pack_dir_def calm_pack_io_def Let_def)
qed

text \<open>The mission's state while its pack is recorded, and a commit in it.\<close>

definition flat_ran :: "pack_dir \<Rightarrow> mission_store \<Rightarrow> store_disk \<Rightarrow> runtime_state" where
  "flat_ran packs st disk = ((fst flat_state)\<lparr>ru_ownership := Owned st\<rparr>,
     (snd flat_state)\<lparr>wo_packs := packs, wo_disk := disk\<rparr>)"

lemma flat_runtime_commit:
  assumes "young_store n st disk" and "0 < n" and "n < 10"
    and "validate_id ''event id'' event_id = Inr ()" and "event_validate flat_sha ev = Inr ()"
    and "bm_get (ms_event_index st) event_id = None"
    and "validate_current_proof_authority flat_sha st ev = Inr ()"
    and "projection_apply flat_sha ev (ms_projection st) = Inr p"
    and "lease_check flat_context flat_env ev (flat_ran packs st disk) = Inr ()"
  obtains st' disk' where "runtime_commit flat_context flat_env event_id ev (flat_ran packs st disk)
      = (flat_ran packs st' disk', Inr \<lparr>co_sequence = n + 1, co_was_duplicate = False\<rparr>)"
    "young_store (n + 1) st' disk'" "ms_projection st' = p"
    "ms_event_index st' = index_put event_id (n + 1) zeros (ms_event_index st)"
proof -
  obtain st' disk' where run: "commit flat_sha flat_codec calm_io event_id ev st disk
      = (st', disk', Inr \<lparr>co_sequence = n + 1, co_was_duplicate = False\<rparr>)"
    and after: "young_store (n + 1) st' disk'" "ms_projection st' = p"
    "ms_event_index st' = index_put event_id (n + 1) zeros (ms_event_index st)"
    by (rule flat_commit [OF assms(1-8)])
  have "runtime_commit flat_context flat_env event_id ev (flat_ran packs st disk)
      = (flat_ran packs st' disk', Inr \<lparr>co_sequence = n + 1, co_was_duplicate = False\<rparr>)"
    using run assms(9)
    by (simp add: runtime_commit_def sbind_def slift_def owned_commit_def flat_defs flat_ran_def)
  then show thesis
    using that after by blast
qed

definition flat_recorded :: persisted_mission where
  "flat_recorded = flat_mission\<lparr>pm_latest_evidence_pack := Some \<lparr>pek_run_id = ''r'',
     pek_pack_digest = zeros, pek_workspace_hash = zeros, pek_recorded_at_millis = 50\<rparr>,
     pm_updated_at_millis := 50\<rparr>"

definition flat_summarized :: persisted_mission where
  "flat_summarized = flat_recorded\<lparr>pm_evidence := [(''unit'', \<lparr>pev_status = EvPassed,
     pev_workspace_hash = zeros, pev_updated_at_millis = 50\<rparr>)]\<rparr>"

lemma flat_lease_free:
  "lease_check flat_context flat_env (EvidencePackRecorded i run digest hash at) (flat_ran packs st disk) = Inr ()"
  "lease_check flat_context flat_env (EvidenceChanged i check_id status hash at) (flat_ran packs st disk) = Inr ()"
  by (simp_all add: flat_ran_def flat_state_def lease_check_def ensure_available_def is_available_def guard_def)

lemma flat_record:
  obtains st disk where
    "record_pack flat_context flat_env ''m'' ''r'' flat_pack zeros 50 (flat_ran packs flat_store empty_disk)
      = (flat_ran packs st disk, Inr ())"
    "young_store 3 st disk" "missions (ms_projection st) = [(''m'', flat_summarized)]"
    "bm_get (ms_event_index st) (''mission-ready:'' @ zeros) = None"
proof -
  let ?ev = "EvidencePackRecorded ''m'' ''r'' zeros zeros 50"
  let ?sum = "EvidenceChanged ''m'' ''unit'' EvPassed zeros 50"
  let ?id = "''evidence-pack:'' @ zeros" and ?sid = "''evidence-summary:'' @ zeros"
  have young: "young_store 1 flat_store empty_disk"
    by (simp add: young_store_def flat_store_def empty_disk_def)
  have valid: "event_validate flat_sha ?ev = Inr ()" "event_validate flat_sha ?sum = Inr ()"
    by (simp_all add: event_validate_def zeros_valid flat_ids)
  have fresh: "bm_get (ms_event_index flat_store) ?id = None"
    and authority: "validate_current_proof_authority flat_sha st ?ev = Inr ()"
      "validate_current_proof_authority flat_sha st ?sum = Inr ()" for st
    by (simp_all add: flat_store_def bm_get_def validate_current_proof_authority_def)
  have applied: "projection_apply flat_sha ?ev (ms_projection flat_store)
      = Inr \<lparr>missions = [(''m'', flat_recorded)]\<rparr>"
    by (simp add: flat_store_def on_mission_def mission_mut_def bm_get_def evidence_pack_recorded_def
        flat_mission_def new_mission_def flat_run_def flat_recorded_def word_eval)
  obtain st disk where first: "runtime_commit flat_context flat_env ?id ?ev (flat_ran packs flat_store empty_disk)
      = (flat_ran packs st disk, Inr \<lparr>co_sequence = 1 + 1, co_was_duplicate = False\<rparr>)"
    and st: "young_store (1 + 1) st disk" "ms_projection st = \<lparr>missions = [(''m'', flat_recorded)]\<rparr>"
    "ms_event_index st = index_put ?id (1 + 1) zeros (ms_event_index flat_store)"
    by (rule flat_runtime_commit [OF young _ _ zeros_event_id(1) valid(1) fresh authority(1) applied
          flat_lease_free(1)]) simp_all
  have summarized: "projection_apply flat_sha ?sum (ms_projection st)
      = Inr \<lparr>missions = [(''m'', flat_summarized)]\<rparr>"
    by (simp add: st(2) on_mission_def mission_mut_def bm_get_def evidence_changed_def flat_summarized_def
        flat_recorded_def flat_mission_def new_mission_def)
  have new: "bm_get (ms_event_index st) ?sid = None"
    by (simp add: st(3) flat_store_def index_put_def bm_get_def)
  obtain st' disk' where second: "runtime_commit flat_context flat_env ?sid ?sum (flat_ran packs st disk)
      = (flat_ran packs st' disk', Inr \<lparr>co_sequence = (1 + 1) + 1, co_was_duplicate = False\<rparr>)"
    and st': "young_store ((1 + 1) + 1) st' disk'" "ms_projection st' = \<lparr>missions = [(''m'', flat_summarized)]\<rparr>"
    "ms_event_index st' = index_put ?sid ((1 + 1) + 1) zeros (ms_event_index st)"
    by (rule flat_runtime_commit [OF st(1) _ _ zeros_event_id(2) valid(2) new authority(2) summarized
          flat_lease_free(2)]) simp_all
  have "record_pack flat_context flat_env ''m'' ''r'' flat_pack zeros 50 (flat_ran packs flat_store empty_disk)
      = (flat_ran packs st' disk', Inr ())"
    using first second
    by (simp add: record_pack_def event_id_of_def flat_defs workspace_digest_def Let_def sbind_def
        flat_pack_def sreturn_def)
  moreover have "young_store 3 st' disk'"
    using st'(1) by (simp add: numeral_3_eq_3)
  moreover have "bm_get (ms_event_index st') (''mission-ready:'' @ zeros) = None"
    by (simp add: st'(3) st(3) flat_store_def index_put_def bm_get_def)
  ultimately show thesis
    using that st'(2) by simp
qed

text \<open>The report on the recorded pack, and the seal.\<close>

lemma flat_plan:
  "view_closure_plan flat_sha flat_view [flat_check] = Inr \<lparr>cp_criteria = [zeros],
     cp_criteria_digest = zeros, cp_checkset_digest = zeros\<rparr>"
  by (simp add: view_closure_plan_def view_from_persisted_def flat_mission_def new_mission_def
      mission_definition_new_def flat_texts path_is_absolute_def acceptance_criterion_ids_def
      criterion_ids_def criterion_id_def closure_plan_new_eq plan_sound_def flat_check_fields
      bs_collect_def bs_extend_def digest_criteria_def digest_checkset_def)

lemma flat_established:
  "closure_established flat_sha flat_identity \<lparr>cp_criteria = [zeros], cp_criteria_digest = zeros,
     cp_checkset_digest = zeros\<rparr> [flat_check] flat_records (sample_workspace ''1'') []"
  by (simp add: closure_established_def flat_check_fields flat_records_def bm_get_def
      evidence_supports_def check_digest_def identity_digest_def digest_checkset_def)
     (simp add: sample_evidence_def)

lemma flat_report:
  assumes "young_store 3 st disk" and "missions (ms_projection st) = [(''m'', flat_summarized)]"
  obtains report verified where
    "finalize_report flat_context flat_env flat_pack flat_lease 50 flat_view flat_identity
       (flat_ran packs st disk) = Inr report" "rp_verified report = Some verified"
    "vp_authority_sequence verified = 3" "vp_verified_at_millis verified = 50"
    "vp_lease_digest verified = zeros" "vp_authority_head_digest verified = zeros"
proof -
  let ?plan = "\<lparr>cp_criteria = [zeros], cp_criteria_digest = zeros, cp_checkset_digest = zeros\<rparr>"
  let ?authority = "\<lparr>au_identity_digest = zeros, au_workspace_digest = zeros,
    au_attention_digest = zeros, au_evidence_digest = zeros, au_head_digest = zeros,
    au_lease_digest = zeros, au_sequence = 3, au_captured_at_millis = 50\<rparr>"
  have unresolved: "unresolved_attention_ids (ms_projection st) ''m'' = Inr []"
    using assms(2) by (simp add: unresolved_attention_ids_def mission_mut_def bm_get_def
        flat_summarized_def flat_recorded_def flat_mission_def new_mission_def bs_collect_def bs_extend_def)
  have authority: "capture_authority flat_context flat_env flat_lease flat_identity
      (sample_workspace ''1'') flat_records [] 50 (flat_ran packs st disk) = Inr ?authority"
    using assms(1)
    by (simp add: capture_authority_def flat_ran_def flat_state_def lease_current_def claims_of_def
        guard_def is_current_def flat_defs bm_get_def scope_check_def canonicalize_def matches_scope_def
        flat_identity_def young_store_def identity_digest_def workspace_digest_def digest_attention_def
        digest_evidence_def fence_authority_digest_def lease_authority_digest_def)
  obtain report where run: "evaluate flat_sha flat_identity ?plan [flat_check] flat_records
      (sample_workspace ''1'') [] ?authority = Inr report"
    by (simp add: evaluate_def authority_bound_def identity_digest_def workspace_digest_def
        digest_attention_def digest_evidence_def Let_def)
  then obtain verified where verified: "rp_verified report = Some verified"
    using evaluate_verified_iff [OF run] flat_established by auto
  have "finalize_report flat_context flat_env flat_pack flat_lease 50 flat_view flat_identity
      (flat_ran packs st disk) = Inr report"
    using run flat_plan unresolved authority
    by (simp add: finalize_report_def flat_ran_def flat_context_def flat_pack_def flat_mission_def
        view_from_persisted_def runtime_unresolved_attention_ids_def)
  then show thesis
    using that [OF _ verified] run verified
    by (auto simp: evaluate_def Let_def split: if_split_asm)
qed

lemma flat_seal:
  assumes st: "young_store 3 st disk" "missions (ms_projection st) = [(''m'', flat_summarized)]"
      "bm_get (ms_event_index st) (''mission-ready:'' @ zeros) = None"
    and verified: "vp_authority_sequence verified = 3" "vp_verified_at_millis verified = 50"
      "vp_lease_digest verified = zeros" "vp_authority_head_digest verified = zeros"
  shows "\<exists>t m'. seal_ready flat_context flat_env flat_view verified zeros 50 (flat_ran packs st disk)
      = (t, Inr ()) \<and> runtime_mission (fst t) ''m'' = Some m' \<and> mv_status m' = ReadyToClose
      \<and> mv_latest_evidence_pack_digest m' = Some zeros \<and> mv_check_declarations m' = [flat_check]"
proof -
  let ?receipt = "\<lparr>pr_subject_digest = zeros, pr_seal_digest = zeros,
    pr_authority_head_digest = zeros, pr_lease_digest = zeros, pr_authority_sequence = 3,
    pr_verified_at_millis = 50\<rparr>"
  let ?ev = "MissionReady ''m'' ?receipt ''nagi-verifier'' zeros 50" and ?id = "''mission-ready:'' @ zeros"
  let ?m = "flat_summarized\<lparr>pm_status := ReadyToClose, pm_ready_receipt := Some ?receipt,
    pm_archive_receipt := None, pm_updated_at_millis := 50\<rparr>"
  have valid: "event_validate flat_sha ?ev = Inr ()"
    by (simp add: event_validate_def zeros_valid flat_ids validate_proof_receipt_def)
  have event: "event_mission_ready flat_sha ''m'' \<lparr>rdy_mission_id = ''m'', rdy_verified = verified\<rparr>
      ''nagi-verifier'' zeros 50 = Inr ?ev"
    using valid verified
    by (simp add: event_mission_ready_def ready_into_receipt_def receipt_from_verified_def
        subject_digest_def seal_digest_def subject_digest_from_parts_def seal_digest_from_parts_def
        validated_def)
  have "ms_projection st = \<lparr>missions = [(''m'', flat_summarized)]\<rparr>"
    using st(2) by (cases "ms_projection st") simp
  then have applied: "projection_apply flat_sha ?ev (ms_projection st) = Inr \<lparr>missions = [(''m'', ?m)]\<rparr>"
    by (simp add: on_mission_def mission_mut_def bm_get_def mission_ready_def flat_summarized_def
        flat_recorded_def flat_mission_def new_mission_def word_eval)
  have authority: "validate_current_proof_authority flat_sha st ?ev = Inr ()"
    using st(1)
    by (simp add: validate_current_proof_authority_def fence_authority_digest_def young_store_def)
  have lease: "lease_check flat_context flat_env ?ev (flat_ran packs st disk) = Inr ()"
    by (simp add: lease_check_def flat_ran_def flat_state_def ensure_available_def is_available_def
        guard_def claims_of_def has_current_authority_digest_def flat_defs bm_values_def
        lease_authority_digest_def)
  obtain st' disk' where "runtime_commit flat_context flat_env ?id ?ev (flat_ran packs st disk)
      = (flat_ran packs st' disk', Inr \<lparr>co_sequence = 3 + 1, co_was_duplicate = False\<rparr>)"
    and st': "ms_projection st' = \<lparr>missions = [(''m'', ?m)]\<rparr>"
    by (rule flat_runtime_commit [OF st(1) _ _ zeros_event_id(3) valid st(3) authority applied lease]) simp_all
  then have "seal_ready flat_context flat_env flat_view verified zeros 50 (flat_ran packs st disk)
      = (flat_ran packs st' disk', Inr ())"
    using event
    by (simp add: seal_ready_def sbind_def slift_def sreturn_def event_id_of_def reason_hash_def
        flat_context_def view_from_persisted_def)
  moreover have "runtime_mission (fst (flat_ran packs st' disk')) ''m'' = Some (view_from_persisted ''m'' ?m)"
    using st' by (simp add: flat_ran_def runtime_mission_def mission_view_of_def bm_get_def)
  ultimately show ?thesis
    by (intro exI [of _ "flat_ran packs st' disk'"] exI [of _ "view_from_persisted ''m'' ?m"])
       (simp add: view_from_persisted_def flat_summarized_def flat_recorded_def flat_mission_def)
qed

lemma flat_finalizes:
  obtains t out where
    "finalize_evidence_pack flat_context flat_env flat_pack flat_lease 50 flat_state = (t, Inr out)"
    "fo_verified out" "mv_status (fo_mission out) = ReadyToClose" "fo_pack_digest out = zeros"
    "mv_latest_evidence_pack_digest (fo_mission out) = Some zeros"
    "mv_check_declarations (fo_mission out) = [flat_check]"
proof -
  obtain packs where persisted: "persist_pack flat_context flat_env flat_pack flat_state
      = ((fst flat_state, (snd flat_state)\<lparr>wo_packs := packs\<rparr>), Inr zeros)"
    using flat_persist by blast
  have begun: "flat_ran packs flat_store empty_disk = (fst flat_state, (snd flat_state)\<lparr>wo_packs := packs\<rparr>)"
    by (simp add: flat_ran_def flat_state_def)
  obtain st disk where recorded: "record_pack flat_context flat_env ''m'' ''r'' flat_pack zeros 50
      (fst flat_state, (snd flat_state)\<lparr>wo_packs := packs\<rparr>) = (flat_ran packs st disk, Inr ())"
    and st: "young_store 3 st disk" "missions (ms_projection st) = [(''m'', flat_summarized)]"
    "bm_get (ms_event_index st) (''mission-ready:'' @ zeros) = None"
    using flat_record [of packs] unfolding begun by blast
  obtain report verified where report: "finalize_report flat_context flat_env flat_pack flat_lease 50
      flat_view flat_identity (flat_ran packs st disk) = Inr report" "rp_verified report = Some verified"
    and verified: "vp_authority_sequence verified = 3" "vp_verified_at_millis verified = 50"
      "vp_lease_digest verified = zeros" "vp_authority_head_digest verified = zeros"
    by (rule flat_report [OF st(1,2)])
  obtain t m' where seal: "seal_ready flat_context flat_env flat_view verified zeros 50
      (flat_ran packs st disk) = (t, Inr ())"
    and ready: "runtime_mission (fst t) ''m'' = Some m'" "mv_status m' = ReadyToClose"
      "mv_latest_evidence_pack_digest m' = Some zeros" "mv_check_declarations m' = [flat_check]"
    using flat_seal [OF st verified] by blast
  have view: "mv_mission_id flat_view = ''m''" "mv_status flat_view = ReviewRequired"
    "rv_run_id (run_view_of flat_run) = ''r''"
    by (simp_all add: view_from_persisted_def flat_mission_def run_view_of_def flat_run_def)
  have "finalize_evidence_pack flat_context flat_env flat_pack flat_lease 50 flat_state
      = (t, Inr \<lparr>fo_mission = m', fo_pack_digest = zeros, fo_verified = True\<rparr>)"
    using persisted recorded report seal ready view
    by (cases t) (simp add: finalize_evidence_pack_def flat_checks sbind_def slift_def sreturn_def
        settle_report_def into_verified_def mission_or_missing_def Let_def)
  then show thesis
    using that ready(2-4) by simp
qed

theorem finalize_verifies_closure_witness:
  "\<exists>t out plan. finalize_evidence_pack flat_context flat_env flat_pack flat_lease 50 flat_state
       = (t, Inr out)
     \<and> closure_established flat_sha flat_identity plan [flat_check] flat_records
         (sample_workspace ''1'') []
     \<and> mv_status (fo_mission out) = ReadyToClose"
proof -
  obtain t out where run: "finalize_evidence_pack flat_context flat_env flat_pack flat_lease 50
      flat_state = (t, Inr out)" "fo_verified out" "mv_status (fo_mission out) = ReadyToClose"
    using flat_finalizes by blast
  obtain m plan where "reviewable flat_context flat_env flat_pack flat_lease 50 flat_state m"
    "closure_established (ct_sha flat_context) (ep_identity flat_pack) plan (mv_check_declarations m)
      (ep_records flat_pack) (ep_current_workspace flat_pack) []"
    using finalize_verifies_closure [OF run(1,2)] by blast
  then show ?thesis
    using run
    by (auto simp: reviewable_def flat_state_def runtime_mission_def mission_view_of_def
        flat_store_def flat_pack_def bm_get_def view_from_persisted_def flat_mission_def flat_context_def)
qed

end
