(* ===== verification/Mission_Bridge.thy ===== *)
theory Mission_Bridge
  imports Runtime_Props
begin

text \<open>
  \<open>src/server/mission_bridge.rs\<close>: the mission methods of the socket protocol. Requests become
  operations of the runtime, and the durable state becomes the views and the portable proof receipt
  of the protocol. Whether JSON encodes a response is an argument, and the text of an error message
  is left out of the response.
\<close>

section \<open>The wire types\<close>

datatype wire_status =
    WmDraft | WmPreparing | WmActive | WmReviewRequired | WmReadyToClose | WmBlocked | WmFailed
  | WmArchived

datatype wire_provider_mode = WmManaged | WmPassthrough

datatype path_rule_v1 = RuleAll | RuleExact string | RulePrefix string

record command_check_v1 =
  mc_id :: string
  mc_program :: string
  mc_args :: "string list"
  mc_cwd :: string
  mc_relevant_paths :: "path_rule_v1 list"
  mc_required_artifacts :: "string list"
  mc_include_ignored :: bool
  mc_required :: bool
  mc_covers :: "nat list"

record manual_check_v1 =
  mn_id :: string
  mn_reviewers :: "string list"
  mn_allow_override :: bool
  mn_required :: bool
  mn_covers :: "nat list"

datatype mission_check_v1 = McCommand command_check_v1 | McManual manual_check_v1

record mission_create_params =
  mp_mission_id :: string
  mp_title :: string
  mp_repository_path :: string
  mp_objective :: string
  mp_acceptance_criteria :: "string list"

datatype mission_method =
    MethodCreate mission_create_params | MethodList | MethodGet string
  | MethodConfigure string "mission_check_v1 list" | MethodProofGet string
  | MethodHandoffPreview string mission_provider | MethodOther

datatype criterion_coverage_v1 = CoverageUnknown | CoverageUncovered | CoverageCovered

record criterion_summary_v1 =
  cm_criterion_id :: "string option"
  cm_description :: string
  cm_coverage :: criterion_coverage_v1
  cm_required_check_ids :: "string list"

datatype evidence_kind_v1 = EvidenceCommand | EvidenceManual

datatype evidence_assessment_v1 = AssessedPassed | AssessedFailed | AssessedStale

text \<open>The fields the bridge always leaves empty (duration, exit code and so on) are not kept.\<close>

record evidence_summary_v1 =
  em_check_id :: string
  em_kind :: evidence_kind_v1
  em_assessment :: evidence_assessment_v1
  em_workspace_digest :: string
  em_recorded_at_millis :: u64

record run_view_v1 =
  wr_run_id :: string
  wr_provider :: mission_provider
  wr_mode :: wire_provider_mode
  wr_worktree_path :: string
  wr_base_revision :: string
  wr_execute_declared_checks :: bool
  wr_execute_project_recipe :: bool
  wr_handoff_from_run_id :: "string option"
  wr_handoff_artifact_sha256 :: "string option"

record mission_view_v1 =
  wv_mission_id :: string
  wv_title :: string
  wv_repository_path :: string
  wv_objective :: string
  wv_criteria :: "criterion_summary_v1 list"
  wv_closure_configured :: bool
  wv_declared_check_count :: u32
  wv_checks :: "check_summary_v1 list"
  wv_evidence :: "evidence_summary_v1 list"
  wv_evidence_pack_digest :: "string option"
  wv_details_available :: bool
  wv_status :: wire_status
  wv_run :: "run_view_v1 option"
  wv_run_history :: "run_view_v1 list"
  wv_unresolved_attention_count :: u32
  wv_updated_at_millis :: u64

record mission_summary =
  su_mission_id :: string
  su_title :: string
  su_repository_path :: string
  su_status :: wire_status
  su_unresolved_attention_count :: nat
  su_updated_at_millis :: u64

datatype closure_decision_v1 = DecisionReadyToClose | DecisionArchived

record command_source_v1 =
  cr_program :: string
  cr_args :: "string list"
  cr_cwd :: string
  cr_exit_code :: "32 word"
  cr_started_at_millis :: u64
  cr_finished_at_millis :: u64

record manual_source_v1 =
  mr_reviewer :: string
  mr_reason :: string
  mr_is_override :: bool
  mr_recorded_at_millis :: u64

datatype evidence_source_v1 = SourceCommand command_source_v1 | SourceManual manual_source_v1

record proof_evidence_v1 =
  pv_check_id :: string
  pv_declaration_digest :: string
  pv_evidence_digest :: string
  pv_required :: bool
  pv_covered_criterion_ids :: "string list"
  pv_source :: evidence_source_v1
  pv_artifacts :: "artifact_evidence list"

record proof_receipt_v1 =
  px_identity :: proof_identity
  px_head_revision :: string
  px_workspace_digest :: string
  px_criteria_digest :: string
  px_checkset_digest :: string
  px_attention_digest :: string
  px_evidence_digest :: string
  px_subject_digest :: string
  px_seal_digest :: string
  px_authority_head_digest :: string
  px_lease_digest :: string
  px_authority_sequence :: u64
  px_verified_at_millis :: u64
  px_decision :: closure_decision_v1
  px_fresh_evidence :: "proof_evidence_v1 list"

section \<open>Views\<close>

fun wire_status_of :: "mission_status \<Rightarrow> wire_status" where
  "wire_status_of Draft = WmDraft"
| "wire_status_of Preparing = WmPreparing"
| "wire_status_of Active = WmActive"
| "wire_status_of ReviewRequired = WmReviewRequired"
| "wire_status_of ReadyToClose = WmReadyToClose"
| "wire_status_of MissionBlocked = WmBlocked"
| "wire_status_of MissionFailed = WmFailed"
| "wire_status_of Archived = WmArchived"

fun wire_mode_of :: "provider_mode \<Rightarrow> wire_provider_mode" where
  "wire_mode_of Managed = WmManaged"
| "wire_mode_of Passthrough = WmPassthrough"

definition u32_or :: "u32 \<Rightarrow> nat \<Rightarrow> u32" where
  "u32_or d n = (if n < 2 ^ 32 then of_nat n else d)"

definition run_view_v1_of :: "mission_run_view \<Rightarrow> run_view_v1" where
  "run_view_v1_of run =
     \<lparr>wr_run_id = rv_run_id run, wr_provider = wire_provider (rv_provider run),
      wr_mode = wire_mode_of (rv_mode run), wr_worktree_path = rv_worktree_path run,
      wr_base_revision = rv_base_revision run,
      wr_execute_declared_checks = rv_execute_declared_checks run,
      wr_execute_project_recipe = rv_execute_project_recipe run,
      wr_handoff_from_run_id = rv_handoff_from_run_id run,
      wr_handoff_artifact_sha256 = rv_handoff_artifact_sha256 run\<rparr>"

definition criterion_summary :: "check_declaration list \<Rightarrow> string \<times> string \<Rightarrow> criterion_summary_v1" where
  "criterion_summary declarations = (\<lambda>(description, criterion_id).
     let required = map ck_id (filter (\<lambda>c. ck_required c
           \<and> criterion_id \<in> set (ck_covered_criteria c)) declarations)
     in \<lparr>cm_criterion_id = Some criterion_id, cm_description = description,
         cm_coverage = (if required = [] then CoverageUncovered else CoverageCovered),
         cm_required_check_ids = required\<rparr>)"

fun check_status_v1_of :: "evidence_status \<Rightarrow> check_status_v1" where
  "check_status_v1_of EvPassed = WsPassed"
| "check_status_v1_of EvFailed = WsFailed"
| "check_status_v1_of EvStale = WsStale"

definition check_summary_of ::
  "(string, mission_evidence_view) bmap \<Rightarrow> check_declaration \<Rightarrow> check_summary_v1" where
  "check_summary_of evidence_by_check c =
     \<lparr>sy_check_id = ck_id c, sy_kind = (if is_manual c then WireManual else WireCommand),
      sy_required = ck_required c, sy_covered_criterion_ids = ck_covered_criteria c,
      sy_status = (case bm_get evidence_by_check (ck_id c) of
          Some e \<Rightarrow> check_status_v1_of (vw_status e)
        | None \<Rightarrow> if is_manual c then WsManualMissing else WsMissing)\<rparr>"

fun assessment_of :: "evidence_status \<Rightarrow> evidence_assessment_v1" where
  "assessment_of EvPassed = AssessedPassed"
| "assessment_of EvFailed = AssessedFailed"
| "assessment_of EvStale = AssessedStale"

definition evidence_summary_of ::
  "check_declaration list \<Rightarrow> mission_evidence_view \<Rightarrow> evidence_summary_v1" where
  "evidence_summary_of declarations item =
     \<lparr>em_check_id = vw_check_id item,
      em_kind = (case List.find (\<lambda>c. ck_id c = vw_check_id item) declarations of
          Some c \<Rightarrow> if is_manual c then EvidenceManual else EvidenceCommand
        | None \<Rightarrow> EvidenceCommand),
      em_assessment = assessment_of (vw_status item),
      em_workspace_digest = vw_workspace_hash item,
      em_recorded_at_millis = vw_updated_at_millis item\<rparr>"

definition mission_view_v1_of :: "sha256 \<Rightarrow> mission_view \<Rightarrow> mission_view_v1" where
  "mission_view_v1_of sha m =
     (let declarations = mv_check_declarations m;
          evidence_by_check = bm_collect (map (\<lambda>e. (vw_check_id e, e)) (mv_evidence m))
      in \<lparr>wv_mission_id = mv_mission_id m, wv_title = mv_title m,
          wv_repository_path = mv_repository_path m, wv_objective = mv_objective m,
          wv_criteria = map (criterion_summary declarations)
            (zip (mv_acceptance_criteria m) (criterion_ids sha (mv_acceptance_criteria m))),
          wv_closure_configured = (declarations \<noteq> []),
          wv_declared_check_count = u32_or 32 (length declarations),
          wv_checks = map (check_summary_of evidence_by_check) declarations,
          wv_evidence = map (evidence_summary_of declarations) (mv_evidence m),
          wv_evidence_pack_digest = mv_latest_evidence_pack_digest m,
          wv_details_available = True, wv_status = wire_status_of (mv_status m),
          wv_run = map_option run_view_v1_of (mv_run m),
          wv_run_history = map run_view_v1_of (mv_run_history m),
          wv_unresolved_attention_count = u32_or 100000 (mv_unresolved_attention_count m),
          wv_updated_at_millis = mv_updated_at_millis m\<rparr>)"

definition mission_summary_of :: "mission_view \<Rightarrow> mission_summary" where
  "mission_summary_of m =
     \<lparr>su_mission_id = mv_mission_id m, su_title = mv_title m,
      su_repository_path = mv_repository_path m, su_status = wire_status_of (mv_status m),
      su_unresolved_attention_count = mv_unresolved_attention_count m,
      su_updated_at_millis = mv_updated_at_millis m\<rparr>"

section \<open>Declarations from the wire\<close>

definition covered_ids :: "string list \<Rightarrow> nat list \<Rightarrow> mission_runtime_error + string list" where
  "covered_ids ids indexes =
     (if list_all (\<lambda>i. i < length ids) indexes then Inr (map (\<lambda>i. ids ! i) indexes)
      else Inl MrInvalidClosurePlan)"

fun path_rule_of :: "path_rule_v1 \<Rightarrow> path_rule" where
  "path_rule_of RuleAll = All"
| "path_rule_of (RuleExact p) = rule_exact p"
| "path_rule_of (RulePrefix p) = rule_prefix p"

definition optional_unless :: "bool \<Rightarrow> check_declaration \<Rightarrow> check_declaration" where
  "optional_unless required c = (if required then c else check_optional c)"

fun declaration_of :: "string list \<Rightarrow> mission_check_v1 \<Rightarrow> mission_runtime_error + check_declaration" where
  "declaration_of ids (McCommand c) =
     rbind (covered_ids ids (mc_covers c)) (\<lambda>covers.
       Inr (optional_unless (mc_required c) (check_covers covers
         (check_include_ignored (mc_include_ignored c)
           (check_command (mc_id c) (command_spec_new (mc_program c) (mc_args c) (mc_cwd c))
             (map path_rule_of (mc_relevant_paths c))
             (map artifact_requirement_new (mc_required_artifacts c)))))))"
| "declaration_of ids (McManual c) =
     rbind (covered_ids ids (mn_covers c)) (\<lambda>covers.
       let declaration = check_covers covers (check_reviewed_by (mn_reviewers c) (check_manual (mn_id c)))
       in Inr (optional_unless (mn_required c)
            (if mn_allow_override c then check_allow_manual_override declaration else declaration)))"

definition configure_declarations ::
  "sha256 \<Rightarrow> mission_runtime \<Rightarrow> string \<Rightarrow> mission_check_v1 list
     \<Rightarrow> mission_runtime_error + check_declaration list" where
  "configure_declarations sha ru mission_id checks =
     rbind (ok_or MissionMissing (runtime_mission ru mission_id)) (\<lambda>m.
       collect_results (declaration_of (criterion_ids sha (mv_acceptance_criteria m))) checks)"

section \<open>The portable proof receipt\<close>

fun proof_source :: "evidence_record \<Rightarrow> (string \<times> evidence_source_v1 \<times> artifact_evidence list) option" where
  "proof_source (RecCommand ev) = Some (ce_declaration_digest ev,
     SourceCommand \<lparr>cr_program = cs_program (ce_command ev), cr_args = cs_args (ce_command ev),
       cr_cwd = cs_cwd (ce_command ev), cr_exit_code = ce_exit_code ev,
       cr_started_at_millis = ce_started_at_millis ev,
       cr_finished_at_millis = ce_finished_at_millis ev\<rparr>, ce_artifacts ev)"
| "proof_source (RecManual ev) = Some (me_declaration_digest ev,
     SourceManual \<lparr>mr_reviewer = me_author ev, mr_reason = me_reason ev,
       mr_is_override = me_is_override ev, mr_recorded_at_millis = me_recorded_at_millis ev\<rparr>, [])"
| "proof_source (RecProviderClaim _) = None"

definition proof_evidence ::
  "sha256 \<Rightarrow> check_declaration \<Rightarrow> evidence_record \<Rightarrow> proof_evidence_v1 option" where
  "proof_evidence sha c r =
     map_option (\<lambda>(declaration_digest, source, artifacts).
       \<lparr>pv_check_id = ck_id c, pv_declaration_digest = declaration_digest,
        pv_evidence_digest = record_digest sha r, pv_required = ck_required c,
        pv_covered_criterion_ids = ck_covered_criteria c, pv_source = source,
        pv_artifacts = artifacts\<rparr>) (proof_source r)"

text \<open>The receipt that closed or readied the mission, with the decision it stands for.\<close>

definition decided_receipt :: "mission_view \<Rightarrow> mission_runtime_error + proof_receipt \<times> closure_decision_v1" where
  "decided_receipt m =
     (case mv_status m of
        ReadyToClose \<Rightarrow>
          rbind (ok_or ProofUnavailable (mv_ready_receipt m)) (\<lambda>r. Inr (r, DecisionReadyToClose))
      | Archived \<Rightarrow>
          rbind (ok_or ProofUnavailable (mv_archive_receipt m)) (\<lambda>r. Inr (r, DecisionArchived))
      | _ \<Rightarrow> Inl ProofUnavailable)"

definition fresh_evidence_of ::
  "sha256 \<Rightarrow> check_declaration list \<Rightarrow> evidence_pack \<Rightarrow> proof_evidence_v1 list" where
  "fresh_evidence_of sha declarations pack =
     List.map_filter (\<lambda>c.
       if bm_get (ep_summaries pack) (ck_id c) \<noteq> Some EvPassed then None
       else Option.bind (bm_get (ep_records pack) (ck_id c)) (proof_evidence sha c)) declarations"

definition portable_proof_receipt ::
  "runtime_context \<Rightarrow> runtime_env \<Rightarrow> runtime_state \<Rightarrow> string \<Rightarrow> mission_runtime_error + proof_receipt_v1" where
  "portable_proof_receipt cx env s mission_id =
     (let sha = ct_sha cx
      in rbind (map_err MrStore (validate_mission_id mission_id)) (\<lambda>_.
         rbind (ok_or MissionMissing (runtime_mission (fst s) mission_id)) (\<lambda>m.
         rbind (decided_receipt m) (\<lambda>(receipt, decision).
         rbind (ok_or ProofUnavailable (mv_run m)) (\<lambda>run.
         rbind (ok_or ProofUnavailable (mv_latest_evidence_pack_digest m)) (\<lambda>pack_digest.
         rbind (load_evidence_pack cx env pack_digest s) (\<lambda>pack.
         rbind (guard (ep_mission_id pack = mv_mission_id m \<and> ep_run_id pack = rv_run_id run)
                  ProofBindingMismatch) (\<lambda>_.
         rbind (view_closure_plan sha m (mv_check_declarations m)) (\<lambda>plan.
         let identity = ep_identity pack; current = ep_current_workspace pack;
             attention = digest_attention sha [];
             evidence = digest_evidence sha (ep_records pack);
             subject = proof_subject_digest sha identity current plan;
             seal = proof_seal_digest sha identity current plan attention evidence
               (pr_authority_head_digest receipt) (pr_lease_digest receipt)
               (pr_authority_sequence receipt) (pr_verified_at_millis receipt)
         in rbind (guard (pr_subject_digest receipt = subject \<and> pr_seal_digest receipt = seal)
                     ProofBindingMismatch) (\<lambda>_.
            let fresh = fresh_evidence_of sha (mv_check_declarations m) pack
            in rbind (guard (fresh \<noteq> []) ProofBindingMismatch) (\<lambda>_. Inr
              \<lparr>px_identity = identity\<lparr>pi_mission_id := mv_mission_id m, pi_run_id := rv_run_id run\<rparr>,
               px_head_revision = ws_tree_hash current,
               px_workspace_digest = workspace_digest sha current,
               px_criteria_digest = cp_criteria_digest plan,
               px_checkset_digest = cp_checkset_digest plan, px_attention_digest = attention,
               px_evidence_digest = evidence, px_subject_digest = subject, px_seal_digest = seal,
               px_authority_head_digest = pr_authority_head_digest receipt,
               px_lease_digest = pr_lease_digest receipt,
               px_authority_sequence = pr_authority_sequence receipt,
               px_verified_at_millis = pr_verified_at_millis receipt, px_decision = decision,
               px_fresh_evidence = fresh\<rparr>)))))))))))"

section \<open>Errors\<close>

definition store_error_code :: "mission_store_error \<Rightarrow> string" where
  "store_error_code e = (case e of
      SeMission (MissionAlreadyExists _) \<Rightarrow> ''mission_conflict''
    | SeReplay (EventIdConflict _) \<Rightarrow> ''mission_conflict''
    | SeField (InvalidIdentifier _) \<Rightarrow> ''invalid_mission''
    | SeField (InvalidText _) \<Rightarrow> ''invalid_mission''
    | SeField SeRepositoryPathNotAbsolute \<Rightarrow> ''invalid_mission''
    | SeField InvalidAcceptanceCriteria \<Rightarrow> ''invalid_mission''
    | SeMission SeInvalidClosurePlan \<Rightarrow> ''invalid_closure''
    | SeMission ClosureMissing \<Rightarrow> ''invalid_closure''
    | SeMission HandoffAttentionUnresolved \<Rightarrow> ''handoff_attention_unresolved''
    | SeMission HandoffSameProvider \<Rightarrow> ''invalid_handoff_provider''
    | SeMission RunAlreadyExists \<Rightarrow> ''run_conflict''
    | SeMission RunMismatch \<Rightarrow> ''run_mismatch''
    | _ \<Rightarrow> ''mission_runtime_error'')"

definition error_code :: "mission_runtime_error \<Rightarrow> string" where
  "error_code e = (case e of
      MrFeatureUnavailable \<Rightarrow> ''feature_unavailable''
    | MissionMissing \<Rightarrow> ''mission_not_found''
    | MissionConflict \<Rightarrow> ''mission_conflict''
    | ClosureConflict \<Rightarrow> ''mission_conflict''
    | MrRepositoryUnavailable \<Rightarrow> ''invalid_repository''
    | MrRepositoryNotGit \<Rightarrow> ''invalid_repository''
    | MrRepositoryMustBeRoot \<Rightarrow> ''invalid_repository''
    | MrInvalidClosurePlan \<Rightarrow> ''invalid_closure''
    | MrClosureMissing \<Rightarrow> ''invalid_closure''
    | ProofUnavailable \<Rightarrow> ''proof_not_ready''
    | ProofBindingMismatch \<Rightarrow> ''proof_binding_mismatch''
    | MrHandoff InvalidSourceState \<Rightarrow> ''invalid_handoff_state''
    | MrHandoff SourceRunMissing \<Rightarrow> ''invalid_handoff_state''
    | MrHandoff SameProvider \<Rightarrow> ''invalid_handoff_provider''
    | MrHandoff UnresolvedAttention \<Rightarrow> ''handoff_attention_unresolved''
    | MrHandoff _ \<Rightarrow> ''handoff_snapshot_failed''
    | MrStore se \<Rightarrow> store_error_code se
    | _ \<Rightarrow> ''mission_runtime_error'')"

section \<open>Serving a method\<close>

datatype response_result =
    ResMissionCreated mission_view_v1 bool | ResMissionList "mission_summary list"
  | ResMissionInfo mission_view_v1 | ResMissionConfigured mission_view_v1 bool
  | ResMissionProof proof_receipt_v1 | ResMissionHandoffPreview handoff_artifact

datatype api_response =
    RespSuccess string response_result | RespError string string | RespSerializationFailed

record api_outcome =
  ao_response :: api_response
  ao_changed :: bool

text \<open>
  What the process around the bridge decides: the clock, the redaction and JSON of a preview, and
  whether a response can be encoded.
\<close>

record bridge_env =
  br_runtime :: runtime_env
  br_now_millis :: u64
  br_redact :: replace_all
  br_preview_json :: "handoff_artifact \<Rightarrow> u8 list option"
  br_encodes :: "api_response \<Rightarrow> bool"

definition respond :: "bridge_env \<Rightarrow> string \<Rightarrow> mission_runtime_error + response_result \<Rightarrow> api_response" where
  "respond env request_id r =
     (let response = (case r of
            Inr result \<Rightarrow> RespSuccess request_id result
          | Inl e \<Rightarrow> RespError request_id (error_code e))
      in if br_encodes env response then response else RespSerializationFailed)"

definition handoff_preview ::
  "runtime_context \<Rightarrow> bridge_env \<Rightarrow> runtime_state \<Rightarrow> string \<Rightarrow> mission_provider
     \<Rightarrow> mission_runtime_error + handoff_artifact" where
  "handoff_preview cx env s mission_id target =
     rbind (map_err MrStore (validate_mission_id mission_id)) (\<lambda>_.
     rbind (ok_or MissionMissing (runtime_mission (fst s) mission_id)) (\<lambda>m.
       map_err MrHandoff (build_preview (ct_sha cx) (br_redact env) (br_preview_json env)
         (re_git (br_runtime env)) m (runtime_attention_items (fst s))
         (wv_checks (mission_view_v1_of (ct_sha cx) m)) target (br_now_millis env))))"

definition create_request_of :: "mission_create_params \<Rightarrow> u64 \<Rightarrow> create_mission_request" where
  "create_request_of params at_millis =
     \<lparr>cq_mission_id = mp_mission_id params, cq_title = mp_title params,
      cq_repository_path = mp_repository_path params, cq_objective = mp_objective params,
      cq_acceptance_criteria = mp_acceptance_criteria params, cq_at_millis = at_millis\<rparr>"

text \<open>The state, the result and whether the durable missions changed.\<close>

fun dispatch ::
  "runtime_context \<Rightarrow> bridge_env \<Rightarrow> mission_method \<Rightarrow> runtime_state
     \<Rightarrow> runtime_state \<times> (mission_runtime_error + response_result) \<times> bool" where
  "dispatch cx env (MethodCreate params) s =
     (case create_mission cx (br_runtime env) (create_request_of params (br_now_millis env)) s of
        (s', Inr (m, created)) \<Rightarrow>
          (s', Inr (ResMissionCreated (mission_view_v1_of (ct_sha cx) m) created), created)
      | (s', Inl e) \<Rightarrow> (s', Inl e, False))"
| "dispatch cx env MethodList s =
     (s, Inr (ResMissionList (map mission_summary_of (runtime_missions (fst s)))), False)"
| "dispatch cx env (MethodGet mission_id) s =
     (s, rbind (map_err MrStore (validate_mission_id mission_id)) (\<lambda>_.
           rbind (ok_or MissionMissing (runtime_mission (fst s) mission_id)) (\<lambda>m.
             Inr (ResMissionInfo (mission_view_v1_of (ct_sha cx) m)))), False)"
| "dispatch cx env (MethodConfigure mission_id checks) s =
     (case configure_declarations (ct_sha cx) (fst s) mission_id checks of
        Inl e \<Rightarrow> (s, Inl e, False)
      | Inr declarations \<Rightarrow>
          (case configure_mission cx (br_runtime env) mission_id declarations (br_now_millis env) s of
             (s', Inr (m, configured)) \<Rightarrow>
               (s', Inr (ResMissionConfigured (mission_view_v1_of (ct_sha cx) m) configured), configured)
           | (s', Inl e) \<Rightarrow> (s', Inl e, False)))"
| "dispatch cx env (MethodProofGet mission_id) s =
     (s, rbind (portable_proof_receipt cx (br_runtime env) s mission_id)
           (\<lambda>receipt. Inr (ResMissionProof receipt)), False)"
| "dispatch cx env (MethodHandoffPreview mission_id target) s =
     (s, rbind (handoff_preview cx env s mission_id target)
           (\<lambda>artifact. Inr (ResMissionHandoffPreview artifact)), False)"
| "dispatch cx env MethodOther s = (s, Inl MrFeatureUnavailable, False)"

definition handle_mission ::
  "runtime_context \<Rightarrow> bridge_env \<Rightarrow> string \<Rightarrow> mission_method \<Rightarrow> runtime_state
     \<Rightarrow> runtime_state \<times> api_outcome option" where
  "handle_mission cx env request_id m s =
     (if m = MethodOther then (s, None)
      else if \<not> is_available (fst s)
      then (s, Some \<lparr>ao_response = respond env request_id (Inl MrFeatureUnavailable), ao_changed = False\<rparr>)
      else case dispatch cx env m s of
        (s', r, changed) \<Rightarrow>
          (s', Some \<lparr>ao_response = respond env request_id r, ao_changed = changed\<rparr>))"

end
