(* ===== verification/Mission_Bridge_Props.thy ===== *)
theory Mission_Bridge_Props
  imports Mission_Bridge
begin

text \<open>
  What the bridge promises: a mission that was reported verified can be exported as a portable
  receipt, a receipt stands for the stored pack and the sealed decision, and the flag that tells
  the server whether anything changed is honest.
\<close>

section \<open>What a finalization leaves in the mission\<close>

definition mission_core ::
  "persisted_mission \<Rightarrow> string \<times> string \<times> string \<times> string list \<times> check_declaration list
     \<times> persisted_run option" where
  "mission_core m = (pm_title m, pm_repository_path m, pm_objective m, pm_acceptance_criteria m,
     pm_check_declarations m, pm_run m)"

lemma leaves_core:
  "leaves_field mission_core sha (EvidencePackRecorded i run digest hash at)"
  "leaves_field mission_core sha (EvidenceChanged i check_id status hash at)"
  "leaves_seals mission_core sha"
  by (auto simp: leaves_seals_def leaves_field_def mission_core_def evidence_pack_recorded_def
      evidence_changed_def status_changed_def mission_ready_def mission_archived_def result_iffs
      split: if_splits intro!: on_mission_leaves)

text \<open>Two views of one mission with the same definition, checks and run.\<close>

definition same_definition :: "mission_view \<Rightarrow> mission_view \<Rightarrow> bool" where
  "same_definition m m' \<longleftrightarrow> mv_mission_id m' = mv_mission_id m \<and> mv_title m' = mv_title m
     \<and> mv_repository_path m' = mv_repository_path m \<and> mv_objective m' = mv_objective m
     \<and> mv_acceptance_criteria m' = mv_acceptance_criteria m
     \<and> mv_check_declarations m' = mv_check_declarations m \<and> mv_run m' = mv_run m"

lemma core_shown:
  assumes "runtime_mission (fst s) i = Some m" and "runtime_mission (fst t) i = Some m'"
    and "missions_shown mission_core t i = missions_shown mission_core s i"
  shows "same_definition m m'"
  using assms
  by (auto simp: runtime_mission_def missions_shown_def mission_view_of_def view_from_persisted_def
      mission_core_def same_definition_def split: ownership.split_asm)

lemma same_definition_plan:
  "same_definition m m' \<Longrightarrow> view_closure_plan sha m' cs = view_closure_plan sha m cs"
  by (simp add: same_definition_def view_closure_plan_def)

text \<open>The seal of a mission whose status it changed stores the receipt of the verified report.\<close>

lemma committed_seal:
  assumes "runtime_commit cx env event_id ev s = (t, Inr out)"
    and "missions_shown pm_status s i = Some before" and "missions_shown pm_status t i \<noteq> Some before"
  shows "\<exists>p st. ru_ownership (fst t) = Owned st
    \<and> projection_apply (ct_sha cx) ev p = Inr (ms_projection st)"
  using assms
  by (fastforce simp: runtime_commit_def fallible_iffs owned_commit_def missions_shown_def
      split: ownership.split_asm prod.split_asm dest!: commit_projection)

text \<open>The receipt of a seal is the receipt of the mission afterwards.\<close>

lemma seal_receipt:
  "\<lbrakk> projection_apply sha (MissionReady i receipt actor reason at) p = Inr p'; bm_get (missions p') i = Some m \<rbrakk>
     \<Longrightarrow> pm_ready_receipt m = Some receipt"
  "\<lbrakk> projection_apply sha (MissionArchived i receipt seal actor reason at) p = Inr p';
     bm_get (missions p') i = Some m \<rbrakk> \<Longrightarrow> pm_archive_receipt m = Some receipt"
  by (auto simp: on_mission_def mission_ready_def mission_archived_def result_iffs bm_get_insert
      split: if_split_asm)

lemma shown_mission:
  assumes "runtime_mission (fst t) i = Some m" and "ru_ownership (fst t) = Owned st"
  obtains pm where "bm_get (missions (ms_projection st)) i = Some pm"
    "mv_ready_receipt m = pm_ready_receipt pm" "mv_archive_receipt m = pm_archive_receipt pm"
    "mv_latest_evidence_pack_digest m = map_option pek_pack_digest (pm_latest_evidence_pack pm)"
  using assms by (auto simp: runtime_mission_def mission_view_of_def view_from_persisted_def)

lemma sealed_ready:
  assumes "seal_ready cx env m verified digest at s = (t, Inr ())"
    and "missions_shown pm_status s (mv_mission_id m) = Some ReviewRequired"
    and "runtime_mission (fst t) (mv_mission_id m) = Some m'" and "mv_status m' = ReadyToClose"
  shows "mv_ready_receipt m' = Some (receipt_from_verified (ct_sha cx) verified)"
proof -
  let ?receipt = "receipt_from_verified (ct_sha cx) verified"
  obtain ev out where ev: "event_mission_ready (ct_sha cx) (mv_mission_id m)
        \<lparr>rdy_mission_id = mv_mission_id m, rdy_verified = verified\<rparr> ''nagi-verifier''
        (reason_hash (ct_sha cx) ''mission-ready-reason-v1'' digest) at = Inr ev"
    and run: "runtime_commit cx env (event_id_of (ct_sha cx) ''mission-ready:''
        ''mission-ready-event-id-v1'' [mv_mission_id m, digest]) ev s = (t, Inr out)"
    using assms(1) by (cases t) (auto simp: seal_ready_def fallible_iffs result_iffs)
  have "missions_shown pm_status t (mv_mission_id m) \<noteq> Some ReviewRequired"
    using mission_shown(1) [OF assms(3)] assms(4) by simp
  then obtain p st where owned: "ru_ownership (fst t) = Owned st"
    and applied: "projection_apply (ct_sha cx) ev p = Inr (ms_projection st)"
    using committed_seal [OF run assms(2)] by blast
  have "ev = MissionReady (mv_mission_id m) ?receipt ''nagi-verifier''
      (reason_hash (ct_sha cx) ''mission-ready-reason-v1'' digest) at"
    using ev by (simp add: event_mission_ready_def ready_into_receipt_def validated_iff)
  moreover obtain pm where "bm_get (missions (ms_projection st)) (mv_mission_id m) = Some pm"
    "mv_ready_receipt m' = pm_ready_receipt pm" "mv_archive_receipt m' = pm_archive_receipt pm"
    using shown_mission [OF assms(3) owned] by metis
  ultimately show ?thesis
    using seal_receipt(1) applied by simp
qed

lemma archived_steps:
  assumes "seal_archive cx env m verified digest at s = (t, Inr ())"
  shows "\<exists>(ready :: proof_receipt) ev out. event_mission_archived (ct_sha cx) (mv_mission_id m)
        \<lparr>arc_mission_id = mv_mission_id m, arc_verified = verified, arc_ready_seal_digest = pr_seal_digest ready\<rparr>
        ''nagi-verifier'' (reason_hash (ct_sha cx) ''mission-archive-reason-v1'' digest) at = Inr ev
    \<and> runtime_commit cx env (event_id_of (ct_sha cx) ''mission-archive:''
        ''mission-archive-event-id-v1'' [mv_mission_id m, digest]) ev s = (t, Inr out)"
  using assms by (auto simp: seal_archive_def fallible_iffs result_iffs split: if_split_asm)

lemma sealed_archive:
  assumes "seal_archive cx env m verified digest at s = (t, Inr ())"
    and "missions_shown pm_status s (mv_mission_id m) = Some ReadyToClose"
    and "runtime_mission (fst t) (mv_mission_id m) = Some m'" and "mv_status m' = Archived"
  shows "mv_archive_receipt m' = Some (receipt_from_verified (ct_sha cx) verified)"
proof -
  let ?receipt = "receipt_from_verified (ct_sha cx) verified"
  obtain ready :: proof_receipt and ev out where ev: "event_mission_archived (ct_sha cx) (mv_mission_id m)
        \<lparr>arc_mission_id = mv_mission_id m, arc_verified = verified, arc_ready_seal_digest = pr_seal_digest ready\<rparr>
        ''nagi-verifier'' (reason_hash (ct_sha cx) ''mission-archive-reason-v1'' digest) at = Inr ev"
    and run: "runtime_commit cx env (event_id_of (ct_sha cx) ''mission-archive:''
        ''mission-archive-event-id-v1'' [mv_mission_id m, digest]) ev s = (t, Inr out)"
    using archived_steps [OF assms(1)] by blast
  have "missions_shown pm_status t (mv_mission_id m) \<noteq> Some ReadyToClose"
    using mission_shown(1) [OF assms(3)] assms(4) by simp
  then obtain p st where owned: "ru_ownership (fst t) = Owned st"
    and applied: "projection_apply (ct_sha cx) ev p = Inr (ms_projection st)"
    using committed_seal [OF run assms(2)] by blast
  have "ev = MissionArchived (mv_mission_id m) ?receipt (pr_seal_digest ready) ''nagi-verifier''
      (reason_hash (ct_sha cx) ''mission-archive-reason-v1'' digest) at"
    using ev by (simp add: event_mission_archived_def archive_into_receipt_def validated_iff)
  moreover obtain pm where "bm_get (missions (ms_projection st)) (mv_mission_id m) = Some pm"
    "mv_ready_receipt m' = pm_ready_receipt pm" "mv_archive_receipt m' = pm_archive_receipt pm"
    using shown_mission [OF assms(3) owned] by metis
  ultimately show ?thesis
    using seal_receipt(2) applied by simp
qed

text \<open>What a verified report's proof binds, in the form the bridge recomputes it.\<close>

definition receipt_bound ::
  "sha256 \<Rightarrow> evidence_pack \<Rightarrow> closure_plan \<Rightarrow> proof_receipt \<Rightarrow> bool" where
  "receipt_bound sha pack plan receipt \<longleftrightarrow>
     pr_subject_digest receipt
       = proof_subject_digest sha (ep_identity pack) (ep_current_workspace pack) plan
     \<and> pr_seal_digest receipt
       = proof_seal_digest sha (ep_identity pack) (ep_current_workspace pack) plan
           (digest_attention sha []) (digest_evidence sha (ep_records pack))
           (pr_authority_head_digest receipt) (pr_lease_digest receipt)
           (pr_authority_sequence receipt) (pr_verified_at_millis receipt)"

lemma verified_bound:
  assumes "evaluate sha (ep_identity pack) plan cs (ep_records pack) (ep_current_workspace pack) []
      authority = Inr report"
    and "rp_verified report = Some verified"
  shows "receipt_bound sha pack plan (receipt_from_verified sha verified)"
  using assms
  by (auto simp: evaluate_def Let_def receipt_bound_def receipt_from_verified_def subject_digest_def
      proof_subject_digest_def seal_digest_def proof_seal_digest_def split: if_split_asm)

text \<open>The seal decides which receipt the mission has.\<close>

lemma settled_receipt:
  assumes "settle_report cx env m report digest at s = (t, Inr ())"
    and "rp_verified report = Some verified" and "mv_status m \<in> {ReviewRequired, ReadyToClose}"
    and "missions_shown pm_status s (mv_mission_id m) = Some (mv_status m)"
    and "runtime_mission (fst t) (mv_mission_id m) = Some m'"
    and "mv_status m' = (if mv_status m = ReadyToClose then Archived else ReadyToClose)"
  shows "decided_receipt m' = Inr (receipt_from_verified (ct_sha cx) verified,
      if mv_status m = ReadyToClose then DecisionArchived else DecisionReadyToClose)"
proof (cases "mv_status m = ReadyToClose")
  case True
  then have "seal_archive cx env m verified digest at s = (t, Inr ())"
    using assms(1,2) by (simp add: settle_report_def into_verified_def)
  then show ?thesis
    using sealed_archive [of cx env m verified digest at s t m'] True assms(4-6)
    by (simp add: decided_receipt_def)
next
  case False
  then have "seal_ready cx env m verified digest at s = (t, Inr ())"
    using assms(1,2) by (simp add: settle_report_def into_verified_def)
  then show ?thesis
    using sealed_ready [of cx env m verified digest at s t m'] False assms(3-6)
    by (simp add: decided_receipt_def)
qed

section \<open>Exporting\<close>

text \<open>A mission that a verified finalization left behind: everything an export reads.\<close>

definition exportable ::
  "runtime_context \<Rightarrow> runtime_state \<Rightarrow> evidence_pack \<Rightarrow> mission_view \<Rightarrow> proof_receipt
     \<Rightarrow> closure_decision_v1 \<Rightarrow> bool" where
  "exportable cx s pack m receipt decision \<longleftrightarrow>
     validate_mission_id (ep_mission_id pack) = Inr ()
     \<and> runtime_mission (fst s) (ep_mission_id pack) = Some m \<and> mv_mission_id m = ep_mission_id pack
     \<and> decided_receipt m = Inr (receipt, decision)
     \<and> (\<exists>run. mv_run m = Some run \<and> ep_run_id pack = rv_run_id run)
     \<and> (\<exists>plan. view_closure_plan (ct_sha cx) m (mv_check_declarations m) = Inr plan
          \<and> receipt_bound (ct_sha cx) pack plan receipt)"

text \<open>A declared check whose evidence the receipt can show.\<close>

definition shows_evidence :: "check_declaration list \<Rightarrow> evidence_pack \<Rightarrow> bool" where
  "shows_evidence cs pack \<longleftrightarrow> (\<exists>c \<in> set cs. bm_get (ep_summaries pack) (ck_id c) = Some EvPassed
     \<and> (\<exists>r. bm_get (ep_records pack) (ck_id c) = Some r \<and> proof_source r \<noteq> None))"

lemma fresh_evidence_shown:
  assumes "shows_evidence cs pack"
  shows "fresh_evidence_of sha cs pack \<noteq> []"
  using assms
  by (force simp: shows_evidence_def fresh_evidence_of_def map_filter_def proof_evidence_def
      filter_empty_conv)

lemma exportable_exports:
  assumes "exportable cx s pack m receipt decision"
    and "load_evidence_pack cx env digest s = Inr pack" and "mv_latest_evidence_pack_digest m = Some digest"
    and "shows_evidence (mv_check_declarations m) pack"
  shows "\<exists>px. portable_proof_receipt cx env s (ep_mission_id pack) = Inr px
    \<and> px_decision px = decision \<and> px_seal_digest px = pr_seal_digest receipt
    \<and> px_identity px = (ep_identity pack)\<lparr>pi_mission_id := ep_mission_id pack,
        pi_run_id := ep_run_id pack\<rparr>"
  using assms fresh_evidence_shown [OF assms(4)]
  by (auto simp: exportable_def receipt_bound_def portable_proof_receipt_def Let_def guard_def)

lemma pack_valid_id_stored: "pack_valid_id v \<Longrightarrow> validate_id label v = Inr ()"
  by (auto simp: pack_valid_id_def validate_id_ok_iff is_id_byte_def list_all_iff)

lemma pack_validate_ids:
  assumes "pack_validate codec pack = Inr ()"
  shows "pi_mission_id (ep_identity pack) = ep_mission_id pack"
    "pi_run_id (ep_identity pack) = ep_run_id pack" "validate_mission_id (ep_mission_id pack) = Inr ()"
  using assms
  by (auto simp: pack_validate_def validate_mission_id_def pack_valid_id_stored split: if_split_asm)

lemma finalization_exportable:
  assumes "finalize_evidence_pack cx env pack lease at s = (t, Inr out)" and "fo_verified out"
  shows "\<exists>receipt payload. exportable cx t pack (fo_mission out) receipt
        (if mv_status (fo_mission out) = Archived then DecisionArchived else DecisionReadyToClose)
    \<and> pack_validate (ct_pack_codec cx) pack = Inr () \<and> ru_evidence_packs (fst t)
    \<and> enc_pack (ct_pack_codec cx) pack = Some payload \<and> length payload \<le> max_pack_bytes
    \<and> fo_pack_digest out = hex_encode (ct_sha cx payload)
    \<and> pd_files (wo_packs (snd t)) (pack_file_name (fo_pack_digest out)) = Some (PackFile payload)"
proof -
  obtain m run s1 s2 report plan authority verified where
    facts: "reviewable cx env pack lease at s m" "mv_run m = Some run" "mv_mission_id m = ep_mission_id pack"
    and persisted: "persist_pack cx env pack s = (s1, Inr (fo_pack_digest out))"
    and recorded: "record_pack cx env (mv_mission_id m) (rv_run_id run) pack (fo_pack_digest out) at s1
      = (s2, Inr ())"
    and plan: "view_closure_plan (ct_sha cx) m (mv_check_declarations m) = Inr plan"
    and none: "runtime_unresolved_attention_ids (fst s2) (mv_mission_id m) = Inr []"
    and run: "evaluate (ct_sha cx) (ep_identity pack) plan (mv_check_declarations m) (ep_records pack)
      (ep_current_workspace pack) [] authority = Inr report" "rp_verified report = Some verified"
    and settled: "settle_report cx env m report (fo_pack_digest out) at s2 = (t, Inr ())"
    and shown: "runtime_mission (fst t) (mv_mission_id m) = Some (fo_mission out)"
    and status: "mv_status (fo_mission out) = (if mv_status m = ReadyToClose then Archived else ReadyToClose)"
    and before: "missions_shown pm_status s2 (mv_mission_id m) = Some (mv_status m)"
    by (rule verified_finalization [OF assms])
  have stored: "fst s1 = fst s" "ru_evidence_packs (fst s)"
    "pack_validate (ct_pack_codec cx) pack = Inr ()"
    using persist_pack_stores [OF persisted] by blast+
  obtain payload where payload: "enc_pack (ct_pack_codec cx) pack = Some payload"
    "length payload \<le> max_pack_bytes" "fo_pack_digest out = hex_encode (ct_sha cx payload)"
    "pd_files (wo_packs (snd s1)) (pack_file_name (fo_pack_digest out)) = Some (PackFile payload)"
    using persist_pack_stores [OF persisted] by blast
  have kept: "same_shown mission_core s1 s2" "same_shown mission_core s2 t"
    using record_pack_keeps [where field = mission_core, OF leaves_core(1,2)] recorded
      settle_report_keeps [OF leaves_core(3)] settled
    unfolding keeps_def by (metis fst_conv)+
  have "missions_shown mission_core s1 = missions_shown mission_core s"
    using stored(1) by (simp add: missions_shown_def fun_eq_iff)
  then have "missions_shown mission_core t (mv_mission_id m) = missions_shown mission_core s (mv_mission_id m)"
    using kept by (simp add: same_shown_def)
  moreover have "runtime_mission (fst s) (mv_mission_id m) = Some m"
    using facts by (simp add: reviewable_def)
  ultimately have same: "same_definition m (fo_mission out)"
    using core_shown shown by blast
  have "mv_status m \<in> {ReviewRequired, ReadyToClose}"
    using facts(1) by (simp add: reviewable_def)
  from settled_receipt [OF settled run(2) this before shown status]
  have "exportable cx t pack (fo_mission out) (receipt_from_verified (ct_sha cx) verified)
      (if mv_status (fo_mission out) = Archived then DecisionArchived else DecisionReadyToClose)"
    using facts shown same plan verified_bound [OF run] same_definition_plan [OF same]
      pack_validate_ids(3) [OF stored(3)] status
    by (auto simp: exportable_def reviewable_def same_definition_def)
  then show ?thesis
    using stored payload kept by (auto simp: same_shown_def)
qed

lemma verified_exports:
  assumes "hash32 (ct_sha cx)"
    and "finalize_evidence_pack cx env pack lease at s = (t, Inr out)" and "fo_verified out"
    and "mv_latest_evidence_pack_digest (fo_mission out) = Some (fo_pack_digest out)"
    and "\<And>payload. enc_pack (ct_pack_codec cx) pack = Some payload
           \<Longrightarrow> dec_pack (ct_pack_codec cx) payload = Some pack"
    and "pk_read (re_pack_io env')" and "shows_evidence (mv_check_declarations (fo_mission out)) pack"
  shows "\<exists>px. portable_proof_receipt cx env' t (ep_mission_id pack) = Inr px
    \<and> px_identity px = ep_identity pack
    \<and> px_decision px
        = (if mv_status (fo_mission out) = Archived then DecisionArchived else DecisionReadyToClose)"
proof -
  obtain receipt payload where ready: "exportable cx t pack (fo_mission out) receipt
        (if mv_status (fo_mission out) = Archived then DecisionArchived else DecisionReadyToClose)"
    and stored: "pack_validate (ct_pack_codec cx) pack = Inr ()" "ru_evidence_packs (fst t)"
    "enc_pack (ct_pack_codec cx) pack = Some payload" "length payload \<le> max_pack_bytes"
    "fo_pack_digest out = hex_encode (ct_sha cx payload)"
    "pd_files (wo_packs (snd t)) (pack_file_name (fo_pack_digest out)) = Some (PackFile payload)"
    using finalization_exportable [OF assms(2,3)] by blast
  have "load (ct_sha cx) (ct_pack_codec cx) (re_pack_io env') (fo_pack_digest out) (wo_packs (snd t))
      = Inr pack"
    using stored_pack_loads [OF assms(1) stored(1,4) assms(5) [OF stored(3)]] stored(5,6) assms(6) by simp
  then have "load_evidence_pack cx env' (fo_pack_digest out) t = Inr pack"
    using stored(2) by (cases t) (simp add: load_evidence_pack_def guard_def)
  from exportable_exports [OF ready this assms(4,7)]
  obtain px where px: "portable_proof_receipt cx env' t (ep_mission_id pack) = Inr px"
    "px_decision px
       = (if mv_status (fo_mission out) = Archived then DecisionArchived else DecisionReadyToClose)"
    "px_identity px = (ep_identity pack)\<lparr>pi_mission_id := ep_mission_id pack, pi_run_id := ep_run_id pack\<rparr>"
    by blast
  moreover have "px_identity px = ep_identity pack"
    using px(3) pack_validate_ids [OF stored(1)] by (cases "ep_identity pack") simp
  ultimately show ?thesis by blast
qed


text \<open>A verified mission and the receipt it is exported with.\<close>

lemma flat_readable:
  "hash32 (ct_sha flat_context)" "pk_read (re_pack_io flat_env)"
  "dec_pack (ct_pack_codec flat_context) payload = Some flat_pack" "ep_mission_id flat_pack = ''m''"
  "ep_identity flat_pack = flat_identity" "shows_evidence [flat_check] flat_pack"
  using flat_hash32
  by (simp_all add: flat_context_def flat_env_def calm_pack_io_def flat_pack_def shows_evidence_def
      flat_check_fields flat_records_def bm_get_def)

lemma flat_exports: "\<exists>t px. portable_proof_receipt flat_context flat_env t ''m'' = Inr px"
proof -
  obtain t out where "finalize_evidence_pack flat_context flat_env flat_pack flat_lease 50 flat_state
      = (t, Inr out)" "fo_verified out" "mv_status (fo_mission out) = ReadyToClose"
    "fo_pack_digest out = zeros" "mv_latest_evidence_pack_digest (fo_mission out) = Some zeros"
    "mv_check_declarations (fo_mission out) = [flat_check]"
    by (rule flat_finalizes)
  then have "\<exists>px. portable_proof_receipt flat_context flat_env t ''m'' = Inr px"
    using verified_exports [of flat_context flat_env flat_pack flat_lease 50 flat_state t out flat_env]
      flat_readable by auto
  then show ?thesis by blast
qed


text \<open>
  C17: a receipt that is served stands for what is stored: the mission it names is ready to close or
  archived as the receipt's decision says, the pack decodes from the stored bytes with the recorded
  digest and is about the mission's current run, the subject and the seal that closed the mission
  are the ones recomputed from that pack, and there is at least one entry of evidence, each from a
  declared check that passed and with the digest of that check's record.
\<close>

theorem served_receipt_is_bound:
  assumes "portable_proof_receipt cx env s mission_id = Inr px"
  shows "\<exists>m run digest payload pack plan receipt.
    runtime_mission (fst s) mission_id = Some m \<and> decided_receipt m = Inr (receipt, px_decision px)
    \<and> mv_run m = Some run \<and> ep_mission_id pack = mission_id \<and> ep_run_id pack = rv_run_id run
    \<and> mv_latest_evidence_pack_digest m = Some digest
    \<and> pd_files (wo_packs (snd s)) (pack_file_name digest) = Some (PackFile payload)
    \<and> hex_encode (ct_sha cx payload) = to_ascii_lowercase digest
    \<and> dec_pack (ct_pack_codec cx) payload = Some pack
    \<and> view_closure_plan (ct_sha cx) m (mv_check_declarations m) = Inr plan
    \<and> receipt_bound (ct_sha cx) pack plan receipt
    \<and> px_subject_digest px = pr_subject_digest receipt \<and> px_seal_digest px = pr_seal_digest receipt
    \<and> px_fresh_evidence px \<noteq> []
    \<and> (\<forall>entry \<in> set (px_fresh_evidence px). \<exists>c r. c \<in> set (mv_check_declarations m)
         \<and> bm_get (ep_summaries pack) (ck_id c) = Some EvPassed
         \<and> bm_get (ep_records pack) (ck_id c) = Some r \<and> pv_check_id entry = ck_id c
         \<and> pv_evidence_digest entry = record_digest (ct_sha cx) r)"
proof -
  obtain m run digest pack plan receipt where
    facts: "runtime_mission (fst s) mission_id = Some m" "decided_receipt m = Inr (receipt, px_decision px)"
    "mv_run m = Some run" "mv_latest_evidence_pack_digest m = Some digest"
    "view_closure_plan (ct_sha cx) m (mv_check_declarations m) = Inr plan"
    and loaded: "load_evidence_pack cx env digest s = Inr pack"
    and pack: "ep_mission_id pack = mv_mission_id m" "ep_run_id pack = rv_run_id run"
    and bound: "receipt_bound (ct_sha cx) pack plan receipt"
      "px_subject_digest px = pr_subject_digest receipt" "px_seal_digest px = pr_seal_digest receipt"
    and fresh: "px_fresh_evidence px = fresh_evidence_of (ct_sha cx) (mv_check_declarations m) pack"
      "px_fresh_evidence px \<noteq> []"
    using assms
    by (auto simp: portable_proof_receipt_def Let_def result_iffs guard_iff receipt_bound_def
        split: prod.split_asm)
  have "\<exists>payload. pd_files (wo_packs (snd s)) (pack_file_name digest) = Some (PackFile payload)
      \<and> hex_encode (ct_sha cx payload) = to_ascii_lowercase digest
      \<and> dec_pack (ct_pack_codec cx) payload = Some pack"
    using loaded
    by (auto simp: load_evidence_pack_def load_def result_iffs read_regular_limited_def
        split: prod.split_asm if_split_asm option.split_asm pack_node.split_asm)
  moreover have "\<forall>entry \<in> set (px_fresh_evidence px). \<exists>c r. c \<in> set (mv_check_declarations m)
         \<and> bm_get (ep_summaries pack) (ck_id c) = Some EvPassed
         \<and> bm_get (ep_records pack) (ck_id c) = Some r \<and> pv_check_id entry = ck_id c
         \<and> pv_evidence_digest entry = record_digest (ct_sha cx) r"
    unfolding fresh(1)
    by (auto simp: fresh_evidence_of_def map_filter_def proof_evidence_def bind_eq_Some_conv
        split: if_split_asm)
  moreover have "ep_mission_id pack = mission_id"
    using pack(1) mission_shown(2) [OF facts(1)] by simp
  ultimately show ?thesis
    using facts pack(2) bound fresh(2) by blast
qed

theorem served_receipt_is_bound_witness:
  "\<exists>t px m receipt. portable_proof_receipt flat_context flat_env t ''m'' = Inr px
     \<and> runtime_mission (fst t) ''m'' = Some m \<and> decided_receipt m = Inr (receipt, px_decision px)
     \<and> px_seal_digest px = pr_seal_digest receipt \<and> px_fresh_evidence px \<noteq> []"
proof -
  obtain t px where served: "portable_proof_receipt flat_context flat_env t ''m'' = Inr px"
    using flat_exports by blast
  then show ?thesis
    using served_receipt_is_bound [OF served] by blast
qed

section \<open>The changed flag\<close>

lemma failed_commit_projection:
  assumes "commit sha codec io event_id ev st disk = (st', disk', Inl e)"
  shows "ms_projection st' = ms_projection st"
  using assms
  by (auto simp: commit_def write_commit_def Let_def split: sum.split_asm prod.split_asm if_split_asm)

text \<open>The durable missions the runtime shows, whole.\<close>

definition all_missions :: "runtime_state \<Rightarrow> string \<Rightarrow> persisted_mission option" where
  "all_missions s = missions_shown (\<lambda>m. m) s"

lemma map_err_Inl_iff: "map_err f r = Inl e \<longleftrightarrow> (\<exists>e'. r = Inl e' \<and> e = f e')"
  by (cases r) auto

lemma failed_runtime_commit:
  assumes "runtime_commit cx env event_id ev s = (t, Inl e)"
  shows "all_missions t = all_missions s"
  using assms
  by (auto simp: runtime_commit_def sbind_def slift_def owned_commit_def all_missions_def
      missions_shown_def fun_eq_iff map_err_Inl_iff dest!: failed_commit_projection
      split: sum.split_asm prod.split_asm ownership.split_asm)

text \<open>
  A commit changes nothing or leaves what its event makes of the projection; an event that adds a
  mission or rewrites one leaves that mission there.
\<close>

lemma done_runtime_commit:
  assumes "runtime_commit cx env event_id ev s = (t, Inr out)"
    and "\<And>p p'. projection_apply (ct_sha cx) ev p = Inr p' \<Longrightarrow> bm_get (missions p') i \<noteq> None"
  shows "all_missions t = all_missions s \<or> runtime_mission (fst t) i \<noteq> None"
  using assms
  by (auto simp: runtime_commit_def sbind_def slift_def owned_commit_def all_missions_def
      missions_shown_def fun_eq_iff runtime_mission_def mission_view_of_def dest!: commit_projection
      split: sum.split_asm prod.split_asm ownership.split_asm)

lemma event_leaves_mission:
  "projection_apply sha (MissionCreated i a b c d e at) p = Inr p' \<Longrightarrow> bm_get (missions p') i \<noteq> None"
  "projection_apply sha (ClosureConfigured i cs at) p = Inr p' \<Longrightarrow> bm_get (missions p') i \<noteq> None"
  by (auto simp: on_mission_def mission_created_def result_iffs bm_get_insert split: if_split_asm)

text \<open>An operation whose answer says whether it changed the missions.\<close>

definition honest :: "('a \<times> bool) runtime_op \<Rightarrow> bool" where
  "honest op \<longleftrightarrow> (\<forall>s t r. op s = (t, r) \<longrightarrow> (\<exists>a. r = Inr (a, True)) \<or> all_missions t = all_missions s)"

lemma honest_rules:
  "(\<And>a. honest (g a)) \<Longrightarrow> honest (sbind (slift f) g)"
  "honest (sreturn (a, False))" "honest (sfail e)"
  by (auto simp: honest_def sbind_def slift_def sreturn_def sfail_def split: sum.splits)

lemma honest_commit:
  assumes "\<And>p p'. projection_apply (ct_sha cx) ev p = Inr p' \<Longrightarrow> bm_get (missions p') i \<noteq> None"
  shows "honest (sbind (runtime_commit cx env event_id ev) (\<lambda>_.
           sbind (mission_or_missing i) (\<lambda>m. sreturn (m, True))))"
proof -
  have "(\<exists>a. r = Inr (a, True)) \<or> all_missions t = all_missions s"
    if run: "sbind (runtime_commit cx env event_id ev) (\<lambda>_.
        sbind (mission_or_missing i) (\<lambda>m. sreturn (m, True))) s = (t, r)" for s t r
  proof -
    obtain u c where commit: "runtime_commit cx env event_id ev s = (u, c)" by fastforce
    show ?thesis
    proof (cases c)
      case (Inl e)
      then show ?thesis
        using run commit failed_runtime_commit [of cx env event_id ev s u e] by (simp add: sbind_def)
    next
      case (Inr out)
      then show ?thesis
        using run commit done_runtime_commit [of cx env event_id ev s u out i] assms
        by (cases "runtime_mission (fst u) i")
           (auto simp: sbind_def mission_or_missing_def slift_def sreturn_def split: prod.split_asm)
    qed
  qed
  then show ?thesis
    by (simp add: honest_def)
qed

lemma created_event:
  assumes "event_mission_created sha i title path objective criteria at = Inr ev"
    and "projection_apply sha ev p = Inr p'"
  shows "bm_get (missions p') i \<noteq> None"
  using assms event_leaves_mission(1) by (auto simp: event_mission_created_def validated_iff)

lemma configured_event:
  assumes "event_closure_configured sha i cs at = Inr ev" and "projection_apply sha ev p = Inr p'"
  shows "bm_get (missions p') i \<noteq> None"
  using assms event_leaves_mission(2) by (auto simp: event_closure_configured_def validated_iff)

lemma honest_slift:
  assumes "\<And>s a. f s = Inr a \<Longrightarrow> honest (g a)"
  shows "honest (sbind (slift f) g)"
  using assms by (fastforce simp: honest_def sbind_def slift_def split: sum.splits)

lemma honest_mission: "(\<And>m. honest (g m)) \<Longrightarrow> honest (sbind (mission_or_missing i) g)"
  unfolding mission_or_missing_def by (rule honest_rules(1))

lemmas honest_events = honest_commit [OF created_event] honest_commit [OF configured_event]

lemma honest_create: "honest (create_mission cx env q)"
  unfolding create_mission_def
  by (auto intro!: honest_rules(2,3) honest_slift honest_events(1) simp: result_iffs split: option.splits)

lemma honest_configure: "honest (configure_mission cx env i cs at)"
  unfolding configure_mission_def Let_def
  by (auto intro!: honest_rules(2,3) honest_slift honest_mission honest_events(2) simp: result_iffs)

lemma honestD: "honest op \<Longrightarrow> op s = (t, r) \<Longrightarrow> (\<exists>a. r = Inr (a, True)) \<or> all_missions t = all_missions s"
  unfolding honest_def by blast

lemma honest_dispatch:
  assumes "dispatch cx env q s = (t, r, changed)"
  shows "changed \<or> all_missions t = all_missions s"
    and "(\<forall>params. q \<noteq> MethodCreate params) \<Longrightarrow> (\<forall>i checks. q \<noteq> MethodConfigure i checks) \<Longrightarrow> t = s"
proof -
  show "t = s" if "\<forall>params. q \<noteq> MethodCreate params" "\<forall>i checks. q \<noteq> MethodConfigure i checks"
    using assms that by (cases q) simp_all
  show "changed \<or> all_missions t = all_missions s"
  proof (cases q)
    case (MethodCreate params)
    then show ?thesis
      using assms by (auto split: prod.split_asm sum.split_asm dest!: honestD [OF honest_create])
  next
    case (MethodConfigure i checks)
    then show ?thesis
      using assms by (auto split: prod.split_asm sum.split_asm dest!: honestD [OF honest_configure])
  qed (use assms in simp_all)
qed

text \<open>
  The flag that tells the server to publish the missions again is honest: after a method that
  reports no change, error answers included, every durable mission is the one from before, and a
  method that only reads changes no part of the state.
\<close>

theorem unchanged_flag_is_honest:
  assumes "handle_mission cx env request_id q s = (t, out)"
  shows "(out = None \<or> \<not> ao_changed (the out) \<longrightarrow> all_missions t = all_missions s)
    \<and> ((\<exists>params. q = MethodCreate params) \<or> (\<exists>i checks. q = MethodConfigure i checks) \<or> t = s)"
proof -
  obtain u r changed where run: "dispatch cx env q s = (u, r, changed)"
    by (metis prod_cases3)
  have "t = s \<and> out = None \<or> t = s \<and> \<not> ao_changed (the out)
      \<or> t = u \<and> out \<noteq> None \<and> ao_changed (the out) = changed"
    using assms run by (auto simp: handle_mission_def split: if_split_asm)
  then show ?thesis
    using honest_dispatch [OF run] by auto
qed

text \<open>Configuring a mission again with checks of the same digest.\<close>

definition flat_bridge :: bridge_env where
  "flat_bridge = \<lparr>br_runtime = flat_env, br_now_millis = 60, br_redact = (\<lambda>_ s. s),
     br_preview_json = (\<lambda>_. None), br_encodes = (\<lambda>_. True)\<rparr>"

theorem unchanged_flag_is_honest_witness:
  "\<exists>t answer. handle_mission flat_context flat_bridge ''1'' (MethodConfigure ''m'' []) flat_state
     = (t, Some answer) \<and> \<not> ao_changed answer \<and> all_missions t = all_missions flat_state"
proof -
  obtain answer where run: "handle_mission flat_context flat_bridge ''1'' (MethodConfigure ''m'' []) flat_state
      = (flat_state, Some answer)" "\<not> ao_changed answer"
    by (simp add: handle_mission_def is_available_def flat_state_def configure_declarations_def
        runtime_mission_def mission_view_of_def flat_store_def bm_get_def configure_mission_def
        mission_or_missing_def sbind_def slift_def sreturn_def flat_mission_def view_from_persisted_def
        declaration_set_digest_def flat_context_def Let_def)
  then show ?thesis
    using unchanged_flag_is_honest [OF run(1)] by auto
qed

end
