(* ===== verification/Float32.thy ===== *)
theory Float32
  imports Complex_Main "HOL-Library.Word" "HOL-Library.Log_Nat"
begin

text \<open>
  Rust's \<open>f32\<close>, as far as the layout uses it: the values of IEEE 754 binary32 with the arithmetic
  rounded to nearest, ties to even. A finite value is its rational number; the sign of zero and the
  payload of NaN, which none of the modelled code observes, are left out.
\<close>

datatype f32 = F32NaN | F32Inf bool | F32 rat

section \<open>Rounding\<close>

text \<open>The exponent of the power of two below a positive rational.\<close>

definition binary_exponent :: "rat \<Rightarrow> int" where
  "binary_exponent x =
     (let (n, d) = quotient_of x; e = bitlen n - bitlen d
      in if x < 2 powi e then e - 1 else e)"

definition round_half_even :: "rat \<Rightarrow> int" where
  "round_half_even x =
     (let f = \<lfloor>x\<rfloor>; d = x - of_int f
      in if d < 1 / 2 \<or> (d = 1 / 2 \<and> even f) then f else f + 1)"

text \<open>The distance of neighbouring values around \<open>x\<close>: 24 bits, at least \<open>2 ^ -149\<close>.\<close>

definition f32_ulp :: "rat \<Rightarrow> rat" where
  "f32_ulp x = 2 powi max (binary_exponent x - 23) (- 149)"

definition f32_nearest :: "rat \<Rightarrow> rat" where
  "f32_nearest x =
     (if x = 0 then 0
      else sgn x * of_int (round_half_even (\<bar>x\<bar> / f32_ulp \<bar>x\<bar>)) * f32_ulp \<bar>x\<bar>)"

definition f32_of_rat :: "rat \<Rightarrow> f32" where
  "f32_of_rat x =
     (let v = f32_nearest x in if 2 ^ 128 \<le> \<bar>v\<bar> then F32Inf (v < 0) else F32 v)"

section \<open>Operations\<close>

fun f32_is_finite :: "f32 \<Rightarrow> bool" where
  "f32_is_finite (F32 _) \<longleftrightarrow> True"
| "f32_is_finite _ \<longleftrightarrow> False"

fun f32_add :: "f32 \<Rightarrow> f32 \<Rightarrow> f32" where
  "f32_add (F32 x) (F32 y) = f32_of_rat (x + y)"
| "f32_add (F32Inf s) (F32Inf t) = (if s = t then F32Inf s else F32NaN)"
| "f32_add (F32Inf s) (F32 _) = F32Inf s"
| "f32_add (F32 _) (F32Inf t) = F32Inf t"
| "f32_add _ _ = F32NaN"

fun f32_neg :: "f32 \<Rightarrow> f32" where
  "f32_neg (F32 x) = F32 (- x)"
| "f32_neg (F32Inf s) = F32Inf (\<not> s)"
| "f32_neg F32NaN = F32NaN"

fun f32_mul :: "f32 \<Rightarrow> f32 \<Rightarrow> f32" where
  "f32_mul (F32 x) (F32 y) = f32_of_rat (x * y)"
| "f32_mul (F32Inf s) (F32Inf t) = F32Inf (s \<noteq> t)"
| "f32_mul (F32Inf s) (F32 y) = (if y = 0 then F32NaN else F32Inf (s \<noteq> (y < 0)))"
| "f32_mul (F32 x) (F32Inf t) = (if x = 0 then F32NaN else F32Inf ((x < 0) \<noteq> t))"
| "f32_mul _ _ = F32NaN"

text \<open>Comparisons are false on NaN.\<close>

fun f32_less :: "f32 \<Rightarrow> f32 \<Rightarrow> bool" where
  "f32_less (F32 x) (F32 y) \<longleftrightarrow> x < y"
| "f32_less (F32Inf s) (F32 _) \<longleftrightarrow> s"
| "f32_less (F32 _) (F32Inf t) \<longleftrightarrow> \<not> t"
| "f32_less (F32Inf s) (F32Inf t) \<longleftrightarrow> s \<and> \<not> t"
| "f32_less _ _ \<longleftrightarrow> False"

definition f32_eq :: "f32 \<Rightarrow> f32 \<Rightarrow> bool" where
  "f32_eq a b \<longleftrightarrow> a = b \<and> a \<noteq> F32NaN"

definition f32_clamp :: "f32 \<Rightarrow> f32 \<Rightarrow> f32 \<Rightarrow> f32" where
  "f32_clamp lo hi x =
     (let y = (if f32_less x lo then lo else x) in if f32_less hi y then hi else y)"

text \<open>\<open>round\<close> goes half away from zero; the cast to an unsigned type saturates and sends NaN to 0.\<close>

fun f32_round :: "f32 \<Rightarrow> f32" where
  "f32_round (F32 x) = F32 (sgn x * of_int \<lfloor>\<bar>x\<bar> + 1 / 2\<rfloor>)"
| "f32_round v = v"

fun f32_to_u16 :: "f32 \<Rightarrow> 16 word" where
  "f32_to_u16 (F32 x) = of_int (max 0 (min 65535 (if x < 0 then \<lceil>x\<rceil> else \<lfloor>x\<rfloor>)))"
| "f32_to_u16 (F32Inf s) = (if s then 0 else - 1)"
| "f32_to_u16 F32NaN = 0"

definition f32_of_u16 :: "16 word \<Rightarrow> f32" where
  "f32_of_u16 w = F32 (of_nat (unat w))"

definition f32_lit :: "rat \<Rightarrow> f32" where
  "f32_lit x = f32_of_rat x"

section \<open>Bounds of the rounding\<close>

lemma binary_exponent_bounds:
  assumes "0 < x"
  shows "2 powi binary_exponent x \<le> x" and "x < 2 powi (binary_exponent x + 1)"
proof -
  obtain n d where q: "quotient_of x = (n, d)" by fastforce
  then have d: "0 < d" and x: "x = of_int n / of_int d"
    by (simp_all add: quotient_of_denom_pos quotient_of_div)
  then have n: "0 < n"
    using assms by (simp add: zero_less_divide_iff)
  let ?e = "bitlen n - bitlen d"
  have pow: "of_int (2 ^ nat b) = (2::rat) powi b" if "0 \<le> b" for b
    using that by (simp add: power_int_def)
  have pos: "1 \<le> bitlen n" "1 \<le> bitlen d"
    using n d by (simp_all add: bitlen_alt_def)
  have low: "(2::rat) powi (bitlen n - 1) \<le> of_int n" "(2::rat) powi (bitlen d - 1) \<le> of_int d"
    and high: "of_int n < (2::rat) powi bitlen n" "of_int d < (2::rat) powi bitlen d"
    using bitlen_bounds [OF n] bitlen_bounds [OF d] pos pow [of "bitlen n - 1"] pow [of "bitlen d - 1"]
      pow [of "bitlen n"] pow [of "bitlen d"]
    by (metis diff_ge_0_iff_ge of_int_le_iff of_int_less_iff bitlen_nonneg)+
  have "2 powi (?e - 1) * of_int d \<le> (2::rat) powi (?e - 1) * 2 powi bitlen d"
    using high(2) by (simp add: less_imp_le)
  also have "\<dots> = 2 powi (bitlen n - 1)"
    by (simp flip: power_int_add)
  finally have lower: "2 powi (?e - 1) \<le> x"
    using low(1) d by (simp add: x pos_le_divide_eq)
  have "(2::rat) powi bitlen n = 2 powi (?e + 1) * 2 powi (bitlen d - 1)"
    by (simp flip: power_int_add)
  also have "\<dots> \<le> 2 powi (?e + 1) * of_int d"
    using low(2) by simp
  finally have upper: "x < 2 powi (?e + 1)"
    using high(1) d by (simp add: x pos_divide_less_eq)
  show "2 powi binary_exponent x \<le> x" and "x < 2 powi (binary_exponent x + 1)"
    using lower upper by (auto simp: binary_exponent_def q Let_def not_less)
qed

lemma round_half_even_bounds:
  "0 \<le> x \<Longrightarrow> 0 \<le> round_half_even x"
  "x \<le> of_int k \<Longrightarrow> round_half_even x \<le> k"
proof -
  show "0 \<le> x \<Longrightarrow> 0 \<le> round_half_even x"
    by (auto simp: round_half_even_def Let_def)
  assume le: "x \<le> of_int k"
  then have floor: "\<lfloor>x\<rfloor> \<le> k"
    by (metis floor_mono floor_of_int)
  show "round_half_even x \<le> k"
  proof (cases "\<lfloor>x\<rfloor> = k")
    case True
    then have "x = of_int k"
      using le by (metis of_int_floor_le order_antisym)
    then show ?thesis by (simp add: round_half_even_def)
  qed (use floor in \<open>auto simp: round_half_even_def Let_def\<close>)
qed

lemma round_half_even_int [simp]: "round_half_even (of_int k) = k"
  by (simp add: round_half_even_def)

text \<open>Rounding does not leave the interval between zero and a whole number of at most 24 bits.\<close>

lemma f32_nearest_bounds:
  assumes "0 \<le> x" and "x \<le> of_int k" and "k < 2 ^ 24"
  shows "0 \<le> f32_nearest x" and "f32_nearest x \<le> of_int k"
proof -
  have "0 \<le> f32_nearest x \<and> f32_nearest x \<le> of_int k" if pos: "0 < x"
  proof -
    define q where "q = max (binary_exponent x - 23) (- 149)"
    have "2 powi binary_exponent x \<le> (of_int k :: rat)"
      using binary_exponent_bounds(1) [OF pos] assms(2) by simp
    also have "\<dots> < of_int (2 ^ 24)"
      using assms(3) by (simp only: of_int_less_iff)
    also have "\<dots> = 2 powi 24" by (simp add: power_int_def)
    finally have "binary_exponent x < 24"
      by (metis not_less one_le_numeral power_int_increasing)
    then have "q = - int (nat (- q))" by (simp add: q_def)
    then obtain j where q: "q = - int j" by blast
    have scaled: "of_int k / 2 powi q = (of_int (k * 2 ^ j) :: rat)"
      by (simp add: q power_int_minus divide_inverse)
    have "x / 2 powi q \<le> of_int (k * 2 ^ j)"
      using assms(2) unfolding scaled [symmetric] by (simp add: divide_right_mono)
    from round_half_even_bounds(2) [OF this]
    have "round_half_even (x / 2 powi q) \<le> k * 2 ^ j" .
    then have "of_int (round_half_even (x / 2 powi q)) \<le> (of_int k :: rat) / 2 powi q"
      unfolding scaled by (simp only: of_int_le_iff)
    moreover have "0 \<le> round_half_even (x / 2 powi q)"
      using pos by (intro round_half_even_bounds(1)) simp
    moreover have "f32_nearest x = of_int (round_half_even (x / 2 powi q)) * 2 powi q"
      using pos by (simp add: f32_nearest_def f32_ulp_def q_def sgn_if)
    ultimately show ?thesis by (simp add: pos_le_divide_eq)
  qed
  then show "0 \<le> f32_nearest x" and "f32_nearest x \<le> of_int k"
    using assms(1,2) by (cases "x = 0"; simp add: f32_nearest_def)+
qed

end
