(* ===== verification/Layout.thy ===== *)
theory Layout
  imports Float32 Prelude "HOL-Library.Product_Lexorder"
begin

text \<open>
  \<open>src/layout.rs\<close>: the tree of splits that tiles a workspace with panes, with its focus, the
  areas of the panes, resizing and the search for a neighbour. The counter pane ids are allocated
  from is a state of its own. \<open>Rect\<close> and \<open>Direction\<close> are types of the crate ratatui; what
  \<open>Rect::new\<close> returns is the argument \<open>new_rect\<close>. The borders of a pane and \<open>inner_rect\<close> are
  set by the renderer later and are left out.
\<close>

section \<open>Types\<close>

type_synonym pane_id = u32

datatype direction = Horizontal | Vertical

record rect =
  rc_x :: u16
  rc_y :: u16
  rc_width :: u16
  rc_height :: u16

type_synonym new_rect = "u16 \<Rightarrow> u16 \<Rightarrow> u16 \<Rightarrow> u16 \<Rightarrow> rect"

record pane_info =
  pn_id :: pane_id
  pn_rect :: rect
  pn_is_focused :: bool

record split_border =
  sb_pos :: u16
  sb_direction :: direction
  sb_ratio :: f32
  sb_area :: rect
  sb_path :: "bool list"

datatype nav_direction = NavLeft | NavRight | NavUp | NavDown

datatype node = Pane pane_id | Split direction f32 node node

record tile_layout =
  tl_root :: node
  tl_focus :: pane_id

definition pane_alloc :: "u32 \<Rightarrow> u32 \<times> pane_id" where
  "pane_alloc counter = (counter + 1, counter)"

definition u16_saturating_sub :: "u16 \<Rightarrow> u16 \<Rightarrow> u16" where
  "u16_saturating_sub a b = (if a < b then 0 else a - b)"

definition u16_saturating_add :: "u16 \<Rightarrow> u16 \<Rightarrow> u16" where
  "u16_saturating_add a b = (if unat a + unat b < 2 ^ 16 then a + b else - 1)"

definition u16_saturating_mul :: "u16 \<Rightarrow> u16 \<Rightarrow> u16" where
  "u16_saturating_mul a b = (if unat a * unat b < 2 ^ 16 then a * b else - 1)"

definition u16_abs_diff :: "u16 \<Rightarrow> u16 \<Rightarrow> u16" where
  "u16_abs_diff a b = (if a < b then b - a else a - b)"

section \<open>Operations on the tree\<close>

fun count_panes :: "node \<Rightarrow> nat" where
  "count_panes (Pane _) = 1"
| "count_panes (Split _ _ first second) = count_panes first + count_panes second"

fun collect_ids :: "node \<Rightarrow> pane_id list" where
  "collect_ids (Pane i) = [i]"
| "collect_ids (Split _ _ first second) = collect_ids first @ collect_ids second"

fun swap_pane_ids :: "pane_id \<Rightarrow> pane_id \<Rightarrow> node \<Rightarrow> node" where
  "swap_pane_ids a b (Pane i) = (if i = a then Pane b else if i = b then Pane a else Pane i)"
| "swap_pane_ids a b (Split d r first second) =
     Split d r (swap_pane_ids a b first) (swap_pane_ids a b second)"

fun split_at :: "pane_id \<Rightarrow> direction \<Rightarrow> pane_id \<Rightarrow> f32 \<Rightarrow> node \<Rightarrow> node" where
  "split_at target d new_id split_ratio (Pane i) =
     (if i = target then Split d split_ratio (Pane i) (Pane new_id) else Pane i)"
| "split_at target d new_id split_ratio (Split d' r first second) =
     Split d' r (split_at target d new_id split_ratio first) (split_at target d new_id split_ratio second)"

definition clamp_ratio :: "f32 \<Rightarrow> f32" where
  "clamp_ratio r = f32_clamp (f32_lit (1 / 10)) (f32_lit (9 / 10)) r"

definition valid_split_ratio :: "f32 \<Rightarrow> f32" where
  "valid_split_ratio r = (if f32_is_finite r then clamp_ratio r else F32 (1 / 2))"

fun remove_pane :: "pane_id \<Rightarrow> node \<Rightarrow> node option" where
  "remove_pane target (Pane i) = (if i = target then None else Some (Pane i))"
| "remove_pane target (Split d r first second) =
     (case (remove_pane target first, remove_pane target second) of
        (None, Some s) \<Rightarrow> Some s
      | (Some f, None) \<Rightarrow> Some f
      | (Some f, Some s) \<Rightarrow> Some (Split d r f s)
      | (None, None) \<Rightarrow> None)"

text \<open>The updated node and whether there was a split at the path.\<close>

fun node_set_ratio_at :: "f32 \<Rightarrow> bool list \<Rightarrow> node \<Rightarrow> node \<times> bool" where
  "node_set_ratio_at new_ratio path (Pane i) = (Pane i, False)"
| "node_set_ratio_at new_ratio [] (Split d r first second) = (Split d new_ratio first second, True)"
| "node_set_ratio_at new_ratio (turn # path) (Split d r first second) =
     (if turn
      then case node_set_ratio_at new_ratio path second of (s, ok) \<Rightarrow> (Split d r first s, ok)
      else case node_set_ratio_at new_ratio path first of (f, ok) \<Rightarrow> (Split d r f second, ok))"

fun get_ratio_at :: "bool list \<Rightarrow> node \<Rightarrow> f32 option" where
  "get_ratio_at path (Pane i) = None"
| "get_ratio_at [] (Split d r first second) = Some r"
| "get_ratio_at (turn # path) (Split d r first second) =
     get_ratio_at path (if turn then second else first)"

fun collect_ratios :: "bool list \<Rightarrow> node \<Rightarrow> (bool list \<times> f32) list" where
  "collect_ratios path (Pane _) = []"
| "collect_ratios path (Split _ r first second) =
     (path, r) # collect_ratios (path @ [False]) first @ collect_ratios (path @ [True]) second"

definition split_ratios :: "node \<Rightarrow> (bool list \<times> f32) list" where
  "split_ratios n = collect_ratios [] n"

definition same_ratios :: "(bool list \<times> f32) list \<Rightarrow> (bool list \<times> f32) list \<Rightarrow> bool" where
  "same_ratios xs ys \<longleftrightarrow> list_all2 (\<lambda>(p, r) (q, s). p = q \<and> f32_eq r s) xs ys"

section \<open>Areas\<close>

definition scaled_length :: "u16 \<Rightarrow> f32 \<Rightarrow> u16" where
  "scaled_length len r = f32_to_u16 (f32_round (f32_mul (f32_of_u16 len) r))"

fun split_rect :: "new_rect \<Rightarrow> rect \<Rightarrow> direction \<Rightarrow> f32 \<Rightarrow> rect \<times> rect" where
  "split_rect new_rect area Horizontal r =
     (let first_w = scaled_length (rc_width area) r;
          second_w = u16_saturating_sub (rc_width area) first_w
      in (new_rect (rc_x area) (rc_y area) first_w (rc_height area),
          new_rect (rc_x area + first_w) (rc_y area) second_w (rc_height area)))"
| "split_rect new_rect area Vertical r =
     (let first_h = scaled_length (rc_height area) r;
          second_h = u16_saturating_sub (rc_height area) first_h
      in (new_rect (rc_x area) (rc_y area) (rc_width area) first_h,
          new_rect (rc_x area) (rc_y area + first_h) (rc_width area) second_h))"

fun collect_panes :: "new_rect \<Rightarrow> node \<Rightarrow> rect \<Rightarrow> pane_id \<Rightarrow> pane_info list" where
  "collect_panes new_rect (Pane i) area focus =
     [\<lparr>pn_id = i, pn_rect = area, pn_is_focused = (i = focus)\<rparr>]"
| "collect_panes new_rect (Split d r first second) area focus =
     (case split_rect new_rect area d r of
        (a, b) \<Rightarrow> collect_panes new_rect first a focus @ collect_panes new_rect second b focus)"

fun collect_splits :: "new_rect \<Rightarrow> node \<Rightarrow> rect \<Rightarrow> bool list \<Rightarrow> split_border list" where
  "collect_splits new_rect (Pane i) area path = []"
| "collect_splits new_rect (Split d r first second) area path =
     (case split_rect new_rect area d r of
        (a, b) \<Rightarrow>
          \<lparr>sb_pos = (case d of Horizontal \<Rightarrow> rc_x a + rc_width a | Vertical \<Rightarrow> rc_y a + rc_height a),
           sb_direction = d, sb_ratio = r, sb_area = area, sb_path = path\<rparr>
          # collect_splits new_rect first a (path @ [False])
          @ collect_splits new_rect second b (path @ [True]))"

section \<open>The layout\<close>

definition layout_new :: "u32 \<Rightarrow> u32 \<times> tile_layout \<times> pane_id" where
  "layout_new counter =
     (case pane_alloc counter of
        (counter', root_id) \<Rightarrow> (counter', \<lparr>tl_root = Pane root_id, tl_focus = root_id\<rparr>, root_id))"

definition pane_count :: "tile_layout \<Rightarrow> nat" where
  "pane_count l = count_panes (tl_root l)"

definition panes :: "new_rect \<Rightarrow> tile_layout \<Rightarrow> rect \<Rightarrow> pane_info list" where
  "panes new_rect l area = collect_panes new_rect (tl_root l) area (tl_focus l)"

definition splits :: "new_rect \<Rightarrow> tile_layout \<Rightarrow> rect \<Rightarrow> split_border list" where
  "splits new_rect l area = collect_splits new_rect (tl_root l) area []"

definition pane_ids :: "tile_layout \<Rightarrow> pane_id list" where
  "pane_ids l = collect_ids (tl_root l)"

definition split_focused_with_ratio ::
  "direction \<Rightarrow> f32 \<Rightarrow> u32 \<times> tile_layout \<Rightarrow> (u32 \<times> tile_layout) \<times> pane_id" where
  "split_focused_with_ratio d r = (\<lambda>(counter, l).
     case pane_alloc counter of
       (counter', new_id) \<Rightarrow>
         ((counter', \<lparr>tl_root = split_at (tl_focus l) d new_id (valid_split_ratio r) (tl_root l),
            tl_focus = new_id\<rparr>), new_id))"

definition split_focused :: "direction \<Rightarrow> u32 \<times> tile_layout \<Rightarrow> (u32 \<times> tile_layout) \<times> pane_id" where
  "split_focused d = split_focused_with_ratio d (F32 (1 / 2))"

definition insert_pane_near ::
  "pane_id \<Rightarrow> pane_id \<Rightarrow> direction \<Rightarrow> f32 \<Rightarrow> tile_layout \<Rightarrow> tile_layout \<times> bool" where
  "insert_pane_near target moved d r l =
     (if target = moved then (l, False)
      else if target \<notin> set (pane_ids l) \<or> moved \<in> set (pane_ids l) then (l, False)
      else (\<lparr>tl_root = split_at target d moved (valid_split_ratio r) (tl_root l),
             tl_focus = moved\<rparr>, True))"

text \<open>\<open>position\<close> is the index of the first match; \<open>None\<close> as a result is a panic.\<close>

fun position :: "('a \<Rightarrow> bool) \<Rightarrow> 'a list \<Rightarrow> nat option" where
  "position P [] = None"
| "position P (x # xs) = (if P x then Some 0 else map_option Suc (position P xs))"

definition close_focused :: "tile_layout \<Rightarrow> (tile_layout \<times> bool) option" where
  "close_focused l =
     (if pane_count l \<le> 1 then Some (l, False)
      else
        let target = tl_focus l; ids = pane_ids l
        in case position (\<lambda>i. i = target) ids of
             None \<Rightarrow> None
           | Some pos \<Rightarrow>
               let new_focus = (if pos + 1 < length ids then ids ! (pos + 1) else ids ! (pos - 1))
               in case remove_pane target (tl_root l) of
                    Some new_root \<Rightarrow> Some (\<lparr>tl_root = new_root, tl_focus = new_focus\<rparr>, True)
                  | None \<Rightarrow> Some (l\<lparr>tl_root := Pane 0\<rparr>, False))"

definition focus_pane :: "pane_id \<Rightarrow> tile_layout \<Rightarrow> tile_layout" where
  "focus_pane i l = (if i \<in> set (pane_ids l) then l\<lparr>tl_focus := i\<rparr> else l)"

definition swap_panes :: "pane_id \<Rightarrow> pane_id \<Rightarrow> tile_layout \<Rightarrow> tile_layout \<times> bool" where
  "swap_panes a b l =
     (if a = b then (l, False)
      else if a \<notin> set (pane_ids l) \<or> b \<notin> set (pane_ids l) then (l, False)
      else (l\<lparr>tl_root := swap_pane_ids a b (tl_root l)\<rparr>, True))"

definition set_ratio_at :: "bool list \<Rightarrow> f32 \<Rightarrow> tile_layout \<Rightarrow> tile_layout \<times> bool" where
  "set_ratio_at path r l =
     (case node_set_ratio_at (clamp_ratio r) path (tl_root l) of
        (tree, ok) \<Rightarrow> (l\<lparr>tl_root := tree\<rparr>, ok))"

section \<open>Resizing\<close>

definition ranges_overlap :: "u16 \<Rightarrow> u16 \<Rightarrow> u16 \<Rightarrow> u16 \<Rightarrow> bool" where
  "ranges_overlap a_start a_len b_start b_len \<longleftrightarrow> a_start < b_start + b_len \<and> a_start + a_len > b_start"

fun opposite_direction :: "nav_direction \<Rightarrow> nav_direction" where
  "opposite_direction NavLeft = NavRight"
| "opposite_direction NavRight = NavLeft"
| "opposite_direction NavUp = NavDown"
| "opposite_direction NavDown = NavUp"

definition nav_edge :: "rect \<Rightarrow> nav_direction \<Rightarrow> u16" where
  "nav_edge focused nav =
     (case nav of
        NavLeft \<Rightarrow> rc_x focused
      | NavRight \<Rightarrow> rc_x focused + rc_width focused
      | NavUp \<Rightarrow> rc_y focused
      | NavDown \<Rightarrow> rc_y focused + rc_height focused)"

definition split_edge_distance :: "rect \<Rightarrow> nav_direction \<Rightarrow> split_border \<Rightarrow> nat" where
  "split_edge_distance focused nav b = nat \<bar>uint (sb_pos b) - uint (nav_edge focused nav)\<bar>"

definition split_on_requested_edge :: "rect \<Rightarrow> nav_direction \<Rightarrow> split_border \<Rightarrow> bool" where
  "split_on_requested_edge focused nav b \<longleftrightarrow> split_edge_distance focused nav b \<le> 1"

definition split_area_overlaps_focused_pane :: "rect \<Rightarrow> nav_direction \<Rightarrow> split_border \<Rightarrow> bool" where
  "split_area_overlaps_focused_pane focused nav b =
     (if nav \<in> {NavLeft, NavRight}
      then ranges_overlap (rc_y (sb_area b)) (rc_height (sb_area b)) (rc_y focused) (rc_height focused)
      else ranges_overlap (rc_x (sb_area b)) (rc_width (sb_area b)) (rc_x focused) (rc_width focused))"

text \<open>\<open>min_by_key\<close>: the first element whose key is least.\<close>

definition min_by_key :: "('a \<Rightarrow> 'k::linorder) \<Rightarrow> 'a list \<Rightarrow> 'a option" where
  "min_by_key key xs = (if xs = [] then None else Some (arg_min_list key xs))"

definition nearest_resize_split ::
  "split_border list \<Rightarrow> direction \<Rightarrow> rect \<Rightarrow> nav_direction \<Rightarrow> split_border option" where
  "nearest_resize_split bs target_dir focused nav =
     min_by_key (split_edge_distance focused nav)
       (filter (split_on_requested_edge focused nav)
         (filter (split_area_overlaps_focused_pane focused nav)
           (filter (\<lambda>b. sb_direction b = target_dir) bs)))"

definition nav_axis :: "nav_direction \<Rightarrow> direction" where
  "nav_axis nav = (if nav \<in> {NavLeft, NavRight} then Horizontal else Vertical)"

definition resize_focused ::
  "new_rect \<Rightarrow> nav_direction \<Rightarrow> f32 \<Rightarrow> rect \<Rightarrow> tile_layout \<Rightarrow> tile_layout" where
  "resize_focused new_rect nav delta area l =
     (case List.find pn_is_focused (panes new_rect l area) of
        None \<Rightarrow> l
      | Some focused \<Rightarrow>
          let bs = splits new_rect l area; target_dir = nav_axis nav;
              grows = (nav \<in> {NavRight, NavDown});
              best = (case nearest_resize_split bs target_dir (pn_rect focused) nav of
                  Some b \<Rightarrow> Some b
                | None \<Rightarrow> nearest_resize_split bs target_dir (pn_rect focused) (opposite_direction nav))
          in case best of
               None \<Rightarrow> l
             | Some b \<Rightarrow>
                 let current_ratio = (case get_ratio_at (sb_path b) (tl_root l) of
                         Some r \<Rightarrow> r | None \<Rightarrow> F32 (1 / 2));
                     adj = (if grows then delta else f32_neg delta)
                 in fst (set_ratio_at (sb_path b) (f32_add current_ratio adj) l))"

definition resize_pane ::
  "new_rect \<Rightarrow> pane_id \<Rightarrow> nav_direction \<Rightarrow> f32 \<Rightarrow> rect \<Rightarrow> tile_layout \<Rightarrow> tile_layout \<times> bool" where
  "resize_pane new_rect i nav delta area l =
     (if i \<notin> set (pane_ids l) then (l, False)
      else
        let before = split_ratios (tl_root l); previous_focus = tl_focus l;
            l' = (resize_focused new_rect nav delta area (l\<lparr>tl_focus := i\<rparr>))\<lparr>tl_focus := previous_focus\<rparr>
        in (l', \<not> same_ratios (split_ratios (tl_root l')) before))"

section \<open>The neighbour of a pane\<close>

definition range_overlap_amount :: "u16 \<Rightarrow> u16 \<Rightarrow> u16 \<Rightarrow> u16 \<Rightarrow> u16" where
  "range_overlap_amount a_start a_len b_start b_len =
     (let a_end = u16_saturating_add a_start a_len; b_end = u16_saturating_add b_start b_len
      in u16_saturating_sub (min a_end b_end) (max a_start b_start))"

definition range_center_distance :: "u16 \<Rightarrow> u16 \<Rightarrow> u16 \<Rightarrow> u16 \<Rightarrow> u16" where
  "range_center_distance a_start a_len b_start b_len =
     (let a_center = u16_saturating_add (u16_saturating_mul a_start 2) a_len;
          b_center = u16_saturating_add (u16_saturating_mul b_start 2) b_len
      in u16_abs_diff a_center b_center)"

text \<open>The lane of a rectangle across the direction of travel: rows when moving sideways.\<close>

definition nav_lane :: "nav_direction \<Rightarrow> rect \<Rightarrow> u16 \<times> u16" where
  "nav_lane nav r = (if nav \<in> {NavLeft, NavRight} then (rc_y r, rc_height r) else (rc_x r, rc_width r))"

definition beyond_edge :: "nav_direction \<Rightarrow> rect \<Rightarrow> rect \<Rightarrow> bool" where
  "beyond_edge nav fr r \<longleftrightarrow>
     (case nav of
        NavLeft \<Rightarrow> rc_x r + rc_width r \<le> rc_x fr
      | NavRight \<Rightarrow> rc_x r \<ge> rc_x fr + rc_width fr
      | NavUp \<Rightarrow> rc_y r + rc_height r \<le> rc_y fr
      | NavDown \<Rightarrow> rc_y r \<ge> rc_y fr + rc_height fr)"

definition edge_distance :: "nav_direction \<Rightarrow> rect \<Rightarrow> rect \<Rightarrow> u16" where
  "edge_distance nav fr r =
     (case nav of
        NavLeft \<Rightarrow> u16_saturating_sub (rc_x fr) (rc_x r + rc_width r)
      | NavRight \<Rightarrow> u16_saturating_sub (rc_x r) (rc_x fr + rc_width fr)
      | NavUp \<Rightarrow> u16_saturating_sub (rc_y fr) (rc_y r + rc_height r)
      | NavDown \<Rightarrow> u16_saturating_sub (rc_y r) (rc_y fr + rc_height fr))"

text \<open>The key of the search; \<open>Reverse\<close> puts the larger overlap first.\<close>

definition neighbour_key ::
  "nav_direction \<Rightarrow> rect \<Rightarrow> nat \<times> pane_info \<Rightarrow> nat \<times> int \<times> nat \<times> nat" where
  "neighbour_key nav fr = (\<lambda>(index, p).
     let (start, len) = nav_lane nav (pn_rect p); (f_start, f_len) = nav_lane nav fr
     in (unat (edge_distance nav fr (pn_rect p)),
         - uint (range_overlap_amount start len f_start f_len),
         unat (range_center_distance start len f_start f_len), index))"

definition find_in_direction :: "pane_info \<Rightarrow> nav_direction \<Rightarrow> pane_info list \<Rightarrow> pane_id option" where
  "find_in_direction focused nav ps =
     (let fr = pn_rect focused; (f_start, f_len) = nav_lane nav fr
      in map_option (\<lambda>(_, p). pn_id p) (min_by_key (neighbour_key nav fr)
           (filter (\<lambda>(_, p). beyond_edge nav fr (pn_rect p)
                \<and> ranges_overlap (fst (nav_lane nav (pn_rect p))) (snd (nav_lane nav (pn_rect p)))
                    f_start f_len)
             (filter (\<lambda>(_, p). pn_id p \<noteq> pn_id focused) (enumerate 0 ps)))))"

section \<open>What a user does\<close>

text \<open>
  The operations on one layout and the counter of the process. A pane that is inserted was allocated
  before, and the counter has not gone around: both are conditions on a step, not checks of the code.
\<close>

datatype layout_op =
    OpSplit direction f32 | OpInsert pane_id pane_id direction f32 | OpClose | OpFocus pane_id
  | OpSwap pane_id pane_id | OpSetRatio "bool list" f32 | OpResize nav_direction f32 rect
  | OpResizePane pane_id nav_direction f32 rect

fun layout_step :: "new_rect \<Rightarrow> layout_op \<Rightarrow> u32 \<times> tile_layout \<Rightarrow> (u32 \<times> tile_layout) option" where
  "layout_step new_rect (OpSplit d r) s = Some (fst (split_focused_with_ratio d r s))"
| "layout_step new_rect (OpInsert target moved d r) (c, l) =
     Some (c, fst (insert_pane_near target moved d r l))"
| "layout_step new_rect OpClose (c, l) = map_option (\<lambda>(l', _). (c, l')) (close_focused l)"
| "layout_step new_rect (OpFocus i) (c, l) = Some (c, focus_pane i l)"
| "layout_step new_rect (OpSwap a b) (c, l) = Some (c, fst (swap_panes a b l))"
| "layout_step new_rect (OpSetRatio path r) (c, l) = Some (c, fst (set_ratio_at path r l))"
| "layout_step new_rect (OpResize nav delta area) (c, l) =
     Some (c, resize_focused new_rect nav delta area l)"
| "layout_step new_rect (OpResizePane i nav delta area) (c, l) =
     Some (c, fst (resize_pane new_rect i nav delta area l))"

fun step_allowed :: "u32 \<Rightarrow> layout_op \<Rightarrow> bool" where
  "step_allowed c (OpSplit _ _) \<longleftrightarrow> c \<noteq> - 1"
| "step_allowed c (OpInsert _ moved _ _) \<longleftrightarrow> moved < c"
| "step_allowed c _ \<longleftrightarrow> True"

inductive layout_reachable :: "new_rect \<Rightarrow> u32 \<Rightarrow> tile_layout \<Rightarrow> bool" for new_rect where
  start: "\<lbrakk> c \<noteq> - 1; layout_new c = (c', l, i) \<rbrakk> \<Longrightarrow> layout_reachable new_rect c' l"
| other: "\<lbrakk> layout_reachable new_rect c l; c \<le> c' \<rbrakk> \<Longrightarrow> layout_reachable new_rect c' l"
| step: "\<lbrakk> layout_reachable new_rect c l; step_allowed c q; layout_step new_rect q (c, l) = Some (c', l') \<rbrakk>
     \<Longrightarrow> layout_reachable new_rect c' l'"

end
