(* ===== verification/Layout_Props.thy ===== *)
theory Layout_Props
  imports Layout
begin

text \<open>
  What the tiling promises: whatever the user does, the layout stays a tree of distinct panes with
  one of them focused, its panes cover the area exactly, and the search for a neighbour finds the
  adjacent pane.
\<close>

section \<open>The panes of a tree\<close>

lemma count_panes_ids: "count_panes n = length (collect_ids n)"
  by (induction n) simp_all

lemma collect_ids_not_Nil [simp]: "collect_ids n \<noteq> []"
  by (induction n) simp_all

lemma ids_split_at:
  "collect_ids (split_at target d new r n)
     = concat (map (\<lambda>i. if i = target then [i, new] else [i]) (collect_ids n))"
  by (induction n) simp_all

lemma set_ids_split_at:
  "set (collect_ids (split_at target d new r n))
     = set (collect_ids n) \<union> (if target \<in> set (collect_ids n) then {new} else {})"
  by (auto simp: ids_split_at split: if_splits)

lemma distinct_split_at:
  "\<lbrakk> distinct (collect_ids n); new \<notin> set (collect_ids n) \<rbrakk>
     \<Longrightarrow> distinct (collect_ids (split_at target d new r n))"
  by (induction n) (auto simp: set_ids_split_at)

lemma remove_pane_ids:
  "(case remove_pane target n of None \<Rightarrow> [] | Some m \<Rightarrow> collect_ids m)
     = filter (\<lambda>i. i \<noteq> target) (collect_ids n)"
  by (induction n) (auto split: option.splits)

lemma remove_pane_Some_iff:
  "(\<exists>m. remove_pane target n = Some m) \<longleftrightarrow> (\<exists>i \<in> set (collect_ids n). i \<noteq> target)"
proof -
  have "remove_pane target n = None \<longleftrightarrow> filter (\<lambda>i. i \<noteq> target) (collect_ids n) = []"
    using remove_pane_ids [of target n] by (cases "remove_pane target n") auto
  then show ?thesis
    by (auto simp: filter_empty_conv)
qed

lemma ids_swap:
  "collect_ids (swap_pane_ids a b n)
     = map (\<lambda>i. if i = a then b else if i = b then a else i) (collect_ids n)"
  by (induction n) simp_all

lemma distinct_swap: "distinct (collect_ids n) \<Longrightarrow> distinct (collect_ids (swap_pane_ids a b n))"
  by (auto simp: ids_swap distinct_map inj_on_def)

lemma ids_set_ratio [simp]: "collect_ids (fst (node_set_ratio_at r path n)) = collect_ids n"
  by (induction r path n rule: node_set_ratio_at.induct) (auto split: prod.splits)

section \<open>Ratios\<close>

text \<open>Not outside the clamp's bounds; only NaN is not between them either.\<close>

definition ratio_ok :: "f32 \<Rightarrow> bool" where
  "ratio_ok r \<longleftrightarrow> \<not> f32_less r (f32_lit (1 / 10)) \<and> \<not> f32_less (f32_lit (9 / 10)) r"

fun tree_ok :: "node \<Rightarrow> bool" where
  "tree_ok (Pane _) \<longleftrightarrow> True"
| "tree_ok (Split _ r first second) \<longleftrightarrow> ratio_ok r \<and> tree_ok first \<and> tree_ok second"

lemma tenths:
  "f32_lit (1 / 10) = F32 (13421773 / 134217728)" "f32_lit (9 / 10) = F32 (15099494 / 16777216)"
  by code_simp+

lemma half_ok: "ratio_ok (F32 (1 / 2))"
  by (simp add: ratio_ok_def tenths)

lemma clamp_ratio_ok: "ratio_ok (clamp_ratio r)"
proof (cases r)
  case (F32 x)
  then show ?thesis by (simp add: ratio_ok_def clamp_ratio_def f32_clamp_def tenths)
qed (simp_all add: ratio_ok_def clamp_ratio_def f32_clamp_def tenths)

lemma valid_ratio_ok: "ratio_ok (valid_split_ratio r)"
  by (simp add: valid_split_ratio_def clamp_ratio_ok half_ok)

lemma tree_split_at: "tree_ok n \<Longrightarrow> ratio_ok r \<Longrightarrow> tree_ok (split_at target d new r n)"
  by (induction n) simp_all

lemma tree_remove: "tree_ok n \<Longrightarrow> remove_pane target n = Some m \<Longrightarrow> tree_ok m"
proof (induction n arbitrary: m)
  case (Pane i)
  then show ?case by (auto split: if_split_asm)
next
  case (Split d r first second)
  have parts: "ratio_ok r" "tree_ok first" "tree_ok second"
    using Split.prems(1) by simp_all
  show ?case
    using Split.prems(2) parts Split.IH(1) [OF parts(2)] Split.IH(2) [OF parts(3)]
    by (cases "remove_pane target first"; cases "remove_pane target second") auto
qed

lemma tree_swap: "tree_ok n \<Longrightarrow> tree_ok (swap_pane_ids a b n)"
  by (induction n) simp_all

lemma tree_set_ratio: "tree_ok n \<Longrightarrow> ratio_ok r \<Longrightarrow> tree_ok (fst (node_set_ratio_at r path n))"
  by (induction r path n rule: node_set_ratio_at.induct) (auto split: prod.splits)

lemma scaled_length_le:
  assumes "ratio_ok r"
  shows "scaled_length len r \<le> len"
proof (cases r)
  case (F32 x)
  let ?w = "uint len" and ?v = "f32_nearest (of_int (uint len) * x)"
  have small: "?w < 2 ^ 16" "0 \<le> ?w"
    using unsigned_less [of len, where 'a = int] by simp_all
  have x: "0 \<le> x" "x \<le> 1"
    using assms F32 by (auto simp: ratio_ok_def tenths)
  have "0 \<le> of_int ?w * x" "of_int ?w * x \<le> (of_int ?w :: rat)"
    using x small(2) mult_left_le [OF x(2), of "of_int ?w"] by (simp_all del: of_int_uint)
  with small have v: "0 \<le> ?v" "?v \<le> of_int ?w"
    using f32_nearest_bounds [of "of_int ?w * x" ?w] by (simp_all del: of_int_uint)
  have "(of_int ?w :: rat) < of_int (2 ^ 128)"
    unfolding of_int_less_iff by (rule less_trans [OF small(1)]) simp
  then have product: "f32_mul (f32_of_u16 len) r = F32 ?v"
    using v F32 by (simp add: f32_of_u16_def f32_of_rat_def Let_def)
  have "\<lfloor>?v + 1 / 2\<rfloor> \<le> \<lfloor>of_int ?w + 1 / 2 :: rat\<rfloor>"
    using v(2) by (intro floor_mono) simp
  moreover have half: "\<lfloor>1 / 2 :: rat\<rfloor> = 0" by (simp add: floor_eq_iff)
  ultimately have le: "\<lfloor>?v + 1 / 2\<rfloor> \<le> ?w"
    by (simp del: of_int_uint)
  have ge: "0 \<le> \<lfloor>?v + 1 / 2\<rfloor>" using v(1) by simp
  have "min 65535 \<lfloor>?v + 1 / 2\<rfloor> = \<lfloor>?v + 1 / 2\<rfloor>"
    using le small(1) by (simp del: of_int_uint)
  then have "scaled_length len r = of_int \<lfloor>?v + 1 / 2\<rfloor>"
    using product v(1) le ge small half
    by (cases "?v = 0") (simp_all add: scaled_length_def sgn_if min_absorb2)
  moreover have "take_bit 16 \<lfloor>?v + 1 / 2\<rfloor> = \<lfloor>?v + 1 / 2\<rfloor>"
    using le ge small(1) by (intro take_bit_int_eq_self) linarith+
  ultimately show ?thesis
    using le by (simp add: word_le_def uint_word_of_int_eq)
qed (use assms in \<open>auto simp: ratio_ok_def tenths scaled_length_def f32_of_u16_def\<close>)

section \<open>Areas\<close>

text \<open>
  The documented behaviour of \<open>Rect::new\<close> the code relies on: a rectangle whose far edges are
  within the coordinates is the rectangle asked for.
\<close>

definition plain_rect :: "new_rect \<Rightarrow> bool" where
  "plain_rect new_rect \<longleftrightarrow> (\<forall>x y w h. unat x + unat w < 2 ^ 16 \<longrightarrow> unat y + unat h < 2 ^ 16 \<longrightarrow>
     new_rect x y w h = \<lparr>rc_x = x, rc_y = y, rc_width = w, rc_height = h\<rparr>)"

definition fits :: "rect \<Rightarrow> bool" where
  "fits r \<longleftrightarrow> unat (rc_x r) + unat (rc_width r) < 2 ^ 16 \<and> unat (rc_y r) + unat (rc_height r) < 2 ^ 16"

definition covers :: "rect \<Rightarrow> nat \<Rightarrow> nat \<Rightarrow> bool" where
  "covers r x y \<longleftrightarrow> unat (rc_x r) \<le> x \<and> x < unat (rc_x r) + unat (rc_width r)
     \<and> unat (rc_y r) \<le> y \<and> y < unat (rc_y r) + unat (rc_height r)"

definition inside :: "rect \<Rightarrow> rect \<Rightarrow> bool" where
  "inside r area \<longleftrightarrow> unat (rc_x area) \<le> unat (rc_x r) \<and> unat (rc_y area) \<le> unat (rc_y r)
     \<and> unat (rc_x r) + unat (rc_width r) \<le> unat (rc_x area) + unat (rc_width area)
     \<and> unat (rc_y r) + unat (rc_height r) \<le> unat (rc_y area) + unat (rc_height area)"

lemma inside_refl: "inside r r"
  by (simp add: inside_def)

lemma inside_trans: "inside a b \<Longrightarrow> inside b c \<Longrightarrow> inside a c"
  by (simp add: inside_def)

lemma inside_fits: "inside a b \<Longrightarrow> fits b \<Longrightarrow> fits a"
  by (simp add: inside_def fits_def)

lemma split_lengths:
  assumes "ratio_ok r" and "unat start + unat len < 2 ^ 16"
  defines "k \<equiv> scaled_length len r"
  shows "unat k \<le> unat len" "unat (start + k) = unat start + unat k"
    "unat (u16_saturating_sub len k) = unat len - unat k"
proof -
  have "k \<le> len"
    unfolding k_def by (rule scaled_length_le [OF assms(1)])
  then show "unat k \<le> unat len" by (simp add: word_le_nat_alt)
  then show "unat (start + k) = unat start + unat k"
    using assms(2) by (simp add: unat_add_lem [where 'a = 16, THEN iffD1])
  show "unat (u16_saturating_sub len k) = unat len - unat k"
    using \<open>k \<le> len\<close> by (simp add: u16_saturating_sub_def unat_sub not_less [symmetric])
qed

text \<open>A split divides its area into two that share no cell.\<close>

lemma split_rect_divides:
  assumes "plain_rect new_rect" and "ratio_ok r" and "fits area" and "split_rect new_rect area d r = (a, b)"
  shows "inside a area" "inside b area"
    "covers area x y \<longleftrightarrow> covers a x y \<or> covers b x y" "\<not> (covers a x y \<and> covers b x y)"
proof -
  note h = split_lengths [OF assms(2), of "rc_x area" "rc_width area"]
  note v = split_lengths [OF assms(2), of "rc_y area" "rc_height area"]
  have "inside a area \<and> inside b area \<and> (covers area x y \<longleftrightarrow> covers a x y \<or> covers b x y)
      \<and> \<not> (covers a x y \<and> covers b x y)"
  proof (cases d)
    case Horizontal
    let ?k = "scaled_length (rc_width area) r"
    have "a = \<lparr>rc_x = rc_x area, rc_y = rc_y area, rc_width = ?k, rc_height = rc_height area\<rparr>"
      "b = \<lparr>rc_x = rc_x area + ?k, rc_y = rc_y area,
        rc_width = u16_saturating_sub (rc_width area) ?k, rc_height = rc_height area\<rparr>"
      using assms h by (auto simp: Horizontal Let_def plain_rect_def fits_def)
    then show ?thesis
      using assms(3) h by (auto simp: inside_def covers_def fits_def)
  next
    case Vertical
    let ?k = "scaled_length (rc_height area) r"
    have "a = \<lparr>rc_x = rc_x area, rc_y = rc_y area, rc_width = rc_width area, rc_height = ?k\<rparr>"
      "b = \<lparr>rc_x = rc_x area, rc_y = rc_y area + ?k, rc_width = rc_width area,
        rc_height = u16_saturating_sub (rc_height area) ?k\<rparr>"
      using assms v by (auto simp: Vertical Let_def plain_rect_def fits_def)
    then show ?thesis
      using assms(3) v by (auto simp: inside_def covers_def fits_def)
  qed
  then show "inside a area" "inside b area" "covers area x y \<longleftrightarrow> covers a x y \<or> covers b x y"
    "\<not> (covers a x y \<and> covers b x y)"
    by blast+
qed

lemma collected_ids: "map pn_id (collect_panes new_rect n area focus) = collect_ids n"
  by (induction n arbitrary: area) (simp_all split: prod.split)

lemma collected_focus:
  "p \<in> set (collect_panes new_rect n area focus) \<Longrightarrow> pn_is_focused p \<longleftrightarrow> pn_id p = focus"
  by (induction n arbitrary: area) (auto split: prod.split_asm)

lemma collected_inside:
  assumes "plain_rect new_rect" and "tree_ok n" and "fits area"
    and "p \<in> set (collect_panes new_rect n area focus)"
  shows "inside (pn_rect p) area"
  using assms
proof (induction n arbitrary: area)
  case (Pane i)
  then show ?case by (simp add: inside_refl)
next
  case (Split d r first second)
  obtain a b where ab: "split_rect new_rect area d r = (a, b)" by fastforce
  have ok: "ratio_ok r" "tree_ok first" "tree_ok second"
    using Split.prems(2) by simp_all
  note divides = split_rect_divides [OF assms(1) ok(1) Split.prems(3) ab]
  have "p \<in> set (collect_panes new_rect first a focus) \<or> p \<in> set (collect_panes new_rect second b focus)"
    using Split.prems(4) ab by simp
  then show ?case
    using Split.IH(1) [OF assms(1) ok(2), of a] Split.IH(2) [OF assms(1) ok(3), of b] divides(1,2)
      inside_trans inside_fits [OF _ Split.prems(3)] by blast
qed

text \<open>Every cell of the area is covered by exactly one pane, every other cell by none.\<close>

lemma collected_cover:
  assumes "plain_rect new_rect" and "tree_ok n" and "fits area"
  shows "length (filter (\<lambda>p. covers (pn_rect p) x y) (collect_panes new_rect n area focus))
    = (if covers area x y then 1 else 0)"
  using assms(2,3)
proof (induction n arbitrary: area)
  case (Pane i)
  then show ?case by simp
next
  case (Split d r first second)
  obtain a b where ab: "split_rect new_rect area d r = (a, b)" by fastforce
  have ok: "ratio_ok r" "tree_ok first" "tree_ok second"
    using Split.prems(1) by simp_all
  note divides = split_rect_divides [OF assms(1) ok(1) Split.prems(2) ab]
  note parts = Split.IH(1) [OF ok(2) inside_fits [OF divides(1) Split.prems(2)]]
    Split.IH(2) [OF ok(3) inside_fits [OF divides(2) Split.prems(2)]]
  show ?case
    using divides(3,4) [of x y] by (simp add: ab parts)
qed

section \<open>Every layout a user can reach\<close>

text \<open>
  The ids of the panes are distinct and were allocated, one of them has the focus, and the ratios
  are those the clamp lets through.
\<close>

definition layout_ok :: "u32 \<Rightarrow> tile_layout \<Rightarrow> bool" where
  "layout_ok c l \<longleftrightarrow> distinct (pane_ids l) \<and> tl_focus l \<in> set (pane_ids l)
     \<and> (\<forall>i \<in> set (pane_ids l). i < c) \<and> tree_ok (tl_root l)"

lemma split_keeps_layout:
  assumes "layout_ok c l" and "moved \<notin> set (pane_ids l)" and "moved < c'" and "c \<le> c'"
    and "target \<in> set (pane_ids l)"
  shows "layout_ok c' \<lparr>tl_root = split_at target d moved (valid_split_ratio r) (tl_root l), tl_focus = moved\<rparr>"
  using assms
  by (auto simp: layout_ok_def pane_ids_def distinct_split_at set_ids_split_at tree_split_at valid_ratio_ok
      intro: less_le_trans)

lemma split_focused_ok:
  assumes "layout_ok c l" and "c \<noteq> - 1"
    and "split_focused_with_ratio d r (c, l) = ((c', l'), i)"
  shows "layout_ok c' l'"
proof -
  have "c < c + 1"
    using assms(2) by (simp add: word_plus1_greater)
  moreover have "c \<notin> set (pane_ids l)" "tl_focus l \<in> set (pane_ids l)"
    using assms(1) by (auto simp: layout_ok_def)
  ultimately show ?thesis
    using assms split_keeps_layout [of c l c "c + 1" "tl_focus l" d r]
    by (auto simp: split_focused_with_ratio_def pane_alloc_def)
qed

lemma insert_ok:
  assumes "layout_ok c l" and "moved < c"
  shows "layout_ok c (fst (insert_pane_near target moved d r l))"
  using assms split_keeps_layout [of c l moved c target d r] by (auto simp: insert_pane_near_def)

lemma position_Some:
  "x \<in> set xs \<Longrightarrow> \<exists>k < length xs. position (\<lambda>y. y = x) xs = Some k \<and> xs ! k = x"
  by (induction xs) fastforce+

text \<open>
  Closing removes exactly the focused pane and focuses the one after it, or before it at the end.
\<close>

lemma close_focused_result:
  assumes "layout_ok c l" and "1 < pane_count l"
  shows "\<exists>n k. close_focused l = Some (\<lparr>tl_root = n, tl_focus = pane_ids l ! k\<rparr>, True)
    \<and> remove_pane (tl_focus l) (tl_root l) = Some n
    \<and> collect_ids n = filter (\<lambda>i. i \<noteq> tl_focus l) (pane_ids l)
    \<and> k < length (pane_ids l) \<and> pane_ids l ! k \<noteq> tl_focus l"
proof -
  let ?ids = "pane_ids l"
  have many: "1 < length ?ids"
    using assms(2) by (simp add: pane_count_def count_panes_ids pane_ids_def)
  have distinct: "distinct ?ids" and focus: "tl_focus l \<in> set ?ids"
    using assms(1) by (simp_all add: layout_ok_def)
  obtain pos where pos: "pos < length ?ids" "position (\<lambda>i. i = tl_focus l) ?ids = Some pos"
    "?ids ! pos = tl_focus l"
    using position_Some [OF focus] by blast
  define k where "k = (if pos + 1 < length ?ids then pos + 1 else pos - 1)"
  have "k < length ?ids" "k \<noteq> pos"
    using many pos(1) by (auto simp: k_def)
  then have other: "?ids ! k \<noteq> tl_focus l"
    using distinct pos(1,3) by (metis nth_eq_iff_index_eq)
  moreover have "?ids ! k \<in> set ?ids"
    using \<open>k < length ?ids\<close> by simp
  ultimately obtain n where n: "remove_pane (tl_focus l) (tl_root l) = Some n"
    using remove_pane_Some_iff [of "tl_focus l" "tl_root l"] by (auto simp: pane_ids_def)
  then have "collect_ids n = filter (\<lambda>i. i \<noteq> tl_focus l) ?ids"
    using remove_pane_ids [of "tl_focus l" "tl_root l"] by (simp add: pane_ids_def)
  moreover have "close_focused l = Some (\<lparr>tl_root = n, tl_focus = ?ids ! k\<rparr>, True)"
    using assms(2) pos(2) n by (simp add: close_focused_def Let_def k_def)
  ultimately show ?thesis
    using n \<open>k < length ?ids\<close> other by blast
qed

lemma close_ok:
  assumes "layout_ok c l"
  shows "\<exists>l' closed. close_focused l = Some (l', closed) \<and> layout_ok c l'"
proof (cases "1 < pane_count l")
  case True
  then obtain n k where closed: "close_focused l = Some (\<lparr>tl_root = n, tl_focus = pane_ids l ! k\<rparr>, True)"
    "remove_pane (tl_focus l) (tl_root l) = Some n"
    "collect_ids n = filter (\<lambda>i. i \<noteq> tl_focus l) (pane_ids l)"
    "k < length (pane_ids l)" "pane_ids l ! k \<noteq> tl_focus l"
    using close_focused_result [OF assms] by blast
  have "layout_ok c \<lparr>tl_root = n, tl_focus = pane_ids l ! k\<rparr>"
    using assms closed(3-5) tree_remove [OF _ closed(2)] by (auto simp: layout_ok_def pane_ids_def [of "\<lparr>tl_root = _, tl_focus = _\<rparr>"])
  then show ?thesis
    using closed(1) by blast
qed (use assms in \<open>auto simp: close_focused_def\<close>)

lemma focus_ok: "layout_ok c l \<Longrightarrow> layout_ok c (focus_pane i l)"
  by (simp add: layout_ok_def focus_pane_def pane_ids_def)

lemma swap_ok:
  assumes "layout_ok c l"
  shows "layout_ok c (fst (swap_panes a b l))"
  using assms
  using distinct_swap [of "tl_root l" a b]
  by (auto simp: layout_ok_def swap_panes_def pane_ids_def ids_swap tree_swap)

lemma fst_set_ratio_at:
  "fst (set_ratio_at path r l) = l\<lparr>tl_root := fst (node_set_ratio_at (clamp_ratio r) path (tl_root l))\<rparr>"
  by (simp add: set_ratio_at_def split: prod.split)

lemma set_ratio_ok: "layout_ok c l \<Longrightarrow> layout_ok c (fst (set_ratio_at path r l))"
  by (simp add: fst_set_ratio_at layout_ok_def pane_ids_def tree_set_ratio clamp_ratio_ok)

text \<open>Resizing changes ratios only.\<close>

lemma resize_focused_ids:
  "pane_ids (resize_focused new_rect nav delta area l) = pane_ids l"
  "tl_focus (resize_focused new_rect nav delta area l) = tl_focus l"
  by (auto simp: resize_focused_def Let_def fst_set_ratio_at pane_ids_def split: option.split)

lemma resize_focused_ok: "layout_ok c l \<Longrightarrow> layout_ok c (resize_focused new_rect nav delta area l)"
  by (auto simp: resize_focused_def set_ratio_ok Let_def split: option.split)

lemma resize_pane_ok:
  assumes "layout_ok c l"
  shows "layout_ok c (fst (resize_pane new_rect i nav delta area l))"
proof (cases "i \<in> set (pane_ids l)")
  case True
  then have "layout_ok c (l\<lparr>tl_focus := i\<rparr>)"
    using assms by (simp add: layout_ok_def pane_ids_def)
  from resize_focused_ok [OF this, of new_rect nav delta area] show ?thesis
    using True assms resize_focused_ids(1) [of new_rect nav delta area "l\<lparr>tl_focus := i\<rparr>"]
    by (simp add: resize_pane_def Let_def layout_ok_def pane_ids_def)
qed (use assms in \<open>simp add: resize_pane_def\<close>)

lemma layout_step_ok:
  assumes "layout_ok c l" and "step_allowed c q"
  shows "\<exists>c' l'. layout_step new_rect q (c, l) = Some (c', l') \<and> layout_ok c' l'"
proof (cases q)
  case (OpSplit d r)
  then show ?thesis
    using assms split_focused_ok [of c l d r]
    by (cases "split_focused_with_ratio d r (c, l)") auto
next
  case OpClose
  then show ?thesis
    using close_ok [OF assms(1)] by auto
qed (use assms in \<open>simp_all add: insert_ok focus_ok swap_ok set_ratio_ok resize_focused_ok resize_pane_ok\<close>)

lemma layout_ok_mono: "layout_ok c l \<Longrightarrow> c \<le> c' \<Longrightarrow> layout_ok c' l"
  by (auto simp: layout_ok_def intro: less_le_trans)

lemma layout_new_ok:
  assumes "c \<noteq> - 1" and "layout_new c = (c', l, i)"
  shows "layout_ok c' l"
  using assms by (auto simp: layout_new_def pane_alloc_def layout_ok_def pane_ids_def word_plus1_greater)

lemma reachable_ok: "layout_reachable new_rect c l \<Longrightarrow> layout_ok c l"
proof (induction rule: layout_reachable.induct)
  case (start c c' l i)
  then show ?case using layout_new_ok by blast
next
  case (other c l c')
  then show ?case using layout_ok_mono by blast
next
  case (step c l q c' l')
  then show ?case
    using layout_step_ok [of c l q new_rect] by auto
qed

text \<open>
  C31: whatever sequence of operations a user performs, the layout stays well formed: its panes have
  distinct, allocated ids, one of them has the focus, every ratio is what the clamp lets through,
  and no operation panics on it.
\<close>

theorem reachable_layout_well_formed:
  assumes "layout_reachable new_rect c l"
  shows "layout_ok c l \<and> tl_focus l \<in> set (pane_ids l) \<and> distinct (pane_ids l)
    \<and> (step_allowed c q \<longrightarrow> layout_step new_rect q (c, l) \<noteq> None)"
  using reachable_ok [OF assms] layout_step_ok [of c l q new_rect] by (auto simp: layout_ok_def)

lemma covered_once:
  assumes "plain_rect new_rect" and "tree_ok n" and "fits area" and "covers area x y"
  shows "\<exists>!p. p \<in> set (collect_panes new_rect n area focus) \<and> covers (pn_rect p) x y"
proof -
  let ?ps = "collect_panes new_rect n area focus"
  have "length (filter (\<lambda>p. covers (pn_rect p) x y) ?ps) = 1"
    using collected_cover [OF assms(1-3)] assms(4) by simp
  then obtain p where "filter (\<lambda>p. covers (pn_rect p) x y) ?ps = [p]"
    by (auto simp: length_Suc_conv)
  then have "{q \<in> set ?ps. covers (pn_rect q) x y} = {p}"
    by (metis set_filter list.set(1) list.set(2))
  then show ?thesis by (intro ex1I [of _ p]) auto
qed

text \<open>
  C32: the panes of a reachable layout tile its area: every pane lies inside it, every cell of it is
  covered by exactly one pane, no pane covers a cell outside, and exactly the focused pane is marked.
\<close>

theorem panes_tile_area:
  assumes "layout_reachable new_rect c l" and "plain_rect new_rect" and "fits area"
  shows "map pn_id (panes new_rect l area) = pane_ids l
    \<and> (\<forall>p \<in> set (panes new_rect l area). inside (pn_rect p) area
         \<and> (pn_is_focused p \<longleftrightarrow> pn_id p = tl_focus l))
    \<and> (\<forall>x y. covers area x y \<longrightarrow> (\<exists>!p. p \<in> set (panes new_rect l area) \<and> covers (pn_rect p) x y))
    \<and> (\<forall>x y. \<not> covers area x y \<longrightarrow> (\<forall>p \<in> set (panes new_rect l area). \<not> covers (pn_rect p) x y))"
proof -
  have ok: "tree_ok (tl_root l)"
    using reachable_ok [OF assms(1)] by (simp add: layout_ok_def)
  have none: "\<not> covers (pn_rect p) x y"
    if "\<not> covers area x y" and "p \<in> set (panes new_rect l area)" for p x y
    using collected_cover [OF assms(2) ok assms(3), of x y "tl_focus l"] that
    by (auto simp: panes_def filter_empty_conv)
  show ?thesis
    using none unfolding panes_def pane_ids_def
    by (intro conjI ballI allI impI collected_ids collected_inside [OF assms(2) ok assms(3)]
        collected_focus covered_once [OF assms(2) ok assms(3)]) blast+
qed

section \<open>Neighbours\<close>

lemma min_by_key_least:
  assumes "x \<in> set xs"
  obtains y where "min_by_key key xs = Some y" "y \<in> set xs" "key y \<le> key x"
proof -
  have "xs \<noteq> []" using assms by auto
  moreover from this have "key (arg_min_list key xs) = Min (key ` set xs)"
    by (rule f_arg_min_list_f)
  ultimately show thesis
    using that [of "arg_min_list key xs"] assms arg_min_list_in [of xs key]
    by (simp add: min_by_key_def)
qed

text \<open>A pane that the search considers, and whose edge is the edge of the focused pane.\<close>

definition candidate :: "nav_direction \<Rightarrow> pane_info \<Rightarrow> pane_info \<Rightarrow> bool" where
  "candidate nav p q \<longleftrightarrow> pn_id q \<noteq> pn_id p \<and> beyond_edge nav (pn_rect p) (pn_rect q)
     \<and> ranges_overlap (fst (nav_lane nav (pn_rect q))) (snd (nav_lane nav (pn_rect q)))
         (fst (nav_lane nav (pn_rect p))) (snd (nav_lane nav (pn_rect p)))"

lemma fst_neighbour_key: "fst (neighbour_key nav fr (k, q)) = unat (edge_distance nav fr (pn_rect q))"
  by (simp add: neighbour_key_def Let_def split: prod.split)

lemma nearest_candidate:
  assumes "q \<in> set ps" and "candidate nav p q" and "edge_distance nav (pn_rect p) (pn_rect q) = 0"
  shows "\<exists>q' \<in> set ps. find_in_direction p nav ps = Some (pn_id q') \<and> candidate nav p q'
    \<and> edge_distance nav (pn_rect p) (pn_rect q') = 0"
proof -
  let ?key = "neighbour_key nav (pn_rect p)"
  let ?cands = "filter (\<lambda>(_, q). candidate nav p q) (enumerate 0 ps)"
  have search: "find_in_direction p nav ps = map_option (\<lambda>(_, q). pn_id q) (min_by_key ?key ?cands)"
    by (simp add: find_in_direction_def Let_def candidate_def case_prod_beta conj_assoc cong: filter_cong)
  obtain k where "k < length ps" "ps ! k = q"
    using assms(1) by (auto simp: in_set_conv_nth)
  then have "(k, q) \<in> set ?cands"
    using assms(2) by (simp add: in_set_enumerate_eq)
  then obtain best where best: "min_by_key ?key ?cands = Some best" "best \<in> set ?cands" "?key best \<le> ?key (k, q)"
    by (rule min_by_key_least)
  obtain j q' where pair: "best = (j, q')" by fastforce
  have "fst (?key best) \<le> fst (?key (k, q))"
    using best(3) unfolding less_eq_prod_def by auto
  then have "edge_distance nav (pn_rect p) (pn_rect q') = 0"
    using assms(3) unfolding pair fst_neighbour_key by (simp add: unat_eq_zero)
  moreover have "q' \<in> set ps" "candidate nav p q'"
    using best(2) by (auto simp: pair in_set_enumerate_eq)
  ultimately show ?thesis
    using search best(1) by (auto simp: pair)
qed

text \<open>The area goes on beyond the edge of the rectangle.\<close>

definition room_beyond :: "nav_direction \<Rightarrow> rect \<Rightarrow> rect \<Rightarrow> bool" where
  "room_beyond nav area r \<longleftrightarrow>
     (case nav of
        NavLeft \<Rightarrow> rc_x area < rc_x r
      | NavRight \<Rightarrow> unat (rc_x r) + unat (rc_width r) < unat (rc_x area) + unat (rc_width area)
      | NavUp \<Rightarrow> rc_y area < rc_y r
      | NavDown \<Rightarrow> unat (rc_y r) + unat (rc_height r) < unat (rc_y area) + unat (rc_height area))"

text \<open>The edges coincide, and some row or column is common.\<close>

definition touches :: "nav_direction \<Rightarrow> rect \<Rightarrow> rect \<Rightarrow> bool" where
  "touches nav fr r \<longleftrightarrow>
     (case nav of
        NavLeft \<Rightarrow> unat (rc_x r) + unat (rc_width r) = unat (rc_x fr)
      | NavRight \<Rightarrow> unat (rc_x r) = unat (rc_x fr) + unat (rc_width fr)
      | NavUp \<Rightarrow> unat (rc_y r) + unat (rc_height r) = unat (rc_y fr)
      | NavDown \<Rightarrow> unat (rc_y r) = unat (rc_y fr) + unat (rc_height fr))
     \<and> (if nav \<in> {NavLeft, NavRight}
        then unat (rc_y r) < unat (rc_y fr) + unat (rc_height fr)
          \<and> unat (rc_y fr) < unat (rc_y r) + unat (rc_height r)
        else unat (rc_x r) < unat (rc_x fr) + unat (rc_width fr)
          \<and> unat (rc_x fr) < unat (rc_x r) + unat (rc_width r))"

lemma fits_edges:
  assumes "fits r"
  shows "unat (rc_x r + rc_width r) = unat (rc_x r) + unat (rc_width r)"
    "unat (rc_y r + rc_height r) = unat (rc_y r) + unat (rc_height r)"
  using assms by (simp_all add: fits_def unat_add_lem [where 'a = 16, THEN iffD1])

lemma touching_candidate:
  assumes "fits (pn_rect p)" and "fits (pn_rect q)"
  shows "touches nav (pn_rect p) (pn_rect q) \<and> pn_id q \<noteq> pn_id p
    \<longleftrightarrow> candidate nav p q \<and> edge_distance nav (pn_rect p) (pn_rect q) = 0"
  using fits_edges [OF assms(1)] fits_edges [OF assms(2)]
  by (cases nav)
     (auto simp: touches_def candidate_def beyond_edge_def edge_distance_def ranges_overlap_def nav_lane_def
       u16_saturating_sub_def word_le_nat_alt word_less_nat_alt unat_sub word_unat_eq_iff)

text \<open>The cell just beyond the edge, next to the upper or left end of the pane.\<close>

definition cell_beyond :: "nav_direction \<Rightarrow> rect \<Rightarrow> nat \<times> nat" where
  "cell_beyond nav r =
     (case nav of
        NavLeft \<Rightarrow> (unat (rc_x r) - 1, unat (rc_y r))
      | NavRight \<Rightarrow> (unat (rc_x r) + unat (rc_width r), unat (rc_y r))
      | NavUp \<Rightarrow> (unat (rc_x r), unat (rc_y r) - 1)
      | NavDown \<Rightarrow> (unat (rc_x r), unat (rc_y r) + unat (rc_height r)))"

text \<open>The cell of the pane on the other side of the edge.\<close>

definition cell_before :: "nav_direction \<Rightarrow> rect \<Rightarrow> nat \<times> nat" where
  "cell_before nav r =
     (case nav of
        NavLeft \<Rightarrow> (unat (rc_x r), unat (rc_y r))
      | NavRight \<Rightarrow> (unat (rc_x r) + unat (rc_width r) - 1, unat (rc_y r))
      | NavUp \<Rightarrow> (unat (rc_x r), unat (rc_y r))
      | NavDown \<Rightarrow> (unat (rc_x r), unat (rc_y r) + unat (rc_height r) - 1))"

lemma beyond_cells:
  assumes "inside r area" and "0 < unat (rc_width r)" and "0 < unat (rc_height r)"
    and "room_beyond nav area r"
  shows "case_prod (covers area) (cell_beyond nav r)" "case_prod (covers r) (cell_before nav r)"
    "\<not> case_prod (covers r) (cell_beyond nav r)"
  using assms
  by (cases nav; auto simp: inside_def room_beyond_def cell_beyond_def cell_before_def covers_def
      word_less_nat_alt)+

text \<open>What covers the one cell and not the other, begins at the edge.\<close>

lemma cells_touch:
  assumes "0 < unat (rc_width fr)" and "0 < unat (rc_height fr)" and "room_beyond nav area fr"
    and "case_prod (covers r) (cell_beyond nav fr)" and "\<not> case_prod (covers r) (cell_before nav fr)"
  shows "touches nav fr r"
  using assms
  by (cases nav; auto simp: touches_def room_beyond_def cell_beyond_def cell_before_def covers_def
      word_less_nat_alt)+

text \<open>
  C33: moving the focus never gets stuck inside the area: from any pane of a reachable layout that is
  not empty, towards any side where the area goes on, the search finds another pane, and it is one
  that touches the edge and shares a row or a column.
\<close>

theorem navigation_finds_neighbour:
  assumes "layout_reachable new_rect c l" and "plain_rect new_rect" and "fits area"
    and "p \<in> set (panes new_rect l area)" and "0 < rc_width (pn_rect p)" and "0 < rc_height (pn_rect p)"
    and "room_beyond nav area (pn_rect p)"
  shows "\<exists>q \<in> set (panes new_rect l area).
    find_in_direction p nav (panes new_rect l area) = Some (pn_id q) \<and> pn_id q \<noteq> pn_id p
    \<and> touches nav (pn_rect p) (pn_rect q)"
proof -
  let ?ps = "panes new_rect l area"
  have ok: "tree_ok (tl_root l)" "distinct (map pn_id ?ps)"
    using reachable_ok [OF assms(1)] collected_ids
    by (simp_all add: layout_ok_def panes_def pane_ids_def)
  have all_inside: "inside (pn_rect q) area" if "q \<in> set ?ps" for q
    using that collected_inside [OF assms(2) ok(1) assms(3)] by (simp add: panes_def)
  have size: "0 < unat (rc_width (pn_rect p))" "0 < unat (rc_height (pn_rect p))"
    using assms(5,6) by (simp_all add: word_less_nat_alt)
  obtain x y where beyond: "cell_beyond nav (pn_rect p) = (x, y)" by fastforce
  obtain u v where before: "cell_before nav (pn_rect p) = (u, v)" by fastforce
  note cells = beyond_cells [OF all_inside [OF assms(4)] size assms(7)]
  note once = covered_once [OF assms(2) ok(1) assms(3), where focus = "tl_focus l", folded panes_def]
  obtain q where q: "q \<in> set ?ps" "covers (pn_rect q) x y"
    using once [of x y] cells(1) beyond by auto
  have different: "q \<noteq> p"
    using q(2) cells(3) beyond by auto
  have "covers area u v"
    using cells(2) before all_inside [OF assms(4)] by (auto simp: covers_def inside_def)
  then have "\<not> covers (pn_rect q) u v"
    using once [of u v] q(1) cells(2) before assms(4) different by auto
  then have "touches nav (pn_rect p) (pn_rect q)"
    using cells_touch [OF size assms(7), of "pn_rect q"] q(2) beyond before by simp
  moreover have "pn_id q \<noteq> pn_id p"
    using different q(1) assms(4) ok(2) by (auto simp: distinct_map inj_on_def)
  moreover have fit: "fits (pn_rect p')" if "p' \<in> set ?ps" for p'
    using that all_inside inside_fits assms(3) by blast
  ultimately have "candidate nav p q" "edge_distance nav (pn_rect p) (pn_rect q) = 0"
    using touching_candidate [of p q nav] q(1) assms(4) by blast+
  from nearest_candidate [OF q(1) this] show ?thesis
    using touching_candidate [of p _ nav] fit assms(4) by blast
qed

section \<open>Undoing\<close>

lemma remove_split_at:
  "new \<notin> set (collect_ids n) \<Longrightarrow> remove_pane new (split_at target d new r n) = Some n"
  by (induction n) auto

lemma swap_involution: "swap_pane_ids a b (swap_pane_ids a b n) = n"
  by (induction n) auto

lemma get_set_ratio:
  "get_ratio_at path (fst (node_set_ratio_at r path n)) = map_option (\<lambda>_. r) (get_ratio_at path n)
     \<and> snd (node_set_ratio_at r path n) = (get_ratio_at path n \<noteq> None)"
  by (induction r path n rule: node_set_ratio_at.induct) (auto split: prod.splits)

text \<open>
  Closing undoes splitting: after the focused pane of a reachable layout is split, closing the
  new pane, which has the focus, brings back exactly the tree of before, and the focus goes to one
  of its panes. Swapping two panes again brings back the tree too.
\<close>

theorem split_then_close_restores:
  assumes "layout_reachable new_rect c l" and "c \<noteq> - 1"
    and "split_focused_with_ratio d r (c, l) = ((c', l'), i)"
  shows "tl_focus l' = i \<and> i \<notin> set (pane_ids l) \<and> set (pane_ids l') = insert i (set (pane_ids l))
    \<and> (\<exists>l''. close_focused l' = Some (l'', True) \<and> tl_root l'' = tl_root l
         \<and> tl_focus l'' \<in> set (pane_ids l))
    \<and> fst (swap_panes a b (fst (swap_panes a b l))) = l"
proof -
  have ok: "layout_ok c l" by (rule reachable_ok [OF assms(1)])
  then have fresh: "c \<notin> set (pane_ids l)" and focus: "tl_focus l \<in> set (pane_ids l)"
    by (auto simp: layout_ok_def)
  have l': "l' = \<lparr>tl_root = split_at (tl_focus l) d c (valid_split_ratio r) (tl_root l), tl_focus = c\<rparr>"
    "i = c"
    using assms(3) by (auto simp: split_focused_with_ratio_def pane_alloc_def)
  then have ids: "set (pane_ids l') = insert c (set (pane_ids l))"
    using focus by (auto simp: pane_ids_def set_ids_split_at)
  have ok': "layout_ok c' l'"
    by (rule split_focused_ok [OF ok assms(2,3)])
  then have "card (set (pane_ids l')) = pane_count l'"
    by (simp add: layout_ok_def pane_count_def count_panes_ids pane_ids_def distinct_card)
  moreover have "1 < card (set (pane_ids l'))"
    using ids fresh focus by (metis List.finite_set card_gt_0_iff card_insert_disjoint empty_iff less_Suc_eq_0_disj nat_neq_iff not_less_eq One_nat_def Suc_less_eq)
  ultimately have "1 < pane_count l'" by simp
  from close_focused_result [OF ok' this] obtain n k where
    closed: "close_focused l' = Some (\<lparr>tl_root = n, tl_focus = pane_ids l' ! k\<rparr>, True)"
    "remove_pane (tl_focus l') (tl_root l') = Some n" "k < length (pane_ids l')"
    "pane_ids l' ! k \<noteq> tl_focus l'"
    by blast
  have "n = tl_root l"
    using closed(2) remove_split_at [of c "tl_root l"] fresh by (simp add: l' pane_ids_def)
  moreover have "pane_ids l' ! k \<in> set (pane_ids l)"
    using closed(3,4) ids l' nth_mem [OF closed(3)] by auto
  moreover have "fst (swap_panes a b (fst (swap_panes a b l))) = l"
    by (auto simp: swap_panes_def swap_involution pane_ids_def ids_swap)
  ultimately show ?thesis
    using closed(1) l' ids fresh by auto
qed

section \<open>A layout of two panes\<close>

definition plain :: new_rect where
  "plain x y w h = \<lparr>rc_x = x, rc_y = y, rc_width = w, rc_height = h\<rparr>"

definition two_panes :: tile_layout where
  "two_panes = \<lparr>tl_root = Split Horizontal (F32 (1 / 2)) (Pane 1) (Pane 2), tl_focus = 2\<rparr>"

definition screen :: rect where
  "screen = \<lparr>rc_x = 0, rc_y = 0, rc_width = 80, rc_height = 24\<rparr>"

lemma plain_plain: "plain_rect plain"
  by (simp add: plain_rect_def plain_def)

lemma screen_fits: "fits screen"
  by (simp add: fits_def screen_def)

lemma two_panes_reachable: "layout_reachable plain 3 two_panes"
proof -
  have "layout_reachable plain 2 \<lparr>tl_root = Pane 1, tl_focus = 1\<rparr>"
    by (rule layout_reachable.start [where c = 1 and i = 1]) (simp_all add: layout_new_def pane_alloc_def)
  moreover have "layout_step plain (OpSplit Horizontal (F32 (1 / 2))) (2, \<lparr>tl_root = Pane 1, tl_focus = 1\<rparr>)
      = Some (3, two_panes)"
    by (simp add: split_focused_with_ratio_def pane_alloc_def valid_split_ratio_def clamp_ratio_def
        f32_clamp_def tenths two_panes_def)
  moreover have "step_allowed 2 (OpSplit Horizontal (F32 (1 / 2)))" by simp
  ultimately show ?thesis
    using layout_reachable.step by blast
qed

lemma half_of_80: "scaled_length 80 (F32 (1 / 2)) = 40"
  by code_simp

lemma two_panes_panes:
  "panes plain two_panes screen =
     [\<lparr>pn_id = 1, pn_rect = \<lparr>rc_x = 0, rc_y = 0, rc_width = 40, rc_height = 24\<rparr>, pn_is_focused = False\<rparr>,
      \<lparr>pn_id = 2, pn_rect = \<lparr>rc_x = 40, rc_y = 0, rc_width = 40, rc_height = 24\<rparr>, pn_is_focused = True\<rparr>]"
  by (simp add: panes_def two_panes_def screen_def plain_def half_of_80 u16_saturating_sub_def)

theorem reachable_layout_well_formed_witness:
  "layout_ok 3 two_panes \<and> layout_step plain OpClose (3, two_panes) \<noteq> None"
  using reachable_layout_well_formed [OF two_panes_reachable, of OpClose] by simp

theorem panes_tile_area_witness:
  "\<exists>!p. p \<in> set (panes plain two_panes screen) \<and> covers (pn_rect p) 39 23"
proof -
  have "covers screen 39 23" by (simp add: covers_def screen_def)
  then show ?thesis
    using panes_tile_area [OF two_panes_reachable plain_plain screen_fits] by blast
qed

theorem navigation_finds_neighbour_witness:
  "\<exists>q \<in> set (panes plain two_panes screen). find_in_direction (hd (panes plain two_panes screen)) NavRight
     (panes plain two_panes screen) = Some (pn_id q) \<and> pn_id q \<noteq> 1"
proof -
  let ?p = "hd (panes plain two_panes screen)"
  have p: "?p \<in> set (panes plain two_panes screen)" "0 < rc_width (pn_rect ?p)"
    "0 < rc_height (pn_rect ?p)" "room_beyond NavRight screen (pn_rect ?p)" "pn_id ?p = 1"
    unfolding two_panes_panes by (simp_all add: room_beyond_def screen_def word_less_nat_alt)
  show ?thesis
    using navigation_finds_neighbour [OF two_panes_reachable plain_plain screen_fits p(1-4)] p(5) by auto
qed

theorem split_then_close_restores_witness:
  "\<exists>c' l' i l''. split_focused_with_ratio Vertical (F32 (1 / 4)) (3, two_panes) = ((c', l'), i)
     \<and> close_focused l' = Some (l'', True) \<and> tl_root l'' = tl_root two_panes"
proof -
  obtain c' l' i where run: "split_focused_with_ratio Vertical (F32 (1 / 4)) (3, two_panes) = ((c', l'), i)"
    by (metis prod.exhaust)
  have "(3 :: u32) \<noteq> - 1" by simp
  from split_then_close_restores [OF two_panes_reachable this run] show ?thesis
    using run by blast
qed

end
