(* ===== verification/Consent.thy ===== *)
theory Consent
  imports Attention Digest
begin

text \<open>
  \<open>src/server/consent.rs\<close>: one-shot grants for a dangerous action. A grant is bound to the digest of
  its subject and to the epoch of the server that issued it, and it expires. The random bytes, the
  clock and the resolution of a worktree path are arguments; \<open>Debug\<close> output is left out. The only
  state that concurrent consumers share is the flag \<open>used\<close>, which one atomic operation tests and
  sets, so a call of \<open>consume\<close> is one step.
\<close>

section \<open>Subjects\<close>

record respond_consent_context =
  rcc_mission_id :: string
  rcc_run_id :: string
  rcc_attention_id :: string
  rcc_provider_request_id :: string
  rcc_request_generation :: u64

datatype consent_subject_kind =
    StartWorkspaceWrite string string provider_kind provider_mode string
  | RespondTo respond_consent_context attention_decision "u8 list"

record consent_subject =
  csj_client_id :: u64
  csj_kind :: consent_subject_kind

datatype consent_subject_error = WorktreeResolutionFailed | NonUnicodeWorktree

datatype consent_error =
    RandomUnavailable | ClockOverflow | AlreadyUsed | ServerEpochMismatch | ConsentExpired
  | SubjectMismatch

section \<open>Digests\<close>

record canonical_subject_digest =
  sd_hasher :: "u8 list"

definition sd_bytes :: "u8 list \<Rightarrow> canonical_subject_digest \<Rightarrow> canonical_subject_digest" where
  "sd_bytes value d = d\<lparr>sd_hasher := (sd_hasher d @ be_bytes 8 (length value)) @ value\<rparr>"

definition digest_prefix :: "u8 list" where
  "digest_prefix = bytes_of ''server-consent-subject-canonical-v1''"

definition sd_new :: "string \<Rightarrow> canonical_subject_digest" where
  "sd_new domain = sd_bytes (bytes_of domain) (sd_bytes digest_prefix \<lparr>sd_hasher = []\<rparr>)"

definition sd_string :: "string \<Rightarrow> canonical_subject_digest \<Rightarrow> canonical_subject_digest" where
  "sd_string value d = sd_bytes (bytes_of value) d"

definition sd_u8 :: "u8 \<Rightarrow> canonical_subject_digest \<Rightarrow> canonical_subject_digest" where
  "sd_u8 value d = sd_bytes [value] d"

definition sd_u64 :: "u64 \<Rightarrow> canonical_subject_digest \<Rightarrow> canonical_subject_digest" where
  "sd_u64 value d = sd_bytes (be_bytes 8 (unat value)) d"

definition sd_finish :: "sha256 \<Rightarrow> canonical_subject_digest \<Rightarrow> u8 list" where
  "sd_finish sha d = sha (sd_hasher d)"

fun provider_tag :: "provider_kind \<Rightarrow> u8" where
  "provider_tag Codex = 0"
| "provider_tag ClaudeCode = 1"
| "provider_tag OpenCode = 2"
| "provider_tag Acp = 3"

fun mode_tag :: "provider_mode \<Rightarrow> u8" where
  "mode_tag Managed = 0"
| "mode_tag Passthrough = 1"

fun decision_tag :: "attention_decision \<Rightarrow> u8" where
  "decision_tag ApproveOnce = 0"
| "decision_tag ApproveForSession = 1"
| "decision_tag AllowForMission = 2"
| "decision_tag Deny = 3"
| "decision_tag Answer = 4"

type_synonym consent_answers = "(string, string list) bmap"

definition answers_hasher :: "consent_answers \<Rightarrow> canonical_subject_digest" where
  "answers_hasher answers =
     fold (\<lambda>(key, values) d. fold sd_string values
             (sd_u64 (of_nat (length values)) (sd_string key d)))
       answers (sd_u64 (of_nat (length answers)) (sd_new ''server-consent-answers-v1''))"

definition canonical_answers_digest :: "sha256 \<Rightarrow> consent_answers \<Rightarrow> u8 list" where
  "canonical_answers_digest sha answers = sd_finish sha (answers_hasher answers)"

fun kind_hasher :: "u64 \<Rightarrow> consent_subject_kind \<Rightarrow> canonical_subject_digest" where
  "kind_hasher client_id (StartWorkspaceWrite mission_id run_id provider mode worktree) =
     sd_string worktree (sd_u8 (mode_tag mode) (sd_u8 (provider_tag provider)
       (sd_string run_id (sd_string mission_id (sd_u64 client_id
         (sd_new ''server-consent-start-workspace-write-v2''))))))"
| "kind_hasher client_id (RespondTo cx decision answers_digest) =
     sd_bytes answers_digest (sd_u8 (decision_tag decision) (sd_u64 (rcc_request_generation cx)
       (sd_string (rcc_provider_request_id cx) (sd_string (rcc_attention_id cx)
         (sd_string (rcc_run_id cx) (sd_string (rcc_mission_id cx) (sd_u64 client_id
           (sd_new ''server-consent-respond-v2''))))))))"

definition consent_digest :: "sha256 \<Rightarrow> consent_subject \<Rightarrow> u8 list" where
  "consent_digest sha s = sd_finish sha (kind_hasher (csj_client_id s) (csj_kind s))"

text \<open>
  \<open>resolved\<close> is the result of \<open>canonicalize\<close>: nothing when it fails, and the path when it is
  Unicode.
\<close>

definition start_workspace_write ::
  "u64 \<Rightarrow> string \<Rightarrow> string \<Rightarrow> provider_kind \<Rightarrow> provider_mode \<Rightarrow> string option option
     \<Rightarrow> consent_subject_error + consent_subject" where
  "start_workspace_write client_id mission_id run_id provider mode resolved =
     rbind (ok_or WorktreeResolutionFailed resolved) (\<lambda>path.
     rbind (ok_or NonUnicodeWorktree path) (\<lambda>worktree.
       Inr \<lparr>csj_client_id = client_id,
            csj_kind = StartWorkspaceWrite mission_id run_id provider mode worktree\<rparr>))"

definition consent_respond ::
  "sha256 \<Rightarrow> u64 \<Rightarrow> respond_consent_context \<Rightarrow> attention_decision \<Rightarrow> consent_answers \<Rightarrow> consent_subject" where
  "consent_respond sha client_id cx decision answers =
     \<lparr>csj_client_id = client_id,
      csj_kind = RespondTo cx decision (canonical_answers_digest sha answers)\<rparr>"

section \<open>Grants\<close>

record consent_authority =
  ca_server_epoch :: "u8 list"

text \<open>Times are milliseconds of the monotonic clock.\<close>

record consent_grant =
  cg_nonce :: "u8 list"
  cg_server_epoch :: "u8 list"
  cg_subject_digest :: "u8 list"
  cg_expires_at :: nat
  cg_used :: bool

definition consent_ttl :: nat where
  "consent_ttl = 30000"

definition authority_new :: "u8 list option \<Rightarrow> consent_error + consent_authority" where
  "authority_new random =
     rbind (ok_or RandomUnavailable random) (\<lambda>epoch. Inr \<lparr>ca_server_epoch = epoch\<rparr>)"

text \<open>\<open>representable\<close> says which times the clock's type can hold.\<close>

definition issue ::
  "sha256 \<Rightarrow> u8 list option \<Rightarrow> nat \<Rightarrow> (nat \<Rightarrow> bool) \<Rightarrow> consent_authority \<Rightarrow> consent_subject
     \<Rightarrow> consent_error + consent_grant" where
  "issue sha random now representable authority subject =
     rbind (ok_or RandomUnavailable random) (\<lambda>nonce.
     rbind (ok_or ClockOverflow
              (if representable (now + consent_ttl) then Some (now + consent_ttl) else None)) (\<lambda>expires_at.
       Inr \<lparr>cg_nonce = nonce, cg_server_epoch = ca_server_epoch authority,
            cg_subject_digest = consent_digest sha subject, cg_expires_at = expires_at,
            cg_used = False\<rparr>))"

definition consume_with_expiry ::
  "sha256 \<Rightarrow> consent_authority \<Rightarrow> consent_subject \<Rightarrow> bool \<Rightarrow> consent_grant
     \<Rightarrow> consent_grant \<times> (consent_error + unit)" where
  "consume_with_expiry sha authority expected_subject expired grant =
     (if cg_used grant then (grant, Inl AlreadyUsed)
      else
        (grant\<lparr>cg_used := True\<rparr>,
         if cg_server_epoch grant \<noteq> ca_server_epoch authority then Inl ServerEpochMismatch
         else if expired then Inl ConsentExpired
         else if cg_subject_digest grant \<noteq> consent_digest sha expected_subject then Inl SubjectMismatch
         else Inr ()))"

definition consume ::
  "sha256 \<Rightarrow> consent_authority \<Rightarrow> consent_subject \<Rightarrow> nat \<Rightarrow> consent_grant
     \<Rightarrow> consent_grant \<times> (consent_error + unit)" where
  "consume sha authority expected_subject now grant =
     consume_with_expiry sha authority expected_subject (now \<ge> cg_expires_at grant) grant"

text \<open>
  The calls that reach one grant, in the order of their atomic test of the flag, from any thread and
  any server.
\<close>

type_synonym consume_call = "consent_authority \<times> consent_subject \<times> nat"

fun consume_all ::
  "sha256 \<Rightarrow> consume_call list \<Rightarrow> consent_grant \<Rightarrow> consent_grant \<times> (consent_error + unit) list" where
  "consume_all sha [] grant = (grant, [])"
| "consume_all sha ((authority, subject, now) # calls) grant =
     (case consume sha authority subject now grant of
        (grant', r) \<Rightarrow> (case consume_all sha calls grant' of (grant'', rs) \<Rightarrow> (grant'', r # rs)))"

section \<open>The absorbed bytes\<close>

lemma hasher_sd [digest_simps]:
  "sd_hasher (sd_bytes v d) = sd_hasher d @ frame v"
  "sd_hasher (sd_string s d) = sd_hasher d @ frame (bytes_of s)"
  "sd_hasher (sd_u8 b d) = sd_hasher d @ frame [b]"
  "sd_hasher (sd_u64 w d) = sd_hasher d @ frame (be_bytes 8 (unat w))"
  by (simp_all add: sd_bytes_def sd_string_def sd_u8_def sd_u64_def frame_def)

lemma hasher_sd_new [digest_simps]: "sd_hasher (sd_new domain) = frames [digest_prefix, bytes_of domain]"
  by (simp add: sd_new_def digest_simps)

lemma hasher_sd_strings: "sd_hasher (fold sd_string xs d) = sd_hasher d @ frames (map bytes_of xs)"
  by (induction xs arbitrary: d) (simp_all add: digest_simps)

definition entry_parts :: "string \<times> string list \<Rightarrow> u8 list list" where
  "entry_parts = (\<lambda>(key, values).
     bytes_of key # be_bytes 8 (unat (of_nat (length values) :: u64)) # map bytes_of values)"

lemma hasher_answers:
  "sd_hasher (answers_hasher answers) = frames (digest_prefix # bytes_of ''server-consent-answers-v1''
     # be_bytes 8 (unat (of_nat (length answers) :: u64)) # concat (map entry_parts answers))"
proof -
  have "sd_hasher (fold (\<lambda>(key, values) d. fold sd_string values
        (sd_u64 (of_nat (length values)) (sd_string key d))) answers d)
      = sd_hasher d @ frames (concat (map entry_parts answers))" for d
    by (induction answers arbitrary: d)
       (auto simp: digest_simps hasher_sd_strings entry_parts_def frames_append)
  then show ?thesis
    by (simp add: answers_hasher_def digest_simps)
qed

fun kind_parts :: "u64 \<Rightarrow> consent_subject_kind \<Rightarrow> u8 list list" where
  "kind_parts client_id (StartWorkspaceWrite mission_id run_id provider mode worktree) =
     [bytes_of ''server-consent-start-workspace-write-v2'', be_bytes 8 (unat client_id),
      bytes_of mission_id, bytes_of run_id, [provider_tag provider], [mode_tag mode], bytes_of worktree]"
| "kind_parts client_id (RespondTo cx decision answers_digest) =
     [bytes_of ''server-consent-respond-v2'', be_bytes 8 (unat client_id), bytes_of (rcc_mission_id cx),
      bytes_of (rcc_run_id cx), bytes_of (rcc_attention_id cx), bytes_of (rcc_provider_request_id cx),
      be_bytes 8 (unat (rcc_request_generation cx)), [decision_tag decision], answers_digest]"

lemma hasher_kind: "sd_hasher (kind_hasher c k) = frames (digest_prefix # kind_parts c k)"
  by (cases k) (simp_all add: digest_simps)

text \<open>No string is as long as a length prefix can count.\<close>

definition answers_small :: "consent_answers \<Rightarrow> bool" where
  "answers_small answers \<longleftrightarrow> length answers < 2 ^ 64
     \<and> (\<forall>(key, values) \<in> set answers. length key < 2 ^ 64 \<and> length values < 2 ^ 64
         \<and> (\<forall>v \<in> set values. length v < 2 ^ 64))"

definition kind_small :: "consent_subject_kind \<Rightarrow> bool" where
  "kind_small k \<longleftrightarrow> (case k of
     StartWorkspaceWrite mission_id run_id provider mode worktree \<Rightarrow>
       length mission_id < 2 ^ 64 \<and> length run_id < 2 ^ 64 \<and> length worktree < 2 ^ 64
   | RespondTo cx decision answers_digest \<Rightarrow>
       length (rcc_mission_id cx) < 2 ^ 64 \<and> length (rcc_run_id cx) < 2 ^ 64
       \<and> length (rcc_attention_id cx) < 2 ^ 64 \<and> length (rcc_provider_request_id cx) < 2 ^ 64
       \<and> length answers_digest < 2 ^ 64)"

lemma tags_inject:
  "provider_tag p = provider_tag p' \<longleftrightarrow> p = p'" "mode_tag m = mode_tag m' \<longleftrightarrow> m = m'"
  "decision_tag d = decision_tag d' \<longleftrightarrow> d = d'"
proof -
  show "provider_tag p = provider_tag p' \<longleftrightarrow> p = p'" by (cases p; cases p'; simp)
  show "mode_tag m = mode_tag m' \<longleftrightarrow> m = m'" by (cases m; cases m'; simp)
  show "decision_tag d = decision_tag d' \<longleftrightarrow> d = d'" by (cases d; cases d'; simp)
qed

lemma kind_parts_inject:
  assumes "kind_parts c k = kind_parts c' k'"
  shows "c = c' \<and> k = k'"
  using assms
  by (cases k; cases k')
     (auto simp: be_bytes_u64_inject bytes_of_inject tags_inject
       intro: respond_consent_context.equality)

lemma kind_addressable:
  assumes "kind_small k"
  shows "addressable (digest_prefix # kind_parts c k)"
  using assms by (cases k) (auto simp: kind_small_def addressable_def digest_prefix_def)

lemma entry_parts_inject:
  assumes "answers_small xs" and "answers_small ys" and "concat (map entry_parts xs) = concat (map entry_parts ys)"
  shows "xs = ys"
  using assms
proof (induction xs arbitrary: ys)
  case Nil
  then show ?case by (cases ys) (auto simp: entry_parts_def)
next
  case (Cons x xs)
  obtain key vs where x: "x = (key, vs)" by fastforce
  obtain key' vs' ys' where ys: "ys = (key', vs') # ys'"
    using Cons.prems(3) by (cases ys) (auto simp: entry_parts_def x)
  have keys: "key = key'"
    and lens: "be_bytes 8 (unat (of_nat (length vs) :: u64)) = be_bytes 8 (unat (of_nat (length vs') :: u64))"
    and rest: "map bytes_of vs @ concat (map entry_parts xs) = map bytes_of vs' @ concat (map entry_parts ys')"
    using Cons.prems(3) by (auto simp: x ys entry_parts_def bytes_of_inject)
  have "length vs < 2 ^ 64" "length vs' < 2 ^ 64"
    using Cons.prems(1,2) by (auto simp: x ys answers_small_def)
  moreover have "(of_nat (length vs) :: u64) = of_nat (length vs')"
    using lens by (simp only: be_bytes_u64_inject)
  ultimately have "length vs = length vs'"
    by (auto dest: arg_cong [where f = unat] simp: unat_of_nat)
  with rest have "map bytes_of vs = map bytes_of vs'" "concat (map entry_parts xs) = concat (map entry_parts ys')"
    by simp_all
  then have "vs = vs'"
    by (simp add: inj_map_eq_map inj_def bytes_of_inject)
  moreover have "xs = ys'"
    using Cons.IH [of ys'] Cons.prems(1,2) \<open>concat (map entry_parts xs) = _\<close>
    by (auto simp: answers_small_def ys)
  ultimately show ?case
    using keys by (simp add: x ys)
qed

lemma answers_addressable:
  assumes "answers_small answers"
  shows "addressable (digest_prefix # bytes_of ''server-consent-answers-v1''
     # be_bytes 8 (unat (of_nat (length answers) :: u64)) # concat (map entry_parts answers))"
  using assms
  by (auto simp: addressable_def answers_small_def entry_parts_def digest_prefix_def)

section \<open>What a grant is good for\<close>

text \<open>What the user agrees to, as the server names it before it is digested.\<close>

datatype consent_action =
    StartAction u64 string string provider_kind provider_mode string
  | RespondAction u64 respond_consent_context attention_decision consent_answers

fun subject_of :: "sha256 \<Rightarrow> consent_action \<Rightarrow> consent_subject" where
  "subject_of sha (StartAction client mission run provider mode worktree) =
     \<lparr>csj_client_id = client, csj_kind = StartWorkspaceWrite mission run provider mode worktree\<rparr>"
| "subject_of sha (RespondAction client cx decision answers) = consent_respond sha client cx decision answers"

fun action_small :: "consent_action \<Rightarrow> bool" where
  "action_small (StartAction client mission run provider mode worktree) \<longleftrightarrow>
     kind_small (StartWorkspaceWrite mission run provider mode worktree)"
| "action_small (RespondAction client cx decision answers) \<longleftrightarrow>
     kind_small (RespondTo cx decision (replicate 32 0)) \<and> answers_small answers"

text \<open>Everything that is hashed for an action.\<close>

fun action_inputs :: "sha256 \<Rightarrow> consent_action \<Rightarrow> u8 list set" where
  "action_inputs sha (StartAction client mission run provider mode worktree) =
     {sd_hasher (kind_hasher client (StartWorkspaceWrite mission run provider mode worktree))}"
| "action_inputs sha (RespondAction client cx decision answers) =
     {sd_hasher (kind_hasher client (RespondTo cx decision (canonical_answers_digest sha answers))),
      sd_hasher (answers_hasher answers)}"

lemma subject_input_in: "sd_hasher (kind_hasher (csj_client_id (subject_of sha a)) (csj_kind (subject_of sha a)))
    \<in> action_inputs sha a"
  by (cases a) (simp_all add: consent_respond_def)

lemma subject_small:
  assumes "hash32 sha" and "action_small a"
  shows "kind_small (csj_kind (subject_of sha a))"
  using assms
  by (cases a) (simp_all add: consent_respond_def kind_small_def canonical_answers_digest_def
      sd_finish_def hash32_def)

lemma subject_digest_determines:
  assumes "hash32 sha" and "action_small a" and "action_small b"
    and "inj_on sha (action_inputs sha a \<union> action_inputs sha b)"
    and "consent_digest sha (subject_of sha a) = consent_digest sha (subject_of sha b)"
  shows "a = b"
proof -
  let ?s = "subject_of sha a" and ?t = "subject_of sha b"
  have "sd_hasher (kind_hasher (csj_client_id ?s) (csj_kind ?s))
      = sd_hasher (kind_hasher (csj_client_id ?t) (csj_kind ?t))"
    using assms(4,5) subject_input_in [of sha a] subject_input_in [of sha b]
    by (auto simp: consent_digest_def sd_finish_def dest: inj_onD)
  then have "kind_parts (csj_client_id ?s) (csj_kind ?s) = kind_parts (csj_client_id ?t) (csj_kind ?t)"
    unfolding hasher_kind
    using frames_inject [OF kind_addressable kind_addressable] subject_small [OF assms(1,2)]
      subject_small [OF assms(1,3)] by blast
  then have same: "csj_client_id ?s = csj_client_id ?t" "csj_kind ?s = csj_kind ?t"
    using kind_parts_inject by blast+
  show ?thesis
  proof (cases a)
    case (StartAction c m r p md w)
    then show ?thesis
      using same by (cases b) (simp_all add: consent_respond_def)
  next
    case (RespondAction c cx d answers)
    then obtain answers' where b: "b = RespondAction c cx d answers'"
      and digests: "canonical_answers_digest sha answers = canonical_answers_digest sha answers'"
      using same by (cases b) (simp_all add: consent_respond_def)
    have small: "answers_small answers" "answers_small answers'"
      using assms(2,3) by (simp_all add: RespondAction b)
    have "sd_hasher (answers_hasher answers) = sd_hasher (answers_hasher answers')"
      by (rule inj_onD [OF assms(4)])
         (use digests in \<open>simp_all add: canonical_answers_digest_def sd_finish_def RespondAction b\<close>)
    then have "concat (map entry_parts answers) = concat (map entry_parts answers')"
      unfolding hasher_answers
      using frames_inject [OF answers_addressable [OF small(1)] answers_addressable [OF small(2)]] by simp
    then show ?thesis
      using entry_parts_inject [OF small] by (simp add: RespondAction b)
  qed
qed

lemma consume_used: "cg_used grant \<Longrightarrow> consume_all sha calls grant
    = (grant, map (\<lambda>_. Inl AlreadyUsed) calls)"
  by (induction sha calls grant rule: consume_all.induct)
     (auto simp: consume_def consume_with_expiry_def)

text \<open>
  C39: a grant is good for one action once: whatever calls reach it, in whatever order and from
  whatever server, only the first can succeed, and it succeeds only on the server that issued the
  grant, before the thirty seconds are over, and for exactly the action the grant was issued for, to
  the last answer, unless SHA-256 collides on what was hashed for the two actions; every later call
  is refused as used, also when the first was refused.
\<close>

theorem consent_authorises_one_action:
  assumes "hash32 sha" and "issue sha random issued_at representable authority (subject_of sha action) = Inr grant"
    and "consume_all sha ((server, subject_of sha asked, now) # calls) grant = (grant', r # rs)"
    and "action_small action" and "action_small asked"
    and "inj_on sha (action_inputs sha action \<union> action_inputs sha asked)"
  shows "(r = Inr () \<longrightarrow> asked = action \<and> ca_server_epoch server = ca_server_epoch authority
        \<and> now < issued_at + consent_ttl)
    \<and> rs = map (\<lambda>_. Inl AlreadyUsed) calls \<and> cg_used grant'"
proof -
  have grant: "\<not> cg_used grant" "cg_server_epoch grant = ca_server_epoch authority"
    "cg_subject_digest grant = consent_digest sha (subject_of sha action)"
    "cg_expires_at grant = issued_at + consent_ttl"
    using assms(2) by (auto simp: issue_def result_iffs split: if_split_asm)
  obtain used where first: "consume sha server (subject_of sha asked) now grant = (used, r)"
    and later: "consume_all sha calls used = (grant', rs)"
    using assms(3) by (auto split: prod.split_asm)
  have used: "cg_used used"
    using first grant(1) by (auto simp: consume_def consume_with_expiry_def)
  have "r = Inr () \<Longrightarrow> ca_server_epoch server = ca_server_epoch authority \<and> now < issued_at + consent_ttl
      \<and> consent_digest sha (subject_of sha asked) = consent_digest sha (subject_of sha action)"
    using first grant by (auto simp: consume_def consume_with_expiry_def split: if_split_asm)
  moreover have "asked = action"
    if "consent_digest sha (subject_of sha asked) = consent_digest sha (subject_of sha action)"
    using subject_digest_determines [OF assms(1,4,5,6) that [symmetric]] by simp
  ultimately show ?thesis
    using later used by (auto simp: consume_used)
qed

text \<open>A grant to write in a worktree, asked for twice.\<close>

definition zero_hash :: sha256 where
  "zero_hash bs = replicate 32 0"

definition write_action :: consent_action where
  "write_action = StartAction 7 ''m'' ''r'' Codex Managed ''/w''"

theorem consent_authorises_one_action_witness:
  "\<exists>grant grant'. issue zero_hash (Some [1]) 10 (\<lambda>_. True) \<lparr>ca_server_epoch = [2]\<rparr>
       (subject_of zero_hash write_action) = Inr grant
     \<and> consume_all zero_hash [(\<lparr>ca_server_epoch = [2]\<rparr>, subject_of zero_hash write_action, 20),
           (\<lparr>ca_server_epoch = [2]\<rparr>, subject_of zero_hash write_action, 20)] grant
         = (grant', [Inr (), Inl AlreadyUsed])"
proof -
  let ?call = "(\<lparr>ca_server_epoch = [2]\<rparr>, subject_of zero_hash write_action, 20 :: nat)"
  obtain grant where issued: "issue zero_hash (Some [1]) 10 (\<lambda>_. True) \<lparr>ca_server_epoch = [2]\<rparr>
      (subject_of zero_hash write_action) = Inr grant"
    by (simp add: issue_def)
  obtain grant' r rs where run: "consume_all zero_hash [?call, ?call] grant = (grant', r # rs)"
    by (fastforce split: prod.split)
  have setting: "hash32 zero_hash" "action_small write_action"
    "inj_on zero_hash (action_inputs zero_hash write_action \<union> action_inputs zero_hash write_action)"
    by (simp_all add: hash32_def zero_hash_def write_action_def kind_small_def)
  have "rs = [Inl AlreadyUsed]"
    using consent_authorises_one_action [OF setting(1) issued run setting(2,2,3)] by simp
  moreover have "r = Inr ()"
    using issued run
    by (auto simp: issue_def consent_ttl_def consume_def consume_with_expiry_def split: prod.split_asm)
  ultimately show ?thesis
    using issued run by blast
qed

end
