(* ===== verification/Rust_Str.thy ===== *)
theory Rust_Str
  imports Evidence Rust_Text
begin

text \<open>
  The string methods of the Rust standard library that the project contract and the services use:
  searching and replacing, splitting at a character, and \<open>parse::<u16>\<close>. A string is the list of its
  UTF-8 bytes; every pattern here is ASCII, for which searching bytes and searching characters agree.
\<close>

definition starts_with :: "string \<Rightarrow> string \<Rightarrow> bool" where
  "starts_with p s \<longleftrightarrow> take (length p) s = p"

definition ends_with :: "string \<Rightarrow> string \<Rightarrow> bool" where
  "ends_with p s \<longleftrightarrow> length p \<le> length s \<and> drop (length s - length p) s = p"

definition contains_any :: "string \<Rightarrow> string \<Rightarrow> bool" where
  "contains_any cs s \<longleftrightarrow> list_ex (\<lambda>c. c \<in> set cs) s"

text \<open>\<open>replace\<close> and \<open>matches\<close> find the occurrences of a pattern from the left, without overlaps.\<close>

fun replace_from :: "nat \<Rightarrow> string \<Rightarrow> string \<Rightarrow> string \<Rightarrow> string" where
  "replace_from skip p r [] = []"
| "replace_from (Suc skip) p r (c # s) = replace_from skip p r s"
| "replace_from 0 p r (c # s) =
     (if starts_with p (c # s) then r @ replace_from (length p - 1) p r s
      else c # replace_from 0 p r s)"

definition str_replace :: "string \<Rightarrow> string \<Rightarrow> string \<Rightarrow> string" where
  "str_replace p r s = replace_from 0 p r s"

fun matches_from :: "nat \<Rightarrow> string \<Rightarrow> string \<Rightarrow> nat" where
  "matches_from skip p [] = 0"
| "matches_from (Suc skip) p (c # s) = matches_from skip p s"
| "matches_from 0 p (c # s) =
     (if starts_with p (c # s) then Suc (matches_from (length p - 1) p s)
      else matches_from 0 p s)"

definition str_matches :: "string \<Rightarrow> string \<Rightarrow> nat" where
  "str_matches p s = matches_from 0 p s"

definition str_split_once :: "char \<Rightarrow> string \<Rightarrow> (string \<times> string) option" where
  "str_split_once c s =
     (if c \<in> set s then Some (takeWhile ((\<noteq>) c) s, tl (dropWhile ((\<noteq>) c) s)) else None)"

definition rsplit_once :: "char \<Rightarrow> string \<Rightarrow> (string \<times> string) option" where
  "rsplit_once c s = map_option (\<lambda>(after, before). (rev before, rev after)) (str_split_once c (rev s))"

text \<open>\<open>parse::<u16>\<close>: one leading plus sign is allowed, any number of leading zeros as well.\<close>

definition digits_value :: "string \<Rightarrow> nat" where
  "digits_value s = foldl (\<lambda>n c. n * 10 + (ascii_code c - 48)) 0 s"

definition parse_u16 :: "string \<Rightarrow> u16 option" where
  "parse_u16 s =
     (let digits = (if length s > 1 \<and> hd s = CHR ''+'' then tl s else s)
      in if digits = [] \<or> \<not> list_all is_ascii_digit digits then None
         else if digits_value digits < 2 ^ 16 then Some (of_nat (digits_value digits)) else None)"

definition u16_string :: "u16 \<Rightarrow> string" where
  "u16_string n = decimal (unat n)"

section \<open>Facts\<close>

lemma starts_with_iff: "starts_with p s \<longleftrightarrow> (\<exists>t. s = p @ t)"
  by (auto simp: starts_with_def) (metis append_take_drop_id)

lemma starts_with_append [simp]: "starts_with p (p @ s)"
  by (simp add: starts_with_def)

lemma ends_with_iff: "ends_with p s \<longleftrightarrow> (\<exists>t. s = t @ p)"
proof
  assume "ends_with p s"
  then show "\<exists>t. s = t @ p"
    by (metis ends_with_def append_take_drop_id)
qed (auto simp: ends_with_def)

lemma contains_any_iff: "contains_any cs s \<longleftrightarrow> set cs \<inter> set s \<noteq> {}"
  by (auto simp: contains_any_def list_ex_iff)

lemma split_once_Some:
  "str_split_once c s = Some (a, b) \<longleftrightarrow> s = a @ c # b \<and> c \<notin> set a"
proof
  assume some: "str_split_once c s = Some (a, b)"
  then have "c \<in> set s" and a: "a = takeWhile ((\<noteq>) c) s" and b: "b = tl (dropWhile ((\<noteq>) c) s)"
    by (auto simp: str_split_once_def split: if_splits)
  then have "dropWhile ((\<noteq>) c) s \<noteq> []"
    by (auto simp: dropWhile_eq_Nil_conv)
  then have "dropWhile ((\<noteq>) c) s = c # b"
    using b hd_dropWhile [of "(\<noteq>) c" s] by (cases "dropWhile ((\<noteq>) c) s") auto
  then show "s = a @ c # b \<and> c \<notin> set a"
    using a takeWhile_dropWhile_id [of "(\<noteq>) c" s] by (auto dest: set_takeWhileD)
next
  assume "s = a @ c # b \<and> c \<notin> set a"
  then have "takeWhile ((\<noteq>) c) s = a" and "dropWhile ((\<noteq>) c) s = c # b" and "c \<in> set s"
    by (auto simp: takeWhile_append dropWhile_append)
  then show "str_split_once c s = Some (a, b)"
    by (simp add: str_split_once_def)
qed

lemma split_once_None: "str_split_once c s = None \<longleftrightarrow> c \<notin> set s"
  by (simp add: str_split_once_def)

lemma rsplit_once_Some:
  "rsplit_once c s = Some (a, b) \<longleftrightarrow> s = a @ c # b \<and> c \<notin> set b"
proof -
  have "rsplit_once c s = Some (a, b) \<longleftrightarrow> str_split_once c (rev s) = Some (rev b, rev a)"
    by (auto simp: rsplit_once_def)
  also have "\<dots> \<longleftrightarrow> rev s = rev b @ c # rev a \<and> c \<notin> set b"
    by (simp add: split_once_Some)
  also have "rev s = rev b @ c # rev a \<longleftrightarrow> s = a @ c # b"
    by (metis rev_append rev_rev_ident rev.simps(2) append.assoc append_Cons append_Nil)
  finally show ?thesis .
qed

lemma decimal_digit_code: "k < 10 \<Longrightarrow> ascii_code (''0123456789'' ! k) = 48 + k"
proof -
  assume "k < 10"
  then have "k \<in> {0, 1, 2, 3, 4, 5, 6, 7, 8, 9}"
    by (simp only: insert_iff empty_iff) presburger
  then show ?thesis
    by (auto simp: ascii_code_def)
qed

lemma decimal_digits: "list_all is_ascii_digit (decimal n) \<and> decimal n \<noteq> []"
proof (induction n rule: decimal.induct)
  case (1 n)
  have digit: "is_ascii_digit (''0123456789'' ! k)" if "k < 10" for k :: nat
    using decimal_digit_code [OF that] that by (simp only: is_ascii_digit_def) linarith
  show ?case
  proof (cases "n < 10")
    case True
    then show ?thesis
      using digit [OF True] by (simp add: decimal.simps [of n] del: nth_Cons)
  next
    case False
    then show ?thesis
      using 1 digit [of "n mod 10"] by (simp add: decimal.simps [of n] del: nth_Cons)
  qed
qed

lemma digits_value_snoc: "digits_value (s @ [c]) = digits_value s * 10 + (ascii_code c - 48)"
  by (simp add: digits_value_def)

lemma digits_value_decimal: "digits_value (decimal n) = n"
proof (induction n rule: decimal.induct)
  case (1 n)
  show ?case
  proof (cases "n < 10")
    case True
    then show ?thesis
      using digits_value_snoc [of "[]"] decimal_digit_code [OF True]
      by (simp add: decimal.simps [of n] digits_value_def del: nth_Cons)
  next
    case False
    then show ?thesis
      using 1 decimal_digit_code [of "n mod 10"]
      by (simp add: decimal.simps [of n] digits_value_snoc del: nth_Cons)
  qed
qed

text \<open>What is printed is parsed back.\<close>

lemma parse_u16_decimal: "parse_u16 (u16_string n) = Some n"
proof -
  have digits: "list_all is_ascii_digit (decimal (unat n))" "decimal (unat n) \<noteq> []"
    using decimal_digits by auto
  then have "is_ascii_digit (hd (decimal (unat n)))"
    by (cases "decimal (unat n)") auto
  then have "hd (decimal (unat n)) \<noteq> CHR ''+''"
    by (auto simp: is_ascii_digit_def ascii_code_def)
  moreover have "unat n < 2 ^ 16"
    using unsigned_less [of n] by simp
  ultimately show ?thesis
    using digits by (simp add: parse_u16_def u16_string_def digits_value_decimal Let_def)
qed

lemma concat_utf8_split: "concat (utf8_split s) = s"
  by (simp add: utf8_split_def concat_utf8_steps)

end
