(* ===== verification/Project_Recipe.thy ===== *)
theory Project_Recipe
  imports Trusted_Check Rust_Str
begin

text \<open>
  \<open>src/project_recipe/{model,validate,execute,mod}.rs\<close>: the contract \<open>.nagi/project.toml\<close> of a
  repository, its validation, how its commands run, the recipe that is guessed without one, and the
  parser of a proof command. The TOML and JSON decoders (crates toml and serde_json) and the file
  system are parameters. The copying of declared files is in \<open>Project_Copy\<close>.
\<close>

section \<open>The contract\<close>

definition project_schema_v1 :: u16 where "project_schema_v1 = 1"

definition default_command_timeout_seconds :: u64 where "default_command_timeout_seconds = 300"

record worktree_contract =
  wc_location :: string
  wc_base :: string
  wc_copy_ignored :: "string list"

definition default_worktree_location :: string where
  "default_worktree_location = ''.worktrees''"

definition default_worktree_base :: string where "default_worktree_base = ''HEAD''"

definition worktree_contract_default :: worktree_contract where
  "worktree_contract_default =
     \<lparr>wc_location = default_worktree_location, wc_base = default_worktree_base, wc_copy_ignored = []\<rparr>"

record command_contract =
  cc_command :: "string list"
  cc_timeout_seconds :: u64

record service_contract =
  svc_command :: "string list"
  svc_port_env :: string
  svc_health :: string
  svc_timeout_seconds :: u64

record check_contract =
  chk_id :: string
  chk_command :: "string list"
  chk_timeout_seconds :: u64
  chk_covers :: "string list"

record project_contract =
  pj_schema :: u16
  pj_worktree :: worktree_contract
  pj_setup :: "command_contract option"
  pj_services :: "(string, service_contract) bmap"
  pj_checks :: "check_contract list"
  pj_cleanup :: "command_contract list"

section \<open>Validation\<close>

datatype project_contract_error =
    RepositoryUnavailable | PcSymlinkNotAllowed | PcFileTooLarge | PcRead | PcParse
  | PcUnsupportedSchema u16 | InvalidWorktreeLocation string | InvalidWorktreeBase
  | TooManyCopiedFiles | InvalidCopiedPath string | SecretCopyRejected string
  | InvalidCommandLength string | InvalidCommandArgument string | InvalidTimeout string
  | TooManyServices | InvalidServiceId string | InvalidPortEnvironment string string
  | InvalidHealthUrl string | TooManyChecks | InvalidCheckId string | DuplicateCheckId string
  | InvalidCoverage string | TooManyCleanupCommands

definition max_project_file_bytes :: u64 where "max_project_file_bytes = 256 * 1024"
definition max_command_arguments :: nat where "max_command_arguments = 128"
definition max_copy_ignored :: nat where "max_copy_ignored = 32"
definition max_checks :: nat where "max_checks = 32"
definition max_services :: nat where "max_services = 16"
definition max_cleanup_commands :: nat where "max_cleanup_commands = 16"
definition max_timeout_seconds :: u64 where "max_timeout_seconds = 3600"

definition has_line_break :: "string \<Rightarrow> bool" where
  "has_line_break s \<longleftrightarrow> contains_any [CHR 0x00, CHR 0x0A, CHR 0x0D] s"

definition valid_id :: "string \<Rightarrow> bool" where
  "valid_id value \<longleftrightarrow> value \<noteq> [] \<and> length value \<le> 128
     \<and> list_all (\<lambda>c. is_ascii_alphanumeric c \<or> c \<in> set ''_-.:'') value"

definition is_ascii_alphabetic :: "char \<Rightarrow> bool" where
  "is_ascii_alphabetic c \<longleftrightarrow> is_ascii_alphanumeric c \<and> \<not> is_ascii_digit c"

definition valid_env_name :: "string \<Rightarrow> bool" where
  "valid_env_name value \<longleftrightarrow>
     (case value of
        [] \<Rightarrow> False
      | c # cs \<Rightarrow> (is_ascii_alphabetic c \<or> c = CHR ''_'')
          \<and> list_all (\<lambda>c. is_ascii_alphanumeric c \<or> c = CHR ''_'') cs \<and> length value \<le> 128)"

text \<open>The components of a path, when all of them are plain names.\<close>

fun normal_components :: "path_component list \<Rightarrow> string list option" where
  "normal_components [] = Some []"
| "normal_components (Normal part # rest) = map_option ((#) part) (normal_components rest)"
| "normal_components (_ # rest) = None"

definition recipe_relative_path :: "string \<Rightarrow> unit + string list" where
  "recipe_relative_path raw =
     (if path_is_absolute raw \<or> ends_with ''/'' raw \<or> ends_with [CHR 0x5C] raw then Inl ()
      else case normal_components (components raw) of
        None \<Rightarrow> Inl ()
      | Some clean \<Rightarrow> if clean = [] then Inl () else Inr clean)"

definition secret_names :: "string list" where
  "secret_names = [''.npmrc'', ''.netrc'', ''credentials'', ''credentials.json'', ''id_rsa'',
     ''id_ed25519'', ''secrets'', ''secrets.json'']"

definition secret_suffixes :: "string list" where
  "secret_suffixes = [''.pem'', ''.key'', ''.p12'', ''.pfx'']"

definition template_suffixes :: "string list" where
  "template_suffixes = [''.env.example'', ''.env.sample'', ''.env.template'']"

definition looks_secret :: "string \<Rightarrow> bool" where
  "looks_secret name \<longleftrightarrow>
     starts_with ''.env'' name
       \<and> \<not> list_ex (\<lambda>t. name = t \<or> ends_with t name) template_suffixes
     \<or> name \<in> set secret_names \<or> list_ex (\<lambda>suffix. ends_with suffix name) secret_suffixes"

definition glob_chars :: string where
  "glob_chars = ''*?[]{}'' @ [CHR 0x00, CHR 0x0A, CHR 0x0D]"

definition validate_copy_path :: "string \<Rightarrow> project_contract_error + unit" where
  "validate_copy_path raw =
     (if raw = [] \<or> length raw > 1024 \<or> contains_any glob_chars raw
         \<or> recipe_relative_path raw = Inl ()
      then Inl (InvalidCopiedPath raw)
      else
        let lower = to_ascii_lowercase raw; name = unwrap_or [] (file_name lower)
        in if looks_secret name then Inl (SecretCopyRejected raw) else Inr ())"

definition validate_command_parts ::
  "string \<Rightarrow> string list \<Rightarrow> u64 \<Rightarrow> project_contract_error + unit" where
  "validate_command_parts field command timeout_seconds =
     (if command = [] \<or> length command > max_command_arguments then Inl (InvalidCommandLength field)
      else if list_ex (\<lambda>arg. arg = [] \<or> length arg > 4096 \<or> has_line_break arg) command
      then Inl (InvalidCommandArgument field)
      else if \<not> (1 \<le> timeout_seconds \<and> timeout_seconds \<le> max_timeout_seconds)
      then Inl (InvalidTimeout field)
      else Inr ())"

definition validate_command :: "string \<Rightarrow> command_contract \<Rightarrow> project_contract_error + unit" where
  "validate_command field command =
     validate_command_parts field (cc_command command) (cc_timeout_seconds command)"

definition validate_check :: "check_contract \<Rightarrow> project_contract_error + unit" where
  "validate_check check =
     (if \<not> valid_id (chk_id check) then Inl (InvalidCheckId (chk_id check))
      else
        rbind (validate_command_parts (''checks.'' @ chk_id check) (chk_command check)
                 (chk_timeout_seconds check)) (\<lambda>_.
        if length (chk_covers check) > 16
           \<or> list_ex (\<lambda>label. is_blank label \<or> length label > 1024) (chk_covers check)
        then Inl (InvalidCoverage (chk_id check))
        else Inr ()))"

definition port_pattern :: string where "port_pattern = ''{port}''"

definition has_space_or_control :: "string \<Rightarrow> bool" where
  "has_space_or_control s \<longleftrightarrow> list_ex (\<lambda>cp. is_control cp \<or> is_whitespace cp) (utf8_chars s)"

definition loopback_health :: "string \<Rightarrow> bool" where
  "loopback_health health \<longleftrightarrow> starts_with ''http://127.0.0.1:{port}'' health
     \<or> starts_with ''http://localhost:{port}'' health"

definition validate_service ::
  "string \<Rightarrow> service_contract \<Rightarrow> project_contract_error + unit" where
  "validate_service service_id service =
     (if \<not> valid_id service_id then Inl (InvalidServiceId service_id)
      else
        rbind (validate_command_parts (''services.'' @ service_id) (svc_command service)
                 (svc_timeout_seconds service)) (\<lambda>_.
        if \<not> valid_env_name (svc_port_env service)
        then Inl (InvalidPortEnvironment service_id (svc_port_env service))
        else
          let health = svc_health service
          in if \<not> loopback_health health \<or> str_matches port_pattern health \<noteq> 1
                \<or> length health > 2048 \<or> has_space_or_control health
             then Inl (InvalidHealthUrl service_id)
             else Inr ()))"

text \<open>The loops that also keep what they have seen.\<close>

fun validate_copied :: "string bset \<Rightarrow> string list \<Rightarrow> project_contract_error + unit" where
  "validate_copied copied [] = Inr ()"
| "validate_copied copied (path # paths) =
     rbind (validate_copy_path path) (\<lambda>_.
       if path \<in> set copied then Inl (InvalidCopiedPath path)
       else validate_copied (bs_insert path copied) paths)"

fun validate_checks :: "string bset \<Rightarrow> check_contract list \<Rightarrow> project_contract_error + unit" where
  "validate_checks check_ids [] = Inr ()"
| "validate_checks check_ids (check # checks) =
     rbind (validate_check check) (\<lambda>_.
       if chk_id check \<in> set check_ids then Inl (DuplicateCheckId (chk_id check))
       else validate_checks (bs_insert (chk_id check) check_ids) checks)"

definition cleanup_field :: "nat \<Rightarrow> string" where
  "cleanup_field index = ''cleanup['' @ decimal index @ '']''"

definition validate_contract :: "project_contract \<Rightarrow> project_contract_error + unit" where
  "validate_contract contract =
     (let wt = pj_worktree contract
      in if pj_schema contract \<noteq> project_schema_v1
         then Inl (PcUnsupportedSchema (pj_schema contract))
         else
           rbind (map_err (\<lambda>_. InvalidWorktreeLocation (wc_location wt))
             (recipe_relative_path (wc_location wt))) (\<lambda>_.
           if is_blank (wc_base wt) \<or> length (wc_base wt) > 256 \<or> has_line_break (wc_base wt)
           then Inl InvalidWorktreeBase
           else if length (wc_copy_ignored wt) > max_copy_ignored then Inl TooManyCopiedFiles
           else
             rbind (validate_copied [] (wc_copy_ignored wt)) (\<lambda>_.
             rbind (case pj_setup contract of
                      None \<Rightarrow> Inr () | Some setup \<Rightarrow> validate_command ''setup'' setup) (\<lambda>_.
             if length (pj_services contract) > max_services then Inl TooManyServices
             else
               rbind (check_all (\<lambda>(service_id, service). validate_service service_id service)
                        (pj_services contract)) (\<lambda>_.
               if length (pj_checks contract) > max_checks then Inl TooManyChecks
               else
                 rbind (validate_checks [] (pj_checks contract)) (\<lambda>_.
                 if length (pj_cleanup contract) > max_cleanup_commands
                 then Inl TooManyCleanupCommands
                 else check_all (\<lambda>(index, command). validate_command (cleanup_field index) command)
                        (enumerate 0 (pj_cleanup contract))))))))"

section \<open>Loading\<close>

record load_env =
  le_canonicalize :: "string \<Rightarrow> path option"
  le_stat :: "path \<Rightarrow> stat_result"
  le_read_to_string :: "path \<Rightarrow> string option"
  le_from_toml :: "string \<Rightarrow> project_contract option"

definition load_contract :: "load_env \<Rightarrow> string \<Rightarrow> project_contract_error + project_contract option" where
  "load_contract env requested =
     rbind (ok_or RepositoryUnavailable (le_canonicalize env requested)) (\<lambda>repository.
       let path = repository @ [''.nagi'', ''project.toml'']
       in case le_stat env path of
            StatNotFound \<Rightarrow> Inr None
          | StatError \<Rightarrow> Inl PcRead
          | StatOk md \<Rightarrow>
              if md_kind md = KindSymlink then Inl PcSymlinkNotAllowed
              else if md_kind md \<noteq> KindFile then Inl PcRead
              else if md_len md > max_project_file_bytes then Inl PcFileTooLarge
              else
                rbind (ok_or PcRead (le_read_to_string env path)) (\<lambda>source.
                rbind (ok_or PcParse (le_from_toml env source)) (\<lambda>contract.
                rbind (validate_contract contract) (\<lambda>_. Inr (Some contract)))))"

section \<open>Running the commands\<close>

record project_command_result =
  pcr_id :: string
  pcr_exit_code :: "32 word option"
  pcr_duration_millis :: u64
  pcr_stdout :: string
  pcr_stderr :: string

definition bytes_lossy :: "u8 list \<Rightarrow> string" where
  "bytes_lossy bs = from_utf8_lossy (map (\<lambda>b. char_of (unat b)) bs)"

definition from_trusted :: "string \<Rightarrow> trusted_check_result \<Rightarrow> project_command_result" where
  "from_trusted i result =
     \<lparr>pcr_id = i, pcr_exit_code = tr_exit_code result, pcr_duration_millis = tr_duration_millis result,
      pcr_stdout = bytes_lossy (tr_stdout result), pcr_stderr = bytes_lossy (tr_stderr result)\<rparr>"

definition succeeded :: "project_command_result \<Rightarrow> bool" where
  "succeeded result \<longleftrightarrow> pcr_exit_code result = Some 0"

text \<open>\<open>with_limits\<close>, with the timeout in milliseconds, and \<open>run\<close>, whose flag is never raised.\<close>

definition with_limits :: "u64 \<Rightarrow> nat \<Rightarrow> nat \<Rightarrow> trusted_check_runner" where
  "with_limits timeout stdout_limit stderr_limit =
     \<lparr>cr_timeout = timeout, cr_stdout_limit = stdout_limit, cr_stderr_limit = stderr_limit\<rparr>"

definition never_cancelled :: "check_env \<Rightarrow> check_env" where
  "never_cancelled env =
     env\<lparr>ke_child := \<lambda>command. let child = ke_child env command
        in child\<lparr>kc_polls := map (\<lambda>p. p\<lparr>kp_cancelled := False\<rparr>) (kc_polls child)\<rparr>\<rparr>"

definition run_uncancelled ::
  "trusted_check_runner \<Rightarrow> check_env \<Rightarrow> string \<Rightarrow> command_spec
     \<Rightarrow> trusted_check_error + trusted_check_result" where
  "run_uncancelled runner env requested spec = run_with_cancel runner (never_cancelled env) requested spec"

text \<open>No result where the code would panic: the contract was validated, so its commands are not empty.\<close>

definition run_parts ::
  "check_env \<Rightarrow> string \<Rightarrow> string \<Rightarrow> string list \<Rightarrow> u64
     \<Rightarrow> (trusted_check_error + project_command_result) option" where
  "run_parts env repository i command timeout_seconds =
     (case command of
        [] \<Rightarrow> None
      | program # args \<Rightarrow>
          let spec = command_spec_new program args ''.'';
              runner = with_limits (timeout_seconds * 1000) (16 * 1024 * 1024) (8 * 1024 * 1024)
          in Some (rbind (run_uncancelled runner env repository spec) (\<lambda>result.
               Inr (from_trusted i result))))"

definition run_setup :: "check_env \<Rightarrow> string \<Rightarrow> command_contract
    \<Rightarrow> (trusted_check_error + project_command_result) option" where
  "run_setup env repository setup =
     run_parts env repository ''setup'' (cc_command setup) (cc_timeout_seconds setup)"

definition run_check :: "check_env \<Rightarrow> string \<Rightarrow> check_contract
    \<Rightarrow> (trusted_check_error + project_command_result) option" where
  "run_check env repository check =
     run_parts env repository (chk_id check) (chk_command check) (chk_timeout_seconds check)"

definition run_cleanup :: "check_env \<Rightarrow> string \<Rightarrow> nat \<Rightarrow> command_contract
    \<Rightarrow> (trusted_check_error + project_command_result) option" where
  "run_cleanup env repository index cleanup =
     run_parts env repository (cleanup_field index) (cc_command cleanup) (cc_timeout_seconds cleanup)"

section \<open>The guessed recipe\<close>

datatype recipe_confidence = ProjectTest | BaselineOnly

record project_recipe =
  re_id :: string
  re_label :: string
  re_command_line :: string
  re_confidence :: recipe_confidence

record detect_env =
  de_is_file :: "string \<Rightarrow> bool"
  de_read :: "string \<Rightarrow> u8 list option"
  de_test_script :: "u8 list \<Rightarrow> string option"

definition recipe :: "string \<Rightarrow> string \<Rightarrow> string \<Rightarrow> recipe_confidence \<Rightarrow> project_recipe" where
  "recipe i label command_line confidence =
     \<lparr>re_id = i, re_label = label, re_command_line = command_line, re_confidence = confidence\<rparr>"

text \<open>\<open>de_test_script\<close> is the JSON value \<open>scripts.test\<close> when it is a string.\<close>

definition package_has_test_script :: "detect_env \<Rightarrow> bool" where
  "package_has_test_script env =
     (case de_read env ''package.json'' of
        None \<Rightarrow> False
      | Some bs \<Rightarrow>
          (case de_test_script env bs of
             None \<Rightarrow> False
           | Some script \<Rightarrow>
               let normalized = str_trim script
               in normalized \<noteq> [] \<and> str_matches ''Error: no test specified'' normalized = 0
                  \<and> normalized \<noteq> ''exit 1''))"

definition detect :: "detect_env \<Rightarrow> project_recipe" where
  "detect env =
     (let is_file = de_is_file env
      in if is_file ''Cargo.toml'' then recipe ''rust'' ''Rust'' ''cargo test'' ProjectTest
         else if is_file ''go.mod'' then recipe ''go'' ''Go'' ''go test ./...'' ProjectTest
         else if is_file ''build.zig'' then recipe ''zig'' ''Zig'' ''zig build test'' ProjectTest
         else if is_file ''pyproject.toml'' \<or> is_file ''pytest.ini'' \<or> is_file ''setup.cfg''
         then recipe ''python'' ''Python'' ''python -m pytest'' ProjectTest
         else if is_file ''package.json'' \<and> package_has_test_script env
         then
           let (i, label, command) =
             (if is_file ''bun.lock'' \<or> is_file ''bun.lockb'' then (''bun'', ''Bun'', ''bun test'')
              else if is_file ''pnpm-lock.yaml'' then (''pnpm'', ''pnpm'', ''pnpm test'')
              else if is_file ''yarn.lock'' then (''yarn'', ''Yarn'', ''yarn test'')
              else (''npm'', ''npm'', ''npm test''))
           in recipe i label command ProjectTest
         else recipe ''git-baseline'' ''Git baseline'' ''git diff --check'' BaselineOnly)"

section \<open>The proof command\<close>

datatype command_line_error = UnfinishedQuoteOrEscape | EmptyProofCommand | ShellOperator

definition backslash :: char where "backslash = CHR 0x5C"

definition quote_chars :: "string list" where "quote_chars = [[CHR 0x27], [CHR 0x22]]"

text \<open>The state of the loop: the words, the word that is read, the open quote, a pending escape.\<close>

fun parse_words ::
  "string list \<Rightarrow> string \<Rightarrow> string option \<Rightarrow> bool \<Rightarrow> string list
     \<Rightarrow> string list \<times> string \<times> string option \<times> bool" where
  "parse_words words word quote escaped [] = (words, word, quote, escaped)"
| "parse_words words word quote escaped (ch # rest) =
     (if escaped then parse_words words (word @ ch) quote False rest
      else if ch = [backslash] then parse_words words word quote True rest
      else case quote of
        Some active_quote \<Rightarrow>
          if ch = active_quote then parse_words words word None False rest
          else parse_words words (word @ ch) quote False rest
      | None \<Rightarrow>
          if ch \<in> set quote_chars then parse_words words word (Some ch) False rest
          else if whitespace_piece ch
          then parse_words (if word = [] then words else words @ [word]) [] None False rest
          else parse_words words (word @ ch) None False rest)"

definition shell_operators :: "string list" where
  "shell_operators = [''|'', ''||'', ''&&'', '';'', ''>'', ''>>'', ''<'', ''2>'', ''2>&1'']"

definition parse_command_line :: "string \<Rightarrow> command_line_error + string \<times> string list" where
  "parse_command_line input =
     (case parse_words [] [] None False (utf8_split (str_trim input)) of
        (words, word, quote, escaped) \<Rightarrow>
          if escaped \<or> quote \<noteq> None then Inl UnfinishedQuoteOrEscape
          else
            let words = (if word = [] then words else words @ [word])
            in case words of
                 [] \<Rightarrow> Inl EmptyProofCommand
               | program # args \<Rightarrow>
                   if list_ex (\<lambda>w. w \<in> set shell_operators) words then Inl ShellOperator
                   else Inr (program, args))"

end
