(* ===== verification/Project_Copy.thy ===== *)
theory Project_Copy
  imports Project_Recipe
begin

text \<open>
  \<open>src/project_recipe/copy.rs\<close>: copying the declared ignored files of a checkout into a new
  worktree, on a file system with directories, regular files and symbolic links (whose targets are
  absolute). What Git answers and which calls of the operating system fail are arguments.
\<close>

section \<open>The file system\<close>

datatype fs_entry = FsFile "u8 list" u32 | FsDir | FsLink path

type_synonym fs = "path \<Rightarrow> fs_entry option"

datatype walk = WMissing | WError | WAt path

text \<open>Walking through directories, following at most \<open>links\<close> symbolic links.\<close>

function resolve_dir :: "nat \<Rightarrow> fs \<Rightarrow> path \<Rightarrow> path \<Rightarrow> walk" where
  "resolve_dir links fs cur [] = WAt cur"
| "resolve_dir links fs cur (n # ns) =
     (case fs (cur @ [n]) of
        None \<Rightarrow> WMissing
      | Some FsDir \<Rightarrow> resolve_dir links fs (cur @ [n]) ns
      | Some (FsFile _ _) \<Rightarrow> WError
      | Some (FsLink target) \<Rightarrow>
          (case links of 0 \<Rightarrow> WError | Suc k \<Rightarrow> resolve_dir k fs [] (target @ ns)))"
  by pat_completeness auto

termination
  by (relation "measures [\<lambda>(links, fs, cur, ns). links, \<lambda>(links, fs, cur, ns). length ns]") auto

datatype stat = SMissing | SError | SOk fs_entry

definition lstat :: "fs \<Rightarrow> path \<Rightarrow> stat" where
  "lstat fs p =
     (if p = [] then SOk FsDir
      else case resolve_dir 40 fs [] (butlast p) of
        WMissing \<Rightarrow> SMissing
      | WError \<Rightarrow> SError
      | WAt d \<Rightarrow> (case fs (d @ [last p]) of None \<Rightarrow> SMissing | Some e \<Rightarrow> SOk e))"

primrec stat_following :: "nat \<Rightarrow> fs \<Rightarrow> path \<Rightarrow> stat" where
  "stat_following 0 fs p = SError"
| "stat_following (Suc links) fs p =
     (case lstat fs p of
        SOk (FsLink target) \<Rightarrow> stat_following links fs target
      | SOk e \<Rightarrow> SOk e
      | SMissing \<Rightarrow> SMissing
      | SError \<Rightarrow> SError)"

definition fs_stat :: "fs \<Rightarrow> path \<Rightarrow> stat" where
  "fs_stat fs p = stat_following 40 fs p"

definition fs_exists :: "fs \<Rightarrow> path \<Rightarrow> bool" where
  "fs_exists fs p \<longleftrightarrow> fs_stat fs p \<notin> {SMissing, SError}"

text \<open>What the operating system and Git do with one declared path.\<close>

datatype write_end = WriteAll | WriteFails nat bool

record copy_io =
  ci_git :: "32 word option option"
  ci_readable :: bool
  ci_mkdir :: "path \<Rightarrow> bool"
  ci_create :: bool
  ci_write :: write_end
  ci_chmod :: bool

text \<open>\<open>create_dir_all\<close>.\<close>

fun create_dir_all :: "copy_io \<Rightarrow> fs \<Rightarrow> path \<Rightarrow> path \<Rightarrow> fs \<times> bool" where
  "create_dir_all io fs cur [] = (fs, True)"
| "create_dir_all io fs cur (n # ns) =
     (case fs_stat fs (cur @ [n]) of
        SOk FsDir \<Rightarrow> create_dir_all io fs (cur @ [n]) ns
      | SMissing \<Rightarrow>
          (case resolve_dir 40 fs [] cur of
             WAt d \<Rightarrow>
               if fs (d @ [n]) = None \<and> ci_mkdir io (d @ [n])
               then create_dir_all io (fs(d @ [n] \<mapsto> FsDir)) (cur @ [n]) ns
               else (fs, False)
           | _ \<Rightarrow> (fs, False))
      | _ \<Rightarrow> (fs, False))"

section \<open>Copying\<close>

datatype copy_ignored_error =
    CopyInvalidPath string | UnsupportedSource path | SourceNotIgnored path
  | DestinationExists path | CopyFileTooLarge path | TotalTooLarge path | GitCheckFailed | CopyIo

definition max_copy_file_bytes :: nat where "max_copy_file_bytes = 16 * 1024 * 1024"

definition max_copy_total_bytes :: nat where "max_copy_total_bytes = 64 * 1024 * 1024"

definition exact_relative_path :: "string \<Rightarrow> copy_ignored_error + path" where
  "exact_relative_path raw =
     (if path_is_absolute raw then Inl (CopyInvalidPath raw)
      else case normal_components (components raw) of
        None \<Rightarrow> Inl (CopyInvalidPath raw)
      | Some clean \<Rightarrow> if clean = [] then Inl (CopyInvalidPath raw) else Inr clean)"

fun reject_symlink_components :: "fs \<Rightarrow> path \<Rightarrow> path \<Rightarrow> path \<Rightarrow> copy_ignored_error + unit" where
  "reject_symlink_components fs relative current [] = Inr ()"
| "reject_symlink_components fs relative current (n # ns) =
     (case lstat fs (current @ [n]) of
        SOk (FsLink _) \<Rightarrow> Inl (UnsupportedSource relative)
      | SOk _ \<Rightarrow> reject_symlink_components fs relative (current @ [n]) ns
      | SMissing \<Rightarrow> Inr ()
      | SError \<Rightarrow> Inl CopyIo)"

definition git_path_is_ignored :: "copy_io \<Rightarrow> copy_ignored_error + bool" where
  "git_path_is_ignored io =
     (case ci_git io of
        None \<Rightarrow> Inl CopyIo
      | Some code \<Rightarrow>
          if code = Some 0 then Inr True else if code = Some 1 then Inr False
          else Inl GitCheckFailed)"

definition files_equal :: "copy_io \<Rightarrow> fs \<Rightarrow> u8 list \<Rightarrow> path \<Rightarrow> copy_ignored_error + bool" where
  "files_equal io fs left right =
     (case lstat fs right of
        SOk (FsFile bs mode) \<Rightarrow>
          if length left \<noteq> length bs then Inr False
          else if \<not> ci_readable io then Inl CopyIo else Inr (left = bs)
      | SOk _ \<Rightarrow> Inr False
      | _ \<Rightarrow> Inl CopyIo)"

text \<open>\<open>create_new\<close> never follows a link at the last component and never opens what exists.\<close>

definition copy_create_new ::
  "copy_io \<Rightarrow> fs \<Rightarrow> u8 list \<Rightarrow> path \<Rightarrow> u32 \<Rightarrow> fs \<times> (copy_ignored_error + unit)" where
  "copy_create_new io fs source destination permissions =
     (if \<not> ci_readable io then (fs, Inl CopyIo)
      else case resolve_dir 40 fs [] (butlast destination) of
        WAt d \<Rightarrow>
          let target = d @ [last destination]
          in if fs target \<noteq> None \<or> \<not> ci_create io then (fs, Inl CopyIo)
             else (case ci_write io of
                     WriteFails n removed \<Rightarrow>
                       (if removed then fs else fs(target \<mapsto> FsFile (take n source) 384), Inl CopyIo)
                   | WriteAll \<Rightarrow>
                       if ci_chmod io then (fs(target \<mapsto> FsFile source permissions), Inr ())
                       else (fs(target \<mapsto> FsFile source 384), Inl CopyIo))
      | _ \<Rightarrow> (fs, Inl CopyIo))"

text \<open>
  One turn of the loop: the file system, the total so far and the paths that were copied. The
  outcome carries no new total when the path is skipped.
\<close>

record copy_state =
  cy_fs :: fs
  cy_total :: nat
  cy_copied :: "path list"

definition copy_one ::
  "(path \<Rightarrow> copy_io) \<Rightarrow> path \<Rightarrow> path \<Rightarrow> string \<Rightarrow> copy_state
     \<Rightarrow> copy_state \<times> (copy_ignored_error + unit)" where
  "copy_one os source_checkout destination_checkout raw st =
     (let fs = cy_fs st in
      case exact_relative_path raw of
        Inl e \<Rightarrow> (st, Inl e)
      | Inr relative \<Rightarrow>
          let io = os relative; source = source_checkout @ relative;
              destination = destination_checkout @ relative
          in (case reject_symlink_components fs relative source_checkout relative of
                Inl e \<Rightarrow> (st, Inl e)
              | Inr _ \<Rightarrow>
                (case lstat fs source of
                   SMissing \<Rightarrow> (st, Inr ())
                 | SError \<Rightarrow> (st, Inl CopyIo)
                 | SOk (FsFile content permissions) \<Rightarrow>
                     let total = cy_total st + length content in
                     if length content > max_copy_file_bytes then (st, Inl (CopyFileTooLarge relative))
                     else if total \<ge> 2 ^ 64 \<or> total > max_copy_total_bytes
                     then (st, Inl (TotalTooLarge relative))
                     else
                       let st = st\<lparr>cy_total := total\<rparr> in
                       if fs_exists fs destination
                       then (case files_equal io fs content destination of
                               Inl e \<Rightarrow> (st, Inl e)
                             | Inr True \<Rightarrow> (st, Inr ())
                             | Inr False \<Rightarrow> (st, Inl (DestinationExists relative)))
                       else (case git_path_is_ignored io of
                               Inl e \<Rightarrow> (st, Inl e)
                             | Inr False \<Rightarrow> (st, Inl (SourceNotIgnored relative))
                             | Inr True \<Rightarrow>
                                 let (fs, made) = create_dir_all io fs [] (butlast destination) in
                                 if \<not> made then (st\<lparr>cy_fs := fs\<rparr>, Inl CopyIo)
                                 else
                                   let (fs, result) =
                                     copy_create_new io fs content destination permissions
                                   in (case result of
                                         Inl e \<Rightarrow> (st\<lparr>cy_fs := fs\<rparr>, Inl e)
                                       | Inr _ \<Rightarrow> (st\<lparr>cy_fs := fs, cy_copied := cy_copied st @ [relative]\<rparr>,
                                                   Inr ())))
                 | SOk _ \<Rightarrow> (st, Inl (UnsupportedSource relative)))))"

fun copy_all ::
  "(path \<Rightarrow> copy_io) \<Rightarrow> path \<Rightarrow> path \<Rightarrow> string list \<Rightarrow> copy_state
     \<Rightarrow> copy_state \<times> (copy_ignored_error + unit)" where
  "copy_all os source_checkout destination_checkout [] st = (st, Inr ())"
| "copy_all os source_checkout destination_checkout (raw # rest) st =
     (case copy_one os source_checkout destination_checkout raw st of
        (st, Inl e) \<Rightarrow> (st, Inl e)
      | (st, Inr _) \<Rightarrow> copy_all os source_checkout destination_checkout rest st)"

text \<open>The roots are canonical: \<open>canonicalize\<close> is an argument.\<close>

definition copy_declared_ignored_files ::
  "(string \<Rightarrow> path option) \<Rightarrow> (path \<Rightarrow> copy_io) \<Rightarrow> string \<Rightarrow> string \<Rightarrow> project_contract \<Rightarrow> fs
     \<Rightarrow> fs \<times> (copy_ignored_error + path list)" where
  "copy_declared_ignored_files canonicalize os source_checkout destination_checkout contract fs =
     (case (canonicalize source_checkout, canonicalize destination_checkout) of
        (Some source, Some destination) \<Rightarrow>
          let (st, result) = copy_all os source destination (wc_copy_ignored (pj_worktree contract))
                \<lparr>cy_fs = fs, cy_total = 0, cy_copied = []\<rparr>
          in (cy_fs st, rbind result (\<lambda>_. Inr (cy_copied st)))
      | _ \<Rightarrow> (fs, Inl CopyIo))"

end
