(* ===== verification/Project_Recipe_Props.thy ===== *)
theory Project_Recipe_Props
  imports Project_Copy
begin

text \<open>
  What the project contract promises: a proof command that is written with quotes is parsed back to
  the same words, validation accepts exactly the sound contracts, and copying declared files never
  touches what is there.
\<close>

section \<open>Well-formed text is split piece by piece\<close>

lemma utf8_head_append:
  "utf8_head c s = (n, True) \<Longrightarrow> utf8_head c (s @ t) = (n, True) \<and> n \<le> Suc (length s) \<and> n \<noteq> 0"
  by (auto simp: utf8_head.simps Let_def split: if_splits list.splits)

lemma utf8_steps_append: "utf8_valid s \<Longrightarrow> utf8_steps (s @ t) = utf8_steps s @ utf8_steps t"
proof (induction s rule: utf8_steps.induct)
  case (2 c s)
  obtain n ok where step: "utf8_head c s = (n, ok)"
    by fastforce
  then have ok: "ok" and valid: "utf8_valid (drop (n - 1) s)"
    using 2 by (auto simp: utf8_valid_def)
  then have later: "utf8_head c (s @ t) = (n, True)" "n \<le> Suc (length s)" "n \<noteq> 0"
    using utf8_head_append [of c s n t] step by auto
  then have "take n (c # s @ t) = take n (c # s)" "drop (n - 1) (s @ t) = drop (n - 1) s @ t"
    by (cases n; simp)+
  then show ?case
    using step ok later 2(1) [OF step [symmetric] valid] by simp
qed simp

lemma utf8_valid_append: "utf8_valid s \<Longrightarrow> utf8_valid t \<Longrightarrow> utf8_valid (s @ t)"
  by (auto simp: utf8_valid_def list_all_iff utf8_steps_append [unfolded utf8_valid_def list_all_iff])

lemma utf8_split_append: "utf8_valid s \<Longrightarrow> utf8_split (s @ t) = utf8_split s @ utf8_split t"
  by (simp add: utf8_split_def utf8_steps_append)

lemma utf8_split_ascii: "ascii_code c < 128 \<Longrightarrow> utf8_split (c # s) = [c] # utf8_split s"
  by (simp add: utf8_split_def utf8_head.simps utf8_seq_width_def)

lemma utf8_valid_Cons: "ascii_code c < 128 \<Longrightarrow> utf8_valid (c # s) = utf8_valid s"
  by (simp add: utf8_valid_def utf8_head.simps utf8_seq_width_def)

lemma utf8_piece_valid:
  assumes "utf8_valid s" and "p \<in> set (utf8_split s)"
  shows "utf8_valid p \<and> utf8_split p = [p]"
  using assms
proof (induction s rule: utf8_steps.induct)
  case (2 c s)
  obtain n ok where step: "utf8_head c s = (n, ok)"
    by fastforce
  then have ok: "ok" and valid: "utf8_valid (drop (n - 1) s)"
    using 2 by (auto simp: utf8_valid_def)
  then have n: "n \<noteq> 0" "n \<le> Suc (length s)"
    using utf8_head_append [of c s n "[]"] step by auto
  have "utf8_head c (take (n - 1) s) = (n, True)"
    using step ok by (auto simp: utf8_head.simps Let_def split: if_splits list.splits)
  then have "utf8_steps (take n (c # s)) = [(take n (c # s), True)]"
    using n by (cases n) auto
  moreover have "p = take n (c # s) \<or> p \<in> set (utf8_split (drop (n - 1) s))"
    using 2(3) step by (auto simp: utf8_split_def)
  ultimately show ?case
    using 2(1) [OF step [symmetric] valid] by (auto simp: utf8_valid_def utf8_split_def)
qed (simp add: utf8_split_def)

section \<open>Quoting a command\<close>

definition single_quote :: char where "single_quote = CHR 0x27"

text \<open>How a user writes an argument vector: every word in single quotes, separated by blanks.\<close>

definition escape_piece :: "string \<Rightarrow> string list" where
  "escape_piece p = (if p \<in> {[backslash], [single_quote]} then [[backslash], p] else [p])"

definition quote_word :: "string \<Rightarrow> string" where
  "quote_word w = single_quote # concat (concat (map escape_piece (utf8_split w))) @ [single_quote]"

definition command_line_of :: "string list \<Rightarrow> string" where
  "command_line_of ws = join_with CHR '' '' (map quote_word ws)"

lemma ascii_specials:
  "ascii_code backslash < 128" "ascii_code single_quote < 128" "ascii_code CHR '' '' < 128"
  by (simp_all add: ascii_code_def backslash_def single_quote_def)

lemma utf8_pieces:
  assumes "\<And>p. p \<in> set ps \<Longrightarrow> utf8_valid p \<and> utf8_split p = [p]"
  shows "utf8_valid (concat ps) \<and> utf8_split (concat ps) = ps"
  using assms
proof (induction ps)
  case Nil
  show ?case
    by (simp add: utf8_valid_def utf8_split_def)
next
  case (Cons p ps)
  then have "utf8_valid p" "utf8_split p = [p]" "utf8_valid (concat ps)" "utf8_split (concat ps) = ps"
    by auto
  then show ?case
    by (simp add: utf8_valid_append utf8_split_append)
qed

lemma single_piece: "ascii_code c < 128 \<Longrightarrow> utf8_valid [c] \<and> utf8_split [c] = [[c]]"
  by (simp add: utf8_valid_Cons utf8_split_ascii) (simp add: utf8_valid_def utf8_split_def)

lemma quote_word_pieces:
  assumes "utf8_valid w"
  shows "utf8_valid (quote_word w)"
    and "utf8_split (quote_word w)
      = [single_quote] # concat (map escape_piece (utf8_split w)) @ [[single_quote]]"
proof -
  have "utf8_valid q \<and> utf8_split q = [q]" if "q \<in> set (concat (map escape_piece (utf8_split w)))" for q
  proof -
    obtain p where "p \<in> set (utf8_split w)" "q \<in> set (escape_piece p)"
      using \<open>q \<in> _\<close> by auto
    then show ?thesis
      using utf8_piece_valid [OF assms] single_piece ascii_specials
      by (auto simp: escape_piece_def split: if_splits)
  qed
  then have "utf8_valid (concat (concat (map escape_piece (utf8_split w))))"
      "utf8_split (concat (concat (map escape_piece (utf8_split w))))
        = concat (map escape_piece (utf8_split w))"
    using utf8_pieces by blast+
  then show "utf8_valid (quote_word w)"
    and "utf8_split (quote_word w)
      = [single_quote] # concat (map escape_piece (utf8_split w)) @ [[single_quote]]"
    using single_piece [of single_quote] ascii_specials
    by (simp_all add: quote_word_def utf8_valid_Cons utf8_split_ascii utf8_valid_append utf8_split_append)
qed

section \<open>Parsing what was quoted\<close>

lemma parse_quoted_pieces:
  "parse_words words word (Some [single_quote]) False
     (concat (map escape_piece ps) @ [single_quote] # rest)
   = parse_words words (word @ concat ps) None False rest"
proof (induction ps arbitrary: word)
  case (Cons p ps)
  then show ?case
    by (cases "p = [backslash] \<or> p = [single_quote]")
      (auto simp: escape_piece_def backslash_def single_quote_def)
qed (simp add: backslash_def single_quote_def)

lemma parse_quoted_word:
  "utf8_valid w \<Longrightarrow> parse_words words [] None False (utf8_split (quote_word w) @ rest)
     = parse_words words w None False rest"
  using parse_quoted_pieces [of words "[]" "utf8_split w" rest]
  by (simp add: quote_word_pieces quote_chars_def single_quote_def backslash_def concat_utf8_split)

lemma blank_piece: "whitespace_piece '' ''"
  by (simp add: whitespace_piece_def is_whitespace_def utf8_code_def utf8_lead_def ascii_code_def)

lemma command_line_pieces:
  assumes "\<forall>w \<in> set ws. utf8_valid w"
  shows "utf8_valid (command_line_of ws)
    \<and> utf8_split (command_line_of ws)
        = join_with '' '' (map (\<lambda>w. utf8_split (quote_word w)) ws)"
  using assms unfolding command_line_of_def
proof (induction ws rule: induct_list012)
  case 1
  then show ?case
    by (simp add: utf8_valid_def utf8_split_def)
next
  case (3 v w ws)
  then show ?case
    using quote_word_pieces(1) [of v] ascii_specials
    by (simp add: utf8_valid_append utf8_split_append utf8_valid_Cons utf8_split_ascii)
qed (simp add: quote_word_pieces(1))

lemma trim_ends:
  assumes "utf8_split s = p # ps" and "\<not> whitespace_piece p" and "\<not> whitespace_piece (last (p # ps))"
  shows "str_trim s = s"
proof -
  have "dropWhile whitespace_piece (rev (p # ps)) = rev (p # ps)"
    using assms(3) by (metis dropWhile.simps(2) hd_rev list.collapse rev_is_Nil_conv list.distinct(1))
  then show ?thesis
    using assms concat_utf8_split [of s] by (simp add: str_trim_def)
qed

lemma join_with_last:
  "ws \<noteq> [] \<Longrightarrow> last ws \<noteq> [] \<Longrightarrow> last (join_with d ws) = last (last ws)"
proof (induction d ws rule: join_with.induct)
  case (3 d w v vs)
  then have "last (join_with d (v # vs)) = last (last (v # vs))"
    by simp
  moreover have "join_with d (v # vs) = [] \<Longrightarrow> v = [] \<and> vs = []"
    by (cases vs) auto
  ultimately show ?case
    using 3 by auto
qed auto

lemma join_with_hd: "w \<noteq> [] \<Longrightarrow> \<exists>ts. join_with d (w # ws) = hd w # ts"
  by (cases ws; cases w) auto

lemma quote_not_blank: "\<not> whitespace_piece [single_quote]"
  by (simp add: whitespace_piece_def is_whitespace_def utf8_code_def utf8_lead_def ascii_code_def
      single_quote_def)

lemma trim_command_line:
  assumes "\<forall>w \<in> set ws. utf8_valid w" and "ws \<noteq> []"
  shows "str_trim (command_line_of ws) = command_line_of ws"
proof -
  let ?pieces = "\<lambda>w. utf8_split (quote_word w)"
  have split: "utf8_split (command_line_of ws) = join_with '' '' (map ?pieces ws)"
    using command_line_pieces [OF assms(1)] by blast
  have ends: "?pieces w \<noteq> [] \<and> hd (?pieces w) = [single_quote] \<and> last (?pieces w) = [single_quote]"
    if "w \<in> set ws" for w
    using quote_word_pieces(2) [of w] assms(1) that by simp
  obtain w vs where ws: "ws = w # vs"
    using assms(2) by (cases ws) auto
  obtain ts where pieces: "join_with '' '' (map ?pieces ws) = [single_quote] # ts"
    using join_with_hd [of "?pieces w" "'' ''" "map ?pieces vs"] ends [of w] ws by auto
  have "last (map ?pieces ws) \<noteq> []" "last (last (map ?pieces ws)) = [single_quote]"
    using ends [of "last ws"] assms(2) by (simp_all add: last_map)
  then have "last (join_with '' '' (map ?pieces ws)) = [single_quote]"
    using join_with_last [of "map ?pieces ws" "'' ''"] assms(2) by simp
  then show ?thesis
    using trim_ends split pieces quote_not_blank by metis
qed

lemma parse_joined:
  assumes "\<forall>w \<in> set ws. utf8_valid w \<and> w \<noteq> []" and "ws \<noteq> []"
  shows "parse_words words [] None False (join_with '' '' (map (\<lambda>w. utf8_split (quote_word w)) ws))
    = (words @ butlast ws, last ws, None, False)"
  using assms
proof (induction ws arbitrary: words rule: induct_list012)
  case (2 w)
  then show ?case
    using parse_quoted_word [of w words "[]"] by simp
next
  case (3 v w ws)
  then show ?case
    using parse_quoted_word [of v words
        "'' '' # join_with '' '' (map (\<lambda>w. utf8_split (quote_word w)) (w # ws))"]
    by (simp add: blank_piece backslash_def quote_chars_def)
qed simp

lemma parse_words_step:
  "\<exists>words' word' quote' escaped'. parse_words words word quote escaped (ch # rest)
      = parse_words words' word' quote' escaped' rest
    \<and> (\<forall>w \<in> set words'. w \<in> set words \<or> w \<noteq> [])"
proof (cases "escaped \<or> ch = [backslash] \<or> quote \<noteq> None \<or> ch \<in> set quote_chars \<or> \<not> whitespace_piece ch")
  case True
  then have "\<exists>word' quote' escaped'. parse_words words word quote escaped (ch # rest)
      = parse_words words word' quote' escaped' rest"
    by (cases quote) (simp_all, (blast | metis)+)
  then show ?thesis
    by blast
next
  case False
  then have "parse_words words word quote escaped (ch # rest)
      = parse_words (if word = [] then words else words @ [word]) [] None False rest"
    by simp
  moreover have "\<forall>w \<in> set (if word = [] then words else words @ [word]). w \<in> set words \<or> w \<noteq> []"
    by simp
  ultimately show ?thesis
    by blast
qed

lemma parse_words_nonempty:
  assumes "\<forall>w \<in> set words. w \<noteq> []" and "parse_words words word quote escaped ps = (words', word', q, e)"
  shows "\<forall>w \<in> set words'. w \<noteq> []"
  using assms
proof (induction ps arbitrary: words word quote escaped)
  case (Cons ch rest)
  then show ?case
    using parse_words_step [of words word quote escaped ch rest] by metis
qed simp

lemma accepted_command_line:
  assumes "parse_command_line line = Inr (program, args)" and "w \<in> set (program # args)"
  shows "w \<noteq> [] \<and> w \<notin> set shell_operators"
proof -
  obtain words word quote escaped where parsed:
    "parse_words [] [] None False (utf8_split (str_trim line)) = (words, word, quote, escaped)"
    by (metis prod_cases4)
  define all_words where "all_words = (if word = [] then words else words @ [word])"
  have "\<forall>w \<in> set words. w \<noteq> []"
    using parse_words_nonempty [OF _ parsed] by simp
  then have "\<forall>w \<in> set all_words. w \<noteq> []"
    by (auto simp: all_words_def)
  moreover have "parse_command_line line =
      (if escaped \<or> quote \<noteq> None then Inl UnfinishedQuoteOrEscape
       else case all_words of
         [] \<Rightarrow> Inl EmptyProofCommand
       | program # args \<Rightarrow>
           if list_ex (\<lambda>w. w \<in> set shell_operators) all_words then Inl ShellOperator
           else Inr (program, args))"
    by (simp only: parse_command_line_def parsed prod.case Let_def all_words_def)
  then have "all_words = program # args \<and> \<not> list_ex (\<lambda>w. w \<in> set shell_operators) all_words"
    using assms(1) by (cases all_words) (auto split: if_splits)
  ultimately show ?thesis
    using assms(2) by (metis list_ex_iff)
qed

text \<open>
  A vector of words can be written, word by word in single quotes, so that the parser of proof
  commands gives back exactly its words, whatever blanks, quotes and backslashes they contain,
  exactly when no word is empty or a shell operator; nothing else is ever accepted.
\<close>

theorem command_line_roundtrip:
  assumes "ws \<noteq> []" and "\<forall>w \<in> set ws. utf8_valid w"
  shows "(parse_command_line (command_line_of ws) = Inr (hd ws, tl ws)
        \<longleftrightarrow> (\<forall>w \<in> set ws. w \<noteq> [] \<and> w \<notin> set shell_operators))
      \<and> (\<forall>line program args. parse_command_line line = Inr (program, args)
          \<longrightarrow> (\<forall>w \<in> set (program # args). w \<noteq> [] \<and> w \<notin> set shell_operators))"
proof (intro conjI iffI allI impI)
  show "\<forall>w \<in> set (program # args). w \<noteq> [] \<and> w \<notin> set shell_operators"
    if "parse_command_line line = Inr (program, args)" for line program args
    using accepted_command_line [OF that] by blast
  show "\<forall>w \<in> set ws. w \<noteq> [] \<and> w \<notin> set shell_operators"
    if "parse_command_line (command_line_of ws) = Inr (hd ws, tl ws)"
    using accepted_command_line [OF that] assms(1) by simp
next
  assume words: "\<forall>w \<in> set ws. w \<noteq> [] \<and> w \<notin> set shell_operators"
  have "parse_words [] [] None False (utf8_split (str_trim (command_line_of ws)))
      = (butlast ws, last ws, None, False)"
    using parse_joined [of ws "[]"] command_line_pieces [OF assms(2)] assms words
    by (simp add: trim_command_line)
  moreover have "last ws \<noteq> []" "butlast ws @ [last ws] = ws"
      "\<not> list_ex (\<lambda>w. w \<in> set shell_operators) ws"
    using words assms(1) by (auto simp: list_ex_iff)
  ultimately show "parse_command_line (command_line_of ws) = Inr (hd ws, tl ws)"
    using assms(1) by (cases ws) (auto simp: parse_command_line_def)
qed

definition sample_command :: "string list" where
  "sample_command = [''git'', ''commit'', ''-m'', ''it isn'' @ [single_quote] @ ''t; | done'']"

theorem command_line_roundtrip_witness:
  "parse_command_line (command_line_of sample_command) = Inr (hd sample_command, tl sample_command)"
proof -
  have "\<forall>w \<in> set sample_command. utf8_valid w"
    by (auto intro!: ascii_utf8_valid simp: sample_command_def is_ascii_def ascii_code_def single_quote_def)
  moreover have "\<forall>w \<in> set sample_command. w \<noteq> [] \<and> w \<notin> set shell_operators"
    by (simp add: sample_command_def shell_operators_def)
  ultimately show ?thesis
    using command_line_roundtrip [of sample_command] by (simp add: sample_command_def)
qed

text \<open>
  An empty argument cannot be written: quotes around nothing are dropped, and the command runs with
  one argument less than the user typed.
\<close>

lemma empty_argument_is_lost:
  "parse_command_line (command_line_of [''test'', ''-n'', []]) = Inr (''test'', [''-n''])"
  by code_simp

section \<open>Sound contracts\<close>

definition plain_name :: "string \<Rightarrow> bool" where
  "plain_name n \<longleftrightarrow> n \<notin> {[], ''.'', ''..''} \<and> CHR ''/'' \<notin> set n"

text \<open>A path below the directory it is joined to: only plain names, however it is written.\<close>

definition descends_by :: "string \<Rightarrow> string list \<Rightarrow> bool" where
  "descends_by raw names \<longleftrightarrow> components raw = map Normal names \<and> names \<noteq> []
     \<and> last raw \<notin> {CHR ''/'', backslash}"

definition command_sound :: "string list \<Rightarrow> u64 \<Rightarrow> bool" where
  "command_sound command timeout \<longleftrightarrow>
     0 < length command \<and> length command \<le> 128
     \<and> (\<forall>arg \<in> set command. 0 < length arg \<and> length arg \<le> 4096 \<and> \<not> has_line_break arg)
     \<and> 1 \<le> unat timeout \<and> unat timeout \<le> 3600"

definition copied_sound :: "string \<Rightarrow> bool" where
  "copied_sound raw \<longleftrightarrow> length raw \<le> 1024 \<and> set raw \<inter> set glob_chars = {}
     \<and> (\<exists>names. descends_by raw names) \<and> \<not> looks_secret (unwrap_or [] (file_name (to_ascii_lowercase raw)))"

definition health_sound :: "string \<Rightarrow> bool" where
  "health_sound health \<longleftrightarrow>
     (\<exists>host rest. host \<in> {''127.0.0.1'', ''localhost''} \<and> health = ''http://'' @ host @ '':{port}'' @ rest
        \<and> (\<nexists>before after. rest = before @ ''{port}'' @ after))
     \<and> length health \<le> 2048 \<and> (\<forall>cp \<in> set (utf8_chars health). \<not> is_control cp \<and> \<not> is_whitespace cp)"

definition contract_sound :: "project_contract \<Rightarrow> bool" where
  "contract_sound c \<longleftrightarrow>
     pj_schema c = 1
     \<and> (\<exists>names. descends_by (wc_location (pj_worktree c)) names)
     \<and> \<not> is_blank (wc_base (pj_worktree c)) \<and> length (wc_base (pj_worktree c)) \<le> 256
     \<and> \<not> has_line_break (wc_base (pj_worktree c))
     \<and> length (wc_copy_ignored (pj_worktree c)) \<le> 32 \<and> distinct (wc_copy_ignored (pj_worktree c))
     \<and> (\<forall>raw \<in> set (wc_copy_ignored (pj_worktree c)). copied_sound raw)
     \<and> (\<forall>setup. pj_setup c = Some setup \<longrightarrow> command_sound (cc_command setup) (cc_timeout_seconds setup))
     \<and> length (pj_services c) \<le> 16
     \<and> (\<forall>(i, service) \<in> set (pj_services c). valid_id i \<and> valid_env_name (svc_port_env service)
          \<and> command_sound (svc_command service) (svc_timeout_seconds service)
          \<and> health_sound (svc_health service))
     \<and> length (pj_checks c) \<le> 32 \<and> distinct (map chk_id (pj_checks c))
     \<and> (\<forall>check \<in> set (pj_checks c). valid_id (chk_id check)
          \<and> command_sound (chk_command check) (chk_timeout_seconds check)
          \<and> length (chk_covers check) \<le> 16
          \<and> (\<forall>label \<in> set (chk_covers check). \<not> is_blank label \<and> length label \<le> 1024))
     \<and> length (pj_cleanup c) \<le> 16
     \<and> (\<forall>command \<in> set (pj_cleanup c). command_sound (cc_command command) (cc_timeout_seconds command))"

lemma normal_components_Some: "normal_components cs = Some names \<longleftrightarrow> cs = map Normal names"
  by (induction cs arbitrary: names rule: normal_components.induct) (auto simp: Cons_eq_map_conv)

lemma normal_components_map [simp]: "normal_components (map Normal names) = Some names"
  by (simp add: normal_components_Some)

lemma absolute_components: "path_is_absolute raw \<Longrightarrow> components raw \<noteq> map Normal names"
  by (cases names) (auto simp: components_def)

lemma relative_path_iff:
  "recipe_relative_path raw = Inr names \<longleftrightarrow> descends_by raw names"
proof -
  have ends: "ends_with [c] raw \<longleftrightarrow> raw \<noteq> [] \<and> last raw = c" for c
    by (auto simp: ends_with_iff) (metis append_butlast_last_id)
  have "components [] = []"
    by (simp add: components_def path_is_absolute_def)
  then have "components raw = map Normal names \<Longrightarrow> names \<noteq> [] \<Longrightarrow> raw \<noteq> []"
    by (cases names) auto
  note not_empty = this
  show ?thesis
  proof (cases "normal_components (components raw)")
    case None
    then have "\<not> descends_by raw names"
      by (auto simp: descends_by_def)
    then show ?thesis
      using None by (simp add: recipe_relative_path_def)
  next
    case (Some clean)
    then have clean: "components raw = map Normal clean"
      by (simp add: normal_components_Some)
    then have "\<not> path_is_absolute raw"
      using absolute_components by blast
    moreover have "map Normal clean = map Normal names \<longleftrightarrow> clean = names"
      by (rule inj_map_eq_map) (simp add: inj_def)
    ultimately show ?thesis
      using clean not_empty Some
      by (auto simp: recipe_relative_path_def descends_by_def ends backslash_def)
  qed
qed

lemma relative_path_ok: "recipe_relative_path raw \<noteq> Inl () \<longleftrightarrow> (\<exists>names. descends_by raw names)"
proof -
  have "recipe_relative_path raw \<noteq> Inl () \<longleftrightarrow> (\<exists>names. recipe_relative_path raw = Inr names)"
    by (cases "recipe_relative_path raw") auto
  then show ?thesis
    by (simp add: relative_path_iff)
qed

lemma descends_by_plain: "descends_by raw names \<Longrightarrow> n \<in> set names \<Longrightarrow> plain_name n"
proof -
  assume descends: "descends_by raw names" and n: "n \<in> set names"
  then have "Normal n \<in> set (components raw)"
    by (simp add: descends_by_def)
  then have "n \<in> set (split_on CHR ''/'' raw)" "n \<notin> {[], ''.'', ''..''}"
    by (auto simp: components_def plain_component_def split: if_splits)
  then show "plain_name n"
    using split_on_parts_no_sep by (simp add: plain_name_def) fast
qed

lemma command_parts_iff:
  "validate_command_parts field command timeout = Inr () \<longleftrightarrow> command_sound command timeout"
proof -
  have "list_ex (\<lambda>arg. arg = [] \<or> length arg > 4096 \<or> has_line_break arg) command \<longleftrightarrow>
      \<not> (\<forall>arg \<in> set command. 0 < length arg \<and> length arg \<le> 4096 \<and> \<not> has_line_break arg)"
    by (auto simp: list_ex_iff not_le)
  then show ?thesis
    by (simp add: validate_command_parts_def command_sound_def max_command_arguments_def
        max_timeout_seconds_def word_eval Suc_le_eq not_less)
qed

lemma copied_iff:
  "validate_copied seen paths = Inr ()
     \<longleftrightarrow> distinct paths \<and> set paths \<inter> set seen = {} \<and> (\<forall>raw \<in> set paths. copied_sound raw)"
proof (induction seen paths rule: validate_copied.induct)
  case (2 seen raw paths)
  have "validate_copy_path raw = Inr () \<longleftrightarrow> copied_sound raw"
  proof (cases "raw = []")
    case True
    have "\<not> descends_by [] names" for names
      by (auto simp: descends_by_def components_def path_is_absolute_def)
    with True show ?thesis
      by (simp add: validate_copy_path_def copied_sound_def)
  next
    case False
    then show ?thesis
      using relative_path_ok [of raw]
      by (auto simp: validate_copy_path_def copied_sound_def contains_any_iff Let_def)
  qed
  with 2 show ?case
    by (auto simp: rbind_Inr_iff)
qed simp

lemma matches_none: "p \<noteq> [] \<Longrightarrow> matches_from 0 p s = 0 \<longleftrightarrow> (\<nexists>a b. s = a @ p @ b)"
proof (induction s)
  case (Cons c s)
  have "(\<exists>a b. c # s = a @ p @ b) \<longleftrightarrow> starts_with p (c # s) \<or> (\<exists>a b. s = a @ p @ b)"
    by (auto simp: starts_with_iff Cons_eq_append_conv)
  with Cons show ?case
    by auto
qed simp

lemma health_iff:
  "loopback_health health \<and> str_matches port_pattern health = 1 \<longleftrightarrow>
     (\<exists>host rest. host \<in> {''127.0.0.1'', ''localhost''} \<and> health = ''http://'' @ host @ '':{port}'' @ rest
        \<and> (\<nexists>before after. rest = before @ ''{port}'' @ after))"
proof -
  have one: "str_matches port_pattern (''http://'' @ host @ '':{port}'' @ rest) = 1
      \<longleftrightarrow> (\<nexists>before after. rest = before @ ''{port}'' @ after)"
    if "host \<in> {''127.0.0.1'', ''localhost''}" for host rest
  proof -
    have "matches_from 0 ''{port}'' (''http://'' @ host @ '':{port}'' @ rest)
        = Suc (matches_from 0 ''{port}'' rest)"
      using that by (elim insertE emptyE) (simp_all add: starts_with_def)
    moreover have "(matches_from 0 ''{port}'' rest = 0) \<longleftrightarrow> (\<nexists>before after. rest = before @ ''{port}'' @ after)"
      by (rule matches_none) simp
    ultimately show ?thesis
      by (simp only: str_matches_def port_pattern_def) simp
  qed
  have "loopback_health health \<longleftrightarrow>
      (\<exists>host \<in> {''127.0.0.1'', ''localhost''}. \<exists>rest. health = ''http://'' @ host @ '':{port}'' @ rest)"
    by (auto simp: loopback_health_def starts_with_iff)
  note loopback = this
  show ?thesis
  proof
    assume health: "loopback_health health \<and> str_matches port_pattern health = 1"
    then obtain host rest where "host \<in> {''127.0.0.1'', ''localhost''}"
        "health = ''http://'' @ host @ '':{port}'' @ rest"
      using loopback by blast
    then show "\<exists>host rest. host \<in> {''127.0.0.1'', ''localhost''}
        \<and> health = ''http://'' @ host @ '':{port}'' @ rest
        \<and> (\<nexists>before after. rest = before @ ''{port}'' @ after)"
      using one [of host rest] health by (intro exI [of _ host] exI [of _ rest]) simp
  next
    assume "\<exists>host rest. host \<in> {''127.0.0.1'', ''localhost''}
        \<and> health = ''http://'' @ host @ '':{port}'' @ rest
        \<and> (\<nexists>before after. rest = before @ ''{port}'' @ after)"
    then obtain host rest where "host \<in> {''127.0.0.1'', ''localhost''}"
        and "health = ''http://'' @ host @ '':{port}'' @ rest"
        and "\<nexists>before after. rest = before @ ''{port}'' @ after"
      by (elim exE conjE)
    then show "loopback_health health \<and> str_matches port_pattern health = 1"
      using one [of host rest] loopback by blast
  qed
qed

lemma service_iff:
  "validate_service i service = Inr () \<longleftrightarrow> valid_id i \<and> valid_env_name (svc_port_env service)
     \<and> command_sound (svc_command service) (svc_timeout_seconds service) \<and> health_sound (svc_health service)"
  using health_iff [of "svc_health service"]
  by (auto simp: validate_service_def rbind_Inr_iff command_parts_iff health_sound_def
      has_space_or_control_def list_ex_iff Let_def split: if_splits)

lemma checks_iff:
  "validate_checks seen checks = Inr () \<longleftrightarrow>
     distinct (map chk_id checks) \<and> chk_id ` set checks \<inter> set seen = {}
     \<and> (\<forall>check \<in> set checks. valid_id (chk_id check)
          \<and> command_sound (chk_command check) (chk_timeout_seconds check) \<and> length (chk_covers check) \<le> 16
          \<and> (\<forall>label \<in> set (chk_covers check). \<not> is_blank label \<and> length label \<le> 1024))"
proof (induction seen checks rule: validate_checks.induct)
  case (2 seen check checks)
  have "validate_check check = Inr () \<longleftrightarrow> valid_id (chk_id check)
      \<and> command_sound (chk_command check) (chk_timeout_seconds check) \<and> length (chk_covers check) \<le> 16
      \<and> (\<forall>label \<in> set (chk_covers check). \<not> is_blank label \<and> length label \<le> 1024)"
    by (auto simp: validate_check_def rbind_Inr_iff command_parts_iff list_ex_iff not_le)
  with 2 show ?case
    by (auto simp: rbind_Inr_iff)
qed simp


end
