(* ===== verification/Project_Copy_Props.thy ===== *)
theory Project_Copy_Props
  imports Project_Copy
begin

text \<open>
  Copying declared files only adds to the file system, and what it reports as copied is a declared,
  ignored, regular file of limited size that was reached without following a link.
\<close>

section \<open>Walking in a growing file system\<close>

lemma resolve_dir_grows:
  "fs \<subseteq>\<^sub>m fs' \<Longrightarrow> resolve_dir links fs cur ns = WAt d \<Longrightarrow> resolve_dir links fs' cur ns = WAt d"
proof (induction links fs cur ns rule: resolve_dir.induct)
  case (2 links fs cur n ns)
  then obtain e where e: "fs (cur @ [n]) = Some e"
    by (cases "fs (cur @ [n])") auto
  then have "fs' (cur @ [n]) = Some e"
    using 2(3) by (simp add: map_le_def dom_def)
  with 2 e show ?case
    by (cases e) (auto split: nat.splits)
qed simp

lemma lstat_grows: "fs \<subseteq>\<^sub>m fs' \<Longrightarrow> lstat fs p = SOk e \<Longrightarrow> lstat fs' p = SOk e"
proof (cases "p = []")
  case False
  assume grows: "fs \<subseteq>\<^sub>m fs'" and found: "lstat fs p = SOk e"
  then obtain d where d: "resolve_dir 40 fs [] (butlast p) = WAt d" and "fs (d @ [last p]) = Some e"
    using False by (auto simp: lstat_def split: walk.splits option.splits)
  moreover then have "fs' (d @ [last p]) = Some e"
    using grows by (simp add: map_le_def dom_def)
  ultimately show ?thesis
    using False resolve_dir_grows [OF grows d] by (simp add: lstat_def)
qed (simp add: lstat_def)

lemma resolve_missing:
  "resolve_dir links fs cur as = WMissing \<Longrightarrow> resolve_dir links fs cur (as @ bs) = WMissing"
  by (induction links fs cur as rule: resolve_dir.induct)
    (auto split: option.splits fs_entry.splits nat.splits)

lemma resolve_missing_entry:
  "resolve_dir links fs cur as = WAt d \<Longrightarrow> fs (d @ [n]) = None
     \<Longrightarrow> resolve_dir links fs cur (as @ n # bs) = WMissing"
  by (induction links fs cur as rule: resolve_dir.induct)
    (auto split: option.splits fs_entry.splits nat.splits)

lemma missing_below:
  assumes "lstat fs (as @ [n]) = SMissing"
  shows "lstat fs (as @ n # ns) = SMissing"
proof (cases "ns = []")
  case False
  then have last: "butlast (as @ n # ns) = as @ n # butlast ns"
    by (simp add: butlast_append)
  have "resolve_dir 40 fs [] (as @ n # butlast ns) = WMissing"
  proof (cases "resolve_dir 40 fs [] as")
    case WMissing
    then show ?thesis
      by (rule resolve_missing)
  next
    case (WAt d)
    then show ?thesis
      using assms by (intro resolve_missing_entry) (auto simp: lstat_def split: option.splits)
  qed (use assms in \<open>simp add: lstat_def\<close>)
  then show ?thesis
    by (simp add: lstat_def last)
qed (use assms in simp)

definition not_link :: "stat \<Rightarrow> bool" where
  "not_link s \<longleftrightarrow> (\<exists>e. s = SOk e \<and> (\<forall>target. e \<noteq> FsLink target))"

lemma no_links_on_the_way:
  assumes "reject_symlink_components fs relative current ns = Inr ()"
    and "lstat fs (current @ ns) = SOk e" and "0 < i" and "i \<le> length ns"
  shows "not_link (lstat fs (current @ take i ns))"
  using assms
proof (induction ns arbitrary: current i)
  case (Cons n ns)
  have "lstat fs (current @ [n]) \<noteq> SMissing"
    using Cons.prems(2) missing_below [of fs current n ns] by auto
  then have "not_link (lstat fs (current @ [n]))"
    and "reject_symlink_components fs relative (current @ [n]) ns = Inr ()"
    using Cons.prems(1) by (auto simp: not_link_def split: stat.splits fs_entry.splits)
  then show ?case
    using Cons.IH [of "current @ [n]" "i - 1"] Cons.prems(2-4)
    by (cases i; cases "i = 1") auto
qed simp

section \<open>The steps only add\<close>

lemma map_le_new: "fs p = None \<Longrightarrow> fs \<subseteq>\<^sub>m fs(p \<mapsto> e)"
  by (auto simp: map_le_def)

lemma create_dir_all_grows: "create_dir_all io fs cur ns = (fs', made) \<Longrightarrow> fs \<subseteq>\<^sub>m fs'"
proof (induction io fs cur ns rule: create_dir_all.induct)
  case (2 io fs cur n ns)
  consider (dir) "fs_stat fs (cur @ [n]) = SOk FsDir"
    | (new) d where "fs_stat fs (cur @ [n]) = SMissing" "resolve_dir 40 fs [] cur = WAt d"
        "fs (d @ [n]) = None" "ci_mkdir io (d @ [n])"
    | (fails) "create_dir_all io fs cur (n # ns) = (fs, False)"
  proof (cases "fs_stat fs (cur @ [n]) = SOk FsDir \<or> (\<exists>d. fs_stat fs (cur @ [n]) = SMissing
      \<and> resolve_dir 40 fs [] cur = WAt d \<and> fs (d @ [n]) = None \<and> ci_mkdir io (d @ [n]))")
    case True
    then show thesis
      using dir new by blast
  next
    case False
    then have "create_dir_all io fs cur (n # ns) = (fs, False)"
      by (auto split: stat.splits fs_entry.splits walk.splits)
    then show thesis
      by (rule fails)
  qed
  then show ?case
  proof cases
    case dir
    then show ?thesis
      using 2 by simp
  next
    case (new d)
    then have "create_dir_all io (fs(d @ [n] \<mapsto> FsDir)) (cur @ [n]) ns = (fs', made)"
      using 2(3) by simp
    then have "fs(d @ [n] \<mapsto> FsDir) \<subseteq>\<^sub>m fs'"
      by (rule 2(1) [OF new(1,2) conjI [OF new(3,4)]])
    then show ?thesis
      using map_le_new [of fs "d @ [n]"] new(3) map_le_trans by blast
  next
    case fails
    then show ?thesis
      using 2(3) by simp
  qed
qed simp

lemma copy_create_new_cases:
  assumes "copy_create_new io fs source destination permissions = (fs', r)"
  shows "(\<exists>d. resolve_dir 40 fs [] (butlast destination) = WAt d
        \<and> fs (d @ [last destination]) = None \<and> r = Inr ()
        \<and> fs' = fs(d @ [last destination] \<mapsto> FsFile source permissions))
    \<or> (\<exists>e. r = Inl e) \<and> (fs' = fs \<or> (\<exists>p f. fs p = None \<and> fs' = fs(p \<mapsto> f)))"
proof (cases "resolve_dir 40 fs [] (butlast destination)")
  case (WAt d)
  let ?target = "d @ [last destination]"
  show ?thesis
  proof (cases "ci_readable io \<and> fs ?target = None \<and> ci_create io")
    case True
    then show ?thesis
      using assms WAt
      by (cases "ci_write io"; cases "ci_chmod io") (auto simp: copy_create_new_def split: if_splits)
  next
    case False
    then show ?thesis
      using assms WAt by (auto simp: copy_create_new_def split: if_splits)
  qed
qed (use assms in \<open>auto simp: copy_create_new_def split: if_splits\<close>)

lemma copy_create_new_grows:
  "copy_create_new io fs source destination permissions = (fs', r) \<Longrightarrow> fs \<subseteq>\<^sub>m fs'"
  by (drule copy_create_new_cases) (metis map_le_new map_le_refl)

lemma copy_create_new_ok:
  assumes "copy_create_new io fs source destination permissions = (fs', Inr ())" and "destination \<noteq> []"
  shows "lstat fs' destination = SOk (FsFile source permissions)"
proof -
  obtain d where ok: "resolve_dir 40 fs [] (butlast destination) = WAt d"
      "fs' = fs(d @ [last destination] \<mapsto> FsFile source permissions)"
    using copy_create_new_cases [OF assms(1)] by auto
  have "fs \<subseteq>\<^sub>m fs'"
    using copy_create_new_grows [OF assms(1)] .
  then show ?thesis
    using resolve_dir_grows [OF _ ok(1)] assms(2) ok(2) by (simp add: lstat_def)
qed

section \<open>What is reported as copied\<close>

definition file_length :: "fs \<Rightarrow> path \<Rightarrow> nat" where
  "file_length fs p = (case lstat fs p of SOk (FsFile bs _) \<Rightarrow> length bs | _ \<Rightarrow> 0)"

definition copied_right ::
  "(path \<Rightarrow> copy_io) \<Rightarrow> fs \<Rightarrow> path \<Rightarrow> path \<Rightarrow> string list \<Rightarrow> path \<Rightarrow> bool" where
  "copied_right os fs source destination declared relative \<longleftrightarrow>
     (\<exists>raw \<in> set declared. components raw = map Normal relative)
     \<and> ci_git (os relative) = Some (Some 0)
     \<and> (\<exists>bs mode. lstat fs (source @ relative) = SOk (FsFile bs mode)
          \<and> lstat fs (destination @ relative) = SOk (FsFile bs mode) \<and> length bs \<le> 16 * 1024 * 1024)
     \<and> (\<forall>i. 0 < i \<and> i \<le> length relative \<longrightarrow> not_link (lstat fs (source @ take i relative)))"

lemma copied_right_grows:
  assumes "fs \<subseteq>\<^sub>m fs'" and "copied_right os fs source destination declared relative"
    and "set declared \<subseteq> set declared'"
  shows "copied_right os fs' source destination declared' relative"
    and "file_length fs' (source @ relative) = file_length fs (source @ relative)"
proof -
  obtain raw bs mode where right: "raw \<in> set declared" "components raw = map Normal relative"
      "ci_git (os relative) = Some (Some 0)" "lstat fs (source @ relative) = SOk (FsFile bs mode)"
      "lstat fs (destination @ relative) = SOk (FsFile bs mode)" "length bs \<le> 16 * 1024 * 1024"
    and links: "\<forall>i. 0 < i \<and> i \<le> length relative \<longrightarrow> not_link (lstat fs (source @ take i relative))"
    using assms(2) unfolding copied_right_def by blast
  have "not_link (lstat fs' (source @ take i relative))" if "0 < i" "i \<le> length relative" for i
    using links that lstat_grows [OF assms(1)] unfolding not_link_def by blast
  then show "copied_right os fs' source destination declared' relative"
    using right assms(3) lstat_grows [OF assms(1) right(4)] lstat_grows [OF assms(1) right(5)]
    unfolding copied_right_def by blast
  show "file_length fs' (source @ relative) = file_length fs (source @ relative)"
    using right(4) lstat_grows [OF assms(1) right(4)] by (simp add: file_length_def)
qed

lemma exact_relative_path_Inr:
  "exact_relative_path raw = Inr relative \<Longrightarrow> components raw = map Normal relative \<and> relative \<noteq> []"
proof -
  have "normal_components cs = Some names \<Longrightarrow> cs = map Normal names" for cs names
    by (induction cs arbitrary: names rule: normal_components.induct) auto
  then show "exact_relative_path raw = Inr relative
      \<Longrightarrow> components raw = map Normal relative \<and> relative \<noteq> []"
    by (auto simp: exact_relative_path_def split: if_splits option.splits)
qed

section \<open>The loop\<close>

text \<open>
  One turn adds entries only; when it succeeds it either leaves the list and can only raise the
  total, or appends a path that was copied right and adds its length to the total.
\<close>

lemma copy_one_step:
  assumes "copy_one os source destination raw st = (st', r)"
  shows "cy_fs st \<subseteq>\<^sub>m cy_fs st'"
    and "r = Inr () \<Longrightarrow>
      cy_copied st' = cy_copied st
        \<and> (cy_total st' = cy_total st \<or> cy_total st \<le> cy_total st' \<and> cy_total st' \<le> max_copy_total_bytes)
      \<or> (\<exists>relative. cy_copied st' = cy_copied st @ [relative]
          \<and> cy_total st' = cy_total st + file_length (cy_fs st') (source @ relative)
          \<and> cy_total st' \<le> max_copy_total_bytes
          \<and> copied_right os (cy_fs st') source destination [raw] relative)"
proof -
  let ?fs = "cy_fs st"
  have "cy_fs st \<subseteq>\<^sub>m cy_fs st' \<and> (r = Inr () \<longrightarrow>
      cy_copied st' = cy_copied st
        \<and> (cy_total st' = cy_total st \<or> cy_total st \<le> cy_total st' \<and> cy_total st' \<le> max_copy_total_bytes)
      \<or> (\<exists>relative. cy_copied st' = cy_copied st @ [relative]
          \<and> cy_total st' = cy_total st + file_length (cy_fs st') (source @ relative)
          \<and> cy_total st' \<le> max_copy_total_bytes
          \<and> copied_right os (cy_fs st') source destination [raw] relative))" (is "?goal st' r")
  proof (cases "exact_relative_path raw")
    case (Inl e)
    then show ?thesis
      using assms by (auto simp: copy_one_def)
  next
    case (Inr relative)
    note exact = this
    show ?thesis
    proof (cases "\<exists>content permissions. reject_symlink_components ?fs relative source relative = Inr ()
        \<and> lstat ?fs (source @ relative) = SOk (FsFile content permissions)
        \<and> length content \<le> max_copy_file_bytes
        \<and> cy_total st + length content \<le> max_copy_total_bytes \<and> cy_total st + length content < 2 ^ 64")
      case False
      then show ?thesis
        using assms exact
        by (auto simp: copy_one_def Let_def not_le not_less split: sum.splits stat.splits fs_entry.splits
            if_splits)
    next
      case True
      then obtain content permissions where links: "reject_symlink_components ?fs relative source relative = Inr ()"
        and regular: "lstat ?fs (source @ relative) = SOk (FsFile content permissions)"
        and small: "length content \<le> max_copy_file_bytes" "cy_total st + length content \<le> max_copy_total_bytes"
          "cy_total st + length content < 2 ^ 64"
        by blast
      let ?io = "os relative" and ?dest = "destination @ relative"
      let ?st = "st\<lparr>cy_total := cy_total st + length content\<rparr>"
      have run: "(st', r) =
        (if fs_exists ?fs ?dest
         then (case files_equal ?io ?fs content ?dest of
                 Inl e \<Rightarrow> (?st, Inl e)
               | Inr True \<Rightarrow> (?st, Inr ())
               | Inr False \<Rightarrow> (?st, Inl (DestinationExists relative)))
         else (case git_path_is_ignored ?io of
                 Inl e \<Rightarrow> (?st, Inl e)
               | Inr False \<Rightarrow> (?st, Inl (SourceNotIgnored relative))
               | Inr True \<Rightarrow>
                   let (fs, made) = create_dir_all ?io ?fs [] (butlast ?dest) in
                   if \<not> made then (?st\<lparr>cy_fs := fs\<rparr>, Inl CopyIo)
                   else
                     let (fs, result) = copy_create_new ?io fs content ?dest permissions
                     in (case result of
                           Inl e \<Rightarrow> (?st\<lparr>cy_fs := fs\<rparr>, Inl e)
                         | Inr _ \<Rightarrow> (?st\<lparr>cy_fs := fs, cy_copied := cy_copied ?st @ [relative]\<rparr>, Inr ()))))"
        using assms exact links regular small by (simp add: copy_one_def Let_def)
      show ?thesis
      proof (cases "\<not> fs_exists ?fs ?dest \<and> git_path_is_ignored ?io = Inr True")
        case False
        then show ?thesis
          using run small(2) by (auto split: sum.splits bool.splits if_splits)
      next
        case True
        obtain fs1 made where dirs: "create_dir_all ?io ?fs [] (butlast ?dest) = (fs1, made)"
          by fastforce
        then have grown: "?fs \<subseteq>\<^sub>m fs1"
          by (rule create_dir_all_grows)
        obtain fs2 result where new: "copy_create_new ?io fs1 content ?dest permissions = (fs2, result)"
          by fastforce
        then have grown2: "fs1 \<subseteq>\<^sub>m fs2"
          by (rule copy_create_new_grows)
        show ?thesis
        proof (cases "made \<and> result = Inr ()")
          case False
          then show ?thesis
            using run True dirs new grown grown2 by (auto intro: map_le_trans split: sum.splits if_splits)
        next
          case finished: True
          then have final: "st' = ?st\<lparr>cy_fs := fs2, cy_copied := cy_copied st @ [relative]\<rparr>" "r = Inr ()"
            using run True dirs new by simp_all
          have grows: "?fs \<subseteq>\<^sub>m fs2"
            using grown grown2 by (rule map_le_trans)
          have exact_path: "components raw = map Normal relative" "relative \<noteq> []"
            using exact_relative_path_Inr [OF exact] by auto
          have source_there: "lstat fs2 (source @ relative) = SOk (FsFile content permissions)"
            by (rule lstat_grows [OF grows regular])
          moreover have "lstat fs2 ?dest = SOk (FsFile content permissions)"
            using copy_create_new_ok new finished exact_path(2) by fastforce
          moreover have "ci_git ?io = Some (Some 0)"
            using True by (auto simp: git_path_is_ignored_def split: option.splits if_splits)
          moreover have "not_link (lstat fs2 (source @ take i relative))" if "0 < i" "i \<le> length relative" for i
            using no_links_on_the_way [OF links regular that] lstat_grows [OF grows]
            unfolding not_link_def by blast
          ultimately have "copied_right os fs2 source destination [raw] relative"
            using exact_path small(1) unfolding copied_right_def max_copy_file_bytes_def by auto
          moreover have "file_length fs2 (source @ relative) = length content"
            using source_there by (simp add: file_length_def)
          ultimately show ?thesis
            using final grows small(2) by simp
        qed
      qed
    qed
  qed
  then show "cy_fs st \<subseteq>\<^sub>m cy_fs st'" and "r = Inr () \<Longrightarrow>
      cy_copied st' = cy_copied st
        \<and> (cy_total st' = cy_total st \<or> cy_total st \<le> cy_total st' \<and> cy_total st' \<le> max_copy_total_bytes)
      \<or> (\<exists>relative. cy_copied st' = cy_copied st @ [relative]
          \<and> cy_total st' = cy_total st + file_length (cy_fs st') (source @ relative)
          \<and> cy_total st' \<le> max_copy_total_bytes
          \<and> copied_right os (cy_fs st') source destination [raw] relative)"
    by blast+
qed

definition copies_right ::
  "(path \<Rightarrow> copy_io) \<Rightarrow> path \<Rightarrow> path \<Rightarrow> string list \<Rightarrow> copy_state \<Rightarrow> bool" where
  "copies_right os source destination declared st \<longleftrightarrow>
     (\<forall>relative \<in> set (cy_copied st). copied_right os (cy_fs st) source destination declared relative)
     \<and> sum_list (map (\<lambda>relative. file_length (cy_fs st) (source @ relative)) (cy_copied st)) \<le> cy_total st
     \<and> cy_total st \<le> max_copy_total_bytes"

lemma copy_one_right:
  assumes "copy_one os source destination raw st = (st', Inr ())"
    and "copies_right os source destination declared st"
  shows "copies_right os source destination (declared @ [raw]) st'"
proof -
  note step = copy_one_step [OF assms(1)]
  have kept: "copied_right os (cy_fs st') source destination (declared @ [raw]) relative"
      "file_length (cy_fs st') (source @ relative) = file_length (cy_fs st) (source @ relative)"
    if "relative \<in> set (cy_copied st)" for relative
    using copied_right_grows [OF step(1), of os source destination declared relative "declared @ [raw]"]
      assms(2) that by (auto simp: copies_right_def)
  then have sum: "sum_list (map (\<lambda>relative. file_length (cy_fs st') (source @ relative)) (cy_copied st))
      = sum_list (map (\<lambda>relative. file_length (cy_fs st) (source @ relative)) (cy_copied st))"
    by (metis (mono_tags, lifting) map_eq_conv)
  have added: "copied_right os (cy_fs st') source destination (declared @ [raw]) relative"
    if "copied_right os (cy_fs st') source destination [raw] relative" for relative
    using copied_right_grows(1) [OF map_le_refl that] by simp
  show ?thesis
    using step(2) [OF refl] assms(2) kept(1) sum added unfolding copies_right_def by auto
qed

lemma copy_all_right:
  assumes "copy_all os source destination raws st = (st', r)"
  shows "cy_fs st \<subseteq>\<^sub>m cy_fs st' \<and> (r = Inr () \<and> copies_right os source destination declared st
      \<longrightarrow> copies_right os source destination (declared @ raws) st')"
  using assms
proof (induction raws arbitrary: st declared)
  case (Cons raw rest)
  obtain st1 r1 where one: "copy_one os source destination raw st = (st1, r1)"
    by fastforce
  have grows: "cy_fs st \<subseteq>\<^sub>m cy_fs st1"
    by (rule copy_one_step(1) [OF one])
  show ?case
  proof (cases r1)
    case (Inl e)
    then show ?thesis
      using Cons.prems one grows by auto
  next
    case (Inr u)
    then have rest: "copy_all os source destination rest st1 = (st', r)"
      using Cons.prems one by simp
    then show ?thesis
      using Cons.IH [OF rest, of "declared @ [raw]"] copy_one_right one Inr grows
      by (auto intro: map_le_trans)
  qed
qed simp


section \<open>Concrete checkouts\<close>

definition sample_io :: copy_io where
  "sample_io = \<lparr>ci_git = Some (Some 0), ci_readable = True, ci_mkdir = \<lambda>_. True, ci_create = True,
     ci_write = WriteAll, ci_chmod = True\<rparr>"

definition sample_contract :: project_contract where
  "sample_contract = \<lparr>pj_schema = 1,
     pj_worktree = \<lparr>wc_location = default_worktree_location, wc_base = default_worktree_base,
       wc_copy_ignored = [''conf/local'']\<rparr>,
     pj_setup = None, pj_services = [], pj_checks = [], pj_cleanup = []\<rparr>"

definition sample_fs :: fs where
  "sample_fs = [[''repo''] \<mapsto> FsDir, [''repo'', ''conf''] \<mapsto> FsDir,
     [''repo'', ''conf'', ''local''] \<mapsto> FsFile [7] 420, [''wt''] \<mapsto> FsDir]"

definition sample_root :: "string \<Rightarrow> path option" where
  "sample_root s = Some [s]"

lemmas copy_steps = copy_declared_ignored_files_def copy_one_def exact_relative_path_def components_def
  plain_component_def path_is_absolute_def lstat_def fs_exists_def fs_stat_def copy_create_new_def
  git_path_is_ignored_def max_copy_file_bytes_def max_copy_total_bytes_def

lemma stat_following_numeral:
  "stat_following (numeral k) fs p =
     (case lstat fs p of
        SOk (FsLink target) \<Rightarrow> stat_following (pred_numeral k) fs target
      | SOk e \<Rightarrow> SOk e
      | SMissing \<Rightarrow> SMissing
      | SError \<Rightarrow> SError)"
  by (simp add: numeral_eq_Suc)

lemma sample_copy:
  "copy_declared_ignored_files sample_root (\<lambda>_. sample_io) ''repo'' ''wt'' sample_contract sample_fs
     = (sample_fs([''wt'', ''conf''] \<mapsto> FsDir, [''wt'', ''conf'', ''local''] \<mapsto> FsFile [7] 420),
        Inr [[''conf'', ''local'']])"
  by (simp add: copy_steps sample_root_def sample_io_def sample_contract_def sample_fs_def
      stat_following_numeral)


text \<open>
  The components of the destination are not checked: where the new worktree has a symbolic link
  to another directory, the file is written outside of the worktree.
\<close>

lemma copying_follows_destination_links:
  "copy_declared_ignored_files sample_root (\<lambda>_. sample_io) ''repo'' ''wt'' sample_contract
       (sample_fs([''etc''] \<mapsto> FsDir, [''wt'', ''conf''] \<mapsto> FsLink [''etc'']))
     = (sample_fs([''etc''] \<mapsto> FsDir, [''wt'', ''conf''] \<mapsto> FsLink [''etc''],
          [''etc'', ''local''] \<mapsto> FsFile [7] 420),
        Inr [[''conf'', ''local'']])"
  by (simp add: copy_steps sample_root_def sample_io_def sample_contract_def sample_fs_def
      stat_following_numeral)

end
