(* ===== verification/Ports.thy ===== *)
theory Ports
  imports Rust_Str
begin

text \<open>
  \<open>src/resources/ports.rs\<close>: the leases of loopback ports that all server processes share through
  one registry file. Every operation holds the lock of the registry (the lock itself is in
  \<open>Registry_Lock\<close>); the file is its bytes, the JSON codec (crate serde_json) and SHA-256 are
  parameters, and what the operating system does during one call is an argument of the call.
\<close>

section \<open>Data\<close>

definition registry_schema_v1 :: u16 where "registry_schema_v1 = 1"
definition default_port_start :: u16 where "default_port_start = 41000"
definition default_port_end :: u16 where "default_port_end = 49000"
definition max_registry_bytes :: nat where "max_registry_bytes = 4 * 1024 * 1024"

record port_lease_owner =
  po_mission_id :: string
  po_run_id :: string
  po_service_id :: string

record port_lease =
  pl_schema_version :: u16
  pl_lease_id :: string
  pl_request_id :: string
  pl_mission_id :: string
  pl_run_id :: string
  pl_service_id :: string
  pl_port :: u16
  pl_owner_pid :: u32
  pl_service_pid :: "u32 option"
  pl_acquired_at_millis :: u64

text \<open>The socket that is held until the service is spawned is only noted as present.\<close>

record port_reservation =
  rv_lease :: port_lease
  rv_listener :: bool

definition is_adopted :: "port_reservation \<Rightarrow> bool" where
  "is_adopted reservation \<longleftrightarrow> \<not> rv_listener reservation"

definition prepare_service_spawn :: "port_reservation \<Rightarrow> port_reservation \<times> port_lease" where
  "prepare_service_spawn reservation = (reservation\<lparr>rv_listener := False\<rparr>, rv_lease reservation)"

record port_registry_file =
  rg_schema_version :: u16
  rg_leases :: "port_lease list"

definition registry_default :: port_registry_file where
  "registry_default = \<lparr>rg_schema_version = registry_schema_v1, rg_leases = []\<rparr>"

datatype port_allocator_error =
    PaInvalidRange | PaInvalidOwner string | PaInvalidRequestId | PaRequestConflict
  | PaNoPortAvailable | PaPortNoLongerAvailable u16 | PaLockTimeout | PaRegistryTooLarge
  | PaInvalidRegistry | PaUnsupportedSchema | PaLeaseMissing | PaLeaseNotOwned
  | PaInvalidProcessId | PaCorruptRegistry | PaSerialize | PaIo

record port_allocator =
  pt_start :: u16
  pt_end :: u16

record registry_codec =
  rc_to_json :: "port_registry_file \<Rightarrow> u8 list option"
  rc_from_json :: "string \<Rightarrow> port_registry_file option"

text \<open>
  What one call meets: the process it runs in, which processes live, which ports can be bound, how
  taking the lock ends, and whether reading or replacing the file fails.
\<close>

datatype lock_end = LockAcquired | LockTimedOut | LockFailed

record ports_env =
  pv_pid :: u32
  pv_alive :: "u32 \<Rightarrow> bool"
  pv_bind :: "u16 \<Rightarrow> bool"
  pv_lock :: lock_end
  pv_readable :: bool
  pv_writable :: bool

type_synonym registry_disk = "u8 list option"

section \<open>Validation\<close>

definition ports_valid_id :: "string \<Rightarrow> bool" where
  "ports_valid_id value \<longleftrightarrow> value \<noteq> [] \<and> length value \<le> 128
     \<and> list_all (\<lambda>c. is_ascii_alphanumeric c \<or> c \<in> set ''_-.:'') value"

definition owner_new :: "string \<Rightarrow> string \<Rightarrow> string \<Rightarrow> port_allocator_error + port_lease_owner" where
  "owner_new mission_id run_id service_id =
     (if \<not> ports_valid_id mission_id then Inl (PaInvalidOwner ''mission_id'')
      else if \<not> ports_valid_id run_id then Inl (PaInvalidOwner ''run_id'')
      else if \<not> ports_valid_id service_id then Inl (PaInvalidOwner ''service_id'')
      else Inr \<lparr>po_mission_id = mission_id, po_run_id = run_id, po_service_id = service_id\<rparr>)"

definition open_with_range :: "u16 \<Rightarrow> u16 \<Rightarrow> bool \<Rightarrow> port_allocator_error + port_allocator" where
  "open_with_range start_port end_port directory_ok =
     (if start_port = 0 \<or> start_port > end_port then Inl PaInvalidRange
      else if \<not> directory_ok then Inl PaIo
      else Inr \<lparr>pt_start = start_port, pt_end = end_port\<rparr>)"

definition allocator_open :: "bool \<Rightarrow> port_allocator_error + port_allocator" where
  "allocator_open directory_ok = open_with_range default_port_start default_port_end directory_ok"

definition valid_persisted_lease :: "port_lease \<Rightarrow> bool" where
  "valid_persisted_lease lease \<longleftrightarrow>
     pl_schema_version lease = registry_schema_v1
     \<and> length (pl_lease_id lease) = 64 \<and> list_all is_ascii_hexdigit (pl_lease_id lease)
     \<and> ports_valid_id (pl_request_id lease) \<and> ports_valid_id (pl_mission_id lease)
     \<and> ports_valid_id (pl_run_id lease) \<and> ports_valid_id (pl_service_id lease)
     \<and> pl_port lease \<noteq> 0 \<and> pl_owner_pid lease \<noteq> 0"

definition lease_digest :: "sha256 \<Rightarrow> port_lease_owner \<Rightarrow> string \<Rightarrow> u16 \<Rightarrow> u64 \<Rightarrow> string" where
  "lease_digest sha owner request_id port acquired_at_millis =
     hex_encode (sha
       (concat (map (\<lambda>value. be_bytes 8 (length value) @ bytes_of value)
          [''nagi-port-lease-v1'', po_mission_id owner, po_run_id owner, po_service_id owner, request_id])
        @ be_bytes 2 (unat port) @ be_bytes 8 (unat acquired_at_millis)))"

section \<open>The registry file\<close>

text \<open>The scan of the leases with the ids and ports it has seen.\<close>

fun leases_valid :: "string bset \<Rightarrow> u16 bset \<Rightarrow> port_lease list \<Rightarrow> bool" where
  "leases_valid ids ports [] = True"
| "leases_valid ids ports (lease # leases) =
     (valid_persisted_lease lease \<and> pl_lease_id lease \<notin> set ids \<and> pl_port lease \<notin> set ports
      \<and> leases_valid (bs_insert (pl_lease_id lease) ids) (bs_insert (pl_port lease) ports) leases)"

definition load_registry ::
  "registry_codec \<Rightarrow> ports_env \<Rightarrow> registry_disk \<Rightarrow> port_allocator_error + port_registry_file" where
  "load_registry codec env disk =
     (case disk of
        None \<Rightarrow> Inr registry_default
      | Some bs \<Rightarrow>
          if \<not> pv_readable env then Inl PaIo
          else if length bs > max_registry_bytes then Inl PaRegistryTooLarge
          else
            rbind (ok_or PaIo (from_utf8 bs)) (\<lambda>source.
            rbind (ok_or PaCorruptRegistry (rc_from_json codec source)) (\<lambda>registry.
            if rg_schema_version registry \<noteq> registry_schema_v1
               \<or> list_ex (\<lambda>lease. pl_schema_version lease \<noteq> registry_schema_v1) (rg_leases registry)
            then Inl PaUnsupportedSchema
            else if \<not> leases_valid [] [] (rg_leases registry) then Inl PaInvalidRegistry
            else Inr registry)))"

text \<open>The new file replaces the old one by a rename, or nothing changes.\<close>

definition save_registry ::
  "registry_codec \<Rightarrow> ports_env \<Rightarrow> port_registry_file \<Rightarrow> registry_disk
     \<Rightarrow> registry_disk \<times> (port_allocator_error + unit)" where
  "save_registry codec env registry disk =
     (case rc_to_json codec registry of
        None \<Rightarrow> (disk, Inl PaSerialize)
      | Some bs \<Rightarrow> if pv_writable env then (Some bs, Inr ()) else (disk, Inl PaIo))"

definition saving ::
  "registry_codec \<Rightarrow> ports_env \<Rightarrow> port_registry_file \<Rightarrow> registry_disk \<Rightarrow> 'a
     \<Rightarrow> registry_disk \<times> (port_allocator_error + 'a)" where
  "saving codec env registry disk result =
     (case save_registry codec env registry disk of
        (disk, Inl e) \<Rightarrow> (disk, Inl e) | (disk, Inr _) \<Rightarrow> (disk, Inr result))"

definition registry_lock :: "ports_env \<Rightarrow> port_allocator_error + unit" where
  "registry_lock env =
     (case pv_lock env of
        LockAcquired \<Rightarrow> Inr () | LockTimedOut \<Rightarrow> Inl PaLockTimeout | LockFailed \<Rightarrow> Inl PaIo)"

text \<open>Taking the lock and loading the registry, which every operation begins with.\<close>

definition with_registry ::
  "registry_codec \<Rightarrow> ports_env \<Rightarrow> registry_disk
     \<Rightarrow> (port_registry_file \<Rightarrow> registry_disk \<times> (port_allocator_error + 'a))
     \<Rightarrow> registry_disk \<times> (port_allocator_error + 'a)" where
  "with_registry codec env disk body =
     (case rbind (registry_lock env) (\<lambda>_. load_registry codec env disk) of
        Inl e \<Rightarrow> (disk, Inl e) | Inr registry \<Rightarrow> body registry)"

section \<open>Operations\<close>

definition bind_exact :: "ports_env \<Rightarrow> u16 \<Rightarrow> port_allocator_error + unit" where
  "bind_exact env port = (if pv_bind env port then Inr () else Inl (PaPortNoLongerAvailable port))"

definition port_range :: "u16 \<Rightarrow> u16 \<Rightarrow> u16 list" where
  "port_range start_port end_port = map of_nat [unat start_port ..< Suc (unat end_port)]"

fun index_where :: "('a \<Rightarrow> bool) \<Rightarrow> 'a list \<Rightarrow> nat option" where
  "index_where P [] = None"
| "index_where P (x # xs) = (if P x then Some 0 else map_option Suc (index_where P xs))"

text \<open>A request that has a lease: adopted when its service lives, else bound again.\<close>

definition reserve_again ::
  "registry_codec \<Rightarrow> ports_env \<Rightarrow> port_lease_owner \<Rightarrow> port_registry_file \<Rightarrow> nat \<Rightarrow> registry_disk
     \<Rightarrow> registry_disk \<times> (port_allocator_error + port_reservation)" where
  "reserve_again codec env owner registry index disk =
     (let existing = rg_leases registry ! index in
      if pl_mission_id existing = po_mission_id owner \<and> pl_run_id existing = po_run_id owner
         \<and> pl_service_id existing = po_service_id owner
      then
        if (case pl_service_pid existing of None \<Rightarrow> False | Some pid \<Rightarrow> pv_alive env pid)
        then
          if pl_owner_pid existing \<noteq> pv_pid env \<and> pv_alive env (pl_owner_pid existing)
          then (disk, Inl PaLeaseNotOwned)
          else
            let lease = existing\<lparr>pl_owner_pid := pv_pid env\<rparr>
            in saving codec env (registry\<lparr>rg_leases := (rg_leases registry)[index := lease]\<rparr>) disk
                 \<lparr>rv_lease = lease, rv_listener = False\<rparr>
        else
          case bind_exact env (pl_port existing) of
            Inl e \<Rightarrow> (disk, Inl e)
          | Inr _ \<Rightarrow>
              let lease = existing\<lparr>pl_owner_pid := pv_pid env, pl_service_pid := None\<rparr>
              in saving codec env (registry\<lparr>rg_leases := (rg_leases registry)[index := lease]\<rparr>) disk
                   \<lparr>rv_lease = lease, rv_listener = True\<rparr>
      else (disk, Inl PaRequestConflict))"

definition reserve ::
  "registry_codec \<Rightarrow> sha256 \<Rightarrow> port_allocator \<Rightarrow> ports_env \<Rightarrow> port_lease_owner \<Rightarrow> string \<Rightarrow> u64
     \<Rightarrow> registry_disk \<Rightarrow> registry_disk \<times> (port_allocator_error + port_reservation)" where
  "reserve codec sha allocator env owner request_id acquired_at_millis disk =
     (if \<not> ports_valid_id request_id then (disk, Inl PaInvalidRequestId)
      else with_registry codec env disk (\<lambda>registry.
        case index_where (\<lambda>lease. pl_request_id lease = request_id) (rg_leases registry) of
          Some index \<Rightarrow> reserve_again codec env owner registry index disk
        | None \<Rightarrow>
            let occupied = bs_collect (map pl_port (rg_leases registry))
            in case List.find (\<lambda>port. port \<notin> set occupied \<and> pv_bind env port)
                      (port_range (pt_start allocator) (pt_end allocator)) of
                 None \<Rightarrow> (disk, Inl PaNoPortAvailable)
               | Some port \<Rightarrow>
                   let lease_id = lease_digest sha owner request_id port acquired_at_millis;
                       lease = \<lparr>pl_schema_version = registry_schema_v1, pl_lease_id = lease_id,
                         pl_request_id = request_id, pl_mission_id = po_mission_id owner,
                         pl_run_id = po_run_id owner, pl_service_id = po_service_id owner,
                         pl_port = port, pl_owner_pid = pv_pid env, pl_service_pid = None,
                         pl_acquired_at_millis = acquired_at_millis\<rparr>;
                       leases = sort_key pl_port (rg_leases registry @ [lease])
                   in saving codec env (registry\<lparr>rg_leases := leases\<rparr>) disk
                        \<lparr>rv_lease = lease, rv_listener = True\<rparr>))"

definition bind_service_process ::
  "registry_codec \<Rightarrow> ports_env \<Rightarrow> string \<Rightarrow> u32 \<Rightarrow> registry_disk
     \<Rightarrow> registry_disk \<times> (port_allocator_error + port_lease)" where
  "bind_service_process codec env lease_id service_pid disk =
     (if service_pid = 0 then (disk, Inl PaInvalidProcessId)
      else with_registry codec env disk (\<lambda>registry.
        case index_where (\<lambda>lease. pl_lease_id lease = lease_id) (rg_leases registry) of
          None \<Rightarrow> (disk, Inl PaLeaseMissing)
        | Some index \<Rightarrow>
            let lease = rg_leases registry ! index
            in if pl_owner_pid lease \<noteq> pv_pid env then (disk, Inl PaLeaseNotOwned)
               else
                 let lease = lease\<lparr>pl_service_pid := Some service_pid\<rparr>
                 in saving codec env (registry\<lparr>rg_leases := (rg_leases registry)[index := lease]\<rparr>) disk
                      lease))"

definition same_lease :: "port_lease \<Rightarrow> port_lease \<Rightarrow> bool" where
  "same_lease candidate lease \<longleftrightarrow>
     pl_lease_id candidate = pl_lease_id lease \<and> pl_mission_id candidate = pl_mission_id lease
     \<and> pl_run_id candidate = pl_run_id lease \<and> pl_service_id candidate = pl_service_id lease"

definition release_port ::
  "registry_codec \<Rightarrow> ports_env \<Rightarrow> port_lease \<Rightarrow> registry_disk
     \<Rightarrow> registry_disk \<times> (port_allocator_error + bool)" where
  "release_port codec env lease disk =
     with_registry codec env disk (\<lambda>registry.
       let kept = filter (\<lambda>candidate. \<not> same_lease candidate lease) (rg_leases registry);
           released = (length kept \<noteq> length (rg_leases registry))
       in if released then saving codec env (registry\<lparr>rg_leases := kept\<rparr>) disk released
          else (disk, Inr released))"

definition is_orphan :: "ports_env \<Rightarrow> port_lease \<Rightarrow> bool" where
  "is_orphan env lease \<longleftrightarrow> \<not> pv_alive env (pl_owner_pid lease)
     \<and> (case pl_service_pid lease of None \<Rightarrow> True | Some pid \<Rightarrow> \<not> pv_alive env pid)"

definition orphaned ::
  "registry_codec \<Rightarrow> ports_env \<Rightarrow> registry_disk
     \<Rightarrow> registry_disk \<times> (port_allocator_error + port_lease list)" where
  "orphaned codec env disk =
     with_registry codec env disk (\<lambda>registry. (disk, Inr (filter (is_orphan env) (rg_leases registry))))"

definition leases_for_owner ::
  "registry_codec \<Rightarrow> ports_env \<Rightarrow> string \<Rightarrow> string \<Rightarrow> registry_disk
     \<Rightarrow> registry_disk \<times> (port_allocator_error + port_lease list)" where
  "leases_for_owner codec env mission_id run_id disk =
     (if \<not> ports_valid_id mission_id \<or> \<not> ports_valid_id run_id
      then (disk, Inl (PaInvalidOwner ''mission_id/run_id''))
      else with_registry codec env disk (\<lambda>registry.
        (disk, Inr (filter (\<lambda>lease. pl_mission_id lease = mission_id \<and> pl_run_id lease = run_id)
                      (rg_leases registry)))))"

definition registry_bytes :: "ports_env \<Rightarrow> registry_disk \<Rightarrow> port_allocator_error + u64" where
  "registry_bytes env disk =
     (case disk of
        None \<Rightarrow> Inr 0
      | Some bs \<Rightarrow> if pv_readable env then Inr (of_nat (length bs)) else Inl PaIo)"

definition cleanup_orphaned ::
  "registry_codec \<Rightarrow> ports_env \<Rightarrow> string bset \<Rightarrow> registry_disk
     \<Rightarrow> registry_disk \<times> (port_allocator_error + port_lease list)" where
  "cleanup_orphaned codec env lease_ids disk =
     with_registry codec env disk (\<lambda>registry.
       let goes = (\<lambda>lease. is_orphan env lease \<and> pl_lease_id lease \<in> set lease_ids);
           removed = filter goes (rg_leases registry);
           kept = filter (\<lambda>lease. \<not> goes lease) (rg_leases registry)
       in if removed = [] then (disk, Inr removed)
          else saving codec env (registry\<lparr>rg_leases := kept\<rparr>) disk removed)"

end
