(* ===== verification/Registry_Lock.thy ===== *)
theory Registry_Lock
  imports Ports
begin

text \<open>
  \<open>src/resources/ports.rs\<close>, \<open>RegistryLock\<close> and \<open>stale_lock\<close>: the lock file that serialises the
  processes of the port registry, as the steps of its system calls. Each step is one call of one
  process, and processes may die between any two. The lock file is an inode that the path names or
  does not name; \<open>create_new\<close> makes a new one.
\<close>

section \<open>The steps\<close>

definition parse_u32 :: "string \<Rightarrow> u32 option" where
  "parse_u32 s =
     (let digits = (if length s > 1 \<and> hd s = CHR ''+'' then tl s else s)
      in if digits = [] \<or> \<not> list_all is_ascii_digit digits then None
         else if digits_value digits < 2 ^ 32 then Some (of_nat (digits_value digits)) else None)"

text \<open>Where a process is in \<open>acquire\<close>; \<open>Created\<close> has made the file and not yet written it.\<close>

datatype lock_pc = Outside | Created nat | Contended | Clearing | Holding

record lock_state =
  lk_entry :: "nat option"
  lk_text :: "nat \<Rightarrow> string"
  lk_next :: nat
  lk_alive :: "u32 \<Rightarrow> bool"
  lk_pc :: "u32 \<Rightarrow> lock_pc"

text \<open>\<open>process_alive\<close> on Unix, and what \<open>writeln!\<close> puts into the file.\<close>

definition process_alive :: "(u32 \<Rightarrow> bool) \<Rightarrow> u32 \<Rightarrow> bool" where
  "process_alive alive pid \<longleftrightarrow> pid \<noteq> 0 \<and> pid \<le> 0x7FFFFFFF \<and> alive pid"

definition pid_line :: "u32 \<Rightarrow> string" where
  "pid_line pid = decimal (unat pid) @ [CHR 0x0A]"

definition stale_lock :: "(u32 \<Rightarrow> bool) \<Rightarrow> string \<Rightarrow> bool" where
  "stale_lock alive source =
     (case parse_u32 (str_trim source) of None \<Rightarrow> False | Some pid \<Rightarrow> \<not> process_alive alive pid)"

text \<open>
  The calls: opening the path with \<open>create_new\<close>, writing the pid (which may fail before or after the
  text is in the file), reading the file that was found, removing the path as stale, and removing it
  when the lock is dropped. A process that finds the lock taken tries again or gives up.
\<close>

datatype lock_event =
  EvOpen | EvWrite | EvWriteFails bool | EvInspect | EvRemoveStale | EvDrop | EvDie

definition goes :: "u32 \<Rightarrow> lock_pc \<Rightarrow> lock_state \<Rightarrow> lock_state" where
  "goes p pc st = st\<lparr>lk_pc := (lk_pc st)(p := pc)\<rparr>"

fun lock_step :: "u32 \<times> lock_event \<Rightarrow> lock_state \<Rightarrow> lock_state option" where
  "lock_step (p, EvOpen) st =
     (if lk_pc st p \<noteq> Outside then None
      else case lk_entry st of
        Some _ \<Rightarrow> Some (goes p Contended st)
      | None \<Rightarrow>
          let i = lk_next st
          in Some (goes p (Created i)
               (st\<lparr>lk_entry := Some i, lk_text := (lk_text st)(i := []), lk_next := Suc i\<rparr>)))"
| "lock_step (p, EvWrite) st =
     (case lk_pc st p of
        Created i \<Rightarrow> Some (goes p Holding (st\<lparr>lk_text := (lk_text st)(i := pid_line p)\<rparr>))
      | _ \<Rightarrow> None)"
| "lock_step (p, EvWriteFails written) st =
     (case lk_pc st p of
        Created i \<Rightarrow>
          Some (goes p Outside
            (if written then st\<lparr>lk_text := (lk_text st)(i := pid_line p)\<rparr> else st))
      | _ \<Rightarrow> None)"
| "lock_step (p, EvInspect) st =
     (if lk_pc st p \<noteq> Contended then None
      else case lk_entry st of
        None \<Rightarrow> Some (goes p Outside st)
      | Some i \<Rightarrow>
          Some (goes p (if stale_lock (lk_alive st) (lk_text st i) then Clearing else Outside) st))"
| "lock_step (p, EvRemoveStale) st =
     (if lk_pc st p \<noteq> Clearing then None else Some (goes p Outside (st\<lparr>lk_entry := None\<rparr>)))"
| "lock_step (p, EvDrop) st =
     (if lk_pc st p \<noteq> Holding then None else Some (goes p Outside (st\<lparr>lk_entry := None\<rparr>)))"
| "lock_step (p, EvDie) st = Some (goes p Outside (st\<lparr>lk_alive := (lk_alive st)(p := False)\<rparr>))"

text \<open>Only live processes act. No result when an event is not possible in its state.\<close>

fun lock_run :: "(u32 \<times> lock_event) list \<Rightarrow> lock_state \<Rightarrow> lock_state option" where
  "lock_run [] st = Some st"
| "lock_run ((p, ev) # evs) st =
     (if \<not> process_alive (lk_alive st) p then None
      else case lock_step (p, ev) st of None \<Rightarrow> None | Some st' \<Rightarrow> lock_run evs st')"

definition unlocked :: lock_state where
  "unlocked = \<lparr>lk_entry = None, lk_text = \<lambda>_. [], lk_next = 0, lk_alive = \<lambda>_. True, lk_pc = \<lambda>_. Outside\<rparr>"

section \<open>Mutual exclusion\<close>

text \<open>A process that has made the lock file, or holds the lock.\<close>

definition busy :: "lock_pc \<Rightarrow> bool" where
  "busy pc \<longleftrightarrow> pc = Holding \<or> (\<exists>i. pc = Created i)"

text \<open>
  An orderly run: no process dies while it has the lock, and a failing write has not put the pid of a
  process into a file it abandons.
\<close>

fun orderly :: "(u32 \<times> lock_event) list \<Rightarrow> lock_state \<Rightarrow> bool" where
  "orderly [] st \<longleftrightarrow> True"
| "orderly ((p, ev) # evs) st \<longleftrightarrow>
     (ev = EvDie \<longrightarrow> \<not> busy (lk_pc st p)) \<and> ev \<noteq> EvWriteFails True
     \<and> (case lock_step (p, ev) st of None \<Rightarrow> True | Some st' \<Rightarrow> orderly evs st')"

definition lock_ok :: "lock_state \<Rightarrow> bool" where
  "lock_ok st \<longleftrightarrow>
     (\<forall>p q. busy (lk_pc st p) \<and> busy (lk_pc st q) \<longrightarrow> p = q)
     \<and> (\<forall>p. busy (lk_pc st p) \<longrightarrow> lk_entry st \<noteq> None \<and> process_alive (lk_alive st) p)
     \<and> (\<forall>p i. lk_pc st p = Created i \<longrightarrow> lk_entry st = Some i)
     \<and> (\<forall>p. lk_pc st p \<noteq> Clearing)
     \<and> (\<forall>i. lk_entry st = Some i \<longrightarrow> lk_text st i = []
           \<or> (\<exists>p. lk_pc st p = Holding \<and> lk_text st i = pid_line p))"

lemma pid_line_parsed: "parse_u32 (str_trim (pid_line p)) = Some p"
proof -
  let ?d = "decimal (unat p)"
  have digits: "list_all is_ascii_digit ?d" "?d \<noteq> []"
    using decimal_digits by auto
  then have "is_ascii ?d"
    by (auto simp: is_ascii_def list_all_iff is_ascii_digit_def)
  then have ascii: "is_ascii (pid_line p)"
    by (auto simp: pid_line_def is_ascii_def ascii_code_def)
  have blank: "\<not> is_whitespace (ascii_code c)" if "c \<in> set ?d" for c
    using digits(1) that by (auto simp: list_all_iff is_ascii_digit_def is_whitespace_def)
  have newline: "is_whitespace (ascii_code CHR 0x0A)"
    by (simp add: is_whitespace_def ascii_code_def)
  have "dropWhile (\<lambda>c. is_whitespace (ascii_code c)) (pid_line p) = pid_line p"
    using blank digits(2) by (cases ?d) (auto simp: pid_line_def)
  moreover have "dropWhile (\<lambda>c. is_whitespace (ascii_code c)) (rev ?d) = rev ?d"
    using blank digits(2) by (cases "rev ?d") (auto simp: rev_eq_Cons_iff)
  ultimately have "str_trim (pid_line p) = ?d"
    using newline by (simp add: str_trim_ascii [OF ascii]) (simp add: pid_line_def)
  moreover have "hd ?d \<noteq> CHR ''+''"
    using digits by (cases ?d) (auto simp: is_ascii_digit_def ascii_code_def)
  moreover have "unat p < 2 ^ 32"
    using unsigned_less [of p] by simp
  ultimately show ?thesis
    using digits by (simp add: parse_u32_def digits_value_decimal Let_def)
qed

lemma stale_pid_line: "stale_lock alive (pid_line p) \<longleftrightarrow> \<not> process_alive alive p"
  by (simp add: stale_lock_def pid_line_parsed)

lemma stale_empty: "\<not> stale_lock alive []"
proof -
  have "str_trim [] = []"
    by (simp add: str_trim_def utf8_split_def)
  then show ?thesis
    by (simp add: stale_lock_def parse_u32_def)
qed

lemma idle_move:
  assumes "lock_ok st" and "\<not> busy (lk_pc st p)" and "\<not> busy pc" and "pc \<noteq> Clearing"
  shows "lock_ok (goes p pc st)"
proof -
  have pc: "lk_pc (goes p pc st) q = Holding \<longleftrightarrow> lk_pc st q = Holding"
      "lk_pc (goes p pc st) q = Created i \<longleftrightarrow> lk_pc st q = Created i"
      "busy (lk_pc (goes p pc st) q) \<longleftrightarrow> busy (lk_pc st q)"
      "lk_pc (goes p pc st) q = Clearing \<Longrightarrow> lk_pc st q = Clearing" for q i
    using assms(2-4) by (auto simp: goes_def busy_def split: if_splits)
  have fields: "lk_entry (goes p pc st) = lk_entry st" "lk_text (goes p pc st) = lk_text st"
      "lk_alive (goes p pc st) = lk_alive st"
    by (simp_all add: goes_def)
  then show ?thesis
    using assms(1) pc(4) unfolding lock_ok_def by (simp only: pc(1-3) fields) blast
qed

lemma lock_step_ok:
  assumes "lock_ok st" and "process_alive (lk_alive st) p" and "lock_step (p, ev) st = Some st'"
    and "ev = EvDie \<longrightarrow> \<not> busy (lk_pc st p)" and "ev \<noteq> EvWriteFails True"
  shows "lock_ok st'"
proof -
  have unique: "p = q" if "busy (lk_pc st p)" "busy (lk_pc st q)" for p q
    using assms(1) that by (simp add: lock_ok_def)
  have entry: "lk_entry st \<noteq> None" "process_alive (lk_alive st) q" if "busy (lk_pc st q)" for q
    using assms(1) that by (simp_all add: lock_ok_def)
  have made: "lk_entry st = Some i" if "lk_pc st q = Created i" for q i
    using assms(1) that by (simp add: lock_ok_def)
  have calm: "lk_pc st q \<noteq> Clearing" for q
    using assms(1) by (simp add: lock_ok_def)
  have words: "lk_text st i = [] \<or> (\<exists>p. lk_pc st p = Holding \<and> lk_text st i = pid_line p)"
    if "lk_entry st = Some i" for i
    using assms(1) that by (simp add: lock_ok_def)
  show ?thesis
  proof (cases ev)
    case EvOpen
    show ?thesis
    proof (cases "lk_entry st")
      case None
      then have "\<not> busy (lk_pc st q)" for q
        using entry(1) by blast
      then show ?thesis
        using assms(2,3) EvOpen None calm
        by (auto simp: lock_ok_def goes_def Let_def busy_def split: if_splits)
    next
      case (Some i)
      then have outside: "lk_pc st p = Outside" and st': "st' = goes p Contended st"
        using assms(3) EvOpen by (auto split: if_splits)
      then show ?thesis
        using idle_move [OF assms(1)] by (simp add: busy_def)
    qed
  next
    case EvWrite
    then obtain i where i: "lk_pc st p = Created i"
        and st': "st' = goes p Holding (st\<lparr>lk_text := (lk_text st)(i := pid_line p)\<rparr>)"
      using assms(3) by (auto split: lock_pc.splits)
    have "busy (lk_pc st p)"
      using i by (simp add: busy_def)
    then have others: "\<not> busy (lk_pc st q)" if "q \<noteq> p" for q
      using unique that by blast
    show ?thesis
      using st' made [OF i] others calm assms(2)
      by (auto simp: lock_ok_def goes_def busy_def)
  next
    case (EvWriteFails written)
    then obtain i where i: "lk_pc st p = Created i" and st': "st' = goes p Outside st"
      using assms(3,5) by (auto split: lock_pc.splits)
    have "busy (lk_pc st p)"
      using i by (simp add: busy_def)
    then have others: "\<not> busy (lk_pc st q)" if "q \<noteq> p" for q
      using unique that by blast
    then have "lk_pc st q \<noteq> Holding" for q
      using i by (cases "q = p") (auto simp: busy_def)
    then have "lk_text st i = []"
      using words [OF made [OF i]] by blast
    then show ?thesis
      using st' made [OF i] others calm
      by (auto simp: lock_ok_def goes_def busy_def)
  next
    case EvInspect
    have "st' = goes p Outside st" "lk_pc st p = Contended"
      using assms(3) EvInspect words entry
      by (auto simp: stale_empty stale_pid_line busy_def split: if_splits option.splits)
    then show ?thesis
      using idle_move [OF assms(1)] by (simp add: busy_def)
  next
    case EvRemoveStale
    then show ?thesis
      using assms(3) calm by (simp split: if_splits)
  next
    case EvDrop
    then have st': "st' = goes p Outside (st\<lparr>lk_entry := None\<rparr>)" and "busy (lk_pc st p)"
      using assms(3) by (auto simp: busy_def split: if_splits)
    then have others: "\<not> busy (lk_pc st q)" if "q \<noteq> p" for q
      using unique that by blast
    then show ?thesis
      using st' calm by (auto simp: lock_ok_def goes_def busy_def)
  next
    case EvDie
    then have st': "st' = goes p Outside (st\<lparr>lk_alive := (lk_alive st)(p := False)\<rparr>)"
        and idle: "\<not> busy (lk_pc st p)"
      using assms(3,4) by auto
    have alive: "process_alive ((lk_alive st)(p := False)) q" if "busy (lk_pc st q)" for q
      using entry(2) [OF that] that idle by (auto simp: process_alive_def)
    have "lock_ok (goes p Outside st)"
      using idle_move [OF assms(1) idle] by (simp add: busy_def)
    moreover have "busy (lk_pc (goes p Outside st) q) \<Longrightarrow> busy (lk_pc st q)" for q
      by (auto simp: goes_def busy_def split: if_splits)
    ultimately have "lock_ok ((goes p Outside st)\<lparr>lk_alive := (lk_alive st)(p := False)\<rparr>)"
      using alive by (simp add: lock_ok_def)
    moreover have "st' = (goes p Outside st)\<lparr>lk_alive := (lk_alive st)(p := False)\<rparr>"
      by (cases st) (simp add: st' goes_def)
    ultimately show ?thesis
      by simp
  qed
qed

lemma lock_run_ok: "lock_ok st \<Longrightarrow> orderly evs st \<Longrightarrow> lock_run evs st = Some st' \<Longrightarrow> lock_ok st'"
proof (induction evs arbitrary: st)
  case (Cons step evs)
  obtain p ev where step: "step = (p, ev)"
    by fastforce
  then obtain st1 where "process_alive (lk_alive st) p" and one: "lock_step (p, ev) st = Some st1"
      and rest: "lock_run evs st1 = Some st'"
    using Cons.prems(3) by (auto split: if_splits option.splits)
  then have "lock_ok st1"
    using lock_step_ok Cons.prems(1,2) step by fastforce
  then show ?case
    using Cons.IH [OF _ _ rest] Cons.prems(2) step one by simp
qed simp


text \<open>Three processes contend; the second obtains the lock when the first drops it.\<close>

definition contention :: "(u32 \<times> lock_event) list" where
  "contention = [(1, EvOpen), (2, EvOpen), (1, EvWrite), (2, EvInspect), (3, EvOpen), (1, EvDrop),
     (2, EvOpen), (3, EvInspect), (3, EvOpen), (2, EvWrite)]"

lemmas lock_eval = unlocked_def process_alive_def goes_def stale_pid_line stale_empty busy_def Let_def

lemma contention_run:
  "map_option (\<lambda>st. (lk_pc st 2, lk_pc st 3)) (lock_run contention unlocked) = Some (Holding, Contended)"
  "orderly contention unlocked"
  by (simp_all add: lock_eval contention_def)


section \<open>What deaths do to the lock\<close>

text \<open>
  Removing a stale lock file is not atomic with inspecting it. Two processes that both found the file
  of a dead process remove it one after the other; the second removes the new file of the first, and
  both hold the lock.
\<close>

definition double_removal :: "(u32 \<times> lock_event) list" where
  "double_removal = [(1, EvOpen), (1, EvWrite), (1, EvDie), (2, EvOpen), (3, EvOpen), (2, EvInspect),
     (3, EvInspect), (2, EvRemoveStale), (2, EvOpen), (2, EvWrite), (3, EvRemoveStale), (3, EvOpen),
     (3, EvWrite)]"

lemma stale_lock_admits_two:
  "map_option (\<lambda>st. (lk_pc st 2, lk_pc st 3)) (lock_run double_removal unlocked) = Some (Holding, Holding)"
  by (simp add: lock_eval double_removal_def)

text \<open>
  A process that dies between creating the file and writing its pid leaves an empty file, which is
  never found stale: no process ever takes the lock again.
\<close>

definition abandoned :: "lock_state \<Rightarrow> bool" where
  "abandoned st \<longleftrightarrow> (\<exists>i. lk_entry st = Some i \<and> lk_text st i = [])
     \<and> (\<forall>p. \<not> busy (lk_pc st p) \<and> lk_pc st p \<noteq> Clearing)"

lemma abandoned_step: "abandoned st \<Longrightarrow> lock_step (p, ev) st = Some st' \<Longrightarrow> abandoned st'"
  by (cases ev) (auto simp: abandoned_def goes_def busy_def stale_empty
      split: if_splits option.splits lock_pc.splits)

lemma abandoned_lock_blocks:
  assumes "abandoned st" and "lock_run evs st = Some st'"
  shows "lk_pc st' p \<noteq> Holding"
proof -
  have "abandoned st'"
    using assms
  proof (induction evs arbitrary: st)
    case (Cons step evs)
    obtain p ev where step: "step = (p, ev)"
      by fastforce
    then obtain st1 where one: "lock_step (p, ev) st = Some st1" and rest: "lock_run evs st1 = Some st'"
      using Cons.prems(2) by (auto split: if_splits option.splits)
    then show ?case
      using Cons.IH [OF abandoned_step [OF Cons.prems(1) one]] by blast
  qed simp
  then show ?thesis
    by (auto simp: abandoned_def busy_def)
qed

lemma crash_abandons:
  "\<exists>st. lock_run [(1, EvOpen), (1, EvDie)] unlocked = Some st \<and> abandoned st"
  by (simp add: unlocked_def process_alive_def goes_def abandoned_def busy_def)

end
