(* ===== verification/Services.thy ===== *)
theory Services
  imports Project_Recipe Ports
begin

text \<open>
  \<open>src/resources/services.rs\<close>: the services of a project contract, each started with a leased port
  and watched until its health endpoint answers, and stopped again. Processes, signals, sockets, the
  clock and name resolution are arguments; the effects on processes are recorded in the order in which
  they happen. Only the Unix branches are modelled.
\<close>

section \<open>Health endpoints\<close>

datatype service_error =
    EmptyCommand | InvalidWorktree | InvalidHealthEndpoint | UnsupportedHealthScheme
  | SpawnError string | ServiceExited string "32 word option" | HealthTimeout string u64
  | SvInvalidProcessId | SvPort port_allocator_error | SvIo

datatype ip_addr = IpV4 u8 u8 u8 u8 | IpV6 "u16 list"

definition ipv4_localhost :: ip_addr where "ipv4_localhost = IpV4 127 0 0 1"

record health_endpoint =
  he_address :: "ip_addr \<times> u16"
  he_authority :: string
  he_path :: string

text \<open>\<open>resolve\<close> is \<open>to_socket_addrs\<close> of a host name.\<close>

definition health_parse ::
  "(string \<Rightarrow> ip_addr list option) \<Rightarrow> string \<Rightarrow> u16 \<Rightarrow> service_error + health_endpoint" where
  "health_parse resolve template port =
     (if has_space_or_control template then Inl InvalidHealthEndpoint
      else
        let rendered = str_replace port_pattern (u16_string port) template in
        rbind (ok_or UnsupportedHealthScheme (strip_prefix ''http://'' rendered)) (\<lambda>rest.
        let (authority, path) = (case str_split_once CHR ''/'' rest of
              None \<Rightarrow> (rest, ''/'') | Some (authority, path) \<Rightarrow> (authority, path)) in
        rbind (ok_or InvalidHealthEndpoint (rsplit_once CHR '':'' authority)) (\<lambda>(host, parsed_port).
        if parse_u16 parsed_port \<noteq> Some port \<or> host \<notin> {''127.0.0.1'', ''localhost''}
        then Inl InvalidHealthEndpoint
        else
          rbind (ok_or SvIo (resolve host)) (\<lambda>addresses.
          rbind (ok_or InvalidHealthEndpoint (List.find (\<lambda>ip. ip = ipv4_localhost) addresses)) (\<lambda>ip.
            Inr \<lparr>he_address = (ip, port), he_authority = authority, he_path = ''/'' @ path\<rparr>)))))"

text \<open>
  One probe: whether the connection, its timeouts and the request succeed, and what is read. An
  unreachable or silent endpoint is not healthy; only setting a timeout can be an error.
\<close>

record probe_io =
  pb_connected :: bool
  pb_timeouts_set :: bool
  pb_written :: bool
  pb_response :: "u8 list option"

definition probe_request :: "health_endpoint \<Rightarrow> string" where
  "probe_request endpoint =
     ''GET '' @ he_path endpoint @ '' HTTP/1.1'' @ [CHR 0x0D, CHR 0x0A] @ ''Host: '' @ he_authority endpoint
     @ [CHR 0x0D, CHR 0x0A] @ ''Connection: close'' @ [CHR 0x0D, CHR 0x0A, CHR 0x0D, CHR 0x0A]"

definition probe :: "(health_endpoint \<Rightarrow> string \<Rightarrow> probe_io) \<Rightarrow> health_endpoint \<Rightarrow> service_error + bool" where
  "probe net endpoint =
     (let io = net endpoint (probe_request endpoint) in
      if \<not> pb_connected io then Inr False
      else if \<not> pb_timeouts_set io then Inl SvIo
      else if \<not> pb_written io then Inr False
      else case pb_response io of
        None \<Rightarrow> Inr False
      | Some response \<Rightarrow>
          let status = bytes_lossy (take 64 response)
          in Inr (starts_with ''HTTP/1.0 2'' status \<or> starts_with ''HTTP/1.1 2'' status))"

section \<open>Processes\<close>

text \<open>The command of a service; it runs in its own process group with closed standard streams.\<close>

record service_command =
  sm_program :: string
  sm_args :: "string list"
  sm_cwd :: path
  sm_env :: "string \<times> string"

definition service_command_of ::
  "service_contract \<Rightarrow> path \<Rightarrow> u16 \<Rightarrow> service_error + service_command" where
  "service_command_of service worktree port =
     (case svc_command service of
        [] \<Rightarrow> Inl EmptyCommand
      | program # args \<Rightarrow>
          Inr \<lparr>sm_program = program, sm_args = args, sm_cwd = worktree,
            sm_env = (svc_port_env service, u16_string port)\<rparr>)"

datatype service_signal = SigTerm | SigKill

datatype service_effect = Spawned service_command u32 | Signalled service_signal u32

text \<open>One poll of the waiting loop.\<close>

record service_poll =
  sp_try_wait :: "unit + 32 word option option"
  sp_alive :: "u32 \<Rightarrow> bool"
  sp_net :: "health_endpoint \<Rightarrow> string \<Rightarrow> probe_io"
  sp_deadline :: bool

text \<open>
  What one start, stop or release meets: the calls of the port registry in order, the process that is
  spawned, the polls, and what is seen of a process before and after it is asked to end.
\<close>

record service_os =
  so_ports :: "nat \<Rightarrow> ports_env"
  so_spawn :: "service_command \<Rightarrow> u32 option"
  so_resolve :: "string \<Rightarrow> ip_addr list option"
  so_polls :: "nat \<Rightarrow> service_poll"
  so_child_ended :: "unit + bool"
  so_alive_first :: "u32 \<Rightarrow> bool"
  so_alive_last :: "u32 \<Rightarrow> bool"

record service_world =
  sw_disk :: registry_disk
  sw_effects :: "service_effect list"

definition terminate_pid ::
  "service_os \<Rightarrow> u32 \<Rightarrow> service_world \<Rightarrow> service_world \<times> (service_error + unit)" where
  "terminate_pid os pid w =
     (if pid > 0x7FFFFFFF then (w, Inl SvInvalidProcessId)
      else if \<not> so_alive_first os pid then (w, Inr ())
      else
        let signals = Signalled SigTerm pid # (if so_alive_last os pid then [Signalled SigKill pid] else [])
        in (w\<lparr>sw_effects := sw_effects w @ signals\<rparr>, Inr ()))"

definition terminate ::
  "service_os \<Rightarrow> u32 \<Rightarrow> service_world \<Rightarrow> service_world \<times> (service_error + unit)" where
  "terminate os child w =
     (case so_child_ended os of
        Inl _ \<Rightarrow> (w, Inl SvIo)
      | Inr ended \<Rightarrow> if ended then (w, Inr ()) else terminate_pid os child w)"

section \<open>A managed service\<close>

record managed_service =
  mv_child :: "u32 option"
  mv_lease :: port_lease
  mv_stop_on_drop :: bool

text \<open>The loop, which reports the poll that ended it; it may go on forever.\<close>

partial_function (option) wait_loop_healthy ::
  "health_endpoint \<Rightarrow> managed_service \<Rightarrow> string \<Rightarrow> u64 \<Rightarrow> (nat \<Rightarrow> service_poll) \<Rightarrow> nat
     \<Rightarrow> (service_error + unit) option" where
  "wait_loop_healthy endpoint managed service_id timeout polls n =
     (let p = polls n;
          ended = (case mv_child managed of
              Some _ \<Rightarrow> (case sp_try_wait p of
                  Inl _ \<Rightarrow> Some SvIo
                | Inr (Some code) \<Rightarrow> Some (ServiceExited service_id code)
                | Inr None \<Rightarrow> None)
            | None \<Rightarrow>
                if (case pl_service_pid (mv_lease managed) of None \<Rightarrow> True | Some pid \<Rightarrow> \<not> sp_alive p pid)
                then Some (ServiceExited service_id None) else None)
      in case ended of
           Some e \<Rightarrow> Some (Inl e)
         | None \<Rightarrow>
             (case probe (sp_net p) endpoint of
                Inl e \<Rightarrow> Some (Inl e)
              | Inr healthy \<Rightarrow>
                  if healthy then Some (Inr ())
                  else if sp_deadline p then Some (Inl (HealthTimeout service_id timeout))
                  else wait_loop_healthy endpoint managed service_id timeout polls (Suc n)))"

definition wait_until_healthy ::
  "service_os \<Rightarrow> string \<Rightarrow> service_contract \<Rightarrow> managed_service \<Rightarrow> (service_error + unit) option" where
  "wait_until_healthy os service_id service managed =
     (case health_parse (so_resolve os) (svc_health service) (pl_port (mv_lease managed)) of
        Inl e \<Rightarrow> Some (Inl e)
      | Inr endpoint \<Rightarrow>
          wait_loop_healthy endpoint managed service_id (svc_timeout_seconds service) (so_polls os) 0)"

definition release_lease ::
  "registry_codec \<Rightarrow> ports_env \<Rightarrow> port_lease \<Rightarrow> service_world
     \<Rightarrow> service_world \<times> (service_error + bool)" where
  "release_lease codec env lease w =
     (case release_port codec env lease (sw_disk w) of
        (disk, r) \<Rightarrow> (w\<lparr>sw_disk := disk\<rparr>, map_err SvPort r))"

text \<open>\<open>stop_inner\<close>: the process first, then the lease; both results are kept until the end.\<close>

definition stop_inner ::
  "registry_codec \<Rightarrow> service_os \<Rightarrow> ports_env \<Rightarrow> managed_service \<Rightarrow> service_world
     \<Rightarrow> service_world \<times> (service_error + unit)" where
  "stop_inner codec os env managed w =
     (let (w, process_result) = (case mv_child managed of
            Some child \<Rightarrow> terminate os child w
          | None \<Rightarrow> (case pl_service_pid (mv_lease managed) of
                Some pid \<Rightarrow> terminate_pid os pid w | None \<Rightarrow> (w, Inr ())));
          (w, release_result) = release_lease codec env (mv_lease managed) w
      in (w, rbind process_result (\<lambda>_. rbind release_result (\<lambda>_. Inr ()))))"

definition service_request_id :: "sha256 \<Rightarrow> string \<Rightarrow> string \<Rightarrow> string \<Rightarrow> string" where
  "service_request_id sha mission_id run_id service_id =
     ''service-'' @ hex_encode (sha (bytes_of ''nagi-service-request-v1''
       @ concat (map (\<lambda>value. be_bytes 8 (length value) @ bytes_of value)
           [mission_id, run_id, service_id])))"

text \<open>The end of a start: the service is watched, and stopped when it does not become healthy.\<close>

definition watch ::
  "registry_codec \<Rightarrow> service_os \<Rightarrow> ports_env \<Rightarrow> string \<Rightarrow> service_contract \<Rightarrow> managed_service
     \<Rightarrow> service_world \<Rightarrow> (service_world \<times> (service_error + managed_service)) option" where
  "watch codec os env service_id service managed w =
     map_option (\<lambda>r. case r of
         Inl e \<Rightarrow> (fst (stop_inner codec os env managed w), Inl e)
       | Inr _ \<Rightarrow> (w, Inr managed))
       (wait_until_healthy os service_id service managed)"

definition start_service ::
  "registry_codec \<Rightarrow> sha256 \<Rightarrow> port_allocator \<Rightarrow> service_os \<Rightarrow> string \<Rightarrow> service_contract \<Rightarrow> path
     \<Rightarrow> string \<Rightarrow> string \<Rightarrow> u64 \<Rightarrow> service_world
     \<Rightarrow> (service_world \<times> (service_error + managed_service)) option" where
  "start_service codec sha allocator os service_id service worktree mission_id run_id at_millis w =
     (case owner_new mission_id run_id service_id of
        Inl e \<Rightarrow> Some (w, Inl (SvPort e))
      | Inr owner \<Rightarrow>
          let request_id = service_request_id sha mission_id run_id service_id in
          (case reserve codec sha allocator (so_ports os 0) owner request_id at_millis (sw_disk w) of
             (disk, Inl e) \<Rightarrow> Some (w\<lparr>sw_disk := disk\<rparr>, Inl (SvPort e))
           | (disk, Inr reservation) \<Rightarrow>
               let w = w\<lparr>sw_disk := disk\<rparr>; adopted = is_adopted reservation;
                   lease = snd (prepare_service_spawn reservation)
               in if adopted
                  then watch codec os (so_ports os 1) service_id service
                         \<lparr>mv_child = None, mv_lease = lease, mv_stop_on_drop = True\<rparr> w
                  else
                    case service_command_of service worktree (pl_port lease) of
                      Inl e \<Rightarrow> Some (w, Inl e)
                    | Inr command \<Rightarrow>
                        (case so_spawn os command of
                           None \<Rightarrow>
                             Some (fst (release_lease codec (so_ports os 1) lease w),
                                   Inl (SpawnError service_id))
                         | Some child \<Rightarrow>
                             let w = w\<lparr>sw_effects := sw_effects w @ [Spawned command child]\<rparr> in
                             (case bind_service_process codec (so_ports os 1) (pl_lease_id lease) child
                                     (sw_disk w) of
                                (disk, Inl e) \<Rightarrow>
                                  let w = w\<lparr>sw_disk := disk\<rparr>; (w, _) = terminate os child w;
                                      (w, _) = release_lease codec (so_ports os 2) lease w
                                  in Some (w, Inl (SvPort e))
                              | (disk, Inr _) \<Rightarrow>
                                  watch codec os (so_ports os 2) service_id service
                                    \<lparr>mv_child = Some child, mv_lease = lease, mv_stop_on_drop = True\<rparr>
                                    (w\<lparr>sw_disk := disk\<rparr>)))))"

section \<open>The services of a run\<close>

definition drop_service ::
  "registry_codec \<Rightarrow> service_os \<Rightarrow> managed_service \<Rightarrow> service_world \<Rightarrow> service_world" where
  "drop_service codec os managed w =
     (if mv_stop_on_drop managed then fst (stop_inner codec os (so_ports os 3) managed w) else w)"

text \<open>When a service fails to start, the ones that run already are dropped in the order of their ids.\<close>

fun start_services ::
  "registry_codec \<Rightarrow> sha256 \<Rightarrow> port_allocator \<Rightarrow> (string \<Rightarrow> service_os) \<Rightarrow> path
     \<Rightarrow> string \<Rightarrow> string \<Rightarrow> u64 \<Rightarrow> (string, service_contract) bmap \<Rightarrow> (string, managed_service) bmap
     \<Rightarrow> service_world
     \<Rightarrow> (service_world \<times> (service_error + (string, managed_service) bmap)) option" where
  "start_services codec sha allocator os worktree mission_id run_id at_millis [] started w =
     Some (w, Inr started)"
| "start_services codec sha allocator os worktree mission_id run_id at_millis
     ((service_id, service) # rest) started w =
     (case start_service codec sha allocator (os service_id) service_id service worktree mission_id run_id
             at_millis w of
        None \<Rightarrow> None
      | Some (w, Inl e) \<Rightarrow>
          Some (fold (\<lambda>(i, managed). drop_service codec (os i) managed) started w, Inl e)
      | Some (w, Inr managed) \<Rightarrow>
          start_services codec sha allocator os worktree mission_id run_id at_millis rest
            (bm_insert service_id managed started) w)"

definition service_worktree :: "check_env \<Rightarrow> string \<Rightarrow> service_error + path" where
  "service_worktree env requested =
     rbind (ok_or SvIo (ke_canonicalize env requested)) (\<lambda>canonical.
     if \<not> ke_is_dir env canonical then Inl InvalidWorktree
     else
       rbind (ok_or InvalidWorktree (ke_worktree_info env canonical)) (\<lambda>info.
       rbind (ok_or SvIo (ke_canonicalize env (fst info))) (\<lambda>root_path.
         if root_path \<noteq> canonical then Inl InvalidWorktree else Inr canonical)))"

definition service_set_start ::
  "registry_codec \<Rightarrow> sha256 \<Rightarrow> port_allocator \<Rightarrow> check_env \<Rightarrow> (string \<Rightarrow> service_os)
     \<Rightarrow> project_contract \<Rightarrow> string \<Rightarrow> string \<Rightarrow> string \<Rightarrow> u64 \<Rightarrow> service_world
     \<Rightarrow> (service_world \<times> (service_error + (string, managed_service) bmap)) option" where
  "service_set_start codec sha allocator env os contract worktree mission_id run_id at_millis w =
     (case service_worktree env worktree of
        Inl e \<Rightarrow> Some (w, Inl e)
      | Inr worktree \<Rightarrow>
          start_services codec sha allocator os worktree mission_id run_id at_millis
            (pj_services contract) [] w)"

definition service_ports :: "(string, managed_service) bmap \<Rightarrow> (string, u16) bmap" where
  "service_ports services = bm_map_values (\<lambda>managed. pl_port (mv_lease managed)) services"

text \<open>\<open>detach\<close>: the processes run on and keep their leases; dropping the set then does nothing.\<close>

definition detach ::
  "(string, managed_service) bmap \<Rightarrow> (string, managed_service) bmap \<times> (string, u16) bmap" where
  "detach services =
     (bm_map_values (\<lambda>managed. managed\<lparr>mv_child := None, mv_stop_on_drop := False\<rparr>) services,
      service_ports services)"

fun stop_leases ::
  "registry_codec \<Rightarrow> service_os \<Rightarrow> nat \<Rightarrow> port_lease list \<Rightarrow> string list \<Rightarrow> service_world
     \<Rightarrow> service_world \<times> (service_error + string list)" where
  "stop_leases codec os n [] stopped w = (w, Inr (sort stopped))"
| "stop_leases codec os n (lease # leases) stopped w =
     (case (case pl_service_pid lease of None \<Rightarrow> (w, Inr ()) | Some pid \<Rightarrow> terminate_pid os pid w) of
        (w, Inl e) \<Rightarrow> (w, Inl e)
      | (w, Inr _) \<Rightarrow>
          (case release_lease codec (so_ports os n) lease w of
             (w, Inl e) \<Rightarrow> (w, Inl e)
           | (w, Inr released) \<Rightarrow>
               stop_leases codec os (Suc n) leases
                 (if released then stopped @ [pl_service_id lease] else stopped) w))"

definition stop_owner ::
  "registry_codec \<Rightarrow> service_os \<Rightarrow> string \<Rightarrow> string \<Rightarrow> service_world
     \<Rightarrow> service_world \<times> (service_error + string list)" where
  "stop_owner codec os mission_id run_id w =
     (case leases_for_owner codec (so_ports os 0) mission_id run_id (sw_disk w) of
        (disk, Inl e) \<Rightarrow> (w\<lparr>sw_disk := disk\<rparr>, Inl (SvPort e))
      | (disk, Inr leases) \<Rightarrow> stop_leases codec os 1 leases [] (w\<lparr>sw_disk := disk\<rparr>))"

end
