(* ===== verification/Ports_Props.thy ===== *)
theory Ports_Props
  imports Ports
begin

text \<open>
  What the registry of ports promises, for any sequence of calls by any processes, with any failure
  of the lock, of reading and of writing: a port that was handed out stays with its request until
  the lease is given up.
\<close>

section \<open>What the registry file holds\<close>

text \<open>The documented property of the codec: what was serialised is text and deserialises to itself.\<close>

definition registry_codec_ok :: "registry_codec \<Rightarrow> bool" where
  "registry_codec_ok codec \<longleftrightarrow> (\<forall>registry bs. rc_to_json codec registry = Some bs
     \<longrightarrow> (\<exists>source. from_utf8 bs = Some source \<and> rc_from_json codec source = Some registry))"

definition holds_leases :: "registry_codec \<Rightarrow> registry_disk \<Rightarrow> port_lease list \<Rightarrow> bool" where
  "holds_leases codec disk leases \<longleftrightarrow>
     disk = None \<and> leases = []
     \<or> (\<exists>bs registry. disk = Some bs \<and> rc_to_json codec registry = Some bs \<and> rg_leases registry = leases)"

definition lease_key :: "port_lease \<Rightarrow> string \<times> string \<times> string \<times> string \<times> string \<times> u16" where
  "lease_key l = (pl_lease_id l, pl_request_id l, pl_mission_id l, pl_run_id l, pl_service_id l, pl_port l)"

definition leases_ok :: "port_allocator \<Rightarrow> port_lease list \<Rightarrow> bool" where
  "leases_ok allocator leases \<longleftrightarrow> distinct (map pl_port leases) \<and> distinct (map pl_request_id leases)
     \<and> (\<forall>l \<in> set leases. pt_start allocator \<le> pl_port l \<and> pl_port l \<le> pt_end allocator)"

text \<open>\<open>leases_ok\<close> depends on the keys only.\<close>

lemma keys_cong:
  assumes "map lease_key ls' = map lease_key ls"
  shows "leases_ok allocator ls' = leases_ok allocator ls"
proof -
  have project: "map (f \<circ> lease_key) ls' = map (f \<circ> lease_key) ls" for f :: "_ \<Rightarrow> 'b"
    using assms by (metis map_map)
  have ports: "map pl_port ls' = map pl_port ls"
    using project [of "\<lambda>(_, _, _, _, _, port). port"] by (simp add: comp_def lease_key_def)
  have requests: "map pl_request_id ls' = map pl_request_id ls"
    using project [of "\<lambda>(_, request, _). request"] by (simp add: comp_def lease_key_def)
  have "(\<forall>l \<in> set ls'. P (pl_port l)) \<longleftrightarrow> (\<forall>l \<in> set ls. P (pl_port l))" for P
    using ports by (metis (mono_tags, lifting) image_eqI image_iff list.set_map)
  note range = this [of "\<lambda>p. pt_start allocator \<le> p \<and> p \<le> pt_end allocator"]
  show ?thesis
    unfolding leases_ok_def using ports requests range by simp
qed

lemma leases_ok_filter: "leases_ok allocator ls \<Longrightarrow> leases_ok allocator (filter P ls)"
  by (auto simp: leases_ok_def distinct_map_filter)

lemma load_registry_holds:
  assumes "registry_codec_ok codec" and "holds_leases codec disk leases"
    and "load_registry codec env disk = Inr registry"
  shows "rg_leases registry = leases"
  using assms
  by (auto simp: holds_leases_def load_registry_def registry_codec_ok_def registry_default_def rbind_Inr_iff
      split: if_splits) fastforce

lemma saving_cases:
  assumes "saving codec env registry disk result = (disk', r)" and "holds_leases codec disk leases"
  shows "disk' = disk \<and> (\<exists>e. r = Inl e) \<or> holds_leases codec disk' (rg_leases registry) \<and> r = Inr result"
proof (cases "rc_to_json codec registry")
  case None
  then show ?thesis
    using assms(1) by (auto simp: saving_def save_registry_def)
next
  case (Some bs)
  then have "holds_leases codec (Some bs) (rg_leases registry)"
    unfolding holds_leases_def by blast
  then show ?thesis
    using assms(1) Some by (auto simp: saving_def save_registry_def split: if_splits)
qed

lemma with_registry_cases:
  assumes "registry_codec_ok codec" and "holds_leases codec disk leases"
    and "with_registry codec env disk body = (disk', r)"
  shows "disk' = disk \<and> (\<exists>e. r = Inl e)
    \<or> (\<exists>registry. rg_leases registry = leases \<and> body registry = (disk', r))"
  using assms load_registry_holds [OF assms(1,2)]
  by (auto simp: with_registry_def rbind_Inr_iff split: sum.splits)

section \<open>Finding a lease\<close>

lemma index_where_Some:
  "index_where P xs = Some i \<Longrightarrow> i < length xs \<and> P (xs ! i)"
  by (induction xs arbitrary: i) (auto split: if_splits)

lemma index_where_None: "index_where P xs = None \<longleftrightarrow> (\<forall>x \<in> set xs. \<not> P x)"
  by (induction xs) auto

lemma update_keeps_keys:
  assumes "i < length ls" and "lease_key l = lease_key (ls ! i)"
  shows "map lease_key (ls[i := l]) = map lease_key ls"
  using assms by (metis list_update_id map_update)

lemma port_range_iff: "p \<in> set (port_range a b) \<longleftrightarrow> a \<le> p \<and> p \<le> b"
proof
  assume "p \<in> set (port_range a b)"
  then obtain n where "unat a \<le> n" "n \<le> unat b" "p = of_nat n"
    by (auto simp: port_range_def less_Suc_eq_le)
  moreover have "unat b < 2 ^ 16"
    using unsigned_less [of b] by simp
  ultimately have "unat p = n" "unat a \<le> n" "n \<le> unat b"
    by (simp_all add: unsigned_of_nat take_bit_nat_eq_self)
  then show "a \<le> p \<and> p \<le> b"
    by (simp add: word_le_nat_alt)
next
  assume "a \<le> p \<and> p \<le> b"
  then have "unat p \<in> set [unat a ..< Suc (unat b)]"
    by (simp only: set_upt) (simp add: word_le_nat_alt)
  then show "p \<in> set (port_range a b)"
    unfolding port_range_def set_map by (rule image_eqI [rotated]) simp
qed

section \<open>The operations on the leases\<close>

text \<open>The leases of \<open>ls\<close> that satisfy \<open>P\<close> are still there, whoever owns their processes.\<close>

definition keeps_leases :: "(port_lease \<Rightarrow> bool) \<Rightarrow> port_lease list \<Rightarrow> port_lease list \<Rightarrow> bool" where
  "keeps_leases P ls ls' \<longleftrightarrow> (\<forall>l \<in> set ls. P l \<longrightarrow> lease_key l \<in> lease_key ` set ls')"

lemma keeps_refl: "keeps_leases P ls ls"
  by (simp add: keeps_leases_def)

lemma keeps_keys: "map lease_key ls' = map lease_key ls \<Longrightarrow> keeps_leases P ls ls'"
  by (metis keeps_leases_def image_eqI list.set_map)

definition owned_by :: "port_lease_owner \<Rightarrow> string \<Rightarrow> port_lease \<Rightarrow> bool" where
  "owned_by owner request l \<longleftrightarrow> pl_request_id l = request \<and> pl_mission_id l = po_mission_id owner
     \<and> pl_run_id l = po_run_id owner \<and> pl_service_id l = po_service_id owner"

lemma reserve_again_effect:
  assumes "reserve_again codec env owner registry i disk = (disk', r)"
    and "holds_leases codec disk (rg_leases registry)" and "i < length (rg_leases registry)"
  shows "\<exists>ls'. holds_leases codec disk' ls' \<and> map lease_key ls' = map lease_key (rg_leases registry)
    \<and> (\<forall>reservation. r = Inr reservation \<longrightarrow> lease_key (rv_lease reservation) = lease_key (rg_leases registry ! i)
         \<and> owned_by owner (pl_request_id (rg_leases registry ! i)) (rv_lease reservation))"
proof -
  let ?l = "rg_leases registry ! i"
  have save: "\<exists>ls'. holds_leases codec disk' ls' \<and> map lease_key ls' = map lease_key (rg_leases registry)
    \<and> (\<forall>reservation. r = Inr reservation \<longrightarrow> lease_key (rv_lease reservation) = lease_key ?l
         \<and> owned_by owner (pl_request_id ?l) (rv_lease reservation))"
    if "saving codec env (registry\<lparr>rg_leases := (rg_leases registry)[i := l]\<rparr>) disk
          \<lparr>rv_lease = l, rv_listener = b\<rparr> = (disk', r)"
      and "lease_key l = lease_key ?l" and "owned_by owner (pl_request_id ?l) l" for l b
    using saving_cases [OF that(1) assms(2)] update_keeps_keys [OF assms(3) that(2)] assms(2) that(2,3)
    by auto
  have unchanged: "\<exists>ls'. holds_leases codec disk' ls' \<and> map lease_key ls' = map lease_key (rg_leases registry)
    \<and> (\<forall>reservation. r = Inr reservation \<longrightarrow> lease_key (rv_lease reservation) = lease_key ?l
         \<and> owned_by owner (pl_request_id ?l) (rv_lease reservation))"
    if "disk' = disk" "r = Inl e" for e
    using that assms(2) by auto
  show ?thesis
    using assms(1) save unchanged
    by (auto simp: reserve_again_def Let_def lease_key_def owned_by_def split: if_splits sum.splits)
qed

lemma reserve_effect:
  assumes codec: "registry_codec_ok codec" and disk: "holds_leases codec disk ls" and ok: "leases_ok allocator ls"
    and run: "reserve codec sha allocator env owner request at disk = (disk', r)"
  shows "\<exists>ls'. holds_leases codec disk' ls' \<and> leases_ok allocator ls' \<and> keeps_leases (\<lambda>_. True) ls ls'
    \<and> (\<forall>reservation. r = Inr reservation \<longrightarrow>
         lease_key (rv_lease reservation) \<in> lease_key ` set ls' \<and> owned_by owner request (rv_lease reservation))"
    (is "\<exists>ls'. ?goal ls'")
proof (cases "disk' = disk \<and> (\<exists>e. r = Inl e)")
  case True
  then show ?thesis
    using disk ok keeps_refl by auto
next
  case False
  then obtain registry where registry: "rg_leases registry = ls"
    and body: "(case index_where (\<lambda>lease. pl_request_id lease = request) (rg_leases registry) of
          Some index \<Rightarrow> reserve_again codec env owner registry index disk
        | None \<Rightarrow>
            let occupied = bs_collect (map pl_port (rg_leases registry))
            in case List.find (\<lambda>port. port \<notin> set occupied \<and> pv_bind env port)
                      (port_range (pt_start allocator) (pt_end allocator)) of
                 None \<Rightarrow> (disk, Inl PaNoPortAvailable)
               | Some port \<Rightarrow>
                   let lease_id = lease_digest sha owner request port at;
                       lease = \<lparr>pl_schema_version = registry_schema_v1, pl_lease_id = lease_id,
                         pl_request_id = request, pl_mission_id = po_mission_id owner,
                         pl_run_id = po_run_id owner, pl_service_id = po_service_id owner,
                         pl_port = port, pl_owner_pid = pv_pid env, pl_service_pid = None,
                         pl_acquired_at_millis = at\<rparr>;
                       leases = sort_key pl_port (rg_leases registry @ [lease])
                   in saving codec env (registry\<lparr>rg_leases := leases\<rparr>) disk
                        \<lparr>rv_lease = lease, rv_listener = True\<rparr>) = (disk', r)"
    using run with_registry_cases [OF codec disk]
    by (fastforce simp: reserve_def split: if_splits)
  show ?thesis
  proof (cases "index_where (\<lambda>lease. pl_request_id lease = request) ls")
    case (Some i)
    then have i: "i < length ls" "pl_request_id (ls ! i) = request"
      using index_where_Some by fastforce+
    then obtain ls' where again: "holds_leases codec disk' ls'" "map lease_key ls' = map lease_key ls"
        "\<forall>reservation. r = Inr reservation \<longrightarrow> lease_key (rv_lease reservation) = lease_key (ls ! i)
           \<and> owned_by owner request (rv_lease reservation)"
      using reserve_again_effect [of codec env owner registry i disk disk' r] body disk registry Some by auto
    moreover have "lease_key (ls ! i) \<in> lease_key ` set ls'"
      using i(1) again(2) by (metis image_eqI list.set_map nth_mem)
    ultimately show ?thesis
      using ok keys_cong [OF again(2)] keeps_keys [OF again(2)] by auto
  next
    case None
    then have fresh: "\<forall>l \<in> set ls. pl_request_id l \<noteq> request"
      by (simp add: index_where_None)
    show ?thesis
    proof (cases "List.find (\<lambda>port. port \<notin> set (bs_collect (map pl_port ls)) \<and> pv_bind env port)
                      (port_range (pt_start allocator) (pt_end allocator))")
      case None
      then show ?thesis
        using body registry \<open>index_where _ ls = None\<close> False by auto
    next
      case (Some port)
      let ?lease = "\<lparr>pl_schema_version = registry_schema_v1,
          pl_lease_id = lease_digest sha owner request port at,
          pl_request_id = request, pl_mission_id = po_mission_id owner, pl_run_id = po_run_id owner,
          pl_service_id = po_service_id owner, pl_port = port, pl_owner_pid = pv_pid env,
          pl_service_pid = None, pl_acquired_at_millis = at\<rparr>"
      let ?ls = "sort_key pl_port (ls @ [?lease])"
      have port: "port \<notin> pl_port ` set ls" "pt_start allocator \<le> port" "port \<le> pt_end allocator"
        using Some by (auto simp: find_Some_iff port_range_iff dest!: nth_mem)
      have sets: "set ?ls = insert ?lease (set ls)"
        by simp
      have "distinct (map pl_port (ls @ [?lease]))" "distinct (map pl_request_id (ls @ [?lease]))"
        using ok port fresh by (auto simp: leases_ok_def)
      then have "distinct (map pl_port ?ls)" "distinct (map pl_request_id ?ls)"
        by (simp_all only: distinct_map distinct_sort set_sort)
      then have "leases_ok allocator ?ls"
        using ok port by (simp add: leases_ok_def)
      moreover have "keeps_leases (\<lambda>_. True) ls ?ls"
        by (simp add: keeps_leases_def)
      moreover have "owned_by owner request ?lease"
        by (simp add: owned_by_def)
      moreover have "saving codec env (registry\<lparr>rg_leases := ?ls\<rparr>) disk \<lparr>rv_lease = ?lease, rv_listener = True\<rparr>
          = (disk', r)"
        using body registry Some \<open>index_where _ ls = None\<close> by (simp add: Let_def)
      then have "holds_leases codec disk' ?ls" "r = Inr \<lparr>rv_lease = ?lease, rv_listener = True\<rparr>"
        using saving_cases [OF _ disk] False by fastforce+
      ultimately show ?thesis
        using sets by (intro exI [of _ ?ls]) auto
    qed
  qed
qed

section \<open>Calls of several processes\<close>

text \<open>
  The calls that change the registry, each with the process it runs in and what it meets; a process
  gives up a lease by releasing it or by naming it in a cleanup.
\<close>

datatype ports_call =
    CallReserve port_lease_owner string u64 | CallBind string u32 | CallRelease port_lease
  | CallCleanup "string bset"

fun ports_step ::
  "registry_codec \<Rightarrow> sha256 \<Rightarrow> port_allocator \<Rightarrow> ports_env \<times> ports_call \<Rightarrow> registry_disk \<Rightarrow> registry_disk" where
  "ports_step codec sha allocator (env, CallReserve owner request at) disk =
     fst (reserve codec sha allocator env owner request at disk)"
| "ports_step codec sha allocator (env, CallBind lease_id pid) disk =
     fst (bind_service_process codec env lease_id pid disk)"
| "ports_step codec sha allocator (env, CallRelease lease) disk = fst (release_port codec env lease disk)"
| "ports_step codec sha allocator (env, CallCleanup ids) disk = fst (cleanup_orphaned codec env ids disk)"

fun gives_up :: "port_lease \<Rightarrow> ports_call \<Rightarrow> bool" where
  "gives_up lease (CallRelease l) \<longleftrightarrow> same_lease lease l"
| "gives_up lease (CallCleanup ids) \<longleftrightarrow> pl_lease_id lease \<in> set ids"
| "gives_up lease _ \<longleftrightarrow> False"

lemma gives_up_key: "lease_key l = lease_key l' \<Longrightarrow> gives_up l call = gives_up l' call"
  by (cases call) (auto simp: lease_key_def same_lease_def)

lemma filter_effect:
  assumes "holds_leases codec disk ls" and "leases_ok allocator ls" and "rg_leases registry = ls"
    and "saving codec env (registry\<lparr>rg_leases := filter P ls\<rparr>) disk result = (disk', r) \<or> disk' = disk"
    and "\<And>l. l \<in> set ls \<Longrightarrow> Q l \<Longrightarrow> P l"
  shows "\<exists>ls'. holds_leases codec disk' ls' \<and> leases_ok allocator ls' \<and> keeps_leases Q ls ls'"
proof -
  have "keeps_leases Q ls (filter P ls)"
    using assms(5) by (auto simp: keeps_leases_def)
  then show ?thesis
    using assms(1-4) saving_cases leases_ok_filter keeps_refl by fastforce
qed

lemma step_effect:
  assumes codec: "registry_codec_ok codec" and disk: "holds_leases codec disk ls" and ok: "leases_ok allocator ls"
  shows "\<exists>ls'. holds_leases codec (ports_step codec sha allocator (env, call) disk) ls'
    \<and> leases_ok allocator ls' \<and> keeps_leases (\<lambda>l. \<not> gives_up l call) ls ls'"
proof (cases call)
  case (CallReserve owner request at)
  obtain disk' r where "reserve codec sha allocator env owner request at disk = (disk', r)"
    by fastforce
  then show ?thesis
    using reserve_effect [OF codec disk ok] CallReserve by (fastforce simp: keeps_leases_def)
next
  case (CallBind lease_id pid)
  obtain disk' r where run: "bind_service_process codec env lease_id pid disk = (disk', r)"
    by fastforce
  show ?thesis
  proof (cases "disk' = disk")
    case True
    then show ?thesis
      using run disk ok keeps_refl CallBind by auto
  next
    case False
    then obtain registry i where "rg_leases registry = ls"
        and i: "index_where (\<lambda>lease. pl_lease_id lease = lease_id) ls = Some i"
        and saved: "saving codec env (registry\<lparr>rg_leases := ls[i := (ls ! i)\<lparr>pl_service_pid := Some pid\<rparr>]\<rparr>) disk
          ((ls ! i)\<lparr>pl_service_pid := Some pid\<rparr>) = (disk', r)"
      using run with_registry_cases [OF codec disk]
      by (fastforce simp: bind_service_process_def Let_def split: if_splits option.splits)
    have keys: "map lease_key (ls[i := (ls ! i)\<lparr>pl_service_pid := Some pid\<rparr>]) = map lease_key ls"
      using index_where_Some [OF i] by (intro update_keeps_keys) (auto simp: lease_key_def)
    show ?thesis
      using saving_cases [OF saved disk] False keys_cong [OF keys] keeps_keys [OF keys] ok run CallBind
      by (intro exI [of _ "ls[i := (ls ! i)\<lparr>pl_service_pid := Some pid\<rparr>]"]) auto
  qed
next
  case (CallRelease lease)
  obtain disk' r where run: "release_port codec env lease disk = (disk', r)"
    by fastforce
  show ?thesis
  proof (cases "disk' = disk")
    case True
    then show ?thesis
      using run disk ok keeps_refl CallRelease by auto
  next
    case False
    then obtain registry result where registry: "rg_leases registry = ls"
        and saved: "saving codec env (registry\<lparr>rg_leases := filter (\<lambda>l. \<not> same_lease l lease) ls\<rparr>) disk result = (disk', r)"
      using run with_registry_cases [OF codec disk]
      by (fastforce simp: release_port_def Let_def split: if_splits)
    then show ?thesis
      using filter_effect [where Q = "\<lambda>l. \<not> same_lease l lease", OF disk ok registry disjI1 [OF saved]]
        run CallRelease by simp
  qed
next
  case (CallCleanup ids)
  obtain disk' r where run: "cleanup_orphaned codec env ids disk = (disk', r)"
    by fastforce
  show ?thesis
  proof (cases "disk' = disk")
    case True
    then show ?thesis
      using run disk ok keeps_refl CallCleanup by auto
  next
    case False
    let ?P = "\<lambda>l. \<not> (is_orphan env l \<and> pl_lease_id l \<in> set ids)"
    obtain registry result where registry: "rg_leases registry = ls"
        and saved: "saving codec env (registry\<lparr>rg_leases := filter ?P ls\<rparr>) disk result = (disk', r)"
      using False run with_registry_cases [OF codec disk]
      by (fastforce simp: cleanup_orphaned_def Let_def split: if_splits)
    then show ?thesis
      using filter_effect [where Q = "\<lambda>l. pl_lease_id l \<notin> set ids", OF disk ok registry disjI1 [OF saved]]
        run CallCleanup by simp
  qed
qed

definition ports_run ::
  "registry_codec \<Rightarrow> sha256 \<Rightarrow> port_allocator \<Rightarrow> (ports_env \<times> ports_call) list \<Rightarrow> registry_disk \<Rightarrow> registry_disk" where
  "ports_run codec sha allocator calls disk = fold (ports_step codec sha allocator) calls disk"

lemma run_effect:
  assumes "registry_codec_ok codec" and "holds_leases codec disk ls" and "leases_ok allocator ls"
  shows "\<exists>ls'. holds_leases codec (ports_run codec sha allocator calls disk) ls' \<and> leases_ok allocator ls'
    \<and> keeps_leases (\<lambda>l. \<forall>(_, call) \<in> set calls. \<not> gives_up l call) ls ls'"
  using assms(2,3)
proof (induction calls arbitrary: disk ls)
  case Nil
  then show ?case
    using keeps_refl by (auto simp: ports_run_def)
next
  case (Cons step calls)
  obtain env call where step: "step = (env, call)"
    by fastforce
  obtain ls1 where one: "holds_leases codec (ports_step codec sha allocator (env, call) disk) ls1"
      "leases_ok allocator ls1" "keeps_leases (\<lambda>l. \<not> gives_up l call) ls ls1"
    using step_effect [OF assms(1) Cons.prems] by blast
  obtain ls2 where two: "holds_leases codec (ports_run codec sha allocator calls
        (ports_step codec sha allocator (env, call) disk)) ls2" "leases_ok allocator ls2"
      "keeps_leases (\<lambda>l. \<forall>(_, call) \<in> set calls. \<not> gives_up l call) ls1 ls2"
    using Cons.IH [OF one(1,2)] by blast
  have "keeps_leases (\<lambda>l. \<forall>(_, call) \<in> set (step # calls). \<not> gives_up l call) ls ls2"
    unfolding keeps_leases_def
  proof (intro ballI impI)
    fix l
    assume l: "l \<in> set ls" and free: "\<forall>(_, call) \<in> set (step # calls). \<not> gives_up l call"
    then obtain l1 where l1: "l1 \<in> set ls1" "lease_key l = lease_key l1"
      using one(3) step by (auto simp: keeps_leases_def image_iff)
    then have "\<forall>(_, call) \<in> set calls. \<not> gives_up l1 call"
      using free gives_up_key [OF l1(2)] by auto
    then show "lease_key l \<in> lease_key ` set ls2"
      using two(3) l1 by (auto simp: keeps_leases_def)
  qed
  then show ?case
    using two step by (auto simp: ports_run_def)
qed

text \<open>
  C26: whatever calls the server processes make on the registry of ports, and whatever fails in
  them, a port that a reservation handed out belongs to its request until the lease is given up: a
  later reservation gets the same port exactly when it is made for the same request, which only the
  same owner can repeat and which then finds the same lease. The port is in the range.
\<close>

theorem reserved_ports_are_exclusive:
  assumes "registry_codec_ok codec"
    and "reserve codec sha allocator env owner request at (ports_run codec sha allocator before None)
      = (disk, Inr first)"
    and "\<forall>(_, call) \<in> set between. \<not> gives_up (rv_lease first) call"
    and "reserve codec sha allocator env' owner' request' at' (ports_run codec sha allocator between disk)
      = (disk', Inr second)"
  shows "(pl_port (rv_lease second) = pl_port (rv_lease first) \<longleftrightarrow> request' = request)
    \<and> (request' = request \<longrightarrow> owner' = owner
         \<and> pl_lease_id (rv_lease second) = pl_lease_id (rv_lease first))
    \<and> pt_start allocator \<le> pl_port (rv_lease first) \<and> pl_port (rv_lease first) \<le> pt_end allocator"
proof -
  have "holds_leases codec None []" "leases_ok allocator []"
    by (simp_all add: holds_leases_def leases_ok_def)
  then obtain ls0 where start: "holds_leases codec (ports_run codec sha allocator before None) ls0"
      "leases_ok allocator ls0"
    using run_effect [OF assms(1)] by blast
  obtain ls1 where one: "holds_leases codec disk ls1" "leases_ok allocator ls1"
      "lease_key (rv_lease first) \<in> lease_key ` set ls1" "owned_by owner request (rv_lease first)"
    using reserve_effect [OF assms(1) start assms(2)] by auto
  obtain ls2 where two: "holds_leases codec (ports_run codec sha allocator between disk) ls2"
      "leases_ok allocator ls2" "keeps_leases (\<lambda>l. \<forall>(_, call) \<in> set between. \<not> gives_up l call) ls1 ls2"
    using run_effect [OF assms(1) one(1,2)] by blast
  obtain l1 where "l1 \<in> set ls1" "lease_key l1 = lease_key (rv_lease first)"
    using one(3) by auto
  moreover then have "\<forall>(_, call) \<in> set between. \<not> gives_up l1 call"
    using assms(3) gives_up_key [of l1 "rv_lease first"] by simp
  ultimately have kept: "lease_key (rv_lease first) \<in> lease_key ` set ls2"
    using two(3) unfolding keeps_leases_def by metis
  obtain ls3 where three: "leases_ok allocator ls3" "keeps_leases (\<lambda>_. True) ls2 ls3"
      "lease_key (rv_lease second) \<in> lease_key ` set ls3" "owned_by owner' request' (rv_lease second)"
    using reserve_effect [OF assms(1) two(1,2) assms(4)] by auto
  obtain a b where a: "a \<in> set ls3" "lease_key a = lease_key (rv_lease first)"
    and b: "b \<in> set ls3" "lease_key b = lease_key (rv_lease second)"
    using kept three(2,3) by (auto simp: keeps_leases_def image_iff)
  have same: "pl_port a = pl_port b \<longleftrightarrow> a = b" "pl_request_id a = pl_request_id b \<longleftrightarrow> a = b"
    using three(1) a(1) b(1) by (auto simp: leases_ok_def distinct_map inj_on_def)
  have range: "pt_start allocator \<le> pl_port a \<and> pl_port a \<le> pt_end allocator"
    using three(1) a(1) by (simp add: leases_ok_def)
  have keys: "pl_port a = pl_port (rv_lease first)" "pl_port b = pl_port (rv_lease second)"
      "pl_lease_id a = pl_lease_id (rv_lease first)" "pl_lease_id b = pl_lease_id (rv_lease second)"
      "owned_by owner request a" "owned_by owner' request' b"
    using a(2) b(2) one(4) three(4) by (simp_all add: lease_key_def owned_by_def)
  have requests: "pl_request_id a = request" "pl_request_id b = request'"
    using keys(5,6) by (simp_all add: owned_by_def)
  have "a = b \<Longrightarrow> owner' = owner"
    using keys(5,6) by (simp add: owned_by_def)
  then show ?thesis
    using same range keys(1-4) requests by metis
qed

section \<open>Two requests\<close>

definition two_ports :: port_allocator where
  "two_ports = \<lparr>pt_start = 1, pt_end = 2\<rparr>"

definition ports_toy_hash :: sha256 where "ports_toy_hash _ = replicate 32 0"

definition toy_env :: ports_env where
  "toy_env = \<lparr>pv_pid = 7, pv_alive = \<lambda>_. True, pv_bind = \<lambda>_. True, pv_lock = LockAcquired,
     pv_readable = True, pv_writable = True\<rparr>"

definition web_owner :: port_lease_owner where
  "web_owner = \<lparr>po_mission_id = ''m'', po_run_id = ''r'', po_service_id = ''web''\<rparr>"

definition toy_lease :: "string \<Rightarrow> u16 \<Rightarrow> port_lease" where
  "toy_lease request port = \<lparr>pl_schema_version = 1, pl_lease_id = replicate 64 CHR ''0'',
     pl_request_id = request, pl_mission_id = ''m'', pl_run_id = ''r'', pl_service_id = ''web'',
     pl_port = port, pl_owner_pid = 7, pl_service_pid = None, pl_acquired_at_millis = 5\<rparr>"

definition one_lease :: port_registry_file where
  "one_lease = \<lparr>rg_schema_version = 1, rg_leases = [toy_lease ''a'' 1]\<rparr>"

definition two_leases :: port_registry_file where
  "two_leases = \<lparr>rg_schema_version = 1, rg_leases = [toy_lease ''a'' 1, toy_lease ''b'' 2]\<rparr>"

text \<open>A codec that knows these two files.\<close>

definition ports_toy_codec :: registry_codec where
  "ports_toy_codec = \<lparr>rc_to_json = \<lambda>r. if r = one_lease then Some [49] else if r = two_leases then Some [50] else None,
     rc_from_json = \<lambda>s. if s = ''1'' then Some one_lease else Some two_leases\<rparr>"

lemma ports_toy_texts: "from_utf8 [49] = Some ''1''" "from_utf8 [50] = Some ''2''"
  by code_simp+

lemma ports_toy_codec_ok: "registry_codec_ok ports_toy_codec"
  by (auto simp: registry_codec_ok_def ports_toy_codec_def ports_toy_texts split: if_splits)

lemma toy_first:
  "reserve ports_toy_codec ports_toy_hash two_ports toy_env web_owner ''a'' 5 None
     = (Some [49], Inr \<lparr>rv_lease = toy_lease ''a'' 1, rv_listener = True\<rparr>)"
  by code_simp

lemma toy_load: "load_registry ports_toy_codec toy_env (Some [49]) = Inr one_lease"
proof -
  have "leases_valid [] [] (rg_leases one_lease)" "rg_schema_version one_lease = registry_schema_v1"
      "\<not> list_ex (\<lambda>lease. pl_schema_version lease \<noteq> registry_schema_v1) (rg_leases one_lease)"
    by code_simp+
  then show ?thesis
    by (simp add: load_registry_def ports_toy_texts max_registry_bytes_def) (simp add: ports_toy_codec_def toy_env_def)
qed

lemma toy_port:
  "List.find (\<lambda>port. port \<notin> set (bs_collect (map pl_port (rg_leases one_lease))) \<and> pv_bind toy_env port)
     (port_range (pt_start two_ports) (pt_end two_ports)) = Some 2"
  "index_where (\<lambda>lease. pl_request_id lease = ''b'') (rg_leases one_lease) = None"
  "lease_digest ports_toy_hash web_owner ''b'' 2 5 = replicate 64 CHR ''0''"
  "ports_valid_id ''b''" "registry_lock toy_env = Inr ()"
  by code_simp+

lemma toy_saved: "sort_key pl_port (rg_leases one_lease @ [toy_lease ''b'' 2]) = rg_leases two_leases"
  by code_simp

lemma toy_second:
  "reserve ports_toy_codec ports_toy_hash two_ports toy_env web_owner ''b'' 5 (Some [49])
     = (Some [50], Inr \<lparr>rv_lease = toy_lease ''b'' 2, rv_listener = True\<rparr>)"
proof -
  have lease: "\<lparr>pl_schema_version = registry_schema_v1, pl_lease_id = replicate 64 CHR ''0'',
      pl_request_id = ''b'', pl_mission_id = po_mission_id web_owner, pl_run_id = po_run_id web_owner,
      pl_service_id = po_service_id web_owner, pl_port = 2, pl_owner_pid = pv_pid toy_env,
      pl_service_pid = None, pl_acquired_at_millis = 5\<rparr> = toy_lease ''b'' 2"
    by (simp add: toy_lease_def registry_schema_v1_def web_owner_def toy_env_def)
  have "one_lease\<lparr>rg_leases := rg_leases two_leases\<rparr> = two_leases" "two_leases \<noteq> one_lease"
    by (simp_all add: one_lease_def two_leases_def)
  then show ?thesis
    by (simp add: reserve_def with_registry_def toy_port toy_load Let_def lease toy_saved
        saving_def save_registry_def del: set_bs_collect list.set_map) (simp add: ports_toy_codec_def toy_env_def)
qed

theorem reserved_ports_are_exclusive_witness:
  "pl_port (toy_lease ''b'' 2) \<noteq> pl_port (toy_lease ''a'' 1)
   \<and> pt_start two_ports \<le> pl_port (toy_lease ''a'' 1)"
  using reserved_ports_are_exclusive [of ports_toy_codec ports_toy_hash two_ports toy_env web_owner "''a''" 5 "[]"
      "Some [49]" "\<lparr>rv_lease = toy_lease ''a'' 1, rv_listener = True\<rparr>" "[]" toy_env web_owner "''b''" 5]
    ports_toy_codec_ok toy_first toy_second
  by (simp add: ports_run_def)

end
