(* ===== verification/Services_Run.thy ===== *)
theory Services_Run
  imports Services_Props
begin

text \<open>
  Starting a service: a service that was started has its lease and answered on its port, and one
  that failed was asked to end and its lease was given back.
\<close>

section \<open>Waiting\<close>

definition probe_answered :: "health_endpoint \<Rightarrow> managed_service \<Rightarrow> service_poll \<Rightarrow> bool" where
  "probe_answered endpoint managed p \<longleftrightarrow> probe (sp_net p) endpoint = Inr True
     \<and> (case mv_child managed of
          Some _ \<Rightarrow> sp_try_wait p = Inr None
        | None \<Rightarrow> \<exists>pid. pl_service_pid (mv_lease managed) = Some pid \<and> sp_alive p pid)"

lemma wait_loop_answered:
  "wait_loop_healthy endpoint managed service_id timeout polls n = Some (Inr ())
     \<Longrightarrow> \<exists>k. probe_answered endpoint managed (polls k)"
proof -
  have "wait_loop_healthy endpoint managed service_id timeout polls n = Some r
      \<Longrightarrow> r = Inr () \<longrightarrow> (\<exists>k. probe_answered endpoint managed (polls k))" for r
  proof (induction rule: wait_loop_healthy.raw_induct [rotated, consumes 1])
    case (1 wait endpoint managed service_id timeout polls n r)
    show ?case
    proof (cases "probe_answered endpoint managed (polls n) \<or> r \<noteq> Inr ()")
      case False
      then have "wait endpoint managed service_id timeout polls (Suc n) = Some r"
        using 1(2) by (auto simp: probe_answered_def Let_def split: option.splits sum.splits if_splits)
      then show ?thesis
        using 1(1) by blast
    qed blast
  qed
  then show "wait_loop_healthy endpoint managed service_id timeout polls n = Some (Inr ())
     \<Longrightarrow> \<exists>k. probe_answered endpoint managed (polls k)"
    by blast
qed

lemma watch_cases:
  assumes "watch codec os env service_id service managed w = Some (w', r)"
  shows "(\<exists>endpoint k. r = Inr managed \<and> w' = w
        \<and> health_parse (so_resolve os) (svc_health service) (pl_port (mv_lease managed)) = Inr endpoint
        \<and> probe_answered endpoint managed (so_polls os k))
    \<or> (\<exists>e. r = Inl e \<and> w' = fst (stop_inner codec os env managed w))"
proof -
  obtain outcome where outcome: "wait_until_healthy os service_id service managed = Some outcome"
    and result: "(w', r) = (case outcome of
        Inl e \<Rightarrow> (fst (stop_inner codec os env managed w), Inl e) | Inr _ \<Rightarrow> (w, Inr managed))"
    using assms by (auto simp: watch_def)
  show ?thesis
  proof (cases outcome)
    case (Inr u)
    then obtain endpoint where parse:
        "health_parse (so_resolve os) (svc_health service) (pl_port (mv_lease managed)) = Inr endpoint"
      and "wait_loop_healthy endpoint managed service_id (svc_timeout_seconds service) (so_polls os) 0
        = Some (Inr ())"
      using outcome by (auto simp: wait_until_healthy_def split: sum.splits)
    then obtain k where "probe_answered endpoint managed (so_polls os k)"
      using wait_loop_answered by blast
    then show ?thesis
      using Inr result parse by auto
  qed (use result in simp)
qed

section \<open>Stopping\<close>

text \<open>The process has ended, or was asked to end and then killed if it still lived.\<close>

definition asked_to_end :: "service_os \<Rightarrow> u32 \<Rightarrow> service_effect list \<Rightarrow> bool" where
  "asked_to_end os pid effects \<longleftrightarrow> pid > 0x7FFFFFFF \<or> \<not> so_alive_first os pid
     \<or> Signalled SigTerm pid \<in> set effects
        \<and> (so_alive_last os pid \<longrightarrow> Signalled SigKill pid \<in> set effects)"

definition process_stopped :: "service_os \<Rightarrow> managed_service \<Rightarrow> service_effect list \<Rightarrow> bool" where
  "process_stopped os managed effects \<longleftrightarrow>
     (case mv_child managed of
        Some child \<Rightarrow> so_child_ended os \<noteq> Inr False \<or> asked_to_end os child effects
      | None \<Rightarrow> \<forall>pid. pl_service_pid (mv_lease managed) = Some pid \<longrightarrow> asked_to_end os pid effects)"

lemma terminate_pid_effect:
  assumes "terminate_pid os pid w = (w', r)"
  shows "sw_disk w' = sw_disk w \<and> (\<exists>new. sw_effects w' = sw_effects w @ new \<and> asked_to_end os pid new
    \<and> (\<forall>command child. Spawned command child \<notin> set new))"
  using assms by (auto simp: terminate_pid_def asked_to_end_def Let_def split: if_splits)

lemma terminate_effect:
  assumes "terminate os pid w = (w', r)"
  shows "sw_disk w' = sw_disk w \<and> (\<exists>new. sw_effects w' = sw_effects w @ new
    \<and> (so_child_ended os \<noteq> Inr False \<or> asked_to_end os pid new)
    \<and> (\<forall>command child. Spawned command child \<notin> set new))"
proof (cases "so_child_ended os = Inr False")
  case True
  then have "terminate_pid os pid w = (w', r)"
    using assms by (simp add: terminate_def)
  then show ?thesis
    using terminate_pid_effect by blast
next
  case False
  then have "w' = w"
    using assms by (auto simp: terminate_def split: sum.splits if_splits)
  then show ?thesis
    using False by simp
qed

text \<open>The lease is not in the registry, or taking it out was tried last and reported a failure.\<close>

definition given_back :: "registry_codec \<Rightarrow> service_os \<Rightarrow> port_lease \<Rightarrow> registry_disk \<Rightarrow> bool" where
  "given_back codec os lease disk \<longleftrightarrow> (\<exists>k disk0 r. release_port codec (so_ports os k) lease disk0 = (disk, r)
     \<and> (\<forall>b. r = Inr b \<longrightarrow> (\<exists>ls. holds_leases codec disk ls \<and> (\<forall>l \<in> set ls. \<not> same_lease l lease))))"

lemma release_gives_back:
  assumes "registry_codec_ok codec" and "holds_leases codec disk ls"
    and run: "release_port codec (so_ports os k) lease disk = (disk', r)"
  shows "given_back codec os lease disk'"
proof -
  have "\<exists>ls. holds_leases codec disk' ls \<and> (\<forall>l \<in> set ls. \<not> same_lease l lease)" if ok: "r = Inr b" for b
  proof -
    obtain registry where registry: "rg_leases registry = ls"
      and body: "(let kept = filter (\<lambda>l. \<not> same_lease l lease) ls; released = (length kept \<noteq> length ls)
        in if released then saving codec (so_ports os k) (registry\<lparr>rg_leases := kept\<rparr>) disk released
           else (disk, Inr released)) = (disk', Inr b)"
      using with_registry_cases [OF assms(1,2) run [unfolded release_port_def]] ok by auto
    let ?kept = "filter (\<lambda>l. \<not> same_lease l lease) ls"
    show ?thesis
    proof (cases "length ?kept = length ls")
      case True
      then have "disk' = disk" "?kept = ls"
        using body by (auto simp: Let_def) (metis filter_id_conv length_filter_less order_less_irrefl)
      then show ?thesis
        using assms(2) by (metis filter_id_conv)
    next
      case False
      then have "saving codec (so_ports os k) (registry\<lparr>rg_leases := ?kept\<rparr>) disk True = (disk', Inr b)"
        using body by (simp add: Let_def)
      then have "holds_leases codec disk' ?kept"
        using saving_cases [OF _ assms(2)] by fastforce
      then show ?thesis
        by auto
    qed
  qed
  then show ?thesis
    using run unfolding given_back_def by blast
qed

lemma stop_inner_effect:
  assumes "registry_codec_ok codec" and "holds_leases codec (sw_disk w) ls"
    and stop: "stop_inner codec os (so_ports os k) managed w = (w', r)"
  shows "given_back codec os (mv_lease managed) (sw_disk w') \<and>
    (\<exists>new. sw_effects w' = sw_effects w @ new \<and> process_stopped os managed new
      \<and> (\<forall>command child. Spawned command child \<notin> set new))"
proof -
  obtain w1 r1 where first: "(case mv_child managed of
            Some child \<Rightarrow> terminate os child w
          | None \<Rightarrow> (case pl_service_pid (mv_lease managed) of
                Some pid \<Rightarrow> terminate_pid os pid w | None \<Rightarrow> (w, Inr ()))) = (w1, r1)"
    by fastforce
  obtain disk r2 where second: "release_port codec (so_ports os k) (mv_lease managed) (sw_disk w1) = (disk, r2)"
    by fastforce
  have w': "sw_disk w' = disk" "sw_effects w' = sw_effects w1"
    using stop first second by (auto simp: stop_inner_def release_lease_def)
  have ended: "sw_disk w1 = sw_disk w \<and> (\<exists>new. sw_effects w1 = sw_effects w @ new
      \<and> process_stopped os managed new \<and> (\<forall>command child. Spawned command child \<notin> set new))"
  proof (cases "mv_child managed")
    case None
    show ?thesis
    proof (cases "pl_service_pid (mv_lease managed)")
      case (Some pid)
      then show ?thesis
        using first None terminate_pid_effect [of os pid w w1 r1] by (auto simp: process_stopped_def)
    qed (use first None in \<open>auto simp: process_stopped_def\<close>)
  next
    case (Some child)
    then show ?thesis
      using first terminate_effect [of os child w w1 r1] by (auto simp: process_stopped_def)
  qed
  then have "given_back codec os (mv_lease managed) disk"
    using release_gives_back [OF assms(1,2)] second by simp
  then show ?thesis
    using w' ended by simp
qed

section \<open>Starting\<close>

lemma leases_valid_distinct: "leases_valid ids ports ls \<Longrightarrow> distinct (map pl_lease_id ls)"
proof -
  have "leases_valid ids ports ls \<Longrightarrow> distinct (map pl_lease_id ls) \<and> set (map pl_lease_id ls) \<inter> set ids = {}"
    by (induction ids ports ls rule: leases_valid.induct) auto
  then show "leases_valid ids ports ls \<Longrightarrow> distinct (map pl_lease_id ls)"
    by blast
qed

lemma with_registry_Inr:
  assumes "with_registry codec env disk body = (disk', Inr x)"
  shows "\<exists>registry. load_registry codec env disk = Inr registry \<and> body registry = (disk', Inr x)"
proof (cases "rbind (registry_lock env) (\<lambda>_. load_registry codec env disk)")
  case (Inr registry)
  then show ?thesis
    using assms by (auto simp: with_registry_def rbind_Inr_iff)
qed (use assms in \<open>simp add: with_registry_def\<close>)

lemma bind_effect:
  assumes codec: "registry_codec_ok codec" and disk: "holds_leases codec disk ls"
    and run: "bind_service_process codec env lease_id pid disk = (disk', Inr l)"
  shows "\<exists>ls'. holds_leases codec disk' ls' \<and> map lease_key ls' = map lease_key ls \<and> l \<in> set ls'
    \<and> pl_lease_id l = lease_id \<and> pl_service_pid l = Some pid \<and> distinct (map pl_lease_id ls)"
proof -
  have "pid \<noteq> 0"
    using run by (intro notI) (simp add: bind_service_process_def)
  note loaded = run [unfolded bind_service_process_def if_not_P [OF this]]
  obtain registry where load: "load_registry codec env disk = Inr registry"
    and body: "(case index_where (\<lambda>lease. pl_lease_id lease = lease_id) (rg_leases registry) of
          None \<Rightarrow> (disk, Inl PaLeaseMissing)
        | Some index \<Rightarrow>
            let lease = rg_leases registry ! index
            in if pl_owner_pid lease \<noteq> pv_pid env then (disk, Inl PaLeaseNotOwned)
               else
                 let lease = lease\<lparr>pl_service_pid := Some pid\<rparr>
                 in saving codec env (registry\<lparr>rg_leases := (rg_leases registry)[index := lease]\<rparr>) disk
                      lease) = (disk', Inr l)"
    using with_registry_Inr [OF loaded] by blast
  have registry: "rg_leases registry = ls"
    by (rule load_registry_holds [OF codec disk load])
  obtain i where i: "index_where (\<lambda>lease. pl_lease_id lease = lease_id) ls = Some i"
    and saved: "saving codec env (registry\<lparr>rg_leases := ls[i := (ls ! i)\<lparr>pl_service_pid := Some pid\<rparr>]\<rparr>) disk
      ((ls ! i)\<lparr>pl_service_pid := Some pid\<rparr>) = (disk', Inr l)"
    using body registry by (auto simp: Let_def split: option.splits if_splits)
  have l: "l = (ls ! i)\<lparr>pl_service_pid := Some pid\<rparr>"
    and held: "holds_leases codec disk' (ls[i := l])"
    using saving_cases [OF saved disk] by auto
  have at_index: "i < length ls" "pl_lease_id (ls ! i) = lease_id"
    using index_where_Some [OF i] by auto
  have "distinct (map pl_lease_id ls)"
  proof (cases disk)
    case None
    then show ?thesis
      using disk by (auto simp: holds_leases_def)
  next
    case (Some bs)
    then have "leases_valid [] [] (rg_leases registry)"
      using load by (auto simp: load_registry_def rbind_Inr_iff split: if_splits)
    then show ?thesis
      using leases_valid_distinct registry by blast
  qed
  moreover have "map lease_key (ls[i := l]) = map lease_key ls"
    using at_index(1) l by (intro update_keeps_keys) (auto simp: lease_key_def)
  ultimately show ?thesis
    using held at_index l by (intro exI [of _ "ls[i := l]"]) (auto intro: set_update_memI)
qed

text \<open>How a start goes on once its port is reserved.\<close>

lemma start_cases:
  assumes start: "start_service codec sha allocator os service_id service worktree mission_id run_id at w
      = Some (w', r)"
    and owner: "owner_new mission_id run_id service_id = Inr owner"
    and reserved: "reserve codec sha allocator (so_ports os 0) owner
      (service_request_id sha mission_id run_id service_id) at (sw_disk w) = (disk, Inr reservation)"
    and command: "svc_command service = program # args"
  obtains (adopted) "is_adopted reservation"
      "watch codec os (so_ports os 1) service_id service
        \<lparr>mv_child = None, mv_lease = rv_lease reservation, mv_stop_on_drop = True\<rparr> (w\<lparr>sw_disk := disk\<rparr>)
       = Some (w', r)"
    | (unspawned) e where "r = Inl e"
        "w' = fst (release_lease codec (so_ports os 1) (rv_lease reservation) (w\<lparr>sw_disk := disk\<rparr>))"
    | (unbound) spawned child disk2 w2 e where "r = Inl e"
        "fst (bind_service_process codec (so_ports os 1) (pl_lease_id (rv_lease reservation)) child disk) = disk2"
        "w2 = fst (terminate os child
           (w\<lparr>sw_effects := sw_effects w @ [Spawned spawned child], sw_disk := disk2\<rparr>))"
        "w' = fst (release_lease codec (so_ports os 2) (rv_lease reservation) w2)"
    | (watched) spawned child disk2 l where
        "service_command_of service worktree (pl_port (rv_lease reservation)) = Inr spawned"
        "bind_service_process codec (so_ports os 1) (pl_lease_id (rv_lease reservation)) child disk
           = (disk2, Inr l)"
        "watch codec os (so_ports os 2) service_id service
           \<lparr>mv_child = Some child, mv_lease = rv_lease reservation, mv_stop_on_drop = True\<rparr>
           (w\<lparr>sw_effects := sw_effects w @ [Spawned spawned child], sw_disk := disk2\<rparr>) = Some (w', r)"
proof -
  let ?lease = "rv_lease reservation" and ?w = "w\<lparr>sw_disk := disk\<rparr>"
  obtain spawned where spawned: "service_command_of service worktree (pl_port ?lease) = Inr spawned"
    using command by (simp add: service_command_of_def)
  show thesis
  proof (cases "is_adopted reservation")
    case True
    then show thesis
      using adopted start owner reserved
      by (simp add: start_service_def Let_def prepare_service_spawn_def)
  next
    case False
    show thesis
    proof (cases "so_spawn os spawned")
      case None
      then show thesis
        using unspawned start owner reserved False spawned
        by (auto simp: start_service_def Let_def prepare_service_spawn_def)
    next
      case (Some child)
      obtain disk2 bound where bind: "bind_service_process codec (so_ports os 1) (pl_lease_id ?lease) child disk
          = (disk2, bound)"
        by fastforce
      show thesis
      proof (cases bound)
        case (Inl e)
        then show thesis
          using start owner reserved False spawned Some bind
          by (intro unbound [of "SvPort e" child disk2 _ spawned])
            (auto simp: start_service_def Let_def prepare_service_spawn_def
              split: prod.splits)
      next
        case (Inr l)
        then show thesis
          using start owner reserved False spawned Some bind
          by (intro watched [of spawned child disk2 l])
            (auto simp: start_service_def Let_def prepare_service_spawn_def)
      qed
    qed
  qed
qed

lemma rbind_pair_Inr: "rbind m f = Inr b \<Longrightarrow> \<exists>x y. m = Inr (x, y) \<and> f (x, y) = Inr b"
  by (auto simp: rbind_Inr_iff)

lemma parsed_address:
  assumes "health_parse resolve template port = Inr endpoint"
  shows "he_address endpoint = (ipv4_localhost, port)"
proof -
  obtain rest where rest: "(let (authority, path) = (case str_split_once CHR ''/'' rest of
              None \<Rightarrow> (rest, ''/'') | Some (authority, path) \<Rightarrow> (authority, path)) in
        rbind (ok_or InvalidHealthEndpoint (rsplit_once CHR '':'' authority)) (\<lambda>(host, parsed_port).
        if parse_u16 parsed_port \<noteq> Some port \<or> host \<notin> {''127.0.0.1'', ''localhost''}
        then Inl InvalidHealthEndpoint
        else
          rbind (ok_or SvIo (resolve host)) (\<lambda>addresses.
          rbind (ok_or InvalidHealthEndpoint (List.find (\<lambda>ip. ip = ipv4_localhost) addresses)) (\<lambda>ip.
            Inr \<lparr>he_address = (ip, port), he_authority = authority, he_path = ''/'' @ path\<rparr>))))
      = Inr endpoint"
    using assms by (auto simp only: health_parse_def Let_def rbind_Inr_iff split: if_splits)
  obtain authority path where
    "(case str_split_once CHR ''/'' rest of
        None \<Rightarrow> (rest, ''/'') | Some (authority, path) \<Rightarrow> (authority, path)) = (authority, path)"
    by fastforce
  note step = rest [unfolded this Let_def prod.case]
  obtain host parsed_port where "(if parse_u16 parsed_port \<noteq> Some port \<or> host \<notin> {''127.0.0.1'', ''localhost''}
        then Inl InvalidHealthEndpoint
        else
          rbind (ok_or SvIo (resolve host)) (\<lambda>addresses.
          rbind (ok_or InvalidHealthEndpoint (List.find (\<lambda>ip. ip = ipv4_localhost) addresses)) (\<lambda>ip.
            Inr \<lparr>he_address = (ip, port), he_authority = authority, he_path = ''/'' @ path\<rparr>))) = Inr endpoint"
    using rbind_pair_Inr [OF step] unfolding prod.case by blast
  then show ?thesis
    by (auto simp: rbind_Inr_iff ok_or_Inr_iff find_Some_iff split: if_splits)
qed

text \<open>A lease of the registry that stands for a managed service.\<close>

definition leased_as ::
  "registry_codec \<Rightarrow> registry_disk \<Rightarrow> port_lease_owner \<Rightarrow> string \<Rightarrow> managed_service \<Rightarrow> bool" where
  "leased_as codec disk owner request managed \<longleftrightarrow>
     (\<exists>ls l. holds_leases codec disk ls \<and> distinct (map pl_port ls) \<and> l \<in> set ls
        \<and> lease_key l = lease_key (mv_lease managed) \<and> owned_by owner request l
        \<and> (\<forall>child. mv_child managed = Some child \<longrightarrow> pl_service_pid l = Some child))"

lemma owned_key: "lease_key l = lease_key l' \<Longrightarrow> owned_by owner request l = owned_by owner request l'"
  by (simp add: lease_key_def owned_by_def)

lemma bound_lease:
  assumes "registry_codec_ok codec" and "holds_leases codec disk ls" and "leases_ok allocator ls"
    and "lease_key lease \<in> lease_key ` set ls" and "owned_by owner request lease"
    and bind: "bind_service_process codec env (pl_lease_id lease) child disk = (disk', Inr l)"
    and managed: "mv_lease managed = lease" "mv_child managed = Some child"
  shows "leased_as codec disk' owner request managed"
proof -
  obtain ls' where ls': "holds_leases codec disk' ls'" "map lease_key ls' = map lease_key ls"
      and l: "l \<in> set ls'" "pl_lease_id l = pl_lease_id lease" "pl_service_pid l = Some child"
      and ids: "distinct (map pl_lease_id ls)"
    using bind_effect [OF assms(1,2) bind] by blast
  have "map fst (map lease_key ls') = map fst (map lease_key ls)"
    using ls'(2) by simp
  then have "map pl_lease_id ls' = map pl_lease_id ls"
    by (simp add: comp_def lease_key_def)
  then have "inj_on pl_lease_id (set ls')"
    using ids by (metis distinct_map)
  moreover obtain a where "a \<in> set ls'" "lease_key a = lease_key lease"
    using assms(4) ls'(2) by (metis (no_types, lifting) imageE list.set_map)
  ultimately have key: "lease_key l = lease_key lease"
    using l(1,2) by (auto simp: inj_on_def lease_key_def)
  have "leases_ok allocator ls'"
    using keys_cong [OF ls'(2)] assms(3) by blast
  then have "distinct (map pl_port ls')"
    by (simp add: leases_ok_def)
  then show ?thesis
    using ls'(1) l key owned_key [OF key] assms(5) managed unfolding leased_as_def
    by (intro exI [of _ ls'] exI [of _ l]) simp
qed



end
