(* ===== verification/Services_Sample.thy ===== *)
theory Services_Sample
  imports Services_Run
begin

text \<open>A service that is started, and one whose process cannot be spawned, on a concrete registry.\<close>

definition web_request :: string where
  "web_request = ''service-'' @ replicate 64 CHR ''0''"

definition web_lease :: "u32 option \<Rightarrow> port_lease" where
  "web_lease pid = \<lparr>pl_schema_version = 1, pl_lease_id = replicate 64 CHR ''0'',
     pl_request_id = web_request, pl_mission_id = ''m'', pl_run_id = ''r'', pl_service_id = ''web'',
     pl_port = 1, pl_owner_pid = 7, pl_service_pid = pid, pl_acquired_at_millis = 5\<rparr>"

definition web_registry :: "port_lease list \<Rightarrow> port_registry_file" where
  "web_registry leases = \<lparr>rg_schema_version = 1, rg_leases = leases\<rparr>"

definition web_codec :: registry_codec where
  "web_codec = \<lparr>rc_to_json = \<lambda>r.
       if r = web_registry [web_lease None] then Some [49]
       else if r = web_registry [web_lease (Some 9)] then Some [50]
       else if r = web_registry [] then Some [51] else None,
     rc_from_json = \<lambda>s.
       if s = ''1'' then Some (web_registry [web_lease None])
       else if s = ''2'' then Some (web_registry [web_lease (Some 9)]) else Some (web_registry [])\<rparr>"

definition web_poll :: service_poll where
  "web_poll = \<lparr>sp_try_wait = Inr None, sp_alive = \<lambda>_. True,
     sp_net = \<lambda>_ _. \<lparr>pb_connected = True, pb_timeouts_set = True, pb_written = True,
       pb_response = Some (bytes_of ''HTTP/1.1 200'')\<rparr>,
     sp_deadline = False\<rparr>"

definition web_os :: "u32 option \<Rightarrow> service_os" where
  "web_os child = \<lparr>so_ports = \<lambda>_. toy_env, so_spawn = \<lambda>_. child, so_resolve = localhost_only,
     so_polls = \<lambda>_. web_poll, so_child_ended = Inr False, so_alive_first = \<lambda>_. True,
     so_alive_last = \<lambda>_. False\<rparr>"

definition idle_world :: service_world where
  "idle_world = \<lparr>sw_disk = None, sw_effects = []\<rparr>"

lemma web_texts: "from_utf8 [49] = Some ''1''" "from_utf8 [50] = Some ''2''" "from_utf8 [51] = Some ''3''"
  by code_simp+

lemma web_codec_ok: "registry_codec_ok web_codec"
  by (auto simp: registry_codec_ok_def web_codec_def web_texts split: if_splits)

lemma web_request_id: "service_request_id ports_toy_hash ''m'' ''r'' ''web'' = web_request"
  by code_simp

lemma web_owner_new: "owner_new ''m'' ''r'' ''web'' = Inr web_owner"
  by code_simp

lemma web_reserve:
  "reserve web_codec ports_toy_hash two_ports toy_env web_owner web_request 5 None
     = (Some [49], Inr \<lparr>rv_lease = web_lease None, rv_listener = True\<rparr>)"
  by code_simp

lemma web_load: "load_registry web_codec toy_env (Some [49]) = Inr (web_registry [web_lease None])"
proof -
  have "leases_valid [] [] [web_lease None]" "pl_schema_version (web_lease None) = registry_schema_v1"
      "(1 :: u16) = registry_schema_v1"
    by code_simp+
  then show ?thesis
    by (simp add: load_registry_def web_texts max_registry_bytes_def)
      (simp add: web_codec_def toy_env_def web_registry_def)
qed

lemma web_lease_update: "(web_lease None)\<lparr>pl_service_pid := Some 9\<rparr> = web_lease (Some 9)"
  by (simp add: web_lease_def)

lemma web_locked: "registry_lock toy_env = Inr ()" "pv_pid toy_env = 7" "pv_writable toy_env"
  by (simp_all add: registry_lock_def toy_env_def)

lemma web_distinct: "web_lease None \<noteq> web_lease (Some 9)"
  by (simp add: web_lease_def)

lemma web_bind:
  "bind_service_process web_codec toy_env (pl_lease_id (web_lease None)) 9 (Some [49])
     = (Some [50], Inr (web_lease (Some 9)))"
proof -
  have "rc_to_json web_codec (web_registry [web_lease (Some 9)]) = Some [50]"
    using web_distinct by (simp add: web_codec_def web_registry_def)
  then have "saving web_codec toy_env (web_registry [web_lease (Some 9)]) (Some [49]) (web_lease (Some 9))
      = (Some [50], Inr (web_lease (Some 9)))"
    by (simp add: saving_def save_registry_def web_locked)
  moreover have "pl_owner_pid (web_lease None) = 7"
    by (simp add: web_lease_def)
  ultimately show ?thesis
    by (simp add: bind_service_process_def with_registry_def web_locked web_load web_lease_update)
      (simp add: web_registry_def web_lease_update web_locked Let_def)
qed

lemma web_release:
  "release_port web_codec toy_env (web_lease None) (Some [49]) = (Some [51], Inr True)"
proof -
  have "rc_to_json web_codec (web_registry []) = Some [51]"
    by (simp add: web_codec_def web_registry_def)
  then have "saving web_codec toy_env (web_registry []) (Some [49]) True = (Some [51], Inr True)"
    by (simp add: saving_def save_registry_def web_locked)
  then show ?thesis
    by (simp add: release_port_def with_registry_def web_locked web_load)
      (simp add: web_registry_def same_lease_def)
qed

definition web_endpoint :: health_endpoint where
  "web_endpoint = \<lparr>he_address = (ipv4_localhost, 1), he_authority = ''127.0.0.1:1'', he_path = ''/ok''\<rparr>"

lemma web_parse: "health_parse localhost_only (svc_health sample_service) 1 = Inr web_endpoint"
proof -
  have "\<nexists>a b. ''/ok'' = a @ ''{port}'' @ b"
    using matches_none [of "''{port}''" "''/ok''"] by (simp add: starts_with_def)
  moreover have "\<not> has_space_or_control (''http://'' @ ''127.0.0.1'' @ '':{port}'' @ ''/ok'')"
    by (simp add: validate_steps)
  moreover have "loopback_resolver localhost_only"
    by (simp add: loopback_resolver_def localhost_only_def)
  moreover have "u16_string 1 = ''1''"
    by (simp add: u16_string_def decimal.simps)
  ultimately show ?thesis
    using parse_accepted_template [of "''127.0.0.1''" "''/ok''" localhost_only 1]
    by (simp add: sample_service_def web_endpoint_def)
qed

lemma web_probe: "probe (sp_net web_poll) web_endpoint = Inr True"
  by code_simp

definition web_managed :: managed_service where
  "web_managed = \<lparr>mv_child = Some 9, mv_lease = web_lease None, mv_stop_on_drop = True\<rparr>"

definition web_spawned :: service_command where
  "web_spawned = \<lparr>sm_program = ''run'', sm_args = [], sm_cwd = [''wt''], sm_env = (''PORT'', ''1'')\<rparr>"

lemma web_command: "service_command_of sample_service [''wt''] (pl_port (web_lease None)) = Inr web_spawned"
  by code_simp

lemma web_start:
  "start_service web_codec ports_toy_hash two_ports (web_os (Some 9)) ''web'' sample_service [''wt''] ''m'' ''r'' 5
       idle_world
     = Some (\<lparr>sw_disk = Some [50], sw_effects = [Spawned web_spawned 9]\<rparr>, Inr web_managed)"
proof -
  have "wait_loop_healthy web_endpoint web_managed ''web'' timeout (\<lambda>_. web_poll) 0 = Some (Inr ())" for timeout
  proof -
    have "mv_child web_managed = Some 9" "sp_try_wait web_poll = Inr None"
      by (simp_all add: web_managed_def web_poll_def)
    then show ?thesis
      by (subst wait_loop_healthy.simps) (simp add: web_probe Let_def)
  qed
  moreover have "pl_port (web_lease None) = 1"
    by (simp add: web_lease_def)
  ultimately have "wait_until_healthy (web_os (Some 9)) ''web'' sample_service web_managed = Some (Inr ())"
    by (simp add: wait_until_healthy_def) (simp add: web_os_def web_managed_def web_parse)
  then have "watch web_codec (web_os (Some 9)) env ''web'' sample_service web_managed w = Some (w, Inr web_managed)"
    for env w
    by (simp add: watch_def)
  moreover have "so_ports (web_os (Some 9)) k = toy_env" "so_spawn (web_os (Some 9)) c = Some 9" for k c
    by (simp_all add: web_os_def)
  ultimately show ?thesis
    by (simp add: start_service_def web_owner_new web_request_id idle_world_def web_reserve is_adopted_def
        prepare_service_spawn_def web_command web_bind Let_def flip: web_managed_def)
qed

lemma web_unspawned:
  "start_service web_codec ports_toy_hash two_ports (web_os None) ''web'' sample_service [''wt''] ''m'' ''r'' 5
       idle_world
     = Some (\<lparr>sw_disk = Some [51], sw_effects = []\<rparr>, Inl (SpawnError ''web''))"
proof -
  have "so_ports (web_os None) k = toy_env" "so_spawn (web_os None) c = None" for k c
    by (simp_all add: web_os_def)
  then show ?thesis
    by (simp add: start_service_def web_owner_new web_request_id idle_world_def web_reserve is_adopted_def
        prepare_service_spawn_def web_command release_lease_def web_release Let_def)
qed

lemma idle_registry: "holds_leases web_codec (sw_disk idle_world) []" "leases_ok two_ports []"
  by (simp_all add: holds_leases_def leases_ok_def idle_world_def)

lemma sample_argv: "svc_command sample_service = ''run'' # []"
  by (simp add: sample_service_def)



end
