(* ===== verification/Cleanup.thy ===== *)
theory Cleanup
  imports Ports_Props
begin

text \<open>
  \<open>src/resources/cleanup.rs\<close>: orphaned port leases are removed in two steps, a preview that the
  caller inspects and its application, which removes only what was shown and still is orphaned.
\<close>

section \<open>Preview and application\<close>

record cleanup_port_lease =
  cu_lease_id :: string
  cu_mission_id :: string
  cu_run_id :: string
  cu_service_id :: string
  cu_port :: u16
  cu_acquired_at_millis :: u64

record cleanup_preview =
  cp_schema_version :: u16
  cp_digest :: string
  cp_registry_bytes :: u64
  cp_orphaned_ports :: "cleanup_port_lease list"

datatype cleanup_error = PreviewMismatch | CuPort port_allocator_error

definition cleanup_lease_of :: "port_lease \<Rightarrow> cleanup_port_lease" where
  "cleanup_lease_of lease =
     \<lparr>cu_lease_id = pl_lease_id lease, cu_mission_id = pl_mission_id lease, cu_run_id = pl_run_id lease,
      cu_service_id = pl_service_id lease, cu_port = pl_port lease,
      cu_acquired_at_millis = pl_acquired_at_millis lease\<rparr>"

definition lease_bytes :: "cleanup_port_lease \<Rightarrow> u8 list" where
  "lease_bytes lease =
     concat (map (\<lambda>value. be_bytes 8 (length value) @ bytes_of value)
       [cu_lease_id lease, cu_mission_id lease, cu_run_id lease, cu_service_id lease])
     @ be_bytes 2 (unat (cu_port lease)) @ be_bytes 8 (unat (cu_acquired_at_millis lease))"

definition preview_input :: "cleanup_port_lease list \<Rightarrow> u64 \<Rightarrow> u8 list" where
  "preview_input leases byte_count =
     bytes_of ''nagi-resource-cleanup-preview-v1'' @ be_bytes 8 (unat byte_count)
     @ concat (map lease_bytes leases)"

definition preview_digest :: "sha256 \<Rightarrow> cleanup_port_lease list \<Rightarrow> u64 \<Rightarrow> string" where
  "preview_digest sha leases byte_count = hex_encode (sha (preview_input leases byte_count))"

text \<open>The file may change between listing the orphans and measuring it: each has its own disk.\<close>

definition cleanup_preview_of ::
  "registry_codec \<Rightarrow> sha256 \<Rightarrow> ports_env \<Rightarrow> registry_disk \<Rightarrow> registry_disk
     \<Rightarrow> cleanup_error + cleanup_preview" where
  "cleanup_preview_of codec sha env disk later =
     rbind (map_err CuPort (snd (orphaned codec env disk))) (\<lambda>orphans.
     let leases = sort_key cu_lease_id (map cleanup_lease_of orphans) in
     rbind (map_err CuPort (registry_bytes env later)) (\<lambda>bytes.
       Inr \<lparr>cp_schema_version = 1, cp_digest = preview_digest sha leases bytes,
         cp_registry_bytes = bytes, cp_orphaned_ports = leases\<rparr>))"

definition cleanup_apply ::
  "registry_codec \<Rightarrow> sha256 \<Rightarrow> ports_env \<Rightarrow> cleanup_preview \<Rightarrow> registry_disk
     \<Rightarrow> registry_disk \<times> (cleanup_error + cleanup_port_lease list)" where
  "cleanup_apply codec sha env inspected disk =
     (if cp_schema_version inspected \<noteq> 1
         \<or> cp_digest inspected \<noteq> preview_digest sha (cp_orphaned_ports inspected) (cp_registry_bytes inspected)
      then (disk, Inl PreviewMismatch)
      else
        let ids = bs_collect (map cu_lease_id (cp_orphaned_ports inspected)) in
        case cleanup_orphaned codec env ids disk of
          (disk, Inl e) \<Rightarrow> (disk, Inl (CuPort e))
        | (disk, Inr removed) \<Rightarrow> (disk, Inr (sort_key cu_lease_id (map cleanup_lease_of removed))))"

section \<open>The digest fixes what was inspected\<close>

definition lease_small :: "cleanup_port_lease \<Rightarrow> bool" where
  "lease_small lease \<longleftrightarrow> (\<forall>value \<in> {cu_lease_id lease, cu_mission_id lease, cu_run_id lease, cu_service_id lease}.
     length value < 2 ^ 64)"

lemma framed_text:
  assumes "length s < 2 ^ 64" and "length t < 2 ^ 64"
    and "be_bytes 8 (length s) @ bytes_of s @ xs = be_bytes 8 (length t) @ bytes_of t @ ys"
  shows "s = t \<and> xs = ys"
  using frame_append_inject [of "bytes_of s" "bytes_of t" xs ys] assms by (simp add: frame_def)

lemma be_bytes_u16_inject: "be_bytes 2 (unat a) = be_bytes 2 (unat b) \<longleftrightarrow> a = (b :: u16)"
proof -
  have "unat w < 256 ^ 2" for w :: u16
    using unsigned_less [of w, where ?'a = nat] by simp
  then show ?thesis
    by (metis be_bytes_inject word_unat_eq_iff)
qed

lemma lease_bytes_inject:
  assumes "lease_small a" and "lease_small b" and "lease_bytes a @ xs = lease_bytes b @ ys"
  shows "a = b \<and> xs = ys"
proof -
  let ?tail = "\<lambda>l zs. be_bytes 2 (unat (cu_port l)) @ be_bytes 8 (unat (cu_acquired_at_millis l)) @ zs"
  have small: "length (cu_lease_id l) < 2 ^ 64" "length (cu_mission_id l) < 2 ^ 64"
      "length (cu_run_id l) < 2 ^ 64" "length (cu_service_id l) < 2 ^ 64" if "lease_small l" for l
    using that by (auto simp: lease_small_def)
  note s = small [OF assms(1)] small [OF assms(2)]
  have split: "lease_bytes l @ zs = be_bytes 8 (length (cu_lease_id l)) @ bytes_of (cu_lease_id l)
      @ be_bytes 8 (length (cu_mission_id l)) @ bytes_of (cu_mission_id l)
      @ be_bytes 8 (length (cu_run_id l)) @ bytes_of (cu_run_id l)
      @ be_bytes 8 (length (cu_service_id l)) @ bytes_of (cu_service_id l) @ ?tail l zs" for l zs
    by (simp add: lease_bytes_def)
  note one = framed_text [OF s(1) s(5) assms(3) [unfolded split]]
  note two = framed_text [OF s(2) s(6) conjunct2 [OF one]]
  note three = framed_text [OF s(3) s(7) conjunct2 [OF two]]
  note four = framed_text [OF s(4) s(8) conjunct2 [OF three]]
  have "be_bytes 2 (unat (cu_port a)) = be_bytes 2 (unat (cu_port b))"
      "be_bytes 8 (unat (cu_acquired_at_millis a)) = be_bytes 8 (unat (cu_acquired_at_millis b))" "xs = ys"
    using conjunct2 [OF four] by (simp_all add: append_eq_append_conv)
  then have "cu_port a = cu_port b" "cu_acquired_at_millis a = cu_acquired_at_millis b" "xs = ys"
    by (simp_all only: be_bytes_u16_inject be_bytes_u64_inject)
  then show ?thesis
    using one two three four by (intro conjI cleanup_port_lease.equality) simp_all
qed

lemma lease_bytes_not_empty: "lease_bytes l \<noteq> []"
proof -
  have "length (lease_bytes l) \<ge> 2"
    by (simp add: lease_bytes_def)
  then show ?thesis
    by auto
qed

lemma leases_inject:
  assumes "concat (map lease_bytes as) = concat (map lease_bytes bs)"
    and "\<forall>l \<in> set as. lease_small l" and "\<forall>l \<in> set bs. lease_small l"
  shows "as = bs"
  using assms
proof (induction as arbitrary: bs)
  case Nil
  then show ?case
    using lease_bytes_not_empty by (cases bs) auto
next
  case (Cons a as)
  obtain b bs' where bs: "bs = b # bs'"
    using Cons.prems(1) lease_bytes_not_empty by (cases bs) auto
  then have "a = b \<and> concat (map lease_bytes as) = concat (map lease_bytes bs')"
    using lease_bytes_inject [of a b] Cons.prems by simp
  then show ?case
    using Cons.IH [of bs'] Cons.prems bs by simp
qed

lemma preview_input_inject:
  assumes "preview_input as m = preview_input bs n"
    and "\<forall>l \<in> set as. lease_small l" and "\<forall>l \<in> set bs. lease_small l"
  shows "as = bs \<and> m = n"
proof -
  have "be_bytes 8 (unat m) = be_bytes 8 (unat n)" "concat (map lease_bytes as) = concat (map lease_bytes bs)"
    using assms(1) by (simp_all add: preview_input_def append_eq_append_conv)
  then show ?thesis
    using leases_inject assms(2,3) by (simp add: be_bytes_u64_inject)
qed

text \<open>
  C30: applying an inspected preview removes exactly the leases that it shows and whose processes are
  dead when it is applied, and reports them; every other lease stays as it is. What it shows is
  what the preview with its digest showed, unless SHA-256 collides.
\<close>

theorem cleanup_removes_inspected_orphans:
  assumes "registry_codec_ok codec" and "holds_leases codec disk ls"
    and run: "cleanup_apply codec sha env inspected disk = (disk', Inr removed)"
    and digest: "cp_digest inspected = preview_digest sha shown bytes"
    and small: "\<forall>l \<in> set shown \<union> set (cp_orphaned_ports inspected). lease_small l"
    and no_collision: "inj_on sha {preview_input shown bytes,
      preview_input (cp_orphaned_ports inspected) (cp_registry_bytes inspected)}"
  shows "cp_orphaned_ports inspected = shown
    \<and> (\<exists>gone. (\<forall>l. gone l \<longleftrightarrow> is_orphan env l \<and> pl_lease_id l \<in> cu_lease_id ` set shown)
        \<and> holds_leases codec disk' (filter (\<lambda>l. \<not> gone l) ls)
        \<and> removed = sort_key cu_lease_id (map cleanup_lease_of (filter gone ls)))"
proof -
  let ?shown = "cp_orphaned_ports inspected"
  let ?ids = "bs_collect (map cu_lease_id ?shown)"
  let ?gone = "\<lambda>l. is_orphan env l \<and> pl_lease_id l \<in> set ?ids"
  have accepted: "cp_digest inspected = preview_digest sha ?shown (cp_registry_bytes inspected)"
    using run by (auto simp: cleanup_apply_def split: if_splits)
  then have "sha (preview_input shown bytes) = sha (preview_input ?shown (cp_registry_bytes inspected))"
    using digest by (simp add: preview_digest_def hex_encode_inject)
  then have "preview_input ?shown (cp_registry_bytes inspected) = preview_input shown bytes"
    using inj_onD [OF no_collision] by (metis insertI1 insertI2)
  then have same: "?shown = shown"
    using preview_input_inject small by blast
  obtain leases where cleaned: "cleanup_orphaned codec env ?ids disk = (disk', Inr leases)"
    and removed: "removed = sort_key cu_lease_id (map cleanup_lease_of leases)"
    using run by (auto simp: cleanup_apply_def Let_def split: if_splits prod.splits sum.splits)
  obtain registry where registry: "rg_leases registry = ls"
    and body: "(if filter ?gone ls = [] then (disk, Inr (filter ?gone ls))
       else saving codec env (registry\<lparr>rg_leases := filter (\<lambda>l. \<not> ?gone l) ls\<rparr>) disk (filter ?gone ls))
      = (disk', Inr leases)"
    using with_registry_cases [OF assms(1,2) cleaned [unfolded cleanup_orphaned_def Let_def]] by auto
  have "holds_leases codec disk' (filter (\<lambda>l. \<not> ?gone l) ls) \<and> leases = filter ?gone ls"
  proof (cases "filter ?gone ls = []")
    case True
    then have "filter (\<lambda>l. \<not> ?gone l) ls = ls"
      by (metis (mono_tags, lifting) filter_False filter_True filter_empty_conv)
    then show ?thesis
      using True body assms(2) by simp
  next
    case False
    then have "saving codec env (registry\<lparr>rg_leases := filter (\<lambda>l. \<not> ?gone l) ls\<rparr>) disk (filter ?gone ls)
        = (disk', Inr leases)"
      using body by (simp only: if_False)
    then show ?thesis
      using saving_cases [OF _ assms(2)] by fastforce
  qed
  then show ?thesis
    using same removed by (intro conjI exI [of _ ?gone]) auto
qed

section \<open>One orphan removed\<close>

definition no_leases :: port_registry_file where
  "no_leases = \<lparr>rg_schema_version = 1, rg_leases = []\<rparr>"

definition sweep_codec :: registry_codec where
  "sweep_codec = \<lparr>rc_to_json = \<lambda>r. if r = one_lease then Some [49] else if r = no_leases then Some [48] else None,
     rc_from_json = \<lambda>s. if s = ''1'' then Some one_lease else Some no_leases\<rparr>"

definition dead_env :: ports_env where
  "dead_env = toy_env\<lparr>pv_alive := \<lambda>_. False\<rparr>"

definition orphan_shown :: "cleanup_port_lease list" where
  "orphan_shown = [cleanup_lease_of (toy_lease ''a'' 1)]"

definition orphan_preview :: cleanup_preview where
  "orphan_preview = \<lparr>cp_schema_version = 1, cp_digest = preview_digest ports_toy_hash orphan_shown 1,
     cp_registry_bytes = 1, cp_orphaned_ports = orphan_shown\<rparr>"

lemma sweep_codec_ok: "registry_codec_ok sweep_codec"
proof -
  have "from_utf8 [48] = Some ''0''"
    by code_simp
  then show ?thesis
    by (auto simp: registry_codec_ok_def sweep_codec_def ports_toy_texts split: if_splits)
qed

lemma sweep_holds: "holds_leases sweep_codec (Some [49]) [toy_lease ''a'' 1]"
  unfolding holds_leases_def
  by (intro disjI2 exI [of _ "[49]"] exI [of _ one_lease]) (simp add: sweep_codec_def one_lease_def)

lemma sweep_load: "load_registry sweep_codec dead_env (Some [49]) = Inr one_lease"
proof -
  have "leases_valid [] [] (rg_leases one_lease)" "rg_schema_version one_lease = registry_schema_v1"
      "\<not> list_ex (\<lambda>lease. pl_schema_version lease \<noteq> registry_schema_v1) (rg_leases one_lease)"
    by code_simp+
  then show ?thesis
    by (simp add: load_registry_def ports_toy_texts max_registry_bytes_def) (simp add: sweep_codec_def toy_env_def dead_env_def)
qed

lemma sweep_parts:
  "registry_lock dead_env = Inr ()" "is_orphan dead_env (toy_lease ''a'' 1)"
  "bs_collect (map cu_lease_id orphan_shown) = [replicate 64 CHR ''0'']"
  "pl_lease_id (toy_lease ''a'' 1) = replicate 64 CHR ''0''"
  "rg_leases one_lease = [toy_lease ''a'' 1]" "one_lease\<lparr>rg_leases := []\<rparr> = no_leases"
  "no_leases \<noteq> one_lease"
  by (simp_all add: one_lease_def no_leases_def toy_lease_def dead_env_def toy_env_def is_orphan_def
      registry_lock_def orphan_shown_def cleanup_lease_of_def bs_collect_def bs_extend_def)

lemma sweep_cleaned:
  "cleanup_orphaned sweep_codec dead_env (bs_collect (map cu_lease_id orphan_shown)) (Some [49])
     = (Some [48], Inr [toy_lease ''a'' 1])"
  unfolding cleanup_orphaned_def with_registry_def sweep_parts(1) rbind.simps sweep_load
  by (simp add: sweep_parts Let_def saving_def save_registry_def)
    (simp add: sweep_codec_def sweep_parts(7) dead_env_def toy_env_def)

lemma sweep_applied:
  "cleanup_apply sweep_codec ports_toy_hash dead_env orphan_preview (Some [49]) = (Some [48], Inr orphan_shown)"
  unfolding cleanup_apply_def Let_def
  by (simp only: sweep_cleaned orphan_preview_def cleanup_preview.simps)
    (simp add: orphan_shown_def)

theorem cleanup_removes_inspected_orphans_witness:
  "holds_leases sweep_codec (Some [48]) []"
proof -
  have small: "\<forall>l \<in> set orphan_shown \<union> set (cp_orphaned_ports orphan_preview). lease_small l"
    by (simp add: orphan_preview_def orphan_shown_def lease_small_def cleanup_lease_of_def toy_lease_def)
  have fields: "cp_digest orphan_preview = preview_digest ports_toy_hash orphan_shown 1"
    "cp_orphaned_ports orphan_preview = orphan_shown" "cp_registry_bytes orphan_preview = 1"
    by (simp_all add: orphan_preview_def)
  then have "inj_on ports_toy_hash {preview_input orphan_shown 1,
      preview_input (cp_orphaned_ports orphan_preview) (cp_registry_bytes orphan_preview)}"
    by simp
  note applied = cleanup_removes_inspected_orphans
    [OF sweep_codec_ok sweep_holds sweep_applied fields(1) small this, THEN conjunct2]
  then obtain gone where "gone (toy_lease ''a'' 1)"
      and "holds_leases sweep_codec (Some [48]) (filter (\<lambda>l. \<not> gone l) [toy_lease ''a'' 1])"
    using sweep_parts(2) by (elim exE conjE) (simp add: orphan_shown_def cleanup_lease_of_def)
  then show ?thesis
    by simp
qed

end
