(* ===== verification/Detect_Agent.thy ===== *)
theory Detect_Agent
  imports Rust_Str
begin

text \<open>
  \<open>src/detect/mod.rs\<close>: the agents Nagi knows, their names, and which of them a foreground job of a
  terminal runs. Lower case of all of Unicode (\<open>to_lowercase\<close>) is a parameter, and so is the file
  name of a path with its links resolved.
\<close>

section \<open>Text\<close>

type_synonym lower = "string \<Rightarrow> string"

definition str_trim_start :: "string \<Rightarrow> string" where
  "str_trim_start s = concat (dropWhile whitespace_piece (utf8_split s))"

definition trim_matches :: "char list \<Rightarrow> string \<Rightarrow> string" where
  "trim_matches cs s = rev (dropWhile (\<lambda>c. c \<in> set cs) (rev (dropWhile (\<lambda>c. c \<in> set cs) s)))"

definition to_next_whitespace :: "string \<Rightarrow> string \<times> string" where
  "to_next_whitespace s =
     (concat (takeWhile (Not \<circ> whitespace_piece) (utf8_split s)),
      concat (dropWhile (Not \<circ> whitespace_piece) (utf8_split s)))"

definition double_quote :: char where "double_quote = CHR 0x22"
definition single_quote_char :: char where "single_quote_char = CHR 0x27"
definition backslash_char :: char where "backslash_char = CHR 0x5C"

text \<open>Splitting at either path separator.\<close>

fun split_any :: "char list \<Rightarrow> string \<Rightarrow> string list" where
  "split_any ds [] = [[]]"
| "split_any ds (c # s) =
     (if c \<in> set ds then [] # split_any ds s
      else case split_any ds s of [] \<Rightarrow> [[c]] | w # ws \<Rightarrow> (c # w) # ws)"

definition path_separators :: "char list" where
  "path_separators = [CHR ''/'', backslash_char]"

text \<open>Printable ASCII text without blanks is left as it is by \<open>trim\<close>.\<close>

definition plain_text :: "string \<Rightarrow> bool" where
  "plain_text s \<longleftrightarrow> list_all (\<lambda>c. 32 < ascii_code c \<and> ascii_code c < 127) s"

lemma str_trim_plain: "plain_text s \<Longrightarrow> str_trim s = s"
proof -
  assume plain: "plain_text s"
  then have ascii: "is_ascii s"
    by (auto simp: plain_text_def is_ascii_def list_all_iff)
  have keep: "dropWhile (\<lambda>c. is_whitespace (ascii_code c)) t = t" if "set t \<subseteq> set s" for t
    using that plain by (cases t) (auto simp: plain_text_def list_all_iff is_whitespace_def)
  show ?thesis
    unfolding str_trim_ascii [OF ascii] using keep [of s] keep [of "rev s"] by simp
qed

section \<open>Agents and their names\<close>

datatype agent_state = AgentIdle | AgentWorking | AgentBlocked | AgentUnknown

record agent_detection =
  ad_state :: agent_state
  ad_skip_state_update :: bool
  ad_visible_idle :: bool
  ad_visible_blocker :: bool
  ad_visible_working :: bool

datatype agent =
    AgPi | AgClaude | AgCodex | AgGemini | AgCursor | AgDevin | AgAntigravity | AgCline | AgOmp
  | AgMastracode | AgOpenCode | AgGithubCopilot | AgKimi | AgKiro | AgDroid | AgAmp | AgGrok
  | AgHermes | AgKilo | AgQodercli | AgMaki

definition screen_manifest_agents :: "agent list" where
  "screen_manifest_agents =
     [AgPi, AgClaude, AgCodex, AgGemini, AgCursor, AgDevin, AgAntigravity, AgCline, AgOpenCode,
      AgGithubCopilot, AgKimi, AgKiro, AgDroid, AgAmp, AgGrok, AgHermes, AgKilo, AgQodercli, AgMaki]"

fun agent_label :: "agent \<Rightarrow> string" where
  "agent_label AgPi = ''pi''"
| "agent_label AgClaude = ''claude''"
| "agent_label AgCodex = ''codex''"
| "agent_label AgGemini = ''gemini''"
| "agent_label AgCursor = ''cursor''"
| "agent_label AgDevin = ''devin''"
| "agent_label AgAntigravity = ''agy''"
| "agent_label AgCline = ''cline''"
| "agent_label AgOmp = ''omp''"
| "agent_label AgMastracode = ''mastracode''"
| "agent_label AgOpenCode = ''opencode''"
| "agent_label AgGithubCopilot = ''copilot''"
| "agent_label AgKimi = ''kimi''"
| "agent_label AgKiro = ''kiro''"
| "agent_label AgDroid = ''droid''"
| "agent_label AgAmp = ''amp''"
| "agent_label AgGrok = ''grok''"
| "agent_label AgHermes = ''hermes''"
| "agent_label AgKilo = ''kilo''"
| "agent_label AgQodercli = ''qodercli''"
| "agent_label AgMaki = ''maki''"

definition agent_names :: "(string \<times> agent) list" where
  "agent_names =
     [(''pi'', AgPi), (''claude'', AgClaude), (''claude-code'', AgClaude), (''codex'', AgCodex),
      (''gemini'', AgGemini), (''cursor'', AgCursor), (''cursor-agent'', AgCursor),
      (''devin'', AgDevin), (''devin-cli'', AgDevin), (''devin cli'', AgDevin),
      (''agy'', AgAntigravity), (''antigravity'', AgAntigravity), (''antigravity-cli'', AgAntigravity),
      (''cline'', AgCline), (''omp'', AgOmp),
      (''mastracode'', AgMastracode), (''mastra-code'', AgMastracode), (''mastra code'', AgMastracode),
      (''opencode'', AgOpenCode), (''open-code'', AgOpenCode),
      (''copilot'', AgGithubCopilot), (''github-copilot'', AgGithubCopilot), (''ghcs'', AgGithubCopilot),
      (''kimi'', AgKimi), (''kimi-code'', AgKimi), (''kimi code'', AgKimi),
      (''kiro'', AgKiro), (''kiro-cli'', AgKiro), (''droid'', AgDroid),
      (''amp'', AgAmp), (''amp-local'', AgAmp), (''grok'', AgGrok), (''grok-build'', AgGrok),
      (''hermes'', AgHermes), (''hermes-agent'', AgHermes),
      (''kilo'', AgKilo), (''kilo-code'', AgKilo), (''kilo code'', AgKilo),
      (''qodercli'', AgQodercli), (''qoderclicn'', AgQodercli), (''qoder'', AgQodercli),
      (''qodercn'', AgQodercli), (''maki'', AgMaki)]"

definition lookup_agent :: "string \<Rightarrow> agent option" where
  "lookup_agent name = map_of agent_names name"

definition parse_canonical_agent_label :: "string \<Rightarrow> agent option" where
  "parse_canonical_agent_label label =
     (case lookup_agent label of
        None \<Rightarrow> None
      | Some agent \<Rightarrow> if agent_label agent = label then Some agent else None)"

definition program_suffixes :: "string list" where
  "program_suffixes = [''.exe'', ''.cmd'', ''.bat'', ''.ps1'', ''.js'']"

definition normalized_agent_lookup_name :: "lower \<Rightarrow> string \<Rightarrow> string" where
  "normalized_agent_lookup_name lower name =
     (let name = lower (str_trim name)
      in case List.find (\<lambda>suffix. ends_with suffix name) program_suffixes of
           None \<Rightarrow> name
         | Some suffix \<Rightarrow> take (length name - length suffix) name)"

definition parse_agent_label :: "lower \<Rightarrow> string \<Rightarrow> agent option" where
  "parse_agent_label lower label =
     (let name = normalized_agent_lookup_name lower label
      in case parse_canonical_agent_label name of Some agent \<Rightarrow> Some agent | None \<Rightarrow> lookup_agent name)"

definition identify_agent :: "lower \<Rightarrow> string \<Rightarrow> agent option" where
  "identify_agent lower process_name = parse_agent_label lower process_name"

definition full_lifecycle_hook_authority :: "string \<Rightarrow> string \<Rightarrow> bool" where
  "full_lifecycle_hook_authority source label \<longleftrightarrow>
     (source, label) \<in> set [(''nagi:pi'', ''pi''), (''nagi:omp'', ''omp''),
       (''nagi:mastracode'', ''mastracode''), (''nagi:hermes'', ''hermes''),
       (''nagi:opencode'', ''opencode''), (''nagi:kilo'', ''kilo''), (''nagi:kimi'', ''kimi'')]"

section \<open>Names in paths\<close>

definition path_basename :: "string \<Rightarrow> string" where
  "path_basename path =
     (case List.find (\<lambda>component. component \<noteq> []) (rev (split_any path_separators path)) of
        None \<Rightarrow> path | Some component \<Rightarrow> component)"

definition agent_name_from_basename :: "lower \<Rightarrow> string \<Rightarrow> string option" where
  "agent_name_from_basename lower basename = map_option agent_label (parse_agent_label lower basename)"

definition known_package_path :: "string list" where
  "known_package_path = [''node_modules'', ''@earendil-works'', ''pi-coding-agent'', ''dist'', ''cli'']"

definition agent_name_from_known_package_path :: "lower \<Rightarrow> string \<Rightarrow> string option" where
  "agent_name_from_known_package_path lower path =
     (let components = map (normalized_agent_lookup_name lower)
            (filter (\<lambda>component. component \<noteq> []) (split_any path_separators path))
      in if list_ex (\<lambda>i. take 5 (drop i components) = known_package_path) [0..<length components]
         then Some (agent_label AgPi) else None)"

text \<open>\<open>resolved\<close> is \<open>canonicalize\<close> and the file name of its result, when that is text.\<close>

definition resolved_agent_name_from_path_token ::
  "lower \<Rightarrow> (string \<Rightarrow> string option) \<Rightarrow> string \<Rightarrow> string option" where
  "resolved_agent_name_from_path_token lower resolved token =
     (if length (components token) < 2 then None
      else case resolved token of
        None \<Rightarrow> None | Some basename \<Rightarrow> agent_name_from_basename lower basename)"

fun or_else :: "'a option \<Rightarrow> 'a option \<Rightarrow> 'a option" where
  "or_else (Some a) b = Some a"
| "or_else None b = b"

definition agent_name_from_path_token ::
  "lower \<Rightarrow> (string \<Rightarrow> string option) \<Rightarrow> string \<Rightarrow> string option" where
  "agent_name_from_path_token lower resolved token =
     (let trimmed = trim_matches [double_quote, single_quote_char] token
      in if trimmed = [] \<or> starts_with ''-'' trimmed then None
         else or_else (agent_name_from_basename lower (path_basename trimmed))
                (or_else (agent_name_from_known_package_path lower trimmed)
                   (resolved_agent_name_from_path_token lower resolved trimmed)))"

definition argv0_agent_name ::
  "lower \<Rightarrow> (string \<Rightarrow> string option) \<Rightarrow> string list option \<Rightarrow> string option" where
  "argv0_agent_name lower resolved argv =
     (case argv of
        Some (first # _) \<Rightarrow> agent_name_from_path_token lower resolved first
      | _ \<Rightarrow> None)"

definition cmdline_argv0_agent_name ::
  "lower \<Rightarrow> (string \<Rightarrow> string option) \<Rightarrow> string \<Rightarrow> string option" where
  "cmdline_argv0_agent_name lower resolved cmdline =
     (let first = fst (to_next_whitespace (str_trim_start cmdline))
      in if first = [] then None else agent_name_from_path_token lower resolved first)"

section \<open>Interpreters and shells\<close>

definition short_flag_payload :: "string \<Rightarrow> string \<Rightarrow> bool" where
  "short_flag_payload arg flag \<longleftrightarrow>
     starts_with ''-'' flag \<and> \<not> starts_with ''--'' flag \<and> starts_with flag arg \<and> length arg > length flag"

definition long_flag_value :: "string \<Rightarrow> string \<Rightarrow> bool" where
  "long_flag_value arg flag \<longleftrightarrow>
     starts_with ''--'' flag \<and> starts_with flag arg \<and> starts_with ''='' (drop (length flag) arg)"

definition flag_matches :: "string \<Rightarrow> string list \<Rightarrow> bool" where
  "flag_matches arg flags \<longleftrightarrow>
     list_ex (\<lambda>flag. arg = flag \<or> short_flag_payload arg flag \<or> long_flag_value arg flag) flags"

definition option_takes_value :: "string \<Rightarrow> bool" where
  "option_takes_value arg \<longleftrightarrow>
     arg \<in> set [''-r'', ''--require'', ''--loader'', ''--import'', ''--experimental-loader'',
       ''--inspect-port'', ''-W'', ''-X'', ''-S'', ''-L'', ''-o'']"

text \<open>The arguments after the interpreter.\<close>

fun script_args_agent_name ::
  "lower \<Rightarrow> (string \<Rightarrow> string option) \<Rightarrow> string list \<Rightarrow> string list \<Rightarrow> string list \<Rightarrow> string option" where
  "script_args_agent_name lower resolved eval_flags module_flags [] = None"
| "script_args_agent_name lower resolved eval_flags module_flags (arg # args) =
     (if arg = ''--'' then
        (case args of [] \<Rightarrow> None | token # _ \<Rightarrow> agent_name_from_path_token lower resolved token)
      else if flag_matches arg eval_flags \<or> flag_matches arg module_flags then None
      else if starts_with ''-'' arg then
        script_args_agent_name lower resolved eval_flags module_flags
          (if option_takes_value arg then drop 1 args else args)
      else agent_name_from_path_token lower resolved arg)"

definition script_arg_agent_name ::
  "lower \<Rightarrow> (string \<Rightarrow> string option) \<Rightarrow> string list \<Rightarrow> string list \<Rightarrow> string list \<Rightarrow> string option" where
  "script_arg_agent_name lower resolved argv eval_flags module_flags =
     script_args_agent_name lower resolved eval_flags module_flags (drop 1 argv)"

text \<open>The first word of a command text; a quoted word ends at the same quote.\<close>

definition command_text_token :: "string \<Rightarrow> (string \<times> string) option" where
  "command_text_token input =
     (case str_trim_start input of
        [] \<Rightarrow> None
      | first # rest \<Rightarrow>
          if first = double_quote \<or> first = single_quote_char
          then Some (case str_split_once first rest of None \<Rightarrow> (rest, []) | Some parts \<Rightarrow> parts)
          else Some (to_next_whitespace (first # rest)))"

definition call_operators :: "string list" where
  "call_operators = [''&'', ''.'', ''call'']"

lemma utf8_split_not_Nil: "w \<in> set (utf8_split s) \<Longrightarrow> w \<noteq> []"
proof (induction s rule: utf8_steps.induct)
  case (2 c s)
  obtain n ok where step: "utf8_head c s = (n, ok)"
    by fastforce
  then have "n \<noteq> 0"
    by (auto simp: utf8_head.simps Let_def split: if_splits list.splits)
  then show ?case
    using 2 step by (auto simp: utf8_split_def)
qed (simp add: utf8_split_def)

lemma utf8_split_dropWhile:
  "utf8_split (concat (dropWhile P (utf8_split s))) = dropWhile P (utf8_split s)"
proof (induction s rule: utf8_steps.induct)
  case (2 c s)
  obtain n ok where step: "utf8_head c s = (n, ok)"
    by fastforce
  have split: "utf8_split (c # s) = take n (c # s) # utf8_split (drop (n - 1) s)"
    using step by (simp add: utf8_split_def)
  show ?case
  proof (cases "P (take n (c # s))")
    case True
    then show ?thesis
      using 2 [OF step [symmetric]] split by simp
  next
    case False
    then show ?thesis
      using split concat_utf8_split [of "c # s"] by simp
  qed
qed (simp add: utf8_split_def)

lemma command_text_token_shorter:
  assumes "command_text_token input = Some (token, after)"
  shows "length after < length input"
proof -
  have drop: "length (concat (dropWhile P ws)) \<le> length (concat ws)" for P :: "string \<Rightarrow> bool" and ws
    by (induction ws) auto
  obtain first rest where trimmed: "str_trim_start input = first # rest"
    using assms by (auto simp: command_text_token_def split: list.splits)
  have "length (first # rest) \<le> length input"
    using drop [of whitespace_piece "utf8_split input"]
    by (simp add: trimmed [symmetric] str_trim_start_def concat_utf8_split)
  moreover have "length after < length (first # rest)"
  proof (cases "first = double_quote \<or> first = single_quote_char")
    case True
    then show ?thesis
      using assms trimmed by (auto simp: command_text_token_def split_once_Some split: option.splits)
  next
    case False
    let ?ws = "utf8_split (first # rest)"
    have after: "after = concat (dropWhile (Not \<circ> whitespace_piece) ?ws)"
      using assms trimmed False by (simp add: command_text_token_def to_next_whitespace_def)
    have ws: "?ws \<noteq> []" "concat ?ws = first # rest"
      using concat_utf8_split [of "first # rest"] by auto
    have "?ws = dropWhile whitespace_piece (utf8_split input)"
      using utf8_split_dropWhile [of whitespace_piece input] by (simp add: trimmed [symmetric] str_trim_start_def)
    then have "\<not> whitespace_piece (hd ?ws)"
      using ws(1) hd_dropWhile [of whitespace_piece "utf8_split input"] by simp
    then obtain w ws' where "?ws = w # ws'" "\<not> whitespace_piece w"
      using ws by (cases ?ws) auto
    moreover have "w \<noteq> []"
      using utf8_split_not_Nil [of w "first # rest"] calculation by simp
    ultimately show ?thesis
      using drop [of "Not \<circ> whitespace_piece" ws'] after ws(2) by (cases w) auto
  qed
  ultimately show ?thesis by simp
qed


function command_text_agent_name ::
  "lower \<Rightarrow> (string \<Rightarrow> string option) \<Rightarrow> string \<Rightarrow> string option" where
  "command_text_agent_name lower resolved rest =
     (case command_text_token rest of
        None \<Rightarrow> None
      | Some (token, after) \<Rightarrow>
          let token = str_trim token
          in if to_ascii_lowercase token \<in> set call_operators
             then command_text_agent_name lower resolved after
             else agent_name_from_path_token lower resolved token)"
  by pat_completeness auto
termination
  by (relation "measure (\<lambda>(_, _, rest). length rest)") (auto dest: command_text_token_shorter)

declare command_text_agent_name.simps [simp del]

text \<open>The loop skips the switches and every other argument alike.\<close>

fun windows_cmd_args_agent_name ::
  "lower \<Rightarrow> (string \<Rightarrow> string option) \<Rightarrow> string list \<Rightarrow> string option" where
  "windows_cmd_args_agent_name lower resolved [] = None"
| "windows_cmd_args_agent_name lower resolved (arg # args) =
     (let flag = lower (trim_matches [double_quote] arg)
      in if flag = ''/c'' \<or> flag = ''/k''
         then (case args of [] \<Rightarrow> None | command # _ \<Rightarrow> command_text_agent_name lower resolved command)
         else windows_cmd_args_agent_name lower resolved args)"

definition windows_cmd_arg_agent_name ::
  "lower \<Rightarrow> (string \<Rightarrow> string option) \<Rightarrow> string list \<Rightarrow> string option" where
  "windows_cmd_arg_agent_name lower resolved argv =
     windows_cmd_args_agent_name lower resolved (drop 1 argv)"

definition powershell_file_flags :: "string list" where
  "powershell_file_flags = [''-file'', ''-f'', ''/file'']"

definition powershell_command_flags :: "string list" where
  "powershell_command_flags = [''-command'', ''-c'', ''/command'', ''/c'']"

definition powershell_encoded_flags :: "string list" where
  "powershell_encoded_flags = [''-encodedcommand'', ''-enc'', ''/encodedcommand'', ''/enc'']"

definition powershell_value_flags :: "string list" where
  "powershell_value_flags = [''-configurationname'', ''-executionpolicy'', ''-outputformat'',
     ''-psconsolefile'', ''-version'', ''-windowstyle'', ''-workingdirectory'']"

fun powershell_args_agent_name ::
  "lower \<Rightarrow> (string \<Rightarrow> string option) \<Rightarrow> string list \<Rightarrow> string option" where
  "powershell_args_agent_name lower resolved [] = None"
| "powershell_args_agent_name lower resolved (arg # args) =
     (let flag = lower (trim_matches [double_quote] arg)
      in if flag \<in> set powershell_file_flags
         then (case args of [] \<Rightarrow> None | path # _ \<Rightarrow> agent_name_from_path_token lower resolved path)
         else if flag \<in> set powershell_command_flags
         then (case args of [] \<Rightarrow> None | command # _ \<Rightarrow> command_text_agent_name lower resolved command)
         else if flag \<in> set powershell_encoded_flags then None
         else if flag \<in> set powershell_value_flags
         then powershell_args_agent_name lower resolved (drop 1 args)
         else if starts_with ''-'' flag \<or> starts_with ''/'' flag
         then powershell_args_agent_name lower resolved args
         else agent_name_from_path_token lower resolved arg)"

definition powershell_arg_agent_name ::
  "lower \<Rightarrow> (string \<Rightarrow> string option) \<Rightarrow> string list \<Rightarrow> string option" where
  "powershell_arg_agent_name lower resolved argv = powershell_args_agent_name lower resolved (drop 1 argv)"

definition wrapped_agent_name_from_runtime_argv ::
  "lower \<Rightarrow> (string \<Rightarrow> string option) \<Rightarrow> string \<Rightarrow> string list option \<Rightarrow> string option" where
  "wrapped_agent_name_from_runtime_argv lower resolved runtime argv =
     (case argv of
        None \<Rightarrow> None
      | Some argv \<Rightarrow>
          let runtime = normalized_agent_lookup_name lower (path_basename runtime)
          in if runtime \<in> set [''node'', ''bun'']
             then script_arg_agent_name lower resolved argv [''-e'', ''--eval'', ''-p'', ''--print''] []
             else if runtime \<in> set [''python'', ''python3'']
             then script_arg_agent_name lower resolved argv [''-c''] [''-m'']
             else if runtime \<in> set [''sh'', ''bash'', ''zsh'', ''fish'']
             then script_arg_agent_name lower resolved argv [''-c''] []
             else if runtime = ''cmd'' then windows_cmd_arg_agent_name lower resolved argv
             else if runtime \<in> set [''powershell'', ''pwsh'']
             then powershell_arg_agent_name lower resolved argv
             else None)"

definition generic_runtimes :: "string list" where
  "generic_runtimes = [''sh'', ''bash'', ''zsh'', ''fish'', ''tmux'', ''node'', ''bun'', ''python'',
     ''python3'', ''cmd'', ''powershell'', ''pwsh'']"

definition is_generic_runtime_or_shell :: "lower \<Rightarrow> string \<Rightarrow> bool" where
  "is_generic_runtime_or_shell lower name \<longleftrightarrow>
     normalized_agent_lookup_name lower (path_basename name) \<in> set generic_runtimes"

section \<open>The agent of a job\<close>

record foreground_process =
  fp_pid :: u32
  fp_name :: string
  fp_argv0 :: "string option"
  fp_argv :: "string list option"
  fp_cmdline :: "string option"

record foreground_job =
  fj_process_group_id :: u32
  fj_processes :: "foreground_process list"

definition normalized_process_name ::
  "lower \<Rightarrow> (string \<Rightarrow> string option) \<Rightarrow> foreground_process \<Rightarrow> string" where
  "normalized_process_name lower resolved process =
     (let effective = (case fp_argv0 process of None \<Rightarrow> fp_name process | Some argv0 \<Rightarrow> argv0);
          lower_effective = lower effective;
          wrapped = (if is_generic_runtime_or_shell lower lower_effective
            then wrapped_agent_name_from_runtime_argv lower resolved lower_effective (fp_argv process)
            else None)
      in case wrapped of
           Some wrapped_agent \<Rightarrow> wrapped_agent
         | None \<Rightarrow>
             if identify_agent lower effective \<noteq> None then effective
             else case or_else (argv0_agent_name lower resolved (fp_argv process))
                    (cmdline_argv0_agent_name lower resolved
                       (case fp_cmdline process of None \<Rightarrow> [] | Some cmdline \<Rightarrow> cmdline)) of
               Some wrapped_agent \<Rightarrow> wrapped_agent
             | None \<Rightarrow> effective)"

definition process_priority :: "lower \<Rightarrow> foreground_process \<Rightarrow> string \<Rightarrow> nat" where
  "process_priority lower process normalized_name =
     (let lower_name = lower normalized_name
      in if lower_name \<noteq> lower (fp_name process) then 3
         else if \<not> is_generic_runtime_or_shell lower lower_name then 2 else 1)"

fun best_process ::
  "lower \<Rightarrow> (string \<Rightarrow> string option) \<Rightarrow> foreground_process list \<Rightarrow> (nat \<times> agent \<times> string) option
     \<Rightarrow> (nat \<times> agent \<times> string) option" where
  "best_process lower resolved [] best = best"
| "best_process lower resolved (process # processes) best =
     (let candidate = normalized_process_name lower resolved process
      in case identify_agent lower candidate of
           None \<Rightarrow> best_process lower resolved processes best
         | Some agent \<Rightarrow>
             let score = process_priority lower process candidate
             in best_process lower resolved processes
                  (case best of
                     Some (best_score, b) \<Rightarrow>
                       if best_score \<ge> score then best else Some (score, agent, candidate)
                   | None \<Rightarrow> Some (score, agent, candidate)))"

definition identify_agent_in_job ::
  "lower \<Rightarrow> (string \<Rightarrow> string option) \<Rightarrow> foreground_job \<Rightarrow> (agent \<times> string) option" where
  "identify_agent_in_job lower resolved job =
     (let leader = (case List.find (\<lambda>process. fp_pid process = fj_process_group_id job) (fj_processes job) of
            None \<Rightarrow> None
          | Some process \<Rightarrow>
              let candidate = normalized_process_name lower resolved process
              in map_option (\<lambda>agent. (agent, candidate)) (identify_agent lower candidate))
      in case leader of
           Some found \<Rightarrow> Some found
         | None \<Rightarrow> map_option snd (best_process lower resolved (fj_processes job) None))"

end
