(* ===== verification/Detect_Agent_Props.thy ===== *)
theory Detect_Agent_Props
  imports Detect_Agent
begin

text \<open>
  The agent of a foreground job: that of the leader of its process group, else that of the process
  whose name says most.
\<close>

definition process_agent ::
  "lower \<Rightarrow> (string \<Rightarrow> string option) \<Rightarrow> foreground_process \<Rightarrow> agent option" where
  "process_agent lower resolved process = identify_agent lower (normalized_process_name lower resolved process)"

definition process_score ::
  "lower \<Rightarrow> (string \<Rightarrow> string option) \<Rightarrow> foreground_process \<Rightarrow> nat" where
  "process_score lower resolved process =
     process_priority lower process (normalized_process_name lower resolved process)"

text \<open>The first of the processes with the greatest score among those that are agents.\<close>

definition first_best ::
  "lower \<Rightarrow> (string \<Rightarrow> string option) \<Rightarrow> foreground_process list \<Rightarrow> foreground_process \<Rightarrow> bool" where
  "first_best lower resolved processes process \<longleftrightarrow>
     (\<exists>earlier later. processes = earlier @ process # later \<and> process_agent lower resolved process \<noteq> None
       \<and> (\<forall>p \<in> set earlier. process_agent lower resolved p \<noteq> None
            \<longrightarrow> process_score lower resolved p < process_score lower resolved process)
       \<and> (\<forall>p \<in> set later. process_agent lower resolved p \<noteq> None
            \<longrightarrow> process_score lower resolved p \<le> process_score lower resolved process))"

definition found_as ::
  "lower \<Rightarrow> (string \<Rightarrow> string option) \<Rightarrow> foreground_process \<Rightarrow> agent \<times> string \<Rightarrow> bool" where
  "found_as lower resolved process found \<longleftrightarrow>
     process_agent lower resolved process = Some (fst found)
     \<and> snd found = normalized_process_name lower resolved process"

text \<open>What the loop knows after the processes it has seen.\<close>

definition best_so_far ::
  "lower \<Rightarrow> (string \<Rightarrow> string option) \<Rightarrow> foreground_process list \<Rightarrow> (nat \<times> agent \<times> string) option \<Rightarrow> bool"
where
  "best_so_far lower resolved seen best \<longleftrightarrow>
     (case best of
        None \<Rightarrow> \<forall>p \<in> set seen. process_agent lower resolved p = None
      | Some (score, found) \<Rightarrow> \<exists>p. first_best lower resolved seen p \<and> found_as lower resolved p found
          \<and> score = process_score lower resolved p)"

lemma first_best_snoc_skip:
  assumes "first_best lower resolved seen p"
    and "process_agent lower resolved q = None \<or> process_score lower resolved q \<le> process_score lower resolved p"
  shows "first_best lower resolved (seen @ [q]) p"
proof -
  obtain earlier later where "seen = earlier @ p # later" "process_agent lower resolved p \<noteq> None"
      "\<forall>x \<in> set earlier. process_agent lower resolved x \<noteq> None
         \<longrightarrow> process_score lower resolved x < process_score lower resolved p"
      "\<forall>x \<in> set later. process_agent lower resolved x \<noteq> None
         \<longrightarrow> process_score lower resolved x \<le> process_score lower resolved p"
    using assms(1) unfolding first_best_def by blast
  then show ?thesis
    using assms(2) unfolding first_best_def by (intro exI [of _ earlier] exI [of _ "later @ [q]"]) auto
qed

lemma first_best_snoc_take:
  assumes "process_agent lower resolved q \<noteq> None"
    and "\<forall>x \<in> set seen. process_agent lower resolved x \<noteq> None
      \<longrightarrow> process_score lower resolved x < process_score lower resolved q"
  shows "first_best lower resolved (seen @ [q]) q"
  using assms unfolding first_best_def by (intro exI [of _ seen] exI [of _ "[]"]) auto

lemma first_best_bound:
  "first_best lower resolved seen p \<Longrightarrow> x \<in> set seen \<Longrightarrow> process_agent lower resolved x \<noteq> None
     \<Longrightarrow> process_score lower resolved x \<le> process_score lower resolved p"
  unfolding first_best_def by fastforce

lemma best_process_step:
  assumes "best_so_far lower resolved seen best"
  shows "\<exists>best'. best_process lower resolved (q # rest) best = best_process lower resolved rest best'
    \<and> best_so_far lower resolved (seen @ [q]) best'"
proof (cases "process_agent lower resolved q")
  case None
  then have "best_so_far lower resolved (seen @ [q]) best"
  proof (cases best)
    case (Some previous)
    then show ?thesis
      using assms None first_best_snoc_skip [of lower resolved seen _ q]
      by (cases previous) (auto simp: best_so_far_def)
  qed (use assms None in \<open>simp add: best_so_far_def\<close>)
  then show ?thesis
    using None by (intro exI [of _ best]) (simp add: process_agent_def Let_def)
next
  case (Some agent)
  let ?found = "(process_score lower resolved q, agent, normalized_process_name lower resolved q)"
  have here: "found_as lower resolved q (snd ?found)"
    using Some by (simp add: found_as_def)
  show ?thesis
  proof (cases best)
    case None
    then have "first_best lower resolved (seen @ [q]) q"
      using assms Some by (intro first_best_snoc_take) (auto simp: best_so_far_def)
    then have "best_so_far lower resolved (seen @ [q]) (Some ?found)"
      using here by (auto simp: best_so_far_def)
    then show ?thesis
      using None Some
      by (intro exI [of _ "Some ?found"]) (simp add: process_agent_def process_score_def Let_def)
  next
    case (Some previous)
    then obtain score found p where previous: "best = Some (score, found)" "first_best lower resolved seen p"
        "found_as lower resolved p found" "score = process_score lower resolved p"
      using assms by (cases previous) (auto simp: best_so_far_def)
    show ?thesis
    proof (cases "score \<ge> process_score lower resolved q")
      case True
      then have "best_so_far lower resolved (seen @ [q]) best"
        using previous first_best_snoc_skip [OF previous(2), of q] by (auto simp: best_so_far_def)
      then show ?thesis
        using True previous(1) \<open>process_agent lower resolved q = Some agent\<close>
        by (intro exI [of _ best]) (simp add: process_agent_def process_score_def Let_def)
    next
      case False
      then have "first_best lower resolved (seen @ [q]) q"
        using previous(2,4) first_best_bound \<open>process_agent lower resolved q = Some agent\<close>
        by (intro first_best_snoc_take) fastforce+
      then have "best_so_far lower resolved (seen @ [q]) (Some ?found)"
        using here by (auto simp: best_so_far_def)
      then show ?thesis
        using False previous(1) \<open>process_agent lower resolved q = Some agent\<close>
        by (intro exI [of _ "Some ?found"]) (simp add: process_agent_def process_score_def Let_def)
    qed
  qed
qed

lemma best_process_finds:
  "best_so_far lower resolved seen best \<Longrightarrow>
     best_so_far lower resolved (seen @ rest) (best_process lower resolved rest best)"
proof (induction rest arbitrary: seen best)
  case (Cons q rest)
  obtain best' where step: "best_process lower resolved (q # rest) best = best_process lower resolved rest best'"
      "best_so_far lower resolved (seen @ [q]) best'"
    using best_process_step [OF Cons.prems] by blast
  then show ?case
    using Cons.IH [OF step(2)] by simp
qed simp

text \<open>
  The agent of a job is that of the first process that leads its group, when that is an agent;
  otherwise it is the first agent of the best kind of name, a name found behind a wrapper before the
  name of a program, and that before the name of a shell or a runtime; a job has none only when none
  of its processes is an agent.
\<close>

theorem job_agent_is_best:
  "case identify_agent_in_job lower resolved job of
     None \<Rightarrow> \<forall>p \<in> set (fj_processes job). process_agent lower resolved p = None
   | Some found \<Rightarrow> \<exists>p \<in> set (fj_processes job). found_as lower resolved p found
       \<and> (case List.find (\<lambda>q. fp_pid q = fj_process_group_id job) (fj_processes job) of
            None \<Rightarrow> first_best lower resolved (fj_processes job) p
          | Some leader \<Rightarrow> if process_agent lower resolved leader \<noteq> None then p = leader
              else first_best lower resolved (fj_processes job) p)"
proof -
  let ?ps = "fj_processes job"
  let ?leader = "List.find (\<lambda>q. fp_pid q = fj_process_group_id job) ?ps"
  have "best_so_far lower resolved ?ps (best_process lower resolved ?ps None)"
    using best_process_finds [of lower resolved "[]" None ?ps] by (simp add: best_so_far_def)
  then have best: "case map_option snd (best_process lower resolved ?ps None) of
        None \<Rightarrow> \<forall>p \<in> set ?ps. process_agent lower resolved p = None
      | Some found \<Rightarrow> \<exists>p. first_best lower resolved ?ps p \<and> found_as lower resolved p found"
    by (auto simp: best_so_far_def split: option.splits)
  have mem: "p \<in> set ?ps" if "first_best lower resolved ?ps p" for p
    using that by (auto simp: first_best_def)
  show ?thesis
  proof (cases "\<exists>l. ?leader = Some l \<and> process_agent lower resolved l \<noteq> None")
    case True
    then obtain l agent where l: "?leader = Some l" "process_agent lower resolved l = Some agent"
      by auto
    then have run: "identify_agent_in_job lower resolved job = Some (agent, normalized_process_name lower resolved l)"
      by (simp add: identify_agent_in_job_def process_agent_def Let_def)
    have "l \<in> set ?ps"
      using l(1) by (auto simp: find_Some_iff)
    then show ?thesis
      using l by (simp add: run) (auto simp: found_as_def)
  next
    case False
    then have run: "identify_agent_in_job lower resolved job = map_option snd (best_process lower resolved ?ps None)"
      by (auto simp: identify_agent_in_job_def process_agent_def Let_def split: option.splits)
    show ?thesis
      using False best mem unfolding run by (auto split: option.splits)
  qed
qed

definition pi_process :: foreground_process where
  "pi_process = \<lparr>fp_pid = 8, fp_name = ''pi'', fp_argv0 = None, fp_argv = None, fp_cmdline = None\<rparr>"

lemma pi_identified: "process_agent to_ascii_lowercase (\<lambda>_. None) pi_process = Some AgPi"
proof -
  have "str_trim ''pi'' = ''pi''"
    by (rule str_trim_plain) (simp add: plain_text_def ascii_code_def)
  moreover have "to_ascii_lowercase ''pi'' = ''pi''" "path_basename ''pi'' = ''pi''"
      "List.find (\<lambda>suffix. ends_with suffix ''pi'') program_suffixes = None" "lookup_agent ''pi'' = Some AgPi"
      "\<not> ''pi'' \<in> set generic_runtimes"
    by code_simp+
  ultimately show ?thesis
    by (simp add: process_agent_def normalized_process_name_def pi_process_def is_generic_runtime_or_shell_def
        normalized_agent_lookup_name_def identify_agent_def parse_agent_label_def parse_canonical_agent_label_def Let_def)
qed

theorem job_agent_is_best_witness:
  "\<exists>found. identify_agent_in_job to_ascii_lowercase (\<lambda>_. None)
      \<lparr>fj_process_group_id = 7, fj_processes = [pi_process]\<rparr> = Some found
    \<and> found_as to_ascii_lowercase (\<lambda>_. None) pi_process found"
  using job_agent_is_best [where lower = to_ascii_lowercase and resolved = "\<lambda>_. None"
      and job = "\<lparr>fj_process_group_id = 7, fj_processes = [pi_process]\<rparr>"]
    pi_identified
  by (auto split: option.splits)

end
