(* ===== verification/Detect_Manifest.thy ===== *)
theory Detect_Manifest
  imports Detect_Agent
begin

text \<open>
  \<open>src/detect/manifest.rs\<close> and the versions of \<open>src/detect/manifest_update.rs\<close>: the manifests that
  describe what the screen of an agent looks like in each of its states, their validation and
  their compilation. Regular expressions (crate regex) are a parameter: which patterns are
  well-formed, and which of them match a text.
\<close>

section \<open>Versions\<close>

datatype ordering = OrdLess | OrdEqual | OrdGreater

datatype manifest_version = ManifestVersion string

fun version_text :: "manifest_version \<Rightarrow> string" where
  "version_text (ManifestVersion s) = s"

datatype version_error =
  VersionEmpty | VersionEmptySegment string | VersionNotNumeric string | VersionOversized string

definition parse_u64 :: "string \<Rightarrow> u64 option" where
  "parse_u64 s =
     (let digits = (if length s > 1 \<and> hd s = CHR ''+'' then tl s else s)
      in if digits = [] \<or> \<not> list_all is_ascii_digit digits then None
         else if digits_value digits < 2 ^ 64 then Some (of_nat (digits_value digits)) else None)"

definition segment_check :: "string \<Rightarrow> string \<Rightarrow> version_error + unit" where
  "segment_check trimmed segment =
     (if segment = [] then Inl (VersionEmptySegment trimmed)
      else if \<not> list_all is_ascii_digit segment then Inl (VersionNotNumeric trimmed)
      else rbind (ok_or (VersionOversized trimmed) (parse_u64 segment)) (\<lambda>_. Inr ()))"

definition version_parse :: "string \<Rightarrow> version_error + manifest_version" where
  "version_parse value =
     (let trimmed = str_trim value
      in if trimmed = [] then Inl VersionEmpty
         else rbind (check_all (segment_check trimmed) (split_on CHR ''.'' trimmed))
                (\<lambda>_. Inr (ManifestVersion trimmed)))"

definition segment_value :: "string \<Rightarrow> u64" where
  "segment_value segment = (case parse_u64 segment of None \<Rightarrow> 0 | Some n \<Rightarrow> n)"

text \<open>The loop of \<open>cmp\<close> on the segments that are left; missing segments count as zero.\<close>

fun cmp_segments :: "string list \<Rightarrow> string list \<Rightarrow> ordering" where
  "cmp_segments (l # ls) (r # rs) =
     (if segment_value l < segment_value r then OrdLess
      else if segment_value l > segment_value r then OrdGreater else cmp_segments ls rs)"
| "cmp_segments (l # ls) [] = (if segment_value l = 0 then cmp_segments ls [] else OrdGreater)"
| "cmp_segments [] (r # rs) = (if segment_value r = 0 then cmp_segments [] rs else OrdLess)"
| "cmp_segments [] [] = OrdEqual"

definition version_cmp :: "manifest_version \<Rightarrow> manifest_version \<Rightarrow> ordering" where
  "version_cmp a b =
     cmp_segments (split_on CHR ''.'' (version_text a)) (split_on CHR ''.'' (version_text b))"

definition manifest_engine_version :: u32 where "manifest_engine_version = 2"

section \<open>Manifests\<close>

datatype manifest_state = MsIdle | MsWorking | MsBlocked | MsUnknown

fun agent_state_of :: "manifest_state \<Rightarrow> agent_state" where
  "agent_state_of MsIdle = AgentIdle"
| "agent_state_of MsWorking = AgentWorking"
| "agent_state_of MsBlocked = AgentBlocked"
| "agent_state_of MsUnknown = AgentUnknown"

datatype manifest_gate =
  Gate (mg_all: "manifest_gate list") (mg_any: "manifest_gate list") (mg_not: "manifest_gate list")
    (mg_contains: "string list") (mg_regex: "string list") (mg_line_regex: "string list")

record manifest_rule =
  mr_id :: string
  mr_state :: "manifest_state option"
  mr_priority :: "32 word"
  mr_region :: string
  mr_visible_idle :: bool
  mr_visible_blocker :: bool
  mr_visible_working :: bool
  mr_skip_state_update :: bool
  mr_all :: "manifest_gate list"
  mr_any :: "manifest_gate list"
  mr_not_gate :: "manifest_gate list"
  mr_contains :: "string list"
  mr_regex :: "string list"
  mr_line_regex :: "string list"

record agent_manifest =
  am_id :: string
  am_version :: "manifest_version option"
  am_min_engine_version :: "u32 option"
  am_aliases :: "string list"
  am_rules :: "manifest_rule list"

definition default_region :: string where "default_region = ''whole_recent''"

definition max_rules_per_manifest :: nat where "max_rules_per_manifest = 128"
definition max_gate_depth :: nat where "max_gate_depth = 8"
definition max_total_gates :: nat where "max_total_gates = 512"
definition max_matchers_per_gate :: nat where "max_matchers_per_gate = 32"
definition max_total_matchers :: nat where "max_total_matchers = 1024"
definition max_matcher_chars :: nat where "max_matcher_chars = 512"

record regex_lib =
  rx_new :: "string \<Rightarrow> bool"
  rx_is_match :: "string \<Rightarrow> string \<Rightarrow> bool"

definition manifest_gate_from_rule :: "manifest_rule \<Rightarrow> manifest_gate" where
  "manifest_gate_from_rule rule =
     Gate (mr_all rule) (mr_any rule) (mr_not_gate rule)
       (mr_contains rule) (mr_regex rule) (mr_line_regex rule)"

section \<open>Validation\<close>

datatype gate_error =
    GateTooDeep string | TooManyGates | TooManyDirectMatchers string nat | TooManyMatchers
  | MatcherTooLong string | NoPositiveMatcher string | EmptyNotGate string | NotGateWithoutMatcher
  | InvalidPattern string string string

datatype manifest_error =
    MeToml | MeNoRules | MeTooManyRules nat | MeEmptyRuleId | MeSkipWithoutUnknown string
  | MeSkipWithVisible string | MeInvalidRegion string string | MeInvalidGates string gate_error
  | MeIdMismatch string string | MeNoVersion | MeNoEngineVersion | MeEngineVersion u32
  | MeCompile string string

record manifest_complexity =
  mx_total_gates :: nat
  mx_total_matchers :: nat

definition no_complexity :: manifest_complexity where
  "no_complexity = \<lparr>mx_total_gates = 0, mx_total_matchers = 0\<rparr>"

definition gate_has_positive_matcher :: "manifest_gate \<Rightarrow> bool" where
  "gate_has_positive_matcher gate \<longleftrightarrow>
     mg_contains gate \<noteq> [] \<or> mg_regex gate \<noteq> [] \<or> mg_line_regex gate \<noteq> [] \<or> mg_all gate \<noteq> []
     \<or> mg_any gate \<noteq> []"

definition gate_has_any_matcher :: "manifest_gate \<Rightarrow> bool" where
  "gate_has_any_matcher gate \<longleftrightarrow> gate_has_positive_matcher gate \<or> mg_not gate \<noteq> []"

definition char_count :: "string \<Rightarrow> nat" where
  "char_count s = length (utf8_split s)"

definition validate_matcher_limits ::
  "manifest_gate \<Rightarrow> string \<Rightarrow> manifest_complexity \<Rightarrow> gate_error + manifest_complexity" where
  "validate_matcher_limits gate context_name complexity =
     (let values = mg_contains gate @ mg_regex gate @ mg_line_regex gate;
          matcher_count = length values
      in if matcher_count > max_matchers_per_gate
         then Inl (TooManyDirectMatchers context_name matcher_count)
         else
           let total = mx_total_matchers complexity + matcher_count
           in if total > max_total_matchers then Inl TooManyMatchers
              else if list_ex (\<lambda>matcher. char_count matcher > max_matcher_chars) values
              then Inl (MatcherTooLong context_name)
              else Inr (complexity\<lparr>mx_total_matchers := total\<rparr>))"

definition validate_regex_patterns ::
  "regex_lib \<Rightarrow> string list \<Rightarrow> string \<Rightarrow> string \<Rightarrow> gate_error + unit" where
  "validate_regex_patterns rx patterns context_name field =
     check_all (\<lambda>pattern. if rx_new rx pattern then Inr () else Inl (InvalidPattern context_name field pattern))
       patterns"

text \<open>What both kinds of gates check before the gates inside.\<close>

definition count_gate ::
  "string \<Rightarrow> nat \<Rightarrow> manifest_gate \<Rightarrow> manifest_complexity \<Rightarrow> gate_error + manifest_complexity" where
  "count_gate context_name depth gate complexity =
     (if depth > max_gate_depth then Inl (GateTooDeep context_name)
      else
        let complexity = complexity\<lparr>mx_total_gates := mx_total_gates complexity + 1\<rparr>
        in if mx_total_gates complexity > max_total_gates then Inl TooManyGates
           else validate_matcher_limits gate context_name complexity)"

definition check_patterns :: "regex_lib \<Rightarrow> manifest_gate \<Rightarrow> string \<Rightarrow> gate_error + unit" where
  "check_patterns rx gate context_name =
     rbind (validate_regex_patterns rx (mg_regex gate) context_name ''regex'') (\<lambda>_.
       validate_regex_patterns rx (mg_line_regex gate) context_name ''line_regex'')"

function (sequential) validate_gate ::
    "regex_lib \<Rightarrow> manifest_gate \<Rightarrow> string \<Rightarrow> nat \<Rightarrow> manifest_complexity \<Rightarrow> gate_error + manifest_complexity"
  and validate_not_gate ::
    "regex_lib \<Rightarrow> manifest_gate \<Rightarrow> nat \<Rightarrow> manifest_complexity \<Rightarrow> gate_error + manifest_complexity"
  and validate_gates ::
    "regex_lib \<Rightarrow> manifest_gate list \<Rightarrow> string \<Rightarrow> nat \<Rightarrow> manifest_complexity \<Rightarrow> gate_error + manifest_complexity"
  and validate_not_gates ::
    "regex_lib \<Rightarrow> manifest_gate list \<Rightarrow> string option \<Rightarrow> nat \<Rightarrow> manifest_complexity
       \<Rightarrow> gate_error + manifest_complexity" where
  "validate_gate rx (Gate alls anys nots needles regexes line_regexes) context_name depth complexity =
     (let gate = Gate alls anys nots needles regexes line_regexes
      in rbind (count_gate context_name depth gate complexity) (\<lambda>complexity.
         if \<not> gate_has_positive_matcher gate then Inl (NoPositiveMatcher context_name)
         else
           rbind (check_patterns rx gate context_name) (\<lambda>_.
           rbind (validate_gates rx alls ''all gate'' (depth + 1) complexity) (\<lambda>complexity.
           rbind (validate_gates rx anys ''any gate'' (depth + 1) complexity) (\<lambda>complexity.
             validate_not_gates rx nots (Some context_name) (depth + 1) complexity)))))"
| "validate_not_gate rx (Gate alls anys nots needles regexes line_regexes) depth complexity =
     (let gate = Gate alls anys nots needles regexes line_regexes
      in rbind (count_gate ''not gate'' depth gate complexity) (\<lambda>complexity.
         if \<not> gate_has_any_matcher gate then Inl NotGateWithoutMatcher
         else
           rbind (check_patterns rx gate ''not gate'') (\<lambda>_.
           rbind (validate_gates rx alls ''not all gate'' (depth + 1) complexity) (\<lambda>complexity.
           rbind (validate_gates rx anys ''not any gate'' (depth + 1) complexity) (\<lambda>complexity.
             validate_not_gates rx nots None (depth + 1) complexity)))))"
| "validate_gates rx [] context_name depth complexity = Inr complexity"
| "validate_gates rx (gate # gates) context_name depth complexity =
     rbind (validate_gate rx gate context_name depth complexity) (\<lambda>complexity.
       validate_gates rx gates context_name depth complexity)"
| "validate_not_gates rx [] context_name depth complexity = Inr complexity"
| "validate_not_gates rx (gate # gates) context_name depth complexity =
     (case context_name of
        Some name \<Rightarrow> if \<not> gate_has_any_matcher gate then Inl (EmptyNotGate name)
          else rbind (validate_not_gate rx gate depth complexity) (\<lambda>complexity.
            validate_not_gates rx gates context_name depth complexity)
      | None \<Rightarrow> rbind (validate_not_gate rx gate depth complexity) (\<lambda>complexity.
            validate_not_gates rx gates context_name depth complexity))"
  by pat_completeness auto
termination
  by (relation "measure (case_sum
        (case_sum (\<lambda>(_, gate, _). size gate) (\<lambda>(_, gate, _). size gate))
        (case_sum (\<lambda>(_, gates, _). size_list size gates) (\<lambda>(_, gates, _). size_list size gates)))")
    auto

definition region_count :: "string \<Rightarrow> string \<Rightarrow> u64 option" where
  "region_count spec name =
     (case strip_prefix (name @ ''('') spec of
        None \<Rightarrow> None
      | Some rest \<Rightarrow> if ends_with '')'' rest then parse_u64 (butlast rest) else None)"

definition region_names :: "string list" where
  "region_names = [''whole_recent'', ''after_last_prompt_marker'', ''before_current_prompt_marker'',
     ''whole_recent_without_current_prompt_marker'', ''current_prompt_block_marker'',
     ''after_current_prompt_block_marker'', ''prompt_box_body'', ''above_prompt_box'',
     ''last_non_empty_above_prompt_box'', ''after_last_horizontal_rule'', ''osc_title'', ''osc_progress'']"

definition validate_region_name :: "string \<Rightarrow> string + unit" where
  "validate_region_name spec =
     (let trimmed = str_trim spec
      in if trimmed \<in> set region_names \<or> region_count trimmed ''bottom_lines'' \<noteq> None
            \<or> region_count trimmed ''bottom_non_empty_lines'' \<noteq> None
         then Inr () else Inl trimmed)"

definition validate_rule_gate ::
  "regex_lib \<Rightarrow> manifest_rule \<Rightarrow> manifest_complexity \<Rightarrow> gate_error + manifest_complexity" where
  "validate_rule_gate rx rule complexity =
     validate_gate rx (manifest_gate_from_rule rule) ''rule'' 0 complexity"

fun validate_rules ::
  "regex_lib \<Rightarrow> manifest_rule list \<Rightarrow> manifest_complexity \<Rightarrow> manifest_error + manifest_complexity" where
  "validate_rules rx [] complexity = Inr complexity"
| "validate_rules rx (rule # rules) complexity =
     (if is_blank (mr_id rule) then Inl MeEmptyRuleId
      else if mr_skip_state_update rule \<and> mr_state rule \<noteq> Some MsUnknown
      then Inl (MeSkipWithoutUnknown (mr_id rule))
      else if mr_skip_state_update rule
              \<and> (mr_visible_idle rule \<or> mr_visible_blocker rule \<or> mr_visible_working rule)
      then Inl (MeSkipWithVisible (mr_id rule))
      else
        rbind (map_err (MeInvalidRegion (mr_id rule)) (validate_region_name (mr_region rule))) (\<lambda>_.
        rbind (map_err (MeInvalidGates (mr_id rule)) (validate_rule_gate rx rule complexity))
          (validate_rules rx rules)))"

definition validate_manifest :: "regex_lib \<Rightarrow> agent_manifest \<Rightarrow> manifest_error + unit" where
  "validate_manifest rx manifest =
     (if am_rules manifest = [] then Inl MeNoRules
      else if length (am_rules manifest) > max_rules_per_manifest
      then Inl (MeTooManyRules (length (am_rules manifest)))
      else rbind (validate_rules rx (am_rules manifest) no_complexity) (\<lambda>_. Inr ()))"

section \<open>Parsing\<close>

text \<open>\<open>toml\<close> decodes a file into a manifest.\<close>

definition parse_manifest ::
  "regex_lib \<Rightarrow> (string \<Rightarrow> agent_manifest option) \<Rightarrow> string \<Rightarrow> manifest_error + agent_manifest" where
  "parse_manifest rx toml content =
     rbind (ok_or MeToml (toml content)) (\<lambda>manifest.
     rbind (validate_manifest rx manifest) (\<lambda>_. Inr manifest))"

definition manifest_matches_agent :: "lower \<Rightarrow> agent_manifest \<Rightarrow> agent \<Rightarrow> bool" where
  "manifest_matches_agent lower manifest agent \<longleftrightarrow>
     am_id manifest = agent_label agent
     \<or> list_ex (\<lambda>alias. alias = agent_label agent) (am_aliases manifest)
     \<or> parse_agent_label lower (am_id manifest) = Some agent
     \<or> list_ex (\<lambda>alias. parse_agent_label lower alias = Some agent) (am_aliases manifest)"

record parsed_remote_manifest =
  prm_manifest :: agent_manifest
  prm_version :: manifest_version

definition parse_remote_manifest_for_agent ::
  "regex_lib \<Rightarrow> (string \<Rightarrow> agent_manifest option) \<Rightarrow> lower \<Rightarrow> agent \<Rightarrow> string
     \<Rightarrow> manifest_error + parsed_remote_manifest" where
  "parse_remote_manifest_for_agent rx toml lower agent content =
     rbind (parse_manifest rx toml content) (\<lambda>manifest.
     if \<not> manifest_matches_agent lower manifest agent
     then Inl (MeIdMismatch (am_id manifest) (agent_label agent))
     else
       rbind (ok_or MeNoVersion (am_version manifest)) (\<lambda>version.
       rbind (ok_or MeNoEngineVersion (am_min_engine_version manifest)) (\<lambda>engine.
         if engine > manifest_engine_version then Inl (MeEngineVersion engine)
         else Inr \<lparr>prm_manifest = manifest, prm_version = version\<rparr>)))"

section \<open>Compilation\<close>

datatype compiled_gate =
  CGate (cg_all: "compiled_gate list") (cg_any: "compiled_gate list") (cg_not: "compiled_gate list")
    (cg_contains: "string list") (cg_regex: "string list") (cg_line_regex: "string list")

definition compile_regexes :: "regex_lib \<Rightarrow> string list \<Rightarrow> string + string list" where
  "compile_regexes rx patterns =
     rbind (check_all (\<lambda>pattern. if rx_new rx pattern then Inr () else Inl pattern) patterns) (\<lambda>_. Inr patterns)"

text \<open>A compiled expression is its pattern. The error is the pattern that is not well-formed.\<close>

fun compile_gate :: "regex_lib \<Rightarrow> lower \<Rightarrow> manifest_gate \<Rightarrow> string + compiled_gate"
  and compile_gates :: "regex_lib \<Rightarrow> lower \<Rightarrow> manifest_gate list \<Rightarrow> string + compiled_gate list" where
  "compile_gate rx lower (Gate alls anys nots needles regexes line_regexes) =
     rbind (compile_gates rx lower alls) (\<lambda>calls.
     rbind (compile_gates rx lower anys) (\<lambda>canys.
     rbind (compile_gates rx lower nots) (\<lambda>cnots.
     rbind (compile_regexes rx regexes) (\<lambda>cregexes.
     rbind (compile_regexes rx line_regexes) (\<lambda>cline_regexes.
       Inr (CGate calls canys cnots (map lower needles) cregexes cline_regexes))))))"
| "compile_gates rx lower [] = Inr []"
| "compile_gates rx lower (gate # gates) =
     rbind (compile_gate rx lower gate) (\<lambda>c. rbind (compile_gates rx lower gates) (\<lambda>cs. Inr (c # cs)))"

fun compile_rules ::
  "regex_lib \<Rightarrow> lower \<Rightarrow> manifest_rule list \<Rightarrow> manifest_error + compiled_gate list" where
  "compile_rules rx lower [] = Inr []"
| "compile_rules rx lower (rule # rules) =
     rbind (map_err (MeCompile (mr_id rule)) (compile_gate rx lower (manifest_gate_from_rule rule))) (\<lambda>c.
     rbind (compile_rules rx lower rules) (\<lambda>cs. Inr (c # cs)))"

definition compile_manifest ::
  "regex_lib \<Rightarrow> lower \<Rightarrow> agent_manifest \<Rightarrow> manifest_error + compiled_gate list" where
  "compile_manifest rx lower manifest = compile_rules rx lower (am_rules manifest)"

end
