(* ===== verification/Detect_Region.thy ===== *)
theory Detect_Region
  imports Detect_Manifest
begin

text \<open>
  \<open>src/detect/manifest.rs\<close>, the regions: the part of the screen, or of what the terminal reports, that
  a rule looks at. A slice of a string panics when it does not start or end between two characters;
  then a region has no value here.
\<close>

section \<open>Lines and slices\<close>

definition line_feed :: char where "line_feed = CHR 0x0A"
definition carriage_return :: char where "carriage_return = CHR 0x0D"

text \<open>\<open>str::lines\<close>: the pieces with their line feeds, then the endings removed.\<close>

fun split_inclusive :: "string \<Rightarrow> string list" where
  "split_inclusive [] = []"
| "split_inclusive (c # s) =
     (if c = line_feed then [c] # split_inclusive s
      else case split_inclusive s of [] \<Rightarrow> [[c]] | w # ws \<Rightarrow> (c # w) # ws)"

definition strip_line_end :: "string \<Rightarrow> string" where
  "strip_line_end piece =
     (if ends_with [line_feed] piece
      then let line = butlast piece
           in if ends_with [carriage_return] line then butlast line else line
      else piece)"

definition str_lines :: "string \<Rightarrow> string list" where
  "str_lines s = map strip_line_end (split_inclusive s)"

definition char_boundary :: "string \<Rightarrow> nat \<Rightarrow> bool" where
  "char_boundary s k \<longleftrightarrow> k = 0 \<or> k = length s \<or> k < length s \<and> \<not> utf8_cont (s ! k)"

definition str_slice :: "string \<Rightarrow> nat \<Rightarrow> nat \<Rightarrow> string option" where
  "str_slice s a b =
     (if a \<le> b \<and> char_boundary s a \<and> char_boundary s b then Some (drop a (take b s)) else None)"

definition slice_from :: "string \<Rightarrow> nat \<Rightarrow> string option" where
  "slice_from s k = str_slice s k (length s)"

fun first_index :: "('a \<Rightarrow> bool) \<Rightarrow> 'a list \<Rightarrow> nat option" where
  "first_index P [] = None"
| "first_index P (x # xs) = (if P x then Some 0 else map_option Suc (first_index P xs))"

fun last_index :: "('a \<Rightarrow> bool) \<Rightarrow> 'a list \<Rightarrow> nat option" where
  "last_index P [] = None"
| "last_index P (x # xs) =
     (case last_index P xs of Some i \<Rightarrow> Some (Suc i) | None \<Rightarrow> if P x then Some 0 else None)"

definition line_start_offset :: "string \<Rightarrow> string list \<Rightarrow> nat \<Rightarrow> nat" where
  "line_start_offset content ls index =
     min (sum_list (map (\<lambda>line. length line + 1) (take (min index (length ls)) ls))) (length content)"

definition slice_from_line_index :: "string \<Rightarrow> string list \<Rightarrow> nat \<Rightarrow> string option" where
  "slice_from_line_index content ls index = slice_from content (line_start_offset content ls index)"

section \<open>Marks\<close>

definition utf8_char3 :: "nat \<Rightarrow> nat \<Rightarrow> nat \<Rightarrow> string" where
  "utf8_char3 a b c = [char_of a, char_of b, char_of c]"

definition prompt_mark :: string where "prompt_mark = utf8_char3 0xE2 0x80 0xBA"
definition rule_mark :: string where "rule_mark = utf8_char3 0xE2 0x94 0x80"

definition block_marks :: "string list" where
  "block_marks = [utf8_char3 0xE2 0x80 0xA2, utf8_char3 0xE2 0x96 0xA0, utf8_char3 0xE2 0x9C 0x97,
     utf8_char3 0xE2 0x9C 0x93]"

definition codex_prompt_line :: "string \<Rightarrow> bool" where
  "codex_prompt_line line \<longleftrightarrow> line = prompt_mark \<or> starts_with (prompt_mark @ '' '') line"

definition codex_block_marker_line :: "string \<Rightarrow> bool" where
  "codex_block_marker_line line \<longleftrightarrow> list_ex (\<lambda>mark. starts_with mark line) block_marks"

definition is_horizontal_rule :: "string \<Rightarrow> bool" where
  "is_horizontal_rule line \<longleftrightarrow>
     (let trimmed = str_trim line;
          rule_chars = length (takeWhile (\<lambda>piece. piece = rule_mark) (utf8_split trimmed));
          suffix = str_trim_start (concat (drop rule_chars (utf8_split trimmed)))
      in trimmed \<noteq> [] \<and> rule_chars \<noteq> 0 \<and> (suffix = [] \<or> rule_chars \<ge> 3))"

section \<open>Regions\<close>

definition bottom_lines :: "string \<Rightarrow> nat \<Rightarrow> string option" where
  "bottom_lines content count =
     (let ls = str_lines content in slice_from_line_index content ls (length ls - count))"

definition bottom_non_empty_lines :: "string \<Rightarrow> nat \<Rightarrow> string option" where
  "bottom_non_empty_lines content count =
     (let ls = str_lines content;
          indexes = take count (filter (\<lambda>i. \<not> is_blank (ls ! i)) (rev [0..<length ls]))
      in if indexes = [] then Some [] else slice_from_line_index content ls (last indexes))"

definition after_last_prompt_marker :: "string \<Rightarrow> string option" where
  "after_last_prompt_marker content =
     (let ls = str_lines content
      in case last_index codex_prompt_line ls of
           None \<Rightarrow> Some content | Some index \<Rightarrow> slice_from_line_index content ls (index + 1))"

definition current_codex_prompt_index :: "string list \<Rightarrow> nat option" where
  "current_codex_prompt_index ls =
     (case last_index codex_prompt_line ls of
        None \<Rightarrow> None
      | Some prompt_index \<Rightarrow>
          if list_ex codex_block_marker_line (drop (prompt_index + 1) ls) then None else Some prompt_index)"

definition before_current_prompt_marker :: "string \<Rightarrow> string option" where
  "before_current_prompt_marker content =
     (let ls = str_lines content
      in case current_codex_prompt_index ls of
           None \<Rightarrow> Some content
         | Some index \<Rightarrow>
             let byte_offset = sum_list (map (\<lambda>line. length line + 1) (take index ls))
             in str_slice content 0 (min byte_offset (length content)))"

definition whole_recent_without_current_prompt_marker :: "string \<Rightarrow> string" where
  "whole_recent_without_current_prompt_marker content =
     (if current_codex_prompt_index (str_lines content) \<noteq> None then [] else content)"

definition current_prompt_block_marker :: "string \<Rightarrow> string option" where
  "current_prompt_block_marker content =
     (let ls = str_lines content
      in case current_codex_prompt_index ls of
           None \<Rightarrow> None
         | Some prompt_index \<Rightarrow> List.find codex_block_marker_line (rev (take prompt_index ls)))"

text \<open>The outer option is the panic, the inner one the result.\<close>

definition after_current_prompt_block_marker :: "string \<Rightarrow> string option option" where
  "after_current_prompt_block_marker content =
     (let ls = str_lines content
      in case current_codex_prompt_index ls of
           None \<Rightarrow> Some None
         | Some prompt_index \<Rightarrow>
             (case last_index codex_block_marker_line (take prompt_index ls) of
                None \<Rightarrow> Some None
              | Some block_index \<Rightarrow> map_option Some (slice_from_line_index content ls block_index)))"

text \<open>The second rule from the end.\<close>

definition prompt_box_top_border_index :: "string list \<Rightarrow> nat option" where
  "prompt_box_top_border_index ls =
     (case filter (\<lambda>i. is_horizontal_rule (ls ! i)) (rev [0..<length ls]) of
        _ # index # _ \<Rightarrow> Some index | _ \<Rightarrow> None)"

definition prompt_box_body :: "string \<Rightarrow> string option option" where
  "prompt_box_body content =
     (let ls = str_lines content
      in case prompt_box_top_border_index ls of
           None \<Rightarrow> Some None
         | Some border \<Rightarrow>
             let start = line_start_offset content ls (border + 1);
                 end_index = (case first_index is_horizontal_rule (drop (border + 1) ls) of
                     None \<Rightarrow> length ls | Some relative \<Rightarrow> border + 1 + relative)
             in map_option Some (str_slice content start (line_start_offset content ls end_index)))"

definition above_prompt_box :: "string \<Rightarrow> string option" where
  "above_prompt_box content =
     (let ls = str_lines content
      in case prompt_box_top_border_index ls of
           None \<Rightarrow> Some content
         | Some border \<Rightarrow> str_slice content 0 (line_start_offset content ls border))"

definition last_non_empty_line :: "string \<Rightarrow> string" where
  "last_non_empty_line content =
     (case List.find (\<lambda>line. \<not> is_blank line) (rev (str_lines content)) of
        None \<Rightarrow> [] | Some line \<Rightarrow> line)"

fun last_rule_end :: "nat \<Rightarrow> nat \<Rightarrow> nat \<Rightarrow> string list \<Rightarrow> nat" where
  "last_rule_end len offset result [] = result"
| "last_rule_end len offset result (line # ls) =
     (let next_offset = offset + length line + 1
      in last_rule_end len next_offset
           (if is_horizontal_rule line then min next_offset len else result) ls)"

definition after_last_horizontal_rule :: "string \<Rightarrow> string option" where
  "after_last_horizontal_rule content =
     slice_from content (last_rule_end (length content) 0 0 (str_lines content))"

record detection_input =
  di_screen :: string
  di_osc_title :: string
  di_osc_progress :: string

definition unwrap_or_empty :: "string option \<Rightarrow> string" where
  "unwrap_or_empty r = (case r of None \<Rightarrow> [] | Some s \<Rightarrow> s)"

definition region_text :: "detection_input \<Rightarrow> string \<Rightarrow> string option" where
  "region_text input spec =
     (let trimmed = str_trim spec; content = di_screen input
      in if trimmed = ''osc_title'' then Some (di_osc_title input)
         else if trimmed = ''osc_progress'' then Some (di_osc_progress input)
         else if trimmed = ''whole_recent'' then Some content
         else if trimmed = ''after_last_prompt_marker'' then after_last_prompt_marker content
         else if trimmed = ''before_current_prompt_marker'' then before_current_prompt_marker content
         else if trimmed = ''whole_recent_without_current_prompt_marker''
         then Some (whole_recent_without_current_prompt_marker content)
         else if trimmed = ''current_prompt_block_marker''
         then Some (unwrap_or_empty (current_prompt_block_marker content))
         else if trimmed = ''after_current_prompt_block_marker''
         then map_option unwrap_or_empty (after_current_prompt_block_marker content)
         else if trimmed = ''prompt_box_body''
         then map_option unwrap_or_empty (prompt_box_body content)
         else if trimmed = ''above_prompt_box'' then above_prompt_box content
         else if trimmed = ''last_non_empty_above_prompt_box''
         then map_option last_non_empty_line (above_prompt_box content)
         else if trimmed = ''after_last_horizontal_rule'' then after_last_horizontal_rule content
         else case region_count trimmed ''bottom_lines'' of
           Some count \<Rightarrow> bottom_lines content (unat count)
         | None \<Rightarrow>
             (case region_count trimmed ''bottom_non_empty_lines'' of
                Some count \<Rightarrow> bottom_non_empty_lines content (unat count)
              | None \<Rightarrow> Some []))"

end
