(* ===== verification/Detect_Region_Props.thy ===== *)
theory Detect_Region_Props
  imports Detect_Region
begin

text \<open>
  A region of a screen is a block of its whole lines, and finding it never panics - as long as the
  lines end with line feeds only. With the line ends of Windows the offsets are wrong.
\<close>

section \<open>Lines\<close>

lemma concat_split_inclusive: "concat (split_inclusive s) = s"
  by (induction s) (auto split: list.splits)

lemma split_inclusive_Nil [simp]: "split_inclusive s = [] \<longleftrightarrow> s = []"
  by (cases s) (auto split: list.splits)

text \<open>Every piece but the last ends with a line feed, and no piece is empty.\<close>

lemma split_inclusive_pieces:
  "\<forall>p \<in> set (split_inclusive s). p \<noteq> []"
  "\<forall>p \<in> set (butlast (split_inclusive s)). last p = line_feed"
proof (induction s)
  case (Cons c s)
  {
    case 1
    show ?case using Cons(1) by (auto split: list.splits)
  next
    case 2
    show ?case
    proof (cases "c = line_feed")
      case True
      then show ?thesis using Cons(2) by auto
    next
      case False
      show ?thesis
      proof (cases "split_inclusive s")
        case (Cons w ws)
        then have "w \<noteq> []"
          using \<open>\<forall>p \<in> set (split_inclusive s). p \<noteq> []\<close> by simp
        then show ?thesis
          using False Cons \<open>\<forall>p \<in> set (butlast (split_inclusive s)). last p = line_feed\<close> by auto
      qed (simp add: False)
    qed
  }
qed simp_all

definition only_line_feeds :: "string \<Rightarrow> bool" where
  "only_line_feeds s \<longleftrightarrow> (\<nexists>a b. s = a @ [carriage_return, line_feed] @ b)"

lemma strip_line_end_length:
  assumes "p \<noteq> []" and "only_line_feeds p"
  shows "length (strip_line_end p) + 1 = (if last p = line_feed then length p else length p + 1)"
proof (cases "last p = line_feed")
  case True
  then have p: "p = butlast p @ [line_feed]"
    using assms(1) append_butlast_last_id [of p] by simp
  have "\<not> ends_with [carriage_return] (butlast p)"
  proof
    assume "ends_with [carriage_return] (butlast p)"
    then obtain q where "butlast p = q @ [carriage_return]"
      by (auto simp: ends_with_iff)
    then have "p = q @ [carriage_return, line_feed] @ []"
      using p by simp
    then show False
      using assms(2) unfolding only_line_feeds_def by blast
  qed
  moreover have "ends_with [line_feed] p"
    using p by (auto simp: ends_with_iff)
  ultimately show ?thesis
    using True assms(1) by (simp add: strip_line_end_def Let_def)
next
  case False
  then have "\<not> ends_with [line_feed] p"
    by (auto simp: ends_with_iff)
  then show ?thesis
    using False by (simp add: strip_line_end_def)
qed

lemma only_line_feeds_part: "only_line_feeds (a @ p @ b) \<Longrightarrow> only_line_feeds p"
  unfolding only_line_feeds_def by (metis append.assoc)

lemma only_line_feeds_piece:
  assumes "only_line_feeds s" and "p \<in> set (split_inclusive s)"
  shows "only_line_feeds p"
proof -
  obtain ps qs where "split_inclusive s = ps @ p # qs"
    using assms(2) by (meson split_list)
  then have "s = concat ps @ p @ concat qs"
    using concat_split_inclusive [of s] by simp
  then show ?thesis
    using assms(1) only_line_feeds_part by metis
qed

lemma offset_of_pieces:
  assumes "\<forall>p \<in> set ps. p \<noteq> [] \<and> only_line_feeds p" and "\<forall>p \<in> set ps. last p = line_feed"
  shows "sum_list (map (\<lambda>line. length line + 1) (map strip_line_end ps)) = length (concat ps)"
  using assms
proof (induction ps)
  case (Cons p ps)
  then have "length (strip_line_end p) + 1 = length p"
    using strip_line_end_length [of p] by simp
  then show ?case
    using Cons by simp
qed simp

lemma line_start:
  assumes "only_line_feeds s"
  shows "line_start_offset s (str_lines s) i = length (concat (take i (split_inclusive s)))"
proof (cases "i < length (split_inclusive s)")
  case True
  have "set (take i (split_inclusive s)) \<subseteq> set (butlast (split_inclusive s))"
    unfolding butlast_conv_take by (rule set_take_subset_set_take) (use True in simp)
  then have "\<forall>p \<in> set (take i (split_inclusive s)). last p = line_feed"
    using split_inclusive_pieces(2) by blast
  moreover have "\<forall>p \<in> set (take i (split_inclusive s)). p \<noteq> [] \<and> only_line_feeds p"
    using split_inclusive_pieces(1) only_line_feeds_piece [OF assms] by (meson in_set_takeD)
  ultimately have "sum_list (map (\<lambda>line. length line + 1) (take i (str_lines s)))
      = length (concat (take i (split_inclusive s)))"
    using offset_of_pieces by (simp add: str_lines_def take_map)
  moreover have "length (concat (take i (split_inclusive s))) \<le> length s"
    by (metis append_take_drop_id concat_append concat_split_inclusive le_add1 length_append)
  ultimately show ?thesis
    using True by (simp add: line_start_offset_def str_lines_def)
next
  case False
  let ?ps = "split_inclusive s"
  have "length s \<le> sum_list (map (\<lambda>line. length line + 1) (map strip_line_end ps))"
    if "\<forall>p \<in> set ps. p \<noteq> [] \<and> only_line_feeds p" and "length s \<le> length (concat ps)" for ps
  proof -
    have "length (concat ps) \<le> sum_list (map (\<lambda>line. length line + 1) (map strip_line_end ps))"
      using that(1)
    proof (induction ps)
      case (Cons p ps)
      then have "length p \<le> length (strip_line_end p) + 1"
        using strip_line_end_length [of p] by (auto split: if_splits)
      then show ?case using Cons by simp
    qed simp
    then show ?thesis using that(2) by simp
  qed
  then have "length s \<le> sum_list (map (\<lambda>line. length line + 1) (map strip_line_end ?ps))"
    using split_inclusive_pieces(1) only_line_feeds_piece [OF assms] concat_split_inclusive by simp
  then show ?thesis
    using False by (simp add: line_start_offset_def str_lines_def concat_split_inclusive)
qed

section \<open>Between two characters\<close>

lemma utf8_head_rest:
  "utf8_head c s = (n, True) \<Longrightarrow> 0 < n \<and> n - 1 \<le> length s \<and> (\<forall>i < n - 1. utf8_cont (s ! i))"
  by (auto simp: utf8_head.simps Let_def utf8_second_ok_def less_Suc_eq numeral_2_eq_2 numeral_3_eq_3
      nth_Cons' split: if_splits list.splits prod.splits)

lemma utf8_valid_step:
  "utf8_valid (c # s) \<longleftrightarrow> (\<exists>n. utf8_head c s = (n, True) \<and> utf8_valid (drop (n - 1) s))"
  by (auto simp: utf8_valid_def split: prod.splits)

lemma utf8_cont_not_ascii: "utf8_cont c \<Longrightarrow> \<not> ascii_code c < 128"
  by (simp add: utf8_cont_def)

lemma utf8_valid_after_ascii:
  "utf8_valid (a @ d # t) \<Longrightarrow> ascii_code d < 128 \<Longrightarrow> utf8_valid t"
proof (induction a rule: length_induct)
  case (1 a)
  show ?case
  proof (cases a)
    case Nil
    then obtain n where "utf8_head d t = (n, True)" "utf8_valid (drop (n - 1) t)"
      using 1(2) by (auto simp: utf8_valid_step)
    moreover have "utf8_head d t = (1, True)"
      using 1(3) by (simp add: utf8_head.simps utf8_seq_width_def)
    ultimately show ?thesis by simp
  next
    case (Cons c a')
    then obtain n where n: "utf8_head c (a' @ d # t) = (n, True)" "utf8_valid (drop (n - 1) (a' @ d # t))"
      using 1(2) by (auto simp: utf8_valid_step)
    have "\<not> length a' < n - 1"
    proof
      assume "length a' < n - 1"
      then have "utf8_cont ((a' @ d # t) ! length a')"
        using utf8_head_rest [OF n(1)] by blast
      then show False
        using 1(3) utf8_cont_not_ascii by simp
    qed
    then have "utf8_valid (drop (n - 1) a' @ d # t)"
      using n(2) by simp
    moreover have "length (drop (n - 1) a') < length a"
      using Cons by simp
    ultimately show ?thesis
      using 1(1,3) by blast
  qed
qed

lemma utf8_valid_starts: "utf8_valid (c # s) \<Longrightarrow> \<not> utf8_cont c"
  by (auto simp: utf8_valid_step utf8_head.simps utf8_seq_width_def utf8_cont_def Let_def split: if_splits)

section \<open>Slices at the starts of lines\<close>

definition line_offset :: "string \<Rightarrow> nat \<Rightarrow> nat" where
  "line_offset s i = length (concat (take i (split_inclusive s)))"

definition whole_lines :: "string \<Rightarrow> string \<Rightarrow> bool" where
  "whole_lines s r \<longleftrightarrow> (\<exists>a b. s = a @ r @ b \<and> (r = [] \<or> a = [] \<or> last a = line_feed))"

lemma whole_lines_simps [simp]: "whole_lines s s" "whole_lines s []"
  unfolding whole_lines_def by (rule exI [of _ "[]"], simp)+

lemma whole_lines_prefix: "whole_lines r l \<Longrightarrow> s = r @ b \<Longrightarrow> whole_lines s l"
  unfolding whole_lines_def by (metis append.assoc)

lemma split_at_line: "s = concat (take i (split_inclusive s)) @ concat (drop i (split_inclusive s))"
  by (metis append_take_drop_id concat_append concat_split_inclusive)

text \<open>The text before a line that is not the first one ends with a line feed.\<close>

lemma before_line:
  assumes "i < length (split_inclusive s)"
  shows "concat (take i (split_inclusive s)) = [] \<or> last (concat (take i (split_inclusive s))) = line_feed"
proof (cases "take i (split_inclusive s) = []")
  case False
  let ?ps = "split_inclusive s"
  have last: "last (concat ps) = last (last ps)" if "ps \<noteq> []" "\<forall>p \<in> set ps. p \<noteq> []" for ps :: "string list"
    using that by (cases ps rule: rev_cases) auto
  have "last (concat (take i ?ps)) = last (last (take i ?ps))"
    using False split_inclusive_pieces(1) [of s] by (intro last) (auto dest: in_set_takeD)
  moreover have "set (take i ?ps) \<subseteq> set (take (length ?ps - 1) ?ps)"
    by (rule set_take_subset_set_take) (use assms in simp)
  then have "last (take i ?ps) \<in> set (butlast ?ps)"
    unfolding butlast_conv_take using False last_in_set by blast
  ultimately show ?thesis
    using split_inclusive_pieces(2) [of s] by auto
qed auto

lemma line_offset_boundary:
  assumes "utf8_valid s"
  shows "char_boundary s (line_offset s i)"
proof -
  let ?a = "concat (take i (split_inclusive s))" and ?b = "concat (drop i (split_inclusive s))"
  have s: "s = ?a @ ?b"
    by (rule split_at_line)
  show ?thesis
  proof (cases "?a = [] \<or> ?b = []")
    case True
    then have "line_offset s i = 0 \<or> line_offset s i = length s"
      using arg_cong [OF s, of length] unfolding line_offset_def length_append by fastforce
    then show ?thesis
      by (auto simp: char_boundary_def)
  next
    case False
    then have "i < length (split_inclusive s)"
      by (cases "i < length (split_inclusive s)") auto
    then have "last ?a = line_feed"
      using False before_line by blast
    then obtain a' where a: "?a = a' @ [line_feed]"
      using False by (metis append_butlast_last_id)
    obtain c t where b: "?b = c # t"
      using False by (cases ?b) auto
    have "utf8_valid (c # t)"
      using assms s a b utf8_valid_after_ascii [of a' line_feed "c # t"]
      by (simp add: ascii_code_def line_feed_def)
    then have "\<not> utf8_cont c"
      by (rule utf8_valid_starts)
    moreover have "s ! length ?a = c"
      using s b by (metis nth_append_length)
    moreover have "length ?a < length s"
      using s b by (metis length_append length_Cons less_add_same_cancel1 zero_less_Suc)
    ultimately show ?thesis
      by (simp add: char_boundary_def line_offset_def)
  qed
qed

lemma line_offset_le: "line_offset s i \<le> length s"
  by (metis append_take_drop_id concat_append concat_split_inclusive le_add1 length_append line_offset_def)

lemma line_offset_0 [simp]: "line_offset s 0 = 0"
  by (simp add: line_offset_def)

lemma line_offset_mono: "i \<le> j \<Longrightarrow> line_offset s i \<le> line_offset s j"
  unfolding line_offset_def by (metis concat_append le_add1 length_append le_add_diff_inverse take_add)

lemma slice_between_lines:
  assumes "utf8_valid s" and "i \<le> j"
  shows "\<exists>r. str_slice s (line_offset s i) (line_offset s j) = Some r \<and> whole_lines s r"
proof -
  let ?ps = "split_inclusive s"
  let ?a = "concat (take i ?ps)" and ?r = "concat (take (j - i) (drop i ?ps))" and ?b = "concat (drop j ?ps)"
  have s: "s = ?a @ ?r @ ?b"
    using assms(2) by (metis append_take_drop_id concat_append concat_split_inclusive drop_drop le_add_diff_inverse2)
  have j: "line_offset s j = length (?a @ ?r)"
    using assms(2) unfolding line_offset_def by (metis concat_append le_add_diff_inverse take_add)
  have "drop (length ?a) (take (length (?a @ ?r)) (?a @ ?r @ ?b)) = ?r"
    by simp
  then have "drop (line_offset s i) (take (line_offset s j) s) = ?r"
    using s j by (simp add: line_offset_def)
  moreover have "?r = [] \<or> ?a = [] \<or> last ?a = line_feed"
    using before_line [of i s] by (cases "i < length ?ps") auto
  then have "whole_lines s ?r"
    unfolding whole_lines_def using s by blast
  ultimately show ?thesis
    using line_offset_boundary [OF assms(1)] line_offset_mono [OF assms(2)] by (simp add: str_slice_def)
qed

lemma slice_from_line:
  assumes "utf8_valid s" and "only_line_feeds s"
  shows "\<exists>r. slice_from_line_index s (str_lines s) i = Some r \<and> whole_lines s r"
proof -
  have len: "line_offset s (max i (length (split_inclusive s))) = length s"
    by (simp add: line_offset_def concat_split_inclusive)
  show ?thesis
    using slice_between_lines [OF assms(1), of i "max i (length (split_inclusive s))"] len
    by (simp add: slice_from_line_index_def slice_from_def line_start [OF assms(2)] line_offset_def [symmetric])
qed

lemma slice_to_line:
  assumes "utf8_valid s"
  shows "\<exists>r. str_slice s 0 (line_offset s i) = Some r \<and> whole_lines s r \<and> (\<exists>b. s = r @ b)"
proof -
  obtain r where r: "str_slice s 0 (line_offset s i) = Some r" "whole_lines s r"
    using slice_between_lines [OF assms, of 0 i] by auto
  moreover have "r = take (line_offset s i) s"
    using r(1) by (auto simp: str_slice_def split: if_splits)
  ultimately show ?thesis
    by (metis append_take_drop_id)
qed

lemma line_is_whole:
  assumes "line \<in> set (str_lines s)"
  shows "whole_lines s line"
proof -
  obtain i where i: "i < length (split_inclusive s)" and line: "line = strip_line_end (split_inclusive s ! i)"
    using assms by (auto simp: str_lines_def in_set_conv_nth)
  let ?p = "split_inclusive s ! i" and ?a = "concat (take i (split_inclusive s))"
  have s: "s = ?a @ ?p @ concat (drop (Suc i) (split_inclusive s))"
    using i by (metis concat.simps(2) concat_append concat_split_inclusive id_take_nth_drop)
  have "\<exists>e. ?p = strip_line_end ?p @ e"
    by (auto simp: strip_line_end_def Let_def ends_with_iff butlast_append)
  then obtain e where e: "?p = line @ e"
    using line by auto
  have "?a = [] \<or> last ?a = line_feed"
    using before_line [OF i] .
  then show ?thesis
    unfolding whole_lines_def using s e by (metis append.assoc)
qed

section \<open>Regions\<close>

lemma find_member: "List.find P xs = Some x \<Longrightarrow> x \<in> set xs"
  by (induction xs) (auto split: if_splits)

lemma find_line:
  "List.find P (rev (take n (str_lines s))) = Some line \<Longrightarrow> whole_lines s line"
proof (rule line_is_whole)
  assume "List.find P (rev (take n (str_lines s))) = Some line"
  then have "line \<in> set (rev (take n (str_lines s)))"
    by (rule find_member)
  then show "line \<in> set (str_lines s)"
    by (auto dest: in_set_takeD)
qed

lemma last_rule_end_line:
  "\<exists>k \<le> length ls. last_rule_end len offset result ls = result
     \<or> last_rule_end len offset result ls
        = min (offset + sum_list (map (\<lambda>line. length line + 1) (take k ls))) len"
proof (induction ls arbitrary: offset result)
  case (Cons line ls)
  let ?next = "offset + length line + 1"
  obtain k where k: "k \<le> length ls"
    "last_rule_end len ?next (if is_horizontal_rule line then min ?next len else result) ls
       = (if is_horizontal_rule line then min ?next len else result)
     \<or> last_rule_end len ?next (if is_horizontal_rule line then min ?next len else result) ls
       = min (?next + sum_list (map (\<lambda>line. length line + 1) (take k ls))) len"
    using Cons.IH by blast
  show ?case
  proof (cases "last_rule_end len ?next (if is_horizontal_rule line then min ?next len else result) ls
      = (if is_horizontal_rule line then min ?next len else result)")
    case True
    then show ?thesis
      by (intro exI [of _ 1]) (auto simp: Let_def)
  next
    case False
    then show ?thesis
      using k by (intro exI [of _ "Suc k"]) (auto simp: Let_def add.assoc)
  qed
qed simp

lemma after_rule_line:
  assumes "only_line_feeds s"
  shows "\<exists>i. last_rule_end (length s) 0 0 (str_lines s) = line_offset s i"
proof -
  obtain k where k: "k \<le> length (str_lines s)"
    "last_rule_end (length s) 0 0 (str_lines s) = 0
     \<or> last_rule_end (length s) 0 0 (str_lines s)
        = min (0 + sum_list (map (\<lambda>line. length line + 1) (take k (str_lines s)))) (length s)"
    using last_rule_end_line [of "str_lines s" "length s" 0 0] by blast
  then have "last_rule_end (length s) 0 0 (str_lines s) \<in> {line_offset s 0, line_start_offset s (str_lines s) k}"
    by (auto simp: line_start_offset_def)
  moreover have "line_start_offset s (str_lines s) k = line_offset s k"
    using line_start [OF assms, of k] by (simp add: line_offset_def)
  ultimately show ?thesis
    by (metis insertE singletonD)
qed

lemma before_prompt_line:
  assumes "only_line_feeds s" and "i < length (str_lines s)"
  shows "min (sum_list (map (\<lambda>line. length line + 1) (take i (str_lines s)))) (length s) = line_offset s i"
  using line_start [OF assms(1), of i] assms(2) by (simp add: line_start_offset_def line_offset_def)

lemma last_index_Some: "last_index P xs = Some i \<Longrightarrow> i < length xs \<and> P (xs ! i)"
  by (induction xs arbitrary: i) (auto split: option.splits if_splits)

definition is_block :: "string \<Rightarrow> string option \<Rightarrow> bool" where
  "is_block s r \<longleftrightarrow> (\<exists>t. r = Some t \<and> whole_lines s t)"

lemma screen_regions:
  assumes "utf8_valid s" and "only_line_feeds s"
  shows "is_block s (bottom_lines s n)" "is_block s (bottom_non_empty_lines s n)"
    "is_block s (after_last_prompt_marker s)" "is_block s (before_current_prompt_marker s)"
    "whole_lines s (unwrap_or_empty (current_prompt_block_marker s))"
    "is_block s (map_option unwrap_or_empty (after_current_prompt_block_marker s))"
    "is_block s (map_option unwrap_or_empty (prompt_box_body s))"
    "is_block s (above_prompt_box s)"
    "is_block s (map_option last_non_empty_line (above_prompt_box s))"
    "is_block s (after_last_horizontal_rule s)"
proof -
  note from_line = slice_from_line [OF assms] and to_line = slice_to_line [OF assms(1)]
  show "is_block s (bottom_lines s n)"
    using from_line by (auto simp: is_block_def bottom_lines_def Let_def)
  show "is_block s (bottom_non_empty_lines s n)"
    using from_line by (auto simp: is_block_def bottom_non_empty_lines_def Let_def)
  show "is_block s (after_last_prompt_marker s)"
    using from_line by (auto simp: is_block_def after_last_prompt_marker_def Let_def split: option.splits)
  show "is_block s (before_current_prompt_marker s)"
  proof (cases "current_codex_prompt_index (str_lines s)")
    case (Some i)
    then have "i < length (str_lines s)"
      using last_index_Some by (auto simp: current_codex_prompt_index_def split: option.splits if_splits)
    then show ?thesis
      using to_line [of i] Some before_prompt_line [OF assms(2), of i]
      by (auto simp: is_block_def before_current_prompt_marker_def)
  qed (simp add: is_block_def before_current_prompt_marker_def)
  show "whole_lines s (unwrap_or_empty (current_prompt_block_marker s))"
    using find_line by (auto simp: current_prompt_block_marker_def unwrap_or_empty_def Let_def split: option.splits)
  have unwrap: "map_option unwrap_or_empty (map_option Some r) = r" for r
    by (cases r) (simp_all add: unwrap_or_empty_def)
  have some: "is_block s (slice_from_line_index s (str_lines s) i)" for i
    using from_line by (simp add: is_block_def)
  show "is_block s (map_option unwrap_or_empty (after_current_prompt_block_marker s))"
    unfolding after_current_prompt_block_marker_def Let_def
    by (simp add: unwrap some split: option.splits) (simp add: is_block_def unwrap_or_empty_def)
  show "is_block s (map_option unwrap_or_empty (prompt_box_body s))"
  proof (cases "prompt_box_top_border_index (str_lines s)")
    case (Some i)
    let ?j = "case first_index is_horizontal_rule (drop (i + 1) (str_lines s)) of
        None \<Rightarrow> length (str_lines s) | Some relative \<Rightarrow> i + 1 + relative"
    have "i < length (str_lines s)"
    proof -
      obtain j js where js: "filter (\<lambda>i. is_horizontal_rule (str_lines s ! i)) (rev [0..<length (str_lines s)])
          = j # i # js"
        using Some by (auto simp: prompt_box_top_border_index_def split: list.splits)
      have "i \<in> set (filter (\<lambda>i. is_horizontal_rule (str_lines s ! i)) (rev [0..<length (str_lines s)]))"
        unfolding js by simp
      then show ?thesis by simp
    qed
    then have "i + 1 \<le> ?j"
      by (simp split: option.splits)
    then obtain r where "str_slice s (line_offset s (i + 1)) (line_offset s ?j) = Some r" "whole_lines s r"
      using slice_between_lines [OF assms(1)] by blast
    then show ?thesis
      using Some line_start [OF assms(2)]
      by (simp add: is_block_def prompt_box_body_def line_offset_def unwrap_or_empty_def)
  qed (simp add: is_block_def prompt_box_body_def unwrap_or_empty_def)
  have above: "\<exists>r b. above_prompt_box s = Some r \<and> whole_lines s r \<and> s = r @ b"
    using to_line line_start [OF assms(2)]
    by (auto simp: above_prompt_box_def Let_def line_offset_def split: option.splits)
  then show "is_block s (above_prompt_box s)"
    by (auto simp: is_block_def)
  obtain r b where r: "above_prompt_box s = Some r" "s = r @ b"
    using above by blast
  have "whole_lines r (last_non_empty_line r)"
    using find_line [of _ "length (str_lines r)" r] by (auto simp: last_non_empty_line_def split: option.splits)
  then show "is_block s (map_option last_non_empty_line (above_prompt_box s))"
    using r whole_lines_prefix by (auto simp: is_block_def)
  obtain i where "last_rule_end (length s) 0 0 (str_lines s) = line_offset s i"
    using after_rule_line [OF assms(2)] by blast
  then show "is_block s (after_last_horizontal_rule s)"
    using from_line [of i]
    by (simp add: is_block_def after_last_horizontal_rule_def slice_from_line_index_def line_start [OF assms(2)]
        line_offset_def)
qed

lemma screen_region_is_block:
  assumes "utf8_valid (di_screen input)" and "only_line_feeds (di_screen input)"
    and "str_trim spec \<notin> {''osc_title'', ''osc_progress''}"
  shows "is_block (di_screen input) (region_text input spec)"
proof -
  note regions = screen_regions [OF assms(1,2)]
  have whole: "is_block (di_screen input) (Some (whole_recent_without_current_prompt_marker (di_screen input)))"
    "is_block (di_screen input) (Some (di_screen input))" "is_block (di_screen input) (Some [])"
    "is_block (di_screen input) (Some (unwrap_or_empty (current_prompt_block_marker (di_screen input))))"
    using regions(5) by (simp_all add: is_block_def whole_recent_without_current_prompt_marker_def)
  have choice: "is_block u (if c then p else q)" if "is_block u p" "is_block u q" for u c p q
    using that by simp
  have "is_block (di_screen input) (case region_count t ''bottom_lines'' of
      Some count \<Rightarrow> bottom_lines (di_screen input) (unat count)
    | None \<Rightarrow> (case region_count t ''bottom_non_empty_lines'' of
          Some count \<Rightarrow> bottom_non_empty_lines (di_screen input) (unat count) | None \<Rightarrow> Some []))" for t
    using regions(1,2) whole(3) by (simp split: option.split)
  then show ?thesis
    using assms(3) regions whole unfolding region_text_def Let_def
    by (simp only: insert_iff empty_iff de_Morgan_disj simp_thms if_False) (intro choice; assumption)
qed

lemma region_defined:
  assumes "utf8_valid (di_screen input)" and "only_line_feeds (di_screen input)"
  shows "\<exists>r. region_text input spec = Some r"
proof (cases "str_trim spec \<in> {''osc_title'', ''osc_progress''}")
  case True
  then show ?thesis
    unfolding region_text_def Let_def by auto
next
  case False
  then show ?thesis
    using screen_region_is_block [OF assms] by (auto simp: is_block_def)
qed

text \<open>
  C22: on a screen whose lines end with line feeds, no region makes the detection panic, and every
  region of the screen is a block of it that begins at the start of a line.
\<close>

theorem region_is_block_of_lines:
  assumes "utf8_valid (di_screen input)"
    and "\<nexists>a b. di_screen input = a @ [carriage_return, line_feed] @ b"
  shows "\<exists>r. region_text input spec = Some r
    \<and> (str_trim spec \<notin> {''osc_title'', ''osc_progress''}
        \<longrightarrow> (\<exists>a b. di_screen input = a @ r @ b \<and> (r = [] \<or> a = [] \<or> last a = line_feed)))"
proof -
  have lines: "only_line_feeds (di_screen input)"
    using assms(2) by (simp add: only_line_feeds_def)
  then show ?thesis
    using region_defined [OF assms(1) lines, of spec] screen_region_is_block [OF assms(1) lines, of spec]
    by (auto simp: is_block_def whole_lines_def)
qed

text \<open>With carriage returns the offset of the last line is three bytes short after three of them.\<close>

definition windows_screen :: string where
  "windows_screen = concat (replicate 3 (rule_mark @ [carriage_return, line_feed])) @ ''x''"

lemma bottom_line_spec:
  "str_trim ''bottom_lines(1)'' = ''bottom_lines(1)''"
  "region_count ''bottom_lines(1)'' ''bottom_lines'' = Some 1"
proof -
  show "str_trim ''bottom_lines(1)'' = ''bottom_lines(1)''"
    by (rule str_trim_plain) (simp add: plain_text_def ascii_code_def)
  have "list_all is_ascii_digit ''1''" "digits_value ''1'' = 1"
    by code_simp+
  then have "parse_u64 ''1'' = Some 1"
    by (simp add: parse_u64_def)
  then show "region_count ''bottom_lines(1)'' ''bottom_lines'' = Some 1"
    by (simp add: region_count_def strip_prefix_def ends_with_def)
qed

lemma bottom_line_region:
  "region_text input ''bottom_lines(1)'' = bottom_lines (di_screen input) 1"
  by (simp add: region_text_def bottom_line_spec)

lemma windows_lines_panic:
  "utf8_valid windows_screen"
  "region_text \<lparr>di_screen = windows_screen, di_osc_title = [], di_osc_progress = []\<rparr> ''bottom_lines(1)'' = None"
proof -
  show "utf8_valid windows_screen"
    by code_simp
  have "bottom_lines windows_screen 1 = None"
    by code_simp
  then show "region_text \<lparr>di_screen = windows_screen, di_osc_title = [], di_osc_progress = []\<rparr>
      ''bottom_lines(1)'' = None"
    by (simp add: bottom_line_region)
qed

definition plain_screen :: detection_input where
  "plain_screen = \<lparr>di_screen = ''one'' @ [line_feed] @ ''two'', di_osc_title = [], di_osc_progress = []\<rparr>"

theorem region_is_block_of_lines_witness:
  "\<exists>r. region_text plain_screen ''bottom_lines(1)'' = Some r"
proof -
  have "utf8_valid (di_screen plain_screen)"
    by code_simp
  moreover have "carriage_return \<notin> set (di_screen plain_screen)"
    by code_simp
  then have "\<nexists>a b. di_screen plain_screen = a @ [carriage_return, line_feed] @ b"
    by auto
  ultimately show ?thesis
    using region_is_block_of_lines [of plain_screen "''bottom_lines(1)''"] by auto
qed

end
