(* ===== verification/Detect_Engine.thy ===== *)
theory Detect_Engine
  imports Detect_Region
begin

text \<open>
  \<open>src/detect/manifest.rs\<close>, the engine: which manifest is in use for an agent, the evaluation of its
  rules on a screen, and what is reported. The files of manifests and the last update of each agent
  are arguments; a panic is \<open>None\<close>.
\<close>

section \<open>Matching\<close>

definition str_contains :: "string \<Rightarrow> string \<Rightarrow> bool" where
  "str_contains needle s \<longleftrightarrow> list_ex (\<lambda>i. starts_with needle (drop i s)) [0..<Suc (length s)]"

fun compiled_gate_matches :: "regex_lib \<Rightarrow> compiled_gate \<Rightarrow> string \<Rightarrow> string \<Rightarrow> bool" where
  "compiled_gate_matches rx (CGate alls anys nots needles regexes line_regexes) txt lower_text \<longleftrightarrow>
     list_all (\<lambda>needle. str_contains needle lower_text) needles
     \<and> list_all (\<lambda>regex. rx_is_match rx regex txt) regexes
     \<and> list_all (\<lambda>regex. list_ex (rx_is_match rx regex) (str_lines txt)) line_regexes
     \<and> list_all (\<lambda>nested. compiled_gate_matches rx nested txt lower_text) alls
     \<and> (anys \<noteq> [] \<longrightarrow> list_ex (\<lambda>nested. compiled_gate_matches rx nested txt lower_text) anys)
     \<and> \<not> list_ex (\<lambda>nested. compiled_gate_matches rx nested txt lower_text) nots"

definition compiled_rule_matches :: "regex_lib \<Rightarrow> lower \<Rightarrow> compiled_gate \<Rightarrow> string \<Rightarrow> bool" where
  "compiled_rule_matches rx lower rule txt = compiled_gate_matches rx rule txt (lower txt)"

section \<open>Reports\<close>

datatype manifest_source = Bundled | Remote string | Override

datatype manifest_warning =
    OverrideNotCompiled manifest_error | OverrideMismatch string string
  | OverrideNotLoaded "manifest_error option" | RemoteOlder string string
  | RemoteNotCompiled manifest_error | RemoteNotLoaded "manifest_error option"

record loaded_manifest =
  lm_manifest :: agent_manifest
  lm_compiled_rules :: "compiled_gate list"
  lm_source :: manifest_source
  lm_warning :: "manifest_warning option"
  lm_cached_remote_version :: "string option"
  lm_local_override_shadowing_remote :: bool

record matched_rule =
  md_id :: string
  md_priority :: "32 word"
  md_region :: string
  md_state :: agent_state

record rule_evidence =
  re_contains :: "string list"
  re_regex :: "string list"
  re_line_regex :: "string list"
  re_all_count :: nat
  re_any_count :: nat
  re_not_count :: nat
  re_region_bytes :: nat
  re_region_preview :: string

record evaluated_rule =
  er_id :: string
  er_priority :: "32 word"
  er_region :: string
  er_evidence :: rule_evidence
  er_state :: agent_state
  er_matched :: bool

record agent_remote_status =
  ars_cached_version :: "string option"
  ars_attempted_version :: "string option"
  ars_last_checked_unix :: "u64 option"
  ars_last_result :: string
  ars_last_error :: "string option"

record detection_explain =
  dx_agent :: "string option"
  dx_state :: agent_state
  dx_source :: "manifest_source option"
  dx_matched_rule :: "matched_rule option"
  dx_screen_detection_skipped :: bool
  dx_visible_idle :: bool
  dx_visible_blocker :: bool
  dx_visible_working :: bool
  dx_skip_state_update :: bool
  dx_skipped_update_reason :: "string option"
  dx_fallback_reason :: "string option"
  dx_evaluated_rules :: "evaluated_rule list"
  dx_warning :: "manifest_warning option"
  dx_manifest_version :: "string option"
  dx_cached_remote_version :: "string option"
  dx_local_override_shadowing_remote :: bool
  dx_remote_update_status :: "string option"
  dx_remote_update_error :: "string option"

definition into_detection :: "detection_explain \<Rightarrow> agent_detection" where
  "into_detection explain =
     \<lparr>ad_state = dx_state explain, ad_skip_state_update = dx_skip_state_update explain,
      ad_visible_idle = dx_visible_idle explain, ad_visible_blocker = dx_visible_blocker explain,
      ad_visible_working = dx_visible_working explain\<rparr>"

definition default_known_agent_idle_fallback :: string where
  "default_known_agent_idle_fallback = ''default_known_agent_idle_fallback''"

definition bounded_preview :: "string \<Rightarrow> string" where
  "bounded_preview txt =
     concat (take 240 (utf8_split txt)) @ (if char_count txt > 240 then ''...'' else [])"

definition rule_evidence_of :: "manifest_rule \<Rightarrow> string \<Rightarrow> rule_evidence" where
  "rule_evidence_of rule txt =
     \<lparr>re_contains = mr_contains rule, re_regex = mr_regex rule, re_line_regex = mr_line_regex rule,
      re_all_count = length (mr_all rule), re_any_count = length (mr_any rule),
      re_not_count = length (mr_not_gate rule), re_region_bytes = length txt,
      re_region_preview = bounded_preview txt\<rparr>"

definition rule_state :: "manifest_rule \<Rightarrow> agent_state" where
  "rule_state rule = (case mr_state rule of None \<Rightarrow> AgentUnknown | Some s \<Rightarrow> agent_state_of s)"

section \<open>Evaluation\<close>

fun better_rule :: "manifest_rule option \<Rightarrow> manifest_rule \<Rightarrow> manifest_rule option" where
  "better_rule None rule = Some rule"
| "better_rule (Some previous) rule =
     (if sint (mr_priority previous) \<ge> sint (mr_priority rule) then Some previous else Some rule)"

fun evaluate_rules ::
  "regex_lib \<Rightarrow> lower \<Rightarrow> detection_input \<Rightarrow> (manifest_rule \<times> compiled_gate) list
     \<Rightarrow> manifest_rule option \<Rightarrow> evaluated_rule list \<Rightarrow> (manifest_rule option \<times> evaluated_rule list) option"
where
  "evaluate_rules rx lower input [] matched evaluated = Some (matched, evaluated)"
| "evaluate_rules rx lower input ((rule, compiled) # rest) matched evaluated =
     (case region_text input (mr_region rule) of
        None \<Rightarrow> None
      | Some txt \<Rightarrow>
          let matched_rule = compiled_rule_matches rx lower compiled txt;
              report = \<lparr>er_id = mr_id rule, er_priority = mr_priority rule, er_region = mr_region rule,
                er_evidence = rule_evidence_of rule txt, er_state = rule_state rule,
                er_matched = matched_rule\<rparr>
          in evaluate_rules rx lower input rest
               (if matched_rule then better_rule matched rule else matched) (evaluated @ [report]))"

text \<open>\<open>status\<close> is what the last update of an agent left; it is asked only when it is to be reported.\<close>

definition fallback_explain ::
  "(agent \<Rightarrow> agent_remote_status option) \<Rightarrow> agent option \<Rightarrow> (loaded_manifest \<times> evaluated_rule list) option
     \<Rightarrow> bool \<Rightarrow> detection_explain" where
  "fallback_explain status agent known include_update_status =
     (let update = (if include_update_status
            then (case agent of None \<Rightarrow> None | Some a \<Rightarrow> status a) else None)
      in \<lparr>dx_agent = map_option agent_label agent,
          dx_state = (if agent \<noteq> None then AgentIdle else AgentUnknown),
          dx_source = map_option (lm_source \<circ> fst) known, dx_matched_rule = None,
          dx_screen_detection_skipped = False, dx_visible_idle = False, dx_visible_blocker = False,
          dx_visible_working = False, dx_skip_state_update = False, dx_skipped_update_reason = None,
          dx_fallback_reason = (if agent \<noteq> None then Some default_known_agent_idle_fallback else None),
          dx_evaluated_rules = (case known of None \<Rightarrow> [] | Some (_, evaluated) \<Rightarrow> evaluated),
          dx_warning = (case known of None \<Rightarrow> None | Some (loaded, _) \<Rightarrow> lm_warning loaded),
          dx_manifest_version = (case known of None \<Rightarrow> None
            | Some (loaded, _) \<Rightarrow> map_option version_text (am_version (lm_manifest loaded))),
          dx_cached_remote_version = (case known of None \<Rightarrow> None
            | Some (loaded, _) \<Rightarrow> lm_cached_remote_version loaded),
          dx_local_override_shadowing_remote = (case known of None \<Rightarrow> False
            | Some (loaded, _) \<Rightarrow> lm_local_override_shadowing_remote loaded),
          dx_remote_update_status = map_option ars_last_result update,
          dx_remote_update_error = (case update of None \<Rightarrow> None | Some u \<Rightarrow> ars_last_error u)\<rparr>)"

definition evaluate_loaded_manifest ::
  "regex_lib \<Rightarrow> lower \<Rightarrow> (agent \<Rightarrow> agent_remote_status option) \<Rightarrow> agent \<Rightarrow> detection_input
     \<Rightarrow> loaded_manifest \<Rightarrow> bool \<Rightarrow> detection_explain option" where
  "evaluate_loaded_manifest rx lower status agent input loaded include_update_status =
     (case evaluate_rules rx lower input (zip (am_rules (lm_manifest loaded)) (lm_compiled_rules loaded))
             None [] of
        None \<Rightarrow> None
      | Some (None, evaluated) \<Rightarrow>
          Some (fallback_explain status (Some agent) (Some (loaded, evaluated)) include_update_status)
      | Some (Some rule, evaluated) \<Rightarrow>
          let state = rule_state rule;
              update = (if include_update_status then status agent else None)
          in Some
            \<lparr>dx_agent = Some (agent_label agent), dx_state = state, dx_source = Some (lm_source loaded),
             dx_matched_rule = Some \<lparr>md_id = mr_id rule, md_priority = mr_priority rule,
               md_region = mr_region rule, md_state = state\<rparr>,
             dx_screen_detection_skipped = False,
             dx_visible_idle = (mr_visible_idle rule \<and> state = AgentIdle),
             dx_visible_blocker = (mr_visible_blocker rule \<and> state = AgentBlocked),
             dx_visible_working = (mr_visible_working rule \<and> state = AgentWorking),
             dx_skip_state_update = mr_skip_state_update rule,
             dx_skipped_update_reason = (if mr_skip_state_update rule
               then Some (''matched_rule:'' @ mr_id rule) else None),
             dx_fallback_reason = None, dx_evaluated_rules = evaluated, dx_warning = lm_warning loaded,
             dx_manifest_version = map_option version_text (am_version (lm_manifest loaded)),
             dx_cached_remote_version = lm_cached_remote_version loaded,
             dx_local_override_shadowing_remote = lm_local_override_shadowing_remote loaded,
             dx_remote_update_status = map_option ars_last_result update,
             dx_remote_update_error = (case update of None \<Rightarrow> None | Some u \<Rightarrow> ars_last_error u)\<rparr>)"

section \<open>Loading\<close>

text \<open>The text of a file that exists and can be read; existence is asked separately.\<close>

record manifest_files =
  mf_bundled :: "string \<Rightarrow> string option"
  mf_remote_exists :: "agent \<Rightarrow> bool"
  mf_remote_text :: "agent \<Rightarrow> string option"
  mf_override_exists :: "agent \<Rightarrow> bool"
  mf_override_text :: "agent \<Rightarrow> string option"

record detect_libs =
  dl_rx :: regex_lib
  dl_lower :: lower
  dl_toml :: "string \<Rightarrow> agent_manifest option"

definition loaded_manifest_of ::
  "detect_libs \<Rightarrow> agent_manifest \<Rightarrow> manifest_source \<Rightarrow> manifest_warning option \<Rightarrow> string option \<Rightarrow> bool
     \<Rightarrow> manifest_error + loaded_manifest" where
  "loaded_manifest_of libs manifest source warning cached shadowing =
     rbind (compile_manifest (dl_rx libs) (dl_lower libs) manifest) (\<lambda>compiled.
       Inr \<lparr>lm_manifest = manifest, lm_compiled_rules = compiled, lm_source = source,
         lm_warning = warning, lm_cached_remote_version = cached,
         lm_local_override_shadowing_remote = shadowing\<rparr>)"

text \<open>No result where the code panics.\<close>

definition bundled_loaded_manifest ::
  "detect_libs \<Rightarrow> agent_manifest \<Rightarrow> manifest_warning option \<Rightarrow> string option \<Rightarrow> bool
     \<Rightarrow> loaded_manifest option" where
  "bundled_loaded_manifest libs manifest warning cached shadowing =
     (case loaded_manifest_of libs manifest Bundled warning cached shadowing of
        Inl _ \<Rightarrow> None | Inr loaded \<Rightarrow> Some loaded)"

definition bundled_manifest :: "detect_libs \<Rightarrow> manifest_files \<Rightarrow> agent \<Rightarrow> agent_manifest option option" where
  "bundled_manifest libs files agent =
     (case mf_bundled files (agent_label agent) of
        None \<Rightarrow> Some None
      | Some content \<Rightarrow>
          (case parse_manifest (dl_rx libs) (dl_toml libs) content of
             Inl _ \<Rightarrow> None | Inr manifest \<Rightarrow> Some (Some manifest)))"

definition read_override_manifest ::
  "detect_libs \<Rightarrow> manifest_files \<Rightarrow> agent \<Rightarrow> manifest_error option + agent_manifest" where
  "read_override_manifest libs files agent =
     rbind (ok_or None (mf_override_text files agent)) (\<lambda>content.
       map_err Some (parse_manifest (dl_rx libs) (dl_toml libs) content))"

definition read_remote_manifest ::
  "detect_libs \<Rightarrow> manifest_files \<Rightarrow> agent \<Rightarrow> agent_manifest \<Rightarrow> loaded_manifest option option" where
  "read_remote_manifest libs files agent bundled =
     (if \<not> mf_remote_exists files agent then Some None
      else
        case rbind (ok_or None (mf_remote_text files agent)) (\<lambda>content.
            map_err Some (parse_remote_manifest_for_agent (dl_rx libs) (dl_toml libs) (dl_lower libs)
              agent content)) of
          Inl e \<Rightarrow> map_option Some (bundled_loaded_manifest libs bundled (Some (RemoteNotLoaded e)) None False)
        | Inr parsed \<Rightarrow>
            let manifest = prm_manifest parsed;
                version = (case am_version manifest of None \<Rightarrow> ''unknown'' | Some v \<Rightarrow> version_text v);
                older = (case (am_version manifest, am_version bundled) of
                    (Some remote_version, Some bundled_version) \<Rightarrow>
                      if version_cmp remote_version bundled_version = OrdLess
                      then Some (version_text remote_version, version_text bundled_version) else None
                  | _ \<Rightarrow> None)
            in case older of
                 Some (remote_version, bundled_version) \<Rightarrow>
                   map_option Some (bundled_loaded_manifest libs bundled
                     (Some (RemoteOlder remote_version bundled_version)) (Some remote_version) False)
               | None \<Rightarrow>
                   (case loaded_manifest_of libs manifest (Remote version) None None False of
                      Inr loaded \<Rightarrow> Some (Some loaded)
                    | Inl e \<Rightarrow>
                        map_option Some (bundled_loaded_manifest libs bundled (Some (RemoteNotCompiled e))
                          None False)))"

definition cached_version_of :: "loaded_manifest \<Rightarrow> string option" where
  "cached_version_of loaded =
     (if lm_cached_remote_version loaded \<noteq> None then lm_cached_remote_version loaded
      else case lm_source loaded of Remote version \<Rightarrow> Some version | _ \<Rightarrow> None)"

definition load_manifest_uncached ::
  "detect_libs \<Rightarrow> manifest_files \<Rightarrow> agent \<Rightarrow> loaded_manifest option option" where
  "load_manifest_uncached libs files agent =
     (case bundled_manifest libs files agent of
        None \<Rightarrow> None
      | Some None \<Rightarrow> Some None
      | Some (Some bundled) \<Rightarrow>
          (case read_remote_manifest libs files agent bundled of
             None \<Rightarrow> None
           | Some remote \<Rightarrow>
               let cached = (case remote of None \<Rightarrow> None | Some loaded \<Rightarrow> cached_version_of loaded);
                   shadowing = (mf_override_exists files agent \<and> cached \<noteq> None);
                   remote = map_option (\<lambda>loaded. loaded\<lparr>lm_cached_remote_version := cached,
                     lm_local_override_shadowing_remote := shadowing\<rparr>) remote;
                   base = (case remote of
                       Some loaded \<Rightarrow> Some loaded
                     | None \<Rightarrow> bundled_loaded_manifest libs bundled None cached shadowing);
                   warned = (\<lambda>warning. map_option (\<lambda>loaded. Some (loaded\<lparr>lm_warning := Some warning\<rparr>)) base)
               in if \<not> mf_override_exists files agent then map_option Some base
                  else case read_override_manifest libs files agent of
                    Inl e \<Rightarrow> warned (OverrideNotLoaded e)
                  | Inr manifest \<Rightarrow>
                      if \<not> manifest_matches_agent (dl_lower libs) manifest agent
                      then warned (OverrideMismatch (am_id manifest) (agent_label agent))
                      else (case loaded_manifest_of libs manifest Override None cached shadowing of
                          Inr loaded \<Rightarrow> Some (Some loaded)
                        | Inl e \<Rightarrow> warned (OverrideNotCompiled e))))"

section \<open>The cache\<close>

type_synonym manifest_cache = "(agent \<times> loaded_manifest option) list"

fun collect_manifests ::
  "detect_libs \<Rightarrow> manifest_files \<Rightarrow> agent list \<Rightarrow> manifest_cache option" where
  "collect_manifests libs files [] = Some []"
| "collect_manifests libs files (agent # agents) =
     (case (load_manifest_uncached libs files agent, collect_manifests libs files agents) of
        (Some loaded, Some rest) \<Rightarrow> Some ((agent, loaded) # rest) | _ \<Rightarrow> None)"

definition build_manifest_cache :: "detect_libs \<Rightarrow> manifest_files \<Rightarrow> manifest_cache option" where
  "build_manifest_cache libs files = collect_manifests libs files screen_manifest_agents"

definition load_manifest :: "manifest_cache \<Rightarrow> agent \<Rightarrow> loaded_manifest option" where
  "load_manifest cache agent =
     (case List.find (\<lambda>(cached_agent, _). cached_agent = agent) cache of
        None \<Rightarrow> None | Some (_, loaded) \<Rightarrow> loaded)"

record agent_manifest_summary =
  ams_agent :: agent
  ams_active_source :: manifest_source
  ams_active_version :: "string option"
  ams_cached_remote_version :: "string option"
  ams_local_override_shadowing_remote :: bool
  ams_warning :: "manifest_warning option"

definition manifest_summary_from_loaded :: "agent \<Rightarrow> loaded_manifest \<Rightarrow> agent_manifest_summary" where
  "manifest_summary_from_loaded agent loaded =
     \<lparr>ams_agent = agent, ams_active_source = lm_source loaded,
      ams_active_version = map_option version_text (am_version (lm_manifest loaded)),
      ams_cached_remote_version = lm_cached_remote_version loaded,
      ams_local_override_shadowing_remote = lm_local_override_shadowing_remote loaded,
      ams_warning = lm_warning loaded\<rparr>"

definition manifest_summaries_from_cache :: "manifest_cache \<Rightarrow> agent_manifest_summary list" where
  "manifest_summaries_from_cache cache =
     List.map_filter (\<lambda>(agent, loaded). map_option (manifest_summary_from_loaded agent) loaded) cache"

definition reload_manifests ::
  "detect_libs \<Rightarrow> manifest_files \<Rightarrow> (manifest_cache \<times> agent_manifest_summary list) option" where
  "reload_manifests libs files =
     map_option (\<lambda>cache. (cache, manifest_summaries_from_cache cache)) (build_manifest_cache libs files)"

section \<open>Detection\<close>

definition plain_input :: "string \<Rightarrow> detection_input" where
  "plain_input screen = \<lparr>di_screen = screen, di_osc_title = [], di_osc_progress = []\<rparr>"

definition explain_with_input ::
  "detect_libs \<Rightarrow> (agent \<Rightarrow> agent_remote_status option) \<Rightarrow> manifest_cache \<Rightarrow> agent \<Rightarrow> detection_input
     \<Rightarrow> detection_explain option" where
  "explain_with_input libs status cache agent input =
     (case load_manifest cache agent of
        None \<Rightarrow> Some (fallback_explain status (Some agent) None True)
      | Some loaded \<Rightarrow> evaluate_loaded_manifest (dl_rx libs) (dl_lower libs) status agent input loaded True)"

definition explain ::
  "detect_libs \<Rightarrow> (agent \<Rightarrow> agent_remote_status option) \<Rightarrow> manifest_cache \<Rightarrow> agent \<Rightarrow> string
     \<Rightarrow> detection_explain option" where
  "explain libs status cache agent screen = explain_with_input libs status cache agent (plain_input screen)"

definition unknown_agent_explain :: "string \<Rightarrow> detection_explain" where
  "unknown_agent_explain label =
     \<lparr>dx_agent = Some label, dx_state = AgentUnknown, dx_source = None, dx_matched_rule = None,
      dx_screen_detection_skipped = False, dx_visible_idle = False, dx_visible_blocker = False,
      dx_visible_working = False, dx_skip_state_update = False, dx_skipped_update_reason = None,
      dx_fallback_reason = Some ''unknown_agent'', dx_evaluated_rules = [], dx_warning = None,
      dx_manifest_version = None, dx_cached_remote_version = None,
      dx_local_override_shadowing_remote = False, dx_remote_update_status = None,
      dx_remote_update_error = None\<rparr>"

definition explain_for_label ::
  "detect_libs \<Rightarrow> (agent \<Rightarrow> agent_remote_status option) \<Rightarrow> manifest_cache \<Rightarrow> string \<Rightarrow> string
     \<Rightarrow> detection_explain option" where
  "explain_for_label libs status cache label screen =
     (case parse_agent_label (dl_lower libs) label of
        None \<Rightarrow> Some (unknown_agent_explain label)
      | Some agent \<Rightarrow> explain libs status cache agent screen)"

definition detect_with_osc ::
  "detect_libs \<Rightarrow> (agent \<Rightarrow> agent_remote_status option) \<Rightarrow> manifest_cache \<Rightarrow> agent \<Rightarrow> detection_input
     \<Rightarrow> agent_detection option" where
  "detect_with_osc libs status cache agent input =
     (case load_manifest cache agent of
        None \<Rightarrow> Some (into_detection (fallback_explain status (Some agent) None False))
      | Some loaded \<Rightarrow>
          map_option into_detection
            (evaluate_loaded_manifest (dl_rx libs) (dl_lower libs) status agent input loaded False))"

definition manifest_should_skip_state_update ::
  "detect_libs \<Rightarrow> (agent \<Rightarrow> agent_remote_status option) \<Rightarrow> manifest_cache \<Rightarrow> agent \<Rightarrow> string \<Rightarrow> bool option"
where
  "manifest_should_skip_state_update libs status cache agent screen =
     (case load_manifest cache agent of
        None \<Rightarrow> Some False
      | Some loaded \<Rightarrow>
          map_option dx_skip_state_update
            (evaluate_loaded_manifest (dl_rx libs) (dl_lower libs) status agent (plain_input screen)
              loaded False))"

definition no_detection :: agent_detection where
  "no_detection = \<lparr>ad_state = AgentUnknown, ad_skip_state_update = False, ad_visible_idle = False,
     ad_visible_blocker = False, ad_visible_working = False\<rparr>"

definition detect_agent_with_osc ::
  "detect_libs \<Rightarrow> (agent \<Rightarrow> agent_remote_status option) \<Rightarrow> manifest_cache \<Rightarrow> agent option
     \<Rightarrow> string \<Rightarrow> string \<Rightarrow> string \<Rightarrow> agent_detection option" where
  "detect_agent_with_osc libs status cache agent screen osc_title osc_progress =
     (case agent of
        None \<Rightarrow> Some no_detection
      | Some agent \<Rightarrow>
          detect_with_osc libs status cache agent
            \<lparr>di_screen = screen, di_osc_title = osc_title, di_osc_progress = osc_progress\<rparr>)"

definition should_skip_state_update ::
  "detect_libs \<Rightarrow> (agent \<Rightarrow> agent_remote_status option) \<Rightarrow> manifest_cache \<Rightarrow> agent option \<Rightarrow> string
     \<Rightarrow> bool option" where
  "should_skip_state_update libs status cache agent screen =
     (case agent of
        None \<Rightarrow> Some False
      | Some agent \<Rightarrow> manifest_should_skip_state_update libs status cache agent screen)"

end
