(* ===== verification/Detect_Sample.thy ===== *)
theory Detect_Sample
  imports Detect_Engine
begin

text \<open>
  A manifest of one rule for the agent pi: it is blocked when its screen asks to continue.
\<close>

definition pi_rule :: manifest_rule where
  "pi_rule = \<lparr>mr_id = ''r'', mr_state = Some MsBlocked, mr_priority = 1, mr_region = default_region,
     mr_visible_idle = False, mr_visible_blocker = True, mr_visible_working = False,
     mr_skip_state_update = False, mr_all = [], mr_any = [], mr_not_gate = [],
     mr_contains = [''Continue?''], mr_regex = [], mr_line_regex = []\<rparr>"

definition pi_manifest :: "string \<Rightarrow> agent_manifest" where
  "pi_manifest version = \<lparr>am_id = ''pi'', am_version = Some (ManifestVersion version),
     am_min_engine_version = Some 1, am_aliases = [], am_rules = [pi_rule]\<rparr>"

text \<open>The text of a manifest is its version.\<close>

definition toy_libs :: detect_libs where
  "toy_libs = \<lparr>dl_rx = \<lparr>rx_new = \<lambda>_. True, rx_is_match = \<lambda>_ _. False\<rparr>, dl_lower = to_ascii_lowercase,
     dl_toml = \<lambda>content. Some (pi_manifest content)\<rparr>"

lemma toy_not_blank: "\<not> is_blank ''r''" "\<not> is_blank ''pi.toml''"
  by (simp_all add: is_blank_iff is_whitespace_def utf8_width_def utf8_code_def utf8_lead_def ascii_code_def)

lemma default_region_trim: "str_trim default_region = default_region"
  by (rule str_trim_plain) (simp add: default_region_def plain_text_def ascii_code_def)

lemma pi_manifest_valid: "validate_manifest (dl_rx toy_libs) (pi_manifest version) = Inr ()"
proof -
  have "char_count ''Continue?'' = 9"
    by code_simp
  moreover have "\<not> is_blank ''r''"
    by (simp add: toy_not_blank)
  moreover have "validate_region_name default_region = Inr ()"
    by (simp add: validate_region_name_def default_region_trim) (simp add: default_region_def region_names_def)
  ultimately have rules: "validate_rules (dl_rx toy_libs) [pi_rule] no_complexity
      = Inr \<lparr>mx_total_gates = 1, mx_total_matchers = 1\<rparr>"
    by (simp add: pi_rule_def toy_libs_def no_complexity_def validate_rule_gate_def manifest_gate_from_rule_def
        count_gate_def validate_matcher_limits_def gate_has_positive_matcher_def check_patterns_def
        validate_regex_patterns_def max_gate_depth_def max_total_gates_def max_matchers_per_gate_def
        max_total_matchers_def max_matcher_chars_def)
  then show ?thesis
    by (simp add: validate_manifest_def pi_manifest_def max_rules_per_manifest_def)
qed

lemma toy_segments: "segment_value ''1'' = 1" "segment_value ''2'' = 2"
proof -
  have digits: "list_all is_ascii_digit ''1''" "digits_value ''1'' = 1"
      "list_all is_ascii_digit ''2''" "digits_value ''2'' = 2"
    by code_simp+
  then show "segment_value ''1'' = 1" "segment_value ''2'' = 2"
    by (simp_all add: segment_value_def parse_u64_def)
qed

lemma pi_versions: "version_cmp (ManifestVersion ''2'') (ManifestVersion ''1'') = OrdGreater"
proof -
  have "split_on CHR ''.'' ''1'' = [''1'']" "split_on CHR ''.'' ''2'' = [''2'']"
    by code_simp+
  then show ?thesis
    by (simp add: version_cmp_def toy_segments)
qed

lemma pi_parsed:
  "parse_remote_manifest_for_agent (dl_rx toy_libs) (dl_toml toy_libs) (dl_lower toy_libs) AgPi version
     = Inr \<lparr>prm_manifest = pi_manifest version, prm_version = ManifestVersion version\<rparr>"
proof -
  show ?thesis
    using pi_manifest_valid
    by (simp add: parse_remote_manifest_for_agent_def parse_manifest_def toy_libs_def manifest_matches_agent_def
        ok_or.simps) (simp add: pi_manifest_def manifest_engine_version_def)
qed

end
