(* ===== verification/Detect_Props.thy ===== *)
theory Detect_Props
  imports Detect_Region_Props Detect_Sample "HOL-Library.Sublist"
begin

text \<open>
  What the detection of agent states promises: accepted manifests are bounded and compile, the state
  that is reported is the one of the rule that wins, and the manifest in use is the best one there is.
\<close>

section \<open>Bounds of accepted manifests\<close>

fun gate_count :: "manifest_gate \<Rightarrow> nat" where
  "gate_count (Gate alls anys nots needles regexes line_regexes) =
     1 + sum_list (map gate_count alls) + sum_list (map gate_count anys) + sum_list (map gate_count nots)"

fun matcher_count :: "manifest_gate \<Rightarrow> nat" where
  "matcher_count (Gate alls anys nots needles regexes line_regexes) =
     length needles + length regexes + length line_regexes
     + sum_list (map matcher_count alls) + sum_list (map matcher_count anys) + sum_list (map matcher_count nots)"

text \<open>The gates are nested at most this deep.\<close>

fun nested_within :: "nat \<Rightarrow> manifest_gate \<Rightarrow> bool" where
  "nested_within n (Gate alls anys nots needles regexes line_regexes) \<longleftrightarrow>
     (alls @ anys @ nots \<noteq> [] \<longrightarrow> 0 < n)
     \<and> (\<forall>g \<in> set alls. nested_within (n - 1) g) \<and> (\<forall>g \<in> set anys. nested_within (n - 1) g)
     \<and> (\<forall>g \<in> set nots. nested_within (n - 1) g)"

fun patterns_ok :: "regex_lib \<Rightarrow> manifest_gate \<Rightarrow> bool" where
  "patterns_ok rx (Gate alls anys nots needles regexes line_regexes) \<longleftrightarrow>
     (\<forall>p \<in> set (regexes @ line_regexes). rx_new rx p)
     \<and> (\<forall>g \<in> set alls. patterns_ok rx g) \<and> (\<forall>g \<in> set anys. patterns_ok rx g)
     \<and> (\<forall>g \<in> set nots. patterns_ok rx g)"

definition counted :: "manifest_gate list \<Rightarrow> manifest_complexity \<Rightarrow> manifest_complexity \<Rightarrow> bool" where
  "counted gates a b \<longleftrightarrow>
     mx_total_gates b = mx_total_gates a + sum_list (map gate_count gates)
     \<and> mx_total_matchers b = mx_total_matchers a + sum_list (map matcher_count gates)
     \<and> (gates \<noteq> [] \<longrightarrow> mx_total_gates b \<le> max_total_gates \<and> mx_total_matchers b \<le> max_total_matchers)"

definition gates_fit :: "regex_lib \<Rightarrow> nat \<Rightarrow> manifest_gate list \<Rightarrow> bool" where
  "gates_fit rx depth gates \<longleftrightarrow>
     (\<forall>g \<in> set gates. depth \<le> max_gate_depth \<and> nested_within (max_gate_depth - depth) g \<and> patterns_ok rx g)"

lemma counted_Nil [simp]: "counted [] a a"
  by (simp add: counted_def)

lemma counted_append: "counted gs a b \<Longrightarrow> counted hs b c \<Longrightarrow> counted (gs @ hs) a c"
  by (cases hs) (auto simp: counted_def)

lemma counted_Cons: "counted [g] a b \<Longrightarrow> counted gs b c \<Longrightarrow> counted (g # gs) a c"
  using counted_append [of "[g]" a b gs c] by simp

lemma count_gate_Inr:
  assumes "count_gate context_name depth (Gate alls anys nots needles regexes line_regexes) a = Inr b"
  shows "depth \<le> max_gate_depth \<and> mx_total_gates b = mx_total_gates a + 1 \<and> mx_total_gates b \<le> max_total_gates
    \<and> mx_total_matchers b = mx_total_matchers a + length needles + length regexes + length line_regexes
    \<and> mx_total_matchers b \<le> max_total_matchers"
  using assms by (auto simp: count_gate_def validate_matcher_limits_def Let_def split: if_splits)

lemma check_patterns_Inr:
  assumes "check_patterns rx (Gate alls anys nots needles regexes line_regexes) context_name = Inr ()"
  shows "\<forall>p \<in> set (regexes @ line_regexes). rx_new rx p"
  using assms by (auto simp: check_patterns_def validate_regex_patterns_def rbind_Inr_iff check_all_ok_iff split: if_splits)

text \<open>A gate whose parts are counted one after the other.\<close>

lemma gate_counted:
  assumes "count_gate context_name depth (Gate alls anys nots needles regexes line_regexes) a = Inr b"
    and "check_patterns rx (Gate alls anys nots needles regexes line_regexes) context_name' = Inr ()"
    and "counted alls b c" "gates_fit rx (depth + 1) alls"
    and "counted anys c d" "gates_fit rx (depth + 1) anys"
    and "counted nots d e" "gates_fit rx (depth + 1) nots"
  shows "counted [Gate alls anys nots needles regexes line_regexes] a e
    \<and> gates_fit rx depth [Gate alls anys nots needles regexes line_regexes]"
proof -
  note head = count_gate_Inr [OF assms(1)]
  have parts: "counted (alls @ anys @ nots) b e"
    using assms(3,5,7) counted_append by blast
  then have "mx_total_gates e \<le> max_total_gates \<and> mx_total_matchers e \<le> max_total_matchers"
    using head by (cases "alls @ anys @ nots") (auto simp: counted_def)
  then have "counted [Gate alls anys nots needles regexes line_regexes] a e"
    using parts head by (simp add: counted_def)
  moreover have "gates_fit rx depth [Gate alls anys nots needles regexes line_regexes]"
    using assms(4,6,8) head check_patterns_Inr [OF assms(2)]
    by (auto simp: gates_fit_def diff_diff_add [symmetric] neq_Nil_conv)
  ultimately show ?thesis ..
qed

lemma validated_gates:
  "validate_gate rx gate context_name depth a = Inr b \<Longrightarrow> counted [gate] a b \<and> gates_fit rx depth [gate]"
  "validate_not_gate rx gate depth a = Inr b \<Longrightarrow> counted [gate] a b \<and> gates_fit rx depth [gate]"
  "validate_gates rx gates context_name depth a = Inr b \<Longrightarrow> counted gates a b \<and> gates_fit rx depth gates"
  "validate_not_gates rx gates nested_in depth a = Inr b \<Longrightarrow> counted gates a b \<and> gates_fit rx depth gates"
proof (induction rx gate context_name depth a and rx gate depth a and rx gates context_name depth a
    and rx gates nested_in depth a arbitrary: b and b and b and b
    rule: validate_gate_validate_not_gate_validate_gates_validate_not_gates.induct)
  case (1 rx alls anys nots needles regexes line_regexes context_name depth complexity)
  let ?gate = "Gate alls anys nots needles regexes line_regexes"
  obtain c0 c1 c2 where head: "count_gate context_name depth ?gate complexity = Inr c0"
      "gate_has_positive_matcher ?gate" "check_patterns rx ?gate context_name = Inr ()"
    and parts: "validate_gates rx alls ''all gate'' (depth + 1) c0 = Inr c1"
      "validate_gates rx anys ''any gate'' (depth + 1) c1 = Inr c2"
      "validate_not_gates rx nots (Some context_name) (depth + 1) c2 = Inr b"
    using 1(4) by (auto simp: rbind_Inr_iff Let_def split: if_splits)
  have positive: "\<not> \<not> gate_has_positive_matcher ?gate"
    using head(2) by simp
  note inner = 1(1) [OF refl positive parts(1)] 1(2) [OF refl positive parts(2)] 1(3) [OF refl positive parts(3)]
  show ?case
    using gate_counted [OF head(1,3)] inner by blast
next
  case (2 rx alls anys nots needles regexes line_regexes depth complexity)
  let ?gate = "Gate alls anys nots needles regexes line_regexes"
  obtain c0 c1 c2 where head: "count_gate ''not gate'' depth ?gate complexity = Inr c0"
      "gate_has_any_matcher ?gate" "check_patterns rx ?gate ''not gate'' = Inr ()"
    and parts: "validate_gates rx alls ''not all gate'' (depth + 1) c0 = Inr c1"
      "validate_gates rx anys ''not any gate'' (depth + 1) c1 = Inr c2"
      "validate_not_gates rx nots None (depth + 1) c2 = Inr b"
    using 2(4) by (auto simp: rbind_Inr_iff Let_def split: if_splits)
  have any: "\<not> \<not> gate_has_any_matcher ?gate"
    using head(2) by simp
  note inner = 2(1) [OF refl any parts(1)] 2(2) [OF refl any parts(2)] 2(3) [OF refl any parts(3)]
  show ?case
    using gate_counted [OF head(1,3)] inner by blast
next
  case (4 rx gate gates context_name depth complexity)
  then show ?case
    by (auto simp: rbind_Inr_iff gates_fit_def intro: counted_Cons)
next
  case (6 rx gate gates context_name depth complexity)
  obtain c where one: "validate_not_gate rx gate depth complexity = Inr c"
      and rest: "validate_not_gates rx gates context_name depth c = Inr b"
      and any: "context_name = None \<or> gate_has_any_matcher gate"
    using 6(5) by (auto simp: rbind_Inr_iff split: option.splits if_splits)
  have "counted [gate] complexity c \<and> gates_fit rx depth [gate]"
    using 6(1,3) one any by (cases context_name) auto
  moreover have "counted gates c b \<and> gates_fit rx depth gates"
    using 6(2,4) rest any by (cases context_name) auto
  ultimately show ?case
    by (auto simp: gates_fit_def intro: counted_Cons)
qed (auto simp: gates_fit_def)

lemma validated_rules:
  "validate_rules rx rules a = Inr b \<Longrightarrow>
     counted (map manifest_gate_from_rule rules) a b \<and> gates_fit rx 0 (map manifest_gate_from_rule rules)
     \<and> (\<forall>r \<in> set rules. mr_skip_state_update r \<longrightarrow> mr_state r = Some MsUnknown
          \<and> \<not> mr_visible_idle r \<and> \<not> mr_visible_blocker r \<and> \<not> mr_visible_working r)"
proof (induction rules arbitrary: a)
  case (Cons rule rules)
  then obtain c where c: "validate_rule_gate rx rule a = Inr c" "validate_rules rx rules c = Inr b"
      and skip: "mr_skip_state_update rule \<longrightarrow> mr_state rule = Some MsUnknown
        \<and> \<not> mr_visible_idle rule \<and> \<not> mr_visible_blocker rule \<and> \<not> mr_visible_working rule"
    by (auto simp: rbind_Inr_iff map_err_Inr_iff split: if_splits)
  have one: "counted [manifest_gate_from_rule rule] a c" "gates_fit rx 0 [manifest_gate_from_rule rule]"
    using validated_gates(1) c(1) unfolding validate_rule_gate_def by blast+
  note rest = Cons.IH [OF c(2)]
  have "counted (map manifest_gate_from_rule (rule # rules)) a b"
    using counted_Cons [OF one(1)] rest by simp
  moreover have "gates_fit rx 0 (map manifest_gate_from_rule (rule # rules))"
    using one(2) rest by (simp add: gates_fit_def)
  ultimately show ?case
    using skip rest by auto
qed (simp add: gates_fit_def)

section \<open>Compilation\<close>

lemma compile_regexes_ok: "\<forall>p \<in> set ps. rx_new rx p \<Longrightarrow> compile_regexes rx ps = Inr ps"
proof -
  assume "\<forall>p \<in> set ps. rx_new rx p"
  then have "check_all (\<lambda>pattern. if rx_new rx pattern then Inr () else Inl pattern) ps = Inr ()"
    by (simp add: check_all_ok_iff)
  then show ?thesis
    by (simp add: compile_regexes_def)
qed

lemma patterns_compile:
  "patterns_ok rx gate \<Longrightarrow> \<exists>c. compile_gate rx lower gate = Inr c"
  "\<forall>g \<in> set gates. patterns_ok rx g \<Longrightarrow> \<exists>cs. compile_gates rx lower gates = Inr cs"
proof (induction rx lower gate and rx lower gates rule: compile_gate_compile_gates.induct)
  case (1 rx lower alls anys nots needles regexes line_regexes)
  obtain calls where "compile_gates rx lower alls = Inr calls"
    using 1 by auto
  moreover obtain canys where "compile_gates rx lower anys = Inr canys"
    using 1 calculation by auto
  moreover obtain cnots where "compile_gates rx lower nots = Inr cnots"
    using 1 calculation by auto
  ultimately show ?case
    using 1(4) compile_regexes_ok by simp
qed auto

lemma rules_compile:
  "gates_fit rx 0 (map manifest_gate_from_rule rules)
     \<Longrightarrow> \<exists>cs. compile_rules rx lower rules = Inr cs \<and> length cs = length rules"
proof (induction rules)
  case (Cons rule rules)
  then obtain cs where "compile_rules rx lower rules = Inr cs" "length cs = length rules"
    by (auto simp: gates_fit_def)
  moreover obtain c where "compile_gate rx lower (manifest_gate_from_rule rule) = Inr c"
    using Cons.prems patterns_compile(1) by (fastforce simp: gates_fit_def)
  ultimately show ?case
    by simp
qed simp

definition manifest_gates :: "agent_manifest \<Rightarrow> manifest_gate list" where
  "manifest_gates manifest = map manifest_gate_from_rule (am_rules manifest)"



section \<open>The rule that wins\<close>

text \<open>What a gate means, on the manifest as it is written.\<close>

fun gate_holds :: "regex_lib \<Rightarrow> lower \<Rightarrow> string \<Rightarrow> manifest_gate \<Rightarrow> bool" where
  "gate_holds rx lower txt (Gate alls anys nots needles regexes line_regexes) \<longleftrightarrow>
     (\<forall>needle \<in> set needles. sublist (lower needle) (lower txt))
     \<and> (\<forall>pattern \<in> set regexes. rx_is_match rx pattern txt)
     \<and> (\<forall>pattern \<in> set line_regexes. \<exists>line \<in> set (str_lines txt). rx_is_match rx pattern line)
     \<and> (\<forall>gate \<in> set alls. gate_holds rx lower txt gate)
     \<and> (anys = [] \<or> (\<exists>gate \<in> set anys. gate_holds rx lower txt gate))
     \<and> (\<forall>gate \<in> set nots. \<not> gate_holds rx lower txt gate)"

definition rule_holds :: "regex_lib \<Rightarrow> lower \<Rightarrow> detection_input \<Rightarrow> manifest_rule \<Rightarrow> bool" where
  "rule_holds rx lower input rule \<longleftrightarrow>
     (case region_text input (mr_region rule) of
        None \<Rightarrow> False | Some txt \<Rightarrow> gate_holds rx lower txt (manifest_gate_from_rule rule))"

text \<open>The first of the rules of the greatest priority among those that hold.\<close>

definition wins :: "(manifest_rule \<Rightarrow> bool) \<Rightarrow> manifest_rule list \<Rightarrow> manifest_rule \<Rightarrow> bool" where
  "wins holds rules rule \<longleftrightarrow>
     (\<exists>earlier later. rules = earlier @ rule # later \<and> holds rule
       \<and> (\<forall>r \<in> set earlier. holds r \<longrightarrow> sint (mr_priority r) < sint (mr_priority rule))
       \<and> (\<forall>r \<in> set later. holds r \<longrightarrow> sint (mr_priority r) \<le> sint (mr_priority rule)))"

lemma str_contains_sublist: "str_contains needle s \<longleftrightarrow> sublist needle s"
proof
  assume "str_contains needle s"
  then obtain i where "starts_with needle (drop i s)"
    by (auto simp: str_contains_def list_ex_iff simp del: upt_Suc)
  then obtain rest where "drop i s = needle @ rest"
    by (metis append_take_drop_id starts_with_def)
  then have "s = take i s @ needle @ rest"
    using append_take_drop_id [of i s] by simp
  then show "sublist needle s"
    by (metis sublist_appendI)
next
  assume "sublist needle s"
  then obtain a b where "s = a @ needle @ b"
    by (auto simp: sublist_def)
  then show "str_contains needle s"
    by (auto simp: str_contains_def list_ex_iff starts_with_def intro!: bexI [of _ "length a"])
qed

lemma compile_regexes_Inr: "compile_regexes rx ps = Inr cs \<Longrightarrow> cs = ps"
  by (auto simp: compile_regexes_def rbind_Inr_iff)

lemma compiled_means:
  "compile_gate rx lower gate = Inr c \<Longrightarrow>
     compiled_gate_matches rx c txt (lower txt) = gate_holds rx lower txt gate"
  "compile_gates rx lower gates = Inr cs \<Longrightarrow>
     map (\<lambda>c. compiled_gate_matches rx c txt (lower txt)) cs = map (gate_holds rx lower txt) gates"
proof (induction rx lower gate and rx lower gates arbitrary: c and cs rule: compile_gate_compile_gates.induct)
  case (1 rx lower alls anys nots needles regexes line_regexes)
  then obtain calls canys cnots where parts: "compile_gates rx lower alls = Inr calls"
      "compile_gates rx lower anys = Inr canys" "compile_gates rx lower nots = Inr cnots"
      and lines: "\<exists>rs ls. compile_regexes rx regexes = Inr rs \<and> compile_regexes rx line_regexes = Inr ls
        \<and> c = CGate calls canys cnots (map lower needles) rs ls"
    by (auto simp: rbind_Inr_iff)
  have c: "c = CGate calls canys cnots (map lower needles) regexes line_regexes"
    using lines compile_regexes_Inr by metis
  let ?m = "\<lambda>c. compiled_gate_matches rx c txt (lower txt)"
  have maps: "map ?m calls = map (gate_holds rx lower txt) alls" "map ?m canys = map (gate_holds rx lower txt) anys"
      "map ?m cnots = map (gate_holds rx lower txt) nots"
    using 1(1) [OF parts(1)] 1(2) [OF parts(2)] 1(3) [OF parts(3)] by simp_all
  have all: "list_all ?m xs = (\<forall>g \<in> set gs. gate_holds rx lower txt g)"
    and ex: "list_ex ?m xs = (\<exists>g \<in> set gs. gate_holds rx lower txt g)" and empty: "xs = [] \<longleftrightarrow> gs = []"
    if "map ?m xs = map (gate_holds rx lower txt) gs" for xs gs
  proof -
    have image: "?m ` set xs = gate_holds rx lower txt ` set gs"
      using that by (metis list.set_map)
    show "list_all ?m xs = (\<forall>g \<in> set gs. gate_holds rx lower txt g)"
      using image unfolding list_all_iff by (metis (no_types, lifting) imageE imageI)
    show "list_ex ?m xs = (\<exists>g \<in> set gs. gate_holds rx lower txt g)"
      using image unfolding list_ex_iff by (metis (no_types, lifting) imageE imageI)
    show "xs = [] \<longleftrightarrow> gs = []"
      using that by (metis map_is_Nil_conv)
  qed
  show ?case
    unfolding c
    by (simp add: all [OF maps(1)] ex [OF maps(2)] ex [OF maps(3)] empty [OF maps(2)] str_contains_sublist)
      (auto simp: list_all_iff list_ex_iff)
next
  case (3 rx lower gate gates)
  then show ?case
    by (auto simp: rbind_Inr_iff)
qed simp

definition best_rule ::
  "(manifest_rule \<Rightarrow> bool) \<Rightarrow> manifest_rule list \<Rightarrow> manifest_rule option \<Rightarrow> manifest_rule option" where
  "best_rule holds rules matched = foldl (\<lambda>m rule. if holds rule then better_rule m rule else m) matched rules"

lemma best_rule_wins:
  "case best_rule holds rules None of None \<Rightarrow> \<forall>r \<in> set rules. \<not> holds r | Some rule \<Rightarrow> wins holds rules rule"
proof (induction rules rule: rev_induct)
  case (snoc rule rules)
  show ?case
  proof (cases "holds rule")
    case False
    then have "wins holds (rules @ [rule]) r" if "wins holds rules r" for r
      using that unfolding wins_def by fastforce
    then show ?thesis
      using snoc False by (auto simp: best_rule_def split: option.splits)
  next
    case True
    show ?thesis
    proof (cases "best_rule holds rules None")
      case None
      then have "\<forall>r \<in> set rules. \<not> holds r"
        using snoc by simp
      then have "wins holds (rules @ [rule]) rule"
        using True unfolding wins_def by (intro exI [of _ rules] exI [of _ "[]"]) simp
      then show ?thesis
        using None True by (simp add: best_rule_def)
    next
      case (Some r)
      then obtain earlier later where r: "rules = earlier @ r # later" "holds r"
          "\<forall>x \<in> set earlier. holds x \<longrightarrow> sint (mr_priority x) < sint (mr_priority r)"
          "\<forall>x \<in> set later. holds x \<longrightarrow> sint (mr_priority x) \<le> sint (mr_priority r)"
        using snoc by (auto simp: wins_def)
      show ?thesis
      proof (cases "sint (mr_priority r) \<ge> sint (mr_priority rule)")
        case True
        then have "wins holds (rules @ [rule]) r"
          using r unfolding wins_def by (intro exI [of _ earlier] exI [of _ "later @ [rule]"]) auto
        then show ?thesis
          using Some True by (simp add: best_rule_def)
      next
        case False
        then have "wins holds (rules @ [rule]) rule"
          using r \<open>holds rule\<close> unfolding wins_def by (intro exI [of _ rules] exI [of _ "[]"]) fastforce
        then show ?thesis
          using Some False True by (simp add: best_rule_def)
      qed
    qed
  qed
qed (simp add: best_rule_def)

lemma evaluated_rules:
  assumes "\<And>spec. \<exists>r. region_text input spec = Some r"
  shows "compile_rules rx lower rules = Inr cs \<Longrightarrow>
    \<exists>reports. evaluate_rules rx lower input (zip rules cs) matched evaluated
        = Some (best_rule (rule_holds rx lower input) rules matched, evaluated @ reports)
      \<and> map er_matched reports = map (rule_holds rx lower input) rules"
proof (induction rules arbitrary: cs matched evaluated)
  case (Cons rule rules)
  then obtain c cs' where c: "compile_gate rx lower (manifest_gate_from_rule rule) = Inr c"
      and cs: "compile_rules rx lower rules = Inr cs'" "cs = c # cs'"
    by (auto simp: rbind_Inr_iff map_err_Inr_iff)
  obtain content where content: "region_text input (mr_region rule) = Some content"
    using assms by blast
  then have holds: "compiled_rule_matches rx lower c content = rule_holds rx lower input rule"
    using compiled_means(1) [OF c] by (simp add: compiled_rule_matches_def rule_holds_def)
  let ?report = "\<lparr>er_id = mr_id rule, er_priority = mr_priority rule, er_region = mr_region rule,
      er_evidence = rule_evidence_of rule content, er_state = rule_state rule, er_matched = rule_holds rx lower input rule\<rparr>"
  obtain reports where reports: "evaluate_rules rx lower input (zip rules cs')
        (if rule_holds rx lower input rule then better_rule matched rule else matched) (evaluated @ [?report])
      = Some (best_rule (rule_holds rx lower input) rules
          (if rule_holds rx lower input rule then better_rule matched rule else matched), (evaluated @ [?report]) @ reports)"
      "map er_matched reports = map (rule_holds rx lower input) rules"
    using Cons.IH [OF cs(1)] by blast
  then show ?case
    unfolding cs(2) by (intro exI [of _ "?report # reports"]) (simp add: content holds Let_def best_rule_def)
qed (simp add: best_rule_def)

text \<open>
  C19: on a screen whose lines end with line feeds the detection reports the state of the first rule of
  the greatest priority among those that hold there, shows only what the state of that rule allows,
  and says of every rule whether it holds; when none holds, the agent is idle and shows nothing.
\<close>

theorem detection_reports_winning_rule:
  assumes "utf8_valid (di_screen input)" and "\<nexists>a b. di_screen input = a @ [carriage_return, line_feed] @ b"
    and "compile_manifest rx lower (lm_manifest loaded) = Inr (lm_compiled_rules loaded)"
  shows "\<exists>explain. evaluate_loaded_manifest rx lower status agent input loaded update = Some explain
    \<and> map er_matched (dx_evaluated_rules explain) = map (rule_holds rx lower input) (am_rules (lm_manifest loaded))
    \<and> (case dx_matched_rule explain of
         None \<Rightarrow> (\<forall>rule \<in> set (am_rules (lm_manifest loaded)). \<not> rule_holds rx lower input rule)
           \<and> into_detection explain = no_detection\<lparr>ad_state := AgentIdle\<rparr>
       | Some m \<Rightarrow> \<exists>rule. wins (rule_holds rx lower input) (am_rules (lm_manifest loaded)) rule
           \<and> md_id m = mr_id rule
           \<and> into_detection explain = \<lparr>ad_state = rule_state rule, ad_skip_state_update = mr_skip_state_update rule,
                ad_visible_idle = (mr_visible_idle rule \<and> rule_state rule = AgentIdle),
                ad_visible_blocker = (mr_visible_blocker rule \<and> rule_state rule = AgentBlocked),
                ad_visible_working = (mr_visible_working rule \<and> rule_state rule = AgentWorking)\<rparr>)"
proof -
  let ?rules = "am_rules (lm_manifest loaded)" and ?holds = "rule_holds rx lower input"
  have "only_line_feeds (di_screen input)"
    using assms(2) by (simp add: only_line_feeds_def)
  then have "\<exists>r. region_text input spec = Some r" for spec
    using region_defined assms(1) by blast
  then obtain reports where run: "evaluate_rules rx lower input (zip ?rules (lm_compiled_rules loaded)) None []
        = Some (best_rule ?holds ?rules None, reports)"
      and reports: "map er_matched reports = map ?holds ?rules"
    using evaluated_rules [of input rx lower ?rules "lm_compiled_rules loaded" None "[]"] assms(3)
    by (auto simp: compile_manifest_def)
  show ?thesis
  proof (cases "best_rule ?holds ?rules None")
    case None
    then show ?thesis
      using best_rule_wins [where holds = ?holds and rules = ?rules] run reports
      by (simp add: evaluate_loaded_manifest_def fallback_explain_def into_detection_def no_detection_def Let_def)
  next
    case (Some rule)
    then have "wins ?holds ?rules rule"
      using best_rule_wins [where holds = ?holds and rules = ?rules] by simp
    then show ?thesis
      using Some run reports
      by (auto simp: evaluate_loaded_manifest_def into_detection_def Let_def)
  qed
qed

definition pi_loaded :: loaded_manifest where
  "pi_loaded = \<lparr>lm_manifest = pi_manifest ''1'',
     lm_compiled_rules = [CGate [] [] [] [''continue?''] [] []], lm_source = Bundled, lm_warning = None,
     lm_cached_remote_version = None, lm_local_override_shadowing_remote = False\<rparr>"

definition pi_screen :: detection_input where
  "pi_screen = \<lparr>di_screen = ''Shall I continue?'', di_osc_title = [], di_osc_progress = []\<rparr>"

lemma pi_rule_holds: "rule_holds (dl_rx toy_libs) to_ascii_lowercase pi_screen pi_rule"
proof -
  have "region_text pi_screen default_region = Some ''Shall I continue?''"
    unfolding region_text_def default_region_trim by (simp add: default_region_def pi_screen_def)
  moreover have "to_ascii_lowercase ''Shall I continue?'' = ''shall i '' @ to_ascii_lowercase ''Continue?'' @ []"
    by code_simp
  then have "sublist (to_ascii_lowercase ''Continue?'') (to_ascii_lowercase ''Shall I continue?'')"
    unfolding sublist_def by blast
  ultimately show ?thesis
    by (simp add: rule_holds_def pi_rule_def manifest_gate_from_rule_def)
qed

theorem detection_reports_winning_rule_witness:
  "\<exists>explain. evaluate_loaded_manifest (dl_rx toy_libs) to_ascii_lowercase (\<lambda>_. None) AgPi pi_screen pi_loaded False
     = Some explain \<and> ad_state (into_detection explain) = AgentBlocked"
proof -
  let ?holds = "rule_holds (dl_rx toy_libs) to_ascii_lowercase pi_screen"
  have "to_ascii_lowercase ''Continue?'' = ''continue?''"
    by code_simp
  then have compiled: "compile_manifest (dl_rx toy_libs) to_ascii_lowercase (lm_manifest pi_loaded)
      = Inr (lm_compiled_rules pi_loaded)"
    by (simp add: pi_loaded_def pi_manifest_def pi_rule_def compile_manifest_def manifest_gate_from_rule_def
        compile_regexes_def)
  have "utf8_valid (di_screen pi_screen)" "carriage_return \<notin> set (di_screen pi_screen)"
    by code_simp+
  then have screen: "utf8_valid (di_screen pi_screen)"
      "\<nexists>a b. di_screen pi_screen = a @ [carriage_return, line_feed] @ b"
    by auto
  have rules: "am_rules (lm_manifest pi_loaded) = [pi_rule]"
    by (simp add: pi_loaded_def pi_manifest_def)
  obtain explain where explain:
      "evaluate_loaded_manifest (dl_rx toy_libs) to_ascii_lowercase (\<lambda>_. None) AgPi pi_screen pi_loaded False = Some explain"
    and result: "case dx_matched_rule explain of
         None \<Rightarrow> (\<forall>rule \<in> set [pi_rule]. \<not> ?holds rule) \<and> into_detection explain = no_detection\<lparr>ad_state := AgentIdle\<rparr>
       | Some m \<Rightarrow> \<exists>rule. wins ?holds [pi_rule] rule \<and> md_id m = mr_id rule
           \<and> into_detection explain = \<lparr>ad_state = rule_state rule, ad_skip_state_update = mr_skip_state_update rule,
                ad_visible_idle = (mr_visible_idle rule \<and> rule_state rule = AgentIdle),
                ad_visible_blocker = (mr_visible_blocker rule \<and> rule_state rule = AgentBlocked),
                ad_visible_working = (mr_visible_working rule \<and> rule_state rule = AgentWorking)\<rparr>"
    using detection_reports_winning_rule [OF screen compiled, unfolded rules] by blast
  then obtain rule where "wins ?holds [pi_rule] rule" "ad_state (into_detection explain) = rule_state rule"
    using pi_rule_holds by (cases "dx_matched_rule explain") auto
  moreover have "rule = pi_rule" if "wins holds [pi_rule] rule" for holds rule
    using that by (auto simp: wins_def append_eq_Cons_conv eq_commute [of "[_]"])
  ultimately have "ad_state (into_detection explain) = rule_state pi_rule"
    by metis
  then show ?thesis
    using explain by (simp add: rule_state_def pi_rule_def)
qed

section \<open>The manifest in use\<close>

definition usable_override :: "detect_libs \<Rightarrow> manifest_files \<Rightarrow> agent \<Rightarrow> agent_manifest option" where
  "usable_override libs files agent =
     (if \<not> mf_override_exists files agent then None
      else case read_override_manifest libs files agent of
          Inl _ \<Rightarrow> None
        | Inr manifest \<Rightarrow> if manifest_matches_agent (dl_lower libs) manifest agent then Some manifest else None)"

definition older :: "agent_manifest \<Rightarrow> agent_manifest \<Rightarrow> bool" where
  "older a b \<longleftrightarrow> (case (am_version a, am_version b) of
       (Some v, Some w) \<Rightarrow> version_cmp v w = OrdLess | _ \<Rightarrow> False)"

definition usable_remote ::
  "detect_libs \<Rightarrow> manifest_files \<Rightarrow> agent \<Rightarrow> agent_manifest \<Rightarrow> agent_manifest option" where
  "usable_remote libs files agent bundled =
     (case (mf_remote_exists files agent, mf_remote_text files agent) of
        (True, Some content) \<Rightarrow>
          (case parse_remote_manifest_for_agent (dl_rx libs) (dl_toml libs) (dl_lower libs) agent content of
             Inl _ \<Rightarrow> None
           | Inr parsed \<Rightarrow> if older (prm_manifest parsed) bundled then None else Some (prm_manifest parsed))
      | _ \<Rightarrow> None)"

definition loaded_as ::
  "detect_libs \<Rightarrow> agent_manifest \<Rightarrow> (manifest_source \<Rightarrow> bool) \<Rightarrow> bool \<Rightarrow> loaded_manifest \<Rightarrow> bool" where
  "loaded_as libs manifest source warned loaded \<longleftrightarrow>
     lm_manifest loaded = manifest \<and> source (lm_source loaded) \<and> (lm_warning loaded \<noteq> None) = warned
     \<and> compile_manifest (dl_rx libs) (dl_lower libs) manifest = Inr (lm_compiled_rules loaded)"

lemma parsed_compiles:
  assumes "parse_manifest rx toml content = Inr manifest"
  shows "\<exists>cs. compile_manifest rx lower manifest = Inr cs"
proof -
  obtain c where "validate_rules rx (am_rules manifest) no_complexity = Inr c"
    using assms by (auto simp: parse_manifest_def validate_manifest_def rbind_Inr_iff split: if_splits)
  then show ?thesis
    using validated_rules rules_compile unfolding compile_manifest_def by blast
qed

lemma remote_compiles:
  assumes "parse_remote_manifest_for_agent rx toml lower agent content = Inr parsed"
  shows "\<exists>cs. compile_manifest rx lower (prm_manifest parsed) = Inr cs"
  using assms parsed_compiles
  by (fastforce simp: parse_remote_manifest_for_agent_def rbind_Inr_iff split: if_splits)

lemma override_compiles:
  assumes "read_override_manifest libs files agent = Inr manifest"
  shows "\<exists>cs. compile_manifest (dl_rx libs) lower manifest = Inr cs"
  using assms parsed_compiles
  by (fastforce simp: read_override_manifest_def rbind_Inr_iff map_err_Inr_iff)

lemma bundled_loads:
  assumes "compile_manifest (dl_rx libs) (dl_lower libs) bundled = Inr cs"
  shows "bundled_loaded_manifest libs bundled warning cached shadowing
    = Some \<lparr>lm_manifest = bundled, lm_compiled_rules = cs, lm_source = Bundled, lm_warning = warning,
        lm_cached_remote_version = cached, lm_local_override_shadowing_remote = shadowing\<rparr>"
  using assms by (simp add: bundled_loaded_manifest_def loaded_manifest_of_def)

lemma remote_loads:
  assumes bundled: "compile_manifest (dl_rx libs) (dl_lower libs) bundled = Inr cs"
    and exists: "mf_remote_exists files agent"
  shows "\<exists>loaded. read_remote_manifest libs files agent bundled = Some (Some loaded)
    \<and> (case usable_remote libs files agent bundled of
         Some manifest \<Rightarrow> loaded_as libs manifest (\<lambda>s. \<exists>v. s = Remote v) False loaded
       | None \<Rightarrow> loaded_as libs bundled (\<lambda>s. s = Bundled) True loaded)"
proof (cases "rbind (ok_or None (mf_remote_text files agent)) (\<lambda>content.
      map_err Some (parse_remote_manifest_for_agent (dl_rx libs) (dl_toml libs) (dl_lower libs) agent content))")
  case (Inl e)
  then have "usable_remote libs files agent bundled = None"
    using exists by (auto simp: usable_remote_def split: option.splits sum.splits)
  then show ?thesis
    using Inl exists bundled by (simp add: read_remote_manifest_def bundled_loads loaded_as_def)
next
  case (Inr parsed)
  then obtain content where content: "mf_remote_text files agent = Some content"
      "parse_remote_manifest_for_agent (dl_rx libs) (dl_toml libs) (dl_lower libs) agent content = Inr parsed"
    by (cases "mf_remote_text files agent") (auto simp: rbind_Inr_iff map_err_Inr_iff ok_or.simps)
  obtain cs' where cs': "compile_manifest (dl_rx libs) (dl_lower libs) (prm_manifest parsed) = Inr cs'"
    using remote_compiles content(2) by blast
  show ?thesis
    using content exists bundled cs'
    by (auto simp: usable_remote_def older_def read_remote_manifest_def Let_def bundled_loads loaded_as_def
        loaded_manifest_of_def split: option.splits)
qed

text \<open>
  C20: when the bundled manifest of an agent is valid, loading neither panics nor fails: the override is
  used when it is valid and for this agent, else the cached remote manifest when it is valid and not
  older than the bundled one, else the bundled one; what is used is compiled; and there is a warning
  exactly when the override, or without one the remote manifest, is there and not used.
\<close>

theorem best_manifest_is_loaded:
  assumes "mf_bundled files (agent_label agent) = Some content"
    and "parse_manifest (dl_rx libs) (dl_toml libs) content = Inr bundled"
  shows "\<exists>loaded. load_manifest_uncached libs files agent = Some (Some loaded)
    \<and> (case usable_override libs files agent of
         Some manifest \<Rightarrow> lm_manifest loaded = manifest \<and> lm_source loaded = Override
       | None \<Rightarrow>
           (case usable_remote libs files agent bundled of
              Some manifest \<Rightarrow> lm_manifest loaded = manifest \<and> (\<exists>v. lm_source loaded = Remote v)
            | None \<Rightarrow> lm_manifest loaded = bundled \<and> lm_source loaded = Bundled))
    \<and> compile_manifest (dl_rx libs) (dl_lower libs) (lm_manifest loaded) = Inr (lm_compiled_rules loaded)
    \<and> (lm_warning loaded \<noteq> None \<longleftrightarrow>
         (if mf_override_exists files agent then usable_override libs files agent = None
          else mf_remote_exists files agent \<and> usable_remote libs files agent bundled = None))"
proof -
  obtain cs where cs: "compile_manifest (dl_rx libs) (dl_lower libs) bundled = Inr cs"
    using parsed_compiles assms(2) by blast
  let ?base = "\<lambda>loaded. (case usable_remote libs files agent bundled of
      Some manifest \<Rightarrow> loaded_as libs manifest (\<lambda>s. \<exists>v. s = Remote v) False loaded
    | None \<Rightarrow> loaded_as libs bundled (\<lambda>s. s = Bundled) (mf_remote_exists files agent) loaded)"
  obtain remote where remote: "read_remote_manifest libs files agent bundled = Some remote"
      "case remote of None \<Rightarrow> \<not> mf_remote_exists files agent | Some loaded \<Rightarrow> ?base loaded"
  proof (cases "mf_remote_exists files agent")
    case True
    then show ?thesis
      using that remote_loads [OF cs, of files agent] by (fastforce split: option.splits)
  next
    case False
    then show ?thesis
      using that by (simp add: read_remote_manifest_def)
  qed
  define cached where "cached = (case remote of None \<Rightarrow> None | Some loaded \<Rightarrow> cached_version_of loaded)"
  define shadowing where "shadowing = (mf_override_exists files agent \<and> cached \<noteq> None)"
  obtain base where base: "(case map_option (\<lambda>loaded. loaded\<lparr>lm_cached_remote_version := cached,
        lm_local_override_shadowing_remote := shadowing\<rparr>) remote of
      Some loaded \<Rightarrow> Some loaded | None \<Rightarrow> bundled_loaded_manifest libs bundled None cached shadowing) = Some base"
      "?base base"
  proof (cases remote)
    case None
    then have "usable_remote libs files agent bundled = None"
      using remote(2) by (simp add: usable_remote_def)
    then show ?thesis
      using None remote(2) that [OF trans [OF _ bundled_loads [OF cs]]] cs by (simp add: loaded_as_def)
  next
    case (Some loaded)
    then show ?thesis
      using that remote(2) by (simp add: loaded_as_def split: option.splits)
  qed
  have run: "load_manifest_uncached libs files agent =
      (if \<not> mf_override_exists files agent then Some (Some base)
       else case read_override_manifest libs files agent of
          Inl e \<Rightarrow> Some (Some (base\<lparr>lm_warning := Some (OverrideNotLoaded e)\<rparr>))
        | Inr manifest \<Rightarrow>
            if \<not> manifest_matches_agent (dl_lower libs) manifest agent
            then Some (Some (base\<lparr>lm_warning := Some (OverrideMismatch (am_id manifest) (agent_label agent))\<rparr>))
            else (case loaded_manifest_of libs manifest Override None cached shadowing of
                Inr loaded \<Rightarrow> Some (Some loaded)
              | Inl e \<Rightarrow> Some (Some (base\<lparr>lm_warning := Some (OverrideNotCompiled e)\<rparr>))))"
    unfolding load_manifest_uncached_def bundled_manifest_def assms option.case sum.case remote(1) Let_def
      cached_def [symmetric] shadowing_def [symmetric] base(1)
    by (simp split: sum.split)
  show ?thesis
  proof (cases "usable_override libs files agent")
    case None
    then obtain warning where "load_manifest_uncached libs files agent
        = Some (Some (if mf_override_exists files agent then base\<lparr>lm_warning := Some warning\<rparr> else base))"
      using run by (fastforce simp: usable_override_def split: sum.splits if_splits)
    then show ?thesis
      using None base(2) by (auto simp: loaded_as_def usable_override_def split: option.splits)
  next
    case (Some manifest)
    then have override: "mf_override_exists files agent" "read_override_manifest libs files agent = Inr manifest"
        "manifest_matches_agent (dl_lower libs) manifest agent"
      by (auto simp: usable_override_def split: sum.splits if_splits)
    obtain cs' where "compile_manifest (dl_rx libs) (dl_lower libs) manifest = Inr cs'"
      using override_compiles override(2) by blast
    then show ?thesis
      using Some run override by (simp add: loaded_manifest_of_def)
  qed
qed

text \<open>A broken override of pi, and a remote manifest that is newer than the bundled one.\<close>

definition pi_files :: manifest_files where
  "pi_files = \<lparr>mf_bundled = \<lambda>_. Some ''1'', mf_remote_exists = \<lambda>_. True, mf_remote_text = \<lambda>_. Some ''2'',
     mf_override_exists = \<lambda>_. True, mf_override_text = \<lambda>_. None\<rparr>"

theorem best_manifest_is_loaded_witness:
  "\<exists>loaded. load_manifest_uncached toy_libs pi_files AgPi = Some (Some loaded)
    \<and> lm_manifest loaded = pi_manifest ''2'' \<and> lm_warning loaded \<noteq> None"
proof -
  have "parse_manifest (dl_rx toy_libs) (dl_toml toy_libs) ''1'' = Inr (pi_manifest ''1'')"
    using pi_manifest_valid by (simp add: parse_manifest_def toy_libs_def ok_or.simps)
  note best_manifest_is_loaded [OF _ this, of pi_files AgPi]
  moreover have "usable_override toy_libs pi_files AgPi = None"
    by (simp add: usable_override_def pi_files_def read_override_manifest_def ok_or.simps)
  moreover have "\<not> older (pi_manifest ''2'') (pi_manifest ''1'')"
    using pi_versions by (simp add: older_def pi_manifest_def)
  then have "usable_remote toy_libs pi_files AgPi (pi_manifest ''1'') = Some (pi_manifest ''2'')"
    by (simp add: usable_remote_def pi_files_def pi_parsed)
  ultimately show ?thesis
    by (auto simp: pi_files_def)
qed

end
