(* ===== verification/Detect_Update.thy ===== *)
theory Detect_Update
  imports Detect_Engine
begin

text \<open>
  \<open>src/detect/manifest_update.rs\<close>: fetching new manifests from a catalog into the cache of remote
  manifests. What a URL serves, the clock, and whether a write succeeds are arguments. A write of a
  file is atomic: the text goes to a new file that replaces the old one.
\<close>

section \<open>State\<close>

record manifest_update_status =
  mus_last_check_unix :: "u64 option"
  mus_last_result :: "string option"
  mus_agents :: "(string, agent_remote_status) bmap"

definition status_default :: manifest_update_status where
  "status_default = \<lparr>mus_last_check_unix = None, mus_last_result = None, mus_agents = []\<rparr>"

definition agent_status :: "manifest_update_status \<Rightarrow> agent \<Rightarrow> agent_remote_status option" where
  "agent_status status agent = bm_get (mus_agents status) (agent_label agent)"

text \<open>The remote manifest of every agent, and the status file when it is there and readable.\<close>

record update_disk =
  ud_remote :: "agent \<Rightarrow> string option"
  ud_status :: "manifest_update_status option"

record update_env =
  ue_fetch :: "string \<Rightarrow> string option"
  ue_now :: u64
  ue_commit_ok :: "agent \<Rightarrow> bool"
  ue_save_ok :: bool

datatype agent_update_error =
    UpdateFetchFailed | UpdateInvalid manifest_error | UpdateOlder string string
  | UpdateChangedContent string | UpdateWriteFailed

datatype catalog_error =
    CatalogFetchFailed | CatalogToml | CatalogSchema u32 | CatalogEmptyPath string
  | CatalogUnsafePath string string | CatalogDuplicate string | CatalogNoBase string
  | CatalogUnsafeJoin string

record manifest_update_commit =
  muc_agent :: agent
  muc_version :: manifest_version

section \<open>The catalog\<close>

record manifest_catalog_agent =
  mca_id :: string
  mca_path :: string

record manifest_catalog =
  mc_schema_version :: u32
  mc_agents :: "manifest_catalog_agent list"

record catalog_agent =
  ca_agent :: agent
  ca_path :: string

definition unsafe_catalog_path :: "string \<Rightarrow> bool" where
  "unsafe_catalog_path path \<longleftrightarrow>
     str_contains ''://'' path \<or> starts_with ''/'' path
     \<or> list_ex (\<lambda>part. part = ''..'') (split_on CHR ''/'' path)"

fun catalog_entries ::
  "lower \<Rightarrow> string bset \<Rightarrow> manifest_catalog_agent list \<Rightarrow> catalog_error + catalog_agent list" where
  "catalog_entries lower seen [] = Inr []"
| "catalog_entries lower seen (entry # entries) =
     (case parse_agent_label lower (mca_id entry) of
        None \<Rightarrow> catalog_entries lower seen entries
      | Some agent \<Rightarrow>
          if is_blank (mca_path entry) then Inl (CatalogEmptyPath (mca_id entry))
          else if unsafe_catalog_path (mca_path entry)
          then Inl (CatalogUnsafePath (mca_id entry) (mca_path entry))
          else if agent_label agent \<in> set seen then Inl (CatalogDuplicate (mca_id entry))
          else rbind (catalog_entries lower (bs_insert (agent_label agent) seen) entries)
                 (\<lambda>rest. Inr (\<lparr>ca_agent = agent, ca_path = mca_path entry\<rparr> # rest)))"

definition parse_catalog ::
  "(string \<Rightarrow> manifest_catalog option) \<Rightarrow> lower \<Rightarrow> string \<Rightarrow> catalog_error + catalog_agent list" where
  "parse_catalog toml lower content =
     rbind (ok_or CatalogToml (toml content)) (\<lambda>catalog.
       if mc_schema_version catalog \<noteq> 1 then Inl (CatalogSchema (mc_schema_version catalog))
       else catalog_entries lower [] (mc_agents catalog))"

definition base_url :: "string \<Rightarrow> catalog_error + string" where
  "base_url url =
     (case rsplit_once CHR ''/'' url of None \<Rightarrow> Inl (CatalogNoBase url) | Some (base, _) \<Rightarrow> Inr base)"

definition join_url :: "string \<Rightarrow> string \<Rightarrow> catalog_error + string" where
  "join_url base path =
     (if unsafe_catalog_path path then Inl (CatalogUnsafeJoin path)
      else Inr (rev (dropWhile (\<lambda>c. c = CHR ''/'') (rev base)) @ ''/'' @ path))"

section \<open>One agent\<close>

definition cached_remote_version ::
  "detect_libs \<Rightarrow> update_disk \<Rightarrow> agent \<Rightarrow> manifest_version option" where
  "cached_remote_version libs disk agent =
     (case ud_remote disk agent of
        None \<Rightarrow> None
      | Some content \<Rightarrow>
          (case parse_remote_manifest_for_agent (dl_rx libs) (dl_toml libs) (dl_lower libs) agent content of
             Inl _ \<Rightarrow> None | Inr parsed \<Rightarrow> Some (prm_version parsed)))"

definition commit_remote_manifest ::
  "update_env \<Rightarrow> agent \<Rightarrow> string \<Rightarrow> update_disk \<Rightarrow> update_disk \<times> (agent_update_error + unit)" where
  "commit_remote_manifest env agent content disk =
     (if ue_commit_ok env agent
      then (disk\<lparr>ud_remote := (ud_remote disk)(agent \<mapsto> content)\<rparr>, Inr ())
      else (disk, Inl UpdateWriteFailed))"

definition process_agent_manifest ::
  "detect_libs \<Rightarrow> update_env \<Rightarrow> agent \<Rightarrow> string \<Rightarrow> update_disk
     \<Rightarrow> update_disk \<times> (agent_update_error + manifest_update_commit option)" where
  "process_agent_manifest libs env agent content disk =
     (case parse_remote_manifest_for_agent (dl_rx libs) (dl_toml libs) (dl_lower libs) agent content of
        Inl e \<Rightarrow> (disk, Inl (UpdateInvalid e))
      | Inr parsed \<Rightarrow>
          let version = prm_version parsed;
              commit = (case commit_remote_manifest env agent content disk of
                  (disk, Inl e) \<Rightarrow> (disk, Inl e)
                | (disk, Inr _) \<Rightarrow> (disk, Inr (Some \<lparr>muc_agent = agent, muc_version = version\<rparr>)))
          in (case cached_remote_version libs disk agent of
                None \<Rightarrow> commit
              | Some current \<Rightarrow>
                  (case version_cmp version current of
                     OrdLess \<Rightarrow> (disk, Inl (UpdateOlder (version_text version) (version_text current)))
                   | OrdEqual \<Rightarrow>
                       if (case ud_remote disk agent of None \<Rightarrow> [] | Some committed \<Rightarrow> committed) \<noteq> content
                       then (disk, Inl (UpdateChangedContent (version_text version)))
                       else (disk, Inr None)
                   | OrdGreater \<Rightarrow> commit)))"

section \<open>One check\<close>

text \<open>\<open>describe\<close> is the message of an error.\<close>

definition status_entry ::
  "detect_libs \<Rightarrow> (agent_update_error \<Rightarrow> string) \<Rightarrow> update_env \<Rightarrow> agent \<Rightarrow> update_disk
     \<Rightarrow> agent_update_error + manifest_update_commit option \<Rightarrow> agent_remote_status" where
  "status_entry libs describe env agent disk outcome =
     (let cached = map_option version_text (cached_remote_version libs disk agent)
      in case outcome of
           Inr (Some commit) \<Rightarrow>
             \<lparr>ars_cached_version = Some (version_text (muc_version commit)),
              ars_attempted_version = Some (version_text (muc_version commit)),
              ars_last_checked_unix = Some (ue_now env), ars_last_result = ''updated'', ars_last_error = None\<rparr>
         | Inr None \<Rightarrow>
             \<lparr>ars_cached_version = cached, ars_attempted_version = None,
              ars_last_checked_unix = Some (ue_now env), ars_last_result = ''current'', ars_last_error = None\<rparr>
         | Inl e \<Rightarrow>
             \<lparr>ars_cached_version = cached, ars_attempted_version = None,
              ars_last_checked_unix = Some (ue_now env), ars_last_result = ''failed'',
              ars_last_error = Some (describe e)\<rparr>)"

fun update_entries ::
  "detect_libs \<Rightarrow> (agent_update_error \<Rightarrow> string) \<Rightarrow> update_env \<Rightarrow> string \<Rightarrow> catalog_agent list
     \<Rightarrow> manifest_update_status \<Rightarrow> manifest_update_commit list \<Rightarrow> update_disk
     \<Rightarrow> update_disk \<times> (catalog_error + manifest_update_status \<times> manifest_update_commit list)" where
  "update_entries libs describe env base [] status updated disk = (disk, Inr (status, updated))"
| "update_entries libs describe env base (entry # entries) status updated disk =
     (case join_url base (ca_path entry) of
        Inl e \<Rightarrow> (disk, Inl e)
      | Inr url \<Rightarrow>
          let (disk, outcome) = (case ue_fetch env url of
                None \<Rightarrow> (disk, Inl UpdateFetchFailed)
              | Some content \<Rightarrow> process_agent_manifest libs env (ca_agent entry) content disk);
              status = status\<lparr>mus_agents := bm_insert (agent_label (ca_agent entry))
                (status_entry libs describe env (ca_agent entry) disk outcome) (mus_agents status)\<rparr>;
              updated = (case outcome of Inr (Some commit) \<Rightarrow> updated @ [commit] | _ \<Rightarrow> updated)
          in update_entries libs describe env base entries status updated disk)"

definition load_status :: "update_disk \<Rightarrow> manifest_update_status" where
  "load_status disk = (case ud_status disk of None \<Rightarrow> status_default | Some status \<Rightarrow> status)"

definition save_status ::
  "update_env \<Rightarrow> manifest_update_status \<Rightarrow> update_disk \<Rightarrow> update_disk \<times> bool" where
  "save_status env status disk =
     (if ue_save_ok env then (disk\<lparr>ud_status := Some status\<rparr>, True) else (disk, False))"

definition check_and_update_from_url ::
  "detect_libs \<Rightarrow> (string \<Rightarrow> manifest_catalog option) \<Rightarrow> (agent_update_error \<Rightarrow> string) \<Rightarrow> string
     \<Rightarrow> update_env \<Rightarrow> string \<Rightarrow> update_disk
     \<Rightarrow> update_disk \<times> (catalog_error + manifest_update_commit list \<times> manifest_update_status)" where
  "check_and_update_from_url libs toml describe save_failed env url disk =
     (case rbind (ok_or CatalogFetchFailed (ue_fetch env url)) (\<lambda>content.
         rbind (parse_catalog toml (dl_lower libs) content) (\<lambda>catalog.
         rbind (base_url url) (\<lambda>base. Inr (catalog, base)))) of
        Inl e \<Rightarrow> (disk, Inl e)
      | Inr (catalog, base) \<Rightarrow>
          let status = (load_status disk)\<lparr>mus_last_check_unix := Some (ue_now env),
                mus_last_result := Some ''checked''\<rparr>
          in (case update_entries libs describe env base catalog status [] disk of
                (disk, Inl e) \<Rightarrow> (disk, Inl e)
              | (disk, Inr (status, updated)) \<Rightarrow>
                  (case save_status env status disk of
                     (disk, True) \<Rightarrow> (disk, Inr (updated, status))
                   | (disk, False) \<Rightarrow>
                       (disk, Inr (updated, status\<lparr>mus_last_result := Some save_failed\<rparr>)))))"

text \<open>
  \<open>auto_update\<close>: what it sends to the application, and whether it loads the manifests again first.
  \<open>failed\<close> is the message of a failed check.
\<close>

definition auto_update ::
  "detect_libs \<Rightarrow> (string \<Rightarrow> manifest_catalog option) \<Rightarrow> (agent_update_error \<Rightarrow> string) \<Rightarrow> string
     \<Rightarrow> (catalog_error \<Rightarrow> string) \<Rightarrow> update_env \<Rightarrow> string \<Rightarrow> update_disk
     \<Rightarrow> update_disk \<times> bool \<times> manifest_update_commit list \<times> manifest_update_status" where
  "auto_update libs toml describe save_failed failed env url disk =
     (case check_and_update_from_url libs toml describe save_failed env url disk of
        (disk, Inr (updated, status)) \<Rightarrow> (disk, updated \<noteq> [], updated, status)
      | (disk, Inl e) \<Rightarrow>
          let status = (load_status disk)\<lparr>mus_last_check_unix := Some (ue_now env),
                mus_last_result := Some (failed e)\<rparr>
          in (fst (save_status env status disk), False, [], status))"

end
