(* ===== verification/Detect_Update_Props.thy ===== *)
theory Detect_Update_Props
  imports Detect_Update Detect_Sample
begin

text \<open>
  The order of manifest versions is the numeric order of their segments without trailing zeros, and
  no update replaces a cached manifest by an older one or by another one of the same version.
\<close>

section \<open>The order of versions\<close>

definition significant :: "u64 list \<Rightarrow> u64 list" where
  "significant ns = rev (dropWhile (\<lambda>n. n = 0) (rev ns))"

lemma significant_simps [simp]:
  "significant [] = []"
  "significant (n # ns) = (if n = 0 \<and> significant ns = [] then [] else n # significant ns)"
  by (auto simp: significant_def dropWhile_append dropWhile_eq_Nil_conv)

definition version_numbers :: "manifest_version \<Rightarrow> u64 list" where
  "version_numbers v = significant (map segment_value (split_on CHR ''.'' (version_text v)))"

definition compare_numbers :: "u64 list \<Rightarrow> u64 list \<Rightarrow> ordering" where
  "compare_numbers a b = (if a < b then OrdLess else if a = b then OrdEqual else OrdGreater)"

lemma compare_numbers_simps [simp]:
  "compare_numbers (m # a) (n # b) =
     (if m < n then OrdLess else if m > n then OrdGreater else compare_numbers a b)"
  "compare_numbers [] (n # b) = OrdLess" "compare_numbers (m # a) [] = OrdGreater"
  "compare_numbers [] [] = OrdEqual"
  "a \<noteq> [] \<Longrightarrow> compare_numbers a [] = OrdGreater" "b \<noteq> [] \<Longrightarrow> compare_numbers [] b = OrdLess"
  by (auto simp: compare_numbers_def neq_Nil_conv)

lemma cmp_segments_numbers:
  "cmp_segments ls rs = compare_numbers (significant (map segment_value ls)) (significant (map segment_value rs))"
proof (induction ls rs rule: cmp_segments.induct)
  case (1 l ls r rs)
  have zero: "\<not> n < (0 :: u64)" "0 < n \<longleftrightarrow> n \<noteq> 0" for n
    by (auto simp: word_gt_0)
  show ?case
  proof (cases "segment_value l = segment_value r")
    case True
    then show ?thesis
      using 1 by (cases "significant (map segment_value ls)"; cases "significant (map segment_value rs)") auto
  next
    case False
    then show ?thesis
      using zero by auto
  qed
qed auto

lemma version_cmp_numbers: "version_cmp a b = compare_numbers (version_numbers a) (version_numbers b)"
  by (simp add: version_cmp_def version_numbers_def cmp_segments_numbers)

text \<open>
  Versions are compared as their numbers are, segment by segment, trailing zeros apart; so the
  comparison is a total order in which only such versions are equal.
\<close>

theorem version_order_is_numeric:
  "(version_cmp a b = OrdLess) = (version_numbers a < version_numbers b)
    \<and> (version_cmp a b = OrdEqual) = (version_numbers a = version_numbers b)
    \<and> (version_cmp a b = OrdGreater) = (version_numbers b < version_numbers a)"
  by (auto simp: version_cmp_numbers compare_numbers_def)

section \<open>Updates\<close>

text \<open>What a step may do to the cache: nothing is lost, nothing goes back.\<close>

definition advances :: "detect_libs \<Rightarrow> update_disk \<Rightarrow> update_disk \<Rightarrow> bool" where
  "advances libs disk disk' \<longleftrightarrow>
     (\<forall>agent v. cached_remote_version libs disk agent = Some v \<longrightarrow>
        ud_remote disk' agent = ud_remote disk agent
        \<or> (\<exists>v'. cached_remote_version libs disk' agent = Some v' \<and> version_cmp v' v = OrdGreater))"

lemma cached_same: "ud_remote disk' agent = ud_remote disk agent
    \<Longrightarrow> cached_remote_version libs disk' agent = cached_remote_version libs disk agent"
  by (simp add: cached_remote_version_def)

lemma advances_refl [simp]: "advances libs disk disk"
  by (simp add: advances_def)

lemma greater_numbers: "version_cmp a b = OrdGreater \<longleftrightarrow> version_numbers b < version_numbers a"
  by (auto simp: version_cmp_numbers compare_numbers_def)

lemma advances_trans:
  assumes "advances libs a b" and "advances libs b c"
  shows "advances libs a c"
  unfolding advances_def
proof (intro allI impI)
  fix agent v
  assume "cached_remote_version libs a agent = Some v"
  then consider "ud_remote b agent = ud_remote a agent" "cached_remote_version libs b agent = Some v"
    | v' where "cached_remote_version libs b agent = Some v'" "version_cmp v' v = OrdGreater"
    using assms(1) cached_same [of b agent a libs] unfolding advances_def by metis
  then show "ud_remote c agent = ud_remote a agent
      \<or> (\<exists>v'. cached_remote_version libs c agent = Some v' \<and> version_cmp v' v = OrdGreater)"
  proof cases
    case 1
    then show ?thesis
      using assms(2) unfolding advances_def by metis
  next
    case 2
    then consider "ud_remote c agent = ud_remote b agent"
      | v'' where "cached_remote_version libs c agent = Some v''" "version_cmp v'' v' = OrdGreater"
      using assms(2) unfolding advances_def by metis
    then show ?thesis
    proof cases
      case 1
      then have "cached_remote_version libs c agent = Some v'"
        using cached_same [of c agent b libs] 2(1) by simp
      then show ?thesis
        using 2(2) by blast
    next
      case (2 v'')
      then have "version_cmp v'' v = OrdGreater"
        using \<open>version_cmp v' v = OrdGreater\<close> unfolding greater_numbers by (meson less_trans)
      then show ?thesis
        using 2(1) by blast
    qed
  qed
qed

lemma process_advances: "advances libs disk (fst (process_agent_manifest libs env agent content disk))"
proof (cases "parse_remote_manifest_for_agent (dl_rx libs) (dl_toml libs) (dl_lower libs) agent content")
  case (Inr parsed)
  let ?written = "disk\<lparr>ud_remote := (ud_remote disk)(agent \<mapsto> content)\<rparr>"
  have version: "cached_remote_version libs ?written agent = Some (prm_version parsed)"
    using Inr by (simp add: cached_remote_version_def)
  have "advances libs disk ?written"
    if "\<forall>v. cached_remote_version libs disk agent = Some v \<longrightarrow> version_cmp (prm_version parsed) v = OrdGreater"
    using that version by (auto simp: advances_def)
  then show ?thesis
    using Inr by (auto simp: process_agent_manifest_def commit_remote_manifest_def Let_def
        split: option.splits ordering.splits)
qed (simp add: process_agent_manifest_def)

lemma entries_advance:
  "advances libs disk (fst (update_entries libs describe env base entries status updated disk))"
proof (induction entries arbitrary: status updated disk)
  case (Cons entry entries)
  show ?case
  proof (cases "join_url base (ca_path entry)")
    case (Inr url)
    show ?thesis
    proof (cases "ue_fetch env url")
      case None
      then show ?thesis
        using Inr Cons.IH by (simp add: Let_def)
    next
      case (Some content)
      obtain disk1 outcome where step: "process_agent_manifest libs env (ca_agent entry) content disk = (disk1, outcome)"
        by fastforce
      then have "advances libs disk disk1"
        using process_advances [of libs disk env "ca_agent entry" content] by simp
      then show ?thesis
        using Inr Some step Cons.IH advances_trans by (fastforce simp: Let_def)
    qed
  qed simp
qed simp

lemma check_run:
  assumes "rbind (ok_or CatalogFetchFailed (ue_fetch env url)) (\<lambda>content.
         rbind (parse_catalog toml (dl_lower libs) content) (\<lambda>catalog.
         rbind (base_url url) (\<lambda>base. Inr (catalog, base)))) = Inr (catalog, base)"
    and "update_entries libs describe env base catalog
      ((load_status disk)\<lparr>mus_last_check_unix := Some (ue_now env), mus_last_result := Some ''checked''\<rparr>)
      [] disk = (disk1, r)"
  shows "fst (check_and_update_from_url libs toml describe save_failed env url disk)
    = (case r of Inl _ \<Rightarrow> disk1 | Inr (status, _) \<Rightarrow> fst (save_status env status disk1))"
  using assms by (simp add: check_and_update_from_url_def del: update_entries.simps
      split: sum.split prod.split bool.split)

lemma check_advances:
  "advances libs disk (fst (check_and_update_from_url libs toml describe save_failed env url disk))"
proof (cases "rbind (ok_or CatalogFetchFailed (ue_fetch env url)) (\<lambda>content.
         rbind (parse_catalog toml (dl_lower libs) content) (\<lambda>catalog.
         rbind (base_url url) (\<lambda>base. Inr (catalog, base))))")
  case (Inl e)
  then show ?thesis
    by (simp add: check_and_update_from_url_def)
next
  case (Inr found)
  obtain catalog base where found: "found = (catalog, base)"
    by fastforce
  let ?status = "(load_status disk)\<lparr>mus_last_check_unix := Some (ue_now env), mus_last_result := Some ''checked''\<rparr>"
  obtain disk1 r where run: "update_entries libs describe env base catalog ?status [] disk = (disk1, r)"
    by fastforce
  then have one: "advances libs disk disk1"
    using entries_advance [of libs disk describe env base catalog ?status "[]"] by simp
  have "advances libs disk (fst (save_status env status disk1))" for status
    using one by (simp add: advances_def save_status_def cached_remote_version_def)
  then show ?thesis
    using check_run [OF Inr [unfolded found] run] one by (simp split: sum.split prod.split)
qed


section \<open>An update\<close>

definition toy_catalog :: "string \<Rightarrow> manifest_catalog option" where
  "toy_catalog _ = Some \<lparr>mc_schema_version = 1, mc_agents = [\<lparr>mca_id = ''pi'', mca_path = ''pi.toml''\<rparr>]\<rparr>"

definition toy_update :: update_env where
  "toy_update = \<lparr>ue_fetch = \<lambda>_. Some ''2'', ue_now = 5, ue_commit_ok = \<lambda>_. True, ue_save_ok = True\<rparr>"

definition old_disk :: update_disk where
  "old_disk = \<lparr>ud_remote = \<lambda>_. Some ''1'', ud_status = None\<rparr>"

lemma toy_cached: "cached_remote_version toy_libs old_disk AgPi = Some (ManifestVersion ''1'')"
  by (simp add: cached_remote_version_def old_disk_def pi_parsed)

lemma toy_processed:
  "process_agent_manifest toy_libs toy_update AgPi ''2'' old_disk
     = (old_disk\<lparr>ud_remote := (ud_remote old_disk)(AgPi \<mapsto> ''2'')\<rparr>,
        Inr (Some \<lparr>muc_agent = AgPi, muc_version = ManifestVersion ''2''\<rparr>))"
  by (simp add: process_agent_manifest_def pi_parsed toy_cached pi_versions commit_remote_manifest_def toy_update_def)

definition new_disk :: update_disk where
  "new_disk = fst (check_and_update_from_url toy_libs toy_catalog (\<lambda>_. []) [] toy_update ''https://x/c'' old_disk)"

lemma new_disk_remote: "ud_remote new_disk AgPi = Some ''2''"
proof -
  have "str_trim ''pi'' = ''pi''"
    by (rule str_trim_plain) (simp add: plain_text_def ascii_code_def)
  moreover have "to_ascii_lowercase ''pi'' = ''pi''" "unsafe_catalog_path ''pi.toml'' = False"
      "List.find (\<lambda>suffix. ends_with suffix ''pi'') program_suffixes = None" "lookup_agent ''pi'' = Some AgPi"
    by code_simp+
  ultimately have catalog: "parse_catalog toy_catalog (dl_lower toy_libs) ''2''
      = Inr [\<lparr>ca_agent = AgPi, ca_path = ''pi.toml''\<rparr>]"
    by (simp add: parse_catalog_def toy_catalog_def parse_agent_label_def normalized_agent_lookup_name_def
        parse_canonical_agent_label_def toy_libs_def toy_not_blank)
  have url: "base_url ''https://x/c'' = Inr ''https://x''" "join_url ''https://x'' ''pi.toml'' = Inr ''https://x/pi.toml''"
      and fetch: "ue_fetch toy_update ''https://x/c'' = Some ''2''" "ue_fetch toy_update ''https://x/pi.toml'' = Some ''2''"
    by code_simp+
  have "ud_remote (fst (update_entries toy_libs (\<lambda>_. []) toy_update ''https://x''
      [\<lparr>ca_agent = AgPi, ca_path = ''pi.toml''\<rparr>] status [] old_disk)) AgPi = Some ''2''" for status
    by (simp add: url fetch Let_def toy_processed)
  moreover obtain disk1 r where run: "update_entries toy_libs (\<lambda>_. []) toy_update ''https://x''
      [\<lparr>ca_agent = AgPi, ca_path = ''pi.toml''\<rparr>] ((load_status old_disk)\<lparr>mus_last_check_unix := Some (ue_now toy_update),
        mus_last_result := Some ''checked''\<rparr>) [] old_disk = (disk1, r)"
    by fastforce
  ultimately have "ud_remote disk1 AgPi = Some ''2''"
    by (metis fst_conv)
  moreover have "rbind (ok_or CatalogFetchFailed (ue_fetch toy_update ''https://x/c'')) (\<lambda>content.
         rbind (parse_catalog toy_catalog (dl_lower toy_libs) content) (\<lambda>catalog.
         rbind (base_url ''https://x/c'') (\<lambda>base. Inr (catalog, base))))
      = (Inr ([\<lparr>ca_agent = AgPi, ca_path = ''pi.toml''\<rparr>], ''https://x'') :: catalog_error + _)"
    by (simp add: fetch catalog url)
  then have "new_disk = (case r of Inl _ \<Rightarrow> disk1 | Inr (status, _) \<Rightarrow> fst (save_status toy_update status disk1))"
    unfolding new_disk_def by (rule check_run) (rule run)
  moreover have "ud_remote (fst (save_status toy_update status disk1)) = ud_remote disk1" for status
    by (simp add: save_status_def)
  then have "ud_remote (case r of Inl _ \<Rightarrow> disk1 | Inr (status, _) \<Rightarrow> fst (save_status toy_update status disk1))
      = ud_remote disk1"
    by (simp split: sum.split prod.split)
  ultimately show ?thesis
    by (simp only:)
qed


end
