(* ===== verification/Metadata_Tokens.thy ===== *)
theory Metadata_Tokens
  imports Rust_Str
begin

text \<open>
  \<open>src/metadata_tokens.rs\<close>: small values with an optional deadline that tools attach to terminals and
  workspaces, and the numbers of reports. An instant is a number of nanoseconds; adding to it fails
  when its seconds no longer fit in 63 bits. A hash map is a map that is iterated in the order of its
  keys.
\<close>

section \<open>Instants\<close>

type_synonym instant = nat
type_synonym duration = nat

definition instant_checked_add :: "instant \<Rightarrow> duration \<Rightarrow> instant option" where
  "instant_checked_add t d = (if (t + d) div 10 ^ 9 < 2 ^ 63 then Some (t + d) else None)"

section \<open>Sequences\<close>

definition max_sequence_sources :: nat where "max_sequence_sources = 32"

definition sequence_is_fresh :: "(string, u64) bmap \<Rightarrow> string \<Rightarrow> u64 option \<Rightarrow> bool" where
  "sequence_is_fresh sequences source seq \<longleftrightarrow>
     (case seq of
        None \<Rightarrow> True
      | Some n \<Rightarrow> (case bm_get sequences source of None \<Rightarrow> True | Some last_n \<Rightarrow> n > last_n))"

text \<open>\<open>None\<close> is the error of too many sources.\<close>

definition accept_sequence ::
  "(string, u64) bmap \<Rightarrow> string \<Rightarrow> u64 option \<Rightarrow> (string, u64) bmap \<times> bool option" where
  "accept_sequence sequences source seq =
     (case seq of
        None \<Rightarrow> (sequences, Some True)
      | Some n \<Rightarrow>
          if \<not> sequence_is_fresh sequences source (Some n) then (sequences, Some False)
          else if bm_get sequences source = None \<and> length sequences \<ge> max_sequence_sources
          then (sequences, None)
          else (bm_insert source n sequences, Some True))"

section \<open>Tokens\<close>

record metadata_token =
  mk_value :: string
  mk_expires_at :: "instant option"

type_synonym metadata_tokens = "(string, metadata_token) bmap"

definition patch_one ::
  "instant option \<Rightarrow> string \<times> string option \<Rightarrow> metadata_tokens \<times> bool \<Rightarrow> metadata_tokens \<times> bool" where
  "patch_one expires_at change acc =
     (case (change, acc) of ((key, v), (entries, changed)) \<Rightarrow>
        (case v of
           Some s \<Rightarrow>
             let token = \<lparr>mk_value = s, mk_expires_at = expires_at\<rparr>
             in if bm_get entries key \<noteq> Some token then (bm_insert key token entries, True)
                else (entries, changed)
         | None \<Rightarrow> (bm_remove key entries, changed \<or> bm_get entries key \<noteq> None)))"

definition tokens_patch ::
  "(string, string option) bmap \<Rightarrow> duration option \<Rightarrow> instant \<Rightarrow> metadata_tokens
     \<Rightarrow> metadata_tokens \<times> bool" where
  "tokens_patch patch ttl now entries =
     (let expires_at = (case ttl of None \<Rightarrow> None | Some d \<Rightarrow> instant_checked_add now d)
      in fold (patch_one expires_at) patch (entries, False))"

definition tokens_values :: "metadata_tokens \<Rightarrow> (string, string) bmap" where
  "tokens_values entries = bm_map_values mk_value entries"

definition key_count_after_patch :: "(string, string option) bmap \<Rightarrow> metadata_tokens \<Rightarrow> nat" where
  "key_count_after_patch patch entries =
     length (fold (\<lambda>(key, v) keys. if v \<noteq> None then bs_insert key keys else removeAll key keys) patch
       (bm_keys (tokens_values entries)))"

definition tokens_next_expiry :: "metadata_tokens \<Rightarrow> instant option" where
  "tokens_next_expiry entries =
     (case List.map_filter mk_expires_at (bm_values entries) of [] \<Rightarrow> None | t # ts \<Rightarrow> Some (fold min ts t))"

definition tokens_expire_at :: "instant \<Rightarrow> metadata_tokens \<Rightarrow> metadata_tokens \<times> bool" where
  "tokens_expire_at now entries =
     (let kept = filter (\<lambda>(_, token). case mk_expires_at token of None \<Rightarrow> True | Some deadline \<Rightarrow> deadline > now)
          entries
      in (kept, length kept \<noteq> length entries))"

section \<open>What the tokens are after a patch\<close>

lemma keys_patch: "set (fold (\<lambda>(key, v) keys. if v \<noteq> None then bs_insert key keys else removeAll key keys) patch keys)
    = {k. case map_of (rev patch) k of None \<Rightarrow> k \<in> set keys | Some v \<Rightarrow> v \<noteq> None}"
proof (induction patch arbitrary: keys)
  case (Cons change patch)
  obtain key v where "change = (key, v)"
    by fastforce
  then show ?case
    using Cons.IH by (auto simp: map_add_Some_iff map_add_def split: option.splits)
qed simp

lemma patched:
  "bm_ok entries \<Longrightarrow> bm_ok (fst (fold (patch_one expires_at) patch (entries, changed)))
    \<and> (\<forall>k. bm_get (fst (fold (patch_one expires_at) patch (entries, changed))) k
         = (case map_of (rev patch) k of
              None \<Rightarrow> bm_get entries k
            | Some v \<Rightarrow> map_option (\<lambda>s. \<lparr>mk_value = s, mk_expires_at = expires_at\<rparr>) v))"
proof (induction patch arbitrary: entries changed)
  case (Cons change patch)
  obtain key v where change: "change = (key, v)"
    by fastforce
  let ?next = "patch_one expires_at change (entries, changed)"
  have ok: "bm_ok (fst ?next)"
    using Cons.prems by (auto simp: change patch_one_def Let_def split: option.split)
  have get: "bm_get (fst ?next) k = (if k = key then map_option (\<lambda>s. \<lparr>mk_value = s, mk_expires_at = expires_at\<rparr>) v
      else bm_get entries k)" for k
    using Cons.prems by (auto simp: change patch_one_def Let_def split: option.split)
  show ?case
    using Cons.IH [OF ok, of "snd ?next"] get
    by (auto simp: change map_add_def split: option.split)
qed simp

lemma patch_reports:
  "distinct (map fst patch) \<Longrightarrow> snd (fold (patch_one expires_at) patch (entries, changed))
     = (changed \<or> (\<exists>(k, v) \<in> set patch. bm_get entries k
          \<noteq> map_option (\<lambda>s. \<lparr>mk_value = s, mk_expires_at = expires_at\<rparr>) v))"
proof (induction patch arbitrary: entries changed)
  case (Cons change patch)
  obtain key v where change: "change = (key, v)"
    by fastforce
  let ?new = "\<lambda>v. map_option (\<lambda>s. \<lparr>mk_value = s, mk_expires_at = expires_at\<rparr>) v"
  obtain entries' changed' where step: "patch_one expires_at change (entries, changed) = (entries', changed')"
    by fastforce
  have changed': "changed' = (changed \<or> bm_get entries key \<noteq> ?new v)"
    using step by (auto simp: change patch_one_def Let_def split: option.splits if_splits)
  have others: "bm_get entries' k = bm_get entries k" if "k \<noteq> key" for k
    using step that by (auto simp: change patch_one_def Let_def split: option.splits if_splits)
  have "\<forall>(k, w) \<in> set patch. k \<noteq> key"
    using Cons.prems by (force simp: change)
  then have "(\<exists>(k, w) \<in> set patch. bm_get entries' k \<noteq> ?new w) = (\<exists>(k, w) \<in> set patch. bm_get entries k \<noteq> ?new w)"
    using others by (intro bex_cong) auto
  then show ?case
    using Cons.IH [of entries' changed'] Cons.prems changed' step by (auto simp: change)
qed simp

lemma bs_ok_removeAll: "bs_ok s \<Longrightarrow> bs_ok (removeAll x s)"
  by (simp add: bs_ok_def removeAll_filter_not_eq sorted_wrt_filter)

lemma keys_ok: "bs_ok keys \<Longrightarrow>
    bs_ok (fold (\<lambda>(key, v) keys. if v \<noteq> None then bs_insert key keys else removeAll key keys) patch keys)"
proof (induction patch arbitrary: keys)
  case (Cons change patch)
  then show ?case
    using bs_ok_removeAll by (cases change) auto
qed simp

lemma map_of_rev_distinct: "distinct (map fst m) \<Longrightarrow> map_of (rev m) = map_of m"
  by (induction m) (auto simp: map_add_def fun_eq_iff map_of_eq_None_iff[symmetric] dom_def split: option.split)

lemma keys_iff: "bm_ok m \<Longrightarrow> k \<in> set (map fst m) \<longleftrightarrow> bm_get m k \<noteq> None"
  by (auto simp: bm_get_def map_of_eq_None_iff image_iff)

text \<open>
  The limit on tokens is checked against the number of tokens that the patch leaves; the patch
  gives every key it names its value and deadline, removes the others it names and touches nothing
  else; and it reports a change exactly when it changed something.
\<close>

theorem patch_is_counted_exactly:
  assumes "bm_ok entries" and "distinct (map fst patch)"
    and "tokens_patch patch ttl now entries = (entries', changed)"
  shows "key_count_after_patch patch entries = length entries'
    \<and> bm_get entries' k = (case map_of patch k of
        None \<Rightarrow> bm_get entries k
      | Some v \<Rightarrow> map_option (\<lambda>s. \<lparr>mk_value = s,
          mk_expires_at = (case ttl of None \<Rightarrow> None | Some d \<Rightarrow> instant_checked_add now d)\<rparr>) v)
    \<and> changed = (entries' \<noteq> entries)"
proof -
  define expires_at where "expires_at = (case ttl of None \<Rightarrow> None | Some d \<Rightarrow> instant_checked_add now d)"
  let ?new = "\<lambda>v. map_option (\<lambda>s. \<lparr>mk_value = s, mk_expires_at = expires_at\<rparr>) v"
  have run: "fold (patch_one expires_at) patch (entries, False) = (entries', changed)"
    using assms(3) by (simp add: tokens_patch_def expires_at_def)
  have same: "map_of (rev patch) = map_of patch"
    using assms(2) by (rule map_of_rev_distinct)
  have ok: "bm_ok entries'"
    and get: "bm_get entries' k = (case map_of patch k of None \<Rightarrow> bm_get entries k | Some v \<Rightarrow> ?new v)" for k
    using patched [OF assms(1), of expires_at patch False] run same by simp_all
  let ?keys = "fold (\<lambda>(key, v) keys. if v \<noteq> None then bs_insert key keys else removeAll key keys) patch
      (bm_keys (tokens_values entries))"
  have keys: "bm_keys (tokens_values entries) = map fst entries"
    by (simp add: bm_keys_def tokens_values_def)
  have "k \<in> set ?keys \<longleftrightarrow> k \<in> set (map fst entries')" for k
    unfolding keys_patch same keys mem_Collect_eq keys_iff [OF assms(1)] keys_iff [OF ok] get
    by (auto split: option.split)
  then have "set ?keys = set (map fst entries')"
    by blast
  moreover have "bs_ok ?keys"
    using assms(1) by (intro keys_ok bm_keys_ok) (simp add: tokens_values_def)
  then have "distinct ?keys"
    unfolding bs_ok_def strict_sorted_iff by (rule conjunct2)
  moreover have "distinct (map fst entries')"
    using ok by (rule bm_ok_distinct)
  ultimately have "length ?keys = length entries'"
    using distinct_card [of ?keys] distinct_card [of "map fst entries'"] by (simp only: length_map)
  moreover have "changed = (\<exists>(k, v) \<in> set patch. bm_get entries k \<noteq> ?new v)"
    using patch_reports [OF assms(2), of expires_at entries False] run by simp
  moreover have "\<dots> = (entries' \<noteq> entries)"
  proof
    assume "\<exists>(k, v) \<in> set patch. bm_get entries k \<noteq> ?new v"
    then obtain k v where "(k, v) \<in> set patch" "bm_get entries k \<noteq> ?new v"
      by auto
    then have "bm_get entries' k \<noteq> bm_get entries k"
      using get [of k] assms(2) by simp
    then show "entries' \<noteq> entries"
      by metis
  next
    assume "entries' \<noteq> entries"
    then obtain k where "bm_get entries' k \<noteq> bm_get entries k"
      using bm_ext ok assms(1) by blast
    then show "\<exists>(k, v) \<in> set patch. bm_get entries k \<noteq> ?new v"
      using get [of k] by (force split: option.splits dest: map_of_SomeD)
  qed
  ultimately show ?thesis
    using get [of k] unfolding key_count_after_patch_def expires_at_def by blast
qed

theorem patch_is_counted_exactly_witness:
  "key_count_after_patch [(''a'', None), (''b'', Some ''x'')] [(''a'', \<lparr>mk_value = ''y'', mk_expires_at = None\<rparr>)] = 1"
proof -
  have run: "tokens_patch [(''a'', None), (''b'', Some ''x'')] None 0 [(''a'', \<lparr>mk_value = ''y'', mk_expires_at = None\<rparr>)]
      = ([(''b'', \<lparr>mk_value = ''x'', mk_expires_at = None\<rparr>)], True)"
    by (simp add: tokens_patch_def patch_one_def bm_get_def bm_remove_def)
  show ?thesis
    using patch_is_counted_exactly [OF _ _ run] by (simp add: bm_ok_def)
qed

end
