(* ===== verification/Agent_Resume.thy ===== *)
theory Agent_Resume
  imports Detect_Agent
begin

text \<open>
  \<open>src/agent_resume.rs\<close>: the references to sessions of agents that are kept when a terminal is saved,
  and the commands that resume them.
\<close>

section \<open>References\<close>

datatype agent_session_ref_kind = KindId | KindPath

record agent_session_ref =
  sr_kind :: agent_session_ref_kind
  sr_value :: string

record agent_resume_plan =
  rp_agent :: string
  rp_argv :: "string list"
  rp_dedupe_key :: string

record persisted_agent_session =
  ps_source :: string
  ps_agent :: string
  ps_session_ref :: agent_session_ref

definition max_session_id_len :: nat where "max_session_id_len = 512"
definition max_session_path_len :: nat where "max_session_path_len = 4096"

definition has_control :: "string \<Rightarrow> bool" where
  "has_control s \<longleftrightarrow> list_ex is_control (utf8_chars s)"

definition valid_session_id :: "string \<Rightarrow> bool" where
  "valid_session_id s \<longleftrightarrow> s \<noteq> [] \<and> length s \<le> max_session_id_len \<and> \<not> has_control s"

definition valid_session_path :: "string \<Rightarrow> bool" where
  "valid_session_path s \<longleftrightarrow>
     s \<noteq> [] \<and> length s \<le> max_session_path_len \<and> \<not> has_control s \<and> path_is_absolute s"

definition session_ref_id :: "string \<Rightarrow> agent_session_ref option" where
  "session_ref_id s = (if valid_session_id s then Some \<lparr>sr_kind = KindId, sr_value = s\<rparr> else None)"

definition session_ref_path :: "string \<Rightarrow> agent_session_ref option" where
  "session_ref_path s = (if valid_session_path s then Some \<lparr>sr_kind = KindPath, sr_value = s\<rparr> else None)"

definition is_official_agent_source :: "string \<Rightarrow> string \<Rightarrow> bool" where
  "is_official_agent_source source label \<longleftrightarrow>
     (source, label) \<in> set [(''nagi:claude'', ''claude''), (''nagi:codex'', ''codex''),
       (''nagi:copilot'', ''copilot''), (''nagi:devin'', ''devin''), (''nagi:droid'', ''droid''),
       (''nagi:kimi'', ''kimi''), (''nagi:omp'', ''omp''), (''nagi:mastracode'', ''mastracode''),
       (''nagi:pi'', ''pi''), (''nagi:hermes'', ''hermes''), (''nagi:opencode'', ''opencode''),
       (''nagi:qodercli'', ''qodercli''), (''nagi:kilo'', ''kilo''), (''nagi:cursor'', ''cursor'')]"

definition is_reserved_native_state_source :: "string \<Rightarrow> string \<Rightarrow> bool" where
  "is_reserved_native_state_source source label \<longleftrightarrow>
     (source, label) \<in> set [(''nagi:claude'', ''claude''), (''nagi:codex'', ''codex''),
       (''nagi:copilot'', ''copilot''), (''nagi:devin'', ''devin''), (''nagi:droid'', ''droid''),
       (''nagi:qodercli'', ''qodercli''), (''nagi:cursor'', ''cursor'')]"

definition session_ref_from_report ::
  "string \<Rightarrow> string \<Rightarrow> string option \<Rightarrow> string option \<Rightarrow> agent_session_ref option" where
  "session_ref_from_report source label session_id session_path =
     (if \<not> is_official_agent_source source label then None
      else
        let by_id = (case session_id of None \<Rightarrow> None | Some s \<Rightarrow> session_ref_id s)
        in if label = ''pi'' \<or> label = ''omp''
           then or_else (case session_path of None \<Rightarrow> None | Some s \<Rightarrow> session_ref_path s) by_id
           else by_id)"

definition session_start_sources :: "string list" where
  "session_start_sources = [''startup'', ''resume'', ''clear'', ''compact'', ''new'', ''fork'']"

definition normalize_session_start_source :: "string option \<Rightarrow> string option" where
  "normalize_session_start_source s =
     (case map_option str_trim s of
        None \<Rightarrow> None | Some source \<Rightarrow> if source \<in> set session_start_sources then Some source else None)"

definition session_ref_from_snapshot ::
  "string \<Rightarrow> string \<Rightarrow> agent_session_ref_kind \<Rightarrow> string \<Rightarrow> persisted_agent_session option" where
  "session_ref_from_snapshot source label kind s =
     (if \<not> is_official_agent_source source label then None
      else
        map_option (\<lambda>r. \<lparr>ps_source = source, ps_agent = label, ps_session_ref = r\<rparr>)
          (case kind of
             KindPath \<Rightarrow> if label = ''pi'' \<or> label = ''omp'' then session_ref_path s else None
           | KindId \<Rightarrow> session_ref_id s))"

section \<open>Resuming\<close>

text \<open>The separator and the name of a kind as \<open>{:?}\<close> prints it.\<close>

definition nul :: char where "nul = CHR 0x00"

fun kind_text :: "agent_session_ref_kind \<Rightarrow> string" where
  "kind_text KindId = ''Id''" | "kind_text KindPath = ''Path''"

definition dedupe_key :: "string \<Rightarrow> string \<Rightarrow> agent_session_ref \<Rightarrow> string" where
  "dedupe_key source label r =
     source @ [nul] @ label @ [nul] @ kind_text (sr_kind r) @ [nul] @ sr_value r"

definition resume_argv :: "string \<Rightarrow> string \<Rightarrow> agent_session_ref \<Rightarrow> string list option" where
  "resume_argv source label r =
     (let by_id = (\<lambda>argv. if sr_kind r = KindId then Some argv else None); s = sr_value r
      in if (source, label) = (''nagi:claude'', ''claude'') then by_id [''claude'', ''--resume'', s]
         else if (source, label) = (''nagi:codex'', ''codex'') then by_id [''codex'', ''resume'', s]
         else if (source, label) = (''nagi:copilot'', ''copilot'') then by_id [''copilot'', ''--resume='' @ s]
         else if (source, label) = (''nagi:devin'', ''devin'') then by_id [''devin'', ''--resume'', s]
         else if (source, label) = (''nagi:droid'', ''droid'') then by_id [''droid'', ''--resume'', s]
         else if (source, label) = (''nagi:kimi'', ''kimi'') then by_id [''kimi'', ''--session'', s]
         else if (source, label) = (''nagi:mastracode'', ''mastracode'')
         then by_id [''mastracode'', ''--thread'', s]
         else if (source, label) = (''nagi:pi'', ''pi'') then Some [''pi'', ''--session'', s]
         else if (source, label) = (''nagi:omp'', ''omp'') then Some [''omp'', ''--resume='' @ s]
         else if (source, label) = (''nagi:hermes'', ''hermes'') then by_id [''hermes'', ''--resume'', s]
         else if (source, label) = (''nagi:opencode'', ''opencode'') then by_id [''opencode'', ''--session'', s]
         else if (source, label) = (''nagi:qodercli'', ''qodercli'') then by_id [''qodercli'', ''--resume'', s]
         else if (source, label) = (''nagi:kilo'', ''kilo'') then by_id [''kilo'', ''--session'', s]
         else if (source, label) = (''nagi:cursor'', ''cursor'')
         then by_id [''cursor-agent'', ''--resume'', s]
         else None)"

definition resume_plan :: "string \<Rightarrow> string \<Rightarrow> agent_session_ref \<Rightarrow> agent_resume_plan option" where
  "resume_plan source label r =
     (if \<not> is_official_agent_source source label then None
      else
        map_option (\<lambda>argv. \<lparr>rp_agent = label, rp_argv = argv, rp_dedupe_key = dedupe_key source label r\<rparr>)
          (resume_argv source label r))"

section \<open>What is kept can be resumed\<close>

text \<open>
  A session that an agent reported and that was accepted is restored unchanged from what a snapshot
  keeps of it, and there is a command that resumes it, whose last argument ends with the session.
\<close>

theorem reported_session_is_resumable:
  assumes "session_ref_from_report source label session_id session_path = Some r"
  shows "session_ref_from_snapshot source label (sr_kind r) (sr_value r)
      = Some \<lparr>ps_source = source, ps_agent = label, ps_session_ref = r\<rparr>
    \<and> (\<exists>plan flag. resume_plan source label r = Some plan \<and> rp_agent plan = label
         \<and> 2 \<le> length (rp_argv plan) \<and> last (rp_argv plan) = flag @ sr_value r)"
proof -
  have official: "is_official_agent_source source label"
    using assms by (auto simp: session_ref_from_report_def split: if_splits)
  have kind: "sr_kind r = KindId \<and> session_ref_id (sr_value r) = Some r
      \<or> sr_kind r = KindPath \<and> (label = ''pi'' \<or> label = ''omp'') \<and> session_ref_path (sr_value r) = Some r"
    using assms
    by (auto simp: session_ref_from_report_def session_ref_id_def session_ref_path_def Let_def
        split: if_splits option.splits elim!: or_else.elims)
  then have "session_ref_from_snapshot source label (sr_kind r) (sr_value r)
      = Some \<lparr>ps_source = source, ps_agent = label, ps_session_ref = r\<rparr>"
    using official by (auto simp: session_ref_from_snapshot_def)
  moreover have "sr_kind r = KindId \<or> label = ''pi'' \<or> label = ''omp''"
    using kind by blast
  then have "\<exists>argv flag. resume_argv source label r = Some argv \<and> 2 \<le> length argv \<and> last argv = flag @ sr_value r"
    using official unfolding is_official_agent_source_def list.set insert_iff empty_iff prod.inject
    by (elim disjE conjE FalseE) (simp_all add: resume_argv_def)
  ultimately show ?thesis
    using official by (auto simp: resume_plan_def)
qed

theorem reported_session_is_resumable_witness:
  "\<exists>plan. resume_plan ''nagi:pi'' ''pi'' \<lparr>sr_kind = KindId, sr_value = ''a1''\<rparr> = Some plan"
proof -
  have "is_official_agent_source ''nagi:pi'' ''pi''" "\<not> has_control ''a1''"
    by code_simp+
  then have "session_ref_from_report ''nagi:pi'' ''pi'' (Some ''a1'') None
      = Some \<lparr>sr_kind = KindId, sr_value = ''a1''\<rparr>"
    by (simp add: session_ref_from_report_def session_ref_id_def valid_session_id_def max_session_id_len_def)
  from reported_session_is_resumable [OF this] show ?thesis
    by blast
qed

end
