(* ===== verification/Terminal_State.thy ===== *)
theory Terminal_State
  imports Metadata_Tokens Agent_Resume
begin

text \<open>
  \<open>src/terminal/state.rs\<close>, \<open>metadata.rs\<close> and \<open>title.rs\<close>: what the server knows of a terminal and its
  agent, which state and presentation that comes to, and the observations that change it. The clock is
  an argument; where an operation reads it twice, the second reading is a second argument.
\<close>

section \<open>State\<close>

record hook_authority =
  hk_source :: string
  hk_agent_label :: string
  hk_state :: agent_state
  hk_message :: "string option"
  hk_reported_at :: instant
  hk_session_ref :: "agent_session_ref option"

datatype hook_suppression_reason = HookClear | ProcessExit

record suppressed_hook_report =
  sup_agent_label :: string
  sup_session_ref :: "agent_session_ref option"
  sup_observed_at :: instant
  sup_reason :: hook_suppression_reason

record stale_hook_session =
  shs_agent_label :: string
  shs_session_ref :: agent_session_ref

record agent_metadata =
  mt_source :: string
  mt_agent_label :: "string option"
  mt_applies_to_source :: "string option"
  mt_title :: "string option"
  mt_display_agent :: "string option"
  mt_state_labels :: "(string, string) bmap"
  mt_reported_at :: instant
  mt_title_reported_at :: "instant option"
  mt_display_agent_reported_at :: "instant option"
  mt_state_label_reported_at :: "(string, instant) bmap"
  mt_ttl :: "duration option"
  mt_expiry_event_pending :: bool

record effective_presentation =
  pr_title :: "string option"
  pr_display_agent :: "string option"
  pr_state_labels :: "(string, string) bmap"

record effective_state_change =
  esc_previous_agent_label :: "string option"
  esc_previous_known_agent :: "agent option"
  esc_previous_state :: agent_state
  esc_previous_presentation :: effective_presentation
  esc_agent_label :: "string option"
  esc_known_agent :: "agent option"
  esc_state :: agent_state
  esc_presentation :: effective_presentation

record terminal_state_mutation =
  tsm_effective_state_change :: "effective_state_change option"
  tsm_session_ref_changed :: bool

record terminal_state =
  ts_id :: string
  ts_cwd :: string
  ts_detected_agent :: "agent option"
  ts_fallback_state :: agent_state
  ts_fallback_visible_blocker :: bool
  ts_fallback_observed_at :: "instant option"
  ts_hook_authority :: "hook_authority option"
  ts_agent_metadata :: "(string, agent_metadata) bmap"
  ts_metadata_tokens :: metadata_tokens
  ts_persisted_agent_session :: "persisted_agent_session option"
  ts_terminal_title :: "string option"
  ts_manual_label :: "string option"
  ts_agent_name :: "string option"
  ts_hook_report_sequences :: "(string, u64) bmap"
  ts_suppressed_reports :: "(string, suppressed_hook_report) bmap"
  ts_stale_sessions :: "(string, stale_hook_session list) bmap"
  ts_metadata_report_sequences :: "(string, u64) bmap"
  ts_metadata_token_sequence_sources :: "string bset"
  ts_state :: agent_state
  ts_last_agent_state_change_seq :: "u64 option"
  ts_revision :: u64
  ts_launch_argv :: "string list option"
  ts_respawn_shell_on_exit :: bool
  ts_recent_agent_process_exit_at :: "instant option"
  ts_pending_agent_resume_plan :: "agent_resume_plan option"

definition terminal_state_new :: "string \<Rightarrow> string \<Rightarrow> terminal_state" where
  "terminal_state_new terminal_id cwd =
     \<lparr>ts_id = terminal_id, ts_cwd = cwd, ts_detected_agent = None, ts_fallback_state = AgentUnknown,
      ts_fallback_visible_blocker = False, ts_fallback_observed_at = None, ts_hook_authority = None,
      ts_agent_metadata = [], ts_metadata_tokens = [], ts_persisted_agent_session = None,
      ts_terminal_title = None, ts_manual_label = None, ts_agent_name = None,
      ts_hook_report_sequences = [], ts_suppressed_reports = [], ts_stale_sessions = [],
      ts_metadata_report_sequences = [], ts_metadata_token_sequence_sources = [],
      ts_state = AgentUnknown, ts_last_agent_state_change_seq = None, ts_revision = 0,
      ts_launch_argv = None, ts_respawn_shell_on_exit = False, ts_recent_agent_process_exit_at = None,
      ts_pending_agent_resume_plan = None\<rparr>"

definition with_launch_argv :: "string list \<Rightarrow> terminal_state \<Rightarrow> terminal_state" where
  "with_launch_argv argv st = st\<lparr>ts_launch_argv := Some argv\<rparr>"

definition with_respawn_shell_on_exit :: "terminal_state \<Rightarrow> terminal_state" where
  "with_respawn_shell_on_exit st = st\<lparr>ts_respawn_shell_on_exit := True\<rparr>"

definition with_pending_agent_resume_plan :: "agent_resume_plan \<Rightarrow> terminal_state \<Rightarrow> terminal_state" where
  "with_pending_agent_resume_plan plan st = st\<lparr>ts_pending_agent_resume_plan := Some plan\<rparr>"

section \<open>Titles and labels\<close>

definition claude_activity_glyphs :: "nat list" where
  "claude_activity_glyphs = [0xB7, 0x2722, 0x2733, 0x2736, 0x273B, 0x273D]"

definition stripped_terminal_title :: "string \<Rightarrow> string option" where
  "stripped_terminal_title raw =
     (let trimmed = str_trim raw
      in case utf8_split trimmed of
           [] \<Rightarrow> None
         | first # rest \<Rightarrow>
             let code = hd (utf8_chars first);
                 recognized = (0x2800 \<le> code \<and> code \<le> 0x28FF \<or> code \<in> set claude_activity_glyphs);
                 stripped = (if recognized \<and> (rest = [] \<or> whitespace_piece (hd rest))
                   then str_trim (concat rest) else trimmed)
             in if stripped = [] then None else Some stripped)"

record terminal_title_change =
  ttc_raw_changed :: bool
  ttc_stripped_changed :: bool

definition terminal_title_stripped :: "terminal_state \<Rightarrow> string option" where
  "terminal_title_stripped st =
     (case ts_terminal_title st of None \<Rightarrow> None | Some raw \<Rightarrow> stripped_terminal_title raw)"

definition set_terminal_title ::
  "string option \<Rightarrow> terminal_state \<Rightarrow> terminal_state \<times> terminal_title_change" where
  "set_terminal_title new_title st =
     (if ts_terminal_title st = new_title
      then (st, \<lparr>ttc_raw_changed = False, ttc_stripped_changed = False\<rparr>)
      else
        let renamed = st\<lparr>ts_terminal_title := new_title\<rparr>;
            stripped_changed = (terminal_title_stripped st \<noteq> terminal_title_stripped renamed)
        in (if stripped_changed then renamed\<lparr>ts_revision := ts_revision st + 1\<rparr> else renamed,
            \<lparr>ttc_raw_changed = True, ttc_stripped_changed = stripped_changed\<rparr>))"

definition non_empty :: "string \<Rightarrow> string option" where
  "non_empty s = (if s = [] then None else Some s)"

definition set_manual_label :: "string \<Rightarrow> terminal_state \<Rightarrow> terminal_state" where
  "set_manual_label label st = st\<lparr>ts_manual_label := non_empty (str_trim label)\<rparr>"

definition clear_manual_label :: "terminal_state \<Rightarrow> terminal_state" where
  "clear_manual_label st = st\<lparr>ts_manual_label := None\<rparr>"

definition set_agent_name :: "string \<Rightarrow> terminal_state \<Rightarrow> terminal_state" where
  "set_agent_name name st = st\<lparr>ts_agent_name := non_empty (str_trim name)\<rparr>"

definition clear_agent_name :: "terminal_state \<Rightarrow> terminal_state" where
  "clear_agent_name st = st\<lparr>ts_agent_name := None\<rparr>"

section \<open>The agent\<close>

definition effective_agent_label :: "terminal_state \<Rightarrow> string option" where
  "effective_agent_label st =
     (case ts_hook_authority st of
        Some authority \<Rightarrow> Some (hk_agent_label authority)
      | None \<Rightarrow> map_option agent_label (ts_detected_agent st))"

definition effective_known_agent :: "lower \<Rightarrow> terminal_state \<Rightarrow> agent option" where
  "effective_known_agent lower st =
     (case ts_hook_authority st of
        Some authority \<Rightarrow> parse_agent_label lower (hk_agent_label authority)
      | None \<Rightarrow> ts_detected_agent st)"

definition live_full_lifecycle_hook_authority :: "terminal_state \<Rightarrow> bool" where
  "live_full_lifecycle_hook_authority st \<longleftrightarrow>
     (case ts_hook_authority st of
        None \<Rightarrow> False
      | Some authority \<Rightarrow> full_lifecycle_hook_authority (hk_source authority) (hk_agent_label authority))"

definition hook_authority_not_newer_than :: "instant \<Rightarrow> terminal_state \<Rightarrow> bool" where
  "hook_authority_not_newer_than observed_at st \<longleftrightarrow>
     (case ts_hook_authority st of None \<Rightarrow> True | Some authority \<Rightarrow> hk_reported_at authority \<le> observed_at)"

definition fallback_not_older_than_hook :: "terminal_state \<Rightarrow> bool" where
  "fallback_not_older_than_hook st \<longleftrightarrow>
     (case ts_hook_authority st of
        None \<Rightarrow> True
      | Some authority \<Rightarrow>
          (case ts_fallback_observed_at st of
             None \<Rightarrow> False | Some observed_at \<Rightarrow> hk_reported_at authority \<le> observed_at))"

definition visible_blocker_overrides_hook :: "lower \<Rightarrow> terminal_state \<Rightarrow> bool" where
  "visible_blocker_overrides_hook lower st \<longleftrightarrow>
     \<not> live_full_lifecycle_hook_authority st \<and> ts_fallback_visible_blocker st
     \<and> fallback_not_older_than_hook st
     \<and> (case ts_hook_authority st of
          None \<Rightarrow> False
        | Some authority \<Rightarrow> hk_state authority \<noteq> AgentBlocked
            \<and> parse_agent_label lower (hk_agent_label authority) = ts_detected_agent st)"

section \<open>Metadata\<close>

definition metadata_guards_match :: "string option \<Rightarrow> string option \<Rightarrow> terminal_state \<Rightarrow> bool" where
  "metadata_guards_match label applies_to_source st \<longleftrightarrow>
     (case label of None \<Rightarrow> True | Some l \<Rightarrow> effective_agent_label st = Some l)
     \<and> (case applies_to_source of
          None \<Rightarrow> True
        | Some source \<Rightarrow>
            (case ts_hook_authority st of None \<Rightarrow> False | Some authority \<Rightarrow> hk_source authority = source))"

definition agent_metadata_matches_guards :: "terminal_state \<Rightarrow> agent_metadata \<Rightarrow> bool" where
  "agent_metadata_matches_guards st metadata \<longleftrightarrow>
     metadata_guards_match (mt_agent_label metadata) (mt_applies_to_source metadata) st"

definition agent_metadata_expiry :: "agent_metadata \<Rightarrow> instant option" where
  "agent_metadata_expiry metadata =
     map_option (\<lambda>ttl. case instant_checked_add (mt_reported_at metadata) ttl of
         None \<Rightarrow> mt_reported_at metadata | Some deadline \<Rightarrow> deadline) (mt_ttl metadata)"

definition agent_metadata_is_expired :: "instant \<Rightarrow> agent_metadata \<Rightarrow> bool" where
  "agent_metadata_is_expired now metadata \<longleftrightarrow>
     (case agent_metadata_expiry metadata of None \<Rightarrow> False | Some deadline \<Rightarrow> now \<ge> deadline)"

definition shows_something :: "agent_metadata \<Rightarrow> bool" where
  "shows_something metadata \<longleftrightarrow>
     mt_title metadata \<noteq> None \<or> mt_display_agent metadata \<noteq> None \<or> mt_state_labels metadata \<noteq> []"

definition agent_metadata_is_valid ::
  "terminal_state \<Rightarrow> instant \<Rightarrow> bool \<Rightarrow> agent_metadata \<Rightarrow> bool" where
  "agent_metadata_is_valid st now enforce_ttl metadata \<longleftrightarrow>
     shows_something metadata \<and> \<not> (enforce_ttl \<and> agent_metadata_is_expired now metadata)
     \<and> agent_metadata_matches_guards st metadata"

definition agent_metadata_is_visible_ignoring_ttl :: "terminal_state \<Rightarrow> agent_metadata \<Rightarrow> bool" where
  "agent_metadata_is_visible_ignoring_ttl st metadata \<longleftrightarrow>
     shows_something metadata \<and> agent_metadata_matches_guards st metadata"

definition valid_agent_metadata :: "terminal_state \<Rightarrow> instant \<Rightarrow> bool \<Rightarrow> agent_metadata list" where
  "valid_agent_metadata st now enforce_ttl =
     filter (agent_metadata_is_valid st now enforce_ttl) (bm_values (ts_agent_metadata st))"

text \<open>\<open>None\<close> comes before every instant; of several greatest elements the last is taken.\<close>

definition instant_key :: "instant option \<Rightarrow> nat" where
  "instant_key t = (case t of None \<Rightarrow> 0 | Some i \<Rightarrow> Suc i)"

fun last_max_by_key :: "('a \<Rightarrow> nat) \<Rightarrow> 'a list \<Rightarrow> 'a option" where
  "last_max_by_key key [] = None"
| "last_max_by_key key (x # xs) =
     (case last_max_by_key key xs of
        None \<Rightarrow> Some x | Some y \<Rightarrow> if key x > key y then Some x else Some y)"

definition newest_metadata_title :: "terminal_state \<Rightarrow> instant \<Rightarrow> bool \<Rightarrow> string option" where
  "newest_metadata_title st now enforce_ttl =
     (case last_max_by_key (instant_key \<circ> mt_title_reported_at)
             (filter (\<lambda>m. mt_title m \<noteq> None) (valid_agent_metadata st now enforce_ttl)) of
        None \<Rightarrow> None | Some m \<Rightarrow> mt_title m)"

definition newest_metadata_display_agent :: "terminal_state \<Rightarrow> instant \<Rightarrow> bool \<Rightarrow> string option" where
  "newest_metadata_display_agent st now enforce_ttl =
     (case last_max_by_key (instant_key \<circ> mt_display_agent_reported_at)
             (filter (\<lambda>m. mt_display_agent m \<noteq> None) (valid_agent_metadata st now enforce_ttl)) of
        None \<Rightarrow> None | Some m \<Rightarrow> mt_display_agent m)"

definition dated_labels :: "agent_metadata \<Rightarrow> (instant \<times> string \<times> string) list" where
  "dated_labels metadata =
     List.map_filter (\<lambda>(state, label).
         map_option (\<lambda>at. (at, state, label)) (bm_get (mt_state_label_reported_at metadata) state))
       (mt_state_labels metadata)"

definition effective_metadata_state_labels ::
  "terminal_state \<Rightarrow> instant \<Rightarrow> bool \<Rightarrow> (string, string) bmap" where
  "effective_metadata_state_labels st now enforce_ttl =
     bm_collect (map snd (sort_key fst (concat (map dated_labels (valid_agent_metadata st now enforce_ttl)))))"

definition presentation_with_ttl :: "instant \<Rightarrow> bool \<Rightarrow> terminal_state \<Rightarrow> effective_presentation" where
  "presentation_with_ttl now enforce_ttl st =
     \<lparr>pr_title = newest_metadata_title st now enforce_ttl,
      pr_display_agent = newest_metadata_display_agent st now enforce_ttl,
      pr_state_labels = effective_metadata_state_labels st now enforce_ttl\<rparr>"

definition effective_presentation_at :: "instant \<Rightarrow> terminal_state \<Rightarrow> effective_presentation" where
  "effective_presentation_at now st = presentation_with_ttl now True st"

definition effective_presentation_ignoring_ttl :: "instant \<Rightarrow> terminal_state \<Rightarrow> effective_presentation" where
  "effective_presentation_ignoring_ttl now st = presentation_with_ttl now False st"

definition clear_expiry_pending_for_hidden_metadata :: "terminal_state \<Rightarrow> terminal_state" where
  "clear_expiry_pending_for_hidden_metadata st =
     st\<lparr>ts_agent_metadata := bm_map_values
        (\<lambda>m. if mt_expiry_event_pending m \<and> \<not> agent_metadata_is_visible_ignoring_ttl st m
             then m\<lparr>mt_expiry_event_pending := False\<rparr> else m) (ts_agent_metadata st)\<rparr>"

section \<open>Recomputation\<close>

record previous_view =
  pv_agent_label :: "string option"
  pv_known_agent :: "agent option"
  pv_state :: agent_state
  pv_presentation :: effective_presentation

definition view_now :: "lower \<Rightarrow> instant \<Rightarrow> terminal_state \<Rightarrow> previous_view" where
  "view_now lower now st =
     \<lparr>pv_agent_label = effective_agent_label st, pv_known_agent = effective_known_agent lower st,
      pv_state = ts_state st, pv_presentation = effective_presentation_at now st\<rparr>"

definition arbitrated_state :: "lower \<Rightarrow> terminal_state \<Rightarrow> agent_state" where
  "arbitrated_state lower st =
     (if visible_blocker_overrides_hook lower st then AgentBlocked
      else case ts_hook_authority st of
          None \<Rightarrow> ts_fallback_state st | Some authority \<Rightarrow> hk_state authority)"

definition recompute_effective_state ::
  "lower \<Rightarrow> previous_view \<Rightarrow> instant \<Rightarrow> terminal_state
     \<Rightarrow> terminal_state \<times> effective_state_change option" where
  "recompute_effective_state lower previous now st =
     (let state = arbitrated_state lower st;
          label = effective_agent_label st;
          known = effective_known_agent lower st;
          presentation = effective_presentation_at now st;
          st = clear_expiry_pending_for_hidden_metadata st
      in if pv_agent_label previous = label \<and> pv_state previous = state
            \<and> pv_presentation previous = presentation
         then (st, None)
         else
           (st\<lparr>ts_state := state\<rparr>,
            Some \<lparr>esc_previous_agent_label = pv_agent_label previous,
              esc_previous_known_agent = pv_known_agent previous, esc_previous_state = pv_state previous,
              esc_previous_presentation = pv_presentation previous, esc_agent_label = label,
              esc_known_agent = known, esc_state = state, esc_presentation = presentation\<rparr>))"

definition is_agent_terminal :: "terminal_state \<Rightarrow> bool" where
  "is_agent_terminal st \<longleftrightarrow>
     ts_agent_name st \<noteq> None \<or> effective_agent_label st \<noteq> None \<or> ts_launch_argv st \<noteq> None"

definition border_label :: "instant \<Rightarrow> bool \<Rightarrow> terminal_state \<Rightarrow> string option" where
  "border_label now show_agent_labels st =
     or_else (pr_title (effective_presentation_at now st))
       (or_else (ts_manual_label st)
         (if show_agent_labels
          then or_else (pr_display_agent (effective_presentation_at now st)) (effective_agent_label st)
          else None))"

definition clear_agent_runtime_identity_after_respawn :: "terminal_state \<Rightarrow> terminal_state" where
  "clear_agent_runtime_identity_after_respawn st =
     clear_agent_name (st\<lparr>ts_detected_agent := None, ts_fallback_state := AgentUnknown,
       ts_fallback_visible_blocker := False, ts_fallback_observed_at := None, ts_hook_authority := None,
       ts_persisted_agent_session := None, ts_agent_metadata := [], ts_suppressed_reports := [],
       ts_stale_sessions := [], ts_state := AgentUnknown, ts_last_agent_state_change_seq := None,
       ts_launch_argv := None, ts_respawn_shell_on_exit := False,
       ts_recent_agent_process_exit_at := None, ts_pending_agent_resume_plan := None\<rparr>)"

end
