(* ===== verification/Terminal_Hooks.thy ===== *)
theory Terminal_Hooks
  imports Terminal_State
begin

text \<open>
  \<open>src/terminal/state.rs\<close>: which observations of an agent count. Screens and processes are observed by
  the server, hooks of the agents report their own state and session; \<open>now\<close> is when an observation was
  made, \<open>clock\<close> the time at which it is processed.
\<close>

section \<open>Sessions\<close>

type_synonym session_identity = "string \<times> string \<times> agent_session_ref_kind \<times> string"

definition current_session_identity :: "terminal_state \<Rightarrow> session_identity option" where
  "current_session_identity st =
     (let persisted = map_option (\<lambda>s. (ps_source s, ps_agent s, sr_kind (ps_session_ref s),
            sr_value (ps_session_ref s))) (ts_persisted_agent_session st)
      in case ts_hook_authority st of
           None \<Rightarrow> persisted
         | Some authority \<Rightarrow>
             (case hk_session_ref authority of
                None \<Rightarrow> persisted
              | Some r \<Rightarrow> Some (hk_source authority, hk_agent_label authority, sr_kind r, sr_value r)))"

definition persisted_agent_session_matches :: "string \<Rightarrow> string \<Rightarrow> terminal_state \<Rightarrow> bool" where
  "persisted_agent_session_matches source label st \<longleftrightarrow>
     (case ts_persisted_agent_session st of
        None \<Rightarrow> False | Some s \<Rightarrow> ps_source s = source \<and> ps_agent s = label)"

definition current_session_owner_conflicts :: "string \<Rightarrow> string \<Rightarrow> terminal_state \<Rightarrow> bool" where
  "current_session_owner_conflicts source label st \<longleftrightarrow>
     (case current_session_identity st of
        None \<Rightarrow> False | Some (s, l, _, _) \<Rightarrow> s \<noteq> source \<or> l \<noteq> label)"

definition session_start_source_allows_session_replacement ::
  "string \<Rightarrow> string \<Rightarrow> string option \<Rightarrow> bool" where
  "session_start_source_allows_session_replacement source label start \<longleftrightarrow>
     (case start of
        None \<Rightarrow> False
      | Some s \<Rightarrow>
          (source, label) = (''nagi:claude'', ''claude'') \<and> s \<in> set [''clear'', ''resume'', ''compact'']
          \<or> (source, label) = (''nagi:codex'', ''codex'')
             \<and> s \<in> set [''startup'', ''clear'', ''resume'', ''compact'']
          \<or> (source, label) = (''nagi:opencode'', ''opencode'') \<and> s = ''new''
          \<or> (source, label) = (''nagi:pi'', ''pi'') \<and> s \<in> set [''new'', ''resume'', ''fork'']
          \<or> (source, label) = (''nagi:omp'', ''omp'') \<and> s \<in> set [''startup'', ''new'', ''resume'', ''fork''])"

definition session_start_source_is_recognized :: "string option \<Rightarrow> bool" where
  "session_start_source_is_recognized start \<longleftrightarrow>
     (case start of
        None \<Rightarrow> False
      | Some s \<Rightarrow> s \<in> set [''startup'', ''clear'', ''resume'', ''compact'', ''new'', ''fork''])"

definition conflicting_same_owner_session_ref ::
  "string \<Rightarrow> string \<Rightarrow> agent_session_ref \<Rightarrow> string option \<Rightarrow> terminal_state \<Rightarrow> agent_session_ref option"
where
  "conflicting_same_owner_session_ref source label r start st =
     (case current_session_identity st of
        None \<Rightarrow> None
      | Some (s, l, kind, current_value) \<Rightarrow>
          if s = source \<and> l = label \<and> kind = KindId \<and> sr_kind r = KindId \<and> current_value \<noteq> sr_value r
             \<and> \<not> session_start_source_allows_session_replacement source label start
          then Some \<lparr>sr_kind = kind, sr_value = current_value\<rparr> else None)"

definition lifecycle_hook_report_replaces_persisted_session ::
  "string \<Rightarrow> string \<Rightarrow> agent_session_ref \<Rightarrow> terminal_state \<Rightarrow> bool" where
  "lifecycle_hook_report_replaces_persisted_session source label r st \<longleftrightarrow>
     ts_hook_authority st = None \<and> (source, label) = (''nagi:mastracode'', ''mastracode'')
     \<and> (case ts_persisted_agent_session st of
          None \<Rightarrow> False
        | Some s \<Rightarrow> ps_source s = source \<and> ps_agent s = label \<and> sr_kind (ps_session_ref s) = KindId
            \<and> sr_kind r = KindId \<and> sr_value (ps_session_ref s) \<noteq> sr_value r)"

definition same_owner_full_lifecycle_hook_authority_session_ref ::
  "string \<Rightarrow> string \<Rightarrow> agent_session_ref \<Rightarrow> terminal_state \<Rightarrow> agent_session_ref option" where
  "same_owner_full_lifecycle_hook_authority_session_ref source label r st =
     (case ts_hook_authority st of
        None \<Rightarrow> None
      | Some authority \<Rightarrow>
          if \<not> full_lifecycle_hook_authority (hk_source authority) (hk_agent_label authority)
             \<or> hk_source authority \<noteq> source \<or> hk_agent_label authority \<noteq> label
          then None
          else case hk_session_ref authority of
              None \<Rightarrow> None | Some current \<Rightarrow> if current \<noteq> r then Some current else None)"

definition live_full_lifecycle_hook_authority_conflicts_with_session ::
  "string \<Rightarrow> string \<Rightarrow> agent_session_ref option \<Rightarrow> terminal_state \<Rightarrow> bool" where
  "live_full_lifecycle_hook_authority_conflicts_with_session source label r st \<longleftrightarrow>
     (case ts_hook_authority st of
        None \<Rightarrow> False
      | Some authority \<Rightarrow>
          full_lifecycle_hook_authority (hk_source authority) (hk_agent_label authority)
          \<and> hk_source authority = source \<and> hk_agent_label authority = label
          \<and> (case (hk_session_ref authority, r) of
               (Some current, Some incoming) \<Rightarrow> current \<noteq> incoming | _ \<Rightarrow> False))"

section \<open>The foreground\<close>

definition hook_agent :: "lower \<Rightarrow> terminal_state \<Rightarrow> agent option" where
  "hook_agent lower st =
     (case ts_hook_authority st of
        None \<Rightarrow> None | Some authority \<Rightarrow> parse_agent_label lower (hk_agent_label authority))"

definition conflicting_agents :: "agent option \<Rightarrow> agent option \<Rightarrow> bool" where
  "conflicting_agents known detected \<longleftrightarrow>
     (case (known, detected) of (Some a, Some b) \<Rightarrow> a \<noteq> b | _ \<Rightarrow> False)"

definition hook_authority_conflicts_with_detected_agent ::
  "lower \<Rightarrow> agent option \<Rightarrow> terminal_state \<Rightarrow> bool" where
  "hook_authority_conflicts_with_detected_agent lower detected st \<longleftrightarrow>
     conflicting_agents (hook_agent lower st) detected"

definition should_ignore_detected_state_under_full_lifecycle_hook ::
  "lower \<Rightarrow> agent option \<Rightarrow> bool \<Rightarrow> terminal_state \<Rightarrow> bool" where
  "should_ignore_detected_state_under_full_lifecycle_hook lower detected process_exited st \<longleftrightarrow>
     live_full_lifecycle_hook_authority st \<and> \<not> process_exited
     \<and> \<not> hook_authority_conflicts_with_detected_agent lower detected st"

definition known_agent_label_conflicts_with_detected_agent :: "lower \<Rightarrow> string \<Rightarrow> terminal_state \<Rightarrow> bool"
where
  "known_agent_label_conflicts_with_detected_agent lower label st \<longleftrightarrow>
     conflicting_agents (parse_agent_label lower label) (ts_detected_agent st)"

definition foreground_agent_confirms_session_owner ::
  "lower \<Rightarrow> string \<Rightarrow> string \<Rightarrow> agent_session_ref \<Rightarrow> terminal_state \<Rightarrow> bool" where
  "foreground_agent_confirms_session_owner lower source label r st \<longleftrightarrow>
     ts_detected_agent st \<noteq> None \<and> parse_agent_label lower label = ts_detected_agent st
     \<and> resume_plan source label r \<noteq> None"

definition foreground_agent_confirms_different_owner_takeover ::
  "lower \<Rightarrow> string \<Rightarrow> string \<Rightarrow> agent_session_ref \<Rightarrow> string option \<Rightarrow> terminal_state \<Rightarrow> bool" where
  "foreground_agent_confirms_different_owner_takeover lower source label r start st \<longleftrightarrow>
     session_start_source_is_recognized start
     \<and> foreground_agent_confirms_session_owner lower source label r st"

definition foreground_agent_confirms_hook_authority_takeover ::
  "lower \<Rightarrow> string \<Rightarrow> string \<Rightarrow> agent_session_ref option \<Rightarrow> terminal_state \<Rightarrow> bool" where
  "foreground_agent_confirms_hook_authority_takeover lower source label r st \<longleftrightarrow>
     (case r of None \<Rightarrow> False | Some s \<Rightarrow> foreground_agent_confirms_session_owner lower source label s st)"

section \<open>Suppressed reports and stale sessions\<close>

definition suppress_with_session_ref ::
  "instant \<Rightarrow> string \<Rightarrow> string \<Rightarrow> agent_session_ref option \<Rightarrow> hook_suppression_reason
     \<Rightarrow> terminal_state \<Rightarrow> terminal_state" where
  "suppress_with_session_ref clock source label r reason st =
     st\<lparr>ts_suppressed_reports := bm_insert source
        \<lparr>sup_agent_label = label, sup_session_ref = r, sup_observed_at = clock, sup_reason = reason\<rparr>
        (ts_suppressed_reports st)\<rparr>"

definition suppress_current_full_lifecycle_hook_authority ::
  "instant \<Rightarrow> hook_suppression_reason \<Rightarrow> terminal_state \<Rightarrow> terminal_state" where
  "suppress_current_full_lifecycle_hook_authority clock reason st =
     (case ts_hook_authority st of
        None \<Rightarrow> st
      | Some authority \<Rightarrow>
          if full_lifecycle_hook_authority (hk_source authority) (hk_agent_label authority)
          then suppress_with_session_ref clock (hk_source authority) (hk_agent_label authority)
                 (hk_session_ref authority) reason st
          else st)"

definition suppress_full_lifecycle_hook_report ::
  "instant \<Rightarrow> string \<Rightarrow> string \<Rightarrow> hook_suppression_reason \<Rightarrow> terminal_state \<Rightarrow> terminal_state" where
  "suppress_full_lifecycle_hook_report clock source label reason st =
     (if full_lifecycle_hook_authority source label
      then suppress_with_session_ref clock source label
             (case ts_hook_authority st of None \<Rightarrow> None | Some authority \<Rightarrow> hk_session_ref authority) reason st
      else st)"

definition full_lifecycle_hook_report_is_suppressed ::
  "string \<Rightarrow> string \<Rightarrow> agent_session_ref option \<Rightarrow> terminal_state \<Rightarrow> bool" where
  "full_lifecycle_hook_report_is_suppressed source label r st \<longleftrightarrow>
     full_lifecycle_hook_authority source label
     \<and> (case bm_get (ts_suppressed_reports st) source of
          None \<Rightarrow> False
        | Some suppressed \<Rightarrow>
            sup_agent_label suppressed = label
            \<and> (sup_reason suppressed = ProcessExit
               \<or> (case (sup_session_ref suppressed, r) of
                    (Some suppressed_ref, Some incoming_ref) \<Rightarrow> incoming_ref = suppressed_ref
                  | (Some _, None) \<Rightarrow> True
                  | (None, Some _) \<Rightarrow> False
                  | (None, None) \<Rightarrow> True)))"

definition full_lifecycle_hook_report_has_fresh_session_after_suppression ::
  "string \<Rightarrow> string \<Rightarrow> agent_session_ref option \<Rightarrow> terminal_state \<Rightarrow> bool" where
  "full_lifecycle_hook_report_has_fresh_session_after_suppression source label r st \<longleftrightarrow>
     full_lifecycle_hook_authority source label
     \<and> (case bm_get (ts_suppressed_reports st) source of
          None \<Rightarrow> False
        | Some suppressed \<Rightarrow>
            sup_agent_label suppressed = label \<and> sup_reason suppressed \<noteq> ProcessExit
            \<and> (case (sup_session_ref suppressed, r) of
                 (Some suppressed_ref, Some incoming_ref) \<Rightarrow> incoming_ref \<noteq> suppressed_ref
               | _ \<Rightarrow> False))"

definition stale_sessions_of :: "string \<Rightarrow> terminal_state \<Rightarrow> stale_hook_session list" where
  "stale_sessions_of source st =
     (case bm_get (ts_stale_sessions st) source of None \<Rightarrow> [] | Some stale \<Rightarrow> stale)"

definition full_lifecycle_hook_report_matches_stale_session ::
  "string \<Rightarrow> string \<Rightarrow> agent_session_ref option \<Rightarrow> terminal_state \<Rightarrow> bool" where
  "full_lifecycle_hook_report_matches_stale_session source label r st \<longleftrightarrow>
     full_lifecycle_hook_authority source label
     \<and> (case r of
          None \<Rightarrow> False
        | Some incoming \<Rightarrow>
            list_ex (\<lambda>stale. shs_agent_label stale = label \<and> incoming = shs_session_ref stale)
              (stale_sessions_of source st))"

definition full_lifecycle_hook_report_has_fresh_session_after_stale_session ::
  "string \<Rightarrow> string \<Rightarrow> agent_session_ref option \<Rightarrow> terminal_state \<Rightarrow> bool" where
  "full_lifecycle_hook_report_has_fresh_session_after_stale_session source label r st \<longleftrightarrow>
     full_lifecycle_hook_authority source label
     \<and> list_ex (\<lambda>stale. shs_agent_label stale = label) (stale_sessions_of source st)
     \<and> (case r of
          None \<Rightarrow> False
        | Some incoming \<Rightarrow>
            list_all (\<lambda>stale. shs_agent_label stale \<noteq> label \<or> incoming \<noteq> shs_session_ref stale)
              (stale_sessions_of source st))"

definition remember_stale_full_lifecycle_hook_session ::
  "string \<Rightarrow> string \<Rightarrow> agent_session_ref \<Rightarrow> terminal_state \<Rightarrow> terminal_state" where
  "remember_stale_full_lifecycle_hook_session source label r st =
     (let stale = \<lparr>shs_agent_label = label, shs_session_ref = r\<rparr>; known = stale_sessions_of source st
      in st\<lparr>ts_stale_sessions := bm_insert source (if stale \<in> set known then known else known @ [stale])
           (ts_stale_sessions st)\<rparr>)"

definition forget_stale_full_lifecycle_hook_session ::
  "string \<Rightarrow> string \<Rightarrow> agent_session_ref \<Rightarrow> terminal_state \<Rightarrow> terminal_state" where
  "forget_stale_full_lifecycle_hook_session source label r st =
     (case bm_get (ts_stale_sessions st) source of
        None \<Rightarrow> st
      | Some stale \<Rightarrow>
          let kept = filter (\<lambda>s. shs_agent_label s \<noteq> label \<or> shs_session_ref s \<noteq> r) stale
          in st\<lparr>ts_stale_sessions := (if kept = [] then bm_remove source (ts_stale_sessions st)
               else bm_insert source kept (ts_stale_sessions st))\<rparr>)"

definition remember_suppressed :: "string \<times> suppressed_hook_report \<Rightarrow> terminal_state \<Rightarrow> terminal_state" where
  "remember_suppressed entry st =
     (case sup_session_ref (snd entry) of
        None \<Rightarrow> st
      | Some r \<Rightarrow> remember_stale_full_lifecycle_hook_session (fst entry) (sup_agent_label (snd entry)) r st)"

definition clear_full_lifecycle_hook_suppression_for_detected_agent ::
  "lower \<Rightarrow> agent option \<Rightarrow> agent option \<Rightarrow> terminal_state \<Rightarrow> terminal_state" where
  "clear_full_lifecycle_hook_suppression_for_detected_agent lower previous_detected detected st =
     (case detected of
        None \<Rightarrow> st
      | Some agent \<Rightarrow>
          if previous_detected = Some agent then st
          else
            let should_clear = (\<lambda>entry. parse_agent_label lower (sup_agent_label (snd entry)) = Some agent);
                cleared = filter should_clear (ts_suppressed_reports st);
                st = st\<lparr>ts_suppressed_reports := filter (\<lambda>e. \<not> should_clear e) (ts_suppressed_reports st)\<rparr>;
                st = fold remember_suppressed cleared st
            in st\<lparr>ts_hook_report_sequences := filter (\<lambda>(source, _).
                 \<not> full_lifecycle_hook_authority source (agent_label agent)) (ts_hook_report_sequences st)\<rparr>)"

definition detected_state_observed_before_release_suppression ::
  "lower \<Rightarrow> agent option \<Rightarrow> instant \<Rightarrow> terminal_state \<Rightarrow> bool" where
  "detected_state_observed_before_release_suppression lower detected observed_at st \<longleftrightarrow>
     (case detected of
        None \<Rightarrow> False
      | Some agent \<Rightarrow>
          list_ex (\<lambda>suppressed. parse_agent_label lower (sup_agent_label suppressed) = Some agent
            \<and> observed_at \<le> sup_observed_at suppressed) (bm_values (ts_suppressed_reports st)))"

definition accept_hook_report :: "string \<Rightarrow> u64 option \<Rightarrow> terminal_state \<Rightarrow> terminal_state \<times> bool" where
  "accept_hook_report source seq st =
     (case seq of
        None \<Rightarrow> (st, bm_get (ts_hook_report_sequences st) source = None)
      | Some n \<Rightarrow>
          if (case bm_get (ts_hook_report_sequences st) source of None \<Rightarrow> False | Some last_n \<Rightarrow> n \<le> last_n)
          then (st, False)
          else (st\<lparr>ts_hook_report_sequences := bm_insert source n (ts_hook_report_sequences st)\<rparr>, True))"

section \<open>Screens and processes\<close>

definition mutation_since ::
  "lower \<Rightarrow> previous_view \<Rightarrow> session_identity option \<Rightarrow> instant \<Rightarrow> terminal_state
     \<Rightarrow> terminal_state \<times> terminal_state_mutation" where
  "mutation_since lower previous previous_session now st =
     (case recompute_effective_state lower previous now st of (st, change) \<Rightarrow>
        (st, \<lparr>tsm_effective_state_change = change,
           tsm_session_ref_changed = (previous_session \<noteq> current_session_identity st)\<rparr>))"

definition end_exited_hook :: "lower \<Rightarrow> instant \<Rightarrow> agent option \<Rightarrow> instant \<Rightarrow> terminal_state \<Rightarrow> terminal_state"
where
  "end_exited_hook lower clock detected now st =
     (case ts_hook_authority st of
        None \<Rightarrow> st
      | Some authority \<Rightarrow>
          if hook_authority_not_newer_than now st \<and> hook_agent lower st = detected
          then
            let st = suppress_current_full_lifecycle_hook_authority clock ProcessExit st
            in st\<lparr>ts_hook_report_sequences := bm_remove (hk_source authority) (ts_hook_report_sequences st),
                 ts_hook_authority := None\<rparr>
          else st)"

definition end_persisted_session :: "lower \<Rightarrow> agent option \<Rightarrow> terminal_state \<Rightarrow> terminal_state" where
  "end_persisted_session lower detected st =
     (case ts_persisted_agent_session st of
        None \<Rightarrow> st
      | Some session \<Rightarrow>
          if parse_agent_label lower (ps_agent session) = detected
          then st\<lparr>ts_persisted_agent_session := None\<rparr> else st)"

definition end_replaced_hook ::
  "lower \<Rightarrow> instant \<Rightarrow> agent option \<Rightarrow> agent option \<Rightarrow> instant \<Rightarrow> terminal_state \<Rightarrow> terminal_state" where
  "end_replaced_hook lower clock previous_detected detected now st =
     (case ts_hook_authority st of
        None \<Rightarrow> st
      | Some authority \<Rightarrow>
          if hook_authority_not_newer_than now st
             \<and> (hook_authority_conflicts_with_detected_agent lower detected st
                \<or> previous_detected \<noteq> None \<and> detected \<noteq> previous_detected
                  \<and> hook_agent lower st = previous_detected)
          then
            let durable_session = map_option (\<lambda>r. \<lparr>ps_source = hk_source authority,
                  ps_agent = hk_agent_label authority, ps_session_ref = r\<rparr>) (hk_session_ref authority);
                st = suppress_current_full_lifecycle_hook_authority clock HookClear st
            in st\<lparr>ts_hook_authority := None, ts_persisted_agent_session := durable_session\<rparr>
          else st)"

definition set_detected_state ::
  "lower \<Rightarrow> instant \<Rightarrow> agent option \<Rightarrow> agent_state \<Rightarrow> bool \<Rightarrow> bool \<Rightarrow> instant
     \<Rightarrow> terminal_state \<Rightarrow> terminal_state \<times> terminal_state_mutation" where
  "set_detected_state lower clock detected fallback_state visible_blocker process_exited now st =
     (let previous = view_now lower now st;
          previous_detected = ts_detected_agent st;
          previous_session = current_session_identity st;
          finish = mutation_since lower previous previous_session now
      in if should_ignore_detected_state_under_full_lifecycle_hook lower detected process_exited st
         then finish (if hook_agent lower st = detected then st\<lparr>ts_detected_agent := detected\<rparr> else st)
         else if \<not> process_exited
                 \<and> detected_state_observed_before_release_suppression lower detected now st
         then finish st
         else
           let st = st\<lparr>ts_detected_agent := detected\<rparr>;
               st = (if \<not> process_exited
                 then clear_full_lifecycle_hook_suppression_for_detected_agent lower previous_detected
                        detected st
                 else st);
               st = st\<lparr>ts_fallback_state := fallback_state,
                 ts_fallback_visible_blocker := (visible_blocker \<and> fallback_state = AgentBlocked),
                 ts_fallback_observed_at := Some now\<rparr>;
               st = (if process_exited \<and> detected \<noteq> None
                 then st\<lparr>ts_recent_agent_process_exit_at := Some now\<rparr>
                 else if detected \<noteq> None then st\<lparr>ts_recent_agent_process_exit_at := None\<rparr> else st);
               st = (if process_exited
                 then end_persisted_session lower detected (end_exited_hook lower clock detected now st)
                 else st)
           in finish (end_replaced_hook lower clock previous_detected detected now st))"

section \<open>Hooks\<close>

definition resolved_session_ref ::
  "string \<Rightarrow> string \<Rightarrow> agent_session_ref option \<Rightarrow> terminal_state \<Rightarrow> agent_session_ref option" where
  "resolved_session_ref source label r st =
     map_option (\<lambda>s.
         if lifecycle_hook_report_replaces_persisted_session source label s st then s
         else case conflicting_same_owner_session_ref source label s None st of None \<Rightarrow> s | Some current \<Rightarrow> current)
       r"

definition retire_suppressed :: "string \<Rightarrow> terminal_state \<Rightarrow> terminal_state" where
  "retire_suppressed source st =
     (case bm_get (ts_suppressed_reports st) source of
        None \<Rightarrow> st
      | Some suppressed \<Rightarrow>
          remember_suppressed (source, suppressed)
            (st\<lparr>ts_suppressed_reports := bm_remove source (ts_suppressed_reports st)\<rparr>))"

definition adopt_hook ::
  "instant \<Rightarrow> bool \<Rightarrow> hook_authority \<Rightarrow> terminal_state \<Rightarrow> terminal_state" where
  "adopt_hook clock takeover authority st =
     (let st = (if takeover then suppress_current_full_lifecycle_hook_authority clock HookClear st else st);
          st = (if hk_session_ref authority \<noteq> None then retire_suppressed (hk_source authority) st else st)
      in st\<lparr>ts_persisted_agent_session := None, ts_hook_authority := Some authority\<rparr>)"

definition set_hook_authority_at ::
  "lower \<Rightarrow> instant \<Rightarrow> string \<Rightarrow> string \<Rightarrow> agent_state \<Rightarrow> string option \<Rightarrow> agent_session_ref option
     \<Rightarrow> u64 option \<Rightarrow> instant \<Rightarrow> terminal_state \<Rightarrow> terminal_state \<times> terminal_state_mutation option" where
  "set_hook_authority_at lower clock source label state message r seq now st =
     (if full_lifecycle_hook_report_is_suppressed source label r st then (st, None)
      else if full_lifecycle_hook_report_matches_stale_session source label r st then (st, None)
      else
        let reanchor_sequence =
              (full_lifecycle_hook_report_has_fresh_session_after_suppression source label r st
               \<or> full_lifecycle_hook_report_has_fresh_session_after_stale_session source label r st)
        in if known_agent_label_conflicts_with_detected_agent lower label st then (st, None)
           else
             let owner_conflicts = current_session_owner_conflicts source label st;
                 takeover = (owner_conflicts
                   \<and> foreground_agent_confirms_hook_authority_takeover lower source label r st)
             in if owner_conflicts \<and> \<not> takeover then (st, None)
                else
                  let r = resolved_session_ref source label r st
                  in if live_full_lifecycle_hook_authority_conflicts_with_session source label r st
                     then (st, None)
                     else
                       let st = (if reanchor_sequence
                             then st\<lparr>ts_hook_report_sequences :=
                               bm_remove source (ts_hook_report_sequences st)\<rparr>
                             else st)
                       in (case accept_hook_report source seq st of
                             (st, False) \<Rightarrow> (st, None)
                           | (st, True) \<Rightarrow>
                               map_prod id Some
                                 (mutation_since lower (view_now lower now st) (current_session_identity st) now
                                   (adopt_hook clock takeover
                                     \<lparr>hk_source = source, hk_agent_label = label, hk_state = state,
                                      hk_message = message, hk_reported_at = now, hk_session_ref = r\<rparr> st))))"

definition set_persisted_agent_session :: "persisted_agent_session \<Rightarrow> terminal_state \<Rightarrow> terminal_state" where
  "set_persisted_agent_session session st = st\<lparr>ts_persisted_agent_session := Some session\<rparr>"

definition start_session ::
  "instant \<Rightarrow> string \<Rightarrow> string \<Rightarrow> agent_session_ref \<Rightarrow> bool \<Rightarrow> bool \<Rightarrow> agent_session_ref option
     \<Rightarrow> terminal_state \<Rightarrow> terminal_state" where
  "start_session clock source label r replacement_allowed takeover replaced st =
     (let st = (if replacement_allowed \<or> takeover
            then forget_stale_full_lifecycle_hook_session source label r st else st);
          st = (case replaced of
              Some replaced_ref \<Rightarrow>
                (remember_stale_full_lifecycle_hook_session source label replaced_ref st)
                  \<lparr>ts_hook_authority := None\<rparr>
            | None \<Rightarrow>
                if takeover
                then (suppress_current_full_lifecycle_hook_authority clock HookClear st)
                       \<lparr>ts_hook_authority := None\<rparr>
                else st)
      in st\<lparr>ts_persisted_agent_session :=
           Some \<lparr>ps_source = source, ps_agent = label, ps_session_ref = r\<rparr>\<rparr>)"

definition set_agent_session_ref_for_session_start ::
  "lower \<Rightarrow> instant \<Rightarrow> string \<Rightarrow> string \<Rightarrow> agent_session_ref option \<Rightarrow> u64 option \<Rightarrow> string option
     \<Rightarrow> instant \<Rightarrow> terminal_state \<Rightarrow> terminal_state \<times> terminal_state_mutation option" where
  "set_agent_session_ref_for_session_start lower clock source label session_ref seq start now st =
     (case session_ref of
        None \<Rightarrow> (st, None)
      | Some r \<Rightarrow>
          (case accept_hook_report source seq st of
             (st, False) \<Rightarrow> (st, None)
           | (st, True) \<Rightarrow>
               let replacement_allowed = session_start_source_allows_session_replacement source label start;
                   owner_conflicts = current_session_owner_conflicts source label st;
                   takeover = (owner_conflicts
                     \<and> foreground_agent_confirms_different_owner_takeover lower source label r start st);
                   replaced = same_owner_full_lifecycle_hook_authority_session_ref source label r st
               in if known_agent_label_conflicts_with_detected_agent lower label st then (st, None)
                  else if owner_conflicts \<and> \<not> takeover then (st, None)
                  else if conflicting_same_owner_session_ref source label r start st \<noteq> None then (st, None)
                  else if replaced \<noteq> None \<and> \<not> replacement_allowed then (st, None)
                  else
                    map_prod id Some
                      (mutation_since lower (view_now lower now st) (current_session_identity st) now
                        (start_session clock source label r replacement_allowed takeover replaced st))))"

definition set_agent_session_ref ::
  "lower \<Rightarrow> instant \<Rightarrow> string \<Rightarrow> string \<Rightarrow> agent_session_ref option \<Rightarrow> u64 option \<Rightarrow> instant
     \<Rightarrow> terminal_state \<Rightarrow> terminal_state \<times> terminal_state_mutation option" where
  "set_agent_session_ref lower clock source label session_ref seq now st =
     set_agent_session_ref_for_session_start lower clock source label session_ref seq None now st"

definition clear_hook_authority ::
  "lower \<Rightarrow> instant \<Rightarrow> string option \<Rightarrow> u64 option \<Rightarrow> instant \<Rightarrow> terminal_state
     \<Rightarrow> terminal_state \<times> terminal_state_mutation option" where
  "clear_hook_authority lower clock source seq now st =
     (let sequence_source = or_else source (map_option hk_source (ts_hook_authority st));
          (st, accepted) = (case sequence_source of
              None \<Rightarrow> (st, True) | Some s \<Rightarrow> accept_hook_report s seq st)
      in if \<not> accepted then (st, None)
         else
           let previous = view_now lower now st;
               previous_session = current_session_identity st;
               should_clear = (case ts_hook_authority st of
                   None \<Rightarrow> False
                 | Some authority \<Rightarrow> source = None \<or> source = Some (hk_source authority))
           in if \<not> should_clear then (st, None)
              else
                let st = suppress_current_full_lifecycle_hook_authority clock HookClear st;
                    st = st\<lparr>ts_hook_authority := None, ts_persisted_agent_session := None\<rparr>
                in (case recompute_effective_state lower previous now st of (st, change) \<Rightarrow>
                      (st, Some \<lparr>tsm_effective_state_change = change,
                         tsm_session_ref_changed = (previous_session \<noteq> None)\<rparr>)))"

definition forget_agent :: "instant \<Rightarrow> string \<Rightarrow> string \<Rightarrow> terminal_state \<Rightarrow> terminal_state" where
  "forget_agent clock source label st =
     (let preserve_foreign_persisted_session = (case ts_persisted_agent_session st of
              None \<Rightarrow> False | Some s \<Rightarrow> ps_source s \<noteq> source \<or> ps_agent s \<noteq> label);
          st = suppress_full_lifecycle_hook_report clock source label HookClear st;
          st = st\<lparr>ts_detected_agent := None, ts_fallback_state := AgentUnknown,
            ts_fallback_visible_blocker := False, ts_fallback_observed_at := None,
            ts_hook_authority := None\<rparr>
      in if preserve_foreign_persisted_session then st else st\<lparr>ts_persisted_agent_session := None\<rparr>)"

definition release_agent ::
  "lower \<Rightarrow> instant \<Rightarrow> string \<Rightarrow> string \<Rightarrow> u64 option \<Rightarrow> instant \<Rightarrow> terminal_state
     \<Rightarrow> terminal_state \<times> terminal_state_mutation option" where
  "release_agent lower clock source label seq now st =
     (case accept_hook_report source seq st of
        (st, False) \<Rightarrow> (st, None)
      | (st, True) \<Rightarrow>
          if (case ts_hook_authority st of
                None \<Rightarrow> False
              | Some authority \<Rightarrow> hk_agent_label authority \<noteq> label \<or> hk_source authority \<noteq> source)
          then (st, None)
          else if effective_agent_label st \<noteq> Some label \<and> \<not> persisted_agent_session_matches source label st
          then (st, None)
          else
            map_prod id Some
              (mutation_since lower (view_now lower now st) (current_session_identity st) now
                (forget_agent clock source label st)))"

end
