(* ===== verification/Terminal_Metadata.thy ===== *)
theory Terminal_Metadata
  imports Terminal_Hooks
begin

text \<open>
  \<open>src/terminal/metadata.rs\<close>: what tools report for the presentation of a terminal, with deadlines; and
  all the operations on a terminal as one step function.
\<close>

section \<open>Reports\<close>

record agent_metadata_report =
  mrp_source :: string
  mrp_agent_label :: "string option"
  mrp_applies_to_source :: "string option"
  mrp_title :: "string option"
  mrp_display_agent :: "string option"
  mrp_state_labels :: "(string, string) bmap"
  mrp_clear_title :: bool
  mrp_clear_display_agent :: bool
  mrp_clear_state_labels :: bool
  mrp_ttl :: "duration option"
  mrp_seq :: "u64 option"

definition metadata_report_sequence_is_fresh :: "string \<Rightarrow> u64 option \<Rightarrow> terminal_state \<Rightarrow> bool" where
  "metadata_report_sequence_is_fresh source seq st =
     sequence_is_fresh (ts_metadata_report_sequences st) source seq"

text \<open>\<open>None\<close> is the error of too many sources.\<close>

definition accept_metadata_report ::
  "string \<Rightarrow> u64 option \<Rightarrow> bool \<Rightarrow> terminal_state \<Rightarrow> terminal_state \<times> bool option" where
  "accept_metadata_report source seq includes_tokens st =
     (case seq of
        None \<Rightarrow> (st, Some True)
      | Some n \<Rightarrow>
          if \<not> metadata_report_sequence_is_fresh source (Some n) st then (st, Some False)
          else if includes_tokens \<and> source \<notin> set (ts_metadata_token_sequence_sources st)
                  \<and> length (ts_metadata_token_sequence_sources st) \<ge> max_sequence_sources
          then (st, None)
          else
            let st = st\<lparr>ts_metadata_report_sequences := bm_insert source n (ts_metadata_report_sequences st)\<rparr>;
                st = (if includes_tokens
                  then st\<lparr>ts_metadata_token_sequence_sources :=
                    bs_insert source (ts_metadata_token_sequence_sources st)\<rparr>
                  else st)
            in (st, Some True))"

definition has_set_fields :: "agent_metadata_report \<Rightarrow> bool" where
  "has_set_fields report \<longleftrightarrow>
     mrp_title report \<noteq> None \<or> mrp_display_agent report \<noteq> None \<or> mrp_state_labels report \<noteq> []"

definition empty_metadata :: "agent_metadata_report \<Rightarrow> instant \<Rightarrow> agent_metadata" where
  "empty_metadata report now =
     \<lparr>mt_source = mrp_source report, mt_agent_label = mrp_agent_label report,
      mt_applies_to_source = mrp_applies_to_source report, mt_title = None, mt_display_agent = None,
      mt_state_labels = [], mt_reported_at = now, mt_title_reported_at = None,
      mt_display_agent_reported_at = None, mt_state_label_reported_at = [], mt_ttl = mrp_ttl report,
      mt_expiry_event_pending = False\<rparr>"

definition fresh_metadata :: "agent_metadata_report \<Rightarrow> instant \<Rightarrow> agent_metadata" where
  "fresh_metadata report now =
     \<lparr>mt_source = mrp_source report, mt_agent_label = mrp_agent_label report,
      mt_applies_to_source = mrp_applies_to_source report, mt_title = mrp_title report,
      mt_display_agent = mrp_display_agent report, mt_state_labels = mrp_state_labels report,
      mt_reported_at = now, mt_title_reported_at = map_option (\<lambda>_. now) (mrp_title report),
      mt_display_agent_reported_at = map_option (\<lambda>_. now) (mrp_display_agent report),
      mt_state_label_reported_at = bm_map_values (\<lambda>_. now) (mrp_state_labels report),
      mt_ttl = mrp_ttl report, mt_expiry_event_pending = False\<rparr>"

text \<open>The fields that are cleared, then those that are set.\<close>

definition patched_metadata :: "agent_metadata_report \<Rightarrow> instant \<Rightarrow> agent_metadata \<Rightarrow> agent_metadata" where
  "patched_metadata report now m =
     (let m = (if mrp_clear_title report then m\<lparr>mt_title := None, mt_title_reported_at := None\<rparr> else m);
          m = (if mrp_clear_display_agent report
            then m\<lparr>mt_display_agent := None, mt_display_agent_reported_at := None\<rparr> else m);
          m = (if mrp_clear_state_labels report
            then m\<lparr>mt_state_labels := [], mt_state_label_reported_at := []\<rparr> else m);
          m = m\<lparr>mt_agent_label := or_else (mrp_agent_label report) (mt_agent_label m),
            mt_applies_to_source := or_else (mrp_applies_to_source report) (mt_applies_to_source m)\<rparr>;
          m = (if mrp_title report \<noteq> None
            then m\<lparr>mt_title := mrp_title report, mt_title_reported_at := Some now\<rparr> else m);
          m = (if mrp_display_agent report \<noteq> None
            then m\<lparr>mt_display_agent := mrp_display_agent report, mt_display_agent_reported_at := Some now\<rparr>
            else m);
          m = fold (\<lambda>(state, label) m. m\<lparr>mt_state_labels := bm_insert state label (mt_state_labels m),
            mt_state_label_reported_at := bm_insert state now (mt_state_label_reported_at m)\<rparr>)
            (mrp_state_labels report) m
      in if has_set_fields report \<or> mrp_ttl report \<noteq> None
         then m\<lparr>mt_reported_at := now, mt_ttl := mrp_ttl report, mt_expiry_event_pending := False\<rparr> else m)"

definition reported_metadata :: "agent_metadata_report \<Rightarrow> instant \<Rightarrow> terminal_state \<Rightarrow> agent_metadata" where
  "reported_metadata report now st =
     (if mrp_clear_title report \<or> mrp_clear_display_agent report \<or> mrp_clear_state_labels report
      then patched_metadata report now
        (case bm_get (ts_agent_metadata st) (mrp_source report) of
           None \<Rightarrow> empty_metadata report now | Some m \<Rightarrow> m)
      else fresh_metadata report now)"

definition set_agent_metadata ::
  "lower \<Rightarrow> agent_metadata_report \<Rightarrow> instant \<Rightarrow> terminal_state
     \<Rightarrow> terminal_state \<times> terminal_state_mutation option" where
  "set_agent_metadata lower report now st =
     (case accept_metadata_report (mrp_source report) (mrp_seq report) False st of
        (st, Some True) \<Rightarrow>
          let source = mrp_source report;
              st = (if (case bm_get (ts_agent_metadata st) source of
                    None \<Rightarrow> False | Some m \<Rightarrow> agent_metadata_is_expired now m)
                then st\<lparr>ts_agent_metadata := bm_remove source (ts_agent_metadata st)\<rparr> else st);
              previous = view_now lower now st;
              m = reported_metadata report now st;
              st = st\<lparr>ts_agent_metadata := bm_insert source m (ts_agent_metadata st)\<rparr>;
              st = (if mrp_ttl report \<noteq> None \<and> agent_metadata_is_visible_ignoring_ttl st m
                then st\<lparr>ts_agent_metadata :=
                  bm_insert source (m\<lparr>mt_expiry_event_pending := True\<rparr>) (ts_agent_metadata st)\<rparr>
                else st)
          in (case recompute_effective_state lower previous now st of (st, change) \<Rightarrow>
                (if change \<noteq> None then clear_expiry_pending_for_hidden_metadata st else st,
                 Some \<lparr>tsm_effective_state_change = change, tsm_session_ref_changed = False\<rparr>))
      | (st, _) \<Rightarrow> (st, None))"

section \<open>Expiry\<close>

definition next_agent_metadata_expiry :: "instant \<Rightarrow> terminal_state \<Rightarrow> instant option" where
  "next_agent_metadata_expiry now st =
     (let entries = filter (agent_metadata_matches_guards st) (bm_values (ts_agent_metadata st));
          due = filter (\<lambda>deadline. deadline > now
              \<or> list_ex (\<lambda>m. mt_expiry_event_pending m \<and> agent_metadata_expiry m = Some deadline) entries)
            (List.map_filter agent_metadata_expiry entries)
      in case due of [] \<Rightarrow> None | t # ts \<Rightarrow> Some (fold min ts t))"

definition expire_agent_metadata_at ::
  "lower \<Rightarrow> instant \<Rightarrow> instant \<Rightarrow> terminal_state \<Rightarrow> terminal_state \<times> terminal_state_mutation option" where
  "expire_agent_metadata_at lower scheduled now st =
     (let due = (\<lambda>m. case agent_metadata_expiry m of None \<Rightarrow> False | Some deadline \<Rightarrow> deadline \<le> now);
          stale = (\<lambda>m. case agent_metadata_expiry m of None \<Rightarrow> False | Some deadline \<Rightarrow> deadline < scheduled);
          expired = filter (\<lambda>(_, m). due m \<and> \<not> stale m) (ts_agent_metadata st);
          st = st\<lparr>ts_agent_metadata := filter (\<lambda>(_, m). \<not> (due m \<and> stale m)) (ts_agent_metadata st)\<rparr>
      in if expired = [] then (st, None)
         else
           let previous = (view_now lower now st)
                 \<lparr>pv_presentation := effective_presentation_ignoring_ttl now st\<rparr>;
               st = st\<lparr>ts_agent_metadata := filter (\<lambda>(_, m). \<not> due m) (ts_agent_metadata st)\<rparr>
           in (case recompute_effective_state lower previous now st of (st, change) \<Rightarrow>
                 (st, Some \<lparr>tsm_effective_state_change = change, tsm_session_ref_changed = False\<rparr>)))"

section \<open>Every operation\<close>

datatype terminal_op =
    DetectedState "agent option" agent_state bool bool
  | HookReport string string agent_state "string option" "agent_session_ref option" "u64 option"
  | SessionStart string string "agent_session_ref option" "u64 option" "string option"
  | HookCleared "string option" "u64 option"
  | Released string string "u64 option"
  | MetadataReport agent_metadata_report
  | MetadataAccepted string "u64 option" bool
  | MetadataExpired instant
  | TokensPatched "(string, string option) bmap" "duration option"
  | TokensExpired
  | SessionRestored persisted_agent_session
  | Titled "string option"
  | Labelled "string option"
  | Named "string option"
  | LaunchedWith "string list"
  | Respawned

text \<open>The clock reads \<open>clock\<close> when the observation of the time \<open>now\<close> is processed.\<close>

fun terminal_step :: "lower \<Rightarrow> instant \<Rightarrow> instant \<Rightarrow> terminal_op \<Rightarrow> terminal_state \<Rightarrow> terminal_state" where
  "terminal_step lower clock now (DetectedState detected state blocker exited) st =
     fst (set_detected_state lower clock detected state blocker exited now st)"
| "terminal_step lower clock now (HookReport source label state message r seq) st =
     fst (set_hook_authority_at lower clock source label state message r seq now st)"
| "terminal_step lower clock now (SessionStart source label r seq start) st =
     fst (set_agent_session_ref_for_session_start lower clock source label r seq start now st)"
| "terminal_step lower clock now (HookCleared source seq) st =
     fst (clear_hook_authority lower clock source seq now st)"
| "terminal_step lower clock now (Released source label seq) st =
     fst (release_agent lower clock source label seq now st)"
| "terminal_step lower clock now (MetadataReport report) st = fst (set_agent_metadata lower report now st)"
| "terminal_step lower clock now (MetadataAccepted source seq tokens) st =
     fst (accept_metadata_report source seq tokens st)"
| "terminal_step lower clock now (MetadataExpired scheduled) st =
     fst (expire_agent_metadata_at lower scheduled now st)"
| "terminal_step lower clock now (TokensPatched patch ttl) st =
     st\<lparr>ts_metadata_tokens := fst (tokens_patch patch ttl now (ts_metadata_tokens st))\<rparr>"
| "terminal_step lower clock now TokensExpired st =
     st\<lparr>ts_metadata_tokens := fst (tokens_expire_at now (ts_metadata_tokens st))\<rparr>"
| "terminal_step lower clock now (SessionRestored session) st = set_persisted_agent_session session st"
| "terminal_step lower clock now (Titled new_title) st = fst (set_terminal_title new_title st)"
| "terminal_step lower clock now (Labelled label) st =
     (case label of None \<Rightarrow> clear_manual_label st | Some l \<Rightarrow> set_manual_label l st)"
| "terminal_step lower clock now (Named name) st =
     (case name of None \<Rightarrow> clear_agent_name st | Some n \<Rightarrow> set_agent_name n st)"
| "terminal_step lower clock now (LaunchedWith argv) st = with_launch_argv argv st"
| "terminal_step lower clock now Respawned st = clear_agent_runtime_identity_after_respawn st"

text \<open>Each step with its clock and time of observation.\<close>

definition terminal_run :: "lower \<Rightarrow> (instant \<times> instant \<times> terminal_op) list \<Rightarrow> terminal_state \<Rightarrow> terminal_state"
where
  "terminal_run lower steps st = fold (\<lambda>(clock, now, op). terminal_step lower clock now op) steps st"

end
