(* ===== verification/Terminal_Props.thy ===== *)
theory Terminal_Props
  imports Terminal_Metadata
begin

text \<open>
  What the arbitration of a terminal promises: the state that is shown follows from what was observed,
  and a live lifecycle hook outranks the screen.
\<close>

section \<open>Frames\<close>

lemma clear_expiry_fields [simp]:
  "ts_hook_authority (clear_expiry_pending_for_hidden_metadata st) = ts_hook_authority st"
  "ts_detected_agent (clear_expiry_pending_for_hidden_metadata st) = ts_detected_agent st"
  "ts_fallback_state (clear_expiry_pending_for_hidden_metadata st) = ts_fallback_state st"
  "ts_fallback_visible_blocker (clear_expiry_pending_for_hidden_metadata st) = ts_fallback_visible_blocker st"
  "ts_fallback_observed_at (clear_expiry_pending_for_hidden_metadata st) = ts_fallback_observed_at st"
  "ts_suppressed_reports (clear_expiry_pending_for_hidden_metadata st) = ts_suppressed_reports st"
  "ts_stale_sessions (clear_expiry_pending_for_hidden_metadata st) = ts_stale_sessions st"
  "ts_persisted_agent_session (clear_expiry_pending_for_hidden_metadata st) = ts_persisted_agent_session st"
  "ts_metadata_token_sequence_sources (clear_expiry_pending_for_hidden_metadata st)
     = ts_metadata_token_sequence_sources st"
  "ts_hook_report_sequences (clear_expiry_pending_for_hidden_metadata st) = ts_hook_report_sequences st"
  "ts_state (clear_expiry_pending_for_hidden_metadata st) = ts_state st"
  by (simp_all add: clear_expiry_pending_for_hidden_metadata_def)

lemma recompute_fields [simp]:
  "ts_hook_authority (fst (recompute_effective_state lower previous now st)) = ts_hook_authority st"
  "ts_detected_agent (fst (recompute_effective_state lower previous now st)) = ts_detected_agent st"
  "ts_fallback_state (fst (recompute_effective_state lower previous now st)) = ts_fallback_state st"
  "ts_fallback_visible_blocker (fst (recompute_effective_state lower previous now st))
     = ts_fallback_visible_blocker st"
  "ts_fallback_observed_at (fst (recompute_effective_state lower previous now st)) = ts_fallback_observed_at st"
  "ts_suppressed_reports (fst (recompute_effective_state lower previous now st)) = ts_suppressed_reports st"
  "ts_stale_sessions (fst (recompute_effective_state lower previous now st)) = ts_stale_sessions st"
  "ts_persisted_agent_session (fst (recompute_effective_state lower previous now st))
     = ts_persisted_agent_session st"
  "ts_metadata_token_sequence_sources (fst (recompute_effective_state lower previous now st))
     = ts_metadata_token_sequence_sources st"
  "ts_hook_report_sequences (fst (recompute_effective_state lower previous now st)) = ts_hook_report_sequences st"
  by (simp_all add: recompute_effective_state_def Let_def)

lemma mutation_since_fst [simp]:
  "fst (mutation_since lower previous previous_session now st) = fst (recompute_effective_state lower previous now st)"
  by (simp add: mutation_since_def split: prod.split)

text \<open>What the arbitration depends on.\<close>

lemma arbitrated_cong:
  assumes "ts_hook_authority a = ts_hook_authority b" and "ts_detected_agent a = ts_detected_agent b"
    and "ts_fallback_state a = ts_fallback_state b"
    and "ts_fallback_visible_blocker a = ts_fallback_visible_blocker b"
    and "ts_fallback_observed_at a = ts_fallback_observed_at b"
  shows "arbitrated_state lower a = arbitrated_state lower b"
  unfolding arbitrated_state_def visible_blocker_overrides_hook_def live_full_lifecycle_hook_authority_def
    fallback_not_older_than_hook_def assms ..

lemma recompute_state:
  assumes "pv_state previous = ts_state st"
  shows "ts_state (fst (recompute_effective_state lower previous now st)) = arbitrated_state lower st"
  using assms by (simp add: recompute_effective_state_def Let_def)

section \<open>The invariant\<close>

definition lifecycle_only :: "terminal_state \<Rightarrow> bool" where
  "lifecycle_only st \<longleftrightarrow>
     (\<forall>(source, suppressed) \<in> set (ts_suppressed_reports st).
        full_lifecycle_hook_authority source (sup_agent_label suppressed))
     \<and> (\<forall>(source, stale) \<in> set (ts_stale_sessions st). \<forall>s \<in> set stale.
        full_lifecycle_hook_authority source (shs_agent_label s))"

definition terminal_ok :: "lower \<Rightarrow> terminal_state \<Rightarrow> bool" where
  "terminal_ok lower st \<longleftrightarrow>
     ts_state st = arbitrated_state lower st
     \<and> (ts_fallback_visible_blocker st \<longrightarrow> ts_fallback_state st = AgentBlocked)
     \<and> bs_ok (ts_metadata_token_sequence_sources st)
     \<and> length (ts_metadata_token_sequence_sources st) \<le> max_sequence_sources
     \<and> lifecycle_only st"

text \<open>Everything but the state that is shown.\<close>

definition records_ok :: "terminal_state \<Rightarrow> bool" where
  "records_ok st \<longleftrightarrow>
     (ts_fallback_visible_blocker st \<longrightarrow> ts_fallback_state st = AgentBlocked)
     \<and> bs_ok (ts_metadata_token_sequence_sources st)
     \<and> length (ts_metadata_token_sequence_sources st) \<le> max_sequence_sources
     \<and> lifecycle_only st"

lemma terminal_ok_iff: "terminal_ok lower st \<longleftrightarrow> ts_state st = arbitrated_state lower st \<and> records_ok st"
  by (auto simp: terminal_ok_def records_ok_def)

lemma records_cong:
  assumes "records_ok a" and "ts_fallback_state b = ts_fallback_state a"
    and "ts_fallback_visible_blocker b = ts_fallback_visible_blocker a"
    and "ts_suppressed_reports b = ts_suppressed_reports a" and "ts_stale_sessions b = ts_stale_sessions a"
    and "ts_metadata_token_sequence_sources b = ts_metadata_token_sequence_sources a"
  shows "records_ok b"
  using assms by (simp add: records_ok_def lifecycle_only_def)

lemma records_update [simp]:
  "records_ok (st\<lparr>ts_hook_authority := x0\<rparr>) = records_ok st"
  "records_ok (st\<lparr>ts_persisted_agent_session := x1\<rparr>) = records_ok st"
  "records_ok (st\<lparr>ts_hook_report_sequences := x2\<rparr>) = records_ok st"
  "records_ok (st\<lparr>ts_detected_agent := x3\<rparr>) = records_ok st"
  "records_ok (st\<lparr>ts_fallback_observed_at := x4\<rparr>) = records_ok st"
  "records_ok (st\<lparr>ts_recent_agent_process_exit_at := x5\<rparr>) = records_ok st"
  "records_ok (st\<lparr>ts_agent_metadata := x6\<rparr>) = records_ok st"
  "records_ok (st\<lparr>ts_metadata_tokens := x7\<rparr>) = records_ok st"
  "records_ok (st\<lparr>ts_metadata_report_sequences := x8\<rparr>) = records_ok st"
  "records_ok (st\<lparr>ts_terminal_title := x9\<rparr>) = records_ok st"
  "records_ok (st\<lparr>ts_manual_label := x10\<rparr>) = records_ok st"
  "records_ok (st\<lparr>ts_agent_name := x11\<rparr>) = records_ok st"
  "records_ok (st\<lparr>ts_revision := x12\<rparr>) = records_ok st"
  "records_ok (st\<lparr>ts_launch_argv := x13\<rparr>) = records_ok st"
  "records_ok (st\<lparr>ts_state := x14\<rparr>) = records_ok st"
  by (simp_all add: records_ok_def lifecycle_only_def)

lemma recomputed_ok:
  assumes "records_ok st" and "pv_state previous = ts_state st"
  shows "terminal_ok lower (fst (recompute_effective_state lower previous now st))"
proof -
  have "arbitrated_state lower (fst (recompute_effective_state lower previous now st)) = arbitrated_state lower st"
    by (rule arbitrated_cong) simp_all
  moreover have "records_ok (fst (recompute_effective_state lower previous now st))"
    using assms(1) by (rule records_cong) simp_all
  ultimately show ?thesis
    using recompute_state [OF assms(2)] by (simp add: terminal_ok_iff)
qed

lemma set_bm_insert: "set (bm_insert k v m) \<subseteq> insert (k, v) (set m)"
  by (induction m) (auto split: if_splits)

lemma records_suppress:
  assumes "records_ok st" and "full_lifecycle_hook_authority source label"
  shows "records_ok (suppress_with_session_ref clock source label r reason st)"
  using assms set_bm_insert [of source _ "ts_suppressed_reports st"]
  by (fastforce simp: records_ok_def lifecycle_only_def suppress_with_session_ref_def)

lemma records_suppress_current:
  "records_ok st \<Longrightarrow> records_ok (suppress_current_full_lifecycle_hook_authority clock reason st)"
  by (auto simp: suppress_current_full_lifecycle_hook_authority_def intro: records_suppress split: option.split)

lemma records_suppress_report:
  "records_ok st \<Longrightarrow> records_ok (suppress_full_lifecycle_hook_report clock source label reason st)"
  by (auto simp: suppress_full_lifecycle_hook_report_def intro: records_suppress)

definition lifecycle_sessions :: "string \<times> stale_hook_session list \<Rightarrow> bool" where
  "lifecycle_sessions entry \<longleftrightarrow>
     (\<forall>s \<in> set (snd entry). full_lifecycle_hook_authority (fst entry) (shs_agent_label s))"

lemma records_stale:
  "records_ok st \<Longrightarrow> \<forall>e \<in> set m. lifecycle_sessions e \<Longrightarrow> records_ok (st\<lparr>ts_stale_sessions := m\<rparr>)"
  by (auto simp: records_ok_def lifecycle_only_def lifecycle_sessions_def)

lemma stale_lifecycle: "records_ok st \<Longrightarrow> e \<in> set (ts_stale_sessions st) \<Longrightarrow> lifecycle_sessions e"
  by (cases e) (auto simp: records_ok_def lifecycle_only_def lifecycle_sessions_def)

lemma stale_of_lifecycle: "records_ok st \<Longrightarrow> lifecycle_sessions (source, stale_sessions_of source st)"
  using stale_lifecycle
  by (auto simp: stale_sessions_of_def split: option.split dest!: bm_get_SomeD) (simp add: lifecycle_sessions_def)

lemma records_insert_stale:
  assumes "records_ok st" and "lifecycle_sessions (source, stale)"
  shows "records_ok (st\<lparr>ts_stale_sessions := bm_insert source stale (ts_stale_sessions st)\<rparr>)"
proof (rule records_stale [OF assms(1)])
  show "\<forall>e \<in> set (bm_insert source stale (ts_stale_sessions st)). lifecycle_sessions e"
    using set_bm_insert [of source stale "ts_stale_sessions st"] assms(2) stale_lifecycle [OF assms(1)] by blast
qed

lemma records_remember:
  assumes "records_ok st" and "full_lifecycle_hook_authority source label"
  shows "records_ok (remember_stale_full_lifecycle_hook_session source label r st)"
  unfolding remember_stale_full_lifecycle_hook_session_def Let_def
  using stale_of_lifecycle [OF assms(1), of source] assms(2)
  by (intro records_insert_stale assms(1)) (auto simp: lifecycle_sessions_def)

lemma records_forget:
  assumes "records_ok st"
  shows "records_ok (forget_stale_full_lifecycle_hook_session source label r st)"
proof (cases "bm_get (ts_stale_sessions st) source")
  case (Some stale)
  let ?kept = "filter (\<lambda>s. shs_agent_label s \<noteq> label \<or> shs_session_ref s \<noteq> r) stale"
  have "lifecycle_sessions (source, ?kept)"
    using stale_lifecycle [OF assms bm_get_SomeD [OF Some]] by (simp add: lifecycle_sessions_def)
  then have "records_ok (st\<lparr>ts_stale_sessions := bm_insert source ?kept (ts_stale_sessions st)\<rparr>)"
    by (rule records_insert_stale [OF assms])
  moreover have "records_ok (st\<lparr>ts_stale_sessions := bm_remove source (ts_stale_sessions st)\<rparr>)"
    using stale_lifecycle [OF assms] by (intro records_stale [OF assms]) (auto simp: bm_remove_def)
  ultimately show ?thesis
    using Some by (simp add: forget_stale_full_lifecycle_hook_session_def Let_def)
qed (use assms in \<open>simp add: forget_stale_full_lifecycle_hook_session_def\<close>)

lemma records_remember_suppressed:
  "records_ok st \<Longrightarrow> full_lifecycle_hook_authority (fst entry) (sup_agent_label (snd entry))
     \<Longrightarrow> records_ok (remember_suppressed entry st)"
  by (auto simp: remember_suppressed_def intro: records_remember split: option.split)

lemma records_fold_remember:
  "records_ok st \<Longrightarrow> \<forall>e \<in> set es. full_lifecycle_hook_authority (fst e) (sup_agent_label (snd e))
     \<Longrightarrow> records_ok (fold remember_suppressed es st)"
  by (induction es arbitrary: st) (auto intro: records_remember_suppressed)

lemma records_clear_for_detected:
  assumes "records_ok st"
  shows "records_ok (clear_full_lifecycle_hook_suppression_for_detected_agent lower previous detected st)"
proof (cases "detected = None \<or> previous = detected")
  case False
  then obtain agent where agent: "detected = Some agent" "previous \<noteq> Some agent"
    by auto
  define should :: "string \<times> suppressed_hook_report \<Rightarrow> bool"
    where "should = (\<lambda>e. parse_agent_label lower (sup_agent_label (snd e)) = Some agent)"
  define kept where "kept = st\<lparr>ts_suppressed_reports := filter (\<lambda>e. \<not> should e) (ts_suppressed_reports st)\<rparr>"
  have "records_ok kept"
    using assms by (auto simp: kept_def records_ok_def lifecycle_only_def)
  moreover have "\<forall>e \<in> set (filter should (ts_suppressed_reports st)).
      full_lifecycle_hook_authority (fst e) (sup_agent_label (snd e))"
    using assms by (auto simp: records_ok_def lifecycle_only_def)
  ultimately have "records_ok (fold remember_suppressed (filter should (ts_suppressed_reports st)) kept)"
    by (rule records_fold_remember)
  then show ?thesis
    using agent
    by (simp add: clear_full_lifecycle_hook_suppression_for_detected_agent_def Let_def should_def kept_def)
qed (use assms in \<open>auto simp: clear_full_lifecycle_hook_suppression_for_detected_agent_def split: option.split\<close>)

lemma records_retire:
  assumes "records_ok st"
  shows "records_ok (retire_suppressed source st)"
proof (cases "bm_get (ts_suppressed_reports st) source")
  case (Some suppressed)
  then have "full_lifecycle_hook_authority source (sup_agent_label suppressed)"
    using assms by (auto simp: records_ok_def lifecycle_only_def dest!: bm_get_SomeD)
  moreover have "records_ok (st\<lparr>ts_suppressed_reports := bm_remove source (ts_suppressed_reports st)\<rparr>)"
    using assms by (auto simp: records_ok_def lifecycle_only_def bm_remove_def)
  ultimately show ?thesis
    using Some by (simp add: retire_suppressed_def records_remember_suppressed)
qed (use assms in \<open>simp add: retire_suppressed_def\<close>)

section \<open>Every step keeps the invariant\<close>

lemma terminal_cong:
  assumes "terminal_ok lower a" and "ts_hook_authority b = ts_hook_authority a"
    and "ts_detected_agent b = ts_detected_agent a" and "ts_fallback_state b = ts_fallback_state a"
    and "ts_fallback_visible_blocker b = ts_fallback_visible_blocker a"
    and "ts_fallback_observed_at b = ts_fallback_observed_at a"
    and "ts_suppressed_reports b = ts_suppressed_reports a" and "ts_stale_sessions b = ts_stale_sessions a"
    and "ts_metadata_token_sequence_sources b = ts_metadata_token_sequence_sources a"
    and "ts_state b = ts_state a"
  shows "terminal_ok lower b"
proof -
  have "arbitrated_state lower b = arbitrated_state lower a"
    by (rule arbitrated_cong) (simp_all add: assms)
  moreover have "records_ok b"
    using assms(1) by (intro records_cong [of a b]) (simp_all add: terminal_ok_iff assms)
  ultimately show ?thesis
    using assms(1,10) by (simp add: terminal_ok_iff)
qed

lemma accept_hook_report_ok:
  "terminal_ok lower st \<Longrightarrow> terminal_ok lower (fst (accept_hook_report source seq st))"
  by (erule terminal_cong) (simp_all add: accept_hook_report_def split: option.split)

lemma state_frames [simp]:
  "ts_state (suppress_with_session_ref clock source label r reason st) = ts_state st"
  "ts_state (suppress_current_full_lifecycle_hook_authority clock reason st) = ts_state st"
  "ts_state (suppress_full_lifecycle_hook_report clock source label reason st) = ts_state st"
  "ts_state (remember_stale_full_lifecycle_hook_session source label s st) = ts_state st"
  "ts_state (forget_stale_full_lifecycle_hook_session source label s st) = ts_state st"
  "ts_state (remember_suppressed entry st) = ts_state st"
  "ts_state (retire_suppressed source st) = ts_state st"
  by (simp_all add: suppress_with_session_ref_def suppress_current_full_lifecycle_hook_authority_def
      suppress_full_lifecycle_hook_report_def remember_stale_full_lifecycle_hook_session_def
      forget_stale_full_lifecycle_hook_session_def remember_suppressed_def retire_suppressed_def Let_def
      split: option.split)

lemma state_fold_remember [simp]: "ts_state (fold remember_suppressed es st) = ts_state st"
  by (induction es arbitrary: st) simp_all

lemma state_clear_for_detected [simp]:
  "ts_state (clear_full_lifecycle_hook_suppression_for_detected_agent lower previous detected st) = ts_state st"
  by (simp add: clear_full_lifecycle_hook_suppression_for_detected_agent_def Let_def split: option.split)

lemma state_ends [simp]:
  "ts_state (end_exited_hook lower clock detected now st) = ts_state st"
  "ts_state (end_persisted_session lower detected st) = ts_state st"
  "ts_state (end_replaced_hook lower clock previous detected now st) = ts_state st"
  by (simp_all add: end_exited_hook_def end_persisted_session_def end_replaced_hook_def Let_def
      split: option.split)

lemma records_ends:
  assumes "records_ok st"
  shows "records_ok (end_exited_hook lower clock detected now st)"
    "records_ok (end_persisted_session lower detected st)"
    "records_ok (end_replaced_hook lower clock previous detected now st)"
proof -
  have suppressed: "records_ok (suppress_current_full_lifecycle_hook_authority clock reason st)" for reason
    using assms by (rule records_suppress_current)
  show "records_ok (end_exited_hook lower clock detected now st)"
    using assms suppressed
    by (simp add: end_exited_hook_def Let_def split: option.split)
  show "records_ok (end_persisted_session lower detected st)"
    using assms by (simp add: end_persisted_session_def split: option.split)
  show "records_ok (end_replaced_hook lower clock previous detected now st)"
    using assms suppressed
    by (simp add: end_replaced_hook_def Let_def split: option.split)
qed

lemma pv_state_view [simp]: "pv_state (view_now lower now st) = ts_state st"
  by (simp add: view_now_def)

lemma detected_ok:
  assumes "terminal_ok lower st"
  shows "terminal_ok lower (fst (set_detected_state lower clock detected state blocker exited now st))"
proof -
  have records: "records_ok st"
    using assms by (simp add: terminal_ok_iff)
  define a where "a = st\<lparr>ts_detected_agent := detected\<rparr>"
  define b where "b = (if \<not> exited
      then clear_full_lifecycle_hook_suppression_for_detected_agent lower (ts_detected_agent st) detected a else a)"
  define c where "c = b\<lparr>ts_fallback_state := state, ts_fallback_visible_blocker := (blocker \<and> state = AgentBlocked),
      ts_fallback_observed_at := Some now\<rparr>"
  define d where "d = (if exited \<and> detected \<noteq> None then c\<lparr>ts_recent_agent_process_exit_at := Some now\<rparr>
      else if detected \<noteq> None then c\<lparr>ts_recent_agent_process_exit_at := None\<rparr> else c)"
  define e where "e = (if exited then end_persisted_session lower detected (end_exited_hook lower clock detected now d)
      else d)"
  have a: "records_ok a"
    using records by (rule records_cong) (simp_all add: a_def)
  then have "records_ok b"
    by (simp add: b_def records_clear_for_detected)
  then have "records_ok c"
    by (auto simp: c_def records_ok_def lifecycle_only_def)
  then have "records_ok d"
    by (rule records_cong) (simp_all add: d_def)
  then have "records_ok e"
    by (simp add: e_def records_ends)
  then have all: "records_ok (end_replaced_hook lower clock (ts_detected_agent st) detected now e)"
    by (rule records_ends)
  have "ts_state e = ts_state st"
    by (simp add: e_def d_def c_def b_def a_def)
  then show ?thesis
    using all a records unfolding set_detected_state_def Let_def a_def [symmetric] b_def [symmetric]
      c_def [symmetric] d_def [symmetric] e_def [symmetric]
    by (auto intro!: recomputed_ok) (simp_all add: a_def)
qed

lemma adopt_hook_ok:
  "records_ok st \<Longrightarrow> records_ok (adopt_hook clock takeover authority st)"
  "ts_state (adopt_hook clock takeover authority st) = ts_state st"
  by (simp_all add: adopt_hook_def Let_def records_retire records_suppress_current)

lemma start_session_ok:
  assumes "records_ok st" and "replaced \<noteq> None \<longrightarrow> full_lifecycle_hook_authority source label"
  shows "records_ok (start_session clock source label r allowed takeover replaced st)"
    "ts_state (start_session clock source label r allowed takeover replaced st) = ts_state st"
  using assms
  by (simp_all add: start_session_def Let_def records_forget records_suppress_current records_remember
      split: option.split)

lemma forget_agent_ok:
  assumes "records_ok st"
  shows "records_ok (forget_agent clock source label st)"
    "ts_state (forget_agent clock source label st) = ts_state st"
proof -
  have "records_ok (suppress_full_lifecycle_hook_report clock source label HookClear st)"
    using assms by (rule records_suppress_report)
  then show "records_ok (forget_agent clock source label st)"
    by (simp add: forget_agent_def Let_def records_ok_def lifecycle_only_def)
qed (simp add: forget_agent_def Let_def)

lemma changed_ok:
  assumes "terminal_ok lower st" and "records_ok st \<Longrightarrow> records_ok (f st)" and "ts_state (f st) = ts_state st"
  shows "terminal_ok lower (fst (recompute_effective_state lower (view_now lower now st) now (f st)))"
  using assms by (intro recomputed_ok) (simp_all add: terminal_ok_iff)

lemma changed_adopt:
  "terminal_ok lower st \<Longrightarrow> terminal_ok lower
     (fst (recompute_effective_state lower (view_now lower now st) now (adopt_hook clock takeover authority st)))"
  by (rule changed_ok) (simp_all add: adopt_hook_ok)

lemma changed_start:
  "terminal_ok lower st \<Longrightarrow> replaced \<noteq> None \<longrightarrow> full_lifecycle_hook_authority source label \<Longrightarrow> terminal_ok lower
     (fst (recompute_effective_state lower (view_now lower now st) now
        (start_session clock source label r allowed takeover replaced st)))"
  by (rule changed_ok) (simp_all add: start_session_ok terminal_ok_iff)

lemma changed_forget:
  "terminal_ok lower st \<Longrightarrow> terminal_ok lower
     (fst (recompute_effective_state lower (view_now lower now st) now (forget_agent clock source label st)))"
  by (rule changed_ok) (simp_all add: forget_agent_ok terminal_ok_iff)

lemma changed_clear:
  "terminal_ok lower st \<Longrightarrow> terminal_ok lower
     (fst (recompute_effective_state lower (view_now lower now st) now
        (suppress_current_full_lifecycle_hook_authority clock HookClear st
           \<lparr>ts_hook_authority := None, ts_persisted_agent_session := None\<rparr>)))"
  by (rule changed_ok) (simp_all add: records_suppress_current)

lemma accepted_ok:
  assumes "terminal_ok lower st" and "\<And>v. terminal_ok lower v \<Longrightarrow> terminal_ok lower (fst (g v))"
  shows "terminal_ok lower (fst (case accept_hook_report source seq st of (v, False) \<Rightarrow> (v, None) | (v, True) \<Rightarrow> g v))"
  using assms(2) accept_hook_report_ok [OF assms(1), of source seq]
  by (auto split: prod.split bool.split)

lemma hook_report_ok:
  assumes "terminal_ok lower st"
  shows "terminal_ok lower (fst (set_hook_authority_at lower clock source label state message r seq now st))"
proof -
  have "terminal_ok lower (st\<lparr>ts_hook_report_sequences := m\<rparr>)" for m
    using assms by (rule terminal_cong) simp_all
  then show ?thesis
    using assms unfolding set_hook_authority_at_def Let_def
    by (simp only: if_distrib [of fst] fst_conv if_split HOL.simp_thms)
      (intro conjI impI accepted_ok; simp add: changed_adopt)
qed

lemma session_start_ok:
  assumes "terminal_ok lower st"
  shows "terminal_ok lower (fst (set_agent_session_ref_for_session_start lower clock source label r seq start now st))"
proof (cases r)
  case (Some ref)
  have "full_lifecycle_hook_authority source label"
    if "same_owner_full_lifecycle_hook_authority_session_ref source label ref v \<noteq> None" for v
    using that by (auto simp: same_owner_full_lifecycle_hook_authority_session_ref_def split: option.splits if_splits)
  then show ?thesis
    using assms Some unfolding set_agent_session_ref_for_session_start_def Let_def
    by (simp only: option.case) (rule accepted_ok; simp add: changed_start)
qed (use assms in \<open>simp add: set_agent_session_ref_for_session_start_def\<close>)

lemma release_ok:
  assumes "terminal_ok lower st"
  shows "terminal_ok lower (fst (release_agent lower clock source label seq now st))"
  using assms unfolding release_agent_def by (rule accepted_ok) (simp add: changed_forget)

lemma cleared_ok:
  assumes "terminal_ok lower st"
  shows "terminal_ok lower (fst (clear_hook_authority lower clock source seq now st))"
proof -
  obtain v accepted where v: "(case or_else source (map_option hk_source (ts_hook_authority st)) of
      None \<Rightarrow> (st, True) | Some s \<Rightarrow> accept_hook_report s seq st) = (v, accepted)"
    by fastforce
  then have "terminal_ok lower v"
    using assms accept_hook_report_ok [OF assms, of _ seq] by (auto split: option.splits) (metis fst_conv)
  then show ?thesis
    by (simp add: clear_hook_authority_def v Let_def changed_clear split: prod.split)
      (metis changed_clear fst_conv)
qed

lemma length_bs_insert: "length (bs_insert x s) \<le> Suc (length s)"
  by (induction s) auto

lemma bs_insert_present: "bs_ok s \<Longrightarrow> x \<in> set s \<Longrightarrow> bs_insert x s = s"
  by (rule bs_ext) auto

lemma accept_metadata_ok:
  assumes "terminal_ok lower st"
  shows "terminal_ok lower (fst (accept_metadata_report source seq tokens st))"
proof -
  have "arbitrated_state lower (fst (accept_metadata_report source seq tokens st)) = arbitrated_state lower st"
    by (rule arbitrated_cong) (simp_all add: accept_metadata_report_def Let_def split: option.split)
  moreover have "records_ok (fst (accept_metadata_report source seq tokens st))"
    using assms length_bs_insert [of source "ts_metadata_token_sequence_sources st"]
    by (auto simp: accept_metadata_report_def Let_def terminal_ok_iff records_ok_def lifecycle_only_def
        bs_insert_present split: option.split)
  moreover have "ts_state (fst (accept_metadata_report source seq tokens st)) = ts_state st"
    by (simp add: accept_metadata_report_def Let_def split: option.split)
  ultimately show ?thesis
    using assms by (simp add: terminal_ok_iff)
qed

lemma terminal_ok_metadata [simp]: "terminal_ok lower (st\<lparr>ts_agent_metadata := m\<rparr>) = terminal_ok lower st"
proof -
  have "arbitrated_state lower (st\<lparr>ts_agent_metadata := m\<rparr>) = arbitrated_state lower st"
    by (rule arbitrated_cong) simp_all
  then show ?thesis
    by (simp add: terminal_ok_iff)
qed

lemma recomputed_metadata_ok:
  assumes "terminal_ok lower st" and "pv_state previous = ts_state st"
  shows "terminal_ok lower (fst (recompute_effective_state lower previous now (st\<lparr>ts_agent_metadata := m\<rparr>)))"
  using assms by (intro recomputed_ok) (simp_all add: terminal_ok_iff)

lemma metadata_report_ok:
  assumes "terminal_ok lower st"
  shows "terminal_ok lower (fst (set_agent_metadata lower report now st))"
proof -
  obtain v accepted where v: "accept_metadata_report (mrp_source report) (mrp_seq report) False st = (v, accepted)"
    by fastforce
  then have ok: "terminal_ok lower v"
    using accept_metadata_ok [OF assms] by (metis fst_conv)
  have cleared: "terminal_ok lower (clear_expiry_pending_for_hidden_metadata w) = terminal_ok lower w" for w
    by (simp add: clear_expiry_pending_for_hidden_metadata_def)
  have recomputed: "terminal_ok lower (fst (recompute_effective_state lower
      (view_now lower now (v\<lparr>ts_agent_metadata := m\<rparr>)) now (v\<lparr>ts_agent_metadata := m'\<rparr>)))"
    "terminal_ok lower (fst (recompute_effective_state lower (view_now lower now v) now (v\<lparr>ts_agent_metadata := m'\<rparr>)))"
    for m m'
    using ok by (auto intro: recomputed_metadata_ok)
  show ?thesis
  proof (cases "accepted = Some True")
    case True
    then show ?thesis
      by (simp add: set_agent_metadata_def v Let_def cleared recomputed case_prod_beta)
  next
    case False
    then show ?thesis
      using ok by (auto simp: set_agent_metadata_def v split: option.split bool.split)
  qed
qed

lemma metadata_expired_ok:
  assumes "terminal_ok lower st"
  shows "terminal_ok lower (fst (expire_agent_metadata_at lower scheduled now st))"
proof -
  have recomputed: "terminal_ok lower (fst (recompute_effective_state lower (view_now lower now (st\<lparr>ts_agent_metadata := m\<rparr>)
        \<lparr>pv_presentation := p\<rparr>) now (st\<lparr>ts_agent_metadata := m'\<rparr>)))" for m m' p
    using assms by (intro recomputed_metadata_ok) simp_all
  then show ?thesis
    using assms by (simp add: expire_agent_metadata_at_def Let_def case_prod_beta recomputed)
qed

lemma respawned_ok:
  assumes "terminal_ok lower st"
  shows "terminal_ok lower (clear_agent_runtime_identity_after_respawn st)"
  using assms
  by (simp add: clear_agent_runtime_identity_after_respawn_def clear_agent_name_def terminal_ok_def
      lifecycle_only_def arbitrated_state_def visible_blocker_overrides_hook_def)

lemma terminal_step_ok:
  assumes "terminal_ok lower st"
  shows "terminal_ok lower (terminal_step lower clock now op st)"
proof (cases op)
  case (Titled new_title)
  then show ?thesis
    using assms by (auto simp: set_terminal_title_def Let_def elim: terminal_cong)
next
  case (Labelled label)
  then show ?thesis
    using assms by (cases label) (auto simp: set_manual_label_def clear_manual_label_def elim: terminal_cong)
next
  case (Named name)
  then show ?thesis
    using assms by (cases name) (auto simp: set_agent_name_def clear_agent_name_def elim: terminal_cong)
next
  case (SessionRestored session)
  then show ?thesis
    using assms by (auto simp: set_persisted_agent_session_def elim: terminal_cong)
next
  case (LaunchedWith argv)
  then show ?thesis
    using assms by (auto simp: with_launch_argv_def elim: terminal_cong)
next
  case (TokensPatched patch ttl)
  then show ?thesis
    using assms by (auto elim: terminal_cong)
next
  case TokensExpired
  then show ?thesis
    using assms by (auto elim: terminal_cong)
qed (use assms in \<open>simp_all add: detected_ok hook_report_ok session_start_ok cleared_ok release_ok
    metadata_report_ok accept_metadata_ok metadata_expired_ok respawned_ok\<close>)

lemma terminal_new_ok: "terminal_ok lower (terminal_state_new terminal_id cwd)"
  by (simp add: terminal_state_new_def terminal_ok_def lifecycle_only_def arbitrated_state_def
      visible_blocker_overrides_hook_def)

interpretation terminal: step_machine "\<lambda>(clock, now, op) st. Inr (terminal_step lower clock now op st) :: unit + _"
    "terminal_ok lower" for lower
  by unfold_locales (auto simp: terminal_step_ok)

lemma terminal_run_all:
  "run_all (\<lambda>(clock, now, op) st. Inr (terminal_step lower clock now op st) :: unit + _) steps st
     = Inr (terminal_run lower steps st)"
  by (induction steps arbitrary: st) (auto simp: terminal_run_def)

lemma reachable_ok_terminal: "terminal_ok lower (terminal_run lower steps (terminal_state_new terminal_id cwd))"
  using terminal.run_keeps [OF terminal_new_ok terminal_run_all] .

text \<open>
  C34: whatever is observed, reported, released or restored in whatever order, and with whatever clocks,
  the state that is shown is the one the last hook reported, or without a hook the one the screen
  showed; only a hook that does not report the whole life of its agent yields, to a blocker that the
  screen of the same agent showed since; and at most 32 sources number their tokens.
\<close>

theorem shown_state_is_arbitrated:
  assumes "st = terminal_run lower steps (terminal_state_new terminal_id cwd)"
  shows "(case ts_hook_authority st of
        None \<Rightarrow> ts_state st = ts_fallback_state st
      | Some hook \<Rightarrow> ts_state st = hk_state hook
          \<or> ts_state st = AgentBlocked \<and> ts_fallback_state st = AgentBlocked
            \<and> \<not> full_lifecycle_hook_authority (hk_source hook) (hk_agent_label hook)
            \<and> parse_agent_label lower (hk_agent_label hook) = ts_detected_agent st
            \<and> (\<exists>seen. ts_fallback_observed_at st = Some seen \<and> hk_reported_at hook \<le> seen))
    \<and> length (ts_metadata_token_sequence_sources st) \<le> 32"
proof -
  have ok: "terminal_ok lower st"
    unfolding assms by (rule reachable_ok_terminal)
  then have "ts_state st = arbitrated_state lower st" "ts_fallback_visible_blocker st \<longrightarrow> ts_fallback_state st = AgentBlocked"
      "length (ts_metadata_token_sequence_sources st) \<le> 32"
    by (simp_all add: terminal_ok_def max_sequence_sources_def)
  then show ?thesis
    by (auto simp: arbitrated_state_def visible_blocker_overrides_hook_def live_full_lifecycle_hook_authority_def
        fallback_not_older_than_hook_def split: option.splits if_splits)
qed

text \<open>A report of a hook that nothing else is known of.\<close>

definition first_report :: terminal_op where
  "first_report = HookReport ''tool'' ''helper'' AgentWorking None None None"

lemma first_reported:
  "ts_hook_authority (terminal_run lower [(5, 5, first_report)] (terminal_state_new terminal_id cwd))
     = Some \<lparr>hk_source = ''tool'', hk_agent_label = ''helper'', hk_state = AgentWorking, hk_message = None,
         hk_reported_at = 5, hk_session_ref = None\<rparr>"
  "ts_fallback_state (terminal_run lower [(5, 5, first_report)] (terminal_state_new terminal_id cwd)) = AgentUnknown"
  by (simp_all add: terminal_run_def first_report_def terminal_state_new_def set_hook_authority_at_def
      full_lifecycle_hook_report_is_suppressed_def full_lifecycle_hook_report_matches_stale_session_def
      known_agent_label_conflicts_with_detected_agent_def conflicting_agents_def
      current_session_owner_conflicts_def current_session_identity_def resolved_session_ref_def
      live_full_lifecycle_hook_authority_conflicts_with_session_def accept_hook_report_def adopt_hook_def
      full_lifecycle_hook_report_has_fresh_session_after_suppression_def
      full_lifecycle_hook_report_has_fresh_session_after_stale_session_def stale_sessions_of_def
      split: option.split)

theorem shown_state_is_arbitrated_witness:
  "ts_state (terminal_run to_ascii_lowercase [(5, 5, first_report)] (terminal_state_new ''t'' ''/'')) = AgentWorking"
  using shown_state_is_arbitrated [OF refl, of to_ascii_lowercase "[(5, 5, first_report)]" "''t''" "''/''"]
  by (simp add: first_reported)

text \<open>A report of a hook that covers the whole life of its agent.\<close>

definition pi_session :: "string \<Rightarrow> agent_session_ref" where
  "pi_session path = \<lparr>sr_kind = KindPath, sr_value = path\<rparr>"

definition pi_hook :: hook_authority where
  "pi_hook = \<lparr>hk_source = ''nagi:pi'', hk_agent_label = ''pi'', hk_state = AgentWorking, hk_message = None,
     hk_reported_at = 5, hk_session_ref = Some (pi_session ''/old'')\<rparr>"

definition pi_reported :: terminal_state where
  "pi_reported = terminal_run to_ascii_lowercase
     [(5, 5, HookReport ''nagi:pi'' ''pi'' AgentWorking None (Some (pi_session ''/old'')) None)]
     (terminal_state_new ''t'' ''/'')"

lemma pi_full_lifecycle: "full_lifecycle_hook_authority (hk_source pi_hook) (hk_agent_label pi_hook)"
  by (simp add: pi_hook_def full_lifecycle_hook_authority_def)

lemma pi_hooked:
  "ts_hook_authority pi_reported = Some pi_hook"
  "ts_hook_report_sequences pi_reported = []"
  "ts_detected_agent pi_reported = None"
  by (simp_all add: pi_reported_def pi_hook_def terminal_run_def terminal_state_new_def set_hook_authority_at_def
      full_lifecycle_hook_report_is_suppressed_def full_lifecycle_hook_report_matches_stale_session_def
      known_agent_label_conflicts_with_detected_agent_def conflicting_agents_def
      current_session_owner_conflicts_def current_session_identity_def resolved_session_ref_def
      lifecycle_hook_report_replaces_persisted_session_def conflicting_same_owner_session_ref_def
      live_full_lifecycle_hook_authority_conflicts_with_session_def accept_hook_report_def adopt_hook_def
      full_lifecycle_hook_report_has_fresh_session_after_suppression_def retire_suppressed_def
      full_lifecycle_hook_report_has_fresh_session_after_stale_session_def stale_sessions_of_def
      split: option.split)

section \<open>A live hook outranks the screen\<close>

lemma run_keeps_if:
  assumes "P st" and "\<And>clock now op st. (clock, now, op) \<in> set steps \<Longrightarrow> P st \<Longrightarrow> P (terminal_step lower clock now op st)"
  shows "P (terminal_run lower steps st)"
  using assms
proof (induction steps arbitrary: st)
  case (Cons step steps)
  obtain clock now op where "step = (clock, now, op)"
    using prod_cases3 by blast
  then have "P (terminal_run lower steps (terminal_step lower clock now op st))"
    using Cons.prems by (intro Cons.IH) auto
  then show ?case
    by (simp add: terminal_run_def \<open>step = (clock, now, op)\<close>)
qed (simp add: terminal_run_def)

definition screen_of :: "lower \<Rightarrow> string \<Rightarrow> terminal_op \<Rightarrow> bool" where
  "screen_of lower label op \<longleftrightarrow>
     (\<exists>detected state blocker. op = DetectedState detected state blocker False
       \<and> \<not> conflicting_agents (parse_agent_label lower label) detected)"

lemma hooked_screen:
  assumes "ts_hook_authority st = Some hook"
    and "full_lifecycle_hook_authority (hk_source hook) (hk_agent_label hook)"
    and "screen_of lower (hk_agent_label hook) op"
  shows "ts_hook_authority (terminal_step lower clock now op st) = Some hook
    \<and> ts_persisted_agent_session (terminal_step lower clock now op st) = ts_persisted_agent_session st"
proof -
  obtain detected state blocker where op: "op = DetectedState detected state blocker False"
      "\<not> conflicting_agents (parse_agent_label lower (hk_agent_label hook)) detected"
    using assms(3) by (auto simp: screen_of_def)
  then have "should_ignore_detected_state_under_full_lifecycle_hook lower detected False st"
    using assms(1,2)
    by (simp add: should_ignore_detected_state_under_full_lifecycle_hook_def live_full_lifecycle_hook_authority_def
        hook_authority_conflicts_with_detected_agent_def hook_agent_def)
  then show ?thesis
    using assms(1) by (simp add: op set_detected_state_def Let_def)
qed

text \<open>
  C35: while a hook that reports the whole life of its agent is live, no sequence of screens, unless one
  shows another agent or the exit of the process, changes the state that is shown, the hook or the
  session that is kept.
\<close>

theorem live_hook_outranks_screens:
  assumes "st = terminal_run lower past (terminal_state_new terminal_id cwd)"
    and "ts_hook_authority st = Some hook"
    and "full_lifecycle_hook_authority (hk_source hook) (hk_agent_label hook)"
    and "\<forall>(clock, now, op) \<in> set steps. screen_of lower (hk_agent_label hook) op"
  shows "ts_hook_authority (terminal_run lower steps st) = Some hook
    \<and> ts_state (terminal_run lower steps st) = hk_state hook
    \<and> current_session_identity (terminal_run lower steps st) = current_session_identity st"
proof -
  let ?later = "terminal_run lower steps st"
  have kept: "ts_hook_authority ?later = Some hook
      \<and> ts_persisted_agent_session ?later = ts_persisted_agent_session st"
    by (rule run_keeps_if) (use assms(2-4) hooked_screen in auto)
  have "terminal_ok lower st"
    unfolding assms(1) by (rule reachable_ok_terminal)
  then have "terminal_ok lower ?later"
    using terminal.run_keeps terminal_run_all by blast
  then have "ts_state ?later = hk_state hook"
    using kept assms(3)
    by (simp add: terminal_ok_def arbitrated_state_def visible_blocker_overrides_hook_def
        live_full_lifecycle_hook_authority_def)
  then show ?thesis
    using kept assms(2) by (simp add: current_session_identity_def)
qed

theorem live_hook_outranks_screens_witness:
  "ts_state (terminal_run to_ascii_lowercase [(6, 6, DetectedState None AgentBlocked True False)] pi_reported)
     = AgentWorking"
proof -
  have "screen_of to_ascii_lowercase (hk_agent_label pi_hook) (DetectedState None AgentBlocked True False)"
    by (auto simp: screen_of_def conflicting_agents_def split: option.split)
  then show ?thesis
    using live_hook_outranks_screens [OF pi_reported_def pi_hooked(1) pi_full_lifecycle,
        of "[(6, 6, DetectedState None AgentBlocked True False)]"]
    by (simp add: pi_hook_def)
qed

end
