(* ===== verification/Terminal_Silence.thy ===== *)
theory Terminal_Silence
  imports Terminal_Props
begin

text \<open>
  What keeps the past quiet: late reports of sessions that were replaced and of processes that have exited
  stay without effect, and which operations end that.
\<close>

section \<open>Sessions that were replaced\<close>

definition retired :: "string \<Rightarrow> string \<Rightarrow> agent_session_ref \<Rightarrow> terminal_state \<Rightarrow> bool" where
  "retired source label r st \<longleftrightarrow>
     \<lparr>shs_agent_label = label, shs_session_ref = r\<rparr> \<in> set (stale_sessions_of source st)"

lemma retired_cong: "ts_stale_sessions a = ts_stale_sessions b \<Longrightarrow> retired source label r a = retired source label r b"
  by (simp add: retired_def stale_sessions_of_def)

lemma retired_update [simp]:
  "retired source label r (st\<lparr>ts_hook_authority := x0\<rparr>) = retired source label r st"
  "retired source label r (st\<lparr>ts_persisted_agent_session := x1\<rparr>) = retired source label r st"
  "retired source label r (st\<lparr>ts_hook_report_sequences := x2\<rparr>) = retired source label r st"
  "retired source label r (st\<lparr>ts_detected_agent := x3\<rparr>) = retired source label r st"
  "retired source label r (st\<lparr>ts_fallback_observed_at := x4\<rparr>) = retired source label r st"
  "retired source label r (st\<lparr>ts_fallback_state := x5\<rparr>) = retired source label r st"
  "retired source label r (st\<lparr>ts_fallback_visible_blocker := x6\<rparr>) = retired source label r st"
  "retired source label r (st\<lparr>ts_suppressed_reports := x7\<rparr>) = retired source label r st"
  "retired source label r (st\<lparr>ts_recent_agent_process_exit_at := x8\<rparr>) = retired source label r st"
  "retired source label r (st\<lparr>ts_agent_metadata := x9\<rparr>) = retired source label r st"
  "retired source label r (st\<lparr>ts_metadata_tokens := x10\<rparr>) = retired source label r st"
  "retired source label r (st\<lparr>ts_metadata_report_sequences := x11\<rparr>) = retired source label r st"
  "retired source label r (st\<lparr>ts_metadata_token_sequence_sources := x12\<rparr>) = retired source label r st"
  "retired source label r (st\<lparr>ts_terminal_title := x13\<rparr>) = retired source label r st"
  "retired source label r (st\<lparr>ts_manual_label := x14\<rparr>) = retired source label r st"
  "retired source label r (st\<lparr>ts_agent_name := x15\<rparr>) = retired source label r st"
  "retired source label r (st\<lparr>ts_revision := x16\<rparr>) = retired source label r st"
  "retired source label r (st\<lparr>ts_launch_argv := x17\<rparr>) = retired source label r st"
  "retired source label r (st\<lparr>ts_state := x18\<rparr>) = retired source label r st"
  by (simp_all add: retired_def stale_sessions_of_def)

lemma retired_recompute [simp]:
  "retired source label r (fst (recompute_effective_state lower previous now st)) = retired source label r st"
  by (rule retired_cong) simp

lemma retired_clear_expiry [simp]:
  "retired source label r (clear_expiry_pending_for_hidden_metadata st) = retired source label r st"
  by (rule retired_cong) simp

lemma retired_remember:
  "retired source label r st \<Longrightarrow> retired source label r (remember_stale_full_lifecycle_hook_session s l q st)"
  by (auto simp: retired_def remember_stale_full_lifecycle_hook_session_def stale_sessions_of_def Let_def
      split: option.splits)

lemma retired_forget:
  "retired source label r st \<Longrightarrow> (s, l, q) \<noteq> (source, label, r)
     \<Longrightarrow> retired source label r (forget_stale_full_lifecycle_hook_session s l q st)"
proof (cases "bm_get (ts_stale_sessions st) s")
  case (Some stale)
  assume "retired source label r st" and "(s, l, q) \<noteq> (source, label, r)"
  then have "source \<noteq> s \<or> \<lparr>shs_agent_label = label, shs_session_ref = r\<rparr>
      \<in> set (filter (\<lambda>s. shs_agent_label s \<noteq> l \<or> shs_session_ref s \<noteq> q) stale)"
    using Some by (auto simp: retired_def stale_sessions_of_def)
  then show ?thesis
    using Some \<open>retired source label r st\<close>
    by (cases "filter (\<lambda>s. shs_agent_label s \<noteq> l \<or> shs_session_ref s \<noteq> q) stale")
      (auto simp: retired_def forget_stale_full_lifecycle_hook_session_def stale_sessions_of_def Let_def
        simp del: filter.simps set_filter)
qed (simp add: forget_stale_full_lifecycle_hook_session_def)

lemma retired_suppress [simp]:
  "retired source label r (suppress_with_session_ref clock s l q reason st) = retired source label r st"
  "retired source label r (suppress_current_full_lifecycle_hook_authority clock reason st) = retired source label r st"
  "retired source label r (suppress_full_lifecycle_hook_report clock s l reason st) = retired source label r st"
  by (simp_all add: suppress_with_session_ref_def suppress_current_full_lifecycle_hook_authority_def
      suppress_full_lifecycle_hook_report_def split: option.split)

lemma retired_remember_suppressed:
  "retired source label r st \<Longrightarrow> retired source label r (remember_suppressed entry st)"
  by (simp add: remember_suppressed_def retired_remember split: option.split)

lemma retired_fold: "retired source label r st \<Longrightarrow> retired source label r (fold remember_suppressed es st)"
  by (induction es arbitrary: st) (simp_all add: retired_remember_suppressed)

lemma retired_detected:
  assumes "retired source label r st"
  shows "retired source label r (fst (set_detected_state lower clock detected state blocker exited now st))"
proof -
  have cleared: "retired source label r (clear_full_lifecycle_hook_suppression_for_detected_agent lower p d v)"
    if "retired source label r v" for p d v
    using that
    by (simp add: clear_full_lifecycle_hook_suppression_for_detected_agent_def Let_def retired_fold split: option.split)
  have ends: "retired source label r (end_exited_hook lower clock d now v) = retired source label r v"
    "retired source label r (end_persisted_session lower d v) = retired source label r v"
    "retired source label r (end_replaced_hook lower clock p d now v) = retired source label r v" for p d v
    by (simp_all add: end_exited_hook_def end_persisted_session_def end_replaced_hook_def Let_def split: option.split)
  show ?thesis
    using assms by (simp add: set_detected_state_def Let_def ends cleared)
qed

lemma retired_accept [simp]:
  "retired source label r (fst (accept_hook_report s seq st)) = retired source label r st"
  by (simp add: accept_hook_report_def split: option.split)

lemma retired_accepted:
  assumes "retired source label r st" and "\<And>v. retired source label r v \<Longrightarrow> retired source label r (fst (g v))"
  shows "retired source label r
    (fst (case accept_hook_report s seq st of (v, False) \<Rightarrow> (v, None) | (v, True) \<Rightarrow> g v))"
proof -
  obtain v accepted where v: "accept_hook_report s seq st = (v, accepted)"
    by fastforce
  then have "retired source label r v"
    using assms(1) retired_accept [of source label r s seq st] by simp
  then show ?thesis
    using assms(2) by (cases accepted) (simp_all add: v)
qed

lemma retired_adopt: "retired source label r st \<Longrightarrow> retired source label r (adopt_hook clock takeover hook st)"
  by (simp add: adopt_hook_def retire_suppressed_def Let_def retired_remember_suppressed split: option.split)

lemma retired_start:
  "retired source label r st \<Longrightarrow> (s, l, q) \<noteq> (source, label, r)
     \<Longrightarrow> retired source label r (start_session clock s l q allowed takeover replaced st)"
  by (auto simp: start_session_def Let_def retired_forget retired_remember split: option.split)

text \<open>What lets a retired session report again.\<close>

fun may_resume :: "string \<Rightarrow> string \<Rightarrow> agent_session_ref \<Rightarrow> terminal_op \<Rightarrow> bool" where
  "may_resume source label r (SessionStart s l q seq start) \<longleftrightarrow> s = source \<and> l = label \<and> q = Some r"
| "may_resume source label r Respawned \<longleftrightarrow> True"
| "may_resume source label r op \<longleftrightarrow> False"

lemma retired_report:
  "retired source label r st
     \<Longrightarrow> retired source label r (fst (set_hook_authority_at lower clock s l state message q seq now st))"
  unfolding set_hook_authority_at_def Let_def
  by (simp only: if_distrib [of fst] fst_conv if_split HOL.simp_thms)
    (intro conjI impI retired_accepted; simp add: retired_adopt)

lemma retired_session_start:
  assumes "retired source label r st" and "\<not> may_resume source label r (SessionStart s l q seq start)"
  shows "retired source label r (fst (set_agent_session_ref_for_session_start lower clock s l q seq start now st))"
proof (cases q)
  case (Some ref)
  then have "(s, l, ref) \<noteq> (source, label, r)"
    using assms(2) by auto
  then show ?thesis
    using assms(1) Some unfolding set_agent_session_ref_for_session_start_def Let_def
    by (simp only: option.case) (rule retired_accepted; simp add: retired_start)
qed (use assms in \<open>simp add: set_agent_session_ref_for_session_start_def\<close>)

lemma retired_released:
  "retired source label r st \<Longrightarrow> retired source label r (fst (release_agent lower clock s l seq now st))"
  unfolding release_agent_def by (rule retired_accepted) (simp_all add: forget_agent_def Let_def)

lemma retired_cleared:
  "retired source label r st \<Longrightarrow> retired source label r (fst (clear_hook_authority lower clock s seq now st))"
  by (rule iffD1 [OF retired_cong]) 
    (auto simp: clear_hook_authority_def accept_hook_report_def Let_def suppress_current_full_lifecycle_hook_authority_def
      suppress_with_session_ref_def case_prod_beta split: option.split)

lemma retired_metadata:
  "retired source label r (fst (accept_metadata_report s seq tokens st)) = retired source label r st"
  "retired source label r (fst (set_agent_metadata lower report now st)) = retired source label r st"
  "retired source label r (fst (expire_agent_metadata_at lower scheduled now st)) = retired source label r st"
  by (simp_all add: retired_def stale_sessions_of_def accept_metadata_report_def set_agent_metadata_def
      expire_agent_metadata_at_def Let_def case_prod_beta split: option.split bool.split)

lemma retired_step:
  assumes "retired source label r st" and "\<not> may_resume source label r op"
  shows "retired source label r (terminal_step lower clock now op st)"
  using assms
  by (cases op)
    (simp_all add: retired_detected retired_report retired_session_start retired_released retired_cleared
      retired_metadata set_persisted_agent_session_def set_terminal_title_def set_manual_label_def
      clear_manual_label_def set_agent_name_def clear_agent_name_def with_launch_argv_def Let_def
      split: option.split)

lemma retired_silent:
  assumes "retired source label r st" and "full_lifecycle_hook_authority source label"
  shows "set_hook_authority_at lower clock source label state message (Some r) seq now st = (st, None)"
  using assms
  by (auto simp: set_hook_authority_at_def full_lifecycle_hook_report_matches_stale_session_def retired_def list_ex_iff)

lemma started_retires:
  assumes "ts_hook_authority st = Some hook" and "hk_session_ref hook = Some old" and "new \<noteq> old"
    and "full_lifecycle_hook_authority (hk_source hook) (hk_agent_label hook)"
    and "snd (set_agent_session_ref_for_session_start lower clock (hk_source hook) (hk_agent_label hook) (Some new)
      seq start now st) \<noteq> None"
  shows "retired (hk_source hook) (hk_agent_label hook) old
    (fst (set_agent_session_ref_for_session_start lower clock (hk_source hook) (hk_agent_label hook) (Some new)
      seq start now st))"
proof -
  obtain v accepted where v: "accept_hook_report (hk_source hook) seq st = (v, accepted)"
    by fastforce
  then have kept: "ts_hook_authority v = Some hook"
    using assms(1) by (auto simp: accept_hook_report_def split: option.splits if_splits)
  have "retired (hk_source hook) (hk_agent_label hook) old
      (start_session clock (hk_source hook) (hk_agent_label hook) new allowed takeover (Some old) v)"
    for allowed takeover
    by (simp add: start_session_def Let_def retired_def remember_stale_full_lifecycle_hook_session_def
        stale_sessions_of_def)
  then show ?thesis
    using assms(2-5) kept
    by (auto simp: set_agent_session_ref_for_session_start_def v Let_def
        same_owner_full_lifecycle_hook_authority_session_ref_def split: bool.splits if_splits)
qed

text \<open>
  C36: once the start of a session has replaced the session of a hook that reports the whole life of its
  agent, the replaced session stays silent: whatever happens to the terminal, unless that session is
  started again or the shell is respawned, a late report of it changes nothing.
\<close>

theorem replaced_session_stays_silent:
  assumes "ts_hook_authority st = Some hook" and "hk_session_ref hook = Some old" and "new \<noteq> old"
    and "full_lifecycle_hook_authority (hk_source hook) (hk_agent_label hook)"
    and "set_agent_session_ref_for_session_start lower clock (hk_source hook) (hk_agent_label hook) (Some new)
      seq start now st = (started, Some mutation)"
    and "\<forall>(clock, now, op) \<in> set steps. \<not> may_resume (hk_source hook) (hk_agent_label hook) old op"
  shows "set_hook_authority_at lower late_clock (hk_source hook) (hk_agent_label hook) state message (Some old)
      late_seq late (terminal_run lower steps started) = (terminal_run lower steps started, None)"
proof (rule retired_silent [OF _ assms(4)])
  have "retired (hk_source hook) (hk_agent_label hook) old started"
    using started_retires [OF assms(1-4), of lower clock seq start now] assms(5) by simp
  then show "retired (hk_source hook) (hk_agent_label hook) old (terminal_run lower steps started)"
    by (rule run_keeps_if) (use assms(6) in \<open>auto intro: retired_step\<close>)
qed

theorem replaced_session_stays_silent_witness:
  "snd (set_hook_authority_at to_ascii_lowercase 7 ''nagi:pi'' ''pi'' AgentWorking None
     (Some (pi_session ''/old'')) None 7
     (terminal_run to_ascii_lowercase [(6, 6, TokensExpired)]
       (fst (set_agent_session_ref_for_session_start to_ascii_lowercase 5 ''nagi:pi'' ''pi''
         (Some (pi_session ''/new'')) None (Some ''new'') 5 pi_reported)))) = None"
proof -
  let ?start = "set_agent_session_ref_for_session_start to_ascii_lowercase 5 ''nagi:pi'' ''pi''
      (Some (pi_session ''/new'')) None (Some ''new'') 5 pi_reported"
  have "current_session_identity pi_reported = Some (''nagi:pi'', ''pi'', KindPath, ''/old'')"
    by (simp add: current_session_identity_def pi_hooked pi_hook_def pi_session_def)
  then have "\<not> current_session_owner_conflicts ''nagi:pi'' ''pi'' pi_reported"
    "conflicting_same_owner_session_ref ''nagi:pi'' ''pi'' (pi_session ''/new'') (Some ''new'') pi_reported = None"
    by (simp_all add: current_session_owner_conflicts_def conflicting_same_owner_session_ref_def)
  moreover have "\<not> known_agent_label_conflicts_with_detected_agent to_ascii_lowercase ''pi'' pi_reported"
    by (simp add: known_agent_label_conflicts_with_detected_agent_def conflicting_agents_def pi_hooked split: option.split)
  moreover have "session_start_source_allows_session_replacement ''nagi:pi'' ''pi'' (Some ''new'')"
    by (simp add: session_start_source_allows_session_replacement_def)
  moreover have "accept_hook_report ''nagi:pi'' None pi_reported = (pi_reported, True)"
    by (simp add: accept_hook_report_def pi_hooked)
  ultimately have "snd ?start \<noteq> None"
    by (simp add: set_agent_session_ref_for_session_start_def Let_def)
  then obtain started mutation where start: "?start = (started, Some mutation)"
    by (metis not_None_eq prod.collapse)
  show ?thesis
    using replaced_session_stays_silent [OF pi_hooked(1) _ _ pi_full_lifecycle, of "pi_session ''/old''"
        "pi_session ''/new''" to_ascii_lowercase 5 None "Some ''new''" 5 started mutation
        "[(6, 6, TokensExpired)]" 7 AgentWorking None None 7] start
    by (simp add: pi_hook_def pi_session_def)
qed

section \<open>Processes that have exited\<close>

definition process_ended :: "string \<Rightarrow> string \<Rightarrow> terminal_state \<Rightarrow> bool" where
  "process_ended source label st \<longleftrightarrow>
     full_lifecycle_hook_authority source label
     \<and> (case bm_get (ts_suppressed_reports st) source of
          None \<Rightarrow> False | Some s \<Rightarrow> sup_agent_label s = label \<and> sup_reason s = ProcessExit)
     \<and> (case ts_hook_authority st of None \<Rightarrow> True | Some hook \<Rightarrow> hk_source hook \<noteq> source)"

text \<open>What may let the agent of a process that has exited report again.\<close>

fun may_wake :: "lower \<Rightarrow> string \<Rightarrow> string \<Rightarrow> terminal_op \<Rightarrow> bool" where
  "may_wake lower source label (DetectedState detected state blocker exited) \<longleftrightarrow>
     \<not> exited \<and> detected \<noteq> None \<and> parse_agent_label lower label = detected"
| "may_wake lower source label (HookReport s l state message r seq) \<longleftrightarrow> s = source \<and> l \<noteq> label"
| "may_wake lower source label (Released s l seq) \<longleftrightarrow> s = source \<and> l = label"
| "may_wake lower source label Respawned \<longleftrightarrow> True"
| "may_wake lower source label op \<longleftrightarrow> False"

lemma full_lifecycle_label:
  "full_lifecycle_hook_authority source label \<Longrightarrow> full_lifecycle_hook_authority source l \<Longrightarrow> l = label"
  by (auto simp: full_lifecycle_hook_authority_def)

lemma ended_cong:
  "process_ended source label st \<Longrightarrow> ts_suppressed_reports a = ts_suppressed_reports st
     \<Longrightarrow> ts_hook_authority a = ts_hook_authority st \<Longrightarrow> process_ended source label a"
  by (simp add: process_ended_def)

lemma ended_no_hook:
  "process_ended source label st \<Longrightarrow> process_ended source label (st\<lparr>ts_hook_authority := None\<rparr>)"
  by (simp add: process_ended_def)

lemma ended_update [simp]:
  "process_ended source label (st\<lparr>ts_persisted_agent_session := x1\<rparr>) = process_ended source label st"
  "process_ended source label (st\<lparr>ts_hook_report_sequences := x2\<rparr>) = process_ended source label st"
  "process_ended source label (st\<lparr>ts_detected_agent := x3\<rparr>) = process_ended source label st"
  "process_ended source label (st\<lparr>ts_fallback_observed_at := x4\<rparr>) = process_ended source label st"
  "process_ended source label (st\<lparr>ts_fallback_state := x5\<rparr>) = process_ended source label st"
  "process_ended source label (st\<lparr>ts_fallback_visible_blocker := x6\<rparr>) = process_ended source label st"
  "process_ended source label (st\<lparr>ts_recent_agent_process_exit_at := x8\<rparr>) = process_ended source label st"
  "process_ended source label (st\<lparr>ts_agent_metadata := x9\<rparr>) = process_ended source label st"
  "process_ended source label (st\<lparr>ts_metadata_tokens := x10\<rparr>) = process_ended source label st"
  "process_ended source label (st\<lparr>ts_terminal_title := x13\<rparr>) = process_ended source label st"
  "process_ended source label (st\<lparr>ts_manual_label := x14\<rparr>) = process_ended source label st"
  "process_ended source label (st\<lparr>ts_agent_name := x15\<rparr>) = process_ended source label st"
  "process_ended source label (st\<lparr>ts_revision := x16\<rparr>) = process_ended source label st"
  "process_ended source label (st\<lparr>ts_launch_argv := x17\<rparr>) = process_ended source label st"
  "process_ended source label (st\<lparr>ts_stale_sessions := x18\<rparr>) = process_ended source label st"
  by (simp_all add: process_ended_def)

lemma ended_recompute [simp]:
  "process_ended source label (fst (recompute_effective_state lower previous now st)) = process_ended source label st"
  by (simp add: process_ended_def)

lemma ended_remember [simp]:
  "process_ended source label (remember_stale_full_lifecycle_hook_session s l q st) = process_ended source label st"
  "process_ended source label (forget_stale_full_lifecycle_hook_session s l q st) = process_ended source label st"
  "process_ended source label (remember_suppressed entry st) = process_ended source label st"
  by (simp_all add: remember_stale_full_lifecycle_hook_session_def forget_stale_full_lifecycle_hook_session_def
      remember_suppressed_def Let_def split: option.split)

lemma ended_fold [simp]:
  "process_ended source label (fold remember_suppressed es st) = process_ended source label st"
  by (induction es arbitrary: st) simp_all

lemma ended_suppress_current:
  "process_ended source label st
     \<Longrightarrow> process_ended source label (suppress_current_full_lifecycle_hook_authority clock reason st)"
  by (cases "ts_hook_authority st") (auto simp: process_ended_def
      suppress_current_full_lifecycle_hook_authority_def suppress_with_session_ref_def)

lemma bm_get_filter: "bm_get m k = Some v \<Longrightarrow> P (k, v) \<Longrightarrow> bm_get (filter P m) k = Some v"
  by (induction m) (auto simp: bm_get_def split: if_splits)

lemma ended_clear_for_detected:
  assumes "process_ended source label st" and "detected = None \<or> parse_agent_label lower label \<noteq> detected"
  shows "process_ended source label
    (clear_full_lifecycle_hook_suppression_for_detected_agent lower previous detected st)"
proof (cases detected)
  case (Some agent)
  obtain s where s: "bm_get (ts_suppressed_reports st) source = Some s" "sup_agent_label s = label"
      "sup_reason s = ProcessExit"
    using assms(1) that by (cases "bm_get (ts_suppressed_reports st) source") (auto simp: process_ended_def)
  have "process_ended source label (st\<lparr>ts_suppressed_reports := filter
      (\<lambda>e. \<not> parse_agent_label lower (sup_agent_label (snd e)) = Some agent) (ts_suppressed_reports st)\<rparr>)"
    using assms s bm_get_filter [OF s(1), of "\<lambda>e. \<not> parse_agent_label lower (sup_agent_label (snd e)) = Some agent"]
    by (simp add: process_ended_def Some)
  then show ?thesis
    using assms(1) by (simp add: clear_full_lifecycle_hook_suppression_for_detected_agent_def Some Let_def)
qed (use assms in \<open>simp add: clear_full_lifecycle_hook_suppression_for_detected_agent_def\<close>)

lemma ended_ends:
  assumes "process_ended source label st"
  shows "process_ended source label (end_exited_hook lower clock detected now st)"
    "process_ended source label (end_persisted_session lower detected st)"
    "process_ended source label (end_replaced_hook lower clock previous detected now st)"
  using assms ended_suppress_current [OF assms]
  by (auto simp: end_exited_hook_def end_persisted_session_def end_replaced_hook_def Let_def ended_no_hook
      split: option.split)

lemma ended_detected:
  assumes "process_ended source label st"
    and "\<not> may_wake lower source label (DetectedState detected state blocker exited)"
  shows "process_ended source label (fst (set_detected_state lower clock detected state blocker exited now st))"
proof -
  have "\<not> exited \<Longrightarrow> detected = None \<or> parse_agent_label lower label \<noteq> detected"
    using assms(2) by auto
  then show ?thesis
    using assms(1) by (simp add: set_detected_state_def Let_def ended_ends ended_clear_for_detected)
qed

lemma ended_accept [simp]:
  "process_ended source label (fst (accept_hook_report s seq st)) = process_ended source label st"
  by (simp add: accept_hook_report_def split: option.split)

lemma ended_accepted:
  assumes "process_ended source label st"
    and "\<And>v. process_ended source label v \<Longrightarrow> process_ended source label (fst (g v))"
  shows "process_ended source label
    (fst (case accept_hook_report s seq st of (v, False) \<Rightarrow> (v, None) | (v, True) \<Rightarrow> g v))"
proof -
  obtain v accepted where v: "accept_hook_report s seq st = (v, accepted)"
    by fastforce
  then have "process_ended source label v"
    using assms(1) ended_accept [of source label s seq st] by simp
  then show ?thesis
    using assms(2) by (cases accepted) (simp_all add: v)
qed

lemma ended_adopt:
  assumes "process_ended source label st" and "hk_source hook \<noteq> source"
  shows "process_ended source label (adopt_hook clock takeover hook st)"
proof -
  have retire: "process_ended source label (retire_suppressed (hk_source hook) v)" if "process_ended source label v" for v
  proof -
    have "process_ended source label
        (v\<lparr>ts_suppressed_reports := bm_remove (hk_source hook) (ts_suppressed_reports v)\<rparr>)"
      using that assms(2) by (simp add: process_ended_def)
    then show ?thesis
      using that by (simp add: retire_suppressed_def split: option.split)
  qed
  have adopt: "process_ended source label (v\<lparr>ts_persisted_agent_session := None, ts_hook_authority := Some hook\<rparr>)"
    if "process_ended source label v" for v
    using that assms(2) by (simp add: process_ended_def)
  show ?thesis
    using assms by (simp add: adopt_hook_def Let_def retire adopt ended_suppress_current)
qed

lemma ended_silent:
  assumes "process_ended source label st"
  shows "set_hook_authority_at lower clock source label state message r seq now st = (st, None)"
  using assms
  by (auto simp: set_hook_authority_at_def full_lifecycle_hook_report_is_suppressed_def process_ended_def
      split: option.splits)

lemma ended_report:
  assumes "process_ended source label st" and "s = source \<Longrightarrow> l = label"
  shows "process_ended source label (fst (set_hook_authority_at lower clock s l state message q seq now st))"
proof (cases "s = source")
  case False
  then show ?thesis
    using assms(1) unfolding set_hook_authority_at_def Let_def
    by (simp only: if_distrib [of fst] fst_conv if_split HOL.simp_thms)
      (intro conjI impI ended_accepted; simp add: ended_adopt)
qed (use assms in \<open>simp add: ended_silent\<close>)

lemma ended_session_start:
  assumes "process_ended source label st"
  shows "process_ended source label
    (fst (set_agent_session_ref_for_session_start lower clock s l q seq start now st))"
proof (cases q)
  case (Some ref)
  have "process_ended source label (start_session clock s l ref allowed takeover replaced v)"
    if "process_ended source label v" for v allowed takeover replaced
    using that by (simp add: start_session_def Let_def ended_suppress_current ended_no_hook split: option.split)
  then show ?thesis
    using assms Some unfolding set_agent_session_ref_for_session_start_def Let_def
    by (simp only: option.case) (rule ended_accepted; simp)
qed (use assms in \<open>simp add: set_agent_session_ref_for_session_start_def\<close>)

lemma ended_released:
  assumes "process_ended source label st" and "s = source \<Longrightarrow> l \<noteq> label"
  shows "process_ended source label (fst (release_agent lower clock s l seq now st))"
proof -
  have "process_ended source label (forget_agent clock s l v)" if "process_ended source label v" for v
    using that assms(2) full_lifecycle_label [of source label l]
    by (auto simp: forget_agent_def suppress_full_lifecycle_hook_report_def suppress_with_session_ref_def
        process_ended_def Let_def)
  then show ?thesis
    using assms(1) unfolding release_agent_def by (intro ended_accepted) simp_all
qed

lemma ended_cleared:
  assumes "process_ended source label st"
  shows "process_ended source label (fst (clear_hook_authority lower clock s seq now st))"
proof -
  obtain v accepted where v: "(case or_else s (map_option hk_source (ts_hook_authority st)) of
      None \<Rightarrow> (st, True) | Some x \<Rightarrow> accept_hook_report x seq st) = (v, accepted)"
    by fastforce
  moreover have "process_ended source label (fst (case or_else s (map_option hk_source (ts_hook_authority st)) of
      None \<Rightarrow> (st, True) | Some x \<Rightarrow> accept_hook_report x seq st)) = process_ended source label st"
    by (simp split: option.split)
  ultimately have "process_ended source label v"
    using assms by simp
  then show ?thesis
    by (simp add: clear_hook_authority_def v Let_def case_prod_beta ended_no_hook ended_suppress_current)
qed

lemma ended_metadata:
  assumes "process_ended source label st"
  shows "process_ended source label (fst (accept_metadata_report s seq tokens st))"
    "process_ended source label (fst (set_agent_metadata lower report now st))"
    "process_ended source label (fst (expire_agent_metadata_at lower scheduled now st))"
  by (rule ended_cong [OF assms]; simp add: accept_metadata_report_def set_agent_metadata_def
      expire_agent_metadata_at_def Let_def case_prod_beta split: option.split bool.split)+

lemma ended_step:
  assumes "process_ended source label st" and "\<not> may_wake lower source label op"
  shows "process_ended source label (terminal_step lower clock now op st)"
  using assms
  by (cases op)
    (auto simp: ended_detected ended_report ended_session_start ended_released ended_cleared ended_metadata
      set_persisted_agent_session_def set_terminal_title_def set_manual_label_def clear_manual_label_def
      set_agent_name_def clear_agent_name_def with_launch_argv_def Let_def
      simp del: may_wake.simps(1) split: option.split)

lemma exited_hook_ends:
  assumes "ts_hook_authority st = Some hook"
    and "full_lifecycle_hook_authority (hk_source hook) (hk_agent_label hook)"
    and "hk_reported_at hook \<le> now" and "parse_agent_label lower (hk_agent_label hook) = detected"
  shows "process_ended (hk_source hook) (hk_agent_label hook) (end_exited_hook lower clock detected now st)"
  using assms
  by (simp add: end_exited_hook_def hook_authority_not_newer_than_def hook_agent_def Let_def process_ended_def
      suppress_current_full_lifecycle_hook_authority_def suppress_with_session_ref_def)

lemma exit_ends:
  assumes "ts_hook_authority st = Some hook"
    and "full_lifecycle_hook_authority (hk_source hook) (hk_agent_label hook)"
    and "hk_reported_at hook \<le> now" and "parse_agent_label lower (hk_agent_label hook) = detected"
  shows "process_ended (hk_source hook) (hk_agent_label hook)
    (fst (set_detected_state lower clock detected state blocker True now st))"
  using assms
  by (simp add: set_detected_state_def Let_def should_ignore_detected_state_under_full_lifecycle_hook_def
      ended_ends exited_hook_ends)

text \<open>
  C37: once the process of an agent has exited whose hook reported its whole life, its hook stays silent:
  whatever happens to the terminal, unless the agent is seen or released again, another label reports
  from the same source or the shell is respawned, a late report of whatever session changes nothing.
\<close>

theorem exited_process_stays_silent:
  assumes "ts_hook_authority st = Some hook"
    and "full_lifecycle_hook_authority (hk_source hook) (hk_agent_label hook)"
    and "hk_reported_at hook \<le> now" and "parse_agent_label lower (hk_agent_label hook) = detected"
    and "exited = fst (set_detected_state lower clock detected screen blocker True now st)"
    and "\<forall>(clock, now, op) \<in> set steps. \<not> may_wake lower (hk_source hook) (hk_agent_label hook) op"
  shows "set_hook_authority_at lower late_clock (hk_source hook) (hk_agent_label hook) state message r
      late_seq late (terminal_run lower steps exited) = (terminal_run lower steps exited, None)"
proof (rule ended_silent)
  have "process_ended (hk_source hook) (hk_agent_label hook) exited"
    unfolding assms(5) using assms(1-4) by (rule exit_ends)
  then show "process_ended (hk_source hook) (hk_agent_label hook) (terminal_run lower steps exited)"
    by (rule run_keeps_if) (use assms(6) in \<open>auto intro: ended_step simp del: may_wake.simps(1)\<close>)
qed

theorem exited_process_stays_silent_witness:
  "snd (set_hook_authority_at to_ascii_lowercase 8 ''nagi:pi'' ''pi'' AgentWorking None
     (Some (pi_session ''/new'')) None 8
     (terminal_run to_ascii_lowercase [(7, 7, TokensExpired)]
       (fst (set_detected_state to_ascii_lowercase 6 (parse_agent_label to_ascii_lowercase ''pi'') AgentIdle
         False True 6 pi_reported)))) = None"
  using exited_process_stays_silent [OF pi_hooked(1) pi_full_lifecycle _ _ refl, of 6 to_ascii_lowercase
      "parse_agent_label to_ascii_lowercase ''pi''" "[(7, 7, TokensExpired)]" 8 AgentWorking None
      "Some (pi_session ''/new'')" None 8 6 AgentIdle False]
  by (simp add: pi_hook_def)

text \<open>
  A release is one of the exceptions: it overwrites what is known of the exit, without the session, so
  that the ended session may report again.
\<close>

lemma release_lifts_the_exit:
  assumes "process_ended source label st" and "ts_hook_authority st = None"
    and "release_agent lower clock source label seq now st = (released, Some mutation)"
  shows "\<not> full_lifecycle_hook_report_is_suppressed source label (Some r) released"
proof -
  obtain v where v: "accept_hook_report source seq st = (v, True)"
      "released = fst (recompute_effective_state lower (view_now lower now v) now (forget_agent clock source label v))"
    using assms(3) by (auto simp: release_agent_def map_prod_def mutation_since_def
        split: prod.splits bool.splits if_splits)
  moreover have "ts_hook_authority v = None"
    using v(1) assms(2) by (auto simp: accept_hook_report_def split: option.splits if_splits)
  ultimately show ?thesis
    using assms(1)
    by (simp add: full_lifecycle_hook_report_is_suppressed_def process_ended_def forget_agent_def Let_def
        suppress_full_lifecycle_hook_report_def suppress_with_session_ref_def)
qed

end
