(* ===== verification/Spec2Isabelle.thy ===== *)
theory Spec2Isabelle
  imports Store_Crash_Props Store_Props Attention_Props Journal_Props Trusted_Git_Props Trusted_Check_Props
    Evidence_Pack Executor Handoff Runtime_Cluster Mission_Bridge_Props Layout_Props Consent
    Project_Recipe_Props Project_Copy_Props Registry_Lock Services_Sample Cleanup
    Detect_Agent_Props Detect_Props Detect_Update_Props Terminal_Silence
begin

text \<open>
  A verification development of Nagi, a terminal multiplexer for coding agents (Rust, sources under
  \<open>src/src/\<close>). It covers the parts of the program that decide something: the mission engine with its
  durable journal and its proofs, the interface that serves it, the consent of the user, the
  project contract with its services and leased ports, the tree of panes, the detection of what
  an agent is doing from its screen, and what a terminal shows of it.

  \<^bold>\<open>The program.\<close> A mission is a task that an agent works on in a Git worktree. A server process owns
  the \<^emph>\<open>journal\<close> of a session (\<open>mission/journal.rs\<close>), an append-only file of hash-chained frames. The
  \<^emph>\<open>store\<close> (\<open>mission/store.rs\<close>) writes validated events into it, keeps their \<^emph>\<open>projection\<close> in memory
  together with a head file and a snapshot, and hands the writer over to another process. The
  \<^emph>\<open>runtime\<close> (\<open>mission/runtime.rs\<close>) puts the operations of a server on top: it starts and continues
  runs under exclusive \<^emph>\<open>claims\<close> on worktrees (\<open>claims.rs\<close>), lets the \<^emph>\<open>executor\<close> run declared checks
  between two trusted Git scans (\<open>executor.rs\<close>, \<open>verifier.rs\<close>), persists the \<^emph>\<open>evidence packs\<close>
  (\<open>evidence_pack.rs\<close>), and closes a mission when the \<^emph>\<open>evaluator\<close> (\<open>proof.rs\<close>) finds its evidence
  complete. Requests of agents gather in the \<^emph>\<open>attention inbox\<close> (\<open>attention.rs\<close>). The \<^emph>\<open>bridge\<close>
  (\<open>server/mission_bridge.rs\<close>) serves all this on a socket, and dangerous actions need a one-shot grant
  (\<open>server/consent.rs\<close>). A repository may declare a \<^emph>\<open>contract\<close> (\<open>project_recipe/\<close>) with commands, files
  to copy and services, which run on ports leased from a registry that all processes share
  (\<open>resources/\<close>). The panes of a tab are tiled by a tree of splits (\<open>layout.rs\<close>). Which agent runs in a
  pane is told from its processes, and what it does from its screen, by the rules of manifests that
  are updated from a catalog (\<open>detect/\<close>). Hooks of the agent may report the same directly, with its
  session and titles; the state of a terminal (\<open>terminal/state.rs\<close>) decides which observation counts.

  \<^bold>\<open>Theories and code.\<close> Definitions have the names of the code; where a name is taken, it carries a
  suffix or a short prefix of its component, and record fields always carry one.
  \<^item> \<open>Prelude\<close>, \<open>Rust_Std\<close>, \<open>Rust_Text\<close>, \<open>Rust_Str\<close>, \<open>Float32\<close>: the language and its standard library as far
    as the code uses them. Results are sums, \<open>BTreeMap\<close> and \<open>BTreeSet\<close> are sorted lists, strings are
    lists of UTF-8 bytes, integers are words of their width. The locales \<open>step_machine\<close> and
    \<open>monotone_machine\<close> hold the induction over runs that every component with a state reuses, \<open>ordered_map\<close>
    the laws of maps.
  \<^item> \<open>Digest\<close> (\<open>digest.rs\<close>), \<open>Proof_Identity\<close>, \<open>Evidence\<close>, \<open>Evidence_Record\<close> (\<open>evidence.rs\<close>), \<open>Proof_Eval\<close>
    (\<open>proof.rs\<close>), \<open>Mission_Status\<close>, \<open>Mission_Model\<close> (\<open>model.rs\<close>): what a proof is. The locale
    \<open>canonical_subject\<close> says that equal digests mean equal subjects unless SHA-256 collides on them.
    \<open>verified_iff_established\<close> relates the evaluator to an abstract promise of closure, and the lifecycle
    archives a mission only with two receipts, the second strictly fresher.
  \<^item> \<open>Run_State\<close> (\<open>run_state.rs\<close>): merging observations of a session into a snapshot.
  \<^item> \<open>Attention\<close>, \<open>Attention_Inv\<close>, \<open>Attention_Props\<close> (\<open>attention.rs\<close>): the inbox, its invariant over all
    operations, and that a decision reaches a provider at most once.
  \<^item> \<open>Claims\<close> (\<open>claims.rs\<close>): leases of several processes with their lock files; mutual exclusion.
  \<^item> \<open>Journal\<close>, \<open>Journal_Props\<close> (\<open>journal.rs\<close>): the bytes of the file, replay, repair of a torn tail.
  \<^item> \<open>Store_Events\<close>, \<open>Store_Projection\<close>, \<open>Store_Commit\<close>, \<open>Store_Open\<close> (\<open>store.rs\<close>): events, the arms of
    \<open>apply\<close>, commit, opening and handover. \<open>Store_Inv\<close> and \<open>Store_Props\<close> hold the invariant and the growth
    of the projection; \<open>Store_Recovery\<close>, \<open>Store_Crash\<close>, \<open>Store_Crash_Props\<close> show that a commit that is cut off
    anywhere leaves the state before it or after it.
  \<^item> \<open>Trusted_Git\<close>, \<open>Trusted_Git_Props\<close>, \<open>Trusted_Check\<close>, \<open>Trusted_Check_Props\<close> (\<open>verifier.rs\<close>): bounded Git
    commands, the consistent scan of a worktree, and the confined run of a check.
  \<^item> \<open>Evidence_Pack\<close>, \<open>Executor\<close>, \<open>Handoff\<close> (the files of these names): packs on disk, what stands behind
    an executed pack, and the redacted artifact for another provider.
  \<^item> \<open>Runtime\<close>, \<open>Runtime_Ops\<close> (\<open>runtime.rs\<close>): the operations of a server. \<open>Runtime_Frame\<close> states with the
    locales \<open>frame\<close> and \<open>request_frame\<close> what every request keeps; \<open>Runtime_Props\<close> and \<open>Runtime_Cluster\<close> give
    the promises of one server and of several that interleave, fail and hand over.
  \<^item> \<open>Mission_Bridge\<close>, \<open>Mission_Bridge_Props\<close> (\<open>server/mission_bridge.rs\<close>, \<open>api/schema/missions.rs\<close>) and
    \<open>Consent\<close> (\<open>server/consent.rs\<close>).
  \<^item> \<open>Layout\<close>, \<open>Layout_Props\<close> (\<open>layout.rs\<close>): every reachable tree is well formed, its panes tile the area
    exactly, and navigation finds a neighbour.
  \<^item> \<open>Project_Recipe\<close>, \<open>Project_Recipe_Props\<close>, \<open>Project_Copy\<close>, \<open>Project_Copy_Props\<close> (\<open>project_recipe/\<close>): which
    contracts are accepted, the parser of proof commands, and copying of declared files on a file
    system with links.
  \<^item> \<open>Ports\<close>, \<open>Ports_Props\<close>, \<open>Registry_Lock\<close> (\<open>resources/ports.rs\<close>), \<open>Services\<close>, \<open>Services_Props\<close>,
    \<open>Services_Run\<close>, \<open>Services_Sample\<close> (\<open>resources/services.rs\<close>), \<open>Cleanup\<close> (\<open>resources/cleanup.rs\<close>): leased
    ports, the lock of their registry step by step, the services that use them, and the removal of
    orphans.
  \<^item> \<open>Detect_Agent\<close>, \<open>Detect_Agent_Props\<close> (\<open>detect/mod.rs\<close>): the names of agents and the agent of a job.
    \<open>Detect_Manifest\<close> (validation and compilation), \<open>Detect_Region\<close> (the parts of a screen), \<open>Detect_Engine\<close>
    (loading and evaluation), \<open>Detect_Sample\<close>, \<open>Detect_Region_Props\<close>, \<open>Detect_Props\<close> (\<open>detect/manifest.rs\<close>):
    accepted manifests are bounded, the rule that wins is the first of the greatest priority, and no
    region panics without carriage returns. \<open>Detect_Update\<close>, \<open>Detect_Update_Props\<close>
    (\<open>detect/manifest_update.rs\<close>): the order of versions, and updates that never go back.
  \<^item> \<open>Metadata_Tokens\<close> (\<open>metadata_tokens.rs\<close>), \<open>Agent_Resume\<close> (\<open>agent_resume.rs\<close>), \<open>Terminal_State\<close>,
    \<open>Terminal_Hooks\<close>, \<open>Terminal_Metadata\<close> (\<open>terminal/state.rs\<close>, \<open>title.rs\<close>, \<open>metadata.rs\<close>): a terminal and
    every operation on it. An operation gets the time of its observation and the time at which it is
    processed; an instant is a number of nanoseconds, and hash maps are iterated in the order of their
    keys. \<open>Terminal_Props\<close> shows over all sequences of operations which state is shown,
    \<open>Terminal_Silence\<close> that reports of replaced sessions and of processes that have exited stay without
    effect, and which operations end that.

  \<^bold>\<open>Parameters.\<close> What the code gets from elsewhere is an argument of the definitions: SHA-256, the JSON,
  TOML and base64 encodings (hypotheses: what was encoded decodes to itself), regular expressions,
  the answers of the operating system to every call (files, locks, processes, sockets, clocks,
  resolved names and paths) and random nonces. No hypothesis restricts when these calls fail. A
  write may stop after any byte, and a crash may come after any call. Hash functions are never
  assumed to be injective; where it matters, a theorem assumes that the hash does not collide on the
  two inputs at hand.

  \<^bold>\<open>Loops and bounds.\<close> Recursion is structural or has a measure. The two loops that wait for a process
  (\<open>wait_loop\<close>, \<open>wait_loop_healthy\<close>) are partial functions whose result is \<open>None\<close> when they do not end;
  \<open>check_wait_ends\<close> shows that the first ends once its clock passes the timeout. Resolving links on the
  modelled file system stops after 40 links, as Linux does. A value of \<open>f32\<close> is a rational of binary32,
  an infinity or NaN, with arithmetic that rounds to nearest; the sign of zero and the payload of NaN
  are left out.

  \<^bold>\<open>Atomicity.\<close> The operations of the port registry are single steps because they hold its lock.
  \<open>Registry_Lock\<close> justifies this for orderly runs and shows by two runs what happens otherwise: a lock
  found stale can be removed after another process has taken it, and a process that dies before it
  has written its pid blocks the registry.

  \<^bold>\<open>Not modelled.\<close> Debug output, messages of errors, metrics and fault injection of tests; permission
  bits of new files; the Windows branches. Of the rest of \<open>src/src/\<close>: the drivers of the providers
  (\<open>managed_provider/\<close>), whose behaviour is that of foreign programs; the event loops, the terminal
  emulator and its bindings (\<open>app/\<close>, \<open>server/headless.rs\<close>, \<open>pane/\<close>, \<open>terminal/runtime.rs\<close>, \<open>pty/\<close>,
  \<open>ghostty/\<close>), which are concurrent code around operating system and foreign libraries; drawing and input (\<open>ui/\<close>,
  \<open>input/\<close>); schemas, command line and clients (\<open>api/\<close>, \<open>cli/\<close>, \<open>client/\<close>, \<open>remote/\<close>); configuration,
  updates, plugins and integrations.
\<close>

end
